(* ===== verification/BaaS_Prelude.thy ===== *)
theory BaaS_Prelude
  imports Main "HOL-Library.AList" "HOL-Library.List_Lexorder" "HOL-Library.Char_ord"
begin

text \<open>
  Shared material of the BaaS-Connector development: the type names the components use, the
  JavaScript \<open>Map\<close> with its insertion order, grouping into maps of lists, and the generic lemmas on
  lists and sums that carry the component proofs.  Strings and sorting are in \<open>Js_Strings\<close>.

  Strings are \<open>char list\<close>; a JavaScript string is represented when all its UTF-16 code units are
  below 256, which covers identifiers, digits and the ASCII payloads the code handles.
  A \<open>Date\<close> is its \<open>getTime()\<close>, an \<open>int\<close> of milliseconds; a \<open>bigint\<close> is an \<open>int\<close>.
\<close>

section \<open>Names\<close>

type_synonym ident = string
type_synonym instant = int
type_synonym cents = int

text \<open>\<open>type CurrencyCode = 'BRL'\<close>, shared by the money and the ledger packages.\<close>

datatype CurrencyCode = BRL

text \<open>Every row of the system belongs to one environment.\<close>

datatype Environment = HOMOLOGACAO | PRODUCAO

text \<open>Rewrite rules for the four counters of a ledger account, and for reading stores.\<close>

named_theorems counter_simps
named_theorems store_simps

section \<open>JavaScript maps\<close>

text \<open>
  A \<open>Map\<close> iterates in insertion order; \<open>set\<close> on a present key keeps its position, on an absent
  key appends; \<open>delete\<close> removes the entry.  An association list with distinct keys is exactly that.
\<close>

type_synonym ('k, 'v) jsmap = "('k \<times> 'v) list"

abbreviation map_get :: "('k, 'v) jsmap \<Rightarrow> 'k \<Rightarrow> 'v option" where
  "map_get m k \<equiv> map_of m k"

abbreviation map_set :: "'k \<Rightarrow> 'v \<Rightarrow> ('k, 'v) jsmap \<Rightarrow> ('k, 'v) jsmap" where
  "map_set k v m \<equiv> AList.update k v m"

abbreviation map_delete :: "'k \<Rightarrow> ('k, 'v) jsmap \<Rightarrow> ('k, 'v) jsmap" where
  "map_delete k m \<equiv> AList.delete k m"

definition map_has :: "('k, 'v) jsmap \<Rightarrow> 'k \<Rightarrow> bool" where
  "map_has m k = (map_of m k \<noteq> None)"

definition map_keys :: "('k, 'v) jsmap \<Rightarrow> 'k list" where
  "map_keys m = map fst m"

definition map_values :: "('k, 'v) jsmap \<Rightarrow> 'v list" where
  "map_values m = map snd m"

definition wf_map :: "('k, 'v) jsmap \<Rightarrow> bool" where
  "wf_map m = distinct (map fst m)"

text \<open>The contract of a keyed container, and what its clients derive from it once.\<close>

locale keyed_map =
  fixes get :: "'m \<Rightarrow> 'k \<Rightarrow> 'v option"
    and put :: "'k \<Rightarrow> 'v \<Rightarrow> 'm \<Rightarrow> 'm"
    and del :: "'k \<Rightarrow> 'm \<Rightarrow> 'm"
    and invar :: "'m \<Rightarrow> bool"
  assumes get_put: "invar m \<Longrightarrow> get (put k v m) k' = (if k' = k then Some v else get m k')"
    and get_del: "invar m \<Longrightarrow> get (del k m) k' = (if k' = k then None else get m k')"
    and invar_put: "invar m \<Longrightarrow> invar (put k v m)"
    and invar_del: "invar m \<Longrightarrow> invar (del k m)"
begin

definition put_all :: "('a \<Rightarrow> 'k) \<Rightarrow> ('a \<Rightarrow> 'v) \<Rightarrow> 'a list \<Rightarrow> 'm \<Rightarrow> 'm" where
  "put_all key val xs m = foldl (\<lambda>acc x. put (key x) (val x) acc) m xs"

lemma invar_put_all: "invar m \<Longrightarrow> invar (put_all key val xs m)"
  unfolding put_all_def by (induction xs arbitrary: m) (auto intro: invar_put)

lemma get_put_all_notin:
  "invar m \<Longrightarrow> k \<notin> key ` set xs \<Longrightarrow> get (put_all key val xs m) k = get m k"
  unfolding put_all_def by (induction xs arbitrary: m) (auto simp: get_put invar_put)

lemma get_put_all_in:
  "invar m \<Longrightarrow> distinct (map key xs) \<Longrightarrow> x \<in> set xs \<Longrightarrow> get (put_all key val xs m) (key x) = Some (val x)"
proof (induction xs arbitrary: m)
  case Nil
  then show ?case by simp
next
  case (Cons y ys)
  have step: "put_all key val (y # ys) m = put_all key val ys (put (key y) (val y) m)"
    by (simp add: put_all_def)
  show ?case
  proof (cases "x \<in> set ys")
    case True
    with Cons show ?thesis by (simp add: step invar_put)
  next
    case False
    with Cons.prems have "x = y" "key y \<notin> key ` set ys" by auto
    with Cons.prems(1) show ?thesis by (simp add: step get_put_all_notin invar_put get_put)
  qed
qed

end

interpretation alist: keyed_map map_get map_set map_delete wf_map
  by unfold_locales
    (auto simp: wf_map_def update_conv' delete_conv' distinct_update distinct_delete)

lemma map_set_fresh: "map_of m k = None \<Longrightarrow> map_set k v m = m @ [(k, v)]"
  by (induction m) (auto split: if_splits)

lemma map_set_keys_present: "map_of m k \<noteq> None \<Longrightarrow> map fst (map_set k v m) = map fst m"
  by (induction m) (auto split: if_splits)

lemma map_of_eq_None_fst: "map_of m k = None \<longleftrightarrow> k \<notin> fst ` set m"
  by (rule map_of_eq_None_iff)

lemma wf_map_get_iff: "wf_map m \<Longrightarrow> map_of m k = Some v \<longleftrightarrow> (k, v) \<in> set m"
  by (auto simp: wf_map_def)

lemma map_values_Nil [simp]: "map_values [] = []"
  by (simp add: map_values_def)

lemma wf_map_Nil [simp]: "wf_map []"
  by (simp add: wf_map_def)

lemma map_has_iff: "map_has m k \<longleftrightarrow> k \<in> fst ` set m"
  by (simp add: map_has_def map_of_eq_None_fst)

section \<open>Grouping into a map of lists\<close>

text \<open>
  The idiom \<open>const list = m.get(key) ?? []; list.push(x); m.set(key, list)\<close>, repeated over a list.
\<close>

definition or_else :: "'a option \<Rightarrow> 'a \<Rightarrow> 'a" where
  "or_else x d = (case x of None \<Rightarrow> d | Some y \<Rightarrow> y)"

lemma or_else_simps [simp]: "or_else None d = d" "or_else (Some y) d = y"
  by (simp_all add: or_else_def)

fun group_into :: "('a \<Rightarrow> 'k) \<Rightarrow> 'a list \<Rightarrow> ('k, 'a list) jsmap \<Rightarrow> ('k, 'a list) jsmap" where
  "group_into key [] m = m"
| "group_into key (x # xs) m =
     group_into key xs (map_set (key x) (or_else (map_get m (key x)) [] @ [x]) m)"

lemma group_into_get:
  "map_get (group_into key xs m) k =
     (if filter (\<lambda>x. key x = k) xs = [] then map_get m k
      else Some (or_else (map_get m k) [] @ filter (\<lambda>x. key x = k) xs))"
  by (induction xs arbitrary: m) (auto simp: update_conv' filter_empty_conv)

lemma group_into_wf: "wf_map m \<Longrightarrow> wf_map (group_into key xs m)"
  by (induction xs arbitrary: m) (auto simp: alist.invar_put)

text \<open>Every element is in exactly the group of its key, in order.\<close>

lemma group_into_mem:
  assumes "(k, g) \<in> set (group_into key xs [])"
  shows "g = filter (\<lambda>x. key x = k) xs" "g \<noteq> []"
proof -
  have "map_get (group_into key xs []) k = Some g"
    using assms group_into_wf [of "[]" key xs] by (simp add: wf_map_get_iff)
  then show "g = filter (\<lambda>x. key x = k) xs" "g \<noteq> []"
    by (auto simp: group_into_get split: if_splits)
qed

section \<open>Absent and falsy values\<close>

text \<open>An identifier read in a boolean position: \<open>undefined\<close> and the empty string are falsy.\<close>

fun truthy :: "string option \<Rightarrow> string option" where
  "truthy None = None"
| "truthy (Some x) = (if x = [] then None else Some x)"

lemma truthy_Some [simp]: "truthy x = Some y \<longleftrightarrow> x = Some y \<and> y \<noteq> []"
  by (cases x) auto

text \<open>\<open>input.x ?? row.x\<close> on optional fields.\<close>

definition coalesce :: "'a option \<Rightarrow> 'a option \<Rightarrow> 'a option" where
  "coalesce a b = (case a of None \<Rightarrow> b | Some x \<Rightarrow> Some x)"

section \<open>Sums over lists\<close>

lemma concat_map_Nil: "concat (map f xs) = [] \<longleftrightarrow> (\<forall>x\<in>set xs. f x = [])"
  by (induction xs) auto

lemma sum_list_if_split:
  fixes f :: "'a \<Rightarrow> int"
  shows "sum_list (map f xs) =
     sum_list (map (\<lambda>x. if P x then f x else 0) xs) + sum_list (map (\<lambda>x. if P x then 0 else f x) xs)"
  by (induction xs) auto

lemma sum_list_filter_if:
  fixes f :: "'a \<Rightarrow> int"
  shows "sum_list (map f (filter P xs)) = sum_list (map (\<lambda>x. if P x then f x else 0) xs)"
  by (induction xs) auto

end
