(* ===== verification/Ledger_Types.thy ===== *)
theory Ledger_Types
  imports BaaS_Prelude
begin

text \<open>
  The data model of \<open>src/packages/ledger/src\<close>: the enumerations, records and error classes of
  \<open>types.ts\<close> and \<open>errors.ts\<close>, the chart of accounts of \<open>chart-of-accounts.ts\<close>, and the balance
  formulas of \<open>balances.ts\<close>, with the arithmetic of the overdraft guard.
  Constructors keep the TypeScript spelling \<open>Enum.MEMBER\<close>.  Free-form \<open>metadata\<close> is carried by the
  code and never inspected; it is a list of string pairs here.
\<close>

section \<open>types.ts\<close>

datatype LedgerAccountType = ASSET | LIABILITY | EQUITY | REVENUE | EXPENSE

datatype NormalBalance = DEBIT | CREDIT

datatype LedgerOwnerType = BANK | CUSTOMER | CLEARING | INTERNAL | EXTERNAL

datatype LedgerAccountStatus = OPEN | FROZEN | CLOSED

datatype EntryDirection = DEBIT | CREDIT

datatype EntryPhase = PENDING | POSTED | VOID

datatype LedgerTransactionStatus = PENDING | POSTED | VOIDED

datatype LedgerTransactionType =
    PIX_OUT_AUTHORIZE | PIX_OUT_SETTLE | PIX_OUT_VOID | PIX_IN_RECEIVE | PIX_REFUND_OUT
  | PIX_REFUND_IN | FEE_CHARGE | FEE_REVERSAL | BLOCK_FUNDS | UNBLOCK_FUNDS
  | ACCOUNT_OPENING_FUNDING | MANUAL_ADJUSTMENT | SUSPENSE_RESOLUTION | RECONCILIATION_ADJUSTMENT

fun NORMAL_BALANCE_BY_TYPE :: "LedgerAccountType \<Rightarrow> NormalBalance" where
  "NORMAL_BALANCE_BY_TYPE ASSET = NormalBalance.DEBIT"
| "NORMAL_BALANCE_BY_TYPE EXPENSE = NormalBalance.DEBIT"
| "NORMAL_BALANCE_BY_TYPE LIABILITY = NormalBalance.CREDIT"
| "NORMAL_BALANCE_BY_TYPE EQUITY = NormalBalance.CREDIT"
| "NORMAL_BALANCE_BY_TYPE REVENUE = NormalBalance.CREDIT"

record LedgerAccount =
  la_id :: ident
  la_code :: string
  la_name :: string
  la_type :: LedgerAccountType
  normalBalance :: NormalBalance
  la_currency :: CurrencyCode
  ownerType :: LedgerOwnerType
  ownerId :: "ident option"
  la_status :: LedgerAccountStatus
  allowsNegative :: bool
  debitsPosted :: int
  creditsPosted :: int
  debitsPending :: int
  creditsPending :: int
  entryCount :: int
  version :: int

record LedgerEntryInput =
  accountId :: ident
  direction :: EntryDirection
  amountCents :: cents

text \<open>\<open>LedgerEntry extends LedgerEntryInput\<close>, as a record extension.\<close>

record LedgerEntry = LedgerEntryInput +
  en_id :: ident
  transactionId :: ident
  phase :: EntryPhase
  en_currency :: CurrencyCode
  sequence :: nat
  resultingPostedCents :: cents
  en_effectiveAt :: instant

type_synonym metadata = "(string \<times> string) list"

record LedgerTransaction =
  tx_id :: ident
  tx_type :: LedgerTransactionType
  tx_status :: LedgerTransactionStatus
  tx_currency :: CurrencyCode
  tx_amountCents :: cents
  tx_idempotencyKey :: string
  tx_externalRef :: "string option"
  tx_description :: "string option"
  pendingTransactionId :: "ident option"
  tx_effectiveAt :: instant
  postedAt :: "instant option"
  voidedAt :: "instant option"
  tx_metadata :: metadata

text \<open>The phase of a new posting is restricted by its type to \<open>PENDING | POSTED\<close>.\<close>

datatype PostPhase = PENDING | POSTED

fun entry_phase :: "PostPhase \<Rightarrow> EntryPhase" where
  "entry_phase PostPhase.PENDING = EntryPhase.PENDING"
| "entry_phase PostPhase.POSTED = EntryPhase.POSTED"

record PostTransactionInput =
  in_id :: "ident option"
  in_type :: LedgerTransactionType
  in_phase :: PostPhase
  in_idempotencyKey :: string
  in_entries :: "LedgerEntryInput list"
  in_currency :: "CurrencyCode option"
  in_externalRef :: "string option"
  in_description :: "string option"
  in_effectiveAt :: "instant option"
  in_metadata :: "metadata option"

record PostTransactionResult =
  res_transaction :: LedgerTransaction
  res_entries :: "LedgerEntry list"
  replayed :: bool

record Balances =
  bal_posted :: int
  bal_available :: int
  bal_pending :: int

section \<open>errors.ts\<close>

text \<open>One constructor per message a \<open>LedgerValidationError\<close> is thrown with.\<close>

datatype LedgerValidation =
    TooFewEntries
  | NonPositiveAmount cents
  | AccountDoesNotExist ident
  | PendingNotFound ident
  | NotPending ident LedgerTransactionStatus
  | AccountNotLocked ident

datatype LedgerError =
    LedgerUnbalancedError cents cents
  | InsufficientFundsError ident cents cents
  | LedgerValidationError LedgerValidation

section \<open>balances.ts\<close>

definition computeBalances :: "LedgerAccount \<Rightarrow> Balances" where
  "computeBalances account =
     (if normalBalance account = NormalBalance.CREDIT then
        (let p = creditsPosted account - debitsPosted account
         in \<lparr>bal_posted = p, bal_available = p - debitsPending account,
             bal_pending = creditsPending account\<rparr>)
      else
        (let p = debitsPosted account - creditsPosted account
         in \<lparr>bal_posted = p, bal_available = p - creditsPending account,
             bal_pending = debitsPending account\<rparr>))"

definition violatesOverdraftGuard :: "LedgerAccount \<Rightarrow> bool" where
  "violatesOverdraftGuard account =
     (if allowsNegative account then False else bal_available (computeBalances account) < 0)"

section \<open>chart-of-accounts.ts\<close>

definition BACEN_RESERVE :: string where "BACEN_RESERVE = ''1000''"
definition SPI_IN_TRANSIT :: string where "SPI_IN_TRANSIT = ''1100''"
definition SUSPENSE_CREDITS :: string where "SUSPENSE_CREDITS = ''1900''"
definition CUSTOMER_AVAILABLE :: string where "CUSTOMER_AVAILABLE = ''2000''"
definition CUSTOMER_BLOCKED :: string where "CUSTOMER_BLOCKED = ''2100''"
definition PIX_OUT_CLEARING :: string where "PIX_OUT_CLEARING = ''2200''"
definition RETURNS_PAYABLE :: string where "RETURNS_PAYABLE = ''2300''"
definition SUSPENSE_DEBITS :: string where "SUSPENSE_DEBITS = ''2900''"
definition RETAINED_EARNINGS :: string where "RETAINED_EARNINGS = ''3000''"
definition FEE_REVENUE :: string where "FEE_REVENUE = ''4000''"
definition OPERATING_EXPENSE :: string where "OPERATING_EXPENSE = ''5000''"
definition EXTERNAL_WORLD :: string where "EXTERNAL_WORLD = ''9000''"

lemmas LEDGER_CODES =
  BACEN_RESERVE_def SPI_IN_TRANSIT_def SUSPENSE_CREDITS_def CUSTOMER_AVAILABLE_def
  CUSTOMER_BLOCKED_def PIX_OUT_CLEARING_def RETURNS_PAYABLE_def SUSPENSE_DEBITS_def
  RETAINED_EARNINGS_def FEE_REVENUE_def OPERATING_EXPENSE_def EXTERNAL_WORLD_def

record AccountTemplate =
  at_code :: string
  at_name :: string
  at_type :: LedgerAccountType
  at_ownerType :: LedgerOwnerType
  at_allowsNegative :: bool
  at_ownerId :: "ident option"

definition template ::
  "string \<Rightarrow> string \<Rightarrow> LedgerAccountType \<Rightarrow> LedgerOwnerType \<Rightarrow> bool \<Rightarrow> AccountTemplate" where
  "template c n t owner neg =
     \<lparr>at_code = c, at_name = n, at_type = t, at_ownerType = owner, at_allowsNegative = neg,
      at_ownerId = None\<rparr>"

definition SINGLETON_ACCOUNTS :: "AccountTemplate list" where
  "SINGLETON_ACCOUNTS =
    [template BACEN_RESERVE ''Reserva no Banco Central'' ASSET BANK False,
     template SPI_IN_TRANSIT ''Liquidacao SPI em transito'' ASSET CLEARING False,
     template SUSPENSE_CREDITS ''Suspense: creditos nao identificados'' ASSET INTERNAL False,
     template PIX_OUT_CLEARING ''Clearing de PIX out'' LIABILITY CLEARING False,
     template RETURNS_PAYABLE ''Devolucoes a pagar'' LIABILITY CLEARING False,
     template SUSPENSE_DEBITS ''Suspense: debitos nao identificados'' LIABILITY INTERNAL False,
     template RETAINED_EARNINGS ''Lucros acumulados'' EQUITY BANK False,
     template FEE_REVENUE ''Receita de tarifas'' REVENUE BANK False,
     template OPERATING_EXPENSE ''Despesa operacional'' EXPENSE BANK False,
     template EXTERNAL_WORLD ''Mundo externo (contraparte SPI)'' ASSET EXTERNAL True]"

definition customerAvailableCode :: "ident \<Rightarrow> string" where
  "customerAvailableCode a = CUSTOMER_AVAILABLE @ ''.'' @ a"

definition customerBlockedCode :: "ident \<Rightarrow> string" where
  "customerBlockedCode a = CUSTOMER_BLOCKED @ ''.'' @ a"

definition customerAccountTemplates :: "ident \<Rightarrow> AccountTemplate list" where
  "customerAccountTemplates a =
    [template (customerAvailableCode a) (''Subconta do cliente '' @ a) LIABILITY CUSTOMER False,
     template (customerBlockedCode a) (''Fundos bloqueados do cliente '' @ a) LIABILITY CUSTOMER False]"

definition normalBalanceFor :: "LedgerAccountType \<Rightarrow> NormalBalance" where
  "normalBalanceFor t = NORMAL_BALANCE_BY_TYPE t"

section \<open>Lemmas on balances and on the chart\<close>

lemma computeBalances_fields [counter_simps]:
  "bal_posted (computeBalances a) =
     (if normalBalance a = NormalBalance.CREDIT then creditsPosted a - debitsPosted a
      else debitsPosted a - creditsPosted a)"
  "bal_available (computeBalances a) =
     (if normalBalance a = NormalBalance.CREDIT then creditsPosted a - debitsPosted a - debitsPending a
      else debitsPosted a - creditsPosted a - creditsPending a)"
  "bal_pending (computeBalances a) =
     (if normalBalance a = NormalBalance.CREDIT then creditsPending a else debitsPending a)"
  by (simp_all add: computeBalances_def Let_def)

lemma available_le_posted:
  assumes "0 \<le> debitsPending a" "0 \<le> creditsPending a"
  shows "bal_available (computeBalances a) \<le> bal_posted (computeBalances a)"
  using assms by (simp add: counter_simps)

lemma overdraft_guard_iff:
  "\<not> violatesOverdraftGuard a \<longleftrightarrow> allowsNegative a \<or> 0 \<le> bal_available (computeBalances a)"
  by (auto simp: violatesOverdraftGuard_def)

lemma normalBalance_cases [case_names credit debit]:
  obtains "normalBalance a = NormalBalance.CREDIT" | "normalBalance a = NormalBalance.DEBIT"
  by (cases "normalBalance a") auto

lemma singleton_codes_distinct: "distinct (map at_code SINGLETON_ACCOUNTS)"
  by (simp add: SINGLETON_ACCOUNTS_def template_def LEDGER_CODES)

lemma only_external_world_allows_negative:
  "t \<in> set SINGLETON_ACCOUNTS \<Longrightarrow> at_allowsNegative t \<longleftrightarrow> at_code t = EXTERNAL_WORLD"
  by (auto simp: SINGLETON_ACCOUNTS_def template_def LEDGER_CODES)

lemma customer_codes_injective:
  "customerAvailableCode a = customerAvailableCode b \<longleftrightarrow> a = b"
  "customerBlockedCode a = customerBlockedCode b \<longleftrightarrow> a = b"
  "customerAvailableCode a \<noteq> customerBlockedCode b"
  by (auto simp: customerAvailableCode_def customerBlockedCode_def LEDGER_CODES)

lemma customer_codes_not_singleton:
  "t \<in> set SINGLETON_ACCOUNTS \<Longrightarrow> at_code t \<noteq> customerAvailableCode a \<and> at_code t \<noteq> customerBlockedCode a"
  by (auto simp: SINGLETON_ACCOUNTS_def template_def customerAvailableCode_def
      customerBlockedCode_def LEDGER_CODES)

end
