(* ===== verification/Ledger_Engine.thy ===== *)
theory Ledger_Engine
  imports Ledger_Types
begin

text \<open>
  The double-entry engine of \<open>src/packages/ledger/src/engine.ts\<close>, written against the interface
  \<open>LedgerStore\<close> exactly as the class is.

  Asynchronous methods are sequential state passing: \<open>runExclusive\<close> serialises every operation on
  the store.  A method that throws returns \<open>Inl\<close> and no store, which is what the code does: the
  engine mutates copies of the locked accounts and calls \<open>persist\<close> only at the end.
  \<open>newId\<close> draws from a third-party ULID generator; each operation takes the identifiers it
  draws as arguments (one for the transaction, one per entry index), and \<open>clock.now()\<close> as \<open>now\<close>.

  The locale \<open>ledger_store\<close> is the contract the engine relies on; the lemmas about the engine that
  hold for any store are proved inside it.  \<open>Ledger_Memory\<close> interprets it on the in-memory store.
\<close>

section \<open>Entry validation and locking order\<close>

fun assertBalanced_loop ::
  "cents \<Rightarrow> cents \<Rightarrow> LedgerEntryInput list \<Rightarrow> LedgerError + (cents \<times> cents)" where
  "assertBalanced_loop debits credits [] = Inr (debits, credits)"
| "assertBalanced_loop debits credits (e # es) =
     (if amountCents e \<le> 0 then Inl (LedgerValidationError (NonPositiveAmount (amountCents e)))
      else if direction e = EntryDirection.DEBIT
        then assertBalanced_loop (debits + amountCents e) credits es
        else assertBalanced_loop debits (credits + amountCents e) es)"

definition assertBalanced :: "LedgerEntryInput list \<Rightarrow> LedgerError + (cents \<times> cents)" where
  "assertBalanced entries =
     (if length entries < 2 then Inl (LedgerValidationError TooFewEntries)
      else case assertBalanced_loop 0 0 entries of
          Inl err \<Rightarrow> Inl err
        | Inr (debits, credits) \<Rightarrow>
            if debits \<noteq> credits then Inl (LedgerUnbalancedError debits credits)
            else Inr (debits, credits))"

text \<open>\<open>[...new Set(ids)].sort()\<close>: first occurrences, then code-unit order.\<close>

definition lockOrder :: "LedgerEntryInput list \<Rightarrow> ident list" where
  "lockOrder entries = sort (rev (remdups (rev (map accountId entries))))"

section \<open>Counter deltas\<close>

record CounterDelta =
  d_debitsPosted :: int
  d_creditsPosted :: int
  d_debitsPending :: int
  d_creditsPending :: int

definition ZERO_DELTA :: CounterDelta where
  "ZERO_DELTA = \<lparr>d_debitsPosted = 0, d_creditsPosted = 0, d_debitsPending = 0, d_creditsPending = 0\<rparr>"

definition applyDelta :: "LedgerAccount \<Rightarrow> CounterDelta \<Rightarrow> LedgerAccount" where
  "applyDelta account delta = account\<lparr>
     debitsPosted := debitsPosted account + d_debitsPosted delta,
     creditsPosted := creditsPosted account + d_creditsPosted delta,
     debitsPending := debitsPending account + d_debitsPending delta,
     creditsPending := creditsPending account + d_creditsPending delta,
     entryCount := entryCount account + 1,
     version := version account + 1\<rparr>"

definition deltaFor :: "EntryPhase \<Rightarrow> LedgerEntryInput \<Rightarrow> CounterDelta" where
  "deltaFor ph entry =
     (let isDebit = (direction entry = EntryDirection.DEBIT) in
      if ph = EntryPhase.PENDING then
        (if isDebit then ZERO_DELTA\<lparr>d_debitsPending := amountCents entry\<rparr>
         else ZERO_DELTA\<lparr>d_creditsPending := amountCents entry\<rparr>)
      else
        (if isDebit then ZERO_DELTA\<lparr>d_debitsPosted := amountCents entry\<rparr>
         else ZERO_DELTA\<lparr>d_creditsPosted := amountCents entry\<rparr>))"

definition resolveDelta :: "bool \<Rightarrow> LedgerEntryInput \<Rightarrow> CounterDelta" where
  "resolveDelta commit entry =
     (let isDebit = (direction entry = EntryDirection.DEBIT);
          release = (if isDebit then ZERO_DELTA\<lparr>d_debitsPending := - amountCents entry\<rparr>
                     else ZERO_DELTA\<lparr>d_creditsPending := - amountCents entry\<rparr>)
      in if \<not> commit then release
         else if isDebit then release\<lparr>d_debitsPosted := amountCents entry\<rparr>
         else release\<lparr>d_creditsPosted := amountCents entry\<rparr>)"

section \<open>The store interface\<close>

type_synonym account_map = "(ident, LedgerAccount) jsmap"

record 's LedgerStore =
  lockAccounts :: "'s \<Rightarrow> ident list \<Rightarrow> account_map"
  findByIdempotencyKey :: "'s \<Rightarrow> string \<Rightarrow> PostTransactionResult option"
  findTransaction :: "'s \<Rightarrow> ident \<Rightarrow> LedgerTransaction option"
  findEntriesByTransaction :: "'s \<Rightarrow> ident \<Rightarrow> LedgerEntry list"
  persist :: "'s \<Rightarrow> LedgerTransaction \<Rightarrow> LedgerEntry list \<Rightarrow> LedgerAccount list \<Rightarrow> 's"

section \<open>LedgerEngine\<close>

fun assertAccountsExist :: "LedgerEntryInput list \<Rightarrow> account_map \<Rightarrow> LedgerError + unit" where
  "assertAccountsExist [] accounts = Inr ()"
| "assertAccountsExist (e # es) accounts =
     (if \<not> map_has accounts (accountId e)
      then Inl (LedgerValidationError (AccountDoesNotExist (accountId e)))
      else assertAccountsExist es accounts)"

text \<open>
  \<open>buildEntries\<close> walks the inputs with their index, updating the locked accounts; the first
  account that would go below zero stops it.
\<close>

fun buildEntries ::
  "(nat \<Rightarrow> ident) \<Rightarrow> LedgerTransaction \<Rightarrow> EntryPhase \<Rightarrow> (LedgerEntryInput \<Rightarrow> CounterDelta) \<Rightarrow>
   nat \<Rightarrow> LedgerEntryInput list \<Rightarrow> account_map \<Rightarrow> LedgerError + (LedgerEntry list \<times> account_map)" where
  "buildEntries entryId tx ph delta index [] accounts = Inr ([], accounts)"
| "buildEntries entryId tx ph delta index (input # inputs) accounts =
     (case map_get accounts (accountId input) of
        None \<Rightarrow> Inl (LedgerValidationError (AccountNotLocked (accountId input)))
      | Some before \<Rightarrow>
          (let after = applyDelta before (delta input) in
           if violatesOverdraftGuard after
           then Inl (InsufficientFundsError (accountId input) (amountCents input)
                  (bal_available (computeBalances before)))
           else
             (let entry = \<lparr>accountId = accountId input, direction = direction input,
                     amountCents = amountCents input, en_id = entryId index,
                     transactionId = tx_id tx, phase = ph, en_currency = tx_currency tx,
                     sequence = index, resultingPostedCents = bal_posted (computeBalances after),
                     en_effectiveAt = tx_effectiveAt tx\<rparr>
              in case buildEntries entryId tx ph delta (Suc index) inputs
                        (map_set (accountId input) after accounts) of
                   Inl err \<Rightarrow> Inl err
                 | Inr (entries, accounts') \<Rightarrow> Inr (entry # entries, accounts'))))"

definition post_transaction ::
  "CurrencyCode \<Rightarrow> instant \<Rightarrow> ident \<Rightarrow> cents \<Rightarrow> PostTransactionInput \<Rightarrow> LedgerTransaction" where
  "post_transaction engineCurrency now newTxId debits input =
     (let effectiveAt = (case in_effectiveAt input of None \<Rightarrow> now | Some t \<Rightarrow> t) in
      \<lparr>tx_id = (case in_id input of None \<Rightarrow> newTxId | Some i \<Rightarrow> i),
       tx_type = in_type input,
       tx_status = (if in_phase input = PostPhase.PENDING then LedgerTransactionStatus.PENDING
                    else LedgerTransactionStatus.POSTED),
       tx_currency = (case in_currency input of None \<Rightarrow> engineCurrency | Some c \<Rightarrow> c),
       tx_amountCents = debits,
       tx_idempotencyKey = in_idempotencyKey input,
       tx_externalRef = in_externalRef input,
       tx_description = in_description input,
       pendingTransactionId = None,
       tx_effectiveAt = effectiveAt,
       postedAt = (if in_phase input = PostPhase.POSTED then Some effectiveAt else None),
       voidedAt = None,
       tx_metadata = (case in_metadata input of None \<Rightarrow> [] | Some m \<Rightarrow> m)\<rparr>)"

definition post ::
  "'s LedgerStore \<Rightarrow> CurrencyCode \<Rightarrow> instant \<Rightarrow> ident \<Rightarrow> (nat \<Rightarrow> ident) \<Rightarrow> PostTransactionInput \<Rightarrow> 's
     \<Rightarrow> LedgerError + (PostTransactionResult \<times> 's)" where
  "post store engineCurrency now newTxId entryId input s =
     (case findByIdempotencyKey store s (in_idempotencyKey input) of
        Some existing \<Rightarrow> Inr (existing\<lparr>replayed := True\<rparr>, s)
      | None \<Rightarrow>
        (case assertBalanced (in_entries input) of
           Inl err \<Rightarrow> Inl err
         | Inr (debits, credits) \<Rightarrow>
           (let accounts = lockAccounts store s (lockOrder (in_entries input)) in
            case assertAccountsExist (in_entries input) accounts of
              Inl err \<Rightarrow> Inl err
            | Inr _ \<Rightarrow>
              (let tx = post_transaction engineCurrency now newTxId debits input in
               case buildEntries entryId tx (entry_phase (in_phase input))
                      (deltaFor (entry_phase (in_phase input))) 0 (in_entries input) accounts of
                 Inl err \<Rightarrow> Inl err
               | Inr (entries, accounts') \<Rightarrow>
                   Inr (\<lparr>res_transaction = tx, res_entries = entries, replayed = False\<rparr>,
                        persist store s tx entries (map_values accounts'))))))"

definition entry_input :: "LedgerEntry \<Rightarrow> LedgerEntryInput" where
  "entry_input e = \<lparr>accountId = accountId e, direction = direction e, amountCents = amountCents e\<rparr>"

definition resolve_transaction ::
  "bool \<Rightarrow> instant \<Rightarrow> ident \<Rightarrow> string \<Rightarrow> LedgerTransactionType option \<Rightarrow> ident \<Rightarrow>
   LedgerTransaction \<Rightarrow> LedgerTransaction" where
  "resolve_transaction commit now newTxId key ty pendingId pending =
     \<lparr>tx_id = newTxId,
      tx_type = (case ty of None \<Rightarrow> tx_type pending | Some t \<Rightarrow> t),
      tx_status = (if commit then LedgerTransactionStatus.POSTED else LedgerTransactionStatus.VOIDED),
      tx_currency = tx_currency pending,
      tx_amountCents = tx_amountCents pending,
      tx_idempotencyKey = key,
      tx_externalRef = tx_externalRef pending,
      tx_description = tx_description pending,
      pendingTransactionId = Some pendingId,
      tx_effectiveAt = now,
      postedAt = (if commit then Some now else None),
      voidedAt = (if commit then None else Some now),
      tx_metadata = tx_metadata pending\<rparr>"

definition resolved_pending :: "bool \<Rightarrow> instant \<Rightarrow> LedgerTransaction \<Rightarrow> LedgerTransaction" where
  "resolved_pending commit now pending = pending\<lparr>
      tx_status := (if commit then LedgerTransactionStatus.POSTED else LedgerTransactionStatus.VOIDED),
      postedAt := (if commit then Some now else postedAt pending),
      voidedAt := (if commit then voidedAt pending else Some now)\<rparr>"

definition resolvePending ::
  "'s LedgerStore \<Rightarrow> instant \<Rightarrow> ident \<Rightarrow> (nat \<Rightarrow> ident) \<Rightarrow> ident \<Rightarrow> string \<Rightarrow>
   LedgerTransactionType option \<Rightarrow> bool \<Rightarrow> 's \<Rightarrow> LedgerError + (PostTransactionResult \<times> 's)" where
  "resolvePending store now newTxId entryId pendingId key ty commit s =
     (case findByIdempotencyKey store s key of
        Some existing \<Rightarrow> Inr (existing\<lparr>replayed := True\<rparr>, s)
      | None \<Rightarrow>
        (case findTransaction store s pendingId of
           None \<Rightarrow> Inl (LedgerValidationError (PendingNotFound pendingId))
         | Some pending \<Rightarrow>
           if tx_status pending \<noteq> LedgerTransactionStatus.PENDING
           then Inl (LedgerValidationError (NotPending pendingId (tx_status pending)))
           else
             (let inputs = map entry_input (findEntriesByTransaction store s pendingId);
                  accounts = lockAccounts store s (lockOrder inputs);
                  tx = resolve_transaction commit now newTxId key ty pendingId pending
              in case buildEntries entryId tx (if commit then EntryPhase.POSTED else EntryPhase.VOID)
                        (resolveDelta commit) 0 inputs accounts of
                   Inl err \<Rightarrow> Inl err
                 | Inr (entries, accounts') \<Rightarrow>
                     Inr (\<lparr>res_transaction = tx, res_entries = entries, replayed = False\<rparr>,
                          persist store (persist store s tx entries (map_values accounts'))
                            (resolved_pending commit now pending) [] []))))"

definition commitPending ::
  "'s LedgerStore \<Rightarrow> instant \<Rightarrow> ident \<Rightarrow> (nat \<Rightarrow> ident) \<Rightarrow> ident \<Rightarrow> string \<Rightarrow>
   LedgerTransactionType option \<Rightarrow> 's \<Rightarrow> LedgerError + (PostTransactionResult \<times> 's)" where
  "commitPending store now newTxId entryId pendingId key ty s =
     resolvePending store now newTxId entryId pendingId key ty True s"

definition voidPending ::
  "'s LedgerStore \<Rightarrow> instant \<Rightarrow> ident \<Rightarrow> (nat \<Rightarrow> ident) \<Rightarrow> ident \<Rightarrow> string \<Rightarrow>
   LedgerTransactionType option \<Rightarrow> 's \<Rightarrow> LedgerError + (PostTransactionResult \<times> 's)" where
  "voidPending store now newTxId entryId pendingId key ty s =
     resolvePending store now newTxId entryId pendingId key ty False s"

section \<open>What \<open>assertBalanced\<close> guarantees\<close>

definition side_sum :: "EntryDirection \<Rightarrow> 'a LedgerEntryInput_scheme list \<Rightarrow> cents" where
  "side_sum d es = sum_list (map amountCents (filter (\<lambda>e. direction e = d) es))"

lemma side_sum_simps [simp]:
  "side_sum d [] = 0"
  "side_sum d (e # es) = (if direction e = d then amountCents e else 0) + side_sum d es"
  "side_sum d (es @ fs) = side_sum d es + side_sum d fs"
  by (auto simp: side_sum_def)

lemma direction_not_debit: "direction e \<noteq> EntryDirection.DEBIT \<longleftrightarrow> direction e = EntryDirection.CREDIT"
  by (cases "direction e") auto

lemma assertBalanced_loop_Inr:
  "assertBalanced_loop d c es = Inr (d', c') \<longleftrightarrow>
     (\<forall>e\<in>set es. 0 < amountCents e) \<and>
     d' = d + side_sum EntryDirection.DEBIT es \<and> c' = c + side_sum EntryDirection.CREDIT es"
  by (induction es arbitrary: d c) (auto simp: direction_not_debit)

lemma assertBalanced_Inr:
  "assertBalanced es = Inr (d, c) \<longleftrightarrow>
     2 \<le> length es \<and> (\<forall>e\<in>set es. 0 < amountCents e) \<and>
     side_sum EntryDirection.DEBIT es = side_sum EntryDirection.CREDIT es \<and>
     d = side_sum EntryDirection.DEBIT es \<and> c = d"
proof (cases "assertBalanced_loop 0 0 es")
  case (Inl err)
  then have "\<not> (\<forall>e\<in>set es. 0 < amountCents e)"
    using assertBalanced_loop_Inr [of 0 0 es "side_sum EntryDirection.DEBIT es"
        "side_sum EntryDirection.CREDIT es"] by simp
  with Inl show ?thesis by (auto simp: assertBalanced_def)
next
  case (Inr p)
  then obtain d' c' where p: "assertBalanced_loop 0 0 es = Inr (d', c')" by (cases p) auto
  then show ?thesis
    using assertBalanced_loop_Inr [of 0 0 es d' c'] by (auto simp: assertBalanced_def)
qed

lemma lockOrder_set [simp]: "set (lockOrder es) = accountId ` set es"
  by (simp add: lockOrder_def)

lemma lockOrder_distinct [simp]: "distinct (lockOrder es)"
  by (simp add: lockOrder_def)

lemma lockOrder_sorted [simp]: "sorted (lockOrder es)"
  by (simp add: lockOrder_def)

section \<open>What \<open>buildEntries\<close> does to the accounts\<close>

text \<open>The deltas of the inputs that name account \<open>i\<close>, applied in order.\<close>

definition advance ::
  "(LedgerEntryInput \<Rightarrow> CounterDelta) \<Rightarrow> ident \<Rightarrow> LedgerEntryInput list \<Rightarrow> LedgerAccount \<Rightarrow> LedgerAccount" where
  "advance \<delta> i es a = foldl (\<lambda>a e. applyDelta a (\<delta> e)) a (filter (\<lambda>e. accountId e = i) es)"

definition on_account :: "ident \<Rightarrow> ('a LedgerEntryInput_scheme \<Rightarrow> int) \<Rightarrow> 'a LedgerEntryInput_scheme list \<Rightarrow> int" where
  "on_account i f es = sum_list (map f (filter (\<lambda>e. accountId e = i) es))"

lemma on_account_simps [simp]:
  "on_account i f [] = 0"
  "on_account i f (e # es) = (if accountId e = i then f e else 0) + on_account i f es"
  "on_account i f (es @ fs) = on_account i f es + on_account i f fs"
  by (auto simp: on_account_def)

lemma advance_simps [simp]:
  "advance \<delta> i [] a = a"
  "advance \<delta> i (e # es) a = advance \<delta> i es (if accountId e = i then applyDelta a (\<delta> e) else a)"
  by (simp_all add: advance_def)

lemma applyDelta_counters [counter_simps]:
  "debitsPosted (applyDelta a d) = debitsPosted a + d_debitsPosted d"
  "creditsPosted (applyDelta a d) = creditsPosted a + d_creditsPosted d"
  "debitsPending (applyDelta a d) = debitsPending a + d_debitsPending d"
  "creditsPending (applyDelta a d) = creditsPending a + d_creditsPending d"
  by (simp_all add: applyDelta_def)

lemma applyDelta_frame [simp]:
  "la_id (applyDelta a d) = la_id a" "la_code (applyDelta a d) = la_code a"
  "la_type (applyDelta a d) = la_type a" "normalBalance (applyDelta a d) = normalBalance a"
  "allowsNegative (applyDelta a d) = allowsNegative a"
  by (simp_all add: applyDelta_def)

lemma advance_counters [counter_simps]:
  "debitsPosted (advance \<delta> i es a) = debitsPosted a + on_account i (\<lambda>e. d_debitsPosted (\<delta> e)) es"
  "creditsPosted (advance \<delta> i es a) = creditsPosted a + on_account i (\<lambda>e. d_creditsPosted (\<delta> e)) es"
  "debitsPending (advance \<delta> i es a) = debitsPending a + on_account i (\<lambda>e. d_debitsPending (\<delta> e)) es"
  "creditsPending (advance \<delta> i es a) = creditsPending a + on_account i (\<lambda>e. d_creditsPending (\<delta> e)) es"
  by (induction es arbitrary: a) (auto simp: counter_simps)

lemma advance_frame [simp]:
  "la_id (advance \<delta> i es a) = la_id a" "la_code (advance \<delta> i es a) = la_code a"
  "la_type (advance \<delta> i es a) = la_type a"
  "normalBalance (advance \<delta> i es a) = normalBalance a"
  "allowsNegative (advance \<delta> i es a) = allowsNegative a"
  by (induction es arbitrary: a) auto

lemma advance_untouched: "i \<notin> accountId ` set es \<Longrightarrow> advance \<delta> i es a = a"
  by (induction es arbitrary: a) auto

lemma deltaFor_counters [counter_simps]:
  "d_debitsPosted (deltaFor ph e) =
     (if ph \<noteq> EntryPhase.PENDING \<and> direction e = EntryDirection.DEBIT then amountCents e else 0)"
  "d_creditsPosted (deltaFor ph e) =
     (if ph \<noteq> EntryPhase.PENDING \<and> direction e = EntryDirection.CREDIT then amountCents e else 0)"
  "d_debitsPending (deltaFor ph e) =
     (if ph = EntryPhase.PENDING \<and> direction e = EntryDirection.DEBIT then amountCents e else 0)"
  "d_creditsPending (deltaFor ph e) =
     (if ph = EntryPhase.PENDING \<and> direction e = EntryDirection.CREDIT then amountCents e else 0)"
  by (cases "direction e"; simp add: deltaFor_def ZERO_DELTA_def Let_def)+

lemma resolveDelta_counters [counter_simps]:
  "d_debitsPosted (resolveDelta commit e) =
     (if commit \<and> direction e = EntryDirection.DEBIT then amountCents e else 0)"
  "d_creditsPosted (resolveDelta commit e) =
     (if commit \<and> direction e = EntryDirection.CREDIT then amountCents e else 0)"
  "d_debitsPending (resolveDelta commit e) =
     (if direction e = EntryDirection.DEBIT then - amountCents e else 0)"
  "d_creditsPending (resolveDelta commit e) =
     (if direction e = EntryDirection.CREDIT then - amountCents e else 0)"
  by (cases "direction e"; simp add: resolveDelta_def ZERO_DELTA_def Let_def)+

text \<open>
  Resolving a reservation, either way, never lowers what is available: the released part covers
  what is posted.  This is why a hold can always be settled or voided.
\<close>

lemma resolveDelta_keeps_guard:
  assumes "\<not> violatesOverdraftGuard a" "0 < amountCents e"
  shows "\<not> violatesOverdraftGuard (applyDelta a (resolveDelta commit e))"
  using assms
  by (cases "direction e"; cases "normalBalance a"; cases commit)
    (auto simp: overdraft_guard_iff counter_simps)

lemma advance_resolve_keeps_guard:
  assumes "\<not> violatesOverdraftGuard a" "\<forall>e\<in>set es. 0 < amountCents e"
  shows "\<not> violatesOverdraftGuard (advance (resolveDelta commit) i es a)"
  using assms by (induction es arbitrary: a) (auto simp: resolveDelta_keeps_guard)

lemma buildEntries_accounts:
  assumes "buildEntries entryId tx ph \<delta> n ins m = Inr (es, m')"
  shows "map_get m' i = map_option (advance \<delta> i ins) (map_get m i)"
    and "map fst m' = map fst m"
  using assms
proof (induction ins arbitrary: n m es m')
  case Nil
  { case 1 then show ?case by (simp add: option.map_ident) next case 2 then show ?case by simp }
next
  case (Cons e ins)
  { case 1
    then obtain a es2 where a: "map_get m (accountId e) = Some a"
      and rec: "buildEntries entryId tx ph \<delta> (Suc n) ins
          (map_set (accountId e) (applyDelta a (\<delta> e)) m) = Inr (es2, m')"
      by (auto simp: Let_def split: option.splits sum.splits if_splits)
    from Cons.IH(1) [OF rec] a show ?case by (simp add: update_conv')
  next
    case 2
    then obtain a es2 where a: "map_get m (accountId e) = Some a"
      and rec: "buildEntries entryId tx ph \<delta> (Suc n) ins
          (map_set (accountId e) (applyDelta a (\<delta> e)) m) = Inr (es2, m')"
      by (auto simp: Let_def split: option.splits sum.splits if_splits)
    from Cons.IH(2) [OF rec] a show ?case by (simp add: map_set_keys_present) }
qed


lemma buildEntries_Cons:
  "buildEntries entryId tx ph \<delta> n (e # ins) m = Inr (es, m') \<longleftrightarrow>
     (\<exists>a es2. map_get m (accountId e) = Some a \<and>
        \<not> violatesOverdraftGuard (applyDelta a (\<delta> e)) \<and>
        buildEntries entryId tx ph \<delta> (Suc n) ins
          (map_set (accountId e) (applyDelta a (\<delta> e)) m) = Inr (es2, m') \<and>
        es = \<lparr>accountId = accountId e, direction = direction e, amountCents = amountCents e,
              en_id = entryId n, transactionId = tx_id tx, phase = ph, en_currency = tx_currency tx,
              sequence = n, resultingPostedCents = bal_posted (computeBalances (applyDelta a (\<delta> e))),
              en_effectiveAt = tx_effectiveAt tx\<rparr> # es2)"
  by (auto simp: Let_def split: option.splits sum.splits if_splits)

declare buildEntries.simps(2) [simp del]

text \<open>The entries are the inputs, in order, stamped with the transaction and the phase.\<close>

lemma buildEntries_entries:
  assumes "buildEntries entryId tx ph \<delta> n ins m = Inr (es, m')"
  shows "map entry_input es = ins"
    and "\<forall>e\<in>set es. phase e = ph \<and> transactionId e = tx_id tx"
    and "map en_id es = map entryId [n..<n + length ins]"
  using assms
proof (induction ins arbitrary: n m es m')
  case (Cons e ins)
  { case 1 with Cons.IH(1) show ?case by (fastforce simp: buildEntries_Cons entry_input_def) next
    case 2 with Cons.IH(2) show ?case by (fastforce simp: buildEntries_Cons) next
    case 3
    then obtain m2 es2 where rec: "buildEntries entryId tx ph \<delta> (Suc n) ins m2 = Inr (es2, m')"
      and es: "map en_id es = entryId n # map en_id es2"
      by (auto simp: buildEntries_Cons)
    from Cons.IH(3) [OF rec] es show ?case by (auto simp: upt_rec [of n] Suc_le_eq) }
qed auto

lemma buildEntries_touched:
  assumes "buildEntries entryId tx ph \<delta> n ins m = Inr (es, m')" "e \<in> set ins"
  shows "\<exists>a. map_get m (accountId e) = Some a \<and>
             \<not> violatesOverdraftGuard (advance \<delta> (accountId e) ins a)"
  using assms
proof (induction ins arbitrary: n m es m' e)
  case (Cons x ins)
  from Cons.prems(1) obtain a es2 where a: "map_get m (accountId x) = Some a"
    and ok: "\<not> violatesOverdraftGuard (applyDelta a (\<delta> x))"
    and rec: "buildEntries entryId tx ph \<delta> (Suc n) ins
        (map_set (accountId x) (applyDelta a (\<delta> x)) m) = Inr (es2, m')"
    by (auto simp: buildEntries_Cons)
  show ?case
  proof (cases "accountId e \<in> accountId ` set ins")
    case True
    then obtain y where y: "y \<in> set ins" "accountId y = accountId e" by auto
    with Cons.IH [OF rec y(1)] a show ?thesis by (auto simp: update_conv' split: if_splits)
  next
    case False
    with Cons.prems(2) have "e = x" by auto
    with False a ok show ?thesis by (simp add: advance_untouched)
  qed
qed simp

lemma buildEntries_succeeds:
  assumes "\<forall>e\<in>set ins. \<exists>a. map_get m (accountId e) = Some a \<and> \<not> violatesOverdraftGuard a"
    and "\<And>a e. e \<in> set ins \<Longrightarrow> \<not> violatesOverdraftGuard a \<Longrightarrow> \<not> violatesOverdraftGuard (applyDelta a (\<delta> e))"
  shows "\<exists>es m'. buildEntries entryId tx ph \<delta> n ins m = Inr (es, m')"
  using assms
proof (induction ins arbitrary: n m)
  case (Cons x ins)
  from Cons.prems(1) obtain a where a: "map_get m (accountId x) = Some a" "\<not> violatesOverdraftGuard a"
    by auto
  with Cons.prems(2) have ok: "\<not> violatesOverdraftGuard (applyDelta a (\<delta> x))" by auto
  let ?m = "map_set (accountId x) (applyDelta a (\<delta> x)) m"
  have "\<exists>es m'. buildEntries entryId tx ph \<delta> (Suc n) ins ?m = Inr (es, m')"
    by (rule Cons.IH) (use Cons.prems ok in \<open>auto simp: update_conv'\<close>)
  with a ok show ?case by (auto simp: buildEntries_Cons)
qed simp

lemma assertAccountsExist_Inr [simp]:
  "assertAccountsExist es m = Inr u \<longleftrightarrow> (\<forall>e\<in>set es. map_has m (accountId e))"
  by (induction es) auto

lemma entry_input_fields [simp]:
  "accountId (entry_input e) = accountId e" "direction (entry_input e) = direction e"
  "amountCents (entry_input e) = amountCents e"
  by (simp_all add: entry_input_def)

lemma side_sum_entry_input [simp]: "side_sum d (map entry_input es) = side_sum d es"
  by (induction es) auto

section \<open>The contract of a ledger store\<close>

text \<open>
  \<open>acct\<close> is the account a store holds under an identifier and \<open>sinv\<close> its representation
  invariant.  The laws say that a lock reads the stored accounts, and what each finder returns
  after a \<open>persist\<close>.
\<close>

locale ledger_store =
  fixes st :: "'s LedgerStore"
    and acct :: "'s \<Rightarrow> ident \<Rightarrow> LedgerAccount option"
    and sinv :: "'s \<Rightarrow> bool"
  assumes lock_get: "map_get (lockAccounts st s ids) i = (if i \<in> set ids then acct s i else None)"
    and lock_wf: "wf_map (lockAccounts st s ids)"
    and acct_id: "sinv s \<Longrightarrow> acct s i = Some a \<Longrightarrow> la_id a = i"
    and persist_transaction:
      "findTransaction st (persist st s tx es as) i = (if i = tx_id tx then Some tx else findTransaction st s i)"
    and persist_entries:
      "findEntriesByTransaction st (persist st s tx es as) i =
         (if i = tx_id tx \<and> es \<noteq> [] then es else findEntriesByTransaction st s i)"
    and persist_key:
      "es \<noteq> [] \<Longrightarrow> tx_id tx \<noteq> [] \<Longrightarrow>
         findByIdempotencyKey st (persist st s tx es as) (tx_idempotencyKey tx) =
           Some \<lparr>res_transaction = tx, res_entries = es, replayed = True\<rparr>"
    and persist_key_keeps:
      "sinv s \<Longrightarrow> findByIdempotencyKey st s key = Some r \<Longrightarrow> tx_id tx \<noteq> tx_id (res_transaction r) \<Longrightarrow>
         key \<noteq> tx_idempotencyKey tx \<Longrightarrow> findByIdempotencyKey st (persist st s tx es as) key = Some r"
    and persist_key_status:
      "sinv s \<Longrightarrow> findByIdempotencyKey st s key = Some r \<Longrightarrow> tx_id tx = tx_id (res_transaction r) \<Longrightarrow>
         findByIdempotencyKey st (persist st s tx [] as) key = Some (r\<lparr>res_transaction := tx\<rparr>)"
    and persist_acct:
      "sinv s \<Longrightarrow> wf_map m \<Longrightarrow> \<forall>(k, a)\<in>set m. la_id a = k \<Longrightarrow>
         acct (persist st s tx es (map_values m)) i =
           (case map_get m i of None \<Rightarrow> acct s i | Some a \<Rightarrow> Some a)"
    and persist_sinv: "sinv s \<Longrightarrow> sinv (persist st s tx es as)"
begin

text \<open>A repeated idempotency key returns the stored result and leaves the store alone.\<close>

lemma post_replay:
  assumes "findByIdempotencyKey st s (in_idempotencyKey inp) = Some r"
  shows "post st cur now newTx entryId inp s = Inr (r\<lparr>replayed := True\<rparr>, s)"
  using assms by (simp add: post_def)

lemma resolve_replay:
  assumes "findByIdempotencyKey st s key = Some r"
  shows "resolvePending st now newTx entryId pid key ty commit s = Inr (r\<lparr>replayed := True\<rparr>, s)"
  using assms by (simp add: resolvePending_def)

lemma post_newE:
  assumes "post st cur now newTx entryId inp s = Inr (r, s')"
    and "findByIdempotencyKey st s (in_idempotencyKey inp) = None"
  obtains d es m' where
    "assertBalanced (in_entries inp) = Inr (d, d)"
    "\<forall>e\<in>set (in_entries inp). \<exists>a. acct s (accountId e) = Some a"
    "buildEntries entryId (post_transaction cur now newTx d inp) (entry_phase (in_phase inp))
       (deltaFor (entry_phase (in_phase inp))) 0 (in_entries inp)
       (lockAccounts st s (lockOrder (in_entries inp))) = Inr (es, m')"
    "r = \<lparr>res_transaction = post_transaction cur now newTx d inp, res_entries = es, replayed = False\<rparr>"
    "s' = persist st s (post_transaction cur now newTx d inp) es (map_values m')"
proof -
  from assms obtain d c es m' where bal: "assertBalanced (in_entries inp) = Inr (d, c)"
    and ex: "\<forall>e\<in>set (in_entries inp). map_has (lockAccounts st s (lockOrder (in_entries inp))) (accountId e)"
    and b: "buildEntries entryId (post_transaction cur now newTx d inp) (entry_phase (in_phase inp))
       (deltaFor (entry_phase (in_phase inp))) 0 (in_entries inp)
       (lockAccounts st s (lockOrder (in_entries inp))) = Inr (es, m')"
    and r: "r = \<lparr>res_transaction = post_transaction cur now newTx d inp, res_entries = es, replayed = False\<rparr>"
    and s': "s' = persist st s (post_transaction cur now newTx d inp) es (map_values m')"
    by (auto simp: post_def Let_def split: sum.splits prod.splits)
  from bal have "c = d" by (simp add: assertBalanced_Inr)
  moreover from ex have "\<forall>e\<in>set (in_entries inp). \<exists>a. acct s (accountId e) = Some a"
    by (auto simp: map_has_def lock_get)
  ultimately show ?thesis using bal b r s' that by blast
qed

lemma resolve_newE:
  assumes "resolvePending st now newTx entryId pid key ty commit s = Inr (r, s')"
    and "findByIdempotencyKey st s key = None"
  obtains pending es m' where
    "findTransaction st s pid = Some pending"
    "tx_status pending = LedgerTransactionStatus.PENDING"
    "buildEntries entryId (resolve_transaction commit now newTx key ty pid pending)
       (if commit then EntryPhase.POSTED else EntryPhase.VOID) (resolveDelta commit) 0
       (map entry_input (findEntriesByTransaction st s pid))
       (lockAccounts st s (lockOrder (map entry_input (findEntriesByTransaction st s pid)))) = Inr (es, m')"
    "r = \<lparr>res_transaction = resolve_transaction commit now newTx key ty pid pending,
          res_entries = es, replayed = False\<rparr>"
    "s' = persist st (persist st s (resolve_transaction commit now newTx key ty pid pending) es (map_values m'))
            (resolved_pending commit now pending) [] []"
  using assms
  by (auto simp: resolvePending_def Let_def split: option.splits sum.splits prod.splits if_splits)

text \<open>
  Persisting what \<open>buildEntries\<close> made of the locked accounts moves each stored account by the deltas
  of the inputs that name it, and nothing else.
\<close>

lemma persist_built:
  assumes inv: "sinv s"
    and b: "buildEntries entryId tx ph \<delta> n ins (lockAccounts st s (lockOrder ins)) = Inr (es, m')"
  shows "acct (persist st s tx es (map_values m')) i = map_option (advance \<delta> i ins) (acct s i)"
proof -
  let ?m = "lockAccounts st s (lockOrder ins)"
  have wf: "wf_map m'" using lock_wf [of s "lockOrder ins"] buildEntries_accounts(2) [OF b]
    by (simp add: wf_map_def)
  have get: "map_get m' k = map_option (advance \<delta> k ins) (map_get ?m k)" for k
    by (rule buildEntries_accounts(1) [OF b])
  have "\<forall>(k, a)\<in>set m'. la_id a = k"
    using wf acct_id [OF inv] by (auto simp: wf_map_get_iff [symmetric] get lock_get split: if_splits)
  then show ?thesis
    using wf inv by (auto simp: persist_acct get lock_get advance_untouched split: option.splits)
qed

lemma post_accounts:
  assumes "sinv s" "post st cur now newTx entryId inp s = Inr (r, s')"
    and "findByIdempotencyKey st s (in_idempotencyKey inp) = None"
  shows "acct s' i = map_option (advance (deltaFor (entry_phase (in_phase inp))) i (in_entries inp)) (acct s i)"
  using assms by (elim post_newE) (auto simp: persist_built)

lemma resolve_accounts:
  assumes "sinv s" "resolvePending st now newTx entryId pid key ty commit s = Inr (r, s')"
    and "findByIdempotencyKey st s key = None"
  shows "acct s' i = map_option (advance (resolveDelta commit) i
           (map entry_input (findEntriesByTransaction st s pid))) (acct s i)"
  using assms persist_acct [of _ "[]"]
  by (elim resolve_newE) (auto simp: persist_built persist_sinv)

lemma post_sinv:
  assumes "sinv s" "post st cur now newTx entryId inp s = Inr (r, s')"
  shows "sinv s'"
  using assms by (cases "findByIdempotencyKey st s (in_idempotencyKey inp)")
    (auto simp: post_replay elim!: post_newE intro: persist_sinv)

lemma resolve_sinv:
  assumes "sinv s" "resolvePending st now newTx entryId pid key ty commit s = Inr (r, s')"
  shows "sinv s'"
  using assms by (cases "findByIdempotencyKey st s key")
    (auto simp: resolve_replay elim!: resolve_newE intro!: persist_sinv)

text \<open>After a new posting its idempotency key answers with that posting.\<close>

lemma post_then_replay:
  assumes "post st cur now newTx entryId inp s = Inr (r, s')" "\<not> replayed r"
    and "tx_id (res_transaction r) \<noteq> []"
    and "in_idempotencyKey inp' = in_idempotencyKey inp"
  shows "post st cur' now' newTx' entryId' inp' s' = Inr (r\<lparr>replayed := True\<rparr>, s')"
proof (cases "findByIdempotencyKey st s (in_idempotencyKey inp)")
  case None
  from assms(1) None obtain d es m' where
    bal: "assertBalanced (in_entries inp) = Inr (d, d)" and
    b: "buildEntries entryId (post_transaction cur now newTx d inp) (entry_phase (in_phase inp))
       (deltaFor (entry_phase (in_phase inp))) 0 (in_entries inp)
       (lockAccounts st s (lockOrder (in_entries inp))) = Inr (es, m')" and
    r: "r = \<lparr>res_transaction = post_transaction cur now newTx d inp, res_entries = es, replayed = False\<rparr>" and
    s': "s' = persist st s (post_transaction cur now newTx d inp) es (map_values m')"
    by (rule post_newE)
  have "es \<noteq> []" using buildEntries_entries(1) [OF b] bal by (auto simp: assertBalanced_Inr)
  then have "findByIdempotencyKey st s' (in_idempotencyKey inp) =
      Some \<lparr>res_transaction = post_transaction cur now newTx d inp, res_entries = es, replayed = True\<rparr>"
    using persist_key [of es "post_transaction cur now newTx d inp" s "map_values m'"] assms(3) r s'
    by (simp add: post_transaction_def Let_def)
  with assms(4) r show ?thesis by (simp add: post_def)
qed (use assms(1,2) in \<open>simp add: post_replay\<close>, use assms in auto)

end

end
