(* ===== verification/Ledger_Memory.thy ===== *)
theory Ledger_Memory
  imports Ledger_Engine
begin

text \<open>
  The in-memory ledger store of \<open>src/packages/ledger/src/memory-store.ts\<close>: its five maps, account
  creation, and its implementation of the \<open>LedgerStore\<close> interface, with the interpretation of the
  contract \<open>ledger_store\<close>.
\<close>

section \<open>InMemoryLedgerStore\<close>

record InMemoryLedgerStore =
  ms_accounts :: account_map
  ms_accountsByCode :: "(string, ident) jsmap"
  ms_transactions :: "(ident, LedgerTransaction) jsmap"
  ms_entries :: "(ident, LedgerEntry list) jsmap"
  ms_byIdempotencyKey :: "(string, ident) jsmap"

definition new_account :: "ident \<Rightarrow> AccountTemplate \<Rightarrow> LedgerAccount" where
  "new_account newAccountId tmpl =
     \<lparr>la_id = newAccountId, la_code = at_code tmpl, la_name = at_name tmpl, la_type = at_type tmpl,
      normalBalance = normalBalanceFor (at_type tmpl), la_currency = BRL,
      ownerType = at_ownerType tmpl, ownerId = at_ownerId tmpl, la_status = OPEN,
      allowsNegative = at_allowsNegative tmpl,
      debitsPosted = 0, creditsPosted = 0, debitsPending = 0, creditsPending = 0,
      entryCount = 0, version = 0\<rparr>"

text \<open>The non-null assertion on the looked-up account is the \<open>None\<close> of the result.\<close>

definition createAccount ::
  "ident \<Rightarrow> AccountTemplate \<Rightarrow> InMemoryLedgerStore \<Rightarrow> LedgerAccount option \<times> InMemoryLedgerStore" where
  "createAccount newAccountId tmpl s =
     (case truthy (map_get (ms_accountsByCode s) (at_code tmpl)) of
        Some existingId \<Rightarrow> (map_get (ms_accounts s) existingId, s)
      | None \<Rightarrow>
          (let account = new_account newAccountId tmpl in
           (Some account,
            s\<lparr>ms_accounts := map_set (la_id account) account (ms_accounts s),
              ms_accountsByCode := map_set (la_code account) (la_id account) (ms_accountsByCode s)\<rparr>)))"

definition emptyStore :: InMemoryLedgerStore where
  "emptyStore = \<lparr>ms_accounts = [], ms_accountsByCode = [], ms_transactions = [], ms_entries = [],
                 ms_byIdempotencyKey = []\<rparr>"

fun createAccounts ::
  "(nat \<Rightarrow> ident) \<Rightarrow> nat \<Rightarrow> AccountTemplate list \<Rightarrow> InMemoryLedgerStore \<Rightarrow> InMemoryLedgerStore" where
  "createAccounts newAccountId n [] s = s"
| "createAccounts newAccountId n (t # ts) s =
     createAccounts newAccountId (Suc n) ts (snd (createAccount (newAccountId n) t s))"

definition newStore :: "(nat \<Rightarrow> ident) \<Rightarrow> InMemoryLedgerStore" where
  "newStore newAccountId = createAccounts newAccountId 0 SINGLETON_ACCOUNTS emptyStore"

definition openCustomerAccounts ::
  "ident \<Rightarrow> ident \<Rightarrow> ident \<Rightarrow> InMemoryLedgerStore \<Rightarrow>
   (LedgerAccount option \<times> LedgerAccount option) \<times> InMemoryLedgerStore" where
  "openCustomerAccounts availableId blockedId customer s =
     (let availableTemplate = customerAccountTemplates customer ! 0;
          blockedTemplate = customerAccountTemplates customer ! 1;
          (avail, s1) = createAccount availableId (availableTemplate\<lparr>at_ownerId := Some customer\<rparr>) s;
          (blocked, s2) = createAccount blockedId (blockedTemplate\<lparr>at_ownerId := Some customer\<rparr>) s1
      in ((avail, blocked), s2))"

definition mem_account :: "InMemoryLedgerStore \<Rightarrow> ident \<Rightarrow> LedgerAccount option" where
  "mem_account s i = map_get (ms_accounts s) i"

text \<open>\<open>byCode\<close> throws for an unknown code: \<open>None\<close>.\<close>

definition byCode :: "InMemoryLedgerStore \<Rightarrow> string \<Rightarrow> LedgerAccount option" where
  "byCode s code =
     (case truthy (map_get (ms_accountsByCode s) code) of
        None \<Rightarrow> None
      | Some i \<Rightarrow> map_get (ms_accounts s) i)"

definition allAccounts :: "InMemoryLedgerStore \<Rightarrow> LedgerAccount list" where
  "allAccounts s = map_values (ms_accounts s)"

definition allEntries :: "InMemoryLedgerStore \<Rightarrow> LedgerEntry list" where
  "allEntries s = concat (map_values (ms_entries s))"

fun mem_lockAccounts_loop :: "account_map \<Rightarrow> ident list \<Rightarrow> account_map \<Rightarrow> account_map" where
  "mem_lockAccounts_loop accs [] locked = locked"
| "mem_lockAccounts_loop accs (i # ids) locked =
     mem_lockAccounts_loop accs ids
       (case map_get accs i of None \<Rightarrow> locked | Some account \<Rightarrow> map_set i account locked)"

definition mem_lockAccounts :: "InMemoryLedgerStore \<Rightarrow> ident list \<Rightarrow> account_map" where
  "mem_lockAccounts s orderedIds = mem_lockAccounts_loop (ms_accounts s) orderedIds []"

definition mem_findEntriesByTransaction :: "InMemoryLedgerStore \<Rightarrow> ident \<Rightarrow> LedgerEntry list" where
  "mem_findEntriesByTransaction s i =
     (case map_get (ms_entries s) i of None \<Rightarrow> [] | Some es \<Rightarrow> es)"

definition mem_findByIdempotencyKey ::
  "InMemoryLedgerStore \<Rightarrow> string \<Rightarrow> PostTransactionResult option" where
  "mem_findByIdempotencyKey s key =
     (case truthy (map_get (ms_byIdempotencyKey s) key) of
        None \<Rightarrow> None
      | Some i \<Rightarrow>
          (case map_get (ms_transactions s) i of
             None \<Rightarrow> None
           | Some tx \<Rightarrow> Some \<lparr>res_transaction = tx, res_entries = mem_findEntriesByTransaction s i,
                             replayed = True\<rparr>))"

definition mem_findTransaction :: "InMemoryLedgerStore \<Rightarrow> ident \<Rightarrow> LedgerTransaction option" where
  "mem_findTransaction s i = map_get (ms_transactions s) i"

definition mem_persist ::
  "InMemoryLedgerStore \<Rightarrow> LedgerTransaction \<Rightarrow> LedgerEntry list \<Rightarrow> LedgerAccount list \<Rightarrow>
   InMemoryLedgerStore" where
  "mem_persist s tx es accs =
     (let s1 = s\<lparr>ms_transactions := map_set (tx_id tx) tx (ms_transactions s)\<rparr>;
          s2 = (if es \<noteq> [] then
                  s1\<lparr>ms_entries := map_set (tx_id tx) es (ms_entries s1),
                     ms_byIdempotencyKey := map_set (tx_idempotencyKey tx) (tx_id tx) (ms_byIdempotencyKey s1)\<rparr>
                else s1)
      in s2\<lparr>ms_accounts := foldl (\<lambda>acc a. map_set (la_id a) a acc) (ms_accounts s2) accs\<rparr>)"

definition memoryStore :: "InMemoryLedgerStore LedgerStore" where
  "memoryStore =
     \<lparr>lockAccounts = mem_lockAccounts,
      findByIdempotencyKey = mem_findByIdempotencyKey,
      findTransaction = mem_findTransaction,
      findEntriesByTransaction = mem_findEntriesByTransaction,
      persist = mem_persist\<rparr>"

section \<open>The store meets its contract\<close>

text \<open>Every account and every transaction is filed under its own identifier, once.\<close>

definition mem_inv :: "InMemoryLedgerStore \<Rightarrow> bool" where
  "mem_inv s \<longleftrightarrow>
     wf_map (ms_accounts s) \<and> list_all (\<lambda>(i, a). la_id a = i) (ms_accounts s) \<and>
     wf_map (ms_transactions s) \<and> list_all (\<lambda>(i, t). tx_id t = i) (ms_transactions s) \<and>
     wf_map (ms_entries s)"

lemma memoryStore_simps [store_simps]:
  "lockAccounts memoryStore = mem_lockAccounts"
  "findByIdempotencyKey memoryStore = mem_findByIdempotencyKey"
  "findTransaction memoryStore = mem_findTransaction"
  "findEntriesByTransaction memoryStore = mem_findEntriesByTransaction"
  "persist memoryStore = mem_persist"
  by (simp_all add: memoryStore_def)

lemma mem_persist_fields [store_simps]:
  "ms_accounts (mem_persist s tx es accs) = alist.put_all la_id id accs (ms_accounts s)"
  "ms_accountsByCode (mem_persist s tx es accs) = ms_accountsByCode s"
  "ms_transactions (mem_persist s tx es accs) = map_set (tx_id tx) tx (ms_transactions s)"
  "ms_entries (mem_persist s tx es accs) =
     (if es = [] then ms_entries s else map_set (tx_id tx) es (ms_entries s))"
  "ms_byIdempotencyKey (mem_persist s tx es accs) =
     (if es = [] then ms_byIdempotencyKey s
      else map_set (tx_idempotencyKey tx) (tx_id tx) (ms_byIdempotencyKey s))"
  by (simp_all add: mem_persist_def Let_def alist.put_all_def)

lemma lock_loop_get:
  "map_get (mem_lockAccounts_loop accs ids locked) i =
     (if i \<in> set ids \<and> map_get accs i \<noteq> None then map_get accs i else map_get locked i)"
  by (induction ids arbitrary: locked) (auto simp: update_conv' split: option.splits)

lemma lock_loop_wf: "wf_map locked \<Longrightarrow> wf_map (mem_lockAccounts_loop accs ids locked)"
  by (induction ids arbitrary: locked) (auto simp: alist.invar_put split: option.splits)

lemma keyed_update:
  "list_all (\<lambda>(i, a). f a = i) m \<Longrightarrow> list_all (\<lambda>(i, a). f a = i) (map_set (f a) a m)"
  by (induction m) auto

lemma keyed_put_all:
  "list_all (\<lambda>(i, a). la_id a = i) m \<Longrightarrow>
   list_all (\<lambda>(i, a). la_id a = i) (alist.put_all la_id id accs m)"
  unfolding alist.put_all_def by (induction accs arbitrary: m) (auto simp: keyed_update)

lemma put_all_overlay:
  assumes wf: "wf_map m" and key: "\<forall>(k, a)\<in>set m. la_id a = k" and acc: "wf_map accs"
  shows "map_get (alist.put_all la_id id (map_values m) accs) i =
           (case map_get m i of None \<Rightarrow> map_get accs i | Some a \<Rightarrow> Some a)"
proof -
  have ids: "map la_id (map_values m) = map fst m"
    using key by (auto simp: map_values_def)
  then have img: "la_id ` set (map_values m) = fst ` set m" by (metis list.set_map)
  show ?thesis
  proof (cases "map_get m i")
    case None
    then have "i \<notin> la_id ` set (map_values m)" by (simp add: img map_of_eq_None_fst)
    with None acc show ?thesis by (simp add: alist.get_put_all_notin)
  next
    case (Some a)
    then have a: "(i, a) \<in> set m" by (rule map_of_SomeD)
    with key have "la_id a = i" "a \<in> set (map_values m)" by (force simp: map_values_def)+
    moreover have "distinct (map la_id (map_values m))" using wf by (simp add: ids wf_map_def)
    ultimately show ?thesis
      using alist.get_put_all_in [of accs la_id "map_values m" a id] acc Some by simp
  qed
qed

lemma keyed_get: "list_all (\<lambda>(i, a). f a = i) m \<Longrightarrow> map_get m i = Some a \<Longrightarrow> f a = i"
  by (auto simp: list_all_iff dest: map_of_SomeD)

interpretation mem: ledger_store memoryStore mem_account mem_inv
proof (unfold_locales, goal_cases)
  case (1 s ids i)
  show ?case by (auto simp: store_simps mem_lockAccounts_def lock_loop_get mem_account_def)
next
  case (2 s ids)
  show ?case by (simp add: store_simps mem_lockAccounts_def lock_loop_wf)
next
  case (3 s i a)
  then show ?case by (auto simp: mem_inv_def mem_account_def dest: keyed_get)
next
  case (4 s tx es as i)
  show ?case by (simp add: store_simps mem_findTransaction_def update_conv')
next
  case (5 s tx es as i)
  show ?case by (auto simp: store_simps mem_findEntriesByTransaction_def update_conv')
next
  case (6 es tx s as)
  then show ?case
    by (simp add: store_simps mem_findByIdempotencyKey_def mem_findEntriesByTransaction_def update_conv')
next
  case (7 s key r tx es as)
  then show ?case
    by (auto simp: store_simps mem_inv_def mem_findByIdempotencyKey_def mem_findEntriesByTransaction_def
        update_conv' dest: keyed_get split: option.splits)
next
  case (8 s key r tx as)
  then show ?case
    by (auto simp: store_simps mem_inv_def mem_findByIdempotencyKey_def mem_findEntriesByTransaction_def
        update_conv' dest: keyed_get split: option.splits)
next
  case (9 s m tx es i)
  then show ?case by (simp add: store_simps mem_inv_def mem_account_def put_all_overlay split: option.split)
next
  case (10 s tx es as)
  then show ?case
    by (simp add: store_simps mem_inv_def alist.invar_put alist.invar_put_all keyed_put_all keyed_update)
qed

end
