(* ===== verification/Ledger_Reachability.thy ===== *)
theory Ledger_Reachability
  imports Ledger_Invariants
begin

text \<open>
  The in-memory ledger as a transition system.  A step opens accounts, posts a transaction or
  resolves a pending one; an operation that throws leaves the store alone and is no step.
  \<open>ledger_ok\<close> is the invariant: the books balance, every counter is the sum of the entries behind
  it, and no guarded account is overdrawn.  It is kept by every step.
\<close>

section \<open>The invariant\<close>

definition posted_total :: "InMemoryLedgerStore \<Rightarrow> EntryDirection \<Rightarrow> ident \<Rightarrow> cents" where
  "posted_total s d i = on_account i (moved EntryPhase.POSTED d) (allEntries s)"

definition is_pending :: "InMemoryLedgerStore \<Rightarrow> ident \<Rightarrow> bool" where
  "is_pending s t =
     (case mem_findTransaction s t of
        None \<Rightarrow> False
      | Some tx \<Rightarrow> tx_status tx = LedgerTransactionStatus.PENDING)"

definition held :: "InMemoryLedgerStore \<Rightarrow> EntryDirection \<Rightarrow> LedgerEntry \<Rightarrow> cents" where
  "held s d e = (if direction e = d \<and> is_pending s (transactionId e) then amountCents e else 0)"

definition held_total :: "InMemoryLedgerStore \<Rightarrow> EntryDirection \<Rightarrow> ident \<Rightarrow> cents" where
  "held_total s d i = on_account i (held s d) (allEntries s)"

definition one_phase :: "LedgerEntry list \<Rightarrow> bool" where
  "one_phase es \<longleftrightarrow> (\<exists>ph. \<forall>e\<in>set es. phase e = ph)"

definition group_ok :: "InMemoryLedgerStore \<Rightarrow> ident \<Rightarrow> LedgerEntry list \<Rightarrow> bool" where
  "group_ok s t es \<longleftrightarrow>
     es \<noteq> [] \<and> balanced_entries es \<and> mem_findTransaction s t \<noteq> None \<and>
     one_phase es \<and>
     (\<forall>e\<in>set es. transactionId e = t \<and> 0 < amountCents e \<and> mem_account s (accountId e) \<noteq> None \<and>
        (is_pending s t \<longrightarrow> phase e = EntryPhase.PENDING))"

definition entries_ok :: "InMemoryLedgerStore \<Rightarrow> bool" where
  "entries_ok s \<longleftrightarrow> (\<forall>(t, es)\<in>set (ms_entries s). group_ok s t es)"

definition account_ok :: "InMemoryLedgerStore \<Rightarrow> ident \<Rightarrow> LedgerAccount \<Rightarrow> bool" where
  "account_ok s i a \<longleftrightarrow>
     debitsPosted a = posted_total s EntryDirection.DEBIT i \<and>
     creditsPosted a = posted_total s EntryDirection.CREDIT i \<and>
     debitsPending a = held_total s EntryDirection.DEBIT i \<and>
     creditsPending a = held_total s EntryDirection.CREDIT i \<and>
     \<not> violatesOverdraftGuard a"

definition accounts_ok :: "InMemoryLedgerStore \<Rightarrow> bool" where
  "accounts_ok s \<longleftrightarrow> (\<forall>i a. mem_account s i = Some a \<longrightarrow> account_ok s i a)"

definition codes_ok :: "InMemoryLedgerStore \<Rightarrow> bool" where
  "codes_ok s \<longleftrightarrow>
     (\<forall>c i. map_get (ms_accountsByCode s) c = Some i \<longleftrightarrow>
        (\<exists>a. mem_account s i = Some a \<and> la_code a = c)) \<and> mem_account s [] = None"

text \<open>An idempotency key names exactly the transaction that carries it, and every transaction has entries.\<close>

definition keys_ok :: "InMemoryLedgerStore \<Rightarrow> bool" where
  "keys_ok s \<longleftrightarrow>
     (\<forall>k t. map_get (ms_byIdempotencyKey s) k = Some t \<longleftrightarrow>
        (\<exists>tx. mem_findTransaction s t = Some tx \<and> tx_idempotencyKey tx = k)) \<and>
     mem_findTransaction s [] = None \<and>
     (\<forall>t. mem_findTransaction s t \<noteq> None \<longrightarrow> map_get (ms_entries s) t \<noteq> None)"

definition ledger_ok :: "InMemoryLedgerStore \<Rightarrow> bool" where
  "ledger_ok s \<longleftrightarrow> mem_inv s \<and> entries_ok s \<and> accounts_ok s \<and> codes_ok s \<and> keys_ok s"

section \<open>Sums of entries\<close>

lemma on_account_entry_input:
  "on_account i f (map entry_input es) = on_account i (\<lambda>e. f (entry_input e)) es"
  by (induction es) auto

lemma on_account_cong:
  "(\<And>e. e \<in> set es \<Longrightarrow> f e = g e) \<Longrightarrow> on_account i f es = on_account i g es"
  by (induction es) auto

lemma on_account_add:
  "on_account i (\<lambda>e. f e + g e) es = on_account i f es + on_account i g es"
  by (induction es) auto

lemma on_account_minus:
  "on_account i (\<lambda>e. if P e then - f e else 0) es = - on_account i (\<lambda>e. if P e then f e else 0) es"
  by (induction es) auto

lemma on_account_nonneg: "(\<And>e. e \<in> set es \<Longrightarrow> 0 \<le> f e) \<Longrightarrow> 0 \<le> on_account i f es"
  by (induction es) auto

lemma on_account_zero: "(\<And>e. e \<in> set es \<Longrightarrow> accountId e = i \<Longrightarrow> f e = 0) \<Longrightarrow> on_account i f es = 0"
  by (induction es) auto

lemma allEntries_mem: "e \<in> set (allEntries s) \<longleftrightarrow> (\<exists>t es. (t, es) \<in> set (ms_entries s) \<and> e \<in> set es)"
  by (force simp: allEntries_def map_values_def)

lemma entries_okD:
  assumes "entries_ok s" "e \<in> set (allEntries s)"
  shows "mem_findTransaction s (transactionId e) \<noteq> None" "0 < amountCents e"
    "mem_account s (accountId e) \<noteq> None" "is_pending s (transactionId e) \<Longrightarrow> phase e = EntryPhase.PENDING"
  using assms by (fastforce simp: entries_ok_def allEntries_mem group_ok_def)+

lemma entries_ok_unfiled:
  assumes "entries_ok s" "mem_findTransaction s t = None"
  shows "map_get (ms_entries s) t = None"
proof (cases "map_get (ms_entries s) t")
  case (Some es)
  then have "group_ok s t es" using assms(1) by (auto simp: entries_ok_def dest: map_of_SomeD)
  with assms(2) show ?thesis by (simp add: group_ok_def)
qed

text \<open>The entries of one transaction, read back from the concatenation of all groups.\<close>

lemma group_filter:
  assumes "wf_map m" "\<forall>(t, es)\<in>set m. \<forall>e\<in>set es. transactionId e = t"
  shows "filter (\<lambda>e. transactionId e = t) (concat (map_values m)) = or_else (map_get m t) []"
  using assms
proof (induction m)
  case (Cons p m)
  obtain u es where p: "p = (u, es)" by (cases p)
  have IH: "filter (\<lambda>e. transactionId e = t) (concat (map_values m)) = or_else (map_get m t) []"
    using Cons by (auto simp: wf_map_def)
  have g: "\<forall>e\<in>set es. transactionId e = u" using Cons.prems(2) p by auto
  show ?case
  proof (cases "u = t")
    case True
    then have "filter (\<lambda>e. transactionId e = t) es = es" using g by (simp add: filter_id_conv)
    moreover have "map_get m t = None"
      using Cons.prems(1) p True by (simp add: wf_map_def map_of_eq_None_fst)
    ultimately show ?thesis using IH p True by (simp add: map_values_def)
  next
    case False
    then have "filter (\<lambda>e. transactionId e = t) es = []" using g by (auto simp: filter_empty_conv)
    then show ?thesis using IH p False by (simp add: map_values_def)
  qed
qed (simp add: map_values_def)

lemma entries_of_transaction:
  assumes "mem_inv s" "entries_ok s"
  shows "filter (\<lambda>e. transactionId e = t) (allEntries s) = mem_findEntriesByTransaction s t"
  using group_filter [of "ms_entries s" t] assms
  by (auto simp: allEntries_def mem_findEntriesByTransaction_def mem_inv_def entries_ok_def group_ok_def
      or_else_def)

lemma on_account_filter:
  "on_account i f (filter P es) = on_account i (\<lambda>e. if P e then f e else 0) es"
  by (induction es) auto

lemma allEntries_persist:
  assumes "map_get (ms_entries s) (tx_id tx) = None"
  shows "allEntries (mem_persist s tx es accs) = allEntries s @ es"
  using assms by (simp add: allEntries_def store_simps map_set_fresh map_values_def)

lemma is_pending_persist [store_simps]:
  "is_pending (mem_persist s tx es accs) t =
     (if t = tx_id tx then tx_status tx = LedgerTransactionStatus.PENDING else is_pending s t)"
  by (simp add: is_pending_def mem_findTransaction_def store_simps update_conv')

lemma findTransaction_persist [store_simps]:
  "mem_findTransaction (mem_persist s tx es accs) t =
     (if t = tx_id tx then Some tx else mem_findTransaction s t)"
  by (simp add: mem_findTransaction_def store_simps update_conv')

section \<open>Persisting built entries\<close>

text \<open>
  What \<open>post\<close> and \<open>resolvePending\<close> share: a transaction with a fresh identifier is persisted with
  the entries just built from \<open>ins\<close>.
\<close>

definition built_step ::
  "InMemoryLedgerStore \<Rightarrow> LedgerTransaction \<Rightarrow> EntryPhase \<Rightarrow> (LedgerEntryInput \<Rightarrow> CounterDelta) \<Rightarrow>
   LedgerEntryInput list \<Rightarrow> LedgerEntry list \<Rightarrow> InMemoryLedgerStore \<Rightarrow> bool" where
  "built_step s tx ph \<delta> ins es s1 \<longleftrightarrow>
     mem_findTransaction s (tx_id tx) = None \<and>
     (\<exists>entryId n m'. buildEntries entryId tx ph \<delta> n ins (mem_lockAccounts s (lockOrder ins)) = Inr (es, m') \<and>
        s1 = mem_persist s tx es (map_values m'))"

lemma built_stepI:
  assumes "buildEntries entryId tx ph \<delta> n ins (mem_lockAccounts s (lockOrder ins)) = Inr (es, m')"
    and "mem_findTransaction s (tx_id tx) = None"
  shows "built_step s tx ph \<delta> ins es (mem_persist s tx es (map_values m'))"
  using assms by (auto simp: built_step_def)

lemma built_accounts:
  assumes "mem_inv s" "built_step s tx ph \<delta> ins es s1"
  shows "mem_account s1 i = map_option (advance \<delta> i ins) (mem_account s i)"
  using assms mem.persist_built [of s _ tx ph \<delta> _ ins es]
  by (auto simp: built_step_def store_simps)

lemma built_entries:
  assumes "built_step s tx ph \<delta> ins es s1"
  shows "map entry_input es = ins" "\<forall>e\<in>set es. phase e = ph \<and> transactionId e = tx_id tx"
  using assms buildEntries_entries [of _ tx ph \<delta> _ ins] by (auto simp: built_step_def)

lemma built_allEntries:
  assumes "entries_ok s" "built_step s tx ph \<delta> ins es s1"
  shows "allEntries s1 = allEntries s @ es"
  using assms by (auto simp: built_step_def allEntries_persist entries_ok_unfiled)

lemma built_transactions:
  assumes "built_step s tx ph \<delta> ins es s1"
  shows "mem_findTransaction s1 t = (if t = tx_id tx then Some tx else mem_findTransaction s t)"
    and "is_pending s1 t =
           (if t = tx_id tx then tx_status tx = LedgerTransactionStatus.PENDING else is_pending s t)"
    and "ms_accountsByCode s1 = ms_accountsByCode s"
  using assms by (auto simp: built_step_def store_simps)

lemma built_groups:
  assumes "entries_ok s" "built_step s tx ph \<delta> ins es s1" "ins \<noteq> []"
  shows "ms_entries s1 = ms_entries s @ [(tx_id tx, es)]"
proof -
  have "es \<noteq> []" using built_entries(1) [OF assms(2)] assms(3) by auto
  with assms show ?thesis
    by (auto simp: built_step_def store_simps entries_ok_unfiled map_set_fresh)
qed

lemma built_mem_inv: "mem_inv s \<Longrightarrow> built_step s tx ph \<delta> ins es s1 \<Longrightarrow> mem_inv s1"
  using mem.persist_sinv by (auto simp: built_step_def store_simps)

lemma built_touched:
  assumes "built_step s tx ph \<delta> ins es s1" "e \<in> set ins"
  shows "\<exists>a. mem_account s (accountId e) = Some a \<and> \<not> violatesOverdraftGuard (advance \<delta> (accountId e) ins a)"
  using assms buildEntries_touched [of _ tx ph \<delta> _ ins "mem_lockAccounts s (lockOrder ins)" es _ e]
    mem.lock_get [of s "lockOrder ins" "accountId e"]
  by (auto simp: built_step_def store_simps split: if_splits)

lemma built_guard:
  assumes ok: "ledger_ok s" and b: "built_step s tx ph \<delta> ins es s1" and a: "mem_account s1 i = Some a"
  shows "\<not> violatesOverdraftGuard a"
proof -
  from a built_accounts [OF _ b] ok obtain a0 where a0: "mem_account s i = Some a0" "a = advance \<delta> i ins a0"
    by (auto simp: ledger_ok_def)
  show ?thesis
  proof (cases "i \<in> accountId ` set ins")
    case True
    with built_touched [OF b] a0 show ?thesis by fastforce
  next
    case False
    with a0 ok show ?thesis by (auto simp: advance_untouched ledger_ok_def accounts_ok_def account_ok_def)
  qed
qed

lemma built_codes_ok:
  assumes "ledger_ok s" "built_step s tx ph \<delta> ins es s1"
  shows "codes_ok s1"
  using assms built_transactions(3) [OF assms(2)] built_accounts [OF _ assms(2)]
  by (auto simp: codes_ok_def ledger_ok_def)

text \<open>Old entries keep their posted total; the new ones add their own.\<close>

lemma built_posted:
  assumes "entries_ok s" and b: "built_step s tx ph \<delta> ins es s1"
  shows "posted_total s1 d i = posted_total s d i +
           (if ph = EntryPhase.POSTED then on_account i (\<lambda>e. if direction e = d then amountCents e else 0) ins else 0)"
proof -
  have "on_account i (moved EntryPhase.POSTED d) es =
      (if ph = EntryPhase.POSTED then on_account i (\<lambda>e. if direction e = d then amountCents e else 0) (map entry_input es) else 0)"
    using built_entries(2) [OF b]
    by (auto simp: on_account_entry_input moved_def intro!: on_account_cong on_account_zero)
  then show ?thesis
    using built_allEntries [OF assms] built_entries(1) [OF b] by (simp add: posted_total_def)
qed

lemma built_held:
  assumes ok: "entries_ok s" and b: "built_step s tx ph \<delta> ins es s1"
  shows "held_total s1 d i = held_total s d i +
           (if tx_status tx = LedgerTransactionStatus.PENDING
            then on_account i (\<lambda>e. if direction e = d then amountCents e else 0) ins else 0)"
proof -
  have old: "on_account i (held s1 d) (allEntries s) = held_total s d i"
    unfolding held_total_def
  proof (rule on_account_cong)
    fix e assume "e \<in> set (allEntries s)"
    then have "transactionId e \<noteq> tx_id tx" using b entries_okD(1) [OF ok, of e] by (auto simp: built_step_def)
    then show "held s1 d e = held s d e" by (simp add: held_def built_transactions(2) [OF b])
  qed
  have "on_account i (held s1 d) es =
      (if tx_status tx = LedgerTransactionStatus.PENDING
       then on_account i (\<lambda>e. if direction e = d then amountCents e else 0) (map entry_input es) else 0)"
    using built_entries(2) [OF b] built_transactions(2) [OF b]
    by (auto simp: on_account_entry_input held_def intro!: on_account_cong on_account_zero)
  with old show ?thesis
    using built_allEntries [OF assms] built_entries(1) [OF b] by (simp add: held_total_def)
qed

lemma keys_okD:
  assumes "keys_ok s"
  shows "map_get (ms_byIdempotencyKey s) k = Some t \<Longrightarrow> t \<noteq> [] \<and> mem_findTransaction s t \<noteq> None"
    and "mem_findTransaction s t = Some tx \<Longrightarrow> map_get (ms_byIdempotencyKey s) (tx_idempotencyKey tx) = Some t"
  using assms unfolding keys_ok_def by (metis option.distinct(1))+

lemma findByIdempotencyKey_None:
  assumes "keys_ok s"
  shows "mem_findByIdempotencyKey s k = None \<longleftrightarrow> map_get (ms_byIdempotencyKey s) k = None"
proof (cases "map_get (ms_byIdempotencyKey s) k")
  case (Some t)
  with keys_okD(1) [OF assms Some] show ?thesis
    by (auto simp: mem_findByIdempotencyKey_def mem_findTransaction_def)
qed (simp add: mem_findByIdempotencyKey_def)

lemma built_keys_ok:
  assumes ok: "ledger_ok s" and b: "built_step s tx ph \<delta> ins es s1" and ne: "ins \<noteq> []"
    and key: "map_get (ms_byIdempotencyKey s) (tx_idempotencyKey tx) = None" and id: "tx_id tx \<noteq> []"
  shows "keys_ok s1"
proof -
  have "es \<noteq> []" using built_entries(1) [OF b] ne by auto
  then have "ms_byIdempotencyKey s1 = map_set (tx_idempotencyKey tx) (tx_id tx) (ms_byIdempotencyKey s)"
    "ms_entries s1 = map_set (tx_id tx) es (ms_entries s)"
    using b by (auto simp: built_step_def store_simps)
  moreover have "mem_findTransaction s (tx_id tx) = None" using b by (simp add: built_step_def)
  moreover have "tx_idempotencyKey t \<noteq> tx_idempotencyKey tx" if "mem_findTransaction s i = Some t" for i t
    using keys_okD(2) [OF _ that] key ok by (auto simp: ledger_ok_def)
  ultimately show ?thesis
    using ok key id built_transactions(1) [OF b]
    by (auto simp: keys_ok_def ledger_ok_def update_conv' split: if_splits)
qed

lemma group_ok_frame:
  assumes "group_ok s t es" "mem_findTransaction s1 t \<noteq> None" "is_pending s1 t \<Longrightarrow> is_pending s t"
    and "\<And>i. mem_account s1 i = None \<longleftrightarrow> mem_account s i = None"
  shows "group_ok s1 t es"
  using assms by (auto simp: group_ok_def)

lemma built_entries_ok:
  assumes ok: "ledger_ok s" and b: "built_step s tx ph \<delta> ins es s1" and ne: "ins \<noteq> []"
    and bal: "balanced_entries ins" "\<forall>e\<in>set ins. 0 < amountCents e"
    and ph: "tx_status tx = LedgerTransactionStatus.PENDING \<Longrightarrow> ph = EntryPhase.PENDING"
  shows "entries_ok s1"
proof -
  have acc: "mem_account s1 i = None \<longleftrightarrow> mem_account s i = None" for i
    using built_accounts [OF _ b] ok by (simp add: ledger_ok_def)
  have "group_ok s1 t g" if "(t, g) \<in> set (ms_entries s)" for t g
  proof -
    from that ok have g: "group_ok s t g" by (auto simp: ledger_ok_def entries_ok_def)
    then have "t \<noteq> tx_id tx" using b by (auto simp: group_ok_def built_step_def)
    with g acc show ?thesis
      by (intro group_ok_frame [OF g]) (auto simp: built_transactions [OF b] group_ok_def)
  qed
  moreover have "group_ok s1 (tx_id tx) es"
  proof -
    have "balanced_entries es"
      using bal(1) built_entries(1) [OF b] by (metis balanced_entries_def side_sum_entry_input)
    moreover have "0 < amountCents e \<and> mem_account s (accountId e) \<noteq> None" if "e \<in> set es" for e
    proof -
      have "entry_input e \<in> set ins" using that built_entries(1) [OF b] by auto
      then show ?thesis using bal(2) built_touched [OF b] by fastforce
    qed
    moreover have "es \<noteq> []" using built_entries(1) [OF b] ne by auto
    moreover have "one_phase es" using built_entries(2) [OF b] by (auto simp: one_phase_def)
    ultimately show ?thesis
      using built_entries(2) [OF b] ph acc by (auto simp: group_ok_def built_transactions [OF b])
  qed
  ultimately show ?thesis
    using built_groups [OF _ b ne] ok by (auto simp: entries_ok_def ledger_ok_def)
qed

section \<open>Postings keep the invariant\<close>

lemma post_transaction_fields [simp]:
  "tx_id (post_transaction cur now newTx d inp) = or_else (in_id inp) newTx"
  "tx_idempotencyKey (post_transaction cur now newTx d inp) = in_idempotencyKey inp"
  "tx_status (post_transaction cur now newTx d inp) =
     (if in_phase inp = PostPhase.PENDING then LedgerTransactionStatus.PENDING else LedgerTransactionStatus.POSTED)"
  by (simp_all add: post_transaction_def Let_def or_else_def)

lemma post_built:
  assumes "post memoryStore cur now newTx entryId inp s = Inr (r, s')"
    and "mem_findByIdempotencyKey s (in_idempotencyKey inp) = None"
    and "mem_findTransaction s (or_else (in_id inp) newTx) = None"
  obtains d es where
    "assertBalanced (in_entries inp) = Inr (d, d)"
    "r = \<lparr>res_transaction = post_transaction cur now newTx d inp, res_entries = es, replayed = False\<rparr>"
    "built_step s (post_transaction cur now newTx d inp) (entry_phase (in_phase inp))
       (deltaFor (entry_phase (in_phase inp))) (in_entries inp) es s'"
proof (rule mem.post_newE [OF assms(1)], goal_cases)
  case (2 d es m')
  then show ?thesis using assms(3) by (intro that) (auto simp: store_simps built_step_def)
qed (use assms(2) in \<open>simp add: store_simps\<close>)

lemma entry_phase_iff [simp]:
  "entry_phase p = EntryPhase.PENDING \<longleftrightarrow> p = PostPhase.PENDING"
  "entry_phase p = EntryPhase.POSTED \<longleftrightarrow> p = PostPhase.POSTED"
  by (cases p; simp)+

lemma post_keeps_ok:
  assumes ok: "ledger_ok s"
    and p: "post memoryStore cur now newTx entryId inp s = Inr (r, s')"
    and k: "mem_findByIdempotencyKey s (in_idempotencyKey inp) = None"
    and f: "mem_findTransaction s (or_else (in_id inp) newTx) = None" "or_else (in_id inp) newTx \<noteq> []"
  shows "ledger_ok s'"
proof -
  obtain d es where bal: "assertBalanced (in_entries inp) = Inr (d, d)"
    and b: "built_step s (post_transaction cur now newTx d inp) (entry_phase (in_phase inp))
       (deltaFor (entry_phase (in_phase inp))) (in_entries inp) es s'"
    using post_built [OF p k f(1)] by metis
  have ne: "in_entries inp \<noteq> []" using bal by (auto simp: assertBalanced_Inr)
  have oks: "mem_inv s" "entries_ok s" "keys_ok s" using ok by (auto simp: ledger_ok_def)
  have "accounts_ok s'"
    unfolding accounts_ok_def
  proof (intro allI impI)
    fix i a assume a: "mem_account s' i = Some a"
    then obtain a0 where a0: "mem_account s i = Some a0"
      "a = advance (deltaFor (entry_phase (in_phase inp))) i (in_entries inp) a0"
      by (auto simp: built_accounts [OF oks(1) b])
    moreover have "account_ok s i a0" using ok a0 by (auto simp: ledger_ok_def accounts_ok_def)
    ultimately show "account_ok s' i a"
      using built_guard [OF ok b a] built_posted [OF oks(2) b] built_held [OF oks(2) b]
      by (cases "in_phase inp") (auto simp: account_ok_def counter_simps on_account_zero)
  qed
  moreover have "entries_ok s'"
    by (rule built_entries_ok [OF ok b ne])
      (use bal in \<open>auto simp: assertBalanced_Inr balanced_entries_def split: if_splits\<close>)
  moreover have "keys_ok s'"
    by (rule built_keys_ok [OF ok b ne]) (use f k in \<open>auto simp: findByIdempotencyKey_None [OF oks(3)]\<close>)
  ultimately show ?thesis
    using built_mem_inv [OF oks(1) b] built_codes_ok [OF ok b] by (simp add: ledger_ok_def)
qed

section \<open>Resolutions keep the invariant\<close>

lemma persist_status:
  "mem_account (mem_persist s p [] []) = mem_account s"
  "allEntries (mem_persist s p [] []) = allEntries s"
  "ms_entries (mem_persist s p [] []) = ms_entries s"
  "ms_accountsByCode (mem_persist s p [] []) = ms_accountsByCode s"
  "ms_byIdempotencyKey (mem_persist s p [] []) = ms_byIdempotencyKey s"
  by (simp_all add: fun_eq_iff mem_account_def allEntries_def store_simps alist.put_all_def)

lemma resolve_transaction_fields [simp]:
  "tx_id (resolve_transaction commit now newTx key ty pid pending) = newTx"
  "tx_idempotencyKey (resolve_transaction commit now newTx key ty pid pending) = key"
  "tx_status (resolve_transaction commit now newTx key ty pid pending) =
     (if commit then LedgerTransactionStatus.POSTED else LedgerTransactionStatus.VOIDED)"
  "tx_amountCents (resolve_transaction commit now newTx key ty pid pending) = tx_amountCents pending"
  "pendingTransactionId (resolve_transaction commit now newTx key ty pid pending) = Some pid"
  by (simp_all add: resolve_transaction_def)

lemma resolved_pending_fields [simp]:
  "tx_id (resolved_pending commit now pending) = tx_id pending"
  "tx_idempotencyKey (resolved_pending commit now pending) = tx_idempotencyKey pending"
  "tx_status (resolved_pending commit now pending) =
     (if commit then LedgerTransactionStatus.POSTED else LedgerTransactionStatus.VOIDED)"
  by (simp_all add: resolved_pending_def)

lemma findTransaction_id: "mem_inv s \<Longrightarrow> mem_findTransaction s i = Some tx \<Longrightarrow> tx_id tx = i"
  by (auto simp: mem_inv_def mem_findTransaction_def dest: keyed_get)

lemma resolve_built:
  assumes "resolvePending memoryStore now newTx entryId pid key ty commit s = Inr (r, s')"
    and "mem_findByIdempotencyKey s key = None" "mem_findTransaction s newTx = None"
  obtains pending es s1 where
    "mem_findTransaction s pid = Some pending" "tx_status pending = LedgerTransactionStatus.PENDING"
    "r = \<lparr>res_transaction = resolve_transaction commit now newTx key ty pid pending,
          res_entries = es, replayed = False\<rparr>"
    "built_step s (resolve_transaction commit now newTx key ty pid pending)
       (if commit then EntryPhase.POSTED else EntryPhase.VOID) (resolveDelta commit)
       (map entry_input (mem_findEntriesByTransaction s pid)) es s1"
    "s' = mem_persist s1 (resolved_pending commit now pending) [] []"
proof (rule mem.resolve_newE [OF assms(1)], goal_cases)
  case (2 pending es m')
  note c = 2 [unfolded store_simps]
  have "mem_findTransaction s (tx_id (resolve_transaction commit now newTx key ty pid pending)) = None"
    using assms(3) by simp
  from that [OF c(2,3,5) built_stepI [OF c(4) this] c(6)] show ?thesis .
qed (use assms(2) in \<open>simp add: store_simps\<close>)

text \<open>Resolving releases exactly what the pending transaction held.\<close>

lemma resolve_held:
  assumes ok: "mem_inv s" "entries_ok s" and pend: "is_pending s pid"
    and b: "built_step s tx ph \<delta> (map entry_input (mem_findEntriesByTransaction s pid)) es s1"
    and st: "tx_status tx \<noteq> LedgerTransactionStatus.PENDING" "tx_status p \<noteq> LedgerTransactionStatus.PENDING"
    and id: "tx_id p = pid"
  shows "held_total (mem_persist s1 p [] []) d i = held_total s d i -
           on_account i (\<lambda>e. if direction e = d then amountCents e else 0) (mem_findEntriesByTransaction s pid)"
proof -
  let ?s = "mem_persist s1 p [] []" and ?f = "\<lambda>e. if direction e = d then amountCents e else 0"
  have "held s d e = held ?s d e + (if transactionId e = pid then ?f e else 0)"
    if "e \<in> set (allEntries s)" for e
  proof -
    have "transactionId e \<noteq> tx_id tx" using b entries_okD(1) [OF ok(2) that] by (auto simp: built_step_def)
    then show ?thesis using pend st id by (auto simp: held_def store_simps built_transactions [OF b])
  qed
  then have "held_total s d i = on_account i (\<lambda>e. held ?s d e + (if transactionId e = pid then ?f e else 0)) (allEntries s)"
    unfolding held_total_def by (rule on_account_cong)
  also have "\<dots> = on_account i (held ?s d) (allEntries s) + on_account i ?f (mem_findEntriesByTransaction s pid)"
    by (simp add: on_account_add on_account_filter [symmetric] entries_of_transaction [OF ok])
  finally have "held_total s d i = \<dots>" .
  moreover have "on_account i (held ?s d) es = 0"
    using built_entries(2) [OF b] st id
    by (intro on_account_zero) (auto simp: held_def store_simps built_transactions [OF b])
  ultimately show ?thesis
    by (simp add: held_total_def persist_status built_allEntries [OF ok(2) b])
qed

lemma pending_group:
  assumes "ledger_ok s" "is_pending s pid"
  shows "group_ok s pid (mem_findEntriesByTransaction s pid)"
proof -
  have "mem_findTransaction s pid \<noteq> None" using assms(2) by (auto simp: is_pending_def split: option.splits)
  with assms(1) obtain es where es: "map_get (ms_entries s) pid = Some es"
    by (auto simp: ledger_ok_def keys_ok_def)
  then have "(pid, es) \<in> set (ms_entries s)" by (rule map_of_SomeD)
  with assms(1) es show ?thesis
    by (auto simp: ledger_ok_def entries_ok_def mem_findEntriesByTransaction_def)
qed

lemma resolve_keeps_ok:
  assumes ok: "ledger_ok s"
    and p: "resolvePending memoryStore now newTx entryId pid key ty commit s = Inr (r, s')"
    and k: "mem_findByIdempotencyKey s key = None"
    and f: "mem_findTransaction s newTx = None" "newTx \<noteq> []"
  shows "ledger_ok s'"
proof -
  let ?g = "mem_findEntriesByTransaction s pid" and ?ph = "if commit then EntryPhase.POSTED else EntryPhase.VOID"
  obtain pending es s1 where pend: "mem_findTransaction s pid = Some pending"
      "tx_status pending = LedgerTransactionStatus.PENDING"
    and b: "built_step s (resolve_transaction commit now newTx key ty pid pending)
       ?ph (resolveDelta commit) (map entry_input ?g) es s1"
    and s': "s' = mem_persist s1 (resolved_pending commit now pending) [] []"
    using resolve_built [OF p k f(1)] by metis
  have oks: "mem_inv s" "entries_ok s" "keys_ok s" using ok by (auto simp: ledger_ok_def)
  have isp: "is_pending s pid" using pend by (simp add: is_pending_def)
  note g = pending_group [OF ok isp]
  have ne: "map entry_input ?g \<noteq> []" using g by (simp add: group_ok_def)
  have pid: "tx_id pending = pid" "pid \<noteq> newTx" using findTransaction_id [OF oks(1) pend(1)] pend f by auto
  have keys: "keys_ok s1"
    by (rule built_keys_ok [OF ok b ne]) (use f k in \<open>auto simp: findByIdempotencyKey_None [OF oks(3)]\<close>)
  have entries: "entries_ok s1"
    by (rule built_entries_ok [OF ok b ne]) (use g in \<open>auto simp: group_ok_def balanced_entries_def split: if_splits\<close>)
  have find: "mem_findTransaction s1 pid = Some pending" using pend pid by (simp add: built_transactions [OF b])
  have "accounts_ok s'"
    unfolding accounts_ok_def
  proof (intro allI impI)
    fix i a assume a: "mem_account s' i = Some a"
    then have a1: "mem_account s1 i = Some a" by (simp add: s' persist_status)
    then obtain a0 where a0: "mem_account s i = Some a0"
      "a = advance (resolveDelta commit) i (map entry_input ?g) a0"
      by (auto simp: built_accounts [OF oks(1) b])
    moreover have "account_ok s i a0" using ok a0 by (auto simp: ledger_ok_def accounts_ok_def)
    moreover have "posted_total s' d i = posted_total s1 d i" for d
      by (simp add: posted_total_def s' persist_status)
    moreover have "held_total s' d i = held_total s d i -
       on_account i (\<lambda>e. if direction e = d then amountCents e else 0) ?g" for d
      unfolding s' by (rule resolve_held [OF oks(1,2) isp b]) (auto simp: pid)
    ultimately show "account_ok s' i a"
      using built_guard [OF ok b a1] built_posted [OF oks(2) b]
      by (cases commit)
        (auto simp: account_ok_def counter_simps on_account_zero on_account_entry_input on_account_minus
          cong: if_cong)
  qed
  moreover have "codes_ok s'" "mem_inv s'"
    using built_codes_ok [OF ok b] mem.persist_sinv [OF built_mem_inv [OF oks(1) b]]
    by (simp_all add: s' codes_ok_def persist_status store_simps)
  moreover have "keys_ok s'"
    using keys find pid by (auto simp: keys_ok_def s' persist_status store_simps)
  moreover have "entries_ok s'"
    using entries pid by (auto simp: entries_ok_def s' persist_status group_ok_def store_simps split: if_splits)
  ultimately show ?thesis by (simp add: ledger_ok_def)
qed

section \<open>Account creation keeps the invariant\<close>

lemma createAccount_cases:
  assumes "codes_ok s"
  shows "snd (createAccount i tmpl s) =
     (if map_get (ms_accountsByCode s) (at_code tmpl) = None then
        s\<lparr>ms_accounts := map_set i (new_account i tmpl) (ms_accounts s),
          ms_accountsByCode := map_set (at_code tmpl) i (ms_accountsByCode s)\<rparr>
      else s)"
proof (cases "map_get (ms_accountsByCode s) (at_code tmpl)")
  case (Some j)
  with assms have "j \<noteq> []" unfolding codes_ok_def by (metis option.distinct(1))
  with Some show ?thesis by (simp add: createAccount_def)
qed (simp add: createAccount_def new_account_def Let_def)

lemma new_account_ok: "account_ok s i (new_account i tmpl) \<longleftrightarrow>
    (\<forall>d. d = EntryDirection.DEBIT \<or> d = EntryDirection.CREDIT \<longrightarrow> posted_total s d i = 0 \<and> held_total s d i = 0)"
  by (auto simp: account_ok_def new_account_def violatesOverdraftGuard_def computeBalances_def Let_def)

lemma createAccount_keeps_ok:
  assumes ok: "ledger_ok s" and fresh: "mem_account s i = None" "i \<noteq> []"
  shows "ledger_ok (snd (createAccount i tmpl s))"
proof (cases "map_get (ms_accountsByCode s) (at_code tmpl)")
  case None
  define s' where "s' = snd (createAccount i tmpl s)"
  have codes: "codes_ok s" using ok by (simp add: ledger_ok_def)
  have s'_eq: "s' = s\<lparr>ms_accounts := map_set i (new_account i tmpl) (ms_accounts s),
          ms_accountsByCode := map_set (at_code tmpl) i (ms_accountsByCode s)\<rparr>"
    using None by (simp add: s'_def createAccount_cases [OF codes])
  have id: "la_id (new_account i tmpl) = i" "la_code (new_account i tmpl) = at_code tmpl"
    by (simp_all add: new_account_def)
  have acc: "mem_account s' j = (if j = i then Some (new_account i tmpl) else mem_account s j)" for j
    by (simp add: s'_eq mem_account_def update_conv')
  have same: "allEntries s' = allEntries s" "mem_findTransaction s' = mem_findTransaction s"
    "ms_entries s' = ms_entries s" "ms_byIdempotencyKey s' = ms_byIdempotencyKey s"
    "is_pending s' = is_pending s"
    by (simp_all add: s'_eq allEntries_def mem_findTransaction_def is_pending_def fun_eq_iff)
  have totals: "posted_total s' d j = posted_total s d j" "held_total s' d j = held_total s d j" for d j
    by (simp_all add: posted_total_def held_total_def held_def [abs_def] same)
  have "e \<in> set (allEntries s) \<Longrightarrow> accountId e \<noteq> i" for e
    using ok fresh entries_okD(3) [of s e] by (auto simp: ledger_ok_def)
  then have "posted_total s d i = 0" "held_total s d i = 0" for d
    by (auto simp: posted_total_def held_total_def intro: on_account_zero)
  then have "account_ok s' i (new_account i tmpl)" by (simp add: new_account_ok totals)
  moreover have "account_ok s' j a \<longleftrightarrow> account_ok s j a" for j a by (simp add: account_ok_def totals)
  ultimately have "accounts_ok s'" using ok by (auto simp: accounts_ok_def acc ledger_ok_def)
  moreover have "mem_inv s'"
    using ok keyed_update [of la_id "ms_accounts s" "new_account i tmpl"]
    by (simp add: ledger_ok_def mem_inv_def s'_eq alist.invar_put id)
  moreover have "entries_ok s'"
    using ok by (fastforce simp: ledger_ok_def entries_ok_def group_ok_def same acc)
  moreover have "keys_ok s'" using ok by (simp add: ledger_ok_def keys_ok_def same)
  moreover have "codes_ok s'"
  proof -
    have "la_code a \<noteq> at_code tmpl" if "mem_account s j = Some a" for j a
      using codes None that unfolding codes_ok_def by (metis option.distinct(1))
    moreover have "ms_accountsByCode s' = map_set (at_code tmpl) i (ms_accountsByCode s)"
      by (simp add: s'_eq)
    ultimately show ?thesis using codes fresh by (auto simp: codes_ok_def acc update_conv' id)
  qed
  ultimately show ?thesis by (simp add: ledger_ok_def s'_def)
qed (use ok in \<open>simp add: createAccount_cases ledger_ok_def\<close>)

lemma createAccount_frame:
  "mem_account s j = None \<Longrightarrow> j \<noteq> i \<Longrightarrow> mem_account (snd (createAccount i tmpl s)) j = None"
  by (auto simp: createAccount_def mem_account_def new_account_def Let_def update_conv' split: option.split)

lemma createAccounts_keep_ok:
  assumes "ledger_ok s" "distinct (map ids [n..<n + length ts])"
    and "\<forall>j\<in>{n..<n + length ts}. ids j \<noteq> [] \<and> mem_account s (ids j) = None"
  shows "ledger_ok (createAccounts ids n ts s)"
  using assms
proof (induction ts arbitrary: n s)
  case (Cons t ts)
  have up: "[n..<n + length (t # ts)] = n # [Suc n..<Suc n + length ts]"
    using upt_conv_Cons [of n "n + length (t # ts)"] by simp
  have "ids n \<notin> ids ` {Suc n..<Suc n + length ts}"
    using Cons.prems(2) unfolding up by (simp del: upt_Suc)
  then have ne: "ids j \<noteq> ids n" if "j \<in> {Suc n..<Suc n + length ts}" for j
    using that by (metis imageI)
  have "ledger_ok (createAccounts ids (Suc n) ts (snd (createAccount (ids n) t s)))"
  proof (rule Cons.IH)
    show "ledger_ok (snd (createAccount (ids n) t s))"
      using Cons.prems by (intro createAccount_keeps_ok) auto
    show "distinct (map ids [Suc n..<Suc n + length ts])" using Cons.prems(2) unfolding up by (simp del: upt_Suc)
    show "\<forall>j\<in>{Suc n..<Suc n + length ts}. ids j \<noteq> [] \<and> mem_account (snd (createAccount (ids n) t s)) (ids j) = None"
      using Cons.prems(3) ne by (auto intro!: createAccount_frame)
  qed
  then show ?case by simp
qed simp

lemma emptyStore_ok: "ledger_ok emptyStore"
  by (simp add: ledger_ok_def mem_inv_def entries_ok_def accounts_ok_def codes_ok_def keys_ok_def
      emptyStore_def mem_account_def mem_findTransaction_def)

lemma newStore_ok:
  assumes "distinct (map ids [0..<10])" "\<forall>j<10. ids j \<noteq> []"
  shows "ledger_ok (newStore ids)"
proof -
  have "length SINGLETON_ACCOUNTS = 10" by (simp add: SINGLETON_ACCOUNTS_def)
  with assms show ?thesis
    unfolding newStore_def
    by (intro createAccounts_keep_ok) (auto simp: emptyStore_ok, simp_all add: emptyStore_def mem_account_def)
qed

section \<open>Reachable ledgers\<close>

text \<open>
  The identifiers an operation draws are non-empty and not in use: what a ULID generator promises.
  A caller may choose the identifier of a posting (\<open>input.id\<close>); it is held to the same.
\<close>

inductive ledger_step :: "InMemoryLedgerStore \<Rightarrow> InMemoryLedgerStore \<Rightarrow> bool" where
  create: "mem_account s i = None \<Longrightarrow> i \<noteq> [] \<Longrightarrow> ledger_step s (snd (createAccount i tmpl s))"
| open_customer: "mem_account s i = None \<Longrightarrow> mem_account s j = None \<Longrightarrow> i \<noteq> [] \<Longrightarrow> j \<noteq> [] \<Longrightarrow> i \<noteq> j \<Longrightarrow>
    ledger_step s (snd (openCustomerAccounts i j customer s))"
| post: "post memoryStore cur now newTx entryId inp s = Inr (r, s') \<Longrightarrow>
    mem_findTransaction s (or_else (in_id inp) newTx) = None \<Longrightarrow> or_else (in_id inp) newTx \<noteq> [] \<Longrightarrow>
    ledger_step s s'"
| resolve: "resolvePending memoryStore now newTx entryId pid key ty commit s = Inr (r, s') \<Longrightarrow>
    mem_findTransaction s newTx = None \<Longrightarrow> newTx \<noteq> [] \<Longrightarrow> ledger_step s s'"

inductive ledger_reachable :: "InMemoryLedgerStore \<Rightarrow> bool" where
  init: "distinct (map ids [0..<10]) \<Longrightarrow> \<forall>j<10. ids j \<noteq> [] \<Longrightarrow> ledger_reachable (newStore ids)"
| step: "ledger_reachable s \<Longrightarrow> ledger_step s s' \<Longrightarrow> ledger_reachable s'"

lemma openCustomerAccounts_eq:
  "snd (openCustomerAccounts i j customer s) =
     snd (createAccount j ((customerAccountTemplates customer ! 1)\<lparr>at_ownerId := Some customer\<rparr>)
       (snd (createAccount i ((customerAccountTemplates customer ! 0)\<lparr>at_ownerId := Some customer\<rparr>) s)))"
  by (simp add: openCustomerAccounts_def Let_def split: prod.splits)

lemma ledger_step_keeps_ok:
  assumes "ledger_step s s'" "ledger_ok s"
  shows "ledger_ok s'"
  using assms
proof (induction rule: ledger_step.induct)
  case (create s i tmpl)
  then show ?case by (rule createAccount_keeps_ok [rotated])
next
  case (open_customer s i j customer)
  then show ?case
    unfolding openCustomerAccounts_eq by (intro createAccount_keeps_ok createAccount_frame) auto
next
  case (post cur now newTx entryId inp s r s')
  then show ?case
    by (cases "mem_findByIdempotencyKey s (in_idempotencyKey inp)")
      (auto intro: post_keeps_ok simp: mem.post_replay store_simps)
next
  case (resolve now newTx entryId pid key ty commit s r s')
  then show ?case
    by (cases "mem_findByIdempotencyKey s key")
      (auto intro: resolve_keeps_ok simp: mem.resolve_replay store_simps)
qed

lemma ledger_reachable_ok: "ledger_reachable s \<Longrightarrow> ledger_ok s"
  by (induction rule: ledger_reachable.induct) (auto intro: newStore_ok ledger_step_keeps_ok)

end
