(* ===== verification/Ledger_Properties.thy ===== *)
theory Ledger_Properties
  imports Ledger_Reachability
begin

text \<open>
  The properties of the ledger engine over its in-memory store: the run-time checker is silent in
  every reachable state, the trial balance closes, holds can always be resolved, and an idempotency
  key is honoured for ever.  A small worked ledger at the end serves the witnesses.
\<close>

section \<open>From the invariant to the checker\<close>

lemma side_sum_filter_groups:
  assumes "entries_ok s" "mem_inv s"
  shows "balanced_entries (filter (\<lambda>e. transactionId e = t) (allEntries s))"
proof (cases "map_get (ms_entries s) t")
  case (Some es)
  then have "group_ok s t es" using assms(1) by (auto simp: entries_ok_def dest: map_of_SomeD)
  with Some show ?thesis
    by (simp add: entries_of_transaction [OF assms(2,1)] mem_findEntriesByTransaction_def group_ok_def)
qed (simp add: entries_of_transaction [OF assms(2,1)] mem_findEntriesByTransaction_def balanced_entries_def)

lemma balanced_concat: "(\<forall>g\<in>set gs. balanced_entries g) \<Longrightarrow> balanced_entries (concat gs)"
  by (induction gs) (auto simp: balanced_entries_def)

lemma allEntries_balanced: "entries_ok s \<Longrightarrow> balanced_entries (allEntries s)"
  unfolding allEntries_def
  by (rule balanced_concat) (auto simp: entries_ok_def map_values_def group_ok_def)

lemma held_total_nonneg: "entries_ok s \<Longrightarrow> 0 \<le> held_total s d i"
  unfolding held_total_def by (rule on_account_nonneg) (auto simp: held_def dest: entries_okD(2))

lemma account_mem:
  assumes inv: "mem_inv s"
  shows "a \<in> set (allAccounts s) \<longleftrightarrow> mem_account s (la_id a) = Some a"
proof
  assume "a \<in> set (allAccounts s)"
  then obtain i where i: "(i, a) \<in> set (ms_accounts s)" by (auto simp: allAccounts_def map_values_def)
  moreover have "la_id a = i" using i inv by (auto simp: mem_inv_def list_all_iff)
  ultimately show "mem_account s (la_id a) = Some a"
    using inv by (simp add: mem_account_def mem_inv_def wf_map_def)
next
  assume "mem_account s (la_id a) = Some a"
  then have "(la_id a, a) \<in> set (ms_accounts s)" unfolding mem_account_def by (rule map_of_SomeD)
  then show "a \<in> set (allAccounts s)" by (force simp: allAccounts_def map_values_def)
qed

lemma allAccounts_ids: "mem_inv s \<Longrightarrow> map la_id (allAccounts s) = map fst (ms_accounts s)"
  by (auto simp: allAccounts_def map_values_def mem_inv_def list_all_iff)

lemma ledger_okD:
  assumes "ledger_ok s" "a \<in> set (allAccounts s)"
  shows "account_ok s (la_id a) a" "0 \<le> debitsPending a" "0 \<le> creditsPending a"
    "allowsNegative a \<or> 0 \<le> bal_available (computeBalances a)"
proof -
  show "account_ok s (la_id a) a" using assms by (simp add: account_mem ledger_ok_def accounts_ok_def)
  then show "0 \<le> debitsPending a" "0 \<le> creditsPending a"
    "allowsNegative a \<or> 0 \<le> bal_available (computeBalances a)"
    using assms(1) held_total_nonneg by (auto simp: account_ok_def overdraft_guard_iff ledger_ok_def)
qed

lemma ledger_ok_check:
  assumes ok: "ledger_ok s"
  shows "checkInvariants (allAccounts s) (allEntries s) = []"
proof -
  have oks: "mem_inv s" "entries_ok s" using ok by (auto simp: ledger_ok_def)
  have "allowsNegative a \<or> 0 \<le> bal_posted (computeBalances a)" if "a \<in> set (allAccounts s)" for a
    using ledger_okD [OF ok that] available_le_posted [of a] by auto
  then show ?thesis
    using side_sum_filter_groups [OF oks(2,1)] allEntries_balanced [OF oks(2)] ledger_okD(1) [OF ok]
      entries_okD(2) [OF oks(2)]
    by (auto simp: checkInvariants_Nil account_ok_def posted_total_def)
qed

section \<open>The trial balance\<close>

lemma sum_list_swap:
  fixes f :: "'a \<Rightarrow> 'b \<Rightarrow> int"
  shows "(\<Sum>x\<leftarrow>xs. \<Sum>y\<leftarrow>ys. f x y) = (\<Sum>y\<leftarrow>ys. \<Sum>x\<leftarrow>xs. f x y)"
  by (induction xs) (simp_all add: sum_list_addf)

lemma sum_list_pick:
  fixes v :: int
  assumes "distinct ks" "k \<in> set ks"
  shows "(\<Sum>i\<leftarrow>ks. if k = i then v else 0) = v"
  using assms
proof (induction ks)
  case (Cons i ks)
  have "k \<notin> set js \<Longrightarrow> (\<Sum>i\<leftarrow>js. if k = i then v else 0) = 0" for js by (induction js) auto
  with Cons show ?case by auto
qed simp

text \<open>Summing the totals per account over all accounts is summing over all entries.\<close>

lemma on_account_all:
  assumes "distinct ks" "\<forall>e\<in>set es. accountId e \<in> set ks"
  shows "(\<Sum>i\<leftarrow>ks. on_account i f es) = (\<Sum>e\<leftarrow>es. f e)"
proof -
  have "(\<Sum>i\<leftarrow>ks. on_account i f es) = (\<Sum>i\<leftarrow>ks. \<Sum>e\<leftarrow>es. if accountId e = i then f e else 0)"
    by (simp add: on_account_def sum_list_filter_if)
  also have "\<dots> = (\<Sum>e\<leftarrow>es. \<Sum>i\<leftarrow>ks. if accountId e = i then f e else 0)" by (rule sum_list_swap)
  also have "\<dots> = (\<Sum>e\<leftarrow>es. f e)"
    using assms by (intro arg_cong [where f = sum_list] map_cong refl) (simp add: sum_list_pick)
  finally show ?thesis .
qed

lemma moved_group:
  assumes "group_ok s t es"
  shows "(\<Sum>e\<leftarrow>es. moved ph EntryDirection.DEBIT e) = (\<Sum>e\<leftarrow>es. moved ph EntryDirection.CREDIT e)"
proof -
  obtain ph' where ph': "\<forall>e\<in>set es. phase e = ph'" using assms by (auto simp: group_ok_def one_phase_def)
  then have "(\<Sum>e\<leftarrow>es. moved ph d e) = (if ph' = ph then side_sum d es else 0)" for d
    by (induction es) (auto simp: moved_def)
  then show ?thesis using assms by (simp add: group_ok_def balanced_entries_def)
qed

lemma moved_all_balanced:
  assumes "entries_ok s"
  shows "(\<Sum>e\<leftarrow>allEntries s. moved ph EntryDirection.DEBIT e) = (\<Sum>e\<leftarrow>allEntries s. moved ph EntryDirection.CREDIT e)"
proof -
  have "\<forall>g\<in>set gs. \<exists>t. group_ok s t g \<Longrightarrow>
      (\<Sum>e\<leftarrow>concat gs. moved ph EntryDirection.DEBIT e) = (\<Sum>e\<leftarrow>concat gs. moved ph EntryDirection.CREDIT e)" for gs
    by (induction gs) (auto dest: moved_group [where ph = ph])
  moreover have "\<forall>g\<in>set (map_values (ms_entries s)). \<exists>t. group_ok s t g"
    using assms by (fastforce simp: entries_ok_def map_values_def)
  ultimately show ?thesis unfolding allEntries_def by blast
qed

lemma ledger_ok_trial_balance:
  assumes ok: "ledger_ok s"
  shows "(\<Sum>a\<leftarrow>allAccounts s. debitsPosted a) = (\<Sum>a\<leftarrow>allAccounts s. creditsPosted a)"
proof -
  have oks: "mem_inv s" "entries_ok s" using ok by (auto simp: ledger_ok_def)
  let ?ks = "map la_id (allAccounts s)"
  have dist: "distinct ?ks" using oks(1) by (simp add: allAccounts_ids) (simp add: mem_inv_def wf_map_def)
  have known: "\<forall>e\<in>set (allEntries s). accountId e \<in> set ?ks"
    using entries_okD(3) [OF oks(2)] oks(1)
    by (auto simp: allAccounts_ids mem_account_def map_of_eq_None_fst simp flip: set_map)
  have total: "(\<Sum>a\<leftarrow>allAccounts s. posted_total s d (la_id a)) = (\<Sum>e\<leftarrow>allEntries s. moved EntryPhase.POSTED d e)" for d
    using on_account_all [OF dist known, of "moved EntryPhase.POSTED d"]
    by (simp add: posted_total_def comp_def)
  have "(\<Sum>a\<leftarrow>allAccounts s. debitsPosted a) = (\<Sum>a\<leftarrow>allAccounts s. posted_total s EntryDirection.DEBIT (la_id a))"
    "(\<Sum>a\<leftarrow>allAccounts s. creditsPosted a) = (\<Sum>a\<leftarrow>allAccounts s. posted_total s EntryDirection.CREDIT (la_id a))"
    using ledger_okD(1) [OF ok]
    by (auto simp: account_ok_def intro!: arg_cong [where f = sum_list] map_cong)
  then show ?thesis using moved_all_balanced [OF oks(2)] by (simp add: total)
qed

section \<open>What a step may change\<close>

text \<open>Entries are immutable, and a transaction only ever leaves \<open>PENDING\<close>.\<close>

definition tx_evolves :: "LedgerTransaction \<Rightarrow> LedgerTransaction \<Rightarrow> bool" where
  "tx_evolves t t' \<longleftrightarrow>
     tx_id t' = tx_id t \<and> tx_idempotencyKey t' = tx_idempotencyKey t \<and> tx_amountCents t' = tx_amountCents t \<and>
     (tx_status t' = tx_status t \<or> tx_status t = LedgerTransactionStatus.PENDING)"

lemma tx_evolves_refl [simp]: "tx_evolves t t"
  by (simp add: tx_evolves_def)

lemma built_keeps:
  assumes "entries_ok s" "built_step s tx ph \<delta> ins es s1"
  shows "mem_findTransaction s t = Some x \<Longrightarrow> mem_findTransaction s1 t = Some x"
    and "map_get (ms_entries s) t = Some g \<Longrightarrow> map_get (ms_entries s1) t = Some g"
proof -
  show "mem_findTransaction s t = Some x \<Longrightarrow> mem_findTransaction s1 t = Some x"
    using assms(2) by (auto simp: built_transactions [OF assms(2)] built_step_def)
  show "map_get (ms_entries s) t = Some g \<Longrightarrow> map_get (ms_entries s1) t = Some g"
    using assms(2) entries_ok_unfiled [OF assms(1), of "tx_id tx"]
    by (auto simp: built_step_def store_simps update_conv')
qed

lemma createAccount_keeps:
  "mem_findTransaction (snd (createAccount i tmpl s)) = mem_findTransaction s"
  "ms_entries (snd (createAccount i tmpl s)) = ms_entries s"
  by (auto simp: createAccount_def mem_findTransaction_def Let_def split: option.split)

lemma step_keeps:
  assumes "ledger_step s s'" and "ledger_ok s"
    and "mem_findTransaction s t = Some x" "map_get (ms_entries s) t = Some g"
  shows "(\<exists>x'. mem_findTransaction s' t = Some x' \<and> tx_evolves x x') \<and> map_get (ms_entries s') t = Some g"
  using assms
proof (induction rule: ledger_step.induct)
  case (post cur now newTx entryId inp s r s')
  then show ?case
  proof (cases "mem_findByIdempotencyKey s (in_idempotencyKey inp)")
    case None
    from post_built [OF post(1) None post(2)] obtain d es where
      "built_step s (post_transaction cur now newTx d inp) (entry_phase (in_phase inp))
       (deltaFor (entry_phase (in_phase inp))) (in_entries inp) es s'" by metis
    from built_keeps [OF _ this] post show ?thesis by (fastforce simp: ledger_ok_def)
  qed (auto simp: mem.post_replay store_simps)
next
  case (resolve now newTx entryId pid key ty commit s r s')
  then show ?case
  proof (cases "mem_findByIdempotencyKey s key")
    case None
    from resolve_built [OF resolve(1) None resolve(2)] obtain pending es s1 where
      pend: "mem_findTransaction s pid = Some pending" "tx_status pending = LedgerTransactionStatus.PENDING"
      and b: "built_step s (resolve_transaction commit now newTx key ty pid pending)
       (if commit then EntryPhase.POSTED else EntryPhase.VOID) (resolveDelta commit)
       (map entry_input (mem_findEntriesByTransaction s pid)) es s1"
      and s': "s' = mem_persist s1 (resolved_pending commit now pending) [] []" by metis
    have ok: "mem_inv s" "entries_ok s" using resolve.prems(1) by (auto simp: ledger_ok_def)
    have "tx_id pending = pid" by (rule findTransaction_id [OF ok(1) pend(1)])
    with built_keeps [OF ok(2) b] resolve.prems pend show ?thesis
      by (auto simp: s' persist_status store_simps tx_evolves_def resolved_pending_def)
  qed (auto simp: mem.resolve_replay store_simps)
qed (auto simp: createAccount_keeps openCustomerAccounts_eq)

section \<open>Resolving a hold\<close>

lemma pending_resolvable:
  assumes ok: "ledger_ok s"
    and pend: "mem_findTransaction s pid = Some p" "tx_status p = LedgerTransactionStatus.PENDING"
    and k: "mem_findByIdempotencyKey s key = None"
  shows "\<exists>r s'. resolvePending memoryStore now newTx entryId pid key ty commit s = Inr (r, s') \<and>
           mem_findTransaction s' pid = Some (resolved_pending commit now p)"
proof -
  let ?ins = "map entry_input (mem_findEntriesByTransaction s pid)"
  let ?tx = "resolve_transaction commit now newTx key ty pid p"
  let ?ph = "if commit then EntryPhase.POSTED else EntryPhase.VOID"
  have isp: "is_pending s pid" using pend by (simp add: is_pending_def)
  note g = pending_group [OF ok isp]
  have "\<exists>es m'. buildEntries entryId ?tx ?ph (resolveDelta commit) 0 ?ins (mem_lockAccounts s (lockOrder ?ins)) = Inr (es, m')"
  proof (rule buildEntries_succeeds)
    show "\<forall>e\<in>set ?ins. \<exists>a. map_get (mem_lockAccounts s (lockOrder ?ins)) (accountId e) = Some a \<and> \<not> violatesOverdraftGuard a"
      using g ok mem.lock_get [of s "lockOrder ?ins"]
      by (fastforce simp: store_simps group_ok_def ledger_ok_def accounts_ok_def account_ok_def)
    show "\<not> violatesOverdraftGuard (applyDelta a (resolveDelta commit e))"
      if "e \<in> set ?ins" "\<not> violatesOverdraftGuard a" for a e
      using that g by (intro resolveDelta_keeps_guard) (auto simp: group_ok_def)
  qed
  then obtain es m' where b: "buildEntries entryId ?tx ?ph (resolveDelta commit) 0 ?ins
      (mem_lockAccounts s (lockOrder ?ins)) = Inr (es, m')" by blast
  have "tx_id p = pid" using ok pend(1) by (auto simp: ledger_ok_def intro: findTransaction_id)
  with b pend k show ?thesis by (simp add: resolvePending_def store_simps Let_def)
qed

lemma resolved_findTransaction:
  assumes "ledger_ok s" "resolvePending memoryStore now newTx entryId pid key ty commit s = Inr (r, s')"
    and "mem_findByIdempotencyKey s key = None"
  obtains p where "mem_findTransaction s pid = Some p" "tx_status p = LedgerTransactionStatus.PENDING"
    "mem_findTransaction s' pid = Some (resolved_pending commit now p)"
proof -
  from assms(2,3) obtain p where p: "mem_findTransaction s pid = Some p" "tx_status p = LedgerTransactionStatus.PENDING"
    by (auto simp: resolvePending_def store_simps split: option.splits if_splits)
  from pending_resolvable [OF assms(1) p assms(3), of now newTx entryId ty commit] assms(2) p that
  show ?thesis by fastforce
qed

definition counters :: "LedgerAccount \<Rightarrow> cents \<times> cents \<times> cents \<times> cents" where
  "counters a = (debitsPosted a, creditsPosted a, debitsPending a, creditsPending a)"

text \<open>The four counters after holding and then resolving, relative to a direct posting.\<close>

lemma hold_resolve_counters:
  assumes ok: "ledger_ok s"
    and ph: "in_phase inp = PostPhase.PENDING"
    and p: "post memoryStore cur now newTx entryId inp s = Inr (r, s1)"
    and k: "mem_findByIdempotencyKey s (in_idempotencyKey inp) = None"
    and f: "mem_findTransaction s (or_else (in_id inp) newTx) = None" "or_else (in_id inp) newTx \<noteq> []"
    and q: "resolvePending memoryStore now' newTx' entryId' (tx_id (res_transaction r)) key ty commit s1 = Inr (r', s2)"
    and k': "mem_findByIdempotencyKey s1 key = None"
  shows "map_option counters (mem_account s2 i) =
     map_option (\<lambda>a. counters (if commit then advance (deltaFor EntryPhase.POSTED) i (in_entries inp) a else a)) (mem_account s i)"
proof -
  have ok1: "ledger_ok s1" by (rule post_keeps_ok [OF ok p k f])
  obtain d es where bal: "assertBalanced (in_entries inp) = Inr (d, d)"
    and r: "r = \<lparr>res_transaction = post_transaction cur now newTx d inp, res_entries = es, replayed = False\<rparr>"
    and b: "built_step s (post_transaction cur now newTx d inp) (entry_phase (in_phase inp))
       (deltaFor (entry_phase (in_phase inp))) (in_entries inp) es s1"
    using post_built [OF p k f(1)] by metis
  have ne: "in_entries inp \<noteq> []" using bal by (auto simp: assertBalanced_Inr)
  have inv: "mem_inv s" "entries_ok s" "mem_inv s1" using ok ok1 by (auto simp: ledger_ok_def)
  have "map_get (ms_entries s) (or_else (in_id inp) newTx) = None" by (rule entries_ok_unfiled [OF inv(2) f(1)])
  then have "mem_findEntriesByTransaction s1 (tx_id (res_transaction r)) = es"
    using built_groups [OF inv(2) b ne] r
    by (simp add: mem_findEntriesByTransaction_def map_add_def)
  then have ins: "map entry_input (mem_findEntriesByTransaction s1 (tx_id (res_transaction r))) = in_entries inp"
    using built_entries(1) [OF b] by simp
  have a2: "mem_account s2 i = map_option (advance (resolveDelta commit) i (in_entries inp)) (mem_account s1 i)"
    using mem.resolve_accounts [OF inv(3) q] k' ins by (simp add: store_simps)
  have a1: "mem_account s1 i = map_option (advance (deltaFor EntryPhase.PENDING) i (in_entries inp)) (mem_account s i)"
    using built_accounts [OF inv(1) b] ph by simp
  show ?thesis
    by (cases "mem_account s i")
      (auto simp: a1 a2 counters_def counter_simps on_account_minus on_account_zero cong: if_cong)
qed

section \<open>Keys are honoured for ever\<close>

lemma steps_keep:
  assumes "ledger_step\<^sup>*\<^sup>* s s'" and "ledger_ok s"
    and "mem_findTransaction s t = Some x" "map_get (ms_entries s) t = Some g"
  shows "ledger_ok s' \<and> (\<exists>x'. mem_findTransaction s' t = Some x' \<and> tx_evolves x x') \<and> map_get (ms_entries s') t = Some g"
  using assms
proof (induction rule: rtranclp_induct)
  case base
  then show ?case by auto
next
  case (step s1 s2)
  then obtain x1 where x1: "mem_findTransaction s1 t = Some x1" "tx_evolves x x1"
    and g: "map_get (ms_entries s1) t = Some g" and ok: "ledger_ok s1" by auto
  from step_keeps [OF step.hyps(2) ok x1(1) g] ledger_step_keeps_ok [OF step.hyps(2) ok] x1(2)
  show ?case by (fastforce simp: tx_evolves_def)
qed

lemma key_lookup:
  assumes "ledger_ok s" "mem_findTransaction s t = Some x" "map_get (ms_entries s) t = Some g"
  shows "mem_findByIdempotencyKey s (tx_idempotencyKey x) =
           Some \<lparr>res_transaction = x, res_entries = g, replayed = True\<rparr>"
proof -
  have k: "map_get (ms_byIdempotencyKey s) (tx_idempotencyKey x) = Some t" and "t \<noteq> []"
    using assms(1,2) keys_okD [of s] by (auto simp: ledger_ok_def)
  with assms show ?thesis
    by (simp add: mem_findByIdempotencyKey_def mem_findTransaction_def mem_findEntriesByTransaction_def)
qed

section \<open>A worked ledger\<close>

text \<open>
  A customer is opened, funded with 100.00, and a transfer of 30.00 is held.
\<close>

definition demo_id :: "nat \<Rightarrow> ident" where
  "demo_id j = CHR ''L'' # replicate j (CHR ''i'')"

definition demo_entry :: "nat \<Rightarrow> ident" where
  "demo_entry j = CHR ''E'' # replicate j (CHR ''i'')"

definition demo_input ::
  "LedgerTransactionType \<Rightarrow> PostPhase \<Rightarrow> string \<Rightarrow> ident \<Rightarrow> ident \<Rightarrow> cents \<Rightarrow> PostTransactionInput" where
  "demo_input ty ph key debit credit v =
     \<lparr>in_id = None, in_type = ty, in_phase = ph, in_idempotencyKey = key,
      in_entries = [\<lparr>accountId = debit, direction = EntryDirection.DEBIT, amountCents = v\<rparr>,
                    \<lparr>accountId = credit, direction = EntryDirection.CREDIT, amountCents = v\<rparr>],
      in_currency = None, in_externalRef = None, in_description = None, in_effectiveAt = None,
      in_metadata = None\<rparr>"

definition demo_fund :: PostTransactionInput where
  "demo_fund = demo_input ACCOUNT_OPENING_FUNDING PostPhase.POSTED ''fund'' (demo_id 0) ''LA'' 10000"

definition demo_hold :: PostTransactionInput where
  "demo_hold = demo_input PIX_OUT_AUTHORIZE PostPhase.PENDING ''hold'' ''LA'' (demo_id 3) 3000"

definition demo_opened :: InMemoryLedgerStore where
  "demo_opened = snd (openCustomerAccounts ''LA'' ''LB'' ''c1'' (newStore demo_id))"

definition demo_funded :: InMemoryLedgerStore where
  "demo_funded = snd (projr (post memoryStore BRL 1 ''T1'' demo_entry demo_fund demo_opened))"

definition demo_held :: InMemoryLedgerStore where
  "demo_held = snd (projr (post memoryStore BRL 2 ''T2'' demo_entry demo_hold demo_funded))"

lemma demo_posts:
  "isl (post memoryStore BRL 1 ''T1'' demo_entry demo_fund demo_opened) = False"
  "isl (post memoryStore BRL 2 ''T2'' demo_entry demo_hold demo_funded) = False"
  by code_simp+

lemma demo_reachable:
  "ledger_reachable demo_opened" "ledger_reachable demo_funded" "ledger_reachable demo_held"
proof -
  have new: "ledger_reachable (newStore demo_id)"
    by (rule ledger_reachable.init) (simp_all add: demo_id_def upt_rec)
  show opened: "ledger_reachable demo_opened"
    unfolding demo_opened_def
    by (rule ledger_reachable.step [OF new ledger_step.open_customer]; code_simp)
  have step: "ledger_step s (snd (projr (post memoryStore cur now newTx eid inp s)))"
    if "isl (post memoryStore cur now newTx eid inp s) = False"
      "mem_findTransaction s (or_else (in_id inp) newTx) = None \<and> or_else (in_id inp) newTx \<noteq> []"
    for s cur now newTx eid inp
    using that by (cases "post memoryStore cur now newTx eid inp s") (auto intro: ledger_step.post)
  show funded: "ledger_reachable demo_funded"
    unfolding demo_funded_def
    by (rule ledger_reachable.step [OF opened step]) (rule demo_posts, code_simp)
  show "ledger_reachable demo_held"
    unfolding demo_held_def
    by (rule ledger_reachable.step [OF funded step]) (rule demo_posts, code_simp)
qed

section \<open>Properties\<close>

text \<open>C1: the invariant checker finds no violation in any ledger the engine can reach, and the
  asserting variant does not throw.\<close>

theorem checker_silent:
  assumes "ledger_reachable s"
  shows "checkInvariants (allAccounts s) (allEntries s) = [] \<and>
         assertInvariants (allAccounts s) (allEntries s) = Inr ()"
  using ledger_ok_check [OF ledger_reachable_ok [OF assms]] by (simp add: assertInvariants_def)

theorem checker_silent_witness:
  "length (allEntries demo_held) = 4 \<and> checkInvariants (allAccounts demo_held) (allEntries demo_held) = [] \<and>
   assertInvariants (allAccounts demo_held) (allEntries demo_held) = Inr ()"
proof -
  have "length (allEntries demo_held) = 4" by code_simp
  with checker_silent [OF demo_reachable(3)] show ?thesis by simp
qed

text \<open>C2: the trial balance closes: over all accounts of a reachable ledger, posted debits equal
  posted credits.\<close>

theorem trial_balance_closes:
  assumes "ledger_reachable s"
  shows "(\<Sum>a\<leftarrow>allAccounts s. debitsPosted a) = (\<Sum>a\<leftarrow>allAccounts s. creditsPosted a)"
  by (rule ledger_ok_trial_balance [OF ledger_reachable_ok [OF assms]])

theorem trial_balance_closes_witness:
  "(\<Sum>a\<leftarrow>allAccounts demo_held. debitsPosted a) = 10000 \<and>
   (\<Sum>a\<leftarrow>allAccounts demo_held. creditsPosted a) = 10000"
proof -
  have "(\<Sum>a\<leftarrow>allAccounts demo_held. debitsPosted a) = 10000" by code_simp
  with trial_balance_closes [OF demo_reachable(3)] show ?thesis by simp
qed

text \<open>C3: an account that may not go negative never does, whatever is held on it: in a reachable
  ledger its available balance is at least zero and at most its posted balance.\<close>

theorem guarded_accounts_never_overdrawn:
  assumes "ledger_reachable s" "a \<in> set (allAccounts s)" "\<not> allowsNegative a"
  shows "0 \<le> bal_available (computeBalances a) \<and>
         bal_available (computeBalances a) \<le> bal_posted (computeBalances a)"
  using ledger_okD [OF ledger_reachable_ok [OF assms(1)] assms(2)] assms(3) available_le_posted [of a]
  by simp

theorem guarded_accounts_never_overdrawn_witness:
  "let a = the (mem_account demo_held ''LA'') in
     bal_available (computeBalances a) = 7000 \<and> bal_posted (computeBalances a) = 10000 \<and>
     0 \<le> bal_available (computeBalances a) \<and>
     bal_available (computeBalances a) \<le> bal_posted (computeBalances a)"
proof -
  let ?a = "the (mem_account demo_held ''LA'')"
  have "mem_account demo_held ''LA'' \<noteq> None \<and> la_id ?a = ''LA'' \<and> \<not> allowsNegative ?a \<and>
      bal_available (computeBalances ?a) = 7000 \<and> bal_posted (computeBalances ?a) = 10000"
    by code_simp
  moreover from this have "?a \<in> set (allAccounts demo_held)"
    using ledger_reachable_ok [OF demo_reachable(3)] by (auto simp: account_mem ledger_ok_def)
  ultimately show ?thesis using guarded_accounts_never_overdrawn [OF demo_reachable(3)] by (simp add: Let_def)
qed

text \<open>C4: a hold can always be resolved.  Whatever happened since, committing or voiding a pending
  transaction of a reachable ledger under an unused key succeeds: it cannot fail for lack of funds,
  and the held transaction is then posted or voided.\<close>

theorem hold_always_resolvable:
  assumes "ledger_reachable s"
    and "mem_findTransaction s pid = Some p" "tx_status p = LedgerTransactionStatus.PENDING"
    and "mem_findByIdempotencyKey s key = None"
  shows "\<exists>r s'. resolvePending memoryStore now newTx entryId pid key ty commit s = Inr (r, s') \<and>
           mem_findTransaction s' pid = Some (resolved_pending commit now p)"
  by (rule pending_resolvable [OF ledger_reachable_ok [OF assms(1)] assms(2-)])

definition demo_pending :: LedgerTransaction where
  "demo_pending = the (mem_findTransaction demo_held ''T2'')"

lemma demo_pending_facts:
  "mem_findTransaction demo_held ''T2'' = Some demo_pending"
  "tx_status demo_pending = LedgerTransactionStatus.PENDING"
  "mem_findByIdempotencyKey demo_held ''settle'' = None"
  by code_simp+

theorem hold_always_resolvable_witness:
  "\<exists>r s'. resolvePending memoryStore 3 ''T3'' demo_entry ''T2'' ''settle'' None True demo_held = Inr (r, s') \<and>
     mem_findTransaction s' ''T2'' = Some (resolved_pending True 3 demo_pending)"
  by (rule hold_always_resolvable [OF demo_reachable(3) demo_pending_facts])

text \<open>Voiding a hold undoes it: for every account of the ledger the four counters are what they
  were before the hold was placed.\<close>

theorem void_restores_counters:
  assumes "ledger_reachable s" "in_phase inp = PostPhase.PENDING"
    and "post memoryStore cur now newTx entryId inp s = Inr (r, s1)"
    and "mem_findByIdempotencyKey s (in_idempotencyKey inp) = None"
    and "mem_findTransaction s (or_else (in_id inp) newTx) = None" "or_else (in_id inp) newTx \<noteq> []"
    and "voidPending memoryStore now' newTx' entryId' (tx_id (res_transaction r)) key ty s1 = Inr (r', s2)"
    and "mem_findByIdempotencyKey s1 key = None"
  shows "map_option counters (mem_account s2 i) = map_option counters (mem_account s i)"
  using hold_resolve_counters [OF ledger_reachable_ok [OF assms(1)] assms(2-6) _ assms(8), of _ _ _ ty False r' s2 i]
    assms(7)
  by (simp add: voidPending_def)

lemma demo_hold_posts:
  "\<exists>r. post memoryStore BRL 2 ''T2'' demo_entry demo_hold demo_funded = Inr (r, demo_held) \<and>
     tx_id (res_transaction r) = ''T2''"
proof (intro exI conjI)
  let ?p = "post memoryStore BRL 2 ''T2'' demo_entry demo_hold demo_funded"
  show "?p = Inr (fst (projr ?p), demo_held)"
    using demo_posts(2) by (cases ?p) (auto simp: demo_held_def)
  show "tx_id (res_transaction (fst (projr ?p))) = ''T2''" by code_simp
qed

lemma demo_hold_fresh:
  "in_phase demo_hold = PostPhase.PENDING"
  "mem_findByIdempotencyKey demo_funded (in_idempotencyKey demo_hold) = None"
  "mem_findTransaction demo_funded (or_else (in_id demo_hold) ''T2'') = None"
  "or_else (in_id demo_hold) ''T2'' \<noteq> []"
  by code_simp+

theorem void_restores_counters_witness:
  "\<exists>r s2. voidPending memoryStore 3 ''T3'' demo_entry ''T2'' ''settle'' None demo_held = Inr (r, s2) \<and>
     map_option counters (mem_account s2 ''LA'') = map_option counters (mem_account demo_funded ''LA'')"
proof -
  obtain r where r: "post memoryStore BRL 2 ''T2'' demo_entry demo_hold demo_funded = Inr (r, demo_held)"
      "tx_id (res_transaction r) = ''T2''" using demo_hold_posts by blast
  obtain r' s2 where v: "voidPending memoryStore 3 ''T3'' demo_entry ''T2'' ''settle'' None demo_held = Inr (r', s2)"
    using pending_resolvable [OF ledger_reachable_ok [OF demo_reachable(3)] demo_pending_facts, of 3 "''T3''" demo_entry None False]
    by (auto simp: voidPending_def)
  from void_restores_counters [OF demo_reachable(2) demo_hold_fresh(1) r(1) demo_hold_fresh(2-4)] r(2) v
    demo_pending_facts(3)
  show ?thesis by fastforce
qed

text \<open>Two-phase posting refines direct posting: holding a transaction and then committing it
  leaves every account with the counters that posting the same entries directly would.\<close>

theorem commit_equals_direct_posting:
  assumes "ledger_reachable s" "in_phase inp = PostPhase.PENDING"
    and "post memoryStore cur now newTx entryId inp s = Inr (r, s1)"
    and "mem_findByIdempotencyKey s (in_idempotencyKey inp) = None"
    and "mem_findTransaction s (or_else (in_id inp) newTx) = None" "or_else (in_id inp) newTx \<noteq> []"
    and "commitPending memoryStore now' newTx' entryId' (tx_id (res_transaction r)) key ty s1 = Inr (r', s2)"
    and "mem_findByIdempotencyKey s1 key = None"
    and "post memoryStore cur now newTx entryId (inp\<lparr>in_phase := PostPhase.POSTED\<rparr>) s = Inr (r'', s')"
  shows "map_option counters (mem_account s2 i) = map_option counters (mem_account s' i)"
proof -
  have ok: "ledger_ok s" by (rule ledger_reachable_ok [OF assms(1)])
  have "mem_account s' i = map_option (advance (deltaFor EntryPhase.POSTED) i (in_entries inp)) (mem_account s i)"
    using mem.post_accounts [OF _ assms(9)] assms(4) ok by (simp add: store_simps ledger_ok_def)
  then show ?thesis
    using hold_resolve_counters [OF ok assms(2-6) assms(7) [unfolded commitPending_def] assms(8), of i]
    by (cases "mem_account s i") auto
qed

lemma demo_direct_posts:
  "\<exists>r s'. post memoryStore BRL 2 ''T2'' demo_entry (demo_hold\<lparr>in_phase := PostPhase.POSTED\<rparr>) demo_funded = Inr (r, s')"
proof -
  have "isl (post memoryStore BRL 2 ''T2'' demo_entry (demo_hold\<lparr>in_phase := PostPhase.POSTED\<rparr>) demo_funded) = False"
    by code_simp
  then show ?thesis
    by (cases "post memoryStore BRL 2 ''T2'' demo_entry (demo_hold\<lparr>in_phase := PostPhase.POSTED\<rparr>) demo_funded") auto
qed

theorem commit_equals_direct_posting_witness:
  "\<exists>r s2 r' s'. commitPending memoryStore 3 ''T3'' demo_entry ''T2'' ''settle'' None demo_held = Inr (r, s2) \<and>
     post memoryStore BRL 2 ''T2'' demo_entry (demo_hold\<lparr>in_phase := PostPhase.POSTED\<rparr>) demo_funded = Inr (r', s') \<and>
     map_option counters (mem_account s2 ''LA'') = map_option counters (mem_account s' ''LA'')"
proof -
  obtain r where r: "post memoryStore BRL 2 ''T2'' demo_entry demo_hold demo_funded = Inr (r, demo_held)"
      "tx_id (res_transaction r) = ''T2''" using demo_hold_posts by blast
  obtain r' s2 where c: "commitPending memoryStore 3 ''T3'' demo_entry ''T2'' ''settle'' None demo_held = Inr (r', s2)"
    using pending_resolvable [OF ledger_reachable_ok [OF demo_reachable(3)] demo_pending_facts, of 3 "''T3''" demo_entry None True]
    by (auto simp: commitPending_def)
  from commit_equals_direct_posting [OF demo_reachable(2) demo_hold_fresh(1) r(1) demo_hold_fresh(2-4) _ demo_pending_facts(3)]
    r(2) c demo_direct_posts
  show ?thesis by metis
qed

lemma posting_key_kept:
  assumes "ledger_reachable s"
    and "post memoryStore cur now newTx entryId inp s = Inr (r, s1)"
    and "mem_findByIdempotencyKey s (in_idempotencyKey inp) = None"
    and "mem_findTransaction s (or_else (in_id inp) newTx) = None" "or_else (in_id inp) newTx \<noteq> []"
    and "ledger_step\<^sup>*\<^sup>* s1 s2" "in_idempotencyKey inp' = in_idempotencyKey inp"
  shows "\<exists>tx. post memoryStore cur' now' newTx' entryId' inp' s2 =
             Inr (\<lparr>res_transaction = tx, res_entries = res_entries r, replayed = True\<rparr>, s2) \<and>
           tx_evolves (res_transaction r) tx"
proof -
  have ok: "ledger_ok s" by (rule ledger_reachable_ok [OF assms(1)])
  have ok1: "ledger_ok s1" by (rule post_keeps_ok [OF ok assms(2-5)])
  obtain d es where bal: "assertBalanced (in_entries inp) = Inr (d, d)"
    and r: "r = \<lparr>res_transaction = post_transaction cur now newTx d inp, res_entries = es, replayed = False\<rparr>"
    and b: "built_step s (post_transaction cur now newTx d inp) (entry_phase (in_phase inp))
       (deltaFor (entry_phase (in_phase inp))) (in_entries inp) es s1"
    using post_built [OF assms(2-4)] by metis
  have ne: "in_entries inp \<noteq> []" using bal by (auto simp: assertBalanced_Inr)
  have "map_get (ms_entries s1) (or_else (in_id inp) newTx) = Some es"
    using built_groups [OF _ b ne] entries_ok_unfiled [OF _ assms(4)] ok
    by (auto simp: ledger_ok_def map_add_def)
  moreover have "mem_findTransaction s1 (or_else (in_id inp) newTx) = Some (res_transaction r)"
    using built_transactions(1) [OF b] r by simp
  ultimately obtain tx where ok2: "ledger_ok s2" and tx: "mem_findTransaction s2 (or_else (in_id inp) newTx) = Some tx"
    and e: "tx_evolves (res_transaction r) tx" and g: "map_get (ms_entries s2) (or_else (in_id inp) newTx) = Some es"
    using steps_keep [OF assms(6) ok1] by blast
  from key_lookup [OF ok2 tx g] e r assms(7)
  have "mem_findByIdempotencyKey s2 (in_idempotencyKey inp') = Some \<lparr>res_transaction = tx, res_entries = es, replayed = True\<rparr>"
    by (simp add: tx_evolves_def)
  with e r show ?thesis by (auto simp: mem.post_replay store_simps)
qed

text \<open>C5: exactly once.  After a posting, any later posting under the same idempotency key, whatever
  its contents and however many operations happened in between, returns the original entries with
  \<open>replayed\<close> set and changes nothing; the transaction it returns differs at most by having left
  \<open>PENDING\<close>.\<close>

theorem posting_key_honoured_for_ever:
  assumes "ledger_reachable s"
    and "post memoryStore cur now newTx entryId inp s = Inr (r, s1)"
    and "mem_findByIdempotencyKey s (in_idempotencyKey inp) = None"
    and "mem_findTransaction s (or_else (in_id inp) newTx) = None" "or_else (in_id inp) newTx \<noteq> []"
    and "ledger_step\<^sup>*\<^sup>* s1 s2" "in_idempotencyKey inp' = in_idempotencyKey inp"
  shows "\<exists>tx. post memoryStore cur' now' newTx' entryId' inp' s2 =
             Inr (\<lparr>res_transaction = tx, res_entries = res_entries r, replayed = True\<rparr>, s2) \<and>
           tx_evolves (res_transaction r) tx"
  using assms by (rule posting_key_kept)

theorem posting_key_honoured_for_ever_witness:
  "\<exists>r tx. post memoryStore BRL 2 ''T2'' demo_entry demo_hold demo_funded = Inr (r, demo_held) \<and>
     post memoryStore BRL 9 ''T9'' demo_entry (demo_hold\<lparr>in_entries := []\<rparr>) demo_held =
     Inr (\<lparr>res_transaction = tx, res_entries = res_entries r, replayed = True\<rparr>, demo_held) \<and>
     tx_evolves (res_transaction r) tx"
proof -
  obtain r where r: "post memoryStore BRL 2 ''T2'' demo_entry demo_hold demo_funded = Inr (r, demo_held)"
    using demo_hold_posts by blast
  have "in_idempotencyKey (demo_hold\<lparr>in_entries := []\<rparr>) = in_idempotencyKey demo_hold" by simp
  from posting_key_honoured_for_ever [OF demo_reachable(2) r demo_hold_fresh(2-4) rtranclp.rtrancl_refl this] r
  show ?thesis by blast
qed

text \<open>A hold is resolved once: after a commit or a void, a further commit or void under another
  key is rejected with the status the first one gave.\<close>

theorem second_resolution_rejected:
  assumes "ledger_reachable s"
    and "resolvePending memoryStore now newTx entryId pid key ty commit s = Inr (r, s')"
    and "mem_findByIdempotencyKey s key = None"
    and "mem_findByIdempotencyKey s' key' = None"
  shows "resolvePending memoryStore now' newTx' entryId' pid key' ty' commit' s' =
     Inl (LedgerValidationError (NotPending pid
       (if commit then LedgerTransactionStatus.POSTED else LedgerTransactionStatus.VOIDED)))"
proof -
  obtain p where "mem_findTransaction s' pid = Some (resolved_pending commit now p)"
    by (rule resolved_findTransaction [OF ledger_reachable_ok [OF assms(1)] assms(2,3)])
  with assms(4) show ?thesis by (simp add: resolvePending_def store_simps)
qed

definition demo_settled :: InMemoryLedgerStore where
  "demo_settled = snd (projr (resolvePending memoryStore 3 ''T3'' demo_entry ''T2'' ''settle'' None True demo_held))"

theorem second_resolution_rejected_witness:
  "resolvePending memoryStore 4 ''T4'' demo_entry ''T2'' ''void'' None False demo_settled =
     Inl (LedgerValidationError (NotPending ''T2'' LedgerTransactionStatus.POSTED))"
proof -
  obtain r s' where r: "resolvePending memoryStore 3 ''T3'' demo_entry ''T2'' ''settle'' None True demo_held = Inr (r, s')"
    using pending_resolvable [OF ledger_reachable_ok [OF demo_reachable(3)] demo_pending_facts, of 3 "''T3''" demo_entry None True]
    by auto
  then have s': "s' = demo_settled" by (simp add: demo_settled_def)
  have "mem_findByIdempotencyKey demo_settled ''void'' = None" by code_simp
  with second_resolution_rejected [OF demo_reachable(3) r demo_pending_facts(3)] s' show ?thesis by simp
qed

text \<open>Entries are immutable.  A step of the ledger never changes the entries filed under a
  transaction, and changes the transaction itself at most by moving it out of \<open>PENDING\<close>.\<close>

theorem entries_immutable:
  assumes "ledger_reachable s" "ledger_step s s'"
    and "mem_findTransaction s t = Some x" "map_get (ms_entries s) t = Some g"
  shows "mem_findEntriesByTransaction s' t = g \<and> (\<exists>x'. mem_findTransaction s' t = Some x' \<and> tx_evolves x x')"
  using step_keeps [OF assms(2) ledger_reachable_ok [OF assms(1)] assms(3,4)]
  by (auto simp: mem_findEntriesByTransaction_def)

theorem entries_immutable_witness:
  "mem_findEntriesByTransaction demo_held ''T1'' = the (map_get (ms_entries demo_funded) ''T1'') \<and>
   (\<exists>x'. mem_findTransaction demo_held ''T1'' = Some x' \<and>
      tx_evolves (the (mem_findTransaction demo_funded ''T1'')) x')"
proof -
  obtain r where "post memoryStore BRL 2 ''T2'' demo_entry demo_hold demo_funded = Inr (r, demo_held)"
    using demo_hold_posts by blast
  then have step: "ledger_step demo_funded demo_held"
    by (rule ledger_step.post) (rule demo_hold_fresh)+
  have "mem_findTransaction demo_funded ''T1'' \<noteq> None" "map_get (ms_entries demo_funded) ''T1'' \<noteq> None"
    by code_simp+
  then show ?thesis using entries_immutable [OF demo_reachable(2) step] by fastforce
qed

text \<open>\<open>assertBalanced\<close> on every branch: too few entries first, then the first entry with a
  non-positive amount, then unequal sides; otherwise it returns both sums.\<close>

theorem assertBalanced_exact:
  "assertBalanced es =
     (if length es < 2 then Inl (LedgerValidationError TooFewEntries)
      else case find (\<lambda>e. amountCents e \<le> 0) es of
          Some e \<Rightarrow> Inl (LedgerValidationError (NonPositiveAmount (amountCents e)))
        | None \<Rightarrow>
            (let d = side_sum EntryDirection.DEBIT es; c = side_sum EntryDirection.CREDIT es
             in if d = c then Inr (d, c) else Inl (LedgerUnbalancedError d c)))"
proof -
  have "assertBalanced_loop d c es =
     (case find (\<lambda>e. amountCents e \<le> 0) es of
        Some e \<Rightarrow> Inl (LedgerValidationError (NonPositiveAmount (amountCents e)))
      | None \<Rightarrow> Inr (d + side_sum EntryDirection.DEBIT es, c + side_sum EntryDirection.CREDIT es))" for d c
  proof (induction es arbitrary: d c)
    case (Cons e es)
    then show ?case by (cases "direction e") (auto split: option.split)
  qed simp
  then show ?thesis by (auto simp: assertBalanced_def Let_def split: option.split)
qed

text \<open>Locks are taken in one global order.  \<open>lockOrder\<close> names each touched account once, and two
  postings that share two accounts lock them in the same order, so neither can wait for the other
  while holding what the other waits for.\<close>

theorem lockOrder_deadlock_free:
  assumes "i < j" "j < length (lockOrder es)" "k < length (lockOrder fs)" "l < length (lockOrder fs)"
    and "lockOrder es ! i = lockOrder fs ! k" "lockOrder es ! j = lockOrder fs ! l"
  shows "k < l \<and> set (lockOrder es) = accountId ` set es \<and> distinct (lockOrder es)"
proof -
  have "sorted_wrt (<) (lockOrder es)" "sorted_wrt (<) (lockOrder fs)"
    by (simp_all add: strict_sorted_iff)
  then have "lockOrder fs ! k < lockOrder fs ! l" and mono: "\<And>k l. l < k \<Longrightarrow> k < length (lockOrder fs) \<Longrightarrow> lockOrder fs ! l < lockOrder fs ! k"
    using assms by (metis sorted_wrt_nth_less)+
  with assms(3,4) have "k < l" by (metis less_asym linorder_neqE_nat order_less_irrefl)
  then show ?thesis by simp
qed

theorem lockOrder_deadlock_free_witness:
  "let es = in_entries (demo_input PIX_IN_RECEIVE PostPhase.POSTED ''k'' ''b'' ''a'' 1);
       fs = in_entries (demo_input PIX_IN_RECEIVE PostPhase.POSTED ''k'' ''a'' ''b'' 2)
   in (0::nat) < 1 \<and> set (lockOrder es) = accountId ` set es \<and> distinct (lockOrder es) \<and> lockOrder es = lockOrder fs"
proof -
  let ?es = "in_entries (demo_input PIX_IN_RECEIVE PostPhase.POSTED ''k'' ''b'' ''a'' 1)"
  let ?fs = "in_entries (demo_input PIX_IN_RECEIVE PostPhase.POSTED ''k'' ''a'' ''b'' 2)"
  have l: "lockOrder ?es = [''a'', ''b'']" "lockOrder ?fs = [''a'', ''b'']" by code_simp+
  from lockOrder_deadlock_free [of 0 1 ?es 0 ?fs 1] l show ?thesis by (simp add: Let_def)
qed

end
