(* ===== verification/Js_Strings.thy ===== *)
theory Js_Strings
  imports BaaS_Prelude "HOL-Library.Multiset"
begin

text \<open>
  What the sources use of JavaScript strings, numbers and arrays: decimal printing and reading of
  \<open>bigint\<close>, \<open>trim\<close>, \<open>padStart\<close>, \<open>padEnd\<close>, \<open>BigInt(string)\<close>, and the stable
  \<open>Array.prototype.sort\<close> with a comparator.
\<close>

section \<open>Digits\<close>

definition is_digit :: "char \<Rightarrow> bool" where
  "is_digit c \<longleftrightarrow> 48 \<le> (of_char c :: nat) \<and> (of_char c :: nat) \<le> 57"

definition digit_val :: "char \<Rightarrow> nat" where
  "digit_val c = of_char c - 48"

definition digit_char :: "nat \<Rightarrow> char" where
  "digit_char d = char_of (48 + d)"

lemma digit_chars:
  "digit_char 0 = CHR ''0''" "digit_char 1 = CHR ''1''" "digit_char (Suc 0) = CHR ''1''" "digit_char 2 = CHR ''2''"
  "digit_char 3 = CHR ''3''" "digit_char 4 = CHR ''4''" "digit_char 5 = CHR ''5''" "digit_char 6 = CHR ''6''"
  "digit_char 7 = CHR ''7''" "digit_char 8 = CHR ''8''" "digit_char 9 = CHR ''9''"
  by code_simp+

text \<open>\<open>BigInt.prototype.toString\<close> on a natural, and reading a run of digits.\<close>

fun show_nat :: "nat \<Rightarrow> string" where
  "show_nat n = (if n < 10 then [digit_char n] else show_nat (n div 10) @ [digit_char (n mod 10)])"

declare show_nat.simps [simp del]

definition read_nat :: "string \<Rightarrow> nat" where
  "read_nat ds = foldl (\<lambda>n c. 10 * n + digit_val c) 0 ds"

definition show_int :: "int \<Rightarrow> string" where
  "show_int i = (if i < 0 then CHR ''-'' # show_nat (nat (- i)) else show_nat (nat i))"

lemma digit_char_props [simp]:
  assumes "d < 10"
  shows "is_digit (digit_char d)" "digit_val (digit_char d) = d"
  using assms by (simp_all add: is_digit_def digit_val_def digit_char_def take_bit_eq_mod)

lemma digit_char_val: "is_digit c \<Longrightarrow> digit_char (digit_val c) = c"
  by (simp add: is_digit_def digit_val_def digit_char_def)

lemma digit_val_less: "is_digit c \<Longrightarrow> digit_val c < 10"
  unfolding is_digit_def digit_val_def by linarith

lemma read_nat_simps [simp]:
  "read_nat [] = 0" "read_nat (ds @ [c]) = 10 * read_nat ds + digit_val c"
  by (simp_all add: read_nat_def)

lemma read_nat_single [simp]: "read_nat [c] = digit_val c"
  by (simp add: read_nat_def)

lemma read_nat_append: "read_nat (xs @ ys) = read_nat xs * 10 ^ length ys + read_nat ys"
proof (induction ys rule: rev_induct)
  case (snoc y ys)
  have "read_nat (xs @ ys @ [y]) = 10 * read_nat (xs @ ys) + digit_val y"
    using read_nat_simps(2) [of "xs @ ys" y] by simp
  with snoc show ?case by (simp add: algebra_simps)
qed simp

lemma show_nat_digits: "\<forall>c\<in>set (show_nat n). is_digit c"
proof (induction n rule: show_nat.induct)
  case (1 n)
  then show ?case by (cases "n < 10") (auto simp: show_nat.simps [of n])
qed

lemma show_nat_not_Nil [simp]: "show_nat n \<noteq> []"
  by (subst show_nat.simps) simp

lemma read_show_nat [simp]: "read_nat (show_nat n) = n"
proof (induction n rule: show_nat.induct)
  case (1 n)
  then show ?case by (cases "n < 10") (auto simp: show_nat.simps [of n])
qed

lemma show_nat_inj [simp]: "show_nat a = show_nat b \<longleftrightarrow> a = b"
  by (metis read_show_nat)

lemma read_nat_bound: "\<forall>c\<in>set ds. is_digit c \<Longrightarrow> read_nat ds < 10 ^ length ds"
proof (induction ds rule: rev_induct)
  case (snoc c ds)
  then have "read_nat ds + 1 \<le> 10 ^ length ds" "digit_val c < 10" by (auto simp: digit_val_less)
  then show ?case by simp
qed simp

lemma show_nat_length: "n < 10 ^ k \<Longrightarrow> 0 < k \<Longrightarrow> length (show_nat n) \<le> k"
proof (induction n arbitrary: k rule: show_nat.induct)
  case (1 n)
  show ?case
  proof (cases "n < 10")
    case True
    with 1 show ?thesis by (simp add: show_nat.simps [of n])
  next
    case False
    with 1(2,3) have "k \<noteq> 1" by (intro notI) simp
    with 1(3) obtain j where k: "k = Suc j" "0 < j" by (cases k) auto
    from 1(2) k have "n div 10 < 10 ^ j" by (simp add: less_mult_imp_div_less mult.commute)
    with 1(1) False k show ?thesis by (simp add: show_nat.simps [of n])
  qed
qed

section \<open>Padding, trimming and \<open>BigInt(string)\<close>\<close>

definition padStart :: "nat \<Rightarrow> char \<Rightarrow> string \<Rightarrow> string" where
  "padStart n c s = replicate (n - length s) c @ s"

definition padEnd :: "nat \<Rightarrow> char \<Rightarrow> string \<Rightarrow> string" where
  "padEnd n c s = s @ replicate (n - length s) c"

text \<open>A number printed with leading zeros up to a width.\<close>

lemma pad_digits:
  assumes "n < 10 ^ k" "0 < k"
  shows "length (padStart k (CHR ''0'') (show_nat n)) = k" "list_all is_digit (padStart k (CHR ''0'') (show_nat n))"
    "read_nat (padStart k (CHR ''0'') (show_nat n)) = n"
proof -
  have len: "length (show_nat n) \<le> k" using assms by (rule show_nat_length)
  then show "length (padStart k (CHR ''0'') (show_nat n)) = k" by (simp add: padStart_def)
  have z: "is_digit (CHR ''0'')" "digit_val (CHR ''0'') = 0" by code_simp+
  then show "list_all is_digit (padStart k (CHR ''0'') (show_nat n))"
    using show_nat_digits [of n] by (auto simp: padStart_def list_all_iff)
  have "read_nat (replicate j (CHR ''0'')) = 0" for j
    by (induction j) (simp_all add: read_nat_def z)
  then show "read_nat (padStart k (CHR ''0'') (show_nat n)) = n" by (simp add: padStart_def read_nat_append)
qed

text \<open>The code units below 256 that ECMAScript counts as white space or line terminators.\<close>

definition is_space :: "char \<Rightarrow> bool" where
  "is_space c \<longleftrightarrow> (of_char c :: nat) \<in> {9, 10, 11, 12, 13, 32, 160}"

definition js_trim :: "string \<Rightarrow> string" where
  "js_trim s = rev (dropWhile is_space (rev (dropWhile is_space s)))"

definition hex_val :: "char \<Rightarrow> nat option" where
  "hex_val c =
     (let n = of_char c in
      if 48 \<le> n \<and> n \<le> 57 then Some (n - 48)
      else if 97 \<le> n \<and> n \<le> 102 then Some (n - 87)
      else if 65 \<le> n \<and> n \<le> 70 then Some (n - 55) else None)"

fun read_radix :: "nat \<Rightarrow> nat \<Rightarrow> string \<Rightarrow> nat option" where
  "read_radix r acc [] = Some acc"
| "read_radix r acc (c # cs) =
     (case hex_val c of
        None \<Rightarrow> None
      | Some d \<Rightarrow> if d < r then read_radix r (r * acc + d) cs else None)"

text \<open>\<open>None\<close> is the \<open>SyntaxError\<close>.\<close>

definition js_BigInt :: "string \<Rightarrow> int option" where
  "js_BigInt str =
     (let s = js_trim str; decimal = (\<lambda>ds. if ds \<noteq> [] \<and> list_all is_digit ds then Some (int (read_nat ds)) else None);
          radix = (\<lambda>r ds. if ds = [] then None else map_option int (read_radix r 0 ds))
      in if s = [] then Some 0
         else if take 2 s = ''0x'' \<or> take 2 s = ''0X'' then radix 16 (drop 2 s)
         else if take 2 s = ''0o'' \<or> take 2 s = ''0O'' then radix 8 (drop 2 s)
         else if take 2 s = ''0b'' \<or> take 2 s = ''0B'' then radix 2 (drop 2 s)
         else if hd s = CHR ''-'' then map_option uminus (decimal (tl s))
         else if hd s = CHR ''+'' then decimal (tl s)
         else decimal s)"

lemma dropWhile_id: "(case xs of [] \<Rightarrow> True | x # _ \<Rightarrow> \<not> P x) \<Longrightarrow> dropWhile P xs = xs"
  by (cases xs) auto

lemma js_trim_id:
  assumes "s \<noteq> []" "\<not> is_space (hd s)" "\<not> is_space (last s)"
  shows "js_trim s = s"
proof -
  have "dropWhile is_space s = s" using assms by (cases s) auto
  moreover have "dropWhile is_space (rev s) = rev s"
    using assms by (cases "rev s") (auto simp: last_rev [symmetric] hd_rev)
  ultimately show ?thesis by (simp add: js_trim_def)
qed

lemma digit_not_space: "is_digit c \<Longrightarrow> \<not> is_space c"
  by (auto simp: is_digit_def is_space_def)

lemma js_trim_digits: "s \<noteq> [] \<Longrightarrow> \<forall>c\<in>set s. is_digit c \<Longrightarrow> js_trim s = s"
  by (intro js_trim_id) (auto simp: digit_not_space)

lemma radix_prefix_not_digit:
  "\<not> is_digit (CHR ''x'')" "\<not> is_digit (CHR ''X'')" "\<not> is_digit (CHR ''o'')" "\<not> is_digit (CHR ''O'')"
  "\<not> is_digit (CHR ''b'')" "\<not> is_digit (CHR ''B'')" "\<not> is_digit (CHR ''-'')" "\<not> is_digit (CHR ''+'')"
  "\<not> is_digit (CHR ''.'')" "\<not> is_digit (CHR '','')"
  by (simp_all add: is_digit_def)

lemma take2_digits:
  assumes "\<forall>c\<in>set s. is_digit c" "\<not> is_digit c"
  shows "take 2 s \<noteq> [d, c]"
proof
  assume "take 2 s = [d, c]"
  then have "c \<in> set (take 2 s)" by simp
  then have "c \<in> set s" by (rule in_set_takeD)
  with assms show False by auto
qed

lemma js_BigInt_digits:
  assumes "s \<noteq> []" "\<forall>c\<in>set s. is_digit c"
  shows "js_BigInt s = Some (int (read_nat s))"
proof -
  have "hd s \<noteq> CHR ''-''" "hd s \<noteq> CHR ''+''" using assms radix_prefix_not_digit by (auto dest: hd_in_set)
  with assms show ?thesis
    by (simp add: js_BigInt_def Let_def js_trim_digits take2_digits radix_prefix_not_digit list_all_iff)
qed

text \<open>Reading back a printed \<open>bigint\<close>.\<close>

lemma js_BigInt_show [simp]: "js_BigInt (show_int i) = Some i"
proof (cases "i < 0")
  case False
  then show ?thesis using js_BigInt_digits [OF _ show_nat_digits] by (simp add: show_int_def)
next
  case True
  let ?s = "show_nat (nat (- i))"
  have d: "\<forall>c\<in>set ?s. is_digit c" by (rule show_nat_digits)
  have "js_trim (CHR ''-'' # ?s) = CHR ''-'' # ?s"
    using d by (intro js_trim_id) (simp_all add: digit_not_space, simp add: is_space_def)
  moreover have "take 2 (CHR ''-'' # ?s) \<noteq> [CHR ''0'', c]" for c by (simp add: numeral_2_eq_2)
  ultimately show ?thesis
    using True d by (simp add: show_int_def js_BigInt_def Let_def list_all_iff)
qed

section \<open>Stable sort with a comparator\<close>

text \<open>\<open>cmp a b\<close> is the comparator's number: not positive means \<open>a\<close> may stay before \<open>b\<close>.\<close>

fun js_insert :: "('a \<Rightarrow> 'a \<Rightarrow> int) \<Rightarrow> 'a \<Rightarrow> 'a list \<Rightarrow> 'a list" where
  "js_insert cmp x [] = [x]"
| "js_insert cmp x (y # ys) = (if cmp x y \<le> 0 then x # y # ys else y # js_insert cmp x ys)"

definition js_sort :: "('a \<Rightarrow> 'a \<Rightarrow> int) \<Rightarrow> 'a list \<Rightarrow> 'a list" where
  "js_sort cmp xs = foldr (js_insert cmp) xs []"

lemma mset_js_insert [simp]: "mset (js_insert cmp x ys) = add_mset x (mset ys)"
  by (induction ys) auto

lemma mset_js_sort [simp]: "mset (js_sort cmp xs) = mset xs"
  unfolding js_sort_def by (induction xs) auto

lemma mset_map_js_sort: "mset (map f (js_sort cmp xs)) = mset (map f xs)"
  by (simp only: mset_map mset_js_sort)

lemma distinct_js_sort: "distinct (map f (js_sort cmp xs)) \<longleftrightarrow> distinct (map f xs)"
  by (rule mset_eq_imp_distinct_iff) (rule mset_map_js_sort)

lemma set_js_sort [simp]: "set (js_sort cmp xs) = set xs"
  by (metis mset_js_sort set_mset_mset)

lemma length_js_sort [simp]: "length (js_sort cmp xs) = length xs"
  by (metis mset_js_sort size_mset)

lemma sorted_js_insert:
  assumes tot: "\<And>a b. \<not> cmp a b \<le> 0 \<Longrightarrow> cmp b a \<le> 0"
    and tr: "\<And>a b c. cmp a b \<le> 0 \<Longrightarrow> cmp b c \<le> 0 \<Longrightarrow> cmp a c \<le> 0"
    and "sorted_wrt (\<lambda>a b. cmp a b \<le> 0) ys"
  shows "sorted_wrt (\<lambda>a b. cmp a b \<le> 0) (js_insert cmp x ys)"
  using assms(3)
proof (induction ys)
  case (Cons y ys)
  have set: "set (js_insert cmp x ys) = insert x (set ys)"
    by (metis mset_js_insert set_mset_add_mset_insert set_mset_mset)
  show ?case
  proof (cases "cmp x y \<le> 0")
    case True
    then have "\<forall>z\<in>set ys. cmp x z \<le> 0" using Cons.prems tr [of x y] by simp
    with True Cons.prems show ?thesis by simp
  next
    case False
    then have "cmp y x \<le> 0" by (rule tot)
    with False Cons set show ?thesis by simp
  qed
qed simp

lemma sorted_js_sort:
  assumes "\<And>a b. \<not> cmp a b \<le> 0 \<Longrightarrow> cmp b a \<le> 0"
    and "\<And>a b c. cmp a b \<le> 0 \<Longrightarrow> cmp b c \<le> 0 \<Longrightarrow> cmp a c \<le> 0"
  shows "sorted_wrt (\<lambda>a b. cmp a b \<le> 0) (js_sort cmp xs)"
  unfolding js_sort_def
  by (induction xs) (simp_all add: sorted_js_insert [OF assms])

lemma js_insert_cong:
  "(\<And>y. y \<in> set ys \<Longrightarrow> cmp x y \<le> 0 \<longleftrightarrow> cmp' x y \<le> 0) \<Longrightarrow> js_insert cmp x ys = js_insert cmp' x ys"
  by (induction ys) auto

lemma js_sort_cong:
  assumes "\<And>x y. x \<in> set xs \<Longrightarrow> y \<in> set xs \<Longrightarrow> cmp x y \<le> 0 \<longleftrightarrow> cmp' x y \<le> 0"
  shows "js_sort cmp xs = js_sort cmp' xs"
  using assms
proof (induction xs)
  case (Cons x xs)
  then have IH: "js_sort cmp xs = js_sort cmp' xs" by auto
  have "js_sort cmp (x # xs) = js_insert cmp x (js_sort cmp' xs)" using IH by (simp add: js_sort_def)
  also have "\<dots> = js_insert cmp' x (js_sort cmp' xs)"
    using Cons.prems by (intro js_insert_cong) auto
  finally show ?case by (simp add: js_sort_def)
qed (simp add: js_sort_def)

section \<open>Keyset pages\<close>

text \<open>In a strictly sorted list, what lies beyond the last element of a page is the rest of the list.\<close>

lemma keyset_rest:
  assumes s: "sorted_wrt R xs" and n: "0 < n" "n \<le> length xs"
    and irr: "\<And>x. \<not> R x x" and tr: "\<And>x y z. R x y \<Longrightarrow> R y z \<Longrightarrow> R x z"
  shows "filter (R (last (take n xs))) xs = drop n xs"
proof -
  let ?l = "last (take n xs)"
  have split: "sorted_wrt R (take n xs @ drop n xs)" using s by simp
  have ne: "take n xs \<noteq> []" using n by (cases xs) auto
  then have "?l \<in> set (take n xs)" by simp
  then have "\<forall>y\<in>set (drop n xs). R ?l y" using split by (auto simp only: sorted_wrt_append)
  then have d: "filter (R ?l) (drop n xs) = drop n xs" by (simp add: filter_id_conv)
  have "x = ?l \<or> R x ?l" if "x \<in> set (take n xs)" for x
  proof -
    have "sorted_wrt R (butlast (take n xs) @ [?l])" using split ne by (simp add: sorted_wrt_append)
    moreover have "x \<in> set (butlast (take n xs)) \<or> x = ?l"
      using that ne by (metis append_butlast_last_id in_set_conv_decomp Un_iff set_append empty_iff insert_iff list.set)
    ultimately show ?thesis by (auto simp: sorted_wrt_append)
  qed
  then have "filter (R ?l) (take n xs) = []" using irr tr by (auto simp: filter_empty_conv) (metis irr tr)+
  then show ?thesis using d by (metis append_Nil append_take_drop_id filter_append)
qed

end
