(* ===== verification/Shadow_Ledger.thy ===== *)
theory Shadow_Ledger
  imports Ledger_Properties Js_Strings
begin

text \<open>
  The two services that drive the ledger engine: the connector's shadow ledger
  (\<open>src/apps/api/src/ledger/shadow-ledger.service.ts\<close> over
  \<open>src/apps/api/src/ledger/memory-ledger-store.ts\<close>) and the authoritative ledger of the mock bank
  (\<open>src/apps/mock-bank/src/ledger/ledger.service.ts\<close>).

  The clock reading and the identifiers the engine draws are the arguments \<open>now\<close>, \<open>newTx\<close> and
  \<open>entryId\<close> of an operation; \<open>localeCompare\<close> is \<open>lc\<close>.  An operation that throws leaves the store alone,
  so its result is an error or a value together with the new store.
\<close>

section \<open>MemoryConnectorLedgerStore\<close>

text \<open>\<open>createAccount\<close> draws its own identifier; the one passed to \<open>ensureAccounts\<close> is ignored.  Reading the
  code of an absent account throws: \<open>None\<close>.\<close>

fun ensureAccounts ::
  "(nat \<Rightarrow> ident) \<Rightarrow> nat \<Rightarrow> AccountTemplate list \<Rightarrow> (string, ident) jsmap \<Rightarrow> InMemoryLedgerStore \<Rightarrow>
   (string, ident) jsmap option \<times> InMemoryLedgerStore" where
  "ensureAccounts newAccountId n [] found s = (Some found, s)"
| "ensureAccounts newAccountId n (t # ts) found s =
     (case createAccount (newAccountId n) t s of
        (None, s1) \<Rightarrow> (None, s1)
      | (Some account, s1) \<Rightarrow>
          ensureAccounts newAccountId (Suc n) ts (map_set (la_code account) (la_id account) found) s1)"

definition accountIdByCode :: "InMemoryLedgerStore \<Rightarrow> string \<Rightarrow> ident option" where
  "accountIdByCode s code = map_option la_id (find (\<lambda>a. la_code a = code) (allAccounts s))"

definition entry_order :: "LedgerEntry \<Rightarrow> LedgerEntry \<Rightarrow> int" where
  "entry_order a b =
     (let d = en_effectiveAt a - en_effectiveAt b
      in if d \<noteq> 0 then d else int (sequence a) - int (sequence b))"

definition entriesInWindow :: "InMemoryLedgerStore \<Rightarrow> ident \<Rightarrow> instant \<Rightarrow> instant \<Rightarrow> LedgerEntry list" where
  "entriesInWindow s account from to =
     js_sort entry_order (filter (\<lambda>e. accountId e = account \<and> phase e \<noteq> EntryPhase.PENDING \<and>
       en_effectiveAt e \<ge> from \<and> en_effectiveAt e \<le> to) (allEntries s))"

text \<open>One store per environment, made on first use.\<close>

type_synonym LedgerStores = "(Environment, InMemoryLedgerStore) jsmap"

definition factory_for :: "(nat \<Rightarrow> ident) \<Rightarrow> Environment \<Rightarrow> LedgerStores \<Rightarrow> InMemoryLedgerStore \<times> LedgerStores" where
  "factory_for newAccountId env stores =
     (case map_get stores env of
        Some s \<Rightarrow> (s, stores)
      | None \<Rightarrow> (let s = newStore newAccountId in (s, map_set env s stores)))"

section \<open>ShadowLedgerService\<close>

record LedgerMovement =
  lm_entryId :: ident
  lm_transactionId :: ident
  lm_type :: LedgerTransactionType
  lm_direction :: EntryDirection
  lm_amountCents :: cents
  lm_effectiveAt :: instant

record CustomerAccounts =
  ca_availableId :: ident
  ca_blockedId :: ident

datatype ShadowError =
    INSUFFICIENT_FUNDS cents cents
  | INTERNAL_ERROR string
  | RESOURCE_NOT_FOUND string
  | EngineError LedgerError
  | TypeError

definition shadow_run ::
  "(InMemoryLedgerStore \<Rightarrow> LedgerError + ('r \<times> InMemoryLedgerStore)) \<Rightarrow> InMemoryLedgerStore \<Rightarrow>
   ShadowError + ('r \<times> InMemoryLedgerStore)" where
  "shadow_run f s =
     (case f s of
        Inr r \<Rightarrow> Inr r
      | Inl (InsufficientFundsError account requested available) \<Rightarrow> Inl (INSUFFICIENT_FUNDS requested available)
      | Inl e \<Rightarrow> Inl (EngineError e))"

definition externalId :: "InMemoryLedgerStore \<Rightarrow> ShadowError + ident" where
  "externalId s =
     (case truthy (accountIdByCode s EXTERNAL_WORLD) of
        None \<Rightarrow> Inl (INTERNAL_ERROR (''A conta de razao '' @ EXTERNAL_WORLD @ '' nao foi semeada.''))
      | Some i \<Rightarrow> Inr i)"

definition leg :: "ident \<Rightarrow> EntryDirection \<Rightarrow> cents \<Rightarrow> LedgerEntryInput" where
  "leg account d amount = \<lparr>accountId = account, direction = d, amountCents = amount\<rparr>"

definition posting ::
  "LedgerTransactionType \<Rightarrow> PostPhase \<Rightarrow> string \<Rightarrow> string option \<Rightarrow> string option \<Rightarrow> LedgerEntryInput list \<Rightarrow>
   instant option \<Rightarrow> PostTransactionInput" where
  "posting ty ph key ref desc entries at =
     \<lparr>in_id = None, in_type = ty, in_phase = ph, in_idempotencyKey = key, in_entries = entries,
      in_currency = None, in_externalRef = ref, in_description = desc, in_effectiveAt = at, in_metadata = None\<rparr>"

text \<open>The private \<open>post\<close>: the engine's \<open>post\<close> at the clock's time, under \<open>run\<close>.\<close>

definition shadow_post ::
  "instant \<Rightarrow> ident \<Rightarrow> (nat \<Rightarrow> ident) \<Rightarrow> LedgerTransactionType \<Rightarrow> PostPhase \<Rightarrow> string \<Rightarrow> string option \<Rightarrow>
   string option \<Rightarrow> LedgerEntryInput list \<Rightarrow> InMemoryLedgerStore \<Rightarrow>
   ShadowError + (PostTransactionResult \<times> InMemoryLedgerStore)" where
  "shadow_post now newTx entryId ty ph key ref desc entries s =
     shadow_run (post memoryStore BRL now newTx entryId (posting ty ph key ref desc entries (Some now))) s"

definition openAccounts ::
  "(nat \<Rightarrow> ident) \<Rightarrow> ident \<Rightarrow> InMemoryLedgerStore \<Rightarrow> ShadowError + (CustomerAccounts \<times> InMemoryLedgerStore)" where
  "openAccounts newAccountId customer s =
     (case ensureAccounts newAccountId 0 (customerAccountTemplates customer) [] s of
       (None, s1) \<Rightarrow> Inl TypeError
     | (Some found, s1) \<Rightarrow>
       (case (truthy (map_get found (customerAvailableCode customer)),
              truthy (map_get found (customerBlockedCode customer))) of
          (Some a, Some b) \<Rightarrow> Inr (\<lparr>ca_availableId = a, ca_blockedId = b\<rparr>, s1)
        | _ \<Rightarrow> Inl (INTERNAL_ERROR (''Nao foi possivel abrir as contas de razao de '' @ customer @ ''.''))))"

definition creditIn ::
  "instant \<Rightarrow> ident \<Rightarrow> (nat \<Rightarrow> ident) \<Rightarrow> ident \<Rightarrow> cents \<Rightarrow> string \<Rightarrow> string option \<Rightarrow> string option \<Rightarrow>
   InMemoryLedgerStore \<Rightarrow> ShadowError + (PostTransactionResult \<times> InMemoryLedgerStore)" where
  "creditIn now newTx entryId availableId amount key ref desc s =
     (case externalId s of
        Inl e \<Rightarrow> Inl e
      | Inr ext \<Rightarrow> shadow_post now newTx entryId PIX_IN_RECEIVE PostPhase.POSTED key ref desc
          [leg ext EntryDirection.DEBIT amount, leg availableId EntryDirection.CREDIT amount] s)"

definition authorizeOut ::
  "instant \<Rightarrow> ident \<Rightarrow> (nat \<Rightarrow> ident) \<Rightarrow> ident \<Rightarrow> cents \<Rightarrow> string \<Rightarrow> string option \<Rightarrow>
   InMemoryLedgerStore \<Rightarrow> ShadowError + (PostTransactionResult \<times> InMemoryLedgerStore)" where
  "authorizeOut now newTx entryId availableId amount key ref s =
     (case externalId s of
        Inl e \<Rightarrow> Inl e
      | Inr ext \<Rightarrow> shadow_post now newTx entryId PIX_OUT_AUTHORIZE PostPhase.PENDING key ref None
          [leg availableId EntryDirection.DEBIT amount, leg ext EntryDirection.CREDIT amount] s)"

definition settleOut ::
  "instant \<Rightarrow> ident \<Rightarrow> (nat \<Rightarrow> ident) \<Rightarrow> ident \<Rightarrow> string \<Rightarrow> InMemoryLedgerStore \<Rightarrow>
   ShadowError + (PostTransactionResult \<times> InMemoryLedgerStore)" where
  "settleOut now newTx entryId pendingId key =
     shadow_run (commitPending memoryStore now newTx entryId pendingId key (Some PIX_OUT_SETTLE))"

definition voidOut ::
  "instant \<Rightarrow> ident \<Rightarrow> (nat \<Rightarrow> ident) \<Rightarrow> ident \<Rightarrow> string \<Rightarrow> InMemoryLedgerStore \<Rightarrow>
   ShadowError + (PostTransactionResult \<times> InMemoryLedgerStore)" where
  "voidOut now newTx entryId pendingId key =
     shadow_run (voidPending memoryStore now newTx entryId pendingId key (Some PIX_OUT_VOID))"

definition refundOut ::
  "instant \<Rightarrow> ident \<Rightarrow> (nat \<Rightarrow> ident) \<Rightarrow> ident \<Rightarrow> cents \<Rightarrow> string \<Rightarrow> string option \<Rightarrow>
   InMemoryLedgerStore \<Rightarrow> ShadowError + (PostTransactionResult \<times> InMemoryLedgerStore)" where
  "refundOut now newTx entryId availableId amount key ref s =
     (case externalId s of
        Inl e \<Rightarrow> Inl e
      | Inr ext \<Rightarrow> shadow_post now newTx entryId PIX_REFUND_OUT PostPhase.POSTED key ref None
          [leg availableId EntryDirection.DEBIT amount, leg ext EntryDirection.CREDIT amount] s)"

definition refundIn ::
  "instant \<Rightarrow> ident \<Rightarrow> (nat \<Rightarrow> ident) \<Rightarrow> ident \<Rightarrow> cents \<Rightarrow> string \<Rightarrow> string option \<Rightarrow>
   InMemoryLedgerStore \<Rightarrow> ShadowError + (PostTransactionResult \<times> InMemoryLedgerStore)" where
  "refundIn now newTx entryId availableId amount key ref s =
     (case externalId s of
        Inl e \<Rightarrow> Inl e
      | Inr ext \<Rightarrow> shadow_post now newTx entryId PIX_REFUND_IN PostPhase.POSTED key ref None
          [leg ext EntryDirection.DEBIT amount, leg availableId EntryDirection.CREDIT amount] s)"

definition adjust ::
  "instant \<Rightarrow> ident \<Rightarrow> (nat \<Rightarrow> ident) \<Rightarrow> ident \<Rightarrow> cents \<Rightarrow> EntryDirection \<Rightarrow> string \<Rightarrow> string option \<Rightarrow>
   InMemoryLedgerStore \<Rightarrow> ShadowError + (PostTransactionResult \<times> InMemoryLedgerStore)" where
  "adjust now newTx entryId availableId amount d key ref s =
     (case externalId s of
        Inl e \<Rightarrow> Inl e
      | Inr externo \<Rightarrow>
          (let aoCliente = (d = EntryDirection.CREDIT) in
           shadow_post now newTx entryId RECONCILIATION_ADJUSTMENT PostPhase.POSTED key ref None
             [leg (if aoCliente then externo else availableId) EntryDirection.DEBIT amount,
              leg (if aoCliente then availableId else externo) EntryDirection.CREDIT amount] s))"

definition moveBlocked ::
  "instant \<Rightarrow> ident \<Rightarrow> (nat \<Rightarrow> ident) \<Rightarrow> ident \<Rightarrow> ident \<Rightarrow> cents \<Rightarrow> string \<Rightarrow> bool \<Rightarrow>
   InMemoryLedgerStore \<Rightarrow> ShadowError + (PostTransactionResult \<times> InMemoryLedgerStore)" where
  "moveBlocked now newTx entryId availableId blockedId amount key unblock s =
     (let from = (if unblock then blockedId else availableId);
          to = (if unblock then availableId else blockedId)
      in shadow_post now newTx entryId (if unblock then UNBLOCK_FUNDS else BLOCK_FUNDS) PostPhase.POSTED key None None
           [leg from EntryDirection.DEBIT amount, leg to EntryDirection.CREDIT amount] s)"

definition shadow_balances :: "ident \<Rightarrow> InMemoryLedgerStore \<Rightarrow> ShadowError + Balances" where
  "shadow_balances ledgerAccountId s =
     (case map_get (mem_lockAccounts s [ledgerAccountId]) ledgerAccountId of
        None \<Rightarrow> Inl (RESOURCE_NOT_FOUND (''Conta de razao '' @ ledgerAccountId @ '' nao encontrada.''))
      | Some account \<Rightarrow> Inr (computeBalances account))"

definition signed_entry :: "LedgerEntry \<Rightarrow> cents" where
  "signed_entry e = (if direction e = EntryDirection.CREDIT then amountCents e else - amountCents e)"

definition by_entry_id :: "(string \<Rightarrow> string \<Rightarrow> int) \<Rightarrow> LedgerEntry \<Rightarrow> LedgerEntry \<Rightarrow> int" where
  "by_entry_id lc a b = lc (en_id a) (en_id b)"

definition movement_of ::
  "(string \<Rightarrow> string \<Rightarrow> int) \<Rightarrow> ident \<Rightarrow> LedgerTransaction \<Rightarrow> LedgerEntry list \<Rightarrow> LedgerMovement" where
  "movement_of lc t tx doGrupo =
     (let ordenados = js_sort (by_entry_id lc) doGrupo;
          total = foldl (\<lambda>soma e. soma + signed_entry e) 0 ordenados
      in \<lparr>lm_entryId = en_id (hd ordenados), lm_transactionId = t, lm_type = tx_type tx,
          lm_direction = (if total \<ge> 0 then EntryDirection.CREDIT else EntryDirection.DEBIT),
          lm_amountCents = (if total < 0 then - total else total),
          lm_effectiveAt = en_effectiveAt (hd ordenados)\<rparr>)"

definition movements ::
  "(string \<Rightarrow> string \<Rightarrow> int) \<Rightarrow> InMemoryLedgerStore \<Rightarrow> ident \<Rightarrow> instant \<Rightarrow> instant \<Rightarrow> LedgerMovement list" where
  "movements lc s ledgerAccountId from to =
     (let es = filter (\<lambda>e. phase e = EntryPhase.POSTED) (entriesInWindow s ledgerAccountId from to);
          porTransacao = group_into transactionId es []
      in js_sort (\<lambda>a b. lc (lm_entryId a) (lm_entryId b))
           (List.map_filter (\<lambda>(t, g). map_option (\<lambda>tx. movement_of lc t tx g) (mem_findTransaction s t)) porTransacao))"

section \<open>LedgerService of the mock bank\<close>

datatype BankError =
    InsufficientFunds cents
  | AccountNotFound ident
  | UnknownCode string
  | BankEngineError LedgerError

definition bank_run ::
  "(InMemoryLedgerStore \<Rightarrow> LedgerError + ('r \<times> InMemoryLedgerStore)) \<Rightarrow> InMemoryLedgerStore \<Rightarrow>
   BankError + ('r \<times> InMemoryLedgerStore)" where
  "bank_run f s =
     (case f s of
        Inr r \<Rightarrow> Inr r
      | Inl (InsufficientFundsError account requested available) \<Rightarrow> Inl (InsufficientFunds available)
      | Inl e \<Rightarrow> Inl (BankEngineError e))"

definition bank_byCode :: "InMemoryLedgerStore \<Rightarrow> string \<Rightarrow> BankError + ident" where
  "bank_byCode s code = (case byCode s code of None \<Rightarrow> Inl (UnknownCode code) | Some a \<Rightarrow> Inr (la_id a))"

definition bank_balances :: "InMemoryLedgerStore \<Rightarrow> ident \<Rightarrow> BankError + Balances" where
  "bank_balances s i =
     (case mem_account s i of None \<Rightarrow> Inl (AccountNotFound i) | Some a \<Rightarrow> Inr (computeBalances a))"

definition creditFromExternal ::
  "instant \<Rightarrow> ident \<Rightarrow> (nat \<Rightarrow> ident) \<Rightarrow> ident \<Rightarrow> cents \<Rightarrow> string \<Rightarrow> string option \<Rightarrow> string option \<Rightarrow>
   InMemoryLedgerStore \<Rightarrow> BankError + (PostTransactionResult \<times> InMemoryLedgerStore)" where
  "creditFromExternal now newTx entryId account amount key ref desc s =
     (case bank_byCode s EXTERNAL_WORLD of
        Inl e \<Rightarrow> Inl e
      | Inr ext \<Rightarrow> bank_run (post memoryStore BRL now newTx entryId
          (posting PIX_IN_RECEIVE PostPhase.POSTED key ref desc
             [leg ext EntryDirection.DEBIT amount, leg account EntryDirection.CREDIT amount] None)) s)"

definition authorizePixOut ::
  "instant \<Rightarrow> ident \<Rightarrow> (nat \<Rightarrow> ident) \<Rightarrow> ident \<Rightarrow> cents \<Rightarrow> cents \<Rightarrow> string \<Rightarrow> string option \<Rightarrow>
   InMemoryLedgerStore \<Rightarrow> BankError + (PostTransactionResult \<times> InMemoryLedgerStore)" where
  "authorizePixOut now newTx entryId account amount fee key ref s =
     (case bank_byCode s PIX_OUT_CLEARING of
        Inl e \<Rightarrow> Inl e
      | Inr clearing \<Rightarrow>
          (let entries = [leg account EntryDirection.DEBIT (amount + fee), leg clearing EntryDirection.CREDIT amount];
               go = (\<lambda>es. bank_run (post memoryStore BRL now newTx entryId
                       (posting PIX_OUT_AUTHORIZE PostPhase.PENDING key ref None es None)) s)
           in if fee > 0 then
                (case bank_byCode s FEE_REVENUE of
                   Inl e \<Rightarrow> Inl e
                 | Inr revenue \<Rightarrow> go (entries @ [leg revenue EntryDirection.CREDIT fee]))
              else go entries))"

text \<open>Two separate critical sections: a failure of the second leaves the first done.\<close>

definition settlePixOut ::
  "instant \<Rightarrow> ident \<Rightarrow> ident \<Rightarrow> (nat \<Rightarrow> ident) \<Rightarrow> (nat \<Rightarrow> ident) \<Rightarrow> ident \<Rightarrow> cents \<Rightarrow> string \<Rightarrow>
   InMemoryLedgerStore \<Rightarrow> (BankError + unit) \<times> InMemoryLedgerStore" where
  "settlePixOut now newTx newTx' entryId entryId' pendingId amount key s =
     (case bank_run (commitPending memoryStore now newTx entryId pendingId key (Some PIX_OUT_SETTLE)) s of
        Inl e \<Rightarrow> (Inl e, s)
      | Inr (r, s1) \<Rightarrow>
          (case bank_byCode s1 PIX_OUT_CLEARING of
             Inl e \<Rightarrow> (Inl e, s1)
           | Inr clearing \<Rightarrow>
               (case bank_byCode s1 EXTERNAL_WORLD of
                  Inl e \<Rightarrow> (Inl e, s1)
                | Inr ext \<Rightarrow>
                    (case bank_run (post memoryStore BRL now newTx' entryId'
                            (posting PIX_OUT_SETTLE PostPhase.POSTED (key @ ''-external'') None None
                              [leg clearing EntryDirection.DEBIT amount, leg ext EntryDirection.CREDIT amount] None)) s1 of
                       Inl e \<Rightarrow> (Inl e, s1)
                     | Inr (r', s2) \<Rightarrow> (Inr (), s2)))))"

definition voidPixOut ::
  "instant \<Rightarrow> ident \<Rightarrow> (nat \<Rightarrow> ident) \<Rightarrow> ident \<Rightarrow> string \<Rightarrow> InMemoryLedgerStore \<Rightarrow>
   BankError + (PostTransactionResult \<times> InMemoryLedgerStore)" where
  "voidPixOut now newTx entryId pendingId key =
     bank_run (voidPending memoryStore now newTx entryId pendingId key (Some PIX_OUT_VOID))"

definition postRefund ::
  "instant \<Rightarrow> ident \<Rightarrow> (nat \<Rightarrow> ident) \<Rightarrow> ident \<Rightarrow> cents \<Rightarrow> string \<Rightarrow> string option \<Rightarrow>
   InMemoryLedgerStore \<Rightarrow> BankError + (PostTransactionResult \<times> InMemoryLedgerStore)" where
  "postRefund now newTx entryId account amount key ref s =
     (case bank_byCode s EXTERNAL_WORLD of
        Inl e \<Rightarrow> Inl e
      | Inr ext \<Rightarrow> bank_run (post memoryStore BRL now newTx entryId
          (posting PIX_REFUND_OUT PostPhase.POSTED key ref None
             [leg account EntryDirection.DEBIT amount, leg ext EntryDirection.CREDIT amount] None)) s)"

definition blockFunds ::
  "instant \<Rightarrow> ident \<Rightarrow> (nat \<Rightarrow> ident) \<Rightarrow> ident \<Rightarrow> ident \<Rightarrow> cents \<Rightarrow> string \<Rightarrow> bool \<Rightarrow>
   InMemoryLedgerStore \<Rightarrow> BankError + (PostTransactionResult \<times> InMemoryLedgerStore)" where
  "blockFunds now newTx entryId available blocked amount key unblock s =
     (let from = (if unblock then blocked else available); to = (if unblock then available else blocked)
      in bank_run (post memoryStore BRL now newTx entryId
           (posting (if unblock then UNBLOCK_FUNDS else BLOCK_FUNDS) PostPhase.POSTED key None None
             [leg from EntryDirection.DEBIT amount, leg to EntryDirection.CREDIT amount] None)) s)"

definition balanceAsOf :: "InMemoryLedgerStore \<Rightarrow> ident \<Rightarrow> instant \<Rightarrow> cents" where
  "balanceAsOf s account at =
     (let anteriores = js_sort entry_order (filter (\<lambda>e. accountId e = account \<and> phase e \<noteq> EntryPhase.PENDING \<and>
            en_effectiveAt e \<le> at) (allEntries s))
      in if anteriores = [] then 0 else resultingPostedCents (last anteriores))"

definition bank_statement :: "InMemoryLedgerStore \<Rightarrow> ident \<Rightarrow> instant \<Rightarrow> instant \<Rightarrow> LedgerEntry list" where
  "bank_statement s account from to =
     js_sort entry_order (filter (\<lambda>e. accountId e = account \<and> phase e \<noteq> EntryPhase.PENDING \<and>
       en_effectiveAt e \<ge> from \<and> en_effectiveAt e \<le> to) (allEntries s))"

definition verifyInvariants :: "InMemoryLedgerStore \<Rightarrow> bool" where
  "verifyInvariants s = (case assertInvariants (allAccounts s) (allEntries s) of Inl _ \<Rightarrow> False | Inr _ \<Rightarrow> True)"

definition bank_reset :: "InMemoryLedgerStore \<Rightarrow> InMemoryLedgerStore" where
  "bank_reset s = s\<lparr>ms_accounts := map (\<lambda>(i, a). (i, a\<lparr>debitsPosted := 0, creditsPosted := 0, debitsPending := 0,
     creditsPending := 0, entryCount := 0\<rparr>)) (ms_accounts s)\<rparr>"

section \<open>The chart of accounts a service works on\<close>

text \<open>Only the external world may go negative, customer accounts are credit accounts, and the external
  world exists.\<close>

definition account_shape :: "LedgerAccount \<Rightarrow> bool" where
  "account_shape a \<longleftrightarrow> (allowsNegative a \<longleftrightarrow> la_code a = EXTERNAL_WORLD) \<and>
     ((\<exists>c. la_code a = customerAvailableCode c \<or> la_code a = customerBlockedCode c) \<longrightarrow>
        normalBalance a = NormalBalance.CREDIT)"

definition chart_ok :: "InMemoryLedgerStore \<Rightarrow> bool" where
  "chart_ok s \<longleftrightarrow>
     (\<forall>i a. mem_account s i = Some a \<longrightarrow> account_shape a) \<and> map_get (ms_accountsByCode s) EXTERNAL_WORLD \<noteq> None"

lemma shape_advance [simp]: "account_shape (advance \<delta> i es a) = account_shape a"
  by (simp add: account_shape_def)

lemma chart_ok_moved:
  assumes "chart_ok s" "ms_accountsByCode s' = ms_accountsByCode s"
    and "\<And>i. mem_account s' i = map_option (advance \<delta> i es) (mem_account s i)"
  shows "chart_ok s'"
  using assms by (auto simp: chart_ok_def)

lemma new_account_shape:
  "account_shape (new_account i t) \<longleftrightarrow> (at_allowsNegative t \<longleftrightarrow> at_code t = EXTERNAL_WORLD) \<and>
     ((\<exists>c. at_code t = customerAvailableCode c \<or> at_code t = customerBlockedCode c) \<longrightarrow>
        NORMAL_BALANCE_BY_TYPE (at_type t) = NormalBalance.CREDIT)"
  by (simp add: account_shape_def new_account_def normalBalanceFor_def)

lemma createAccount_shape:
  assumes "\<forall>i a. mem_account s i = Some a \<longrightarrow> account_shape a" "account_shape (new_account i t)"
  shows "\<forall>j a. mem_account (snd (createAccount i t s)) j = Some a \<longrightarrow> account_shape a"
  using assms by (auto simp: createAccount_def Let_def mem_account_def update_conv' split: option.split)

lemma createAccount_codes:
  "map_get (ms_accountsByCode s) c \<noteq> None \<Longrightarrow> map_get (ms_accountsByCode (snd (createAccount i t s))) c \<noteq> None"
  "map_get (ms_accountsByCode (snd (createAccount i t s))) (at_code t) \<noteq> None"
proof -
  show "map_get (ms_accountsByCode s) c \<noteq> None \<Longrightarrow> map_get (ms_accountsByCode (snd (createAccount i t s))) c \<noteq> None"
    by (auto simp: createAccount_def Let_def update_conv' new_account_def split: option.split)
  show "map_get (ms_accountsByCode (snd (createAccount i t s))) (at_code t) \<noteq> None"
    by (cases "truthy (map_get (ms_accountsByCode s) (at_code t))")
      (auto simp: createAccount_def Let_def update_conv' new_account_def)
qed

lemma createAccounts_chart:
  assumes "\<forall>i a. mem_account s i = Some a \<longrightarrow> account_shape a" "\<forall>t\<in>set ts. \<forall>i. account_shape (new_account i t)"
  shows "(\<forall>i a. mem_account (createAccounts ids n ts s) i = Some a \<longrightarrow> account_shape a) \<and>
    (\<forall>c. c \<in> at_code ` set ts \<or> map_get (ms_accountsByCode s) c \<noteq> None \<longrightarrow>
       map_get (ms_accountsByCode (createAccounts ids n ts s)) c \<noteq> None)"
  using assms
proof (induction ts arbitrary: n s)
  case (Cons t ts)
  from Cons.IH [OF createAccount_shape [OF Cons.prems(1)]] Cons.prems(2)
  have "(\<forall>i a. mem_account (createAccounts ids n (t # ts) s) i = Some a \<longrightarrow> account_shape a)"
    and step: "\<And>c. c \<in> at_code ` set ts \<or> map_get (ms_accountsByCode (snd (createAccount (ids n) t s))) c \<noteq> None \<Longrightarrow>
       map_get (ms_accountsByCode (createAccounts ids n (t # ts) s)) c \<noteq> None"
    by simp_all blast+
  moreover have "map_get (ms_accountsByCode (createAccounts ids n (t # ts) s)) c \<noteq> None"
    if "c \<in> at_code ` set (t # ts) \<or> map_get (ms_accountsByCode s) c \<noteq> None" for c
    by (rule step) (use that createAccount_codes in auto)
  ultimately show ?case by blast
qed simp

lemma singleton_shape: "t \<in> set SINGLETON_ACCOUNTS \<Longrightarrow> account_shape (new_account i t)"
  using only_external_world_allows_negative customer_codes_not_singleton
  by (auto simp: new_account_shape)

lemma newStore_chart: "chart_ok (newStore ids)"
proof -
  have "EXTERNAL_WORLD \<in> at_code ` set SINGLETON_ACCOUNTS" by (simp add: SINGLETON_ACCOUNTS_def template_def)
  moreover have "\<forall>i a. mem_account emptyStore i = Some a \<longrightarrow> account_shape a"
    by (simp add: emptyStore_def mem_account_def)
  ultimately show ?thesis
    using createAccounts_chart [of emptyStore SINGLETON_ACCOUNTS ids 0] singleton_shape
    unfolding chart_ok_def newStore_def by blast
qed

lemma customer_shape: "t \<in> set (customerAccountTemplates c) \<Longrightarrow> account_shape (new_account i t)"
  by (auto simp: new_account_shape customerAccountTemplates_def template_def customerAvailableCode_def
      customerBlockedCode_def LEDGER_CODES)

lemma createAccount_chart:
  "chart_ok s \<Longrightarrow> t \<in> set (customerAccountTemplates c) \<Longrightarrow> chart_ok (snd (createAccount i t s))"
  using createAccount_shape [of s i t] createAccount_codes(1) [of s EXTERNAL_WORLD] customer_shape
  unfolding chart_ok_def by blast

lemma post_chart:
  assumes "mem_inv s" "chart_ok s" "post memoryStore cur now newTx entryId inp s = Inr (r, s')"
  shows "chart_ok s'"
proof (cases "mem_findByIdempotencyKey s (in_idempotencyKey inp)")
  case None
  have "ms_accountsByCode s' = ms_accountsByCode s"
    using assms(3) None by (elim mem.post_newE) (auto simp: store_simps)
  with None assms mem.post_accounts [OF assms(1,3)] show ?thesis by (auto simp: store_simps intro: chart_ok_moved)
qed (use assms in \<open>simp add: mem.post_replay store_simps\<close>)

lemma resolve_chart:
  assumes "mem_inv s" "chart_ok s" "resolvePending memoryStore now newTx entryId pid key ty commit s = Inr (r, s')"
  shows "chart_ok s'"
proof (cases "mem_findByIdempotencyKey s key")
  case None
  have "ms_accountsByCode s' = ms_accountsByCode s"
    using assms(3) None by (elim mem.resolve_newE) (auto simp: store_simps)
  with None assms mem.resolve_accounts [OF assms(1,3)] show ?thesis by (auto simp: store_simps intro: chart_ok_moved)
qed (use assms in \<open>simp add: mem.resolve_replay store_simps\<close>)

text \<open>The external world is found, and it is an account that may go negative.\<close>

lemma externalId_found:
  assumes "ledger_ok s" "chart_ok s"
  obtains ext b where "externalId s = Inr ext" "mem_account s ext = Some b" "la_code b = EXTERNAL_WORLD" "ext \<noteq> []"
proof -
  have inv: "mem_inv s" "codes_ok s" using assms(1) by (auto simp: ledger_ok_def)
  from assms(2) obtain i a where "mem_account s i = Some a" "la_code a = EXTERNAL_WORLD"
    using inv(2) unfolding chart_ok_def codes_ok_def by blast
  then have "\<exists>b\<in>set (allAccounts s). la_code b = EXTERNAL_WORLD"
    using mem.acct_id [OF inv(1)] account_mem [OF inv(1)] by metis
  then obtain b where b: "find (\<lambda>a. la_code a = EXTERNAL_WORLD) (allAccounts s) = Some b"
    by (cases "find (\<lambda>a. la_code a = EXTERNAL_WORLD) (allAccounts s)") (auto simp: find_None_iff)
  then have "b \<in> set (allAccounts s)" "la_code b = EXTERNAL_WORLD" by (auto simp: find_Some_iff)
  moreover from this have m: "mem_account s (la_id b) = Some b" by (simp add: account_mem [OF inv(1)])
  moreover from m inv(2) have "la_id b \<noteq> []" by (auto simp: codes_ok_def)
  ultimately show ?thesis using b that by (simp add: externalId_def accountIdByCode_def)
qed

section \<open>Operations as ledger steps\<close>

lemma shadow_run_Inr: "shadow_run f s = Inr x \<longleftrightarrow> f s = Inr x"
  by (auto simp: shadow_run_def split: sum.splits LedgerError.splits)

datatype ShadowOp =
    OpenAccounts ident
  | CreditIn ident cents string "string option" "string option"
  | AuthorizeOut ident cents string "string option"
  | SettleOut ident string
  | VoidOut ident string
  | RefundOut ident cents string "string option"
  | RefundIn ident cents string "string option"
  | Adjust ident cents EntryDirection string "string option"
  | MoveBlocked ident ident cents string bool

fun shadow_exec ::
  "instant \<Rightarrow> ident \<Rightarrow> (nat \<Rightarrow> ident) \<Rightarrow> (nat \<Rightarrow> ident) \<Rightarrow> ShadowOp \<Rightarrow> InMemoryLedgerStore \<Rightarrow>
   ShadowError + InMemoryLedgerStore" where
  "shadow_exec now newTx eid acc (OpenAccounts c) s = map_sum id snd (openAccounts acc c s)"
| "shadow_exec now newTx eid acc (CreditIn a v k r d) s = map_sum id snd (creditIn now newTx eid a v k r d s)"
| "shadow_exec now newTx eid acc (AuthorizeOut a v k r) s = map_sum id snd (authorizeOut now newTx eid a v k r s)"
| "shadow_exec now newTx eid acc (SettleOut p k) s = map_sum id snd (settleOut now newTx eid p k s)"
| "shadow_exec now newTx eid acc (VoidOut p k) s = map_sum id snd (voidOut now newTx eid p k s)"
| "shadow_exec now newTx eid acc (RefundOut a v k r) s = map_sum id snd (refundOut now newTx eid a v k r s)"
| "shadow_exec now newTx eid acc (RefundIn a v k r) s = map_sum id snd (refundIn now newTx eid a v k r s)"
| "shadow_exec now newTx eid acc (Adjust a v d k r) s = map_sum id snd (adjust now newTx eid a v d k r s)"
| "shadow_exec now newTx eid acc (MoveBlocked a b v k u) s = map_sum id snd (moveBlocked now newTx eid a b v k u s)"

inductive shadow_reachable :: "InMemoryLedgerStore \<Rightarrow> bool" where
  init: "distinct (map ids [0..<10]) \<Longrightarrow> \<forall>j<10. ids j \<noteq> [] \<Longrightarrow> shadow_reachable (newStore ids)"
| exec: "shadow_reachable s \<Longrightarrow> shadow_exec now newTx eid acc op s = Inr s' \<Longrightarrow>
    mem_findTransaction s newTx = None \<Longrightarrow> newTx \<noteq> [] \<Longrightarrow>
    mem_account s (acc 0) = None \<Longrightarrow> mem_account s (acc 1) = None \<Longrightarrow> acc 0 \<noteq> [] \<Longrightarrow> acc 1 \<noteq> [] \<Longrightarrow> acc 0 \<noteq> acc 1 \<Longrightarrow>
    shadow_reachable s'"

lemma map_sum_Inr: "map_sum id snd x = Inr y \<longleftrightarrow> (\<exists>r. x = Inr (r, y))"
  by (cases x) auto

text \<open>What an operation that returns has done: one posting, one resolution, or two account openings.\<close>

lemma shadow_exec_cases:
  assumes "shadow_exec now newTx eid acc op s = Inr s'"
  obtains (post) inp r where "post memoryStore BRL now newTx eid inp s = Inr (r, s')" "in_id inp = None"
  | (resolve) pid key ty commit r where "resolvePending memoryStore now newTx eid pid key ty commit s = Inr (r, s')"
  | (opened) c where "s' = snd (createAccount (acc 1) (customerAccountTemplates c ! 1)
        (snd (createAccount (acc 0) (customerAccountTemplates c ! 0) s)))"
proof -
  have p: thesis if "shadow_post now newTx eid ty ph k r d es s = Inr (x, s')" for ty ph k r d es x
    using that post unfolding shadow_post_def shadow_run_Inr by (auto simp: posting_def)
  show thesis
  proof (cases op)
    case (OpenAccounts c)
    with assms obtain r where "openAccounts acc c s = Inr (r, s')" by (auto simp: map_sum_Inr)
    then show thesis
      using opened [of c]
      by (auto simp: openAccounts_def customerAccountTemplates_def split: prod.splits option.splits)
  next
    case (SettleOut q k)
    with assms resolve show thesis
      by (auto simp: map_sum_Inr settleOut_def shadow_run_Inr commitPending_def)
  next
    case (VoidOut q k)
    with assms resolve show thesis
      by (auto simp: map_sum_Inr voidOut_def shadow_run_Inr voidPending_def)
  qed (use assms p in \<open>auto simp: map_sum_Inr creditIn_def authorizeOut_def refundOut_def refundIn_def adjust_def
        moveBlocked_def Let_def split: sum.splits\<close>)
qed

lemma customer_template_nth:
  "customerAccountTemplates c ! 0 \<in> set (customerAccountTemplates c)"
  "customerAccountTemplates c ! Suc 0 \<in> set (customerAccountTemplates c)"
  by (simp_all add: customerAccountTemplates_def)

lemma shadow_reachable_sound:
  assumes "shadow_reachable s"
  shows "ledger_reachable s \<and> chart_ok s"
  using assms
proof (induction rule: shadow_reachable.induct)
  case (init ids)
  then show ?case by (auto intro: ledger_reachable.init newStore_chart)
next
  case (exec s now newTx eid acc op s')
  then have inv: "mem_inv s" by (auto dest: ledger_reachable_ok simp: ledger_ok_def)
  from exec.hyps(2) show ?case
  proof (cases rule: shadow_exec_cases)
    case (post inp r)
    have "ledger_step s s'" using exec by (intro ledger_step.post [OF post(1)]) (simp_all add: post(2))
    then show ?thesis
      using exec.IH inv post(1) by (auto intro: ledger_reachable.step post_chart)
  next
    case (resolve pid key ty commit r)
    then show ?thesis
      using exec inv by (auto intro: ledger_reachable.step ledger_step.resolve resolve_chart)
  next
    case (opened c)
    let ?s1 = "snd (createAccount (acc 0) (customerAccountTemplates c ! 0) s)"
    have "ledger_step s ?s1" using exec by (intro ledger_step.create)
    moreover have "ledger_step ?s1 s'"
      unfolding opened using exec by (intro ledger_step.create createAccount_frame) auto
    ultimately show ?thesis
      using exec.IH opened customer_template_nth [of c] by (auto intro: ledger_reachable.step createAccount_chart)
  qed
qed

section \<open>Debiting a guarded account\<close>

lemma leg_fields [simp]: "accountId (leg j d w) = j" "amountCents (leg j d w) = w" "direction (leg j d w) = d"
  by (simp_all add: leg_def)

lemma debit_balances:
  assumes "normalBalance a = NormalBalance.CREDIT"
  shows "bal_available (computeBalances (applyDelta a (deltaFor ph (leg i EntryDirection.DEBIT v)))) =
           bal_available (computeBalances a) - v"
    "bal_posted (computeBalances (applyDelta a (deltaFor ph (leg i EntryDirection.DEBIT v)))) =
           bal_posted (computeBalances a) - (if ph = EntryPhase.PENDING then 0 else v)"
  using assms by (simp_all add: counter_simps deltaFor_def ZERO_DELTA_def)

lemma assertBalanced_legs:
  "0 < v \<Longrightarrow> assertBalanced [leg i EntryDirection.DEBIT v, leg j EntryDirection.CREDIT v] = Inr (v, v)"
  by (simp add: assertBalanced_Inr)

text \<open>A debit of a customer account against an account that may go negative goes through exactly when the
  available balance covers it.\<close>

lemma debit_post:
  assumes inv: "mem_inv s"
    and a: "mem_account s i = Some a" "\<not> allowsNegative a" "normalBalance a = NormalBalance.CREDIT"
    and b: "mem_account s j = Some b" "allowsNegative b" and ne: "i \<noteq> j"
    and k: "mem_findByIdempotencyKey s (in_idempotencyKey inp) = None" and v: "0 < v"
    and inp: "in_entries inp = [leg i EntryDirection.DEBIT v, leg j EntryDirection.CREDIT v]"
  shows "if v \<le> bal_available (computeBalances a)
    then \<exists>r s'. post memoryStore cur now newTx eid inp s = Inr (r, s') \<and>
           mem_account s' i = Some (applyDelta a (deltaFor (entry_phase (in_phase inp)) (leg i EntryDirection.DEBIT v)))
    else post memoryStore cur now newTx eid inp s = Inl (InsufficientFundsError i v (bal_available (computeBalances a)))"
proof -
  let ?ph = "entry_phase (in_phase inp)"
  let ?a = "applyDelta a (deltaFor ?ph (leg i EntryDirection.DEBIT v))"
  let ?tx = "post_transaction cur now newTx v inp"
  have locked: "map_get (mem_lockAccounts s (lockOrder (in_entries inp))) k =
      (if k = i then Some a else if k = j then Some b else None)" for k
    using mem.lock_get [of s "lockOrder (in_entries inp)" k] a b by (auto simp: store_simps inp)
  have res: "post memoryStore cur now newTx eid inp s =
      (case buildEntries eid ?tx ?ph (deltaFor ?ph) 0 (in_entries inp) (mem_lockAccounts s (lockOrder (in_entries inp))) of
        Inl err \<Rightarrow> Inl err
      | Inr (entries, accounts') \<Rightarrow> Inr (\<lparr>res_transaction = ?tx, res_entries = entries, replayed = False\<rparr>,
          mem_persist s ?tx entries (map_values accounts')))"
    using k assertBalanced_legs [OF v, of i j] locked
    by (simp add: post_def store_simps map_has_def inp Let_def split: sum.splits)
  have guard: "violatesOverdraftGuard ?a \<longleftrightarrow> bal_available (computeBalances a) < v"
    using a debit_balances [OF a(3)] by (simp add: violatesOverdraftGuard_def)
  show ?thesis
  proof (cases "v \<le> bal_available (computeBalances a)")
    case False
    then show ?thesis using guard locked by (simp add: res inp buildEntries.simps)
  next
    case True
    have "\<not> violatesOverdraftGuard (applyDelta b d)" for d using b by (simp add: violatesOverdraftGuard_def)
    with True obtain r s' where p: "post memoryStore cur now newTx eid inp s = Inr (r, s')"
      using guard ne locked by (simp add: res inp update_conv' buildEntries.simps Let_def)
    have "mem_account s' i = Some ?a"
      using mem.post_accounts [OF inv p] k a ne by (simp add: store_simps inp)
    with True p show ?thesis by simp
  qed
qed

lemma authorizeOut_cases:
  assumes ok: "ledger_ok s" "chart_ok s" and a: "mem_account s i = Some a" "la_code a = customerAvailableCode c"
    and k: "mem_findByIdempotencyKey s key = None" and v: "0 < v"
  shows "if v \<le> bal_available (computeBalances a)
    then \<exists>r s' a'. authorizeOut now newTx eid i v key ref s = Inr (r, s') \<and> mem_account s' i = Some a' \<and>
           bal_available (computeBalances a') = bal_available (computeBalances a) - v \<and>
           bal_posted (computeBalances a') = bal_posted (computeBalances a)
    else authorizeOut now newTx eid i v key ref s = Inl (INSUFFICIENT_FUNDS v (bal_available (computeBalances a)))"
proof -
  obtain ext b where ext: "externalId s = Inr ext" "mem_account s ext = Some b" "la_code b = EXTERNAL_WORLD"
    by (rule externalId_found [OF ok])
  have inv: "mem_inv s" using ok by (simp add: ledger_ok_def)
  have codes: "customerAvailableCode c \<noteq> EXTERNAL_WORLD" by (simp add: customerAvailableCode_def LEDGER_CODES)
  then have ne: "i \<noteq> ext" using a ext by auto
  have shape: "\<not> allowsNegative a" "normalBalance a = NormalBalance.CREDIT" "allowsNegative b"
    using ok(2) a ext codes by (auto simp: chart_ok_def account_shape_def)
  let ?inp = "posting PIX_OUT_AUTHORIZE PostPhase.PENDING key ref None
      [leg i EntryDirection.DEBIT v, leg ext EntryDirection.CREDIT v] (Some now)"
  have inp: "in_entries ?inp = [leg i EntryDirection.DEBIT v, leg ext EntryDirection.CREDIT v]"
    "in_idempotencyKey ?inp = key" "entry_phase (in_phase ?inp) = EntryPhase.PENDING"
    by (simp_all add: posting_def)
  have out: "authorizeOut now newTx eid i v key ref s = shadow_run (post memoryStore BRL now newTx eid ?inp) s"
    by (simp add: authorizeOut_def ext shadow_post_def)
  from debit_post [OF inv a(1) shape(1,2) ext(2) shape(3) ne _ v inp(1), unfolded inp, OF k, of BRL now newTx eid]
  show ?thesis
    using debit_balances [OF shape(2), of EntryPhase.PENDING i v] unfolding out shadow_run_def
    by (auto split: if_splits)
qed

end
