(* ===== verification/Shadow_Properties.thy ===== *)
theory Shadow_Properties
  imports Shadow_Ledger
begin

text \<open>
  What the two ledger services guarantee: the shadow ledger stays sound under every sequence of its
  operations, an authorisation goes through exactly when the funds are there, the movements handed to
  reconciliation add up to the posted entries, and the mock bank's two-legged settlement always completes.
  Two closed examples show where the mock bank's history query and its reset go wrong.
\<close>

section \<open>Movements\<close>

lemma sum_map_set:
  fixes h :: "'v \<Rightarrow> int"
  assumes "wf_map m"
  shows "(\<Sum>p\<leftarrow>map_set k v m. h (snd p)) = (\<Sum>p\<leftarrow>m. h (snd p)) - (case map_get m k of None \<Rightarrow> 0 | Some w \<Rightarrow> h w) + h v"
  using assms
proof (induction m)
  case (Cons p m)
  then show ?case by (cases p) (auto simp: wf_map_def)
qed simp

lemma group_into_sum:
  fixes f :: "'a \<Rightarrow> int"
  assumes "wf_map m"
  shows "(\<Sum>p\<leftarrow>group_into key xs m. \<Sum>x\<leftarrow>snd p. f x) = (\<Sum>p\<leftarrow>m. \<Sum>x\<leftarrow>snd p. f x) + (\<Sum>x\<leftarrow>xs. f x)"
  using assms
proof (induction xs arbitrary: m)
  case (Cons x xs)
  from Cons.IH [OF alist.invar_put [OF Cons.prems]]
  show ?case by (simp add: sum_map_set [OF Cons.prems, where h = "\<lambda>g. \<Sum>x\<leftarrow>g. f x"] split: option.split)
qed simp

definition signed_movement :: "LedgerMovement \<Rightarrow> cents" where
  "signed_movement v = (if lm_direction v = EntryDirection.CREDIT then lm_amountCents v else - lm_amountCents v)"

lemma foldl_sum: "foldl (\<lambda>acc e. acc + f e) (z::int) xs = z + (\<Sum>e\<leftarrow>xs. f e)"
  by (induction xs arbitrary: z) auto

lemma sum_js_sort: "(\<Sum>e\<leftarrow>js_sort cmp xs. f e) = (\<Sum>e\<leftarrow>xs. (f e :: int))"
  by (metis mset_map_js_sort sum_mset_sum_list)

lemma movement_of_signed: "signed_movement (movement_of lc t tx g) = (\<Sum>e\<leftarrow>g. signed_entry e)"
  by (simp add: movement_of_def signed_movement_def Let_def foldl_sum sum_js_sort)

lemma allEntries_known:
  assumes "entries_ok s" "e \<in> set (allEntries s)"
  shows "mem_findTransaction s (transactionId e) \<noteq> None"
proof -
  from assms(2) obtain t es where te: "(t, es) \<in> set (ms_entries s)" "e \<in> set es"
    by (auto simp: allEntries_def map_values_def)
  with assms(1) have "group_ok s t es" by (auto simp: entries_ok_def)
  with te(2) show ?thesis by (auto simp: group_ok_def)
qed

lemma group_into_keys_mem: "(k, g) \<in> set (group_into key xs []) \<Longrightarrow> \<exists>x\<in>set xs. key x = k"
  using group_into_mem [of k g key xs] by (metis (mono_tags, lifting) filter_empty_conv)

lemma map_filter_all:
  "(\<And>x. x \<in> set xs \<Longrightarrow> f x \<noteq> None) \<Longrightarrow> List.map_filter f xs = map (\<lambda>x. the (f x)) xs"
proof (induction xs)
  case (Cons x xs)
  then obtain y where "f x = Some y" by fastforce
  with Cons show ?case by (simp add: List.map_filter_simps)
qed (simp add: List.map_filter_simps)

lemma movements_sum:
  assumes ok: "ledger_ok s"
  shows "(\<Sum>v\<leftarrow>movements lc s i from to. signed_movement v) =
      (\<Sum>e\<leftarrow>filter (\<lambda>e. accountId e = i \<and> phase e = EntryPhase.POSTED \<and> from \<le> en_effectiveAt e \<and>
         en_effectiveAt e \<le> to) (allEntries s). signed_entry e)"
    and "distinct (map lm_transactionId (movements lc s i from to))"
proof -
  let ?win = "\<lambda>e. accountId e = i \<and> phase e \<noteq> EntryPhase.PENDING \<and> from \<le> en_effectiveAt e \<and> en_effectiveAt e \<le> to"
  let ?es = "filter (\<lambda>e. phase e = EntryPhase.POSTED) (entriesInWindow s i from to)"
  let ?g = "group_into transactionId ?es []"
  let ?f = "\<lambda>(t, g). map_option (\<lambda>tx. movement_of lc t tx g) (mem_findTransaction s t)"
  have eo: "entries_ok s" using ok by (simp add: ledger_ok_def)
  have known: "mem_findTransaction s t \<noteq> None" if "(t, g) \<in> set ?g" for t g
    using group_into_keys_mem [OF that] allEntries_known [OF eo] by (auto simp: entriesInWindow_def)
  have mf: "List.map_filter ?f ?g = map (\<lambda>p. movement_of lc (fst p) (the (mem_findTransaction s (fst p))) (snd p)) ?g"
    using known by (subst map_filter_all) (fastforce intro!: map_cong)+
  have "(\<Sum>v\<leftarrow>movements lc s i from to. signed_movement v) = (\<Sum>p\<leftarrow>?g. \<Sum>e\<leftarrow>snd p. signed_entry e)"
    unfolding movements_def Let_def by (simp only: sum_js_sort mf) (simp add: comp_def movement_of_signed)
  also have "\<dots> = (\<Sum>e\<leftarrow>?es. signed_entry e)" by (simp add: group_into_sum)
  also have "\<dots> = (\<Sum>e\<leftarrow>filter (\<lambda>e. phase e = EntryPhase.POSTED) (filter ?win (allEntries s)). signed_entry e)"
    unfolding entriesInWindow_def sum_list_filter_if sum_js_sort ..
  also have "filter (\<lambda>e. phase e = EntryPhase.POSTED) (filter ?win (allEntries s)) =
      filter (\<lambda>e. accountId e = i \<and> phase e = EntryPhase.POSTED \<and> from \<le> en_effectiveAt e \<and> en_effectiveAt e \<le> to) (allEntries s)"
    by (auto simp: filter_filter intro!: filter_cong)
  finally show "(\<Sum>v\<leftarrow>movements lc s i from to. signed_movement v) =
      (\<Sum>e\<leftarrow>filter (\<lambda>e. accountId e = i \<and> phase e = EntryPhase.POSTED \<and> from \<le> en_effectiveAt e \<and>
         en_effectiveAt e \<le> to) (allEntries s). signed_entry e)" .
  have "map lm_transactionId (List.map_filter ?f ?g) = map fst ?g"
    unfolding mf by (simp add: comp_def movement_of_def Let_def)
  then have "distinct (map lm_transactionId (List.map_filter ?f ?g))"
    using group_into_wf [of "[]" transactionId ?es] by (simp add: wf_map_def)
  then show "distinct (map lm_transactionId (movements lc s i from to))"
    unfolding movements_def Let_def distinct_js_sort .
qed

lemma posted_signed_total:
  "(\<Sum>e\<leftarrow>filter (\<lambda>e. accountId e = i \<and> phase e = EntryPhase.POSTED) es. signed_entry e) =
     on_account i (moved EntryPhase.POSTED EntryDirection.CREDIT) es - on_account i (moved EntryPhase.POSTED EntryDirection.DEBIT) es"
proof (induction es)
  case (Cons e es)
  then show ?case by (cases "direction e") (simp_all add: moved_def signed_entry_def)
qed simp

section \<open>The mock bank's transfer\<close>

lemma bank_run_Inr: "bank_run f s = Inr x \<longleftrightarrow> f s = Inr x"
  by (auto simp: bank_run_def split: sum.splits LedgerError.splits)

text \<open>A code keeps naming the same account when accounts only move.\<close>

lemma bank_byCode_moved:
  assumes inv: "mem_inv s" "mem_inv s'" and c: "bank_byCode s code = Inr i"
    and "ms_accountsByCode s' = ms_accountsByCode s"
    and moved: "\<And>j. mem_account s' j = map_option (advance \<delta> j es) (mem_account s j)"
  shows "bank_byCode s' code = Inr i" "\<exists>a. mem_account s i = Some a"
proof -
  from c obtain j a where j: "truthy (map_get (ms_accountsByCode s) code) = Some j" "mem_account s j = Some a" "la_id a = i"
    by (auto simp: bank_byCode_def byCode_def mem_account_def split: option.splits)
  then have "j = i" using mem.acct_id [OF inv(1)] by auto
  with j assms(4) moved [of j] show "bank_byCode s' code = Inr i" "\<exists>a. mem_account s i = Some a"
    by (auto simp: bank_byCode_def byCode_def mem_account_def)
qed

lemma post_codes:
  assumes "post memoryStore cur now newTx eid inp s = Inr (r, s')" "mem_findByIdempotencyKey s (in_idempotencyKey inp) = None"
  shows "ms_accountsByCode s' = ms_accountsByCode s"
  using assms by (elim mem.post_newE) (auto simp: store_simps)

lemma resolve_codes:
  assumes "resolvePending memoryStore now newTx eid pid key ty commit s = Inr (r, s')" "mem_findByIdempotencyKey s key = None"
  shows "ms_accountsByCode s' = ms_accountsByCode s"
  using assms by (elim mem.resolve_newE) (auto simp: store_simps)

definition pix_out_entries :: "ident \<Rightarrow> ident \<Rightarrow> ident \<Rightarrow> cents \<Rightarrow> cents \<Rightarrow> LedgerEntryInput list" where
  "pix_out_entries account clearing revenue amount fee =
     [leg account EntryDirection.DEBIT (amount + fee), leg clearing EntryDirection.CREDIT amount] @
     (if fee > 0 then [leg revenue EntryDirection.CREDIT fee] else [])"

lemma authorizePixOut_posts:
  assumes "bank_byCode s PIX_OUT_CLEARING = Inr clearing" "bank_byCode s FEE_REVENUE = Inr revenue"
  shows "authorizePixOut now newTx eid account amount fee key ref s =
    bank_run (post memoryStore BRL now newTx eid
      (posting PIX_OUT_AUTHORIZE PostPhase.PENDING key ref None (pix_out_entries account clearing revenue amount fee) None)) s"
  using assms by (simp add: authorizePixOut_def pix_out_entries_def)

lemma pix_out_positive:
  assumes "assertBalanced (pix_out_entries account clearing revenue amount fee) = Inr (d, c)"
  shows "0 < amount" "0 \<le> fee"
  using assms by (auto simp: pix_out_entries_def assertBalanced_Inr split: if_splits)

lemma credit_available:
  assumes "normalBalance a = NormalBalance.CREDIT" "account_ok s i a" "\<not> allowsNegative a"
  shows "0 \<le> creditsPosted a - debitsPosted a - debitsPending a"
  using assms by (simp add: account_ok_def violatesOverdraftGuard_def counter_simps)

lemma resolve_keys:
  assumes "keys_ok s" "resolvePending memoryStore now newTx eid pid key ty commit s = Inr (r, s')"
    and "mem_findByIdempotencyKey s key = None" "mem_findByIdempotencyKey s k = None" "k \<noteq> key"
  shows "mem_findByIdempotencyKey s' k = None"
proof -
  have "map_get (ms_byIdempotencyKey s') k = map_get (ms_byIdempotencyKey s) k"
    using assms(2,3,5) by (elim mem.resolve_newE) (auto simp: store_simps update_conv' resolve_transaction_def)
  then show ?thesis
    using assms(1,4) findByIdempotencyKey_None by (simp add: mem_findByIdempotencyKey_def)
qed

text \<open>The accounts after a hold and its commit: moved by a direct posting, and otherwise the same.\<close>

lemma commit_accounts:
  assumes ok: "ledger_ok s" and ph: "in_phase inp = PostPhase.PENDING"
    and p: "post memoryStore cur now newTx entryId inp s = Inr (r, s1)"
    and k: "mem_findByIdempotencyKey s (in_idempotencyKey inp) = None"
    and f: "mem_findTransaction s (or_else (in_id inp) newTx) = None" "or_else (in_id inp) newTx \<noteq> []"
    and q: "resolvePending memoryStore now' newTx' entryId' (tx_id (res_transaction r)) key ty True s1 = Inr (r', s2)"
    and k': "mem_findByIdempotencyKey s1 key = None" and a: "mem_account s i = Some a"
  obtains a2 where "mem_account s2 i = Some a2" "normalBalance a2 = normalBalance a" "allowsNegative a2 = allowsNegative a"
    "counters a2 = counters (advance (deltaFor EntryPhase.POSTED) i (in_entries inp) a)"
proof -
  have inv: "mem_inv s" "mem_inv s1"
    using ok post_keeps_ok [OF ok p k f] by (auto simp: ledger_ok_def)
  let ?ins = "map entry_input (mem_findEntriesByTransaction s1 (tx_id (res_transaction r)))"
  have "mem_account s2 i = Some (advance (resolveDelta True) i ?ins (advance (deltaFor EntryPhase.PENDING) i (in_entries inp) a))"
    using mem.resolve_accounts [OF inv(2) q] mem.post_accounts [OF inv(1) p] k k' a ph by (simp add: store_simps)
  with hold_resolve_counters [OF ok ph p k f q k', of i] a that show ?thesis by simp
qed

lemma pix_out_advance:
  assumes "clr \<noteq> account" "clr \<noteq> fees" "0 \<le> fee"
  shows "counters (advance (deltaFor EntryPhase.POSTED) i (pix_out_entries account clr fees amount fee) x) =
    (debitsPosted x + (if i = account then amount + fee else 0),
     creditsPosted x + (if i = clr then amount else 0) + (if i = fees then fee else 0),
     debitsPending x, creditsPending x)"
  using assms by (auto simp: counters_def counter_simps pix_out_entries_def deltaFor_def ZERO_DELTA_def)

lemma clearing_advance:
  "counters (advance (deltaFor EntryPhase.POSTED) i [leg clr EntryDirection.DEBIT v, leg ext EntryDirection.CREDIT v] x) =
    (debitsPosted x + (if i = clr then v else 0), creditsPosted x + (if i = ext then v else 0), debitsPending x, creditsPending x)"
  by (auto simp: counters_def counter_simps deltaFor_def ZERO_DELTA_def)

text \<open>Committing the hold and then emptying the clearing account against the external world.\<close>

lemma pix_out_cycle:
  assumes ok: "ledger_ok s"
    and codes: "bank_byCode s PIX_OUT_CLEARING = Inr clr" "bank_byCode s FEE_REVENUE = Inr fees"
      "bank_byCode s EXTERNAL_WORLD = Inr ext"
    and cl: "mem_account s clr = Some a" "normalBalance a = NormalBalance.CREDIT" "\<not> allowsNegative a"
    and ex: "mem_account s ext = Some b" "allowsNegative b"
    and ne: "clr \<noteq> account" "clr \<noteq> fees" "clr \<noteq> ext"
    and auth: "authorizePixOut now newTx eid account amount fee key ref s = Inr (r, s1)"
    and k: "mem_findByIdempotencyKey s key = None"
    and f: "mem_findTransaction s newTx = None" "newTx \<noteq> []"
    and k1: "mem_findByIdempotencyKey s1 key1 = None" "mem_findByIdempotencyKey s1 (key1 @ ''-external'') = None"
    and f1: "mem_findTransaction s1 newTx1 = None" "newTx1 \<noteq> []"
  shows "\<exists>s2. settlePixOut now1 newTx1 newTx2 eid1 eid2 (tx_id (res_transaction r)) amount key1 s1 = (Inr (), s2) \<and>
     (\<forall>i. map_option counters (mem_account s2 i) = map_option (\<lambda>x.
       (debitsPosted x + (if i = account then amount + fee else 0) + (if i = clr then amount else 0),
        creditsPosted x + (if i = clr then amount else 0) + (if i = fees then fee else 0) + (if i = ext then amount else 0),
        debitsPending x, creditsPending x)) (mem_account s i))"
proof -
  let ?inp = "posting PIX_OUT_AUTHORIZE PostPhase.PENDING key ref None (pix_out_entries account clr fees amount fee) None"
  have p: "post memoryStore BRL now newTx eid ?inp s = Inr (r, s1)"
    using auth by (simp add: authorizePixOut_posts [OF codes(1,2)] bank_run_Inr)
  have inp: "in_idempotencyKey ?inp = key" "in_id ?inp = None" "in_phase ?inp = PostPhase.PENDING"
    "in_entries ?inp = pix_out_entries account clr fees amount fee" by (simp_all add: posting_def)
  have k': "mem_findByIdempotencyKey s (in_idempotencyKey ?inp) = None"
    and f': "mem_findTransaction s (or_else (in_id ?inp) newTx) = None" "or_else (in_id ?inp) newTx \<noteq> []"
    using k f inp by simp_all
  have ok1: "ledger_ok s1" by (rule post_keeps_ok [OF ok p k' f'])
  obtain d es where bal: "assertBalanced (in_entries ?inp) = Inr (d, d)"
    and r: "r = \<lparr>res_transaction = post_transaction BRL now newTx d ?inp, res_entries = es, replayed = False\<rparr>"
    and bs: "built_step s (post_transaction BRL now newTx d ?inp) (entry_phase (in_phase ?inp))
       (deltaFor (entry_phase (in_phase ?inp))) (in_entries ?inp) es s1"
    using post_built [OF p k' f'(1)] by metis
  have pos: "0 < amount" "0 \<le> fee" using pix_out_positive bal unfolding inp(4) by metis+
  have tx: "mem_findTransaction s1 (tx_id (res_transaction r)) = Some (res_transaction r)"
    "tx_status (res_transaction r) = LedgerTransactionStatus.PENDING"
    using built_transactions(1) [OF bs] r inp by (simp_all add: post_transaction_def Let_def)
  obtain r1 sc where c: "resolvePending memoryStore now1 newTx1 eid1 (tx_id (res_transaction r)) key1 (Some PIX_OUT_SETTLE) True s1 = Inr (r1, sc)"
    using pending_resolvable [OF ok1 tx k1(1)] by blast
  have okc: "ledger_ok sc" by (rule resolve_keeps_ok [OF ok1 c k1(1) f1])
  note moved = commit_accounts [OF ok inp(3) p k' f' c k1(1)]
  have inv: "mem_inv s" "mem_inv s1" "mem_inv sc" "keys_ok s1" using ok ok1 okc by (auto simp: ledger_ok_def)
  have codes1: "bank_byCode s1 cd = Inr j" if "bank_byCode s cd = Inr j" for cd j
    using bank_byCode_moved(1) [OF inv(1,2) that post_codes [OF p k']] mem.post_accounts [OF inv(1) p] k' by (simp add: store_simps)
  have codesc: "bank_byCode sc cd = Inr j" if "bank_byCode s cd = Inr j" for cd j
    using bank_byCode_moved(1) [OF inv(2,3) codes1 [OF that] resolve_codes [OF c k1(1)]] mem.resolve_accounts [OF inv(2) c] k1(1)
    by (simp add: store_simps)
  obtain ac where ac: "mem_account sc clr = Some ac" "normalBalance ac = NormalBalance.CREDIT" "\<not> allowsNegative ac"
    "counters ac = counters (advance (deltaFor EntryPhase.POSTED) clr (in_entries ?inp) a)"
    by (rule moved [OF cl(1)]) (use cl in simp)
  obtain bc where bc: "mem_account sc ext = Some bc" "allowsNegative bc"
    by (rule moved [OF ex(1)]) (use ex in simp)
  have "0 \<le> creditsPosted a - debitsPosted a - debitsPending a"
    using credit_available [OF cl(2) _ cl(3), of s clr] ok cl(1) by (auto simp: ledger_ok_def accounts_ok_def)
  then have avail: "amount \<le> bal_available (computeBalances ac)"
    using ac(2,4) pix_out_advance [OF ne(1,2) pos(2), of clr amount a] ne unfolding inp(4)
    by (simp add: counters_def counter_simps)
  let ?inp2 = "posting PIX_OUT_SETTLE PostPhase.POSTED (key1 @ ''-external'') None None
      [leg clr EntryDirection.DEBIT amount, leg ext EntryDirection.CREDIT amount] None"
  have inp2: "in_entries ?inp2 = [leg clr EntryDirection.DEBIT amount, leg ext EntryDirection.CREDIT amount]"
    "in_idempotencyKey ?inp2 = key1 @ ''-external''" "in_phase ?inp2 = PostPhase.POSTED" by (simp_all add: posting_def)
  have kc: "mem_findByIdempotencyKey sc (key1 @ ''-external'') = None"
    by (rule resolve_keys [OF inv(4) c k1]) simp
  obtain r2 s2 where p2: "post memoryStore BRL now1 newTx2 eid2 ?inp2 sc = Inr (r2, s2)"
    using debit_post [OF inv(3) ac(1,3,2) bc ne(3) _ pos(1) inp2(1), of BRL now1 newTx2 eid2] avail kc inp2(2) by auto
  have "settlePixOut now1 newTx1 newTx2 eid1 eid2 (tx_id (res_transaction r)) amount key1 s1 = (Inr (), s2)"
    using c p2 codesc [OF codes(1)] codesc [OF codes(3)]
    by (simp add: settlePixOut_def bank_run_def commitPending_def)
  moreover have "map_option counters (mem_account s2 i) = map_option (\<lambda>x.
       (debitsPosted x + (if i = account then amount + fee else 0) + (if i = clr then amount else 0),
        creditsPosted x + (if i = clr then amount else 0) + (if i = fees then fee else 0) + (if i = ext then amount else 0),
        debitsPending x, creditsPending x)) (mem_account s i)" for i
  proof -
    have m2: "mem_account s2 i = map_option (advance (deltaFor EntryPhase.POSTED) i (in_entries ?inp2)) (mem_account sc i)"
      using mem.post_accounts [OF inv(3) p2] kc inp2 by (simp add: store_simps)
    show ?thesis
    proof (cases "mem_account s i")
      case None
      then have "mem_account sc i = None"
        using mem.resolve_accounts [OF inv(2) c] mem.post_accounts [OF inv(1) p] k' k1(1) by (simp add: store_simps)
      with None m2 show ?thesis by simp
    next
      case (Some x)
      obtain x2 where x2: "mem_account sc i = Some x2"
        "counters x2 = counters (advance (deltaFor EntryPhase.POSTED) i (in_entries ?inp) x)"
        by (rule moved [OF Some])
      show ?thesis
        using x2 m2 Some clearing_advance [of i clr amount ext x2] pix_out_advance [OF ne(1,2) pos(2), of i amount x]
        unfolding inp(4) inp2(1) by (simp add: counters_def)
    qed
  qed
  ultimately show ?thesis by blast
qed

section \<open>What an operation does to the balances\<close>

text \<open>An account seen from its credit side: what is available in it and what is posted to it.  For the accounts of a customer these
  are the balances the engine computes.\<close>

definition credit_view :: "LedgerAccount \<Rightarrow> cents \<times> cents" where
  "credit_view a = (creditsPosted a - debitsPosted a - debitsPending a, creditsPosted a - debitsPosted a)"

text \<open>The share of account \<open>i\<close> in a payment of \<open>v\<close> from \<open>f\<close> to \<open>t\<close>, and what a transaction holds on it.\<close>

definition paid :: "ident \<Rightarrow> ident \<Rightarrow> cents \<Rightarrow> ident \<Rightarrow> cents" where
  "paid f t v i = (if i = t then v else 0) - (if i = f then v else 0)"

definition held_on :: "InMemoryLedgerStore \<Rightarrow> ident \<Rightarrow> EntryDirection \<Rightarrow> ident \<Rightarrow> cents" where
  "held_on s p d i = (\<Sum>e\<leftarrow>filter (\<lambda>e. accountId e = i \<and> direction e = d) (mem_findEntriesByTransaction s p). amountCents e)"

text \<open>What each operation means for the balances of an account, available and posted: money comes from and goes to the external world,
  an authorisation only reserves, a settlement posts what was reserved, and a void gives it back.\<close>

fun op_effect :: "ident \<Rightarrow> InMemoryLedgerStore \<Rightarrow> ShadowOp \<Rightarrow> ident \<Rightarrow> cents \<times> cents" where
  "op_effect ext s (OpenAccounts c) i = (0, 0)"
| "op_effect ext s (CreditIn a v k r d) i = (paid ext a v i, paid ext a v i)"
| "op_effect ext s (AuthorizeOut a v k r) i = (if i = a then - v else 0, 0)"
| "op_effect ext s (SettleOut p k) i = (held_on s p EntryDirection.CREDIT i,
     held_on s p EntryDirection.CREDIT i - held_on s p EntryDirection.DEBIT i)"
| "op_effect ext s (VoidOut p k) i = (held_on s p EntryDirection.DEBIT i, 0)"
| "op_effect ext s (RefundOut a v k r) i = (paid a ext v i, paid a ext v i)"
| "op_effect ext s (RefundIn a v k r) i = (paid ext a v i, paid ext a v i)"
| "op_effect ext s (Adjust a v d k r) i =
     (if d = EntryDirection.CREDIT then (paid ext a v i, paid ext a v i) else (paid a ext v i, paid a ext v i))"
| "op_effect ext s (MoveBlocked a b v k unblock) i =
     (if unblock then (paid b a v i, paid b a v i) else (paid a b v i, paid a b v i))"

fun op_key :: "ShadowOp \<Rightarrow> string option" where
  "op_key (OpenAccounts c) = None"
| "op_key (CreditIn a v k r d) = Some k"
| "op_key (AuthorizeOut a v k r) = Some k"
| "op_key (SettleOut p k) = Some k"
| "op_key (VoidOut p k) = Some k"
| "op_key (RefundOut a v k r) = Some k"
| "op_key (RefundIn a v k r) = Some k"
| "op_key (Adjust a v d k r) = Some k"
| "op_key (MoveBlocked a b v k u) = Some k"

definition moved_by :: "(ident \<Rightarrow> cents \<times> cents) \<Rightarrow> InMemoryLedgerStore \<Rightarrow> InMemoryLedgerStore \<Rightarrow> bool" where
  "moved_by effect s s' \<longleftrightarrow> (\<forall>i a. mem_account s i = Some a \<longrightarrow> (\<exists>a'. mem_account s' i = Some a' \<and>
     credit_view a' = (fst (credit_view a) + fst (effect i), snd (credit_view a) + snd (effect i)))) \<and>
   (\<forall>i a'. mem_account s i = None \<longrightarrow> mem_account s' i = Some a' \<longrightarrow> credit_view a' = (0, 0))"

lemma moved_byD:
  "moved_by effect s s' \<Longrightarrow> mem_account s i = Some a \<Longrightarrow> \<exists>a'. mem_account s' i = Some a' \<and>
     credit_view a' = (fst (credit_view a) + fst (effect i), snd (credit_view a) + snd (effect i))"
  unfolding moved_by_def by blast

lemma two_legs_moved:
  assumes "mem_inv s" "shadow_post now newTx eid ty ph key ref desc [leg f EntryDirection.DEBIT v, leg t EntryDirection.CREDIT v] s = Inr (r, s')"
    and "mem_findByIdempotencyKey s key = None"
  shows "moved_by (\<lambda>i. if ph = PostPhase.PENDING then (if i = f then - v else 0, 0) else (paid f t v i, paid f t v i)) s s'"
proof -
  let ?inp = "posting ty ph key ref desc [leg f EntryDirection.DEBIT v, leg t EntryDirection.CREDIT v] (Some now)"
  have p: "post memoryStore BRL now newTx eid ?inp s = Inr (r, s')"
    using assms(2) by (simp add: shadow_post_def shadow_run_Inr)
  have inp: "in_idempotencyKey ?inp = key" "in_phase ?inp = ph"
    "in_entries ?inp = [leg f EntryDirection.DEBIT v, leg t EntryDirection.CREDIT v]" by (simp_all add: posting_def)
  have "mem_account s' i = map_option (advance (deltaFor (entry_phase ph)) i
      [leg f EntryDirection.DEBIT v, leg t EntryDirection.CREDIT v]) (mem_account s i)" for i
    using mem.post_accounts [OF assms(1) p, of i] assms(3) unfolding inp by (simp add: store_simps)
  then show ?thesis
    by (cases ph) (auto simp: moved_by_def credit_view_def counter_simps paid_def)
qed

lemma resolved_view:
  "credit_view (advance (resolveDelta commit) i (map entry_input es) a) =
     (let sum = (\<lambda>d. \<Sum>e\<leftarrow>filter (\<lambda>e. accountId e = i \<and> direction e = d) es. amountCents e)
      in if commit then (fst (credit_view a) + sum EntryDirection.CREDIT,
           snd (credit_view a) + sum EntryDirection.CREDIT - sum EntryDirection.DEBIT)
         else (fst (credit_view a) + sum EntryDirection.DEBIT, snd (credit_view a)))"
  by (induction es arbitrary: a) (auto simp: credit_view_def counter_simps entry_input_def Let_def split: if_splits)

lemma resolution_moved:
  assumes "mem_inv s" "resolvePending memoryStore now newTx eid p key ty commit s = Inr (r, s')"
    and "mem_findByIdempotencyKey s key = None"
  shows "moved_by (\<lambda>i. if commit then (held_on s p EntryDirection.CREDIT i, held_on s p EntryDirection.CREDIT i - held_on s p EntryDirection.DEBIT i)
     else (held_on s p EntryDirection.DEBIT i, 0)) s s'"
proof -
  have a: "mem_account s' i = map_option (advance (resolveDelta commit) i (map entry_input (mem_findEntriesByTransaction s p))) (mem_account s i)" for i
    using mem.resolve_accounts [OF assms(1,2), of i] assms(3) by (simp add: store_simps)
  show ?thesis by (auto simp: moved_by_def a resolved_view held_on_def Let_def)
qed

lemma createAccount_moved: "mem_account s j = None \<Longrightarrow> moved_by (\<lambda>i. (0, 0)) s (snd (createAccount j t s))"
  by (auto simp: moved_by_def createAccount_def Let_def mem_account_def update_conv' new_account_def credit_view_def split: option.split)

lemma moved_by_again:
  assumes one: "moved_by (\<lambda>i. (0, 0)) s s1" and two: "moved_by (\<lambda>i. (0, 0)) s1 s2"
  shows "moved_by (\<lambda>i. (0, 0)) s s2"
proof -
  have "\<exists>a2. mem_account s2 i = Some a2 \<and> credit_view a2 = credit_view a" if a: "mem_account s i = Some a" for i a
  proof -
    from moved_byD [OF one a] obtain a1 where a1: "mem_account s1 i = Some a1" "credit_view a1 = credit_view a" by auto
    from moved_byD [OF two a1(1)] a1(2) show ?thesis by auto
  qed
  moreover have "credit_view a2 = (0, 0)" if a: "mem_account s i = None" "mem_account s2 i = Some a2" for i a2
  proof (cases "mem_account s1 i")
    case None
    then show ?thesis using two a(2) by (simp add: moved_by_def)
  next
    case (Some a1)
    then have "credit_view a1 = (0, 0)" using one a(1) by (simp add: moved_by_def)
    with moved_byD [OF two Some] a(2) show ?thesis by auto
  qed
  ultimately show ?thesis by (simp add: moved_by_def)
qed

lemma replayed_key:
  assumes "shadow_exec now newTx eid acc op s = Inr s'" "op_key op = Some k" "mem_findByIdempotencyKey s k \<noteq> None"
  shows "s' = s"
  using assms
  by (cases op) (auto simp: map_sum_Inr creditIn_def authorizeOut_def refundOut_def refundIn_def adjust_def moveBlocked_def settleOut_def
      voidOut_def commitPending_def voidPending_def shadow_post_def shadow_run_Inr posting_def mem.post_replay mem.resolve_replay
      store_simps Let_def split: sum.splits)

lemma shadow_exec_moved:
  assumes ok: "ledger_ok s" and ext: "externalId s = Inr ext" and fresh: "\<forall>k. op_key op = Some k \<longrightarrow> mem_findByIdempotencyKey s k = None"
    and ids: "mem_account s (acc 0) = None" "mem_account s (acc 1) = None" "acc 0 \<noteq> acc 1"
    and run: "shadow_exec now newTx eid acc op s = Inr s'"
  shows "moved_by (op_effect ext s op) s s'"
proof -
  have inv: "mem_inv s" using ok by (simp add: ledger_ok_def)
  note two = two_legs_moved [OF inv] and resolved = resolution_moved [OF inv]
  show ?thesis
  proof (cases op)
    case (OpenAccounts c)
    with run have "s' = snd (createAccount (acc 1) (customerAccountTemplates c ! 1) (snd (createAccount (acc 0) (customerAccountTemplates c ! 0) s)))"
      by (auto simp: map_sum_Inr openAccounts_def customerAccountTemplates_def split: prod.splits option.splits)
    then have "moved_by (\<lambda>i. (0, 0)) s s'"
      using moved_by_again [OF createAccount_moved [OF ids(1)] createAccount_moved [OF createAccount_frame [OF ids(2)]]] ids(3) by simp
    then show ?thesis by (simp add: OpenAccounts moved_by_def)
  next
    case (AuthorizeOut a v k d)
    with run fresh obtain r where "shadow_post now newTx eid PIX_OUT_AUTHORIZE PostPhase.PENDING k d None
        [leg a EntryDirection.DEBIT v, leg ext EntryDirection.CREDIT v] s = Inr (r, s')" "mem_findByIdempotencyKey s k = None"
      by (auto simp: map_sum_Inr authorizeOut_def ext)
    from two [OF this] show ?thesis by (simp add: AuthorizeOut moved_by_def)
  next
    case (SettleOut p k)
    with run fresh obtain r where "resolvePending memoryStore now newTx eid p k (Some PIX_OUT_SETTLE) True s = Inr (r, s')"
      "mem_findByIdempotencyKey s k = None" by (auto simp: map_sum_Inr settleOut_def shadow_run_Inr commitPending_def)
    from resolved [OF this] show ?thesis by (simp add: SettleOut moved_by_def)
  next
    case (VoidOut p k)
    with run fresh obtain r where "resolvePending memoryStore now newTx eid p k (Some PIX_OUT_VOID) False s = Inr (r, s')"
      "mem_findByIdempotencyKey s k = None" by (auto simp: map_sum_Inr voidOut_def shadow_run_Inr voidPending_def)
    from resolved [OF this] show ?thesis by (simp add: VoidOut moved_by_def)
  qed (use run fresh in \<open>auto simp: map_sum_Inr creditIn_def authorizeOut_def refundOut_def refundIn_def adjust_def moveBlocked_def Let_def ext
        moved_by_def dest!: two split: if_splits\<close>)
qed

text \<open>A sound shadow ledger.\<close>

definition shadow_sound :: "InMemoryLedgerStore \<Rightarrow> bool" where
  "shadow_sound s \<longleftrightarrow> checkInvariants (allAccounts s) (allEntries s) = [] \<and>
     (\<forall>i a. mem_account s i = Some a \<longrightarrow> la_code a \<noteq> EXTERNAL_WORLD \<longrightarrow> 0 \<le> bal_available (computeBalances a)) \<and>
     (\<forall>i a c. mem_account s i = Some a \<longrightarrow> la_code a = customerAvailableCode c \<or> la_code a = customerBlockedCode c \<longrightarrow>
        credit_view a = (bal_available (computeBalances a), bal_posted (computeBalances a)))"

lemma shadow_reachable_state:
  assumes "shadow_reachable s"
  shows "shadow_sound s"
proof -
  have ok: "ledger_ok s" "chart_ok s"
    using shadow_reachable_sound [OF assms] by (auto intro: ledger_reachable_ok)
  have "0 \<le> bal_available (computeBalances a)" if "mem_account s i = Some a" "la_code a \<noteq> EXTERNAL_WORLD" for i a
  proof -
    have "\<not> allowsNegative a" "account_ok s i a"
      using ok that by (auto simp: chart_ok_def account_shape_def ledger_ok_def accounts_ok_def)
    then show ?thesis by (simp add: account_ok_def violatesOverdraftGuard_def)
  qed
  moreover have "credit_view a = (bal_available (computeBalances a), bal_posted (computeBalances a))"
    if "mem_account s i = Some a" "la_code a = customerAvailableCode c \<or> la_code a = customerBlockedCode c" for i a c
  proof -
    have "normalBalance a = NormalBalance.CREDIT" using ok(2) that unfolding chart_ok_def account_shape_def by blast
    then show ?thesis by (simp add: credit_view_def counter_simps)
  qed
  ultimately show ?thesis using ledger_ok_check [OF ok(1)] by (simp add: shadow_sound_def)
qed

section \<open>Worked shadow and bank ledgers\<close>

definition demo_acc :: "nat \<Rightarrow> ident" where
  "demo_acc n = (if n = 0 then ''LA'' else ''LB'')"

definition shadow_opened :: InMemoryLedgerStore where
  "shadow_opened = projr (shadow_exec 1 ''T0'' demo_entry demo_acc (OpenAccounts ''c1'') (newStore demo_id))"

definition shadow_credited :: InMemoryLedgerStore where
  "shadow_credited = projr (shadow_exec 2 ''T1'' demo_entry (\<lambda>n. if n = 0 then ''LC'' else ''LD'')
     (CreditIn ''LA'' 10000 ''in'' None None) shadow_opened)"

lemma shadow_exec_projr:
  assumes "shadow_reachable s" "isl (shadow_exec now newTx eid acc op s) = False"
    and "mem_findTransaction s newTx = None \<and> newTx \<noteq> [] \<and> mem_account s (acc 0) = None \<and> mem_account s (acc 1) = None \<and>
      acc 0 \<noteq> [] \<and> acc 1 \<noteq> [] \<and> acc 0 \<noteq> acc 1"
  shows "shadow_reachable (projr (shadow_exec now newTx eid acc op s))"
  using assms by (cases "shadow_exec now newTx eid acc op s") (auto intro: shadow_reachable.exec)

lemma shadow_demo_reachable: "shadow_reachable shadow_opened" "shadow_reachable shadow_credited"
proof -
  have new: "shadow_reachable (newStore demo_id)"
    by (rule shadow_reachable.init) (simp_all add: demo_id_def upt_rec)
  show opened: "shadow_reachable shadow_opened"
    unfolding shadow_opened_def by (rule shadow_exec_projr [OF new]; code_simp)
  show "shadow_reachable shadow_credited"
    unfolding shadow_credited_def by (rule shadow_exec_projr [OF opened]; code_simp)
qed

section \<open>Properties\<close>

text \<open>C14: every operation the connector runs on a reachable shadow ledger does what it means and nothing else.  Under a key already
  used it changes nothing; otherwise every account moves by exactly the effect of the operation: a credit, a refund received or an adjustment
  in favour moves the amount from the external world to the customer, a refund paid or an adjustment against moves it back, an authorisation
  takes it off what is available and leaves what is posted, a settlement posts what the transfer holds, a void gives it back, and blocking
  moves it between the two accounts of the customer; accounts opened start empty.  Before and after, the invariant checker is silent, and
  no account but the external world has a negative available balance.\<close>

theorem shadow_ledger_sound:
  assumes "shadow_reachable s" "shadow_exec now newTx eid acc op s = Inr s'"
    and "mem_findTransaction s newTx = None" "newTx \<noteq> []"
    and "mem_account s (acc 0) = None" "mem_account s (acc 1) = None" "acc 0 \<noteq> []" "acc 1 \<noteq> []" "acc 0 \<noteq> acc 1"
  shows "shadow_sound s \<and> shadow_sound s' \<and>
    (\<exists>ext b. mem_account s ext = Some b \<and> la_code b = EXTERNAL_WORLD \<and>
       (if \<exists>k. op_key op = Some k \<and> mem_findByIdempotencyKey s k \<noteq> None then s' = s else moved_by (op_effect ext s op) s s'))"
proof (intro conjI)
  show "shadow_sound s" by (rule shadow_reachable_state [OF assms(1)])
  show "shadow_sound s'" by (rule shadow_reachable_state [OF shadow_reachable.exec [OF assms]])
  have ok: "ledger_ok s" "chart_ok s"
    using shadow_reachable_sound [OF assms(1)] by (auto intro: ledger_reachable_ok)
  obtain ext b where ext: "externalId s = Inr ext" "mem_account s ext = Some b" "la_code b = EXTERNAL_WORLD"
    by (rule externalId_found [OF ok])
  have "if \<exists>k. op_key op = Some k \<and> mem_findByIdempotencyKey s k \<noteq> None then s' = s else moved_by (op_effect ext s op) s s'"
    using replayed_key [OF assms(2)] shadow_exec_moved [OF ok(1) ext(1) _ assms(5,6,9,2)] by auto
  with ext show "\<exists>ext b. mem_account s ext = Some b \<and> la_code b = EXTERNAL_WORLD \<and>
       (if \<exists>k. op_key op = Some k \<and> mem_findByIdempotencyKey s k \<noteq> None then s' = s else moved_by (op_effect ext s op) s s')" by blast
qed

theorem shadow_ledger_sound_witness:
  "\<exists>s' a'. refundOut 3 ''T2'' demo_entry ''LA'' 3000 ''refund'' None shadow_credited = Inr s' \<and>
     mem_account (snd s') ''LA'' = Some a' \<and> credit_view a' = (7000, 7000) \<and> shadow_sound (snd s')"
proof -
  let ?acc = "\<lambda>n::nat. if n = 0 then ''LE'' else ''LF''"
  let ?op = "RefundOut ''LA'' 3000 ''refund'' None"
  have run: "\<exists>r. refundOut 3 ''T2'' demo_entry ''LA'' 3000 ''refund'' None shadow_credited = Inr r"
  proof -
    have "isl (refundOut 3 ''T2'' demo_entry ''LA'' 3000 ''refund'' None shadow_credited) = False" by code_simp
    then show ?thesis by (cases "refundOut 3 ''T2'' demo_entry ''LA'' 3000 ''refund'' None shadow_credited") auto
  qed
  then obtain r s' where r: "refundOut 3 ''T2'' demo_entry ''LA'' 3000 ''refund'' None shadow_credited = Inr (r, s')" by fastforce
  then have e: "shadow_exec 3 ''T2'' demo_entry ?acc ?op shadow_credited = Inr s'" by simp
  have f: "mem_findTransaction shadow_credited ''T2'' = None" "''T2'' \<noteq> []" "mem_account shadow_credited (?acc 0) = None"
    "mem_account shadow_credited (?acc 1) = None" "?acc 0 \<noteq> []" "?acc 1 \<noteq> []" "?acc 0 \<noteq> ?acc 1" by code_simp+
  have k: "mem_findByIdempotencyKey shadow_credited ''refund'' = None" by code_simp
  have a: "map_option (\<lambda>a. (la_code a = EXTERNAL_WORLD, credit_view a)) (mem_account shadow_credited ''LA'') = Some (False, 10000, 10000)"
    by code_simp
  from shadow_ledger_sound [OF shadow_demo_reachable(2) e f] k obtain ext b where s: "shadow_sound s'"
    "mem_account shadow_credited ext = Some b" "la_code b = EXTERNAL_WORLD" "moved_by (op_effect ext shadow_credited ?op) shadow_credited s'"
    by auto
  obtain x where x: "mem_account shadow_credited ''LA'' = Some x" "la_code x \<noteq> EXTERNAL_WORLD" "credit_view x = (10000, 10000)"
    using a by auto
  have "ext \<noteq> ''LA''" using s(2,3) x(1,2) by auto
  then have "op_effect ext shadow_credited ?op ''LA'' = (- 3000, - 3000)" by (simp add: paid_def)
  then have "\<exists>a'. mem_account s' ''LA'' = Some a' \<and> credit_view a' = (7000, 7000)"
    using moved_byD [OF s(4) x(1)] x(3) by simp
  with r s(1) show ?thesis by auto
qed

text \<open>An outgoing transfer is authorised exactly when the available balance covers it.  A covered
  one takes the amount off the available balance and leaves the posted balance alone; one that is not covered
  reports what was asked and what is available, and a second hold can only use what the first one left.\<close>

theorem authorizeOut_exact:
  assumes "shadow_reachable s" "mem_account s i = Some a" "la_code a = customerAvailableCode c"
    and "mem_findByIdempotencyKey s key = None" "0 < v"
  shows "if v \<le> bal_available (computeBalances a)
    then \<exists>r s' a'. authorizeOut now newTx eid i v key ref s = Inr (r, s') \<and> mem_account s' i = Some a' \<and>
           bal_available (computeBalances a') = bal_available (computeBalances a) - v \<and>
           bal_posted (computeBalances a') = bal_posted (computeBalances a)
    else authorizeOut now newTx eid i v key ref s = Inl (INSUFFICIENT_FUNDS v (bal_available (computeBalances a)))"
  using shadow_reachable_sound [OF assms(1)] assms
  by (intro authorizeOut_cases [where c = c]) (auto intro: ledger_reachable_ok)

theorem authorizeOut_exact_witness:
  "(\<exists>r s' a'. authorizeOut 3 ''T2'' demo_entry ''LA'' 6000 ''out'' None shadow_credited = Inr (r, s') \<and>
      mem_account s' ''LA'' = Some a' \<and> bal_available (computeBalances a') = 4000 \<and>
      bal_posted (computeBalances a') = 10000) \<and>
   authorizeOut 3 ''T2'' demo_entry ''LA'' 10001 ''out'' None shadow_credited = Inl (INSUFFICIENT_FUNDS 10001 10000)"
proof -
  let ?a = "the (mem_account shadow_credited ''LA'')"
  have f: "mem_account shadow_credited ''LA'' \<noteq> None \<and> la_code ?a = customerAvailableCode ''c1'' \<and>
     mem_findByIdempotencyKey shadow_credited ''out'' = None \<and>
     bal_available (computeBalances ?a) = 10000 \<and> bal_posted (computeBalances ?a) = 10000" by code_simp
  have a: "mem_account shadow_credited ''LA'' = Some ?a" using f by auto
  note exact = authorizeOut_exact [OF shadow_demo_reachable(2) a, of "''c1''" "''out''" _ 3 "''T2''" demo_entry None]
  show ?thesis using exact [of 6000] exact [of 10001] f by simp
qed

text \<open>The movements handed to reconciliation are one per ledger transaction, and their signed
  amounts add up to the posted entries of the account inside the window: nothing is lost and nothing is
  counted twice.\<close>

theorem movements_exact:
  assumes "ledger_reachable s"
  shows "(\<Sum>v\<leftarrow>movements lc s i from to. signed_movement v) =
      (\<Sum>e\<leftarrow>filter (\<lambda>e. accountId e = i \<and> phase e = EntryPhase.POSTED \<and> from \<le> en_effectiveAt e \<and>
         en_effectiveAt e \<le> to) (allEntries s). signed_entry e) \<and>
    distinct (map lm_transactionId (movements lc s i from to))"
  using movements_sum [OF ledger_reachable_ok [OF assms]] by blast

theorem movements_exact_witness:
  "(\<Sum>v\<leftarrow>movements (\<lambda>_ _. 0) shadow_credited ''LA'' 0 5. signed_movement v) = 10000"
proof -
  have "(\<Sum>e\<leftarrow>filter (\<lambda>e. accountId e = ''LA'' \<and> phase e = EntryPhase.POSTED \<and> 0 \<le> en_effectiveAt e \<and>
         en_effectiveAt e \<le> 5) (allEntries shadow_credited). signed_entry e) = 10000" by code_simp
  moreover have "ledger_reachable shadow_credited"
    using shadow_reachable_sound [OF shadow_demo_reachable(2)] by blast
  ultimately show ?thesis
    using movements_exact [of shadow_credited "\<lambda>_ _. 0" "''LA''" 0 5] by simp
qed

text \<open>Once the mock bank has authorised a transfer, settling it always completes: the hold
  becomes a posting, the clearing account is emptied into the external world, and the counters of every account
  end where a direct payment would have put them, the clearing account having passed the amount through.\<close>

theorem pix_out_settlement_completes:
  assumes "ledger_reachable s"
    and "bank_byCode s PIX_OUT_CLEARING = Inr clr" "bank_byCode s FEE_REVENUE = Inr fees"
      "bank_byCode s EXTERNAL_WORLD = Inr ext"
    and "mem_account s clr = Some a" "normalBalance a = NormalBalance.CREDIT" "\<not> allowsNegative a"
    and "mem_account s ext = Some b" "allowsNegative b"
    and "clr \<noteq> account" "clr \<noteq> fees" "clr \<noteq> ext"
    and "authorizePixOut now newTx eid account amount fee key ref s = Inr (r, s1)"
    and "mem_findByIdempotencyKey s key = None" "mem_findTransaction s newTx = None" "newTx \<noteq> []"
    and "mem_findByIdempotencyKey s1 key1 = None" "mem_findByIdempotencyKey s1 (key1 @ ''-external'') = None"
    and "mem_findTransaction s1 newTx1 = None" "newTx1 \<noteq> []"
  shows "\<exists>s2. settlePixOut now1 newTx1 newTx2 eid1 eid2 (tx_id (res_transaction r)) amount key1 s1 = (Inr (), s2) \<and>
     (\<forall>i. map_option counters (mem_account s2 i) = map_option (\<lambda>x.
       (debitsPosted x + (if i = account then amount + fee else 0) + (if i = clr then amount else 0),
        creditsPosted x + (if i = clr then amount else 0) + (if i = fees then fee else 0) + (if i = ext then amount else 0),
        debitsPending x, creditsPending x)) (mem_account s i))"
  using assms by (intro pix_out_cycle) (auto intro: ledger_reachable_ok)

definition bank_authorised :: "PostTransactionResult \<times> InMemoryLedgerStore" where
  "bank_authorised = projr (authorizePixOut 2 ''T2'' demo_entry ''LA'' 3000 50 ''hold'' None demo_funded)"

lemma bank_authorised_eq:
  "authorizePixOut 2 ''T2'' demo_entry ''LA'' 3000 50 ''hold'' None demo_funded = Inr (fst bank_authorised, snd bank_authorised)"
proof -
  have "isl (authorizePixOut 2 ''T2'' demo_entry ''LA'' 3000 50 ''hold'' None demo_funded) = False" by code_simp
  then show ?thesis
    by (cases "authorizePixOut 2 ''T2'' demo_entry ''LA'' 3000 50 ''hold'' None demo_funded") (auto simp: bank_authorised_def)
qed

theorem pix_out_settlement_completes_witness:
  "\<exists>s2. settlePixOut 3 ''T3'' ''T4'' demo_entry demo_entry (tx_id (res_transaction (fst bank_authorised))) 3000 ''settle''
      (snd bank_authorised) = (Inr (), s2) \<and>
     map_option counters (mem_account s2 ''LA'') = Some (3050, 10000, 0, 0)"
proof -
  let ?id = "\<lambda>c. projr (bank_byCode demo_funded c)"
  let ?acc = "\<lambda>c. the (mem_account demo_funded (?id c))"
  have codes: "bank_byCode demo_funded PIX_OUT_CLEARING = Inr (?id PIX_OUT_CLEARING)"
    "bank_byCode demo_funded FEE_REVENUE = Inr (?id FEE_REVENUE)"
    "bank_byCode demo_funded EXTERNAL_WORLD = Inr (?id EXTERNAL_WORLD)" by code_simp+
  have "mem_account demo_funded (?id PIX_OUT_CLEARING) \<noteq> None" "mem_account demo_funded (?id EXTERNAL_WORLD) \<noteq> None"
    by code_simp+
  then have accs: "mem_account demo_funded (?id PIX_OUT_CLEARING) = Some (?acc PIX_OUT_CLEARING)"
    "mem_account demo_funded (?id EXTERNAL_WORLD) = Some (?acc EXTERNAL_WORLD)" by auto
  have shape: "normalBalance (?acc PIX_OUT_CLEARING) = NormalBalance.CREDIT" "\<not> allowsNegative (?acc PIX_OUT_CLEARING)"
    "allowsNegative (?acc EXTERNAL_WORLD)" by code_simp+
  have ne: "?id PIX_OUT_CLEARING \<noteq> ''LA''" "?id PIX_OUT_CLEARING \<noteq> ?id FEE_REVENUE" "?id PIX_OUT_CLEARING \<noteq> ?id EXTERNAL_WORLD"
    "''LA'' \<noteq> ?id FEE_REVENUE" "''LA'' \<noteq> ?id EXTERNAL_WORLD" by code_simp+
  have fresh: "mem_findByIdempotencyKey demo_funded ''hold'' = None" "mem_findTransaction demo_funded ''T2'' = None"
    "''T2'' \<noteq> []" "mem_findByIdempotencyKey (snd bank_authorised) ''settle'' = None"
    "mem_findByIdempotencyKey (snd bank_authorised) (''settle'' @ ''-external'') = None"
    "mem_findTransaction (snd bank_authorised) ''T3'' = None" "''T3'' \<noteq> []" by code_simp+
  have start: "map_option counters (mem_account demo_funded ''LA'') = Some (0, 10000, 0, 0)" by code_simp
  from pix_out_settlement_completes [OF demo_reachable(2) codes accs(1) shape(1,2) accs(2) shape(3) ne(1-3)
      bank_authorised_eq fresh, of 3 "''T4''" demo_entry demo_entry]
  obtain s2 where s2: "settlePixOut 3 ''T3'' ''T4'' demo_entry demo_entry (tx_id (res_transaction (fst bank_authorised)))
      3000 ''settle'' (snd bank_authorised) = (Inr (), s2)"
    and c: "map_option counters (mem_account s2 ''LA'') = map_option (\<lambda>x. (debitsPosted x + 3050, creditsPosted x,
        debitsPending x, creditsPending x)) (mem_account demo_funded ''LA'')"
    using ne by (auto dest: spec [of _ "''LA''"])
  from start obtain x where "mem_account demo_funded ''LA'' = Some x" "counters x = (0, 10000, 0, 0)" by auto
  with s2 c show ?thesis by (auto simp: counters_def)
qed

definition same_instant :: InMemoryLedgerStore where
  "same_instant = snd (projr (postRefund 7 ''T2'' demo_entry ''LA'' 3000 ''refund'' None
     (snd (projr (creditFromExternal 7 ''T1'' demo_entry ''LA'' 10000 ''in'' None None demo_opened)))))"

text \<open>Two postings at the same millisecond mislead the historical balance.  A customer credited
  with 100.00 and debited of 30.00 at the same instant has 70.00 posted, and \<open>balanceAsOf\<close> that instant
  reports 100.00: ties are broken by the position inside a transaction, where the credit comes second.\<close>

lemma balanceAsOf_same_instant:
  "map_sum id bal_posted (bank_balances same_instant ''LA'') = Inr 7000 \<and> balanceAsOf same_instant ''LA'' 7 = 10000"
  by code_simp

text \<open>Resetting the mock bank zeroes the counters and keeps the entries, so a ledger that verified
  before the reset no longer does.\<close>

lemma reset_breaks_invariants:
  "verifyInvariants demo_held \<and> \<not> verifyInvariants (bank_reset demo_held)"
  by code_simp

end
