(* ===== verification/Emv.thy ===== *)
theory Emv
  imports Js_Strings "HOL-Library.Word"
begin

text \<open>
  The BR Code (EMV MPM) codec, \<open>src/packages/taxonomy/src/pix/emv.ts\<close>: the CRC, the TLV writer and reader,
  and the building and parsing of Pix payloads.  The CRC register is the 32-bit integer JavaScript's bitwise
  operators work on.  Every thrown \<open>INVALID_EMV_PAYLOAD\<close> is a value of \<open>EmvError\<close>.
\<close>

unbundle bit_operations_syntax

section \<open>Letter case, slices and accents\<close>

text \<open>ASCII case mapping.  Latin-1 letters outside ASCII never map to an ASCII character, so comparing
  with an ASCII text gives the same answer.\<close>

definition ascii_upper :: "char \<Rightarrow> char" where
  "ascii_upper c = (if 97 \<le> (of_char c :: nat) \<and> (of_char c :: nat) \<le> 122 then char_of ((of_char c :: nat) - 32) else c)"

definition ascii_lower :: "char \<Rightarrow> char" where
  "ascii_lower c = (if 65 \<le> (of_char c :: nat) \<and> (of_char c :: nat) \<le> 90 then char_of ((of_char c :: nat) + 32) else c)"

text \<open>\<open>slice(0, end)\<close>: a negative end counts from the right.\<close>

definition slice0 :: "int \<Rightarrow> string \<Rightarrow> string" where
  "slice0 e s = (if e < 0 then take (nat (int (length s) + e)) s else take (nat e) s)"

text \<open>\<open>normalize('NFD')\<close> followed by dropping the combining marks: the base letter of a Latin-1 letter.\<close>

definition base_letter :: "char \<Rightarrow> char" where
  "base_letter c =
     (let n = (of_char c :: nat);
          base = (\<lambda>m. if m \<le> 197 then CHR ''A'' else if m = 199 then CHR ''C''
            else if 200 \<le> m \<and> m \<le> 203 then CHR ''E'' else if 204 \<le> m \<and> m \<le> 207 then CHR ''I''
            else if m = 209 then CHR ''N'' else if 210 \<le> m \<and> m \<le> 214 then CHR ''O''
            else if 217 \<le> m \<and> m \<le> 220 then CHR ''U'' else if m = 221 then CHR ''Y'' else c)
      in if n = 255 then CHR ''y''
         else if 192 \<le> n \<and> n \<le> 221 then base n
         else if 224 \<le> n \<and> n \<le> 253 \<and> base (n - 32) \<noteq> c then ascii_lower (base (n - 32))
         else c)"

definition printable :: "char \<Rightarrow> bool" where
  "printable c \<longleftrightarrow> 32 \<le> (of_char c :: nat) \<and> (of_char c :: nat) \<le> 126"

definition sanitizeText :: "string \<Rightarrow> int \<Rightarrow> string" where
  "sanitizeText v maxLength =
     slice0 maxLength (map ascii_upper (js_trim (filter printable (map base_letter v))))"

section \<open>Nodes\<close>

datatype EmvNode = EmvNode (nd_id: string) (nd_value: string) (nd_children: "EmvNode list option")

datatype EmvError =
    TooLong string
  | Truncated nat
  | BadHeader nat string string
  | Overrun string nat
  | NoKeyNorUrl
  | CrcMismatch
  | NotPix "string option"

definition EMV_CRC :: string where "EMV_CRC = ''63''"

definition NESTED_IDS :: "string list" where
  "NESTED_IDS = [''26'', ''27'', ''62'', ''80'', ''81'', ''82'']"

definition PIX_GUI :: string where "PIX_GUI = ''br.gov.bcb.pix''"

section \<open>CRC\<close>

definition crc_bit :: "32 word \<Rightarrow> 32 word" where
  "crc_bit crc = (if crc AND 0x8000 \<noteq> 0 then (push_bit 1 crc XOR 0x1021) AND 0xFFFF else push_bit 1 crc AND 0xFFFF)"

definition crc_char :: "32 word \<Rightarrow> char \<Rightarrow> 32 word" where
  "crc_char crc c = (crc_bit ^^ 8) (crc XOR push_bit 8 (word_of_nat (of_char c)))"

definition crc_register :: "string \<Rightarrow> 32 word" where
  "crc_register payload = foldl crc_char 0xFFFF payload"

text \<open>\<open>toString(16).toUpperCase()\<close>.\<close>

definition hex_digit :: "nat \<Rightarrow> char" where
  "hex_digit d = (if d < 10 then char_of (48 + d) else char_of (55 + d))"

fun show_hex :: "nat \<Rightarrow> string" where
  "show_hex n = (if n < 16 then [hex_digit n] else show_hex (n div 16) @ [hex_digit (n mod 16)])"

declare show_hex.simps [simp del]

definition crc16 :: "string \<Rightarrow> string" where
  "crc16 payload = padStart 4 (CHR ''0'') (show_hex (unat (crc_register payload)))"

section \<open>Writing and reading TLVs\<close>

text \<open>Continuing after a call that may throw.\<close>

definition res_map :: "('a \<Rightarrow> 'b) \<Rightarrow> 'e + 'a \<Rightarrow> 'e + 'b" where
  "res_map f r = (case r of Inl e \<Rightarrow> Inl e | Inr x \<Rightarrow> Inr (f x))"

lemma res_map_simps [simp]: "res_map f (Inl e) = Inl e" "res_map f (Inr x) = Inr (f x)"
  by (simp_all add: res_map_def)

lemma res_map_Inr: "res_map f r = Inr y \<longleftrightarrow> (\<exists>x. r = Inr x \<and> y = f x)"
  by (cases r) auto

lemma res_map_comp: "res_map f (res_map g r) = res_map (\<lambda>x. f (g x)) r"
  by (cases r) simp_all

text \<open>The pieces in order, or the first error.\<close>

fun join_results :: "('e + string) list \<Rightarrow> 'e + string" where
  "join_results [] = Inr []"
| "join_results (Inl e # rs) = Inl e"
| "join_results (Inr s # rs) = res_map ((@) s) (join_results rs)"

definition tlv :: "string \<Rightarrow> string \<Rightarrow> EmvError + string" where
  "tlv i v = (if length v > 99 then Inl (TooLong i) else Inr (i @ padStart 2 (CHR ''0'') (show_nat (length v)) @ v))"

fun encodeNode :: "EmvNode \<Rightarrow> EmvError + string" where
  "encodeNode (EmvNode i v cs) =
     (case cs of
        None \<Rightarrow> tlv i v
      | Some [] \<Rightarrow> tlv i v
      | Some ns \<Rightarrow> (case join_results (map encodeNode ns) of Inl e \<Rightarrow> Inl e | Inr v' \<Rightarrow> tlv i v'))"

definition encodeEmv :: "EmvNode list \<Rightarrow> EmvError + string" where
  "encodeEmv nodes =
     (case join_results (map encodeNode (filter (\<lambda>n. nd_id n \<noteq> EMV_CRC) nodes)) of
        Inl e \<Rightarrow> Inl e
      | Inr body \<Rightarrow> (let withCrcHeader = body @ EMV_CRC @ ''04'' in Inr (withCrcHeader @ crc16 withCrcHeader)))"

definition two_digits :: "string \<Rightarrow> bool" where
  "two_digits s \<longleftrightarrow> length s = 2 \<and> list_all is_digit s"

text \<open>\<open>rest\<close> is the payload from \<open>cursor\<close> on.\<close>

function decode_from :: "nat \<Rightarrow> string \<Rightarrow> EmvError + EmvNode list" where
  "decode_from cursor rest =
     (if rest = [] then Inr []
      else if length rest < 4 then Inl (Truncated cursor)
      else
        (let i = take 2 rest; rawLength = take 2 (drop 2 rest) in
         if \<not> two_digits i \<or> \<not> two_digits rawLength then Inl (BadHeader cursor i rawLength)
         else
           (let len = read_nat rawLength in
            if length rest < 4 + len then Inl (Overrun i len)
            else
              (let v = take len (drop 4 rest) in
               case (if i \<in> set NESTED_IDS then res_map Some (decode_from 0 v) else Inr None) of
                 Inl e \<Rightarrow> Inl e
               | Inr cs \<Rightarrow> res_map ((#) (EmvNode i v cs)) (decode_from (cursor + 4 + len) (drop (4 + len) rest))))))"
  by pat_completeness auto
termination by (relation "measure (\<lambda>(_, rest). length rest)") auto

declare decode_from.simps [simp del]

definition decodeEmv :: "string \<Rightarrow> EmvError + EmvNode list" where
  "decodeEmv payload = decode_from 0 payload"

definition findNode :: "EmvNode list \<Rightarrow> string \<Rightarrow> EmvNode option" where
  "findNode nodes i = find (\<lambda>n. nd_id n = i) nodes"

text \<open>\<open>lastIndexOf\<close>: the greatest position where the text occurs.\<close>

fun lastIndexOf :: "string \<Rightarrow> string \<Rightarrow> nat option" where
  "lastIndexOf pat [] = (if pat = [] then Some 0 else None)"
| "lastIndexOf pat (c # cs) =
     (case lastIndexOf pat cs of
        Some i \<Rightarrow> Some (Suc i)
      | None \<Rightarrow> if take (length pat) (c # cs) = pat then Some 0 else None)"

definition verifyEmvCrc :: "string \<Rightarrow> bool" where
  "verifyEmvCrc payload =
     (case lastIndexOf (EMV_CRC @ ''04'') payload of
        None \<Rightarrow> False
      | Some marker \<Rightarrow>
          marker + 8 = length payload \<and>
          crc16 (take (marker + 4) payload) = map ascii_upper (drop (marker + 4) payload))"

section \<open>BR Codes\<close>

record BrCodeInput =
  br_pixKey :: string
  br_merchantName :: string
  br_merchantCity :: string
  br_amount :: "string option"
  br_referenceLabel :: "string option"
  br_description :: "string option"
  br_postalCode :: "string option"
  br_merchantCategoryCode :: "string option"
  br_url :: "string option"
  br_singleUse :: bool

definition plain :: "string \<Rightarrow> string \<Rightarrow> EmvNode" where
  "plain i v = EmvNode i v None"

text \<open>\<open>url.replace(/^https?:\/\//, '')\<close>.\<close>

definition strip_scheme :: "string \<Rightarrow> string" where
  "strip_scheme u =
     (if take 8 u = ''https://'' then drop 8 u else if take 7 u = ''http://'' then drop 7 u else u)"

definition br_merchant :: "BrCodeInput \<Rightarrow> EmvNode list" where
  "br_merchant input =
     plain ''00'' PIX_GUI #
     (case truthy (br_url input) of
        Some url \<Rightarrow> [plain ''25'' (strip_scheme url)]
      | None \<Rightarrow> plain ''01'' (br_pixKey input) #
          (case truthy (br_description input) of
             None \<Rightarrow> []
           | Some d \<Rightarrow> [plain ''02'' (sanitizeText d (72 - int (length (br_pixKey input))))]))"

definition br_nodes :: "BrCodeInput \<Rightarrow> EmvNode list" where
  "br_nodes input =
     [plain ''00'' ''01''] @
     (if br_singleUse input then [plain ''01'' ''12''] else []) @
     [EmvNode ''26'' [] (Some (br_merchant input)),
      plain ''52'' (or_else (br_merchantCategoryCode input) ''0000''),
      plain ''53'' ''986''] @
     (case truthy (br_amount input) of None \<Rightarrow> [] | Some v \<Rightarrow> [plain ''54'' v]) @
     [plain ''58'' ''BR'',
      plain ''59'' (sanitizeText (br_merchantName input) 25),
      plain ''60'' (sanitizeText (br_merchantCity input) 15)] @
     (case truthy (br_postalCode input) of None \<Rightarrow> [] | Some v \<Rightarrow> [plain ''61'' v]) @
     [EmvNode ''62'' [] (Some [plain ''05'' (or_else (br_referenceLabel input) ''***'')])]"

definition buildBrCode :: "BrCodeInput \<Rightarrow> EmvError + string" where
  "buildBrCode input =
     (if truthy (br_url input) = None \<and> br_pixKey input = [] then Inl NoKeyNorUrl
      else encodeEmv (br_nodes input))"

record ParsedBrCode =
  pb_pixKey :: "string option"
  pb_url :: "string option"
  pb_merchantName :: "string option"
  pb_merchantCity :: "string option"
  pb_amount :: "string option"
  pb_txid :: "string option"
  pb_description :: "string option"
  pb_singleUse :: bool
  pb_isDynamic :: bool
  pb_nodes :: "EmvNode list"

definition node_children :: "EmvNode option \<Rightarrow> EmvNode list" where
  "node_children n = (case n of None \<Rightarrow> [] | Some x \<Rightarrow> or_else (nd_children x) [])"

definition node_value :: "EmvNode list \<Rightarrow> string \<Rightarrow> string option" where
  "node_value nodes i = map_option nd_value (findNode nodes i)"

definition parseBrCode :: "string \<Rightarrow> EmvError + ParsedBrCode" where
  "parseBrCode payload =
     (let trimmed = js_trim payload in
      if \<not> verifyEmvCrc trimmed then Inl CrcMismatch
      else
        (case decodeEmv trimmed of
           Inl e \<Rightarrow> Inl e
         | Inr nodes \<Rightarrow>
             (let merchantChildren = node_children (findNode nodes ''26'');
                  gui = node_value merchantChildren ''00''
              in if map_option (map ascii_lower) gui \<noteq> Some PIX_GUI then Inl (NotPix gui)
                 else
                   (let url = node_value merchantChildren ''25'';
                        additional = node_children (findNode nodes ''62'');
                        txid = node_value additional ''05''
                    in Inr \<lparr>pb_pixKey = node_value merchantChildren ''01'',
                            pb_url = map_option ((@) ''https://'') (truthy url),
                            pb_merchantName = node_value nodes ''59'',
                            pb_merchantCity = node_value nodes ''60'',
                            pb_amount = node_value nodes ''54'',
                            pb_txid = (case truthy txid of None \<Rightarrow> None | Some t \<Rightarrow> if t \<noteq> ''***'' then Some t else None),
                            pb_description = node_value merchantChildren ''02'',
                            pb_singleUse = (node_value nodes ''01'' = Some ''12''),
                            pb_isDynamic = (truthy url \<noteq> None),
                            pb_nodes = nodes\<rparr>))))"

end
