(* ===== verification/Emv_Crc.thy ===== *)
theory Emv_Crc
  imports Emv
begin

text \<open>
  The CRC of \<open>emv.ts\<close> against CRC-16/CCITT-FALSE as a shift register fed one bit at a time, and what that gives:
  a corrupted pair of adjacent characters is always noticed.
\<close>

unbundle bit_operations_syntax

section \<open>The reference shift register\<close>

definition crc_ref_bit :: "16 word \<Rightarrow> bool \<Rightarrow> 16 word" where
  "crc_ref_bit r b = (if bit r 15 \<noteq> b then push_bit 1 r XOR 0x1021 else push_bit 1 r)"

definition char_bits :: "char \<Rightarrow> bool list" where
  "char_bits c = map (bit (of_char c :: nat)) [7, 6, 5, 4, 3, 2, 1, 0]"

definition crc_ref :: "string \<Rightarrow> 16 word" where
  "crc_ref s = foldl crc_ref_bit 0xFFFF (concat (map char_bits s))"

abbreviation sh :: "16 word \<Rightarrow> 16 word" where
  "sh r \<equiv> crc_ref_bit r False"

text \<open>The code of a character, as a word.\<close>

abbreviation chr :: "char \<Rightarrow> 'a::len word" where
  "chr c \<equiv> word_of_nat (of_char c)"

abbreviation sh_char :: "16 word \<Rightarrow> char \<Rightarrow> 16 word" where
  "sh_char r c \<equiv> (sh ^^ 8) (r XOR push_bit 8 (chr c))"

lemma bit_twice [simp]: "bit (x * 2) n \<longleftrightarrow> 0 < n \<and> n < LENGTH('a) \<and> bit x (n - 1)" for x :: "'a::len word"
  using bit_double_iff [of x n] by (auto simp: mult.commute)

lemma poly_narrow: "bit (0x1021 :: 32 word) n \<longleftrightarrow> bit (0x1021 :: 16 word) n" if "n < 16"
proof -
  have "(0x1021 :: 16 word) = word_of_nat 0x1021" "(0x1021 :: 32 word) = word_of_nat 0x1021" by simp_all
  then show ?thesis using that by (simp only: bit_of_nat_iff_bit possible_bit_word) simp
qed

lemma top_bit: "(ucast r :: 32 word) AND 0x8000 \<noteq> 0 \<longleftrightarrow> bit r 15" for r :: "16 word"
proof -
  have "(0x8000 :: 32 word) = 2 ^ 15" by simp
  then show ?thesis by (simp only: and_exp_eq_0_iff_not_bit) (simp add: bit_ucast_iff)
qed

lemma crc_bit_narrow: "crc_bit (ucast r) = ucast (sh r)" for r :: "16 word"
proof -
  have mask: "(0xFFFF :: 32 word) = mask 16" by (simp add: mask_eq_exp_minus_1)
  show ?thesis
    unfolding crc_bit_def crc_ref_bit_def top_bit mask
    by (rule bit_eqI) (auto simp: bit_and_iff bit_xor_iff bit_ucast_iff bit_push_bit_iff bit_mask_iff poly_narrow
        dest: bit_imp_le_length)
qed

text \<open>A character is its eight bits.\<close>

lemma bit_of_char: "bit (chr c :: 'a::len word) n \<longleftrightarrow> n < LENGTH('a) \<and> n < 8 \<and> bit (of_char c :: nat) n"
proof -
  have "take_bit 8 (of_char c) = (of_char c :: nat)"
    using nat_of_char_less_256 [of c] by (simp add: take_bit_nat_eq_self)
  then have "bit (of_char c :: nat) n \<Longrightarrow> n < 8" by (metis bit_take_bit_iff)
  then show ?thesis using bit_of_nat_iff [of "of_char c" n, where 'a = "'a word"] by (auto simp only: possible_bit_word)
qed

lemma crc_char_narrow: "crc_char (ucast r) c = ucast (sh_char r c)" for r :: "16 word"
proof -
  have "(ucast r :: 32 word) XOR push_bit 8 (chr c) = ucast (r XOR push_bit 8 (chr c))"
    by (rule bit_eqI) (auto simp: bit_xor_iff bit_ucast_iff bit_push_bit_iff bit_of_char dest: bit_imp_le_length)
  moreover have "(crc_bit ^^ n) (ucast x) = ucast ((sh ^^ n) x)" for n and x :: "16 word"
    by (induction n) (simp_all add: crc_bit_narrow)
  ultimately show ?thesis by (simp add: crc_char_def)
qed

section \<open>Feeding a character at once\<close>

text \<open>The register is linear: bits waiting in \<open>y\<close> can be added before or after a shift.\<close>

lemma sh_xor: "sh (r XOR y) = crc_ref_bit r (bit y 15) XOR push_bit 1 y"
  unfolding crc_ref_bit_def by (rule bit_eqI) (auto simp: bit_simps simp del: push_bit_numeral)

lemma sh_pow_xor:
  "n \<le> 16 \<Longrightarrow> (sh ^^ n) (r XOR y) = foldl crc_ref_bit r (map (\<lambda>k. bit y (15 - k)) [0..<n]) XOR push_bit n y"
proof (induction n)
  case (Suc n)
  then have "(sh ^^ Suc n) (r XOR y) = sh (foldl crc_ref_bit r (map (\<lambda>k. bit y (15 - k)) [0..<n]) XOR push_bit n y)"
    by simp
  also have "\<dots> = crc_ref_bit (foldl crc_ref_bit r (map (\<lambda>k. bit y (15 - k)) [0..<n])) (bit (push_bit n y) 15) XOR
      push_bit 1 (push_bit n y)" by (rule sh_xor)
  finally show ?case using Suc.prems by (simp add: bit_push_bit_iff)
qed simp

lemma sh_char_bits: "sh_char r c = foldl crc_ref_bit r (char_bits c)"
proof -
  have b: "bit (push_bit 8 (chr c) :: 16 word) (15 - k) = bit (of_char c :: nat) (7 - k)" if "k < 8" for k
    using that by (auto simp: bit_push_bit_iff bit_of_char)
  have z: "push_bit 8 (push_bit 8 (chr c)) = (0 :: 16 word)"
    by (rule bit_eqI) (auto simp: bit_push_bit_iff bit_of_char)
  have "map (\<lambda>k. bit (push_bit 8 (chr c) :: 16 word) (15 - k)) [0..<8] = char_bits c"
    using b [of 0] b [of 1] b [of 2] b [of 3] b [of 4] b [of 5] b [of 6] b [of 7] by (simp add: char_bits_def upt_rec)
  then show ?thesis using sh_pow_xor [of 8 r "push_bit 8 (chr c)"] z by simp
qed

section \<open>Injectivity\<close>

lemma sh_inj: "sh a = sh b \<Longrightarrow> a = b"
proof -
  assume eq: "sh a = sh b"
  have low: "bit (sh x) 0 \<longleftrightarrow> bit x 15" for x
    by (simp add: crc_ref_bit_def bit_xor_iff bit_push_bit_iff)
  then have top: "bit a 15 \<longleftrightarrow> bit b 15" using eq by metis
  have "push_bit 1 a = push_bit 1 b"
  proof (cases "bit a 15")
    case True
    with eq top have "(push_bit 1 a XOR 0x1021) XOR 0x1021 = (push_bit 1 b XOR 0x1021) XOR 0x1021"
      by (simp only: crc_ref_bit_def) simp
    then show ?thesis by (simp only: xor.assoc xor_self_eq xor.right_neutral)
  qed (use eq top in \<open>simp add: crc_ref_bit_def\<close>)
  then have "bit a n \<longleftrightarrow> bit b n" if "n < 15" for n
    using that bit_push_bit_iff [of 1 a "Suc n"] bit_push_bit_iff [of 1 b "Suc n"] by simp
  then have "bit a n \<longleftrightarrow> bit b n" if "n < 16" for n
    using that top by (cases "n = 15") auto
  then show "a = b" by (intro bit_word_eqI) simp
qed

lemma sh_pow_inj: "(sh ^^ n) a = (sh ^^ n) b \<Longrightarrow> a = b"
  by (induction n) (auto dest: sh_inj)

text \<open>Two characters at once fill the register.\<close>

lemma sh_two_chars: "sh_char (sh_char r a) b = (sh ^^ 16) (r XOR push_bit 8 (chr a) XOR chr b)"
proof -
  have z: "map (\<lambda>k. bit (chr b :: 16 word) (15 - k)) [0..<8] = replicate 8 False"
    by (simp add: bit_of_char upt_rec numeral_eq_Suc)
  have fold: "foldl crc_ref_bit x (replicate n False) = (sh ^^ n) x" for n x
  proof (induction n arbitrary: x)
    case (Suc n)
    show ?case using Suc [of "sh x"] funpow_swap1 [of sh n x] by simp
  qed simp
  have "(sh ^^ 8) (x XOR chr b) = (sh ^^ 8) x XOR push_bit 8 (chr b)" for x
    using sh_pow_xor [of 8 x "chr b"] by (simp only: z fold)
  from this [of "r XOR push_bit 8 (chr a)"]
  have "sh_char (sh_char r a) b = (sh ^^ 8) ((sh ^^ 8) (r XOR push_bit 8 (chr a) XOR chr b))"
    by (simp only: xor.assoc)
  also have "\<dots> = (sh ^^ (8 + 8)) (r XOR push_bit 8 (chr a) XOR chr b)" by (simp only: funpow_add comp_def)
  finally show ?thesis by simp
qed

section \<open>Hexadecimal text\<close>

definition hex_of :: "char \<Rightarrow> nat" where
  "hex_of c = (let n = of_char c in if n < 58 then n - 48 else n - 55)"

definition read_hex :: "string \<Rightarrow> nat" where
  "read_hex ds = foldl (\<lambda>n c. 16 * n + hex_of c) 0 ds"

lemma hex_of_digit: "d < 16 \<Longrightarrow> hex_of (hex_digit d) = d"
  by (auto simp: hex_of_def hex_digit_def Let_def)

lemma read_show_hex: "read_hex (show_hex n) = n"
proof (induction n rule: show_hex.induct)
  case (1 n)
  then show ?case by (cases "n < 16") (simp_all add: show_hex.simps [of n] read_hex_def hex_of_digit)
qed

lemma show_hex_length: "n < 16 ^ k \<Longrightarrow> 0 < k \<Longrightarrow> length (show_hex n) \<le> k"
proof (induction n arbitrary: k rule: show_hex.induct)
  case (1 n)
  show ?case
  proof (cases "n < 16")
    case False
    with 1(2,3) have "k \<noteq> 1" by (intro notI) simp
    with 1(3) obtain j where k: "k = Suc j" "0 < j" by (cases k) auto
    from 1(2) k have "n div 16 < 16 ^ j" by (simp add: less_mult_imp_div_less mult.commute)
    with 1(1) False k show ?thesis by (simp add: show_hex.simps [of n])
  qed (use 1 in \<open>simp add: show_hex.simps [of n]\<close>)
qed

lemma read_padded: "read_hex (padStart k (CHR ''0'') ds) = read_hex ds"
proof -
  have "foldl (\<lambda>n c. 16 * n + hex_of c) 0 (replicate m (CHR ''0'')) = 0" for m
    by (induction m) (simp_all add: hex_of_def)
  then show ?thesis by (simp add: read_hex_def padStart_def)
qed

lemma crc_register_ref: "crc_register s = ucast (crc_ref s)"
proof -
  have "foldl crc_char (ucast r) s = ucast (foldl crc_ref_bit r (concat (map char_bits s)))" for r :: "16 word"
    by (induction s arbitrary: r) (simp_all add: crc_char_narrow sh_char_bits)
  then have "foldl crc_char (ucast (0xFFFF :: 16 word)) s = ucast (crc_ref s)" by (simp only: crc_ref_def)
  then show ?thesis by (simp add: crc_register_def)
qed

lemma unat_crc_register: "unat (crc_register s) = unat (crc_ref s)"
  proof -
  have "unat (crc_ref s) < 2 ^ 32" using unsigned_less [of "crc_ref s", where 'a = nat] by simp
  then show ?thesis by (simp add: crc_register_ref unsigned_ucast_eq take_bit_nat_eq_self_iff)
qed

lemma crc16_read: "read_hex (crc16 s) = unat (crc_ref s)"
  by (simp add: crc16_def read_padded read_show_hex unat_crc_register)

lemma crc16_length: "length (crc16 s) = 4"
proof -
  have "unat (crc_ref s) < 16 ^ 4" using unsigned_less [of "crc_ref s"] by simp
  then have "length (show_hex (unat (crc_ref s))) \<le> 4" by (rule show_hex_length) simp
  then show ?thesis by (simp add: crc16_def unat_crc_register padStart_def)
qed

lemma crc16_eq_iff: "crc16 s = crc16 t \<longleftrightarrow> crc_ref s = crc_ref t"
proof -
  have "crc_ref s = crc_ref t" if "crc16 s = crc16 t"
    using that crc16_read by (metis word_unat_eq_iff)
  moreover have "crc16 s = crc16 t" if "crc_ref s = crc_ref t"
    using that by (simp add: crc16_def unat_crc_register)
  ultimately show ?thesis by blast
qed

section \<open>Evaluating the CRC\<close>

text \<open>The register as sixteen booleans, most significant first: what concrete payloads are evaluated with.\<close>

definition bits_step :: "bool list \<Rightarrow> bool \<Rightarrow> bool list" where
  "bits_step r b = (let r' = tl r @ [False] in
     if hd r \<noteq> b then map2 (\<noteq>) r' (map ((=) 1) [0, 0, 0, 1, 0, 0, 0, 0, 0, 0, 1, 0, 0, 0, 0, 1::nat]) else r')"

definition register_bits :: "16 word \<Rightarrow> bool list" where
  "register_bits w = map (bit w) [15, 14, 13, 12, 11, 10, 9, 8, 7, 6, 5, 4, 3, 2, 1, 0]"

definition bits_value :: "bool list \<Rightarrow> nat" where
  "bits_value r = foldl (\<lambda>n b. 2 * n + of_bool b) 0 r"

lemma register_bits_step: "register_bits (crc_ref_bit w b) = bits_step (register_bits w) b"
proof -
  have poly: "bit (0x1021 :: 16 word) n \<longleftrightarrow> bit (0x1021 :: nat) n" if "n < 16" for n
    using that bit_of_nat_iff [of "0x1021" n, where 'a = "16 word"] by (simp add: possible_bit_word)
  show ?thesis
    by (simp add: register_bits_def bits_step_def crc_ref_bit_def bit_xor_iff poly)
qed

lemma register_value: "bits_value (register_bits w) = unat w"
proof -
  have "[0..<16] = [0, 1, 2, 3, 4, 5, 6, 7, 8, 9, 10, 11, 12, 13, 14, 15::nat]" by code_simp
  moreover have "take_bit 16 (unat w) = unat w"
    using unsigned_less [of w, where 'a = nat] by (simp add: take_bit_nat_eq_self)
  moreover have "bit (unat w) n = bit w n" if "n < 16" for n
    using that by (simp add: bit_unsigned_iff)
  ultimately have "unat w = horner_sum of_bool 2 (map (bit w) [0, 1, 2, 3, 4, 5, 6, 7, 8, 9, 10, 11, 12, 13, 14, 15])"
    using horner_sum_bit_eq_take_bit [of "unat w" 16] by simp
  then show ?thesis by (simp add: bits_value_def register_bits_def)
qed

lemma crc16_eval [code]:
  "crc16 s = padStart 4 (CHR ''0'') (show_hex (bits_value (foldl bits_step (replicate 16 True) (concat (map char_bits s)))))"
proof -
  have "foldl bits_step (register_bits w) bs = register_bits (foldl crc_ref_bit w bs)" for w bs
    by (induction bs arbitrary: w) (simp_all add: register_bits_step [symmetric])
  moreover have "register_bits 0xFFFF = replicate 16 True"
  proof -
    have "bit (0xFFFF :: 16 word) n" if "n < 16" for n
    proof -
      have "(0xFFFF :: 16 word) = mask 16" by (simp add: mask_eq_exp_minus_1)
      then show ?thesis using that by (simp only: bit_mask_iff) (simp add: possible_bit_word)
    qed
    then show ?thesis by (simp add: register_bits_def numeral_eq_Suc)
  qed
  ultimately have "foldl bits_step (replicate 16 True) (concat (map char_bits s)) = register_bits (crc_ref s)"
    by (metis crc_ref_def)
  then show ?thesis by (simp add: crc16_def unat_crc_register register_value)
qed

lemma char_bits_eval [code]: "char_bits (Char b0 b1 b2 b3 b4 b5 b6 b7) = [b7, b6, b5, b4, b3, b2, b1, b0]"
  unfolding char_bits_def of_char_def char.sel list.map bit_horner_sum_bit_iff by (simp add: numeral_eq_Suc)

lemma crc_ref_append: "crc_ref (s @ t) = foldl sh_char (crc_ref s) t"
proof -
  have "foldl crc_ref_bit r (concat (map char_bits t)) = foldl sh_char r t" for r
    by (induction t arbitrary: r) (simp_all add: sh_char_bits)
  then show ?thesis by (simp add: crc_ref_def)
qed

lemma foldl_sh_inj: "foldl sh_char a t = foldl sh_char b t \<Longrightarrow> a = b"
proof (induction t arbitrary: a b)
  case (Cons c t)
  then have "sh_char a c = sh_char b c" by simp
  then have "a XOR push_bit 8 (chr c) = b XOR push_bit 8 (chr c)" by (rule sh_pow_inj)
  then have "(a XOR push_bit 8 (chr c)) XOR push_bit 8 (chr c) = (b XOR push_bit 8 (chr c)) XOR push_bit 8 (chr c)" by simp
  then show ?case by (simp only: xor.assoc xor_self_eq xor.right_neutral)
qed simp

text \<open>Two characters, high byte and low byte, are told apart.\<close>

lemma chr_bits_eq: "(\<And>n. n < 8 \<Longrightarrow> bit (of_char a :: nat) n \<longleftrightarrow> bit (of_char b :: nat) n) \<Longrightarrow> a = b"
proof -
  assume eq: "\<And>n. n < 8 \<Longrightarrow> bit (of_char a :: nat) n \<longleftrightarrow> bit (of_char b :: nat) n"
  have "(chr a :: 16 word) = chr b"
    by (rule bit_word_eqI) (use eq in \<open>simp only: bit_of_char, blast\<close>)
  then have "unat (chr a :: 16 word) = unat (chr b :: 16 word)" by simp
  moreover have "unat (chr c :: 16 word) = of_char c" for c
    using nat_of_char_less_256 [of c] by (simp only: unat_of_nat) (simp add: mod_less del: nat_of_char_less_256)
  ultimately show "a = b" by simp
qed

lemma pair_inj:
  assumes "r XOR push_bit 8 (chr a) XOR chr b = r XOR push_bit 8 (chr a') XOR (chr b' :: 16 word)"
  shows "a = a' \<and> b = b'"
proof -
  have eq: "bit (r XOR push_bit 8 (chr a) XOR chr b) n \<longleftrightarrow> bit (r XOR push_bit 8 (chr a') XOR (chr b' :: 16 word)) n" for n
    using assms by simp
  have "bit (of_char b :: nat) n \<longleftrightarrow> bit (of_char b' :: nat) n" if "n < 8" for n
    using eq [of n] that by (simp only: bit_xor_iff bit_push_bit_iff bit_of_char) auto
  moreover have "bit (of_char a :: nat) n \<longleftrightarrow> bit (of_char a' :: nat) n" if "n < 8" for n
    using eq [of "n + 8"] that by (simp only: bit_xor_iff bit_push_bit_iff bit_of_char) auto
  ultimately show ?thesis using chr_bits_eq by blast
qed

lemma crc16_pair:
  "crc16 (p @ [a, b] @ q) = crc16 (p @ [a', b'] @ q) \<longleftrightarrow> a = a' \<and> b = b'"
proof
  assume "crc16 (p @ [a, b] @ q) = crc16 (p @ [a', b'] @ q)"
  then have "foldl sh_char (sh_char (sh_char (crc_ref p) a) b) q = foldl sh_char (sh_char (sh_char (crc_ref p) a') b') q"
    by (simp only: crc16_eq_iff crc_ref_append foldl_append foldl_Cons foldl_Nil)
  then have "sh_char (sh_char (crc_ref p) a) b = sh_char (sh_char (crc_ref p) a') b'" by (rule foldl_sh_inj)
  then have "crc_ref p XOR push_bit 8 (chr a) XOR chr b = crc_ref p XOR push_bit 8 (chr a') XOR chr b'"
    unfolding sh_two_chars by (rule sh_pow_inj)
  then show "a = a' \<and> b = b'" by (rule pair_inj)
qed simp

end
