(* ===== verification/Emv_Codec.thy ===== *)
theory Emv_Codec
  imports Emv_Crc "HOL-Library.Code_Target_Numeral"
begin

text \<open>
  Round trips of the BR Code codec: what the TLV reader accepts is what the writer produces, and parsing a
  built payload gives its fields back.
\<close>

section \<open>Two-digit lengths\<close>

lemma pad_read:
  assumes "two_digits raw"
  shows "padStart 2 (CHR ''0'') (show_nat (read_nat raw)) = raw" "read_nat raw \<le> 99"
proof -
  from assms obtain a b where raw: "raw = [a, b]" "is_digit a" "is_digit b"
    by (auto simp: two_digits_def length_Suc_conv numeral_2_eq_2)
  have d: "digit_val a < 10" "digit_val b < 10" using raw digit_val_less by auto
  have r: "read_nat raw = 10 * digit_val a + digit_val b" by (simp add: raw read_nat_def)
  show "read_nat raw \<le> 99" using r d by simp
  have last: "show_nat (digit_val c) = [c]" if "is_digit c" for c
    using that by (subst show_nat.simps) (simp add: digit_val_less digit_char_val)
  show "padStart 2 (CHR ''0'') (show_nat (read_nat raw)) = raw"
  proof (cases "digit_val a = 0")
    case True
    then have "a = CHR ''0''" using digit_char_val [OF raw(2)] digit_chars(1) by simp
    with True show ?thesis unfolding r using last raw by (simp add: padStart_def)
  next
    case False
    then have "show_nat (10 * digit_val a + digit_val b) = show_nat (digit_val a) @ [digit_char (digit_val b)]"
      using d by (subst show_nat.simps) simp
    then show ?thesis unfolding r using last raw by (simp add: padStart_def digit_char_val)
  qed
qed

lemma pad_show:
  assumes "n \<le> 99"
  shows "two_digits (padStart 2 (CHR ''0'') (show_nat n))" "read_nat (padStart 2 (CHR ''0'') (show_nat n)) = n"
  using assms pad_digits [of n 2] by (simp_all add: two_digits_def)

section \<open>Reading, then writing\<close>

lemma join_Cons: "join_results (r # rs) = (case r of Inl e \<Rightarrow> Inl e | Inr s \<Rightarrow> res_map ((@) s) (join_results rs))"
  by (cases r) simp_all

lemma join_Cons_Inr:
  "join_results (r # rs) = Inr p \<longleftrightarrow> (\<exists>s t. r = Inr s \<and> join_results rs = Inr t \<and> p = s @ t)"
  by (cases r; cases "join_results rs") auto

text \<open>What a step of the reader does when it succeeds.\<close>

lemma decode_stepE:
  assumes "decode_from c rest = Inr ns" "rest \<noteq> []"
  obtains i raw v t cs ms where "rest = i @ raw @ v @ t" "two_digits i" "two_digits raw" "length v = read_nat raw"
    "(if i \<in> set NESTED_IDS then res_map Some (decode_from 0 v) else Inr None) = Inr cs"
    "decode_from (c + 4 + length v) t = Inr ms" "ns = EmvNode i v cs # ms"
    "v = take (read_nat raw) (drop 4 rest)" "t = drop (4 + read_nat raw) rest" "length rest \<ge> 4 + read_nat raw"
    "i = take 2 rest" "raw = take 2 (drop 2 rest)"
proof -
  let ?i = "take 2 rest" and ?raw = "take 2 (drop 2 rest)"
  let ?v = "take (read_nat ?raw) (drop 4 rest)" and ?t = "drop (4 + read_nat ?raw) rest"
  have h: "two_digits ?i" "two_digits ?raw" "length rest \<ge> 4 + read_nat ?raw"
    using assms by (auto simp: decode_from.simps [of c rest] Let_def split: if_splits)
  let ?cs = "if ?i \<in> set NESTED_IDS then res_map Some (decode_from 0 ?v) else Inr None"
  have "(case ?cs of Inl e \<Rightarrow> Inl e | Inr cs \<Rightarrow> res_map ((#) (EmvNode ?i ?v cs)) (decode_from (c + 4 + read_nat ?raw) ?t)) = Inr ns"
    using assms h by (simp add: decode_from.simps [of c rest] Let_def)
  then obtain cs ms where "?cs = Inr cs" "decode_from (c + 4 + read_nat ?raw) ?t = Inr ms" "ns = EmvNode ?i ?v cs # ms"
    by (auto simp: res_map_Inr split: sum.splits)
  moreover have "rest = ?i @ ?raw @ ?v @ ?t"
    by (metis append_take_drop_id drop_drop numeral_Bit0 add.commute)
  moreover have "length ?v = read_nat ?raw" using h by simp
  ultimately show thesis using h that by metis
qed

lemma encode_decoded:
  assumes "decode_from c p = Inr ns"
  shows "join_results (map encodeNode ns) = Inr p"
  using assms
proof (induction "length p" arbitrary: c p ns rule: less_induct)
  case less
  show ?case
  proof (cases "p = []")
    case True
    with less.prems show ?thesis by (simp add: decode_from.simps)
  next
    case False
    from less.prems False show ?thesis
    proof (cases rule: decode_stepE)
      case (1 i raw v t cs ms)
      have t: "join_results (map encodeNode ms) = Inr t"
        using less.hyps [OF _ 1(6)] False 1(9) by (cases p) auto
      have len: "length v \<le> 99" using pad_read(2) [OF 1(3)] 1(4) by simp
      then have "tlv i v = Inr (i @ raw @ v)"
        using pad_read(1) [OF 1(3)] 1(4) by (simp add: tlv_def)
      moreover have "encodeNode (EmvNode i v cs) = tlv i v"
      proof (cases "i \<in> set NESTED_IDS")
        case True
        with 1(5) obtain ks where ks: "decode_from 0 v = Inr ks" "cs = Some ks" by (auto simp: res_map_Inr)
        then have "join_results (map encodeNode ks) = Inr v"
          using less.hyps [OF _ ks(1)] 1(8) 1(10) by (auto)
        then show ?thesis by (cases ks) (simp_all add: ks join_Cons)
      qed (use 1(5) in simp)
      ultimately show ?thesis using t 1(1) 1(7) by (simp add: join_Cons)
    qed
  qed
qed

section \<open>Writing, then reading\<close>

fun wf_node :: "EmvNode \<Rightarrow> bool" where
  "wf_node (EmvNode i v cs) \<longleftrightarrow> two_digits i \<and>
     (case cs of None \<Rightarrow> i \<notin> set NESTED_IDS | Some ns \<Rightarrow> i \<in> set NESTED_IDS \<and> ns \<noteq> [] \<and> list_all wf_node ns)"

text \<open>The node the reader returns for a written node: the value of a template is the text of its children.\<close>

fun canon :: "EmvNode \<Rightarrow> EmvNode" where
  "canon (EmvNode i v cs) =
     (case cs of None \<Rightarrow> EmvNode i v None
      | Some ns \<Rightarrow> EmvNode i (projr (join_results (map encodeNode ns))) (Some (map canon ns)))"

lemma tlv_Inr: "tlv i v = Inr s \<longleftrightarrow> length v \<le> 99 \<and> s = i @ padStart 2 (CHR ''0'') (show_nat (length v)) @ v"
  by (auto simp: tlv_def)

lemma decode_tlv:
  assumes "two_digits i" "tlv i v = Inr s"
  shows "decode_from c (s @ t) =
    (case (if i \<in> set NESTED_IDS then res_map Some (decode_from 0 v) else Inr None) of
       Inl e \<Rightarrow> Inl e
     | Inr cs \<Rightarrow> res_map ((#) (EmvNode i v cs)) (decode_from (c + length s) t))"
proof -
  let ?raw = "padStart 2 (CHR ''0'') (show_nat (length v))"
  have v: "length v \<le> 99" and s: "s = i @ ?raw @ v" using assms(2) by (auto simp: tlv_Inr)
  have raw: "two_digits ?raw" "read_nat ?raw = length v" using pad_show [OF v] by auto
  have len: "length i = 2" "length ?raw = 2" using assms(1) raw(1) by (auto simp: two_digits_def)
  define u where "u = s @ t"
  have u: "take 2 u = i" "take 2 (drop 2 u) = ?raw" "take (length v) (drop 4 u) = v" "drop (4 + length v) u = t"
    "u \<noteq> []" "\<not> length u < 4" "\<not> length u < 4 + length v" "length s = 4 + length v"
    using len by (auto simp: s u_def)
  have "decode_from c u = (case (if i \<in> set NESTED_IDS then res_map Some (decode_from 0 v) else Inr None) of
       Inl e \<Rightarrow> Inl e
     | Inr cs \<Rightarrow> res_map ((#) (EmvNode i v cs)) (decode_from (c + length s) t))"
    unfolding decode_from.simps [of c u] using u assms(1) raw by (simp add: Let_def add.assoc split: sum.split)
  then show ?thesis by (simp only: u_def)
qed

lemma decode_encoded:
  "wf_node n \<Longrightarrow> encodeNode n = Inr s \<Longrightarrow>
     decode_from c (s @ t) = res_map ((#) (canon n)) (decode_from (c + length s) t)"
proof (induction n arbitrary: s c t)
  case (EmvNode i v cs)
  show ?case
  proof (cases cs)
    case None
    with EmvNode.prems show ?thesis using decode_tlv [of i v s c t] by simp
  next
    case (Some ns)
    with EmvNode.prems obtain w where w: "join_results (map encodeNode ns) = Inr w" "tlv i w = Inr s"
      by (cases ns) (auto split: sum.splits)
    have all: "decode_from c w = Inr (map canon ns)" for c
    proof -
      have IH: "decode_from c (s @ t) = res_map ((#) (canon n)) (decode_from (c + length s) t)"
        if "n \<in> set ns" "encodeNode n = Inr s" for n s c t
        using EmvNode.IH [of ns n] that Some EmvNode.prems(1) by (auto simp: list_all_iff)
      then have "join_results (map encodeNode ns) = Inr w \<Longrightarrow> decode_from c w = Inr (map canon ns)" for c w
      proof (induction ns arbitrary: c w)
        case (Cons n ns)
        then obtain x y where xy: "encodeNode n = Inr x" "join_results (map encodeNode ns) = Inr y" "w = x @ y"
          by (auto simp: join_Cons_Inr)
        have "decode_from (c + length x) y = Inr (map canon ns)"
          by (rule Cons.IH [OF xy(2)]) (rule Cons.prems(2), auto)
        then show ?case using Cons.prems(2) [OF _ xy(1), of c y] xy(3) by simp
      qed (simp add: decode_from.simps)
      with w(1) show ?thesis by blast
    qed
    show ?thesis using EmvNode.prems(1) decode_tlv [of i w s c t] w Some all by simp
  qed
qed

lemma decode_encoded_list:
  assumes "list_all wf_node ns" "join_results (map encodeNode ns) = Inr s"
  shows "decode_from c (s @ t) = res_map ((@) (map canon ns)) (decode_from (c + length s) t)"
  using assms
proof (induction ns arbitrary: c s)
  case (Cons n ns)
  then obtain x y where "encodeNode n = Inr x" "join_results (map encodeNode ns) = Inr y" "s = x @ y"
    by (auto simp: join_Cons_Inr)
  moreover from this Cons have "decode_from c (x @ y @ t) = res_map ((#) (canon n)) (decode_from (c + length x) (y @ t))"
    "decode_from (c + length x) (y @ t) = res_map ((@) (map canon ns)) (decode_from (c + length x + length y) t)"
    using decode_encoded [of n x c "y @ t"] Cons.IH [of y "c + length x"] by auto
  ultimately show ?case by (simp add: res_map_comp add.assoc)
qed (simp add: res_map_def split: sum.split)

section \<open>The marker of the CRC\<close>

abbreviation occurs_at :: "string \<Rightarrow> string \<Rightarrow> nat \<Rightarrow> bool" where
  "occurs_at pat s i \<equiv> i \<le> length s \<and> take (length pat) (drop i s) = pat"

lemma lastIndexOf_None: "lastIndexOf pat s = None \<Longrightarrow> \<not> occurs_at pat s i"
proof (induction s arbitrary: i)
  case (Cons c s)
  then show ?case by (cases i) (auto split: option.splits if_splits)
qed (auto split: if_splits)

lemma lastIndexOf_occurs:
  "occurs_at pat s i \<Longrightarrow> (\<And>j. i < j \<Longrightarrow> \<not> occurs_at pat s j) \<Longrightarrow> lastIndexOf pat s = Some i"
proof (induction s arbitrary: i)
  case (Cons c s)
  show ?case
  proof (cases i)
    case 0
    have "lastIndexOf pat s = None"
    proof (rule ccontr)
      assume "lastIndexOf pat s \<noteq> None"
      then obtain k where k: "lastIndexOf pat s = Some k" by blast
      have "occurs_at pat s k" using k
        by (induction s arbitrary: k) (auto split: option.splits if_splits)
      then show False using Cons.prems(2) [of "Suc k"] 0 by simp
    qed
    with 0 Cons.prems(1) show ?thesis by simp
  next
    case (Suc k)
    have "lastIndexOf pat s = Some k"
      by (rule Cons.IH) (use Cons.prems Suc Cons.prems(2) [of "Suc _"] in auto)
    with Suc show ?thesis by simp
  qed
qed auto

lemma marker_position:
  assumes c: "length c = 4"
  shows "lastIndexOf ''6304'' (b @ ''6304'' @ c) = Some (if c = ''6304'' then length b + 4 else length b)"
proof -
  let ?s = "b @ ''6304'' @ c"
  obtain c1 c2 c3 c4 where c': "c = [c1, c2, c3, c4]" using c by (auto simp: length_Suc_conv numeral_eq_Suc)
  have later: "k = 4 \<and> c = ''6304''" if "occurs_at ''6304'' ?s (length b + k)" "0 < k" for k
  proof -
    have "take 4 (drop k (''6304'' @ c)) = ''6304''" using that(1) by (simp add: numeral_eq_Suc)
    then have "length (take 4 (drop k (''6304'' @ c))) = 4" by simp
    then have "k \<le> 4" using c by simp
    with that(2) have "k = 1 \<or> k = 2 \<or> k = 3 \<or> k = 4" by auto
    with \<open>take 4 (drop k (''6304'' @ c)) = ''6304''\<close> show ?thesis by (auto simp: c')
  qed
  show ?thesis
  proof (cases "c = ''6304''")
    case True
    have "occurs_at ''6304'' ?s (length b + 4)" using True by simp
    moreover have "\<not> occurs_at ''6304'' ?s j" if "length b + 4 < j" for j
      using later [of "j - length b"] that by auto
    ultimately show ?thesis using True lastIndexOf_occurs [where pat = "''6304''" and s = ?s and i = "length b + 4"] by simp
  next
    case False
    have "occurs_at ''6304'' ?s (length b)" by simp
    moreover have "\<not> occurs_at ''6304'' ?s j" if "length b < j" for j
      using later [of "j - length b"] that False by auto
    ultimately show ?thesis using False lastIndexOf_occurs [where pat = "''6304''" and s = ?s and i = "length b"] by simp
  qed
qed

lemma hex_digit_props: "d < 16 \<Longrightarrow> ascii_upper (hex_digit d) = hex_digit d \<and> \<not> is_space (hex_digit d)"
  by (auto simp: hex_digit_def ascii_upper_def is_space_def)

lemma show_hex_props: "\<forall>x\<in>set (show_hex n). ascii_upper x = x \<and> \<not> is_space x"
proof (induction n rule: show_hex.induct)
  case (1 n)
  then show ?case by (cases "n < 16") (auto simp: show_hex.simps [of n] hex_digit_props)
qed

lemma crc16_chars: "\<forall>x\<in>set (crc16 s). ascii_upper x = x \<and> \<not> is_space x"
proof -
  have "ascii_upper (CHR ''0'') = CHR ''0'' \<and> \<not> is_space (CHR ''0'')" by code_simp
  then show ?thesis using show_hex_props by (auto simp: crc16_def padStart_def)
qed

text \<open>The check accepts a written payload exactly when its CRC is not the text of the marker.\<close>

lemma encodeEmv_Inr:
  "encodeEmv ns = Inr p \<longleftrightarrow> (\<exists>b. join_results (map encodeNode (filter (\<lambda>n. nd_id n \<noteq> ''63'') ns)) = Inr b \<and>
     p = b @ ''6304'' @ crc16 (b @ ''6304''))"
  by (auto simp: encodeEmv_def EMV_CRC_def Let_def split: sum.splits)

lemma verify_encoded: "verifyEmvCrc (b @ ''6304'' @ crc16 (b @ ''6304'')) \<longleftrightarrow> crc16 (b @ ''6304'') \<noteq> ''6304''"
proof -
  have up: "map ascii_upper (crc16 s) = crc16 s" for s
    using crc16_chars by (simp add: map_idI)
  show ?thesis
    using marker_position [OF crc16_length, of b "b @ ''6304''"] crc16_length [of "b @ ''6304''"] up
    by (simp add: verifyEmvCrc_def EMV_CRC_def)
qed

section \<open>BR Codes\<close>

lemma two_digits_consts [simp]:
  "two_digits ''00''" "two_digits ''01''" "two_digits ''02''" "two_digits ''05''" "two_digits ''25''" "two_digits ''26''"
  "two_digits ''52''" "two_digits ''53''" "two_digits ''54''" "two_digits ''58''" "two_digits ''59''" "two_digits ''60''"
  "two_digits ''61''" "two_digits ''62''" "two_digits ''63''"
  by code_simp+

lemma nested_consts [simp]:
  "(i \<in> set NESTED_IDS) = (i = ''26'' \<or> i = ''27'' \<or> i = ''62'' \<or> i = ''80'' \<or> i = ''81'' \<or> i = ''82'')"
  by (simp add: NESTED_IDS_def)

lemma br_nodes_wf: "list_all wf_node (br_nodes input)"
  by (auto simp: br_nodes_def plain_def br_merchant_def split: option.split)

lemma br_nodes_no_crc: "filter (\<lambda>n. nd_id n \<noteq> ''63'') (br_nodes input) = br_nodes input"
  by (auto simp: br_nodes_def plain_def filter_id_conv split: option.split)

lemma canon_id [simp]: "nd_id (canon n) = nd_id n"
  by (cases n) (simp split: option.split)

lemma findNode_Cons: "findNode (n # ns) i = (if nd_id n = i then Some n else findNode ns i)"
  by (simp add: findNode_def)

lemma findNode_append: "findNode (xs @ ys) i = (case findNode xs i of None \<Rightarrow> findNode ys i | Some n \<Rightarrow> Some n)"
  by (induction xs) (simp_all add: findNode_def)

lemma findNode_Nil: "findNode [] i = None"
  by (simp add: findNode_def)

lemma js_trim_written:
  "js_trim (CHR ''0'' # b @ ''6304'' @ crc16 s) = CHR ''0'' # b @ ''6304'' @ crc16 s"
proof (rule js_trim_id)
  have "crc16 s \<noteq> []" using crc16_length [of s] by auto
  then show "\<not> is_space (last (CHR ''0'' # b @ ''6304'' @ crc16 s))"
    using crc16_chars [of s] last_in_set [of "crc16 s"] by auto
qed (simp_all add: is_space_def)

lemma br_body_starts:
  assumes "join_results (map encodeNode (br_nodes input)) = Inr b"
  obtains b' where "b = CHR ''0'' # b'"
  using assms by (auto simp: br_nodes_def plain_def join_Cons_Inr tlv_Inr split: option.splits if_splits)

text \<open>The reader on a written BR Code: the nodes of the builder, in normal form, and the CRC.\<close>

lemma decode_built:
  assumes "join_results (map encodeNode (br_nodes input)) = Inr b"
  shows "decodeEmv (b @ ''6304'' @ crc16 s) = Inr (map canon (br_nodes input) @ [plain ''63'' (crc16 s)])"
proof -
  have "tlv ''63'' (crc16 s) = Inr (''6304'' @ crc16 s)"
    by (simp add: tlv_Inr crc16_length padStart_def show_nat.simps digit_chars)
  then have "decode_from c (''6304'' @ crc16 s) = Inr [plain ''63'' (crc16 s)]" for c
    using decode_tlv [of "''63''" "crc16 s" "''6304'' @ crc16 s" c "[]"] by (simp add: plain_def decode_from.simps)
  then show ?thesis
    using decode_encoded_list [OF br_nodes_wf assms, of 0 "''6304'' @ crc16 s"] by (simp add: decodeEmv_def)
qed

lemma parse_built:
  assumes "buildBrCode input = Inr p"
  shows "parseBrCode p =
    (if drop (length p - 4) p = ''6304'' then Inl CrcMismatch
     else let ns = map canon (br_nodes input) @ [plain ''63'' (drop (length p - 4) p)];
              mc = map canon (br_merchant input); url = node_value mc ''25''
          in Inr \<lparr>pb_pixKey = node_value mc ''01'', pb_url = map_option ((@) ''https://'') (truthy url),
               pb_merchantName = node_value ns ''59'', pb_merchantCity = node_value ns ''60'',
               pb_amount = node_value ns ''54'',
               pb_txid = (case truthy (Some (or_else (br_referenceLabel input) ''***'')) of None \<Rightarrow> None
                  | Some t \<Rightarrow> if t \<noteq> ''***'' then Some t else None),
               pb_description = node_value mc ''02'', pb_singleUse = (node_value ns ''01'' = Some ''12''),
               pb_isDynamic = (truthy url \<noteq> None), pb_nodes = ns\<rparr>)"
proof -
  from assms have "encodeEmv (br_nodes input) = Inr p" by (auto simp: buildBrCode_def split: if_splits)
  then obtain b where b: "join_results (map encodeNode (br_nodes input)) = Inr b" "p = b @ ''6304'' @ crc16 (b @ ''6304'')"
    by (auto simp: encodeEmv_Inr br_nodes_no_crc)
  obtain b' where "b = CHR ''0'' # b'" by (rule br_body_starts [OF b(1)])
  then have trim: "js_trim p = p" using b(2) js_trim_written by simp
  have crc: "drop (length p - 4) p = crc16 (b @ ''6304'')" using b(2) crc16_length by simp
  have v: "verifyEmvCrc p \<longleftrightarrow> drop (length p - 4) p \<noteq> ''6304''"
    using verify_encoded b(2) crc by metis
  have d: "decodeEmv p = Inr (map canon (br_nodes input) @ [plain ''63'' (drop (length p - 4) p)])"
    using decode_built [OF b(1)] b(2) crc by metis
  let ?ns = "map canon (br_nodes input) @ [plain ''63'' (drop (length p - 4) p)]"
  have m: "node_children (findNode ?ns ''26'') = map canon (br_merchant input)"
    by (simp add: br_nodes_def findNode_append findNode_Cons findNode_Nil plain_def node_children_def)
  have a: "node_children (findNode ?ns ''62'') = [plain ''05'' (or_else (br_referenceLabel input) ''***'')]"
    by (simp add: br_nodes_def findNode_append findNode_Cons findNode_Nil plain_def node_children_def split: option.split)
  have gui: "node_value (map canon (br_merchant input)) ''00'' = Some PIX_GUI"
    by (simp add: br_merchant_def findNode_Cons plain_def node_value_def)
  have low: "map ascii_lower PIX_GUI = PIX_GUI" by code_simp
  have lab: "node_value [plain ''05'' x] ''05'' = Some x" for x
    by (simp add: node_value_def findNode_Cons plain_def)
  show ?thesis
    unfolding parseBrCode_def Let_def trim v d sum.case m a gui lab by (simp add: low)
qed

lemma built_fields:
  fixes input c
  defines "ns \<equiv> map canon (br_nodes input) @ [plain ''63'' c]" and "mc \<equiv> map canon (br_merchant input)"
  shows "node_value ns ''59'' = Some (sanitizeText (br_merchantName input) 25)"
    "node_value ns ''60'' = Some (sanitizeText (br_merchantCity input) 15)"
    "node_value ns ''54'' = truthy (br_amount input)"
    "node_value ns ''01'' = (if br_singleUse input then Some ''12'' else None)"
    "node_value mc ''25'' = map_option strip_scheme (truthy (br_url input))"
    "node_value mc ''01'' = (if truthy (br_url input) = None then Some (br_pixKey input) else None)"
    "node_value mc ''02'' = (if truthy (br_url input) = None
       then map_option (\<lambda>d. sanitizeText d (72 - int (length (br_pixKey input)))) (truthy (br_description input)) else None)"
  unfolding ns_def mc_def
  by (simp_all add: br_nodes_def br_merchant_def node_value_def findNode_append findNode_Cons findNode_Nil plain_def del: truthy_Some
      split: option.split)

section \<open>Properties\<close>

text \<open>C15: the byte-wise loop over a 32-bit integer computes CRC-16/CCITT-FALSE, the shift register fed
  one bit at a time, and prints it as four characters.\<close>

theorem crc16_reference:
  "crc_register s = ucast (crc_ref s) \<and> read_hex (crc16 s) = unat (crc_ref s) \<and> length (crc16 s) = 4"
  using crc_register_ref crc16_read crc16_length by blast

text \<open>The CRC notices any corruption of one character or of two adjacent ones: two texts that
  differ only there have the same CRC only if they are the same.\<close>

theorem crc16_detects_bursts:
  "crc16 (p @ [a, b] @ q) = crc16 (p @ [a', b'] @ q) \<longleftrightarrow> a = a' \<and> b = b'"
  by (rule crc16_pair)

text \<open>C16: writing what was read gives the payload back: every text the TLV reader accepts is the writer's
  output for the nodes it returned, templates included, so the reader loses and invents nothing.\<close>

theorem decode_then_encode:
  assumes "decodeEmv p = Inr ns"
  shows "join_results (map encodeNode ns) = Inr p"
  using encode_decoded assms unfolding decodeEmv_def by blast

theorem decode_then_encode_witness:
  "join_results (map encodeNode [plain ''00'' ''01'', EmvNode ''62'' ''0503abc'' (Some [plain ''05'' ''abc''])]) =
     Inr ''00020162070503abc''"
  by (rule decode_then_encode) code_simp

text \<open>Parsing a built BR Code gives back the key or the address, the sanitised merchant, the amount,
  the identifier and the flags it was built from, except when its CRC happens to spell the marker
  \<open>6304\<close>: then, and only then, the parser rejects it.\<close>

theorem brcode_roundtrip:
  assumes "buildBrCode input = Inr p"
  shows "if drop (length p - 4) p = ''6304'' then parseBrCode p = Inl CrcMismatch
    else \<exists>r. parseBrCode p = Inr r \<and>
      pb_pixKey r = (if truthy (br_url input) = None then Some (br_pixKey input) else None) \<and>
      pb_url r = map_option ((@) ''https://'') (truthy (map_option strip_scheme (truthy (br_url input)))) \<and>
      pb_merchantName r = Some (sanitizeText (br_merchantName input) 25) \<and>
      pb_merchantCity r = Some (sanitizeText (br_merchantCity input) 15) \<and>
      pb_amount r = truthy (br_amount input) \<and>
      pb_txid r = (case br_referenceLabel input of None \<Rightarrow> None | Some t \<Rightarrow> if t = [] \<or> t = ''***'' then None else Some t) \<and>
      pb_singleUse r = br_singleUse input"
  using parse_built [OF assms] built_fields [of input]
  by (simp add: Let_def split: option.split)

definition demo_br :: BrCodeInput where
  "demo_br = \<lparr>br_pixKey = ''12345749538'', br_merchantName = ''Loja'', br_merchantCity = ''SP'', br_amount = None,
     br_referenceLabel = None, br_description = None, br_postalCode = None, br_merchantCategoryCode = None,
     br_url = None, br_singleUse = False\<rparr>"

theorem brcode_roundtrip_witness:
  "\<exists>r. parseBrCode (projr (buildBrCode (demo_br\<lparr>br_amount := Some ''10.00'', br_referenceLabel := Some ''T1''\<rparr>))) = Inr r \<and>
     pb_pixKey r = Some ''12345749538'' \<and> pb_amount r = Some ''10.00'' \<and> pb_txid r = Some ''T1''"
proof -
  let ?i = "demo_br\<lparr>br_amount := Some ''10.00'', br_referenceLabel := Some ''T1''\<rparr>"
  let ?p = "projr (buildBrCode ?i)"
  have p: "buildBrCode ?i = Inr ?p" and n: "drop (length ?p - 4) ?p \<noteq> ''6304''" by code_simp+
  show ?thesis using brcode_roundtrip [OF p] n by (auto simp: demo_br_def)
qed

text \<open>A payload the builder makes and the parser rejects, because \<open>lastIndexOf\<close> finds the marker in
  the CRC itself.\<close>

lemma brcode_rejected_by_own_parser:
  "parseBrCode (projr (buildBrCode demo_br)) = Inl CrcMismatch"
  by code_simp

text \<open>With a long key the room left for the description is negative, \<open>slice\<close> then counts from the
  right, and the template overflows although the description was meant to be cut away.\<close>

lemma brcode_long_key_overflows:
  "\<not> isl (buildBrCode (demo_br\<lparr>br_pixKey := replicate 77 (CHR ''a'')\<rparr>)) \<and>
   buildBrCode (demo_br\<lparr>br_pixKey := replicate 77 (CHR ''a''), br_description := Some ''pedido 1''\<rparr>) = Inl (TooLong ''26'')"
  by code_simp

end
