(* ===== verification/Fsm.thy ===== *)
theory Fsm
  imports BaaS_Prelude
begin

text \<open>
  The state machines of \<open>src/packages/taxonomy/src/fsm\<close>: the transition tables and monotonic ranks of
  \<open>transitions.ts\<close>, and the functions of \<open>apply.ts\<close> that decide whether a transition is legal and
  whether an event of a provider is applied or discarded.

  The locale \<open>monotonic_fsm\<close> states what the guard needs of a rank table; what follows for any
  sequence of events, delivered in any order and any number of times, is proved there once and
  interpreted on the three guarded machines.
\<close>

section \<open>Enumerations\<close>

datatype AccountStatus =
    DRAFT | PENDING_ONBOARDING | PENDING_DOCUMENTS | UNDER_REVIEW | ACTIVE | BLOCKED | SUSPENDED
  | REJECTED | CLOSING | CLOSED

datatype OnboardingStatus =
    DRAFT | SUBMITTED | PENDING_REQUIREMENTS | IN_ANALYSIS | MANUAL_REVIEW | APPROVED | REJECTED
  | EXPIRED | CANCELLED

datatype TransactionStatus =
    CREATED | PENDING | PROCESSING | SETTLED | FAILED | CANCELLED | REVERSED | PARTIALLY_REVERSED
  | UNKNOWN

datatype PixKeyStatus =
    PENDING_REGISTRATION | PENDING_OWNERSHIP_CONFIRMATION | ACTIVE | PENDING_PORTABILITY_IN
  | PENDING_PORTABILITY_OUT | PENDING_CLAIM_IN | PENDING_CLAIM_OUT | REMOVED | REJECTED

datatype PixChargeStatus = ACTIVE | COMPLETED | EXPIRED | REMOVED_BY_PSP | REMOVED_BY_USER

datatype RequirementStatus = PENDING | SUBMITTED | IN_ANALYSIS | ACCEPTED | REJECTED | WAIVED | EXPIRED

definition TERMINAL_TRANSACTION_STATUSES :: "TransactionStatus set" where
  "TERMINAL_TRANSACTION_STATUSES =
     {TransactionStatus.FAILED, TransactionStatus.CANCELLED, TransactionStatus.REVERSED}"

section \<open>transitions.ts\<close>

fun ACCOUNT_STATUS_TRANSITIONS :: "AccountStatus \<Rightarrow> AccountStatus list" where
  "ACCOUNT_STATUS_TRANSITIONS AccountStatus.DRAFT = [AccountStatus.PENDING_ONBOARDING, AccountStatus.REJECTED]"
| "ACCOUNT_STATUS_TRANSITIONS AccountStatus.PENDING_ONBOARDING = [AccountStatus.PENDING_DOCUMENTS, AccountStatus.UNDER_REVIEW, AccountStatus.ACTIVE, AccountStatus.REJECTED]"
| "ACCOUNT_STATUS_TRANSITIONS AccountStatus.PENDING_DOCUMENTS = [AccountStatus.UNDER_REVIEW, AccountStatus.PENDING_ONBOARDING, AccountStatus.ACTIVE, AccountStatus.REJECTED]"
| "ACCOUNT_STATUS_TRANSITIONS AccountStatus.UNDER_REVIEW = [AccountStatus.ACTIVE, AccountStatus.PENDING_DOCUMENTS, AccountStatus.REJECTED]"
| "ACCOUNT_STATUS_TRANSITIONS AccountStatus.ACTIVE = [AccountStatus.BLOCKED, AccountStatus.SUSPENDED, AccountStatus.CLOSING]"
| "ACCOUNT_STATUS_TRANSITIONS AccountStatus.BLOCKED = [AccountStatus.ACTIVE, AccountStatus.CLOSING, AccountStatus.CLOSED]"
| "ACCOUNT_STATUS_TRANSITIONS AccountStatus.SUSPENDED = [AccountStatus.ACTIVE, AccountStatus.CLOSING]"
| "ACCOUNT_STATUS_TRANSITIONS AccountStatus.REJECTED = []"
| "ACCOUNT_STATUS_TRANSITIONS AccountStatus.CLOSING = [AccountStatus.CLOSED, AccountStatus.ACTIVE]"
| "ACCOUNT_STATUS_TRANSITIONS AccountStatus.CLOSED = []"

fun ONBOARDING_STATUS_TRANSITIONS :: "OnboardingStatus \<Rightarrow> OnboardingStatus list" where
  "ONBOARDING_STATUS_TRANSITIONS OnboardingStatus.DRAFT = [OnboardingStatus.SUBMITTED, OnboardingStatus.CANCELLED]"
| "ONBOARDING_STATUS_TRANSITIONS OnboardingStatus.SUBMITTED = [OnboardingStatus.IN_ANALYSIS, OnboardingStatus.PENDING_REQUIREMENTS, OnboardingStatus.MANUAL_REVIEW, OnboardingStatus.APPROVED, OnboardingStatus.REJECTED, OnboardingStatus.EXPIRED]"
| "ONBOARDING_STATUS_TRANSITIONS OnboardingStatus.PENDING_REQUIREMENTS = [OnboardingStatus.IN_ANALYSIS, OnboardingStatus.SUBMITTED, OnboardingStatus.MANUAL_REVIEW, OnboardingStatus.APPROVED, OnboardingStatus.REJECTED, OnboardingStatus.EXPIRED, OnboardingStatus.CANCELLED]"
| "ONBOARDING_STATUS_TRANSITIONS OnboardingStatus.IN_ANALYSIS = [OnboardingStatus.PENDING_REQUIREMENTS, OnboardingStatus.MANUAL_REVIEW, OnboardingStatus.APPROVED, OnboardingStatus.REJECTED, OnboardingStatus.EXPIRED]"
| "ONBOARDING_STATUS_TRANSITIONS OnboardingStatus.MANUAL_REVIEW = [OnboardingStatus.APPROVED, OnboardingStatus.REJECTED, OnboardingStatus.PENDING_REQUIREMENTS, OnboardingStatus.EXPIRED]"
| "ONBOARDING_STATUS_TRANSITIONS OnboardingStatus.APPROVED = []"
| "ONBOARDING_STATUS_TRANSITIONS OnboardingStatus.REJECTED = []"
| "ONBOARDING_STATUS_TRANSITIONS OnboardingStatus.EXPIRED = []"
| "ONBOARDING_STATUS_TRANSITIONS OnboardingStatus.CANCELLED = []"

fun TRANSACTION_STATUS_TRANSITIONS :: "TransactionStatus \<Rightarrow> TransactionStatus list" where
  "TRANSACTION_STATUS_TRANSITIONS TransactionStatus.CREATED = [TransactionStatus.PENDING, TransactionStatus.PROCESSING, TransactionStatus.FAILED, TransactionStatus.CANCELLED, TransactionStatus.UNKNOWN]"
| "TRANSACTION_STATUS_TRANSITIONS TransactionStatus.PENDING = [TransactionStatus.PROCESSING, TransactionStatus.SETTLED, TransactionStatus.FAILED, TransactionStatus.CANCELLED, TransactionStatus.UNKNOWN]"
| "TRANSACTION_STATUS_TRANSITIONS TransactionStatus.PROCESSING = [TransactionStatus.SETTLED, TransactionStatus.FAILED, TransactionStatus.UNKNOWN]"
| "TRANSACTION_STATUS_TRANSITIONS TransactionStatus.SETTLED = [TransactionStatus.REVERSED, TransactionStatus.PARTIALLY_REVERSED]"
| "TRANSACTION_STATUS_TRANSITIONS TransactionStatus.PARTIALLY_REVERSED = [TransactionStatus.REVERSED, TransactionStatus.PARTIALLY_REVERSED]"
| "TRANSACTION_STATUS_TRANSITIONS TransactionStatus.FAILED = []"
| "TRANSACTION_STATUS_TRANSITIONS TransactionStatus.CANCELLED = []"
| "TRANSACTION_STATUS_TRANSITIONS TransactionStatus.REVERSED = []"
| "TRANSACTION_STATUS_TRANSITIONS TransactionStatus.UNKNOWN = [TransactionStatus.PENDING, TransactionStatus.PROCESSING, TransactionStatus.SETTLED, TransactionStatus.FAILED, TransactionStatus.CANCELLED]"

fun PIX_KEY_STATUS_TRANSITIONS :: "PixKeyStatus \<Rightarrow> PixKeyStatus list" where
  "PIX_KEY_STATUS_TRANSITIONS PixKeyStatus.PENDING_REGISTRATION = [PixKeyStatus.PENDING_OWNERSHIP_CONFIRMATION, PixKeyStatus.PENDING_PORTABILITY_IN, PixKeyStatus.ACTIVE, PixKeyStatus.REJECTED]"
| "PIX_KEY_STATUS_TRANSITIONS PixKeyStatus.PENDING_OWNERSHIP_CONFIRMATION = [PixKeyStatus.ACTIVE, PixKeyStatus.REJECTED]"
| "PIX_KEY_STATUS_TRANSITIONS PixKeyStatus.ACTIVE = [PixKeyStatus.PENDING_PORTABILITY_OUT, PixKeyStatus.PENDING_CLAIM_IN, PixKeyStatus.PENDING_CLAIM_OUT, PixKeyStatus.REMOVED]"
| "PIX_KEY_STATUS_TRANSITIONS PixKeyStatus.PENDING_PORTABILITY_IN = [PixKeyStatus.ACTIVE, PixKeyStatus.REJECTED]"
| "PIX_KEY_STATUS_TRANSITIONS PixKeyStatus.PENDING_PORTABILITY_OUT = [PixKeyStatus.REMOVED, PixKeyStatus.ACTIVE]"
| "PIX_KEY_STATUS_TRANSITIONS PixKeyStatus.PENDING_CLAIM_IN = [PixKeyStatus.ACTIVE, PixKeyStatus.REJECTED]"
| "PIX_KEY_STATUS_TRANSITIONS PixKeyStatus.PENDING_CLAIM_OUT = [PixKeyStatus.REMOVED, PixKeyStatus.ACTIVE]"
| "PIX_KEY_STATUS_TRANSITIONS PixKeyStatus.REMOVED = []"
| "PIX_KEY_STATUS_TRANSITIONS PixKeyStatus.REJECTED = []"

fun PIX_CHARGE_STATUS_TRANSITIONS :: "PixChargeStatus \<Rightarrow> PixChargeStatus list" where
  "PIX_CHARGE_STATUS_TRANSITIONS PixChargeStatus.ACTIVE = [PixChargeStatus.COMPLETED, PixChargeStatus.EXPIRED, PixChargeStatus.REMOVED_BY_PSP, PixChargeStatus.REMOVED_BY_USER]"
| "PIX_CHARGE_STATUS_TRANSITIONS PixChargeStatus.COMPLETED = []"
| "PIX_CHARGE_STATUS_TRANSITIONS PixChargeStatus.EXPIRED = []"
| "PIX_CHARGE_STATUS_TRANSITIONS PixChargeStatus.REMOVED_BY_PSP = []"
| "PIX_CHARGE_STATUS_TRANSITIONS PixChargeStatus.REMOVED_BY_USER = []"

fun REQUIREMENT_STATUS_TRANSITIONS :: "RequirementStatus \<Rightarrow> RequirementStatus list" where
  "REQUIREMENT_STATUS_TRANSITIONS RequirementStatus.PENDING = [RequirementStatus.SUBMITTED, RequirementStatus.WAIVED, RequirementStatus.EXPIRED]"
| "REQUIREMENT_STATUS_TRANSITIONS RequirementStatus.SUBMITTED = [RequirementStatus.IN_ANALYSIS, RequirementStatus.ACCEPTED, RequirementStatus.REJECTED]"
| "REQUIREMENT_STATUS_TRANSITIONS RequirementStatus.IN_ANALYSIS = [RequirementStatus.ACCEPTED, RequirementStatus.REJECTED]"
| "REQUIREMENT_STATUS_TRANSITIONS RequirementStatus.REJECTED = [RequirementStatus.SUBMITTED, RequirementStatus.EXPIRED]"
| "REQUIREMENT_STATUS_TRANSITIONS RequirementStatus.ACCEPTED = []"
| "REQUIREMENT_STATUS_TRANSITIONS RequirementStatus.WAIVED = []"
| "REQUIREMENT_STATUS_TRANSITIONS RequirementStatus.EXPIRED = [RequirementStatus.SUBMITTED]"

fun TRANSACTION_STATUS_RANKS :: "TransactionStatus \<Rightarrow> nat" where
  "TRANSACTION_STATUS_RANKS TransactionStatus.UNKNOWN = 0"
| "TRANSACTION_STATUS_RANKS TransactionStatus.CREATED = 1"
| "TRANSACTION_STATUS_RANKS TransactionStatus.PENDING = 2"
| "TRANSACTION_STATUS_RANKS TransactionStatus.PROCESSING = 3"
| "TRANSACTION_STATUS_RANKS TransactionStatus.SETTLED = 4"
| "TRANSACTION_STATUS_RANKS TransactionStatus.FAILED = 4"
| "TRANSACTION_STATUS_RANKS TransactionStatus.CANCELLED = 4"
| "TRANSACTION_STATUS_RANKS TransactionStatus.PARTIALLY_REVERSED = 5"
| "TRANSACTION_STATUS_RANKS TransactionStatus.REVERSED = 6"

fun ACCOUNT_STATUS_RANKS :: "AccountStatus \<Rightarrow> nat" where
  "ACCOUNT_STATUS_RANKS AccountStatus.DRAFT = 0"
| "ACCOUNT_STATUS_RANKS AccountStatus.PENDING_ONBOARDING = 1"
| "ACCOUNT_STATUS_RANKS AccountStatus.PENDING_DOCUMENTS = 2"
| "ACCOUNT_STATUS_RANKS AccountStatus.UNDER_REVIEW = 3"
| "ACCOUNT_STATUS_RANKS AccountStatus.ACTIVE = 4"
| "ACCOUNT_STATUS_RANKS AccountStatus.REJECTED = 4"
| "ACCOUNT_STATUS_RANKS AccountStatus.SUSPENDED = 5"
| "ACCOUNT_STATUS_RANKS AccountStatus.BLOCKED = 5"
| "ACCOUNT_STATUS_RANKS AccountStatus.CLOSING = 6"
| "ACCOUNT_STATUS_RANKS AccountStatus.CLOSED = 7"

fun ONBOARDING_STATUS_RANKS :: "OnboardingStatus \<Rightarrow> nat" where
  "ONBOARDING_STATUS_RANKS OnboardingStatus.DRAFT = 0"
| "ONBOARDING_STATUS_RANKS OnboardingStatus.SUBMITTED = 1"
| "ONBOARDING_STATUS_RANKS OnboardingStatus.PENDING_REQUIREMENTS = 2"
| "ONBOARDING_STATUS_RANKS OnboardingStatus.IN_ANALYSIS = 2"
| "ONBOARDING_STATUS_RANKS OnboardingStatus.MANUAL_REVIEW = 3"
| "ONBOARDING_STATUS_RANKS OnboardingStatus.APPROVED = 4"
| "ONBOARDING_STATUS_RANKS OnboardingStatus.REJECTED = 4"
| "ONBOARDING_STATUS_RANKS OnboardingStatus.EXPIRED = 4"
| "ONBOARDING_STATUS_RANKS OnboardingStatus.CANCELLED = 4"

section \<open>apply.ts\<close>

record 's TransitionCheck =
  allowed :: bool
  noop :: bool
  tc_from :: 's
  tc_to :: 's

definition checkTransition :: "('s \<Rightarrow> 's list) \<Rightarrow> 's \<Rightarrow> 's \<Rightarrow> 's TransitionCheck" where
  "checkTransition table from to =
     (if from = to then \<lparr>allowed = True, noop = True, tc_from = from, tc_to = to\<rparr>
      else \<lparr>allowed = List.member (table from) to, noop = False, tc_from = from, tc_to = to\<rparr>)"

datatype 's TransitionError = InvalidStateTransitionError string 's 's

definition applyTransition ::
  "string \<Rightarrow> ('s \<Rightarrow> 's list) \<Rightarrow> 's \<Rightarrow> 's \<Rightarrow> 's TransitionError + 's" where
  "applyTransition entity table from to =
     (let check = checkTransition table from to in
      if \<not> allowed check then Inl (InvalidStateTransitionError entity from to) else Inr to)"

definition isTerminal :: "('s \<Rightarrow> 's list) \<Rightarrow> 's \<Rightarrow> bool" where
  "isTerminal table status = (length (table status) = 0)"

datatype StaleReason = stale_rank | stale_timestamp | same_state

datatype MonotonicDecision = Apply | Discard StaleReason

record 's MonotonicApplyInput =
  current :: 's
  incoming :: 's
  ranks :: "'s \<Rightarrow> nat"
  occurredAt :: instant
  lastEventAt :: "instant option"

definition decideMonotonic :: "'s MonotonicApplyInput \<Rightarrow> MonotonicDecision" where
  "decideMonotonic input =
     (if (case lastEventAt input of None \<Rightarrow> False | Some l \<Rightarrow> occurredAt input < l)
        then Discard stale_timestamp
      else if current input = incoming input then Discard same_state
      else if ranks input (incoming input) \<le> ranks input (current input) then Discard stale_rank
      else Apply)"

section \<open>Guarded machines\<close>

text \<open>
  What every repository does with an event before it writes: ask \<open>decideMonotonic\<close>, then
  \<open>checkTransition\<close>.  \<open>Inl\<close> carries the reason an event was not applied.
\<close>

datatype StatusChangeRejection = stale StaleReason | illegal_transition | not_found

definition guard ::
  "('s \<Rightarrow> 's list) \<Rightarrow> ('s \<Rightarrow> nat) \<Rightarrow> 's \<Rightarrow> instant option \<Rightarrow> 's \<Rightarrow> instant \<Rightarrow> StatusChangeRejection + unit" where
  "guard table rank status lastAt to at =
     (case decideMonotonic \<lparr>current = status, incoming = to, ranks = rank, occurredAt = at, lastEventAt = lastAt\<rparr> of
        Discard reason \<Rightarrow> Inl (stale reason)
      | Apply \<Rightarrow> if \<not> allowed (checkTransition table status to) then Inl illegal_transition else Inr ())"

type_synonym 's guarded = "'s \<times> instant option"

fun deliver :: "('s \<Rightarrow> 's list) \<Rightarrow> ('s \<Rightarrow> nat) \<Rightarrow> 's guarded \<Rightarrow> 's \<times> instant \<Rightarrow> 's guarded" where
  "deliver table rank (status, lastAt) (to, at) =
     (case guard table rank status lastAt to at of
        Inl _ \<Rightarrow> (status, lastAt)
      | Inr _ \<Rightarrow> (to, Some at))"

fun applied_events ::
  "('s \<Rightarrow> 's list) \<Rightarrow> ('s \<Rightarrow> nat) \<Rightarrow> 's guarded \<Rightarrow> ('s \<times> instant) list \<Rightarrow> ('s \<times> instant) list" where
  "applied_events table rank g [] = []"
| "applied_events table rank (status, lastAt) (ev # evs) =
     (case guard table rank status lastAt (fst ev) (snd ev) of
        Inl _ \<Rightarrow> applied_events table rank (status, lastAt) evs
      | Inr _ \<Rightarrow> ev # applied_events table rank (fst ev, Some (snd ev)) evs)"

lemma guard_Inr:
  "guard table rank status lastAt to at = Inr u \<longleftrightarrow>
     (case lastAt of None \<Rightarrow> True | Some l \<Rightarrow> l \<le> at) \<and> rank status < rank to \<and> to \<in> set (table status)"
  by (auto simp: guard_def decideMonotonic_def checkTransition_def List.member_iff split: option.splits if_splits)

lemma applied_events_Cons:
  "applied_events table rank g (ev # evs) =
     (if deliver table rank g ev = g \<and> guard table rank (fst g) (snd g) (fst ev) (snd ev) \<noteq> Inr ()
      then applied_events table rank g evs
      else ev # applied_events table rank (deliver table rank g ev) evs)"
  by (cases g; cases ev) (auto split: sum.splits)

locale monotonic_fsm =
  fixes table :: "'s \<Rightarrow> 's list" and rank :: "'s \<Rightarrow> nat" and top :: nat
  assumes rank_top: "rank s \<le> top"
begin

abbreviation "dlv \<equiv> deliver table rank"

lemma deliver_rank: "rank (fst g) \<le> rank (fst (dlv g ev))"
  by (cases g; cases ev) (auto simp: guard_Inr split: sum.splits)

text \<open>Redelivery of the event just handled changes nothing.\<close>

lemma deliver_idem: "dlv (dlv g ev) ev = dlv g ev"
  by (cases g; cases ev) (auto simp: guard_Inr split: sum.splits)

text \<open>An event older than the last applied one changes nothing.\<close>

lemma deliver_stale: "snd g = Some l \<Longrightarrow> snd ev < l \<Longrightarrow> dlv g ev = g"
  by (cases g; cases ev) (auto simp: guard_Inr split: sum.splits)

lemma deliver_run_rank: "rank (fst g) \<le> rank (fst (foldl dlv g evs))"
proof (induction evs arbitrary: g)
  case (Cons ev evs)
  from deliver_rank [of g ev] Cons [of "dlv g ev"] show ?case by simp
qed simp

text \<open>At most \<open>top\<close> events can ever be applied, however many arrive.\<close>

lemma applied_bounded: "length (applied_events table rank g evs) \<le> top - rank (fst g)"
proof (induction evs arbitrary: g)
  case (Cons ev evs)
  obtain s l where g: "g = (s, l)" by (cases g)
  show ?case
  proof (cases "guard table rank s l (fst ev) (snd ev)")
    case (Inr u)
    then have "rank s < rank (fst ev)" by (simp add: guard_Inr)
    moreover have "rank (fst ev) \<le> top" by (rule rank_top)
    moreover have "length (applied_events table rank (fst ev, Some (snd ev)) evs) \<le> top - rank (fst ev)"
      using Cons [of "(fst ev, Some (snd ev))"] by simp
    ultimately show ?thesis using Inr g by simp
  qed (use Cons [of g] g in simp)
qed simp

text \<open>A state from which no legal step raises the rank is kept for ever.\<close>

lemma stuck_for_ever:
  assumes "\<forall>s\<in>S. \<forall>t\<in>set (table s). rank s < rank t \<longrightarrow> t \<in> S" "fst g \<in> S"
  shows "fst (foldl dlv g evs) \<in> S"
  using assms(2)
proof (induction evs arbitrary: g)
  case (Cons ev evs)
  obtain s l where g: "g = (s, l)" by (cases g)
  have "fst (dlv g ev) \<in> S"
    using Cons.prems assms(1) g by (cases ev) (auto simp: guard_Inr split: sum.splits)
  then show ?case using Cons.IH by simp
qed simp

end

interpretation tx_fsm: monotonic_fsm TRANSACTION_STATUS_TRANSITIONS TRANSACTION_STATUS_RANKS 6
proof
  show "TRANSACTION_STATUS_RANKS s \<le> 6" for s by (cases s) auto
qed

interpretation account_fsm: monotonic_fsm ACCOUNT_STATUS_TRANSITIONS ACCOUNT_STATUS_RANKS 7
proof
  show "ACCOUNT_STATUS_RANKS s \<le> 7" for s by (cases s) auto
qed

interpretation onboarding_fsm: monotonic_fsm ONBOARDING_STATUS_TRANSITIONS ONBOARDING_STATUS_RANKS 4
proof
  show "ONBOARDING_STATUS_RANKS s \<le> 4" for s by (cases s) auto
qed

section \<open>Properties\<close>

text \<open>C8: provider events may arrive in any order and any number of times: a transaction that is
  settled only ever moves on to a reversal, and one that failed, was cancelled or was reversed keeps
  that status for ever.\<close>

theorem settlement_never_undone:
  "(s = TransactionStatus.SETTLED \<longrightarrow>
      fst (foldl (deliver TRANSACTION_STATUS_TRANSITIONS TRANSACTION_STATUS_RANKS) (s, lastAt) evs)
        \<in> {TransactionStatus.SETTLED, TransactionStatus.PARTIALLY_REVERSED, TransactionStatus.REVERSED}) \<and>
   (s \<in> TERMINAL_TRANSACTION_STATUSES \<longrightarrow>
      fst (foldl (deliver TRANSACTION_STATUS_TRANSITIONS TRANSACTION_STATUS_RANKS) (s, lastAt) evs) = s)"
proof (intro conjI impI)
  assume "s = TransactionStatus.SETTLED"
  then show "fst (foldl (deliver TRANSACTION_STATUS_TRANSITIONS TRANSACTION_STATUS_RANKS) (s, lastAt) evs)
      \<in> {TransactionStatus.SETTLED, TransactionStatus.PARTIALLY_REVERSED, TransactionStatus.REVERSED}"
    by (intro tx_fsm.stuck_for_ever) auto
next
  assume "s \<in> TERMINAL_TRANSACTION_STATUSES"
  then have "fst (foldl (deliver TRANSACTION_STATUS_TRANSITIONS TRANSACTION_STATUS_RANKS) (s, lastAt) evs) \<in> {s}"
    by (intro tx_fsm.stuck_for_ever) (auto simp: TERMINAL_TRANSACTION_STATUSES_def)
  then show "fst (foldl (deliver TRANSACTION_STATUS_TRANSITIONS TRANSACTION_STATUS_RANKS) (s, lastAt) evs) = s" by simp
qed

theorem settlement_never_undone_witness:
  "fst (foldl (deliver TRANSACTION_STATUS_TRANSITIONS TRANSACTION_STATUS_RANKS)
     (TransactionStatus.FAILED, Some 5) [(TransactionStatus.SETTLED, 9), (TransactionStatus.PENDING, 7)]) =
   TransactionStatus.FAILED"
  using settlement_never_undone [of TransactionStatus.FAILED "Some 5" "[(TransactionStatus.SETTLED, 9), (TransactionStatus.PENDING, 7)]"]
  unfolding TERMINAL_TRANSACTION_STATUSES_def by blast

text \<open>The guard absorbs duplicates and bounds the work: for each guarded machine, delivering an
  event twice is delivering it once, and out of any number of events at most six are ever applied to
  a transaction, seven to an account and four to an onboarding case.\<close>

theorem guard_absorbs_redelivery:
  "deliver TRANSACTION_STATUS_TRANSITIONS TRANSACTION_STATUS_RANKS
     (deliver TRANSACTION_STATUS_TRANSITIONS TRANSACTION_STATUS_RANKS g ev) ev =
   deliver TRANSACTION_STATUS_TRANSITIONS TRANSACTION_STATUS_RANKS g ev \<and>
   length (applied_events TRANSACTION_STATUS_TRANSITIONS TRANSACTION_STATUS_RANKS g evs) \<le> 6 \<and>
   length (applied_events ACCOUNT_STATUS_TRANSITIONS ACCOUNT_STATUS_RANKS ga eva) \<le> 7 \<and>
   length (applied_events ONBOARDING_STATUS_TRANSITIONS ONBOARDING_STATUS_RANKS go evo) \<le> 4"
  using tx_fsm.deliver_idem tx_fsm.applied_bounded [of g evs] account_fsm.applied_bounded [of ga eva]
    onboarding_fsm.applied_bounded [of go evo]
  by (meson diff_le_self le_trans)

text \<open>Which legal transitions the event guard can never apply.  A legal transaction transition is
  discarded as stale exactly when it leads to \<open>UNKNOWN\<close>; for accounts these are the moves back to
  \<open>ACTIVE\<close> from a block, a suspension or a started closing, and two moves back within the opening; for
  onboarding they are the moves between analysis and pending requirements, in both directions, the
  resubmission, and the return from manual review.\<close>

theorem transitions_lost_to_the_guard:
  "(t \<in> set (TRANSACTION_STATUS_TRANSITIONS s) \<and>
      guard TRANSACTION_STATUS_TRANSITIONS TRANSACTION_STATUS_RANKS s None t at = Inl (stale stale_rank)
     \<longleftrightarrow> t = TransactionStatus.UNKNOWN \<and>
         s \<in> {TransactionStatus.CREATED, TransactionStatus.PENDING, TransactionStatus.PROCESSING}) \<and>
   (b \<in> set (ACCOUNT_STATUS_TRANSITIONS a) \<and>
      guard ACCOUNT_STATUS_TRANSITIONS ACCOUNT_STATUS_RANKS a None b at = Inl (stale stale_rank)
     \<longleftrightarrow> b = AccountStatus.ACTIVE \<and> a \<in> {AccountStatus.BLOCKED, AccountStatus.SUSPENDED, AccountStatus.CLOSING} \<or>
         (a, b) \<in> {(AccountStatus.PENDING_DOCUMENTS, AccountStatus.PENDING_ONBOARDING),
                   (AccountStatus.UNDER_REVIEW, AccountStatus.PENDING_DOCUMENTS)}) \<and>
   (q \<in> set (ONBOARDING_STATUS_TRANSITIONS p) \<and>
      guard ONBOARDING_STATUS_TRANSITIONS ONBOARDING_STATUS_RANKS p None q at = Inl (stale stale_rank)
     \<longleftrightarrow> (p, q) \<in> {(OnboardingStatus.PENDING_REQUIREMENTS, OnboardingStatus.IN_ANALYSIS),
                   (OnboardingStatus.IN_ANALYSIS, OnboardingStatus.PENDING_REQUIREMENTS),
                   (OnboardingStatus.PENDING_REQUIREMENTS, OnboardingStatus.SUBMITTED),
                   (OnboardingStatus.MANUAL_REVIEW, OnboardingStatus.PENDING_REQUIREMENTS)})"
proof (intro conjI, goal_cases)
  case 1
  show ?case by (cases s; cases t; simp add: guard_def decideMonotonic_def)
next
  case 2
  show ?case by (cases a; cases b; simp add: guard_def decideMonotonic_def)
next
  case 3
  show ?case by (cases p; cases q; simp add: guard_def decideMonotonic_def)
qed

end
