(* ===== verification/Repositories.thy ===== *)
theory Repositories
  imports Fsm Js_Strings
begin

text \<open>
  The in-memory repositories of the API, \<open>src/apps/api/src/persistence/memory/pix.repositories.ts\<close>, over the
  record types of \<open>src/apps/api/src/pix/pix.types.ts\<close>: transactions, PIX charges, PIX keys and operations.
  Those of accounts and onboarding are in \<open>Domain_Repositories\<close>.

  A repository is its map of rows (and its status history); a method returns its result and the new
  repository.  The callback \<open>withinTransaction\<close> acts on other stores: it is a function on a world
  \<open>'w\<close> that the method threads.  \<open>localeCompare\<close> is the argument \<open>lc\<close>, \<open>new Date()\<close> is \<open>now\<close>.
\<close>

section \<open>Record types\<close>

datatype TransactionType =
    PIX_IN | PIX_OUT | PIX_REFUND_IN | PIX_REFUND_OUT | INTERNAL_TRANSFER_IN | INTERNAL_TRANSFER_OUT
  | FEE | FEE_REVERSAL | ADJUSTMENT_CREDIT | ADJUSTMENT_DEBIT | BLOCK | UNBLOCK

datatype TransactionDirection = CREDIT | DEBIT

datatype PixInitiationMethod =
    MANUAL | KEY | STATIC_QRCODE | DYNAMIC_QRCODE | COPY_PASTE | PAYMENT_INITIATOR

datatype PixPurpose = TRANSFER | PURCHASE | WITHDRAWAL | CHANGE

datatype PixKeyType = CPF | CNPJ | EMAIL | PHONE | EVP

datatype PixChargeKind = STATIC | DYNAMIC_IMMEDIATE | DYNAMIC_DUE

record CounterpartyRecord =
  cp_name :: "string option"
  cp_taxIdLast4 :: "string option"
  cp_taxIdIndex :: "string option"
  cp_ispb :: "string option"
  cp_branch :: "string option"
  cp_accountNumber :: "string option"

record PixDetailRecord =
  px_endToEndId :: "string option"
  px_returnId :: "string option"
  px_originalEndToEndId :: "string option"
  px_txid :: "string option"
  px_initiationMethod :: PixInitiationMethod
  px_purpose :: PixPurpose
  px_keyType :: "PixKeyType option"
  px_keyValue :: "string option"
  px_counterparty :: "CounterpartyRecord option"
  px_remittanceInfo :: "string option"
  px_settlementAt :: "instant option"

record TransactionRecord =
  tr_id :: ident
  tr_environment :: Environment
  tr_accountId :: ident
  tr_chargeId :: "ident option"
  tr_parentTransactionId :: "ident option"
  tr_type :: TransactionType
  tr_direction :: TransactionDirection
  tr_status :: TransactionStatus
  tr_lastEventAt :: "instant option"
  tr_amountCents :: cents
  tr_feeCents :: cents
  tr_netAmountCents :: cents
  tr_refundedAmountCents :: cents
  tr_currency :: string
  tr_description :: "string option"
  tr_provider :: string
  tr_providerConnectionId :: ident
  tr_providerTransactionId :: "string option"
  tr_externalId :: "string option"
  tr_idempotencyKey :: "string option"
  tr_operationId :: "ident option"
  tr_failureCode :: "string option"
  tr_providerFailureCode :: "string option"
  tr_failureMessage :: "string option"
  tr_effectiveDate :: string
  tr_requestedAt :: instant
  tr_settledAt :: "instant option"
  tr_failedAt :: "instant option"
  tr_ledgerPendingTransactionId :: "ident option"
  tr_ledgerPostedTransactionId :: "ident option"
  tr_pix :: "PixDetailRecord option"
  tr_metadata :: "(string \<times> string) list"
  tr_createdAt :: instant
  tr_updatedAt :: instant

record ListTransactionsFilter =
  lf_environment :: Environment
  lf_accountId :: "ident option"
  lf_status :: "TransactionStatus option"
  lf_direction :: "TransactionDirection option"
  lf_endToEndId :: "string option"
  lf_limit :: nat
  lf_cursor :: "ident option"

type_synonym StatementPosition = "string \<times> ident"

record StatementFilter =
  sf_environment :: Environment
  sf_accountId :: ident
  sf_from :: string
  sf_to :: string
  sf_statuses :: "TransactionStatus list"
  sf_limit :: nat
  sf_cursor :: "StatementPosition option"

text \<open>\<open>StatusChangeResult\<close>: applied with the record, or the reason with the current status.\<close>

datatype ('r, 's) StatusChangeResult =
    Applied 'r
  | NotApplied StatusChangeRejection "'s option"

section \<open>MemoryTransactionRepository\<close>

record StatusHistoryEntry =
  sh_transactionId :: ident
  sh_from :: TransactionStatus
  sh_to :: TransactionStatus

record TransactionRepo =
  t_rows :: "(ident, TransactionRecord) jsmap"
  t_statusHistory :: "StatusHistoryEntry list"

definition tx_findById :: "TransactionRepo \<Rightarrow> Environment \<Rightarrow> ident \<Rightarrow> TransactionRecord option" where
  "tx_findById repo env i =
     (case map_get (t_rows repo) i of
        None \<Rightarrow> None
      | Some row \<Rightarrow> if tr_environment row = env then Some row else None)"

definition tx_findByProviderTransactionId ::
  "TransactionRepo \<Rightarrow> Environment \<Rightarrow> string \<Rightarrow> string \<Rightarrow> TransactionRecord option" where
  "tx_findByProviderTransactionId repo env provider ptid =
     find (\<lambda>row. tr_environment row = env \<and> tr_provider row = provider \<and>
                 tr_providerTransactionId row = Some ptid) (map_values (t_rows repo))"

definition tx_e2e :: "TransactionRecord \<Rightarrow> string option" where
  "tx_e2e row = (case tr_pix row of None \<Rightarrow> None | Some p \<Rightarrow> px_endToEndId p)"

definition tx_findByEndToEndId :: "TransactionRepo \<Rightarrow> Environment \<Rightarrow> string \<Rightarrow> TransactionRecord option" where
  "tx_findByEndToEndId repo env e2e =
     find (\<lambda>row. tr_environment row = env \<and> tx_e2e row = Some e2e) (map_values (t_rows repo))"

definition tx_findByIdempotencyKey :: "TransactionRepo \<Rightarrow> Environment \<Rightarrow> string \<Rightarrow> TransactionRecord option" where
  "tx_findByIdempotencyKey repo env key =
     find (\<lambda>row. tr_environment row = env \<and> tr_idempotencyKey row = Some key) (map_values (t_rows repo))"

definition tx_create :: "TransactionRecord \<Rightarrow> TransactionRepo \<Rightarrow> TransactionRecord \<times> TransactionRepo" where
  "tx_create record repo = (record, repo\<lparr>t_rows := map_set (tr_id record) record (t_rows repo)\<rparr>)"

definition absent_or :: "'a option \<Rightarrow> ('a \<Rightarrow> bool) \<Rightarrow> bool" where
  "absent_or x P = (case x of None \<Rightarrow> True | Some v \<Rightarrow> P v)"

fun findIndex :: "('a \<Rightarrow> bool) \<Rightarrow> nat \<Rightarrow> 'a list \<Rightarrow> int" where
  "findIndex P i [] = -1"
| "findIndex P i (x # xs) = (if P x then int i else findIndex P (Suc i) xs)"

definition tx_list ::
  "(string \<Rightarrow> string \<Rightarrow> int) \<Rightarrow> TransactionRepo \<Rightarrow> ListTransactionsFilter \<Rightarrow> TransactionRecord list \<times> ident option" where
  "tx_list lc repo f =
     (let selected = filter (\<lambda>row. tr_environment row = lf_environment f \<and>
              absent_or (truthy (lf_accountId f)) (\<lambda>a. tr_accountId row = a) \<and>
              absent_or (lf_status f) (\<lambda>s. tr_status row = s) \<and>
              absent_or (lf_direction f) (\<lambda>d. tr_direction row = d) \<and>
              absent_or (truthy (lf_endToEndId f)) (\<lambda>e. tx_e2e row = Some e)) (map_values (t_rows repo));
          rows = js_sort (\<lambda>a b. lc (tr_id b) (tr_id a)) selected;
          start = (case truthy (lf_cursor f) of
                     None \<Rightarrow> 0
                   | Some c \<Rightarrow> nat (findIndex (\<lambda>row. tr_id row = c) 0 rows + 1));
          page = take (lf_limit f) (drop start rows)
      in (page, if start + lf_limit f < length rows \<and> page \<noteq> [] then Some (tr_id (last page)) else None))"

definition stmt_compare :: "(string \<Rightarrow> string \<Rightarrow> int) \<Rightarrow> TransactionRecord \<Rightarrow> TransactionRecord \<Rightarrow> int" where
  "stmt_compare lc a b =
     (if tr_effectiveDate a = tr_effectiveDate b then lc (tr_id b) (tr_id a)
      else lc (tr_effectiveDate b) (tr_effectiveDate a))"

definition below_cursor :: "StatementPosition option \<Rightarrow> TransactionRecord \<Rightarrow> bool" where
  "below_cursor cursor row =
     (case cursor of
        None \<Rightarrow> True
      | Some (d, i) \<Rightarrow>
          if tr_effectiveDate row < d then True
          else tr_effectiveDate row = d \<and> tr_id row < i)"

definition statement_rows ::
  "(string \<Rightarrow> string \<Rightarrow> int) \<Rightarrow> TransactionRepo \<Rightarrow> StatementFilter \<Rightarrow> TransactionRecord list" where
  "statement_rows lc repo f =
     filter (below_cursor (sf_cursor f))
       (js_sort (stmt_compare lc)
         (filter (\<lambda>row. tr_environment row = sf_environment f \<and> tr_accountId row = sf_accountId f \<and>
              List.member (sf_statuses f) (tr_status row) \<and>
              tr_effectiveDate row \<ge> sf_from f \<and> tr_effectiveDate row \<le> sf_to f)
           (map_values (t_rows repo))))"

definition statement ::
  "(string \<Rightarrow> string \<Rightarrow> int) \<Rightarrow> TransactionRepo \<Rightarrow> StatementFilter \<Rightarrow>
   TransactionRecord list \<times> StatementPosition option" where
  "statement lc repo f =
     (let rows = statement_rows lc repo f; page = take (sf_limit f) rows in
      (page,
       if length rows > sf_limit f \<and> page \<noteq> []
       then Some (tr_effectiveDate (last page), tr_id (last page)) else None))"

record TxStatusChange =
  sc_environment :: Environment
  sc_transactionId :: ident
  sc_toStatus :: TransactionStatus
  sc_failureCode :: "string option"
  sc_providerFailureCode :: "string option"
  sc_failureMessage :: "string option"
  sc_endToEndId :: "string option"
  sc_settledAt :: "instant option"
  sc_ledgerPostedTransactionId :: "ident option"
  sc_occurredAt :: instant

definition tx_changed :: "TxStatusChange \<Rightarrow> TransactionRecord \<Rightarrow> TransactionRecord" where
  "tx_changed inp row =
     (let row1 = row\<lparr>
            tr_status := sc_toStatus inp,
            tr_lastEventAt := Some (sc_occurredAt inp),
            tr_failureCode := coalesce (sc_failureCode inp) (tr_failureCode row),
            tr_providerFailureCode := coalesce (sc_providerFailureCode inp) (tr_providerFailureCode row),
            tr_failureMessage := coalesce (sc_failureMessage inp) (tr_failureMessage row),
            tr_settledAt := coalesce (sc_settledAt inp) (tr_settledAt row),
            tr_ledgerPostedTransactionId :=
              coalesce (sc_ledgerPostedTransactionId inp) (tr_ledgerPostedTransactionId row)\<rparr>;
          row2 = (if sc_toStatus inp = TransactionStatus.FAILED
                  then row1\<lparr>tr_failedAt := Some (sc_occurredAt inp)\<rparr> else row1);
          row3 = (case (truthy (sc_endToEndId inp), tr_pix row2) of
                    (Some e, Some p) \<Rightarrow>
                      row2\<lparr>tr_pix := Some (p\<lparr>px_endToEndId := Some e,
                             px_settlementAt := coalesce (sc_settledAt inp) (px_settlementAt p)\<rparr>)\<rparr>
                  | _ \<Rightarrow> row2)
      in row3\<lparr>tr_updatedAt := sc_occurredAt inp\<rparr>)"

definition tx_applyStatusChange ::
  "TxStatusChange \<Rightarrow> (ident \<Rightarrow> 'w \<Rightarrow> 'w) option \<Rightarrow> TransactionRepo \<times> 'w \<Rightarrow>
   (TransactionRecord, TransactionStatus) StatusChangeResult \<times> TransactionRepo \<times> 'w" where
  "tx_applyStatusChange inp withinTransaction state =
     (case state of (repo, w) \<Rightarrow>
       (case map_get (t_rows repo) (sc_transactionId inp) of
          None \<Rightarrow> (NotApplied not_found None, repo, w)
        | Some row \<Rightarrow>
          if tr_environment row \<noteq> sc_environment inp then (NotApplied not_found None, repo, w)
          else (case guard TRANSACTION_STATUS_TRANSITIONS TRANSACTION_STATUS_RANKS (tr_status row)
                       (tr_lastEventAt row) (sc_toStatus inp) (sc_occurredAt inp) of
                  Inl reason \<Rightarrow> (NotApplied reason (Some (tr_status row)), repo, w)
                | Inr _ \<Rightarrow>
                    (let row' = tx_changed inp row in
                     (Applied row',
                      repo\<lparr>t_rows := map_set (sc_transactionId inp) row' (t_rows repo),
                           t_statusHistory := t_statusHistory repo @
                             [\<lparr>sh_transactionId = tr_id row, sh_from = tr_status row, sh_to = sc_toStatus inp\<rparr>]\<rparr>,
                      case withinTransaction of None \<Rightarrow> w | Some cb \<Rightarrow> cb (tr_id row) w)))))"

definition tx_attachProviderTransaction ::
  "instant \<Rightarrow> ident \<Rightarrow> string \<Rightarrow> string option \<Rightarrow> TransactionStatus \<Rightarrow> TransactionRepo \<Rightarrow>
   (TransactionRecord \<times> TransactionRepo) option" where
  "tx_attachProviderTransaction now i ptid e2e status repo =
     (case map_get (t_rows repo) i of
        None \<Rightarrow> None
      | Some row \<Rightarrow>
          (let row1 = row\<lparr>tr_providerTransactionId := Some ptid, tr_status := status\<rparr>;
               row2 = (case (truthy e2e, tr_pix row1) of
                         (Some e, Some p) \<Rightarrow> row1\<lparr>tr_pix := Some (p\<lparr>px_endToEndId := Some e\<rparr>)\<rparr>
                       | _ \<Rightarrow> row1);
               row3 = row2\<lparr>tr_updatedAt := now\<rparr>
           in Some (row3, repo\<lparr>t_rows := map_set i row3 (t_rows repo)\<rparr>)))"

section \<open>MemoryPixKeyRepository\<close>

record PixKeyRecord =
  pk_id :: ident
  pk_environment :: Environment
  pk_accountId :: ident
  pk_type :: PixKeyType
  pk_value :: string
  pk_valueBlindIndex :: string
  pk_status :: PixKeyStatus
  pk_providerKeyId :: "string option"
  pk_requestedAt :: instant
  pk_activatedAt :: "instant option"
  pk_removedAt :: "instant option"

type_synonym PixKeyRepo = "(ident, PixKeyRecord) jsmap"

definition pk_findById :: "PixKeyRepo \<Rightarrow> Environment \<Rightarrow> ident \<Rightarrow> PixKeyRecord option" where
  "pk_findById rows env i =
     (case map_get rows i of
        None \<Rightarrow> None
      | Some row \<Rightarrow> if pk_environment row = env then Some row else None)"

definition pk_listByAccount :: "PixKeyRepo \<Rightarrow> Environment \<Rightarrow> ident \<Rightarrow> PixKeyRecord list" where
  "pk_listByAccount rows env a =
     js_sort (\<lambda>x y. pk_requestedAt y - pk_requestedAt x)
       (filter (\<lambda>row. pk_environment row = env \<and> pk_accountId row = a) (map_values rows))"

definition pk_findActiveByBlindIndex :: "PixKeyRepo \<Rightarrow> Environment \<Rightarrow> string \<Rightarrow> PixKeyRecord option" where
  "pk_findActiveByBlindIndex rows env idx =
     find (\<lambda>row. pk_environment row = env \<and> pk_valueBlindIndex row = idx \<and> pk_status row = PixKeyStatus.ACTIVE)
       (map_values rows)"

definition pk_create :: "PixKeyRecord \<Rightarrow> PixKeyRepo \<Rightarrow> PixKeyRecord \<times> PixKeyRepo" where
  "pk_create record rows = (record, map_set (pk_id record) record rows)"

definition pk_markRemoved :: "Environment \<Rightarrow> ident \<Rightarrow> instant \<Rightarrow> PixKeyRepo \<Rightarrow> PixKeyRepo" where
  "pk_markRemoved env i at rows =
     (case map_get rows i of
        None \<Rightarrow> rows
      | Some row \<Rightarrow>
          if pk_environment row \<noteq> env then rows
          else map_set i (row\<lparr>pk_status := PixKeyStatus.REMOVED, pk_removedAt := Some at\<rparr>) rows)"

section \<open>MemoryPixChargeRepository\<close>

record PixChargeRecord =
  pc_id :: ident
  pc_environment :: Environment
  pc_accountId :: ident
  pc_pixKeyId :: ident
  pc_kind :: PixChargeKind
  pc_txid :: string
  pc_status :: PixChargeStatus
  pc_revision :: nat
  pc_amountCents :: "cents option"
  pc_paidAmountCents :: cents
  pc_amountIsChangeable :: bool
  pc_currency :: string
  pc_expiresAt :: "instant option"
  pc_emvPayload :: string
  pc_provider :: string
  pc_providerChargeId :: "string option"
  pc_externalId :: "string option"
  pc_paidAt :: "instant option"
  pc_lastEventAt :: "instant option"
  pc_metadata :: "(string \<times> string) list"
  pc_createdAt :: instant
  pc_updatedAt :: instant

type_synonym PixChargeRepo = "(ident, PixChargeRecord) jsmap"

definition pc_findByTxid :: "PixChargeRepo \<Rightarrow> Environment \<Rightarrow> string \<Rightarrow> (ident \<times> PixChargeRecord) option" where
  "pc_findByTxid rows env txid = find (\<lambda>(i, row). pc_environment row = env \<and> pc_txid row = txid) rows"

definition pc_listByAccount ::
  "(string \<Rightarrow> string \<Rightarrow> int) \<Rightarrow> PixChargeRepo \<Rightarrow> Environment \<Rightarrow> ident \<Rightarrow> nat \<Rightarrow> PixChargeRecord list" where
  "pc_listByAccount lc rows env a limit =
     take limit (js_sort (\<lambda>x y. lc (pc_id y) (pc_id x))
       (filter (\<lambda>row. pc_environment row = env \<and> pc_accountId row = a) (map_values rows)))"

definition pc_create :: "PixChargeRecord \<Rightarrow> PixChargeRepo \<Rightarrow> PixChargeRecord \<times> PixChargeRepo" where
  "pc_create record rows = (record, map_set (pc_id record) record rows)"

record ChargeStatusChange =
  cc_environment :: Environment
  cc_txid :: string
  cc_toStatus :: PixChargeStatus
  cc_paidAmountCents :: "cents option"
  cc_paidAt :: "instant option"
  cc_occurredAt :: instant

definition pc_applyStatusChange ::
  "ChargeStatusChange \<Rightarrow> (ident \<Rightarrow> 'w \<Rightarrow> 'w) option \<Rightarrow> PixChargeRepo \<times> 'w \<Rightarrow>
   (PixChargeRecord, PixChargeStatus) StatusChangeResult \<times> PixChargeRepo \<times> 'w" where
  "pc_applyStatusChange inp withinTransaction state =
     (case state of (rows, w) \<Rightarrow>
       (case pc_findByTxid rows (cc_environment inp) (cc_txid inp) of
          None \<Rightarrow> (NotApplied not_found None, rows, w)
        | Some (k, row) \<Rightarrow>
            if (case pc_lastEventAt row of None \<Rightarrow> False | Some l \<Rightarrow> l > cc_occurredAt inp)
              then (NotApplied (stale stale_timestamp) None, rows, w)
            else if pc_status row = cc_toStatus inp then (NotApplied (stale same_state) None, rows, w)
            else if \<not> allowed (checkTransition PIX_CHARGE_STATUS_TRANSITIONS (pc_status row) (cc_toStatus inp))
              then (NotApplied illegal_transition None, rows, w)
            else
              (let row' = row\<lparr>
                     pc_status := cc_toStatus inp,
                     pc_paidAmountCents := or_else (cc_paidAmountCents inp) (pc_paidAmountCents row),
                     pc_paidAt := coalesce (cc_paidAt inp) (pc_paidAt row),
                     pc_lastEventAt := Some (cc_occurredAt inp),
                     pc_revision := pc_revision row + 1,
                     pc_updatedAt := cc_occurredAt inp\<rparr>
               in (Applied row', map_set k row' rows,
                   case withinTransaction of None \<Rightarrow> w | Some cb \<Rightarrow> cb (pc_id row) w))))"

section \<open>MemoryOperationRepository\<close>

datatype OperationStatusValue = PENDING | SUBMITTED | UNKNOWN | SETTLED | FAILED

record OperationRecord =
  op_id :: ident
  op_environment :: Environment
  op_connectionId :: ident
  op_kind :: string
  op_providerIdempotencyKey :: string
  op_status :: OperationStatusValue
  op_requestDigest :: string
  op_providerRef :: "string option"
  op_endToEndId :: "string option"
  op_amountCents :: "cents option"
  op_accountId :: "ident option"
  op_attempts :: nat
  op_lastError :: "string option"
  op_nextTryAt :: "instant option"
  op_createdAt :: instant
  op_updatedAt :: instant

type_synonym OperationRepo = "(ident, OperationRecord) jsmap"

definition op_findById :: "OperationRepo \<Rightarrow> Environment \<Rightarrow> ident \<Rightarrow> OperationRecord option" where
  "op_findById rows env i =
     (case map_get rows i of
        None \<Rightarrow> None
      | Some row \<Rightarrow> if op_environment row = env then Some row else None)"

definition op_create :: "OperationRecord \<Rightarrow> OperationRepo \<Rightarrow> OperationRecord \<times> OperationRepo" where
  "op_create record rows = (record, map_set (op_id record) record rows)"

record OperationUpdate =
  ou_environment :: Environment
  ou_id :: ident
  ou_status :: "OperationStatusValue option"
  ou_providerRef :: "string option"
  ou_endToEndId :: "string option"
  ou_lastError :: "string option"
  ou_incrementAttempts :: bool

definition op_update :: "instant \<Rightarrow> OperationUpdate \<Rightarrow> OperationRepo \<Rightarrow> OperationRecord option \<times> OperationRepo" where
  "op_update now inp rows =
     (case map_get rows (ou_id inp) of
        None \<Rightarrow> (None, rows)
      | Some row \<Rightarrow>
          if op_environment row \<noteq> ou_environment inp then (None, rows)
          else
            (let row' = row\<lparr>
                   op_status := or_else (ou_status inp) (op_status row),
                   op_providerRef := coalesce (ou_providerRef inp) (op_providerRef row),
                   op_endToEndId := coalesce (ou_endToEndId inp) (op_endToEndId row),
                   op_lastError := coalesce (ou_lastError inp) (op_lastError row),
                   op_attempts := (if ou_incrementAttempts inp then op_attempts row + 1 else op_attempts row),
                   op_updatedAt := now\<rparr>
             in (Some row', map_set (ou_id inp) row' rows)))"

fun op_priority :: "OperationStatusValue \<Rightarrow> int option" where
  "op_priority OperationStatusValue.UNKNOWN = Some 0"
| "op_priority OperationStatusValue.SUBMITTED = Some 1"
| "op_priority _ = None"

definition op_compare :: "OperationRecord \<Rightarrow> OperationRecord \<Rightarrow> int" where
  "op_compare a b =
     (let d = the (op_priority (op_status a)) - the (op_priority (op_status b))
      in if d \<noteq> 0 then d else op_updatedAt a - op_updatedAt b)"

definition op_findStuck :: "OperationRepo \<Rightarrow> Environment \<Rightarrow> nat \<Rightarrow> OperationRecord list" where
  "op_findStuck rows env limit =
     take limit (js_sort op_compare
       (filter (\<lambda>row. op_environment row = env \<and> op_priority (op_status row) \<noteq> None) (map_values rows)))"

section \<open>Statement pages\<close>

definition stmt_below :: "TransactionRecord \<Rightarrow> TransactionRecord \<Rightarrow> bool" where
  "stmt_below a b = below_cursor (Some (tr_effectiveDate a, tr_id a)) b"

lemma stmt_below_iff:
  "stmt_below a b \<longleftrightarrow> tr_effectiveDate b < tr_effectiveDate a \<or> tr_effectiveDate b = tr_effectiveDate a \<and> tr_id b < tr_id a"
  by (auto simp: stmt_below_def below_cursor_def)

definition stmt_order :: "TransactionRecord \<Rightarrow> TransactionRecord \<Rightarrow> int" where
  "stmt_order a b =
     (if stmt_below a b \<or> tr_effectiveDate a = tr_effectiveDate b \<and> tr_id a = tr_id b then 0 else 1)"

lemma stmt_order_sorted: "sorted_wrt (\<lambda>a b. stmt_order a b \<le> 0) (js_sort stmt_order xs)"
  by (rule sorted_js_sort) (auto simp: stmt_order_def stmt_below_iff split: if_splits)

definition lc_agrees :: "(string \<Rightarrow> string \<Rightarrow> int) \<Rightarrow> TransactionRepo \<Rightarrow> bool" where
  "lc_agrees lc repo \<longleftrightarrow>
     (let S = tr_id ` set (map_values (t_rows repo)) \<union> tr_effectiveDate ` set (map_values (t_rows repo))
      in \<forall>x\<in>S. \<forall>y\<in>S. lc x y \<le> 0 \<longleftrightarrow> x \<le> y)"

definition rows_ok :: "TransactionRepo \<Rightarrow> bool" where
  "rows_ok repo \<longleftrightarrow> distinct (map tr_id (map_values (t_rows repo)))"

lemma statement_sorted:
  assumes lc: "lc_agrees lc repo" and ok: "rows_ok repo"
  shows "sorted_wrt stmt_below (statement_rows lc repo f)"
proof -
  let ?xs = "filter (\<lambda>row. tr_environment row = sf_environment f \<and> tr_accountId row = sf_accountId f \<and>
      List.member (sf_statuses f) (tr_status row) \<and> tr_effectiveDate row \<ge> sf_from f \<and>
      tr_effectiveDate row \<le> sf_to f) (map_values (t_rows repo))"
  have sub: "set ?xs \<subseteq> set (map_values (t_rows repo))" by auto
  have eq: "js_sort (stmt_compare lc) ?xs = js_sort stmt_order ?xs"
  proof (rule js_sort_cong)
    fix x y assume "x \<in> set ?xs" "y \<in> set ?xs"
    then have m: "x \<in> set (map_values (t_rows repo))" "y \<in> set (map_values (t_rows repo))" using sub by auto
    then have ids: "lc (tr_id y) (tr_id x) \<le> 0 \<longleftrightarrow> tr_id y \<le> tr_id x"
      and dates: "lc (tr_effectiveDate y) (tr_effectiveDate x) \<le> 0 \<longleftrightarrow> tr_effectiveDate y \<le> tr_effectiveDate x"
      using lc unfolding lc_agrees_def Let_def by blast+
    show "stmt_compare lc x y \<le> 0 \<longleftrightarrow> stmt_order x y \<le> 0"
      using ids dates by (auto simp: stmt_compare_def stmt_order_def stmt_below_iff)
  qed
  have dist: "distinct (map tr_id (js_sort stmt_order ?xs))"
    unfolding distinct_js_sort using ok by (simp add: rows_ok_def distinct_map_filter)
  have "sorted_wrt stmt_below (js_sort stmt_order ?xs)"
    unfolding sorted_wrt_iff_nth_less
  proof (intro allI impI)
    fix i j assume ij: "i < j" "j < length (js_sort stmt_order ?xs)"
    then have "stmt_order (js_sort stmt_order ?xs ! i) (js_sort stmt_order ?xs ! j) \<le> 0"
      using stmt_order_sorted [of ?xs] by (simp add: sorted_wrt_iff_nth_less)
    moreover have "tr_id (js_sort stmt_order ?xs ! i) \<noteq> tr_id (js_sort stmt_order ?xs ! j)"
      using dist ij nth_eq_iff_index_eq [of "map tr_id (js_sort stmt_order ?xs)" i j] by auto
    ultimately show "stmt_below (js_sort stmt_order ?xs ! i) (js_sort stmt_order ?xs ! j)"
      by (auto simp: stmt_order_def split: if_splits)
  qed
  then show ?thesis unfolding statement_rows_def eq by (rule sorted_wrt_filter)
qed

lemma statement_next_rows:
  assumes "lc_agrees lc repo" "rows_ok repo"
    and st: "statement lc repo f = (page, Some c)"
  shows "statement_rows lc repo f = page @ statement_rows lc repo (f\<lparr>sf_cursor := Some c\<rparr>)"
proof -
  let ?xs = "statement_rows lc repo f"
  have page: "page = take (sf_limit f) ?xs" and long: "sf_limit f < length ?xs" and ne: "page \<noteq> []"
    and c: "c = (tr_effectiveDate (last page), tr_id (last page))"
    using st by (auto simp: statement_def Let_def split: if_splits)
  have n: "0 < sf_limit f" using ne unfolding page by (metis neq0_conv take0)
  have rest: "filter (stmt_below (last page)) ?xs = drop (sf_limit f) ?xs"
    unfolding page
    by (rule keyset_rest [OF statement_sorted [OF assms(1,2)] n])
      (use long in \<open>auto simp: stmt_below_iff\<close>)
  have "last page \<in> set ?xs" using ne page by (metis in_set_takeD last_in_set)
  then have last_ok: "below_cursor (sf_cursor f) (last page)" by (simp add: statement_rows_def)
  have sub: "below_cursor (sf_cursor f) b" if "stmt_below (last page) b" for b
    using that last_ok by (auto simp: stmt_below_iff below_cursor_def split: option.splits if_splits)
  have "statement_rows lc repo (f\<lparr>sf_cursor := Some c\<rparr>) = filter (stmt_below (last page)) ?xs"
    using sub by (auto simp: statement_rows_def c stmt_below_def intro!: filter_cong)
  with rest page show ?thesis by simp
qed

section \<open>Properties\<close>

definition demo_tx :: "ident \<Rightarrow> string \<Rightarrow> TransactionStatus \<Rightarrow> TransactionRecord" where
  "demo_tx i d st =
     \<lparr>tr_id = i, tr_environment = PRODUCAO, tr_accountId = ''acc'', tr_chargeId = None,
      tr_parentTransactionId = None, tr_type = PIX_OUT, tr_direction = TransactionDirection.DEBIT,
      tr_status = st, tr_lastEventAt = None, tr_amountCents = 100, tr_feeCents = 0,
      tr_netAmountCents = 100, tr_refundedAmountCents = 0, tr_currency = ''BRL'', tr_description = None,
      tr_provider = ''MOCK_BANK'', tr_providerConnectionId = ''con'', tr_providerTransactionId = None,
      tr_externalId = None, tr_idempotencyKey = None, tr_operationId = None, tr_failureCode = None,
      tr_providerFailureCode = None, tr_failureMessage = None, tr_effectiveDate = d,
      tr_requestedAt = 0, tr_settledAt = None, tr_failedAt = None, tr_ledgerPendingTransactionId = None,
      tr_ledgerPostedTransactionId = None, tr_pix = None, tr_metadata = [], tr_createdAt = 0,
      tr_updatedAt = 0\<rparr>"

definition demo_repo :: TransactionRepo where
  "demo_repo =
     \<lparr>t_rows = [(''a'', demo_tx ''a'' ''2026-01-02'' TransactionStatus.SETTLED),
               (''b'', demo_tx ''b'' ''2026-01-01'' TransactionStatus.SETTLED),
               (''c'', demo_tx ''c'' ''2026-01-02'' TransactionStatus.PENDING)], t_statusHistory = []\<rparr>"

definition demo_filter :: StatementFilter where
  "demo_filter = \<lparr>sf_environment = PRODUCAO, sf_accountId = ''acc'', sf_from = ''2026-01-01'',
     sf_to = ''2026-01-31'', sf_statuses = [TransactionStatus.SETTLED, TransactionStatus.PENDING],
     sf_limit = 2, sf_cursor = None\<rparr>"

definition codeUnitCompare :: "string \<Rightarrow> string \<Rightarrow> int" where
  "codeUnitCompare a b = (if a = b then 0 else if a \<le> b then -1 else 1)"

text \<open>Keyset pagination of the statement neither skips nor repeats a row.  A page with a cursor is
  followed, under that cursor, by exactly the rows that remain; a page without one is the last.  The
  collation must order the stored identifiers and dates as code units do, which is what the
  \<open>row.id < cursor.id\<close> of the same method assumes.\<close>

theorem statement_pages_exact:
  assumes "lc_agrees lc repo" "rows_ok repo" "0 < sf_limit f"
  shows "statement_rows lc repo f = fst (statement lc repo f) @
     (case snd (statement lc repo f) of
        None \<Rightarrow> []
      | Some c \<Rightarrow> statement_rows lc repo (f\<lparr>sf_cursor := Some c\<rparr>))"
proof (cases "snd (statement lc repo f)")
  case None
  then have "length (statement_rows lc repo f) \<le> sf_limit f"
    using assms(3) by (auto simp: statement_def Let_def split: if_splits)
  with None show ?thesis by (simp add: statement_def Let_def)
next
  case (Some c)
  then have "statement lc repo f = (fst (statement lc repo f), Some c)" by (metis prod.collapse)
  from statement_next_rows [OF assms(1,2) this] Some show ?thesis by simp
qed

theorem statement_pages_exact_witness:
  "map tr_id (fst (statement codeUnitCompare demo_repo demo_filter)) = [''c'', ''a''] \<and>
   statement_rows codeUnitCompare demo_repo demo_filter =
     fst (statement codeUnitCompare demo_repo demo_filter) @
     statement_rows codeUnitCompare demo_repo (demo_filter\<lparr>sf_cursor := Some (''2026-01-02'', ''a'')\<rparr>)"
proof -
  have "lc_agrees codeUnitCompare demo_repo" by (auto simp: lc_agrees_def codeUnitCompare_def)
  moreover have "rows_ok demo_repo" "0 < sf_limit demo_filter" by code_simp+
  moreover have "snd (statement codeUnitCompare demo_repo demo_filter) = Some (''2026-01-02'', ''a'')"
    "map tr_id (fst (statement codeUnitCompare demo_repo demo_filter)) = [''c'', ''a'']" by code_simp+
  ultimately show ?thesis using statement_pages_exact [of codeUnitCompare demo_repo demo_filter] by simp
qed

text \<open>An event moves a transaction when it is not older than the last one applied, its status follows the current one in the
  table of transitions, and the rank rises.\<close>

definition event_moves :: "TransactionRecord \<Rightarrow> TransactionStatus \<Rightarrow> instant \<Rightarrow> bool" where
  "event_moves row to at \<longleftrightarrow> (\<forall>l. tr_lastEventAt row = Some l \<longrightarrow> l \<le> at) \<and>
     to \<in> set (TRANSACTION_STATUS_TRANSITIONS (tr_status row)) \<and>
     TRANSACTION_STATUS_RANKS (tr_status row) < TRANSACTION_STATUS_RANKS to"

lemma guard_event_moves:
  "guard TRANSACTION_STATUS_TRANSITIONS TRANSACTION_STATUS_RANKS (tr_status row) (tr_lastEventAt row) to at = Inr u \<longleftrightarrow> event_moves row to at"
  by (auto simp: guard_Inr event_moves_def split: option.split)

text \<open>A change writes these fields and no other.\<close>

lemma tx_change_writes:
  "tr_status (tx_changed inp row) = sc_toStatus inp" "tr_lastEventAt (tx_changed inp row) = Some (sc_occurredAt inp)"
  "tr_updatedAt (tx_changed inp row) = sc_occurredAt inp"
  "tr_settledAt (tx_changed inp row) = coalesce (sc_settledAt inp) (tr_settledAt row)"
  "tr_failedAt (tx_changed inp row) = (if sc_toStatus inp = TransactionStatus.FAILED then Some (sc_occurredAt inp) else tr_failedAt row)"
  "tr_failureCode (tx_changed inp row) = coalesce (sc_failureCode inp) (tr_failureCode row)"
  "tr_providerFailureCode (tx_changed inp row) = coalesce (sc_providerFailureCode inp) (tr_providerFailureCode row)"
  "tr_failureMessage (tx_changed inp row) = coalesce (sc_failureMessage inp) (tr_failureMessage row)"
  "tr_ledgerPostedTransactionId (tx_changed inp row) = coalesce (sc_ledgerPostedTransactionId inp) (tr_ledgerPostedTransactionId row)"
  by (auto simp: tx_changed_def Let_def split: option.split)

lemma tx_changed_pix:
  "tr_pix (tx_changed inp row) = (case (truthy (sc_endToEndId inp), tr_pix row) of
     (Some e, Some p) \<Rightarrow> Some (p\<lparr>px_endToEndId := Some e, px_settlementAt := coalesce (sc_settledAt inp) (px_settlementAt p)\<rparr>)
   | _ \<Rightarrow> tr_pix row)"
  by (auto simp: tx_changed_def Let_def split: option.split)

lemma tx_changed_frame:
  "(tx_changed inp row)\<lparr>tr_status := tr_status row, tr_lastEventAt := tr_lastEventAt row, tr_failureCode := tr_failureCode row,
     tr_providerFailureCode := tr_providerFailureCode row, tr_failureMessage := tr_failureMessage row, tr_settledAt := tr_settledAt row,
     tr_failedAt := tr_failedAt row, tr_ledgerPostedTransactionId := tr_ledgerPostedTransactionId row, tr_pix := tr_pix row,
     tr_updatedAt := tr_updatedAt row\<rparr> = row"
  by (cases row) (auto simp: tx_changed_def Let_def split: option.split)

text \<open>C9: the transaction repository applies exactly the events that are not older than the last one applied, follow the table
  of transitions and raise the rank, as the guarded state machine does.  An applied event writes the status and the times, and the
  reasons of a failure, the posting and the end-to-end identifier it brings; every other field of the row, its money, fee and direction
  among them, stays; it adds one line to the history and runs the callback once.  An event that is not applied changes nothing.\<close>

theorem tx_status_change_refines_guard:
  assumes "map_get (t_rows repo) (sc_transactionId inp) = Some row"
    and "tr_environment row = sc_environment inp"
    and "tx_applyStatusChange inp cb (repo, w) = (res, repo', w')"
  shows "\<exists>row'. map_get (t_rows repo') (sc_transactionId inp) = Some row' \<and>
     (tr_status row', tr_lastEventAt row') =
       deliver TRANSACTION_STATUS_TRANSITIONS TRANSACTION_STATUS_RANKS
         (tr_status row, tr_lastEventAt row) (sc_toStatus inp, sc_occurredAt inp) \<and>
     row'\<lparr>tr_status := tr_status row, tr_lastEventAt := tr_lastEventAt row, tr_failureCode := tr_failureCode row,
       tr_providerFailureCode := tr_providerFailureCode row, tr_failureMessage := tr_failureMessage row, tr_settledAt := tr_settledAt row,
       tr_failedAt := tr_failedAt row, tr_ledgerPostedTransactionId := tr_ledgerPostedTransactionId row, tr_pix := tr_pix row,
       tr_updatedAt := tr_updatedAt row\<rparr> = row \<and>
     (\<forall>i. i \<noteq> sc_transactionId inp \<longrightarrow> map_get (t_rows repo') i = map_get (t_rows repo) i) \<and>
     (if event_moves row (sc_toStatus inp) (sc_occurredAt inp)
      then res = Applied row' \<and> tr_status row' = sc_toStatus inp \<and> tr_lastEventAt row' = Some (sc_occurredAt inp) \<and>
        tr_updatedAt row' = sc_occurredAt inp \<and> tr_settledAt row' = coalesce (sc_settledAt inp) (tr_settledAt row) \<and>
        tr_failedAt row' = (if sc_toStatus inp = TransactionStatus.FAILED then Some (sc_occurredAt inp) else tr_failedAt row) \<and>
        tr_failureCode row' = coalesce (sc_failureCode inp) (tr_failureCode row) \<and>
        tr_providerFailureCode row' = coalesce (sc_providerFailureCode inp) (tr_providerFailureCode row) \<and>
        tr_failureMessage row' = coalesce (sc_failureMessage inp) (tr_failureMessage row) \<and>
        tr_ledgerPostedTransactionId row' = coalesce (sc_ledgerPostedTransactionId inp) (tr_ledgerPostedTransactionId row) \<and>
        tr_pix row' = (case (truthy (sc_endToEndId inp), tr_pix row) of
            (Some e, Some p) \<Rightarrow> Some (p\<lparr>px_endToEndId := Some e, px_settlementAt := coalesce (sc_settledAt inp) (px_settlementAt p)\<rparr>)
          | _ \<Rightarrow> tr_pix row) \<and>
        t_statusHistory repo' = t_statusHistory repo @ [\<lparr>sh_transactionId = tr_id row, sh_from = tr_status row, sh_to = sc_toStatus inp\<rparr>] \<and>
        w' = (case cb of None \<Rightarrow> w | Some f \<Rightarrow> f (tr_id row) w)
      else row' = row \<and> repo' = repo \<and> w' = w \<and> (\<exists>reason. res = NotApplied reason (Some (tr_status row))))"
proof (cases "guard TRANSACTION_STATUS_TRANSITIONS TRANSACTION_STATUS_RANKS (tr_status row)
    (tr_lastEventAt row) (sc_toStatus inp) (sc_occurredAt inp)")
  case (Inl reason)
  then have "\<not> event_moves row (sc_toStatus inp) (sc_occurredAt inp)" by (simp flip: guard_event_moves [where u = "()"])
  with Inl assms show ?thesis by (auto simp: tx_applyStatusChange_def)
next
  case (Inr u)
  then have "event_moves row (sc_toStatus inp) (sc_occurredAt inp)" by (simp add: guard_event_moves)
  with Inr assms show ?thesis
    by (auto simp: tx_applyStatusChange_def Let_def update_conv' tx_change_writes tx_changed_pix tx_changed_frame simp del: TransactionRecord.update_convs)
qed

theorem tx_status_change_refines_guard_witness:
  "\<exists>res repo' row'. tx_applyStatusChange
       \<lparr>sc_environment = PRODUCAO, sc_transactionId = ''c'', sc_toStatus = TransactionStatus.SETTLED,
        sc_failureCode = None, sc_providerFailureCode = None, sc_failureMessage = None, sc_endToEndId = None,
        sc_settledAt = Some 7, sc_ledgerPostedTransactionId = None, sc_occurredAt = 7\<rparr> None (demo_repo, ()) = (res, repo', ()) \<and>
     map_get (t_rows repo') ''c'' = Some row' \<and> tr_status row' = TransactionStatus.SETTLED"
proof -
  let ?inp = "\<lparr>sc_environment = PRODUCAO, sc_transactionId = ''c'', sc_toStatus = TransactionStatus.SETTLED,
        sc_failureCode = None, sc_providerFailureCode = None, sc_failureMessage = None, sc_endToEndId = None,
        sc_settledAt = Some 7, sc_ledgerPostedTransactionId = None, sc_occurredAt = 7\<rparr>"
  obtain res repo' where r: "tx_applyStatusChange ?inp None (demo_repo, ()) = (res, repo', ())"
    by (metis (full_types) old.unit.exhaust surj_pair)
  have row: "map_get (t_rows demo_repo) (sc_transactionId ?inp) = Some (demo_tx ''c'' ''2026-01-02'' TransactionStatus.PENDING)"
    "tr_environment (demo_tx ''c'' ''2026-01-02'' TransactionStatus.PENDING) = sc_environment ?inp"
    by (simp_all add: demo_repo_def demo_tx_def)
  have "deliver TRANSACTION_STATUS_TRANSITIONS TRANSACTION_STATUS_RANKS (TransactionStatus.PENDING, None) (TransactionStatus.SETTLED, 7) =
      (TransactionStatus.SETTLED, Some 7)" by code_simp
  with tx_status_change_refines_guard [OF row r] r show ?thesis by (auto simp: demo_tx_def)
qed

end
