(* ===== verification/Js_Date.thy ===== *)
theory Js_Date
  imports Main
begin

text \<open>
  The calendar arithmetic of JavaScript's \<open>Date\<close> in UTC, as ECMAScript defines it: the day number of a
  proleptic Gregorian date, months and days out of range carried over, the year, month, date and weekday of a
  day number, and \<open>Date.UTC\<close> with its rule for two-digit years.
\<close>

definition leap :: "int \<Rightarrow> bool" where
  "leap y \<longleftrightarrow> y mod 4 = 0 \<and> (y mod 100 \<noteq> 0 \<or> y mod 400 = 0)"

definition day_from_year :: "int \<Rightarrow> int" where
  "day_from_year y = 365 * (y - 1970) + (y - 1969) div 4 - (y - 1901) div 100 + (y - 1601) div 400"

definition year_length :: "int \<Rightarrow> int" where
  "year_length y = (if leap y then 366 else 365)"

fun month_start :: "bool \<Rightarrow> int \<Rightarrow> int" where
  "month_start l m =
     (if m \<le> 0 then 0 else if m = 1 then 31
      else (if l then 1 else 0) +
        (if m = 2 then 59 else if m = 3 then 90 else if m = 4 then 120 else if m = 5 then 151
         else if m = 6 then 181 else if m = 7 then 212 else if m = 8 then 243 else if m = 9 then 273
         else if m = 10 then 304 else if m = 11 then 334 else 365))"

declare month_start.simps [simp del]

text \<open>\<open>MakeDay\<close>; months count from 0.\<close>

definition make_day :: "int \<Rightarrow> int \<Rightarrow> int \<Rightarrow> int" where
  "make_day y m d =
     (let ym = y + m div 12; mn = m mod 12 in day_from_year ym + month_start (leap ym) mn + d - 1)"

lemma div_succ:
  fixes x k :: int
  assumes k: "0 < k"
  shows "(x + 1) div k = x div k + (if (x + 1) mod k = 0 then 1 else 0)"
proof -
  define q r where "q = x div k" and "r = x mod k"
  have x: "x = k * q + r" "0 \<le> r" "r < k" using k by (simp_all add: q_def r_def)
  show ?thesis
  proof (cases "r = k - 1")
    case True
    then have e: "x + 1 = k * (q + 1) + 0" using x by (simp add: algebra_simps)
    from int_div_pos_eq [OF e] int_mod_pos_eq [OF e] k show ?thesis by (simp add: q_def)
  next
    case False
    then have e: "x + 1 = k * q + (r + 1)" "0 < r + 1" "r + 1 < k" using x by auto
    from int_div_pos_eq [OF e(1)] int_mod_pos_eq [OF e(1)] e(2,3) show ?thesis by (simp add: q_def)
  qed
qed

lemma day_from_year_step: "day_from_year (y + 1) = day_from_year y + year_length y"
proof -
  have m: "(y - 1969 + 1) mod 4 = y mod 4" "(y - 1901 + 1) mod 100 = y mod 100" "(y - 1601 + 1) mod 400 = y mod 400"
    using mod_mult_self1 [of y "-492" 4] mod_mult_self1 [of y "-19" 100] mod_mult_self1 [of y "-4" 400] by simp_all
  have c: "y mod 400 = 0 \<Longrightarrow> y mod 100 = 0" "y mod 100 = 0 \<Longrightarrow> y mod 4 = 0"
    using dvd_trans [of 100 400 y] dvd_trans [of 4 100 y] by (simp_all add: mod_eq_0_iff_dvd)
  have d: "(y - 1969 + 1) div 4 = (y - 1969) div 4 + (if y mod 4 = 0 then 1 else 0)"
    "(y - 1901 + 1) div 100 = (y - 1901) div 100 + (if y mod 100 = 0 then 1 else 0)"
    "(y - 1601 + 1) div 400 = (y - 1601) div 400 + (if y mod 400 = 0 then 1 else 0)"
    unfolding m [symmetric] by (rule div_succ, simp)+
  have e: "y + 1 - 1969 = y - 1969 + 1" "y + 1 - 1901 = y - 1901 + 1" "y + 1 - 1601 = y - 1601 + 1" by simp_all
  have sum: "365 * (y + 1 - 1970) + (a + (if y mod 4 = 0 then 1 else 0)) - (b + (if y mod 100 = 0 then 1 else 0)) +
      (c + (if y mod 400 = 0 then 1 else 0)) = 365 * (y - 1970) + a - b + c + year_length y" for a b c
    using c by (cases "y mod 4 = 0"; cases "y mod 100 = 0"; cases "y mod 400 = 0") (simp_all add: year_length_def leap_def)
  show ?thesis unfolding day_from_year_def e d by (rule sum)
qed

text \<open>The year, counted up from an estimate that is never too late.\<close>

function year_up :: "int \<Rightarrow> int \<Rightarrow> int" where
  "year_up n y = (if day_from_year (y + 1) \<le> n then year_up n (y + 1) else y)"
  by pat_completeness auto

termination
proof (relation "measure (\<lambda>(n, y). nat (n - day_from_year y + 366))")
  fix n y :: int assume "day_from_year (y + 1) \<le> n"
  then show "((n, y + 1), (n, y)) \<in> measure (\<lambda>(n, y). nat (n - day_from_year y + 366))"
    using day_from_year_step [of y] by (simp add: year_length_def split: if_splits)
qed simp

declare year_up.simps [simp del]

definition year_of_day :: "int \<Rightarrow> int" where
  "year_of_day n = year_up n (1969 + (if n < 0 then n div 365 else n div 366))"

fun month_up :: "bool \<Rightarrow> int \<Rightarrow> nat \<Rightarrow> int" where
  "month_up l k 0 = 0"
| "month_up l k (Suc m) = (if month_start l (int (Suc m)) \<le> k then int (Suc m) else month_up l k m)"

definition month_of_day :: "int \<Rightarrow> int" where
  "month_of_day n = (let y = year_of_day n in month_up (leap y) (n - day_from_year y) 11)"

definition date_of_day :: "int \<Rightarrow> int" where
  "date_of_day n = (let y = year_of_day n in n - day_from_year y - month_start (leap y) (month_of_day n) + 1)"

definition week_day :: "int \<Rightarrow> int" where
  "week_day n = (n + 4) mod 7"

text \<open>\<open>Date.UTC\<close>: years 0 to 99 stand for 1900 to 1999.\<close>

definition utc_day :: "int \<Rightarrow> int \<Rightarrow> int \<Rightarrow> int" where
  "utc_day y m d = make_day (if 0 \<le> y \<and> y \<le> 99 then 1900 + y else y) m d"

definition utc_ms :: "int \<Rightarrow> int \<Rightarrow> int \<Rightarrow> int \<Rightarrow> int \<Rightarrow> int" where
  "utc_ms y m d h mi = utc_day y m d * 86400000 + h * 3600000 + mi * 60000"

definition hours_of :: "int \<Rightarrow> int" where
  "hours_of t = (t mod 86400000) div 3600000"

definition minutes_of :: "int \<Rightarrow> int" where
  "minutes_of t = (t mod 3600000) div 60000"

section \<open>Facts\<close>

lemma year_up_correct:
  "day_from_year y \<le> n \<Longrightarrow> day_from_year (year_up n y) \<le> n \<and> n < day_from_year (year_up n y + 1)"
proof (induction n y rule: year_up.induct)
  case (1 n y)
  then show ?case by (cases "day_from_year (y + 1) \<le> n") (auto simp: year_up.simps [of n y])
qed

lemma year_estimate: "day_from_year (1969 + (if n < 0 then n div 365 else n div 366)) \<le> n"
proof (cases "n < 0")
  case True
  define k where "k = n div 365"
  have "365 * k \<le> n" "k < 0" using True unfolding k_def by (simp_all add: div_neg_pos_less0)
  then show ?thesis using True unfolding day_from_year_def by (simp add: k_def [symmetric])
next
  case False
  define k where "k = n div 366"
  have "366 * k \<le> n" "0 \<le> k" using False unfolding k_def by (simp_all add: pos_imp_zdiv_nonneg_iff)
  then show ?thesis using False unfolding day_from_year_def by (simp add: k_def [symmetric])
qed

lemma year_of_day: "day_from_year (year_of_day n) \<le> n" "n < day_from_year (year_of_day n) + year_length (year_of_day n)"
  using year_up_correct [OF year_estimate] day_from_year_step unfolding year_of_day_def by metis+

lemma day_from_year_mono: "y \<le> z \<Longrightarrow> day_from_year y \<le> day_from_year z"
proof (induction z rule: int_ge_induct)
  case (step z)
  then show ?case using day_from_year_step [of z] by (simp add: year_length_def split: if_splits)
qed simp

lemma year_of_day_unique:
  assumes "day_from_year y \<le> n" "n < day_from_year (y + 1)"
  shows "year_of_day n = y"
proof (rule ccontr)
  assume "year_of_day n \<noteq> y"
  then have "year_of_day n + 1 \<le> y \<or> y + 1 \<le> year_of_day n" by linarith
  then show False
    using assms year_of_day [of n] day_from_year_step [of "year_of_day n"] day_from_year_mono [of "year_of_day n + 1" y]
      day_from_year_mono [of "y + 1" "year_of_day n"] by auto
qed

lemma month_start_step:
  assumes "0 \<le> m" "m \<le> 11"
  shows "month_start l m + 28 \<le> month_start l (m + 1)" "month_start l (m + 1) \<le> month_start l m + 31"
proof -
  from assms have "m = 0 \<or> m = 1 \<or> m = 2 \<or> m = 3 \<or> m = 4 \<or> m = 5 \<or> m = 6 \<or> m = 7 \<or> m = 8 \<or> m = 9 \<or> m = 10 \<or> m = 11"
    by presburger
  then show "month_start l m + 28 \<le> month_start l (m + 1)" "month_start l (m + 1) \<le> month_start l m + 31"
    by (elim disjE; cases l; simp add: month_start.simps)+
qed

lemma month_up_correct:
  assumes "0 \<le> k" "m \<le> 11"
  shows "0 \<le> month_up l k m \<and> month_up l k m \<le> int m \<and> month_start l (month_up l k m) \<le> k \<and>
    (k < month_start l (int m + 1) \<longrightarrow> k < month_start l (month_up l k m + 1))"
  using assms by (induction m) (auto simp: month_start.simps [of l 0] add.commute)

lemma month_of_day:
  "0 \<le> month_of_day n" "month_of_day n \<le> 11"
  "day_from_year (year_of_day n) + month_start (leap (year_of_day n)) (month_of_day n) \<le> n"
  "n < day_from_year (year_of_day n) + month_start (leap (year_of_day n)) (month_of_day n + 1)"
proof -
  let ?y = "year_of_day n"
  have "n - day_from_year ?y < month_start (leap ?y) 12"
    using year_of_day [of n] by (simp add: year_length_def month_start.simps split: if_splits)
  then show "0 \<le> month_of_day n" "month_of_day n \<le> 11"
    "day_from_year ?y + month_start (leap ?y) (month_of_day n) \<le> n"
    "n < day_from_year ?y + month_start (leap ?y) (month_of_day n + 1)"
    using month_up_correct [of "n - day_from_year ?y" 11 "leap ?y"] year_of_day [of n]
    by (auto simp: month_of_day_def Let_def)
qed

text \<open>The parts of a day number are the date of that number.\<close>

lemma make_day_parts: "make_day (year_of_day n) (month_of_day n) (date_of_day n) = n"
  using month_of_day [of n] by (simp add: make_day_def date_of_day_def Let_def)

lemma date_of_day: "1 \<le> date_of_day n" "date_of_day n \<le> 31"
  using month_of_day [of n] month_start_step [of "month_of_day n" "leap (year_of_day n)"]
  by (simp_all add: date_of_day_def Let_def)

lemma make_day_shift: "make_day y m (d + k) = make_day y m d + k"
  by (simp add: make_day_def Let_def)

lemma week_day_range: "0 \<le> week_day n" "week_day n < 7"
  by (simp_all add: week_day_def)

end
