(* ===== verification/Br_Identifiers.thy ===== *)
theory Br_Identifiers
  imports Repositories Js_Date
begin

text \<open>
  Brazilian documents, contacts and Pix identifiers: \<open>src/packages/taxonomy/src/br/tax-id.ts\<close>,
  \<open>br/contact.ts\<close>, \<open>br/bank.ts\<close> and \<open>pix/identifiers.ts\<close>.  A regular expression is the predicate on strings
  it denotes.  The random suffix of an end-to-end identifier is an argument.
\<close>

section \<open>Strings\<close>

text \<open>\<open>toLowerCase\<close> on code units below 256.\<close>

definition js_lower :: "char \<Rightarrow> char" where
  "js_lower c =
     (let n = (of_char c :: nat) in
      if 65 \<le> n \<and> n \<le> 90 \<or> 192 \<le> n \<and> n \<le> 222 \<and> n \<noteq> 215 then char_of (n + 32) else c)"

fun js_split :: "char \<Rightarrow> string \<Rightarrow> string list" where
  "js_split sep [] = [[]]"
| "js_split sep (c # cs) =
     (if c = sep then [] # js_split sep cs
      else (case js_split sep cs of [] \<Rightarrow> [[c]] | w # ws \<Rightarrow> (c # w) # ws))"

definition slice_last :: "nat \<Rightarrow> string \<Rightarrow> string" where
  "slice_last n s = drop (length s - n) s"

definition stars :: "nat \<Rightarrow> string" where
  "stars n = replicate n (CHR ''*'')"

definition is_alnum :: "char \<Rightarrow> bool" where
  "is_alnum c \<longleftrightarrow> is_digit c \<or> 65 \<le> (of_char c :: nat) \<and> (of_char c :: nat) \<le> 90 \<or>
     97 \<le> (of_char c :: nat) \<and> (of_char c :: nat) \<le> 122"

definition is_hex :: "char \<Rightarrow> bool" where
  "is_hex c \<longleftrightarrow> hex_val c \<noteq> None"

section \<open>tax-id.ts\<close>

datatype TaxIdType = CPF | CNPJ

record TaxId =
  ti_type :: TaxIdType
  ti_value :: string

definition onlyDigits :: "string \<Rightarrow> string" where
  "onlyDigits v = filter is_digit v"

definition mod11 :: "nat list \<Rightarrow> nat list \<Rightarrow> nat" where
  "mod11 digits weights =
     (let remainder = sum_list (map2 (*) digits weights) mod 11
      in if remainder < 2 then 0 else 11 - remainder)"

text \<open>\<open>/^(\d)\1{n-1}$/\<close>: one digit repeated.\<close>

definition all_same :: "string \<Rightarrow> bool" where
  "all_same v \<longleftrightarrow> v \<noteq> [] \<and> list_all (\<lambda>c. c = hd v) v"

definition isValidCpf :: "string \<Rightarrow> bool" where
  "isValidCpf inp =
     (let v = onlyDigits inp in
      if length v \<noteq> 11 then False
      else if all_same v then False
      else (let digits = map digit_val v;
                first = mod11 (take 9 digits) [10, 9, 8, 7, 6, 5, 4, 3, 2];
                second = mod11 (take 10 digits) [11, 10, 9, 8, 7, 6, 5, 4, 3, 2]
            in digits ! 9 = first \<and> digits ! 10 = second))"

definition isValidCnpj :: "string \<Rightarrow> bool" where
  "isValidCnpj inp =
     (let v = onlyDigits inp in
      if length v \<noteq> 14 then False
      else if all_same v then False
      else (let digits = map digit_val v;
                first = mod11 (take 12 digits) [5, 4, 3, 2, 9, 8, 7, 6, 5, 4, 3, 2];
                second = mod11 (take 13 digits) [6, 5, 4, 3, 2, 9, 8, 7, 6, 5, 4, 3, 2]
            in digits ! 12 = first \<and> digits ! 13 = second))"

definition isValidTaxId :: "TaxId \<Rightarrow> bool" where
  "isValidTaxId t = (if ti_type t = TaxIdType.CPF then isValidCpf (ti_value t) else isValidCnpj (ti_value t))"

definition inferTaxIdType :: "string \<Rightarrow> TaxIdType option" where
  "inferTaxIdType inp =
     (let n = length (onlyDigits inp)
      in if n = 11 then Some TaxIdType.CPF else if n = 14 then Some TaxIdType.CNPJ else None)"

definition parseTaxId :: "string \<Rightarrow> TaxId option" where
  "parseTaxId inp =
     (let v = onlyDigits inp in
      case inferTaxIdType v of
        None \<Rightarrow> None
      | Some ty \<Rightarrow> (let t = \<lparr>ti_type = ty, ti_value = v\<rparr> in if isValidTaxId t then Some t else None))"

definition formatCpf :: "string \<Rightarrow> string" where
  "formatCpf v =
     (let d = padStart 11 (CHR ''0'') (onlyDigits v)
      in take 3 d @ ''.'' @ take 3 (drop 3 d) @ ''.'' @ take 3 (drop 6 d) @ ''-'' @ drop 9 d)"

definition formatCnpj :: "string \<Rightarrow> string" where
  "formatCnpj v =
     (let d = padStart 14 (CHR ''0'') (onlyDigits v)
      in take 2 d @ ''.'' @ take 3 (drop 2 d) @ ''.'' @ take 3 (drop 5 d) @ ''/'' @ take 4 (drop 8 d) @ ''-'' @ drop 12 d)"

definition formatTaxId :: "TaxId \<Rightarrow> string" where
  "formatTaxId t = (if ti_type t = TaxIdType.CPF then formatCpf (ti_value t) else formatCnpj (ti_value t))"

definition maskTaxId :: "TaxId \<Rightarrow> string" where
  "maskTaxId t =
     (let formatted = formatTaxId t;
          tl6 = slice_last 6 formatted;
          hd' = map (\<lambda>c. if is_digit c then CHR ''*'' else c) (take (length formatted - 6) formatted)
      in hd' @ tl6)"

section \<open>contact.ts\<close>

record Phone =
  ph_countryCode :: string
  ph_areaCode :: string
  ph_number :: string

definition starts_with :: "string \<Rightarrow> string \<Rightarrow> bool" where
  "starts_with p s \<longleftrightarrow> take (length p) s = p"

definition parsePhone :: "string \<Rightarrow> Phone option" where
  "parsePhone inp =
     (let countryCode = ''55'';
          d0 = onlyDigits inp;
          digits = (if starts_with countryCode d0 \<and> length d0 > 11 then drop (length countryCode) d0 else d0)
      in if length digits \<noteq> 10 \<and> length digits \<noteq> 11 then None
         else (let areaCode = take 2 digits; number = drop 2 digits in
               if read_nat areaCode < 11 \<or> read_nat areaCode > 99 then None
               else if length number = 9 \<and> \<not> starts_with ''9'' number then None
               else if length number \<noteq> 9 \<and> length number \<noteq> 8 then None
               else Some \<lparr>ph_countryCode = countryCode, ph_areaCode = areaCode, ph_number = number\<rparr>))"

definition isValidPhone :: "string \<Rightarrow> bool" where
  "isValidPhone inp = (parsePhone inp \<noteq> None)"

definition phoneToE164 :: "Phone \<Rightarrow> string" where
  "phoneToE164 p = ''+'' @ ph_countryCode p @ ph_areaCode p @ ph_number p"

definition formatPhone :: "Phone \<Rightarrow> string" where
  "formatPhone p =
     (let number = ph_number p; k = (if length number = 9 then 5 else 4)
      in ''('' @ ph_areaCode p @ '') '' @ take k number @ ''-'' @ drop k number)"

definition maskPhone :: "Phone \<Rightarrow> string" where
  "maskPhone p =
     ''('' @ ph_areaCode p @ '') '' @ stars (length (ph_number p) - 4) @ ''-'' @ slice_last 4 (ph_number p)"

text \<open>\<open>/^[^\s@]+@[^\s@]+\.[^\s@]{2,}$/\<close>.\<close>

definition email_domain :: "string \<Rightarrow> bool" where
  "email_domain d \<longleftrightarrow> list_ex (\<lambda>i. d ! i = CHR ''.'' \<and> 1 \<le> i \<and> i + 3 \<le> length d) [0..<length d]"

definition isValidEmail :: "string \<Rightarrow> bool" where
  "isValidEmail v \<longleftrightarrow>
     (case js_split (CHR ''@'') v of
        [local, domain] \<Rightarrow> local \<noteq> [] \<and> email_domain domain \<and> \<not> list_ex is_space v
      | _ \<Rightarrow> False) \<and> length v \<le> 77"

definition normalizeEmail :: "string \<Rightarrow> string" where
  "normalizeEmail v = map js_lower (js_trim v)"

definition maskEmail :: "string \<Rightarrow> string" where
  "maskEmail v =
     (let parts = js_split (CHR ''@'') v;
          local = hd parts;
          domain = (if 1 < length parts then parts ! 1 else [])
      in take 1 local @ stars (max (length local - 1) 1) @ ''@'' @ domain)"

definition isValidPostalCode :: "string \<Rightarrow> bool" where
  "isValidPostalCode v = (length (onlyDigits v) = 8)"

definition formatPostalCode :: "string \<Rightarrow> string" where
  "formatPostalCode v = (let d = padStart 8 (CHR ''0'') (onlyDigits v) in take 5 d @ ''-'' @ drop 5 d)"

section \<open>bank.ts\<close>

definition isValidIspb :: "string \<Rightarrow> bool" where
  "isValidIspb v \<longleftrightarrow> length v = 8 \<and> list_all is_digit v"

definition isValidBankCode :: "string \<Rightarrow> bool" where
  "isValidBankCode v \<longleftrightarrow> length v = 3 \<and> list_all is_digit v"

record BankAccountCoordinates =
  bc_ispb :: string
  bc_bankCode :: "string option"
  bc_branch :: string
  bc_branchCheckDigit :: "string option"
  bc_number :: string
  bc_checkDigit :: "string option"

definition formatBankAccount :: "BankAccountCoordinates \<Rightarrow> string" where
  "formatBankAccount c =
     (let branch = (case truthy (bc_branchCheckDigit c) of None \<Rightarrow> bc_branch c | Some x \<Rightarrow> bc_branch c @ ''-'' @ x);
          account = (case truthy (bc_checkDigit c) of None \<Rightarrow> bc_number c | Some x \<Rightarrow> bc_number c @ ''-'' @ x)
      in branch @ ''/'' @ account)"

definition maskBankAccount :: "BankAccountCoordinates \<Rightarrow> string" where
  "maskBankAccount c = bc_branch c @ ''/'' @ stars (length (bc_number c) - 4) @ slice_last 4 (bc_number c)"

section \<open>identifiers.ts\<close>

definition spi_id :: "char \<Rightarrow> string \<Rightarrow> bool" where
  "spi_id prefix v \<longleftrightarrow> length v = 32 \<and> hd v = prefix \<and> list_all is_digit (take 20 (drop 1 v)) \<and> list_all is_alnum (drop 21 v)"

definition isValidEndToEndId :: "string \<Rightarrow> bool" where
  "isValidEndToEndId v = spi_id (CHR ''E'') v"

definition isValidReturnId :: "string \<Rightarrow> bool" where
  "isValidReturnId v = spi_id (CHR ''D'') v"

record ParsedEndToEndId =
  ee_prefix :: char
  ee_ispb :: string
  ee_createdAt :: instant
  ee_sequence :: string

datatype IdentifierError = INVALID_END_TO_END_ID string | INVALID_ISPB string | INVALID_SUFFIX | INVALID_PHONE_KEY string

definition parseEndToEndId :: "string \<Rightarrow> IdentifierError + ParsedEndToEndId" where
  "parseEndToEndId v =
     (if \<not> isValidEndToEndId v \<and> \<not> isValidReturnId v then Inl (INVALID_END_TO_END_ID v)
      else
        (let num = (\<lambda>a n. int (read_nat (take n (drop a v)))) in
         Inr \<lparr>ee_prefix = hd v, ee_ispb = take 8 (drop 1 v),
              ee_createdAt = utc_ms (num 9 4) (num 13 2 - 1) (num 15 2) (num 17 2) (num 19 2),
              ee_sequence = drop 21 v\<rparr>))"

definition pad_int :: "nat \<Rightarrow> int \<Rightarrow> string" where
  "pad_int k n = padStart k (CHR ''0'') (show_int n)"

definition e2e_stamp :: "instant \<Rightarrow> string" where
  "e2e_stamp at =
     (let day = at div 86400000 in
      show_int (year_of_day day) @ pad_int 2 (month_of_day day + 1) @ pad_int 2 (date_of_day day) @
      pad_int 2 (hours_of at) @ pad_int 2 (minutes_of at))"

text \<open>\<open>random\<close> is the text drawn when no suffix is given.\<close>

definition buildEndToEndId :: "string \<Rightarrow> string \<Rightarrow> instant \<Rightarrow> char \<Rightarrow> string option \<Rightarrow> IdentifierError + string" where
  "buildEndToEndId random ispb at prefix randomSuffix =
     (if \<not> isValidIspb ispb then Inl (INVALID_ISPB ispb)
      else
        (let suffix = or_else (truthy randomSuffix) random in
         if length suffix \<noteq> 11 \<or> \<not> list_all is_alnum suffix then Inl INVALID_SUFFIX
         else Inr (prefix # ispb @ e2e_stamp at @ suffix)))"

datatype TxidKind = static | dynamic

definition isValidTxid :: "string \<Rightarrow> TxidKind \<Rightarrow> bool" where
  "isValidTxid v kind =
     (if kind = static then v = ''***'' \<or> list_all is_alnum v \<and> 1 \<le> length v \<and> length v \<le> 25
      else list_all is_alnum v \<and> 26 \<le> length v \<and> length v \<le> 35)"

text \<open>\<open>EVP_RE\<close>: five groups of hexadecimal digits, with the version and variant of a UUID.\<close>

definition evp_version :: "char \<Rightarrow> bool" where
  "evp_version c \<longleftrightarrow> c \<in> set ''12345678''"

definition evp_variant :: "char \<Rightarrow> bool" where
  "evp_variant c \<longleftrightarrow> c \<in> set ''89abAB''"

definition is_evp :: "string \<Rightarrow> bool" where
  "is_evp v =
     (case js_split (CHR ''-'') v of
        [a, b, c, d, e] \<Rightarrow>
          map length [a, b, c, d, e] = [8, 4, 4, 4, 12] \<and> list_all (list_all is_hex) [a, b, c, d, e] \<and>
          evp_version (hd c) \<and> evp_variant (hd d)
      | _ \<Rightarrow> False)"

fun normalizePixKey :: "PixKeyType \<Rightarrow> string \<Rightarrow> IdentifierError + string" where
  "normalizePixKey PixKeyType.CPF v = Inr (onlyDigits v)"
| "normalizePixKey PixKeyType.CNPJ v = Inr (onlyDigits v)"
| "normalizePixKey PixKeyType.EMAIL v = Inr (normalizeEmail v)"
| "normalizePixKey PixKeyType.PHONE v =
     (case parsePhone v of None \<Rightarrow> Inl (INVALID_PHONE_KEY v) | Some p \<Rightarrow> Inr (phoneToE164 p))"
| "normalizePixKey PixKeyType.EVP v = Inr (map js_lower (js_trim v))"

text \<open>\<open>/^\+55\d{10,11}$/\<close>.\<close>

definition is_e164_br :: "string \<Rightarrow> bool" where
  "is_e164_br v \<longleftrightarrow> take 3 v = ''+55'' \<and> list_all is_digit (drop 3 v) \<and> (length v = 13 \<or> length v = 14)"

definition isValidPixKey :: "PixKeyType \<Rightarrow> string \<Rightarrow> bool" where
  "isValidPixKey ty v =
     (case normalizePixKey ty v of
        Inl _ \<Rightarrow> False
      | Inr normalized \<Rightarrow>
          (case ty of
             PixKeyType.CPF \<Rightarrow> isValidCpf normalized
           | PixKeyType.CNPJ \<Rightarrow> isValidCnpj normalized
           | PixKeyType.EMAIL \<Rightarrow> isValidEmail normalized
           | PixKeyType.PHONE \<Rightarrow> is_e164_br normalized
           | PixKeyType.EVP \<Rightarrow> is_evp normalized))"

definition inferPixKeyType :: "string \<Rightarrow> PixKeyType option" where
  "inferPixKeyType v =
     (let trimmed = js_trim v; digits = onlyDigits trimmed in
      if is_evp trimmed then Some PixKeyType.EVP
      else if CHR ''@'' \<in> set trimmed then (if isValidEmail trimmed then Some PixKeyType.EMAIL else None)
      else if starts_with ''+'' trimmed then (if parsePhone trimmed \<noteq> None then Some PixKeyType.PHONE else None)
      else if length digits = 11 \<and> isValidCpf digits then Some PixKeyType.CPF
      else if length digits = 14 \<and> isValidCnpj digits then Some PixKeyType.CNPJ
      else if length digits = 10 \<or> length digits = 11
        then (if parsePhone digits \<noteq> None then Some PixKeyType.PHONE else None)
      else None)"

fun maskPixKey :: "PixKeyType \<Rightarrow> string \<Rightarrow> string" where
  "maskPixKey PixKeyType.EMAIL v = maskEmail v"
| "maskPixKey PixKeyType.EVP v = take 8 v @ ''-****-****-****-'' @ slice_last 4 v"
| "maskPixKey ty v = stars (length v - 4) @ slice_last 4 v"

end
