(* ===== verification/Br_Properties.thy ===== *)
theory Br_Properties
  imports Br_Identifiers "HOL-Library.Code_Target_Numeral"
begin

text \<open>
  What holds of Pix keys and end-to-end identifiers: an inferred key has a valid normal form that
  normalisation keeps, and an identifier that was built is read back to the minute.
\<close>

section \<open>Trimming and case\<close>

lemma filter_js_trim:
  assumes "\<And>c. P c \<Longrightarrow> \<not> is_space c"
  shows "filter P (js_trim s) = filter P s"
proof -
  have "filter P (dropWhile is_space xs) = filter P xs" for xs
    using assms by (induction xs) auto
  then show ?thesis unfolding js_trim_def by (metis rev_filter rev_rev_ident)
qed

lemma onlyDigits_trim [simp]: "onlyDigits (js_trim s) = onlyDigits s"
  unfolding onlyDigits_def by (rule filter_js_trim) (rule digit_not_space)

lemma onlyDigits_idem [simp]: "onlyDigits (onlyDigits s) = onlyDigits s"
  by (simp add: onlyDigits_def)

lemma onlyDigits_digits: "list_all is_digit s \<Longrightarrow> onlyDigits s = s"
  by (simp add: onlyDigits_def filter_id_conv list_all_iff)

lemma parsePhone_trim [simp]: "parsePhone (js_trim s) = parsePhone s" "parsePhone (onlyDigits s) = parsePhone s"
  by (simp_all add: parsePhone_def)

lemma js_trim_ends: "js_trim s \<noteq> [] \<Longrightarrow> \<not> is_space (hd (js_trim s)) \<and> \<not> is_space (last (js_trim s))"
proof -
  assume ne: "js_trim s \<noteq> []"
  let ?a = "dropWhile is_space s"
  let ?r = "dropWhile is_space (rev ?a)"
  have t: "js_trim s = rev ?r" by (simp add: js_trim_def)
  with ne have r: "?r \<noteq> []" by simp
  then have "\<not> is_space (hd ?r)" by (rule hd_dropWhile)
  moreover have "\<not> is_space (last ?r)"
  proof -
    have "?a \<noteq> []" using r by (metis dropWhile.simps(1) rev.simps(1))
    have "last ?r = last (rev ?a)" using r by (metis dropWhile_eq_drop last_drop not_less drop_all)
    with \<open>?a \<noteq> []\<close> show ?thesis using hd_dropWhile [of is_space s] by (auto simp: last_rev)
  qed
  ultimately show ?thesis using r by (simp add: t hd_rev last_rev)
qed

lemma js_trim_idem [simp]: "js_trim (js_trim s) = js_trim s"
proof (cases "js_trim s = []")
  case True
  then show ?thesis by (simp add: js_trim_def [of "[]"])
qed (use js_trim_ends [of s] js_trim_id [of "js_trim s"] in auto)

lemma js_lower_code: "js_lower c = char_of (let n = (of_char c :: nat) in
    if 65 \<le> n \<and> n \<le> 90 \<or> 192 \<le> n \<and> n \<le> 222 \<and> n \<noteq> 215 then n + 32 else n)"
  by (simp add: js_lower_def Let_def)

lemma of_js_lower: "of_char (js_lower c) = (let n = (of_char c :: nat) in
    if 65 \<le> n \<and> n \<le> 90 \<or> 192 \<le> n \<and> n \<le> 222 \<and> n \<noteq> 215 then n + 32 else n)"
proof -
  have "(of_char c :: nat) < 256" by simp
  then show ?thesis by (auto simp: js_lower_def Let_def take_bit_eq_mod)
qed

lemma js_lower_space [simp]: "is_space (js_lower c) \<longleftrightarrow> is_space c"
  unfolding is_space_def of_js_lower by (auto simp: Let_def)

lemma js_lower_idem [simp]: "js_lower (js_lower c) = js_lower c"
proof -
  have "(of_char (js_lower (js_lower c)) :: nat) = of_char (js_lower c)"
    unfolding of_js_lower by (auto simp: Let_def)
  then show ?thesis by simp
qed

lemma js_lower_eq:
  assumes "\<not> (97 \<le> (of_char d :: nat) \<and> (of_char d :: nat) \<le> 122)" "(of_char d :: nat) < 128"
    "\<not> (65 \<le> (of_char d :: nat) \<and> (of_char d :: nat) \<le> 90)"
  shows "js_lower c = d \<longleftrightarrow> c = d"
proof -
  have "js_lower c = d \<longleftrightarrow> (of_char (js_lower c) :: nat) = of_char d" by simp
  also have "\<dots> \<longleftrightarrow> (of_char c :: nat) = of_char d" using assms unfolding of_js_lower by (auto simp: Let_def)
  finally show ?thesis by simp
qed

lemma js_lower_marks [simp]:
  "js_lower c = CHR ''@'' \<longleftrightarrow> c = CHR ''@''" "js_lower c = CHR ''.'' \<longleftrightarrow> c = CHR ''.''" "js_lower c = CHR ''-'' \<longleftrightarrow> c = CHR ''-''"
  by (rule js_lower_eq; simp)+

lemma js_trim_lower: "js_trim (map js_lower s) = map js_lower (js_trim s)"
proof -
  have "dropWhile is_space (map js_lower xs) = map js_lower (dropWhile is_space xs)" for xs
    by (induction xs) auto
  then show ?thesis by (simp add: js_trim_def rev_map)
qed

lemma js_split_lower: "sep \<in> {CHR ''@'', CHR ''-''} \<Longrightarrow> js_split sep (map js_lower s) = map (map js_lower) (js_split sep s)"
  by (induction s) (auto split: list.split)

lemma email_lower: "isValidEmail (map js_lower s) \<longleftrightarrow> isValidEmail s"
proof -
  have "email_domain (map js_lower d) = email_domain d" for d
    by (auto simp: email_domain_def list_ex_iff)
  then show ?thesis
    by (auto simp: isValidEmail_def js_split_lower list_ex_iff split: list.splits)
qed

lemma hex_lower: "is_hex c \<Longrightarrow> is_hex (js_lower c)"
proof -
  assume "is_hex c"
  then have "48 \<le> (of_char c :: nat) \<and> (of_char c :: nat) \<le> 57 \<or> 97 \<le> (of_char c :: nat) \<and> (of_char c :: nat) \<le> 102 \<or>
      65 \<le> (of_char c :: nat) \<and> (of_char c :: nat) \<le> 70"
    by (auto simp: is_hex_def hex_val_def Let_def split: if_splits)
  then show ?thesis unfolding is_hex_def hex_val_def of_js_lower by (auto simp: Let_def)
qed

lemma evp_lower: "is_evp s \<Longrightarrow> is_evp (map js_lower s)"
proof -
  assume s: "is_evp s"
  then obtain a b c d e where p: "js_split (CHR ''-'') s = [a, b, c, d, e]"
    by (auto simp: is_evp_def split: list.splits)
  have low: "js_lower (CHR ''A'') = CHR ''a''" "js_lower (CHR ''B'') = CHR ''b''" "js_lower (CHR ''a'') = CHR ''a''"
    "js_lower (CHR ''b'') = CHR ''b''" "js_lower (CHR ''8'') = CHR ''8''" "js_lower (CHR ''9'') = CHR ''9''" by code_simp+
  have dig: "js_lower x = x" if "is_digit x" for x using that by (auto simp: js_lower_def is_digit_def Let_def)
  have v: "evp_version x \<Longrightarrow> evp_version (js_lower x)" for x
    by (subst dig) (auto simp: evp_version_def is_digit_def)
  have w: "evp_variant x \<Longrightarrow> evp_variant (js_lower x)" for x
    by (auto simp: evp_variant_def low)
  have h: "list_all is_hex xs \<Longrightarrow> list_all is_hex (map js_lower xs)" for xs by (auto simp: list_all_iff hex_lower)
  from s p have "c \<noteq> []" "d \<noteq> []" by (auto simp: is_evp_def)
  then show ?thesis using s p v w h by (simp add: is_evp_def js_split_lower hd_map)
qed

section \<open>Phones\<close>

definition local_digits :: "string \<Rightarrow> string" where
  "local_digits s = (let d = onlyDigits s in if starts_with ''55'' d \<and> length d > 11 then drop 2 d else d)"

lemma parsePhone_local:
  "parsePhone s =
     (let digits = local_digits s in
      if length digits \<noteq> 10 \<and> length digits \<noteq> 11 then None
      else if read_nat (take 2 digits) < 11 \<or> read_nat (take 2 digits) > 99 then None
      else if length (drop 2 digits) = 9 \<and> \<not> starts_with ''9'' (drop 2 digits) then None
      else if length (drop 2 digits) \<noteq> 9 \<and> length (drop 2 digits) \<noteq> 8 then None
      else Some \<lparr>ph_countryCode = ''55'', ph_areaCode = take 2 digits, ph_number = drop 2 digits\<rparr>)"
proof -
  have "length ''55'' = (2::nat)" by simp
  then show ?thesis by (simp only: parsePhone_def local_digits_def Let_def)
qed

lemma parsePhone_Some:
  assumes "parsePhone s = Some p"
  shows "length (local_digits s) = 10 \<or> length (local_digits s) = 11" "phoneToE164 p = ''+55'' @ local_digits s"
  using assms unfolding parsePhone_local Let_def phoneToE164_def by (auto split: if_splits)

lemma local_digits_e164:
  assumes "list_all is_digit d" "length d = 10 \<or> length d = 11"
  shows "local_digits (''+55'' @ d) = d"
proof -
  have "is_digit (CHR ''5'')" "\<not> is_digit (CHR ''+'')" by code_simp+
  then have "onlyDigits (''+55'' @ d) = ''55'' @ d"
    using onlyDigits_digits [OF assms(1)] by (simp add: onlyDigits_def)
  then show ?thesis using assms(2) by (auto simp: local_digits_def starts_with_def Let_def)
qed

lemma local_digits_all: "list_all is_digit (local_digits s)"
  by (auto simp: local_digits_def Let_def onlyDigits_def list_all_iff dest: in_set_dropD)

lemma phone_e164:
  assumes "parsePhone s = Some p"
  shows "is_e164_br (phoneToE164 p)" "parsePhone (phoneToE164 p) = Some p"
proof -
  let ?d = "local_digits s"
  note d = parsePhone_Some(1) [OF assms] and e = parsePhone_Some(2) [OF assms]
  have l: "local_digits (phoneToE164 p) = ?d" unfolding e by (rule local_digits_e164 [OF local_digits_all d])
  show "is_e164_br (phoneToE164 p)" using d local_digits_all [of s] by (auto simp: e is_e164_br_def)
  show "parsePhone (phoneToE164 p) = Some p" using assms by (simp only: parsePhone_local l)
qed

section \<open>Keys\<close>

lemma infer_cases:
  assumes "inferPixKeyType v = Some ty"
  obtains "ty = PixKeyType.EVP" "is_evp (js_trim v)"
  | "ty = PixKeyType.EMAIL" "isValidEmail (js_trim v)"
  | p where "ty = PixKeyType.PHONE" "parsePhone v = Some p"
  | "ty = PixKeyType.CPF" "isValidCpf (onlyDigits v)"
  | "ty = PixKeyType.CNPJ" "isValidCnpj (onlyDigits v)"
  using assms by (auto simp: inferPixKeyType_def Let_def split: if_splits)

text \<open>C17: when the type of a Pix key is inferred from its text, normalisation to that type succeeds,
  both the text and its normal form are valid keys of the type, and normalising again changes nothing.\<close>

theorem inferred_key_normal_form:
  assumes "inferPixKeyType v = Some ty"
  shows "\<exists>k. normalizePixKey ty v = Inr k \<and> isValidPixKey ty v \<and> isValidPixKey ty k \<and> normalizePixKey ty k = Inr k"
proof -
  have valid: "is_evp (map js_lower (js_trim v))" if "is_evp (js_trim v)" using that by (rule evp_lower)
  from assms show ?thesis
  proof (cases rule: infer_cases)
    case 3
    then show ?thesis using phone_e164 [of v] by (simp add: isValidPixKey_def)
  qed (simp_all add: isValidPixKey_def normalizeEmail_def js_trim_lower email_lower evp_lower comp_def)
qed

theorem inferred_key_normal_form_witness:
  "\<exists>k. normalizePixKey PixKeyType.PHONE '' +55 (11) 98765-4321 '' = Inr k \<and>
     isValidPixKey PixKeyType.PHONE k \<and> normalizePixKey PixKeyType.PHONE k = Inr k"
proof -
  have "inferPixKeyType '' +55 (11) 98765-4321 '' = Some PixKeyType.PHONE" by code_simp
  from inferred_key_normal_form [OF this] show ?thesis by blast
qed

section \<open>End-to-end identifiers\<close>

lemma pad_int_digits:
  assumes "0 \<le> n" "n < 100"
  shows "length (pad_int 2 n) = 2" "list_all is_digit (pad_int 2 n)" "int (read_nat (pad_int 2 n)) = n"
  using assms pad_digits [of "nat n" 2] by (simp_all add: pad_int_def show_int_def)

lemma show_year:
  assumes "1000 \<le> y" "y \<le> 9999"
  shows "length (show_int y) = 4" "list_all is_digit (show_int y)" "int (read_nat (show_int y)) = y"
proof -
  have s: "show_int y = show_nat (nat y)" using assms by (simp add: show_int_def)
  have "length (show_nat (nat y)) \<le> 4" using assms by (intro show_nat_length) auto
  moreover have "\<not> length (show_nat (nat y)) \<le> 3"
  proof
    assume "length (show_nat (nat y)) \<le> 3"
    then have "(10::nat) ^ length (show_nat (nat y)) \<le> 10 ^ 3" by (rule power_increasing) simp
    moreover have "nat y < 10 ^ length (show_nat (nat y))"
      using read_nat_bound [OF show_nat_digits [of "nat y"]] by (simp only: read_show_nat)
    ultimately have "nat y < 10 ^ 3" by (rule order.strict_trans2 [rotated])
    with assms show False by simp
  qed
  ultimately show "length (show_int y) = 4" by (simp add: s)
  show "list_all is_digit (show_int y)" using show_nat_digits by (simp add: s list_all_iff)
  show "int (read_nat (show_int y)) = y" using assms by (simp add: s)
qed

lemma minute_parts:
  "at div 86400000 * 86400000 + hours_of at * 3600000 + minutes_of at * 60000 = at - at mod 60000" for at :: int
proof -
  have h: "(at mod 86400000) mod 3600000 = at mod 3600000" by (rule mod_mod_cancel) simp
  have m: "(at mod 3600000) mod 60000 = at mod 60000" by (rule mod_mod_cancel) simp
  have "at = at div 86400000 * 86400000 + at mod 86400000" by simp
  also have "at mod 86400000 = hours_of at * 3600000 + at mod 3600000"
    unfolding hours_of_def h [symmetric] by (rule div_mult_mod_eq [symmetric])
  also have "at mod 3600000 = minutes_of at * 60000 + at mod 60000"
    unfolding minutes_of_def m [symmetric] by (rule div_mult_mod_eq [symmetric])
  finally show ?thesis by simp
qed

lemma hours_minutes: "0 \<le> hours_of at" "hours_of at < 24" "0 \<le> minutes_of at" "minutes_of at < 60" for at :: int
  unfolding hours_of_def minutes_of_def
  using pos_mod_bound [of 86400000 at] pos_mod_sign [of 86400000 at] pos_mod_bound [of 3600000 at] pos_mod_sign [of 3600000 at]
  by (simp_all add: pos_imp_zdiv_nonneg_iff div_less_iff_less_mult)

lemma utc_day_parts: "year_of_day n \<ge> 100 \<Longrightarrow> utc_day (year_of_day n) (month_of_day n) (date_of_day n) = n"
  by (simp add: utc_day_def make_day_parts)

text \<open>An end-to-end or return identifier that was built is 32 characters long, passes its format
  check, and parsing it gives back the prefix, the institution, the suffix and the instant down to the
  minute, for years of four digits.\<close>

theorem e2e_roundtrip:
  assumes "buildEndToEndId random ispb at prefix suffix = Inr e" "prefix \<in> {CHR ''E'', CHR ''D''}"
    and y: "1000 \<le> year_of_day (at div 86400000)" "year_of_day (at div 86400000) \<le> 9999"
  shows "length e = 32 \<and> (prefix = CHR ''E'' \<longrightarrow> isValidEndToEndId e) \<and> (prefix = CHR ''D'' \<longrightarrow> isValidReturnId e) \<and>
    parseEndToEndId e = Inr \<lparr>ee_prefix = prefix, ee_ispb = ispb, ee_createdAt = at - at mod 60000,
      ee_sequence = or_else (truthy suffix) random\<rparr>"
proof -
  let ?suf = "or_else (truthy suffix) random" and ?n = "at div 86400000"
  have i: "length ispb = 8" "list_all is_digit ispb" and suf: "length ?suf = 11" "list_all is_alnum ?suf"
    and e: "e = prefix # ispb @ e2e_stamp at @ ?suf"
    using assms(1) by (auto simp: buildEndToEndId_def isValidIspb_def Let_def split: if_splits)
  let ?y = "show_int (year_of_day ?n)" and ?m = "pad_int 2 (month_of_day ?n + 1)" and ?d = "pad_int 2 (date_of_day ?n)"
    and ?h = "pad_int 2 (hours_of at)" and ?mi = "pad_int 2 (minutes_of at)"
  have st: "e2e_stamp at = ?y @ ?m @ ?d @ ?h @ ?mi" by (simp add: e2e_stamp_def Let_def)
  note Y = show_year [OF y]
  have M: "length ?m = 2" "list_all is_digit ?m" "int (read_nat ?m) = month_of_day ?n + 1"
    using month_of_day [of ?n] by (simp_all add: pad_int_digits)
  have D: "length ?d = 2" "list_all is_digit ?d" "int (read_nat ?d) = date_of_day ?n"
    using date_of_day [of ?n] by (simp_all add: pad_int_digits)
  have H: "length ?h = 2" "list_all is_digit ?h" "int (read_nat ?h) = hours_of at"
    and I: "length ?mi = 2" "list_all is_digit ?mi" "int (read_nat ?mi) = minutes_of at"
    using hours_minutes [of at] by (simp_all add: pad_int_digits)
  have "spi_id prefix e"
    using i suf Y M D H I by (simp add: spi_id_def e st)
  moreover have "utc_ms (year_of_day ?n) (month_of_day ?n) (date_of_day ?n) (hours_of at) (minutes_of at) = at - at mod 60000"
    using utc_day_parts [of ?n] y minute_parts [of at] by (simp add: utc_ms_def)
  ultimately show ?thesis
    using assms(2) i suf Y M D H I
    by (auto simp: isValidEndToEndId_def isValidReturnId_def parseEndToEndId_def e st)
qed

theorem e2e_roundtrip_witness:
  "length (projr (buildEndToEndId [] ''99999001'' 1767225723456 (CHR ''E'') (Some ''ABCDEFGHIJK''))) = 32 \<and>
   parseEndToEndId (projr (buildEndToEndId [] ''99999001'' 1767225723456 (CHR ''E'') (Some ''ABCDEFGHIJK''))) =
     Inr \<lparr>ee_prefix = CHR ''E'', ee_ispb = ''99999001'', ee_createdAt = 1767225720000, ee_sequence = ''ABCDEFGHIJK''\<rparr>"
proof -
  let ?e = "projr (buildEndToEndId [] ''99999001'' 1767225723456 (CHR ''E'') (Some ''ABCDEFGHIJK''))"
  have e: "buildEndToEndId [] ''99999001'' 1767225723456 (CHR ''E'') (Some ''ABCDEFGHIJK'') = Inr ?e" by code_simp
  have y: "1000 \<le> year_of_day (1767225723456 div 86400000)" "year_of_day (1767225723456 div 86400000) \<le> 9999" by code_simp+
  show ?thesis using e2e_roundtrip [OF e _ y] by simp
qed

end
