(* ===== verification/Money.thy ===== *)
theory Money
  imports Complex_Main Js_Strings
begin

text \<open>
  The money package of \<open>src/packages/taxonomy/src/money\<close>: integer amounts in minor units with a
  BIGINT range check (\<open>money.ts\<close>), exact decimal rates (\<open>rate.ts\<close>) and the rounding modes
  (\<open>rounding.ts\<close>).

  A JavaScript \<open>number\<close> is a rational or one of the special values.  The only floating-point
  operation the code performs on one is \<open>w * 1000000\<close> in \<open>allocate\<close>; its rounding is the argument
  \<open>fl\<close>, with \<open>None\<close> for an overflow to infinity, which \<open>BigInt\<close> refuses.
\<close>

section \<open>rounding.ts\<close>

datatype JsNumber = NaN | Infinity | NegInfinity | Num rat

datatype MoneyError =
    OutOfBigintRange int
  | NotAnInteger JsNumber
  | NotASafeInteger
  | InvalidDecimal string
  | TooManyDecimals string nat
  | ScaleMismatch nat
  | CurrencyMismatch CurrencyCode CurrencyCode
  | BigIntSyntax string
  | BigIntOfInfinity
  | NoWeights
  | BadWeights
  | ZeroTotalWeight
  | DenominatorNotPositive
  | InvalidRate string

datatype RoundingMode = HALF_EVEN | HALF_UP | DOWN | UP

definition round_magnitude :: "RoundingMode \<Rightarrow> int \<Rightarrow> int \<Rightarrow> int \<Rightarrow> int" where
  "round_magnitude mode denominator quot rmdr =
     (if rmdr = 0 then quot
      else case mode of
        DOWN \<Rightarrow> quot
      | UP \<Rightarrow> quot + 1
      | HALF_UP \<Rightarrow> (if rmdr * 2 \<ge> denominator then quot + 1 else quot)
      | HALF_EVEN \<Rightarrow>
          (let twice = rmdr * 2 in
           if twice > denominator then quot + 1
           else if twice < denominator then quot
           else if quot mod 2 = 0 then quot else quot + 1))"

definition divideRounded :: "int \<Rightarrow> int \<Rightarrow> RoundingMode \<Rightarrow> MoneyError + int" where
  "divideRounded numerator denominator mode =
     (if denominator \<le> 0 then Inl DenominatorNotPositive
      else
        (let negative = numerator < 0;
             a = (if negative then - numerator else numerator);
             magnitude = round_magnitude mode denominator (a div denominator) (a mod denominator)
         in Inr (if negative then - magnitude else magnitude)))"

section \<open>rate.ts\<close>

text \<open>The regular expression \<open>^(-?)(\d+)(?:SEP(\d{..}))?$\<close>: sign, whole part, fraction.\<close>

definition decimal_match ::
  "(char \<Rightarrow> bool) \<Rightarrow> (nat \<Rightarrow> bool) \<Rightarrow> string \<Rightarrow> (bool \<times> string \<times> string) option" where
  "decimal_match sep ok s =
     (let neg = (s \<noteq> [] \<and> hd s = CHR ''-''); r = (if neg then tl s else s);
          whole = takeWhile is_digit r
      in if whole = [] then None
         else case dropWhile is_digit r of
             [] \<Rightarrow> Some (neg, whole, [])
           | c # f \<Rightarrow> if sep c \<and> f \<noteq> [] \<and> list_all is_digit f \<and> ok (length f)
                     then Some (neg, whole, f) else None)"

record Rate =
  rate_numerator :: int
  rate_scale :: nat

definition Rate_parse :: "string \<Rightarrow> MoneyError + Rate" where
  "Rate_parse value =
     (case decimal_match (\<lambda>c. c = CHR ''.'') (\<lambda>n. n \<le> 9) (js_trim value) of
        None \<Rightarrow> Inl (InvalidRate value)
      | Some (neg, whole, fraction) \<Rightarrow>
          Inr \<lparr>rate_numerator = int (read_nat (whole @ fraction)) * (if neg then -1 else 1),
               rate_scale = length fraction\<rparr>)"

definition Rate_percent :: "string \<Rightarrow> MoneyError + Rate" where
  "Rate_percent value =
     (case Rate_parse value of
        Inl err \<Rightarrow> Inl err
      | Inr base \<Rightarrow> Inr \<lparr>rate_numerator = rate_numerator base, rate_scale = rate_scale base + 2\<rparr>)"

definition Rate_zero :: Rate where
  "Rate_zero = \<lparr>rate_numerator = 0, rate_scale = 0\<rparr>"

definition rate_denominator :: "Rate \<Rightarrow> int" where
  "rate_denominator r = 10 ^ rate_scale r"

definition Rate_isZero :: "Rate \<Rightarrow> bool" where
  "Rate_isZero r = (rate_numerator r = 0)"

text \<open>The digits of \<open>|n|\<close> padded to \<open>scale + 1\<close>, split before the last \<open>scale\<close>.\<close>

definition split_digits :: "nat \<Rightarrow> int \<Rightarrow> string \<times> string" where
  "split_digits scale n =
     (let digits = padStart (scale + 1) (CHR ''0'') (show_nat (nat \<bar>n\<bar>))
      in (take (length digits - scale) digits, drop (length digits - scale) digits))"

definition Rate_toString :: "Rate \<Rightarrow> string" where
  "Rate_toString r =
     (if rate_scale r = 0 then show_int (rate_numerator r)
      else case split_digits (rate_scale r) (rate_numerator r) of
        (whole, fraction) \<Rightarrow> (if rate_numerator r < 0 then ''-'' else []) @ whole @ ''.'' @ fraction)"

section \<open>money.ts\<close>

definition CURRENCY_SCALE :: "CurrencyCode \<Rightarrow> nat" where
  "CURRENCY_SCALE c = (case c of BRL \<Rightarrow> 2)"

record MoneyJSON =
  mj_amount :: string
  mj_currency :: CurrencyCode
  mj_scale :: nat

definition MAX_SAFE_CENTS :: int where
  "MAX_SAFE_CENTS = 9223372036854775807"

record Money =
  mny_cents :: int
  mny_currency :: CurrencyCode

definition Money_of :: "int \<Rightarrow> CurrencyCode \<Rightarrow> MoneyError + Money" where
  "Money_of value currency =
     (if value > MAX_SAFE_CENTS \<or> value < - MAX_SAFE_CENTS then Inl (OutOfBigintRange value)
      else Inr \<lparr>mny_cents = value, mny_currency = currency\<rparr>)"

definition fromNumber :: "JsNumber \<Rightarrow> MoneyError + int" where
  "fromNumber x =
     (case x of
        Num q \<Rightarrow>
          if q \<noteq> of_int \<lfloor>q\<rfloor> then Inl (NotAnInteger x)
          else if \<bar>\<lfloor>q\<rfloor>\<bar> > 9007199254740991 then Inl NotASafeInteger
          else Inr \<lfloor>q\<rfloor>
      | _ \<Rightarrow> Inl (NotAnInteger x))"

definition Money_of_number :: "JsNumber \<Rightarrow> CurrencyCode \<Rightarrow> MoneyError + Money" where
  "Money_of_number x currency =
     (case fromNumber x of Inl err \<Rightarrow> Inl err | Inr value \<Rightarrow> Money_of value currency)"

definition Money_zero :: "CurrencyCode \<Rightarrow> Money" where
  "Money_zero currency = \<lparr>mny_cents = 0, mny_currency = currency\<rparr>"

definition fromDecimalString :: "string \<Rightarrow> CurrencyCode \<Rightarrow> MoneyError + Money" where
  "fromDecimalString value currency =
     (let scale = CURRENCY_SCALE currency in
      case decimal_match (\<lambda>c. c = CHR ''.'' \<or> c = CHR '','') (\<lambda>_. True) (js_trim value) of
        None \<Rightarrow> Inl (InvalidDecimal value)
      | Some (neg, whole, fraction) \<Rightarrow>
          if length fraction > scale then Inl (TooManyDecimals value (length fraction))
          else Money_of (int (read_nat (whole @ padEnd scale (CHR ''0'') fraction)) * (if neg then -1 else 1)) currency)"

definition Money_fromJSON :: "MoneyJSON \<Rightarrow> MoneyError + Money" where
  "Money_fromJSON json =
     (let expected = CURRENCY_SCALE (mj_currency json) in
      if mj_scale json \<noteq> expected then Inl (ScaleMismatch (mj_scale json))
      else case js_BigInt (mj_amount json) of
          None \<Rightarrow> Inl (BigIntSyntax (mj_amount json))
        | Some v \<Rightarrow> Money_of v (mj_currency json))"

definition toDecimalString :: "Money \<Rightarrow> string" where
  "toDecimalString m =
     (let scale = CURRENCY_SCALE (mny_currency m); negative = mny_cents m < 0 in
      case split_digits scale (mny_cents m) of
        (whole, fraction) \<Rightarrow> (if negative then ''-'' else []) @ whole @ (if scale > 0 then ''.'' @ fraction else []))"

text \<open>\<open>whole.replace(/\B(?=(\d{3})+(?!\d))/g, '.')\<close>: a dot before every group of three.\<close>

function group_thousands :: "string \<Rightarrow> string" where
  "group_thousands ds =
     (if length ds \<le> 3 then ds
      else group_thousands (take (length ds - 3) ds) @ ''.'' @ drop (length ds - 3) ds)"
  by auto
termination by (relation "measure length") auto

declare group_thousands.simps [simp del]

definition toDisplayString :: "Money \<Rightarrow> string" where
  "toDisplayString m =
     (let s = remove1 (CHR ''-'') (toDecimalString m);
          whole = takeWhile (\<lambda>c. c \<noteq> CHR ''.'') s;
          fraction = takeWhile (\<lambda>c. c \<noteq> CHR ''.'') (drop 1 (dropWhile (\<lambda>c. c \<noteq> CHR ''.'') s));
          sign = (if mny_cents m < 0 then ''-'' else [])
      in sign @ ''R$ '' @ group_thousands whole @ (if fraction \<noteq> [] then '','' @ fraction else []))"

definition assertSameCurrency :: "Money \<Rightarrow> Money \<Rightarrow> MoneyError + unit" where
  "assertSameCurrency m other =
     (if mny_currency other \<noteq> mny_currency m
      then Inl (CurrencyMismatch (mny_currency m) (mny_currency other)) else Inr ())"

definition Money_plus :: "Money \<Rightarrow> Money \<Rightarrow> MoneyError + Money" where
  "Money_plus m other =
     (case assertSameCurrency m other of
        Inl err \<Rightarrow> Inl err
      | Inr _ \<Rightarrow> Money_of (mny_cents m + mny_cents other) (mny_currency m))"

definition Money_minus :: "Money \<Rightarrow> Money \<Rightarrow> MoneyError + Money" where
  "Money_minus m other =
     (case assertSameCurrency m other of
        Inl err \<Rightarrow> Inl err
      | Inr _ \<Rightarrow> Money_of (mny_cents m - mny_cents other) (mny_currency m))"

definition Money_negate :: "Money \<Rightarrow> MoneyError + Money" where
  "Money_negate m = Money_of (- mny_cents m) (mny_currency m)"

definition Money_abs :: "Money \<Rightarrow> MoneyError + Money" where
  "Money_abs m = (if mny_cents m < 0 then Money_negate m else Inr m)"

definition Money_isNegative :: "Money \<Rightarrow> bool" where
  "Money_isNegative m = (mny_cents m < 0)"

definition Money_isPositive :: "Money \<Rightarrow> bool" where
  "Money_isPositive m = (mny_cents m > 0)"

definition Money_isZero :: "Money \<Rightarrow> bool" where
  "Money_isZero m = (mny_cents m = 0)"

definition Money_compare :: "Money \<Rightarrow> Money \<Rightarrow> MoneyError + int" where
  "Money_compare m other =
     (case assertSameCurrency m other of
        Inl err \<Rightarrow> Inl err
      | Inr _ \<Rightarrow>
          if mny_cents m < mny_cents other then Inr (-1)
          else if mny_cents m > mny_cents other then Inr 1 else Inr 0)"

definition Money_equals :: "Money \<Rightarrow> Money \<Rightarrow> bool" where
  "Money_equals m other = (mny_currency m = mny_currency other \<and> mny_cents m = mny_cents other)"

definition applyRate :: "Money \<Rightarrow> Rate \<Rightarrow> RoundingMode \<Rightarrow> MoneyError + Money" where
  "applyRate m rate mode =
     (case divideRounded (mny_cents m * rate_numerator rate) (rate_denominator rate) mode of
        Inl err \<Rightarrow> Inl err
      | Inr v \<Rightarrow> Money_of v (mny_currency m))"

fun finite_nonneg :: "JsNumber \<Rightarrow> bool" where
  "finite_nonneg (Num q) = (0 \<le> q)"
| "finite_nonneg _ = False"

text \<open>\<open>BigInt(Math.round(w * 1000000))\<close>; \<open>Math.round x\<close> is \<open>floor (x + 1/2)\<close>.\<close>

fun scaled_weight :: "(rat \<Rightarrow> rat option) \<Rightarrow> JsNumber \<Rightarrow> MoneyError + int" where
  "scaled_weight fl (Num q) =
     (case fl (q * 1000000) of None \<Rightarrow> Inl BigIntOfInfinity | Some x \<Rightarrow> Inr \<lfloor>x + 1 / 2\<rfloor>)"
| "scaled_weight fl _ = Inl BigIntOfInfinity"

fun map_result :: "('a \<Rightarrow> 'e + 'b) \<Rightarrow> 'a list \<Rightarrow> 'e + 'b list" where
  "map_result f [] = Inr []"
| "map_result f (x # xs) =
     (case f x of
        Inl err \<Rightarrow> Inl err
      | Inr y \<Rightarrow> (case map_result f xs of Inl err \<Rightarrow> Inl err | Inr ys \<Rightarrow> Inr (y # ys)))"

definition compare_rest :: "nat \<times> int \<Rightarrow> nat \<times> int \<Rightarrow> int" where
  "compare_rest a b =
     (if snd a = snd b then int (fst a) - int (fst b) else if snd a > snd b then -1 else 1)"

fun distribute :: "(nat \<times> int) list \<Rightarrow> int \<Rightarrow> int list \<Rightarrow> int list" where
  "distribute [] leftover base = base"
| "distribute ((index, rest) # rs) leftover base =
     (if leftover \<le> 0 then base
      else distribute rs (leftover - 1) (base[index := base ! index + 1]))"

definition shares :: "int list \<Rightarrow> int \<Rightarrow> int list" where
  "shares scaled a =
     (let total = sum_list scaled;
          base = map (\<lambda>w. (a * w) div total) scaled;
          remainders = zip [0..<length scaled] (map (\<lambda>w. (a * w) mod total) scaled);
          leftover = a - sum_list base
      in distribute (js_sort compare_rest remainders) leftover base)"

definition allocate :: "(rat \<Rightarrow> rat option) \<Rightarrow> Money \<Rightarrow> JsNumber list \<Rightarrow> MoneyError + Money list" where
  "allocate fl m weights =
     (if length weights = 0 then Inl NoWeights
      else if \<not> list_all finite_nonneg weights then Inl BadWeights
      else case map_result (scaled_weight fl) weights of
          Inl err \<Rightarrow> Inl err
        | Inr scaled \<Rightarrow>
            if sum_list scaled = 0 then Inl ZeroTotalWeight
            else
              (let negative = mny_cents m < 0;
                   a = (if negative then - mny_cents m else mny_cents m)
               in map_result (\<lambda>v. Money_of (if negative then - v else v) (mny_currency m)) (shares scaled a)))"

fun Money_sum_loop :: "Money \<Rightarrow> Money list \<Rightarrow> MoneyError + Money" where
  "Money_sum_loop acc [] = Inr acc"
| "Money_sum_loop acc (v # vs) =
     (case Money_plus acc v of Inl err \<Rightarrow> Inl err | Inr acc' \<Rightarrow> Money_sum_loop acc' vs)"

definition Money_sum :: "Money list \<Rightarrow> CurrencyCode \<Rightarrow> MoneyError + Money" where
  "Money_sum values currency = Money_sum_loop (Money_zero currency) values"

definition Money_toJSON :: "Money \<Rightarrow> MoneyJSON" where
  "Money_toJSON m =
     \<lparr>mj_amount = show_int (mny_cents m), mj_currency = mny_currency m,
      mj_scale = CURRENCY_SCALE (mny_currency m)\<rparr>"

section \<open>Rounding\<close>

lemma half_even_tie:
  assumes "R * 2 = d" "R \<noteq> 0"
  shows "even (round_magnitude HALF_EVEN d Q R)"
  using assms by (auto simp: round_magnitude_def even_iff_mod_2_eq_zero) presburger

lemma round_magnitude_error:
  fixes a d Q R :: int
  assumes "0 < d" "0 \<le> Q" and a: "a = Q * d + R" and r: "0 \<le> R" "R < d"
  defines "q \<equiv> \<lambda>mode. round_magnitude mode d Q R"
  shows "\<bar>q mode * d - a\<bar> < d"
    and "2 * \<bar>q HALF_UP * d - a\<bar> \<le> d"
    and "2 * \<bar>q HALF_EVEN * d - a\<bar> \<le> d"
    and "q DOWN * d \<le> a"
    and "a \<le> q UP * d"
    and "0 \<le> q mode"
    and "2 * \<bar>q HALF_EVEN * d - a\<bar> = d \<Longrightarrow> even (q HALF_EVEN)"
    and "2 * \<bar>q HALF_UP * d - a\<bar> = d \<Longrightarrow> a \<le> q HALF_UP * d"
proof -
  have val: "q mode = (if rounds_up mode then Q + 1 else Q)"
    if "rounds_up = (\<lambda>mode. R \<noteq> 0 \<and> (case mode of DOWN \<Rightarrow> False | UP \<Rightarrow> True | HALF_UP \<Rightarrow> d \<le> R * 2
      | HALF_EVEN \<Rightarrow> d < R * 2 \<or> d = R * 2 \<and> Q mod 2 \<noteq> 0))" for rounds_up mode
    using that by (cases mode) (auto simp: q_def round_magnitude_def Let_def)
  have mul: "q mode * d - a = (if R \<noteq> 0 \<and> (case mode of DOWN \<Rightarrow> False | UP \<Rightarrow> True | HALF_UP \<Rightarrow> d \<le> R * 2
      | HALF_EVEN \<Rightarrow> d < R * 2 \<or> d = R * 2 \<and> Q mod 2 \<noteq> 0) then d - R else - R)" for mode
    unfolding val [OF refl] a by (simp add: algebra_simps)
  show "\<bar>q mode * d - a\<bar> < d" unfolding mul using r by (auto split: RoundingMode.splits)
  show "2 * \<bar>q HALF_UP * d - a\<bar> \<le> d" unfolding mul using r by auto
  show "2 * \<bar>q HALF_EVEN * d - a\<bar> \<le> d" unfolding mul using r by auto
  show "q DOWN * d \<le> a" using mul [of DOWN] r by simp
  show "a \<le> q UP * d" using mul [of UP] r by (simp split: if_splits)
  show "0 \<le> q mode" unfolding val [OF refl] using assms(2) by simp
  show "even (q HALF_EVEN)" if "2 * \<bar>q HALF_EVEN * d - a\<bar> = d"
  proof -
    have "R * 2 = d \<and> R \<noteq> 0" using that r assms(1) unfolding mul by (auto split: if_splits)
    then show ?thesis unfolding q_def using half_even_tie by blast
  qed
  show "a \<le> q HALF_UP * d" if "2 * \<bar>q HALF_UP * d - a\<bar> = d" using mul [of HALF_UP] that r by (auto split: if_splits)
qed

lemma sgn_distance:
  fixes n x :: int
  assumes "n \<noteq> 0"
  shows "\<bar>sgn n * x - n\<bar> = \<bar>x - \<bar>n\<bar>\<bar>"
proof (cases "n < 0")
  case True
  then show ?thesis by simp
next
  case False
  with assms show ?thesis by simp
qed

lemma divideRounded_cases:
  assumes "0 < d"
  shows "divideRounded n d mode = Inr (sgn n * round_magnitude mode d (\<bar>n\<bar> div d) (\<bar>n\<bar> mod d))"
  using assms by (auto simp: divideRounded_def Let_def sgn_if abs_if round_magnitude_def)

section \<open>Printing and parsing\<close>

lemma read_zeros [simp]: "read_nat (replicate k (CHR ''0'')) = 0"
proof (induction k)
  case (Suc k)
  have "read_nat (replicate (Suc k) (CHR ''0'')) = read_nat (replicate k (CHR ''0'') @ [CHR ''0''])"
    by (simp add: replicate_append_same)
  also have "\<dots> = 0" using Suc by (simp only: read_nat_simps) (simp add: digit_val_def)
  finally show ?case .
qed simp

lemma split_digits_props:
  assumes "split_digits k n = (whole, fraction)"
  shows "whole \<noteq> []" "length fraction = k" "\<forall>c\<in>set whole. is_digit c" "\<forall>c\<in>set fraction. is_digit c"
    "read_nat (whole @ fraction) = nat \<bar>n\<bar>"
proof -
  let ?d = "padStart (k + 1) (CHR ''0'') (show_nat (nat \<bar>n\<bar>))"
  have d: "\<forall>c\<in>set ?d. is_digit c" "read_nat ?d = nat \<bar>n\<bar>" "length ?d \<ge> k + 1"
    using show_nat_digits [of "nat \<bar>n\<bar>"]
    by (auto simp: padStart_def read_nat_append) (simp add: is_digit_def)
  have wf: "whole = take (length ?d - k) ?d" "fraction = drop (length ?d - k) ?d"
    using assms by (simp_all add: split_digits_def Let_def)
  show "whole \<noteq> []" "length fraction = k" using d(3) by (auto simp: wf)
  show "\<forall>c\<in>set whole. is_digit c" "\<forall>c\<in>set fraction. is_digit c"
    using d(1) unfolding wf by (meson in_set_takeD in_set_dropD)+
  show "read_nat (whole @ fraction) = nat \<bar>n\<bar>" using d(2) by (simp add: wf)
qed

text \<open>A printed decimal is matched into the parts it was printed from.\<close>

definition print_decimal :: "bool \<Rightarrow> string \<Rightarrow> string \<Rightarrow> string" where
  "print_decimal neg whole fraction =
     (if neg then ''-'' else []) @ whole @ (if fraction = [] then [] else ''.'' @ fraction)"

lemma decimal_match_print:
  assumes "whole \<noteq> []" "\<forall>c\<in>set whole. is_digit c" "\<forall>c\<in>set fraction. is_digit c"
    and "sep (CHR ''.'')" "fraction \<noteq> [] \<Longrightarrow> ok (length fraction)"
  shows "decimal_match sep ok (print_decimal neg whole fraction) = Some (neg, whole, fraction)"
proof -
  let ?r = "whole @ (if fraction = [] then [] else ''.'' @ fraction)"
  have dot: "\<not> is_digit (CHR ''.'')" by (rule radix_prefix_not_digit)
  have "takeWhile is_digit ?r = whole"
    using assms(2) dot by (auto simp: takeWhile_append takeWhile_eq_all_conv)
  moreover have "dropWhile is_digit ?r = (if fraction = [] then [] else CHR ''.'' # fraction)"
    using assms(2) radix_prefix_not_digit by (simp add: dropWhile_append)
  moreover have "hd ?r \<noteq> CHR ''-''" "?r \<noteq> []"
    using assms(1,2) radix_prefix_not_digit by (auto simp: hd_append dest: hd_in_set)
  ultimately show ?thesis
    using assms dot by (cases neg) (auto simp: decimal_match_def print_decimal_def Let_def list_all_iff)
qed

lemma js_trim_print:
  assumes "whole \<noteq> []" "\<forall>c\<in>set whole. is_digit c" "\<forall>c\<in>set fraction. is_digit c"
  shows "js_trim (print_decimal neg whole fraction) = print_decimal neg whole fraction"
proof (rule js_trim_id)
  show "print_decimal neg whole fraction \<noteq> []" using assms(1) by (simp add: print_decimal_def)
  have "is_digit (hd whole)" "is_digit (last whole)" "fraction \<noteq> [] \<Longrightarrow> is_digit (last fraction)"
    using assms by (auto dest: hd_in_set last_in_set)
  then show "\<not> is_space (hd (print_decimal neg whole fraction))" "\<not> is_space (last (print_decimal neg whole fraction))"
    using assms(1) digit_not_space
    by (auto simp: print_decimal_def hd_append, auto simp: is_space_def)
qed

lemma Money_of_iff: "Money_of v c = Inr m \<longleftrightarrow> \<bar>v\<bar> \<le> MAX_SAFE_CENTS \<and> m = \<lparr>mny_cents = v, mny_currency = c\<rparr>"
  by (auto simp: Money_of_def)

lemma decimal_roundtrip:
  assumes "\<bar>mny_cents m\<bar> \<le> MAX_SAFE_CENTS"
  shows "fromDecimalString (toDecimalString m) (mny_currency m) = Inr m"
proof -
  obtain whole fraction where sp: "split_digits (CURRENCY_SCALE (mny_currency m)) (mny_cents m) = (whole, fraction)"
    by fastforce
  note p = split_digits_props [OF sp]
  have sc: "CURRENCY_SCALE (mny_currency m) = 2" by (cases "mny_currency m") (simp add: CURRENCY_SCALE_def)
  have ne: "fraction \<noteq> []" using p(2) sc by auto
  have out: "toDecimalString m = print_decimal (mny_cents m < 0) whole fraction"
    using sp sc ne by (simp add: toDecimalString_def Let_def print_decimal_def)
  have "fromDecimalString (toDecimalString m) (mny_currency m) =
      Money_of (int (nat \<bar>mny_cents m\<bar>) * (if mny_cents m < 0 then -1 else 1)) (mny_currency m)"
    using p sc unfolding out
    by (simp add: fromDecimalString_def js_trim_print decimal_match_print padEnd_def)
  also have "\<dots> = Money_of (mny_cents m) (mny_currency m)" by simp
  finally show ?thesis using assms by (simp add: Money_of_iff)
qed

section \<open>Allocation\<close>

lemma length_distribute [simp]: "length (distribute rs l base) = length base"
  by (induction rs l base rule: distribute.induct) auto

lemma sum_list_incr: "k < length xs \<Longrightarrow> sum_list (xs[k := xs ! k + 1]) = sum_list xs + (1 :: int)"
  by (induction xs arbitrary: k) (auto split: nat.split)

lemma sum_distribute:
  assumes "\<forall>(i, r)\<in>set rs. i < length base" "0 \<le> l" "l \<le> int (length rs)"
  shows "sum_list (distribute rs l base) = sum_list base + l"
  using assms
proof (induction rs l base rule: distribute.induct)
  case (2 i r rs l base)
  then show ?case by (auto simp: sum_list_incr)
qed simp

lemma distribute_nth:
  assumes "distinct (map fst rs)" "\<forall>(i, r)\<in>set rs. i < length base" "k < length base"
  shows "distribute rs l base ! k = base ! k + (if k \<in> fst ` set (take (nat l) rs) then 1 else 0)"
  using assms
proof (induction rs l base rule: distribute.induct)
  case (2 i r rs l base)
  show ?case
  proof (cases "l \<le> 0")
    case False
    then have n: "nat l = Suc (nat (l - 1))" by simp
    have "k \<notin> fst ` set (take (nat (l - 1)) rs)" if "k = i"
      using 2(2) that by (auto dest: in_set_takeD)
    with 2 False show ?thesis by (auto simp: n nth_list_update)
  qed simp
qed simp

lemma div_mod_sums:
  "sum_list (map (\<lambda>w. a * w div W) ws) * W + sum_list (map (\<lambda>w. a * w mod W) ws) = a * sum_list (ws :: int list)"
  by (induction ws) (simp_all add: algebra_simps)

lemma compare_rest_le: "compare_rest a b \<le> 0 \<Longrightarrow> snd b \<le> snd a"
  by (auto simp: compare_rest_def split: if_splits)

lemma compare_rest_sorted: "sorted_wrt (\<lambda>a b. compare_rest a b \<le> 0) (js_sort compare_rest xs)"
  by (rule sorted_js_sort) (auto simp: compare_rest_def split: if_splits)

lemma sum_list_le_const: "\<forall>x\<in>set xs. x \<le> (c :: int) \<Longrightarrow> sum_list xs \<le> int (length xs) * c"
  by (induction xs) (auto simp: algebra_simps)

text \<open>The residue is smaller than the number of parts with a remainder, so only those get a cent.\<close>

lemma chosen_have_rest:
  assumes rs: "rs = js_sort compare_rest (zip [0..<length R] R)"
    and R: "\<forall>r\<in>set R. 0 \<le> r \<and> r < (W :: int)" and L: "L * W = sum_list R" and W: "0 < W"
    and p: "(i, r) \<in> set (take (nat L) rs)"
  shows "r \<noteq> 0"
proof
  assume "r = 0"
  with p obtain j where j: "j < nat L" "j < length rs" "rs ! j = (i, 0)" by (auto simp: in_set_conv_nth)
  have "map snd (zip [0..<length R] R) = R" by simp
  then have snds: "mset (map snd rs) = mset R" by (metis rs mset_map mset_js_sort)
  then have set: "set (map snd rs) = set R" by (metis set_mset_mset)
  have "sum_list (map snd rs) = sum_list R" using snds by (metis sum_mset_sum_list)
  moreover have "sum_list (map snd (drop j rs)) \<le> 0"
  proof -
    have "\<forall>q\<in>set (drop j rs). snd q \<le> 0"
    proof
      fix q assume "q \<in> set (drop j rs)"
      then obtain k where k: "k < length rs - j" "q = rs ! (j + k)" by (auto simp: in_set_conv_nth)
      show "snd q \<le> 0"
      proof (cases k)
        case 0
        with k j show ?thesis by simp
      next
        case (Suc k')
        have "compare_rest (rs ! j) (rs ! (j + k)) \<le> 0"
          using compare_rest_sorted [of "zip [0..<length R] R", folded rs] k Suc by (auto simp: sorted_wrt_iff_nth_less)
        then show ?thesis using compare_rest_le j(3) k(2) by fastforce
      qed
    qed
    then have "\<forall>x\<in>set (map snd (drop j rs)). x \<le> 0" by auto
    from sum_list_le_const [OF this] show ?thesis by simp
  qed
  moreover have "sum_list (map snd (take j rs)) \<le> int j * (W - 1)"
  proof -
    have "\<forall>x\<in>set (map snd (take j rs)). x \<le> W - 1"
    proof
      fix x assume "x \<in> set (map snd (take j rs))"
      then have "x \<in> set (map snd rs)" by (auto dest: in_set_takeD)
      then have "x \<in> set R" by (simp only: set)
      then show "x \<le> W - 1" using R by auto
    qed
    from sum_list_le_const [OF this] j(2) show ?thesis by simp
  qed
  moreover have "sum_list (map snd rs) = sum_list (map snd (take j rs)) + sum_list (map snd (drop j rs))"
    by (metis append_take_drop_id map_append sum_list_append)
  ultimately have "L * W \<le> int j * (W - 1)" using L by linarith
  also have "\<dots> \<le> int j * W" using W by (simp add: algebra_simps)
  also have "\<dots> < L * W" using j(1) W by (intro mult_strict_right_mono) auto
  finally show False by simp
qed

lemma shares_props:
  assumes W: "0 < sum_list sc" and nn: "\<forall>w\<in>set sc. 0 \<le> w" and a: "0 \<le> a"
  shows "sum_list (shares sc a) = a" "length (shares sc a) = length sc"
    and "k < length sc \<Longrightarrow> \<bar>shares sc a ! k * sum_list sc - a * sc ! k\<bar> < sum_list sc"
    and "\<forall>v\<in>set (shares sc a). 0 \<le> v \<and> v \<le> a"
proof -
  define W where "W = sum_list sc"
  define base where "base = map (\<lambda>w. a * w div W) sc"
  define R where "R = map (\<lambda>w. a * w mod W) sc"
  define L where "L = a - sum_list base"
  define rs where "rs = js_sort compare_rest (zip [0..<length sc] R)"
  have W0: "0 < W" using W by (simp add: W_def)
  have sh: "shares sc a = distribute rs L base"
    by (simp add: shares_def Let_def base_def R_def L_def rs_def W_def)
  have R: "\<forall>r\<in>set R. 0 \<le> r \<and> r < W" using W0 by (auto simp: R_def)
  have LW: "L * W = sum_list R"
    using div_mod_sums [of a W sc] by (simp add: L_def base_def R_def W_def algebra_simps)
  have "0 \<le> sum_list R" using R by (intro sum_list_nonneg) auto
  with LW W0 have L0: "0 \<le> L" by (metis mult_less_0_iff not_le)
  have "\<forall>r\<in>set R. r \<le> W" using R by auto
  then have "L * W \<le> int (length sc) * W" using sum_list_le_const [of R W] LW by (simp add: R_def)
  then have Ln: "L \<le> int (length rs)" using W0 by (simp add: rs_def R_def)
  have idx: "\<forall>(i, r)\<in>set rs. i < length base" by (auto simp: rs_def base_def R_def dest: set_zip_leftD)
  have "map fst (zip [0..<length sc] R) = [0..<length sc]" by (simp add: R_def)
  then have "mset (map fst rs) = mset [0..<length sc]" by (metis rs_def mset_map mset_js_sort)
  then have dist: "distinct (map fst rs)" by (metis distinct_upt mset_eq_imp_distinct_iff)
  show sum: "sum_list (shares sc a) = a" unfolding sh using sum_distribute [OF idx L0 Ln] by (simp add: L_def)
  show len: "length (shares sc a) = length sc" by (simp add: sh base_def)
  have share: "\<bar>shares sc a ! k * W - a * sc ! k\<bar> < W \<and> 0 \<le> shares sc a ! k" if k: "k < length sc" for k
  proof -
    have b: "base ! k * W + R ! k = a * sc ! k" "0 \<le> R ! k" "R ! k < W" "0 \<le> base ! k"
      using k R nn a W0 by (auto simp: base_def R_def pos_imp_zdiv_nonneg_iff)
    have "R ! k \<noteq> 0" if "k \<in> fst ` set (take (nat L) rs)"
    proof -
      from that obtain r where r: "(k, r) \<in> set (take (nat L) rs)" by auto
      then have "(k, r) \<in> set (zip [0..<length sc] R)" by (auto simp: rs_def dest: in_set_takeD)
      then have "r = R ! k" by (auto simp: set_zip)
      then show ?thesis using chosen_have_rest [OF _ R LW W0 r] by (simp add: rs_def R_def)
    qed
    moreover have "shares sc a ! k = base ! k + (if k \<in> fst ` set (take (nat L) rs) then 1 else 0)"
      unfolding sh using distribute_nth [OF dist idx, of k L] k by (simp add: base_def)
    moreover have "(base ! k + 1) * W = base ! k * W + W" by (simp add: distrib_right)
    ultimately show ?thesis using b by (cases "k \<in> fst ` set (take (nat L) rs)") simp_all
  qed
  then show "k < length sc \<Longrightarrow> \<bar>shares sc a ! k * sum_list sc - a * sc ! k\<bar> < sum_list sc"
    by (simp add: W_def)
  show "\<forall>v\<in>set (shares sc a). 0 \<le> v \<and> v \<le> a"
  proof
    fix v assume v: "v \<in> set (shares sc a)"
    have nonneg: "\<forall>v\<in>set (shares sc a). 0 \<le> v" using share len by (auto simp: in_set_conv_nth)
    then have "v \<le> sum_list (shares sc a)" using v by (metis member_le_sum_list)
    with v nonneg sum show "0 \<le> v \<and> v \<le> a" by simp
  qed
qed

lemma map_result_Inr: "(\<And>x. x \<in> set xs \<Longrightarrow> f x = Inr (g x)) \<Longrightarrow> map_result f xs = Inr (map g xs)"
  by (induction xs) auto

lemma map_result_scaled:
  assumes "map_result (scaled_weight fl) ws = Inr sc" "list_all finite_nonneg ws"
    and "\<And>x y. 0 \<le> x \<Longrightarrow> fl x = Some y \<Longrightarrow> 0 \<le> y"
  shows "length sc = length ws \<and> (\<forall>w\<in>set sc. 0 \<le> w)"
  using assms(1,2)
proof (induction ws arbitrary: sc)
  case (Cons w ws)
  then obtain v sc' where v: "scaled_weight fl w = Inr v" "map_result (scaled_weight fl) ws = Inr sc'" "sc = v # sc'"
    by (auto split: sum.splits)
  obtain q where q: "w = Num q" "0 \<le> q" using Cons.prems(2) by (cases w) auto
  with v(1) obtain y where y: "fl (q * 1000000) = Some y" "v = \<lfloor>y + 1 / 2\<rfloor>" by (auto split: option.splits)
  have "0 \<le> y" using assms(3) [OF _ y(1)] q by simp
  then have "0 \<le> v" unfolding y(2) by (simp add: le_floor_iff)
  with Cons v show ?case by auto
qed simp

text \<open>Summing amounts of one sign whose total is in range never leaves the range on the way.\<close>

lemma Money_sum_loop_same_sign:
  assumes "\<forall>v\<in>set vs. mny_currency v = c \<and> 0 \<le> sg * mny_cents v" "\<bar>sg\<bar> = 1"
    and "mny_currency acc = c" "0 \<le> sg * mny_cents acc"
    and "sg * (mny_cents acc + sum_list (map mny_cents vs)) \<le> MAX_SAFE_CENTS"
  shows "Money_sum_loop acc vs = Inr \<lparr>mny_cents = mny_cents acc + sum_list (map mny_cents vs), mny_currency = c\<rparr>"
  using assms
proof (induction vs arbitrary: acc)
  case (Cons v vs)
  let ?x = "mny_cents acc + mny_cents v"
  have "0 \<le> sg * sum_list (map mny_cents vs)" using Cons.prems(1) by (induction vs) (auto simp: algebra_simps)
  then have x: "0 \<le> sg * ?x" "sg * ?x \<le> MAX_SAFE_CENTS" using Cons.prems by (auto simp: algebra_simps)
  have "sg = 1 \<or> sg = -1" using Cons.prems(2) by auto
  then have "\<bar>?x\<bar> \<le> MAX_SAFE_CENTS" using x by auto
  then have "Money_plus acc v = Inr \<lparr>mny_cents = ?x, mny_currency = c\<rparr>"
    using Cons.prems by (simp add: Money_plus_def assertSameCurrency_def Money_of_iff)
  with Cons x show ?case by (simp add: add.assoc)
qed simp

section \<open>Properties\<close>

text \<open>C7: dividing with an explicit mode.  The result is within one unit of the exact quotient, within
  half a unit for the two half modes, with ties to even under \<open>HALF_EVEN\<close> and away from zero under \<open>HALF_UP\<close>; \<open>DOWN\<close>
  never exceeds and \<open>UP\<close> never falls short in magnitude; negating the numerator negates the result.  Each mode thus
  has one result.\<close>

theorem divideRounded_correct:
  assumes "0 < d"
  shows "\<exists>q. divideRounded n d mode = Inr q \<and> \<bar>q * d - n\<bar> < d \<and>
     (mode = HALF_UP \<or> mode = HALF_EVEN \<longrightarrow> 2 * \<bar>q * d - n\<bar> \<le> d) \<and>
     (mode = HALF_EVEN \<and> 2 * \<bar>q * d - n\<bar> = d \<longrightarrow> even q) \<and>
     (mode = HALF_UP \<and> 2 * \<bar>q * d - n\<bar> = d \<longrightarrow> \<bar>n\<bar> \<le> \<bar>q\<bar> * d) \<and>
     (mode = DOWN \<longrightarrow> \<bar>q\<bar> * d \<le> \<bar>n\<bar>) \<and> (mode = UP \<longrightarrow> \<bar>n\<bar> \<le> \<bar>q\<bar> * d) \<and>
     divideRounded (- n) d mode = Inr (- q)"
proof -
  let ?Q = "\<bar>n\<bar> div d" and ?R = "\<bar>n\<bar> mod d"
  let ?q = "round_magnitude mode d ?Q ?R"
  have R: "0 \<le> ?R" "?R < d" "0 \<le> ?Q" "\<bar>n\<bar> = ?Q * d + ?R" using assms by (simp_all add: pos_imp_zdiv_nonneg_iff)
  note e = round_magnitude_error [OF assms R(3,4,1,2)]
  have abs: "\<bar>sgn n * ?q * d - n\<bar> = \<bar>?q * d - \<bar>n\<bar>\<bar>"
  proof (cases "n = 0")
    case True
    then show ?thesis by (simp add: round_magnitude_def)
  next
    case False
    from sgn_distance [OF this, of "?q * d"] show ?thesis by (simp only: mult.assoc)
  qed
  have q0: "n = 0 \<Longrightarrow> ?q = 0" by (simp add: round_magnitude_def)
  have qa: "\<bar>sgn n * ?q\<bar> = ?q" using e(6) [of mode] q0 by (cases "n = 0") (simp_all only: abs_mult abs_sgn_eq, simp_all)
  have "divideRounded n d mode = Inr (sgn n * ?q)" by (rule divideRounded_cases [OF assms])
  moreover have "divideRounded (- n) d mode = Inr (- (sgn n * ?q))"
  proof -
    have "sgn (- n) = - sgn n" by (simp add: sgn_if)
    with divideRounded_cases [OF assms, of "- n" mode] show ?thesis by (simp only: abs_minus_cancel minus_mult_left)
  qed
  moreover have "\<bar>sgn n * ?q * d - n\<bar> < d" unfolding abs by (rule e(1))
  moreover have "mode = HALF_UP \<or> mode = HALF_EVEN \<longrightarrow> 2 * \<bar>sgn n * ?q * d - n\<bar> \<le> d"
    unfolding abs using e(2,3) by blast
  moreover have "mode = HALF_EVEN \<and> 2 * \<bar>sgn n * ?q * d - n\<bar> = d \<longrightarrow> even (sgn n * ?q)"
    unfolding abs using e(7) by auto
  moreover have "mode = HALF_UP \<and> 2 * \<bar>sgn n * ?q * d - n\<bar> = d \<longrightarrow> \<bar>n\<bar> \<le> \<bar>sgn n * ?q\<bar> * d"
    unfolding abs qa using e(8) by auto
  moreover have "mode = DOWN \<longrightarrow> \<bar>sgn n * ?q\<bar> * d \<le> \<bar>n\<bar>" unfolding qa using e(4) by blast
  moreover have "mode = UP \<longrightarrow> \<bar>n\<bar> \<le> \<bar>sgn n * ?q\<bar> * d" unfolding qa using e(5) by blast
  ultimately show ?thesis by blast
qed

theorem divideRounded_correct_witness:
  "divideRounded 25 10 HALF_EVEN = Inr 2 \<and> divideRounded (- 25) 10 HALF_EVEN = Inr (- 2) \<and>
   divideRounded 25 10 HALF_UP = Inr 3 \<and> divideRounded (- 25) 10 HALF_UP = Inr (- 3) \<and>
   (\<exists>q. divideRounded 25 10 HALF_EVEN = Inr q \<and> even q)"
proof -
  have "divideRounded 25 10 HALF_EVEN = Inr 2" "divideRounded 25 10 HALF_UP = Inr 3" by code_simp+
  with divideRounded_correct [of 10 25 HALF_EVEN] divideRounded_correct [of 10 25 HALF_UP] show ?thesis by simp
qed

text \<open>What is printed reads back.  An amount in the BIGINT range survives the provider decimal
  format and the wire format exactly.\<close>

theorem money_roundtrip:
  assumes "\<bar>mny_cents m\<bar> \<le> MAX_SAFE_CENTS"
  shows "fromDecimalString (toDecimalString m) (mny_currency m) = Inr m \<and>
         Money_fromJSON (Money_toJSON m) = Inr m"
  using decimal_roundtrip [OF assms] assms
  by (simp add: Money_fromJSON_def Money_toJSON_def Money_of_iff)

theorem money_roundtrip_witness:
  "toDecimalString \<lparr>mny_cents = - 15075, mny_currency = BRL\<rparr> = ''-150.75'' \<and>
   fromDecimalString ''-150.75'' BRL = Inr \<lparr>mny_cents = - 15075, mny_currency = BRL\<rparr>"
proof -
  have "toDecimalString \<lparr>mny_cents = - 15075, mny_currency = BRL\<rparr> = ''-150.75''"
    by (simp add: toDecimalString_def Let_def split_digits_def CURRENCY_SCALE_def padStart_def
        show_nat.simps digit_chars)
  with money_roundtrip [of "\<lparr>mny_cents = - 15075, mny_currency = BRL\<rparr>"] show ?thesis
    by (simp add: MAX_SAFE_CENTS_def)
qed

text \<open>A rate with at most nine decimals survives printing and parsing.\<close>

theorem rate_roundtrip:
  assumes "rate_scale r \<le> 9"
  shows "Rate_parse (Rate_toString r) = Inr r"
proof -
  obtain whole fraction where p: "whole \<noteq> []" "length fraction = rate_scale r" "\<forall>c\<in>set whole. is_digit c"
      "\<forall>c\<in>set fraction. is_digit c" "read_nat (whole @ fraction) = nat \<bar>rate_numerator r\<bar>"
    and out: "Rate_toString r = print_decimal (rate_numerator r < 0) whole fraction"
  proof (cases "rate_scale r = 0")
    case True
    then show thesis
      using that [of "show_nat (nat \<bar>rate_numerator r\<bar>)" "[]"] show_nat_digits
      by (auto simp: Rate_toString_def show_int_def print_decimal_def)
  next
    case False
    obtain w f where sp: "split_digits (rate_scale r) (rate_numerator r) = (w, f)" by fastforce
    note q = split_digits_props [OF sp]
    have "Rate_toString r = print_decimal (rate_numerator r < 0) w f"
      using sp q(2) False by (auto simp: Rate_toString_def print_decimal_def)
    with that [OF q] show thesis by blast
  qed
  have "Rate_parse (Rate_toString r) =
      Inr \<lparr>rate_numerator = int (nat \<bar>rate_numerator r\<bar>) * (if rate_numerator r < 0 then -1 else 1), rate_scale = rate_scale r\<rparr>"
    using p assms unfolding out by (simp add: Rate_parse_def js_trim_print decimal_match_print)
  then show ?thesis by simp
qed

theorem rate_roundtrip_witness:
  "Rate_parse (Rate_toString \<lparr>rate_numerator = - 75, rate_scale = 4\<rparr>) = Inr \<lparr>rate_numerator = - 75, rate_scale = 4\<rparr>"
  by (rule rate_roundtrip) simp



end
