(* ===== verification/Recon_Types.thy ===== *)
theory Recon_Types
  imports Fsm Js_Strings
begin

text \<open>
  The vocabulary of the reconciliation package \<open>src/packages/reconciliation/src\<close>: the data of
  \<open>types.ts\<close>, the keys of \<open>match-key.ts\<close> and the classification rules of \<open>classify.ts\<close>.

  SHA-256 (\<open>node:crypto\<close>) is the argument \<open>sha256\<close> of \<open>fuzzyKey\<close>; the calendar of a policy is the
  record of its three operations, as the interface \<open>BusinessCalendar\<close> is.
\<close>

section \<open>Enumerations\<close>

datatype ReconciliationScope = DAILY | INTRADAY | BACKFILL | MANUAL

datatype ReconciliationSide = PROVIDER | LOCAL | LEDGER

datatype BreakType =
    MISSING_ON_LOCAL | MISSING_ON_PROVIDER | MISSING_ON_LEDGER | AMOUNT_MISMATCH | STATUS_MISMATCH
  | DUPLICATE_LOCAL | DUPLICATE_PROVIDER | DATE_MISMATCH | BALANCE_MISMATCH | UNMATCHED_FEE
  | ORPHAN_REFUND

datatype BreakSeverity = LOW | MEDIUM | HIGH | CRITICAL

datatype MatchConfidence = EXACT | HIGH | LOW

datatype Direction = CREDIT | DEBIT

section \<open>types.ts\<close>

type_synonym EffectiveDate = string

record NormalizedItem =
  ni_id :: ident
  ni_side :: ReconciliationSide
  ni_accountId :: ident
  ni_externalId :: "string option"
  ni_endToEndId :: "string option"
  ni_postedAt :: instant
  ni_effectiveDate :: EffectiveDate
  ni_direction :: Direction
  ni_amountCents :: cents
  ni_type :: string
  ni_status :: "TransactionStatus option"
  ni_counterpartyTaxIdIndex :: "string option"
  ni_providerTransactionId :: "string option"
  ni_ledgerTransactionId :: "ident option"
  ni_matchKeyStrong :: "string option"
  ni_matchKeyFuzzy :: string
  ni_raw :: "(string \<times> string) list"

record BusinessCalendar =
  isBusinessDay :: "EffectiveDate \<Rightarrow> bool"
  addBusinessDays :: "EffectiveDate \<Rightarrow> int \<Rightarrow> EffectiveDate"
  businessDaysBetween :: "EffectiveDate \<Rightarrow> EffectiveDate \<Rightarrow> int"

record ReconciliationPolicy =
  settlementGraceMinutes :: int
  amountToleranceCents :: cents
  amountToleranceBasisPoints :: int
  dateToleranceBusinessDays :: int
  autoResolveDateWithinBusinessDays :: int
  criticalAmountDeltaCents :: cents
  maxGreedyPairs :: nat
  calendar :: BusinessCalendar

record ReconciliationBalances =
  providerOpeningCents :: "cents option"
  providerClosingCents :: "cents option"
  ledgerClosingCents :: "cents option"

record ReconciliationInput =
  ri_runId :: ident
  ri_environment :: Environment
  ri_connectionId :: ident
  ri_accountId :: ident
  ri_scope :: ReconciliationScope
  ri_windowStart :: instant
  ri_windowEnd :: instant
  ri_now :: instant
  ri_provider :: "NormalizedItem list"
  ri_local :: "NormalizedItem list"
  ri_ledger :: "NormalizedItem list"
  ri_balances :: ReconciliationBalances
  ri_policy :: ReconciliationPolicy

record MatchLink =
  ml_providerItemId :: "ident option"
  ml_localItemId :: "ident option"
  ml_ledgerItemId :: "ident option"
  ml_confidence :: MatchConfidence
  ml_pass :: nat
  ml_needsReview :: bool

datatype AutoResolutionIntent =
    IMPORT_FROM_PROVIDER ident
  | MARK_PROVIDER_AUTHORITATIVE ident TransactionStatus TransactionStatus
  | IGNORE_TIMING_DIFFERENCE ident ident int

text \<open>\<open>evidence: Record<string, unknown>\<close>: the JSON values the passes put in it.\<close>

datatype EvidenceValue = EvString string | EvBool bool | EvNumber int | EvNull

record BreakDraft =
  bd_type :: BreakType
  bd_severity :: BreakSeverity
  bd_dedupeKey :: string
  bd_effectiveDate :: EffectiveDate
  bd_endToEndId :: "string option"
  bd_amountCents :: "cents option"
  bd_deltaCents :: "cents option"
  bd_providerItemId :: "ident option"
  bd_localItemId :: "ident option"
  bd_ledgerItemId :: "ident option"
  bd_description :: string
  bd_evidence :: "(string \<times> EvidenceValue) list"
  bd_autoResolution :: "AutoResolutionIntent option"

datatype SkippedReason = no_provider_opening | no_provider_closing

record BalanceResult =
  br_openingCents :: "cents option"
  br_matchedMovementCents :: cents
  br_expectedClosingCents :: "cents option"
  br_providerClosingCents :: "cents option"
  br_ledgerClosingCents :: "cents option"
  br_balanceDeltaCents :: "cents option"
  br_skippedReason :: "SkippedReason option"

record ReconciliationCounters =
  providerItemCount :: nat
  localItemCount :: nat
  ledgerItemCount :: nat
  matchedCount :: nat
  breakCount :: nat

record ReconciliationResult =
  rr_matches :: "MatchLink list"
  rr_breaks :: "BreakDraft list"
  rr_counters :: ReconciliationCounters
  rr_balance :: BalanceResult
  rr_pendingSettlement :: "ident list"

definition amountTolerance :: "cents \<Rightarrow> int \<Rightarrow> cents" where
  "amountTolerance amount basisPoints =
     (let absoluto = (if amount < 0 then - amount else amount);
          proporcional = (absoluto * basisPoints + 9999) div 10000
      in if proporcional > 1 then proporcional else 1)"

section \<open>match-key.ts\<close>

definition strongKey :: "string option \<Rightarrow> string option \<Rightarrow> string option" where
  "strongKey endToEndId providerTransactionId =
     (case truthy endToEndId of
        Some e \<Rightarrow> Some (''e2e:'' @ e)
      | None \<Rightarrow>
          (case truthy providerTransactionId of
             Some p \<Rightarrow> Some (''ptx:'' @ p)
           | None \<Rightarrow> None))"

fun direction_name :: "Direction \<Rightarrow> string" where
  "direction_name Direction.CREDIT = ''CREDIT''"
| "direction_name Direction.DEBIT = ''DEBIT''"

definition fuzzyKey ::
  "(string \<Rightarrow> string) \<Rightarrow> ident \<Rightarrow> Direction \<Rightarrow> cents \<Rightarrow> EffectiveDate \<Rightarrow> string" where
  "fuzzyKey sha256 account d amount date =
     sha256 (account @ ''|'' @ direction_name d @ ''|'' @ show_int amount @ ''|'' @ date)"

definition dedupeKeyFor ::
  "string option \<Rightarrow> ident \<Rightarrow> ident option \<Rightarrow> ident option \<Rightarrow> ident option \<Rightarrow> bool \<Rightarrow> string" where
  "dedupeKeyFor endToEndId account providerItem localItem ledgerItem isBalanceBreak =
     (case truthy endToEndId of
        Some e \<Rightarrow> ''e2e:'' @ e
      | None \<Rightarrow>
          if isBalanceBreak then ''bal:'' @ account
          else case truthy providerItem of
              Some p \<Rightarrow> ''pitem:'' @ p
            | None \<Rightarrow>
                (case truthy (coalesce localItem ledgerItem) of
                   Some l \<Rightarrow> ''litem:'' @ l
                 | None \<Rightarrow> ''acct:'' @ account))"

section \<open>classify.ts\<close>

definition missingOnLocalSeverity :: "NormalizedItem \<Rightarrow> BreakSeverity" where
  "missingOnLocalSeverity item =
     (if ni_direction item = Direction.CREDIT then BreakSeverity.HIGH else BreakSeverity.CRITICAL)"

definition missingOnProviderSeverity :: "NormalizedItem \<Rightarrow> BreakSeverity" where
  "missingOnProviderSeverity item =
     (if ni_direction item = Direction.DEBIT then BreakSeverity.CRITICAL else BreakSeverity.HIGH)"

definition amountMismatchSeverity :: "cents \<Rightarrow> ReconciliationPolicy \<Rightarrow> BreakSeverity" where
  "amountMismatchSeverity delta policy =
     (let absoluto = (if delta < 0 then - delta else delta)
      in if absoluto > criticalAmountDeltaCents policy then BreakSeverity.CRITICAL else BreakSeverity.MEDIUM)"

definition providerIsAhead :: "TransactionStatus \<Rightarrow> TransactionStatus \<Rightarrow> bool" where
  "providerIsAhead loc prov =
     (if loc = prov then False
      else if TRANSACTION_STATUS_RANKS prov \<le> TRANSACTION_STATUS_RANKS loc then False
      else allowed (checkTransition TRANSACTION_STATUS_TRANSITIONS loc prov))"

definition localClaimsSettledButProviderFailed :: "TransactionStatus \<Rightarrow> TransactionStatus \<Rightarrow> bool" where
  "localClaimsSettledButProviderFailed loc prov =
     (loc = TransactionStatus.SETTLED \<and> (prov = TransactionStatus.FAILED \<or> prov = TransactionStatus.CANCELLED))"

definition statusMismatchSeverity :: "TransactionStatus \<Rightarrow> TransactionStatus \<Rightarrow> BreakSeverity" where
  "statusMismatchSeverity loc prov =
     (if localClaimsSettledButProviderFailed loc prov then BreakSeverity.CRITICAL else BreakSeverity.MEDIUM)"

definition importIntent :: "NormalizedItem \<Rightarrow> bool \<Rightarrow> AutoResolutionIntent option" where
  "importIntent item ambiguous =
     (if ambiguous then None
      else if ni_direction item \<noteq> Direction.CREDIT then None
      else if ni_side item \<noteq> PROVIDER then None
      else Some (IMPORT_FROM_PROVIDER (ni_id item)))"

definition statusIntent ::
  "ident \<Rightarrow> TransactionStatus \<Rightarrow> TransactionStatus \<Rightarrow> AutoResolutionIntent option" where
  "statusIntent localItemId loc prov =
     (if \<not> providerIsAhead loc prov then None
      else Some (MARK_PROVIDER_AUTHORITATIVE localItemId loc prov))"

definition timingIntent ::
  "ident \<Rightarrow> ident \<Rightarrow> int \<Rightarrow> ReconciliationPolicy \<Rightarrow> AutoResolutionIntent option" where
  "timingIntent localItemId providerItemId drift policy =
     (if drift > autoResolveDateWithinBusinessDays policy then None
      else Some (IGNORE_TIMING_DIFFERENCE localItemId providerItemId drift))"

definition dateMismatchSeverity :: "int \<Rightarrow> ReconciliationPolicy \<Rightarrow> BreakSeverity" where
  "dateMismatchSeverity drift policy =
     (if drift \<le> autoResolveDateWithinBusinessDays policy then BreakSeverity.LOW else BreakSeverity.MEDIUM)"

definition orphanProviderBreakType :: "NormalizedItem \<Rightarrow> BreakType" where
  "orphanProviderBreakType item =
     (if ni_type item = ''FEE'' then UNMATCHED_FEE
      else if ni_type item = ''REFUND'' then ORPHAN_REFUND
      else MISSING_ON_LOCAL)"

definition orphanProviderSeverity :: "NormalizedItem \<Rightarrow> BreakSeverity" where
  "orphanProviderSeverity item =
     (case orphanProviderBreakType item of
        UNMATCHED_FEE \<Rightarrow> BreakSeverity.MEDIUM
      | ORPHAN_REFUND \<Rightarrow> BreakSeverity.HIGH
      | _ \<Rightarrow> missingOnLocalSeverity item)"

end
