(* ===== verification/Recon_Passes.thy ===== *)
theory Recon_Passes
  imports Recon_Types
begin

text \<open>
  The five passes of \<open>src/packages/reconciliation/src/passes\<close> and the engine of \<open>engine.ts\<close> that runs
  them in order over shared, shrinking pools of items.  The mutable \<open>PassState\<close> is a record passed
  along; a pool is a JavaScript map from item identifiers to items.

  \<open>localeCompare\<close> is the argument \<open>lc\<close>; the \<open>Intl\<close> formatter of the balance pass is \<open>brDate\<close>.
\<close>

section \<open>Names in messages\<close>

fun status_name :: "TransactionStatus \<Rightarrow> string" where
  "status_name TransactionStatus.CREATED = ''CREATED''"
| "status_name TransactionStatus.PENDING = ''PENDING''"
| "status_name TransactionStatus.PROCESSING = ''PROCESSING''"
| "status_name TransactionStatus.SETTLED = ''SETTLED''"
| "status_name TransactionStatus.FAILED = ''FAILED''"
| "status_name TransactionStatus.CANCELLED = ''CANCELLED''"
| "status_name TransactionStatus.REVERSED = ''REVERSED''"
| "status_name TransactionStatus.PARTIALLY_REVERSED = ''PARTIALLY_REVERSED''"
| "status_name TransactionStatus.UNKNOWN = ''UNKNOWN''"

fun side_name :: "ReconciliationSide \<Rightarrow> string" where
  "side_name PROVIDER = ''PROVIDER''"
| "side_name LOCAL = ''LOCAL''"
| "side_name LEDGER = ''LEDGER''"

section \<open>Pass state\<close>

type_synonym pool = "(ident, NormalizedItem) jsmap"

record PassState =
  ps_provider :: pool
  ps_local :: pool
  ps_matches :: "MatchLink list"
  ps_breaks :: "BreakDraft list"
  ps_policy :: ReconciliationPolicy
  ps_now :: instant
  ps_pendingSettlement :: "ident list"

definition push_break :: "BreakDraft \<Rightarrow> PassState \<Rightarrow> PassState" where
  "push_break b st = st\<lparr>ps_breaks := ps_breaks st @ [b]\<rparr>"

definition take_provider :: "ident \<Rightarrow> PassState \<Rightarrow> PassState" where
  "take_provider i st = st\<lparr>ps_provider := map_delete i (ps_provider st)\<rparr>"

definition take_local :: "ident \<Rightarrow> PassState \<Rightarrow> PassState" where
  "take_local i st = st\<lparr>ps_local := map_delete i (ps_local st)\<rparr>"

definition match_items ::
  "MatchConfidence \<Rightarrow> nat \<Rightarrow> bool \<Rightarrow> NormalizedItem \<Rightarrow> NormalizedItem \<Rightarrow> PassState \<Rightarrow> PassState" where
  "match_items confidence pass review p c st =
     (let st1 = take_local (ni_id c) (take_provider (ni_id p) st)
      in st1\<lparr>ps_matches := ps_matches st1 @
           [\<lparr>ml_providerItemId = Some (ni_id p), ml_localItemId = Some (ni_id c), ml_ledgerItemId = None,
             ml_confidence = confidence, ml_pass = pass, ml_needsReview = review\<rparr>]\<rparr>)"

section \<open>strong.ts\<close>

definition by_time :: "(string \<Rightarrow> string \<Rightarrow> int) \<Rightarrow> NormalizedItem \<Rightarrow> NormalizedItem \<Rightarrow> int" where
  "by_time lc a b =
     (let d = ni_postedAt a - ni_postedAt b in if d \<noteq> 0 then d else lc (ni_id a) (ni_id b))"

definition escolherMaisAntigo :: "(string \<Rightarrow> string \<Rightarrow> int) \<Rightarrow> NormalizedItem list \<Rightarrow> NormalizedItem option" where
  "escolherMaisAntigo lc items =
     (case js_sort (by_time lc) items of [] \<Rightarrow> None | x # _ \<Rightarrow> Some x)"

definition startsWith :: "string \<Rightarrow> string option \<Rightarrow> bool" where
  "startsWith prefix s = (case s of None \<Rightarrow> False | Some x \<Rightarrow> take (length prefix) x = prefix)"

definition indexBy :: "pool \<Rightarrow> string \<Rightarrow> (string, NormalizedItem list) jsmap" where
  "indexBy items prefixo =
     group_into (\<lambda>item. the (ni_matchKeyStrong item))
       (filter (\<lambda>item. startsWith prefixo (ni_matchKeyStrong item)) (map_values items)) []"

definition side_ids :: "ReconciliationSide \<Rightarrow> ident \<Rightarrow> ident option \<times> ident option" where
  "side_ids lado i =
     (if lado = PROVIDER then Some i else None, if lado = LOCAL then Some i else None)"

definition duplicate_break ::
  "BreakType \<Rightarrow> ReconciliationSide \<Rightarrow> string \<Rightarrow> (string \<times> EvidenceValue) list \<Rightarrow> NormalizedItem \<Rightarrow> BreakDraft" where
  "duplicate_break tipo lado description evidence item =
     (case side_ids lado (ni_id item) of (pid, lid) \<Rightarrow>
       \<lparr>bd_type = tipo, bd_severity = BreakSeverity.HIGH,
        bd_dedupeKey = dedupeKeyFor (ni_endToEndId item) (ni_accountId item) pid lid None False,
        bd_effectiveDate = ni_effectiveDate item, bd_endToEndId = ni_endToEndId item,
        bd_amountCents = Some (ni_amountCents item), bd_deltaCents = None,
        bd_providerItemId = pid, bd_localItemId = lid, bd_ledgerItemId = None,
        bd_description = description, bd_evidence = evidence, bd_autoResolution = None\<rparr>)"

definition drop_side :: "ReconciliationSide \<Rightarrow> ident \<Rightarrow> PassState \<Rightarrow> PassState" where
  "drop_side lado i st = (if lado = LOCAL then take_local i st else take_provider i st)"

definition duplicates_side ::
  "(string \<Rightarrow> string \<Rightarrow> int) \<Rightarrow> string \<Rightarrow> NormalizedItem list \<Rightarrow> BreakType \<Rightarrow> ReconciliationSide \<Rightarrow>
   PassState \<Rightarrow> PassState" where
  "duplicates_side lc chave lista tipo lado st =
     (if length lista \<le> 1 then st
      else
        (let primeiro = the (escolherMaisAntigo lc lista);
             duplicados = filter (\<lambda>item. ni_id item \<noteq> ni_id primeiro) lista
         in foldl (\<lambda>st item. push_break
                (duplicate_break tipo lado (''Mais de um registro com a mesma chave forte '' @ chave)
                   [(''chave'', EvString chave), (''duplicado_de'', EvString (ni_id primeiro)),
                    (''lado'', EvString (side_name lado))] item)
                (drop_side lado (ni_id item) st)) st duplicados))"

definition duplicates ::
  "(string \<Rightarrow> string \<Rightarrow> int) \<Rightarrow> NormalizedItem list \<Rightarrow> NormalizedItem list \<Rightarrow> string \<Rightarrow> PassState \<Rightarrow> PassState" where
  "duplicates lc doProvedor doLocal chave st =
     duplicates_side lc chave doProvedor DUPLICATE_PROVIDER PROVIDER
       (duplicates_side lc chave doLocal DUPLICATE_LOCAL LOCAL st)"

definition pair_break ::
  "NormalizedItem \<Rightarrow> NormalizedItem \<Rightarrow> BreakType \<Rightarrow> BreakSeverity \<Rightarrow> cents option \<Rightarrow> string \<Rightarrow>
   (string \<times> EvidenceValue) list \<Rightarrow> AutoResolutionIntent option \<Rightarrow> BreakDraft" where
  "pair_break p c tipo severity delta description evidence intent =
     \<lparr>bd_type = tipo, bd_severity = severity,
      bd_dedupeKey = dedupeKeyFor (ni_endToEndId p) (ni_accountId p) None (Some (ni_id c)) None False,
      bd_effectiveDate = ni_effectiveDate c, bd_endToEndId = ni_endToEndId p,
      bd_amountCents = Some (ni_amountCents c), bd_deltaCents = delta,
      bd_providerItemId = Some (ni_id p), bd_localItemId = Some (ni_id c), bd_ledgerItemId = None,
      bd_description = description, bd_evidence = evidence, bd_autoResolution = intent\<rparr>"

definition compare_amount :: "NormalizedItem \<Rightarrow> NormalizedItem \<Rightarrow> PassState \<Rightarrow> PassState" where
  "compare_amount p c st =
     (if ni_amountCents p \<noteq> ni_amountCents c then
        (let delta = ni_amountCents p - ni_amountCents c in
         push_break (pair_break p c AMOUNT_MISMATCH (amountMismatchSeverity delta (ps_policy st)) (Some delta)
           ''Valor do provedor diverge do nosso registro''
           [(''provedor_cents'', EvString (show_int (ni_amountCents p))),
            (''local_cents'', EvString (show_int (ni_amountCents c))),
            (''delta_cents'', EvString (show_int delta))] None) st)
      else st)"

definition compare_status :: "NormalizedItem \<Rightarrow> NormalizedItem \<Rightarrow> PassState \<Rightarrow> PassState" where
  "compare_status p c st =
     (case (ni_status p, ni_status c) of
        (Some sp, Some sc) \<Rightarrow>
          if sp \<noteq> sc then
            push_break (pair_break p c STATUS_MISMATCH (statusMismatchSeverity sc sp) None
              (''Provedor diz '' @ status_name sp @ '', nosso registro diz '' @ status_name sc)
              [(''provedor'', EvString (status_name sp)), (''local'', EvString (status_name sc))]
              (statusIntent (ni_id c) sc sp)) st
          else st
      | _ \<Rightarrow> st)"

definition compare_date :: "NormalizedItem \<Rightarrow> NormalizedItem \<Rightarrow> PassState \<Rightarrow> PassState" where
  "compare_date p c st =
     (if ni_effectiveDate p \<noteq> ni_effectiveDate c then
        (let drift = businessDaysBetween (calendar (ps_policy st)) (ni_effectiveDate c) (ni_effectiveDate p) in
         push_break (pair_break p c DATE_MISMATCH (dateMismatchSeverity drift (ps_policy st)) None
           (''Data efetiva diverge em '' @ show_int drift @ '' dia(s) util(eis)'')
           [(''provedor'', EvString (ni_effectiveDate p)), (''local'', EvString (ni_effectiveDate c)),
            (''dias_uteis'', EvNumber drift)]
           (timingIntent (ni_id c) (ni_id p) drift (ps_policy st))) st)
      else st)"

definition compareAttributes :: "NormalizedItem \<Rightarrow> NormalizedItem \<Rightarrow> PassState \<Rightarrow> PassState" where
  "compareAttributes p c st = compare_date p c (compare_status p c (compare_amount p c st))"

definition strong_key ::
  "(string \<Rightarrow> string \<Rightarrow> int) \<Rightarrow> (string, NormalizedItem list) jsmap \<Rightarrow> PassState \<Rightarrow>
   string \<times> NormalizedItem list \<Rightarrow> PassState" where
  "strong_key lc locais st entry =
     (case entry of (chave, doProvedor) \<Rightarrow>
       (case map_get locais chave of
          None \<Rightarrow> st
        | Some doLocal \<Rightarrow>
            if length doLocal = 0 then st
            else
              (let st1 = duplicates lc doProvedor doLocal chave st in
               case (escolherMaisAntigo lc doProvedor, escolherMaisAntigo lc doLocal) of
                 (Some p, Some c) \<Rightarrow> compareAttributes p c (match_items EXACT 1 False p c st1)
               | _ \<Rightarrow> st1)))"

definition strong_prefix :: "(string \<Rightarrow> string \<Rightarrow> int) \<Rightarrow> PassState \<Rightarrow> string \<Rightarrow> PassState" where
  "strong_prefix lc st prefixo =
     (let porChave = indexBy (ps_provider st) prefixo; locais = indexBy (ps_local st) prefixo
      in foldl (strong_key lc locais) st porChave)"

definition passStrong :: "(string \<Rightarrow> string \<Rightarrow> int) \<Rightarrow> PassState \<Rightarrow> PassState" where
  "passStrong lc st = foldl (strong_prefix lc) st [''e2e:'', ''ptx:'']"

section \<open>deterministic-fuzzy.ts\<close>

record Balde =
  ba_provider :: "NormalizedItem list"
  ba_local :: "NormalizedItem list"

definition empty_balde :: Balde where
  "empty_balde = \<lparr>ba_provider = [], ba_local = []\<rparr>"

definition push_provider :: "(string, Balde) jsmap \<Rightarrow> NormalizedItem \<Rightarrow> (string, Balde) jsmap" where
  "push_provider m item =
     (let b = or_else (map_get m (ni_matchKeyFuzzy item)) empty_balde
      in map_set (ni_matchKeyFuzzy item) (b\<lparr>ba_provider := ba_provider b @ [item]\<rparr>) m)"

definition push_local :: "(string, Balde) jsmap \<Rightarrow> NormalizedItem \<Rightarrow> (string, Balde) jsmap" where
  "push_local m item =
     (let b = or_else (map_get m (ni_matchKeyFuzzy item)) empty_balde
      in map_set (ni_matchKeyFuzzy item) (b\<lparr>ba_local := ba_local b @ [item]\<rparr>) m)"

definition agrupar :: "PassState \<Rightarrow> (string, Balde) jsmap" where
  "agrupar st =
     foldl push_local (foldl push_provider [] (map_values (ps_provider st))) (map_values (ps_local st))"

definition candidate_order ::
  "(string \<Rightarrow> string \<Rightarrow> int) \<Rightarrow> (NormalizedItem \<times> NormalizedItem) \<Rightarrow> (NormalizedItem \<times> NormalizedItem) \<Rightarrow> int" where
  "candidate_order lc a b =
     (let delta = (\<lambda>(p, c). \<bar>ni_postedAt p - ni_postedAt c\<bar>); d = delta a - delta b;
          dp = lc (ni_id (fst a)) (ni_id (fst b))
      in if d \<noteq> 0 then d else if dp \<noteq> 0 then dp else lc (ni_id (snd a)) (ni_id (snd b)))"

fun greedy ::
  "ident list \<Rightarrow> ident list \<Rightarrow> (NormalizedItem \<times> NormalizedItem) list \<Rightarrow> (NormalizedItem \<times> NormalizedItem) list" where
  "greedy usadosP usadosC [] = []"
| "greedy usadosP usadosC ((p, c) # cs) =
     (if List.member usadosP (ni_id p) \<or> List.member usadosC (ni_id c) then greedy usadosP usadosC cs
      else (p, c) # greedy (ni_id p # usadosP) (ni_id c # usadosC) cs)"

definition casarGuloso ::
  "(string \<Rightarrow> string \<Rightarrow> int) \<Rightarrow> NormalizedItem list \<Rightarrow> NormalizedItem list \<Rightarrow> (NormalizedItem \<times> NormalizedItem) list" where
  "casarGuloso lc provedor locais =
     greedy [] [] (js_sort (candidate_order lc) (List.product provedor locais))"

definition leftover_side ::
  "NormalizedItem list \<Rightarrow> NormalizedItem list \<Rightarrow> BreakType \<Rightarrow> ReconciliationSide \<Rightarrow> PassState \<Rightarrow> PassState" where
  "leftover_side sobras casados tipo lado st =
     foldl (\<lambda>st sobra.
        (case truthy (ni_counterpartyTaxIdIndex sobra) of
           None \<Rightarrow> st
         | Some idx \<Rightarrow>
             (case find (\<lambda>item. ni_counterpartyTaxIdIndex item = Some idx) casados of
                None \<Rightarrow> st
              | Some gemeo \<Rightarrow>
                  push_break (duplicate_break tipo lado
                      ''Registro excedente com mesma conta, valor, data e contraparte''
                      [(''duplicado_de'', EvString (ni_id gemeo)), (''lado'', EvString (side_name lado))] sobra)
                    (drop_side lado (ni_id sobra) st)))) st sobras"

definition duplicatasSobrando ::
  "(NormalizedItem \<times> NormalizedItem) list \<Rightarrow> NormalizedItem list \<Rightarrow> NormalizedItem list \<Rightarrow> PassState \<Rightarrow> PassState" where
  "duplicatasSobrando pares provedor locais st =
     (let casadosP = map fst pares; casadosC = map snd pares in
      leftover_side (filter (\<lambda>item. \<not> List.member (map ni_id casadosP) (ni_id item)) provedor) casadosP
          DUPLICATE_PROVIDER PROVIDER
        (leftover_side (filter (\<lambda>item. \<not> List.member (map ni_id casadosC) (ni_id item)) locais) casadosC
          DUPLICATE_LOCAL LOCAL st))"

definition fuzzy_bucket :: "(string \<Rightarrow> string \<Rightarrow> int) \<Rightarrow> (string, Balde) jsmap \<Rightarrow> PassState \<Rightarrow> string \<Rightarrow> PassState" where
  "fuzzy_bucket lc baldes st chave =
     (let balde = or_else (map_get baldes chave) empty_balde;
          provedor = js_sort (by_time lc) (ba_provider balde);
          locais = js_sort (by_time lc) (ba_local balde)
      in if length provedor = 0 \<or> length locais = 0 then st
         else
           (let ambiguo = (length provedor > 1 \<or> length locais > 1) in
            if ambiguo \<and> max (length provedor) (length locais) > maxGreedyPairs (ps_policy st) then st
            else
              (let pares = casarGuloso lc provedor locais
               in duplicatasSobrando pares provedor locais
                    (foldl (\<lambda>st (p, c). match_items MatchConfidence.HIGH 2 ambiguo p c st) st pares))))"

definition passDeterministicFuzzy :: "(string \<Rightarrow> string \<Rightarrow> int) \<Rightarrow> PassState \<Rightarrow> PassState" where
  "passDeterministicFuzzy lc st =
     (let baldes = agrupar st in foldl (fuzzy_bucket lc baldes) st (sort (map_keys baldes)))"

section \<open>windowed-fuzzy.ts\<close>

definition by_id :: "(string \<Rightarrow> string \<Rightarrow> int) \<Rightarrow> NormalizedItem \<Rightarrow> NormalizedItem \<Rightarrow> int" where
  "by_id lc a b = lc (ni_id a) (ni_id b)"

definition dentroDaJanela :: "NormalizedItem \<Rightarrow> NormalizedItem \<Rightarrow> PassState \<Rightarrow> bool" where
  "dentroDaJanela p c st =
     (if ni_accountId p \<noteq> ni_accountId c then False
      else if ni_direction p \<noteq> ni_direction c then False
      else
        (let delta = ni_amountCents p - ni_amountCents c;
             absoluto = (if delta < 0 then - delta else delta);
             proporcional = amountTolerance (ni_amountCents c) (amountToleranceBasisPoints (ps_policy st));
             tolerancia = (if amountToleranceCents (ps_policy st) > proporcional
                           then amountToleranceCents (ps_policy st) else proporcional)
         in if absoluto > tolerancia then False
            else \<bar>businessDaysBetween (calendar (ps_policy st)) (ni_effectiveDate c) (ni_effectiveDate p)\<bar>
                   \<le> dateToleranceBusinessDays (ps_policy st)))"

definition faltaNoLocal :: "NormalizedItem \<Rightarrow> bool \<Rightarrow> PassState \<Rightarrow> PassState" where
  "faltaNoLocal p ambiguo st =
     (let tipo = orphanProviderBreakType p in
      push_break
        \<lparr>bd_type = tipo, bd_severity = orphanProviderSeverity p,
         bd_dedupeKey = dedupeKeyFor (ni_endToEndId p) (ni_accountId p) (Some (ni_id p)) None None False,
         bd_effectiveDate = ni_effectiveDate p, bd_endToEndId = ni_endToEndId p,
         bd_amountCents = Some (ni_amountCents p), bd_deltaCents = None,
         bd_providerItemId = Some (ni_id p), bd_localItemId = None, bd_ledgerItemId = None,
         bd_description =
           (if ambiguo then ''Movimento do provedor com mais de um candidato local na janela''
            else ''Movimento no provedor sem registro correspondente no conector''),
         bd_evidence =
           [(''tipo_movimento'', EvString (ni_type p)), (''sentido'', EvString (direction_name (ni_direction p))),
            (''ambiguo'', EvBool ambiguo), (''valor_cents'', EvString (show_int (ni_amountCents p)))],
         bd_autoResolution = (if tipo = MISSING_ON_LOCAL then importIntent p ambiguo else None)\<rparr>
        (take_provider (ni_id p) st))"

definition faltaNoProvedor :: "NormalizedItem \<Rightarrow> PassState \<Rightarrow> PassState" where
  "faltaNoProvedor c st =
     (let st1 = take_local (ni_id c) st; idade = ps_now st - ni_postedAt c in
      if idade < settlementGraceMinutes (ps_policy st) * 60000
      then st1\<lparr>ps_pendingSettlement := ps_pendingSettlement st1 @ [ni_id c]\<rparr>
      else
        push_break
          \<lparr>bd_type = MISSING_ON_PROVIDER, bd_severity = missingOnProviderSeverity c,
           bd_dedupeKey = dedupeKeyFor (ni_endToEndId c) (ni_accountId c) None (Some (ni_id c)) None False,
           bd_effectiveDate = ni_effectiveDate c, bd_endToEndId = ni_endToEndId c,
           bd_amountCents = Some (ni_amountCents c), bd_deltaCents = None,
           bd_providerItemId = None, bd_localItemId = Some (ni_id c), bd_ledgerItemId = None,
           bd_description = ''Registro do conector sem movimento correspondente no provedor'',
           bd_evidence =
             [(''tipo_movimento'', EvString (ni_type c)), (''sentido'', EvString (direction_name (ni_direction c))),
              (''situacao'', (case ni_status c of None \<Rightarrow> EvNull | Some s \<Rightarrow> EvString (status_name s))),
              (''idade_minutos'', EvNumber (idade div 60000))],
           bd_autoResolution = None\<rparr> st1)"

definition windowed_item :: "(string \<Rightarrow> string \<Rightarrow> int) \<Rightarrow> PassState \<Rightarrow> NormalizedItem \<Rightarrow> PassState" where
  "windowed_item lc st p =
     (if \<not> map_has (ps_provider st) (ni_id p) then st
      else
        (let candidatos = js_sort (by_id lc) (filter (\<lambda>c. dentroDaJanela p c st) (map_values (ps_local st)))
         in case candidatos of
              [c] \<Rightarrow> match_items MatchConfidence.LOW 3 True p c st
            | _ \<Rightarrow> faltaNoLocal p (length candidatos > 1) st))"

definition passWindowedFuzzy :: "(string \<Rightarrow> string \<Rightarrow> int) \<Rightarrow> PassState \<Rightarrow> PassState" where
  "passWindowedFuzzy lc st =
     (let st1 = foldl (windowed_item lc) st (js_sort (by_id lc) (map_values (ps_provider st)))
      in foldl (\<lambda>st c. faltaNoProvedor c st) st1 (js_sort (by_id lc) (map_values (ps_local st1))))"

section \<open>ledger-cross.ts\<close>

definition indexarPorTransacao :: "(string \<Rightarrow> string \<Rightarrow> int) \<Rightarrow> pool \<Rightarrow> (ident, NormalizedItem list) jsmap" where
  "indexarPorTransacao lc ledger =
     map (\<lambda>(k, grupo). (k, js_sort (by_id lc) grupo))
       (group_into (\<lambda>item. or_else (ni_ledgerTransactionId item) (ni_id item)) (map_values ledger) [])"

definition consumir :: "NormalizedItem list \<Rightarrow> pool \<Rightarrow> pool" where
  "consumir grupo ledger = foldl (\<lambda>m item. map_delete (ni_id item) m) ledger grupo"

definition local_break ::
  "NormalizedItem \<Rightarrow> BreakType \<Rightarrow> BreakSeverity \<Rightarrow> cents option \<Rightarrow> ident option \<Rightarrow> string \<Rightarrow>
   (string \<times> EvidenceValue) list \<Rightarrow> BreakDraft" where
  "local_break c tipo severity delta ledgerItem description evidence =
     \<lparr>bd_type = tipo, bd_severity = severity,
      bd_dedupeKey = dedupeKeyFor (ni_endToEndId c) (ni_accountId c) None (Some (ni_id c)) None False,
      bd_effectiveDate = ni_effectiveDate c, bd_endToEndId = ni_endToEndId c,
      bd_amountCents = Some (ni_amountCents c), bd_deltaCents = delta,
      bd_providerItemId = None, bd_localItemId = Some (ni_id c), bd_ledgerItemId = ledgerItem,
      bd_description = description, bd_evidence = evidence, bd_autoResolution = None\<rparr>"

definition ev_opt :: "string option \<Rightarrow> EvidenceValue" where
  "ev_opt x = (case x of None \<Rightarrow> EvNull | Some v \<Rightarrow> EvString v)"

definition faltaNoRazao :: "NormalizedItem \<Rightarrow> BreakDraft" where
  "faltaNoRazao c =
     local_break c MISSING_ON_LEDGER BreakSeverity.CRITICAL None None
       ''Transacao casada com o provedor e sem lancamento no razao sombra''
       [(''ledger_transaction_id'', ev_opt (ni_ledgerTransactionId c)),
        (''sentido'', EvString (direction_name (ni_direction c))),
        (''valor_cents'', EvString (show_int (ni_amountCents c)))]"

definition conferirPerna :: "ReconciliationPolicy \<Rightarrow> NormalizedItem \<Rightarrow> NormalizedItem \<Rightarrow> BreakDraft list" where
  "conferirPerna policy c l =
     (if ni_amountCents l \<noteq> ni_amountCents c then
        (let delta = ni_amountCents l - ni_amountCents c in
         [local_break c AMOUNT_MISMATCH BreakSeverity.CRITICAL (Some delta) (Some (ni_id l))
            ''Lancamento do razao sombra diverge em valor do registro canonico''
            [(''razao_cents'', EvString (show_int (ni_amountCents l))),
             (''local_cents'', EvString (show_int (ni_amountCents c))),
             (''delta_cents'', EvString (show_int delta))]])
      else []) @
     (if ni_effectiveDate l \<noteq> ni_effectiveDate c then
        (let dias = businessDaysBetween (calendar policy) (ni_effectiveDate c) (ni_effectiveDate l) in
         [local_break c DATE_MISMATCH BreakSeverity.MEDIUM None (Some (ni_id l))
            ''Lancamento do razao sombra em data efetiva diferente do registro canonico''
            [(''razao'', EvString (ni_effectiveDate l)), (''local'', EvString (ni_effectiveDate c)),
             (''dias_uteis'', EvNumber dias)]])
      else [])"

definition lancamentoOrfao :: "NormalizedItem \<Rightarrow> BreakDraft" where
  "lancamentoOrfao l =
     \<lparr>bd_type = MISSING_ON_LOCAL, bd_severity = BreakSeverity.CRITICAL,
      bd_dedupeKey = dedupeKeyFor None (ni_accountId l) None None (Some (ni_id l)) False,
      bd_effectiveDate = ni_effectiveDate l, bd_endToEndId = None,
      bd_amountCents = Some (ni_amountCents l), bd_deltaCents = None,
      bd_providerItemId = None, bd_localItemId = None, bd_ledgerItemId = Some (ni_id l),
      bd_description = ''Lancamento no razao sombra sem transacao correspondente'',
      bd_evidence =
        [(''ledger_transaction_id'', ev_opt (ni_ledgerTransactionId l)),
         (''sentido'', EvString (direction_name (ni_direction l))),
         (''valor_cents'', EvString (show_int (ni_amountCents l)))],
      bd_autoResolution = None\<rparr>"

text \<open>The group of ledger items of a local item: \<open>c.ledgerTransactionId ? porTransacao.get(..) : undefined\<close>.\<close>

definition ledger_group ::
  "(ident, NormalizedItem list) jsmap \<Rightarrow> NormalizedItem \<Rightarrow> NormalizedItem list option" where
  "ledger_group porTransacao c =
     (case truthy (ni_ledgerTransactionId c) of None \<Rightarrow> None | Some t \<Rightarrow> map_get porTransacao t)"

definition cross_one ::
  "ReconciliationPolicy \<Rightarrow> pool \<Rightarrow> (ident, NormalizedItem list) jsmap \<Rightarrow> MatchLink \<Rightarrow> BreakDraft list \<Rightarrow> pool \<Rightarrow>
   MatchLink \<times> BreakDraft list \<times> pool" where
  "cross_one policy allLocal porTransacao mt breaks ledger =
     (case truthy (ml_localItemId mt) of
        None \<Rightarrow> (mt, breaks, ledger)
      | Some i \<Rightarrow>
          (case map_get allLocal i of
             None \<Rightarrow> (mt, breaks, ledger)
           | Some c \<Rightarrow>
               (case ledger_group porTransacao c of
                  None \<Rightarrow> (mt, breaks @ [faltaNoRazao c], ledger)
                | Some grupo \<Rightarrow>
                    (let l = hd grupo in
                     (mt\<lparr>ml_ledgerItemId := Some (ni_id l)\<rparr>, breaks @ conferirPerna policy c l,
                      consumir grupo ledger)))))"

fun cross_matches ::
  "ReconciliationPolicy \<Rightarrow> pool \<Rightarrow> (ident, NormalizedItem list) jsmap \<Rightarrow> MatchLink list \<Rightarrow> BreakDraft list \<Rightarrow> pool \<Rightarrow>
   MatchLink list \<times> BreakDraft list \<times> pool" where
  "cross_matches policy allLocal porTransacao [] breaks ledger = ([], breaks, ledger)"
| "cross_matches policy allLocal porTransacao (mt # ms) breaks ledger =
     (let (mt', breaks', ledger') = cross_one policy allLocal porTransacao mt breaks ledger;
          (ms', breaks'', ledger'') = cross_matches policy allLocal porTransacao ms breaks' ledger'
      in (mt' # ms', breaks'', ledger''))"

definition consume_unmatched :: "(ident, NormalizedItem list) jsmap \<Rightarrow> pool \<Rightarrow> NormalizedItem \<Rightarrow> pool" where
  "consume_unmatched porTransacao ledger c =
     (case ledger_group porTransacao c of None \<Rightarrow> ledger | Some grupo \<Rightarrow> consumir grupo ledger)"

definition passLedgerCross ::
  "(string \<Rightarrow> string \<Rightarrow> int) \<Rightarrow> ReconciliationPolicy \<Rightarrow> pool \<Rightarrow> pool \<Rightarrow> MatchLink list \<Rightarrow> BreakDraft list \<Rightarrow>
   MatchLink list \<times> BreakDraft list" where
  "passLedgerCross lc policy allLocal ledger matches breaks =
     (let porTransacao = indexarPorTransacao lc ledger;
          (matches', breaks', ledger') = cross_matches policy allLocal porTransacao matches breaks ledger;
          ledger'' = foldl (consume_unmatched porTransacao) ledger' (map_values allLocal)
      in (matches', breaks' @ map lancamentoOrfao (js_sort (by_id lc) (map_values ledger''))))"

section \<open>balance.ts\<close>

definition movement :: "pool \<Rightarrow> cents \<Rightarrow> MatchLink \<Rightarrow> cents" where
  "movement allProvider movimento mt =
     (case truthy (ml_providerItemId mt) of
        None \<Rightarrow> movimento
      | Some i \<Rightarrow>
          (case map_get allProvider i of
             None \<Rightarrow> movimento
           | Some p \<Rightarrow> movimento +
               (if ni_direction p = Direction.CREDIT then ni_amountCents p else - ni_amountCents p)))"

definition balance_break ::
  "(instant \<Rightarrow> string) \<Rightarrow> ReconciliationInput \<Rightarrow> cents \<Rightarrow> cents \<Rightarrow> cents \<Rightarrow> BreakDraft" where
  "balance_break brDate inp opening movimento closing =
     (let esperado = opening + movimento; residuo = closing - esperado in
      \<lparr>bd_type = BALANCE_MISMATCH, bd_severity = BreakSeverity.CRITICAL,
       bd_dedupeKey = dedupeKeyFor None (ri_accountId inp) None None None True,
       bd_effectiveDate = brDate (ri_windowEnd inp), bd_endToEndId = None,
       bd_amountCents = None, bd_deltaCents = Some residuo,
       bd_providerItemId = None, bd_localItemId = None, bd_ledgerItemId = None,
       bd_description = ''Saldo de fechamento do provedor nao fecha com os movimentos casados'',
       bd_evidence =
         [(''abertura_cents'', EvString (show_int opening)),
          (''movimento_casado_cents'', EvString (show_int movimento)),
          (''fechamento_esperado_cents'', EvString (show_int esperado)),
          (''fechamento_provedor_cents'', EvString (show_int closing)),
          (''fechamento_razao_cents'', ev_opt (map_option show_int (ledgerClosingCents (ri_balances inp)))),
          (''residuo_cents'', EvString (show_int residuo))],
       bd_autoResolution = None\<rparr>)"

definition passBalance ::
  "(instant \<Rightarrow> string) \<Rightarrow> ReconciliationInput \<Rightarrow> pool \<Rightarrow> MatchLink list \<Rightarrow> BreakDraft list \<Rightarrow>
   BalanceResult \<times> BreakDraft list" where
  "passBalance brDate inp allProvider matches breaks =
     (let b = ri_balances inp;
          movimento = foldl (movement allProvider) 0 matches;
          delta = (case (providerClosingCents b, ledgerClosingCents b) of
                     (Some pc, Some lcl) \<Rightarrow> Some (pc - lcl) | _ \<Rightarrow> None);
          base = \<lparr>br_openingCents = providerOpeningCents b, br_matchedMovementCents = movimento,
                  br_expectedClosingCents = None, br_providerClosingCents = providerClosingCents b,
                  br_ledgerClosingCents = ledgerClosingCents b, br_balanceDeltaCents = delta,
                  br_skippedReason = None\<rparr>
      in case providerOpeningCents b of
           None \<Rightarrow> (base\<lparr>br_skippedReason := Some no_provider_opening\<rparr>, breaks)
         | Some opening \<Rightarrow>
             (case providerClosingCents b of
                None \<Rightarrow> (base\<lparr>br_skippedReason := Some no_provider_closing\<rparr>, breaks)
              | Some closing \<Rightarrow>
                  (let esperado = opening + movimento; residuo = closing - esperado;
                       resultado = base\<lparr>br_expectedClosingCents := Some esperado\<rparr>
                   in if residuo = 0 then (resultado, breaks)
                      else if length breaks > 0 then (resultado, breaks)
                      else (resultado, breaks @ [balance_break brDate inp opening movimento closing]))))"

section \<open>engine.ts\<close>

definition indexar :: "NormalizedItem list \<Rightarrow> pool" where
  "indexar items = foldl (\<lambda>m item. map_set (ni_id item) item m) [] items"

definition initial_state :: "ReconciliationInput \<Rightarrow> PassState" where
  "initial_state inp =
     \<lparr>ps_provider = indexar (ri_provider inp), ps_local = indexar (ri_local inp), ps_matches = [],
      ps_breaks = [], ps_policy = ri_policy inp, ps_now = ri_now inp, ps_pendingSettlement = []\<rparr>"

definition three_passes :: "(string \<Rightarrow> string \<Rightarrow> int) \<Rightarrow> ReconciliationInput \<Rightarrow> PassState" where
  "three_passes lc inp =
     passWindowedFuzzy lc (passDeterministicFuzzy lc (passStrong lc (initial_state inp)))"

definition reconcile ::
  "(string \<Rightarrow> string \<Rightarrow> int) \<Rightarrow> (instant \<Rightarrow> string) \<Rightarrow> ReconciliationInput \<Rightarrow> ReconciliationResult" where
  "reconcile lc brDate inp =
     (let st = three_passes lc inp;
          (matches, breaks) = passLedgerCross lc (ri_policy inp) (indexar (ri_local inp))
             (indexar (ri_ledger inp)) (ps_matches st) (ps_breaks st);
          (balance, breaks') = passBalance brDate inp (indexar (ri_provider inp)) matches breaks
      in \<lparr>rr_matches = matches, rr_breaks = breaks',
          rr_counters = \<lparr>providerItemCount = length (ri_provider inp), localItemCount = length (ri_local inp),
             ledgerItemCount = length (ri_ledger inp), matchedCount = length matches,
             breakCount = length breaks'\<rparr>,
          rr_balance = balance, rr_pendingSettlement = ps_pendingSettlement st\<rparr>)"

end
