(* ===== verification/Recon_Accounting.thy ===== *)
theory Recon_Accounting
  imports Recon_Passes
begin

text \<open>
  Conservation of items in the reconciliation engine: each pass moves items out of the two pools into
  exactly one place each (a match, a break about that item alone, or the list of pending
  settlements), so that after the third pass every item is accounted for exactly once.
\<close>

section \<open>Where an item can end\<close>

definition m_prov :: "MatchLink list \<Rightarrow> ident list" where
  "m_prov ms = concat (map (\<lambda>m. case ml_providerItemId m of None \<Rightarrow> [] | Some i \<Rightarrow> [i]) ms)"

definition m_loc :: "MatchLink list \<Rightarrow> ident list" where
  "m_loc ms = concat (map (\<lambda>m. case ml_localItemId m of None \<Rightarrow> [] | Some i \<Rightarrow> [i]) ms)"

text \<open>Breaks about one provider item alone, and about one local item alone.\<close>

definition b_prov :: "BreakDraft list \<Rightarrow> ident list" where
  "b_prov bs = concat (map (\<lambda>b. case (bd_providerItemId b, bd_localItemId b) of
      (Some i, None) \<Rightarrow> [i] | _ \<Rightarrow> []) bs)"

definition b_loc :: "BreakDraft list \<Rightarrow> ident list" where
  "b_loc bs = concat (map (\<lambda>b.
      if bd_type b = DUPLICATE_LOCAL \<or> bd_type b = MISSING_ON_PROVIDER
      then (case bd_localItemId b of None \<Rightarrow> [] | Some i \<Rightarrow> [i]) else []) bs)"

lemma done_append [simp]:
  "m_prov (xs @ ys) = m_prov xs @ m_prov ys" "m_loc (xs @ ys) = m_loc xs @ m_loc ys"
  "b_prov (as @ bs) = b_prov as @ b_prov bs" "b_loc (as @ bs) = b_loc as @ b_loc bs"
  by (simp_all add: m_prov_def m_loc_def b_prov_def b_loc_def)

lemma done_Nil [simp]: "m_prov [] = []" "m_loc [] = []" "b_prov [] = []" "b_loc [] = []"
  by (simp_all add: m_prov_def m_loc_def b_prov_def b_loc_def)

definition pool_ok :: "pool \<Rightarrow> bool" where
  "pool_ok m \<longleftrightarrow> wf_map m \<and> (\<forall>(k, x)\<in>set m. ni_id x = k)"

abbreviation keysP :: "PassState \<Rightarrow> ident set" where
  "keysP st \<equiv> set (map_keys (ps_provider st))"

abbreviation keysL :: "PassState \<Rightarrow> ident set" where
  "keysL st \<equiv> set (map_keys (ps_local st))"

definition acct :: "ident multiset \<Rightarrow> ident multiset \<Rightarrow> PassState \<Rightarrow> bool" where
  "acct P L st \<longleftrightarrow>
     pool_ok (ps_provider st) \<and> pool_ok (ps_local st) \<and>
     mset (map_keys (ps_provider st)) + mset (m_prov (ps_matches st)) + mset (b_prov (ps_breaks st)) = P \<and>
     mset (map_keys (ps_local st)) + mset (m_loc (ps_matches st)) + mset (b_loc (ps_breaks st)) +
       mset (ps_pendingSettlement st) = L"

text \<open>\<open>uses P L A B st st'\<close>: the books still balance in \<open>st'\<close>, and at most the provider items \<open>A\<close> and
  the local items \<open>B\<close> have left the pools.\<close>

definition uses ::
  "ident multiset \<Rightarrow> ident multiset \<Rightarrow> ident set \<Rightarrow> ident set \<Rightarrow> PassState \<Rightarrow> PassState \<Rightarrow> bool" where
  "uses P L A B st st' \<longleftrightarrow> acct P L st' \<and> keysP st - A \<subseteq> keysP st' \<and> keysL st - B \<subseteq> keysL st'"

lemma uses_refl: "acct P L st \<Longrightarrow> uses P L A B st st"
  by (auto simp: uses_def)

lemma uses_trans: "uses P L A B st st1 \<Longrightarrow> uses P L A' B' st1 st2 \<Longrightarrow> uses P L (A \<union> A') (B \<union> B') st st2"
  by (auto simp: uses_def)

lemma uses_mono: "uses P L A B st st' \<Longrightarrow> A \<subseteq> A' \<Longrightarrow> B \<subseteq> B' \<Longrightarrow> uses P L A' B' st st'"
  by (auto simp: uses_def)

lemma uses_foldl:
  assumes "acct P L st"
    and "\<And>st x. x \<in> set xs \<Longrightarrow> acct P L st \<Longrightarrow> RA x \<subseteq> keysP st \<Longrightarrow> RB x \<subseteq> keysL st \<Longrightarrow> uses P L (A x) (B x) st (f st x)"
    and "\<forall>x\<in>set xs. RA x \<subseteq> keysP st \<and> RB x \<subseteq> keysL st"
    and "sorted_wrt (\<lambda>x y. A x \<inter> RA y = {} \<and> B x \<inter> RB y = {}) xs"
  shows "uses P L (\<Union>x\<in>set xs. A x) (\<Union>x\<in>set xs. B x) st (foldl f st xs)"
  using assms
proof (induction xs arbitrary: st)
  case (Cons x xs)
  have one: "uses P L (A x) (B x) st (f st x)" using Cons.prems by simp
  have rest: "uses P L (\<Union>x\<in>set xs. A x) (\<Union>x\<in>set xs. B x) (f st x) (foldl f (f st x) xs)"
  proof (rule Cons.IH)
    show "acct P L (f st x)" using one by (simp add: uses_def)
    show "\<forall>y\<in>set xs. RA y \<subseteq> keysP (f st x) \<and> RB y \<subseteq> keysL (f st x)"
      using one Cons.prems(3,4) unfolding uses_def by (auto; blast)
    show "sorted_wrt (\<lambda>x y. A x \<inter> RA y = {} \<and> B x \<inter> RB y = {}) xs" using Cons.prems(4) by simp
  qed (use Cons.prems(2) in auto)
  from uses_trans [OF one rest] show ?case by simp
qed (simp add: uses_refl)

section \<open>Single moves\<close>

lemma mset_filter_other:
  "distinct xs \<Longrightarrow> k \<in> set xs \<Longrightarrow> mset xs = add_mset k (mset (filter (\<lambda>x. x \<noteq> k) xs))"
proof (induction xs)
  case (Cons x xs)
  show ?case
  proof (cases "x = k")
    case True
    with Cons.prems have "filter (\<lambda>x. x \<noteq> k) xs = xs" by (auto simp: filter_id_conv)
    with True show ?thesis by (simp del: mset_filter)
  next
    case False
    with Cons have "mset xs = add_mset k (mset (filter (\<lambda>x. x \<noteq> k) xs))" by auto
    with False show ?thesis by (simp del: mset_filter)
  qed
qed simp

lemma map_keys_delete:
  assumes "wf_map m" "k \<in> set (map_keys m)"
  shows "mset (map_keys m) = add_mset k (mset (map_keys (map_delete k m)))"
    "set (map_keys (map_delete k m)) = set (map_keys m) - {k}"
proof -
  have keys: "map_keys (map_delete k m) = filter (\<lambda>x. x \<noteq> k) (map_keys m)"
    by (induction m) (auto simp: map_keys_def)
  have "distinct (map_keys m)" using assms(1) by (simp add: wf_map_def map_keys_def)
  with assms(2) show "mset (map_keys m) = add_mset k (mset (map_keys (map_delete k m)))"
    unfolding keys by (intro mset_filter_other)
  show "set (map_keys (map_delete k m)) = set (map_keys m) - {k}" by (auto simp: keys)
qed

lemma pool_ok_delete: "pool_ok m \<Longrightarrow> pool_ok (map_delete k m)"
proof -
  assume m: "pool_ok m"
  then have "wf_map (map_delete k m)" by (intro alist.invar_del) (simp add: pool_ok_def)
  moreover have "set (map_delete k m) \<subseteq> set m" by (auto simp: AList.delete_eq)
  ultimately show ?thesis using m by (auto simp: pool_ok_def)
qed

lemma match_items_fields:
  "ps_provider (match_items conf n r p c st) = map_delete (ni_id p) (ps_provider st)"
  "ps_local (match_items conf n r p c st) = map_delete (ni_id c) (ps_local st)"
  "mset (m_prov (ps_matches (match_items conf n r p c st))) = add_mset (ni_id p) (mset (m_prov (ps_matches st)))"
  "mset (m_loc (ps_matches (match_items conf n r p c st))) = add_mset (ni_id c) (mset (m_loc (ps_matches st)))"
  "ps_breaks (match_items conf n r p c st) = ps_breaks st"
  "ps_pendingSettlement (match_items conf n r p c st) = ps_pendingSettlement st"
  by (simp_all add: match_items_def take_local_def take_provider_def Let_def m_prov_def m_loc_def)

lemma acct_match:
  assumes a: "acct P L st" and p: "ni_id p \<in> keysP st" and c: "ni_id c \<in> keysL st"
  shows "uses P L {ni_id p} {ni_id c} st (match_items conf n r p c st)"
proof -
  have wf: "wf_map (ps_provider st)" "wf_map (ps_local st)" using a by (auto simp: acct_def pool_ok_def)
  note dp = map_keys_delete [OF wf(1) p] and dc = map_keys_delete [OF wf(2) c]
  have "acct P L (match_items conf n r p c st)"
    using a unfolding acct_def match_items_fields dp(1) dc(1) by (simp add: pool_ok_delete)
  then show ?thesis unfolding uses_def match_items_fields using dp(2) dc(2) by simp
qed

lemma acct_push:
  assumes "acct P L st" "b_prov [b] = []" "b_loc [b] = []"
  shows "uses P L {} {} st (push_break b st)"
  using assms by (simp add: uses_def acct_def push_break_def)

lemma push_break_fields:
  "ps_provider (push_break b st) = ps_provider st" "ps_local (push_break b st) = ps_local st"
  "ps_matches (push_break b st) = ps_matches st" "ps_breaks (push_break b st) = ps_breaks st @ [b]"
  "ps_pendingSettlement (push_break b st) = ps_pendingSettlement st"
  by (simp_all add: push_break_def)

lemma take_fields:
  "ps_provider (take_provider i st) = map_delete i (ps_provider st)" "ps_local (take_provider i st) = ps_local st"
  "ps_matches (take_provider i st) = ps_matches st" "ps_breaks (take_provider i st) = ps_breaks st"
  "ps_pendingSettlement (take_provider i st) = ps_pendingSettlement st"
  "ps_provider (take_local i st) = ps_provider st" "ps_local (take_local i st) = map_delete i (ps_local st)"
  "ps_matches (take_local i st) = ps_matches st" "ps_breaks (take_local i st) = ps_breaks st"
  "ps_pendingSettlement (take_local i st) = ps_pendingSettlement st"
  by (simp_all add: take_provider_def take_local_def)

lemma acct_drop_provider:
  assumes a: "acct P L st" and p: "i \<in> keysP st" and b: "b_prov [b] = [i]" "b_loc [b] = []"
  shows "uses P L {i} {} st (push_break b (take_provider i st))"
proof -
  have wf: "wf_map (ps_provider st)" using a by (auto simp: acct_def pool_ok_def)
  note d = map_keys_delete [OF wf p]
  have "acct P L (push_break b (take_provider i st))"
    using a unfolding acct_def push_break_fields take_fields d(1) done_append b by (simp add: pool_ok_delete)
  then show ?thesis unfolding uses_def push_break_fields take_fields using d(2) by simp
qed

lemma acct_drop_local:
  assumes a: "acct P L st" and p: "i \<in> keysL st" and b: "b_prov [b] = []" "b_loc [b] = [i]"
  shows "uses P L {} {i} st (push_break b (take_local i st))"
proof -
  have wf: "wf_map (ps_local st)" using a by (auto simp: acct_def pool_ok_def)
  note d = map_keys_delete [OF wf p]
  have "acct P L (push_break b (take_local i st))"
    using a unfolding acct_def push_break_fields take_fields d(1) done_append b by (simp add: pool_ok_delete)
  then show ?thesis unfolding uses_def push_break_fields take_fields using d(2) by simp
qed


lemma pool_values:
  assumes "pool_ok m"
  shows "x \<in> set (map_values m) \<Longrightarrow> ni_id x \<in> set (map_keys m)"
    and "x \<in> set (map_values m) \<Longrightarrow> y \<in> set (map_values m) \<Longrightarrow> ni_id x = ni_id y \<Longrightarrow> x = y"
    and "map ni_id (map_values m) = map_keys m" "distinct (map ni_id (map_values m))"
proof -
  show ids: "map ni_id (map_values m) = map_keys m"
    using assms by (auto simp: pool_ok_def map_values_def map_keys_def)
  then show d: "distinct (map ni_id (map_values m))"
    using assms by (simp add: pool_ok_def wf_map_def map_keys_def)
  show "x \<in> set (map_values m) \<Longrightarrow> ni_id x \<in> set (map_keys m)" by (simp flip: ids)
  show "x \<in> set (map_values m) \<Longrightarrow> y \<in> set (map_values m) \<Longrightarrow> ni_id x = ni_id y \<Longrightarrow> x = y"
    using d by (simp add: distinct_map inj_on_def)
qed

section \<open>Pass 1\<close>

abbreviation ids :: "NormalizedItem list \<Rightarrow> ident set" where
  "ids xs \<equiv> ni_id ` set xs"

lemma uses_duplicate_local:
  assumes "acct P L st" "ni_id x \<in> keysL st"
  shows "uses P L {} {ni_id x} st (push_break (duplicate_break DUPLICATE_LOCAL LOCAL d e x) (drop_side LOCAL (ni_id x) st))"
  using acct_drop_local [OF assms, of "duplicate_break DUPLICATE_LOCAL LOCAL d e x"]
  by (simp add: drop_side_def duplicate_break_def side_ids_def b_prov_def b_loc_def)

lemma uses_duplicate_provider:
  assumes "acct P L st" "ni_id x \<in> keysP st"
  shows "uses P L {ni_id x} {} st
    (push_break (duplicate_break DUPLICATE_PROVIDER PROVIDER d e x) (drop_side PROVIDER (ni_id x) st))"
  using acct_drop_provider [OF assms, of "duplicate_break DUPLICATE_PROVIDER PROVIDER d e x"]
  by (simp add: drop_side_def duplicate_break_def side_ids_def b_prov_def b_loc_def)

lemma distinct_ids_sorted: "distinct (map ni_id xs) \<Longrightarrow> sorted_wrt (\<lambda>x y. ni_id y \<noteq> ni_id x) xs"
  by (induction xs) (force simp: image_iff)+

lemma oldest_in: "xs \<noteq> [] \<Longrightarrow> \<exists>x\<in>set xs. escolherMaisAntigo lc xs = Some x"
proof -
  assume "xs \<noteq> []"
  then have "js_sort (by_time lc) xs \<noteq> []" by (metis length_js_sort length_0_conv)
  then obtain x ys where s: "js_sort (by_time lc) xs = x # ys" by (meson neq_Nil_conv)
  then have "x \<in> set xs" by (metis set_js_sort list.set_intros(1))
  with s show ?thesis by (auto simp: escolherMaisAntigo_def)
qed

lemma uses_duplicates_local:
  assumes "acct P L st" "ids xs \<subseteq> keysL st" "distinct (map ni_id xs)" "escolherMaisAntigo lc xs = Some c"
  shows "uses P L {} (ids xs - {ni_id c}) st (duplicates_side lc k xs DUPLICATE_LOCAL LOCAL st)"
proof (cases "length xs \<le> 1")
  case True
  then show ?thesis using assms(1) by (simp add: duplicates_side_def uses_refl)
next
  case False
  let ?ys = "filter (\<lambda>item. ni_id item \<noteq> ni_id c) xs"
  have d: "distinct (map ni_id ?ys)" using assms(3) by (simp add: distinct_map inj_on_def)
  have "uses P L (\<Union>x\<in>set ?ys. {}) (\<Union>x\<in>set ?ys. {ni_id x}) st (duplicates_side lc k xs DUPLICATE_LOCAL LOCAL st)"
    unfolding duplicates_side_def assms(4) using False
    apply (simp only: if_False Let_def option.sel)
    apply (rule uses_foldl [where RA = "\<lambda>_. {}" and RB = "\<lambda>x. {ni_id x}"])
    using assms(1,2) distinct_ids_sorted [OF d] by (auto intro: uses_duplicate_local)
  then show ?thesis by (rule uses_mono) auto
qed

lemma uses_duplicates_provider:
  assumes "acct P L st" "ids xs \<subseteq> keysP st" "distinct (map ni_id xs)" "escolherMaisAntigo lc xs = Some p"
  shows "uses P L (ids xs - {ni_id p}) {} st (duplicates_side lc k xs DUPLICATE_PROVIDER PROVIDER st)"
proof (cases "length xs \<le> 1")
  case True
  then show ?thesis using assms(1) by (simp add: duplicates_side_def uses_refl)
next
  case False
  let ?ys = "filter (\<lambda>item. ni_id item \<noteq> ni_id p) xs"
  have d: "distinct (map ni_id ?ys)" using assms(3) by (simp add: distinct_map inj_on_def)
  have "uses P L (\<Union>x\<in>set ?ys. {ni_id x}) (\<Union>x\<in>set ?ys. {}) st (duplicates_side lc k xs DUPLICATE_PROVIDER PROVIDER st)"
    unfolding duplicates_side_def assms(4) using False
    apply (simp only: if_False Let_def option.sel)
    apply (rule uses_foldl [where RA = "\<lambda>x. {ni_id x}" and RB = "\<lambda>_. {}"])
    using assms(1,2) distinct_ids_sorted [OF d] by (auto intro: uses_duplicate_provider)
  then show ?thesis by (rule uses_mono) auto
qed

lemma neutral_pair_break:
  "tipo \<noteq> DUPLICATE_LOCAL \<Longrightarrow> tipo \<noteq> MISSING_ON_PROVIDER \<Longrightarrow>
   b_prov [pair_break p c tipo s d t e i] = [] \<and> b_loc [pair_break p c tipo s d t e i] = []"
  by (simp add: pair_break_def b_prov_def b_loc_def)

lemma uses_compare:
  assumes "acct P L st"
  shows "uses P L {} {} st (compareAttributes p c st)"
proof -
  have a: "uses P L {} {} st (compare_amount p c st)" if "acct P L st" for st
    using that neutral_pair_break by (simp add: compare_amount_def Let_def uses_refl acct_push)
  have b: "uses P L {} {} st (compare_status p c st)" if "acct P L st" for st
    using that neutral_pair_break
    by (simp add: compare_status_def Let_def uses_refl acct_push split: option.split)
  have c: "uses P L {} {} st (compare_date p c st)" if "acct P L st" for st
    using that neutral_pair_break by (simp add: compare_date_def Let_def uses_refl acct_push)
  note s1 = a [OF assms]
  from s1 have "acct P L (compare_amount p c st)" by (simp add: uses_def)
  note s2 = b [OF this]
  from s2 have "acct P L (compare_status p c (compare_amount p c st))" by (simp add: uses_def)
  note s3 = c [OF this]
  from uses_trans [OF uses_trans [OF s1 s2] s3] show ?thesis by (simp add: compareAttributes_def)
qed

lemma uses_strong_pair:
  assumes a: "acct P L st" and gp: "ids g \<subseteq> keysP st" "distinct (map ni_id g)" "g \<noteq> []"
    and gl: "ids h \<subseteq> keysL st" "distinct (map ni_id h)" "h \<noteq> []" and l: "map_get locais k = Some h"
  shows "uses P L (ids g) (ids h) st (strong_key lc locais st (k, g))"
proof -
  obtain p where p: "p \<in> set g" "escolherMaisAntigo lc g = Some p" using oldest_in [OF gp(3)] by blast
  obtain c where c: "c \<in> set h" "escolherMaisAntigo lc h = Some c" using oldest_in [OF gl(3)] by blast
  let ?s1 = "duplicates_side lc k h DUPLICATE_LOCAL LOCAL st"
  let ?s2 = "duplicates_side lc k g DUPLICATE_PROVIDER PROVIDER ?s1"
  have u1: "uses P L {} (ids h - {ni_id c}) st ?s1" by (rule uses_duplicates_local) (use a gl c in auto)
  then have "acct P L ?s1" "ids g \<subseteq> keysP ?s1" using gp(1) by (auto simp: uses_def)
  then have u2: "uses P L (ids g - {ni_id p}) {} ?s1 ?s2"
    by (rule uses_duplicates_provider) (use gp p in auto)
  note u12 = uses_trans [OF u1 u2]
  then have "acct P L ?s2" "ni_id p \<in> keysP ?s2" "ni_id c \<in> keysL ?s2"
    using gp(1) gl(1) p(1) c(1) by (auto simp: uses_def)
  note u3 = acct_match [OF this, of EXACT 1 False]
  then have "acct P L (match_items EXACT 1 False p c ?s2)" by (simp add: uses_def)
  note u4 = uses_compare [OF this, of p c]
  have "strong_key lc locais st (k, g) = compareAttributes p c (match_items EXACT 1 False p c ?s2)"
    using l gl(3) p(2) c(2) by (simp add: strong_key_def duplicates_def)
  with uses_trans [OF u12 uses_trans [OF u3 u4]] show ?thesis
    by (simp, elim uses_mono) (use p(1) c(1) in auto)
qed

lemma indexBy_mem:
  assumes kg: "(k, g) \<in> set (indexBy m prefixo)"
  shows "g \<noteq> []" "set g \<subseteq> set (map_values m)" "\<forall>x\<in>set g. ni_matchKeyStrong x = Some k"
proof -
  note gm = group_into_mem [OF kg [unfolded indexBy_def]]
  show "g \<noteq> []" by (rule gm(2))
  show "set g \<subseteq> set (map_values m)" by (subst gm(1)) auto
  show "\<forall>x\<in>set g. ni_matchKeyStrong x = Some k"
    by (subst gm(1)) (auto simp: startsWith_def split: option.splits)
qed

lemma indexBy_group:
  assumes m: "pool_ok m" and kg: "(k, g) \<in> set (indexBy m prefixo)"
  shows "g \<noteq> []" "set g \<subseteq> set (map_values m)" "distinct (map ni_id g)"
    "\<forall>x\<in>set g. ni_matchKeyStrong x = Some k"
proof -
  note gm = group_into_mem [OF kg [unfolded indexBy_def]]
  show "distinct (map ni_id g)"
    by (subst gm(1)) (use pool_values(4) [OF m] in \<open>simp add: distinct_map inj_on_def\<close>)
qed (use indexBy_mem [OF kg] in auto)

lemma indexBy_get:
  assumes "map_get (indexBy m prefixo) k = Some g"
  shows "(k, g) \<in> set (indexBy m prefixo)"
  using assms by (rule map_of_SomeD)

lemma indexBy_wf: "wf_map (indexBy m prefixo)"
  unfolding indexBy_def by (rule group_into_wf) simp

lemma wf_map_sorted: "wf_map m \<Longrightarrow> sorted_wrt (\<lambda>x y. fst x \<noteq> fst y) m"
  by (induction m) (force simp: wf_map_def image_iff)+

lemma groups_disjoint:
  assumes m: "pool_ok m" and "(k, g) \<in> set (indexBy m pre)" "(k', g') \<in> set (indexBy m pre)" "k \<noteq> k'"
  shows "ids g \<inter> ids g' = {}"
proof (rule equals0I)
  fix i assume "i \<in> ids g \<inter> ids g'"
  then obtain x y where xy: "x \<in> set g" "y \<in> set g'" "ni_id x = ni_id y" by auto
  then have "x = y"
    using indexBy_group(2) [OF m assms(2)] indexBy_group(2) [OF m assms(3)] pool_values(2) [OF m] by blast
  then show False
    using xy indexBy_group(4) [OF m assms(2)] indexBy_group(4) [OF m assms(3)] assms(4) by auto
qed

definition group_ids :: "(string, NormalizedItem list) jsmap \<Rightarrow> string \<Rightarrow> ident set" where
  "group_ids m k = (case map_get m k of None \<Rightarrow> {} | Some g \<Rightarrow> ids g)"

lemma acct_strong_prefix:
  assumes a: "acct P L st"
  shows "acct P L (strong_prefix lc st prefixo)"
proof -
  let ?I = "indexBy (ps_provider st) prefixo" and ?J = "indexBy (ps_local st) prefixo"
  have ok: "pool_ok (ps_provider st)" "pool_ok (ps_local st)" using a by (auto simp: acct_def)
  have J: "group_ids ?J k \<inter> group_ids ?J k' = {}" if "k \<noteq> k'" for k k'
    using groups_disjoint [OF ok(2) indexBy_get indexBy_get that]
    by (auto simp: group_ids_def split: option.splits)
  have Jsub: "group_ids ?J k \<subseteq> keysL st" for k
    using indexBy_group(2) [OF ok(2) indexBy_get] pool_values(1) [OF ok(2)]
    by (fastforce simp: group_ids_def split: option.splits)
  have "uses P L (\<Union>e\<in>set ?I. ids (snd e)) (\<Union>e\<in>set ?I. group_ids ?J (fst e)) st
      (foldl (strong_key lc ?J) st ?I)"
  proof (rule uses_foldl [where RA = "\<lambda>e. ids (snd e)" and RB = "\<lambda>e. group_ids ?J (fst e)", OF a])
    fix st' e assume e: "e \<in> set ?I" and st': "acct P L st'" "ids (snd e) \<subseteq> keysP st'"
      "group_ids ?J (fst e) \<subseteq> keysL st'"
    obtain k g where kg: "e = (k, g)" by (cases e)
    show "uses P L (ids (snd e)) (group_ids ?J (fst e)) st' (strong_key lc ?J st' e)"
    proof (cases "map_get ?J k")
      case None
      then show ?thesis using st'(1) kg by (simp add: strong_key_def uses_refl)
    next
      case (Some h)
      note h = indexBy_group [OF ok(2) indexBy_get [OF Some]]
      note g = indexBy_group [OF ok(1) e [unfolded kg]]
      show ?thesis using uses_strong_pair [OF st'(1) _ g(3,1) _ h(3,1) Some] st' Some kg
        by (simp add: group_ids_def)
    qed
  next
    show "\<forall>e\<in>set ?I. ids (snd e) \<subseteq> keysP st \<and> group_ids ?J (fst e) \<subseteq> keysL st"
      using indexBy_group(2) [OF ok(1)] pool_values(1) [OF ok(1)] Jsub by fastforce
    show "sorted_wrt (\<lambda>x y. ids (snd x) \<inter> ids (snd y) = {} \<and>
        group_ids ?J (fst x) \<inter> group_ids ?J (fst y) = {}) ?I"
      using wf_map_sorted [OF indexBy_wf]
      by (rule sorted_wrt_mono_rel [rotated]) (metis groups_disjoint [OF ok(1)] J prod.collapse)
  qed
  then show ?thesis by (simp add: strong_prefix_def Let_def uses_def)
qed

lemma acct_passStrong: "acct P L st \<Longrightarrow> acct P L (passStrong lc st)"
  by (simp add: passStrong_def acct_strong_prefix)

section \<open>Pass 2\<close>

definition balde_of :: "(string, Balde) jsmap \<Rightarrow> string \<Rightarrow> Balde" where
  "balde_of m k = or_else (map_get m k) empty_balde"

lemma balde_push_provider:
  "balde_of (foldl push_provider m xs) k =
     (balde_of m k)\<lparr>ba_provider := ba_provider (balde_of m k) @ filter (\<lambda>x. ni_matchKeyFuzzy x = k) xs\<rparr>"
  by (induction xs arbitrary: m) (simp_all add: push_provider_def balde_of_def update_conv' Let_def)

lemma balde_push_local:
  "balde_of (foldl push_local m xs) k =
     (balde_of m k)\<lparr>ba_local := ba_local (balde_of m k) @ filter (\<lambda>x. ni_matchKeyFuzzy x = k) xs\<rparr>"
  by (induction xs arbitrary: m) (simp_all add: push_local_def balde_of_def update_conv' Let_def)

lemma agrupar_get:
  "or_else (map_get (agrupar st) k) empty_balde =
     \<lparr>ba_provider = filter (\<lambda>x. ni_matchKeyFuzzy x = k) (map_values (ps_provider st)),
      ba_local = filter (\<lambda>x. ni_matchKeyFuzzy x = k) (map_values (ps_local st))\<rparr>"
  unfolding agrupar_def balde_of_def [symmetric] balde_push_local balde_push_provider
  by (simp add: balde_of_def empty_balde_def)

lemma wf_push: "wf_map m \<Longrightarrow> wf_map (foldl push_provider m xs)" "wf_map m \<Longrightarrow> wf_map (foldl push_local m xs)"
  by (induction xs arbitrary: m) (simp_all add: push_provider_def push_local_def alist.invar_put Let_def)

lemma agrupar_wf: "distinct (map_keys (agrupar st))"
  using wf_push(2) [OF wf_push(1) [OF wf_map_Nil]] by (simp add: agrupar_def wf_map_def map_keys_def)

lemma greedy_sound:
  "set (greedy up uc cs) \<subseteq> set cs"
  "distinct (map (ni_id \<circ> fst) (greedy up uc cs))" "distinct (map (ni_id \<circ> snd) (greedy up uc cs))"
  "(p, c) \<in> set (greedy up uc cs) \<Longrightarrow> ni_id p \<notin> set up \<and> ni_id c \<notin> set uc"
proof -
  have "set (greedy up uc cs) \<subseteq> set cs \<and> distinct (map (ni_id \<circ> fst) (greedy up uc cs)) \<and>
      distinct (map (ni_id \<circ> snd) (greedy up uc cs)) \<and>
      (\<forall>(p, c)\<in>set (greedy up uc cs). ni_id p \<notin> set up \<and> ni_id c \<notin> set uc)"
    by (induction up uc cs rule: greedy.induct) auto
  then show "set (greedy up uc cs) \<subseteq> set cs"
    "distinct (map (ni_id \<circ> fst) (greedy up uc cs))" "distinct (map (ni_id \<circ> snd) (greedy up uc cs))"
    "(p, c) \<in> set (greedy up uc cs) \<Longrightarrow> ni_id p \<notin> set up \<and> ni_id c \<notin> set uc"
    by auto
qed

lemma casarGuloso_sound:
  "set (casarGuloso lc ps cs) \<subseteq> set ps \<times> set cs"
  "distinct (map (ni_id \<circ> fst) (casarGuloso lc ps cs))"
  "distinct (map (ni_id \<circ> snd) (casarGuloso lc ps cs))"
  using greedy_sound(1-3) [of "[]" "[]" "js_sort (candidate_order lc) (List.product ps cs)"]
  by (auto simp: casarGuloso_def)

lemma uses_pairs:
  assumes a: "acct P L st" and sub: "set pares \<subseteq> set ps \<times> set cs" "ids ps \<subseteq> keysP st" "ids cs \<subseteq> keysL st"
    and d: "distinct (map (ni_id \<circ> fst) pares)" "distinct (map (ni_id \<circ> snd) pares)"
  shows "uses P L ((ni_id \<circ> fst) ` set pares) ((ni_id \<circ> snd) ` set pares) st
    (foldl (\<lambda>st (p, c). match_items conf n r p c st) st pares)"
proof -
  have "uses P L (\<Union>x\<in>set pares. {ni_id (fst x)}) (\<Union>x\<in>set pares. {ni_id (snd x)}) st
      (foldl (\<lambda>st (p, c). match_items conf n r p c st) st pares)"
  proof (rule uses_foldl [where RA = "\<lambda>x. {ni_id (fst x)}" and RB = "\<lambda>x. {ni_id (snd x)}", OF a])
    fix st' :: PassState and x :: "NormalizedItem \<times> NormalizedItem"
    assume "acct P L st'" "{ni_id (fst x)} \<subseteq> keysP st'" "{ni_id (snd x)} \<subseteq> keysL st'"
    then show "uses P L {ni_id (fst x)} {ni_id (snd x)} st' (case x of (p, c) \<Rightarrow> match_items conf n r p c st')"
      using acct_match [of P L st' "fst x" "snd x"] by (simp add: case_prod_unfold)
  next
    have "fst x \<in> set ps \<and> snd x \<in> set cs" if "x \<in> set pares" for x using sub(1) that by auto
    then show "\<forall>x\<in>set pares. {ni_id (fst x)} \<subseteq> keysP st \<and> {ni_id (snd x)} \<subseteq> keysL st"
      using sub(2,3) by blast
    have "sorted_wrt (\<lambda>x y. ni_id (fst x) \<noteq> ni_id (fst y) \<and> ni_id (snd x) \<noteq> ni_id (snd y)) pares"
      using d by (induction pares) (force simp: image_iff)+
    then show "sorted_wrt (\<lambda>x y. {ni_id (fst x)} \<inter> {ni_id (fst y)} = {} \<and>
        {ni_id (snd x)} \<inter> {ni_id (snd y)} = {}) pares"
      by (rule sorted_wrt_mono_rel [rotated]) auto
  qed
  then show ?thesis by (rule uses_mono) auto
qed

lemma uses_leftover_local:
  assumes a: "acct P L st" and xs: "ids xs \<subseteq> keysL st" "distinct (map ni_id xs)"
  shows "uses P L {} (ids xs) st (leftover_side xs casados DUPLICATE_LOCAL LOCAL st)"
proof -
  have "uses P L (\<Union>x\<in>set xs. {}) (\<Union>x\<in>set xs. {ni_id x}) st (leftover_side xs casados DUPLICATE_LOCAL LOCAL st)"
    unfolding leftover_side_def
    by (rule uses_foldl [where RA = "\<lambda>_. {}" and RB = "\<lambda>x. {ni_id x}", OF a])
      (use xs distinct_ids_sorted [OF xs(2)] in
        \<open>auto intro: uses_duplicate_local uses_refl split: option.split\<close>)
  then show ?thesis by (rule uses_mono) auto
qed

lemma uses_leftover_provider:
  assumes a: "acct P L st" and xs: "ids xs \<subseteq> keysP st" "distinct (map ni_id xs)"
  shows "uses P L (ids xs) {} st (leftover_side xs casados DUPLICATE_PROVIDER PROVIDER st)"
proof -
  have "uses P L (\<Union>x\<in>set xs. {ni_id x}) (\<Union>x\<in>set xs. {}) st
      (leftover_side xs casados DUPLICATE_PROVIDER PROVIDER st)"
    unfolding leftover_side_def
    by (rule uses_foldl [where RA = "\<lambda>x. {ni_id x}" and RB = "\<lambda>_. {}", OF a])
      (use xs distinct_ids_sorted [OF xs(2)] in
        \<open>auto intro: uses_duplicate_provider uses_refl split: option.split\<close>)
  then show ?thesis by (rule uses_mono) auto
qed

lemma uses_bucket_pairs:
  assumes a: "acct P L st" and ps: "ids ps \<subseteq> keysP st" "distinct (map ni_id ps)"
    and cs: "ids cs \<subseteq> keysL st" "distinct (map ni_id cs)" and pares: "pares = casarGuloso lc ps cs"
  shows "uses P L (ids ps) (ids cs) st
    (duplicatasSobrando pares ps cs (foldl (\<lambda>st (p, c). match_items conf n r p c st) st pares))"
proof -
  let ?P = "(ni_id \<circ> fst) ` set pares" and ?C = "(ni_id \<circ> snd) ` set pares"
  let ?s1 = "foldl (\<lambda>st (p, c). match_items conf n r p c st) st pares"
  let ?sc = "filter (\<lambda>i. \<not> List.member (map ni_id (map snd pares)) (ni_id i)) cs"
  let ?sp = "filter (\<lambda>i. \<not> List.member (map ni_id (map fst pares)) (ni_id i)) ps"
  note sound = casarGuloso_sound [of lc ps cs, folded pares]
  have u1: "uses P L ?P ?C st ?s1" by (rule uses_pairs [OF a sound(1) ps(1) cs(1) sound(2,3)])
  let ?s2 = "leftover_side ?sc (map snd pares) DUPLICATE_LOCAL LOCAL ?s1"
  have u2: "uses P L {} (ids ?sc) ?s1 ?s2"
  proof (rule uses_leftover_local)
    show "acct P L ?s1" using u1 by (simp add: uses_def)
    have "ids ?sc \<subseteq> ids cs - ?C" by auto
    then show "ids ?sc \<subseteq> keysL ?s1" using u1 cs(1) unfolding uses_def by blast
    show "distinct (map ni_id ?sc)" using cs(2) by (simp add: distinct_map inj_on_def)
  qed
  note u12 = uses_trans [OF u1 u2]
  have u3: "uses P L (ids ?sp) {} ?s2 (leftover_side ?sp (map fst pares) DUPLICATE_PROVIDER PROVIDER ?s2)"
  proof (rule uses_leftover_provider)
    show "acct P L ?s2" using u2 by (simp add: uses_def)
    have "ids ?sp \<subseteq> ids ps - ?P" by auto
    then show "ids ?sp \<subseteq> keysP ?s2" using u12 ps(1) unfolding uses_def by blast
    show "distinct (map ni_id ?sp)" using ps(2) by (simp add: distinct_map inj_on_def)
  qed
  have "?P \<subseteq> ids ps" "?C \<subseteq> ids cs" using sound(1) by auto
  with uses_trans [OF u12 u3] show ?thesis
    unfolding duplicatasSobrando_def Let_def by (elim uses_mono) auto
qed

definition fuzzy_ids :: "pool \<Rightarrow> string \<Rightarrow> ident set" where
  "fuzzy_ids m k = ids (filter (\<lambda>x. ni_matchKeyFuzzy x = k) (map_values m))"

lemma uses_fuzzy_bucket:
  assumes ok: "pool_ok (ps_provider st0)" "pool_ok (ps_local st0)" and a: "acct P L st"
    and sub: "fuzzy_ids (ps_provider st0) k \<subseteq> keysP st" "fuzzy_ids (ps_local st0) k \<subseteq> keysL st"
  shows "uses P L (fuzzy_ids (ps_provider st0) k) (fuzzy_ids (ps_local st0) k) st
    (fuzzy_bucket lc (agrupar st0) st k)"
proof -
  let ?f = "\<lambda>m. js_sort (by_time lc) (filter (\<lambda>x. ni_matchKeyFuzzy x = k) (map_values m))"
  have i: "ids (?f m) = fuzzy_ids m k" for m by (simp add: fuzzy_ids_def)
  have d: "distinct (map ni_id (?f m))" if "pool_ok m" for m
    unfolding distinct_js_sort using pool_values(4) [OF that] by (simp add: distinct_map inj_on_def)
  have "fuzzy_bucket lc (agrupar st0) st k = st \<or>
      (\<exists>r. fuzzy_bucket lc (agrupar st0) st k =
        (let pares = casarGuloso lc (?f (ps_provider st0)) (?f (ps_local st0))
         in duplicatasSobrando pares (?f (ps_provider st0)) (?f (ps_local st0))
              (foldl (\<lambda>st (p, c). match_items MatchConfidence.HIGH 2 r p c st) st pares)))"
    unfolding fuzzy_bucket_def agrupar_get by (auto simp: Let_def)
  then show ?thesis
    using uses_refl [OF a] uses_bucket_pairs [OF a _ d [OF ok(1)] _ d [OF ok(2)] refl] sub
    unfolding i by (auto simp: Let_def)
qed

lemma fuzzy_ids_disjoint: "pool_ok m \<Longrightarrow> k \<noteq> k' \<Longrightarrow> fuzzy_ids m k \<inter> fuzzy_ids m k' = {}"
proof (rule equals0I)
  fix i assume "pool_ok m" "k \<noteq> k'" "i \<in> fuzzy_ids m k \<inter> fuzzy_ids m k'"
  then obtain x y where "x \<in> set (map_values m)" "y \<in> set (map_values m)" "ni_id x = ni_id y"
    "ni_matchKeyFuzzy x = k" "ni_matchKeyFuzzy y = k'" by (auto simp: fuzzy_ids_def)
  with pool_values(2) [OF \<open>pool_ok m\<close>, of x y] \<open>k \<noteq> k'\<close> show False by simp
qed

lemma fuzzy_ids_keys: "pool_ok m \<Longrightarrow> fuzzy_ids m k \<subseteq> set (map_keys m)"
  unfolding fuzzy_ids_def by (rule image_subsetI) (rule pool_values(1), auto)

lemma acct_passDeterministicFuzzy:
  assumes a: "acct P L st"
  shows "acct P L (passDeterministicFuzzy lc st)"
proof -
  have ok: "pool_ok (ps_provider st)" "pool_ok (ps_local st)" using a by (auto simp: acct_def)
  let ?P = "fuzzy_ids (ps_provider st)" and ?L = "fuzzy_ids (ps_local st)" and ?ks = "sort (map_keys (agrupar st))"
  have "uses P L (\<Union>k\<in>set ?ks. ?P k) (\<Union>k\<in>set ?ks. ?L k) st (foldl (fuzzy_bucket lc (agrupar st)) st ?ks)"
  proof (rule uses_foldl [where RA = ?P and RB = ?L, OF a])
    show "\<forall>k\<in>set ?ks. ?P k \<subseteq> keysP st \<and> ?L k \<subseteq> keysL st" using fuzzy_ids_keys ok by blast
    have "sorted_wrt (<) ?ks" using agrupar_wf by (simp add: strict_sorted_iff)
    then show "sorted_wrt (\<lambda>x y. ?P x \<inter> ?P y = {} \<and> ?L x \<inter> ?L y = {}) ?ks"
      by (rule sorted_wrt_mono_rel [rotated]) (use fuzzy_ids_disjoint ok in \<open>metis less_irrefl\<close>)
  qed (rule uses_fuzzy_bucket [OF ok])
  then show ?thesis by (simp add: passDeterministicFuzzy_def Let_def uses_def)
qed

section \<open>Pass 3\<close>

lemma keys_delete: "set (map_keys (map_delete k m)) = set (map_keys m) - {k}"
  by (induction m) (auto simp: map_keys_def)

lemma uses_faltaNoLocal:
  assumes "acct P L st" "ni_id p \<in> keysP st"
  shows "uses P L {ni_id p} {} st (faltaNoLocal p amb st)"
  unfolding faltaNoLocal_def Let_def
  by (rule acct_drop_provider [OF assms]) (simp_all add: b_prov_def b_loc_def orphanProviderBreakType_def)

lemma uses_faltaNoProvedor:
  assumes a: "acct P L st" and c: "ni_id c \<in> keysL st"
  shows "uses P L {} {ni_id c} st (faltaNoProvedor c st)"
proof (cases "ps_now st - ni_postedAt c < settlementGraceMinutes (ps_policy st) * 60000")
  case True
  have wf: "wf_map (ps_local st)" using a by (auto simp: acct_def pool_ok_def)
  note d = map_keys_delete [OF wf c]
  from True have eq: "faltaNoProvedor c st =
      (take_local (ni_id c) st)\<lparr>ps_pendingSettlement := ps_pendingSettlement st @ [ni_id c]\<rparr>"
    by (simp add: faltaNoProvedor_def Let_def take_fields)
  have "acct P L (faltaNoProvedor c st)"
    using a d(1) unfolding acct_def eq by (simp add: take_fields pool_ok_delete)
  then show ?thesis unfolding uses_def eq by (simp add: take_fields d(2))
next
  case False
  show ?thesis unfolding faltaNoProvedor_def Let_def using False
    by (simp only: if_False, intro acct_drop_local [OF assms]) (simp_all add: b_prov_def b_loc_def)
qed

lemma uses_windowed_item:
  assumes a: "acct P L st"
  shows "uses P L {ni_id p} UNIV st (windowed_item lc st p)"
proof (cases "map_has (ps_provider st) (ni_id p)")
  case False
  then show ?thesis using a by (simp add: windowed_item_def uses_refl)
next
  case True
  then have p: "ni_id p \<in> keysP st" by (simp add: map_has_iff map_keys_def)
  let ?f = "filter (\<lambda>c. dentroDaJanela p c st) (map_values (ps_local st))"
  let ?cs = "js_sort (by_id lc) ?f"
  show ?thesis
  proof (cases "\<exists>c. ?cs = [c]")
    case [simp]: True
    then obtain c where c: "?cs = [c]" by blast
    then have "c \<in> set ?f" by (metis set_js_sort list.set_intros(1))
    moreover have "pool_ok (ps_local st)" using a by (simp add: acct_def)
    ultimately have "ni_id c \<in> keysL st" using pool_values(1) by auto
    from acct_match [OF a p this, of MatchConfidence.LOW 3 True]
    have "uses P L {ni_id p} UNIV st (match_items MatchConfidence.LOW 3 True p c st)"
      by (rule uses_mono) auto
    then show ?thesis using \<open>map_has (ps_provider st) (ni_id p)\<close> c by (simp add: windowed_item_def)
  next
    case False
    then have "windowed_item lc st p = faltaNoLocal p (length ?cs > 1) st"
      using True by (auto simp: windowed_item_def Let_def simp del: length_js_sort split: list.split)
    with uses_faltaNoLocal [OF a p] have "uses P L {ni_id p} {} st (windowed_item lc st p)" by simp
    then show ?thesis by (rule uses_mono) auto
  qed
qed

lemma windowed_item_keys: "keysP (windowed_item lc st p) = keysP st - {ni_id p}"
proof (cases "map_has (ps_provider st) (ni_id p)")
  case False
  then show ?thesis by (simp add: windowed_item_def map_has_iff map_keys_def)
next
  case True
  then show ?thesis
    by (auto simp: windowed_item_def Let_def match_items_fields faltaNoLocal_def push_break_fields take_fields
        keys_delete split: list.split)
qed

lemma faltaNoProvedor_keys:
  "keysP (faltaNoProvedor c st) = keysP st" "keysL (faltaNoProvedor c st) = keysL st - {ni_id c}"
  by (simp_all add: faltaNoProvedor_def Let_def push_break_fields take_fields keys_delete)

lemma windowed_fold_keys: "keysP (foldl (windowed_item lc) st xs) = keysP st - ids xs"
  by (induction xs arbitrary: st) (auto simp: windowed_item_keys)

lemma falta_fold_keys:
  "keysP (foldl (\<lambda>st c. faltaNoProvedor c st) st xs) = keysP st"
  "keysL (foldl (\<lambda>st c. faltaNoProvedor c st) st xs) = keysL st - ids xs"
  by (induction xs arbitrary: st) (auto simp: faltaNoProvedor_keys)

lemma acct_passWindowedFuzzy:
  assumes a: "acct P L st"
  shows "acct P L (passWindowedFuzzy lc st)" "keysP (passWindowedFuzzy lc st) = {}"
    "keysL (passWindowedFuzzy lc st) = {}"
proof -
  let ?ps = "js_sort (by_id lc) (map_values (ps_provider st))"
  let ?s1 = "foldl (windowed_item lc) st ?ps"
  let ?cs = "js_sort (by_id lc) (map_values (ps_local ?s1))"
  have eq: "passWindowedFuzzy lc st = foldl (\<lambda>st c. faltaNoProvedor c st) ?s1 ?cs"
    by (simp add: passWindowedFuzzy_def Let_def)
  have "pool_ok (ps_provider st)" using a by (simp add: acct_def)
  then have P: "ids ?ps = keysP st" using pool_values(3) by (metis set_js_sort set_map)
  have "uses P L (\<Union>x\<in>set ?ps. {ni_id x}) (\<Union>x\<in>set ?ps. UNIV) st ?s1"
    by (rule uses_foldl [where RA = "\<lambda>_. {}" and RB = "\<lambda>_. {}", OF a])
      (simp_all add: uses_windowed_item sorted_wrt_true)
  then have a1: "acct P L ?s1" by (simp add: uses_def)
  then have ok: "pool_ok (ps_local ?s1)" by (simp add: acct_def)
  then have C: "ids ?cs = keysL ?s1" using pool_values(3) by (metis set_js_sort set_map)
  have d: "distinct (map ni_id ?cs)" unfolding distinct_js_sort by (rule pool_values(4) [OF ok])
  have "uses P L (\<Union>x\<in>set ?cs. {}) (\<Union>x\<in>set ?cs. {ni_id x}) ?s1 (passWindowedFuzzy lc st)"
    unfolding eq
    by (rule uses_foldl [where RA = "\<lambda>_. {}" and RB = "\<lambda>x. {ni_id x}", OF a1])
      (use C distinct_ids_sorted [OF d] in \<open>auto intro: uses_faltaNoProvedor\<close>)
  then show "acct P L (passWindowedFuzzy lc st)" by (simp add: uses_def)
  show "keysP (passWindowedFuzzy lc st) = {}"
    unfolding eq by (simp only: falta_fold_keys windowed_fold_keys P) simp
  show "keysL (passWindowedFuzzy lc st) = {}" unfolding eq by (simp only: falta_fold_keys C) simp
qed

section \<open>The engine\<close>

lemma indexar_fresh:
  "distinct (map ni_id xs) \<Longrightarrow> indexar xs = map (\<lambda>x. (ni_id x, x)) xs"
proof -
  have "foldl (\<lambda>m item. map_set (ni_id item) item m) m xs = m @ map (\<lambda>x. (ni_id x, x)) xs"
    if "distinct (map ni_id xs)" "fst ` set m \<inter> ids xs = {}" for m xs
    using that
  proof (induction xs arbitrary: m)
    case (Cons x xs)
    then have "map_of m (ni_id x) = None" by (auto simp: map_of_eq_None_fst)
    with Cons show ?case by (auto simp: map_set_fresh Cons.IH [of "m @ [(ni_id x, x)]"])
  qed simp
  from this [of xs "[]"] show "distinct (map ni_id xs) \<Longrightarrow> ?thesis" by (simp add: indexar_def)
qed

lemma indexar_pool_ok:
  "distinct (map ni_id xs) \<Longrightarrow> pool_ok (indexar xs)" "distinct (map ni_id xs) \<Longrightarrow> map_keys (indexar xs) = map ni_id xs"
  by (auto simp: indexar_fresh pool_ok_def wf_map_def map_keys_def comp_def)

lemma acct_initial:
  assumes "distinct (map ni_id (ri_provider inp))" "distinct (map ni_id (ri_local inp))"
  shows "acct (mset (map ni_id (ri_provider inp))) (mset (map ni_id (ri_local inp))) (initial_state inp)"
  using assms by (simp add: acct_def initial_state_def indexar_pool_ok del: mset_map)

lemma three_passes_account:
  assumes "distinct (map ni_id (ri_provider inp))" "distinct (map ni_id (ri_local inp))"
    and "st = three_passes lc inp"
  shows "mset (m_prov (ps_matches st)) + mset (b_prov (ps_breaks st)) = mset (map ni_id (ri_provider inp))"
    "mset (m_loc (ps_matches st)) + mset (b_loc (ps_breaks st)) + mset (ps_pendingSettlement st)
       = mset (map ni_id (ri_local inp))"
proof -
  note w = acct_passWindowedFuzzy [OF acct_passDeterministicFuzzy [OF acct_passStrong [OF acct_initial [OF assms(1,2)]]],
      of lc lc lc, folded three_passes_def]
  then show "mset (m_prov (ps_matches st)) + mset (b_prov (ps_breaks st)) = mset (map ni_id (ri_provider inp))"
    "mset (m_loc (ps_matches st)) + mset (b_loc (ps_breaks st)) + mset (ps_pendingSettlement st)
       = mset (map ni_id (ri_local inp))"
    unfolding acct_def assms(3) by simp_all
qed

lemma local_break_neutral:
  "tipo \<noteq> DUPLICATE_LOCAL \<Longrightarrow> tipo \<noteq> MISSING_ON_PROVIDER \<Longrightarrow> b_prov [local_break c tipo s d l t e] = []"
  "tipo \<noteq> DUPLICATE_LOCAL \<Longrightarrow> tipo \<noteq> MISSING_ON_PROVIDER \<Longrightarrow> b_loc [local_break c tipo s d l t e] = []"
  by (simp_all add: local_break_def b_prov_def b_loc_def)

lemma done_Cons:
  "b_prov (b # bs) = b_prov [b] @ b_prov bs" "b_loc (b # bs) = b_loc [b] @ b_loc bs"
  "m_prov (x # xs) = m_prov [x] @ m_prov xs" "m_loc (x # xs) = m_loc [x] @ m_loc xs"
  by (simp_all add: b_prov_def b_loc_def m_prov_def m_loc_def)

lemma conferirPerna_neutral: "b_prov (conferirPerna policy c l) = []" "b_loc (conferirPerna policy c l) = []"
  by (simp_all add: conferirPerna_def Let_def local_break_neutral)

lemma set_ledger_item: "m_prov [mt\<lparr>ml_ledgerItemId := l\<rparr>] = m_prov [mt]" "m_loc [mt\<lparr>ml_ledgerItemId := l\<rparr>] = m_loc [mt]"
  by (simp_all add: m_prov_def m_loc_def)

lemma cross_matches_neutral:
  assumes "cross_matches policy allLocal por ms bs ledger = (ms', bs', ledger')"
  shows "m_prov ms' = m_prov ms \<and> m_loc ms' = m_loc ms \<and> b_prov bs' = b_prov bs \<and> b_loc bs' = b_loc bs"
  using assms
proof (induction policy allLocal por ms bs ledger arbitrary: ms' bs' ledger' rule: cross_matches.induct)
  case (2 policy allLocal por mt ms bs ledger)
  obtain mt1 bs1 l1 where one: "cross_one policy allLocal por mt bs ledger = (mt1, bs1, l1)"
    by (rule prod_cases3)
  obtain ms2 where two: "cross_matches policy allLocal por ms bs1 l1 = (ms2, bs', ledger')" "ms' = mt1 # ms2"
    using 2(2) one by (simp add: Let_def split: prod.splits)
  have "m_prov [mt1] = m_prov [mt] \<and> m_loc [mt1] = m_loc [mt] \<and> b_prov bs1 = b_prov bs \<and> b_loc bs1 = b_loc bs"
    using one by (auto simp: cross_one_def Let_def conferirPerna_neutral set_ledger_item faltaNoRazao_def local_break_neutral
        split: option.splits)
  with 2(1) [OF one [symmetric] refl refl two(1)] two(2) show ?case
    by (simp add: done_Cons(3) [of _ ms] done_Cons(3) [of _ ms2] done_Cons(4) [of _ ms] done_Cons(4) [of _ ms2])
qed simp

lemma orphans_neutral: "b_prov (map lancamentoOrfao xs) = []" "b_loc (map lancamentoOrfao xs) = []"
  by (simp_all add: b_prov_def b_loc_def lancamentoOrfao_def concat_map_Nil)

lemma passLedgerCross_neutral:
  assumes "passLedgerCross lc policy allLocal ledger ms bs = (ms', bs')"
  shows "m_prov ms' = m_prov ms \<and> m_loc ms' = m_loc ms \<and> b_prov bs' = b_prov bs \<and> b_loc bs' = b_loc bs"
  using assms cross_matches_neutral
  by (auto simp: passLedgerCross_def Let_def orphans_neutral split: prod.splits)

lemma passBalance_neutral:
  assumes "passBalance brDate inp allProvider ms bs = (r, bs')"
  shows "b_prov bs' = b_prov bs \<and> b_loc bs' = b_loc bs"
proof -
  have "b_prov [balance_break brDate inp x y z] = []" "b_loc [balance_break brDate inp x y z] = []" for x y z
    by (simp_all add: balance_break_def Let_def b_prov_def b_loc_def)
  with assms show ?thesis
    by (auto simp: passBalance_def Let_def split: option.splits if_splits)
qed

end
