(* ===== verification/Recon_Properties.thy ===== *)
theory Recon_Properties
  imports Recon_Accounting
begin

text \<open>
  The properties of a whole reconciliation run: every item is accounted for exactly once, every match is
  justified by the rule of its pass, automatic resolutions stay within what the code allows, and a clean
  run explains the provider's balance.
\<close>

section \<open>What a run may record\<close>

text \<open>The rule that justifies a match, by pass.\<close>

definition justified ::
  "NormalizedItem list \<Rightarrow> NormalizedItem list \<Rightarrow> ReconciliationPolicy \<Rightarrow> MatchLink \<Rightarrow> bool" where
  "justified prov loc policy mt \<longleftrightarrow>
     (\<exists>p\<in>set prov. \<exists>c\<in>set loc.
        ml_providerItemId mt = Some (ni_id p) \<and> ml_localItemId mt = Some (ni_id c) \<and>
        (ml_pass mt = 1 \<and> ml_confidence mt = EXACT \<and> \<not> ml_needsReview mt \<and>
           ni_matchKeyStrong p \<noteq> None \<and> ni_matchKeyStrong p = ni_matchKeyStrong c
         \<or> ml_pass mt = 2 \<and> ml_confidence mt = MatchConfidence.HIGH \<and> ni_matchKeyFuzzy p = ni_matchKeyFuzzy c
         \<or> ml_pass mt = 3 \<and> ml_confidence mt = MatchConfidence.LOW \<and> ml_needsReview mt \<and>
           ni_accountId p = ni_accountId c \<and> ni_direction p = ni_direction c \<and>
           \<bar>ni_amountCents p - ni_amountCents c\<bar> \<le>
             max (amountToleranceCents policy) (amountTolerance (ni_amountCents c) (amountToleranceBasisPoints policy)) \<and>
           \<bar>businessDaysBetween (calendar policy) (ni_effectiveDate c) (ni_effectiveDate p)\<bar>
             \<le> dateToleranceBusinessDays policy))"

text \<open>What an automatic resolution may do.\<close>

definition resolution_safe :: "NormalizedItem list \<Rightarrow> ReconciliationPolicy \<Rightarrow> BreakDraft \<Rightarrow> bool" where
  "resolution_safe prov policy b \<longleftrightarrow>
     (case bd_autoResolution b of
        None \<Rightarrow> True
      | Some (IMPORT_FROM_PROVIDER i) \<Rightarrow>
          bd_type b = MISSING_ON_LOCAL \<and>
          (\<exists>p\<in>set prov. ni_id p = i \<and> ni_direction p = Direction.CREDIT \<and> ni_side p = PROVIDER)
      | Some (MARK_PROVIDER_AUTHORITATIVE i old new) \<Rightarrow>
          bd_type b = STATUS_MISMATCH \<and> List.member (TRANSACTION_STATUS_TRANSITIONS old) new \<and>
          TRANSACTION_STATUS_RANKS old < TRANSACTION_STATUS_RANKS new
      | Some (IGNORE_TIMING_DIFFERENCE l p drift) \<Rightarrow>
          bd_type b = DATE_MISMATCH \<and> drift \<le> autoResolveDateWithinBusinessDays policy)"

definition break_ok :: "NormalizedItem list \<Rightarrow> ReconciliationPolicy \<Rightarrow> BreakDraft \<Rightarrow> bool" where
  "break_ok prov policy b \<longleftrightarrow> resolution_safe prov policy b \<and> bd_type b \<noteq> BALANCE_MISMATCH"

definition recorded_ok ::
  "NormalizedItem list \<Rightarrow> NormalizedItem list \<Rightarrow> ReconciliationPolicy \<Rightarrow> PassState \<Rightarrow> bool" where
  "recorded_ok prov loc policy st \<longleftrightarrow>
     set (map_values (ps_provider st)) \<subseteq> set prov \<and> set (map_values (ps_local st)) \<subseteq> set loc \<and>
     ps_policy st = policy \<and> (\<forall>mt\<in>set (ps_matches st). justified prov loc policy mt) \<and>
     (\<forall>b\<in>set (ps_breaks st). break_ok prov policy b)"

lemma foldl_invariant:
  "I s \<Longrightarrow> (\<And>s x. x \<in> set xs \<Longrightarrow> I s \<Longrightarrow> I (f s x)) \<Longrightarrow> I (foldl f s xs)"
  by (induction xs arbitrary: s) auto

lemma values_delete: "set (map_values (map_delete k m)) \<subseteq> set (map_values m)"
  by (auto simp: map_values_def AList.delete_eq)

lemma recorded_push:
  "recorded_ok prov loc policy st \<Longrightarrow> resolution_safe prov policy b \<Longrightarrow> bd_type b \<noteq> BALANCE_MISMATCH \<Longrightarrow>
   recorded_ok prov loc policy (push_break b st)"
  by (auto simp: recorded_ok_def push_break_def break_ok_def)

lemma recorded_take:
  "recorded_ok prov loc policy st \<Longrightarrow> recorded_ok prov loc policy (take_provider i st)"
  "recorded_ok prov loc policy st \<Longrightarrow> recorded_ok prov loc policy (take_local i st)"
  using values_delete by (fastforce simp: recorded_ok_def take_provider_def take_local_def)+

lemma recorded_drop_side: "recorded_ok prov loc policy st \<Longrightarrow> recorded_ok prov loc policy (drop_side lado i st)"
  by (simp add: drop_side_def recorded_take)

lemma recorded_match:
  assumes "recorded_ok prov loc policy st"
    and "justified prov loc policy \<lparr>ml_providerItemId = Some (ni_id p), ml_localItemId = Some (ni_id c),
       ml_ledgerItemId = None, ml_confidence = conf, ml_pass = n, ml_needsReview = r\<rparr>"
  shows "recorded_ok prov loc policy (match_items conf n r p c st)"
proof -
  have "recorded_ok prov loc policy (take_local (ni_id c) (take_provider (ni_id p) st))"
    using assms(1) by (simp add: recorded_take)
  with assms(2) show ?thesis by (auto simp: match_items_def Let_def recorded_ok_def)
qed

lemma safe_None: "bd_autoResolution b = None \<Longrightarrow> resolution_safe prov policy b"
  by (simp add: resolution_safe_def)

lemma recorded_policy: "recorded_ok prov loc policy st \<Longrightarrow> ps_policy st = policy"
  by (simp add: recorded_ok_def)

section \<open>The passes record only that\<close>

lemma duplicate_break_fields:
  "bd_autoResolution (duplicate_break tipo lado d e x) = None" "bd_type (duplicate_break tipo lado d e x) = tipo"
  by (simp_all add: duplicate_break_def side_ids_def)

lemma recorded_duplicates_side:
  assumes "recorded_ok prov loc policy st" "tipo \<noteq> BALANCE_MISMATCH"
  shows "recorded_ok prov loc policy (duplicates_side lc k xs tipo lado st)"
  using assms unfolding duplicates_side_def Let_def
  by (auto intro!: foldl_invariant [where I = "recorded_ok prov loc policy"] recorded_push recorded_drop_side safe_None
      simp: duplicate_break_fields)

lemma recorded_leftover_side:
  assumes "recorded_ok prov loc policy st" "tipo \<noteq> BALANCE_MISMATCH"
  shows "recorded_ok prov loc policy (leftover_side xs casados tipo lado st)"
  using assms unfolding leftover_side_def
  by (auto intro!: foldl_invariant [where I = "recorded_ok prov loc policy"] recorded_push recorded_drop_side safe_None
      simp: duplicate_break_fields split: option.split)

lemma pair_break_fields:
  "bd_autoResolution (pair_break p c tipo s d t e i) = i" "bd_type (pair_break p c tipo s d t e i) = tipo"
  by (simp_all add: pair_break_def)

lemma statusIntent_safe:
  "resolution_safe prov policy (pair_break p c STATUS_MISMATCH s d t e (statusIntent i sc sp))"
  by (simp add: resolution_safe_def pair_break_fields statusIntent_def providerIsAhead_def checkTransition_def)

lemma timingIntent_safe:
  "resolution_safe prov policy (pair_break p c DATE_MISMATCH s d t e (timingIntent i j drift policy))"
  by (simp add: resolution_safe_def pair_break_fields timingIntent_def)

lemma recorded_compare:
  assumes "recorded_ok prov loc policy st"
  shows "recorded_ok prov loc policy (compareAttributes p c st)"
proof -
  have 1: "recorded_ok prov loc policy (compare_amount p c st)"
    using assms by (simp add: compare_amount_def Let_def recorded_push safe_None pair_break_fields)
  have 2: "recorded_ok prov loc policy (compare_status p c (compare_amount p c st))"
    unfolding compare_status_def using 1
    by (simp add: recorded_push statusIntent_safe pair_break_fields split: option.split)
  show ?thesis
    unfolding compareAttributes_def compare_date_def Let_def recorded_policy [OF 2]
    using 2 by (simp add: recorded_push timingIntent_safe pair_break_fields)
qed

lemma recorded_strong_key:
  assumes st: "recorded_ok prov loc policy st" and kg: "(k, g) \<in> set (indexBy mp prefixo)"
    and sub: "set (map_values mp) \<subseteq> set prov" "set (map_values ml) \<subseteq> set loc"
  shows "recorded_ok prov loc policy (strong_key lc (indexBy ml prefixo) st (k, g))"
proof (cases "map_get (indexBy ml prefixo) k")
  case None
  then show ?thesis using st by (simp add: strong_key_def)
next
  case (Some h)
  note g = indexBy_mem [OF kg] and h = indexBy_mem [OF indexBy_get [OF Some]]
  obtain p where p: "p \<in> set g" "escolherMaisAntigo lc g = Some p" using oldest_in [OF g(1)] by blast
  obtain c where c: "c \<in> set h" "escolherMaisAntigo lc h = Some c" using oldest_in [OF h(1)] by blast
  have j: "justified prov loc policy \<lparr>ml_providerItemId = Some (ni_id p), ml_localItemId = Some (ni_id c),
       ml_ledgerItemId = None, ml_confidence = EXACT, ml_pass = 1, ml_needsReview = False\<rparr>"
  proof -
    have "p \<in> set prov" "c \<in> set loc" using g(2) h(2) p(1) c(1) sub by auto
    moreover have "ni_matchKeyStrong p = Some k" "ni_matchKeyStrong c = Some k" using g(3) h(3) p(1) c(1) by auto
    ultimately show ?thesis unfolding justified_def by (intro bexI [of _ p] bexI [of _ c]) simp_all
  qed
  have "recorded_ok prov loc policy (duplicates lc g h k st)"
    using st by (simp add: duplicates_def recorded_duplicates_side)
  from recorded_compare [OF recorded_match [OF this j]] show ?thesis
    using Some h(1) p(2) c(2) by (simp add: strong_key_def)
qed

lemma recorded_passStrong:
  assumes "recorded_ok prov loc policy st"
  shows "recorded_ok prov loc policy (passStrong lc st)"
  unfolding passStrong_def
proof (rule foldl_invariant [where I = "recorded_ok prov loc policy", OF assms])
  fix st prefixo assume st: "recorded_ok prov loc policy st"
  then have sub: "set (map_values (ps_provider st)) \<subseteq> set prov" "set (map_values (ps_local st)) \<subseteq> set loc"
    by (simp_all add: recorded_ok_def)
  show "recorded_ok prov loc policy (strong_prefix lc st prefixo)"
    unfolding strong_prefix_def Let_def
    by (rule foldl_invariant [where I = "recorded_ok prov loc policy", OF st]) (metis recorded_strong_key sub surj_pair)
qed

lemma recorded_fuzzy_bucket:
  assumes st: "recorded_ok prov loc policy st"
    and sub: "set (map_values (ps_provider st0)) \<subseteq> set prov" "set (map_values (ps_local st0)) \<subseteq> set loc"
  shows "recorded_ok prov loc policy (fuzzy_bucket lc (agrupar st0) st k)"
proof -
  let ?f = "\<lambda>m. js_sort (by_time lc) (filter (\<lambda>x. ni_matchKeyFuzzy x = k) (map_values m))"
  let ?pares = "casarGuloso lc (?f (ps_provider st0)) (?f (ps_local st0))"
  have pair: "recorded_ok prov loc policy (foldl (\<lambda>st (p, c). match_items MatchConfidence.HIGH 2 r p c st) st ?pares)" for r
  proof (rule foldl_invariant [where I = "recorded_ok prov loc policy", OF st])
    fix st x assume "x \<in> set ?pares" and st: "recorded_ok prov loc policy st"
    then obtain p c where x: "x = (p, c)" "p \<in> set (?f (ps_provider st0))" "c \<in> set (?f (ps_local st0))"
      using casarGuloso_sound(1) by blast
    then have "p \<in> set prov" "c \<in> set loc" "ni_matchKeyFuzzy p = k" "ni_matchKeyFuzzy c = k"
      using sub by auto
    then have "justified prov loc policy \<lparr>ml_providerItemId = Some (ni_id p), ml_localItemId = Some (ni_id c),
       ml_ledgerItemId = None, ml_confidence = MatchConfidence.HIGH, ml_pass = 2, ml_needsReview = r\<rparr>"
      unfolding justified_def by (intro bexI [of _ p] bexI [of _ c]) simp_all
    from recorded_match [OF st this]
    show "recorded_ok prov loc policy (case x of (p, c) \<Rightarrow> match_items MatchConfidence.HIGH 2 r p c st)"
      by (simp add: x(1))
  qed
  show ?thesis
    unfolding fuzzy_bucket_def agrupar_get Let_def Balde.simps
    using st by (auto simp: duplicatasSobrando_def Let_def intro!: recorded_leftover_side pair)
qed

lemma recorded_passDeterministicFuzzy:
  assumes "recorded_ok prov loc policy st"
  shows "recorded_ok prov loc policy (passDeterministicFuzzy lc st)"
  unfolding passDeterministicFuzzy_def Let_def
  by (rule foldl_invariant [where I = "recorded_ok prov loc policy", OF assms], rule recorded_fuzzy_bucket)
    (use assms in \<open>simp_all add: recorded_ok_def\<close>)

lemma recorded_faltaNoLocal:
  assumes "recorded_ok prov loc policy st" "p \<in> set prov"
  shows "recorded_ok prov loc policy (faltaNoLocal p amb st)"
  unfolding faltaNoLocal_def Let_def
  by (rule recorded_push [OF recorded_take(1) [OF assms(1)]])
    (use assms(2) in \<open>auto simp: resolution_safe_def importIntent_def orphanProviderBreakType_def\<close>)

lemma recorded_faltaNoProvedor:
  assumes "recorded_ok prov loc policy st"
  shows "recorded_ok prov loc policy (faltaNoProvedor c st)"
proof -
  have t: "recorded_ok prov loc policy (take_local (ni_id c) st)" by (rule recorded_take(2) [OF assms])
  then have "recorded_ok prov loc policy ((take_local (ni_id c) st)\<lparr>ps_pendingSettlement := x\<rparr>)" for x
    by (simp add: recorded_ok_def)
  with t show ?thesis
    unfolding faltaNoProvedor_def Let_def by (simp add: recorded_push safe_None)
qed

lemma recorded_windowed_item:
  assumes st: "recorded_ok prov loc policy st" and p: "p \<in> set prov"
  shows "recorded_ok prov loc policy (windowed_item lc st p)"
proof -
  let ?cs = "js_sort (by_id lc) (filter (\<lambda>c. dentroDaJanela p c st) (map_values (ps_local st)))"
  have one: "recorded_ok prov loc policy (match_items MatchConfidence.LOW 3 True p c st)" if "?cs = [c]" for c
  proof (rule recorded_match [OF st])
    have "c \<in> set ?cs" by (simp only: that list.set_intros)
    then have c: "c \<in> set loc" "dentroDaJanela p c st" using st by (auto simp: recorded_ok_def)
    from c(2) show "justified prov loc policy \<lparr>ml_providerItemId = Some (ni_id p), ml_localItemId = Some (ni_id c),
       ml_ledgerItemId = None, ml_confidence = MatchConfidence.LOW, ml_pass = 3, ml_needsReview = True\<rparr>"
      unfolding justified_def dentroDaJanela_def recorded_policy [OF st]
      by (intro bexI [OF _ p] bexI [OF _ c(1)]) (auto simp: Let_def max_def abs_if split: if_splits)
  qed
  then show ?thesis
    using st recorded_faltaNoLocal [OF st p] by (auto simp: windowed_item_def Let_def split: list.split)
qed

lemma recorded_passWindowedFuzzy:
  assumes "recorded_ok prov loc policy st"
  shows "recorded_ok prov loc policy (passWindowedFuzzy lc st)"
  unfolding passWindowedFuzzy_def Let_def
proof (rule foldl_invariant [where I = "recorded_ok prov loc policy"])
  show "recorded_ok prov loc policy (foldl (windowed_item lc) st (js_sort (by_id lc) (map_values (ps_provider st))))"
    by (rule foldl_invariant [where I = "recorded_ok prov loc policy", OF assms], rule recorded_windowed_item)
      (use assms in \<open>auto simp: recorded_ok_def\<close>)
qed (rule recorded_faltaNoProvedor)

lemma indexar_values: "set (map_values (indexar xs)) \<subseteq> set xs"
proof -
  have "set (map_values (foldl (\<lambda>m x. map_set (ni_id x) x m) m xs)) \<subseteq> set (map_values m) \<union> set xs" for m
  proof (induction xs arbitrary: m)
    case (Cons x xs)
    have "set (map_values (map_set (ni_id x) x m)) \<subseteq> insert x (set (map_values m))"
      by (induction m) (auto simp: map_values_def)
    with Cons [of "map_set (ni_id x) x m"] show ?case by auto
  qed simp
  from this [of "[]"] show ?thesis by (simp add: indexar_def)
qed

lemma recorded_three_passes:
  "recorded_ok (ri_provider inp) (ri_local inp) (ri_policy inp) (three_passes lc inp)"
proof -
  have "recorded_ok (ri_provider inp) (ri_local inp) (ri_policy inp) (initial_state inp)"
    using indexar_values by (simp add: recorded_ok_def initial_state_def)
  then show ?thesis
    unfolding three_passes_def
    by (intro recorded_passWindowedFuzzy recorded_passDeterministicFuzzy recorded_passStrong)
qed

lemma justified_ledger_item: "justified prov loc policy (mt\<lparr>ml_ledgerItemId := l\<rparr>) = justified prov loc policy mt"
  by (simp add: justified_def)

lemma local_break_plain:
  "tipo \<noteq> BALANCE_MISMATCH \<Longrightarrow> break_ok prov policy (local_break c tipo s d l t e)"
  by (simp add: local_break_def break_ok_def safe_None)

lemma conferirPerna_plain:
  "\<forall>b\<in>set (conferirPerna pol c l). break_ok prov policy b"
  by (auto simp: conferirPerna_def Let_def local_break_plain split: if_splits)

lemma cross_one_cases:
  assumes "cross_one pol allLocal por mt bs ledger = (mt1, bs1, l1)"
  shows "(mt1 = mt \<or> (\<exists>l. mt1 = mt\<lparr>ml_ledgerItemId := l\<rparr>)) \<and>
    (bs1 = bs \<or> (\<exists>c. bs1 = bs @ [faltaNoRazao c]) \<or> (\<exists>c l. bs1 = bs @ conferirPerna pol c l))"
  using assms by (auto simp: cross_one_def Let_def split: option.splits)

lemma cross_matches_recorded:
  assumes "cross_matches pol allLocal por ms bs ledger = (ms', bs', ledger')"
    and "\<forall>mt\<in>set ms. justified prov loc policy mt"
    and "\<forall>b\<in>set bs. break_ok prov policy b"
  shows "(\<forall>mt\<in>set ms'. justified prov loc policy mt) \<and>
         (\<forall>b\<in>set bs'. break_ok prov policy b)"
  using assms
proof (induction pol allLocal por ms bs ledger arbitrary: ms' bs' ledger' rule: cross_matches.induct)
  case (2 pol allLocal por mt ms bs ledger)
  obtain mt1 bs1 l1 where one: "cross_one pol allLocal por mt bs ledger = (mt1, bs1, l1)"
    by (rule prod_cases3)
  obtain ms2 where two: "cross_matches pol allLocal por ms bs1 l1 = (ms2, bs', ledger')" "ms' = mt1 # ms2"
    using 2(2) one by (simp add: Let_def split: prod.splits)
  have "justified prov loc policy mt1"
    using cross_one_cases [OF one] 2(3) by (auto simp: justified_ledger_item)
  moreover have "\<forall>b\<in>set bs1. break_ok prov policy b"
    using cross_one_cases [OF one] 2(4) conferirPerna_plain local_break_plain
    by (auto simp: faltaNoRazao_def)
  ultimately show ?case using 2(1) [OF one [symmetric] refl refl two(1)] 2(3) two(2) by simp
qed simp

lemma passLedgerCross_recorded:
  assumes "passLedgerCross lc pol allLocal ledger ms bs = (ms', bs')"
    and "\<forall>mt\<in>set ms. justified prov loc policy mt"
    and "\<forall>b\<in>set bs. break_ok prov policy b"
  shows "(\<forall>mt\<in>set ms'. justified prov loc policy mt) \<and>
         (\<forall>b\<in>set bs'. break_ok prov policy b)"
proof -
  obtain bs1 l1 xs where x: "cross_matches pol allLocal (indexarPorTransacao lc ledger) ms bs ledger = (ms', bs1, l1)"
    "bs' = bs1 @ map lancamentoOrfao xs"
    using assms(1) by (auto simp: passLedgerCross_def Let_def split: prod.splits)
  have "break_ok prov policy (lancamentoOrfao l)" for l
    by (simp add: lancamentoOrfao_def break_ok_def safe_None)
  with cross_matches_recorded [OF x(1) assms(2,3)] x(2) show ?thesis by auto
qed

section \<open>A sample run\<close>

text \<open>Two movements on each side, a local debit inside the grace period, and optional extra provider items.\<close>

definition sample_lc :: "string \<Rightarrow> string \<Rightarrow> int" where
  "sample_lc a b = (if a = b then 0 else if a < b then -1 else 1)"

definition sample_calendar :: BusinessCalendar where
  "sample_calendar = \<lparr>isBusinessDay = (\<lambda>_. True), addBusinessDays = (\<lambda>d _. d),
     businessDaysBetween = (\<lambda>a b. if a = b then 0 else 1)\<rparr>"

definition sample_policy :: ReconciliationPolicy where
  "sample_policy = \<lparr>settlementGraceMinutes = 30, amountToleranceCents = 1, amountToleranceBasisPoints = 1,
     dateToleranceBusinessDays = 1, autoResolveDateWithinBusinessDays = 1, criticalAmountDeltaCents = 100,
     maxGreedyPairs = 3, calendar = sample_calendar\<rparr>"

definition sample_item :: "ident \<Rightarrow> ReconciliationSide \<Rightarrow> string option \<Rightarrow> Direction \<Rightarrow> cents \<Rightarrow> string \<Rightarrow> NormalizedItem" where
  "sample_item i side key d amount fuzzy =
     \<lparr>ni_id = i, ni_side = side, ni_accountId = ''a'', ni_externalId = None, ni_endToEndId = key, ni_postedAt = 0,
      ni_effectiveDate = ''d1'', ni_direction = d, ni_amountCents = amount, ni_type = ''PIX'',
      ni_status = Some TransactionStatus.SETTLED, ni_counterpartyTaxIdIndex = None, ni_providerTransactionId = None,
      ni_ledgerTransactionId = Some i, ni_matchKeyStrong = strongKey key None, ni_matchKeyFuzzy = fuzzy, ni_raw = []\<rparr>"

definition sample_input :: "cents \<Rightarrow> NormalizedItem list \<Rightarrow> ReconciliationInput" where
  "sample_input closing extra =
     \<lparr>ri_runId = ''r'', ri_environment = PRODUCAO, ri_connectionId = ''c'', ri_accountId = ''a'', ri_scope = DAILY,
      ri_windowStart = 0, ri_windowEnd = 9, ri_now = 10,
      ri_provider = [sample_item ''p1'' PROVIDER (Some ''E1'') Direction.CREDIT 5 ''f1'',
                     sample_item ''p2'' PROVIDER None Direction.DEBIT 3 ''f2''] @ extra,
      ri_local = [sample_item ''c1'' LOCAL (Some ''E1'') Direction.CREDIT 5 ''f1'',
                  sample_item ''c2'' LOCAL None Direction.DEBIT 3 ''f2'',
                  sample_item ''c3'' LOCAL None Direction.DEBIT 900 ''f3''],
      ri_ledger = [sample_item ''c1'' LEDGER None Direction.CREDIT 5 ''f1'', sample_item ''c2'' LEDGER None Direction.DEBIT 3 ''f2''],
      ri_balances = \<lparr>providerOpeningCents = Some 1, providerClosingCents = Some closing, ledgerClosingCents = Some 3\<rparr>,
      ri_policy = sample_policy\<rparr>"

abbreviation sample_run :: "cents \<Rightarrow> NormalizedItem list \<Rightarrow> ReconciliationResult" where
  "sample_run closing extra \<equiv> reconcile sample_lc (\<lambda>_. ''d1'') (sample_input closing extra)"

abbreviation sample_orphan :: NormalizedItem where
  "sample_orphan \<equiv> sample_item ''p3'' PROVIDER None Direction.CREDIT 77 ''f9''"

lemmas sample_defs = sample_input_def sample_item_def

section \<open>The result of a run\<close>

lemma reconcile_recorded:
  obtains ms bs r where
    "rr_matches (reconcile lc brDate inp) = ms"
    "passBalance brDate inp (indexar (ri_provider inp)) ms bs = (r, rr_breaks (reconcile lc brDate inp))"
    "rr_balance (reconcile lc brDate inp) = r"
    "\<forall>mt\<in>set ms. justified (ri_provider inp) (ri_local inp) (ri_policy inp) mt"
    "\<forall>b\<in>set bs. break_ok (ri_provider inp) (ri_policy inp) b"
proof -
  let ?st = "three_passes lc inp"
  obtain ms bs where x: "passLedgerCross lc (ri_policy inp) (indexar (ri_local inp)) (indexar (ri_ledger inp))
      (ps_matches ?st) (ps_breaks ?st) = (ms, bs)" by fastforce
  obtain r bs' where y: "passBalance brDate inp (indexar (ri_provider inp)) ms bs = (r, bs')" by fastforce
  have eq: "rr_matches (reconcile lc brDate inp) = ms" "rr_breaks (reconcile lc brDate inp) = bs'"
    "rr_balance (reconcile lc brDate inp) = r"
    by (simp_all add: reconcile_def x y Let_def)
  have "(\<forall>mt\<in>set ms. justified (ri_provider inp) (ri_local inp) (ri_policy inp) mt) \<and>
      (\<forall>b\<in>set bs. break_ok (ri_provider inp) (ri_policy inp) b)"
    by (rule passLedgerCross_recorded [OF x]) (use recorded_three_passes in \<open>simp_all add: recorded_ok_def\<close>)
  then show thesis using y eq that by blast
qed

lemma passBalance_breaks:
  assumes "passBalance brDate inp pool ms bs = (r, bs')"
  shows "bs' = bs \<or> (\<exists>opening closing.
      providerOpeningCents (ri_balances inp) = Some opening \<and> providerClosingCents (ri_balances inp) = Some closing \<and>
      closing \<noteq> opening + br_matchedMovementCents r \<and> bs = [] \<and>
      bs' = [balance_break brDate inp opening (br_matchedMovementCents r) closing])"
  using assms by (auto simp: passBalance_def Let_def split: option.splits if_splits)

definition signed :: "NormalizedItem \<Rightarrow> cents" where
  "signed p = (if ni_direction p = Direction.CREDIT then ni_amountCents p else - ni_amountCents p)"

lemma movement_sum:
  assumes "[] \<notin> set (m_prov ms)"
  shows "foldl (movement pool) a ms =
    a + sum_list (map (\<lambda>i. case map_get pool i of None \<Rightarrow> 0 | Some p \<Rightarrow> signed p) (m_prov ms))"
  using assms
proof (induction ms arbitrary: a)
  case (Cons mt ms)
  have split: "m_prov (mt # ms) = m_prov [mt] @ m_prov ms" by (rule done_Cons)
  show ?case
  proof (cases "ml_providerItemId mt")
    case None
    then have "m_prov [mt] = []" "movement pool a mt = a" by (simp_all add: m_prov_def movement_def)
    with Cons split show ?thesis by simp
  next
    case (Some i)
    then have i: "m_prov [mt] = [i]" by (simp add: m_prov_def)
    with Cons.prems split have "i \<noteq> []" by auto
    with Some have "movement pool a mt = a + (case map_get pool i of None \<Rightarrow> 0 | Some p \<Rightarrow> signed p)"
      by (simp add: movement_def signed_def split: option.split)
    with Cons split i show ?thesis by simp
  qed
qed simp

text \<open>The matched movement is the signed sum of the matched provider items.\<close>

lemma movement_all_matched:
  assumes d: "distinct (map ni_id xs)" and ne: "[] \<notin> ni_id ` set xs" and m: "mset (m_prov ms) = mset (map ni_id xs)"
  shows "foldl (movement (indexar xs)) 0 ms = sum_list (map signed xs)"
proof -
  let ?g = "\<lambda>i. case map_get (indexar xs) i of None \<Rightarrow> 0 | Some p \<Rightarrow> signed p"
  have "set (m_prov ms) = set (map ni_id xs)" using m by (metis set_mset_mset)
  with ne have "foldl (movement (indexar xs)) 0 ms = sum_list (map ?g (m_prov ms))"
    by (subst movement_sum) auto
  also have "\<dots> = sum_list (map ?g (map ni_id xs))"
    using m by (simp only: mset_map sum_mset_sum_list [symmetric])
  also have "map ?g (map ni_id xs) = map signed xs"
  proof -
    have "map_of (map (\<lambda>x. (ni_id x, x)) xs) (ni_id x) = Some x" if "x \<in> set xs" for x
      using d that by (intro map_of_is_SomeI) (simp_all add: comp_def)
    then show ?thesis by (simp add: indexar_fresh [OF d])
  qed
  finally show ?thesis .
qed

lemma passBalance_movement:
  "passBalance brDate inp pool ms bs = (r, bs') \<Longrightarrow> br_matchedMovementCents r = foldl (movement pool) 0 ms"
  by (auto simp: passBalance_def Let_def split: option.splits if_splits)

lemma passBalance_clean:
  assumes "passBalance brDate inp pool ms bs = (r, [])"
    and "providerOpeningCents (ri_balances inp) = Some opening" "providerClosingCents (ri_balances inp) = Some closing"
  shows "closing = opening + foldl (movement pool) 0 ms"
  using assms by (auto simp: passBalance_def Let_def split: if_splits)

lemma run_accounts:
  assumes "distinct (map ni_id (ri_provider inp))" "distinct (map ni_id (ri_local inp))"
  shows "mset (m_prov (rr_matches (reconcile lc brDate inp))) + mset (b_prov (rr_breaks (reconcile lc brDate inp)))
           = mset (map ni_id (ri_provider inp)) \<and>
         mset (m_loc (rr_matches (reconcile lc brDate inp))) + mset (b_loc (rr_breaks (reconcile lc brDate inp)))
           + mset (rr_pendingSettlement (reconcile lc brDate inp))
           = mset (map ni_id (ri_local inp))"
proof -
  let ?st = "three_passes lc inp"
  obtain ms bs where x: "passLedgerCross lc (ri_policy inp) (indexar (ri_local inp)) (indexar (ri_ledger inp))
      (ps_matches ?st) (ps_breaks ?st) = (ms, bs)" by fastforce
  obtain r bs' where y: "passBalance brDate inp (indexar (ri_provider inp)) ms bs = (r, bs')" by fastforce
  show ?thesis
    using three_passes_account [OF assms refl, of lc] passLedgerCross_neutral [OF x] passBalance_neutral [OF y]
    by (simp add: reconcile_def x y Let_def)
qed

text \<open>C10: every item of a run ends in exactly one place.  When item identifiers are unique on each side, the
  provider items of the run are, with multiplicity, those linked by a match plus those a break reports on
  their own; the local items are those linked by a match, those a break reports as a duplicate or as
  missing on the provider, and those left for the settlement grace period.\<close>

theorem every_item_accounted_once:
  assumes "distinct (map ni_id (ri_provider inp))" "distinct (map ni_id (ri_local inp))"
  shows "mset (m_prov (rr_matches (reconcile lc brDate inp))) + mset (b_prov (rr_breaks (reconcile lc brDate inp)))
           = mset (map ni_id (ri_provider inp)) \<and>
         mset (m_loc (rr_matches (reconcile lc brDate inp))) + mset (b_loc (rr_breaks (reconcile lc brDate inp)))
           + mset (rr_pendingSettlement (reconcile lc brDate inp))
           = mset (map ni_id (ri_local inp))"
  using assms by (rule run_accounts)

theorem every_item_accounted_once_witness:
  "m_prov (rr_matches (sample_run 3 [sample_orphan])) = [''p1'', ''p2''] \<and>
   mset (m_prov (rr_matches (sample_run 3 [sample_orphan]))) + mset (b_prov (rr_breaks (sample_run 3 [sample_orphan])))
     = {#''p1'', ''p2'', ''p3''#} \<and>
   rr_pendingSettlement (sample_run 3 [sample_orphan]) = [''c3'']"
proof -
  have "m_prov (rr_matches (sample_run 3 [sample_orphan])) = [''p1'', ''p2'']"
    "rr_pendingSettlement (sample_run 3 [sample_orphan]) = [''c3'']" by code_simp+
  moreover have "mset (map ni_id (ri_provider (sample_input 3 [sample_orphan]))) = {#''p1'', ''p2'', ''p3''#}"
    by (simp add: sample_defs)
  moreover have "distinct (map ni_id (ri_provider (sample_input 3 [sample_orphan])))"
    "distinct (map ni_id (ri_local (sample_input 3 [sample_orphan])))" by (simp_all add: sample_defs)
  ultimately show ?thesis
    using every_item_accounted_once [of "sample_input 3 [sample_orphan]" sample_lc "\<lambda>_. ''d1''"] by simp
qed

text \<open>C12: every match of a run is justified by the rule of its pass.  A pass-1 match is exact, needs no review and
  joins two items with the same strong key; a pass-2 match joins two items with the same fuzzy key (account,
  direction, amount and date); a pass-3 match is of low confidence, is marked for review, and joins items of the
  same account and direction whose amounts and dates differ by no more than the policy tolerates.\<close>

theorem matches_justified:
  "list_all (justified (ri_provider inp) (ri_local inp) (ri_policy inp)) (rr_matches (reconcile lc brDate inp))"
  by (rule reconcile_recorded [of lc brDate inp]) (simp add: list_all_iff)

theorem matches_justified_witness:
  "map ml_pass (rr_matches (sample_run 3 [])) = [1, 2] \<and>
   list_all (justified (ri_provider (sample_input 3 [])) (ri_local (sample_input 3 [])) sample_policy)
     (rr_matches (sample_run 3 []))"
proof -
  have "map ml_pass (rr_matches (sample_run 3 [])) = [1, 2]" by code_simp
  moreover have "ri_policy (sample_input 3 []) = sample_policy" by (simp add: sample_defs)
  ultimately show ?thesis
    using matches_justified [of "sample_input 3 []" sample_lc "\<lambda>_. ''d1''"] by simp
qed



text \<open>A balance mismatch is reported only when nothing else explains it: it is then the only break of the
  run, and it carries the residue between the provider's closing balance and opening plus matched movement.\<close>

theorem balance_mismatch_is_alone:
  assumes "b \<in> set (rr_breaks (reconcile lc brDate inp))" "bd_type b = BALANCE_MISMATCH"
  shows "rr_breaks (reconcile lc brDate inp) = [b] \<and>
    (\<exists>opening closing.
       providerOpeningCents (ri_balances inp) = Some opening \<and> providerClosingCents (ri_balances inp) = Some closing \<and>
       bd_deltaCents b = Some (closing - (opening + br_matchedMovementCents (rr_balance (reconcile lc brDate inp)))) \<and>
       bd_deltaCents b \<noteq> Some 0)"
proof (rule reconcile_recorded [of lc brDate inp])
  fix ms bs r
  assume p: "passBalance brDate inp (indexar (ri_provider inp)) ms bs = (r, rr_breaks (reconcile lc brDate inp))"
    and r: "rr_balance (reconcile lc brDate inp) = r"
    and safe: "\<forall>b\<in>set bs. break_ok (ri_provider inp) (ri_policy inp) b"
  from passBalance_breaks [OF p] assms safe r show ?thesis
    by (auto simp: balance_break_def Let_def break_ok_def)
qed

theorem balance_mismatch_is_alone_witness:
  "\<exists>b. rr_breaks (sample_run 4 []) = [b] \<and> bd_type b = BALANCE_MISMATCH \<and> bd_deltaCents b \<noteq> Some 0"
proof -
  have "map bd_type (rr_breaks (sample_run 4 [])) = [BALANCE_MISMATCH]" by code_simp
  then obtain b where b: "b \<in> set (rr_breaks (sample_run 4 []))" "bd_type b = BALANCE_MISMATCH"
    by (cases "rr_breaks (sample_run 4 [])") auto
  show ?thesis using balance_mismatch_is_alone [OF b] b(2) by blast
qed

text \<open>C11: a clean run explains the provider's balance to the cent.  When a run with known opening and closing
  balances ends without a break, the closing balance is the opening balance plus the signed sum of all the
  provider's items, and every local item is matched or still inside the settlement grace period.\<close>

theorem clean_run_closes_the_balance:
  assumes "distinct (map ni_id (ri_provider inp))" "distinct (map ni_id (ri_local inp))"
    and "[] \<notin> ni_id ` set (ri_provider inp)"
    and "providerOpeningCents (ri_balances inp) = Some opening" "providerClosingCents (ri_balances inp) = Some closing"
    and "rr_breaks (reconcile lc brDate inp) = []"
  shows "closing = opening + sum_list (map signed (ri_provider inp)) \<and>
    mset (m_loc (rr_matches (reconcile lc brDate inp))) + mset (rr_pendingSettlement (reconcile lc brDate inp))
      = mset (map ni_id (ri_local inp))"
proof (rule reconcile_recorded [of lc brDate inp])
  fix ms bs r
  assume ms: "rr_matches (reconcile lc brDate inp) = ms"
    and p: "passBalance brDate inp (indexar (ri_provider inp)) ms bs = (r, rr_breaks (reconcile lc brDate inp))"
  note acc = run_accounts [OF assms(1,2), of lc brDate, unfolded assms(6) ms]
  have "mset (m_prov ms) = mset (map ni_id (ri_provider inp))" using acc by simp
  from movement_all_matched [OF assms(1,3) this]
  have "closing = opening + sum_list (map signed (ri_provider inp))"
    using passBalance_clean [OF p [unfolded assms(6)] assms(4,5)] by simp
  then show ?thesis using acc ms by simp
qed

theorem clean_run_closes_the_balance_witness:
  "rr_breaks (sample_run 3 []) = [] \<and>
   (3::cents) = 1 + sum_list (map signed (ri_provider (sample_input 3 [])))"
proof -
  have clean: "rr_breaks (sample_run 3 []) = []" by code_simp
  have h: "distinct (map ni_id (ri_provider (sample_input 3 [])))" "distinct (map ni_id (ri_local (sample_input 3 [])))"
    "[] \<notin> ni_id ` set (ri_provider (sample_input 3 []))"
    "providerOpeningCents (ri_balances (sample_input 3 [])) = Some 1"
    "providerClosingCents (ri_balances (sample_input 3 [])) = Some 3"
    by (simp_all add: sample_defs)
  show ?thesis using clean_run_closes_the_balance [OF h clean] clean by blast
qed

end
