(* ===== verification/Domain_Repositories.thy ===== *)
theory Domain_Repositories
  imports Br_Identifiers
begin

text \<open>
  The in-memory domain repositories, \<open>src/apps/api/src/persistence/memory/domain.repositories.ts\<close>, over the
  record types of \<open>accounts/accounts.types.ts\<close>, \<open>events/outbox.types.ts\<close> and \<open>webhooks/webhooks.types.ts\<close>:
  holders, accounts, onboarding cases, outbox, audit trail and inbound webhook events.

  \<open>new Date()\<close> is \<open>now\<close>, \<open>newId\<close> is an argument.  An error thrown for a missing row is \<open>None\<close>.
\<close>

section \<open>Record types\<close>

datatype HolderType = INDIVIDUAL | BUSINESS

datatype AccountKind = PAYMENT | CHECKING | SAVINGS | ESCROW

datatype OnboardingType = KYC | KYB

datatype RequirementCode =
    SELFIE_LIVENESS | IDENTITY_FRONT | IDENTITY_BACK | PROOF_OF_ADDRESS | PROOF_OF_INCOME | TAX_ID_DOCUMENT
  | ARTICLES_OF_INCORPORATION | LATEST_AMENDMENT | BOARD_ELECTION_MINUTES | CNPJ_REGISTRATION_CARD | OWNERSHIP_CHART
  | UBO_DECLARATION | FINANCIAL_STATEMENTS | POWER_OF_ATTORNEY | REPRESENTATIVE_KYC | ADDITIONAL_INFORMATION
  | PHONE_VERIFICATION | EMAIL_VERIFICATION | TERMS_ACCEPTANCE

datatype ActorType = API_KEY | USER | SYSTEM | PROVIDER

record HolderRecord =
  ho_id :: ident
  ho_environment :: Environment
  ho_type :: HolderType
  ho_taxIdType :: TaxIdType
  ho_taxIdBlindIndex :: string
  ho_taxIdLast4 :: string
  ho_legalName :: string
  ho_email :: string
  ho_externalId :: "string option"
  ho_createdAt :: instant

record AccountRecord =
  ac_id :: ident
  ac_environment :: Environment
  ac_holderId :: ident
  ac_provider :: string
  ac_providerConnectionId :: ident
  ac_providerAccountId :: "string option"
  ac_externalId :: "string option"
  ac_status :: AccountStatus
  ac_statusReasonCode :: "string option"
  ac_statusReasonMessage :: "string option"
  ac_statusChangedAt :: "instant option"
  ac_lastEventAt :: "instant option"
  ac_kind :: AccountKind
  ac_currency :: string
  ac_ledgerAvailableAccountId :: "ident option"
  ac_ledgerBlockedAccountId :: "ident option"
  ac_ispb :: "string option"
  ac_branch :: "string option"
  ac_number :: "string option"
  ac_checkDigit :: "string option"
  ac_openedAt :: "instant option"
  ac_closedAt :: "instant option"
  ac_metadata :: "(string \<times> string) list"
  ac_createdAt :: instant
  ac_updatedAt :: instant

record RequirementRecord =
  rq_id :: ident
  rq_caseId :: ident
  rq_code :: RequirementCode
  rq_status :: RequirementStatus
  rq_label :: string
  rq_documentId :: "ident option"
  rq_attempts :: nat

record OnboardingRecord =
  ob_id :: ident
  ob_environment :: Environment
  ob_holderId :: ident
  ob_accountId :: "ident option"
  ob_provider :: string
  ob_providerCaseId :: "string option"
  ob_type :: OnboardingType
  ob_status :: OnboardingStatus
  ob_lastEventAt :: "instant option"
  ob_rejectionCode :: "string option"
  ob_rejectionMessage :: "string option"
  ob_providerRejectionCode :: "string option"
  ob_submittedAt :: "instant option"
  ob_decidedAt :: "instant option"
  ob_requirements :: "RequirementRecord list"
  ob_createdAt :: instant
  ob_updatedAt :: instant

section \<open>MemoryHolderRepository\<close>

text \<open>The encrypted document is an opaque value.\<close>

record 'e HolderRepo =
  h_rows :: "(ident, HolderRecord) jsmap"
  h_envelopes :: "(ident, 'e) jsmap"

definition ho_findByTaxIdBlindIndex :: "'e HolderRepo \<Rightarrow> Environment \<Rightarrow> string \<Rightarrow> HolderRecord option" where
  "ho_findByTaxIdBlindIndex repo env idx =
     find (\<lambda>row. ho_environment row = env \<and> ho_taxIdBlindIndex row = idx) (map_values (h_rows repo))"

definition ho_findById :: "'e HolderRepo \<Rightarrow> Environment \<Rightarrow> ident \<Rightarrow> HolderRecord option" where
  "ho_findById repo env i =
     (case map_get (h_rows repo) i of
        None \<Rightarrow> None
      | Some row \<Rightarrow> if ho_environment row = env then Some row else None)"

definition ho_taxIdEnvelope :: "'e HolderRepo \<Rightarrow> Environment \<Rightarrow> ident \<Rightarrow> ('e \<times> nat) option" where
  "ho_taxIdEnvelope repo env i =
     (case map_get (h_envelopes repo) i of
        None \<Rightarrow> None
      | Some envelope \<Rightarrow> if ho_findById repo env i = None then None else Some (envelope, 1))"

definition ho_create :: "instant \<Rightarrow> HolderRecord \<Rightarrow> 'e \<Rightarrow> 'e HolderRepo \<Rightarrow> HolderRecord \<times> 'e HolderRepo" where
  "ho_create now record envelope repo =
     (let r = record\<lparr>ho_createdAt := now\<rparr> in
      (r, repo\<lparr>h_rows := map_set (ho_id r) r (h_rows repo), h_envelopes := map_set (ho_id r) envelope (h_envelopes repo)\<rparr>))"

section \<open>MemoryAccountRepository\<close>

record AccountHistoryEntry =
  ah_accountId :: ident
  ah_from :: AccountStatus
  ah_to :: AccountStatus

record AccountRepo =
  a_rows :: "(ident, AccountRecord) jsmap"
  a_statusHistory :: "AccountHistoryEntry list"

definition ac_findById :: "AccountRepo \<Rightarrow> Environment \<Rightarrow> ident \<Rightarrow> AccountRecord option" where
  "ac_findById repo env i =
     (case map_get (a_rows repo) i of
        None \<Rightarrow> None
      | Some row \<Rightarrow> if ac_environment row = env then Some row else None)"

definition ac_findByExternalId :: "AccountRepo \<Rightarrow> Environment \<Rightarrow> string \<Rightarrow> AccountRecord option" where
  "ac_findByExternalId repo env x =
     find (\<lambda>row. ac_environment row = env \<and> ac_externalId row = Some x) (map_values (a_rows repo))"

definition ac_findByProviderAccountId ::
  "AccountRepo \<Rightarrow> Environment \<Rightarrow> string \<Rightarrow> string \<Rightarrow> AccountRecord option" where
  "ac_findByProviderAccountId repo env provider pid =
     find (\<lambda>row. ac_environment row = env \<and> ac_provider row = provider \<and> ac_providerAccountId row = Some pid)
       (map_values (a_rows repo))"

record ListAccountsFilter =
  la_environment :: Environment
  la_connectionId :: "ident option"
  la_status :: "AccountStatus option"
  la_externalId :: "string option"
  la_limit :: nat
  la_cursor :: "ident option"

definition ac_list ::
  "(string \<Rightarrow> string \<Rightarrow> int) \<Rightarrow> AccountRepo \<Rightarrow> ListAccountsFilter \<Rightarrow> AccountRecord list \<times> ident option" where
  "ac_list lc repo f =
     (let selected = filter (\<lambda>row. ac_environment row = la_environment f \<and>
              absent_or (truthy (la_connectionId f)) (\<lambda>c. ac_providerConnectionId row = c) \<and>
              absent_or (la_status f) (\<lambda>s. ac_status row = s) \<and>
              absent_or (truthy (la_externalId f)) (\<lambda>e. ac_externalId row = Some e)) (map_values (a_rows repo));
          rows = js_sort (\<lambda>a b. lc (ac_id b) (ac_id a)) selected;
          start = (case truthy (la_cursor f) of
                     None \<Rightarrow> 0
                   | Some c \<Rightarrow> nat (findIndex (\<lambda>row. ac_id row = c) 0 rows + 1));
          page = take (la_limit f) (drop start rows)
      in (page, if start + la_limit f < length rows \<and> page \<noteq> [] then Some (ac_id (last page)) else None))"

definition ac_create :: "AccountRecord \<Rightarrow> AccountRepo \<Rightarrow> AccountRecord \<times> AccountRepo" where
  "ac_create record repo = (record, repo\<lparr>a_rows := map_set (ac_id record) record (a_rows repo)\<rparr>)"

definition ac_attachLedgerAccounts ::
  "instant \<Rightarrow> ident \<Rightarrow> ident \<Rightarrow> ident \<Rightarrow> AccountRepo \<Rightarrow> (AccountRecord \<times> AccountRepo) option" where
  "ac_attachLedgerAccounts now i availableId blockedId repo =
     (case map_get (a_rows repo) i of
        None \<Rightarrow> None
      | Some row \<Rightarrow>
          (let row' = row\<lparr>ac_ledgerAvailableAccountId := Some availableId,
                 ac_ledgerBlockedAccountId := Some blockedId, ac_updatedAt := now\<rparr>
           in Some (row', repo\<lparr>a_rows := map_set i row' (a_rows repo)\<rparr>)))"

record BankCoordinates =
  bk_ispb :: "string option"
  bk_branch :: "string option"
  bk_number :: "string option"
  bk_checkDigit :: "string option"

definition ac_attachProviderAccount ::
  "instant \<Rightarrow> ident \<Rightarrow> string \<Rightarrow> AccountStatus \<Rightarrow> BankCoordinates option \<Rightarrow> instant option \<Rightarrow> AccountRepo \<Rightarrow>
   (AccountRecord \<times> AccountRepo) option" where
  "ac_attachProviderAccount now i pid status bank openedAt repo =
     (case map_get (a_rows repo) i of
        None \<Rightarrow> None
      | Some row \<Rightarrow>
          (let field = (\<lambda>f. case bank of None \<Rightarrow> None | Some b \<Rightarrow> f b);
               row' = row\<lparr>ac_providerAccountId := Some pid, ac_status := status,
                 ac_ispb := coalesce (field bk_ispb) (ac_ispb row),
                 ac_branch := coalesce (field bk_branch) (ac_branch row),
                 ac_number := coalesce (field bk_number) (ac_number row),
                 ac_checkDigit := coalesce (field bk_checkDigit) (ac_checkDigit row),
                 ac_openedAt := coalesce openedAt (ac_openedAt row), ac_updatedAt := now\<rparr>
           in Some (row', repo\<lparr>a_rows := map_set i row' (a_rows repo)\<rparr>)))"

record AccountStatusChange =
  ax_environment :: Environment
  ax_accountId :: ident
  ax_toStatus :: AccountStatus
  ax_reasonCode :: "string option"
  ax_reasonMessage :: "string option"
  ax_occurredAt :: instant

definition ac_changed :: "AccountStatusChange \<Rightarrow> AccountRecord \<Rightarrow> AccountRecord" where
  "ac_changed inp row =
     (let row1 = row\<lparr>
            ac_status := ax_toStatus inp,
            ac_statusReasonCode := coalesce (ax_reasonCode inp) (ac_statusReasonCode row),
            ac_statusReasonMessage := coalesce (ax_reasonMessage inp) (ac_statusReasonMessage row),
            ac_statusChangedAt := Some (ax_occurredAt inp),
            ac_lastEventAt := Some (ax_occurredAt inp),
            ac_updatedAt := ax_occurredAt inp\<rparr>
      in if ax_toStatus inp = AccountStatus.CLOSED then row1\<lparr>ac_closedAt := Some (ax_occurredAt inp)\<rparr> else row1)"

definition ac_applyStatusChange ::
  "AccountStatusChange \<Rightarrow> (ident \<Rightarrow> 'w \<Rightarrow> 'w) option \<Rightarrow> AccountRepo \<times> 'w \<Rightarrow>
   (AccountRecord, AccountStatus) StatusChangeResult \<times> AccountRepo \<times> 'w" where
  "ac_applyStatusChange inp withinTransaction state =
     (case state of (repo, w) \<Rightarrow>
       (case map_get (a_rows repo) (ax_accountId inp) of
          None \<Rightarrow> (NotApplied not_found None, repo, w)
        | Some row \<Rightarrow>
          if ac_environment row \<noteq> ax_environment inp then (NotApplied not_found None, repo, w)
          else (case guard ACCOUNT_STATUS_TRANSITIONS ACCOUNT_STATUS_RANKS (ac_status row)
                       (ac_lastEventAt row) (ax_toStatus inp) (ax_occurredAt inp) of
                  Inl reason \<Rightarrow> (NotApplied reason (Some (ac_status row)), repo, w)
                | Inr _ \<Rightarrow>
                    (let row' = ac_changed inp row in
                     (Applied row',
                      repo\<lparr>a_rows := map_set (ax_accountId inp) row' (a_rows repo),
                           a_statusHistory := a_statusHistory repo @
                             [\<lparr>ah_accountId = ac_id row, ah_from = ac_status row, ah_to = ax_toStatus inp\<rparr>]\<rparr>,
                      case withinTransaction of None \<Rightarrow> w | Some cb \<Rightarrow> cb (ac_id row) w)))))"

section \<open>MemoryOnboardingRepository\<close>

type_synonym OnboardingRepo = "(ident, OnboardingRecord) jsmap"

definition ob_findById :: "OnboardingRepo \<Rightarrow> Environment \<Rightarrow> ident \<Rightarrow> OnboardingRecord option" where
  "ob_findById rows env i =
     (case map_get rows i of
        None \<Rightarrow> None
      | Some row \<Rightarrow> if ob_environment row = env then Some row else None)"

definition ob_findByAccountId :: "OnboardingRepo \<Rightarrow> Environment \<Rightarrow> ident \<Rightarrow> OnboardingRecord option" where
  "ob_findByAccountId rows env a =
     find (\<lambda>row. ob_environment row = env \<and> ob_accountId row = Some a) (map_values rows)"

definition ob_findByProviderCaseId :: "OnboardingRepo \<Rightarrow> Environment \<Rightarrow> string \<Rightarrow> string \<Rightarrow> OnboardingRecord option" where
  "ob_findByProviderCaseId rows env provider c =
     find (\<lambda>row. ob_environment row = env \<and> ob_provider row = provider \<and> ob_providerCaseId row = Some c) (map_values rows)"

definition ob_create :: "OnboardingRecord \<Rightarrow> OnboardingRepo \<Rightarrow> OnboardingRecord \<times> OnboardingRepo" where
  "ob_create record rows = (record, map_set (ob_id record) record rows)"

record CaseStatusChange =
  ox_environment :: Environment
  ox_caseId :: ident
  ox_toStatus :: OnboardingStatus
  ox_rejectionCode :: "string option"
  ox_rejectionMessage :: "string option"
  ox_providerRejectionCode :: "string option"
  ox_requirements :: "(RequirementCode \<times> string) list option"
  ox_occurredAt :: instant

definition close_missing :: "RequirementCode list \<Rightarrow> RequirementRecord \<Rightarrow> RequirementRecord" where
  "close_missing pending r =
     (if \<not> List.member pending (rq_code r) \<and> rq_status r = RequirementStatus.PENDING
      then r\<lparr>rq_status := RequirementStatus.ACCEPTED\<rparr> else r)"

fun add_requirements ::
  "(nat \<Rightarrow> ident) \<Rightarrow> nat \<Rightarrow> ident \<Rightarrow> (RequirementCode \<times> string) list \<Rightarrow> RequirementRecord list \<Rightarrow> RequirementRecord list" where
  "add_requirements newReq n caseId [] rs = rs"
| "add_requirements newReq n caseId ((code, label) # qs) rs =
     (if list_ex (\<lambda>r. rq_code r = code) rs then add_requirements newReq n caseId qs rs
      else add_requirements newReq (Suc n) caseId qs
        (rs @ [\<lparr>rq_id = newReq n, rq_caseId = caseId, rq_code = code, rq_status = RequirementStatus.PENDING,
                rq_label = label, rq_documentId = None, rq_attempts = 0\<rparr>]))"

definition ob_changed :: "(nat \<Rightarrow> ident) \<Rightarrow> CaseStatusChange \<Rightarrow> OnboardingRecord \<Rightarrow> OnboardingRecord" where
  "ob_changed newReq inp row =
     (let row1 = row\<lparr>
            ob_status := ox_toStatus inp,
            ob_rejectionCode := coalesce (ox_rejectionCode inp) (ob_rejectionCode row),
            ob_rejectionMessage := coalesce (ox_rejectionMessage inp) (ob_rejectionMessage row),
            ob_providerRejectionCode := coalesce (ox_providerRejectionCode inp) (ob_providerRejectionCode row),
            ob_lastEventAt := Some (ox_occurredAt inp),
            ob_updatedAt := ox_occurredAt inp\<rparr>;
          row2 = (if ox_toStatus inp = OnboardingStatus.APPROVED \<or> ox_toStatus inp = OnboardingStatus.REJECTED
                  then row1\<lparr>ob_decidedAt := Some (ox_occurredAt inp)\<rparr> else row1)
      in case ox_requirements inp of
           None \<Rightarrow> row2
         | Some qs \<Rightarrow> row2\<lparr>ob_requirements := add_requirements newReq 0 (ob_id row) qs
                        (map (close_missing (map fst qs)) (ob_requirements row2))\<rparr>)"

definition ob_applyStatusChange ::
  "(nat \<Rightarrow> ident) \<Rightarrow> CaseStatusChange \<Rightarrow> (ident \<Rightarrow> 'w \<Rightarrow> 'w) option \<Rightarrow> OnboardingRepo \<times> 'w \<Rightarrow>
   (OnboardingRecord, OnboardingStatus) StatusChangeResult \<times> OnboardingRepo \<times> 'w" where
  "ob_applyStatusChange newReq inp withinTransaction state =
     (case state of (rows, w) \<Rightarrow>
       (case map_get rows (ox_caseId inp) of
          None \<Rightarrow> (NotApplied not_found None, rows, w)
        | Some row \<Rightarrow>
          if ob_environment row \<noteq> ox_environment inp then (NotApplied not_found None, rows, w)
          else (case guard ONBOARDING_STATUS_TRANSITIONS ONBOARDING_STATUS_RANKS (ob_status row)
                       (ob_lastEventAt row) (ox_toStatus inp) (ox_occurredAt inp) of
                  Inl reason \<Rightarrow> (NotApplied reason (Some (ob_status row)), rows, w)
                | Inr _ \<Rightarrow>
                    (let row' = ob_changed newReq inp row in
                     (Applied row', map_set (ox_caseId inp) row' rows,
                      case withinTransaction of None \<Rightarrow> w | Some cb \<Rightarrow> cb (ob_id row) w)))))"

section \<open>MemoryOutboxRepository and MemoryAuditRepository\<close>

datatype EventType =
    HOLDER_CREATED | HOLDER_UPDATED | ACCOUNT_CREATED | ACCOUNT_ACTIVATED | ACCOUNT_STATUS_CHANGED | ACCOUNT_BLOCKED
  | ACCOUNT_CLOSED | ONBOARDING_SUBMITTED | ONBOARDING_REQUIREMENTS_UPDATED | ONBOARDING_UNDER_REVIEW
  | ONBOARDING_APPROVED | ONBOARDING_REJECTED | ONBOARDING_EXPIRED | COMPLIANCE_SCREENING_COMPLETED
  | COMPLIANCE_ALERT_RAISED | BALANCE_UPDATED | PIX_KEY_REGISTERED | PIX_KEY_REMOVED | PIX_KEY_CLAIM_RECEIVED
  | PIX_CHARGE_CREATED | PIX_CHARGE_PAID | PIX_CHARGE_EXPIRED | TRANSACTION_CREATED | TRANSACTION_UPDATED
  | PIX_IN_RECEIVED | PIX_OUT_PENDING | PIX_OUT_SETTLED | PIX_OUT_FAILED | PIX_REFUND_CREATED | PIX_REFUND_RECEIVED
  | PIX_REFUND_SETTLED | RECONCILIATION_RUN_COMPLETED | RECONCILIATION_BREAK_OPENED | PROVIDER_DEGRADED

text \<open>The values the services put into payloads.\<close>

datatype PayloadValue =
    Text string
  | Null
  | AccountStatusValue AccountStatus
  | OnboardingStatusValue OnboardingStatus
  | TransactionStatusValue TransactionStatus
  | ChargeStatusValue PixChargeStatus
  | Codes "RequirementCode list"
  | RequirementValue RequirementCode
  | Number int
  | KeyTypeValue PixKeyType
  | KeyStatusValue PixKeyStatus
  | ChargeKindValue PixChargeKind

type_synonym Payload = "(string \<times> PayloadValue) list"

record OutboxDraft =
  ou_env :: Environment
  ou_type :: EventType
  ou_provider :: "string option"
  ou_connectionId :: "ident option"
  ou_subjectKind :: string
  ou_subjectId :: ident
  ou_payload :: Payload
  ou_previous :: "Payload option"
  ou_occurredAt :: instant

text \<open>The sequence number of a row is its position, counted from 1.\<close>

type_synonym OutboxRepo = "(OutboxDraft \<times> nat) list"

definition outbox_append :: "OutboxDraft \<Rightarrow> OutboxRepo \<Rightarrow> OutboxRepo" where
  "outbox_append draft rows = rows @ [(draft, length rows + 1)]"

definition outbox_forSubject :: "OutboxRepo \<Rightarrow> ident \<Rightarrow> (OutboxDraft \<times> nat) list" where
  "outbox_forSubject rows i = filter (\<lambda>(row, _). ou_subjectId row = i) rows"

datatype AuditOutcome = SUCCESS | FAILURE | DENIED

record AuditDraft =
  au_environment :: Environment
  au_actorType :: ActorType
  au_actorId :: "string option"
  au_actorLabel :: "string option"
  au_actorIp :: "string option"
  au_action :: string
  au_outcome :: AuditOutcome
  au_errorCode :: "string option"
  au_resourceType :: string
  au_resourceId :: "ident option"
  au_connectionId :: "ident option"
  au_provider :: "string option"
  au_before :: "Payload option"
  au_after :: "Payload option"
  au_changedFields :: "string list option"
  au_requestId :: "string option"
  au_operationId :: "ident option"
  au_occurredAt :: instant

type_synonym AuditRepo = "AuditDraft list"

definition audit_record :: "AuditDraft \<Rightarrow> AuditRepo \<Rightarrow> AuditRepo" where
  "audit_record draft rows = rows @ [draft]"

definition audit_forResource :: "AuditRepo \<Rightarrow> ident \<Rightarrow> AuditDraft list" where
  "audit_forResource rows i = filter (\<lambda>row. au_resourceId row = Some i) rows"

record AuditFilter =
  af_environment :: Environment
  af_actorId :: "string option"
  af_action :: "string option"
  af_resourceType :: "string option"
  af_resourceId :: "ident option"
  af_from :: "instant option"
  af_to :: "instant option"
  af_limit :: nat
  af_cursor :: "nat option"

record AuditRecord =
  ar_id :: string
  ar_sequence :: string
  ar_draft :: AuditDraft
  ar_changedFields :: "string list"

definition toMemoryAuditRecord :: "AuditDraft \<times> nat \<Rightarrow> AuditRecord" where
  "toMemoryAuditRecord = (\<lambda>(row, sequence).
     \<lparr>ar_id = ''aud_mem_'' @ show_nat sequence, ar_sequence = show_nat sequence, ar_draft = row,
      ar_changedFields = or_else (au_changedFields row) []\<rparr>)"

text \<open>The cursor of a page is the sequence number of its last row.\<close>

definition audit_matches :: "AuditFilter \<Rightarrow> AuditDraft \<Rightarrow> bool" where
  "audit_matches f row \<longleftrightarrow>
     au_environment row = af_environment f \<and>
     absent_or (truthy (af_actorId f)) (\<lambda>x. au_actorId row = Some x) \<and>
     absent_or (truthy (af_action f)) (\<lambda>x. au_action row = x) \<and>
     absent_or (truthy (af_resourceType f)) (\<lambda>x. au_resourceType row = x) \<and>
     absent_or (truthy (af_resourceId f)) (\<lambda>x. au_resourceId row = Some x) \<and>
     absent_or (af_from f) (\<lambda>t. au_occurredAt row \<ge> t) \<and>
     absent_or (af_to f) (\<lambda>t. au_occurredAt row \<le> t)"

definition audit_list :: "AuditRepo \<Rightarrow> AuditFilter \<Rightarrow> AuditRecord list \<times> string option" where
  "audit_list rows f =
     (let filtradas = filter (\<lambda>(_, sequence). absent_or (af_cursor f) (\<lambda>c. sequence < c))
            (rev (filter (\<lambda>(row, _). audit_matches f row) (zip rows [1..<length rows + 1])));
          data = map toMemoryAuditRecord (take (af_limit f) filtradas)
      in (data, if length filtradas > af_limit f \<and> data \<noteq> [] then Some (ar_sequence (last data)) else None))"

definition audit_verifyChain :: "AuditRepo \<Rightarrow> Environment \<Rightarrow> bool \<times> nat" where
  "audit_verifyChain rows env = (True, length (filter (\<lambda>row. au_environment row = env) rows))"

section \<open>MemoryInboundEventRepository\<close>

datatype InboundEventStatus = RECEIVED | PROCESSING | PROCESSED | DISCARDED | FAILED | DEAD_LETTER

record InboundEventRecord =
  ie_id :: ident
  ie_environment :: Environment
  ie_connectionId :: ident
  ie_provider :: string
  ie_dedupeKey :: string
  ie_providerEventId :: "string option"
  ie_eventTypeRaw :: "string option"
  ie_occurredAt :: "instant option"
  ie_receivedAt :: instant
  ie_headers :: "(string \<times> string) list"
  ie_payload :: string
  ie_rawSha256 :: string
  ie_signatureValid :: bool
  ie_status :: InboundEventStatus
  ie_attempts :: nat
  ie_lastError :: "string option"
  ie_processedAt :: "instant option"

type_synonym InboundEventRepo = "(ident, InboundEventRecord) jsmap"

definition ie_claim :: "InboundEventRecord \<Rightarrow> InboundEventRepo \<Rightarrow> (bool \<times> InboundEventRecord) \<times> InboundEventRepo" where
  "ie_claim record rows =
     (case find (\<lambda>row. ie_connectionId row = ie_connectionId record \<and> ie_dedupeKey row = ie_dedupeKey record) (map_values rows) of
        Some existing \<Rightarrow> ((False, existing), rows)
      | None \<Rightarrow> ((True, record), map_set (ie_id record) record rows))"

definition ie_markProcessing :: "ident \<Rightarrow> InboundEventRepo \<Rightarrow> bool \<times> InboundEventRepo" where
  "ie_markProcessing i rows =
     (case map_get rows i of
        None \<Rightarrow> (False, rows)
      | Some row \<Rightarrow>
          if ie_status row \<noteq> RECEIVED \<and> ie_status row \<noteq> InboundEventStatus.FAILED then (False, rows)
          else (True, map_set i (row\<lparr>ie_status := InboundEventStatus.PROCESSING, ie_attempts := ie_attempts row + 1\<rparr>) rows))"

definition ie_markProcessed :: "ident \<Rightarrow> instant \<Rightarrow> InboundEventRepo \<Rightarrow> InboundEventRepo" where
  "ie_markProcessed i at rows =
     (case map_get rows i of
        None \<Rightarrow> rows
      | Some row \<Rightarrow> map_set i (row\<lparr>ie_status := PROCESSED, ie_processedAt := Some at\<rparr>) rows)"

definition ie_markDiscarded :: "ident \<Rightarrow> string \<Rightarrow> InboundEventRepo \<Rightarrow> InboundEventRepo" where
  "ie_markDiscarded i reason rows =
     (case map_get rows i of
        None \<Rightarrow> rows
      | Some row \<Rightarrow> map_set i (row\<lparr>ie_status := DISCARDED, ie_lastError := Some reason\<rparr>) rows)"

definition ie_markFailed :: "ident \<Rightarrow> string \<Rightarrow> bool \<Rightarrow> InboundEventRepo \<Rightarrow> InboundEventRepo" where
  "ie_markFailed i err deadLetter rows =
     (case map_get rows i of
        None \<Rightarrow> rows
      | Some row \<Rightarrow>
          map_set i (row\<lparr>ie_status := (if deadLetter then DEAD_LETTER else InboundEventStatus.FAILED),
                         ie_lastError := Some err\<rparr>) rows)"

definition ie_findStale :: "InboundEventRepo \<Rightarrow> instant \<Rightarrow> nat \<Rightarrow> InboundEventRecord list" where
  "ie_findStale rows olderThan limit =
     take limit (filter (\<lambda>row. (ie_status row = RECEIVED \<or> ie_status row = InboundEventStatus.PROCESSING) \<and>
        ie_receivedAt row \<le> olderThan) (map_values rows))"

record InboundEventFilter =
  if_environment :: Environment
  if_provider :: "string option"
  if_connectionId :: "ident option"
  if_status :: "InboundEventStatus option"
  if_from :: "instant option"
  if_to :: "instant option"
  if_limit :: nat
  if_cursor :: "ident option"

definition ie_list :: "InboundEventRepo \<Rightarrow> InboundEventFilter \<Rightarrow> InboundEventRecord list \<times> ident option" where
  "ie_list rows f =
     (let selected = js_sort (\<lambda>a b. if ie_id a < ie_id b then 1 else - 1)
            (filter (\<lambda>row. ie_environment row = if_environment f \<and>
               absent_or (truthy (if_provider f)) (\<lambda>p. ie_provider row = p) \<and>
               absent_or (truthy (if_connectionId f)) (\<lambda>c. ie_connectionId row = c) \<and>
               absent_or (if_status f) (\<lambda>s. ie_status row = s) \<and>
               absent_or (if_from f) (\<lambda>t. ie_receivedAt row \<ge> t) \<and>
               absent_or (if_to f) (\<lambda>t. ie_receivedAt row \<le> t) \<and>
               absent_or (truthy (if_cursor f)) (\<lambda>c. ie_id row < c)) (map_values rows));
          data = take (if_limit f) selected
      in (data, if length selected > if_limit f \<and> data \<noteq> [] then Some (ie_id (last data)) else None))"

end
