(* ===== verification/Pix_Transfers.thy ===== *)
theory Pix_Transfers
  imports Recon_Types Domain_Repositories Emv Money Shadow_Ledger
begin

text \<open>
  The transfer service of the API, \<open>src/apps/api/src/pix/pix-transfers.service.ts\<close>, over the repositories, the
  shadow ledger, the outbox, the queue and the cache it works on.

  \<open>World\<close> is the state those collaborators keep; \<open>w_invalidated\<close> lists the cache tags invalidated and
  \<open>w_requests\<close> the requests that reached the provider.  The provider is a parameter, the function from a request
  to its reply; so are the time zone database (\<open>toEffectiveDate\<close>), the blind index, the texts of errors and the capability check of
  \<open>ProviderResolver.require\<close>.  Clock readings and generated identifiers of one call are the record \<open>Draws\<close>.
  A method returns its value or the error it throws, and the world it leaves in either case.
\<close>

section \<open>The world of the services\<close>

datatype QueuedJob =
    InboundWebhookJob ident
  | OutboxDispatchJob Environment ident
  | OperationResolveJob Environment ident nat
  | ReconciliationSweepJob ReconciliationScope
  | ReconciliationJob Environment ident
  | PollJob ident string "string option"

text \<open>What is asked of the provider: its idempotency key and the amount.\<close>

record ProviderRequest =
  rq_key :: string
  rq_amountCents :: cents

record World =
  w_events :: InboundEventRepo
  w_accounts :: AccountRepo
  w_cases :: OnboardingRepo
  w_transactions :: TransactionRepo
  w_charges :: PixChargeRepo
  w_operations :: OperationRepo
  w_ledger :: LedgerStores
  w_outbox :: OutboxRepo
  w_audit :: AuditRepo
  w_queue :: "(QueuedJob \<times> nat option) list"
  w_invalidated :: "(Environment \<times> ident) list"
  w_requests :: "ProviderRequest list"

record Draws =
  d_now :: instant
  d_holdNow :: instant
  d_voidNow :: instant
  d_operationId :: ident
  d_transactionId :: ident
  d_holdTx :: ident
  d_holdEntry :: "nat \<Rightarrow> ident"
  d_voidTx :: ident
  d_voidEntry :: "nat \<Rightarrow> ident"
  d_requirementId :: "nat \<Rightarrow> ident"
  d_ledgerIds :: "nat \<Rightarrow> ident"

datatype ServiceError =
    ACCOUNT_NOT_FOUND ident
  | ACCOUNT_NOT_ACTIVE
  | NO_LEDGER_ACCOUNT ident
  | CAPABILITY_NOT_SUPPORTED string
  | INVALID_PIX_KEY
  | INVALID_EMV_PAYLOAD "EmvError option"
  | KEY_NORMALIZATION IdentifierError
  | VALIDATION_ERROR
  | REFUND_WINDOW_EXPIRED instant
  | REFUND_AMOUNT_EXCEEDS_ORIGINAL cents cents cents
  | TRANSACTION_NOT_FOUND
  | RESOURCE_NOT_FOUND ident
  | RESOURCE_ALREADY_EXISTS ident
  | MoneyFailure MoneyError
  | LedgerFailure ShadowError
  | ProviderRefused string
  | ProviderOutcomeUnknown string

type_synonym 'r outcome = "(ServiceError + 'r) \<times> World"

text \<open>Running an operation of the shadow ledger of an environment.\<close>

definition on_ledger ::
  "(nat \<Rightarrow> ident) \<Rightarrow> Environment \<Rightarrow>
   (InMemoryLedgerStore \<Rightarrow> ShadowError + (PostTransactionResult \<times> InMemoryLedgerStore)) \<Rightarrow> World \<Rightarrow>
   PostTransactionResult outcome" where
  "on_ledger ids env f w =
     (case factory_for ids env (w_ledger w) of
        (s, stores) \<Rightarrow>
          (case f s of
             Inl e \<Rightarrow> (Inl (LedgerFailure e), w\<lparr>w_ledger := stores\<rparr>)
           | Inr (r, s') \<Rightarrow> (Inr r, w\<lparr>w_ledger := map_set env s' stores\<rparr>)))"

definition invalidateBalance :: "Environment \<Rightarrow> ident \<Rightarrow> World \<Rightarrow> World" where
  "invalidateBalance env account w = w\<lparr>w_invalidated := w_invalidated w @ [(env, account)]\<rparr>"

definition append_outbox :: "OutboxDraft \<Rightarrow> World \<Rightarrow> World" where
  "append_outbox draft w = w\<lparr>w_outbox := outbox_append draft (w_outbox w)\<rparr>"

definition enqueue :: "QueuedJob \<Rightarrow> nat option \<Rightarrow> World \<Rightarrow> World" where
  "enqueue job delay w = w\<lparr>w_queue := w_queue w @ [(job, delay)]\<rparr>"

record ActorContext =
  actor_environment :: Environment
  actor_connectionId :: ident
  actor_operationId :: "ident option"

section \<open>Destinations\<close>

datatype DestinationDto =
    DtoPixKey string "PixKeyType option"
  | DtoBankAccount string string string "string option" string TaxId string
  | DtoEmv string
  | DtoQrCode string string

datatype PixDestination =
    DestPixKey string PixKeyType
  | DestBankAccount string string string "string option" string TaxId string
  | DestEmv string
  | DestQrCode string string

record SendPixDto =
  dto_amount :: MoneyJSON
  dto_destination :: DestinationDto
  dto_description :: "string option"
  dto_purpose :: "PixPurpose option"
  dto_initiationMethod :: "PixInitiationMethod option"
  dto_externalId :: "string option"
  dto_metadata :: "(string \<times> string) list"

fun initiationOf :: "PixDestination \<Rightarrow> PixInitiationMethod" where
  "initiationOf (DestPixKey _ _) = KEY"
| "initiationOf (DestBankAccount _ _ _ _ _ _ _) = MANUAL"
| "initiationOf (DestEmv _) = COPY_PASTE"
| "initiationOf (DestQrCode _ _) = DYNAMIC_QRCODE"

definition key_destination :: "PixKeyType option \<Rightarrow> string \<Rightarrow> ServiceError + PixDestination" where
  "key_destination ty key =
     (case ty of
        None \<Rightarrow> Inl INVALID_PIX_KEY
      | Some t \<Rightarrow>
          (case normalizePixKey t key of
             Inl e \<Rightarrow> Inl (KEY_NORMALIZATION e)
           | Inr k \<Rightarrow> Inr (DestPixKey k t)))"

definition parsed_destination :: "string \<Rightarrow> PixDestination \<Rightarrow> ServiceError + PixDestination" where
  "parsed_destination payload dynamicForm =
     (case parseBrCode payload of
        Inl e \<Rightarrow> Inl (INVALID_EMV_PAYLOAD (Some e))
      | Inr parsed \<Rightarrow>
          if pb_isDynamic parsed then Inr dynamicForm
          else (case truthy (pb_pixKey parsed) of
                  None \<Rightarrow> Inl (INVALID_EMV_PAYLOAD None)
                | Some key \<Rightarrow> key_destination (inferPixKeyType key) key))"

fun resolveDestination :: "DestinationDto \<Rightarrow> ServiceError + PixDestination" where
  "resolveDestination (DtoPixKey key keyType) =
     key_destination (case keyType of Some t \<Rightarrow> Some t | None \<Rightarrow> inferPixKeyType key) key"
| "resolveDestination (DtoBankAccount ispb branch number checkDigit accountType taxId name) =
     Inr (DestBankAccount ispb branch number checkDigit accountType taxId name)"
| "resolveDestination (DtoEmv payload) = parsed_destination payload (DestEmv payload)"
| "resolveDestination (DtoQrCode txid emv) = parsed_destination emv (DestQrCode txid emv)"

section \<open>Provider replies\<close>

record Counterparty =
  pcp_name :: "string option"
  pcp_taxId :: "string option"
  pcp_ispb :: "string option"
  pcp_branch :: "string option"
  pcp_accountNumber :: "string option"

record PixTransaction =
  pt_providerTransactionId :: string
  pt_endToEndId :: "string option"
  pt_status :: TransactionStatus
  pt_counterparty :: "Counterparty option"
  pt_settledAt :: "instant option"

datatype 'r ProviderReply = Replied 'r | Unknown string | Refused string

record PixRefund =
  rf_providerRefundId :: string
  rf_returnId :: "string option"
  rf_status :: TransactionStatus
  rf_settledAt :: "instant option"

text \<open>The bound adapter of a connection: its slug, the capability it may lack, and its calls.\<close>

record BoundProvider =
  bp_slug :: string
  bp_supported :: bool
  bp_send :: "string \<Rightarrow> ProviderRequest \<Rightarrow> PixDestination \<Rightarrow> PixTransaction ProviderReply"
  bp_lookup :: "(string \<Rightarrow> string \<Rightarrow> PixTransaction option ProviderReply) option"
  bp_refund :: "(string \<Rightarrow> ProviderRequest \<Rightarrow> string \<Rightarrow> PixRefund ProviderReply) option"

definition call :: "ProviderRequest \<Rightarrow> World \<Rightarrow> World" where
  "call rq w = w\<lparr>w_requests := w_requests w @ [rq]\<rparr>"

section \<open>Rows\<close>

definition requireAccount :: "World \<Rightarrow> Environment \<Rightarrow> ident \<Rightarrow> ServiceError + (AccountRecord \<times> string)" where
  "requireAccount w env acct =
     (case ac_findById (w_accounts w) env acct of
        None \<Rightarrow> Inl (ACCOUNT_NOT_FOUND acct)
      | Some account \<Rightarrow>
          (case truthy (ac_providerAccountId account) of
             None \<Rightarrow> Inl ACCOUNT_NOT_ACTIVE
           | Some pid \<Rightarrow> Inr (account, pid)))"

definition requireLedgerAccount :: "AccountRecord \<Rightarrow> ServiceError + ident" where
  "requireLedgerAccount account =
     (case truthy (ac_ledgerAvailableAccountId account) of
        None \<Rightarrow> Inl (NO_LEDGER_ACCOUNT (ac_id account))
      | Some i \<Rightarrow> Inr i)"

definition toCounterparty :: "(string \<Rightarrow> string) \<Rightarrow> Counterparty \<Rightarrow> CounterpartyRecord" where
  "toCounterparty blindIndex c =
     \<lparr>cp_name = pcp_name c, cp_taxIdLast4 = map_option (slice_last 4) (pcp_taxId c),
      cp_taxIdIndex = map_option blindIndex (pcp_taxId c), cp_ispb = pcp_ispb c, cp_branch = pcp_branch c,
      cp_accountNumber = pcp_accountNumber c\<rparr>"

fun destinationCounterparty :: "(string \<Rightarrow> string) \<Rightarrow> PixDestination \<Rightarrow> CounterpartyRecord option" where
  "destinationCounterparty blindIndex (DestBankAccount ispb branch number checkDigit accountType taxId name) =
     Some \<lparr>cp_name = Some name, cp_taxIdLast4 = Some (slice_last 4 (ti_value taxId)),
           cp_taxIdIndex = Some (blindIndex (ti_value taxId)), cp_ispb = Some ispb, cp_branch = Some branch,
           cp_accountNumber = Some number\<rparr>"
| "destinationCounterparty blindIndex _ = None"

fun destination_key :: "PixDestination \<Rightarrow> string option" where
  "destination_key (DestPixKey key _) = Some key"
| "destination_key _ = None"

record Ports =
  po_effectiveDate :: "instant \<Rightarrow> string"
  po_blindIndex :: "string \<Rightarrow> string"
  po_message :: "ServiceError \<Rightarrow> string"

definition draft ::
  "Ports \<Rightarrow> Draws \<Rightarrow> ActorContext \<Rightarrow> AccountRecord \<Rightarrow> BoundProvider \<Rightarrow> SendPixDto \<Rightarrow> PixDestination \<Rightarrow> ident \<Rightarrow> cents \<Rightarrow>
   TransactionStatus \<Rightarrow> ident option \<Rightarrow> TransactionRecord" where
  "draft ports dr actor account bound dto destination operationId amount status hold =
     (let now = d_now dr; key = truthy (destination_key destination) in
      \<lparr>tr_id = d_transactionId dr, tr_environment = actor_environment actor, tr_accountId = ac_id account,
       tr_chargeId = None, tr_parentTransactionId = None, tr_type = PIX_OUT, tr_direction = TransactionDirection.DEBIT,
       tr_status = status, tr_lastEventAt = Some now, tr_amountCents = amount, tr_feeCents = 0,
       tr_netAmountCents = amount, tr_refundedAmountCents = 0, tr_currency = ''BRL'',
       tr_description = dto_description dto, tr_provider = bp_slug bound,
       tr_providerConnectionId = actor_connectionId actor, tr_providerTransactionId = None,
       tr_externalId = dto_externalId dto, tr_idempotencyKey = Some operationId, tr_operationId = Some operationId,
       tr_failureCode = None, tr_providerFailureCode = None, tr_failureMessage = None,
       tr_effectiveDate = po_effectiveDate ports now, tr_requestedAt = now, tr_settledAt = None, tr_failedAt = None,
       tr_ledgerPendingTransactionId = hold, tr_ledgerPostedTransactionId = None,
       tr_pix = Some
         \<lparr>px_endToEndId = None, px_returnId = None, px_originalEndToEndId = None, px_txid = None,
          px_initiationMethod = or_else (dto_initiationMethod dto) (initiationOf destination),
          px_purpose = or_else (dto_purpose dto) TRANSFER,
          px_keyType = (case key of None \<Rightarrow> None | Some k \<Rightarrow> inferPixKeyType k),
          px_keyValue = destination_key destination,
          px_counterparty = destinationCounterparty (po_blindIndex ports) destination,
          px_remittanceInfo = dto_description dto, px_settlementAt = None\<rparr>,
       tr_metadata = dto_metadata dto, tr_createdAt = now, tr_updatedAt = now\<rparr>)"

text \<open>\<open>create\<close> hands out the stored row, so the assignments to its \<open>pix\<close> are in the repository.\<close>

definition enrich :: "(string \<Rightarrow> string) \<Rightarrow> PixTransaction \<Rightarrow> TransactionRecord \<Rightarrow> TransactionRecord" where
  "enrich blindIndex sent row =
     row\<lparr>tr_pix := map_option (\<lambda>p.
        (case pt_counterparty sent of None \<Rightarrow> id | Some c \<Rightarrow> px_counterparty_update (\<lambda>_. Some (toCounterparty blindIndex c)))
        ((case truthy (pt_endToEndId sent) of None \<Rightarrow> id | Some e \<Rightarrow> px_endToEndId_update (\<lambda>_. Some e)) p)) (tr_pix row)\<rparr>"

definition create_transaction :: "TransactionRecord \<Rightarrow> World \<Rightarrow> World" where
  "create_transaction row w = w\<lparr>w_transactions := snd (tx_create row (w_transactions w))\<rparr>"

definition optional_text :: "string option \<Rightarrow> PayloadValue" where
  "optional_text x = (case x of None \<Rightarrow> Null | Some s \<Rightarrow> Text s)"

definition recordSent ::
  "Ports \<Rightarrow> Draws \<Rightarrow> ActorContext \<Rightarrow> AccountRecord \<Rightarrow> BoundProvider \<Rightarrow> SendPixDto \<Rightarrow> PixDestination \<Rightarrow> ident \<Rightarrow> cents \<Rightarrow>
   PixTransaction \<Rightarrow> ident option \<Rightarrow> World \<Rightarrow> TransactionRecord \<times> World" where
  "recordSent ports dr actor account bound dto destination operationId amount sent hold w =
     (let row = enrich (po_blindIndex ports) sent
            ((draft ports dr actor account bound dto destination operationId amount (pt_status sent) hold)
               \<lparr>tr_providerTransactionId := Some (pt_providerTransactionId sent), tr_settledAt := pt_settledAt sent\<rparr>);
          event = \<lparr>ou_env = actor_environment actor, ou_type = PIX_OUT_PENDING, ou_provider = Some (bp_slug bound),
            ou_connectionId = Some (actor_connectionId actor), ou_subjectKind = ''transaction'', ou_subjectId = tr_id row,
            ou_payload = [(''status'', TransactionStatusValue (tr_status row)), (''amount_cents'', Text (show_int amount)),
              (''end_to_end_id'', optional_text (pt_endToEndId sent))],
            ou_previous = None, ou_occurredAt = d_now dr\<rparr>
      in (row, append_outbox event (create_transaction row w)))"

definition unknown_operation :: "Draws \<Rightarrow> ActorContext \<Rightarrow> AccountRecord \<Rightarrow> ident \<Rightarrow> cents \<Rightarrow> ident \<Rightarrow> string \<Rightarrow> OperationRecord" where
  "unknown_operation dr actor account operationId amount txId message =
     \<lparr>op_id = operationId, op_environment = actor_environment actor, op_connectionId = actor_connectionId actor,
      op_kind = ''pix.out'', op_providerIdempotencyKey = operationId, op_status = OperationStatusValue.UNKNOWN,
      op_requestDigest = txId, op_providerRef = None, op_endToEndId = None, op_amountCents = Some amount,
      op_accountId = Some (ac_id account), op_attempts = 1, op_lastError = Some message, op_nextTryAt = None,
      op_createdAt = d_now dr, op_updatedAt = d_now dr\<rparr>"

datatype SendOutcome = settled TransactionRecord | accepted TransactionRecord OperationRecord

definition onUnknownOutcome ::
  "Ports \<Rightarrow> Draws \<Rightarrow> ActorContext \<Rightarrow> AccountRecord \<Rightarrow> BoundProvider \<Rightarrow> SendPixDto \<Rightarrow> PixDestination \<Rightarrow> ident \<Rightarrow> cents \<Rightarrow>
   ident \<Rightarrow> string \<Rightarrow> World \<Rightarrow> SendOutcome \<times> World" where
  "onUnknownOutcome ports dr actor account bound dto destination operationId amount hold message w =
     (let row = draft ports dr actor account bound dto destination operationId amount TransactionStatus.UNKNOWN (Some hold);
          operation = unknown_operation dr actor account operationId amount (tr_id row) message;
          event = \<lparr>ou_env = actor_environment actor, ou_type = PIX_OUT_PENDING, ou_provider = Some (bp_slug bound),
            ou_connectionId = Some (actor_connectionId actor), ou_subjectKind = ''transaction'', ou_subjectId = tr_id row,
            ou_payload = [(''status'', TransactionStatusValue TransactionStatus.UNKNOWN), (''operation_id'', Text (op_id operation))],
            ou_previous = None, ou_occurredAt = d_now dr\<rparr>;
          w1 = create_transaction row w;
          w2 = w1\<lparr>w_operations := snd (op_create operation (w_operations w1))\<rparr>;
          w3 = append_outbox event w2
      in (accepted row operation,
          enqueue (OperationResolveJob (actor_environment actor) (op_id operation) 0) None w3))"

section \<open>Sending\<close>

definition lookupAtProvider :: "BoundProvider \<Rightarrow> string \<Rightarrow> ident \<Rightarrow> PixTransaction option" where
  "lookupAtProvider bound providerAccountId operationId =
     (case bp_lookup bound of
        None \<Rightarrow> None
      | Some findByKey \<Rightarrow> (case findByKey providerAccountId operationId of Replied found \<Rightarrow> found | _ \<Rightarrow> None))"

text \<open>From the hold on: the ledger is asked first, the provider after, and a refusal releases the hold.\<close>

definition send_new ::
  "Ports \<Rightarrow> Draws \<Rightarrow> ActorContext \<Rightarrow> AccountRecord \<Rightarrow> string \<Rightarrow> BoundProvider \<Rightarrow> SendPixDto \<Rightarrow> PixDestination \<Rightarrow> ident \<Rightarrow> cents \<Rightarrow>
   World \<Rightarrow> SendOutcome outcome" where
  "send_new ports dr actor account pid bound dto destination operationId amount w =
     (case requireLedgerAccount account of
        Inl e \<Rightarrow> (Inl e, w)
      | Inr available \<Rightarrow>
        (case on_ledger (d_ledgerIds dr) (actor_environment actor)
                (authorizeOut (d_holdNow dr) (d_holdTx dr) (d_holdEntry dr) available amount
                   (''pix-out:'' @ operationId) (Some operationId)) w of
           (Inl e, w1) \<Rightarrow> (Inl e, w1)
         | (Inr hold, w1) \<Rightarrow>
           (let holdId = tx_id (res_transaction hold);
                rq = \<lparr>rq_key = operationId, rq_amountCents = amount\<rparr>;
                w2 = call rq w1
            in case bp_send bound pid rq destination of
                 Unknown message \<Rightarrow>
                   (case onUnknownOutcome ports dr actor account bound dto destination operationId amount holdId message w2 of
                      (r, w3) \<Rightarrow> (Inr r, w3))
               | Refused message \<Rightarrow>
                   (case on_ledger (d_ledgerIds dr) (actor_environment actor)
                           (voidOut (d_voidNow dr) (d_voidTx dr) (d_voidEntry dr) holdId (''pix-out-void:'' @ operationId)) w2 of
                      (Inl e, w3) \<Rightarrow> (Inl e, w3)
                    | (Inr _, w3) \<Rightarrow>
                        (Inl (ProviderRefused message), invalidateBalance (actor_environment actor) (ac_id account) w3))
               | Replied sent \<Rightarrow>
                   (case recordSent ports dr actor account bound dto destination operationId amount sent (Some holdId) w2 of
                      (row, w3) \<Rightarrow> (Inr (settled row), invalidateBalance (actor_environment actor) (ac_id account) w3)))))"

definition send ::
  "Ports \<Rightarrow> Draws \<Rightarrow> (World \<Rightarrow> BoundProvider) \<Rightarrow> ActorContext \<Rightarrow> ident \<Rightarrow> SendPixDto \<Rightarrow> bool \<Rightarrow> World \<Rightarrow> SendOutcome outcome" where
  "send ports dr provider actor acct dto reconcileFirst w =
     (let env = actor_environment actor; operationId = or_else (actor_operationId actor) (d_operationId dr) in
      case requireAccount w env acct of
        Inl e \<Rightarrow> (Inl e, w)
      | Inr (account, pid) \<Rightarrow>
        (case Money_fromJSON (dto_amount dto) of
           Inl e \<Rightarrow> (Inl (MoneyFailure e), w)
         | Inr money \<Rightarrow>
           (case (if reconcileFirst then tx_findByIdempotencyKey (w_transactions w) env operationId else None) of
              Some already \<Rightarrow> (Inr (settled already), w)
            | None \<Rightarrow>
              (let bound = provider w; amount = mny_cents money in
               if \<not> bp_supported bound then (Inl (CAPABILITY_NOT_SUPPORTED ''pix.out.send''), w)
               else
                 (case resolveDestination (dto_destination dto) of
                    Inl e \<Rightarrow> (Inl e, w)
                  | Inr destination \<Rightarrow>
                    (case (if reconcileFirst then lookupAtProvider bound pid operationId else None) of
                       Some remote \<Rightarrow>
                         (case recordSent ports dr actor account bound dto destination operationId amount remote None w of
                            (row, w') \<Rightarrow> (Inr (settled row), w'))
                     | None \<Rightarrow> send_new ports dr actor account pid bound dto destination operationId amount w))))))"

section \<open>Refunds\<close>

definition REFUND_WINDOW_DAYS :: int where
  "REFUND_WINDOW_DAYS = 90"

text \<open>\<open>clock.ts\<close>.\<close>

definition daysBetween :: "instant \<Rightarrow> instant \<Rightarrow> int" where
  "daysBetween from to = (to - from) div 86400000"

record RefundInput =
  ri_transactionId :: "ident option"
  ri_originalEndToEndId :: string
  ri_amountCents :: "cents option"
  ri_description :: "string option"
  ri_externalId :: "string option"
  ri_reasonCode :: string

definition findOriginal :: "World \<Rightarrow> Environment \<Rightarrow> ident \<Rightarrow> RefundInput \<Rightarrow> ServiceError + TransactionRecord" where
  "findOriginal w env acct inp =
     (case (case truthy (ri_transactionId inp) of
              Some i \<Rightarrow> tx_findById (w_transactions w) env i
            | None \<Rightarrow> tx_findByEndToEndId (w_transactions w) env (ri_originalEndToEndId inp)) of
        None \<Rightarrow> Inl TRANSACTION_NOT_FOUND
      | Some original \<Rightarrow>
          if tr_accountId original \<noteq> acct then Inl TRANSACTION_NOT_FOUND
          else if tr_direction original \<noteq> TransactionDirection.CREDIT then Inl VALIDATION_ERROR
          else Inr original)"

text \<open>A zero amount reads as absent.\<close>

definition refund_amount :: "RefundInput \<Rightarrow> TransactionRecord \<Rightarrow> MoneyError + cents" where
  "refund_amount inp original =
     (case Money_of (case ri_amountCents inp of
                       Some v \<Rightarrow> if v \<noteq> 0 then v else tr_amountCents original
                     | None \<Rightarrow> tr_amountCents original) BRL of
        Inl e \<Rightarrow> Inl e
      | Inr m \<Rightarrow> Inr (mny_cents m))"

definition refund_row ::
  "Ports \<Rightarrow> Draws \<Rightarrow> ActorContext \<Rightarrow> ident \<Rightarrow> BoundProvider \<Rightarrow> RefundInput \<Rightarrow> TransactionRecord \<Rightarrow> string \<Rightarrow> ident \<Rightarrow> cents \<Rightarrow>
   PixRefund \<Rightarrow> ident \<Rightarrow> TransactionRecord" where
  "refund_row ports dr actor acct bound inp original e2e operationId amount refunded hold =
     (let now = d_now dr in
      \<lparr>tr_id = d_transactionId dr, tr_environment = actor_environment actor, tr_accountId = acct, tr_chargeId = None,
       tr_parentTransactionId = Some (tr_id original), tr_type = TransactionType.PIX_REFUND_OUT,
       tr_direction = TransactionDirection.DEBIT, tr_status = rf_status refunded, tr_lastEventAt = Some now,
       tr_amountCents = amount, tr_feeCents = 0, tr_netAmountCents = amount, tr_refundedAmountCents = 0,
       tr_currency = ''BRL'', tr_description = ri_description inp, tr_provider = bp_slug bound,
       tr_providerConnectionId = actor_connectionId actor, tr_providerTransactionId = Some (rf_providerRefundId refunded),
       tr_externalId = ri_externalId inp, tr_idempotencyKey = Some operationId, tr_operationId = Some operationId,
       tr_failureCode = None, tr_providerFailureCode = None, tr_failureMessage = None,
       tr_effectiveDate = po_effectiveDate ports now, tr_requestedAt = now, tr_settledAt = rf_settledAt refunded,
       tr_failedAt = None, tr_ledgerPendingTransactionId = Some hold, tr_ledgerPostedTransactionId = None,
       tr_pix = Some
         \<lparr>px_endToEndId = None, px_returnId = rf_returnId refunded, px_originalEndToEndId = Some e2e, px_txid = None,
          px_initiationMethod = MANUAL, px_purpose = TRANSFER, px_keyType = None, px_keyValue = None,
          px_counterparty = (case tr_pix original of None \<Rightarrow> None | Some p \<Rightarrow> px_counterparty p),
          px_remittanceInfo = ri_description inp, px_settlementAt = None\<rparr>,
       tr_metadata = [], tr_createdAt = now, tr_updatedAt = now\<rparr>)"

definition refund_send ::
  "Ports \<Rightarrow> Draws \<Rightarrow> ActorContext \<Rightarrow> ident \<Rightarrow> AccountRecord \<Rightarrow> string \<Rightarrow> BoundProvider \<Rightarrow> RefundInput \<Rightarrow> TransactionRecord \<Rightarrow>
   string \<Rightarrow> ident \<Rightarrow> cents \<Rightarrow> (string \<Rightarrow> ProviderRequest \<Rightarrow> string \<Rightarrow> PixRefund ProviderReply) \<Rightarrow> World \<Rightarrow> TransactionRecord outcome" where
  "refund_send ports dr actor acct account pid bound inp original e2e operationId amount provider_refund w =
     (let env = actor_environment actor in
      case requireLedgerAccount account of
        Inl e \<Rightarrow> (Inl e, w)
      | Inr available \<Rightarrow>
        (case on_ledger (d_ledgerIds dr) env
                (authorizeOut (d_holdNow dr) (d_holdTx dr) (d_holdEntry dr) available amount
                   (''pix-refund:'' @ operationId) (Some operationId)) w of
           (Inl e, w1) \<Rightarrow> (Inl e, w1)
         | (Inr hold, w1) \<Rightarrow>
           (let holdId = tx_id (res_transaction hold);
                rq = \<lparr>rq_key = operationId, rq_amountCents = amount\<rparr>;
                w2 = call rq w1
            in case provider_refund pid rq e2e of
                 Unknown message \<Rightarrow> (Inl (ProviderOutcomeUnknown message), w2)
               | Refused message \<Rightarrow>
                   (case on_ledger (d_ledgerIds dr) env
                           (voidOut (d_voidNow dr) (d_voidTx dr) (d_voidEntry dr) holdId (''pix-refund-void:'' @ operationId)) w2 of
                      (Inl e, w3) \<Rightarrow> (Inl e, w3)
                    | (Inr _, w3) \<Rightarrow> (Inl (ProviderRefused message), invalidateBalance env acct w3))
               | Replied refunded \<Rightarrow>
                   (let row = refund_row ports dr actor acct bound inp original e2e operationId amount refunded holdId;
                        event = \<lparr>ou_env = env, ou_type = PIX_REFUND_CREATED, ou_provider = Some (bp_slug bound),
                          ou_connectionId = Some (actor_connectionId actor), ou_subjectKind = ''transaction'',
                          ou_subjectId = tr_id row,
                          ou_payload = [(''original_transaction_id'', Text (tr_id original)),
                            (''amount_cents'', Text (show_int amount)), (''reason_code'', Text (ri_reasonCode inp))],
                          ou_previous = None, ou_occurredAt = d_now dr\<rparr>
                    in (Inr row, invalidateBalance env acct (append_outbox event (create_transaction row w2)))))))"

definition refund ::
  "Ports \<Rightarrow> Draws \<Rightarrow> (World \<Rightarrow> BoundProvider) \<Rightarrow> ActorContext \<Rightarrow> ident \<Rightarrow> RefundInput \<Rightarrow> World \<Rightarrow> TransactionRecord outcome" where
  "refund ports dr provider actor acct inp w =
     (let env = actor_environment actor; operationId = or_else (actor_operationId actor) (d_operationId dr) in
      case requireAccount w env acct of
        Inl e \<Rightarrow> (Inl e, w)
      | Inr (account, pid) \<Rightarrow>
        (case findOriginal w env acct inp of
           Inl e \<Rightarrow> (Inl e, w)
         | Inr original \<Rightarrow>
           (case truthy (tx_e2e original) of
              None \<Rightarrow> (Inl VALIDATION_ERROR, w)
            | Some e2e \<Rightarrow>
              (let settledAt = or_else (tr_settledAt original) (tr_requestedAt original) in
               if daysBetween settledAt (d_now dr) > REFUND_WINDOW_DAYS then (Inl (REFUND_WINDOW_EXPIRED settledAt), w)
               else
                 (case refund_amount inp original of
                    Inl e \<Rightarrow> (Inl (MoneyFailure e), w)
                  | Inr amount \<Rightarrow>
                    if tr_refundedAmountCents original + amount > tr_amountCents original
                    then (Inl (REFUND_AMOUNT_EXCEEDS_ORIGINAL (tr_amountCents original) (tr_refundedAmountCents original) amount), w)
                    else
                      (let bound = provider w in
                       if \<not> bp_supported bound then (Inl (CAPABILITY_NOT_SUPPORTED ''pix.refund.create''), w)
                       else
                         (case bp_refund bound of
                            None \<Rightarrow> (Inl (CAPABILITY_NOT_SUPPORTED (bp_slug bound)), w)
                          | Some provider_refund \<Rightarrow>
                              refund_send ports dr actor acct account pid bound inp original e2e operationId amount
                                provider_refund w)))))))"

end
