(* ===== verification/Transfer_Properties.thy ===== *)
theory Transfer_Properties
  imports Pix_Transfers Shadow_Properties "HOL-Library.Code_Target_Numeral"
begin

text \<open>
  What the transfer service guarantees about money: the provider is asked only once the amount is held, a refusal
  gives the hold back to the last cent, and an unknown outcome keeps it.
\<close>

section \<open>A hold and its release\<close>

lemma post_keys:
  assumes "keys_ok s" "post memoryStore cur now newTx eid inp s = Inr (r, s')"
    and "mem_findByIdempotencyKey s (in_idempotencyKey inp) = None" "mem_findByIdempotencyKey s k = None" "k \<noteq> in_idempotencyKey inp"
  shows "mem_findByIdempotencyKey s' k = None"
proof -
  have "map_get (ms_byIdempotencyKey s') k = map_get (ms_byIdempotencyKey s) k"
    using assms(2,3,5) by (elim mem.post_newE) (auto simp: store_simps update_conv' post_transaction_def Let_def)
  then show ?thesis
    using assms(1,4) findByIdempotencyKey_None by (simp add: mem_findByIdempotencyKey_def)
qed

lemma authorizeOut_posts:
  assumes "authorizeOut now newTx eid i v key ref s = Inr (r, s1)"
  obtains ext where "externalId s = Inr ext" "post memoryStore BRL now newTx eid (posting PIX_OUT_AUTHORIZE PostPhase.PENDING key ref None
      [leg i EntryDirection.DEBIT v, leg ext EntryDirection.CREDIT v] (Some now)) s = Inr (r, s1)"
  using assms by (auto simp: authorizeOut_def shadow_post_def shadow_run_Inr split: sum.splits)

text \<open>A hold just placed can be committed or voided under a fresh key; a commit leaves what a direct posting would.\<close>

lemma authorizeOut_resolvable:
  assumes ok: "ledger_ok s" and auth: "authorizeOut now newTx eid i v key ref s = Inr (r, s1)"
    and k: "mem_findByIdempotencyKey s key = None" "mem_findByIdempotencyKey s key' = None" "key' \<noteq> key"
    and f: "mem_findTransaction s newTx = None" "newTx \<noteq> []"
  shows "tx_id (res_transaction r) = newTx"
    and "\<exists>ext r' s2. externalId s = Inr ext \<and>
      resolvePending memoryStore now' newTx' eid' newTx key' ty commit s1 = Inr (r', s2) \<and>
      (\<forall>j. map_option (\<lambda>a. (normalBalance a, counters a)) (mem_account s2 j) =
           map_option (\<lambda>a. (normalBalance a, counters (if commit then advance (deltaFor EntryPhase.POSTED) j
             [leg i EntryDirection.DEBIT v, leg ext EntryDirection.CREDIT v] a else a))) (mem_account s j))"
proof -
  obtain ext where ext: "externalId s = Inr ext"
    and p: "post memoryStore BRL now newTx eid (posting PIX_OUT_AUTHORIZE PostPhase.PENDING key ref None
      [leg i EntryDirection.DEBIT v, leg ext EntryDirection.CREDIT v] (Some now)) s = Inr (r, s1)" (is "post _ _ _ _ _ ?inp _ = _")
    by (rule authorizeOut_posts [OF auth])
  have inp: "in_idempotencyKey ?inp = key" "in_id ?inp = None" "in_phase ?inp = PostPhase.PENDING"
    "in_entries ?inp = [leg i EntryDirection.DEBIT v, leg ext EntryDirection.CREDIT v]" by (simp_all add: posting_def)
  have f': "mem_findByIdempotencyKey s (in_idempotencyKey ?inp) = None" "mem_findTransaction s (or_else (in_id ?inp) newTx) = None"
    "or_else (in_id ?inp) newTx \<noteq> []" using k f inp by simp_all
  obtain d es where r: "r = \<lparr>res_transaction = post_transaction BRL now newTx d ?inp, res_entries = es, replayed = False\<rparr>"
    and b: "built_step s (post_transaction BRL now newTx d ?inp) (entry_phase (in_phase ?inp))
       (deltaFor (entry_phase (in_phase ?inp))) (in_entries ?inp) es s1"
    using post_built [OF p f'(1,2)] by metis
  show id: "tx_id (res_transaction r) = newTx" by (simp add: r inp(2))
  have ok1: "ledger_ok s1" by (rule post_keeps_ok [OF ok p f'])
  have pend: "mem_findTransaction s1 newTx = Some (res_transaction r)" "tx_status (res_transaction r) = LedgerTransactionStatus.PENDING"
    using built_transactions(1) [OF b, of newTx] r inp by (simp_all add: post_transaction_def Let_def)
  have "keys_ok s" using ok by (simp add: ledger_ok_def)
  then have k1: "mem_findByIdempotencyKey s1 key' = None"
    by (rule post_keys [OF _ p f'(1) k(2)]) (simp add: k(3) inp)
  obtain r' s2 where q: "resolvePending memoryStore now' newTx' eid' newTx key' ty commit s1 = Inr (r', s2)"
    using pending_resolvable [OF ok1 pend k1] by blast
  have inv: "mem_inv s" "mem_inv s1" using ok ok1 by (auto simp: ledger_ok_def)
  have "map_option (\<lambda>a. (normalBalance a, counters a)) (mem_account s2 j) =
      map_option (\<lambda>a. (normalBalance a, counters (if commit then advance (deltaFor EntryPhase.POSTED) j (in_entries ?inp) a else a)))
        (mem_account s j)" for j
    using hold_resolve_counters [OF ok inp(3) p f', unfolded id, OF q k1, of j]
      mem.resolve_accounts [OF inv(2) q] mem.post_accounts [OF inv(1) p] f'(1) k1
    by (cases "mem_account s j") (auto simp: store_simps)
  note this [unfolded inp(4)]
  with q ext show "\<exists>ext r' s2. externalId s = Inr ext \<and>
      resolvePending memoryStore now' newTx' eid' newTx key' ty commit s1 = Inr (r', s2) \<and>
      (\<forall>j. map_option (\<lambda>a. (normalBalance a, counters a)) (mem_account s2 j) =
           map_option (\<lambda>a. (normalBalance a, counters (if commit then advance (deltaFor EntryPhase.POSTED) j
             [leg i EntryDirection.DEBIT v, leg ext EntryDirection.CREDIT v] a else a))) (mem_account s j))"
    by blast
qed

section \<open>The ledger of a world\<close>

definition ledger_available :: "World \<Rightarrow> Environment \<Rightarrow> ident \<Rightarrow> cents option" where
  "ledger_available w env i =
     (case map_get (w_ledger w) env of
        None \<Rightarrow> None
      | Some s \<Rightarrow> map_option (\<lambda>a. bal_available (computeBalances a)) (mem_account s i))"

lemma factory_present: "map_get stores env = Some s \<Longrightarrow> factory_for ids env stores = (s, stores)"
  by (simp add: factory_for_def)

lemma on_ledger_present:
  assumes "map_get (w_ledger w) env = Some s"
  shows "on_ledger ids env f w =
    (case f s of Inl e \<Rightarrow> (Inl (LedgerFailure e), w) | Inr (r, s') \<Rightarrow> (Inr r, w\<lparr>w_ledger := map_set env s' (w_ledger w)\<rparr>))"
  using factory_present [OF assms] by (simp add: on_ledger_def split: sum.split prod.split)

lemma available_counters:
  "counters a = counters b \<Longrightarrow> normalBalance a = normalBalance b \<Longrightarrow>
     bal_available (computeBalances a) = bal_available (computeBalances b)"
  by (simp add: counters_def counter_simps)

lemma available_of:
  "map_get (w_ledger w) env = Some s \<Longrightarrow> mem_account s i = Some a \<Longrightarrow>
     ledger_available w env i = Some (bal_available (computeBalances a))"
  by (simp add: ledger_available_def)

text \<open>The two ends of a transfer on the ledger of a world: the hold, and its release or its settlement once the outcome
  is known.\<close>

lemma hold_resolved_available:
  assumes ok: "ledger_ok s" "chart_ok s" and a: "mem_account s i = Some a" "la_code a = customerAvailableCode c"
    and ext: "externalId s = Inr ext"
    and same: "\<forall>j. map_option (\<lambda>a. (normalBalance a, counters a)) (mem_account s2 j) =
      map_option (\<lambda>a. (normalBalance a, counters (if commit then advance (deltaFor EntryPhase.POSTED) j
        [leg i EntryDirection.DEBIT v, leg ext EntryDirection.CREDIT v] a else a))) (mem_account s j)"
  obtains a2 where "mem_account s2 i = Some a2"
    "bal_available (computeBalances a2) = bal_available (computeBalances a) - (if commit then v else 0)"
proof -
  obtain b where b: "mem_account s ext = Some b" "la_code b = EXTERNAL_WORLD"
    using externalId_found [OF ok] ext by (metis sum.inject(2))
  have codes: "customerAvailableCode c \<noteq> EXTERNAL_WORLD" by (simp add: customerAvailableCode_def LEDGER_CODES)
  then have ne: "i \<noteq> ext" and nb: "normalBalance a = NormalBalance.CREDIT"
    using a b ok(2) by (auto simp: chart_ok_def account_shape_def)
  let ?b = "if commit then applyDelta a (deltaFor EntryPhase.POSTED (leg i EntryDirection.DEBIT v)) else a"
  obtain a2 where a2: "mem_account s2 i = Some a2" "counters a2 = counters ?b" "normalBalance a2 = normalBalance a"
    using spec [OF same, of i] a(1) ne by (cases commit) auto
  have "bal_available (computeBalances a2) = bal_available (computeBalances ?b)"
    by (rule available_counters [OF a2(2)]) (simp add: a2(3))
  with a2(1) that show ?thesis using debit_balances(1) [OF nb, of EntryPhase.POSTED i v] by simp
qed

lemma hold_and_answer:
  assumes store: "map_get (w_ledger w) env = Some s" "shadow_reachable s"
    and a: "mem_account s i = Some a" "la_code a = customerAvailableCode c"
    and k: "mem_findByIdempotencyKey s key = None" "mem_findByIdempotencyKey s key' = None" "key' \<noteq> key"
    and f: "mem_findTransaction s newTx = None" "newTx \<noteq> []" and v: "0 < v"
    and covered: "v \<le> bal_available (computeBalances a)"
  obtains hold s1 a1 where
    "on_ledger ids env (authorizeOut now newTx eid i v key ref) w = (Inr hold, w\<lparr>w_ledger := map_set env s1 (w_ledger w)\<rparr>)"
    "tx_id (res_transaction hold) = newTx" "mem_account s1 i = Some a1"
    "bal_available (computeBalances a1) = bal_available (computeBalances a) - v"
    "\<And>w1 ids' now' newTx' eid'. map_get (w_ledger w1) env = Some s1 \<Longrightarrow>
       \<exists>r s2 a2. on_ledger ids' env ((if commit then settleOut else voidOut) now' newTx' eid' newTx key') w1 =
           (Inr r, w1\<lparr>w_ledger := map_set env s2 (w_ledger w1)\<rparr>) \<and>
         mem_account s2 i = Some a2 \<and>
         bal_available (computeBalances a2) = bal_available (computeBalances a) - (if commit then v else 0)"
proof -
  have ok: "ledger_ok s" "chart_ok s" using shadow_reachable_sound [OF store(2)] ledger_reachable_ok by auto
  obtain hold s1 a1 where h: "authorizeOut now newTx eid i v key ref s = Inr (hold, s1)" "mem_account s1 i = Some a1"
    "bal_available (computeBalances a1) = bal_available (computeBalances a) - v"
    using authorizeOut_cases [OF ok a k(1) v, of now newTx eid ref] covered by auto
  note hold = authorizeOut_resolvable [OF ok(1) h(1) k f]
  have answer: "\<exists>r s2 a2. on_ledger ids' env ((if commit then settleOut else voidOut) now' newTx' eid' newTx key') w1 =
        (Inr r, w1\<lparr>w_ledger := map_set env s2 (w_ledger w1)\<rparr>) \<and>
      mem_account s2 i = Some a2 \<and>
      bal_available (computeBalances a2) = bal_available (computeBalances a) - (if commit then v else 0)"
    if "map_get (w_ledger w1) env = Some s1" for w1 ids' now' newTx' eid'
  proof -
    obtain ext r s2 where ext: "externalId s = Inr ext"
      and q: "resolvePending memoryStore now' newTx' eid' newTx key' (Some (if commit then PIX_OUT_SETTLE else PIX_OUT_VOID)) commit s1 =
        Inr (r, s2)"
      and same: "\<forall>j. map_option (\<lambda>a. (normalBalance a, counters a)) (mem_account s2 j) =
        map_option (\<lambda>a. (normalBalance a, counters (if commit then advance (deltaFor EntryPhase.POSTED) j
          [leg i EntryDirection.DEBIT v, leg ext EntryDirection.CREDIT v] a else a))) (mem_account s j)"
      using hold(2) by blast
    obtain a2 where "mem_account s2 i = Some a2"
      "bal_available (computeBalances a2) = bal_available (computeBalances a) - (if commit then v else 0)"
      by (rule hold_resolved_available [OF ok a ext same])
    moreover have "(if commit then settleOut else voidOut) now' newTx' eid' newTx key' s1 = Inr (r, s2)"
      using q by (cases commit) (simp_all add: settleOut_def voidOut_def commitPending_def voidPending_def shadow_run_Inr)
    ultimately show ?thesis by (auto simp: on_ledger_present [OF that])
  qed
  have "on_ledger ids env (authorizeOut now newTx eid i v key ref) w = (Inr hold, w\<lparr>w_ledger := map_set env s1 (w_ledger w)\<rparr>)"
    by (simp add: on_ledger_present [OF store(1)] h(1))
  then show ?thesis by (rule that [OF _ hold(1) h(2,3) answer])
qed

lemmas hold_and_release = hold_and_answer [where commit = False, simplified]

lemma hold_refused:
  assumes "map_get (w_ledger w) env = Some s" "shadow_reachable s" "mem_account s i = Some a" "la_code a = customerAvailableCode c"
    and "mem_findByIdempotencyKey s key = None" "0 < v" "bal_available (computeBalances a) < v"
  shows "on_ledger ids env (authorizeOut now newTx eid i v key ref) w =
    (Inl (LedgerFailure (INSUFFICIENT_FUNDS v (bal_available (computeBalances a)))), w)"
proof -
  have "ledger_ok s" "chart_ok s" using shadow_reachable_sound [OF assms(2)] ledger_reachable_ok by auto
  from authorizeOut_cases [OF this assms(3,4,5,6), of now newTx eid ref] assms(7) show ?thesis
    by (simp add: on_ledger_present [OF assms(1)])
qed

section \<open>Recording\<close>

lemma tx_created_row: "map_get (t_rows (snd (tx_create row repo))) (tr_id row) = Some row"
  by (simp add: tx_create_def update_conv')

lemma recordSent_props:
  assumes "recordSent ports dr actor account bound dto destination opid v sent hold w = (row, w')"
  shows "w_ledger w' = w_ledger w" "w_requests w' = w_requests w" "map_get (t_rows (w_transactions w')) (tr_id row) = Some row"
    "tr_id row = d_transactionId dr" "tr_amountCents row = v" "tr_status row = pt_status sent"
    "tr_ledgerPendingTransactionId row = hold" "tr_idempotencyKey row = Some opid"
proof -
  have w': "w_ledger w' = w_ledger w \<and> w_requests w' = w_requests w \<and> w_transactions w' = snd (tx_create row (w_transactions w))"
    and row: "tr_id row = d_transactionId dr \<and> tr_amountCents row = v \<and> tr_status row = pt_status sent \<and>
      tr_ledgerPendingTransactionId row = hold \<and> tr_idempotencyKey row = Some opid"
    using assms by (auto simp: recordSent_def Let_def append_outbox_def create_transaction_def enrich_def draft_def)
  then show "w_ledger w' = w_ledger w" "w_requests w' = w_requests w" "tr_id row = d_transactionId dr" "tr_amountCents row = v"
    "tr_status row = pt_status sent" "tr_ledgerPendingTransactionId row = hold" "tr_idempotencyKey row = Some opid" by simp_all
  show "map_get (t_rows (w_transactions w')) (tr_id row) = Some row" by (simp add: w' tx_created_row)
qed

lemma onUnknownOutcome_props:
  assumes "onUnknownOutcome ports dr actor account bound dto destination opid v hold m w = (r, w')"
  obtains row op where "r = accepted row op" "w_ledger w' = w_ledger w" "w_requests w' = w_requests w"
    "map_get (t_rows (w_transactions w')) (tr_id row) = Some row" "tr_status row = TransactionStatus.UNKNOWN"
    "tr_amountCents row = v" "tr_ledgerPendingTransactionId row = Some hold"
    "map_get (w_operations w') opid = Some op" "op_status op = OperationStatusValue.UNKNOWN"
    "w_queue w' = w_queue w @ [(OperationResolveJob (actor_environment actor) opid 0, None)]"
proof -
  let ?row = "draft ports dr actor account bound dto destination opid v TransactionStatus.UNKNOWN (Some hold)"
  let ?op = "unknown_operation dr actor account opid v (tr_id ?row) m"
  have row: "tr_status ?row = TransactionStatus.UNKNOWN" "tr_amountCents ?row = v" "tr_ledgerPendingTransactionId ?row = Some hold"
    by (simp_all add: draft_def Let_def)
  have op: "op_id ?op = opid" "op_status ?op = OperationStatusValue.UNKNOWN" by (simp_all add: unknown_operation_def)
  have "r = accepted ?row ?op" "w_ledger w' = w_ledger w" "w_requests w' = w_requests w"
    "w_transactions w' = snd (tx_create ?row (w_transactions w))" "w_operations w' = snd (op_create ?op (w_operations w))"
    "w_queue w' = w_queue w @ [(OperationResolveJob (actor_environment actor) opid 0, None)]"
    using assms op(1) by (auto simp: onUnknownOutcome_def Let_def append_outbox_def create_transaction_def enqueue_def)
  with that [of ?row ?op] row op show ?thesis by (simp add: tx_created_row op_create_def update_conv')
qed

text \<open>What is left after each reply of the provider, given the hold.\<close>

definition send_result ::
  "World \<Rightarrow> Environment \<Rightarrow> ident \<Rightarrow> ident \<Rightarrow> ident \<Rightarrow> cents \<Rightarrow> cents \<Rightarrow> PixTransaction ProviderReply \<Rightarrow> SendOutcome outcome \<Rightarrow> bool" where
  "send_result w env i opid hold avail v reply res \<longleftrightarrow>
     (case res of (r, w') \<Rightarrow>
       w_requests w' = w_requests w @ [\<lparr>rq_key = opid, rq_amountCents = v\<rparr>] \<and>
       (case reply of
          Refused m \<Rightarrow> r = Inl (ProviderRefused m) \<and> w_transactions w' = w_transactions w \<and> ledger_available w' env i = Some avail
        | Unknown m \<Rightarrow>
            (\<exists>row op. r = Inr (accepted row op) \<and> ledger_available w' env i = Some (avail - v) \<and>
               map_get (t_rows (w_transactions w')) (tr_id row) = Some row \<and> tr_status row = TransactionStatus.UNKNOWN \<and>
               tr_amountCents row = v \<and> tr_ledgerPendingTransactionId row = Some hold \<and>
               map_get (w_operations w') opid = Some op \<and> op_status op = OperationStatusValue.UNKNOWN \<and>
               w_queue w' = w_queue w @ [(OperationResolveJob env opid 0, None)])
        | Replied sent \<Rightarrow>
            (\<exists>row. r = Inr (settled row) \<and> ledger_available w' env i = Some (avail - v) \<and>
               map_get (t_rows (w_transactions w')) (tr_id row) = Some row \<and> tr_status row = pt_status sent \<and>
               tr_amountCents row = v \<and> tr_ledgerPendingTransactionId row = Some hold)))"

lemma send_new_outcomes:
  assumes led: "requireLedgerAccount account = Inr i"
    and store: "map_get (w_ledger w) (actor_environment actor) = Some s" "shadow_reachable s"
    and a: "mem_account s i = Some a" "la_code a = customerAvailableCode c"
    and k: "mem_findByIdempotencyKey s (''pix-out:'' @ opid) = None" "mem_findByIdempotencyKey s (''pix-out-void:'' @ opid) = None"
    and f: "mem_findTransaction s (d_holdTx dr) = None" "d_holdTx dr \<noteq> []" and v: "0 < v"
  shows "if bal_available (computeBalances a) < v
    then send_new ports dr actor account pid bound dto destination opid v w =
           (Inl (LedgerFailure (INSUFFICIENT_FUNDS v (bal_available (computeBalances a)))), w)
    else send_result w (actor_environment actor) i opid (d_holdTx dr) (bal_available (computeBalances a)) v
           (bp_send bound pid \<lparr>rq_key = opid, rq_amountCents = v\<rparr> destination)
           (send_new ports dr actor account pid bound dto destination opid v w)"
proof (cases "bal_available (computeBalances a) < v")
  case True
  then show ?thesis by (simp add: send_new_def led hold_refused [OF store a k(1) v True] del: append_Cons append_Nil)
next
  case False
  let ?env = "actor_environment actor" and ?avail = "bal_available (computeBalances a)" and ?rq = "\<lparr>rq_key = opid, rq_amountCents = v\<rparr>"
  have ne: "''pix-out-void:'' @ opid \<noteq> ''pix-out:'' @ opid" by simp
  from False have "v \<le> ?avail" by simp
  then obtain hold s1 a1 where h:
    "on_ledger (d_ledgerIds dr) ?env (authorizeOut (d_holdNow dr) (d_holdTx dr) (d_holdEntry dr) i v (''pix-out:'' @ opid) (Some opid)) w =
       (Inr hold, w\<lparr>w_ledger := map_set ?env s1 (w_ledger w)\<rparr>)"
    "tx_id (res_transaction hold) = d_holdTx dr" "mem_account s1 i = Some a1" "bal_available (computeBalances a1) = ?avail - v"
    and release: "\<And>w1. map_get (w_ledger w1) ?env = Some s1 \<Longrightarrow>
       \<exists>r s2 a2. on_ledger (d_ledgerIds dr) ?env (voidOut (d_voidNow dr) (d_voidTx dr) (d_voidEntry dr) (d_holdTx dr) (''pix-out-void:'' @ opid)) w1 =
           (Inr r, w1\<lparr>w_ledger := map_set ?env s2 (w_ledger w1)\<rparr>) \<and>
         mem_account s2 i = Some a2 \<and> bal_available (computeBalances a2) = ?avail"
    by (rule hold_and_release [OF store a k ne f v]) blast
  let ?w1 = "call ?rq (w\<lparr>w_ledger := map_set ?env s1 (w_ledger w)\<rparr>)"
  have w1: "map_get (w_ledger ?w1) ?env = Some s1" "w_requests ?w1 = w_requests w @ [?rq]"
    "w_transactions ?w1 = w_transactions w" "w_queue ?w1 = w_queue w"
    by (simp_all add: call_def update_conv')
  have av1: "ledger_available w' ?env i = Some (?avail - v)" if "w_ledger w' = w_ledger ?w1" for w'
    using available_of [of w' ?env s1 i a1] that w1(1) h(3,4) by simp
  note go = send_new_def led sum.case h(1,2) prod.case Let_def
  show ?thesis
  proof (cases "bp_send bound pid ?rq destination")
    case (Refused m)
    obtain r s2 a2 where vo: "on_ledger (d_ledgerIds dr) ?env
        (voidOut (d_voidNow dr) (d_voidTx dr) (d_voidEntry dr) (d_holdTx dr) (''pix-out-void:'' @ opid)) ?w1 =
        (Inr r, ?w1\<lparr>w_ledger := map_set ?env s2 (w_ledger ?w1)\<rparr>)"
      "mem_account s2 i = Some a2" "bal_available (computeBalances a2) = ?avail"
      using release [OF w1(1)] by blast
    have "send_new ports dr actor account pid bound dto destination opid v w =
        (Inl (ProviderRefused m), invalidateBalance ?env (ac_id account) (?w1\<lparr>w_ledger := map_set ?env s2 (w_ledger ?w1)\<rparr>))"
      by (simp only: go Refused ProviderReply.case vo)
    with False Refused vo(2,3) show ?thesis
      by (simp add: send_result_def invalidateBalance_def w1 ledger_available_def update_conv')
  next
    case (Unknown m)
    obtain r w3 where u: "onUnknownOutcome ports dr actor account bound dto destination opid v (d_holdTx dr) m ?w1 = (r, w3)"
      by fastforce
    then have "send_new ports dr actor account pid bound dto destination opid v w = (Inr r, w3)"
      by (simp only: go Unknown ProviderReply.case)
    with False Unknown u av1 [of w3] w1 show ?thesis
      by (elim onUnknownOutcome_props) (simp add: send_result_def)
  next
    case (Replied sent)
    obtain row w3 where u: "recordSent ports dr actor account bound dto destination opid v sent (Some (d_holdTx dr)) ?w1 = (row, w3)"
      by fastforce
    have "ledger_available (invalidateBalance ?env (ac_id account) w3) ?env i = Some (?avail - v)"
      using recordSent_props(1) [OF u] by (intro av1) (simp add: invalidateBalance_def)
    moreover have "send_new ports dr actor account pid bound dto destination opid v w =
        (Inr (settled row), invalidateBalance ?env (ac_id account) w3)"
      by (simp only: go Replied ProviderReply.case u)
    ultimately show ?thesis using False Replied recordSent_props [OF u] w1 by (simp add: send_result_def invalidateBalance_def)
  qed
qed

section \<open>A refund\<close>

definition refund_result ::
  "World \<Rightarrow> Environment \<Rightarrow> ident \<Rightarrow> ident \<Rightarrow> ident \<Rightarrow> cents \<Rightarrow> cents \<Rightarrow> TransactionRecord \<Rightarrow> PixRefund ProviderReply \<Rightarrow>
   TransactionRecord outcome \<Rightarrow> bool" where
  "refund_result w env i opid hold avail v original reply res \<longleftrightarrow>
     (case res of (r, w') \<Rightarrow>
       w_requests w' = w_requests w @ [\<lparr>rq_key = opid, rq_amountCents = v\<rparr>] \<and>
       (case reply of
          Refused m \<Rightarrow> r = Inl (ProviderRefused m) \<and> w_transactions w' = w_transactions w \<and> ledger_available w' env i = Some avail
        | Unknown m \<Rightarrow>
            r = Inl (ProviderOutcomeUnknown m) \<and> ledger_available w' env i = Some (avail - v) \<and>
            w_transactions w' = w_transactions w \<and> w_operations w' = w_operations w \<and> w_queue w' = w_queue w
        | Replied refunded \<Rightarrow>
            (\<exists>row. r = Inr row \<and> ledger_available w' env i = Some (avail - v) \<and>
               map_get (t_rows (w_transactions w')) (tr_id row) = Some row \<and> tr_status row = rf_status refunded \<and>
               tr_amountCents row = v \<and> tr_parentTransactionId row = Some (tr_id original) \<and>
               tr_ledgerPendingTransactionId row = Some hold)))"

lemma refund_row_fields:
  "tr_id (refund_row ports dr actor acct bound inp original e2e opid v rf hold) = d_transactionId dr"
  "tr_status (refund_row ports dr actor acct bound inp original e2e opid v rf hold) = rf_status rf"
  "tr_amountCents (refund_row ports dr actor acct bound inp original e2e opid v rf hold) = v"
  "tr_parentTransactionId (refund_row ports dr actor acct bound inp original e2e opid v rf hold) = Some (tr_id original)"
  "tr_ledgerPendingTransactionId (refund_row ports dr actor acct bound inp original e2e opid v rf hold) = Some hold"
  by (simp_all add: refund_row_def Let_def)

lemma refund_send_outcomes:
  assumes led: "requireLedgerAccount account = Inr i"
    and store: "map_get (w_ledger w) (actor_environment actor) = Some s" "shadow_reachable s"
    and a: "mem_account s i = Some a" "la_code a = customerAvailableCode c"
    and k: "mem_findByIdempotencyKey s (''pix-refund:'' @ opid) = None" "mem_findByIdempotencyKey s (''pix-refund-void:'' @ opid) = None"
    and f: "mem_findTransaction s (d_holdTx dr) = None" "d_holdTx dr \<noteq> []" and v: "0 < v"
  shows "if bal_available (computeBalances a) < v
    then refund_send ports dr actor acct account pid bound inp original e2e opid v ask w =
           (Inl (LedgerFailure (INSUFFICIENT_FUNDS v (bal_available (computeBalances a)))), w)
    else refund_result w (actor_environment actor) i opid (d_holdTx dr) (bal_available (computeBalances a)) v original
           (ask pid \<lparr>rq_key = opid, rq_amountCents = v\<rparr> e2e)
           (refund_send ports dr actor acct account pid bound inp original e2e opid v ask w)"
proof (cases "bal_available (computeBalances a) < v")
  case True
  then show ?thesis
    by (simp add: refund_send_def led Let_def hold_refused [OF store a k(1) v True] del: append_Cons append_Nil)
next
  case False
  let ?env = "actor_environment actor" and ?avail = "bal_available (computeBalances a)" and ?rq = "\<lparr>rq_key = opid, rq_amountCents = v\<rparr>"
  have ne: "''pix-refund-void:'' @ opid \<noteq> ''pix-refund:'' @ opid" by simp
  from False have "v \<le> ?avail" by simp
  then obtain hold s1 a1 where h:
    "on_ledger (d_ledgerIds dr) ?env (authorizeOut (d_holdNow dr) (d_holdTx dr) (d_holdEntry dr) i v (''pix-refund:'' @ opid) (Some opid)) w =
       (Inr hold, w\<lparr>w_ledger := map_set ?env s1 (w_ledger w)\<rparr>)"
    "tx_id (res_transaction hold) = d_holdTx dr" "mem_account s1 i = Some a1" "bal_available (computeBalances a1) = ?avail - v"
    and release: "\<And>w1. map_get (w_ledger w1) ?env = Some s1 \<Longrightarrow>
       \<exists>r s2 a2. on_ledger (d_ledgerIds dr) ?env (voidOut (d_voidNow dr) (d_voidTx dr) (d_voidEntry dr) (d_holdTx dr) (''pix-refund-void:'' @ opid)) w1 =
           (Inr r, w1\<lparr>w_ledger := map_set ?env s2 (w_ledger w1)\<rparr>) \<and>
         mem_account s2 i = Some a2 \<and> bal_available (computeBalances a2) = ?avail"
    by (rule hold_and_release [OF store a k ne f v]) blast
  let ?w1 = "call ?rq (w\<lparr>w_ledger := map_set ?env s1 (w_ledger w)\<rparr>)"
  have w1: "map_get (w_ledger ?w1) ?env = Some s1" "w_requests ?w1 = w_requests w @ [?rq]"
    "w_transactions ?w1 = w_transactions w" "w_operations ?w1 = w_operations w" "w_queue ?w1 = w_queue w"
    by (simp_all add: call_def update_conv')
  have av1: "ledger_available w' ?env i = Some (?avail - v)" if "w_ledger w' = w_ledger ?w1" for w'
    using available_of [of w' ?env s1 i a1] that w1(1) h(3,4) by simp
  note go = refund_send_def led sum.case h(1,2) prod.case Let_def
  show ?thesis
  proof (cases "ask pid ?rq e2e")
    case (Refused m)
    obtain r s2 a2 where vo: "on_ledger (d_ledgerIds dr) ?env
        (voidOut (d_voidNow dr) (d_voidTx dr) (d_voidEntry dr) (d_holdTx dr) (''pix-refund-void:'' @ opid)) ?w1 =
        (Inr r, ?w1\<lparr>w_ledger := map_set ?env s2 (w_ledger ?w1)\<rparr>)"
      "mem_account s2 i = Some a2" "bal_available (computeBalances a2) = ?avail"
      using release [OF w1(1)] by blast
    have "refund_send ports dr actor acct account pid bound inp original e2e opid v ask w =
        (Inl (ProviderRefused m), invalidateBalance ?env acct (?w1\<lparr>w_ledger := map_set ?env s2 (w_ledger ?w1)\<rparr>))"
      by (simp only: go Refused ProviderReply.case vo)
    with False Refused vo(2,3) show ?thesis
      by (simp add: refund_result_def invalidateBalance_def w1 ledger_available_def update_conv')
  next
    case (Unknown m)
    have "refund_send ports dr actor acct account pid bound inp original e2e opid v ask w =
        (Inl (ProviderOutcomeUnknown m), ?w1)"
      by (simp only: go Unknown ProviderReply.case)
    with False Unknown av1 [of ?w1] w1 show ?thesis by (simp add: refund_result_def)
  next
    case (Replied rf)
    let ?row = "refund_row ports dr actor acct bound inp original e2e opid v rf (d_holdTx dr)"
    obtain event where "refund_send ports dr actor acct account pid bound inp original e2e opid v ask w =
        (Inr ?row, invalidateBalance ?env acct (append_outbox event (create_transaction ?row ?w1)))"
      by (simp only: go Replied ProviderReply.case)
    moreover have "ledger_available (invalidateBalance ?env acct (append_outbox event (create_transaction ?row ?w1))) ?env i =
        Some (?avail - v)"
      by (intro av1) (simp add: invalidateBalance_def append_outbox_def create_transaction_def)
    ultimately show ?thesis using False Replied w1
      by (simp add: refund_result_def invalidateBalance_def append_outbox_def create_transaction_def refund_row_fields
          tx_created_row [of ?row, unfolded refund_row_fields])
  qed
qed

section \<open>A transfer\<close>

definition demo_account :: AccountRecord where
  "demo_account = \<lparr>ac_id = ''A1'', ac_environment = HOMOLOGACAO, ac_holderId = ''H1'', ac_provider = ''mock'',
     ac_providerConnectionId = ''C1'', ac_providerAccountId = Some ''P1'', ac_externalId = None, ac_status = AccountStatus.ACTIVE,
     ac_statusReasonCode = None, ac_statusReasonMessage = None, ac_statusChangedAt = None, ac_lastEventAt = None,
     ac_kind = PAYMENT, ac_currency = ''BRL'', ac_ledgerAvailableAccountId = Some ''LA'', ac_ledgerBlockedAccountId = Some ''LB'',
     ac_ispb = None, ac_branch = None, ac_number = None, ac_checkDigit = None, ac_openedAt = None, ac_closedAt = None,
     ac_metadata = [], ac_createdAt = 0, ac_updatedAt = 0\<rparr>"

definition demo_world :: World where
  "demo_world = \<lparr>w_events = [], w_accounts = \<lparr>a_rows = [(''A1'', demo_account)], a_statusHistory = []\<rparr>, w_cases = [],
     w_transactions = \<lparr>t_rows = [], t_statusHistory = []\<rparr>, w_charges = [], w_operations = [],
     w_ledger = [(HOMOLOGACAO, shadow_credited)], w_outbox = [], w_audit = [], w_queue = [], w_invalidated = [], w_requests = []\<rparr>"

definition demo_draws :: Draws where
  "demo_draws = \<lparr>d_now = 10, d_holdNow = 11, d_voidNow = 12, d_operationId = ''O1'', d_transactionId = ''X1'', d_holdTx = ''T2'',
     d_holdEntry = demo_entry, d_voidTx = ''T3'', d_voidEntry = demo_entry, d_requirementId = demo_entry, d_ledgerIds = demo_id\<rparr>"

definition demo_ports :: Ports where
  "demo_ports = \<lparr>po_effectiveDate = (\<lambda>_. ''2024-01-02''), po_blindIndex = (\<lambda>s. s), po_message = (\<lambda>_. ''error'')\<rparr>"

definition demo_actor :: ActorContext where
  "demo_actor = \<lparr>actor_environment = HOMOLOGACAO, actor_connectionId = ''C1'', actor_operationId = None\<rparr>"

definition demo_dto :: "string \<Rightarrow> SendPixDto" where
  "demo_dto amount = \<lparr>dto_amount = \<lparr>mj_amount = amount, mj_currency = BRL, mj_scale = 2\<rparr>,
     dto_destination = DtoPixKey ''a@b.co'' (Some EMAIL), dto_description = None, dto_purpose = None,
     dto_initiationMethod = None, dto_externalId = None, dto_metadata = []\<rparr>"

definition demo_provider :: "PixTransaction ProviderReply \<Rightarrow> BoundProvider" where
  "demo_provider reply = \<lparr>bp_slug = ''mock'', bp_supported = True, bp_send = (\<lambda>_ _ _. reply), bp_lookup = None, bp_refund = None\<rparr>"

definition demo_original :: TransactionRecord where
  "demo_original = \<lparr>tr_id = ''X0'', tr_environment = HOMOLOGACAO, tr_accountId = ''A1'', tr_chargeId = None, tr_parentTransactionId = None,
     tr_type = PIX_IN, tr_direction = TransactionDirection.CREDIT, tr_status = TransactionStatus.SETTLED, tr_lastEventAt = Some 1,
     tr_amountCents = 10000, tr_feeCents = 0, tr_netAmountCents = 10000, tr_refundedAmountCents = 0, tr_currency = ''BRL'',
     tr_description = None, tr_provider = ''mock'', tr_providerConnectionId = ''C1'', tr_providerTransactionId = Some ''TX0'',
     tr_externalId = None, tr_idempotencyKey = None, tr_operationId = None, tr_failureCode = None, tr_providerFailureCode = None,
     tr_failureMessage = None, tr_effectiveDate = ''2024-01-02'', tr_requestedAt = 1, tr_settledAt = Some 1, tr_failedAt = None,
     tr_ledgerPendingTransactionId = None, tr_ledgerPostedTransactionId = Some ''T1'',
     tr_pix = Some \<lparr>px_endToEndId = Some ''E0'', px_returnId = None, px_originalEndToEndId = None, px_txid = None, px_initiationMethod = KEY,
       px_purpose = TRANSFER, px_keyType = None, px_keyValue = None, px_counterparty = None, px_remittanceInfo = None,
       px_settlementAt = Some 1\<rparr>,
     tr_metadata = [], tr_createdAt = 1, tr_updatedAt = 1\<rparr>"

definition demo_refund_world :: World where
  "demo_refund_world = demo_world\<lparr>w_transactions := \<lparr>t_rows = [(''X0'', demo_original)], t_statusHistory = []\<rparr>\<rparr>"

definition demo_refund :: "cents \<Rightarrow> RefundInput" where
  "demo_refund v = \<lparr>ri_transactionId = Some ''X0'', ri_originalEndToEndId = ''E0'', ri_amountCents = Some v, ri_description = None,
     ri_externalId = None, ri_reasonCode = ''MD06''\<rparr>"

definition demo_refunder :: BoundProvider where
  "demo_refunder = \<lparr>bp_slug = ''mock'', bp_supported = True, bp_send = (\<lambda>_ _ _. Unknown ''timeout''), bp_lookup = None,
     bp_refund = Some (\<lambda>_ _ _. Unknown ''timeout'')\<rparr>"

text \<open>C18: a transfer of an active account is decided by its available balance.  When the balance does not cover it, the
  sender is told what is available, nothing changes and the provider is never asked.  When it does, the provider is
  asked exactly once, for that amount under the operation's key: a refusal gives the hold back to the last cent and leaves
  no transaction; a reply keeps the amount held under a transaction with the provider's status; an unknown outcome keeps the
  amount held, records the transaction and the operation as unknown, and queues the enquiry that will settle them.\<close>

theorem send_outcomes:
  assumes "requireAccount w (actor_environment actor) acct = Inr (account, pid)" "requireLedgerAccount account = Inr i"
    and "Money_fromJSON (dto_amount dto) = Inr money" "0 < mny_cents money"
    and "bp_supported (provider w)" "resolveDestination (dto_destination dto) = Inr destination"
    and "opid = or_else (actor_operationId actor) (d_operationId dr)"
    and "map_get (w_ledger w) (actor_environment actor) = Some s" "shadow_reachable s"
    and "mem_account s i = Some a" "la_code a = customerAvailableCode c"
    and "mem_findByIdempotencyKey s (''pix-out:'' @ opid) = None" "mem_findByIdempotencyKey s (''pix-out-void:'' @ opid) = None"
    and "mem_findTransaction s (d_holdTx dr) = None" "d_holdTx dr \<noteq> []"
  shows "if bal_available (computeBalances a) < mny_cents money
    then send ports dr provider actor acct dto False w =
           (Inl (LedgerFailure (INSUFFICIENT_FUNDS (mny_cents money) (bal_available (computeBalances a)))), w)
    else send_result w (actor_environment actor) i opid (d_holdTx dr) (bal_available (computeBalances a)) (mny_cents money)
           (bp_send (provider w) pid \<lparr>rq_key = opid, rq_amountCents = mny_cents money\<rparr> destination)
           (send ports dr provider actor acct dto False w)"
proof -
  have "send ports dr provider actor acct dto False w =
      send_new ports dr actor account pid (provider w) dto destination opid (mny_cents money) w"
    using assms(1,3,5,6,7) by (simp add: send_def Let_def)
  then show ?thesis
    using send_new_outcomes [OF assms(2,8,9,10,11,12,13,14,15,4)] by simp
qed

theorem send_outcomes_witness:
  "send demo_ports demo_draws (\<lambda>_. demo_provider (Refused ''no'')) demo_actor ''A1'' (demo_dto ''10001'') False demo_world =
     (Inl (LedgerFailure (INSUFFICIENT_FUNDS 10001 10000)), demo_world) \<and>
   send_result demo_world HOMOLOGACAO ''LA'' ''O1'' ''T2'' 10000 6000 (Refused ''no'')
     (send demo_ports demo_draws (\<lambda>_. demo_provider (Refused ''no'')) demo_actor ''A1'' (demo_dto ''6000'') False demo_world) \<and>
   send_result demo_world HOMOLOGACAO ''LA'' ''O1'' ''T2'' 10000 6000 (Unknown ''timeout'')
     (send demo_ports demo_draws (\<lambda>_. demo_provider (Unknown ''timeout'')) demo_actor ''A1'' (demo_dto ''6000'') False demo_world)"
proof -
  let ?a = "the (mem_account shadow_credited ''LA'')"
  have f: "mem_account shadow_credited ''LA'' \<noteq> None \<and> la_code ?a = customerAvailableCode ''c1'' \<and>
     mem_findByIdempotencyKey shadow_credited (''pix-out:'' @ ''O1'') = None \<and>
     mem_findByIdempotencyKey shadow_credited (''pix-out-void:'' @ ''O1'') = None \<and>
     mem_findTransaction shadow_credited ''T2'' = None \<and> bal_available (computeBalances ?a) = 10000" by code_simp
  have a: "mem_account shadow_credited ''LA'' = Some ?a" using f by auto
  have acc: "requireAccount demo_world (actor_environment demo_actor) ''A1'' = Inr (demo_account, ''P1'')"
    "requireLedgerAccount demo_account = Inr ''LA''"
    by (code_simp, code_simp)
  have m: "Money_fromJSON (dto_amount (demo_dto ''10001'')) = Inr \<lparr>mny_cents = 10001, mny_currency = BRL\<rparr>"
    "Money_fromJSON (dto_amount (demo_dto ''6000'')) = Inr \<lparr>mny_cents = 6000, mny_currency = BRL\<rparr>"
    by (code_simp, code_simp)
  have d: "resolveDestination (dto_destination (demo_dto x)) = Inr (DestPixKey ''a@b.co'' EMAIL)" for x
    unfolding demo_dto_def by code_simp
  have p: "bp_supported (demo_provider r)" "bp_send (demo_provider r) pid rq dest = r" for r pid rq dest
    by (simp_all add: demo_provider_def)
  have e: "actor_environment demo_actor = HOMOLOGACAO" "''O1'' = or_else (actor_operationId demo_actor) (d_operationId demo_draws)"
    "map_get (w_ledger demo_world) (actor_environment demo_actor) = Some shadow_credited" "d_holdTx demo_draws = ''T2''"
    by (simp_all add: demo_actor_def demo_draws_def demo_world_def)
  note out = send_outcomes [OF acc, where ports = demo_ports and dr = demo_draws and opid = "''O1''"
      and s = shadow_credited and a = ?a and c = "''c1''" and destination = "DestPixKey ''a@b.co'' EMAIL"]
  note o1 = out [where provider = "\<lambda>_. demo_provider (Refused ''no'')", OF m(1)]
    and o2 = out [where provider = "\<lambda>_. demo_provider (Refused ''no'')", OF m(2)]
    and o3 = out [where provider = "\<lambda>_. demo_provider (Unknown ''timeout'')", OF m(2)]
  show ?thesis using o1 o2 o3 f a d p e shadow_demo_reachable(2) by simp
qed

text \<open>C19: refunding a received payment past the ninety days, or past what is left of its amount, or past the available
  balance, is refused with the figures and changes nothing.  Otherwise the provider is asked once for that amount: a refusal
  gives the hold back to the last cent, a reply records a child transaction of the original, and an unknown outcome keeps
  the money held without recording a transaction, an operation or a job that could later release or settle it.\<close>

theorem refund_outcomes:
  assumes "requireAccount w (actor_environment actor) acct = Inr (account, pid)" "requireLedgerAccount account = Inr i"
    and "findOriginal w (actor_environment actor) acct inp = Inr original" "truthy (tx_e2e original) = Some e2e"
    and "refund_amount inp original = Inr v" "0 < v"
    and "bp_supported (provider w)" "bp_refund (provider w) = Some ask"
    and "opid = or_else (actor_operationId actor) (d_operationId dr)"
    and "map_get (w_ledger w) (actor_environment actor) = Some s" "shadow_reachable s"
    and "mem_account s i = Some a" "la_code a = customerAvailableCode c"
    and "mem_findByIdempotencyKey s (''pix-refund:'' @ opid) = None" "mem_findByIdempotencyKey s (''pix-refund-void:'' @ opid) = None"
    and "mem_findTransaction s (d_holdTx dr) = None" "d_holdTx dr \<noteq> []"
    and "settledAt = or_else (tr_settledAt original) (tr_requestedAt original)"
  shows "if daysBetween settledAt (d_now dr) > 90
    then refund ports dr provider actor acct inp w = (Inl (REFUND_WINDOW_EXPIRED settledAt), w)
    else if tr_refundedAmountCents original + v > tr_amountCents original
    then refund ports dr provider actor acct inp w =
      (Inl (REFUND_AMOUNT_EXCEEDS_ORIGINAL (tr_amountCents original) (tr_refundedAmountCents original) v), w)
    else if bal_available (computeBalances a) < v
    then refund ports dr provider actor acct inp w =
      (Inl (LedgerFailure (INSUFFICIENT_FUNDS v (bal_available (computeBalances a)))), w)
    else refund_result w (actor_environment actor) i opid (d_holdTx dr) (bal_available (computeBalances a)) v original
      (ask pid \<lparr>rq_key = opid, rq_amountCents = v\<rparr> e2e) (refund ports dr provider actor acct inp w)"
proof -
  have unfold: "refund ports dr provider actor acct inp w =
     (if daysBetween settledAt (d_now dr) > 90 then (Inl (REFUND_WINDOW_EXPIRED settledAt), w)
      else if tr_refundedAmountCents original + v > tr_amountCents original
      then (Inl (REFUND_AMOUNT_EXCEEDS_ORIGINAL (tr_amountCents original) (tr_refundedAmountCents original) v), w)
      else refund_send ports dr actor acct account pid (provider w) inp original e2e opid v ask w)"
    using assms(1,3,4,5,7,8,9,18) by (simp add: refund_def Let_def REFUND_WINDOW_DAYS_def)
  show ?thesis
    using refund_send_outcomes [OF assms(2,10,11,12,13,14,15,16,17,6), of ports acct pid "provider w" inp original e2e ask]
    by (simp add: unfold)
qed

theorem refund_outcomes_witness:
  "refund demo_ports demo_draws (\<lambda>_. demo_refunder) demo_actor ''A1'' (demo_refund 10001) demo_refund_world =
     (Inl (REFUND_AMOUNT_EXCEEDS_ORIGINAL 10000 0 10001), demo_refund_world) \<and>
   refund_result demo_refund_world HOMOLOGACAO ''LA'' ''O1'' ''T2'' 10000 4000 demo_original (Unknown ''timeout'')
     (refund demo_ports demo_draws (\<lambda>_. demo_refunder) demo_actor ''A1'' (demo_refund 4000) demo_refund_world)"
proof -
  let ?a = "the (mem_account shadow_credited ''LA'')"
  have f: "mem_account shadow_credited ''LA'' \<noteq> None \<and> la_code ?a = customerAvailableCode ''c1'' \<and>
     mem_findByIdempotencyKey shadow_credited (''pix-refund:'' @ ''O1'') = None \<and>
     mem_findByIdempotencyKey shadow_credited (''pix-refund-void:'' @ ''O1'') = None \<and>
     mem_findTransaction shadow_credited ''T2'' = None \<and> bal_available (computeBalances ?a) = 10000" by code_simp
  have a: "mem_account shadow_credited ''LA'' = Some ?a" using f by auto
  have acc: "requireAccount demo_refund_world (actor_environment demo_actor) ''A1'' = Inr (demo_account, ''P1'')"
    "requireLedgerAccount demo_account = Inr ''LA''"
    by (code_simp, code_simp)
  have orig: "findOriginal demo_refund_world (actor_environment demo_actor) ''A1'' (demo_refund v) = Inr demo_original" for v
    by (simp add: findOriginal_def demo_refund_world_def demo_world_def demo_refund_def demo_original_def tx_findById_def demo_actor_def)
  have e2e: "truthy (tx_e2e demo_original) = Some ''E0''" by (simp add: demo_original_def tx_e2e_def)
  have v: "refund_amount (demo_refund 10001) demo_original = Inr 10001" "refund_amount (demo_refund 4000) demo_original = Inr 4000"
    by (code_simp, code_simp)
  have p: "bp_supported demo_refunder" "bp_refund demo_refunder = Some (\<lambda>_ _ _. Unknown ''timeout'')"
    by (simp_all add: demo_refunder_def)
  have e: "actor_environment demo_actor = HOMOLOGACAO" "''O1'' = or_else (actor_operationId demo_actor) (d_operationId demo_draws)"
    "map_get (w_ledger demo_refund_world) (actor_environment demo_actor) = Some shadow_credited" "d_holdTx demo_draws = ''T2''"
    "d_now demo_draws = 10"
    by (simp_all add: demo_actor_def demo_draws_def demo_world_def demo_refund_world_def)
  have o: "tr_amountCents demo_original = 10000" "tr_refundedAmountCents demo_original = 0"
    "1 = or_else (tr_settledAt demo_original) (tr_requestedAt demo_original)" "daysBetween 1 10 = 0"
    by (simp_all add: demo_original_def daysBetween_def)
  note out = refund_outcomes [OF acc orig e2e, where provider = "\<lambda>_. demo_refunder" and ports = demo_ports and dr = demo_draws
      and opid = "''O1''" and s = shadow_credited and a = ?a and c = "''c1''" and settledAt = 1]
  show ?thesis using out [OF v(1)] out [OF v(2)] f a p e o shadow_demo_reachable(2) by simp
qed

end
