(* ===== verification/Webhook_Apply.thy ===== *)
theory Webhook_Apply
  imports Pix_Transfers
begin

text \<open>
  Applying provider events to the domain, \<open>src/apps/api/src/webhooks/webhook-apply.service.ts\<close>, and the sweeper that
  queues abandoned events again, \<open>webhook-sweeper.service.ts\<close>.  An inbound event is taken once, its drafts are applied under the lock of their aggregate, rejected transitions are recorded, and an
  unknown incoming payment becomes a credit.

  What a rejected or duplicate draft reports back is the inbound event of the context, when there is one: the
  webhook passes its event, reconciliation and polling pass none.  Statuses of drafts are values of the
  canonical enumerations; the raw text of a charge status is mapped here.  The in-memory repositories hand out live
  rows, so \<open>account.status\<close> read inside \<open>withinTransaction\<close> is already the new status.
\<close>

section \<open>Drafts and contexts\<close>

datatype DraftOutcome = applied | recorded | ignored

record ApplyContext =
  cx_environment :: Environment
  cx_connectionId :: ident
  cx_provider :: string
  cx_receivedAt :: instant
  cx_providerEventId :: "string option"
  cx_event :: "ident option"

datatype PaymentDirection = Dir_in | Dir_out

record PaymentEventData =
  pe_providerAccountId :: "string option"
  pe_direction :: "PaymentDirection option"
  pe_status :: "TransactionStatus option"
  pe_transitionTo :: TransactionStatus
  pe_amount :: "MoneyJSON option"
  pe_endToEndId :: "string option"
  pe_returnId :: "string option"
  pe_txid :: "string option"
  pe_counterparty :: "CounterpartyRecord option"
  pe_settledAt :: "instant option"

record OnboardingEventData =
  oe_providerAccountId :: "string option"
  oe_status :: "OnboardingStatus option"
  oe_transitionTo :: OnboardingStatus
  oe_rejectionCode :: "string option"
  oe_pendingRequirements :: "string list"

datatype DraftData =
    AccountData AccountStatus
  | OnboardingData OnboardingEventData
  | TransactionData PaymentEventData
  | ChargeData "string option" "MoneyJSON option"
  | PixKeyData

record CanonicalEventDraft =
  cd_type :: EventType
  cd_providerId :: string
  cd_occurredAt :: "instant option"
  cd_data :: DraftData

definition toChargeStatus :: "string option \<Rightarrow> PixChargeStatus option" where
  "toChargeStatus raw =
     (case truthy raw of
        None \<Rightarrow> None
      | Some r \<Rightarrow>
          (let upper = map ascii_upper r in
           if upper = ''ACTIVE'' then Some PixChargeStatus.ACTIVE
           else if upper = ''COMPLETED'' then Some PixChargeStatus.COMPLETED
           else if upper = ''EXPIRED'' then Some PixChargeStatus.EXPIRED
           else if upper = ''REMOVED_BY_PSP'' then Some REMOVED_BY_PSP
           else if upper = ''REMOVED_BY_USER'' then Some REMOVED_BY_USER else None))"

definition requirement_codes :: "(string \<times> RequirementCode) list" where
  "requirement_codes =
     [(''SELFIE_LIVENESS'', SELFIE_LIVENESS), (''IDENTITY_FRONT'', IDENTITY_FRONT), (''IDENTITY_BACK'', IDENTITY_BACK),
      (''PROOF_OF_ADDRESS'', PROOF_OF_ADDRESS), (''PROOF_OF_INCOME'', PROOF_OF_INCOME), (''TAX_ID_DOCUMENT'', TAX_ID_DOCUMENT),
      (''ARTICLES_OF_INCORPORATION'', ARTICLES_OF_INCORPORATION), (''LATEST_AMENDMENT'', LATEST_AMENDMENT),
      (''BOARD_ELECTION_MINUTES'', BOARD_ELECTION_MINUTES), (''CNPJ_REGISTRATION_CARD'', CNPJ_REGISTRATION_CARD),
      (''OWNERSHIP_CHART'', OWNERSHIP_CHART), (''UBO_DECLARATION'', UBO_DECLARATION),
      (''FINANCIAL_STATEMENTS'', FINANCIAL_STATEMENTS), (''POWER_OF_ATTORNEY'', POWER_OF_ATTORNEY),
      (''REPRESENTATIVE_KYC'', REPRESENTATIVE_KYC), (''ADDITIONAL_INFORMATION'', ADDITIONAL_INFORMATION),
      (''PHONE_VERIFICATION'', PHONE_VERIFICATION), (''EMAIL_VERIFICATION'', EMAIL_VERIFICATION),
      (''TERMS_ACCEPTANCE'', TERMS_ACCEPTANCE)]"

definition known_requirements :: "string list \<Rightarrow> (RequirementCode \<times> string) list" where
  "known_requirements codes = List.map_filter (\<lambda>c. map_option (\<lambda>r. (r, c)) (map_of requirement_codes c)) codes"

section \<open>Rejections\<close>

definition onDuplicate :: "ApplyContext \<Rightarrow> string \<Rightarrow> World \<Rightarrow> World" where
  "onDuplicate ctx reason w =
     (case cx_event ctx of None \<Rightarrow> w | Some i \<Rightarrow> w\<lparr>w_events := ie_markDiscarded i reason (w_events w)\<rparr>)"

definition onAnomaly :: "Draws \<Rightarrow> ApplyContext \<Rightarrow> World \<Rightarrow> World" where
  "onAnomaly dr ctx w =
     (case cx_event ctx of None \<Rightarrow> w | Some i \<Rightarrow> w\<lparr>w_events := ie_markProcessed i (d_now dr) (w_events w)\<rparr>)"

fun rejection_text :: "StatusChangeRejection \<Rightarrow> string" where
  "rejection_text (stale same_state) = ''same_state''"
| "rejection_text (stale stale_rank) = ''stale_rank''"
| "rejection_text (stale stale_timestamp) = ''stale_timestamp''"
| "rejection_text illegal_transition = ''illegal_transition''"
| "rejection_text not_found = ''not_found''"

definition provider_event :: "ApplyContext \<Rightarrow> EventType \<Rightarrow> string \<Rightarrow> ident \<Rightarrow> Payload \<Rightarrow> Payload option \<Rightarrow> instant \<Rightarrow> OutboxDraft" where
  "provider_event ctx ty kind subject payload previous tm =
     \<lparr>ou_env = cx_environment ctx, ou_type = ty, ou_provider = Some (cx_provider ctx),
      ou_connectionId = Some (cx_connectionId ctx), ou_subjectKind = kind, ou_subjectId = subject,
      ou_payload = payload, ou_previous = previous, ou_occurredAt = tm\<rparr>"

definition provider_audit ::
  "ApplyContext \<Rightarrow> string \<Rightarrow> AuditOutcome \<Rightarrow> string option \<Rightarrow> string \<Rightarrow> ident \<Rightarrow> Payload \<Rightarrow> Payload \<Rightarrow> string list option \<Rightarrow> instant \<Rightarrow> AuditDraft" where
  "provider_audit ctx action result err kind subject before after changed tm =
     \<lparr>au_environment = cx_environment ctx, au_actorType = PROVIDER, au_actorId = Some (cx_provider ctx), au_actorLabel = None,
      au_actorIp = None, au_action = action, au_outcome = result, au_errorCode = err, au_resourceType = kind,
      au_resourceId = Some subject, au_connectionId = Some (cx_connectionId ctx), au_provider = Some (cx_provider ctx),
      au_before = Some before, au_after = Some after, au_changedFields = changed, au_requestId = None,
      au_operationId = None, au_occurredAt = tm\<rparr>"

definition recordAnomaly :: "Draws \<Rightarrow> ApplyContext \<Rightarrow> string \<Rightarrow> ident \<Rightarrow> PayloadValue \<Rightarrow> PayloadValue \<Rightarrow> World \<Rightarrow> World" where
  "recordAnomaly dr ctx kind subject from to w =
     onAnomaly dr ctx
       (append_outbox (provider_event ctx COMPLIANCE_ALERT_RAISED kind subject
           [(''kind'', Text ''illegal_transition''), (''from'', from), (''to'', to),
            (''provider_event_id'', optional_text (cx_providerEventId ctx))] None (d_now dr))
         (w\<lparr>w_audit := audit_record (provider_audit ctx ''webhook.anomaly.illegal_transition'' FAILURE
              (Some ''INVALID_STATE_TRANSITION'') kind subject [(''status'', from)] [(''status'', to)] None (d_now dr)) (w_audit w)\<rparr>))"

definition handleRejection ::
  "Draws \<Rightarrow> ApplyContext \<Rightarrow> string \<Rightarrow> ident \<Rightarrow> StatusChangeRejection \<Rightarrow> PayloadValue \<Rightarrow> PayloadValue \<Rightarrow> World \<Rightarrow> World" where
  "handleRejection dr ctx kind subject reason from to w =
     (if reason \<noteq> illegal_transition then onDuplicate ctx (rejection_text reason) w
      else recordAnomaly dr ctx kind subject from to w)"

definition occurred :: "ApplyContext \<Rightarrow> CanonicalEventDraft \<Rightarrow> instant" where
  "occurred ctx d = or_else (cd_occurredAt d) (cx_receivedAt ctx)"

text \<open>The callback of a status change: an event and, for accounts and cases, an audit line.\<close>

definition publish :: "OutboxDraft \<Rightarrow> AuditDraft option \<Rightarrow> OutboxRepo \<times> AuditRepo \<Rightarrow> OutboxRepo \<times> AuditRepo" where
  "publish event line = (\<lambda>(out, aud). (outbox_append event out, case line of None \<Rightarrow> aud | Some l \<Rightarrow> audit_record l aud))"

section \<open>Accounts and onboarding\<close>

definition applyAccount :: "Draws \<Rightarrow> ApplyContext \<Rightarrow> CanonicalEventDraft \<Rightarrow> AccountStatus \<Rightarrow> World \<Rightarrow> DraftOutcome outcome" where
  "applyAccount dr ctx d inc w =
     (case ac_findByProviderAccountId (w_accounts w) (cx_environment ctx) (cx_provider ctx) (cd_providerId d) of
        None \<Rightarrow> (Inr ignored, w)
      | Some account \<Rightarrow>
          (let tm = occurred ctx d;
               new = AccountStatusValue inc;
               cb = (\<lambda>i. publish
                 (provider_event ctx (cd_type d) ''account'' i [(''status'', new)] (Some [(''status'', new)]) tm)
                 (Some (provider_audit ctx ''account.status_changed'' SUCCESS None ''account'' i [(''status'', new)]
                    [(''status'', new)] (Some [''status'']) tm)))
           in case ac_applyStatusChange \<lparr>ax_environment = cx_environment ctx, ax_accountId = ac_id account, ax_toStatus = inc,
                     ax_reasonCode = None, ax_reasonMessage = None, ax_occurredAt = tm\<rparr> (Some cb)
                     (w_accounts w, w_outbox w, w_audit w) of
                (Applied _, repo, out, aud) \<Rightarrow> (Inr applied, w\<lparr>w_accounts := repo, w_outbox := out, w_audit := aud\<rparr>)
              | (NotApplied reason cur, repo, out, aud) \<Rightarrow>
                  (Inr recorded, handleRejection dr ctx ''account'' (ac_id account) reason
                     (AccountStatusValue (or_else cur (ac_status account))) new w)))"

definition findCase :: "World \<Rightarrow> ApplyContext \<Rightarrow> CanonicalEventDraft \<Rightarrow> string option \<Rightarrow> OnboardingRecord option" where
  "findCase w ctx d providerAccountId =
     (case ob_findByProviderCaseId (w_cases w) (cx_environment ctx) (cx_provider ctx) (cd_providerId d) of
        Some c \<Rightarrow> Some c
      | None \<Rightarrow>
          (case truthy providerAccountId of
             None \<Rightarrow> None
           | Some pid \<Rightarrow>
               (case ac_findByProviderAccountId (w_accounts w) (cx_environment ctx) (cx_provider ctx) pid of
                  None \<Rightarrow> None
                | Some account \<Rightarrow> ob_findByAccountId (w_cases w) (cx_environment ctx) (ac_id account))))"

definition applyOnboarding ::
  "Draws \<Rightarrow> ApplyContext \<Rightarrow> CanonicalEventDraft \<Rightarrow> OnboardingEventData \<Rightarrow> World \<Rightarrow> DraftOutcome outcome" where
  "applyOnboarding dr ctx d data w =
     (case findCase w ctx d (oe_providerAccountId data) of
        None \<Rightarrow> (Inr ignored, w)
      | Some c \<Rightarrow>
          (let inc = or_else (oe_status data) (oe_transitionTo data);
               tm = occurred ctx d;
               requirements = known_requirements (oe_pendingRequirements data);
               new = OnboardingStatusValue inc;
               cb = (\<lambda>i. publish
                 (provider_event ctx (cd_type d) ''onboarding'' i
                    [(''status'', new), (''pending'', Codes (map fst requirements))] (Some [(''status'', new)]) tm)
                 (Some (provider_audit ctx ''onboarding.status_changed'' SUCCESS None ''onboarding'' i [(''status'', new)]
                    [(''status'', new), (''rejection_code'', optional_text (oe_rejectionCode data))] (Some [''status'']) tm)))
           in case ob_applyStatusChange (d_requirementId dr)
                     \<lparr>ox_environment = cx_environment ctx, ox_caseId = ob_id c, ox_toStatus = inc,
                      ox_rejectionCode = oe_rejectionCode data, ox_rejectionMessage = None,
                      ox_providerRejectionCode = oe_rejectionCode data, ox_requirements = Some requirements,
                      ox_occurredAt = tm\<rparr> (Some cb) (w_cases w, w_outbox w, w_audit w) of
                (Applied _, rows, out, aud) \<Rightarrow> (Inr applied, w\<lparr>w_cases := rows, w_outbox := out, w_audit := aud\<rparr>)
              | (NotApplied reason cur, rows, out, aud) \<Rightarrow>
                  (Inr recorded, handleRejection dr ctx ''onboarding'' (ob_id c) reason
                     (OnboardingStatusValue (or_else cur (ob_status c))) new w)))"

section \<open>Payments\<close>

definition findTransaction :: "World \<Rightarrow> ApplyContext \<Rightarrow> CanonicalEventDraft \<Rightarrow> PaymentEventData \<Rightarrow> TransactionRecord option" where
  "findTransaction w ctx d data =
     (case tx_findByProviderTransactionId (w_transactions w) (cx_environment ctx) (cx_provider ctx) (cd_providerId d) of
        Some row \<Rightarrow> Some row
      | None \<Rightarrow>
          (case truthy (pe_endToEndId data) of
             None \<Rightarrow> None
           | Some e \<Rightarrow> tx_findByEndToEndId (w_transactions w) (cx_environment ctx) e))"

definition inbound_row ::
  "Ports \<Rightarrow> Draws \<Rightarrow> ApplyContext \<Rightarrow> CanonicalEventDraft \<Rightarrow> PaymentEventData \<Rightarrow> AccountRecord \<Rightarrow> cents \<Rightarrow> ident \<Rightarrow> TransactionRecord" where
  "inbound_row ports dr ctx d data account amount posted =
     (let tm = occurred ctx d in
      \<lparr>tr_id = d_transactionId dr, tr_environment = cx_environment ctx, tr_accountId = ac_id account, tr_chargeId = None,
       tr_parentTransactionId = None,
       tr_type = (if cd_type d = PIX_REFUND_SETTLED then TransactionType.PIX_REFUND_IN else PIX_IN),
       tr_direction = TransactionDirection.CREDIT, tr_status = or_else (pe_status data) TransactionStatus.SETTLED,
       tr_lastEventAt = Some tm, tr_amountCents = amount, tr_feeCents = 0, tr_netAmountCents = amount,
       tr_refundedAmountCents = 0, tr_currency = ''BRL'', tr_description = None, tr_provider = cx_provider ctx,
       tr_providerConnectionId = cx_connectionId ctx, tr_providerTransactionId = Some (cd_providerId d),
       tr_externalId = None, tr_idempotencyKey = None, tr_operationId = None, tr_failureCode = None,
       tr_providerFailureCode = None, tr_failureMessage = None, tr_effectiveDate = po_effectiveDate ports tm,
       tr_requestedAt = tm, tr_settledAt = Some (or_else (pe_settledAt data) tm), tr_failedAt = None,
       tr_ledgerPendingTransactionId = None, tr_ledgerPostedTransactionId = Some posted,
       tr_pix = Some
         \<lparr>px_endToEndId = pe_endToEndId data, px_returnId = pe_returnId data, px_originalEndToEndId = None,
          px_txid = pe_txid data, px_initiationMethod = KEY, px_purpose = TRANSFER, px_keyType = None, px_keyValue = None,
          px_counterparty = pe_counterparty data, px_remittanceInfo = None,
          px_settlementAt = Some (or_else (pe_settledAt data) tm)\<rparr>,
       tr_metadata = [], tr_createdAt = tm, tr_updatedAt = tm\<rparr>)"

definition receiveInbound ::
  "Ports \<Rightarrow> Draws \<Rightarrow> ApplyContext \<Rightarrow> CanonicalEventDraft \<Rightarrow> PaymentEventData \<Rightarrow> World \<Rightarrow> DraftOutcome outcome" where
  "receiveInbound ports dr ctx d data w =
     (case truthy (pe_providerAccountId data) of
        None \<Rightarrow> (Inr ignored, w)
      | Some pid \<Rightarrow>
        (case ac_findByProviderAccountId (w_accounts w) (cx_environment ctx) (cx_provider ctx) pid of
           None \<Rightarrow> (Inr ignored, w)
         | Some account \<Rightarrow>
           (case truthy (ac_ledgerAvailableAccountId account) of
              None \<Rightarrow> (Inr ignored, w)
            | Some available \<Rightarrow>
              if (case truthy (pe_endToEndId data) of
                    None \<Rightarrow> False
                  | Some e \<Rightarrow> tx_findByEndToEndId (w_transactions w) (cx_environment ctx) e \<noteq> None)
              then (Inr recorded, onDuplicate ctx ''e2eid ja registrado'' w)
              else
                (case (case pe_amount data of None \<Rightarrow> Inr 0 | Some j \<Rightarrow> map_sum id mny_cents (Money_fromJSON j)) of
                   Inl e \<Rightarrow> (Inl (MoneyFailure e), w)
                 | Inr amount \<Rightarrow>
                   (case on_ledger (d_ledgerIds dr) (cx_environment ctx)
                           (creditIn (d_holdNow dr) (d_holdTx dr) (d_holdEntry dr) available amount
                              (''pix-in:'' @ cd_providerId d) (Some (or_else (pe_endToEndId data) (cd_providerId d))) None) w of
                      (Inl e, w1) \<Rightarrow> (Inl e, w1)
                    | (Inr posted, w1) \<Rightarrow>
                      (let row = inbound_row ports dr ctx d data account amount (tx_id (res_transaction posted));
                           event = provider_event ctx (cd_type d) ''transaction'' (tr_id row)
                             [(''account_id'', Text (ac_id account)), (''amount_cents'', Text (show_int amount)),
                              (''end_to_end_id'', optional_text (pe_endToEndId data))] None (occurred ctx d)
                       in (Inr applied, invalidateBalance (cx_environment ctx) (ac_id account)
                            (append_outbox event (create_transaction row w1)))))))))"

text \<open>The hold is resolved before the status change is offered to the guard.\<close>

definition resolve_hold ::
  "Draws \<Rightarrow> ApplyContext \<Rightarrow> TransactionRecord \<Rightarrow> TransactionStatus \<Rightarrow> World \<Rightarrow> ident option outcome" where
  "resolve_hold dr ctx existing inc w =
     (let is_settled = (inc = TransactionStatus.SETTLED);
          is_failed = (inc = TransactionStatus.FAILED \<or> inc = TransactionStatus.CANCELLED) in
      case truthy (tr_ledgerPendingTransactionId existing) of
        None \<Rightarrow> (Inr None, w)
      | Some hold \<Rightarrow>
          if is_settled \<or> is_failed then
            (case on_ledger (d_ledgerIds dr) (cx_environment ctx)
                    (if is_settled
                     then settleOut (d_holdNow dr) (d_holdTx dr) (d_holdEntry dr) hold (''pix-out-settle:'' @ tr_id existing)
                     else voidOut (d_holdNow dr) (d_holdTx dr) (d_holdEntry dr) hold (''pix-out-void:'' @ tr_id existing)) w of
               (Inl e, w1) \<Rightarrow> (Inl e, w1)
             | (Inr r, w1) \<Rightarrow> (Inr (Some (tx_id (res_transaction r))), w1))
          else (Inr None, w))"

definition payment_change ::
  "ApplyContext \<Rightarrow> CanonicalEventDraft \<Rightarrow> PaymentEventData \<Rightarrow> TransactionRecord \<Rightarrow> TransactionStatus \<Rightarrow> ident option \<Rightarrow> TxStatusChange" where
  "payment_change ctx d data existing inc posted =
     \<lparr>sc_environment = cx_environment ctx, sc_transactionId = tr_id existing, sc_toStatus = inc, sc_failureCode = None,
      sc_providerFailureCode = None, sc_failureMessage = None, sc_endToEndId = pe_endToEndId data,
      sc_settledAt = (case pe_settledAt data of
         Some t \<Rightarrow> Some t
       | None \<Rightarrow> if inc = TransactionStatus.SETTLED then Some (occurred ctx d) else None),
      sc_ledgerPostedTransactionId = posted, sc_occurredAt = occurred ctx d\<rparr>"

definition applyTransaction ::
  "Ports \<Rightarrow> Draws \<Rightarrow> ApplyContext \<Rightarrow> CanonicalEventDraft \<Rightarrow> PaymentEventData \<Rightarrow> World \<Rightarrow> DraftOutcome outcome" where
  "applyTransaction ports dr ctx d data w =
     (let inc = or_else (pe_status data) (pe_transitionTo data) in
      case findTransaction w ctx d data of
        None \<Rightarrow>
          if pe_direction data \<noteq> Some Dir_in then (Inr ignored, w)
          else receiveInbound ports dr ctx d data w
      | Some existing \<Rightarrow>
          (case resolve_hold dr ctx existing inc w of
             (Inl e, w1) \<Rightarrow> (Inl e, w1)
           | (Inr posted, w1) \<Rightarrow>
               (let new = TransactionStatusValue inc;
                    cb = (\<lambda>i. publish (provider_event ctx (cd_type d) ''transaction'' i
                      [(''status'', new), (''end_to_end_id'', optional_text (pe_endToEndId data))] (Some [(''status'', new)])
                      (occurred ctx d)) None)
                in case tx_applyStatusChange (payment_change ctx d data existing inc posted) (Some cb)
                          (w_transactions w1, w_outbox w1, w_audit w1) of
                     (Applied _, repo, out, aud) \<Rightarrow>
                       (Inr applied, invalidateBalance (cx_environment ctx) (tr_accountId existing)
                          (w1\<lparr>w_transactions := repo, w_outbox := out, w_audit := aud\<rparr>))
                   | (NotApplied reason cur, repo, out, aud) \<Rightarrow>
                       (Inr recorded, handleRejection dr ctx ''transaction'' (tr_id existing) reason
                          (TransactionStatusValue (or_else cur (tr_status existing))) new w1))))"

section \<open>Charges\<close>

definition applyCharge ::
  "Draws \<Rightarrow> ApplyContext \<Rightarrow> CanonicalEventDraft \<Rightarrow> string option \<Rightarrow> MoneyJSON option \<Rightarrow> World \<Rightarrow> DraftOutcome outcome" where
  "applyCharge dr ctx d status paidAmount w =
     (case pc_findByTxid (w_charges w) (cx_environment ctx) (cd_providerId d) of
        None \<Rightarrow> (Inr ignored, w)
      | Some (_, charge) \<Rightarrow>
          (let inc = or_else (toChargeStatus status) PixChargeStatus.COMPLETED; tm = occurred ctx d; new = ChargeStatusValue inc in
           case (case paidAmount of None \<Rightarrow> Inr None | Some j \<Rightarrow> map_sum id (\<lambda>m. Some (mny_cents m)) (Money_fromJSON j)) of
             Inl e \<Rightarrow> (Inl (MoneyFailure e), w)
           | Inr paid \<Rightarrow>
               (let cb = (\<lambda>i. publish (provider_event ctx (cd_type d) ''pix_charge'' i
                      [(''status'', new), (''txid'', Text (pc_txid charge))] (Some [(''status'', new)]) tm) None)
                in case pc_applyStatusChange \<lparr>cc_environment = cx_environment ctx, cc_txid = pc_txid charge, cc_toStatus = inc,
                          cc_paidAmountCents = paid,
                          cc_paidAt = (if inc = PixChargeStatus.COMPLETED then Some tm else None), cc_occurredAt = tm\<rparr> (Some cb)
                          (w_charges w, w_outbox w, w_audit w) of
                     (Applied _, rows, out, aud) \<Rightarrow> (Inr applied, w\<lparr>w_charges := rows, w_outbox := out, w_audit := aud\<rparr>)
                   | (NotApplied reason cur, rows, out, aud) \<Rightarrow>
                       (Inr recorded, handleRejection dr ctx ''pix_charge'' (pc_id charge) reason
                          (ChargeStatusValue (or_else cur (pc_status charge))) new w))))"

section \<open>Drafts\<close>

definition applyDraft :: "Ports \<Rightarrow> Draws \<Rightarrow> ApplyContext \<Rightarrow> CanonicalEventDraft \<Rightarrow> World \<Rightarrow> DraftOutcome outcome" where
  "applyDraft ports dr ctx d w =
     (case cd_data d of
        AccountData s \<Rightarrow> applyAccount dr ctx d s w
      | OnboardingData data \<Rightarrow> applyOnboarding dr ctx d data w
      | TransactionData data \<Rightarrow> applyTransaction ports dr ctx d data w
      | ChargeData status paid \<Rightarrow> applyCharge dr ctx d status paid w
      | PixKeyData \<Rightarrow> (Inr ignored, w))"

text \<open>\<open>acquired n\<close> says whether the lock of the \<open>n\<close>-th draft was obtained.  The result is the outcomes so far
  and whether a lock was lost.\<close>

fun applyDrafts ::
  "Ports \<Rightarrow> (nat \<Rightarrow> Draws) \<Rightarrow> (nat \<Rightarrow> bool) \<Rightarrow> ApplyContext \<Rightarrow> nat \<Rightarrow> CanonicalEventDraft list \<Rightarrow> DraftOutcome list \<Rightarrow> World \<Rightarrow>
   (DraftOutcome list \<times> bool) outcome" where
  "applyDrafts ports dr acquired ctx n [] outcomes w = (Inr (outcomes, False), w)"
| "applyDrafts ports dr acquired ctx n (d # ds) outcomes w =
     (if \<not> acquired n then (Inr (outcomes, True), w)
      else (case applyDraft ports (dr n) ctx d w of
              (Inl e, w1) \<Rightarrow> (Inl e, w1)
            | (Inr r, w1) \<Rightarrow> applyDrafts ports dr acquired ctx (Suc n) ds (outcomes @ [r]) w1))"

definition MAX_ATTEMPTS :: nat where
  "MAX_ATTEMPTS = 2"

text \<open>\<open>parse\<close> resolves the provider of the event and reads its drafts, or throws.  The row read before
  \<open>markProcessing\<close> is live, so its attempts are those after the increment.\<close>

definition apply_event ::
  "Ports \<Rightarrow> Draws \<Rightarrow> (nat \<Rightarrow> Draws) \<Rightarrow> (nat \<Rightarrow> bool) \<Rightarrow> (InboundEventRecord \<Rightarrow> ServiceError + string \<times> CanonicalEventDraft list) \<Rightarrow>
   ident \<Rightarrow> World \<Rightarrow> unit outcome" where
  "apply_event ports d0 dr acquired parse eventId w =
     (case map_get (w_events w) eventId of
        None \<Rightarrow> (Inr (), w)
      | Some _ \<Rightarrow>
        (case ie_markProcessing eventId (w_events w) of
           (False, _) \<Rightarrow> (Inr (), w)
         | (True, rows) \<Rightarrow>
           (let w1 = w\<lparr>w_events := rows\<rparr>; event = the (map_get rows eventId);
                failed = (\<lambda>e w'.
                  (let deadLetter = (ie_attempts event + 1 \<ge> MAX_ATTEMPTS);
                       w2 = w'\<lparr>w_events := ie_markFailed eventId (po_message ports e) deadLetter (w_events w')\<rparr>
                   in if deadLetter then (Inr (), w2) else (Inl e, w2)));
                processed = (\<lambda>w'. w'\<lparr>w_events := ie_markProcessed eventId (d_now d0) (w_events w')\<rparr>)
            in case parse event of
                 Inl e \<Rightarrow> failed e w1
               | Inr (slug, drafts) \<Rightarrow>
                   if drafts = [] then (Inr (), processed w1)
                   else
                     (case applyDrafts ports dr acquired
                             \<lparr>cx_environment = ie_environment event, cx_connectionId = ie_connectionId event, cx_provider = slug,
                              cx_receivedAt = ie_receivedAt event, cx_providerEventId = ie_providerEventId event,
                              cx_event = Some eventId\<rparr> 0 drafts [] w1 of
                        (Inl e, w2) \<Rightarrow> failed e w2
                      | (Inr (outcomes, lockLost), w2) \<Rightarrow>
                          if lockLost then (Inr (), enqueue (InboundWebhookJob eventId) (Some 250) w2)
                          else if List.member outcomes applied then (Inr (), processed w2)
                          else if \<not> List.member outcomes recorded
                            then (Inr (), w2\<lparr>w_events := ie_markDiscarded eventId ''nenhum rascunho aplicavel'' (w_events w2)\<rparr>)
                          else (Inr (), w2)))))"

section \<open>The sweeper\<close>

text \<open>\<open>webhook-sweeper.service.ts\<close>.\<close>

definition STALE_AFTER_MS :: int where
  "STALE_AFTER_MS = 60000"

definition SWEEP_BATCH :: nat where
  "SWEEP_BATCH = 100"

definition sweep :: "instant \<Rightarrow> World \<Rightarrow> nat \<times> World" where
  "sweep now w =
     (let rows = ie_findStale (w_events w) (now - STALE_AFTER_MS) SWEEP_BATCH in
      (length rows, foldl (\<lambda>w' event. enqueue (InboundWebhookJob (ie_id event)) None w') w rows))"

end
