(* ===== verification/Webhook_Properties.thy ===== *)
theory Webhook_Properties
  imports Webhook_Apply Transfer_Properties
begin

text \<open>
  What applying provider events guarantees: an incoming payment is credited once and to the last cent, however often
  it is delivered.
\<close>

section \<open>A credit\<close>

lemma credit_balances:
  assumes "normalBalance a = NormalBalance.CREDIT"
  shows "bal_available (computeBalances (applyDelta a (deltaFor EntryPhase.POSTED (leg i EntryDirection.CREDIT v)))) =
           bal_available (computeBalances a) + v"
  using assms by (simp add: counter_simps deltaFor_def ZERO_DELTA_def)

lemma credit_post:
  assumes inv: "mem_inv s"
    and a: "mem_account s i = Some a" "\<not> violatesOverdraftGuard a" "normalBalance a = NormalBalance.CREDIT"
    and b: "mem_account s j = Some b" "allowsNegative b" and ne: "i \<noteq> j"
    and k: "mem_findByIdempotencyKey s (in_idempotencyKey inp) = None" and v: "0 < v"
    and inp: "in_entries inp = [leg j EntryDirection.DEBIT v, leg i EntryDirection.CREDIT v]" "in_phase inp = PostPhase.POSTED"
  shows "\<exists>r s'. post memoryStore cur now newTx eid inp s = Inr (r, s') \<and>
           mem_account s' i = Some (applyDelta a (deltaFor EntryPhase.POSTED (leg i EntryDirection.CREDIT v)))"
proof -
  let ?a = "applyDelta a (deltaFor EntryPhase.POSTED (leg i EntryDirection.CREDIT v))"
  let ?tx = "post_transaction cur now newTx v inp"
  have locked: "map_get (mem_lockAccounts s (lockOrder (in_entries inp))) k =
      (if k = i then Some a else if k = j then Some b else None)" for k
    using mem.lock_get [of s "lockOrder (in_entries inp)" k] a b by (auto simp: store_simps inp)
  have res: "post memoryStore cur now newTx eid inp s =
      (case buildEntries eid ?tx EntryPhase.POSTED (deltaFor EntryPhase.POSTED) 0 (in_entries inp)
          (mem_lockAccounts s (lockOrder (in_entries inp))) of
        Inl err \<Rightarrow> Inl err
      | Inr (entries, accounts') \<Rightarrow> Inr (\<lparr>res_transaction = ?tx, res_entries = entries, replayed = False\<rparr>,
          mem_persist s ?tx entries (map_values accounts')))"
    using k assertBalanced_legs [OF v, of j i] locked
    by (simp add: post_def store_simps map_has_def inp Let_def split: sum.splits)
  have "\<not> violatesOverdraftGuard (applyDelta b d)" for d using b by (simp add: violatesOverdraftGuard_def)
  moreover have "\<not> violatesOverdraftGuard ?a"
    using a(2) v credit_balances [OF a(3), of i v] by (auto simp: violatesOverdraftGuard_def)
  ultimately obtain r s' where p: "post memoryStore cur now newTx eid inp s = Inr (r, s')"
    using ne locked by (simp add: res inp update_conv' buildEntries.simps Let_def)
  have "mem_account s' i = Some ?a"
    using mem.post_accounts [OF inv p] k a ne by (simp add: store_simps inp)
  with p show ?thesis by blast
qed

lemma creditIn_succeeds:
  assumes "shadow_reachable s" "mem_account s i = Some a" "la_code a = customerAvailableCode c"
    and "mem_findByIdempotencyKey s key = None" "0 < v"
  shows "\<exists>r s' a'. creditIn now newTx eid i v key ref desc s = Inr (r, s') \<and> mem_account s' i = Some a' \<and>
     bal_available (computeBalances a') = bal_available (computeBalances a) + v"
proof -
  have ok: "ledger_ok s" "chart_ok s" using shadow_reachable_sound [OF assms(1)] ledger_reachable_ok by auto
  obtain ext b where ext: "externalId s = Inr ext" "mem_account s ext = Some b" "la_code b = EXTERNAL_WORLD"
    by (rule externalId_found [OF ok])
  have codes: "customerAvailableCode c \<noteq> EXTERNAL_WORLD" by (simp add: customerAvailableCode_def LEDGER_CODES)
  then have ne: "i \<noteq> ext" using assms(2,3) ext by auto
  have shape: "normalBalance a = NormalBalance.CREDIT" "allowsNegative b" "\<not> violatesOverdraftGuard a"
    using ok assms(2,3) ext codes
    by (auto simp: chart_ok_def account_shape_def ledger_ok_def accounts_ok_def account_ok_def)
  let ?inp = "posting PIX_IN_RECEIVE PostPhase.POSTED key ref desc
      [leg ext EntryDirection.DEBIT v, leg i EntryDirection.CREDIT v] (Some now)"
  have inp: "in_entries ?inp = [leg ext EntryDirection.DEBIT v, leg i EntryDirection.CREDIT v]"
    "in_phase ?inp = PostPhase.POSTED" "in_idempotencyKey ?inp = key" by (simp_all add: posting_def)
  have "mem_inv s" using ok by (simp add: ledger_ok_def)
  from credit_post [OF this assms(2) shape(3,1) ext(2) shape(2) ne _ assms(5) inp(1,2), of BRL now newTx eid] inp(3) assms(4)
  show ?thesis by (auto simp: creditIn_def ext shadow_post_def shadow_run_Inr credit_balances [OF shape(1)])
qed

section \<open>An incoming payment\<close>

lemma guard_same: "\<exists>reason. guard table rank x lastAt x t = Inl (stale reason)"
  by (simp add: guard_def decideMonotonic_def)

lemma find_appended: "find P xs = None \<Longrightarrow> find P (xs @ [x]) = (if P x then Some x else None)"
  by (induction xs) (auto split: if_splits)

lemma findTransaction_created:
  assumes "findTransaction w ctx d data = None" "t_rows (w_transactions w') = t_rows (w_transactions w) @ [(k, row)]"
    and "tr_environment row = cx_environment ctx" "tr_provider row = cx_provider ctx" "tr_providerTransactionId row = Some (cd_providerId d)"
    and "cx_environment ctx' = cx_environment ctx" "cx_provider ctx' = cx_provider ctx"
  shows "findTransaction w' ctx' d data = Some row"
proof -
  have "tx_findByProviderTransactionId (w_transactions w) (cx_environment ctx) (cx_provider ctx) (cd_providerId d) = None"
    using assms(1) by (auto simp: findTransaction_def split: option.splits)
  then show ?thesis
    using assms(2-) by (simp add: findTransaction_def tx_findByProviderTransactionId_def map_values_def find_appended)
qed

text \<open>The same payment again: the row carries the incoming status and no hold.\<close>

lemma redelivery:
  assumes "cd_data d = TransactionData data" "findTransaction w ctx d data = Some row"
    and "map_get (t_rows (w_transactions w)) (tr_id row) = Some row" "tr_environment row = cx_environment ctx"
    and "tr_status row = or_else (pe_status data) (pe_transitionTo data)" "tr_ledgerPendingTransactionId row = None"
  obtains w' where "applyDraft ports dr ctx d w = (Inr recorded, w')" "w_ledger w' = w_ledger w" "w_transactions w' = w_transactions w"
proof -
  have hold: "resolve_hold dr ctx row (tr_status row) w = (Inr None, w)" by (simp add: resolve_hold_def assms(6))
  obtain reason where "guard TRANSACTION_STATUS_TRANSITIONS TRANSACTION_STATUS_RANKS (tr_status row) (tr_lastEventAt row)
      (tr_status row) (occurred ctx d) = Inl (stale reason)"
    using guard_same [of TRANSACTION_STATUS_TRANSITIONS TRANSACTION_STATUS_RANKS "tr_status row" "tr_lastEventAt row" "occurred ctx d"]
    by blast
  then have "tx_applyStatusChange (payment_change ctx d data row (tr_status row) None) cb (w_transactions w, x) =
      (NotApplied (stale reason) (Some (tr_status row)), w_transactions w, x)" for cb and x :: "OutboxRepo \<times> AuditRepo"
    using assms(3,4) by (simp add: tx_applyStatusChange_def payment_change_def)
  then have "applyDraft ports dr ctx d w = (Inr recorded, onDuplicate ctx (rejection_text (stale reason)) w)"
    using assms(1,2) hold by (simp add: applyDraft_def applyTransaction_def Let_def handleRejection_def assms(5) [symmetric])
  then show ?thesis using that by (simp add: onDuplicate_def split: option.splits)
qed

lemma inbound_row_fields:
  "tr_id (inbound_row ports dr ctx d data account v tx) = d_transactionId dr"
  "tr_environment (inbound_row ports dr ctx d data account v tx) = cx_environment ctx"
  "tr_provider (inbound_row ports dr ctx d data account v tx) = cx_provider ctx"
  "tr_providerTransactionId (inbound_row ports dr ctx d data account v tx) = Some (cd_providerId d)"
  "tr_status (inbound_row ports dr ctx d data account v tx) = or_else (pe_status data) TransactionStatus.SETTLED"
  "tr_ledgerPendingTransactionId (inbound_row ports dr ctx d data account v tx) = None"
  "tr_amountCents (inbound_row ports dr ctx d data account v tx) = v"
  "tr_accountId (inbound_row ports dr ctx d data account v tx) = ac_id account"
  "tr_direction (inbound_row ports dr ctx d data account v tx) = TransactionDirection.CREDIT"
  by (simp_all add: inbound_row_def Let_def)

lemma receiveInbound_credits:
  assumes none: "findTransaction w ctx d data = None"
    and acc: "truthy (pe_providerAccountId data) = Some pid"
      "ac_findByProviderAccountId (w_accounts w) (cx_environment ctx) (cx_provider ctx) pid = Some account"
      "truthy (ac_ledgerAvailableAccountId account) = Some i"
    and money: "pe_amount data = Some j" "Money_fromJSON j = Inr money" "0 < mny_cents money"
    and led: "map_get (w_ledger w) (cx_environment ctx) = Some s" "shadow_reachable s"
      "mem_account s i = Some a" "la_code a = customerAvailableCode c"
    and fresh: "mem_findByIdempotencyKey s (''pix-in:'' @ cd_providerId d) = None"
      "map_get (t_rows (w_transactions w)) (d_transactionId dr) = None"
  obtains w' tx where "receiveInbound ports dr ctx d data w = (Inr applied, w')"
    "ledger_available w' (cx_environment ctx) i = Some (bal_available (computeBalances a) + mny_cents money)"
    "t_rows (w_transactions w') = t_rows (w_transactions w) @
       [(d_transactionId dr, inbound_row ports dr ctx d data account (mny_cents money) tx)]"
proof -
  let ?e = "cx_environment ctx" and ?v = "mny_cents money"
  obtain r s' a' where cr: "creditIn (d_holdNow dr) (d_holdTx dr) (d_holdEntry dr) i ?v (''pix-in:'' @ cd_providerId d)
      (Some (or_else (pe_endToEndId data) (cd_providerId d))) None s = Inr (r, s')"
    "mem_account s' i = Some a'" "bal_available (computeBalances a') = bal_available (computeBalances a) + ?v"
    using creditIn_succeeds [OF led(2,3,4) fresh(1) money(3)] by blast
  have e2e: "\<not> (case truthy (pe_endToEndId data) of None \<Rightarrow> False
      | Some e \<Rightarrow> tx_findByEndToEndId (w_transactions w) ?e e \<noteq> None)"
    using none by (auto simp: findTransaction_def split: option.splits)
  let ?row = "inbound_row ports dr ctx d data account ?v (tx_id (res_transaction r))"
  let ?w1 = "w\<lparr>w_ledger := map_set ?e s' (w_ledger w)\<rparr>"
  have "receiveInbound ports dr ctx d data w = (Inr applied, invalidateBalance ?e (ac_id account)
      (append_outbox (provider_event ctx (cd_type d) ''transaction'' (tr_id ?row)
         [(''account_id'', Text (ac_id account)), (''amount_cents'', Text (show_int ?v)),
          (''end_to_end_id'', optional_text (pe_endToEndId data))] None (occurred ctx d)) (create_transaction ?row ?w1)))"
    using e2e by (simp add: receiveInbound_def acc money on_ledger_present [OF led(1)] cr(1) [simplified] Let_def)
  then show ?thesis
    by (rule that)
      (use fresh(2) cr in \<open>simp_all add: invalidateBalance_def append_outbox_def create_transaction_def tx_create_def
         ledger_available_def update_conv' inbound_row_fields map_set_fresh\<close>)
qed

lemma unseen_credit_applied:
  assumes "cd_data d = TransactionData data" "pe_direction data = Some Dir_in" "findTransaction w ctx d data = None"
    and "truthy (pe_providerAccountId data) = Some pid"
      "ac_findByProviderAccountId (w_accounts w) (cx_environment ctx) (cx_provider ctx) pid = Some account"
      "truthy (ac_ledgerAvailableAccountId account) = Some i"
    and "pe_amount data = Some j" "Money_fromJSON j = Inr money" "0 < mny_cents money"
    and "or_else (pe_status data) (pe_transitionTo data) = or_else (pe_status data) TransactionStatus.SETTLED"
    and "map_get (w_ledger w) (cx_environment ctx) = Some s" "shadow_reachable s"
      "mem_account s i = Some a" "la_code a = customerAvailableCode c"
    and "mem_findByIdempotencyKey s (''pix-in:'' @ cd_providerId d) = None"
      "map_get (t_rows (w_transactions w)) (d_transactionId dr) = None"
    and "cx_environment ctx' = cx_environment ctx" "cx_provider ctx' = cx_provider ctx"
  shows "\<exists>w' w'' row. applyDraft ports dr ctx d w = (Inr applied, w') \<and>
     ledger_available w' (cx_environment ctx) i = Some (bal_available (computeBalances a) + mny_cents money) \<and>
     map_values (t_rows (w_transactions w')) = map_values (t_rows (w_transactions w)) @ [row] \<and>
     tr_accountId row = ac_id account \<and> tr_amountCents row = mny_cents money \<and> tr_direction row = TransactionDirection.CREDIT \<and>
     applyDraft ports' dr' ctx' d w' = (Inr recorded, w'') \<and> w_ledger w'' = w_ledger w' \<and> w_transactions w'' = w_transactions w'"
proof -
  obtain w' tx where rc: "receiveInbound ports dr ctx d data w = (Inr applied, w')"
    "ledger_available w' (cx_environment ctx) i = Some (bal_available (computeBalances a) + mny_cents money)"
    "t_rows (w_transactions w') = t_rows (w_transactions w) @
       [(d_transactionId dr, inbound_row ports dr ctx d data account (mny_cents money) tx)]" (is "_ = _ @ [(_, ?row)]")
    by (rule receiveInbound_credits [OF assms(3,4,5,6,7,8,9,11,12,13,14,15,16)])
  have found: "findTransaction w' ctx' d data = Some ?row"
    by (rule findTransaction_created [OF assms(3) rc(3) _ _ _ assms(17,18)]) (simp_all add: inbound_row_fields)
  obtain w'' where "applyDraft ports' dr' ctx' d w' = (Inr recorded, w'')" "w_ledger w'' = w_ledger w'"
    "w_transactions w'' = w_transactions w'"
    by (rule redelivery [OF assms(1) found]) (use assms(10,16,17) rc(3) in \<open>simp_all add: inbound_row_fields map_add_def\<close>)
  moreover have "applyDraft ports dr ctx d w = (Inr applied, w')"
    using assms(1,2,3) rc(1) by (simp add: applyDraft_def applyTransaction_def Let_def)
  ultimately show ?thesis using rc(2,3) by (auto simp: map_values_def inbound_row_fields)
qed

section \<open>Properties\<close>

definition demo_context :: "ident option \<Rightarrow> ApplyContext" where
  "demo_context event = \<lparr>cx_environment = HOMOLOGACAO, cx_connectionId = ''C1'', cx_provider = ''mock'', cx_receivedAt = 20,
     cx_providerEventId = None, cx_event = event\<rparr>"

definition demo_payment :: PaymentEventData where
  "demo_payment = \<lparr>pe_providerAccountId = Some ''P1'', pe_direction = Some Dir_in, pe_status = Some TransactionStatus.SETTLED,
     pe_transitionTo = TransactionStatus.SETTLED, pe_amount = Some \<lparr>mj_amount = ''2500'', mj_currency = BRL, mj_scale = 2\<rparr>,
     pe_endToEndId = Some ''E1'', pe_returnId = None, pe_txid = None, pe_counterparty = None, pe_settledAt = None\<rparr>"

definition demo_draft :: CanonicalEventDraft where
  "demo_draft = \<lparr>cd_type = PIX_IN_RECEIVED, cd_providerId = ''TX9'', cd_occurredAt = Some 19, cd_data = TransactionData demo_payment\<rparr>"

definition demo_event :: InboundEventRecord where
  "demo_event = \<lparr>ie_id = ''ev'', ie_environment = HOMOLOGACAO, ie_connectionId = ''C1'', ie_provider = ''mock'', ie_dedupeKey = ''k'',
     ie_providerEventId = None, ie_eventTypeRaw = None, ie_occurredAt = None, ie_receivedAt = 0, ie_headers = [], ie_payload = ''x'',
     ie_rawSha256 = ''y'', ie_signatureValid = True, ie_status = RECEIVED, ie_attempts = 0, ie_lastError = None, ie_processedAt = None\<rparr>"

text \<open>C20: an incoming payment the connector has not seen is credited to the last cent and recorded as one transaction of
  that amount; delivering it again, whatever the time, the identifiers or the source, changes neither the ledger nor
  the transactions.\<close>

theorem inbound_credit_once:
  assumes "cd_data d = TransactionData data" "pe_direction data = Some Dir_in" "findTransaction w ctx d data = None"
    and "truthy (pe_providerAccountId data) = Some pid"
      "ac_findByProviderAccountId (w_accounts w) (cx_environment ctx) (cx_provider ctx) pid = Some account"
      "truthy (ac_ledgerAvailableAccountId account) = Some i"
    and "pe_amount data = Some j" "Money_fromJSON j = Inr money" "0 < mny_cents money"
    and "or_else (pe_status data) (pe_transitionTo data) = or_else (pe_status data) TransactionStatus.SETTLED"
    and "map_get (w_ledger w) (cx_environment ctx) = Some s" "shadow_reachable s"
      "mem_account s i = Some a" "la_code a = customerAvailableCode c"
    and "mem_findByIdempotencyKey s (''pix-in:'' @ cd_providerId d) = None"
      "map_get (t_rows (w_transactions w)) (d_transactionId dr) = None"
    and "cx_environment ctx' = cx_environment ctx" "cx_provider ctx' = cx_provider ctx"
  shows "\<exists>w' w'' row. applyDraft ports dr ctx d w = (Inr applied, w') \<and>
     ledger_available w' (cx_environment ctx) i = Some (bal_available (computeBalances a) + mny_cents money) \<and>
     map_values (t_rows (w_transactions w')) = map_values (t_rows (w_transactions w)) @ [row] \<and>
     tr_accountId row = ac_id account \<and> tr_amountCents row = mny_cents money \<and> tr_direction row = TransactionDirection.CREDIT \<and>
     applyDraft ports' dr' ctx' d w' = (Inr recorded, w'') \<and> w_ledger w'' = w_ledger w' \<and> w_transactions w'' = w_transactions w'"
  by (rule unseen_credit_applied [OF assms])

theorem inbound_credit_once_witness:
  "\<exists>w' w'' row. applyDraft demo_ports demo_draws (demo_context None) demo_draft demo_world = (Inr applied, w') \<and>
     ledger_available w' HOMOLOGACAO ''LA'' = Some 12500 \<and> map_values (t_rows (w_transactions w')) = [row] \<and> tr_amountCents row = 2500 \<and>
     applyDraft demo_ports demo_draws (demo_context (Some ''ev'')) demo_draft w' = (Inr recorded, w'') \<and>
     w_ledger w'' = w_ledger w' \<and> w_transactions w'' = w_transactions w'"
proof -
  let ?a = "the (mem_account shadow_credited ''LA'')"
  have f: "mem_account shadow_credited ''LA'' \<noteq> None \<and> la_code ?a = customerAvailableCode ''c1'' \<and>
     mem_findByIdempotencyKey shadow_credited (''pix-in:'' @ ''TX9'') = None \<and> bal_available (computeBalances ?a) = 10000" by code_simp
  have a: "mem_account shadow_credited ''LA'' = Some ?a" using f by auto
  have w: "findTransaction demo_world (demo_context None) demo_draft demo_payment = None"
    "ac_findByProviderAccountId (w_accounts demo_world) HOMOLOGACAO ''mock'' ''P1'' = Some demo_account"
    by (code_simp, code_simp)
  have m: "Money_fromJSON \<lparr>mj_amount = ''2500'', mj_currency = BRL, mj_scale = 2\<rparr> = Inr \<lparr>mny_cents = 2500, mny_currency = BRL\<rparr>"
    by code_simp
  have c: "cx_environment (demo_context e) = HOMOLOGACAO" "cx_provider (demo_context e) = ''mock''" for e
    by (simp_all add: demo_context_def)
  have x: "map_get (w_ledger demo_world) HOMOLOGACAO = Some shadow_credited" "t_rows (w_transactions demo_world) = []"
    "truthy (ac_ledgerAvailableAccountId demo_account) = Some ''LA''"
    by (simp_all add: demo_world_def demo_account_def)
  have d: "cd_data demo_draft = TransactionData demo_payment" "cd_providerId demo_draft = ''TX9''" by (simp_all add: demo_draft_def)
  note once = inbound_credit_once [where d = demo_draft and data = demo_payment and w = demo_world and ctx = "demo_context None"
      and ctx' = "demo_context (Some ''ev'')" and account = demo_account and pid = "''P1''" and i = "''LA''" and s = shadow_credited
      and a = ?a and c = "''c1''" and money = "\<lparr>mny_cents = 2500, mny_currency = BRL\<rparr>" and ports = demo_ports and ports' = demo_ports
      and dr = demo_draws and dr' = demo_draws, OF d(1), unfolded c x(2)]
  have "\<exists>w' w'' row. applyDraft demo_ports demo_draws (demo_context None) demo_draft demo_world = (Inr applied, w') \<and>
     ledger_available w' HOMOLOGACAO ''LA'' = Some (10000 + 2500) \<and> map_values (t_rows (w_transactions w')) = map_values [] @ [row] \<and>
     tr_accountId row = ac_id demo_account \<and> tr_amountCents row = 2500 \<and> tr_direction row = TransactionDirection.CREDIT \<and>
     applyDraft demo_ports demo_draws (demo_context (Some ''ev'')) demo_draft w' = (Inr recorded, w'') \<and>
     w_ledger w'' = w_ledger w' \<and> w_transactions w'' = w_transactions w'"
    using once [OF _ w(1) _ w(2) x(3) _ m _ _ x(1) shadow_demo_reachable(2) a] f d(2) by (simp add: demo_payment_def)
  then show ?thesis by auto
qed

text \<open>An event whose first draft finds its aggregate locked stays in processing with one more job queued for it, and no
  later attempt, by that job or by the sweeper, applies it: whatever the attempt is given, it returns without doing anything.\<close>

theorem lock_lost_event_abandoned:
  assumes "map_get (w_events w) e = Some row" "ie_status row = RECEIVED \<or> ie_status row = InboundEventStatus.FAILED"
    and "parse (row\<lparr>ie_status := InboundEventStatus.PROCESSING, ie_attempts := ie_attempts row + 1\<rparr>) = Inr (slug, d # ds)"
    and "\<not> acquired 0"
  shows "\<exists>w'. apply_event ports d0 dr acquired parse e w = (Inr (), w') \<and>
     map_option ie_status (map_get (w_events w') e) = Some InboundEventStatus.PROCESSING \<and>
     w_queue w' = w_queue w @ [(InboundWebhookJob e, Some 250)] \<and>
     apply_event ports' d0' dr' acquired' parse' e w' = (Inr (), w')"
  using assms by (auto simp: apply_event_def ie_markProcessing_def update_conv' enqueue_def Let_def)

theorem lock_lost_event_abandoned_witness:
  "\<exists>w'. apply_event demo_ports demo_draws (\<lambda>_. demo_draws) (\<lambda>_. False) (\<lambda>_. Inr (''mock'', [demo_draft])) ''ev''
       (demo_world\<lparr>w_events := [(''ev'', demo_event)]\<rparr>) = (Inr (), w') \<and>
     map_option ie_status (map_get (w_events w') ''ev'') = Some InboundEventStatus.PROCESSING \<and>
     w_queue w' = [(InboundWebhookJob ''ev'', Some 250)] \<and>
     apply_event demo_ports demo_draws (\<lambda>_. demo_draws) (\<lambda>_. True) (\<lambda>_. Inr (''mock'', [demo_draft])) ''ev'' w' = (Inr (), w')"
proof -
  let ?w = "demo_world\<lparr>w_events := [(''ev'', demo_event)]\<rparr>" and ?parse = "\<lambda>_. Inr (''mock'', [demo_draft])"
  have "w_queue ?w = []" "map_get (w_events ?w) ''ev'' = Some demo_event" "ie_status demo_event = RECEIVED"
    by (simp_all add: demo_world_def demo_event_def)
  then show ?thesis
    using lock_lost_event_abandoned [of ?w "''ev''" demo_event ?parse "''mock''" demo_draft "[]" "\<lambda>_. False" demo_ports demo_draws
      "\<lambda>_. demo_draws" demo_ports demo_draws "\<lambda>_. demo_draws" "\<lambda>_. True" ?parse] by simp
qed

end
