(* ===== verification/Business_Calendar.thy ===== *)
theory Business_Calendar
  imports Recon_Types Br_Properties
begin

text \<open>
  The bank calendar of reconciliation, \<open>src/packages/reconciliation/src/calendar.ts\<close>: the computed national holidays,
  business days, and the two walks over days.

  A date is the text \<open>YYYY-MM-DD\<close>.  \<open>None\<close> stands for a text that is not made of digits and dashes, on which
  the code computes with \<open>NaN\<close>, and for a walk that does not end.  The two calendars of the file differ in
  \<open>isBusinessDay\<close> only and repeat the walks, which take it as an argument here.  The cache of holidays by year holds what
  \<open>holidays\<close> computes and is left out.
\<close>

section \<open>Dates\<close>

definition read_number :: "string \<Rightarrow> int option" where
  "read_number t = (if list_all is_digit t then Some (int (read_nat t)) else None)"

definition parse_date :: "EffectiveDate \<Rightarrow> (int \<times> int \<times> int) option" where
  "parse_date date =
     (case js_split (CHR ''-'') date of
        y # m # d # _ \<Rightarrow>
          (case (read_number y, read_number m, read_number d) of
             (Some y', Some m', Some d') \<Rightarrow> Some (y', m', d')
           | _ \<Rightarrow> None)
      | _ \<Rightarrow> None)"

definition pad :: "int \<Rightarrow> string" where
  "pad v = padStart 2 (CHR ''0'') (show_int v)"

definition date_text :: "int \<Rightarrow> EffectiveDate" where
  "date_text n =
     show_int (year_of_day n) @ ''-'' @ pad (month_of_day n + 1) @ ''-'' @ pad (date_of_day n)"

definition shift :: "EffectiveDate \<Rightarrow> int \<Rightarrow> EffectiveDate option" where
  "shift date days = map_option (\<lambda>(y, m, d). date_text (utc_day y (m - 1) (d + days))) (parse_date date)"

section \<open>Holidays\<close>

definition easterSunday :: "int \<Rightarrow> int \<times> int" where
  "easterSunday year =
     (let a = year mod 19; b = year div 100; c = year mod 100; d = b div 4; e = b mod 4; f = (b + 8) div 25;
          g = (b - f + 1) div 3; h = (19 * a + b - d - g + 15) mod 30; i = c div 4; k = c mod 4;
          l = (32 + 2 * e + 2 * i - h - k) mod 7; m = (a + 11 * h + 22 * l) div 451
      in ((h + l - 7 * m + 114) div 31, (h + l - 7 * m + 114) mod 31 + 1))"

definition FIXOS :: "string list" where
  "FIXOS = [''01-01'', ''04-21'', ''05-01'', ''09-07'', ''10-12'', ''11-02'', ''11-15'', ''12-25'']"

definition CONSCIENCIA_NEGRA_DESDE :: int where
  "CONSCIENCIA_NEGRA_DESDE = 2024"

record CalendarOptions =
  treatChristmasEveAsHoliday :: bool

definition holidays :: "CalendarOptions \<Rightarrow> int \<Rightarrow> string list option" where
  "holidays options year =
     (let fixed = FIXOS @ (if year \<ge> CONSCIENCIA_NEGRA_DESDE then [''11-20''] else []) @
            (if treatChristmasEveAsHoliday options then [''12-24'', ''12-31''] else []);
          (month, day) = easterSunday year;
          base = show_int year @ ''-'' @ pad month @ ''-'' @ pad day
      in case (shift base (- 48), shift base (- 47), shift base (- 2), shift base 60) of
           (Some a, Some b, Some c, Some d) \<Rightarrow> Some (fixed @ map (drop 5) [a, b, c, d])
         | _ \<Rightarrow> None)"

section \<open>Business days\<close>

definition weekend :: "int \<Rightarrow> bool" where
  "weekend n \<longleftrightarrow> week_day n = 0 \<or> week_day n = 6"

definition bank_isBusinessDay :: "CalendarOptions \<Rightarrow> EffectiveDate \<Rightarrow> bool option" where
  "bank_isBusinessDay options date =
     (case parse_date date of
        None \<Rightarrow> None
      | Some (year, month, day) \<Rightarrow>
          if weekend (utc_day year (month - 1) day) then Some False
          else map_option (\<lambda>hs. (pad month @ ''-'' @ pad day) \<notin> set hs) (holidays options year))"

definition weekend_isBusinessDay :: "EffectiveDate \<Rightarrow> bool option" where
  "weekend_isBusinessDay date =
     map_option (\<lambda>(year, month, day). \<not> weekend (utc_day year (month - 1) day)) (parse_date date)"

section \<open>Walks\<close>

partial_function (option) add_loop ::
  "(EffectiveDate \<Rightarrow> bool option) \<Rightarrow> int \<Rightarrow> nat \<Rightarrow> EffectiveDate \<Rightarrow> EffectiveDate option" where
  "add_loop biz passo restantes atual =
     (if restantes = 0 then Some atual
      else Option.bind (shift atual passo)
        (\<lambda>proximo. Option.bind (biz proximo)
          (\<lambda>util. add_loop biz passo (if util then restantes - 1 else restantes) proximo)))"

definition walk_addBusinessDays :: "(EffectiveDate \<Rightarrow> bool option) \<Rightarrow> EffectiveDate \<Rightarrow> int \<Rightarrow> EffectiveDate option" where
  "walk_addBusinessDays biz date days =
     (if days = 0 then Some date
      else add_loop biz (if days > 0 then 1 else - 1) (nat \<bar>days\<bar>) date)"

partial_function (option) between_loop ::
  "(EffectiveDate \<Rightarrow> bool option) \<Rightarrow> EffectiveDate \<Rightarrow> EffectiveDate \<Rightarrow> nat \<Rightarrow> nat option" where
  "between_loop biz fim atual dias =
     (if atual < fim
      then Option.bind (shift atual 1)
        (\<lambda>proximo. Option.bind (biz proximo)
          (\<lambda>util. between_loop biz fim proximo (if util then dias + 1 else dias)))
      else Some dias)"

definition walk_businessDaysBetween ::
  "(EffectiveDate \<Rightarrow> bool option) \<Rightarrow> EffectiveDate \<Rightarrow> EffectiveDate \<Rightarrow> nat option" where
  "walk_businessDaysBetween biz from to =
     (if from = to then Some 0
      else if from < to then between_loop biz to from 0 else between_loop biz from to 0)"

definition bank_addBusinessDays :: "CalendarOptions \<Rightarrow> EffectiveDate \<Rightarrow> int \<Rightarrow> EffectiveDate option" where
  "bank_addBusinessDays options = walk_addBusinessDays (bank_isBusinessDay options)"

definition bank_businessDaysBetween :: "CalendarOptions \<Rightarrow> EffectiveDate \<Rightarrow> EffectiveDate \<Rightarrow> nat option" where
  "bank_businessDaysBetween options = walk_businessDaysBetween (bank_isBusinessDay options)"

definition weekend_addBusinessDays :: "EffectiveDate \<Rightarrow> int \<Rightarrow> EffectiveDate option" where
  "weekend_addBusinessDays = walk_addBusinessDays weekend_isBusinessDay"

definition weekend_businessDaysBetween :: "EffectiveDate \<Rightarrow> EffectiveDate \<Rightarrow> nat option" where
  "weekend_businessDaysBetween = walk_businessDaysBetween weekend_isBusinessDay"

section \<open>Dates as texts\<close>

lemma read_nat_Cons: "read_nat (c # cs) = digit_val c * 10 ^ length cs + read_nat cs"
  using read_nat_append [of "[c]" cs] by simp

lemma digit_order:
  assumes "is_digit x" "is_digit y"
  shows "digit_val x = digit_val y \<longleftrightarrow> x = y" "digit_val x < digit_val y \<longleftrightarrow> x < y"
proof -
  show "digit_val x = digit_val y \<longleftrightarrow> x = y" using assms by (metis digit_char_val)
  show "digit_val x < digit_val y \<longleftrightarrow> x < y"
    using assms unfolding is_digit_def digit_val_def less_char_def by linarith
qed

text \<open>Numbers of the same width compare as texts, whatever follows them.\<close>

lemma digits_less:
  assumes "length xs = length ys" "list_all is_digit xs" "list_all is_digit ys" "read_nat xs < read_nat ys"
  shows "xs @ us < ys @ vs"
  using assms
proof (induction xs ys rule: list_induct2)
  case (Cons x xs y ys)
  have b: "read_nat xs < 10 ^ length xs" "read_nat ys < 10 ^ length ys"
    using Cons.prems read_nat_bound by (auto simp: list_all_iff)
  show ?case
  proof (cases "digit_val x = digit_val y")
    case True
    then have "x = y" using Cons.prems by (simp add: digit_order)
    with True Cons show ?thesis by (simp add: read_nat_Cons)
  next
    case False
    have "digit_val x < digit_val y"
    proof (rule ccontr)
      assume "\<not> digit_val x < digit_val y"
      with False have "digit_val y + 1 \<le> digit_val x" by simp
      then have "(digit_val y + 1) * 10 ^ length ys \<le> digit_val x * 10 ^ length ys" by (rule mult_right_mono) simp
      with Cons.prems(3) Cons.hyps b show False by (simp add: read_nat_Cons algebra_simps)
    qed
    with Cons.prems have "x < y" by (simp add: digit_order)
    then show ?thesis by simp
  qed
qed simp

lemma append_same_less: "xs @ us < xs @ (vs :: string) \<longleftrightarrow> us < vs"
  by (induction xs) simp_all

definition common_era :: "int \<Rightarrow> bool" where
  "common_era n \<longleftrightarrow> 1000 \<le> year_of_day n \<and> year_of_day n \<le> 9999"

lemma pad_pad_int: "pad v = pad_int 2 v"
  by (simp add: pad_def pad_int_def)

lemma date_ranges: "0 \<le> month_of_day n + 1" "month_of_day n + 1 < 100" "0 \<le> date_of_day n" "date_of_day n < 100"
  using month_of_day [of n] date_of_day [of n] by simp_all

lemma no_dash: "list_all is_digit ds \<Longrightarrow> CHR ''-'' \<notin> set ds"
  by (auto simp: list_all_iff is_digit_def)

lemma split_at_dash: "CHR ''-'' \<notin> set ds \<Longrightarrow> js_split (CHR ''-'') (ds @ CHR ''-'' # rest) = ds # js_split (CHR ''-'') rest"
  by (induction ds) auto

lemma split_last: "CHR ''-'' \<notin> set ds \<Longrightarrow> js_split (CHR ''-'') ds = [ds]"
  by (induction ds) auto

lemma parse_three:
  assumes "list_all is_digit y" "list_all is_digit m" "list_all is_digit d"
  shows "parse_date (y @ ''-'' @ m @ ''-'' @ d) = Some (int (read_nat y), int (read_nat m), int (read_nat d))"
  using assms by (simp add: parse_date_def split_at_dash split_last no_dash read_number_def)

lemma parse_date_text:
  assumes "common_era n"
  shows "parse_date (date_text n) = Some (year_of_day n, month_of_day n + 1, date_of_day n)"
  using assms show_year [of "year_of_day n"] pad_int_digits [of "month_of_day n + 1"] pad_int_digits [of "date_of_day n"]
    date_ranges [of n]
  unfolding date_text_def pad_pad_int by (subst parse_three) (simp_all add: common_era_def)

lemma utc_day_shift:
  assumes "common_era n"
  shows "utc_day (year_of_day n) (month_of_day n) (date_of_day n + k) = n + k"
  using assms make_day_parts [of n] by (simp add: utc_day_def common_era_def make_day_shift)

lemma shift_date_text: "common_era n \<Longrightarrow> shift (date_text n) k = Some (date_text (n + k))"
  by (simp add: shift_def parse_date_text utc_day_shift)

lemma year_of_day_mono: "m \<le> n \<Longrightarrow> year_of_day m \<le> year_of_day n"
proof (rule ccontr)
  assume a: "m \<le> n" "\<not> year_of_day m \<le> year_of_day n"
  then have "day_from_year (year_of_day n + 1) \<le> day_from_year (year_of_day m)" by (intro day_from_year_mono) simp
  with a(1) year_of_day(1) [of m] year_of_day(2) [of n] day_from_year_step [of "year_of_day n"] show False by simp
qed

lemma month_start_mono: "a \<le> b \<Longrightarrow> 0 \<le> a \<Longrightarrow> b \<le> 12 \<Longrightarrow> month_start l a \<le> month_start l b"
proof (induction b rule: int_ge_induct)
  case (step b)
  then show ?case using month_start_step(1) [of b l] by simp
qed simp

text \<open>Days of four-digit years are in the order of their texts.\<close>

lemma date_text_less:
  assumes "common_era m" "common_era n" "m < n"
  shows "date_text m < date_text n"
proof -
  note Y = show_year [of "year_of_day m"] show_year [of "year_of_day n"]
  note M = pad_int_digits [of "month_of_day m + 1"] pad_int_digits [of "month_of_day n + 1"]
  note D = pad_int_digits [of "date_of_day m"] pad_int_digits [of "date_of_day n"]
  have y: "year_of_day m \<le> year_of_day n" using assms(3) by (simp add: year_of_day_mono)
  show ?thesis
  proof (cases "year_of_day m = year_of_day n")
    case False
    with y have "read_nat (show_int (year_of_day m)) < read_nat (show_int (year_of_day n))"
      using Y assms by (simp add: common_era_def)
    then show ?thesis unfolding date_text_def using Y assms by (intro digits_less) (simp_all add: common_era_def)
  next
    case year: True
    have mo: "month_of_day m \<le> month_of_day n"
    proof (rule ccontr)
      assume "\<not> month_of_day m \<le> month_of_day n"
      then have "month_start (leap (year_of_day n)) (month_of_day n + 1) \<le> month_start (leap (year_of_day n)) (month_of_day m)"
        using month_of_day [of n] month_of_day [of m] by (intro month_start_mono) simp_all
      with month_of_day(3) [of m] month_of_day(4) [of n] year assms(3) show False by simp
    qed
    show ?thesis
    proof (cases "month_of_day m = month_of_day n")
      case False
      with mo have "read_nat (pad_int 2 (month_of_day m + 1)) < read_nat (pad_int 2 (month_of_day n + 1))"
        using M date_ranges [of m] date_ranges [of n] by simp
      then show ?thesis unfolding date_text_def year append_same_less pad_pad_int
        using M date_ranges [of m] date_ranges [of n] by (intro digits_less) simp_all
    next
      case month: True
      have "date_of_day m < date_of_day n"
        using year month assms(3) by (simp add: date_of_day_def Let_def)
      then have "read_nat (pad_int 2 (date_of_day m)) < read_nat (pad_int 2 (date_of_day n))"
        using D date_ranges [of m] date_ranges [of n] by simp
      then have "pad_int 2 (date_of_day m) @ [] < pad_int 2 (date_of_day n) @ []"
        using D date_ranges [of m] date_ranges [of n] by (intro digits_less) simp_all
      then show ?thesis unfolding date_text_def year month append_same_less pad_pad_int by simp
    qed
  qed
qed

lemma date_text_order:
  assumes "common_era m" "common_era n"
  shows "date_text m < date_text n \<longleftrightarrow> m < n" "date_text m = date_text n \<longleftrightarrow> m = n"
  using date_text_less [OF assms] date_text_less [OF assms(2,1)] by (metis less_irrefl less_asym linorder_neqE)+

section \<open>Business days by day number\<close>

definition fixed_holidays :: "CalendarOptions \<Rightarrow> int \<Rightarrow> (int \<times> int) list" where
  "fixed_holidays options year =
     [(1, 1), (4, 21), (5, 1), (9, 7), (10, 12), (11, 2), (11, 15), (12, 25)] @
     (if 2024 \<le> year then [(11, 20)] else []) @ (if treatChristmasEveAsHoliday options then [(12, 24), (12, 31)] else [])"

definition easter_day :: "int \<Rightarrow> int" where
  "easter_day year = (case easterSunday year of (month, day) \<Rightarrow> make_day year (month - 1) day)"

definition business :: "CalendarOptions \<Rightarrow> int \<Rightarrow> bool" where
  "business options n \<longleftrightarrow> \<not> weekend n \<and> (month_of_day n + 1, date_of_day n) \<notin> set (fixed_holidays options (year_of_day n)) \<and>
     n - easter_day (year_of_day n) \<notin> {- 48, - 47, - 2, 60}"

lemma easter_range:
  assumes "0 \<le> y"
  obtains month day where "easterSunday y = (month, day)" "month = 3 \<and> 15 \<le> day \<and> day \<le> 31 \<or> month = 4 \<and> 1 \<le> day \<and> day \<le> 26"
proof -
  define a h l m where "a = y mod 19"
    and "h = (19 * (y mod 19) + y div 100 - y div 100 div 4 - (y div 100 - (y div 100 + 8) div 25 + 1) div 3 + 15) mod 30"
    and "l = (32 + 2 * (y div 100 mod 4) + 2 * (y mod 100 div 4) - h - y mod 100 mod 4) mod 7"
    and "m = (a + 11 * h + 22 * l) div 451"
  define n where "n = h + l - 7 * m + 114"
  have r: "0 \<le> a" "a < 19" "0 \<le> h" "h < 30" "0 \<le> l" "l < 7"
    unfolding a_def h_def l_def by simp_all
  then have "0 \<le> m" "m \<le> 1" unfolding m_def by linarith+
  with r have n: "107 \<le> n" "n \<le> 149" unfolding n_def by linarith+
  have "easterSunday y = (n div 31, n mod 31 + 1)"
    by (simp only: easterSunday_def Let_def n_def m_def l_def h_def a_def)
  moreover have "n div 31 = 3 \<and> 15 \<le> n mod 31 + 1 \<and> n mod 31 + 1 \<le> 31 \<or> n div 31 = 4 \<and> 1 \<le> n mod 31 + 1 \<and> n mod 31 + 1 \<le> 26"
    using n by presburger
  ultimately show ?thesis using that by blast
qed

text \<open>The days counted from Easter are in its year, from late January to June.\<close>

lemma easter_offsets:
  assumes "0 \<le> y" "k \<in> {- 48, - 47, - 2, 60}"
  shows "year_of_day (easter_day y + k) = y" "month_of_day (easter_day y + k) \<le> 5"
proof -
  let ?n = "easter_day y + k"
  obtain month day where e: "easterSunday y = (month, day)" and
    r: "month = 3 \<and> 15 \<le> day \<and> day \<le> 31 \<or> month = 4 \<and> 1 \<le> day \<and> day \<le> 26"
    by (rule easter_range [OF assms(1)])
  have "month - 1 = 2 \<or> month - 1 = 3" using r by auto
  then have day: "easter_day y = day_from_year y + month_start (leap y) (month - 1) + day - 1"
    by (auto simp: easter_day_def e make_day_def Let_def)
  have starts: "month_start (leap y) 2 = 59 + (if leap y then 1 else 0)" "month_start (leap y) 3 = 90 + (if leap y then 1 else 0)"
    by (simp_all add: month_start.simps)
  have "- 48 \<le> k" "k \<le> 60" using assms(2) by auto
  with r starts have n: "day_from_year y + 25 \<le> ?n" "?n \<le> day_from_year y + 176"
    unfolding day by (auto split: if_splits)
  show y: "year_of_day ?n = y"
    by (rule year_of_day_unique) (use n day_from_year_step [of y] in \<open>simp_all add: year_length_def\<close>)
  show "month_of_day ?n \<le> 5"
  proof (rule ccontr)
    assume "\<not> month_of_day ?n \<le> 5"
    then have "month_start (leap y) 6 \<le> month_start (leap y) (month_of_day ?n)"
      using month_of_day(2) [of ?n] by (intro month_start_mono) simp_all
    with month_of_day(3) [of ?n] y n show False by (simp add: month_start.simps split: if_splits)
  qed
qed

lemma day_text_eq:
  assumes "0 \<le> a" "a < 100" "0 \<le> b" "b < 100" "0 \<le> c" "c < 100" "0 \<le> d" "d < 100"
  shows "pad a @ ''-'' @ pad b = pad c @ ''-'' @ pad d \<longleftrightarrow> a = c \<and> b = d"
proof
  assume eq: "pad a @ ''-'' @ pad b = pad c @ ''-'' @ pad d"
  have "length (pad a) = length (pad c)" using assms by (simp add: pad_pad_int pad_int_digits)
  with eq have "pad a = pad c" "pad b = pad d" by simp_all
  then show "a = c \<and> b = d" using assms pad_int_digits(3) by (metis pad_pad_int)
qed simp

lemma fixed_texts:
  "FIXOS @ (if year \<ge> CONSCIENCIA_NEGRA_DESDE then [''11-20''] else []) @
     (if treatChristmasEveAsHoliday options then [''12-24'', ''12-31''] else []) =
   map (\<lambda>(m, d). pad m @ ''-'' @ pad d) (fixed_holidays options year)"
proof -
  have t: "map (\<lambda>(m, d). pad m @ ''-'' @ pad d) [(1, 1), (4, 21), (5, 1), (9, 7), (10, 12), (11, 2), (11, 15), (12, 25)] = FIXOS"
    "map (\<lambda>(m, d). pad m @ ''-'' @ pad d) [(11, 20)] = [''11-20'']"
    "map (\<lambda>(m, d). pad m @ ''-'' @ pad d) [(12, 24), (12, 31)] = [''12-24'', ''12-31'']"
    by code_simp+
  show ?thesis unfolding fixed_holidays_def map_append t [symmetric] CONSCIENCIA_NEGRA_DESDE_def by simp
qed

lemma holiday_base:
  assumes y: "1000 \<le> y" "y \<le> 9999" and e: "easterSunday y = (month, day)"
  shows "shift (show_int y @ ''-'' @ pad month @ ''-'' @ pad day) k = Some (date_text (easter_day y + k))"
proof -
  from y have "0 \<le> y" by simp
  then have r: "0 \<le> month" "month < 100" "0 \<le> day" "day < 100"
    using e by (auto elim!: easter_range)
  have "parse_date (show_int y @ ''-'' @ pad month @ ''-'' @ pad day) = Some (y, month, day)"
    using show_year [OF y] pad_int_digits [OF r(1,2)] pad_int_digits [OF r(3,4)] unfolding pad_pad_int
    by (subst parse_three) simp_all
  then show ?thesis using y by (simp add: shift_def easter_day_def e utc_day_def make_day_shift)
qed

lemma drop_year:
  assumes "common_era n"
  shows "drop 5 (date_text n) = pad (month_of_day n + 1) @ ''-'' @ pad (date_of_day n)"
  using show_year(1) [of "year_of_day n"] assms by (simp add: date_text_def common_era_def)

lemma same_date: "year_of_day m = year_of_day n \<Longrightarrow> month_of_day m = month_of_day n \<Longrightarrow> date_of_day m = date_of_day n \<Longrightarrow> m = n"
  by (metis make_day_parts)

lemma isBusinessDay_correct:
  assumes "common_era n"
  shows "bank_isBusinessDay options (date_text n) = Some (business options n)"
proof -
  let ?y = "year_of_day n" and ?t = "\<lambda>n. pad (month_of_day n + 1) @ ''-'' @ pad (date_of_day n)"
  have y: "1000 \<le> ?y" "?y \<le> 9999" using assms by (simp_all add: common_era_def)
  obtain month day where e: "easterSunday ?y = (month, day)" by fastforce
  have era: "common_era (easter_day ?y + k)" if "k \<in> {- 48, - 47, - 2, 60}" for k
    using easter_offsets(1) [OF _ that, of ?y] y by (simp add: common_era_def)
  have moving: "?t n = drop 5 (date_text (easter_day ?y + k)) \<longleftrightarrow> n - easter_day ?y = k" if "k \<in> {- 48, - 47, - 2, 60}" for k
    using drop_year [OF era [OF that]] day_text_eq [OF date_ranges date_ranges] easter_offsets(1) [OF _ that, of ?y] y
      same_date [of n "easter_day ?y + k"] by auto
  have fixed: "?t n \<in> set (map (\<lambda>(m, d). pad m @ ''-'' @ pad d) (fixed_holidays options ?y)) \<longleftrightarrow>
      (month_of_day n + 1, date_of_day n) \<in> set (fixed_holidays options ?y)"
  proof -
    have "0 \<le> m \<and> m < 100 \<and> 0 \<le> d \<and> d < 100" if "(m, d) \<in> set (fixed_holidays options ?y)" for m d
      using that by (auto simp: fixed_holidays_def split: if_splits)
    then show ?thesis using day_text_eq [OF date_ranges [of n]] by fastforce
  qed
  have "holidays options ?y = Some (map (\<lambda>(m, d). pad m @ ''-'' @ pad d) (fixed_holidays options ?y) @
      map (\<lambda>k. drop 5 (date_text (easter_day ?y + k))) [- 48, - 47, - 2, 60])"
    unfolding holidays_def Let_def fixed_texts e prod.case holiday_base [OF y e] option.case by simp
  then show ?thesis
    using fixed moving [of "- 48"] moving [of "- 47"] moving [of "- 2"] moving [of 60] utc_day_shift [OF assms, of 0]
    by (simp add: bank_isBusinessDay_def parse_date_text [OF assms] business_def) blast
qed

section \<open>Walks over days\<close>

lemma era_between: "common_era a \<Longrightarrow> common_era b \<Longrightarrow> a \<le> n \<Longrightarrow> n \<le> b \<Longrightarrow> common_era n"
  using year_of_day_mono [of a n] year_of_day_mono [of n b] by (simp add: common_era_def)

lemma upto_next: "a < (b :: int) \<Longrightarrow> [a + 1..b] = (a + 1) # [a + 1 + 1..b]"
  by (simp add: upto_rec1)

text \<open>What a calendar promises: its answer on a day, and an open day in every year.\<close>

locale day_calendar =
  fixes biz :: "EffectiveDate \<Rightarrow> bool option" and open_day :: "int \<Rightarrow> bool"
  assumes biz_text: "common_era n \<Longrightarrow> biz (date_text n) = Some (open_day n)"
    and open_in_year: "1000 \<le> y \<Longrightarrow> y \<le> 9999 \<Longrightarrow> \<exists>n. year_of_day n = y \<and> open_day n"
begin

lemma between_counts:
  assumes "common_era a" "common_era b" "a \<le> b"
  shows "between_loop biz (date_text b) (date_text a) t = Some (t + length (filter open_day [a + 1..b]))"
  using assms
proof (induction "nat (b - a)" arbitrary: a t)
  case 0
  then have "a = b" by simp
  then show ?case by (subst between_loop.simps) simp
next
  case (Suc k)
  then have "a < b" by simp
  moreover from this Suc.prems have "common_era (a + 1)" by - (rule era_between [of a b], simp_all)
  moreover have "between_loop biz (date_text b) (date_text (a + 1)) t' =
      Some (t' + length (filter open_day [a + 1 + 1..b]))" for t'
    using Suc.hyps \<open>a < b\<close> Suc.prems(2) \<open>common_era (a + 1)\<close> by (intro Suc.hyps(1)) simp_all
  ultimately show ?case
    using Suc.prems
    by (simp add: between_loop.simps [of biz "date_text b" "date_text a"] date_text_order shift_date_text biz_text upto_next)
qed

lemma add_to_next:
  assumes "common_era a" "common_era b" "a < b" "open_day b"
  shows "\<exists>c. a < c \<and> c \<le> b \<and> open_day c \<and> filter open_day [a + 1..c] = [c] \<and>
    add_loop biz 1 (Suc k) (date_text a) = add_loop biz 1 k (date_text c)"
  using assms
proof (induction "nat (b - a)" arbitrary: a)
  case (Suc m)
  have era: "common_era (a + 1)" using Suc.prems by - (rule era_between [of a b], simp_all)
  have step: "add_loop biz 1 (Suc k) (date_text a) =
      add_loop biz 1 (if open_day (a + 1) then k else Suc k) (date_text (a + 1))"
    by (simp add: add_loop.simps [of biz 1 "Suc k" "date_text a"] shift_date_text [OF Suc.prems(1)] biz_text [OF era])
  show ?case
  proof (cases "open_day (a + 1)")
    case True
    with step Suc.prems(3) show ?thesis by (intro exI [of _ "a + 1"]) simp
  next
    case False
    with Suc.prems have "a + 1 < b" by (cases "a + 1 = b") auto
    moreover from this Suc.hyps(2) have "m = nat (b - (a + 1))" by simp
    ultimately obtain c where c: "a + 1 < c" "c \<le> b" "open_day c"
      "filter open_day [a + 1 + 1..c] = [c]"
      "add_loop biz 1 (Suc k) (date_text (a + 1)) = add_loop biz 1 k (date_text c)"
      using Suc.hyps(1) [OF _ era Suc.prems(2) _ Suc.prems(4)] by blast
    with step False show ?thesis by (intro exI [of _ c]) (simp add: upto_next)
  qed
qed simp

lemma add_counts:
  assumes "common_era a" "year_of_day a + int k \<le> 9999"
  shows "\<exists>c. a \<le> c \<and> year_of_day c \<le> year_of_day a + int k \<and> (if k = 0 then c = a else open_day c) \<and>
    length (filter open_day [a + 1..c]) = k \<and> add_loop biz 1 k (date_text a) = Some (date_text c)"
  using assms
proof (induction k arbitrary: a)
  case 0
  then show ?case by (intro exI [of _ a]) (simp add: add_loop.simps [of biz 1 0])
next
  case (Suc k)
  then obtain b where b: "year_of_day b = year_of_day a + 1" "open_day b"
    using open_in_year [of "year_of_day a + 1"] by (auto simp: common_era_def)
  then have "a < b" using year_of_day_mono [of b a] by (cases "b \<le> a") auto
  have era_b: "common_era b" using Suc.prems b by (simp add: common_era_def)
  obtain c where c: "a < c" "c \<le> b" "open_day c" "filter open_day [a + 1..c] = [c]"
    "add_loop biz 1 (Suc k) (date_text a) = add_loop biz 1 k (date_text c)"
    using add_to_next [OF Suc.prems(1) era_b \<open>a < b\<close> b(2), of k] by blast
  have era: "common_era c" using c by - (rule era_between [OF Suc.prems(1) era_b], simp_all)
  have year: "year_of_day c \<le> year_of_day a + 1" using year_of_day_mono [OF c(2)] b by simp
  with Suc.prems obtain e where e: "c \<le> e" "year_of_day e \<le> year_of_day c + int k" "if k = 0 then e = c else open_day e"
    "length (filter open_day [c + 1..e]) = k" "add_loop biz 1 k (date_text c) = Some (date_text e)"
    using Suc.IH [OF era] by auto
  have "[a + 1..e] = [a + 1..c] @ [c + 1..e]" using c(1) e(1) by (intro upto_split2) simp_all
  with c e year show ?case
    by (intro exI [of _ e]) (simp split: if_splits)
qed

end

lemma july:
  assumes "0 \<le> j" "j \<le> 2" "n = day_from_year y + month_start (leap y) 6 + j"
  shows "year_of_day n = y" "month_of_day n = 6"
proof -
  have s: "month_start (leap y) 6 = 181 + (if leap y then 1 else 0)" "month_start (leap y) 7 = 212 + (if leap y then 1 else 0)"
    by (simp_all add: month_start.simps)
  show y: "year_of_day n = y"
    by (rule year_of_day_unique) (use assms s day_from_year_step [of y] in \<open>simp_all add: year_length_def\<close>)
  show "month_of_day n = 6"
  proof (rule ccontr)
    assume "month_of_day n \<noteq> 6"
    then have "month_of_day n + 1 \<le> 6 \<or> 7 \<le> month_of_day n" by linarith
    then show False
    proof
      assume "month_of_day n + 1 \<le> 6"
      then have "month_start (leap y) (month_of_day n + 1) \<le> month_start (leap y) 6"
        using month_of_day(1) [of n] by (intro month_start_mono) simp_all
      with month_of_day(4) [of n] y assms show False by simp
    next
      assume "7 \<le> month_of_day n"
      then have "month_start (leap y) 7 \<le> month_start (leap y) (month_of_day n)"
        using month_of_day(2) [of n] by (intro month_start_mono) simp_all
      with month_of_day(3) [of n] y assms s show False by (simp split: if_splits)
    qed
  qed
qed

lemma weekend_run: "weekend d \<Longrightarrow> weekend (d + 1) \<Longrightarrow> \<not> weekend (d + 2)"
proof -
  have "week_day (d + k) = (week_day d + k) mod 7" for k by (simp add: week_day_def mod_simps algebra_simps)
  then show "weekend d \<Longrightarrow> weekend (d + 1) \<Longrightarrow> \<not> weekend (d + 2)" by (auto simp: weekend_def)
qed

text \<open>July has no holiday, and one of its first three days is not at a weekend.\<close>

lemma july_open:
  assumes "0 \<le> y"
  shows "\<exists>n. year_of_day n = y \<and> business options n \<and> \<not> weekend n"
proof -
  let ?d = "day_from_year y + month_start (leap y) 6"
  have "\<exists>j. 0 \<le> j \<and> j \<le> 2 \<and> \<not> weekend (?d + j)"
  proof (cases "weekend ?d")
    case True
    then show ?thesis
    proof (cases "weekend (?d + 1)")
      case True
      with \<open>weekend ?d\<close> have "\<not> weekend (?d + 2)" by (simp add: weekend_run)
      then show ?thesis by (intro exI [of _ 2]) simp
    qed (intro exI [of _ 1], simp)
  qed (intro exI [of _ 0], simp)
  then obtain j where j: "0 \<le> j" "j \<le> 2" "\<not> weekend (?d + j)" by blast
  let ?n = "?d + j"
  note ju = july [OF j(1,2) refl, of y]
  have "(month_of_day ?n + 1, date_of_day ?n) \<notin> set (fixed_holidays options (year_of_day ?n))"
    unfolding ju by (auto simp: fixed_holidays_def split: if_splits)
  moreover have "?n - easter_day y \<noteq> k" if "k \<in> {- 48, - 47, - 2, 60}" for k
  proof
    assume "?n - easter_day y = k"
    then have "?n = easter_day y + k" by simp
    with easter_offsets(2) [OF assms that] ju(2) show False by simp
  qed
  ultimately have "business options ?n" using j(3) ju(1) by (simp add: business_def)
  with ju(1) j(3) show ?thesis by blast
qed

interpretation bank: day_calendar "bank_isBusinessDay options" "business options" for options
proof unfold_locales
  fix n assume "common_era n"
  then show "bank_isBusinessDay options (date_text n) = Some (business options n)" by (rule isBusinessDay_correct)
next
  fix y :: int assume "1000 \<le> y"
  then show "\<exists>n. year_of_day n = y \<and> business options n" using july_open [of y options] by auto
qed

interpretation weekend_only: day_calendar weekend_isBusinessDay "\<lambda>n. \<not> weekend n"
proof unfold_locales
  fix n assume "common_era n"
  then show "weekend_isBusinessDay (date_text n) = Some (\<not> weekend n)"
    using utc_day_shift [of n 0] by (simp add: weekend_isBusinessDay_def parse_date_text)
next
  fix y :: int assume "1000 \<le> y"
  then show "\<exists>n. year_of_day n = y \<and> \<not> weekend n" using july_open [of y] by auto
qed

text \<open>C21: on dates of four-digit years both walks of the bank calendar end.  The number of business days between two dates is
  the number of days after the first and up to the last that are neither at a weekend nor a holiday, whichever date is given
  first; and moving forward by a number of business days reaches a date that many business days away.\<close>

theorem bank_walks_end:
  assumes "common_era a" "common_era b" "0 \<le> n" "year_of_day a + n \<le> 9999"
  shows "bank_businessDaysBetween options (date_text a) (date_text b) =
      Some (length (filter (business options) [min a b + 1..max a b])) \<and>
    (\<exists>c. bank_addBusinessDays options (date_text a) n = Some (date_text c) \<and>
       bank_businessDaysBetween options (date_text a) (date_text c) = Some (nat n) \<and> (0 < n \<longrightarrow> business options c))"
proof -
  have between: "bank_businessDaysBetween options (date_text x) (date_text y) =
      Some (length (filter (business options) [min x y + 1..max x y]))" if "common_era x" "common_era y" for x y
    using bank.between_counts [of x y options 0] bank.between_counts [of y x options 0] that date_text_order [OF that]
    by (auto simp: bank_businessDaysBetween_def walk_businessDaysBetween_def min_def max_def)
  obtain c where c: "a \<le> c" "year_of_day c \<le> year_of_day a + n" "if nat n = 0 then c = a else business options c"
    "length (filter (business options) [a + 1..c]) = nat n"
    "add_loop (bank_isBusinessDay options) 1 (nat n) (date_text a) = Some (date_text c)"
    using bank.add_counts [of a "nat n" options] assms by auto
  have era: "common_era c" using year_of_day_mono [OF c(1)] c(2) assms by (simp add: common_era_def)
  have "bank_addBusinessDays options (date_text a) n = Some (date_text c)"
    using c(5) assms(3) by (cases "n = 0") (auto simp: bank_addBusinessDays_def walk_addBusinessDays_def add_loop.simps [of _ _ 0])
  with between [OF assms(1,2)] between [OF assms(1) era] c show ?thesis by (auto simp: min_def max_def)
qed

theorem bank_walks_end_witness:
  "bank_businessDaysBetween \<lparr>treatChristmasEveAsHoliday = False\<rparr> ''2026-02-13'' ''2026-02-19'' = Some 2 \<and>
   (\<exists>c. bank_addBusinessDays \<lparr>treatChristmasEveAsHoliday = False\<rparr> ''2026-02-13'' 3 = Some (date_text c))"
proof -
  let ?o = "\<lparr>treatChristmasEveAsHoliday = False\<rparr>"
  have "date_text 20497 = ''2026-02-13''" "date_text 20503 = ''2026-02-19''" by code_simp+
  moreover have "common_era 20497" "common_era 20503" "year_of_day 20497 + 3 \<le> 9999"
    "length (filter (business ?o) [20498..20503]) = 2"
    by code_simp+
  ultimately show ?thesis using bank_walks_end [of 20497 20503 3 ?o] by auto
qed

end
