(* ===== verification/Recon_Repositories.thy ===== *)
theory Recon_Repositories
  imports Recon_Types Domain_Repositories Js_Date
begin

text \<open>
  What reconciliation keeps: runs with their items and match links, breaks that outlive their run, and the marks of the
  poller.  The records are those of \<open>src/apps/api/src/reconciliation/reconciliation.types.ts\<close> and
  \<open>poll-cursor.types.ts\<close>, the operations those of the in-memory repositories in
  \<open>src/apps/api/src/persistence/memory/reconciliation.repositories.ts\<close>.
\<close>

section \<open>Enumerations\<close>

datatype ReconciliationRunStatus = QUEUED | RUNNING | COMPLETED | COMPLETED_WITH_BREAKS | FAILED

datatype BreakStatus = OPEN | INVESTIGATING | RESOLVED | WRITTEN_OFF | AUTO_RESOLVED

datatype ResolutionAction =
    IMPORT_FROM_PROVIDER | MARK_PROVIDER_AUTHORITATIVE | CREATE_LEDGER_ADJUSTMENT | CANCEL_LOCAL_RECORD
  | MERGE_DUPLICATE | IGNORE_TIMING_DIFFERENCE | WRITE_OFF | ESCALATE_TO_PROVIDER

section \<open>Instants as texts\<close>

definition seconds_of :: "instant \<Rightarrow> int" where
  "seconds_of t = (t mod 60000) div 1000"

text \<open>\<open>Date.prototype.toISOString\<close>, for years 0 to 9999.\<close>

definition toISOString :: "instant \<Rightarrow> string" where
  "toISOString t =
     (let day = t div 86400000 in
      pad_int 4 (year_of_day day) @ ''-'' @ pad_int 2 (month_of_day day + 1) @ ''-'' @ pad_int 2 (date_of_day day) @ ''T'' @
      pad_int 2 (hours_of t) @ '':'' @ pad_int 2 (minutes_of t) @ '':'' @ pad_int 2 (seconds_of t) @ ''.'' @
      pad_int 3 (t mod 1000) @ ''Z'')"

fun join_with :: "string \<Rightarrow> string list \<Rightarrow> string" where
  "join_with sep [] = []"
| "join_with sep [x] = x"
| "join_with sep (x # xs) = x @ sep @ join_with sep xs"

section \<open>Runs\<close>

record RunBalances =
  rb_providerOpening :: "cents option"
  rb_providerClosing :: "cents option"
  rb_ledgerClosing :: "cents option"
  rb_balanceDelta :: "cents option"

record RunInput =
  ru_id :: ident
  ru_environment :: Environment
  ru_connectionId :: ident
  ru_accountId :: ident
  ru_scope :: ReconciliationScope
  ru_windowStart :: instant
  ru_windowEnd :: instant
  ru_triggeredBy :: string

record ReconciliationRunRecord = RunInput +
  ru_status :: ReconciliationRunStatus
  ru_createdAt :: instant
  ru_counters :: "ReconciliationCounters option"
  ru_balances :: "RunBalances option"

record ReconciliationItemRow =
  it_id :: ident
  it_runId :: ident
  it_side :: ReconciliationSide
  it_externalId :: "string option"
  it_endToEndId :: "string option"
  it_postedAt :: instant
  it_effectiveDate :: EffectiveDate
  it_direction :: string
  it_amountCents :: cents
  it_type :: string
  it_counterpartyTaxIdIndex :: "string option"
  it_matchKeyStrong :: "string option"
  it_matchKeyFuzzy :: string
  it_raw :: "(string \<times> string) list"

record MatchLinkRow =
  mr_itemId :: ident
  mr_matchedItemId :: ident
  mr_confidence :: MatchConfidence

record RunRepo =
  rn_runs :: "(ident, ReconciliationRunRecord) jsmap"
  rn_items :: "(ident, ReconciliationItemRow) jsmap"
  rn_matches :: "MatchLinkRow list"
  rn_failures :: "(ident, string) jsmap"

fun scope_name :: "ReconciliationScope \<Rightarrow> string" where
  "scope_name DAILY = ''DAILY''"
| "scope_name INTRADAY = ''INTRADAY''"
| "scope_name BACKFILL = ''BACKFILL''"
| "scope_name ReconciliationScope.MANUAL = ''MANUAL''"

definition run_key :: "'a RunInput_scheme \<Rightarrow> string" where
  "run_key r = join_with ''|'' [ru_connectionId r, ru_accountId r, scope_name (ru_scope r),
     toISOString (ru_windowStart r), toISOString (ru_windowEnd r)]"

definition startRun :: "RunInput \<Rightarrow> RunRepo \<Rightarrow> (ReconciliationRunRecord \<times> bool) \<times> RunRepo" where
  "startRun inp repo =
     (case find (\<lambda>run. run_key run = run_key inp) (map_values (rn_runs repo)) of
        Some run \<Rightarrow> ((run, False), repo)
      | None \<Rightarrow>
          (let run = RunInput.extend inp
                 \<lparr>ru_status = QUEUED, ru_createdAt = ru_windowEnd inp, ru_counters = None, ru_balances = None\<rparr>
           in ((run, True), repo\<lparr>rn_runs := map_set (ru_id run) run (rn_runs repo)\<rparr>)))"

definition run_findById :: "RunRepo \<Rightarrow> Environment \<Rightarrow> ident \<Rightarrow> ReconciliationRunRecord option" where
  "run_findById repo env i =
     (case map_get (rn_runs repo) i of
        None \<Rightarrow> None
      | Some run \<Rightarrow> if ru_environment run = env then Some run else None)"

record ListRunsFilter =
  lr_environment :: Environment
  lr_connectionId :: "ident option"
  lr_accountId :: "ident option"
  lr_status :: "ReconciliationRunStatus option"
  lr_limit :: nat
  lr_cursor :: "ident option"

text \<open>A page of rows in descending order of id, below the cursor.\<close>

definition id_page ::
  "(string \<Rightarrow> string \<Rightarrow> int) \<Rightarrow> ('r \<Rightarrow> ident) \<Rightarrow> nat \<Rightarrow> ident option \<Rightarrow> 'r list \<Rightarrow> 'r list \<times> ident option" where
  "id_page lc rid limit cursor rows =
     (let selected = filter (\<lambda>r. absent_or (truthy cursor) (\<lambda>c. rid r < c)) (js_sort (\<lambda>a b. lc (rid b) (rid a)) rows);
          data = take limit selected
      in (data, if length selected > limit \<and> data \<noteq> [] then Some (rid (last data)) else None))"

definition run_list ::
  "(string \<Rightarrow> string \<Rightarrow> int) \<Rightarrow> RunRepo \<Rightarrow> ListRunsFilter \<Rightarrow> ReconciliationRunRecord list \<times> ident option" where
  "run_list lc repo f =
     id_page lc ru_id (lr_limit f) (lr_cursor f)
       (filter (\<lambda>run. ru_environment run = lr_environment f \<and>
          absent_or (truthy (lr_connectionId f)) (\<lambda>c. ru_connectionId run = c) \<and>
          absent_or (truthy (lr_accountId f)) (\<lambda>a. ru_accountId run = a) \<and>
          absent_or (lr_status f) (\<lambda>s. ru_status run = s)) (map_values (rn_runs repo)))"

definition findItemById :: "RunRepo \<Rightarrow> ident \<Rightarrow> ReconciliationItemRow option" where
  "findItemById repo i = map_get (rn_items repo) i"

definition update_run :: "ident \<Rightarrow> (ReconciliationRunRecord \<Rightarrow> ReconciliationRunRecord) \<Rightarrow> RunRepo \<Rightarrow> RunRepo" where
  "update_run i f repo =
     (case map_get (rn_runs repo) i of
        None \<Rightarrow> repo
      | Some run \<Rightarrow> repo\<lparr>rn_runs := map_set i (f run) (rn_runs repo)\<rparr>)"

definition markRunning :: "ident \<Rightarrow> RunRepo \<Rightarrow> RunRepo" where
  "markRunning i repo = update_run i (\<lambda>run. run\<lparr>ru_status := RUNNING\<rparr>) repo"

definition insertItems :: "ReconciliationItemRow list \<Rightarrow> RunRepo \<Rightarrow> RunRepo" where
  "insertItems rows repo = repo\<lparr>rn_items := foldl (\<lambda>m row. map_set (it_id row) row m) (rn_items repo) rows\<rparr>"

definition linkMatches :: "MatchLinkRow list \<Rightarrow> RunRepo \<Rightarrow> RunRepo" where
  "linkMatches rows repo = repo\<lparr>rn_matches := rn_matches repo @ rows\<rparr>"

definition complete_run ::
  "ident \<Rightarrow> ReconciliationRunStatus \<Rightarrow> ReconciliationCounters \<Rightarrow> RunBalances \<Rightarrow> RunRepo \<Rightarrow> RunRepo" where
  "complete_run i status counters balances repo =
     update_run i (\<lambda>run. run\<lparr>ru_status := status, ru_counters := Some counters, ru_balances := Some balances\<rparr>) repo"

definition fail_run :: "ident \<Rightarrow> string \<Rightarrow> RunRepo \<Rightarrow> RunRepo" where
  "fail_run i err repo =
     (let repo' = update_run i (\<lambda>run. run\<lparr>ru_status := ReconciliationRunStatus.FAILED\<rparr>) repo in
      repo'\<lparr>rn_failures := map_set i err (rn_failures repo')\<rparr>)"

section \<open>Breaks\<close>

record BreakUpsertRow =
  bk_id :: ident
  bk_environment :: Environment
  bk_runId :: ident
  bk_connectionId :: ident
  bk_accountId :: ident
  bk_type :: BreakType
  bk_severity :: BreakSeverity
  bk_dedupeKey :: string
  bk_effectiveDate :: EffectiveDate
  bk_endToEndId :: "string option"
  bk_amountCents :: "cents option"
  bk_deltaCents :: "cents option"
  bk_providerItemId :: "ident option"
  bk_localItemId :: "ident option"
  bk_ledgerItemId :: "ident option"
  bk_description :: string
  bk_evidence :: "(string \<times> EvidenceValue) list"

record StoredBreak = BreakUpsertRow +
  bk_status :: BreakStatus
  bk_firstSeenRunId :: ident
  bk_ageDays :: int
  bk_createdAt :: instant
  bk_resolution :: "ResolutionAction option"
  bk_resolutionNote :: "string option"
  bk_resolvedBy :: "string option"
  bk_resolvedAt :: "instant option"
  bk_adjustmentTransactionId :: "ident option"
  bk_assignedTo :: "string option"

type_synonym BreakRepo = "(string, StoredBreak) jsmap"

record UpsertedBreak =
  ub_id :: ident
  ub_dedupeKey :: string
  ub_inserted :: bool

fun break_type_name :: "BreakType \<Rightarrow> string" where
  "break_type_name MISSING_ON_LOCAL = ''MISSING_ON_LOCAL''"
| "break_type_name MISSING_ON_PROVIDER = ''MISSING_ON_PROVIDER''"
| "break_type_name MISSING_ON_LEDGER = ''MISSING_ON_LEDGER''"
| "break_type_name AMOUNT_MISMATCH = ''AMOUNT_MISMATCH''"
| "break_type_name STATUS_MISMATCH = ''STATUS_MISMATCH''"
| "break_type_name DUPLICATE_LOCAL = ''DUPLICATE_LOCAL''"
| "break_type_name DUPLICATE_PROVIDER = ''DUPLICATE_PROVIDER''"
| "break_type_name DATE_MISMATCH = ''DATE_MISMATCH''"
| "break_type_name BALANCE_MISMATCH = ''BALANCE_MISMATCH''"
| "break_type_name UNMATCHED_FEE = ''UNMATCHED_FEE''"
| "break_type_name ORPHAN_REFUND = ''ORPHAN_REFUND''"

definition break_key :: "'a BreakUpsertRow_scheme \<Rightarrow> string" where
  "break_key row = join_with ''|'' [bk_connectionId row, break_type_name (bk_type row), bk_effectiveDate row, bk_dedupeKey row]"

definition new_break :: "BreakUpsertRow \<Rightarrow> instant \<Rightarrow> StoredBreak" where
  "new_break row now =
     BreakUpsertRow.extend row
       \<lparr>bk_status = OPEN, bk_firstSeenRunId = bk_runId row, bk_ageDays = 0, bk_createdAt = now, bk_resolution = None,
        bk_resolutionNote = None, bk_resolvedBy = None, bk_resolvedAt = None, bk_adjustmentTransactionId = None,
        bk_assignedTo = None\<rparr>"

text \<open>The first run that saw a break is not moved; a resolved break that comes back is open again.\<close>

definition seen_again :: "BreakUpsertRow \<Rightarrow> instant \<Rightarrow> StoredBreak \<Rightarrow> StoredBreak" where
  "seen_again row now old = old\<lparr>
     bk_runId := bk_runId row, bk_severity := bk_severity row, bk_amountCents := bk_amountCents row,
     bk_deltaCents := bk_deltaCents row, bk_description := bk_description row, bk_evidence := bk_evidence row,
     bk_ageDays := max 0 ((now - bk_createdAt old) div 86400000),
     bk_status := (if bk_status old = RESOLVED \<or> bk_status old = AUTO_RESOLVED then OPEN else bk_status old)\<rparr>"

definition upsert_break :: "instant \<Rightarrow> BreakUpsertRow \<Rightarrow> BreakRepo \<Rightarrow> UpsertedBreak \<times> BreakRepo" where
  "upsert_break now row rows =
     (case map_get rows (break_key row) of
        None \<Rightarrow>
          (\<lparr>ub_id = bk_id row, ub_dedupeKey = bk_dedupeKey row, ub_inserted = True\<rparr>,
           map_set (break_key row) (new_break row now) rows)
      | Some old \<Rightarrow>
          (\<lparr>ub_id = bk_id old, ub_dedupeKey = bk_dedupeKey row, ub_inserted = False\<rparr>,
           map_set (break_key row) (seen_again row now old) rows))"

fun upsertMany :: "instant \<Rightarrow> BreakUpsertRow list \<Rightarrow> BreakRepo \<Rightarrow> UpsertedBreak list \<times> BreakRepo" where
  "upsertMany now [] rows = ([], rows)"
| "upsertMany now (r # rs) rows =
     (case upsert_break now r rows of
        (u, rows1) \<Rightarrow> (case upsertMany now rs rows1 of (us, rows2) \<Rightarrow> (u # us, rows2)))"

record CloseInput =
  cl_environment :: Environment
  cl_connectionId :: ident
  cl_accountId :: ident
  cl_fromDate :: EffectiveDate
  cl_toDate :: EffectiveDate
  cl_keep :: "string list"
  cl_at :: instant

definition is_open :: "'a StoredBreak_scheme \<Rightarrow> bool" where
  "is_open row \<longleftrightarrow> bk_status row = OPEN \<or> bk_status row = INVESTIGATING"

definition closable :: "CloseInput \<Rightarrow> StoredBreak \<Rightarrow> bool" where
  "closable inp row \<longleftrightarrow>
     bk_environment row = cl_environment inp \<and> bk_connectionId row = cl_connectionId inp \<and>
     bk_accountId row = cl_accountId inp \<and>
     \<not> (bk_effectiveDate row < cl_fromDate inp \<or> cl_toDate inp < bk_effectiveDate row) \<and>
     is_open row \<and> bk_dedupeKey row \<notin> set (cl_keep inp)"

definition closeNotRecurring :: "CloseInput \<Rightarrow> BreakRepo \<Rightarrow> nat \<times> BreakRepo" where
  "closeNotRecurring inp rows =
     (length (filter (closable inp) (map_values rows)),
      map (\<lambda>(k, row). (k, if closable inp row
             then row\<lparr>bk_status := AUTO_RESOLVED, bk_resolvedAt := Some (cl_at inp)\<rparr> else row)) rows)"

definition find_break :: "BreakRepo \<Rightarrow> Environment \<Rightarrow> ident \<Rightarrow> (string \<times> StoredBreak) option" where
  "find_break rows env i = find (\<lambda>(k, row). bk_id row = i \<and> bk_environment row = env) rows"

definition break_findById :: "BreakRepo \<Rightarrow> Environment \<Rightarrow> ident \<Rightarrow> StoredBreak option" where
  "break_findById rows env i = map_option snd (find_break rows env i)"

record ManualResolution =
  mn_environment :: Environment
  mn_id :: ident
  mn_status :: BreakStatus
  mn_resolution :: ResolutionAction
  mn_note :: string
  mn_resolvedBy :: string
  mn_adjustmentTransactionId :: "ident option"
  mn_assignedTo :: "string option"
  mn_at :: instant

definition resolveManually :: "ManualResolution \<Rightarrow> BreakRepo \<Rightarrow> StoredBreak option \<times> BreakRepo" where
  "resolveManually inp rows =
     (case find_break rows (mn_environment inp) (mn_id inp) of
        None \<Rightarrow> (None, rows)
      | Some (k, row) \<Rightarrow>
          (let row' = row\<lparr>bk_status := mn_status inp, bk_resolution := Some (mn_resolution inp),
                 bk_resolutionNote := Some (mn_note inp), bk_resolvedBy := Some (mn_resolvedBy inp),
                 bk_resolvedAt := Some (mn_at inp), bk_adjustmentTransactionId := mn_adjustmentTransactionId inp,
                 bk_assignedTo := mn_assignedTo inp\<rparr>
           in (Some row', map_set k row' rows)))"

definition countOpenHighSeverity :: "BreakRepo \<Rightarrow> Environment \<Rightarrow> ident \<Rightarrow> nat" where
  "countOpenHighSeverity rows env acct =
     length (filter (\<lambda>row. bk_environment row = env \<and> bk_accountId row = acct \<and> is_open row \<and>
       (bk_severity row = BreakSeverity.HIGH \<or> bk_severity row = CRITICAL)) (map_values rows))"

record ListBreaksFilter =
  lb_environment :: Environment
  lb_status :: "BreakStatus option"
  lb_severity :: "BreakSeverity option"
  lb_type :: "BreakType option"
  lb_connectionId :: "ident option"
  lb_accountId :: "ident option"
  lb_minAgeDays :: "int option"
  lb_limit :: nat
  lb_cursor :: "ident option"

definition break_list ::
  "(string \<Rightarrow> string \<Rightarrow> int) \<Rightarrow> BreakRepo \<Rightarrow> ListBreaksFilter \<Rightarrow> StoredBreak list \<times> ident option" where
  "break_list lc rows f =
     id_page lc bk_id (lb_limit f) (lb_cursor f)
       (filter (\<lambda>row. bk_environment row = lb_environment f \<and>
          (case lb_status f of Some s \<Rightarrow> bk_status row = s | None \<Rightarrow> is_open row) \<and>
          absent_or (lb_severity f) (\<lambda>s. bk_severity row = s) \<and> absent_or (lb_type f) (\<lambda>t. bk_type row = t) \<and>
          absent_or (truthy (lb_connectionId f)) (\<lambda>c. bk_connectionId row = c) \<and>
          absent_or (truthy (lb_accountId f)) (\<lambda>a. bk_accountId row = a) \<and>
          absent_or (lb_minAgeDays f) (\<lambda>d. bk_ageDays row \<ge> d)) (map_values rows))"

section \<open>Poll cursors\<close>

record PollCursorRecord =
  cu_id :: ident
  cu_connectionId :: ident
  cu_stream :: string
  cu_scopeId :: ident
  cu_cursor :: "string option"
  cu_watermark :: instant
  cu_lapSeconds :: int
  cu_lastRunAt :: "instant option"

type_synonym CursorRepo = "(ident, PollCursorRecord) jsmap"

definition cursor_key :: "PollCursorRecord \<Rightarrow> string" where
  "cursor_key r = join_with ''|'' [cu_connectionId r, cu_stream r, cu_scopeId r]"

definition cursor_ensure :: "PollCursorRecord \<Rightarrow> CursorRepo \<Rightarrow> PollCursorRecord \<times> CursorRepo" where
  "cursor_ensure inp rows =
     (case find (\<lambda>row. cursor_key row = cursor_key inp) (map_values rows) of
        Some row \<Rightarrow> (row, rows)
      | None \<Rightarrow> (inp, map_set (cu_id inp) inp rows))"

definition cursor_advance :: "ident \<Rightarrow> instant \<Rightarrow> string option \<Rightarrow> instant \<Rightarrow> CursorRepo \<Rightarrow> CursorRepo" where
  "cursor_advance i watermark cursor tm rows =
     (case map_get rows i of
        None \<Rightarrow> rows
      | Some row \<Rightarrow> map_set i (row\<lparr>cu_watermark := watermark, cu_cursor := cursor, cu_lastRunAt := Some tm\<rparr>) rows)"

definition cursor_recordFailure :: "ident \<Rightarrow> instant \<Rightarrow> CursorRepo \<Rightarrow> CursorRepo" where
  "cursor_recordFailure i tm rows =
     (case map_get rows i of
        None \<Rightarrow> rows
      | Some row \<Rightarrow> map_set i (row\<lparr>cu_lastRunAt := Some tm\<rparr>) rows)"

definition cursor_listByStream :: "string \<Rightarrow> CursorRepo \<Rightarrow> PollCursorRecord list" where
  "cursor_listByStream stream rows = filter (\<lambda>row. cu_stream row = stream) (map_values rows)"

end
