(* ===== verification/Operation_Resolver.thy ===== *)
theory Operation_Resolver
  imports Webhook_Apply Recon_Repositories
begin

text \<open>
  Operations whose outcome is unknown: the resolver that asks the provider what became of them,
  \<open>src/apps/api/src/pix/operation-reconciler.ts\<close>, and the ladder of enquiries the worker climbs,
  \<open>src/apps/worker/src/operations/ladder.service.ts\<close>.

  The provider is a parameter: what each of its three enquiries replies, when its adapter has them.  None of them is a
  request for a payment, so \<open>w_requests\<close> is not theirs to change.  The ladder works on the world of the
  services and on what reconciliation keeps; \<open>lastError\<close> holds the reason text.
\<close>

section \<open>What the provider says\<close>

record ProviderFound =
  fd_providerTransactionId :: string
  fd_endToEndId :: "string option"
  fd_status :: TransactionStatus
  fd_settledAt :: "instant option"
  fd_failure :: "(string \<times> string) option"

record StatementEntry =
  en_providerEntryId :: string
  en_providerTransactionId :: "string option"
  en_postedAt :: instant
  en_effectiveDate :: EffectiveDate
  en_debit :: bool
  en_amount :: MoneyJSON
  en_type :: string
  en_endToEndId :: "string option"
  en_counterparty :: "Counterparty option"

record StatementPage =
  sp_data :: "StatementEntry list"
  sp_nextCursor :: "string option"
  sp_hasMore :: bool
  sp_openingBalance :: "MoneyJSON option"
  sp_closingBalance :: "MoneyJSON option"

text \<open>\<open>statement.list\<close> of a bound adapter: account, first and last day, limit and cursor.\<close>

type_synonym StatementFacet =
  "string option \<Rightarrow> EffectiveDate \<Rightarrow> EffectiveDate \<Rightarrow> nat \<Rightarrow> string option \<Rightarrow> StatementPage ProviderReply"

record LookupProvider =
  lp_findByIdempotencyKey :: "(string \<Rightarrow> string \<Rightarrow> ProviderFound option ProviderReply) option"
  lp_get :: "(string \<Rightarrow> string \<Rightarrow> ProviderFound ProviderReply) option"
  lp_statement :: "StatementFacet option"

datatype UnresolvedReason = not_found_at_provider | no_lookup_capability | not_stuck

datatype ReconcileOutcome = Resolved TransactionStatus TransactionRecord | Unresolved UnresolvedReason

record OperationDraws =
  od_draws :: Draws
  od_attemptAt :: instant
  od_resolvedAt :: instant
  od_exhaustedAt :: instant
  od_runId :: ident
  od_breakId :: ident

section \<open>The enquiries\<close>

definition byIdempotencyKey :: "LookupProvider \<Rightarrow> string \<Rightarrow> OperationRecord \<Rightarrow> ProviderFound option" where
  "byIdempotencyKey p pid op =
     (case lp_findByIdempotencyKey p of
        None \<Rightarrow> None
      | Some query \<Rightarrow> (case query pid (op_providerIdempotencyKey op) of Replied found \<Rightarrow> found | _ \<Rightarrow> None))"

definition byEndToEndId :: "LookupProvider \<Rightarrow> string \<Rightarrow> TransactionRecord \<Rightarrow> ProviderFound option" where
  "byEndToEndId p pid row =
     (case (lp_get p, truthy (coalesce (tr_providerTransactionId row) (tx_e2e row))) of
        (Some query, Some ref) \<Rightarrow> (case query pid ref of Replied found \<Rightarrow> Some found | _ \<Rightarrow> None)
      | _ \<Rightarrow> None)"

definition byStatementScan :: "LookupProvider \<Rightarrow> string \<Rightarrow> TransactionRecord \<Rightarrow> ProviderFound option" where
  "byStatementScan p pid row =
     (case lp_statement p of
        None \<Rightarrow> None
      | Some query \<Rightarrow>
          (case query (Some pid) (tr_effectiveDate row) (tr_effectiveDate row) 200 None of
             Replied page \<Rightarrow>
               (case filter (\<lambda>e. en_debit e \<and> mj_amount (en_amount e) = show_int (tr_amountCents row)) (sp_data page) of
                  [e] \<Rightarrow> Some \<lparr>fd_providerTransactionId = or_else (en_providerTransactionId e) (en_providerEntryId e),
                           fd_endToEndId = en_endToEndId e, fd_status = TransactionStatus.SETTLED,
                           fd_settledAt = Some (en_postedAt e), fd_failure = None\<rparr>
                | _ \<Rightarrow> None)
           | _ \<Rightarrow> None))"

definition lookup_outcome :: "LookupProvider \<Rightarrow> string \<Rightarrow> OperationRecord \<Rightarrow> TransactionRecord \<Rightarrow> ProviderFound option" where
  "lookup_outcome p pid op row =
     coalesce (byIdempotencyKey p pid op) (coalesce (byEndToEndId p pid row) (byStatementScan p pid row))"

section \<open>Applying the answer\<close>

definition answer_settles :: "ProviderFound \<Rightarrow> bool" where
  "answer_settles found \<longleftrightarrow> fd_status found = TransactionStatus.SETTLED"

definition answer_fails :: "ProviderFound \<Rightarrow> bool" where
  "answer_fails found \<longleftrightarrow>
     fd_status found = TransactionStatus.FAILED \<or> fd_status found = TransactionStatus.CANCELLED"

definition answer_hold ::
  "Draws \<Rightarrow> Environment \<Rightarrow> OperationRecord \<Rightarrow> TransactionRecord \<Rightarrow> ProviderFound \<Rightarrow> World \<Rightarrow> ident option outcome" where
  "answer_hold dr env op row found w =
     (case truthy (tr_ledgerPendingTransactionId row) of
        None \<Rightarrow> (Inr None, w)
      | Some hold \<Rightarrow>
          if answer_settles found \<or> answer_fails found then
            (case on_ledger (d_ledgerIds dr) env
                    (if answer_settles found
                     then settleOut (d_holdNow dr) (d_holdTx dr) (d_holdEntry dr) hold (''pix-out-settle:'' @ op_id op)
                     else voidOut (d_holdNow dr) (d_holdTx dr) (d_holdEntry dr) hold (''pix-out-void:'' @ op_id op)) w of
               (Inl e, w1) \<Rightarrow> (Inl e, w1)
             | (Inr r, w1) \<Rightarrow> (Inr (Some (tx_id (res_transaction r))), w1))
          else (Inr None, w))"

definition answer_change ::
  "instant \<Rightarrow> Environment \<Rightarrow> TransactionRecord \<Rightarrow> ProviderFound \<Rightarrow> ident option \<Rightarrow> TxStatusChange" where
  "answer_change now env row found posted =
     \<lparr>sc_environment = env, sc_transactionId = tr_id row, sc_toStatus = fd_status found,
      sc_failureCode = map_option (\<lambda>_. ''PROVIDER_REJECTED'') (fd_failure found),
      sc_providerFailureCode = map_option fst (fd_failure found),
      sc_failureMessage = map_option snd (fd_failure found), sc_endToEndId = fd_endToEndId found,
      sc_settledAt = (case fd_settledAt found of
         Some t \<Rightarrow> Some t
       | None \<Rightarrow> if answer_settles found then Some now else None),
      sc_ledgerPostedTransactionId = posted, sc_occurredAt = now\<rparr>"

definition answer_event ::
  "instant \<Rightarrow> Environment \<Rightarrow> OperationRecord \<Rightarrow> TransactionRecord \<Rightarrow> ProviderFound \<Rightarrow> OutboxDraft" where
  "answer_event now env op row found =
     \<lparr>ou_env = env, ou_type = (if answer_settles found then PIX_OUT_SETTLED else PIX_OUT_FAILED),
      ou_provider = Some (tr_provider row), ou_connectionId = Some (op_connectionId op), ou_subjectKind = ''transaction'',
      ou_subjectId = tr_id row,
      ou_payload = [(''status'', TransactionStatusValue (fd_status found)), (''resolved_by'', Text ''reconciliation'')],
      ou_previous = None, ou_occurredAt = now\<rparr>"

definition update_operation :: "instant \<Rightarrow> OperationUpdate \<Rightarrow> World \<Rightarrow> World" where
  "update_operation now u w = w\<lparr>w_operations := snd (op_update now u (w_operations w))\<rparr>"

definition applyOutcome ::
  "OperationDraws \<Rightarrow> Environment \<Rightarrow> OperationRecord \<Rightarrow> TransactionRecord \<Rightarrow> ProviderFound \<Rightarrow> World \<Rightarrow> ReconcileOutcome outcome" where
  "applyOutcome od env op row found w =
     (let now = d_now (od_draws od) in
      case answer_hold (od_draws od) env op row found w of
        (Inl e, w1) \<Rightarrow> (Inl e, w1)
      | (Inr posted, w1) \<Rightarrow>
          (case tx_applyStatusChange (answer_change now env row found posted)
                  (Some (\<lambda>_ (out, aud). (outbox_append (answer_event now env op row found) out, aud)))
                  (w_transactions w1, w_outbox w1, w_audit w1) of
             (change, repo, out, aud) \<Rightarrow>
               (let w2 = update_operation (od_resolvedAt od)
                      \<lparr>ou_environment = env, ou_id = op_id op,
                       ou_status = Some (if answer_settles found then OperationStatusValue.SETTLED
                         else if answer_fails found then OperationStatusValue.FAILED else OperationStatusValue.SUBMITTED),
                       ou_providerRef = Some (fd_providerTransactionId found), ou_endToEndId = fd_endToEndId found,
                       ou_lastError = None, ou_incrementAttempts = False\<rparr>
                      (w1\<lparr>w_transactions := repo, w_outbox := out, w_audit := aud\<rparr>)
                in (Inr (Resolved (fd_status found) (case change of Applied r \<Rightarrow> r | NotApplied _ _ \<Rightarrow> row)),
                    invalidateBalance env (tr_accountId row) w2))))"

section \<open>Resolving an operation\<close>

definition op_stuck :: "OperationRecord \<Rightarrow> bool" where
  "op_stuck op \<longleftrightarrow> op_status op = OperationStatusValue.UNKNOWN \<or> op_status op = OperationStatusValue.SUBMITTED"

definition attempt :: "Environment \<Rightarrow> ident \<Rightarrow> OperationUpdate" where
  "attempt env i = \<lparr>ou_environment = env, ou_id = i, ou_status = None, ou_providerRef = None, ou_endToEndId = None,
     ou_lastError = None, ou_incrementAttempts = True\<rparr>"

definition resolve_operation ::
  "OperationDraws \<Rightarrow> (ident \<Rightarrow> ServiceError + LookupProvider) \<Rightarrow> Environment \<Rightarrow> ident \<Rightarrow> World \<Rightarrow> ReconcileOutcome outcome" where
  "resolve_operation od providers env i w =
     (case op_findById (w_operations w) env i of
        None \<Rightarrow> (Inl (RESOURCE_NOT_FOUND i), w)
      | Some op \<Rightarrow>
        if \<not> op_stuck op then (Inr (Unresolved not_stuck), w)
        else
          (case tx_findByIdempotencyKey (w_transactions w) env (op_providerIdempotencyKey op) of
             None \<Rightarrow> (Inl (RESOURCE_NOT_FOUND i), w)
           | Some row \<Rightarrow>
             (case (case ac_findById (w_accounts w) env (tr_accountId row) of
                      None \<Rightarrow> None | Some account \<Rightarrow> truthy (ac_providerAccountId account)) of
                None \<Rightarrow> (Inr (Unresolved not_found_at_provider), w)
              | Some pid \<Rightarrow>
                (case providers (op_connectionId op) of
                   Inl e \<Rightarrow> (Inl e, w)
                 | Inr p \<Rightarrow>
                   (let w1 = update_operation (od_attemptAt od) (attempt env i) w in
                    case lookup_outcome p pid op row of
                      None \<Rightarrow>
                        (Inr (Unresolved
                           (if lp_findByIdempotencyKey p = None \<and> lp_statement p = None then no_lookup_capability
                            else not_found_at_provider)), w1)
                    | Some found \<Rightarrow> applyOutcome od env op row found w1)))))"

section \<open>The ladder\<close>

text \<open>The worker acts on the world of the services and on what reconciliation keeps.\<close>

record WorkerWorld =
  ww_world :: World
  ww_runs :: RunRepo
  ww_breaks :: BreakRepo

text \<open>\<open>UNKNOWN_OUTCOME_LADDER_SECONDS\<close> of \<open>src/packages/taxonomy/src/events/types.ts\<close>.\<close>

definition UNKNOWN_OUTCOME_LADDER_SECONDS :: "nat list" where
  "UNKNOWN_OUTCOME_LADDER_SECONDS = [5, 15, 60, 300, 900, 3600, 21600]"

definition STUCK_BATCH :: nat where
  "STUCK_BATCH = 100"

definition ladder_run :: "ident \<Rightarrow> instant \<Rightarrow> OperationRecord \<Rightarrow> ident \<Rightarrow> RunInput" where
  "ladder_run i now op acct =
     \<lparr>ru_id = i, ru_environment = op_environment op, ru_connectionId = op_connectionId op, ru_accountId = acct,
      ru_scope = ReconciliationScope.MANUAL, ru_windowStart = op_createdAt op, ru_windowEnd = now,
      ru_triggeredBy = ''worker:unknown-outcome-ladder''\<rparr>"

definition ladder_break ::
  "ident \<Rightarrow> ident \<Rightarrow> EffectiveDate \<Rightarrow> OperationRecord \<Rightarrow> ident \<Rightarrow> string \<Rightarrow> BreakUpsertRow" where
  "ladder_break i runId day op acct reason =
     \<lparr>bk_id = i, bk_environment = op_environment op, bk_runId = runId, bk_connectionId = op_connectionId op,
      bk_accountId = acct, bk_type = MISSING_ON_PROVIDER, bk_severity = CRITICAL, bk_dedupeKey = ''opr:'' @ op_id op,
      bk_effectiveDate = day, bk_endToEndId = op_endToEndId op, bk_amountCents = op_amountCents op, bk_deltaCents = None,
      bk_providerItemId = None, bk_localItemId = None, bk_ledgerItemId = None,
      bk_description = ''Desfecho desconhecido nao resolvido pela escada de consultas'',
      bk_evidence = [(''operation_id'', EvString (op_id op)), (''motivo'', EvString reason),
        (''tentativas'', EvNumber (int (op_attempts op)))]\<rparr>"

definition openBreak :: "Ports \<Rightarrow> OperationDraws \<Rightarrow> OperationRecord \<Rightarrow> string \<Rightarrow> WorkerWorld \<Rightarrow> WorkerWorld" where
  "openBreak ports od op reason lw =
     (let now = d_now (od_draws od) in
      case truthy (op_accountId op) of
        None \<Rightarrow> lw
      | Some acct \<Rightarrow>
          (case startRun (ladder_run (od_runId od) now op acct) (ww_runs lw) of
             ((run, _), runs) \<Rightarrow>
               lw\<lparr>ww_runs := runs,
                  ww_breaks := snd (upsertMany now
                    [ladder_break (od_breakId od) (ru_id run) (po_effectiveDate ports now) op acct reason]
                    (ww_breaks lw))\<rparr>))"

definition exhaust ::
  "Ports \<Rightarrow> OperationDraws \<Rightarrow> Environment \<Rightarrow> ident \<Rightarrow> string \<Rightarrow> WorkerWorld \<Rightarrow> WorkerWorld" where
  "exhaust ports od env i reason lw =
     (case op_findById (w_operations (ww_world lw)) env i of
        None \<Rightarrow> lw
      | Some op \<Rightarrow>
          openBreak ports od op reason
            (lw\<lparr>ww_world := update_operation (od_exhaustedAt od)
               \<lparr>ou_environment = env, ou_id = i, ou_status = Some OperationStatusValue.FAILED, ou_providerRef = None,
                ou_endToEndId = None, ou_lastError = Some reason, ou_incrementAttempts = False\<rparr> (ww_world lw)\<rparr>))"

text \<open>The update that carries \<open>nextTryAt\<close> changes nothing but \<open>updatedAt\<close>: no repository writes the field.\<close>

definition touch :: "Environment \<Rightarrow> ident \<Rightarrow> OperationUpdate" where
  "touch env i = \<lparr>ou_environment = env, ou_id = i, ou_status = None, ou_providerRef = None, ou_endToEndId = None,
     ou_lastError = None, ou_incrementAttempts = False\<rparr>"

definition ladder_step ::
  "Ports \<Rightarrow> OperationDraws \<Rightarrow> (ident \<Rightarrow> ServiceError + LookupProvider) \<Rightarrow> Environment \<Rightarrow> ident \<Rightarrow> nat \<Rightarrow> WorkerWorld \<Rightarrow>
   (ServiceError + unit) \<times> WorkerWorld" where
  "ladder_step ports od providers env i step lw =
     (case resolve_operation od providers env i (ww_world lw) of
        (Inl e, w) \<Rightarrow> (Inl e, lw\<lparr>ww_world := w\<rparr>)
      | (Inr (Resolved _ _), w) \<Rightarrow> (Inr (), lw\<lparr>ww_world := w\<rparr>)
      | (Inr (Unresolved not_stuck), w) \<Rightarrow> (Inr (), lw\<lparr>ww_world := w\<rparr>)
      | (Inr (Unresolved no_lookup_capability), w) \<Rightarrow>
          (Inr (), exhaust ports od env i ''no_lookup_capability'' (lw\<lparr>ww_world := w\<rparr>))
      | (Inr (Unresolved not_found_at_provider), w) \<Rightarrow>
          if length UNKNOWN_OUTCOME_LADDER_SECONDS \<le> step + 1
          then (Inr (), exhaust ports od env i ''not_found_after_ladder'' (lw\<lparr>ww_world := w\<rparr>))
          else (Inr (), lw\<lparr>ww_world :=
            enqueue (OperationResolveJob env i (step + 1)) (Some (UNKNOWN_OUTCOME_LADDER_SECONDS ! (step + 1) * 1000))
              (update_operation (od_exhaustedAt od) (touch env i) w)\<rparr>))"

definition due :: "instant \<Rightarrow> OperationRecord \<Rightarrow> bool" where
  "due now op \<longleftrightarrow> absent_or (op_nextTryAt op) (\<lambda>t. t \<le> now)"

definition sweepStuck :: "instant \<Rightarrow> Environment \<Rightarrow> World \<Rightarrow> nat \<times> World" where
  "sweepStuck now env w =
     (let rows = filter (due now) (op_findStuck (w_operations w) env STUCK_BATCH) in
      (length rows,
       foldl (\<lambda>w' op. enqueue (OperationResolveJob env (op_id op)
           (min (op_attempts op) (length UNKNOWN_OUTCOME_LADDER_SECONDS - 1))) None w') w rows))"

end
