(* ===== verification/Operation_Properties.thy ===== *)
theory Operation_Properties
  imports Operation_Resolver Webhook_Properties
begin

text \<open>
  What the enquiries into unknown outcomes do to money: an enquiry never pays, a hold moves only on an answer, an answer
  closes what a transfer left open, and a hold settled by a webhook defeats every later enquiry.
\<close>

section \<open>What an enquiry leaves alone\<close>

lemma update_operation_simps [simp]:
  "w_requests (update_operation t u w) = w_requests w" "w_ledger (update_operation t u w) = w_ledger w"
  "w_transactions (update_operation t u w) = w_transactions w" "w_accounts (update_operation t u w) = w_accounts w"
  "w_outbox (update_operation t u w) = w_outbox w" "w_queue (update_operation t u w) = w_queue w"
  by (simp_all add: update_operation_def)

lemma on_ledger_requests: "w_requests (snd (on_ledger ids env f w)) = w_requests w"
  by (auto simp: on_ledger_def split: prod.splits sum.splits)

lemma answer_hold_requests: "w_requests (snd (answer_hold dr env op row found w)) = w_requests w"
  using on_ledger_requests [of "d_ledgerIds dr" env _ w]
  by (auto simp: answer_hold_def split: option.splits prod.splits sum.splits) (metis snd_conv)+

lemma applyOutcome_requests: "w_requests (snd (applyOutcome od env op row found w)) = w_requests w"
  using answer_hold_requests [of "od_draws od" env op row found w]
  by (auto simp: applyOutcome_def Let_def invalidateBalance_def split: prod.splits sum.splits)

definition answered ::
  "(ident \<Rightarrow> ServiceError + LookupProvider) \<Rightarrow> Environment \<Rightarrow> ident \<Rightarrow> World \<Rightarrow> ProviderFound \<Rightarrow> bool" where
  "answered providers env i w found \<longleftrightarrow>
     (\<exists>op row account pid p. op_findById (w_operations w) env i = Some op \<and> op_stuck op \<and>
        tx_findByIdempotencyKey (w_transactions w) env (op_providerIdempotencyKey op) = Some row \<and>
        ac_findById (w_accounts w) env (tr_accountId row) = Some account \<and> truthy (ac_providerAccountId account) = Some pid \<and>
        providers (op_connectionId op) = Inr p \<and> lookup_outcome p pid op row = Some found)"

lemma resolve_operation_safe:
  "w_requests (snd (resolve_operation od providers env i w)) = w_requests w \<and>
   (w_ledger (snd (resolve_operation od providers env i w)) = w_ledger w \<and>
    w_transactions (snd (resolve_operation od providers env i w)) = w_transactions w \<and>
    w_outbox (snd (resolve_operation od providers env i w)) = w_outbox w \<or>
    (\<exists>found. answered providers env i w found))"
  by (auto simp: resolve_operation_def answered_def applyOutcome_requests Let_def split: option.splits sum.splits)

lemma exhaust_world:
  "w_requests (ww_world (exhaust ports od env i reason lw)) = w_requests (ww_world lw)"
  "w_ledger (ww_world (exhaust ports od env i reason lw)) = w_ledger (ww_world lw)"
  "w_transactions (ww_world (exhaust ports od env i reason lw)) = w_transactions (ww_world lw)"
  "w_outbox (ww_world (exhaust ports od env i reason lw)) = w_outbox (ww_world lw)"
  by (auto simp: exhaust_def openBreak_def Let_def split: option.splits prod.splits)

definition same_money :: "World \<Rightarrow> World \<Rightarrow> bool" where
  "same_money w w' \<longleftrightarrow>
     w_requests w' = w_requests w \<and> w_ledger w' = w_ledger w \<and> w_transactions w' = w_transactions w \<and> w_outbox w' = w_outbox w"

lemma ladder_step_world:
  assumes "resolve_operation od providers env i (ww_world lw) = (r, w)"
  shows "same_money w (ww_world (snd (ladder_step ports od providers env i n lw)))"
proof (cases r)
  case (Inr out)
  show ?thesis
  proof (cases out)
    case (Unresolved reason)
    then show ?thesis using assms Inr
      by (cases reason) (simp_all add: ladder_step_def exhaust_world enqueue_def same_money_def)
  qed (use assms Inr in \<open>simp add: ladder_step_def same_money_def\<close>)
qed (use assms in \<open>simp add: ladder_step_def same_money_def\<close>)

section \<open>An answer\<close>

lemma resolve_operation_reaches:
  assumes "op_findById (w_operations w) env i = Some op" "op_stuck op"
    and "tx_findByIdempotencyKey (w_transactions w) env (op_providerIdempotencyKey op) = Some row"
    and "ac_findById (w_accounts w) env (tr_accountId row) = Some account" "truthy (ac_providerAccountId account) = Some pid"
    and "providers (op_connectionId op) = Inr p" "lookup_outcome p pid op row = Some found"
  shows "resolve_operation od providers env i w = applyOutcome od env op row found (update_operation (od_attemptAt od) (attempt env i) w)"
  using assms by (simp add: resolve_operation_def Let_def)

definition final_status :: "ProviderFound \<Rightarrow> bool" where
  "final_status found \<longleftrightarrow> answer_settles found \<or> answer_fails found"

lemma unknown_to_final:
  assumes "final_status found" "tr_status row = TransactionStatus.UNKNOWN" "absent_or (tr_lastEventAt row) (\<lambda>l. l \<le> t)"
  shows "guard TRANSACTION_STATUS_TRANSITIONS TRANSACTION_STATUS_RANKS (tr_status row) (tr_lastEventAt row) (fd_status found) t = Inr ()"
  using assms by (cases "tr_lastEventAt row")
    (auto simp: guard_Inr final_status_def answer_settles_def answer_fails_def absent_or_def)

lemma tx_changed_fields:
  "tr_status (tx_changed inp row) = sc_toStatus inp" "tr_id (tx_changed inp row) = tr_id row"
  "tr_amountCents (tx_changed inp row) = tr_amountCents row" "tr_accountId (tx_changed inp row) = tr_accountId row"
  by (auto simp: tx_changed_def Let_def split: option.splits)

lemma op_update_status:
  assumes "map_get rows i = Some op" "op_environment op = env"
  shows "map_option op_status (map_get (snd (op_update now
    \<lparr>ou_environment = env, ou_id = i, ou_status = st, ou_providerRef = a, ou_endToEndId = b, ou_lastError = c, ou_incrementAttempts = d\<rparr>
    rows)) i) = Some (or_else st (op_status op))"
  using assms by (simp add: op_update_def Let_def update_conv')

lemma applyOutcome_closes:
  assumes hold: "truthy (tr_ledgerPendingTransactionId row) = Some hold" and fin: "final_status found"
    and led: "on_ledger (d_ledgerIds (od_draws od)) env ((if answer_settles found then settleOut else voidOut) (d_holdNow (od_draws od))
        (d_holdTx (od_draws od)) (d_holdEntry (od_draws od)) hold
        ((if answer_settles found then ''pix-out-settle:'' else ''pix-out-void:'') @ op_id op)) w = (Inr r, w\<lparr>w_ledger := L\<rparr>)"
    and row: "map_get (t_rows (w_transactions w)) (tr_id row) = Some row" "tr_environment row = env"
      "tr_status row = TransactionStatus.UNKNOWN" "absent_or (tr_lastEventAt row) (\<lambda>l. l \<le> d_now (od_draws od))"
    and op: "map_get (w_operations w) (op_id op) = Some op'" "op_environment op' = env"
  obtains w' row' where "applyOutcome od env op row found w = (Inr (Resolved (fd_status found) row'), w')"
    "tr_id row' = tr_id row" "tr_status row' = fd_status found" "tr_amountCents row' = tr_amountCents row"
    "map_get (t_rows (w_transactions w')) (tr_id row) = Some row'" "w_ledger w' = L" "w_requests w' = w_requests w"
    "map_option op_status (map_get (w_operations w') (op_id op)) =
       Some (if answer_settles found then OperationStatusValue.SETTLED else OperationStatusValue.FAILED)"
proof -
  let ?posted = "Some (tx_id (res_transaction r))" and ?now = "d_now (od_draws od)"
  let ?ch = "answer_change ?now env row found ?posted" and ?cb = "\<lambda>_ (out, aud). (outbox_append (answer_event ?now env op row found) out, aud)"
  have ah: "answer_hold (od_draws od) env op row found w = (Inr ?posted, w\<lparr>w_ledger := L\<rparr>)"
    using hold fin led by (cases "answer_settles found") (auto simp: answer_hold_def final_status_def simp del: append_Cons append_Nil)
  have ch: "sc_environment ?ch = env" "sc_transactionId ?ch = tr_id row" "sc_toStatus ?ch = fd_status found" "sc_occurredAt ?ch = ?now"
    by (simp_all add: answer_change_def)
  obtain repo out aud where tx: "tx_applyStatusChange ?ch (Some ?cb) (w_transactions w, w_outbox w, w_audit w) =
      (Applied (tx_changed ?ch row), repo, out, aud)" "map_get (t_rows repo) (tr_id row) = Some (tx_changed ?ch row)"
    using row unknown_to_final [OF fin row(3,4)] ch
    by (simp add: tx_applyStatusChange_def Let_def update_conv' split: prod.split)
  let ?st = "if answer_settles found then OperationStatusValue.SETTLED
    else if answer_fails found then OperationStatusValue.FAILED else OperationStatusValue.SUBMITTED"
  let ?u = "\<lparr>ou_environment = env, ou_id = op_id op, ou_status = Some ?st, ou_providerRef = Some (fd_providerTransactionId found),
      ou_endToEndId = fd_endToEndId found, ou_lastError = None, ou_incrementAttempts = False\<rparr>"
  let ?w = "invalidateBalance env (tr_accountId row) (update_operation (od_resolvedAt od) ?u
      (w\<lparr>w_ledger := L, w_transactions := repo, w_outbox := out, w_audit := aud\<rparr>))"
  have "applyOutcome od env op row found w = (Inr (Resolved (fd_status found) (tx_changed ?ch row)), ?w)"
    by (simp add: applyOutcome_def ah tx(1) Let_def)
  moreover have "map_option op_status (map_get (w_operations ?w) (op_id op)) = Some ?st"
    using op_update_status [OF op] by (simp add: update_operation_def invalidateBalance_def del: map_option_eq_Some)
  ultimately show thesis
    using that [of "tx_changed ?ch row" ?w] tx(2) fin
    by (auto simp: tx_changed_fields ch invalidateBalance_def final_status_def)
qed

section \<open>A transfer whose outcome is unknown\<close>

lemma onUnknownOutcome_world:
  assumes "onUnknownOutcome ports dr actor account bound dto destination opid v hold m w = (r, w')"
  shows "w_accounts w' = w_accounts w" "w_ledger w' = w_ledger w" "w_requests w' = w_requests w"
    "w_transactions w' = snd (tx_create
       (draft ports dr actor account bound dto destination opid v TransactionStatus.UNKNOWN (Some hold)) (w_transactions w))"
    "w_operations w' = snd (op_create (unknown_operation dr actor account opid v (d_transactionId dr) m) (w_operations w))"
  using assms by (auto simp: onUnknownOutcome_def Let_def append_outbox_def create_transaction_def enqueue_def draft_def)

lemma draft_fields:
  "tr_id (draft ports dr actor account bound dto destination opid v st hold) = d_transactionId dr"
  "tr_environment (draft ports dr actor account bound dto destination opid v st hold) = actor_environment actor"
  "tr_status (draft ports dr actor account bound dto destination opid v st hold) = st"
  "tr_idempotencyKey (draft ports dr actor account bound dto destination opid v st hold) = Some opid"
  "tr_amountCents (draft ports dr actor account bound dto destination opid v st hold) = v"
  "tr_accountId (draft ports dr actor account bound dto destination opid v st hold) = ac_id account"
  "tr_lastEventAt (draft ports dr actor account bound dto destination opid v st hold) = Some (d_now dr)"
  "tr_ledgerPendingTransactionId (draft ports dr actor account bound dto destination opid v st hold) = hold"
  by (simp_all add: draft_def Let_def)

lemma tx_create_findable:
  assumes "tx_findByIdempotencyKey repo env key = None" "map_get (t_rows repo) (tr_id row) = None"
    and "tr_environment row = env" "tr_idempotencyKey row = Some key"
  shows "tx_findByIdempotencyKey (snd (tx_create row repo)) env key = Some row"
  using assms by (simp add: tx_findByIdempotencyKey_def tx_create_def map_set_fresh map_values_def find_appended)

lemma send_new_unknown_then_answered:
  assumes led: "requireLedgerAccount account = Inr i" and env: "env = actor_environment actor"
    and store: "map_get (w_ledger w) env = Some s" "shadow_reachable s"
    and a: "mem_account s i = Some a" "la_code a = customerAvailableCode c"
    and k: "mem_findByIdempotencyKey s (''pix-out:'' @ opid) = None"
      "mem_findByIdempotencyKey s ((if answer_settles found then ''pix-out-settle:'' else ''pix-out-void:'') @ opid) = None"
    and f: "mem_findTransaction s (d_holdTx dr) = None" "d_holdTx dr \<noteq> []" and v: "0 < v" "v \<le> bal_available (computeBalances a)"
    and unknown: "bp_send bound pid \<lparr>rq_key = opid, rq_amountCents = v\<rparr> destination = Unknown m"
    and fresh: "tx_findByIdempotencyKey (w_transactions w) env opid = None"
      "map_get (t_rows (w_transactions w)) (d_transactionId dr) = None"
    and acc: "ac_findById (w_accounts w) env (ac_id account) = Some account" "truthy (ac_providerAccountId account) = Some pid"
    and prov: "providers (actor_connectionId actor) = Inr p" "lp_findByIdempotencyKey p = Some query"
      "query pid opid = Replied (Some found)" and fin: "final_status found" and later: "d_now dr \<le> d_now (od_draws od)"
  obtains r w1 row w2 where "send_new ports dr actor account pid bound dto destination opid v w = (Inr r, w1)"
    "resolve_operation od providers env opid w1 = (Inr (Resolved (fd_status found) row), w2)"
    "tr_id row = d_transactionId dr" "tr_status row = fd_status found" "tr_amountCents row = v"
    "map_get (t_rows (w_transactions w2)) (tr_id row) = Some row"
    "w_requests w2 = w_requests w @ [\<lparr>rq_key = opid, rq_amountCents = v\<rparr>]"
    "ledger_available w2 env i = Some (bal_available (computeBalances a) - (if answer_settles found then v else 0))"
    "map_option op_status (map_get (w_operations w2) opid) =
       Some (if answer_settles found then OperationStatusValue.SETTLED else OperationStatusValue.FAILED)"
proof -
  let ?avail = "bal_available (computeBalances a)" and ?rq = "\<lparr>rq_key = opid, rq_amountCents = v\<rparr>"
    and ?key = "(if answer_settles found then ''pix-out-settle:'' else ''pix-out-void:'') @ opid"
  have ne: "?key \<noteq> ''pix-out:'' @ opid" by simp
  obtain hold s1 a1 where h:
    "on_ledger (d_ledgerIds dr) env (authorizeOut (d_holdNow dr) (d_holdTx dr) (d_holdEntry dr) i v (''pix-out:'' @ opid) (Some opid)) w =
       (Inr hold, w\<lparr>w_ledger := map_set env s1 (w_ledger w)\<rparr>)"
    "tx_id (res_transaction hold) = d_holdTx dr"
    and answer: "\<And>w1 ids' now' newTx' eid'. map_get (w_ledger w1) env = Some s1 \<Longrightarrow>
       \<exists>r s2 a2. on_ledger ids' env ((if answer_settles found then settleOut else voidOut) now' newTx' eid' (d_holdTx dr) ?key) w1 =
           (Inr r, w1\<lparr>w_ledger := map_set env s2 (w_ledger w1)\<rparr>) \<and> mem_account s2 i = Some a2 \<and>
         bal_available (computeBalances a2) = ?avail - (if answer_settles found then v else 0)"
    by (rule hold_and_answer [OF store a k(1) k(2) ne f v]) blast
  let ?w1 = "call ?rq (w\<lparr>w_ledger := map_set env s1 (w_ledger w)\<rparr>)"
  obtain r w3 where u: "onUnknownOutcome ports dr actor account bound dto destination opid v (d_holdTx dr) m ?w1 = (r, w3)"
    by fastforce
  note w3 = onUnknownOutcome_world [OF u]
  have sent: "send_new ports dr actor account pid bound dto destination opid v w = (Inr r, w3)"
    by (simp only: send_new_def led sum.case h(1,2) [unfolded env] prod.case Let_def unknown ProviderReply.case u [unfolded env])
  let ?row = "draft ports dr actor account bound dto destination opid v TransactionStatus.UNKNOWN (Some (d_holdTx dr))"
  let ?op = "unknown_operation dr actor account opid v (d_transactionId dr) m"
  have op: "op_id ?op = opid" "op_environment ?op = env" "op_connectionId ?op = actor_connectionId actor"
    "op_providerIdempotencyKey ?op = opid" "op_stuck ?op" "map_get (w_operations w3) opid = Some ?op"
    by (simp_all add: unknown_operation_def env op_stuck_def w3(5) op_create_def update_conv')
  have row: "tx_findByIdempotencyKey (w_transactions w3) env opid = Some ?row"
    using fresh by (simp add: w3(4) call_def tx_create_findable draft_fields env)
  have stored: "map_get (t_rows (w_transactions w3)) (tr_id ?row) = Some ?row" by (simp add: w3(4) tx_created_row)
  have found: "op_findById (w_operations w3) env opid = Some ?op" using op by (simp add: op_findById_def)
  have account: "ac_findById (w_accounts w3) env (tr_accountId ?row) = Some account" using acc by (simp add: w3(1) call_def draft_fields)
  have look: "lookup_outcome p pid ?op ?row = Some found" using prov op by (simp add: lookup_outcome_def byIdempotencyKey_def coalesce_def)
  let ?w = "update_operation (od_attemptAt od) (attempt env opid) w3"
  have go: "resolve_operation od providers env opid w3 = applyOutcome od env ?op ?row found ?w"
    by (rule resolve_operation_reaches [OF found op(5) _ account acc(2) _ look]) (simp_all add: op row prov)
  have L: "map_get (w_ledger ?w) env = Some s1" by (simp add: w3(2) call_def update_conv')
  obtain r2 s2 a2 where led2: "on_ledger (d_ledgerIds (od_draws od)) env ((if answer_settles found then settleOut else voidOut)
        (d_holdNow (od_draws od)) (d_holdTx (od_draws od)) (d_holdEntry (od_draws od)) (d_holdTx dr) ?key) ?w =
      (Inr r2, ?w\<lparr>w_ledger := map_set env s2 (w_ledger ?w)\<rparr>)"
    "mem_account s2 i = Some a2" "bal_available (computeBalances a2) = ?avail - (if answer_settles found then v else 0)"
    using answer [OF L] by blast
  obtain op' where op': "map_get (w_operations ?w) opid = Some op'" "op_environment op' = env"
    using op by (simp add: update_operation_def attempt_def op_update_def Let_def update_conv')
  have hold: "truthy (tr_ledgerPendingTransactionId ?row) = Some (d_holdTx dr)" using f(2) by (simp add: draft_fields)
  have id: "on_ledger (d_ledgerIds (od_draws od)) env ((if answer_settles found then settleOut else voidOut)
        (d_holdNow (od_draws od)) (d_holdTx (od_draws od)) (d_holdEntry (od_draws od)) (d_holdTx dr)
        ((if answer_settles found then ''pix-out-settle:'' else ''pix-out-void:'') @ op_id ?op)) ?w =
      (Inr r2, ?w\<lparr>w_ledger := map_set env s2 (w_ledger ?w)\<rparr>)"
    "map_get (w_operations ?w) (op_id ?op) = Some op'"
    by (simp_all only: op(1) led2(1) op'(1))
  obtain w2 row' where out: "applyOutcome od env ?op ?row found ?w = (Inr (Resolved (fd_status found) row'), w2)"
    "tr_id row' = tr_id ?row" "tr_status row' = fd_status found" "tr_amountCents row' = tr_amountCents ?row"
    "map_get (t_rows (w_transactions w2)) (tr_id ?row) = Some row'" "w_ledger w2 = map_set env s2 (w_ledger ?w)"
    "w_requests w2 = w_requests ?w"
    "map_option op_status (map_get (w_operations w2) (op_id ?op)) =
       Some (if answer_settles found then OperationStatusValue.SETTLED else OperationStatusValue.FAILED)"
    by (rule applyOutcome_closes [OF hold fin id(1) _ _ _ _ id(2) op'(2)])
      (use later stored in \<open>simp_all add: draft_fields env absent_or_def\<close>)
  show thesis
    by (rule that [OF sent go [unfolded out(1)] _ out(3)])
      (use out led2 op(1) w3(3) in \<open>simp_all add: draft_fields call_def ledger_available_def update_conv'\<close>)
qed

section \<open>A hold somebody else settled\<close>

text \<open>What makes an enquiry fail: the provider has a final answer, the hold is no longer pending, and neither key of the
  resolver is in the ledger.\<close>

definition defeated ::
  "(ident \<Rightarrow> ServiceError + LookupProvider) \<Rightarrow> Environment \<Rightarrow> ident \<Rightarrow> ident \<Rightarrow> LedgerTransactionStatus \<Rightarrow> ProviderFound \<Rightarrow> World \<Rightarrow> bool" where
  "defeated providers env i hold st found w \<longleftrightarrow>
     (\<exists>op row account pid p query s t. op_findById (w_operations w) env i = Some op \<and> op_id op = i \<and> op_stuck op \<and>
        tx_findByIdempotencyKey (w_transactions w) env (op_providerIdempotencyKey op) = Some row \<and>
        truthy (tr_ledgerPendingTransactionId row) = Some hold \<and>
        ac_findById (w_accounts w) env (tr_accountId row) = Some account \<and> truthy (ac_providerAccountId account) = Some pid \<and>
        providers (op_connectionId op) = Inr p \<and> lp_findByIdempotencyKey p = Some query \<and>
        query pid (op_providerIdempotencyKey op) = Replied (Some found) \<and>
        map_get (w_ledger w) env = Some s \<and> mem_findTransaction s hold = Some t \<and> tx_status t = st \<and>
        mem_findByIdempotencyKey s (''pix-out-settle:'' @ i) = None \<and> mem_findByIdempotencyKey s (''pix-out-void:'' @ i) = None)"

lemma resolve_not_pending:
  assumes "mem_findByIdempotencyKey s key = None" "mem_findTransaction s hold = Some t" "tx_status t \<noteq> LedgerTransactionStatus.PENDING"
  shows "settleOut now newTx eid hold key s = Inl (EngineError (LedgerValidationError (NotPending hold (tx_status t))))"
    "voidOut now newTx eid hold key s = Inl (EngineError (LedgerValidationError (NotPending hold (tx_status t))))"
  using assms by (simp_all add: settleOut_def voidOut_def commitPending_def voidPending_def resolvePending_def shadow_run_def store_simps)

lemma attempt_operation:
  assumes "op_findById rows env i = Some op"
  obtains op' where "op_findById (snd (op_update now (attempt env i) rows)) env i = Some op'" "op_id op' = op_id op"
    "op_status op' = op_status op" "op_providerIdempotencyKey op' = op_providerIdempotencyKey op"
    "op_connectionId op' = op_connectionId op"
  using assms that
  by (fastforce simp: op_findById_def op_update_def attempt_def Let_def update_conv' or_else_def split: option.splits if_splits)

lemma defeated_step:
  assumes d: "defeated providers env i hold st found w" and fin: "final_status found" and st: "st \<noteq> LedgerTransactionStatus.PENDING"
  shows "fst (resolve_operation od providers env i w) = Inl (LedgerFailure (EngineError (LedgerValidationError (NotPending hold st))))"
    and "defeated providers env i hold st found (snd (resolve_operation od providers env i w))"
    and "w_ledger (snd (resolve_operation od providers env i w)) = w_ledger w"
proof -
  obtain op row account pid p query s t where op: "op_findById (w_operations w) env i = Some op" "op_id op = i" "op_stuck op"
    and row: "tx_findByIdempotencyKey (w_transactions w) env (op_providerIdempotencyKey op) = Some row"
      "truthy (tr_ledgerPendingTransactionId row) = Some hold"
    and acc: "ac_findById (w_accounts w) env (tr_accountId row) = Some account" "truthy (ac_providerAccountId account) = Some pid"
    and p: "providers (op_connectionId op) = Inr p" "lp_findByIdempotencyKey p = Some query"
      "query pid (op_providerIdempotencyKey op) = Replied (Some found)"
    and s: "map_get (w_ledger w) env = Some s" "mem_findTransaction s hold = Some t" "tx_status t = st"
      "mem_findByIdempotencyKey s (''pix-out-settle:'' @ i) = None" "mem_findByIdempotencyKey s (''pix-out-void:'' @ i) = None"
    using d unfolding defeated_def by blast
  let ?w = "update_operation (od_attemptAt od) (attempt env i) w"
  have look: "lookup_outcome p pid op row = Some found" using p by (simp add: lookup_outcome_def byIdempotencyKey_def coalesce_def)
  have L: "map_get (w_ledger ?w) env = Some s" using s(1) by simp
  note np = resolve_not_pending [OF s(4,2) st [folded s(3)]] resolve_not_pending [OF s(5,2) st [folded s(3)]]
  have "answer_hold (od_draws od) env op row found ?w =
      (Inl (LedgerFailure (EngineError (LedgerValidationError (NotPending hold st)))), ?w)"
    using fin row(2) np s(3)
    by (auto simp: answer_hold_def final_status_def on_ledger_present [OF L] op(2) simp del: append_Cons append_Nil)
  then have out: "resolve_operation od providers env i w =
      (Inl (LedgerFailure (EngineError (LedgerValidationError (NotPending hold st)))), ?w)"
    using resolve_operation_reaches [where providers = providers and od = od, OF op(1,3) row(1) acc p(1) look] by (simp add: applyOutcome_def Let_def)
  obtain op' where op': "op_findById (w_operations ?w) env i = Some op'" "op_id op' = op_id op" "op_status op' = op_status op"
    "op_providerIdempotencyKey op' = op_providerIdempotencyKey op" "op_connectionId op' = op_connectionId op"
    by (rule attempt_operation [OF op(1), of "od_attemptAt od"]) (simp add: update_operation_def)
  show "fst (resolve_operation od providers env i w) = Inl (LedgerFailure (EngineError (LedgerValidationError (NotPending hold st))))"
    "w_ledger (snd (resolve_operation od providers env i w)) = w_ledger w" by (simp_all add: out)
  show "defeated providers env i hold st found (snd (resolve_operation od providers env i w))"
    unfolding defeated_def out snd_conv
    by (rule exI [of _ op'], rule exI [of _ row], rule exI [of _ account], rule exI [of _ pid], rule exI [of _ p],
        rule exI [of _ query], rule exI [of _ s], rule exI [of _ t])
      (use op op' row acc p s in \<open>simp add: op_stuck_def\<close>)
qed

lemma find_changed:
  assumes "find P (map_values rows) = Some row" "map_get rows (key row) = Some row" "\<forall>(k, r)\<in>set rows. k = key r"
    and "P row'" "key row' = key row"
  shows "find P (map_values (map_set (key row) row' rows)) = Some row'"
  using assms(1-3) by (induction rows) (use assms(4,5) in \<open>auto simp: map_values_def split: if_splits\<close>)

lemma resolve_hold_final:
  assumes hold: "truthy (tr_ledgerPendingTransactionId row) = Some hold"
    and inc: "inc = TransactionStatus.SETTLED \<or> inc = TransactionStatus.FAILED \<or> inc = TransactionStatus.CANCELLED"
    and s: "map_get (w_ledger w) (cx_environment ctx) = Some s" "ledger_ok s"
      "mem_findTransaction s hold = Some t" "tx_status t = LedgerTransactionStatus.PENDING"
    and k: "mem_findByIdempotencyKey s (''pix-out-settle:'' @ tr_id row) = None"
      "mem_findByIdempotencyKey s (''pix-out-void:'' @ tr_id row) = None"
  obtains posted s' t' where "resolve_hold dr ctx row inc w = (Inr (Some posted), w\<lparr>w_ledger := map_set (cx_environment ctx) s' (w_ledger w)\<rparr>)"
    "mem_findTransaction s' hold = Some t'"
    "tx_status t' = (if inc = TransactionStatus.SETTLED then LedgerTransactionStatus.POSTED else LedgerTransactionStatus.VOIDED)"
    "\<And>i. i \<noteq> tr_id row \<Longrightarrow> mem_findByIdempotencyKey s (''pix-out-settle:'' @ i) = None \<Longrightarrow> mem_findByIdempotencyKey s' (''pix-out-settle:'' @ i) = None"
    "\<And>i. i \<noteq> tr_id row \<Longrightarrow> mem_findByIdempotencyKey s (''pix-out-void:'' @ i) = None \<Longrightarrow> mem_findByIdempotencyKey s' (''pix-out-void:'' @ i) = None"
proof -
  let ?c = "inc = TransactionStatus.SETTLED"
  let ?key = "(if ?c then ''pix-out-settle:'' else ''pix-out-void:'') @ tr_id row" and ?ty = "Some (if ?c then PIX_OUT_SETTLE else PIX_OUT_VOID)"
  have key: "mem_findByIdempotencyKey s ?key = None" using k by (cases ?c) simp_all
  obtain r s' where q: "resolvePending memoryStore (d_holdNow dr) (d_holdTx dr) (d_holdEntry dr) hold ?key ?ty ?c s = Inr (r, s')"
    and t: "mem_findTransaction s' hold = Some (resolved_pending ?c (d_holdNow dr) t)"
    using pending_resolvable [OF s(2-4) key] by blast
  have "keys_ok s" using s(2) by (simp add: ledger_ok_def)
  note keys = resolve_keys [OF this q key]
  have ran: "(if ?c then settleOut else voidOut) (d_holdNow dr) (d_holdTx dr) (d_holdEntry dr) hold ?key s = Inr (r, s')"
    using q by (cases ?c) (simp_all add: settleOut_def voidOut_def commitPending_def voidPending_def shadow_run_Inr)
  have "resolve_hold dr ctx row inc w =
      (Inr (Some (tx_id (res_transaction r))), w\<lparr>w_ledger := map_set (cx_environment ctx) s' (w_ledger w)\<rparr>)"
    using hold inc ran by (cases ?c) (auto simp: resolve_hold_def Let_def on_ledger_present [OF s(1)] simp del: append_Cons append_Nil)
  then show thesis
  proof (rule that [OF _ t])
    show "tx_status (resolved_pending ?c (d_holdNow dr) t) =
        (if ?c then LedgerTransactionStatus.POSTED else LedgerTransactionStatus.VOIDED)"
      by (simp add: resolved_pending_def)
  qed (use keys in simp_all)
qed

lemma applyTransaction_keeps:
  assumes row: "findTransaction w ctx d data = Some row" and inc: "inc = or_else (pe_status data) (pe_transitionTo data)"
    and hold: "resolve_hold dr ctx row inc w = (Inr posted, w1)" and same: "w_transactions w1 = w_transactions w"
    and stored: "map_get (t_rows (w_transactions w)) (tr_id row) = Some row"
      "\<forall>(k, r)\<in>set (t_rows (w_transactions w)). k = tr_id r"
    and key: "tx_findByIdempotencyKey (w_transactions w) env key = Some row"
  obtains out w2 row2 where "applyTransaction ports dr ctx d data w = (Inr out, w2)" "w_ledger w2 = w_ledger w1"
    "w_operations w2 = w_operations w1" "w_accounts w2 = w_accounts w1"
    "tx_findByIdempotencyKey (w_transactions w2) env key = Some row2" "tr_accountId row2 = tr_accountId row"
    "tr_ledgerPendingTransactionId row2 = tr_ledgerPendingTransactionId row"
proof -
  let ?ch = "payment_change ctx d data row inc posted"
  have kept: "tr_accountId (tx_changed ?ch row) = tr_accountId row" "tr_id (tx_changed ?ch row) = tr_id row"
    "tr_ledgerPendingTransactionId (tx_changed ?ch row) = tr_ledgerPendingTransactionId row"
    "tr_environment (tx_changed ?ch row) = tr_environment row" "tr_idempotencyKey (tx_changed ?ch row) = tr_idempotencyKey row"
    by (auto simp: tx_changed_def Let_def split: option.splits)
  have id: "sc_transactionId ?ch = tr_id row" by (simp add: payment_change_def)
  have found: "find (\<lambda>r. tr_environment r = env \<and> tr_idempotencyKey r = Some key) (map_values (t_rows (w_transactions w))) = Some row"
    using key by (simp add: tx_findByIdempotencyKey_def)
  then have mine: "tr_environment row = env" "tr_idempotencyKey row = Some key" by (auto simp: find_Some_iff)
  have changed: "tx_findByIdempotencyKey (w_transactions w\<lparr>t_rows := map_set (tr_id row) (tx_changed ?ch row) (t_rows (w_transactions w)),
      t_statusHistory := h\<rparr>) env key = Some (tx_changed ?ch row)" for h
    using find_changed [OF found stored] mine kept by (simp add: tx_findByIdempotencyKey_def)
  have out: "\<exists>out w2 row2. applyTransaction ports dr ctx d data w = (Inr out, w2) \<and> w_ledger w2 = w_ledger w1 \<and>
      w_operations w2 = w_operations w1 \<and> w_accounts w2 = w_accounts w1 \<and>
      tx_findByIdempotencyKey (w_transactions w2) env key = Some row2 \<and> tr_accountId row2 = tr_accountId row \<and>
      tr_ledgerPendingTransactionId row2 = tr_ledgerPendingTransactionId row"
  proof (cases "tr_environment row \<noteq> sc_environment ?ch \<or> (\<exists>reason. guard TRANSACTION_STATUS_TRANSITIONS TRANSACTION_STATUS_RANKS
      (tr_status row) (tr_lastEventAt row) (sc_toStatus ?ch) (sc_occurredAt ?ch) = Inl reason)")
    case True
    then show ?thesis using stored key
      by (auto simp: applyTransaction_def row hold inc [symmetric] Let_def tx_applyStatusChange_def id same handleRejection_def
        onDuplicate_def recordAnomaly_def onAnomaly_def append_outbox_def split: option.split)
  next
    case False
    then obtain u where "guard TRANSACTION_STATUS_TRANSITIONS TRANSACTION_STATUS_RANKS
      (tr_status row) (tr_lastEventAt row) (sc_toStatus ?ch) (sc_occurredAt ?ch) = Inr u"
      by (metis sum.exhaust)
    then show ?thesis using False stored changed kept
      by (auto simp: applyTransaction_def row hold inc [symmetric] Let_def tx_applyStatusChange_def id same invalidateBalance_def publish_def
        split: prod.splits)
  qed
  then show thesis using that by blast
qed

lemma defeated_for_ever:
  assumes "defeated providers env i hold st found w" "final_status found" "st \<noteq> LedgerTransactionStatus.PENDING"
  shows "defeated providers env i hold st found (foldl (\<lambda>w od. snd (resolve_operation od providers env i w)) w ods) \<and>
     w_ledger (foldl (\<lambda>w od. snd (resolve_operation od providers env i w)) w ods) = w_ledger w"
  using assms(1)
proof (induction ods arbitrary: w)
  case (Cons od ods)
  from Cons.IH [OF defeated_step(2) [OF Cons.prems assms(2,3)], of od] defeated_step(3) [OF Cons.prems assms(2,3), of od]
  show ?case by simp
qed simp

section \<open>A provider that never answers\<close>

definition unanswered ::
  "(ident \<Rightarrow> ServiceError + LookupProvider) \<Rightarrow> Environment \<Rightarrow> ident \<Rightarrow> ident \<Rightarrow> ident \<Rightarrow> nat \<Rightarrow> World \<Rightarrow> bool" where
  "unanswered providers env i conn acct tries w \<longleftrightarrow>
     (\<exists>op row account pid p. op_findById (w_operations w) env i = Some op \<and> op_id op = i \<and> op_stuck op \<and> op_attempts op = tries \<and>
        op_environment op = env \<and> op_connectionId op = conn \<and> op_accountId op = Some acct \<and>
        tx_findByIdempotencyKey (w_transactions w) env (op_providerIdempotencyKey op) = Some row \<and>
        ac_findById (w_accounts w) env (tr_accountId row) = Some account \<and> truthy (ac_providerAccountId account) = Some pid \<and>
        providers conn = Inr p \<and> lp_findByIdempotencyKey p \<noteq> None \<and> (\<forall>op row. lookup_outcome p pid op row = None))"

lemma update_operation_find:
  assumes "op_findById (w_operations w) env i = Some op"
  obtains op' where "op_findById (w_operations (update_operation t
      \<lparr>ou_environment = env, ou_id = i, ou_status = st, ou_providerRef = None, ou_endToEndId = None, ou_lastError = e, ou_incrementAttempts = b\<rparr> w)) env i = Some op'"
    "op_id op' = op_id op" "op_status op' = or_else st (op_status op)" "op_attempts op' = op_attempts op + (if b then 1 else 0)"
    "op_environment op' = op_environment op" "op_connectionId op' = op_connectionId op" "op_accountId op' = op_accountId op"
    "op_providerIdempotencyKey op' = op_providerIdempotencyKey op"
proof -
  from assms have m: "map_get (w_operations w) i = Some op" "op_environment op = env"
    by (auto simp: op_findById_def split: option.splits if_splits)
  show thesis
    by (rule that [of "op\<lparr>op_status := or_else st (op_status op), op_lastError := coalesce e (op_lastError op),
        op_attempts := (if b then op_attempts op + 1 else op_attempts op), op_updatedAt := t\<rparr>"])
      (use m in \<open>simp_all add: update_operation_def op_update_def Let_def op_findById_def update_conv' coalesce_def\<close>)
qed

lemma unanswered_resolve:
  assumes "unanswered providers env i conn acct n w"
  obtains w' where "resolve_operation od providers env i w = (Inr (Unresolved not_found_at_provider), w')"
    "unanswered providers env i conn acct (Suc n) w'" "same_money w w'" "w_queue w' = w_queue w"
proof -
  obtain op row account pid p where u: "op_findById (w_operations w) env i = Some op" "op_id op = i" "op_stuck op" "op_attempts op = n"
      "op_environment op = env" "op_connectionId op = conn" "op_accountId op = Some acct"
    and row: "tx_findByIdempotencyKey (w_transactions w) env (op_providerIdempotencyKey op) = Some row"
      "ac_findById (w_accounts w) env (tr_accountId row) = Some account" "truthy (ac_providerAccountId account) = Some pid"
    and p: "providers conn = Inr p" "lp_findByIdempotencyKey p \<noteq> None" "\<forall>op row. lookup_outcome p pid op row = None"
    using assms unfolding unanswered_def by blast
  let ?w = "update_operation (od_attemptAt od) (attempt env i) w"
  obtain op' where op': "op_findById (w_operations ?w) env i = Some op'" "op_id op' = op_id op" "op_status op' = op_status op"
    "op_attempts op' = Suc n" "op_environment op' = env" "op_connectionId op' = conn" "op_accountId op' = Some acct"
    "op_providerIdempotencyKey op' = op_providerIdempotencyKey op"
    using update_operation_find [OF u(1), of "od_attemptAt od" None None True thesis] u unfolding attempt_def by auto
  show thesis
  proof (rule that)
    show "resolve_operation od providers env i w = (Inr (Unresolved not_found_at_provider), ?w)"
      using u row p by (simp add: resolve_operation_def Let_def)
    show "unanswered providers env i conn acct (Suc n) ?w"
      unfolding unanswered_def
      by (rule exI [of _ op'], rule exI [of _ row], rule exI [of _ account], rule exI [of _ pid], rule exI [of _ p])
        (use u row p op' in \<open>simp add: op_stuck_def\<close>)
    show "same_money w ?w" "w_queue ?w = w_queue w" by (simp_all add: same_money_def)
  qed
qed

lemma unanswered_touch:
  assumes "unanswered providers env i conn acct n w"
  shows "unanswered providers env i conn acct n (update_operation t (touch env i) w)"
proof -
  obtain op row account pid p where u: "op_findById (w_operations w) env i = Some op" "op_id op = i" "op_stuck op" "op_attempts op = n"
      "op_environment op = env" "op_connectionId op = conn" "op_accountId op = Some acct"
    and row: "tx_findByIdempotencyKey (w_transactions w) env (op_providerIdempotencyKey op) = Some row"
      "ac_findById (w_accounts w) env (tr_accountId row) = Some account" "truthy (ac_providerAccountId account) = Some pid"
    and p: "providers conn = Inr p" "lp_findByIdempotencyKey p \<noteq> None" "\<forall>op row. lookup_outcome p pid op row = None"
    using assms unfolding unanswered_def by blast
  obtain op' where op': "op_findById (w_operations (update_operation t (touch env i) w)) env i = Some op'" "op_id op' = op_id op"
    "op_status op' = op_status op" "op_attempts op' = n" "op_environment op' = env" "op_connectionId op' = conn"
    "op_accountId op' = Some acct" "op_providerIdempotencyKey op' = op_providerIdempotencyKey op"
    using update_operation_find [OF u(1), of t None None False thesis] u unfolding touch_def by auto
  show ?thesis
    unfolding unanswered_def
    by (rule exI [of _ op'], rule exI [of _ row], rule exI [of _ account], rule exI [of _ pid], rule exI [of _ p])
      (use u row p op' in \<open>simp add: op_stuck_def\<close>)
qed

lemma unanswered_enqueue:
  "unanswered providers env i conn acct n w \<Longrightarrow> unanswered providers env i conn acct n (enqueue job delay w)"
  by (simp add: unanswered_def enqueue_def)

definition rung_job :: "Environment \<Rightarrow> ident \<Rightarrow> nat \<Rightarrow> QueuedJob \<times> nat option" where
  "rung_job env i n = (OperationResolveJob env i n, Some (UNKNOWN_OUTCOME_LADDER_SECONDS ! n * 1000))"

lemma silent_step:
  assumes u: "unanswered providers env i conn acct n (ww_world lw)" and step: "step < 6"
  obtains w where "ladder_step ports od providers env i step lw = (Inr (), lw\<lparr>ww_world := w\<rparr>)"
    "unanswered providers env i conn acct (Suc n) w" "same_money (ww_world lw) w"
    "w_queue w = w_queue (ww_world lw) @ [rung_job env i (Suc step)]"
proof -
  obtain w' where w': "resolve_operation od providers env i (ww_world lw) = (Inr (Unresolved not_found_at_provider), w')"
    "unanswered providers env i conn acct (Suc n) w'" "same_money (ww_world lw) w'" "w_queue w' = w_queue (ww_world lw)"
    by (rule unanswered_resolve [OF u])
  have "length UNKNOWN_OUTCOME_LADDER_SECONDS = 7" by (simp add: UNKNOWN_OUTCOME_LADDER_SECONDS_def)
  with step have "ladder_step ports od providers env i step lw = (Inr (), lw\<lparr>ww_world :=
      enqueue (OperationResolveJob env i (Suc step)) (Some (UNKNOWN_OUTCOME_LADDER_SECONDS ! Suc step * 1000))
        (update_operation (od_exhaustedAt od) (touch env i) w')\<rparr>)"
    by (simp add: ladder_step_def w'(1))
  then show thesis
  proof (rule that)
    show "unanswered providers env i conn acct (Suc n)
        (enqueue (OperationResolveJob env i (Suc step)) (Some (UNKNOWN_OUTCOME_LADDER_SECONDS ! Suc step * 1000))
          (update_operation (od_exhaustedAt od) (touch env i) w'))"
      by (intro unanswered_enqueue unanswered_touch w'(2))
  qed (use w'(3,4) in \<open>simp_all add: same_money_def enqueue_def rung_job_def\<close>)
qed

lemma silent_run:
  assumes "unanswered providers env i conn acct n (ww_world lw)" "k \<le> 6"
  shows "\<exists>w. foldl (\<lambda>lw step. snd (ladder_step ports (od step) providers env i step lw)) lw [0..<k] = lw\<lparr>ww_world := w\<rparr> \<and>
     unanswered providers env i conn acct (n + k) w \<and> same_money (ww_world lw) w \<and>
     w_queue w = w_queue (ww_world lw) @ map (\<lambda>step. rung_job env i (Suc step)) [0..<k]"
  using assms(2)
proof (induction k)
  case 0
  show ?case by (rule exI [of _ "ww_world lw"]) (use assms(1) in \<open>simp add: same_money_def\<close>)
next
  case (Suc k)
  then obtain w where w: "foldl (\<lambda>lw step. snd (ladder_step ports (od step) providers env i step lw)) lw [0..<k] = lw\<lparr>ww_world := w\<rparr>"
    "unanswered providers env i conn acct (n + k) w" "same_money (ww_world lw) w"
    "w_queue w = w_queue (ww_world lw) @ map (\<lambda>step. rung_job env i (Suc step)) [0..<k]"
    by auto
  from w(2) have u: "unanswered providers env i conn acct (n + k) (ww_world (lw\<lparr>ww_world := w\<rparr>))" by simp
  have k: "k < 6" using Suc.prems by simp
  obtain w' where "ladder_step ports (od k) providers env i k (lw\<lparr>ww_world := w\<rparr>) = (Inr (), lw\<lparr>ww_world := w, ww_world := w'\<rparr>)"
    "unanswered providers env i conn acct (Suc (n + k)) w'" "same_money w w'" "w_queue w' = w_queue w @ [rung_job env i (Suc k)]"
    by (rule silent_step [OF u k, of ports "od k"]) simp
  with w show ?case by (auto simp: same_money_def)
qed

definition ladder_key :: "string \<Rightarrow> ident \<Rightarrow> ident \<Rightarrow> string" where
  "ladder_key day conn i = join_with ''|'' [conn, ''MISSING_ON_PROVIDER'', day, ''opr:'' @ i]"

lemma openBreak_opens:
  assumes "op_accountId op = Some acct" "acct \<noteq> []" "op_connectionId op = conn" "op_id op = i"
    and "map_get (ww_breaks lw) (ladder_key (po_effectiveDate ports (d_now (od_draws od))) conn i) = None"
  obtains b where "map_get (ww_breaks (openBreak ports od op reason lw))
      (ladder_key (po_effectiveDate ports (d_now (od_draws od))) conn i) = Some b"
    "bk_status b = OPEN" "bk_severity b = CRITICAL" "bk_accountId b = acct" "bk_amountCents b = op_amountCents op"
proof (cases "startRun (ladder_run (od_runId od) (d_now (od_draws od)) op acct) (ww_runs lw)")
  case (Pair x runs)
  obtain run fresh where x: "x = (run, fresh)" by (cases x)
  let ?row = "ladder_break (od_breakId od) (ru_id run) (po_effectiveDate ports (d_now (od_draws od))) op acct reason"
  have key: "break_key ?row = ladder_key (po_effectiveDate ports (d_now (od_draws od))) conn i"
    by (simp add: break_key_def ladder_break_def ladder_key_def assms(3,4) del: join_with.simps)
  let ?b = "new_break ?row (d_now (od_draws od))"
  have "ww_breaks (openBreak ports od op reason lw) = map_set (break_key ?row) ?b (ww_breaks lw)"
    using assms(1,2,5) Pair x by (simp add: openBreak_def Let_def upsert_break_def key)
  moreover have "bk_status ?b = OPEN" "bk_severity ?b = CRITICAL" "bk_accountId ?b = acct" "bk_amountCents ?b = op_amountCents op"
    by (simp_all add: new_break_def BreakUpsertRow.defs ladder_break_def)
  ultimately show thesis using that [of ?b] by (simp add: key update_conv')
qed

lemma exhausted_step:
  assumes u: "unanswered providers env i conn acct n (ww_world lw)" and acct: "acct \<noteq> []"
    and fresh: "map_get (ww_breaks lw) (ladder_key (po_effectiveDate ports (d_now (od_draws od))) conn i) = None"
  obtains lw' b where "ladder_step ports od providers env i 6 lw = (Inr (), lw')" "same_money (ww_world lw) (ww_world lw')"
    "w_queue (ww_world lw') = w_queue (ww_world lw)"
    "map_option op_status (op_findById (w_operations (ww_world lw')) env i) = Some OperationStatusValue.FAILED"
    "map_get (ww_breaks lw') (ladder_key (po_effectiveDate ports (d_now (od_draws od))) conn i) = Some b"
    "bk_status b = OPEN" "bk_severity b = CRITICAL" "bk_accountId b = acct"
proof -
  obtain w' where w': "resolve_operation od providers env i (ww_world lw) = (Inr (Unresolved not_found_at_provider), w')"
    "unanswered providers env i conn acct (Suc n) w'" "same_money (ww_world lw) w'" "w_queue w' = w_queue (ww_world lw)"
    by (rule unanswered_resolve [OF u])
  obtain op where op: "op_findById (w_operations w') env i = Some op" "op_id op = i" "op_connectionId op = conn" "op_accountId op = Some acct"
    using w'(2) unfolding unanswered_def by blast
  let ?u = "\<lparr>ou_environment = env, ou_id = i, ou_status = Some OperationStatusValue.FAILED, ou_providerRef = None,
    ou_endToEndId = None, ou_lastError = Some ''not_found_after_ladder'', ou_incrementAttempts = False\<rparr>"
  let ?w = "update_operation (od_exhaustedAt od) ?u w'"
  let ?lw = "openBreak ports od op ''not_found_after_ladder'' (lw\<lparr>ww_world := ?w\<rparr>)"
  have step: "ladder_step ports od providers env i 6 lw = (Inr (), ?lw)"
    by (simp add: ladder_step_def w'(1) UNKNOWN_OUTCOME_LADDER_SECONDS_def exhaust_def op(1))
  have world: "ww_world ?lw = ?w" by (simp add: openBreak_def Let_def split: option.splits prod.splits)
  obtain b where b: "map_get (ww_breaks ?lw) (ladder_key (po_effectiveDate ports (d_now (od_draws od))) conn i) = Some b"
    "bk_status b = OPEN" "bk_severity b = CRITICAL" "bk_accountId b = acct" "bk_amountCents b = op_amountCents op"
    by (rule openBreak_opens [OF op(4) acct op(3,2), of "lw\<lparr>ww_world := ?w\<rparr>" ports od]) (use fresh in simp_all)
  obtain op' where op': "op_findById (w_operations ?w) env i = Some op'" "op_status op' = OperationStatusValue.FAILED"
    by (rule update_operation_find [OF op(1), of "od_exhaustedAt od" "Some OperationStatusValue.FAILED" "Some ''not_found_after_ladder''" False])
      (simp add: that)
  show thesis
    by (rule that [OF step _ _ _ b(1-4)]) (use w'(3,4) op' world in \<open>simp_all add: same_money_def\<close>)
qed

section \<open>Properties\<close>

text \<open>C23: no step of the ladder, the last one included, sends a payment, and no step moves the ledger, a transaction or
  the outbox unless the provider has answered for the very transaction of the operation.\<close>

theorem ladder_moves_only_on_answers:
  "let w = ww_world lw; w' = ww_world (snd (ladder_step ports od providers env i n lw)) in
     w_requests w' = w_requests w \<and>
     (w_ledger w' = w_ledger w \<and> w_transactions w' = w_transactions w \<and> w_outbox w' = w_outbox w \<or>
      (\<exists>found. answered providers env i w found))"
proof (cases "resolve_operation od providers env i (ww_world lw)")
  case (Pair r w)
  with resolve_operation_safe [of od providers env i "ww_world lw"] ladder_step_world [OF Pair, of ports n]
  show ?thesis by (simp add: Let_def same_money_def)
qed

definition demo_query :: "TransactionStatus \<Rightarrow> LookupProvider" where
  "demo_query st = \<lparr>lp_findByIdempotencyKey = Some (\<lambda>_ _. Replied (Some
     \<lparr>fd_providerTransactionId = ''TX1'', fd_endToEndId = Some ''E1'', fd_status = st, fd_settledAt = None, fd_failure = None\<rparr>)),
     lp_get = None, lp_statement = None\<rparr>"

definition demo_mute :: LookupProvider where
  "demo_mute = \<lparr>lp_findByIdempotencyKey = Some (\<lambda>_ _. Replied None), lp_get = None, lp_statement = None\<rparr>"

definition demo_operation_draws :: OperationDraws where
  "demo_operation_draws = \<lparr>od_draws = demo_draws\<lparr>d_now := 30, d_holdTx := ''T4''\<rparr>, od_attemptAt = 31, od_resolvedAt = 32,
     od_exhaustedAt = 33, od_runId = ''R1'', od_breakId = ''B1''\<rparr>"

text \<open>C22: a transfer whose outcome was unknown is closed by the first final answer to an enquiry.  When the provider settled
  it, the amount stays off the available balance and transaction and operation are settled; when the provider failed or cancelled it,
  the balance is what it was before the transfer, to the last cent, and the operation is failed.  The provider was asked
  to pay exactly once in all.\<close>

theorem unknown_outcome_closed:
  assumes "requireAccount w (actor_environment actor) acct = Inr (account, pid)" "requireLedgerAccount account = Inr i" "ac_id account = acct"
    and "Money_fromJSON (dto_amount dto) = Inr money" "0 < mny_cents money" "mny_cents money \<le> bal_available (computeBalances a)"
    and "bp_supported (provider w)" "resolveDestination (dto_destination dto) = Inr destination"
    and "opid = or_else (actor_operationId actor) (d_operationId dr)"
    and "map_get (w_ledger w) (actor_environment actor) = Some s" "shadow_reachable s"
    and "mem_account s i = Some a" "la_code a = customerAvailableCode c"
    and "mem_findByIdempotencyKey s (''pix-out:'' @ opid) = None" "mem_findByIdempotencyKey s (''pix-out-settle:'' @ opid) = None"
      "mem_findByIdempotencyKey s (''pix-out-void:'' @ opid) = None"
    and "mem_findTransaction s (d_holdTx dr) = None" "d_holdTx dr \<noteq> []"
    and "tx_findByIdempotencyKey (w_transactions w) (actor_environment actor) opid = None"
      "map_get (t_rows (w_transactions w)) (d_transactionId dr) = None"
    and "bp_send (provider w) pid \<lparr>rq_key = opid, rq_amountCents = mny_cents money\<rparr> destination = Unknown m"
    and "providers (actor_connectionId actor) = Inr p" "lp_findByIdempotencyKey p = Some query"
      "query pid opid = Replied (Some found)"
    and "fd_status found = TransactionStatus.SETTLED \<or> fd_status found = TransactionStatus.FAILED \<or>
      fd_status found = TransactionStatus.CANCELLED" "d_now dr \<le> d_now (od_draws od)"
  shows "\<exists>r w1 row w2. send ports dr provider actor acct dto False w = (Inr r, w1) \<and>
     resolve_operation od providers (actor_environment actor) opid w1 = (Inr (Resolved (fd_status found) row), w2) \<and>
     tr_status row = fd_status found \<and> tr_amountCents row = mny_cents money \<and>
     map_get (t_rows (w_transactions w2)) (tr_id row) = Some row \<and>
     w_requests w2 = w_requests w @ [\<lparr>rq_key = opid, rq_amountCents = mny_cents money\<rparr>] \<and>
     ledger_available w2 (actor_environment actor) i =
       Some (bal_available (computeBalances a) - (if fd_status found = TransactionStatus.SETTLED then mny_cents money else 0)) \<and>
     map_option op_status (map_get (w_operations w2) opid) =
       Some (if fd_status found = TransactionStatus.SETTLED then OperationStatusValue.SETTLED else OperationStatusValue.FAILED)"
proof -
  have acc: "ac_findById (w_accounts w) (actor_environment actor) (ac_id account) = Some account"
    "truthy (ac_providerAccountId account) = Some pid"
    using assms(1,3) by (auto simp: requireAccount_def split: option.splits)
  have fin: "final_status found" using assms(25) by (auto simp: final_status_def answer_settles_def answer_fails_def)
  have key: "mem_findByIdempotencyKey s ((if answer_settles found then ''pix-out-settle:'' else ''pix-out-void:'') @ opid) = None"
    using assms(15,16) by simp
  obtain r w1 row w2 where out: "send_new ports dr actor account pid (provider w) dto destination opid (mny_cents money) w = (Inr r, w1)"
    "resolve_operation od providers (actor_environment actor) opid w1 = (Inr (Resolved (fd_status found) row), w2)"
    "tr_status row = fd_status found" "tr_amountCents row = mny_cents money"
    "map_get (t_rows (w_transactions w2)) (tr_id row) = Some row"
    "w_requests w2 = w_requests w @ [\<lparr>rq_key = opid, rq_amountCents = mny_cents money\<rparr>]"
    "ledger_available w2 (actor_environment actor) i =
       Some (bal_available (computeBalances a) - (if answer_settles found then mny_cents money else 0))"
    "map_option op_status (map_get (w_operations w2) opid) =
       Some (if answer_settles found then OperationStatusValue.SETTLED else OperationStatusValue.FAILED)"
    by (rule send_new_unknown_then_answered [where providers = providers and query = query and bound = "provider w", OF assms(2) refl assms(10-14) key assms(17,18,5,6,21,19,20) acc assms(22-24) fin assms(26)])
  have "send ports dr provider actor acct dto False w =
      send_new ports dr actor account pid (provider w) dto destination opid (mny_cents money) w"
    using assms(1,4,7,8,9) by (simp add: send_def Let_def)
  with out show ?thesis unfolding answer_settles_def by auto
qed

theorem unknown_outcome_closed_witness:
  "\<exists>r w1 row w2. send demo_ports demo_draws (\<lambda>_. demo_provider (Unknown ''timeout'')) demo_actor ''A1'' (demo_dto ''6000'') False demo_world =
       (Inr r, w1) \<and>
     resolve_operation demo_operation_draws (\<lambda>_. Inr (demo_query TransactionStatus.FAILED)) HOMOLOGACAO ''O1'' w1 =
       (Inr (Resolved TransactionStatus.FAILED row), w2) \<and> ledger_available w2 HOMOLOGACAO ''LA'' = Some 10000 \<and>
     map_option op_status (map_get (w_operations w2) ''O1'') = Some OperationStatusValue.FAILED"
proof -
  let ?a = "the (mem_account shadow_credited ''LA'')"
  have f: "mem_account shadow_credited ''LA'' \<noteq> None \<and> la_code ?a = customerAvailableCode ''c1'' \<and>
     mem_findByIdempotencyKey shadow_credited (''pix-out:'' @ ''O1'') = None \<and>
     mem_findByIdempotencyKey shadow_credited (''pix-out-settle:'' @ ''O1'') = None \<and>
     mem_findByIdempotencyKey shadow_credited (''pix-out-void:'' @ ''O1'') = None \<and>
     mem_findTransaction shadow_credited ''T2'' = None \<and> bal_available (computeBalances ?a) = 10000" by code_simp
  have a: "mem_account shadow_credited ''LA'' = Some ?a" using f by auto
  have acc: "requireAccount demo_world (actor_environment demo_actor) ''A1'' = Inr (demo_account, ''P1'')"
    "requireLedgerAccount demo_account = Inr ''LA''" "ac_id demo_account = ''A1''"
    by (code_simp, code_simp, code_simp)
  have m: "Money_fromJSON (dto_amount (demo_dto ''6000'')) = Inr \<lparr>mny_cents = 6000, mny_currency = BRL\<rparr>" by code_simp
  have d: "resolveDestination (dto_destination (demo_dto x)) = Inr (DestPixKey ''a@b.co'' EMAIL)" for x
    unfolding demo_dto_def by code_simp
  have e: "actor_environment demo_actor = HOMOLOGACAO" "''O1'' = or_else (actor_operationId demo_actor) (d_operationId demo_draws)"
    "map_get (w_ledger demo_world) (actor_environment demo_actor) = Some shadow_credited" "d_holdTx demo_draws = ''T2''"
    "tx_findByIdempotencyKey (w_transactions demo_world) (actor_environment demo_actor) ''O1'' = None"
    "map_get (t_rows (w_transactions demo_world)) (d_transactionId demo_draws) = None"
    by (simp_all add: demo_actor_def demo_draws_def demo_world_def tx_findByIdempotencyKey_def)
  note closed = unknown_outcome_closed [OF acc m, where ports = demo_ports and dr = demo_draws and opid = "''O1''" and s = shadow_credited
      and a = ?a and c = "''c1''" and destination = "DestPixKey ''a@b.co'' EMAIL" and provider = "\<lambda>_. demo_provider (Unknown ''timeout'')"
      and providers = "\<lambda>_. Inr (demo_query TransactionStatus.FAILED)" and p = "demo_query TransactionStatus.FAILED" and od = demo_operation_draws
      and found = "\<lparr>fd_providerTransactionId = ''TX1'', fd_endToEndId = Some ''E1'', fd_status = TransactionStatus.FAILED,
        fd_settledAt = None, fd_failure = None\<rparr>"]
  have p: "bp_supported (demo_provider r)" "bp_send (demo_provider r) pid rq dest = r"
    "lp_findByIdempotencyKey (demo_query st) = Some (\<lambda>_ _. Replied (Some
      \<lparr>fd_providerTransactionId = ''TX1'', fd_endToEndId = Some ''E1'', fd_status = st, fd_settledAt = None, fd_failure = None\<rparr>))"
    "d_now demo_draws \<le> d_now (od_draws demo_operation_draws)" for r pid rq dest st
    by (simp_all add: demo_provider_def demo_query_def demo_draws_def demo_operation_draws_def)
  have "\<exists>r w1 row w2. send demo_ports demo_draws (\<lambda>_. demo_provider (Unknown ''timeout'')) demo_actor ''A1'' (demo_dto ''6000'') False demo_world =
       (Inr r, w1) \<and>
     resolve_operation demo_operation_draws (\<lambda>_. Inr (demo_query TransactionStatus.FAILED)) HOMOLOGACAO ''O1'' w1 =
       (Inr (Resolved TransactionStatus.FAILED row), w2) \<and>
     ledger_available w2 HOMOLOGACAO ''LA'' = Some (bal_available (computeBalances ?a) - 0) \<and>
     map_option op_status (map_get (w_operations w2) ''O1'') = Some OperationStatusValue.FAILED"
    using closed [OF _ _ p(1) d e(2,3) shadow_demo_reachable(2) a _ _ _ _ _ _ e(5,6) p(2) refl p(3) refl _ p(4), unfolded e(1,4)] f
    by (simp del: map_option_eq_Some) blast
  then show ?thesis using f by (simp del: map_option_eq_Some)
qed

text \<open>When a webhook settles or releases the hold of a payment whose operation is still open, every later enquiry that gets a
  final answer fails: the ledger reports a hold that is no longer pending, because the webhook and the resolver do not share
  their keys.  The operation stays open, however often it is asked about.\<close>

theorem webhook_defeats_enquiries:
  assumes "cd_data d = TransactionData data" "findTransaction w ctx d data = Some row"
    and "inc = or_else (pe_status data) (pe_transitionTo data)"
      "inc = TransactionStatus.SETTLED \<or> inc = TransactionStatus.FAILED \<or> inc = TransactionStatus.CANCELLED"
    and "truthy (tr_ledgerPendingTransactionId row) = Some hold"
    and "map_get (w_ledger w) (cx_environment ctx) = Some s" "shadow_reachable s"
      "mem_findTransaction s hold = Some t" "tx_status t = LedgerTransactionStatus.PENDING"
    and "\<forall>k\<in>{''pix-out-settle:'', ''pix-out-void:''}. \<forall>i\<in>{tr_id row, op_id op}. mem_findByIdempotencyKey s (k @ i) = None"
    and "map_get (t_rows (w_transactions w)) (tr_id row) = Some row" "\<forall>(k, r)\<in>set (t_rows (w_transactions w)). k = tr_id r"
    and "op_findById (w_operations w) (cx_environment ctx) (op_id op) = Some op" "op_stuck op" "op_id op \<noteq> tr_id row"
      "tx_findByIdempotencyKey (w_transactions w) (cx_environment ctx) (op_providerIdempotencyKey op) = Some row"
    and "ac_findById (w_accounts w) (cx_environment ctx) (tr_accountId row) = Some account" "truthy (ac_providerAccountId account) = Some pid"
    and "providers (op_connectionId op) = Inr p" "lp_findByIdempotencyKey p = Some query"
      "query pid (op_providerIdempotencyKey op) = Replied (Some found)"
    and "fd_status found = TransactionStatus.SETTLED \<or> fd_status found = TransactionStatus.FAILED \<or>
      fd_status found = TransactionStatus.CANCELLED"
  shows "\<exists>out w1. applyDraft ports dr ctx d w = (Inr out, w1) \<and>
     (\<forall>ods od. let w2 = foldl (\<lambda>w od. snd (resolve_operation od providers (cx_environment ctx) (op_id op) w)) w1 ods in
        w_ledger w2 = w_ledger w1 \<and>
        (\<exists>op2. op_findById (w_operations w2) (cx_environment ctx) (op_id op) = Some op2 \<and> op_stuck op2) \<and>
        fst (resolve_operation od providers (cx_environment ctx) (op_id op) w2) =
          Inl (LedgerFailure (EngineError (LedgerValidationError (NotPending hold
            (if inc = TransactionStatus.SETTLED then LedgerTransactionStatus.POSTED else LedgerTransactionStatus.VOIDED))))))"
proof -
  let ?env = "cx_environment ctx" and ?i = "op_id op"
  let ?st = "if inc = TransactionStatus.SETTLED then LedgerTransactionStatus.POSTED else LedgerTransactionStatus.VOIDED"
  have ok: "ledger_ok s" using shadow_reachable_sound [OF assms(7)] ledger_reachable_ok by blast
  have keys: "mem_findByIdempotencyKey s (''pix-out-settle:'' @ tr_id row) = None" "mem_findByIdempotencyKey s (''pix-out-void:'' @ tr_id row) = None"
    "mem_findByIdempotencyKey s (''pix-out-settle:'' @ ?i) = None" "mem_findByIdempotencyKey s (''pix-out-void:'' @ ?i) = None"
    using assms(10) by blast+
  obtain posted s' t' where rh: "resolve_hold dr ctx row inc w = (Inr (Some posted), w\<lparr>w_ledger := map_set ?env s' (w_ledger w)\<rparr>)"
    "mem_findTransaction s' hold = Some t'" "tx_status t' = ?st"
    "mem_findByIdempotencyKey s' (''pix-out-settle:'' @ ?i) = None" "mem_findByIdempotencyKey s' (''pix-out-void:'' @ ?i) = None"
    using resolve_hold_final [OF assms(5,4,6) ok assms(8,9) keys(1,2), of dr thesis] keys(3,4) assms(15) by blast
  obtain out w1 row2 where ap: "applyTransaction ports dr ctx d data w = (Inr out, w1)" "w_ledger w1 = map_set ?env s' (w_ledger w)"
    "w_operations w1 = w_operations w" "w_accounts w1 = w_accounts w"
    "tx_findByIdempotencyKey (w_transactions w1) ?env (op_providerIdempotencyKey op) = Some row2"
    "tr_accountId row2 = tr_accountId row" "tr_ledgerPendingTransactionId row2 = tr_ledgerPendingTransactionId row"
    by (rule applyTransaction_keeps [OF assms(2,3) rh(1) _ assms(11,12,16)]) simp_all
  have fin: "final_status found" using assms(22) by (auto simp: final_status_def answer_settles_def answer_fails_def)
  have st: "?st \<noteq> LedgerTransactionStatus.PENDING" by simp
  have "defeated providers ?env ?i hold ?st found w1"
    unfolding defeated_def
    by (rule exI [of _ op], rule exI [of _ row2], rule exI [of _ account], rule exI [of _ pid], rule exI [of _ p],
        rule exI [of _ query], rule exI [of _ s'], rule exI [of _ t'])
      (simp only: ap assms(5,13,14,17-21) rh update_conv' fun_upd_same simp_thms)
  note d = defeated_for_ever [OF this fin st]
  have "applyDraft ports dr ctx d w = (Inr out, w1)" by (simp add: applyDraft_def assms(1) ap(1))
  moreover have "\<exists>op2. op_findById (w_operations w2) ?env ?i = Some op2 \<and> op_stuck op2" if "defeated providers ?env ?i hold ?st found w2" for w2
    using that unfolding defeated_def by blast
  ultimately show ?thesis using d defeated_step(1) [OF _ fin st] unfolding Let_def by blast
qed

definition shadow_held :: InMemoryLedgerStore where
  "shadow_held = projr (shadow_exec 3 ''T2'' demo_entry (\<lambda>n. if n = 0 then ''LE'' else ''LF'')
     (AuthorizeOut ''LA'' 6000 ''pix-out:O1'' (Some ''O1'')) shadow_credited)"

definition demo_processing :: TransactionRecord where
  "demo_processing = demo_original\<lparr>tr_id := ''X1'', tr_type := PIX_OUT, tr_direction := TransactionDirection.DEBIT,
     tr_status := TransactionStatus.PROCESSING, tr_amountCents := 6000, tr_netAmountCents := 6000, tr_idempotencyKey := Some ''O1'',
     tr_operationId := Some ''O1'', tr_settledAt := None, tr_ledgerPendingTransactionId := Some ''T2'',
     tr_ledgerPostedTransactionId := None\<rparr>"

definition demo_submitted :: OperationRecord where
  "demo_submitted = (unknown_operation demo_draws demo_actor demo_account ''O1'' 6000 ''X1'' ''timeout'')
     \<lparr>op_status := OperationStatusValue.SUBMITTED\<rparr>"

definition demo_open_world :: World where
  "demo_open_world = demo_world\<lparr>w_transactions := \<lparr>t_rows = [(''X1'', demo_processing)], t_statusHistory = []\<rparr>,
     w_operations := [(''O1'', demo_submitted)], w_ledger := [(HOMOLOGACAO, shadow_held)]\<rparr>"

definition demo_settlement :: CanonicalEventDraft where
  "demo_settlement = \<lparr>cd_type = PIX_OUT_SETTLED, cd_providerId = ''TX0'', cd_occurredAt = Some 19,
     cd_data = TransactionData (demo_payment\<lparr>pe_direction := Some Dir_out\<rparr>)\<rparr>"

theorem webhook_defeats_enquiries_witness:
  "\<exists>out w1. applyDraft demo_ports demo_draws (demo_context None) demo_settlement demo_open_world = (Inr out, w1) \<and>
     fst (resolve_operation demo_operation_draws (\<lambda>_. Inr (demo_query TransactionStatus.SETTLED)) HOMOLOGACAO ''O1''
         (snd (resolve_operation demo_operation_draws (\<lambda>_. Inr (demo_query TransactionStatus.SETTLED)) HOMOLOGACAO ''O1'' w1))) =
       Inl (LedgerFailure (EngineError (LedgerValidationError (NotPending ''T2'' LedgerTransactionStatus.POSTED))))"
proof -
  let ?t = "the (mem_findTransaction shadow_held ''T2'')"
  have held: "shadow_reachable shadow_held"
    unfolding shadow_held_def by (rule shadow_exec_projr [OF shadow_demo_reachable(2)]; code_simp)
  have f: "mem_findTransaction shadow_held ''T2'' \<noteq> None \<and> tx_status ?t = LedgerTransactionStatus.PENDING"
    "list_all (\<lambda>k. mem_findByIdempotencyKey shadow_held k = None) [''pix-out-settle:X1'', ''pix-out-settle:O1'', ''pix-out-void:X1'', ''pix-out-void:O1'']"
    by (code_simp, code_simp)
  have t: "mem_findTransaction shadow_held ''T2'' = Some ?t" using f(1) by auto
  have keys: "\<forall>k\<in>{''pix-out-settle:'', ''pix-out-void:''}. \<forall>i\<in>{tr_id demo_processing, op_id demo_submitted}.
      mem_findByIdempotencyKey shadow_held (k @ i) = None"
    using f(2) by (simp add: demo_processing_def demo_submitted_def unknown_operation_def)
  have c: "cx_environment (demo_context e) = HOMOLOGACAO" for e by (simp add: demo_context_def)
  have d: "cd_data demo_settlement = TransactionData (demo_payment\<lparr>pe_direction := Some Dir_out\<rparr>)"
    "findTransaction demo_open_world (demo_context None) demo_settlement (demo_payment\<lparr>pe_direction := Some Dir_out\<rparr>) = Some demo_processing"
    by (simp add: demo_settlement_def, code_simp)
  have i: "TransactionStatus.SETTLED = or_else (pe_status (demo_payment\<lparr>pe_direction := Some Dir_out\<rparr>))
      (pe_transitionTo (demo_payment\<lparr>pe_direction := Some Dir_out\<rparr>))"
    by (simp add: demo_payment_def)
  have w: "map_get (w_ledger demo_open_world) HOMOLOGACAO = Some shadow_held" "truthy (tr_ledgerPendingTransactionId demo_processing) = Some ''T2''"
    "map_get (t_rows (w_transactions demo_open_world)) (tr_id demo_processing) = Some demo_processing"
    "\<forall>(k, r)\<in>set (t_rows (w_transactions demo_open_world)). k = tr_id r" "op_id demo_submitted = ''O1''"
    "op_findById (w_operations demo_open_world) HOMOLOGACAO (op_id demo_submitted) = Some demo_submitted" "op_stuck demo_submitted"
    "op_id demo_submitted \<noteq> tr_id demo_processing"
    "tx_findByIdempotencyKey (w_transactions demo_open_world) HOMOLOGACAO (op_providerIdempotencyKey demo_submitted) = Some demo_processing"
    "ac_findById (w_accounts demo_open_world) HOMOLOGACAO (tr_accountId demo_processing) = Some demo_account"
    "truthy (ac_providerAccountId demo_account) = Some ''P1''"
    by (simp_all add: demo_open_world_def demo_world_def demo_processing_def demo_original_def demo_submitted_def unknown_operation_def
      demo_actor_def demo_account_def op_findById_def op_stuck_def tx_findByIdempotencyKey_def ac_findById_def map_values_def)
  have q: "lp_findByIdempotencyKey (demo_query st) = Some (\<lambda>_ _. Replied (Some
      \<lparr>fd_providerTransactionId = ''TX1'', fd_endToEndId = Some ''E1'', fd_status = st, fd_settledAt = None, fd_failure = None\<rparr>))" for st
    by (simp add: demo_query_def)
  note defeats = webhook_defeats_enquiries [where ctx = "demo_context None" and w = demo_open_world and ports = demo_ports and dr = demo_draws
      and providers = "\<lambda>_. Inr (demo_query TransactionStatus.SETTLED)" and op = demo_submitted, OF d i, unfolded c,
      OF disjI1 [OF refl] w(2,1) held t _ keys w(3,4,6-11) refl q refl, unfolded w(5)]
  obtain out w1 where out: "applyDraft demo_ports demo_draws (demo_context None) demo_settlement demo_open_world = (Inr out, w1)"
    and ever: "\<forall>ods od. let w2 = foldl (\<lambda>w od. snd (resolve_operation od (\<lambda>_. Inr (demo_query TransactionStatus.SETTLED)) HOMOLOGACAO ''O1'' w)) w1 ods in
        w_ledger w2 = w_ledger w1 \<and>
        (\<exists>op2. op_findById (w_operations w2) HOMOLOGACAO ''O1'' = Some op2 \<and> op_stuck op2) \<and>
        fst (resolve_operation od (\<lambda>_. Inr (demo_query TransactionStatus.SETTLED)) HOMOLOGACAO ''O1'' w2) =
          Inl (LedgerFailure (EngineError (LedgerValidationError (NotPending ''T2'' LedgerTransactionStatus.POSTED))))"
    using defeats f(1) by auto
  from spec [OF spec [OF ever, of "[demo_operation_draws]"], of demo_operation_draws] out show ?thesis by (auto simp: Let_def)
qed


text \<open>When the provider never has an answer, the ladder ends.  Its first six rungs each queue the next one, after the delay of
  that rung; the seventh queues nothing, marks the operation as failed and opens a critical break on the account.  After all
  seven the ledger, the transactions, the outbox and the requests to the provider are what they were: the hold stays.\<close>

theorem ladder_ends_in_a_break:
  assumes "op_findById (w_operations (ww_world lw)) env i = Some op" "op_id op = i" "op_stuck op" "op_environment op = env"
      "op_accountId op = Some acct" "acct \<noteq> []"
    and "tx_findByIdempotencyKey (w_transactions (ww_world lw)) env (op_providerIdempotencyKey op) = Some row"
    and "ac_findById (w_accounts (ww_world lw)) env (tr_accountId row) = Some account" "truthy (ac_providerAccountId account) = Some pid"
    and "providers (op_connectionId op) = Inr p" "lp_findByIdempotencyKey p \<noteq> None" "\<forall>op row. lookup_outcome p pid op row = None"
    and "map_get (ww_breaks lw) (ladder_key (po_effectiveDate ports (d_now (od_draws (od 6)))) (op_connectionId op) i) = None"
  shows "let lw' = foldl (\<lambda>lw step. snd (ladder_step ports (od step) providers env i step lw)) lw [0..<7] in
     same_money (ww_world lw) (ww_world lw') \<and>
     w_queue (ww_world lw') = w_queue (ww_world lw) @ map (\<lambda>step. rung_job env i (Suc step)) [0..<6] \<and>
     map_option op_status (op_findById (w_operations (ww_world lw')) env i) = Some OperationStatusValue.FAILED \<and>
     map_option (\<lambda>b. (bk_status b, bk_severity b, bk_accountId b)) (map_get (ww_breaks lw')
       (ladder_key (po_effectiveDate ports (d_now (od_draws (od 6)))) (op_connectionId op) i)) = Some (OPEN, CRITICAL, acct)"
proof -
  have u: "unanswered providers env i (op_connectionId op) acct (op_attempts op) (ww_world lw)"
    unfolding unanswered_def
    by (rule exI [of _ op], rule exI [of _ row], rule exI [of _ account], rule exI [of _ pid], rule exI [of _ p]) (use assms in simp)
  obtain w where w: "foldl (\<lambda>lw step. snd (ladder_step ports (od step) providers env i step lw)) lw [0..<6] = lw\<lparr>ww_world := w\<rparr>"
    "unanswered providers env i (op_connectionId op) acct (op_attempts op + 6) w" "same_money (ww_world lw) w"
    "w_queue w = w_queue (ww_world lw) @ map (\<lambda>step. rung_job env i (Suc step)) [0..<6]"
    using silent_run [OF u, of 6 ports od] by blast
  from w(2) have u6: "unanswered providers env i (op_connectionId op) acct (op_attempts op + 6) (ww_world (lw\<lparr>ww_world := w\<rparr>))" by simp
  have "map_get (ww_breaks (lw\<lparr>ww_world := w\<rparr>)) (ladder_key (po_effectiveDate ports (d_now (od_draws (od 6)))) (op_connectionId op) i) = None"
    using assms(13) by simp
  then obtain lw' b where e: "ladder_step ports (od 6) providers env i 6 (lw\<lparr>ww_world := w\<rparr>) = (Inr (), lw')"
    "same_money (ww_world (lw\<lparr>ww_world := w\<rparr>)) (ww_world lw')" "w_queue (ww_world lw') = w_queue (ww_world (lw\<lparr>ww_world := w\<rparr>))"
    "map_option op_status (op_findById (w_operations (ww_world lw')) env i) = Some OperationStatusValue.FAILED"
    "map_get (ww_breaks lw') (ladder_key (po_effectiveDate ports (d_now (od_draws (od 6)))) (op_connectionId op) i) = Some b"
    "bk_status b = OPEN" "bk_severity b = CRITICAL" "bk_accountId b = acct"
    by (rule exhausted_step [OF u6 assms(6), of ports "od 6"]) blast
  have "[0..<7] = [0..<6] @ [6::nat]" by (simp add: upt_rec)
  then have "foldl (\<lambda>lw step. snd (ladder_step ports (od step) providers env i step lw)) lw [0..<7] = lw'"
    by (simp only: foldl_append foldl.simps w(1) e(1) snd_conv)
  with w(3,4) e show ?thesis by (simp add: Let_def same_money_def)
qed

definition demo_ladder_world :: WorkerWorld where
  "demo_ladder_world = \<lparr>ww_world = demo_open_world, ww_runs = \<lparr>rn_runs = [], rn_items = [], rn_matches = [], rn_failures = []\<rparr>,
     ww_breaks = []\<rparr>"

theorem ladder_ends_in_a_break_witness:
  "let lw' = foldl (\<lambda>lw step. snd (ladder_step demo_ports demo_operation_draws (\<lambda>_. Inr demo_mute) HOMOLOGACAO ''O1'' step lw))
       demo_ladder_world [0..<7] in
     same_money demo_open_world (ww_world lw') \<and> length (w_queue (ww_world lw')) = 6 \<and>
     map_option op_status (op_findById (w_operations (ww_world lw')) HOMOLOGACAO ''O1'') = Some OperationStatusValue.FAILED"
proof -
  have w: "op_findById (w_operations (ww_world demo_ladder_world)) HOMOLOGACAO ''O1'' = Some demo_submitted" "op_id demo_submitted = ''O1''"
    "op_stuck demo_submitted" "op_environment demo_submitted = HOMOLOGACAO" "op_accountId demo_submitted = Some ''A1''" "''A1'' \<noteq> []"
    "tx_findByIdempotencyKey (w_transactions (ww_world demo_ladder_world)) HOMOLOGACAO (op_providerIdempotencyKey demo_submitted) =
       Some demo_processing"
    "ac_findById (w_accounts (ww_world demo_ladder_world)) HOMOLOGACAO (tr_accountId demo_processing) = Some demo_account"
    "truthy (ac_providerAccountId demo_account) = Some ''P1''"
    by (simp_all add: demo_ladder_world_def demo_open_world_def demo_world_def demo_processing_def demo_original_def demo_submitted_def
      unknown_operation_def demo_actor_def demo_account_def op_findById_def op_stuck_def tx_findByIdempotencyKey_def ac_findById_def map_values_def)
  have p: "lp_findByIdempotencyKey demo_mute \<noteq> None" "\<forall>op row. lookup_outcome demo_mute ''P1'' op row = None"
    by (simp_all add: demo_mute_def lookup_outcome_def byIdempotencyKey_def byEndToEndId_def byStatementScan_def coalesce_def)
  have x: "map_get (ww_breaks demo_ladder_world) k = None" "ww_world demo_ladder_world = demo_open_world" "w_queue demo_open_world = []" for k
    by (simp_all add: demo_ladder_world_def demo_open_world_def demo_world_def)
  show ?thesis
    using ladder_ends_in_a_break [where providers = "\<lambda>_. Inr demo_mute" and ports = demo_ports and od = "\<lambda>_. demo_operation_draws",
      OF w refl p x(1)] x(2,3) by (simp add: Let_def del: upt_rec_numeral)
qed

end
