(* ===== verification/Break_Resolution.thy ===== *)
theory Break_Resolution
  imports Operation_Resolver
begin

text \<open>
  Resolving a break by hand, \<open>src/apps/api/src/reconciliation/break-resolution.service.ts\<close>: the one way in which an operator moves
  money.  The break read is a copy, so what the audit line calls \<open>before\<close> is the state before.
\<close>

section \<open>Names\<close>

fun action_lower :: "ResolutionAction \<Rightarrow> string" where
  "action_lower ResolutionAction.IMPORT_FROM_PROVIDER = ''import_from_provider''"
| "action_lower ResolutionAction.MARK_PROVIDER_AUTHORITATIVE = ''mark_provider_authoritative''"
| "action_lower CREATE_LEDGER_ADJUSTMENT = ''create_ledger_adjustment''"
| "action_lower CANCEL_LOCAL_RECORD = ''cancel_local_record''"
| "action_lower MERGE_DUPLICATE = ''merge_duplicate''"
| "action_lower ResolutionAction.IGNORE_TIMING_DIFFERENCE = ''ignore_timing_difference''"
| "action_lower WRITE_OFF = ''write_off''"
| "action_lower ESCALATE_TO_PROVIDER = ''escalate_to_provider''"

fun action_name :: "ResolutionAction \<Rightarrow> string" where
  "action_name ResolutionAction.IMPORT_FROM_PROVIDER = ''IMPORT_FROM_PROVIDER''"
| "action_name ResolutionAction.MARK_PROVIDER_AUTHORITATIVE = ''MARK_PROVIDER_AUTHORITATIVE''"
| "action_name CREATE_LEDGER_ADJUSTMENT = ''CREATE_LEDGER_ADJUSTMENT''"
| "action_name CANCEL_LOCAL_RECORD = ''CANCEL_LOCAL_RECORD''"
| "action_name MERGE_DUPLICATE = ''MERGE_DUPLICATE''"
| "action_name ResolutionAction.IGNORE_TIMING_DIFFERENCE = ''IGNORE_TIMING_DIFFERENCE''"
| "action_name WRITE_OFF = ''WRITE_OFF''"
| "action_name ESCALATE_TO_PROVIDER = ''ESCALATE_TO_PROVIDER''"

fun break_status_name :: "BreakStatus \<Rightarrow> string" where
  "break_status_name OPEN = ''OPEN''"
| "break_status_name INVESTIGATING = ''INVESTIGATING''"
| "break_status_name RESOLVED = ''RESOLVED''"
| "break_status_name WRITTEN_OFF = ''WRITTEN_OFF''"
| "break_status_name AUTO_RESOLVED = ''AUTO_RESOLVED''"

section \<open>What and which way\<close>

record ResolveBreakInput =
  rs_environment :: Environment
  rs_breakId :: ident
  rs_action :: ResolutionAction
  rs_note :: string
  rs_resolvedBy :: string
  rs_assignTo :: "string option"

definition origin_item :: "'a StoredBreak_scheme \<Rightarrow> ident option" where
  "origin_item b =
     (if bk_type b = MISSING_ON_PROVIDER then truthy (bk_localItemId b)
      else if bk_type b = MISSING_ON_LOCAL \<or> bk_type b = MISSING_ON_LEDGER
      then truthy (coalesce (bk_providerItemId b) (bk_ledgerItemId b)) else None)"

definition item_delta :: "RunRepo \<Rightarrow> 'a StoredBreak_scheme \<Rightarrow> ServiceError + cents" where
  "item_delta runs b =
     (case origin_item b of
        None \<Rightarrow> Inl VALIDATION_ERROR
      | Some i \<Rightarrow>
          (case findItemById runs i of
             None \<Rightarrow> Inl VALIDATION_ERROR
           | Some item \<Rightarrow>
               (let toCustomer = (it_direction item = ''CREDIT'');
                    credits = (if bk_type b = MISSING_ON_PROVIDER then \<not> toCustomer else toCustomer) in
                Inr (if credits then it_amountCents item else - it_amountCents item))))"

definition signedDelta :: "RunRepo \<Rightarrow> 'a StoredBreak_scheme \<Rightarrow> ServiceError + cents" where
  "signedDelta runs b =
     (case bk_deltaCents b of
        Some d \<Rightarrow> if d \<noteq> 0 then Inr d else item_delta runs b
      | None \<Rightarrow> item_delta runs b)"

section \<open>Effects\<close>

definition postAdjustment :: "Draws \<Rightarrow> RunRepo \<Rightarrow> ResolveBreakInput \<Rightarrow> 'a StoredBreak_scheme \<Rightarrow> World \<Rightarrow> ident outcome" where
  "postAdjustment dr runs inp b w =
     (case signedDelta runs b of
        Inl e \<Rightarrow> (Inl e, w)
      | Inr delta \<Rightarrow>
        if bk_accountId b = [] \<or> delta = 0 then (Inl VALIDATION_ERROR, w)
        else
          (case (case ac_findById (w_accounts w) (rs_environment inp) (bk_accountId b) of
                   None \<Rightarrow> None | Some account \<Rightarrow> truthy (ac_ledgerAvailableAccountId account)) of
             None \<Rightarrow> (Inl VALIDATION_ERROR, w)
           | Some available \<Rightarrow>
               (case on_ledger (d_ledgerIds dr) (rs_environment inp)
                       (adjust (d_holdNow dr) (d_holdTx dr) (d_holdEntry dr) available (if delta < 0 then - delta else delta)
                          (if delta > 0 then EntryDirection.CREDIT else EntryDirection.DEBIT) (''recon-adjust:'' @ bk_id b)
                          (Some (bk_id b))) w of
                  (Inl e, w1) \<Rightarrow> (Inl e, w1)
                | (Inr posted, w1) \<Rightarrow> (Inr (tx_id (res_transaction posted)), w1))))"

definition cancel_change :: "instant \<Rightarrow> Environment \<Rightarrow> ident \<Rightarrow> TxStatusChange" where
  "cancel_change now env i =
     \<lparr>sc_environment = env, sc_transactionId = i, sc_toStatus = TransactionStatus.CANCELLED, sc_failureCode = None,
      sc_providerFailureCode = None, sc_failureMessage = None, sc_endToEndId = None, sc_settledAt = None,
      sc_ledgerPostedTransactionId = None, sc_occurredAt = now\<rparr>"

definition cancelLocalRecord :: "instant \<Rightarrow> RunRepo \<Rightarrow> ResolveBreakInput \<Rightarrow> 'a StoredBreak_scheme \<Rightarrow> World \<Rightarrow> unit outcome" where
  "cancelLocalRecord now runs inp b w =
     (case truthy (bk_localItemId b) of
        None \<Rightarrow> (Inl VALIDATION_ERROR, w)
      | Some i \<Rightarrow>
        (case (case findItemById runs i of None \<Rightarrow> None | Some item \<Rightarrow> truthy (it_externalId item)) of
           None \<Rightarrow> (Inl VALIDATION_ERROR, w)
         | Some txid \<Rightarrow>
             (case tx_applyStatusChange (cancel_change now (rs_environment inp) txid) None (w_transactions w, ()) of
                (Applied _, repo, _) \<Rightarrow> (Inr (), w\<lparr>w_transactions := repo\<rparr>)
              | (NotApplied _ _, repo, _) \<Rightarrow> (Inl VALIDATION_ERROR, w\<lparr>w_transactions := repo\<rparr>))))"

definition applyAction ::
  "Draws \<Rightarrow> RunRepo \<Rightarrow> ResolveBreakInput \<Rightarrow> 'a StoredBreak_scheme \<Rightarrow> World \<Rightarrow> (BreakStatus \<times> ident option \<times> string option) outcome" where
  "applyAction dr runs inp b w =
     (case rs_action inp of
        CREATE_LEDGER_ADJUSTMENT \<Rightarrow>
          (case postAdjustment dr runs inp b w of
             (Inl e, w1) \<Rightarrow> (Inl e, w1)
           | (Inr i, w1) \<Rightarrow> (Inr (RESOLVED, Some i, None), w1))
      | CANCEL_LOCAL_RECORD \<Rightarrow>
          (case cancelLocalRecord (d_now dr) runs inp b w of
             (Inl e, w1) \<Rightarrow> (Inl e, w1)
           | (Inr _, w1) \<Rightarrow> (Inr (RESOLVED, None, None), w1))
      | ESCALATE_TO_PROVIDER \<Rightarrow> (Inr (INVESTIGATING, None, rs_assignTo inp), w)
      | WRITE_OFF \<Rightarrow> (Inr (WRITTEN_OFF, None, None), w)
      | _ \<Rightarrow> (Inr (RESOLVED, None, None), w))"

section \<open>Resolving\<close>

definition resolution_audit ::
  "instant \<Rightarrow> ResolveBreakInput \<Rightarrow> StoredBreak \<Rightarrow> BreakStatus \<Rightarrow> ident option \<Rightarrow> AuditDraft" where
  "resolution_audit tm inp b status adjustment =
     \<lparr>au_environment = rs_environment inp, au_actorType = USER, au_actorId = Some (rs_resolvedBy inp), au_actorLabel = None,
      au_actorIp = None, au_action = ''reconciliation.break.'' @ action_lower (rs_action inp), au_outcome = SUCCESS,
      au_errorCode = None, au_resourceType = ''reconciliation_break'', au_resourceId = Some (bk_id b),
      au_connectionId = Some (bk_connectionId b), au_provider = None,
      au_before = Some [(''status'', Text (break_status_name (bk_status b))),
        (''resolution'', optional_text (map_option action_name (bk_resolution b)))],
      au_after = Some [(''status'', Text (break_status_name status)), (''resolution'', Text (action_name (rs_action inp))),
        (''adjustment_transaction_id'', optional_text adjustment)],
      au_changedFields = Some [''status'', ''resolution''], au_requestId = None, au_operationId = None, au_occurredAt = tm\<rparr>"

record ResolutionDraws =
  rl_draws :: Draws
  rl_closedAt :: instant
  rl_auditAt :: instant

definition resolve_break ::
  "ResolutionDraws \<Rightarrow> ResolveBreakInput \<Rightarrow> WorkerWorld \<Rightarrow> (ServiceError + StoredBreak) \<times> WorkerWorld" where
  "resolve_break rl inp ww =
     (case break_findById (ww_breaks ww) (rs_environment inp) (rs_breakId inp) of
        None \<Rightarrow> (Inl (RESOURCE_NOT_FOUND (rs_breakId inp)), ww)
      | Some b \<Rightarrow>
        if bk_status b = RESOLVED \<or> bk_status b = WRITTEN_OFF then (Inl (RESOURCE_ALREADY_EXISTS (bk_id b)), ww)
        else
          (case applyAction (rl_draws rl) (ww_runs ww) inp b (ww_world ww) of
             (Inl e, w1) \<Rightarrow> (Inl e, ww\<lparr>ww_world := w1\<rparr>)
           | (Inr (status, adjustment, assigned), w1) \<Rightarrow>
               (case resolveManually
                       \<lparr>mn_environment = rs_environment inp, mn_id = bk_id b, mn_status = status, mn_resolution = rs_action inp,
                        mn_note = rs_note inp, mn_resolvedBy = rs_resolvedBy inp, mn_adjustmentTransactionId = adjustment,
                        mn_assignedTo = assigned, mn_at = rl_closedAt rl\<rparr> (ww_breaks ww) of
                  (resolved, breaks) \<Rightarrow>
                    (let w2 = w1\<lparr>w_audit := audit_record (resolution_audit (rl_auditAt rl) inp b status adjustment) (w_audit w1)\<rparr>;
                         w3 = (if bk_accountId b = [] then w2 else invalidateBalance (rs_environment inp) (bk_accountId b) w2)
                     in (Inr (or_else resolved b), ww\<lparr>ww_world := w3, ww_breaks := breaks\<rparr>)))))"

end
