(* ===== verification/Break_Properties.thy ===== *)
theory Break_Properties
  imports Break_Resolution Webhook_Properties
begin

text \<open>
  What resolving a break does to money: the adjustment is exactly the signed difference, it is refused when the balance does
  not cover it, and a break pays for one adjustment only, however often it comes back.
\<close>

section \<open>The adjustment in the ledger\<close>

lemma adjust_exact:
  assumes "shadow_reachable s" and a: "mem_account s i = Some a" "la_code a = customerAvailableCode c"
    and k: "mem_findByIdempotencyKey s key = None" and v: "0 < v"
  shows "(\<exists>r s' a'. adjust now newTx eid i v EntryDirection.CREDIT key ref s = Inr (r, s') \<and> mem_account s' i = Some a' \<and>
      bal_available (computeBalances a') = bal_available (computeBalances a) + v)"
    and "if v \<le> bal_available (computeBalances a)
      then \<exists>r s' a'. adjust now newTx eid i v EntryDirection.DEBIT key ref s = Inr (r, s') \<and> mem_account s' i = Some a' \<and>
        bal_available (computeBalances a') = bal_available (computeBalances a) - v
      else adjust now newTx eid i v EntryDirection.DEBIT key ref s = Inl (INSUFFICIENT_FUNDS v (bal_available (computeBalances a)))"
proof -
  have ok: "ledger_ok s" "chart_ok s" using shadow_reachable_sound [OF assms(1)] ledger_reachable_ok by auto
  obtain ext b where ext: "externalId s = Inr ext" "mem_account s ext = Some b" "la_code b = EXTERNAL_WORLD"
    by (rule externalId_found [OF ok])
  have codes: "customerAvailableCode c \<noteq> EXTERNAL_WORLD" by (simp add: customerAvailableCode_def LEDGER_CODES)
  then have ne: "i \<noteq> ext" using a ext by auto
  have shape: "normalBalance a = NormalBalance.CREDIT" "allowsNegative b" "\<not> violatesOverdraftGuard a" "\<not> allowsNegative a"
    using ok a ext codes by (auto simp: chart_ok_def account_shape_def ledger_ok_def accounts_ok_def account_ok_def)
  have inv: "mem_inv s" using ok by (simp add: ledger_ok_def)
  let ?cr = "posting RECONCILIATION_ADJUSTMENT PostPhase.POSTED key ref None
      [leg ext EntryDirection.DEBIT v, leg i EntryDirection.CREDIT v] (Some now)"
  let ?db = "posting RECONCILIATION_ADJUSTMENT PostPhase.POSTED key ref None
      [leg i EntryDirection.DEBIT v, leg ext EntryDirection.CREDIT v] (Some now)"
  have inp: "in_entries ?cr = [leg ext EntryDirection.DEBIT v, leg i EntryDirection.CREDIT v]" "in_phase ?cr = PostPhase.POSTED"
    "in_idempotencyKey ?cr = key" "in_entries ?db = [leg i EntryDirection.DEBIT v, leg ext EntryDirection.CREDIT v]"
    "in_phase ?db = PostPhase.POSTED" "in_idempotencyKey ?db = key" by (simp_all add: posting_def)
  from credit_post [OF inv a(1) shape(3,1) ext(2) shape(2) ne _ v inp(1,2), of BRL now newTx eid] inp(3) k
  show "\<exists>r s' a'. adjust now newTx eid i v EntryDirection.CREDIT key ref s = Inr (r, s') \<and> mem_account s' i = Some a' \<and>
      bal_available (computeBalances a') = bal_available (computeBalances a) + v"
    by (auto simp: adjust_def ext shadow_post_def shadow_run_Inr credit_balances [OF shape(1)])
  from debit_post [OF inv a(1) shape(4,1) ext(2) shape(2) ne _ v inp(4), unfolded inp(6), OF k, of BRL now newTx eid]
  show "if v \<le> bal_available (computeBalances a)
      then \<exists>r s' a'. adjust now newTx eid i v EntryDirection.DEBIT key ref s = Inr (r, s') \<and> mem_account s' i = Some a' \<and>
        bal_available (computeBalances a') = bal_available (computeBalances a) - v
      else adjust now newTx eid i v EntryDirection.DEBIT key ref s = Inl (INSUFFICIENT_FUNDS v (bal_available (computeBalances a)))"
    by (auto simp: adjust_def ext shadow_post_def shadow_run_def debit_balances [OF shape(1)] split: if_splits)
qed

text \<open>What an adjustment leaves in the books under its key.\<close>

lemma adjust_recorded:
  assumes "adjust now newTx eid i v d key ref s = Inr (r, s')" "mem_findByIdempotencyKey s key = None"
  shows "mem_findTransaction s' (tx_id (res_transaction r)) = Some (res_transaction r)"
    "tx_type (res_transaction r) = RECONCILIATION_ADJUSTMENT" "tx_status (res_transaction r) = LedgerTransactionStatus.POSTED"
    "tx_idempotencyKey (res_transaction r) = key" "tx_externalRef (res_transaction r) = ref"
proof -
  obtain es ext where p: "post memoryStore BRL now newTx eid (posting RECONCILIATION_ADJUSTMENT PostPhase.POSTED key ref None es (Some now)) s = Inr (r, s')"
    using assms(1) by (cases "externalId s") (auto simp: adjust_def Let_def shadow_post_def shadow_run_Inr)
  show "mem_findTransaction s' (tx_id (res_transaction r)) = Some (res_transaction r)"
    "tx_type (res_transaction r) = RECONCILIATION_ADJUSTMENT" "tx_status (res_transaction r) = LedgerTransactionStatus.POSTED"
    "tx_idempotencyKey (res_transaction r) = key" "tx_externalRef (res_transaction r) = ref"
    using p assms(2)
    by (auto simp: store_simps posting_def post_transaction_def Let_def elim!: mem.post_newE)
qed

lemma adjust_posts:
  assumes "adjust now newTx eid i v d key ref s = Inr (r, s')"
  obtains inp where "post memoryStore BRL now newTx eid inp s = Inr (r, s')" "in_idempotencyKey inp = key" "in_id inp = None"
  using assms
  by (cases "externalId s")
    (auto simp: adjust_def Let_def shadow_post_def shadow_run_Inr posting_def intro!: that)

text \<open>Under a key the ledger has honoured, an adjustment of any amount in any direction replays the first one.\<close>

lemma adjust_replays:
  assumes "shadow_reachable s" "adjust now newTx eid i v d key ref s = Inr (r, s1)"
    and "mem_findByIdempotencyKey s key = None" "mem_findTransaction s newTx = None" "newTx \<noteq> []"
    and "ledger_step\<^sup>*\<^sup>* s1 s2" "externalId s2 = Inr ext"
  shows "\<exists>r'. adjust now' newTx' eid' i' v' d' key ref' s2 = Inr (r', s2)"
proof -
  obtain inp where p: "post memoryStore BRL now newTx eid inp s = Inr (r, s1)" "in_idempotencyKey inp = key" "in_id inp = None"
    by (rule adjust_posts [OF assms(2)])
  have reach: "ledger_reachable s" using shadow_reachable_sound [OF assms(1)] by blast
  have f: "mem_findByIdempotencyKey s (in_idempotencyKey inp) = None" "mem_findTransaction s (or_else (in_id inp) newTx) = None"
    "or_else (in_id inp) newTx \<noteq> []" using assms(3-5) p by simp_all
  have "\<exists>r'. post memoryStore BRL now' newTx' eid' inp' s2 = Inr (r', s2)" if "in_idempotencyKey inp' = key" for inp'
    using posting_key_kept [OF reach p(1) f assms(6), of inp' BRL now' newTx' eid'] that p(2) by auto
  then show ?thesis by (simp add: adjust_def assms(7) Let_def shadow_post_def shadow_run_Inr posting_def)
qed

section \<open>The break\<close>

lemma find_in: "List.find P xs = Some x \<Longrightarrow> x \<in> set xs \<and> P x"
  by (auto simp: find_Some_iff)

lemma find_set:
  assumes "distinct (map fst rows)" "List.find P rows = Some (k, row)" "P (k, row')"
  shows "List.find P (map_set k row' rows) = Some (k, row')"
  using assms by (induction rows) (fastforce split: if_splits dest: find_in)+

definition closed :: "'a StoredBreak_scheme \<Rightarrow> bool" where
  "closed b \<longleftrightarrow> bk_status b = RESOLVED \<or> bk_status b = WRITTEN_OFF"

definition manually_resolved ::
  "ResolutionDraws \<Rightarrow> ResolveBreakInput \<Rightarrow> BreakStatus \<Rightarrow> ident option \<Rightarrow> string option \<Rightarrow> StoredBreak \<Rightarrow> StoredBreak" where
  "manually_resolved rl inp status adjustment assigned b = b\<lparr>bk_status := status, bk_resolution := Some (rs_action inp),
     bk_resolutionNote := Some (rs_note inp), bk_resolvedBy := Some (rs_resolvedBy inp), bk_resolvedAt := Some (rl_closedAt rl),
     bk_adjustmentTransactionId := adjustment, bk_assignedTo := assigned\<rparr>"

lemma resolve_break_applies:
  assumes b: "find_break (ww_breaks ww) (rs_environment inp) (rs_breakId inp) = Some (k, b)" and "\<not> closed b"
    and act: "applyAction (rl_draws rl) (ww_runs ww) inp b (ww_world ww) = (Inr (status, adjustment, assigned), w1)"
  obtains ww' where "resolve_break rl inp ww = (Inr (manually_resolved rl inp status adjustment assigned b), ww')"
    "ww_breaks ww' = map_set k (manually_resolved rl inp status adjustment assigned b) (ww_breaks ww)"
    "w_ledger (ww_world ww') = w_ledger w1" "w_transactions (ww_world ww') = w_transactions w1"
    "w_audit (ww_world ww') = w_audit w1 @ [resolution_audit (rl_auditAt rl) inp b status adjustment]"
proof -
  let ?b = "manually_resolved rl inp status adjustment assigned b"
  let ?w2 = "w1\<lparr>w_audit := audit_record (resolution_audit (rl_auditAt rl) inp b status adjustment) (w_audit w1)\<rparr>"
  let ?w3 = "if bk_accountId b = [] then ?w2 else invalidateBalance (rs_environment inp) (bk_accountId b) ?w2"
  have id: "bk_id b = rs_breakId inp" using b by (auto simp: find_break_def find_Some_iff)
  have "resolve_break rl inp ww = (Inr ?b, ww\<lparr>ww_world := ?w3, ww_breaks := map_set k ?b (ww_breaks ww)\<rparr>)"
    using assms(2) by (simp add: resolve_break_def break_findById_def b act closed_def resolveManually_def id manually_resolved_def Let_def)
  then show thesis by (rule that) (simp_all add: invalidateBalance_def audit_record_def)
qed

lemma resolved_twice:
  assumes "distinct (map fst (ww_breaks ww))" "find_break (ww_breaks ww) env i = Some (k, b)"
    and "ww_breaks ww' = map_set k (manually_resolved rl inp RESOLVED adjustment assigned b) (ww_breaks ww)"
    and "rs_environment inp' = env" "rs_breakId inp' = i"
  shows "resolve_break rl' inp' ww' = (Inl (RESOURCE_ALREADY_EXISTS i), ww')"
proof -
  let ?b = "manually_resolved rl inp RESOLVED adjustment assigned b"
  have kept: "bk_id ?b = bk_id b" "bk_environment ?b = bk_environment b" "bk_status ?b = RESOLVED" by (simp_all add: manually_resolved_def)
  have id: "bk_id b = i" "bk_environment b = env" using assms(2) by (auto simp: find_break_def find_Some_iff)
  have "find_break (ww_breaks ww') env i = Some (k, ?b)"
    using find_set [OF assms(1) assms(2) [unfolded find_break_def], of ?b] kept id by (simp add: find_break_def assms(3))
  then show ?thesis using kept id assms(4,5) by (simp add: resolve_break_def break_findById_def)
qed

section \<open>What a break owes\<close>

text \<open>The signed correction a break calls for, provider minus us.  A difference that was measured is the correction.  Without one, an item
  the provider does not have is undone, and an item only the provider has, or the ledger lacks, is applied the way it went.\<close>

definition went :: "ReconciliationItemRow \<Rightarrow> cents" where
  "went item = (if it_direction item = ''CREDIT'' then it_amountCents item else - it_amountCents item)"

definition owed :: "RunRepo \<Rightarrow> 'a StoredBreak_scheme \<Rightarrow> cents \<Rightarrow> bool" where
  "owed runs b d \<longleftrightarrow>
     (if \<exists>m. bk_deltaCents b = Some m \<and> m \<noteq> 0 then bk_deltaCents b = Some d
      else \<exists>i item. i \<noteq> [] \<and> findItemById runs i = Some item \<and>
        ((bk_type b = MISSING_ON_PROVIDER \<and> bk_localItemId b = Some i \<and> d = - went item) \<or>
         ((bk_type b = MISSING_ON_LOCAL \<or> bk_type b = MISSING_ON_LEDGER) \<and>
          (bk_providerItemId b = Some i \<or> bk_providerItemId b = None \<and> bk_ledgerItemId b = Some i) \<and> d = went item)))"

lemma origin_item_Some:
  "origin_item b = Some i \<longleftrightarrow> i \<noteq> [] \<and>
     (bk_type b = MISSING_ON_PROVIDER \<and> bk_localItemId b = Some i \<or>
      (bk_type b = MISSING_ON_LOCAL \<or> bk_type b = MISSING_ON_LEDGER) \<and>
      (bk_providerItemId b = Some i \<or> bk_providerItemId b = None \<and> bk_ledgerItemId b = Some i))"
  by (cases "bk_providerItemId b") (auto simp: origin_item_def coalesce_def)

lemma item_delta_Inr:
  "item_delta runs b = Inr d \<longleftrightarrow> (\<exists>i item. origin_item b = Some i \<and> findItemById runs i = Some item \<and>
     d = (if bk_type b = MISSING_ON_PROVIDER then - went item else went item))"
  by (cases "origin_item b"; cases "findItemById runs (the (origin_item b))") (auto simp: item_delta_def went_def Let_def)

lemma owed_item:
  assumes "\<not> (\<exists>m. bk_deltaCents b = Some m \<and> m \<noteq> 0)"
  shows "owed runs b d \<longleftrightarrow> item_delta runs b = Inr d"
  unfolding owed_def item_delta_Inr origin_item_Some if_not_P [OF assms] by (rule ex_cong1, rule ex_cong1) auto

lemma signedDelta_owed: "signedDelta runs b = Inr d \<longleftrightarrow> owed runs b d"
proof (cases "\<exists>m. bk_deltaCents b = Some m \<and> m \<noteq> 0")
  case True
  then show ?thesis by (auto simp: signedDelta_def owed_def)
next
  case False
  then have "signedDelta runs b = item_delta runs b" by (auto simp: signedDelta_def split: option.split)
  then show ?thesis by (simp add: owed_item [OF False])
qed

section \<open>Properties\<close>

text \<open>The adjustment an operator posts: what is owed, on the customer's available account, under the key of the break.\<close>

lemma adjustment_posted:
  assumes "owed runs b delta" "delta \<noteq> 0" "bk_accountId b \<noteq> []"
    and "ac_findById (w_accounts w) (rs_environment inp) (bk_accountId b) = Some account" "truthy (ac_ledgerAvailableAccountId account) = Some i"
    and "map_get (w_ledger w) (rs_environment inp) = Some s"
  shows "postAdjustment dr runs inp b w =
      (case adjust (d_holdNow dr) (d_holdTx dr) (d_holdEntry dr) i (if delta < 0 then - delta else delta)
          (if delta > 0 then EntryDirection.CREDIT else EntryDirection.DEBIT) (''recon-adjust:'' @ bk_id b) (Some (bk_id b)) s of
         Inl e \<Rightarrow> (Inl (LedgerFailure e), w)
       | Inr (r, s') \<Rightarrow> (Inr (tx_id (res_transaction r)), w\<lparr>w_ledger := map_set (rs_environment inp) s' (w_ledger w)\<rparr>))"
proof -
  have "signedDelta runs b = Inr delta" using assms(1) by (simp add: signedDelta_owed)
  then show ?thesis
    using assms(2-6) by (simp add: postAdjustment_def on_ledger_present [OF assms(6)] split: sum.split del: append_Cons append_Nil)
qed


definition demo_break_row :: "ident \<Rightarrow> cents \<Rightarrow> BreakUpsertRow" where
  "demo_break_row run delta = \<lparr>bk_id = ''B1'', bk_environment = HOMOLOGACAO, bk_runId = run, bk_connectionId = ''C1'', bk_accountId = ''A1'',
     bk_type = AMOUNT_MISMATCH, bk_severity = CRITICAL, bk_dedupeKey = ''e2e:E1'', bk_effectiveDate = ''2024-01-02'',
     bk_endToEndId = Some ''E1'', bk_amountCents = Some 500, bk_deltaCents = Some delta, bk_providerItemId = Some ''p1'',
     bk_localItemId = Some ''l1'', bk_ledgerItemId = None, bk_description = ''x'', bk_evidence = []\<rparr>"

definition demo_breaks :: "ident \<Rightarrow> cents \<Rightarrow> WorkerWorld \<Rightarrow> WorkerWorld" where
  "demo_breaks run delta ww = ww\<lparr>ww_breaks := snd (upsert_break 5 (demo_break_row run delta) (ww_breaks ww))\<rparr>"

definition demo_desk :: WorkerWorld where
  "demo_desk = \<lparr>ww_world = demo_world, ww_runs = \<lparr>rn_runs = [], rn_items = [], rn_matches = [], rn_failures = []\<rparr>, ww_breaks = []\<rparr>"

definition demo_decision :: ResolveBreakInput where
  "demo_decision = \<lparr>rs_environment = HOMOLOGACAO, rs_breakId = ''B1'', rs_action = CREATE_LEDGER_ADJUSTMENT, rs_note = ''n'',
     rs_resolvedBy = ''op'', rs_assignTo = None\<rparr>"

definition demo_resolution_draws :: ResolutionDraws where
  "demo_resolution_draws = \<lparr>rl_draws = demo_draws, rl_closedAt = 7, rl_auditAt = 8\<rparr>"

definition demo_open_break :: "ident \<Rightarrow> cents \<Rightarrow> StoredBreak" where
  "demo_open_break run delta = new_break (demo_break_row run delta) 5"

lemma demo_desk_facts:
  "ww_breaks (demo_breaks ''R1'' d demo_desk) = [(break_key (demo_break_row ''R1'' d), demo_open_break ''R1'' d)]"
  "ww_world (demo_breaks r d demo_desk) = demo_world" "ww_runs (demo_breaks r d ww) = ww_runs ww"
  "bk_id (demo_open_break r d) = ''B1''" "bk_environment (demo_open_break r d) = HOMOLOGACAO" "bk_status (demo_open_break r d) = OPEN"
  "bk_deltaCents (demo_open_break r d) = Some d" "bk_accountId (demo_open_break r d) = ''A1''"
  by (simp_all add: demo_breaks_def demo_desk_def upsert_break_def demo_open_break_def new_break_def BreakUpsertRow.defs demo_break_row_def)


lemma map_set_same: "map_get m k = Some v \<Longrightarrow> map_set k v m = m"
  by (induction m) (auto split: if_splits)

text \<open>An adjustment is posted once in the life of a break.  When a later run opens the break again, with any difference, and an
  operator adjusts it again, the key of the break replays the first posting: the break is closed as resolved and nothing
  moves in the ledger, whatever happened in it in between.\<close>

theorem reopened_break_never_adjusted_again:
  assumes "find_break (ww_breaks ww) env i = Some (k, b)" "rs_environment inp = env" "rs_breakId inp = i"
    and "rs_action inp = CREATE_LEDGER_ADJUSTMENT" "resolve_break rl inp ww = (Inr b1, ww1)"
    and "map_get (w_ledger (ww_world ww)) env = Some s" "shadow_reachable s"
      "mem_findByIdempotencyKey s (''recon-adjust:'' @ i) = None"
      "mem_findTransaction s (d_holdTx (rl_draws rl)) = None" "d_holdTx (rl_draws rl) \<noteq> []"
    and "map_get (w_ledger (ww_world ww1)) env = Some s1" "ledger_step\<^sup>*\<^sup>* s1 s2"
    and "map_get (w_ledger (ww_world ww2)) env = Some s2" "shadow_reachable s2"
    and "find_break (ww_breaks ww2) env i = Some (k2, b2)" "bk_status b2 \<noteq> RESOLVED" "bk_status b2 \<noteq> WRITTEN_OFF"
    and "rs_environment inp2 = env" "rs_breakId inp2 = i" "rs_action inp2 = CREATE_LEDGER_ADJUSTMENT"
    and "signedDelta (ww_runs ww2) b2 = Inr delta" "delta \<noteq> 0" "bk_accountId b2 \<noteq> []"
    and "ac_findById (w_accounts (ww_world ww2)) env (bk_accountId b2) = Some account"
      "truthy (ac_ledgerAvailableAccountId account) = Some j"
  shows "\<exists>b3 ww3. resolve_break rl2 inp2 ww2 = (Inr b3, ww3) \<and> bk_status b3 = RESOLVED \<and>
     w_ledger (ww_world ww3) = w_ledger (ww_world ww2)"
proof -
  let ?key = "''recon-adjust:'' @ i"
  have ids: "bk_id b = i" "bk_id b2 = i" using assms(1,15) by (auto simp: find_break_def dest: find_in)
  have open_b: "\<not> closed b" using assms(1-3,5) by (auto simp: resolve_break_def break_findById_def closed_def split: if_splits)
  obtain r d v avail where first: "adjust (d_holdNow (rl_draws rl)) (d_holdTx (rl_draws rl)) (d_holdEntry (rl_draws rl)) avail v d ?key (Some i) s =
      Inr (r, s1)"
  proof -
    obtain status adj assigned w1 where act: "applyAction (rl_draws rl) (ww_runs ww) inp b (ww_world ww) = (Inr (status, adj, assigned), w1)"
      using assms(1-3,5) open_b
      by (auto simp: resolve_break_def break_findById_def closed_def split: prod.splits sum.splits)
    obtain ww' where "resolve_break rl inp ww = (Inr (manually_resolved rl inp status adj assigned b), ww')" "w_ledger (ww_world ww') = w_ledger w1"
      by (rule resolve_break_applies [OF _ open_b act]) (use assms(1-3) in auto)
    then have "map_get (w_ledger w1) env = Some s1" using assms(5,11) by simp
    with act assms(2,4) ids(1) that show thesis
      by (auto simp: applyAction_def postAdjustment_def on_ledger_present [OF assms(6)] update_conv' simp del: append_Cons append_Nil
          split: prod.splits sum.splits if_splits option.splits)
  qed
  have ok2: "ledger_ok s2" "chart_ok s2" using shadow_reachable_sound [OF assms(14)] ledger_reachable_ok by auto
  obtain ext b0 where ext: "externalId s2 = Inr ext" "mem_account s2 ext = Some b0" by (rule externalId_found [OF ok2])
  let ?w2 = "ww_world ww2" and ?dr = "rl_draws rl2"
  obtain r' where again: "adjust (d_holdNow ?dr) (d_holdTx ?dr) (d_holdEntry ?dr) j (if delta < 0 then - delta else delta)
      (if delta > 0 then EntryDirection.CREDIT else EntryDirection.DEBIT) ?key (Some i) s2 = Inr (r', s2)"
    using adjust_replays [OF assms(7) first assms(8-10,12) ext(1)] by blast
  have same: "?w2\<lparr>w_ledger := map_set env s2 (w_ledger ?w2)\<rparr> = ?w2" using map_set_same [OF assms(13)] by simp
  have act2: "applyAction ?dr (ww_runs ww2) inp2 b2 ?w2 = (Inr (RESOLVED, Some (tx_id (res_transaction r')), None), ?w2)"
    using again assms(18,20-25) ids(2) same
    by (simp add: applyAction_def postAdjustment_def on_ledger_present [OF assms(13)] del: append_Cons append_Nil)
  have open2: "\<not> closed b2" using assms(16,17) by (simp add: closed_def)
  obtain ww3 where "resolve_break rl2 inp2 ww2 = (Inr (manually_resolved rl2 inp2 RESOLVED (Some (tx_id (res_transaction r'))) None b2), ww3)"
    "w_ledger (ww_world ww3) = w_ledger ?w2"
    by (rule resolve_break_applies [OF _ open2 act2]) (use assms(15,18,19) in auto)
  then show ?thesis by (auto simp: manually_resolved_def)
qed

definition demo_adjusted :: InMemoryLedgerStore where
  "demo_adjusted = projr (shadow_exec 11 ''T2'' demo_entry (\<lambda>n. if n = 0 then ''LE'' else ''LF'')
     (Adjust ''LA'' 4000 EntryDirection.DEBIT ''recon-adjust:B1'' (Some ''B1'')) shadow_credited)"

theorem reopened_break_never_adjusted_again_witness:
  "\<exists>b1 ww1 b3 ww3. resolve_break demo_resolution_draws demo_decision (demo_breaks ''R1'' (-4000) demo_desk) = (Inr b1, ww1) \<and>
     resolve_break demo_resolution_draws demo_decision (demo_breaks ''R2'' (-2500) ww1) = (Inr b3, ww3) \<and>
     bk_status b3 = RESOLVED \<and> w_ledger (ww_world ww3) = w_ledger (ww_world ww1)"
proof -
  let ?ww = "demo_breaks ''R1'' (-4000) demo_desk" and ?b = "demo_open_break ''R1'' (-4000)" and ?row = "demo_break_row ''R1'' (-4000)"
  have reach: "shadow_reachable demo_adjusted"
    unfolding demo_adjusted_def by (rule shadow_exec_projr [OF shadow_demo_reachable(2)]; code_simp)
  have "isl (shadow_exec 11 ''T2'' demo_entry (\<lambda>n. if n = 0 then ''LE'' else ''LF'')
     (Adjust ''LA'' 4000 EntryDirection.DEBIT ''recon-adjust:B1'' (Some ''B1'')) shadow_credited) = False" by code_simp
  then obtain r where adj: "adjust 11 ''T2'' demo_entry ''LA'' 4000 EntryDirection.DEBIT ''recon-adjust:B1'' (Some ''B1'') shadow_credited =
      Inr (r, demo_adjusted)"
    by (cases "adjust 11 ''T2'' demo_entry ''LA'' 4000 EntryDirection.DEBIT ''recon-adjust:B1'' (Some ''B1'') shadow_credited")
      (auto simp: demo_adjusted_def)
  have f: "mem_findByIdempotencyKey shadow_credited ''recon-adjust:B1'' = None" "mem_findTransaction shadow_credited ''T2'' = None"
    by (code_simp, code_simp)
  have d: "rs_environment demo_decision = HOMOLOGACAO" "rs_breakId demo_decision = ''B1''" "rs_action demo_decision = CREATE_LEDGER_ADJUSTMENT"
    "d_holdTx (rl_draws demo_resolution_draws) = ''T2''" "d_holdNow (rl_draws demo_resolution_draws) = 11"
    "d_holdEntry (rl_draws demo_resolution_draws) = demo_entry"
    by (simp_all add: demo_decision_def demo_resolution_draws_def demo_draws_def)
  have w: "ac_findById (w_accounts demo_world) HOMOLOGACAO ''A1'' = Some demo_account"
    "truthy (ac_ledgerAvailableAccountId demo_account) = Some ''LA''" "map_get (w_ledger demo_world) HOMOLOGACAO = Some shadow_credited"
    by (simp_all add: demo_world_def demo_account_def ac_findById_def)
  have find: "find_break (ww_breaks ?ww) HOMOLOGACAO ''B1'' = Some (break_key ?row, ?b)"
    by (simp add: find_break_def demo_desk_facts)
  have act: "applyAction (rl_draws demo_resolution_draws) (ww_runs ?ww) demo_decision ?b (ww_world ?ww) =
      (Inr (RESOLVED, Some (tx_id (res_transaction r)), None), demo_world\<lparr>w_ledger := map_set HOMOLOGACAO demo_adjusted (w_ledger demo_world)\<rparr>)"
    using adj by (simp add: applyAction_def postAdjustment_def signedDelta_def demo_desk_facts d w on_ledger_present [OF w(3)])
  have open_b: "\<not> closed ?b" by (simp add: closed_def demo_desk_facts)
  let ?b1 = "manually_resolved demo_resolution_draws demo_decision RESOLVED (Some (tx_id (res_transaction r))) None ?b"
  obtain ww1 where ww1: "resolve_break demo_resolution_draws demo_decision ?ww = (Inr ?b1, ww1)"
    "ww_breaks ww1 = map_set (break_key ?row) ?b1 (ww_breaks ?ww)"
    "w_ledger (ww_world ww1) = map_set HOMOLOGACAO demo_adjusted (w_ledger demo_world)"
    "w_accounts (ww_world ww1) = w_accounts demo_world"
    using find open_b act
    by (simp add: resolve_break_def break_findById_def closed_def resolveManually_def d demo_desk_facts manually_resolved_def Let_def
        invalidateBalance_def)
  let ?ww2 = "demo_breaks ''R2'' (-2500) ww1" and ?b2 = "seen_again (demo_break_row ''R2'' (-2500)) 5 ?b1"
  have k: "break_key (demo_break_row ''R2'' (-2500)) = break_key ?row" by (simp add: break_key_def demo_break_row_def)
  have "ww_breaks ww1 = [(break_key ?row, ?b1)]" by (simp add: ww1(2) demo_desk_facts(1))
  then have breaks: "ww_breaks ?ww2 = [(break_key ?row, ?b2)]" by (simp add: demo_breaks_def upsert_break_def k)
  have b2: "bk_id ?b2 = ''B1''" "bk_environment ?b2 = HOMOLOGACAO" "bk_status ?b2 = OPEN" "bk_deltaCents ?b2 = Some (-2500)"
    "bk_accountId ?b2 = ''A1''"
    using demo_desk_facts(4,5,8) by (simp_all add: seen_again_def manually_resolved_def demo_break_row_def)
  have w2: "ww_world ?ww2 = ww_world ww1" by (simp add: demo_breaks_def)
  have find2: "find_break (ww_breaks ?ww2) HOMOLOGACAO ''B1'' = Some (break_key ?row, ?b2)" by (simp add: find_break_def breaks b2)
  have L: "map_get (w_ledger (ww_world ww1)) HOMOLOGACAO = Some demo_adjusted" by (simp add: ww1(3) update_conv')
  obtain b3 ww3 where "resolve_break demo_resolution_draws demo_decision ?ww2 = (Inr b3, ww3)" "bk_status b3 = RESOLVED"
    "w_ledger (ww_world ww3) = w_ledger (ww_world ?ww2)"
    using reopened_break_never_adjusted_again [OF find d(1,2,3) ww1(1) _ shadow_demo_reachable(2) _ _ _ L rtranclp.rtrancl_refl _ reach find2 _ _ d(1,2,3),
        where delta = "-2500" and account = demo_account and j = "''LA''" and ?rl2.0 = demo_resolution_draws] f w b2 d L w2
    by (auto simp: demo_desk_facts signedDelta_def ww1(4) split: prod.splits)
  with ww1(1) w2 show ?thesis by auto
qed

end
