(* ===== verification/Worker_Reconciliation.thy ===== *)
theory Worker_Reconciliation
  imports Operation_Resolver Recon_Passes
begin

text \<open>
  The reconciliation worker: the normalizers of \<open>src/apps/worker/src/reconciliation/normalizers.ts\<close>, the service that
  executes a run, \<open>reconciliation.service.ts\<close>, the service that carries out what the engine proposes,
  \<open>auto-resolution.service.ts\<close>, and the sweep that creates the runs, \<open>reconciliation-sweep.service.ts\<close>.

  The engine is \<open>reconcile\<close> of \<open>Recon_Passes\<close>.  The bound provider is a parameter, so are SHA-256, \<open>localeCompare\<close>,
  the operations of the bank calendar (\<open>Business_Calendar\<close> models them) and the time zone database.  What a run
  draws, readings of the clock and new identifiers, is the record \<open>RunDraws\<close>.  Metrics and logs have no state here.
\<close>

section \<open>Normalizers\<close>

definition RECONCILIATION_STATUSES :: "TransactionStatus list" where
  "RECONCILIATION_STATUSES =
     [TransactionStatus.PENDING, TransactionStatus.PROCESSING, TransactionStatus.UNKNOWN, TransactionStatus.SETTLED,
      TransactionStatus.REVERSED, TransactionStatus.PARTIALLY_REVERSED]"

fun mirrorsProviderMovement :: "LedgerTransactionType \<Rightarrow> bool" where
  "mirrorsProviderMovement PIX_IN_RECEIVE = True"
| "mirrorsProviderMovement PIX_OUT_SETTLE = True"
| "mirrorsProviderMovement LedgerTransactionType.PIX_REFUND_IN = True"
| "mirrorsProviderMovement LedgerTransactionType.PIX_REFUND_OUT = True"
| "mirrorsProviderMovement FEE_CHARGE = True"
| "mirrorsProviderMovement LedgerTransactionType.FEE_REVERSAL = True"
| "mirrorsProviderMovement _ = False"

fun transaction_type_name :: "TransactionType \<Rightarrow> string" where
  "transaction_type_name PIX_IN = ''PIX_IN''"
| "transaction_type_name PIX_OUT = ''PIX_OUT''"
| "transaction_type_name TransactionType.PIX_REFUND_IN = ''PIX_REFUND_IN''"
| "transaction_type_name TransactionType.PIX_REFUND_OUT = ''PIX_REFUND_OUT''"
| "transaction_type_name INTERNAL_TRANSFER_IN = ''INTERNAL_TRANSFER_IN''"
| "transaction_type_name INTERNAL_TRANSFER_OUT = ''INTERNAL_TRANSFER_OUT''"
| "transaction_type_name FEE = ''FEE''"
| "transaction_type_name TransactionType.FEE_REVERSAL = ''FEE_REVERSAL''"
| "transaction_type_name ADJUSTMENT_CREDIT = ''ADJUSTMENT_CREDIT''"
| "transaction_type_name ADJUSTMENT_DEBIT = ''ADJUSTMENT_DEBIT''"
| "transaction_type_name BLOCK = ''BLOCK''"
| "transaction_type_name UNBLOCK = ''UNBLOCK''"

fun ledger_type_name :: "LedgerTransactionType \<Rightarrow> string" where
  "ledger_type_name PIX_OUT_AUTHORIZE = ''PIX_OUT_AUTHORIZE''"
| "ledger_type_name PIX_OUT_SETTLE = ''PIX_OUT_SETTLE''"
| "ledger_type_name PIX_OUT_VOID = ''PIX_OUT_VOID''"
| "ledger_type_name PIX_IN_RECEIVE = ''PIX_IN_RECEIVE''"
| "ledger_type_name LedgerTransactionType.PIX_REFUND_OUT = ''PIX_REFUND_OUT''"
| "ledger_type_name LedgerTransactionType.PIX_REFUND_IN = ''PIX_REFUND_IN''"
| "ledger_type_name FEE_CHARGE = ''FEE_CHARGE''"
| "ledger_type_name LedgerTransactionType.FEE_REVERSAL = ''FEE_REVERSAL''"
| "ledger_type_name BLOCK_FUNDS = ''BLOCK_FUNDS''"
| "ledger_type_name UNBLOCK_FUNDS = ''UNBLOCK_FUNDS''"
| "ledger_type_name ACCOUNT_OPENING_FUNDING = ''ACCOUNT_OPENING_FUNDING''"
| "ledger_type_name MANUAL_ADJUSTMENT = ''MANUAL_ADJUSTMENT''"
| "ledger_type_name SUSPENSE_RESOLUTION = ''SUSPENSE_RESOLUTION''"
| "ledger_type_name RECONCILIATION_ADJUSTMENT = ''RECONCILIATION_ADJUSTMENT''"

record WorkerPorts =
  wk_ports :: Ports
  wk_sha256 :: "string \<Rightarrow> string"
  wk_localeCompare :: "string \<Rightarrow> string \<Rightarrow> int"
  wk_calendar :: BusinessCalendar

definition json_cents :: "MoneyJSON \<Rightarrow> ServiceError + cents" where
  "json_cents j = (case js_BigInt (mj_amount j) of None \<Rightarrow> Inl (MoneyFailure (BigIntSyntax (mj_amount j))) | Some c \<Rightarrow> Inr c)"

definition fromStatementEntry :: "(string \<Rightarrow> string) \<Rightarrow> ident \<Rightarrow> StatementEntry \<Rightarrow> ident \<Rightarrow> ServiceError + NormalizedItem" where
  "fromStatementEntry sha256 itemId entry acct =
     (case json_cents (en_amount entry) of
        Inl e \<Rightarrow> Inl e
      | Inr amount \<Rightarrow>
          (let d = (if en_debit entry then Direction.DEBIT else Direction.CREDIT);
               ptx = or_else (en_providerTransactionId entry) (en_providerEntryId entry) in
           Inr \<lparr>ni_id = itemId, ni_side = ReconciliationSide.PROVIDER, ni_accountId = acct, ni_externalId = Some (en_providerEntryId entry),
                ni_endToEndId = en_endToEndId entry, ni_postedAt = en_postedAt entry, ni_effectiveDate = en_effectiveDate entry,
                ni_direction = d, ni_amountCents = amount, ni_type = en_type entry, ni_status = None,
                ni_counterpartyTaxIdIndex = None, ni_providerTransactionId = Some ptx, ni_ledgerTransactionId = None,
                ni_matchKeyStrong = strongKey (en_endToEndId entry) (Some ptx),
                ni_matchKeyFuzzy = fuzzyKey sha256 acct d amount (en_effectiveDate entry),
                ni_raw = [(''provider_entry_id'', en_providerEntryId entry), (''tipo'', en_type entry), (''situacao'', ''PROVIDER'')]\<rparr>))"

definition fromTransaction :: "(string \<Rightarrow> string) \<Rightarrow> ident \<Rightarrow> TransactionRecord \<Rightarrow> NormalizedItem" where
  "fromTransaction sha256 itemId row =
     (let d = (if tr_direction row = TransactionDirection.CREDIT then Direction.CREDIT else Direction.DEBIT) in
      \<lparr>ni_id = itemId, ni_side = ReconciliationSide.LOCAL, ni_accountId = tr_accountId row, ni_externalId = Some (tr_id row),
       ni_endToEndId = tx_e2e row, ni_postedAt = or_else (tr_settledAt row) (tr_requestedAt row),
       ni_effectiveDate = tr_effectiveDate row, ni_direction = d, ni_amountCents = tr_amountCents row,
       ni_type = transaction_type_name (tr_type row), ni_status = Some (tr_status row),
       ni_counterpartyTaxIdIndex =
         (case tr_pix row of None \<Rightarrow> None | Some p \<Rightarrow> (case px_counterparty p of None \<Rightarrow> None | Some c \<Rightarrow> cp_taxIdIndex c)),
       ni_providerTransactionId = tr_providerTransactionId row, ni_ledgerTransactionId = tr_ledgerPostedTransactionId row,
       ni_matchKeyStrong = strongKey (tx_e2e row) (tr_providerTransactionId row),
       ni_matchKeyFuzzy = fuzzyKey sha256 (tr_accountId row) d (tr_amountCents row) (tr_effectiveDate row),
       ni_raw = [(''transaction_id'', tr_id row), (''tipo'', transaction_type_name (tr_type row)), (''situacao'', status_name (tr_status row))]\<rparr>)"

definition fromLedgerMovement :: "Ports \<Rightarrow> (string \<Rightarrow> string) \<Rightarrow> ident \<Rightarrow> LedgerMovement \<Rightarrow> ident \<Rightarrow> NormalizedItem" where
  "fromLedgerMovement ports sha256 itemId mv acct =
     (let day = po_effectiveDate ports (lm_effectiveAt mv);
          d = (if lm_direction mv = EntryDirection.CREDIT then Direction.CREDIT else Direction.DEBIT) in
      \<lparr>ni_id = itemId, ni_side = ReconciliationSide.LEDGER, ni_accountId = acct, ni_externalId = Some (lm_entryId mv), ni_endToEndId = None,
       ni_postedAt = lm_effectiveAt mv, ni_effectiveDate = day, ni_direction = d, ni_amountCents = lm_amountCents mv,
       ni_type = ledger_type_name (lm_type mv), ni_status = None, ni_counterpartyTaxIdIndex = None,
       ni_providerTransactionId = None, ni_ledgerTransactionId = Some (lm_transactionId mv), ni_matchKeyStrong = None,
       ni_matchKeyFuzzy = fuzzyKey sha256 acct d (lm_amountCents mv) day,
       ni_raw = [(''ledger_transaction_id'', lm_transactionId mv), (''tipo'', ledger_type_name (lm_type mv))]\<rparr>)"

section \<open>Reading the three sides\<close>

definition MAX_STATEMENT_PAGES :: nat where "MAX_STATEMENT_PAGES = 50"
definition STATEMENT_PAGE_SIZE :: nat where "STATEMENT_PAGE_SIZE = 200"
definition LOCAL_PAGE_SIZE :: nat where "LOCAL_PAGE_SIZE = 500"

definition toDay :: "instant \<Rightarrow> EffectiveDate" where
  "toDay t = take 10 (toISOString t)"

record Fetched =
  ft_entries :: "StatementEntry list"
  ft_opening :: "cents option"
  ft_closing :: "cents option"

definition first_balance :: "cents option \<Rightarrow> MoneyJSON option \<Rightarrow> ServiceError + cents option" where
  "first_balance old json =
     (case old of
        Some c \<Rightarrow> Inr (Some c)
      | None \<Rightarrow> (case json of None \<Rightarrow> Inr None | Some j \<Rightarrow> map_sum id Some (json_cents j)))"

fun fetch_pages :: "(string option \<Rightarrow> StatementPage ProviderReply) \<Rightarrow> nat \<Rightarrow> string option \<Rightarrow> Fetched \<Rightarrow> ServiceError + Fetched" where
  "fetch_pages query 0 cursor acc = Inr acc"
| "fetch_pages query (Suc n) cursor acc =
     (case query cursor of
        Unknown m \<Rightarrow> Inl (ProviderOutcomeUnknown m)
      | Refused m \<Rightarrow> Inl (ProviderRefused m)
      | Replied page \<Rightarrow>
          (case first_balance (ft_opening acc) (sp_openingBalance page) of
             Inl e \<Rightarrow> Inl e
           | Inr opening \<Rightarrow>
             (case first_balance (ft_closing acc) (sp_closingBalance page) of
                Inl e \<Rightarrow> Inl e
              | Inr closing \<Rightarrow>
                (let acc' = \<lparr>ft_entries = ft_entries acc @ sp_data page, ft_opening = opening, ft_closing = closing\<rparr> in
                 if \<not> sp_hasMore page \<or> truthy (sp_nextCursor page) = None then Inr acc'
                 else fetch_pages query n (sp_nextCursor page) acc'))))"

definition fetchProvider :: "StatementFacet \<Rightarrow> AccountRecord \<Rightarrow> 'a ReconciliationRunRecord_scheme \<Rightarrow> ServiceError + Fetched" where
  "fetchProvider facet account run =
     fetch_pages (facet (ac_providerAccountId account) (toDay (ru_windowStart run)) (toDay (ru_windowEnd run)) STATEMENT_PAGE_SIZE)
       MAX_STATEMENT_PAGES None \<lparr>ft_entries = [], ft_opening = None, ft_closing = None\<rparr>"

fun local_pages :: "(StatementPosition option \<Rightarrow> TransactionRecord list \<times> StatementPosition option) \<Rightarrow> nat \<Rightarrow> StatementPosition option \<Rightarrow> TransactionRecord list" where
  "local_pages query 0 cursor = []"
| "local_pages query (Suc n) cursor =
     (case query cursor of
        (rows, None) \<Rightarrow> rows
      | (rows, Some next) \<Rightarrow> rows @ local_pages query n (Some next))"

definition fetchLocal :: "WorkerPorts \<Rightarrow> 'a ReconciliationRunRecord_scheme \<Rightarrow> AccountRecord \<Rightarrow> World \<Rightarrow> TransactionRecord list" where
  "fetchLocal wp run account w =
     local_pages (\<lambda>cursor. statement (wk_localeCompare wp) (w_transactions w)
         \<lparr>sf_environment = ru_environment run, sf_accountId = ac_id account, sf_from = toDay (ru_windowStart run),
          sf_to = toDay (ru_windowEnd run), sf_statuses = RECONCILIATION_STATUSES, sf_limit = LOCAL_PAGE_SIZE, sf_cursor = cursor\<rparr>)
       MAX_STATEMENT_PAGES None"

definition fetchLedger :: "WorkerPorts \<Rightarrow> 'a ReconciliationRunRecord_scheme \<Rightarrow> AccountRecord \<Rightarrow> InMemoryLedgerStore \<Rightarrow> LedgerMovement list" where
  "fetchLedger wp run account s =
     (case truthy (ac_ledgerAvailableAccountId account) of
        None \<Rightarrow> []
      | Some i \<Rightarrow> filter (\<lambda>mv. mirrorsProviderMovement (lm_type mv))
          (movements (wk_localeCompare wp) s i (ru_windowStart run) (ru_windowEnd run)))"

text \<open>Identifiers of items are minted in order: provider, local, ledger.\<close>

fun provider_items :: "WorkerPorts \<Rightarrow> (nat \<Rightarrow> ident) \<Rightarrow> ident \<Rightarrow> nat \<Rightarrow> StatementEntry list \<Rightarrow> ServiceError + NormalizedItem list" where
  "provider_items wp itemId acct n [] = Inr []"
| "provider_items wp itemId acct n (e # es) =
     (case fromStatementEntry (wk_sha256 wp) (itemId n) e acct of
        Inl err \<Rightarrow> Inl err
      | Inr item \<Rightarrow> (case provider_items wp itemId acct (Suc n) es of Inl err \<Rightarrow> Inl err | Inr items \<Rightarrow> Inr (item # items)))"

definition indexed :: "(ident \<Rightarrow> 'a \<Rightarrow> 'b) \<Rightarrow> (nat \<Rightarrow> ident) \<Rightarrow> nat \<Rightarrow> 'a list \<Rightarrow> 'b list" where
  "indexed f itemId n xs = map (\<lambda>(k, x). f (itemId k) x) (zip [n..<n + length xs] xs)"

section \<open>Carrying out what the engine proposes\<close>

record AutoResolutionInput =
  ai_run :: ReconciliationRunRecord
  ai_account :: AccountRecord
  ai_slug :: string
  ai_breaks :: "BreakDraft list"
  ai_rawByItemId :: "(ident, StatementEntry) jsmap"

record RunDraws =
  rd_ledgerIds :: "nat \<Rightarrow> ident"
  rd_itemId :: "nat \<Rightarrow> ident"
  rd_breakId :: "nat \<Rightarrow> ident"
  rd_now :: instant
  rd_persistAt :: instant
  rd_draft :: "nat \<Rightarrow> Draws"
  rd_acquired :: "nat \<Rightarrow> bool"
  rd_auditAt :: "nat \<Rightarrow> instant"

definition toInboundDraft :: "StatementEntry \<Rightarrow> string option \<Rightarrow> CanonicalEventDraft" where
  "toInboundDraft entry pid =
     \<lparr>cd_type = PIX_IN_RECEIVED, cd_providerId = or_else (en_providerTransactionId entry) (en_providerEntryId entry),
      cd_occurredAt = Some (en_postedAt entry),
      cd_data = TransactionData
        \<lparr>pe_providerAccountId = pid, pe_direction = Some Dir_in, pe_status = Some TransactionStatus.SETTLED,
         pe_transitionTo = TransactionStatus.SETTLED, pe_amount = Some (en_amount entry), pe_endToEndId = en_endToEndId entry,
         pe_returnId = None, pe_txid = None,
         pe_counterparty = map_option (\<lambda>c. \<lparr>cp_name = pcp_name c, cp_taxIdLast4 = None, cp_taxIdIndex = None, cp_ispb = pcp_ispb c,
           cp_branch = pcp_branch c, cp_accountNumber = pcp_accountNumber c\<rparr>) (en_counterparty entry),
         pe_settledAt = Some (en_postedAt entry)\<rparr>\<rparr>"

definition recordAudit :: "AutoResolutionInput \<Rightarrow> BreakDraft \<Rightarrow> string \<Rightarrow> instant \<Rightarrow> World \<Rightarrow> World" where
  "recordAudit inp b action tm w =
     w\<lparr>w_audit := audit_record
        \<lparr>au_environment = ru_environment (ai_run inp), au_actorType = SYSTEM, au_actorId = Some ''worker:reconciliation'',
         au_actorLabel = None, au_actorIp = None, au_action = action, au_outcome = SUCCESS, au_errorCode = None,
         au_resourceType = ''reconciliation_break'', au_resourceId = Some (bd_dedupeKey b),
         au_connectionId = Some (ru_connectionId (ai_run inp)), au_provider = Some (ai_slug inp), au_before = None,
         au_after = Some [(''run_id'', Text (ru_id (ai_run inp))), (''break_type'', Text (break_type_name (bd_type b))),
           (''account_id'', Text (ru_accountId (ai_run inp)))],
         au_changedFields = None, au_requestId = None, au_operationId = None, au_occurredAt = tm\<rparr> (w_audit w)\<rparr>"

definition importFromProvider ::
  "Ports \<Rightarrow> Draws \<Rightarrow> bool \<Rightarrow> instant \<Rightarrow> AutoResolutionInput \<Rightarrow> BreakDraft \<Rightarrow> ident \<Rightarrow> World \<Rightarrow> bool outcome" where
  "importFromProvider ports dr acquired auditAt inp b itemId w =
     (case map_get (ai_rawByItemId inp) itemId of
        None \<Rightarrow> (Inr False, w)
      | Some entry \<Rightarrow>
          (case applyDrafts ports (\<lambda>_. dr) (\<lambda>_. acquired)
                  \<lparr>cx_environment = ru_environment (ai_run inp), cx_connectionId = ru_connectionId (ai_run inp),
                   cx_provider = ai_slug inp, cx_receivedAt = d_now dr, cx_providerEventId = None, cx_event = None\<rparr> 0
                  [toInboundDraft entry (ac_providerAccountId (ai_account inp))] [] w of
             (Inl e, w1) \<Rightarrow> (Inl e, w1)
           | (Inr (outcomes, lockLost), w1) \<Rightarrow>
               if lockLost \<or> \<not> List.member outcomes applied then (Inr False, w1)
               else (Inr True, recordAudit inp b ''reconciliation.imported_from_provider'' auditAt w1)))"

definition markProviderAuthoritative ::
  "instant \<Rightarrow> instant \<Rightarrow> AutoResolutionInput \<Rightarrow> BreakDraft \<Rightarrow> TransactionStatus \<Rightarrow> TransactionStatus \<Rightarrow> World \<Rightarrow> bool outcome" where
  "markProviderAuthoritative now auditAt inp b fromStatus toStatus w =
     (case truthy (bd_localItemId b) of
        None \<Rightarrow> (Inr False, w)
      | Some local \<Rightarrow>
          (case tx_applyStatusChange
                  \<lparr>sc_environment = ru_environment (ai_run inp), sc_transactionId = local, sc_toStatus = toStatus,
                   sc_failureCode = None, sc_providerFailureCode = None, sc_failureMessage = None, sc_endToEndId = None,
                   sc_settledAt = None, sc_ledgerPostedTransactionId = None, sc_occurredAt = now\<rparr>
                  (Some (\<lambda>i. publish
                     \<lparr>ou_env = ru_environment (ai_run inp), ou_type = TRANSACTION_UPDATED, ou_provider = None,
                      ou_connectionId = Some (ru_connectionId (ai_run inp)), ou_subjectKind = ''transaction'', ou_subjectId = i,
                      ou_payload = [(''status'', TransactionStatusValue toStatus), (''resolved_by'', Text ''reconciliation'')],
                      ou_previous = Some [(''status'', TransactionStatusValue fromStatus)], ou_occurredAt = now\<rparr> None))
                  (w_transactions w, w_outbox w, w_audit w) of
             (Applied _, repo, out, aud) \<Rightarrow>
               (Inr True, recordAudit inp b ''reconciliation.provider_authoritative'' auditAt
                  (w\<lparr>w_transactions := repo, w_outbox := out, w_audit := aud\<rparr>))
           | (NotApplied _ _, repo, out, aud) \<Rightarrow> (Inr False, w\<lparr>w_transactions := repo, w_outbox := out, w_audit := aud\<rparr>)))"

definition applyOne ::
  "Ports \<Rightarrow> Draws \<Rightarrow> bool \<Rightarrow> instant \<Rightarrow> AutoResolutionInput \<Rightarrow> BreakDraft \<Rightarrow> AutoResolutionIntent \<Rightarrow> World \<Rightarrow> bool outcome" where
  "applyOne ports dr acquired auditAt inp b intent w =
     (case intent of
        AutoResolutionIntent.IMPORT_FROM_PROVIDER itemId \<Rightarrow> importFromProvider ports dr acquired auditAt inp b itemId w
      | AutoResolutionIntent.MARK_PROVIDER_AUTHORITATIVE _ fromStatus toStatus \<Rightarrow>
          markProviderAuthoritative (d_now dr) auditAt inp b fromStatus toStatus w
      | AutoResolutionIntent.IGNORE_TIMING_DIFFERENCE _ _ _ \<Rightarrow> (Inr True, recordAudit inp b ''reconciliation.timing_ignored'' auditAt w))"

text \<open>A resolution that throws is logged, and the break stays open.\<close>

fun applyAll_from :: "Ports \<Rightarrow> RunDraws \<Rightarrow> AutoResolutionInput \<Rightarrow> nat \<Rightarrow> BreakDraft list \<Rightarrow> World \<Rightarrow> nat \<times> World" where
  "applyAll_from ports rd inp n [] w = (0, w)"
| "applyAll_from ports rd inp n (b # bs) w =
     (case bd_autoResolution b of
        None \<Rightarrow> applyAll_from ports rd inp (Suc n) bs w
      | Some intent \<Rightarrow>
          (case applyOne ports (rd_draft rd n) (rd_acquired rd n) (rd_auditAt rd n) inp b intent w of
             (r, w1) \<Rightarrow>
               (case applyAll_from ports rd inp (Suc n) bs w1 of
                  (k, w2) \<Rightarrow> (if r = Inr True then k + 1 else k, w2))))"

definition applyAll :: "Ports \<Rightarrow> RunDraws \<Rightarrow> AutoResolutionInput \<Rightarrow> World \<Rightarrow> nat \<times> World" where
  "applyAll ports rd inp w = applyAll_from ports rd inp 0 (ai_breaks inp) w"

section \<open>The run\<close>

text \<open>\<open>DEFAULT_POLICY\<close> with the calendar of the service.\<close>

definition DEFAULT_POLICY :: "BusinessCalendar \<Rightarrow> ReconciliationPolicy" where
  "DEFAULT_POLICY cal =
     \<lparr>settlementGraceMinutes = 120, amountToleranceCents = 1, amountToleranceBasisPoints = 1, dateToleranceBusinessDays = 2,
      autoResolveDateWithinBusinessDays = 1, criticalAmountDeltaCents = 1, maxGreedyPairs = 20, calendar = cal\<rparr>"

definition toItemRow :: "ident \<Rightarrow> NormalizedItem \<Rightarrow> ReconciliationItemRow" where
  "toItemRow runId item =
     \<lparr>it_id = ni_id item, it_runId = runId, it_side = ni_side item, it_externalId = ni_externalId item,
      it_endToEndId = ni_endToEndId item, it_postedAt = ni_postedAt item, it_effectiveDate = ni_effectiveDate item,
      it_direction = direction_name (ni_direction item), it_amountCents = ni_amountCents item, it_type = ni_type item,
      it_counterpartyTaxIdIndex = ni_counterpartyTaxIdIndex item, it_matchKeyStrong = ni_matchKeyStrong item,
      it_matchKeyFuzzy = ni_matchKeyFuzzy item, it_raw = ni_raw item\<rparr>"

definition match_links :: "MatchLink \<Rightarrow> MatchLinkRow list" where
  "match_links match =
     (case (truthy (ml_providerItemId match), truthy (ml_localItemId match)) of
        (Some p, Some l) \<Rightarrow>
          [\<lparr>mr_itemId = p, mr_matchedItemId = l, mr_confidence = ml_confidence match\<rparr>,
           \<lparr>mr_itemId = l, mr_matchedItemId = p, mr_confidence = ml_confidence match\<rparr>]
      | _ \<Rightarrow> [])"

definition break_row :: "ReconciliationRunRecord \<Rightarrow> ident \<Rightarrow> BreakDraft \<Rightarrow> BreakUpsertRow" where
  "break_row run i b =
     \<lparr>bk_id = i, bk_environment = ru_environment run, bk_runId = ru_id run, bk_connectionId = ru_connectionId run,
      bk_accountId = ru_accountId run, bk_type = bd_type b, bk_severity = bd_severity b,
      bk_dedupeKey = bd_dedupeKey b, bk_effectiveDate = bd_effectiveDate b, bk_endToEndId = bd_endToEndId b,
      bk_amountCents = bd_amountCents b, bk_deltaCents = bd_deltaCents b, bk_providerItemId = bd_providerItemId b,
      bk_localItemId = bd_localItemId b, bk_ledgerItemId = bd_ledgerItemId b, bk_description = bd_description b,
      bk_evidence = bd_evidence b\<rparr>"

definition announce :: "ReconciliationRunRecord \<Rightarrow> instant \<Rightarrow> UpsertedBreak \<Rightarrow> World \<Rightarrow> World" where
  "announce run now u w =
     (if \<not> ub_inserted u then w
      else append_outbox
        \<lparr>ou_env = ru_environment run, ou_type = RECONCILIATION_BREAK_OPENED, ou_provider = None,
         ou_connectionId = Some (ru_connectionId run), ou_subjectKind = ''reconciliation_break'', ou_subjectId = ub_id u,
         ou_payload = [(''run_id'', Text (ru_id run)), (''dedupe_key'', Text (ub_dedupeKey u))], ou_previous = None,
         ou_occurredAt = now\<rparr> w)"

definition persist_run ::
  "RunDraws \<Rightarrow> ReconciliationRunRecord \<Rightarrow> NormalizedItem list \<Rightarrow> ReconciliationResult \<Rightarrow> WorkerWorld \<Rightarrow> WorkerWorld" where
  "persist_run rd run items result ww =
     (let runs1 = linkMatches (concat (map match_links (rr_matches result)))
            (insertItems (map (toItemRow (ru_id run)) items) (ww_runs ww));
          now = rd_persistAt rd;
          rows = indexed (break_row run) (rd_breakId rd) 0 (rr_breaks result);
          (stored, breaks1) = upsertMany now rows (ww_breaks ww);
          w1 = foldl (\<lambda>w u. announce run now u w) (ww_world ww) stored;
          breaks2 = snd (closeNotRecurring
            \<lparr>cl_environment = ru_environment run, cl_connectionId = ru_connectionId run, cl_accountId = ru_accountId run,
             cl_fromDate = toDay (ru_windowStart run), cl_toDate = toDay (ru_windowEnd run), cl_keep = map bk_dedupeKey rows,
             cl_at = now\<rparr> breaks1);
          runs2 = complete_run (ru_id run) (if rr_breaks result \<noteq> [] then COMPLETED_WITH_BREAKS else ReconciliationRunStatus.COMPLETED)
            (rr_counters result)
            \<lparr>rb_providerOpening = br_openingCents (rr_balance result), rb_providerClosing = br_providerClosingCents (rr_balance result),
             rb_ledgerClosing = br_ledgerClosingCents (rr_balance result), rb_balanceDelta = br_balanceDeltaCents (rr_balance result)\<rparr> runs1
      in \<lparr>ww_world = w1, ww_runs = runs2, ww_breaks = breaks2\<rparr>)"

text \<open>The bound adapter, as far as a run uses it.\<close>

record StatementProvider =
  sv_slug :: string
  sv_environment :: Environment
  sv_statement :: "StatementFacet option"

definition ledger_closing :: "AccountRecord \<Rightarrow> InMemoryLedgerStore \<Rightarrow> ServiceError + cents option" where
  "ledger_closing account s =
     (case truthy (ac_ledgerAvailableAccountId account) of
        None \<Rightarrow> Inr None
      | Some i \<Rightarrow> (case shadow_balances i s of Inl e \<Rightarrow> Inl (LedgerFailure e) | Inr b \<Rightarrow> Inr (Some (bal_posted b))))"

definition reconciliation_input ::
  "WorkerPorts \<Rightarrow> RunDraws \<Rightarrow> ReconciliationRunRecord \<Rightarrow> AccountRecord \<Rightarrow> NormalizedItem list \<Rightarrow> NormalizedItem list \<Rightarrow>
   NormalizedItem list \<Rightarrow> Fetched \<Rightarrow> cents option \<Rightarrow> ReconciliationInput" where
  "reconciliation_input wp rd run account provider locals ledger fetched closing =
     \<lparr>ri_runId = ru_id run, ri_environment = ru_environment run, ri_connectionId = ru_connectionId run,
      ri_accountId = ac_id account, ri_scope = ru_scope run, ri_windowStart = ru_windowStart run,
      ri_windowEnd = ru_windowEnd run, ri_now = rd_now rd, ri_provider = provider, ri_local = locals, ri_ledger = ledger,
      ri_balances = \<lparr>providerOpeningCents = ft_opening fetched, providerClosingCents = ft_closing fetched, ledgerClosingCents = closing\<rparr>,
      ri_policy = DEFAULT_POLICY (wk_calendar wp)\<rparr>"

definition execute_with ::
  "WorkerPorts \<Rightarrow> RunDraws \<Rightarrow> ReconciliationRunRecord \<Rightarrow> AccountRecord \<Rightarrow> string \<Rightarrow> Fetched \<Rightarrow> NormalizedItem list \<Rightarrow> WorkerWorld \<Rightarrow>
   (ServiceError + unit) \<times> WorkerWorld" where
  "execute_with wp rd run account slug fetched provider ww =
     (let w = ww_world ww; rows = fetchLocal wp run account w;
          n = length provider;
          locals = indexed (fromTransaction (wk_sha256 wp)) (rd_itemId rd) n rows;
          (s, stores) = factory_for (rd_ledgerIds rd) (ru_environment run) (w_ledger w);
          ledger = indexed (\<lambda>i mv. fromLedgerMovement (wk_ports wp) (wk_sha256 wp) i mv (ac_id account)) (rd_itemId rd) (n + length rows)
            (fetchLedger wp run account s);
          ww1 = (if truthy (ac_ledgerAvailableAccountId account) = None then ww else ww\<lparr>ww_world := w\<lparr>w_ledger := stores\<rparr>\<rparr>)
      in case ledger_closing account s of
           Inl e \<Rightarrow> (Inl e, ww1)
         | Inr closing \<Rightarrow>
             (let result = reconcile (wk_localeCompare wp) (po_effectiveDate (wk_ports wp))
                    (reconciliation_input wp rd run account provider locals ledger fetched closing);
                  ww2 = persist_run rd run (provider @ locals @ ledger) result ww1;
                  ai = \<lparr>ai_run = run, ai_account = account, ai_slug = slug, ai_breaks = rr_breaks result,
                    ai_rawByItemId = foldl (\<lambda>m (item, entry). map_set (ni_id item) entry m) [] (zip provider (ft_entries fetched))\<rparr>
              in (Inr (), ww2\<lparr>ww_world := snd (applyAll (wk_ports wp) rd ai (ww_world ww2))\<rparr>)))"

definition execute ::
  "WorkerPorts \<Rightarrow> RunDraws \<Rightarrow> (ident \<Rightarrow> ServiceError + StatementProvider) \<Rightarrow> ReconciliationRunRecord \<Rightarrow> WorkerWorld \<Rightarrow>
   (ServiceError + unit) \<times> WorkerWorld" where
  "execute wp rd providers run ww =
     (case ac_findById (w_accounts (ww_world ww)) (ru_environment run) (ru_accountId run) of
        None \<Rightarrow> (Inr (), ww\<lparr>ww_runs := fail_run (ru_id run) ''account_not_found'' (ww_runs ww)\<rparr>)
      | Some account \<Rightarrow>
        (case providers (ru_connectionId run) of
           Inl e \<Rightarrow> (Inl e, ww)
         | Inr bound \<Rightarrow>
           (case sv_statement bound of
              None \<Rightarrow> (Inr (), ww\<lparr>ww_runs := fail_run (ru_id run) ''no_statement_facet'' (ww_runs ww)\<rparr>)
            | Some facet \<Rightarrow>
              (case fetchProvider facet account run of
                 Inl e \<Rightarrow> (Inl e, ww)
               | Inr fetched \<Rightarrow>
                 (case provider_items wp (rd_itemId rd) (ac_id account) 0 (ft_entries fetched) of
                    Inl e \<Rightarrow> (Inl e, ww)
                  | Inr provider \<Rightarrow> execute_with wp rd run account (sv_slug bound) fetched provider ww)))))"

text \<open>The run found is the live row of the repository.\<close>

definition run_reconciliation ::
  "WorkerPorts \<Rightarrow> RunDraws \<Rightarrow> (ident \<Rightarrow> ServiceError + StatementProvider) \<Rightarrow> Environment \<Rightarrow> ident \<Rightarrow> WorkerWorld \<Rightarrow>
   (ServiceError + unit) \<times> WorkerWorld" where
  "run_reconciliation wp rd providers env i ww =
     (case run_findById (ww_runs ww) env i of
        None \<Rightarrow> (Inr (), ww)
      | Some run \<Rightarrow>
          if ru_status run \<noteq> QUEUED then (Inr (), ww)
          else
            (case execute wp rd providers (run\<lparr>ru_status := RUNNING\<rparr>) (ww\<lparr>ww_runs := markRunning i (ww_runs ww)\<rparr>) of
               (Inr u, ww1) \<Rightarrow> (Inr u, ww1)
             | (Inl e, ww1) \<Rightarrow> (Inl e, ww1\<lparr>ww_runs := fail_run i (po_message (wk_ports wp) e) (ww_runs ww1)\<rparr>)))"

section \<open>The sweep\<close>

definition ACCOUNT_PAGE :: nat where "ACCOUNT_PAGE = 500"
definition INTRADAY_WINDOW_HOURS :: int where "INTRADAY_WINDOW_HOURS = 4"

record ConnectionRef =
  cn_id :: ident
  cn_environment :: Environment

text \<open>\<open>day_start\<close> is \<open>new Date\<close> of midnight UTC of a day in Brasilia time.\<close>

definition window :: "(instant \<Rightarrow> string) \<Rightarrow> (string \<Rightarrow> instant) \<Rightarrow> ReconciliationScope \<Rightarrow> instant \<Rightarrow> instant \<times> instant" where
  "window brasiliaDay day_start scope now =
     (if scope = INTRADAY then (now - INTRADAY_WINDOW_HOURS * 3600000, now)
      else (let yesterday = brasiliaDay (now - 86400000) in (day_start yesterday, day_start yesterday + 86399999)))"

fun scope_lower :: "ReconciliationScope \<Rightarrow> string" where
  "scope_lower DAILY = ''daily''"
| "scope_lower INTRADAY = ''intraday''"
| "scope_lower BACKFILL = ''backfill''"
| "scope_lower ReconciliationScope.MANUAL = ''manual''"

text \<open>The identifier drawn for the run of an account of a connection is \<open>rid\<close>.\<close>

definition sweep_account ::
  "(ident \<Rightarrow> ident \<Rightarrow> ident) \<Rightarrow> ReconciliationScope \<Rightarrow> instant \<times> instant \<Rightarrow> ConnectionRef \<Rightarrow> AccountRecord \<Rightarrow> nat \<times> WorkerWorld \<Rightarrow>
   nat \<times> WorkerWorld" where
  "sweep_account rid scope win cn account state =
     (case state of (created, ww) \<Rightarrow>
       (if truthy (ac_providerAccountId account) = None then (created, ww)
        else
          (case startRun
                  \<lparr>ru_id = rid (cn_id cn) (ac_id account), ru_environment = cn_environment cn, ru_connectionId = cn_id cn,
                   ru_accountId = ac_id account, ru_scope = scope, ru_windowStart = fst win, ru_windowEnd = snd win,
                   ru_triggeredBy = ''worker:'' @ scope_lower scope\<rparr> (ww_runs ww) of
             ((run, False), runs) \<Rightarrow> (created, ww\<lparr>ww_runs := runs\<rparr>)
           | ((run, True), runs) \<Rightarrow>
               (created + 1, ww\<lparr>ww_runs := runs,
                  ww_world := enqueue (ReconciliationJob (cn_environment cn) (ru_id run)) None (ww_world ww)\<rparr>))))"

definition accounts_page :: "(string \<Rightarrow> string \<Rightarrow> int) \<Rightarrow> ConnectionRef \<Rightarrow> ident option \<Rightarrow> World \<Rightarrow> AccountRecord list \<times> ident option" where
  "accounts_page lc cn cursor w =
     ac_list lc (w_accounts w)
       \<lparr>la_environment = cn_environment cn, la_connectionId = Some (cn_id cn), la_status = Some AccountStatus.ACTIVE,
        la_externalId = None, la_limit = ACCOUNT_PAGE, la_cursor = cursor\<rparr>"

text \<open>The pages of a connection, for as long as a cursor comes back.\<close>

partial_function (option) sweep_pages ::
  "(string \<Rightarrow> string \<Rightarrow> int) \<Rightarrow> (ident \<Rightarrow> ident \<Rightarrow> ident) \<Rightarrow> ReconciliationScope \<Rightarrow> instant \<times> instant \<Rightarrow> ConnectionRef \<Rightarrow>
   ident option \<Rightarrow> nat \<times> WorkerWorld \<Rightarrow> (nat \<times> WorkerWorld) option" where
  "sweep_pages lc rid scope win cn cursor state =
     (case accounts_page lc cn cursor (ww_world (snd state)) of
        (rows, next) \<Rightarrow>
          (let state' = foldl (\<lambda>st account. sweep_account rid scope win cn account st) state rows in
           case truthy next of
             None \<Rightarrow> Some state'
           | Some c \<Rightarrow> sweep_pages lc rid scope win cn (Some c) state'))"

fun sweep_connections ::
  "(string \<Rightarrow> string \<Rightarrow> int) \<Rightarrow> (ident \<Rightarrow> ident \<Rightarrow> ident) \<Rightarrow> ReconciliationScope \<Rightarrow> instant \<times> instant \<Rightarrow> ConnectionRef list \<Rightarrow>
   nat \<times> WorkerWorld \<Rightarrow> (nat \<times> WorkerWorld) option" where
  "sweep_connections lc rid scope win [] state = Some state"
| "sweep_connections lc rid scope win (cn # cns) state =
     (case sweep_pages lc rid scope win cn None state of
        None \<Rightarrow> None
      | Some state' \<Rightarrow> sweep_connections lc rid scope win cns state')"

definition sweep_reconciliation ::
  "(string \<Rightarrow> string \<Rightarrow> int) \<Rightarrow> (instant \<Rightarrow> string) \<Rightarrow> (string \<Rightarrow> instant) \<Rightarrow> (ident \<Rightarrow> ident \<Rightarrow> ident) \<Rightarrow> ReconciliationScope \<Rightarrow>
   instant \<Rightarrow> ConnectionRef list \<Rightarrow> WorkerWorld \<Rightarrow> (nat \<times> WorkerWorld) option" where
  "sweep_reconciliation lc brasiliaDay day_start rid scope now connections ww =
     sweep_connections lc rid scope (window brasiliaDay day_start scope now) connections (0, ww)"

end
