(* ===== verification/Poller.thy ===== *)
theory Poller
  imports Worker_Reconciliation
begin

text \<open>
  The statement poller of the worker, \<open>src/apps/worker/src/poller/poll.service.ts\<close>: it reads the provider's statement from a mark of its
  own and applies every credit it has not claimed yet through the same drafts as the webhook.

  The adapter, the encoding of an entry (\<open>JSON.stringify\<close>), its digest and the lock are parameters.
\<close>

definition STATEMENT_STREAM :: string where "STATEMENT_STREAM = ''statement''"
definition MAX_WINDOW_MS :: int where "MAX_WINDOW_MS = 24 * 3600000"
definition PAGE_SIZE :: nat where "PAGE_SIZE = 200"
definition MAX_PAGES :: nat where "MAX_PAGES = 20"

record PollDraws =
  pl_cursorId :: ident
  pl_startedAt :: instant
  pl_now :: instant
  pl_eventId :: "nat \<Rightarrow> ident"
  pl_draft :: "nat \<Rightarrow> Draws"
  pl_acquired :: "nat \<Rightarrow> bool"
  pl_encode :: "StatementEntry \<Rightarrow> string"
  pl_sha256hex :: "string \<Rightarrow> string"

text \<open>The event an entry is claimed as.\<close>

definition poll_event :: "PollDraws \<Rightarrow> nat \<Rightarrow> StatementProvider \<Rightarrow> ident \<Rightarrow> StatementEntry \<Rightarrow> InboundEventRecord" where
  "poll_event pl n bound connectionId entry =
     \<lparr>ie_id = pl_eventId pl n, ie_environment = sv_environment bound, ie_connectionId = connectionId, ie_provider = sv_slug bound,
      ie_dedupeKey = ''poll:'' @ en_providerEntryId entry, ie_providerEventId = None, ie_eventTypeRaw = None, ie_occurredAt = None,
      ie_receivedAt = d_now (pl_draft pl n), ie_headers = [], ie_payload = pl_encode pl entry,
      ie_rawSha256 = pl_sha256hex pl (pl_encode pl entry), ie_signatureValid = True, ie_status = RECEIVED, ie_attempts = 0,
      ie_lastError = None, ie_processedAt = None\<rparr>"

definition applyEntry ::
  "Ports \<Rightarrow> PollDraws \<Rightarrow> nat \<Rightarrow> StatementProvider \<Rightarrow> StatementEntry \<Rightarrow> string \<Rightarrow> ident \<Rightarrow> World \<Rightarrow> bool outcome" where
  "applyEntry ports pl n bound entry pid connectionId w =
     (if en_debit entry then (Inr False, w)
      else
        (case ie_claim (poll_event pl n bound connectionId entry) (w_events w) of
           ((False, _), rows) \<Rightarrow> (Inr False, w\<lparr>w_events := rows\<rparr>)
         | ((True, _), rows) \<Rightarrow>
             (case applyDrafts ports (\<lambda>_. pl_draft pl n) (\<lambda>_. pl_acquired pl n)
                     \<lparr>cx_environment = sv_environment bound, cx_connectionId = connectionId, cx_provider = sv_slug bound,
                      cx_receivedAt = d_now (pl_draft pl n), cx_providerEventId = None, cx_event = None\<rparr> 0
                     [toInboundDraft entry (Some pid)] [] (w\<lparr>w_events := rows\<rparr>) of
                (Inl e, w1) \<Rightarrow> (Inl e, w1)
              | (Inr (outcomes, _), w1) \<Rightarrow> (Inr (List.member outcomes applied), w1))))"

fun applyEntries ::
  "Ports \<Rightarrow> PollDraws \<Rightarrow> StatementProvider \<Rightarrow> string \<Rightarrow> ident \<Rightarrow> nat \<Rightarrow> StatementEntry list \<Rightarrow> nat \<Rightarrow> World \<Rightarrow> nat outcome" where
  "applyEntries ports pl bound pid connectionId n [] k w = (Inr k, w)"
| "applyEntries ports pl bound pid connectionId n (e # es) k w =
     (case applyEntry ports pl n bound e pid connectionId w of
        (Inl err, w1) \<Rightarrow> (Inl err, w1)
      | (Inr b, w1) \<Rightarrow> applyEntries ports pl bound pid connectionId (Suc n) es (if b then k + 1 else k) w1)"

fun drain_pages ::
  "Ports \<Rightarrow> PollDraws \<Rightarrow> StatementProvider \<Rightarrow> string \<Rightarrow> ident \<Rightarrow> (string option \<Rightarrow> StatementPage ProviderReply) \<Rightarrow> nat \<Rightarrow> nat \<Rightarrow>
   string option \<Rightarrow> nat \<Rightarrow> World \<Rightarrow> nat outcome" where
  "drain_pages ports pl bound pid connectionId query 0 n cursor k w = (Inr k, w)"
| "drain_pages ports pl bound pid connectionId query (Suc pages) n cursor k w =
     (case query cursor of
        Unknown m \<Rightarrow> (Inl (ProviderOutcomeUnknown m), w)
      | Refused m \<Rightarrow> (Inl (ProviderRefused m), w)
      | Replied page \<Rightarrow>
          (case applyEntries ports pl bound pid connectionId n (sp_data page) k w of
             (Inl err, w1) \<Rightarrow> (Inl err, w1)
           | (Inr k', w1) \<Rightarrow>
               if \<not> sp_hasMore page \<or> truthy (sp_nextCursor page) = None then (Inr k', w1)
               else drain_pages ports pl bound pid connectionId query pages (n + length (sp_data page)) (sp_nextCursor page) k' w1))"

definition drain ::
  "Ports \<Rightarrow> PollDraws \<Rightarrow> StatementProvider \<Rightarrow> StatementFacet \<Rightarrow> string \<Rightarrow> instant \<Rightarrow> instant \<Rightarrow> ident \<Rightarrow> World \<Rightarrow> nat outcome" where
  "drain ports pl bound facet pid from to connectionId w =
     drain_pages ports pl bound pid connectionId (facet (Some pid) (toDay from) (toDay to) PAGE_SIZE) MAX_PAGES 0 None 0 w"

definition poll_window :: "instant \<Rightarrow> PollCursorRecord \<Rightarrow> instant \<times> instant" where
  "poll_window now cursor =
     (let start = cu_watermark cursor - cu_lapSeconds cursor * 1000 in (start, min now (start + MAX_WINDOW_MS)))"

definition new_cursor :: "PollDraws \<Rightarrow> ident \<Rightarrow> ident \<Rightarrow> PollCursorRecord" where
  "new_cursor pl connectionId acct =
     \<lparr>cu_id = pl_cursorId pl, cu_connectionId = connectionId, cu_stream = STATEMENT_STREAM, cu_scopeId = acct, cu_cursor = None,
      cu_watermark = pl_startedAt pl - MAX_WINDOW_MS, cu_lapSeconds = 300, cu_lastRunAt = None\<rparr>"

definition poll ::
  "Ports \<Rightarrow> PollDraws \<Rightarrow> (ident \<Rightarrow> ServiceError + StatementProvider) \<Rightarrow> ident \<Rightarrow> ident \<Rightarrow> CursorRepo \<times> World \<Rightarrow>
   (ServiceError + nat) \<times> CursorRepo \<times> World" where
  "poll ports pl providers connectionId acct state =
     (case state of (cursors, w) \<Rightarrow>
       (case providers connectionId of
          Inl e \<Rightarrow> (Inl e, cursors, w)
        | Inr bound \<Rightarrow>
          (case sv_statement bound of
             None \<Rightarrow> (Inr 0, cursors, w)
           | Some facet \<Rightarrow>
             (case (case ac_findById (w_accounts w) (sv_environment bound) acct of
                      None \<Rightarrow> None | Some account \<Rightarrow> truthy (ac_providerAccountId account)) of
                None \<Rightarrow> (Inr 0, cursors, w)
              | Some pid \<Rightarrow>
                (case cursor_ensure (new_cursor pl connectionId acct) cursors of
                   (cursor, cursors1) \<Rightarrow>
                     (case poll_window (pl_now pl) cursor of
                        (start, end_) \<Rightarrow>
                          (case drain ports pl bound facet pid start end_ connectionId w of
                             (Inr k, w1) \<Rightarrow> (Inr k, cursor_advance (cu_id cursor) end_ None (pl_now pl) cursors1, w1)
                           | (Inl e, w1) \<Rightarrow> (Inl e, cursor_recordFailure (cu_id cursor) (pl_now pl) cursors1, w1))))))))"

end
