(* ===== verification/Worker_Properties.thy ===== *)
theory Worker_Properties
  imports Poller Break_Properties
begin

text \<open>
  Properties of the worker: a lost credit is recovered once whichever path brings it, what the poller's mark promises and
  what it does not, and what a run of reconciliation leaves behind.
\<close>

section \<open>One credit, three paths\<close>

lemma applyDrafts_one:
  "applyDrafts ports dr acquired ctx 0 [d] [] w =
     (if \<not> acquired 0 then (Inr ([], True), w)
      else (case applyDraft ports (dr 0) ctx d w of (Inl e, w1) \<Rightarrow> (Inl e, w1) | (Inr r, w1) \<Rightarrow> (Inr ([r], False), w1)))"
  by (simp split: prod.split sum.split)

lemma inbound_draft_id:
  "cd_providerId (toInboundDraft entry pid) = or_else (en_providerTransactionId entry) (en_providerEntryId entry)"
  by (simp add: toInboundDraft_def)

definition inbound_data :: "StatementEntry \<Rightarrow> string \<Rightarrow> PaymentEventData" where
  "inbound_data entry pid = (case cd_data (toInboundDraft entry (Some pid)) of TransactionData x \<Rightarrow> x)"

lemma inbound_data_fields:
  "cd_data (toInboundDraft entry (Some pid)) = TransactionData (inbound_data entry pid)"
  "pe_direction (inbound_data entry pid) = Some Dir_in" "pe_status (inbound_data entry pid) = Some TransactionStatus.SETTLED"
  "pe_providerAccountId (inbound_data entry pid) = Some pid" "pe_amount (inbound_data entry pid) = Some (en_amount entry)"
  "pe_endToEndId (inbound_data entry pid) = en_endToEndId entry"
  by (simp_all add: inbound_data_def toInboundDraft_def)

text \<open>A row found under the provider's identifier absorbs every later draft of the same payment.\<close>

definition absorbs :: "Environment \<Rightarrow> string \<Rightarrow> string \<Rightarrow> World \<Rightarrow> bool" where
  "absorbs env slug ptx w \<longleftrightarrow>
     (\<exists>row. tx_findByProviderTransactionId (w_transactions w) env slug ptx = Some row \<and>
        map_get (t_rows (w_transactions w)) (tr_id row) = Some row \<and> tr_environment row = env \<and>
        tr_status row = TransactionStatus.SETTLED \<and> tr_ledgerPendingTransactionId row = None)"

lemma absorbed:
  assumes "absorbs (cx_environment ctx) (cx_provider ctx) (cd_providerId d) w" "cd_data d = TransactionData data"
    and "or_else (pe_status data) (pe_transitionTo data) = TransactionStatus.SETTLED"
  obtains w' where "applyDraft ports dr ctx d w = (Inr recorded, w')" "w_ledger w' = w_ledger w" "w_transactions w' = w_transactions w"
proof -
  obtain row where row: "tx_findByProviderTransactionId (w_transactions w) (cx_environment ctx) (cx_provider ctx) (cd_providerId d) = Some row"
    "map_get (t_rows (w_transactions w)) (tr_id row) = Some row" "tr_environment row = cx_environment ctx"
    "tr_status row = TransactionStatus.SETTLED" "tr_ledgerPendingTransactionId row = None"
    using assms(1) unfolding absorbs_def by blast
  have "findTransaction w ctx d data = Some row" using row(1) by (simp add: findTransaction_def)
  then show thesis
    by (rule redelivery [OF assms(2) _ row(2,3) _ row(5)]) (use row(4) assms(3) that in auto)
qed

lemma poll_absorbed:
  assumes "absorbs (sv_environment bound) (sv_slug bound) (or_else (en_providerTransactionId entry) (en_providerEntryId entry)) w"
  shows "\<exists>w'. applyEntry ports pl n bound entry pid conn w = (Inr False, w') \<and> w_ledger w' = w_ledger w \<and> w_transactions w' = w_transactions w"
proof (cases "en_debit entry \<or> \<not> fst (fst (ie_claim (poll_event pl n bound conn entry) (w_events w)))")
  case True
  then show ?thesis by (auto simp: applyEntry_def split: prod.splits bool.splits)
next
  case False
  then obtain rec rows where claim: "ie_claim (poll_event pl n bound conn entry) (w_events w) = ((True, rec), rows)"
    by (cases "ie_claim (poll_event pl n bound conn entry) (w_events w)") (auto simp: prod_eq_iff)
  let ?ctx = "\<lparr>cx_environment = sv_environment bound, cx_connectionId = conn, cx_provider = sv_slug bound,
    cx_receivedAt = d_now (pl_draft pl n), cx_providerEventId = None, cx_event = None\<rparr>"
  let ?w = "w\<lparr>w_events := rows\<rparr>"
  have a: "absorbs (cx_environment ?ctx) (cx_provider ?ctx) (cd_providerId (toInboundDraft entry (Some pid))) ?w"
    using assms by (simp add: absorbs_def inbound_draft_id)
  obtain w' where "applyDraft ports (pl_draft pl n) ?ctx (toInboundDraft entry (Some pid)) ?w = (Inr recorded, w')"
    "w_ledger w' = w_ledger ?w" "w_transactions w' = w_transactions ?w"
    by (rule absorbed [OF a inbound_data_fields(1)]) (simp add: inbound_data_fields)
  with False claim show ?thesis
    by (auto simp: applyEntry_def applyDrafts_one List.member_iff simp del: applyDrafts.simps)
qed

lemma import_credits:
  assumes entry: "map_get (ai_rawByItemId inp) item = Some entry" and pid: "ac_providerAccountId (ai_account inp) = Some pid" "pid \<noteq> []"
    and env: "env = ru_environment (ai_run inp)" "ptx = or_else (en_providerTransactionId entry) (en_providerEntryId entry)"
    and unseen: "tx_findByProviderTransactionId (w_transactions w) env (ai_slug inp) ptx = None"
      "absent_or (truthy (en_endToEndId entry)) (\<lambda>e. tx_findByEndToEndId (w_transactions w) env e = None)"
    and acc: "ac_findByProviderAccountId (w_accounts w) env (ai_slug inp) pid = Some account"
      "truthy (ac_ledgerAvailableAccountId account) = Some i"
    and money: "Money_fromJSON (en_amount entry) = Inr money" "0 < mny_cents money"
    and led: "map_get (w_ledger w) env = Some s" "shadow_reachable s"
      "mem_account s i = Some a" "la_code a = customerAvailableCode c"
    and fresh: "mem_findByIdempotencyKey s (''pix-in:'' @ ptx) = None"
      "map_get (t_rows (w_transactions w)) (d_transactionId dr) = None"
  obtains w1 row where "importFromProvider ports dr True t inp b item w = (Inr True, w1)"
    "ledger_available w1 env i = Some (bal_available (computeBalances a) + mny_cents money)"
    "map_values (t_rows (w_transactions w1)) = map_values (t_rows (w_transactions w)) @ [row]"
    "tr_accountId row = ac_id account" "tr_amountCents row = mny_cents money" "tr_direction row = TransactionDirection.CREDIT"
    "absorbs env (ai_slug inp) ptx w1"
proof -
  let ?ctx = "\<lparr>cx_environment = ru_environment (ai_run inp), cx_connectionId = ru_connectionId (ai_run inp),
    cx_provider = ai_slug inp, cx_receivedAt = d_now dr, cx_providerEventId = None, cx_event = None\<rparr>"
  let ?d = "toInboundDraft entry (Some pid)" and ?data = "inbound_data entry pid"
  have ctx: "cx_environment ?ctx = env" "cx_provider ?ctx = ai_slug inp" "cd_providerId ?d = ptx" by (simp_all add: env inbound_draft_id)
  have none: "findTransaction w ?ctx ?d ?data = None"
    using unseen by (auto simp: findTransaction_def ctx inbound_data_fields absent_or_def env(1) split: option.splits)
  have p: "truthy (pe_providerAccountId ?data) = Some pid" using pid(2) by (simp add: inbound_data_fields)
  obtain w' tx where rc: "receiveInbound ports dr ?ctx ?d ?data w = (Inr applied, w')"
    "ledger_available w' (cx_environment ?ctx) i = Some (bal_available (computeBalances a) + mny_cents money)"
    "t_rows (w_transactions w') = t_rows (w_transactions w) @
       [(d_transactionId dr, inbound_row ports dr ?ctx ?d ?data account (mny_cents money) tx)]" (is "_ = _ @ [(_, ?row)]")
    by (rule receiveInbound_credits [OF none p, unfolded ctx, OF acc inbound_data_fields(5) money led fresh])
      (simp_all only: ctx)
  have "applyDraft ports dr ?ctx ?d w = (Inr applied, w')"
    using none rc(1) by (simp add: applyDraft_def applyTransaction_def inbound_data_fields Let_def)
  then have imp: "importFromProvider ports dr True t inp b item w = (Inr True, recordAudit inp b ''reconciliation.imported_from_provider'' t w')"
    using entry pid(1) by (simp add: importFromProvider_def applyDrafts_one del: applyDrafts.simps)
  have "findTransaction w' ?ctx ?d ?data = Some ?row"
    by (rule findTransaction_created [OF none rc(3)]) (simp_all add: inbound_row_fields)
  have "tx_findByProviderTransactionId (w_transactions w') env (ai_slug inp) ptx = Some ?row"
    using unseen(1) by (simp add: tx_findByProviderTransactionId_def rc(3) map_values_def find_appended inbound_row_fields ctx env(1))
  then have abs: "absorbs env (ai_slug inp) ptx w'"
    using fresh(2) by (simp add: absorbs_def rc(3) inbound_row_fields ctx(1) inbound_data_fields map_add_def env(1))
  show thesis
    by (rule that [where row = ?row, OF imp])
      (use rc abs ctx in \<open>simp_all add: recordAudit_def ledger_available_def absorbs_def map_values_def inbound_row_fields\<close>)
qed

section \<open>The mark of the poller\<close>

lemma map_set_value: "v \<in> set (map_values (map_set k v m))"
  by (induction m) (auto simp: map_values_def)

lemma claimed_again:
  assumes "ie_claim (poll_event pl n bound conn entry) rows = ((True, rec), rows')"
  shows "\<exists>rec'. ie_claim (poll_event pl' n' bound conn entry) rows' = ((False, rec'), rows')"
proof -
  let ?P = "\<lambda>row. ie_connectionId row = conn \<and> ie_dedupeKey row = ''poll:'' @ en_providerEntryId entry"
  let ?e = "poll_event pl n bound conn entry"
  have key: "ie_connectionId (poll_event pl n bound conn entry) = conn"
    "ie_dedupeKey (poll_event pl n bound conn entry) = ''poll:'' @ en_providerEntryId entry" for pl n
    by (simp_all add: poll_event_def)
  have rows': "rows' = map_set (ie_id ?e) ?e rows" using assms by (auto simp: ie_claim_def split: option.splits)
  have "?e \<in> set (map_values rows')" unfolding rows' by (rule map_set_value)
  then have "find ?P (map_values rows') \<noteq> None" unfolding find_None_iff using key by blast
  then show ?thesis by (auto simp: ie_claim_def key split: option.split)
qed

lemma poll_outcome:
  assumes "providers conn = Inr bound" "sv_statement bound = Some facet"
    and "ac_findById (w_accounts w) (sv_environment bound) acct = Some account" "truthy (ac_providerAccountId account) = Some pid"
    and "cursor_ensure (new_cursor pl conn acct) cursors = (cursor, cursors1)"
  shows "poll ports pl providers conn acct (cursors, w) =
    (case drain ports pl bound facet pid (fst (poll_window (pl_now pl) cursor)) (snd (poll_window (pl_now pl) cursor)) conn w of
       (Inr k, w1) \<Rightarrow> (Inr k, cursor_advance (cu_id cursor) (snd (poll_window (pl_now pl) cursor)) None (pl_now pl) cursors1, w1)
     | (Inl e, w1) \<Rightarrow> (Inl e, cursor_recordFailure (cu_id cursor) (pl_now pl) cursors1, w1))"
  using assms by (cases "poll_window (pl_now pl) cursor") (auto simp: poll_def split: prod.split sum.split)

section \<open>A run leaves the queue once\<close>

definition left_queue :: "RunRepo \<Rightarrow> ident \<Rightarrow> bool" where
  "left_queue repo i \<longleftrightarrow> (\<exists>run. map_get (rn_runs repo) i = Some run \<and> ru_status run \<noteq> QUEUED)"

lemma left_queue_update:
  assumes "left_queue repo i" "\<And>run. ru_status run \<noteq> QUEUED \<Longrightarrow> ru_status (f run) \<noteq> QUEUED"
  shows "left_queue (update_run j f repo) i"
proof (cases "map_get (rn_runs repo) j")
  case None
  with assms(1) show ?thesis by (simp add: update_run_def)
next
  case (Some run)
  from assms(1) obtain run' where run': "map_get (rn_runs repo) i = Some run'" "ru_status run' \<noteq> QUEUED"
    unfolding left_queue_def by blast
  with Some assms(2) [of run'] show ?thesis by (cases "i = j") (simp_all add: left_queue_def update_run_def update_conv')
qed

lemma left_queue_repo:
  assumes "left_queue repo i"
  shows "left_queue (fail_run j e repo) i" "left_queue (insertItems rows repo) i" "left_queue (linkMatches links repo) i"
    "status \<noteq> QUEUED \<Longrightarrow> left_queue (complete_run j status c b repo) i"
proof -
  have "left_queue (update_run j (\<lambda>run. run\<lparr>ru_status := ReconciliationRunStatus.FAILED\<rparr>) repo) i"
    by (rule left_queue_update [OF assms]) simp
  then show "left_queue (fail_run j e repo) i" by (simp add: fail_run_def Let_def left_queue_def)
  show "left_queue (insertItems rows repo) i" "left_queue (linkMatches links repo) i"
    using assms by (simp_all add: insertItems_def linkMatches_def left_queue_def)
  show "left_queue (complete_run j status c b repo) i" if "status \<noteq> QUEUED"
    unfolding complete_run_def by (rule left_queue_update [OF assms]) (use that in simp)
qed

lemma persist_run_left_queue: "left_queue (ww_runs ww) i \<Longrightarrow> left_queue (ww_runs (persist_run rd run items result ww)) i"
  by (simp add: persist_run_def Let_def left_queue_repo split: prod.split)

lemma execute_left_queue:
  assumes "left_queue (ww_runs ww) i" "execute wp rd providers run ww = (r, ww')"
  shows "left_queue (ww_runs ww') i"
proof -
  have part: "left_queue (ww_runs ww'') i" if "execute_with wp rd run account slug fetched items ww = (r'', ww'')"
    for account slug fetched items r'' ww''
    using that assms(1)
    by (auto simp: execute_with_def Let_def persist_run_left_queue split: prod.splits sum.splits if_splits)
  from assms show ?thesis
    by (auto simp: execute_def left_queue_repo dest: part split: option.splits sum.splits)
qed

section \<open>Breaks from run to run\<close>

lemma closed_rows:
  "map_get (snd (closeNotRecurring inp rows)) k = map_option (\<lambda>row. if closable inp row
     then row\<lparr>bk_status := AUTO_RESOLVED, bk_resolvedAt := Some (cl_at inp)\<rparr> else row) (map_get rows k)"
  by (simp add: closeNotRecurring_def map_of_map comp_def)

lemma missing_break_fields:
  "bd_dedupeKey (last (ps_breaks (faltaNoLocal p a st))) = dedupeKeyFor (ni_endToEndId p) (ni_accountId p) (Some (ni_id p)) None None False"
  "bd_type (last (ps_breaks (faltaNoLocal p a st))) = orphanProviderBreakType p"
  "bd_effectiveDate (last (ps_breaks (faltaNoLocal p a st))) = ni_effectiveDate p"
  by (simp_all add: faltaNoLocal_def Let_def push_break_def)

text \<open>What one run with a single break does to the table and to the outbox.\<close>

definition close_of :: "RunDraws \<Rightarrow> ReconciliationRunRecord \<Rightarrow> string list \<Rightarrow> CloseInput" where
  "close_of rd run keep =
     \<lparr>cl_environment = ru_environment run, cl_connectionId = ru_connectionId run, cl_accountId = ru_accountId run,
      cl_fromDate = toDay (ru_windowStart run), cl_toDate = toDay (ru_windowEnd run), cl_keep = keep, cl_at = rd_persistAt rd\<rparr>"

lemma persist_one_break:
  assumes "rr_breaks result = [b]"
  shows "map_get (ww_breaks (persist_run rd run items result ww)) k =
      map_option (\<lambda>row. if closable (close_of rd run [bd_dedupeKey b]) row
          then row\<lparr>bk_status := AUTO_RESOLVED, bk_resolvedAt := Some (rd_persistAt rd)\<rparr> else row)
        (map_get (snd (upsert_break (rd_persistAt rd) (break_row run (rd_breakId rd 0) b) (ww_breaks ww))) k)"
    "ww_world (persist_run rd run items result ww) =
      announce run (rd_persistAt rd) (fst (upsert_break (rd_persistAt rd) (break_row run (rd_breakId rd 0) b) (ww_breaks ww))) (ww_world ww)"
proof -
  have rows: "indexed (break_row run) (rd_breakId rd) 0 (rr_breaks result) = [break_row run (rd_breakId rd 0) b]"
    by (simp add: assms indexed_def)
  have key: "bk_dedupeKey (break_row run i b) = bd_dedupeKey b" for i by (simp add: break_row_def)
  show "map_get (ww_breaks (persist_run rd run items result ww)) k =
      map_option (\<lambda>row. if closable (close_of rd run [bd_dedupeKey b]) row
          then row\<lparr>bk_status := AUTO_RESOLVED, bk_resolvedAt := Some (rd_persistAt rd)\<rparr> else row)
        (map_get (snd (upsert_break (rd_persistAt rd) (break_row run (rd_breakId rd 0) b) (ww_breaks ww))) k)"
    by (simp add: persist_run_def Let_def rows closed_rows close_of_def key split: prod.split cong: if_cong)
  show "ww_world (persist_run rd run items result ww) =
      announce run (rd_persistAt rd) (fst (upsert_break (rd_persistAt rd) (break_row run (rd_breakId rd 0) b) (ww_breaks ww))) (ww_world ww)"
    by (simp add: persist_run_def Let_def rows split: prod.split)
qed

lemma break_key_row: "break_key (break_row run i b) = break_key (break_row run' i' b') \<longleftrightarrow> bd_dedupeKey b = bd_dedupeKey b'"
  if "ru_connectionId run = ru_connectionId run'" "bd_type b = bd_type b'" "bd_effectiveDate b = bd_effectiveDate b'"
  using that by (simp add: break_key_def break_row_def)

lemma new_break_fields:
  "bk_status (new_break row now) = OPEN" "bk_firstSeenRunId (new_break row now) = bk_runId row" "bk_createdAt (new_break row now) = now"
  "bk_ageDays (new_break row now) = 0" "bk_dedupeKey (new_break row now) = bk_dedupeKey row"
  "bk_environment (new_break row now) = bk_environment row" "bk_connectionId (new_break row now) = bk_connectionId row"
  "bk_accountId (new_break row now) = bk_accountId row" "bk_effectiveDate (new_break row now) = bk_effectiveDate row"
  "bk_id (new_break row now) = bk_id row"
  by (simp_all add: new_break_def BreakUpsertRow.defs)

lemma persist_new_break:
  assumes "rr_breaks result = [b]" "map_get (ww_breaks ww) (break_key (break_row run (rd_breakId rd 0) b)) = None"
  shows "map_get (ww_breaks (persist_run rd run items result ww)) (break_key (break_row run (rd_breakId rd 0) b)) =
      Some (new_break (break_row run (rd_breakId rd 0) b) (rd_persistAt rd))"
    "ww_world (persist_run rd run items result ww) =
      announce run (rd_persistAt rd) \<lparr>ub_id = rd_breakId rd 0, ub_dedupeKey = bd_dedupeKey b, ub_inserted = True\<rparr> (ww_world ww)"
proof -
  have key: "bk_dedupeKey (break_row run i b) = bd_dedupeKey b" "bk_id (break_row run i b) = i" for i by (simp_all add: break_row_def)
  show "map_get (ww_breaks (persist_run rd run items result ww)) (break_key (break_row run (rd_breakId rd 0) b)) =
      Some (new_break (break_row run (rd_breakId rd 0) b) (rd_persistAt rd))"
    by (simp add: persist_one_break(1) [OF assms(1)] upsert_break_def assms(2) update_conv' closable_def close_of_def new_break_fields key)
  show "ww_world (persist_run rd run items result ww) =
      announce run (rd_persistAt rd) \<lparr>ub_id = rd_breakId rd 0, ub_dedupeKey = bd_dedupeKey b, ub_inserted = True\<rparr> (ww_world ww)"
    by (simp add: persist_one_break(2) [OF assms(1)] upsert_break_def assms(2) key)
qed

section \<open>The state the witnesses start from\<close>

definition demo_credit :: StatementEntry where
  "demo_credit = \<lparr>en_providerEntryId = ''N1'', en_providerTransactionId = Some ''TX9'', en_postedAt = 5, en_effectiveDate = ''2024-01-02'',
     en_debit = False, en_amount = \<lparr>mj_amount = ''2500'', mj_currency = BRL, mj_scale = 2\<rparr>, en_type = ''PIX_RECEBIDO'',
     en_endToEndId = Some ''E1'', en_counterparty = None\<rparr>"

definition demo_run :: "ident \<Rightarrow> ReconciliationRunRecord" where
  "demo_run i = \<lparr>ru_id = i, ru_environment = HOMOLOGACAO, ru_connectionId = ''C1'', ru_accountId = ''A1'', ru_scope = DAILY,
     ru_windowStart = 1704153600000, ru_windowEnd = 1704239999999, ru_triggeredBy = ''schedule'', ru_status = QUEUED, ru_createdAt = 0,
     ru_counters = None, ru_balances = None\<rparr>"

definition demo_resolution :: AutoResolutionInput where
  "demo_resolution = \<lparr>ai_run = demo_run ''R1'', ai_account = demo_account, ai_slug = ''mock'', ai_breaks = [],
     ai_rawByItemId = [(''i1'', demo_credit)]\<rparr>"

definition demo_bound :: StatementProvider where
  "demo_bound = \<lparr>sv_slug = ''mock'', sv_environment = HOMOLOGACAO,
     sv_statement = Some (\<lambda>_ _ _ _ _. Replied \<lparr>sp_data = [], sp_nextCursor = None, sp_hasMore = False, sp_openingBalance = None,
       sp_closingBalance = None\<rparr>)\<rparr>"

definition demo_poll :: "bool \<Rightarrow> PollDraws" where
  "demo_poll acquired = \<lparr>pl_cursorId = ''cur'', pl_startedAt = 1704153600000, pl_now = 1704153600000, pl_eventId = (\<lambda>_. ''ev''),
     pl_draft = (\<lambda>_. demo_draws), pl_acquired = (\<lambda>_. acquired), pl_encode = en_providerEntryId, pl_sha256hex = id\<rparr>"

definition demo_run_draws :: "ident \<Rightarrow> RunDraws" where
  "demo_run_draws b = \<lparr>rd_ledgerIds = demo_id, rd_itemId = demo_id, rd_breakId = (\<lambda>_. b), rd_now = 1704240000000,
     rd_persistAt = 1704240000000, rd_draft = (\<lambda>_. demo_draws), rd_acquired = (\<lambda>_. True), rd_auditAt = (\<lambda>_. 1704240000000)\<rparr>"

definition demo_item :: NormalizedItem where
  "demo_item = \<lparr>ni_id = ''i1'', ni_side = ReconciliationSide.PROVIDER, ni_accountId = ''A1'', ni_externalId = Some ''N1'',
     ni_endToEndId = None, ni_postedAt = 5, ni_effectiveDate = ''2024-01-02'', ni_direction = Direction.CREDIT, ni_amountCents = 2500,
     ni_type = ''PIX_RECEBIDO'', ni_status = None, ni_counterpartyTaxIdIndex = None, ni_providerTransactionId = Some ''TX9'',
     ni_ledgerTransactionId = None, ni_matchKeyStrong = None, ni_matchKeyFuzzy = ''f'', ni_raw = []\<rparr>"

definition demo_pass :: PassState where
  "demo_pass = \<lparr>ps_provider = [], ps_local = [], ps_matches = [], ps_breaks = [],
     ps_policy = DEFAULT_POLICY \<lparr>isBusinessDay = (\<lambda>_. True), addBusinessDays = (\<lambda>d _. d), businessDaysBetween = (\<lambda>_ _. 0)\<rparr>, ps_now = 0, ps_pendingSettlement = []\<rparr>"

definition demo_result :: "BreakDraft \<Rightarrow> ReconciliationResult" where
  "demo_result b = \<lparr>rr_matches = [], rr_breaks = [b], rr_counters = \<lparr>providerItemCount = 1, localItemCount = 0, ledgerItemCount = 0,
     matchedCount = 0, breakCount = 1\<rparr>, rr_balance = \<lparr>br_openingCents = None, br_matchedMovementCents = 0, br_expectedClosingCents = None,
     br_providerClosingCents = None, br_ledgerClosingCents = None, br_balanceDeltaCents = None, br_skippedReason = Some no_provider_opening\<rparr>,
     rr_pendingSettlement = []\<rparr>"

section \<open>Properties\<close>

text \<open>C24: a credit whose webhook was lost is recovered once, whichever path brings it.  When reconciliation imports it, the customer's
  available balance grows by exactly its amount, one transaction of that amount is recorded, and from then on neither the
  poller, on the same entry, nor a webhook for the same payment, at any time and under any identifiers, moves the ledger or the
  transactions.\<close>

theorem lost_credit_recovered_once:
  assumes "map_get (ai_rawByItemId inp) item = Some entry" "ac_providerAccountId (ai_account inp) = Some pid" "pid \<noteq> []"
    and "env = ru_environment (ai_run inp)" "ptx = or_else (en_providerTransactionId entry) (en_providerEntryId entry)"
    and "tx_findByProviderTransactionId (w_transactions w) env (ai_slug inp) ptx = None"
      "absent_or (truthy (en_endToEndId entry)) (\<lambda>e. tx_findByEndToEndId (w_transactions w) env e = None)"
    and "ac_findByProviderAccountId (w_accounts w) env (ai_slug inp) pid = Some account"
      "truthy (ac_ledgerAvailableAccountId account) = Some i"
    and "Money_fromJSON (en_amount entry) = Inr money" "0 < mny_cents money"
    and "map_get (w_ledger w) env = Some s" "shadow_reachable s"
      "mem_account s i = Some a" "la_code a = customerAvailableCode c"
    and "mem_findByIdempotencyKey s (''pix-in:'' @ ptx) = None" "map_get (t_rows (w_transactions w)) (d_transactionId dr) = None"
    and "sv_environment bound = env" "sv_slug bound = ai_slug inp"
    and "cx_environment ctx = env" "cx_provider ctx = ai_slug inp" "cd_providerId d = ptx" "cd_data d = TransactionData data"
      "or_else (pe_status data) (pe_transitionTo data) = TransactionStatus.SETTLED"
  shows "\<exists>w1 row w2 w3. importFromProvider ports dr True t inp b item w = (Inr True, w1) \<and>
     ledger_available w1 env i = Some (bal_available (computeBalances a) + mny_cents money) \<and>
     map_values (t_rows (w_transactions w1)) = map_values (t_rows (w_transactions w)) @ [row] \<and>
     tr_accountId row = ac_id account \<and> tr_amountCents row = mny_cents money \<and> tr_direction row = TransactionDirection.CREDIT \<and>
     applyEntry ports' pl n bound entry pid' conn w1 = (Inr False, w2) \<and> w_ledger w2 = w_ledger w1 \<and>
     w_transactions w2 = w_transactions w1 \<and>
     applyDraft ports' dr' ctx d w2 = (Inr recorded, w3) \<and> w_ledger w3 = w_ledger w1 \<and> w_transactions w3 = w_transactions w1"
proof -
  obtain w1 row where w1: "importFromProvider ports dr True t inp b item w = (Inr True, w1)"
    "ledger_available w1 env i = Some (bal_available (computeBalances a) + mny_cents money)"
    "map_values (t_rows (w_transactions w1)) = map_values (t_rows (w_transactions w)) @ [row]"
    "tr_accountId row = ac_id account" "tr_amountCents row = mny_cents money" "tr_direction row = TransactionDirection.CREDIT"
    "absorbs env (ai_slug inp) ptx w1"
    by (rule import_credits [OF assms(1-17)])
  have "absorbs (sv_environment bound) (sv_slug bound) (or_else (en_providerTransactionId entry) (en_providerEntryId entry)) w1"
    using w1(7) assms(5,18,19) by simp
  then obtain w2 where w2: "applyEntry ports' pl n bound entry pid' conn w1 = (Inr False, w2)" "w_ledger w2 = w_ledger w1"
    "w_transactions w2 = w_transactions w1" using poll_absorbed by blast
  have "absorbs (cx_environment ctx) (cx_provider ctx) (cd_providerId d) w2" using w1(7) w2(3) assms(20-22) by (simp add: absorbs_def)
  then obtain w3 where "applyDraft ports' dr' ctx d w2 = (Inr recorded, w3)" "w_ledger w3 = w_ledger w2" "w_transactions w3 = w_transactions w2"
    by (rule absorbed [OF _ assms(23,24)])
  with w1 w2 show ?thesis by auto
qed

theorem lost_credit_recovered_once_witness:
  "\<exists>w1 row w2 w3. importFromProvider demo_ports demo_draws True 30 demo_resolution (last (ps_breaks (faltaNoLocal demo_item False demo_pass)))
       ''i1'' demo_world = (Inr True, w1) \<and>
     ledger_available w1 HOMOLOGACAO ''LA'' = Some 12500 \<and> map_values (t_rows (w_transactions w1)) = [row] \<and> tr_amountCents row = 2500 \<and>
     applyEntry demo_ports (demo_poll True) 0 demo_bound demo_credit ''P1'' ''C1'' w1 = (Inr False, w2) \<and> w_ledger w2 = w_ledger w1 \<and>
     applyDraft demo_ports demo_draws (demo_context None) demo_draft w2 = (Inr recorded, w3) \<and> w_ledger w3 = w_ledger w1"
proof -
  let ?a = "the (mem_account shadow_credited ''LA'')" and ?b = "last (ps_breaks (faltaNoLocal demo_item False demo_pass))"
  have f: "mem_account shadow_credited ''LA'' \<noteq> None \<and> la_code ?a = customerAvailableCode ''c1'' \<and>
     mem_findByIdempotencyKey shadow_credited (''pix-in:'' @ ''TX9'') = None \<and> bal_available (computeBalances ?a) = 10000" by code_simp
  have a: "mem_account shadow_credited ''LA'' = Some ?a" using f by auto
  have i: "map_get (ai_rawByItemId demo_resolution) ''i1'' = Some demo_credit" "ac_providerAccountId (ai_account demo_resolution) = Some ''P1''"
    "HOMOLOGACAO = ru_environment (ai_run demo_resolution)" "''TX9'' = or_else (en_providerTransactionId demo_credit) (en_providerEntryId demo_credit)"
    "tx_findByProviderTransactionId (w_transactions demo_world) HOMOLOGACAO (ai_slug demo_resolution) ''TX9'' = None"
    "absent_or (truthy (en_endToEndId demo_credit)) (\<lambda>e. tx_findByEndToEndId (w_transactions demo_world) HOMOLOGACAO e = None)"
    "ac_findByProviderAccountId (w_accounts demo_world) HOMOLOGACAO (ai_slug demo_resolution) ''P1'' = Some demo_account"
    "Money_fromJSON (en_amount demo_credit) = Inr \<lparr>mny_cents = 2500, mny_currency = BRL\<rparr>"
    by (code_simp, code_simp, code_simp, code_simp, code_simp, code_simp, code_simp, code_simp)
  have x: "map_get (w_ledger demo_world) HOMOLOGACAO = Some shadow_credited" "t_rows (w_transactions demo_world) = []"
    "truthy (ac_ledgerAvailableAccountId demo_account) = Some ''LA''" "sv_environment demo_bound = HOMOLOGACAO"
    "sv_slug demo_bound = ai_slug demo_resolution" "cx_environment (demo_context None) = HOMOLOGACAO"
    "cx_provider (demo_context None) = ai_slug demo_resolution" "cd_providerId demo_draft = ''TX9''"
    "cd_data demo_draft = TransactionData demo_payment"
    "or_else (pe_status demo_payment) (pe_transitionTo demo_payment) = TransactionStatus.SETTLED"
    by (simp_all add: demo_world_def demo_account_def demo_bound_def demo_resolution_def demo_context_def demo_draft_def demo_payment_def)
  note once = lost_credit_recovered_once [where w = demo_world and account = demo_account and s = shadow_credited and a = ?a and c = "''c1''"
      and bound = demo_bound and ctx = "demo_context None" and d = demo_draft and data = demo_payment and dr = demo_draws and dr' = demo_draws
      and ports = demo_ports and ports' = demo_ports and pl = "demo_poll True" and n = 0 and pid' = "''P1''" and conn = "''C1''" and t = 30
      and b = ?b and env = HOMOLOGACAO and ptx = "''TX9''",
      OF i(1,2) _ i(3-7) x(3) i(8) _ x(1) shadow_demo_reachable(2) a _ _ _ x(4-10)]
  show ?thesis using once f x(2) by (auto simp: map_values_def)
qed

text \<open>The poller claims an entry before it applies it.  When the lock of the aggregate is not obtained, the credit is not
  applied, and no later poll applies it: the claim of the first one turns every other away.\<close>

theorem poll_claims_before_applying:
  assumes "\<not> en_debit entry" "ie_claim (poll_event pl n bound conn entry) (w_events w) = ((True, rec), rows)" "\<not> pl_acquired pl n"
  shows "\<exists>w1. applyEntry ports pl n bound entry pid conn w = (Inr False, w1) \<and> w_ledger w1 = w_ledger w \<and>
     w_transactions w1 = w_transactions w \<and>
     (\<forall>ports' pl' n' pid' led tx. applyEntry ports' pl' n' bound entry pid' conn (w1\<lparr>w_ledger := led, w_transactions := tx\<rparr>) =
        (Inr False, w1\<lparr>w_ledger := led, w_transactions := tx\<rparr>))"
proof -
  have first: "applyEntry ports pl n bound entry pid conn w = (Inr False, w\<lparr>w_events := rows\<rparr>)"
    using assms by (simp add: applyEntry_def)
  have "applyEntry ports' pl' n' bound entry pid' conn (w\<lparr>w_events := rows, w_ledger := led, w_transactions := tx\<rparr>) =
      (Inr False, w\<lparr>w_events := rows, w_ledger := led, w_transactions := tx\<rparr>)" for ports' pl' n' pid' led tx
    using claimed_again [OF assms(2), of pl' n'] assms(1) by (auto simp: applyEntry_def)
  with first show ?thesis by simp
qed

theorem poll_claims_before_applying_witness:
  "\<exists>w1. applyEntry demo_ports (demo_poll False) 0 demo_bound demo_credit ''P1'' ''C1'' demo_world = (Inr False, w1) \<and>
     w_ledger w1 = w_ledger demo_world \<and>
     applyEntry demo_ports (demo_poll True) 0 demo_bound demo_credit ''P1'' ''C1'' w1 = (Inr False, w1)"
proof -
  have "\<not> en_debit demo_credit" "\<not> pl_acquired (demo_poll False) 0" "w_events demo_world = []"
    by (simp_all add: demo_credit_def demo_poll_def demo_world_def)
  moreover have "ie_claim (poll_event (demo_poll False) 0 demo_bound ''C1'' demo_credit) [] =
     ((True, poll_event (demo_poll False) 0 demo_bound ''C1'' demo_credit), [(''ev'', poll_event (demo_poll False) 0 demo_bound ''C1'' demo_credit)])"
    by (simp add: ie_claim_def poll_event_def demo_poll_def map_values_def)
  ultimately obtain w1 where w1: "applyEntry demo_ports (demo_poll False) 0 demo_bound demo_credit ''P1'' ''C1'' demo_world = (Inr False, w1)"
    "w_ledger w1 = w_ledger demo_world"
    "\<And>ports' pl' n' pid' led tx. applyEntry ports' pl' n' demo_bound demo_credit pid' ''C1'' (w1\<lparr>w_ledger := led, w_transactions := tx\<rparr>) =
        (Inr False, w1\<lparr>w_ledger := led, w_transactions := tx\<rparr>)"
    using poll_claims_before_applying [of demo_credit "demo_poll False" 0 demo_bound "''C1''" demo_world] by metis
  have "applyEntry demo_ports (demo_poll True) 0 demo_bound demo_credit ''P1'' ''C1'' w1 = (Inr False, w1)"
    using w1(3) [of demo_ports "demo_poll True" 0 "''P1''" "w_transactions w1" "w_ledger w1"] by simp
  with w1(1,2) show ?thesis by blast
qed

text \<open>The mark of the poller.  A poll that fails leaves it where it was; one that succeeds moves it to the end of a window that
  starts no later than the mark was, so that no instant is skipped, and that ends at most a day after its start and never in
  the future.  A mark that lags behind the clock moves forward.\<close>

theorem poll_mark_moves:
  assumes "providers conn = Inr bound" "sv_statement bound = Some facet"
    and "ac_findById (w_accounts w) (sv_environment bound) acct = Some account" "truthy (ac_providerAccountId account) = Some pid"
    and "cursor_ensure (new_cursor pl conn acct) cursors = (cursor, cursors1)" "map_get cursors1 (cu_id cursor) = Some cursor"
    and "0 \<le> cu_lapSeconds cursor" "cu_lapSeconds cursor < 86400"
  shows "case poll ports pl providers conn acct (cursors, w) of
      (Inl _, cursors', _) \<Rightarrow> map_option cu_watermark (map_get cursors' (cu_id cursor)) = Some (cu_watermark cursor)
    | (Inr _, cursors', _) \<Rightarrow>
        (\<exists>start mark. poll_window (pl_now pl) cursor = (start, mark) \<and>
           map_option cu_watermark (map_get cursors' (cu_id cursor)) = Some mark \<and>
           start \<le> cu_watermark cursor \<and> mark \<le> pl_now pl \<and> mark \<le> start + 86400000 \<and>
           (cu_watermark cursor < pl_now pl \<longrightarrow> cu_watermark cursor < mark))"
proof -
  have progress: "cu_watermark cursor < min (pl_now pl) (cu_watermark cursor - cu_lapSeconds cursor * 1000 + 24 * 3600000)"
    if "cu_watermark cursor < pl_now pl" using that assms(8) by simp
  have window: "poll_window (pl_now pl) cursor = (cu_watermark cursor - cu_lapSeconds cursor * 1000,
      min (pl_now pl) (cu_watermark cursor - cu_lapSeconds cursor * 1000 + 24 * 3600000))"
    by (simp add: poll_window_def Let_def MAX_WINDOW_MS_def)
  show ?thesis
  proof (cases "drain ports pl bound facet pid (fst (poll_window (pl_now pl) cursor)) (snd (poll_window (pl_now pl) cursor)) conn w")
    case (Pair r w1)
    then show ?thesis
      using poll_outcome [where providers = providers and conn = conn and bound = bound and facet = facet and w = w and acct = acct
          and pl = pl and ports = ports, OF assms(1-5)] progress assms(6,7)
      by (cases r) (auto simp: cursor_advance_def cursor_recordFailure_def update_conv' window)
  qed
qed

theorem poll_mark_moves_witness:
  "case poll demo_ports (demo_poll True) (\<lambda>_. Inr demo_bound) ''C1'' ''A1'' ([], demo_world) of
      (Inl _, cursors', _) \<Rightarrow> map_option cu_watermark (map_get cursors' ''cur'') = Some 1704067200000
    | (Inr _, cursors', _) \<Rightarrow>
        (\<exists>start mark. poll_window 1704153600000 (new_cursor (demo_poll True) ''C1'' ''A1'') = (start, mark) \<and>
           map_option cu_watermark (map_get cursors' ''cur'') = Some mark \<and> mark \<le> 1704153600000 \<and> 1704067200000 < mark)"
proof -
  let ?c = "new_cursor (demo_poll True) ''C1'' ''A1''"
  have c: "cu_id ?c = ''cur''" "cu_watermark ?c = 1704067200000" "cu_lapSeconds ?c = 300" "pl_now (demo_poll True) = 1704153600000"
    by (simp_all add: new_cursor_def demo_poll_def MAX_WINDOW_MS_def)
  have e: "cursor_ensure ?c [] = (?c, [(''cur'', ?c)])" by (simp add: cursor_ensure_def c map_values_def)
  have s: "\<exists>facet. sv_statement demo_bound = Some facet"
    "ac_findById (w_accounts demo_world) (sv_environment demo_bound) ''A1'' = Some demo_account"
    "truthy (ac_providerAccountId demo_account) = Some ''P1''"
    by (simp add: demo_bound_def, code_simp, code_simp)
  obtain facet where facet: "sv_statement demo_bound = Some facet" using s(1) by blast
  show ?thesis
    using poll_mark_moves [where providers = "\<lambda>_. Inr demo_bound" and conn = "''C1''" and bound = demo_bound and w = demo_world
        and acct = "''A1''" and pl = "demo_poll True" and ports = demo_ports, OF refl facet s(2,3) e]
    by (auto simp: c split: prod.splits sum.splits)
qed

text \<open>A run of reconciliation is executed once.  However it ends, completed, completed with breaks or failed, executing it again,
  with whatever provider, draws or clock, does nothing.\<close>

theorem run_executes_once:
  assumes "map_get (rn_runs (ww_runs ww)) i = Some run" "ru_environment run = env"
    and "run_reconciliation wp rd providers env i ww = (r, ww1)"
  shows "run_reconciliation wp' rd' providers' env i ww1 = (Inr (), ww1)"
proof (cases "ru_status run = QUEUED")
  case True
  let ?ww = "ww\<lparr>ww_runs := markRunning i (ww_runs ww)\<rparr>"
  obtain r2 ww2 where ex: "execute wp rd providers (run\<lparr>ru_status := RUNNING\<rparr>) ?ww = (r2, ww2)" by fastforce
  have "left_queue (ww_runs ?ww) i" using assms(1) by (simp add: left_queue_def markRunning_def update_run_def update_conv')
  from execute_left_queue [OF this ex] have l: "left_queue (ww_runs ww2) i" .
  have "left_queue (ww_runs ww1) i"
    using assms True ex l by (auto simp: run_reconciliation_def run_findById_def left_queue_repo split: sum.splits)
  then show ?thesis by (auto simp: run_reconciliation_def run_findById_def left_queue_def split: option.split)
next
  case False
  with assms show ?thesis by (auto simp: run_reconciliation_def run_findById_def)
qed

definition demo_worker :: WorkerPorts where
  "demo_worker = \<lparr>wk_ports = demo_ports, wk_sha256 = id, wk_localeCompare = (\<lambda>_ _. 0),
     wk_calendar = \<lparr>isBusinessDay = (\<lambda>_. True), addBusinessDays = (\<lambda>d _. d), businessDaysBetween = (\<lambda>_ _. 0)\<rparr>\<rparr>"

definition demo_queue :: WorkerWorld where
  "demo_queue = demo_desk\<lparr>ww_runs := \<lparr>rn_runs = [(''R1'', demo_run ''R1'')], rn_items = [], rn_matches = [], rn_failures = []\<rparr>\<rparr>"

theorem run_executes_once_witness:
  "\<exists>r ww1. run_reconciliation demo_worker (demo_run_draws ''B1'') (\<lambda>_. Inr demo_bound) HOMOLOGACAO ''R1'' demo_queue = (r, ww1) \<and>
     run_reconciliation demo_worker (demo_run_draws ''B2'') (\<lambda>_. Inr demo_bound) HOMOLOGACAO ''R1'' ww1 = (Inr (), ww1)"
proof -
  obtain r ww1 where first: "run_reconciliation demo_worker (demo_run_draws ''B1'') (\<lambda>_. Inr demo_bound) HOMOLOGACAO ''R1'' demo_queue = (r, ww1)"
    by fastforce
  have "map_get (rn_runs (ww_runs demo_queue)) ''R1'' = Some (demo_run ''R1'')" "ru_environment (demo_run ''R1'') = HOMOLOGACAO"
    by (simp_all add: demo_queue_def demo_run_def)
  from run_executes_once [OF this first] first show ?thesis by blast
qed

text \<open>A movement of the provider that stays without a local record, seen by two runs in a row.  When it carries an
  end-to-end identifier, the second run recognises the break of the first: it stays open, it still knows the run that first
  saw it and it is not announced again.  Without one, the break is keyed by the item's identifier, which every run mints anew:
  the second run closes the first break as resolved, opens another of age zero and announces it.\<close>

theorem break_seen_by_two_runs:
  assumes "rr_breaks r1 = [b1]" "b1 = last (ps_breaks (faltaNoLocal p amb st1))"
    and "rr_breaks r2 = [b2]" "b2 = last (ps_breaks (faltaNoLocal (p\<lparr>ni_id := i2\<rparr>) amb st2))"
    and "ni_id p \<noteq> []" "i2 \<noteq> []" "i2 \<noteq> ni_id p"
    and "ru_environment run2 = ru_environment run1" "ru_connectionId run2 = ru_connectionId run1" "ru_accountId run2 = ru_accountId run1"
    and "toDay (ru_windowStart run2) \<le> ni_effectiveDate p" "ni_effectiveDate p \<le> toDay (ru_windowEnd run2)"
    and "k1 = break_key (break_row run1 (rd_breakId rd1 0) b1)" "k2 = break_key (break_row run2 (rd_breakId rd2 0) b2)"
    and "map_get (ww_breaks ww) k1 = None" "map_get (ww_breaks ww) k2 = None"
    and "ww1 = persist_run rd1 run1 items1 r1 ww" "ww2 = persist_run rd2 run2 items2 r2 ww1"
  shows "if truthy (ni_endToEndId p) \<noteq> None
     then k2 = k1 \<and> ww_world ww2 = ww_world ww1 \<and>
       (\<exists>row. map_get (ww_breaks ww2) k1 = Some row \<and> bk_status row = OPEN \<and> bk_id row = rd_breakId rd1 0 \<and>
          bk_firstSeenRunId row = ru_id run1 \<and> bk_runId row = ru_id run2)
     else (\<exists>old new. map_get (ww_breaks ww2) k1 = Some old \<and> bk_id old = rd_breakId rd1 0 \<and> bk_status old = AUTO_RESOLVED \<and>
          map_get (ww_breaks ww2) k2 = Some new \<and> bk_id new = rd_breakId rd2 0 \<and> bk_status new = OPEN \<and> bk_ageDays new = 0 \<and>
          bk_firstSeenRunId new = ru_id run2) \<and>
       ww_world ww2 = announce run2 (rd_persistAt rd2) \<lparr>ub_id = rd_breakId rd2 0, ub_dedupeKey = bd_dedupeKey b2, ub_inserted = True\<rparr>
         (ww_world ww1)"
proof -
  let ?row1 = "break_row run1 (rd_breakId rd1 0) b1" and ?row2 = "break_row run2 (rd_breakId rd2 0) b2"
  let ?new1 = "new_break ?row1 (rd_persistAt rd1)"
  have same: "bd_type b2 = bd_type b1" "bd_effectiveDate b2 = ni_effectiveDate p" "bd_effectiveDate b1 = ni_effectiveDate p"
    "bd_dedupeKey b1 = dedupeKeyFor (ni_endToEndId p) (ni_accountId p) (Some (ni_id p)) None None False"
    "bd_dedupeKey b2 = dedupeKeyFor (ni_endToEndId p) (ni_accountId p) (Some i2) None None False"
    by (simp_all add: assms(2,4) missing_break_fields orphanProviderBreakType_def)
  have keys: "k2 = k1 \<longleftrightarrow> bd_dedupeKey b2 = bd_dedupeKey b1"
    unfolding assms(13,14) by (rule break_key_row) (simp_all add: assms(9) same)
  have fields: "bk_id (break_row run i b) = i" "bk_runId (break_row run i b) = ru_id run" "bk_dedupeKey (break_row run i b) = bd_dedupeKey b"
    "bk_environment (break_row run i b) = ru_environment run" "bk_connectionId (break_row run i b) = ru_connectionId run"
    "bk_accountId (break_row run i b) = ru_accountId run" "bk_effectiveDate (break_row run i b) = bd_effectiveDate b" for run i b
    by (simp_all add: break_row_def)
  have one: "map_get (ww_breaks ww1) k1 = Some ?new1"
    unfolding assms(13,17) by (rule persist_new_break [OF assms(1)]) (use assms(13,15) in simp)
  show ?thesis
  proof (cases "truthy (ni_endToEndId p)")
    case (Some e)
    then have k: "bd_dedupeKey b2 = bd_dedupeKey b1" using same by (simp add: dedupeKeyFor_def)
    with keys have k2: "k2 = k1" by simp
    have u: "upsert_break (rd_persistAt rd2) ?row2 (ww_breaks ww1) =
        (\<lparr>ub_id = bk_id ?new1, ub_dedupeKey = bd_dedupeKey b2, ub_inserted = False\<rparr>,
         map_set k1 (seen_again ?row2 (rd_persistAt rd2) ?new1) (ww_breaks ww1))"
      using one k2 assms(14) by (simp add: upsert_break_def fields)
    show ?thesis
      using Some k2 unfolding assms(18) persist_one_break [OF assms(3)] u
      by (simp add: update_conv' announce_def closable_def close_of_def seen_again_def new_break_fields fields k)
  next
    case None
    then have k: "bd_dedupeKey b2 \<noteq> bd_dedupeKey b1" using same assms(5-7) by (simp add: dedupeKeyFor_def)
    with keys have k2: "k2 \<noteq> k1" by simp
    have absent: "map_get (ww_breaks ww1) k2 = None"
      using k2 assms(13,15,16) by (simp add: assms(17) persist_one_break(1) [OF assms(1)] upsert_break_def update_conv')
    note two = persist_new_break [OF assms(3), of ww1 run2 rd2, folded assms(14), OF absent]
    have old: "map_get (ww_breaks ww2) k1 =
        Some (?new1\<lparr>bk_status := AUTO_RESOLVED, bk_resolvedAt := Some (rd_persistAt rd2)\<rparr>)"
      using k k2 one absent assms(8-12)
      by (simp add: assms(18) persist_one_break(1) [OF assms(3)] upsert_break_def assms(14) [symmetric] update_conv' closable_def close_of_def
          new_break_fields fields same is_open_def)
    show ?thesis
      using None old two by (simp add: assms(18) new_break_fields fields)
  qed
qed

theorem break_seen_by_two_runs_witness:
  "\<exists>ww1 ww2 old new k1 k2.
     ww1 = persist_run (demo_run_draws ''B1'') (demo_run ''R1'') [] (demo_result (last (ps_breaks (faltaNoLocal demo_item False demo_pass)))) demo_desk \<and>
     ww2 = persist_run (demo_run_draws ''B2'') (demo_run ''R2'') []
       (demo_result (last (ps_breaks (faltaNoLocal (demo_item\<lparr>ni_id := ''i2''\<rparr>) False demo_pass)))) ww1 \<and>
     map_get (ww_breaks ww2) k1 = Some old \<and> bk_id old = ''B1'' \<and> bk_status old = AUTO_RESOLVED \<and>
     map_get (ww_breaks ww2) k2 = Some new \<and> bk_id new = ''B2'' \<and> bk_status new = OPEN \<and> bk_firstSeenRunId new = ''R2''"
proof -
  let ?b1 = "last (ps_breaks (faltaNoLocal demo_item False demo_pass))"
    and ?b2 = "last (ps_breaks (faltaNoLocal (demo_item\<lparr>ni_id := ''i2''\<rparr>) False demo_pass))"
  have r: "rr_breaks (demo_result b) = [b]" for b by (simp add: demo_result_def)
  have "ru_environment (demo_run i) = HOMOLOGACAO" "ru_connectionId (demo_run i) = ''C1''" "ru_accountId (demo_run i) = ''A1''"
    "ru_windowStart (demo_run i) = 1704153600000" "ru_windowEnd (demo_run i) = 1704239999999" "ru_id (demo_run i) = i" for i
    by (simp_all add: demo_run_def)
  note run = this
  have day: "toDay 1704153600000 = ''2024-01-02''" "toDay 1704239999999 = ''2024-01-02''" by (code_simp, code_simp)
  have p: "ni_id demo_item = ''i1''" "ni_endToEndId demo_item = None" "ni_effectiveDate demo_item = ''2024-01-02''" by (simp_all add: demo_item_def)
  have d: "ww_breaks demo_desk = []" "rd_breakId (demo_run_draws b) 0 = b" for b by (simp_all add: demo_desk_def demo_run_draws_def)
  show ?thesis
    using break_seen_by_two_runs [where ?r1.0 = "demo_result ?b1" and ?r2.0 = "demo_result ?b2" and p = demo_item and ?i2.0 = "''i2''" and amb = False
        and ?rd1.0 = "demo_run_draws ''B1''" and ?rd2.0 = "demo_run_draws ''B2''" and ?run1.0 = "demo_run ''R1''" and ?run2.0 = "demo_run ''R2''"
        and ww = demo_desk and ?items1.0 = "[]" and ?items2.0 = "[]", OF r refl r refl _ _ _ _ _ _ _ _ refl refl _ _ refl refl]
    by (simp add: run day p d) blast
qed

end
