(* ===== verification/Webhook_Signature.thy ===== *)
theory Webhook_Signature
  imports Br_Identifiers Recon_Repositories Money
begin

text \<open>
  Signatures of outgoing webhooks, \<open>src/packages/crypto/src/webhook-signature.ts\<close>: the header the dispatcher builds and
  the verifier the SDK publishes.

  HMAC is a parameter.  \<open>Number\<close> of a string is written out, with the value the literal denotes as a rational: the
  rounding to a double is left out, its overflow is not.  The text of a number that is not an integer is a parameter.
\<close>

section \<open>\<open>Number\<close> of a string\<close>

definition infinite :: "bool \<Rightarrow> JsNumber" where
  "infinite neg = (if neg then NegInfinity else Infinity)"

definition read_exponent :: "rat \<Rightarrow> string \<Rightarrow> rat option" where
  "read_exponent m s =
     (let neg = (s \<noteq> [] \<and> hd s = CHR ''-''); ds = (if s \<noteq> [] \<and> (hd s = CHR ''-'' \<or> hd s = CHR ''+'') then tl s else s) in
      if ds = [] \<or> \<not> list_all is_digit ds then None
      else Some (if neg then m / 10 ^ read_nat ds else m * 10 ^ read_nat ds))"

definition read_decimal :: "string \<Rightarrow> rat option" where
  "read_decimal s =
     (let whole = takeWhile is_digit s; rest = dropWhile is_digit s;
          point = (rest \<noteq> [] \<and> hd rest = CHR ''.'');
          frac = (if point then takeWhile is_digit (tl rest) else []);
          tail = (if point then dropWhile is_digit (tl rest) else rest);
          m = of_nat (read_nat (whole @ frac)) / 10 ^ length frac in
      if whole = [] \<and> frac = [] then None
      else if tail = [] then Some m
      else if hd tail = CHR ''e'' \<or> hd tail = CHR ''E'' then read_exponent m (tl tail)
      else None)"

text \<open>The least magnitude that rounds to \<open>Infinity\<close>.\<close>

definition OVERFLOW :: rat where "OVERFLOW = 2 ^ 1024 - 2 ^ 970"

definition as_double :: "bool \<Rightarrow> rat option \<Rightarrow> JsNumber" where
  "as_double neg v =
     (case v of None \<Rightarrow> NaN
      | Some m \<Rightarrow> if OVERFLOW \<le> m then infinite neg else Num (if neg then - m else m))"

definition js_Number :: "string \<Rightarrow> JsNumber" where
  "js_Number str =
     (let s = js_trim str;
          signed = (\<lambda>neg t. if t = ''Infinity'' then infinite neg else as_double neg (read_decimal t));
          radix = (\<lambda>r ds. if ds = [] then NaN else as_double False (map_option of_nat (read_radix r 0 ds)))
      in if s = [] then Num 0
         else if take 2 s = ''0x'' \<or> take 2 s = ''0X'' then radix 16 (drop 2 s)
         else if take 2 s = ''0o'' \<or> take 2 s = ''0O'' then radix 8 (drop 2 s)
         else if take 2 s = ''0b'' \<or> take 2 s = ''0B'' then radix 2 (drop 2 s)
         else if hd s = CHR ''-'' then signed True (tl s)
         else if hd s = CHR ''+'' then signed False (tl s)
         else signed False s)"

text \<open>\<open>String\<close> of a number: integers below \<open>10^21\<close> are their digits, \<open>text\<close> is the rest of \<open>Number::toString\<close>.\<close>

definition number_text :: "(rat \<Rightarrow> string) \<Rightarrow> rat \<Rightarrow> string" where
  "number_text other r = (if of_int \<lfloor>r\<rfloor> = r \<and> \<bar>r\<bar> < 10 ^ 21 then show_int \<lfloor>r\<rfloor> else other r)"

section \<open>webhook-signature.ts\<close>

definition SCHEME :: string where "SCHEME = ''v1''"

definition signaturePayload :: "(rat \<Rightarrow> string) \<Rightarrow> rat \<Rightarrow> string \<Rightarrow> string" where
  "signaturePayload other timestampSeconds payload = number_text other timestampSeconds @ ''.'' @ payload"

text \<open>\<open>None\<close> is the exception for an empty list of secrets.\<close>

definition buildWebhookSignature ::
  "(string \<Rightarrow> string \<Rightarrow> string) \<Rightarrow> (rat \<Rightarrow> string) \<Rightarrow> string \<Rightarrow> int \<Rightarrow> string list \<Rightarrow> string option" where
  "buildWebhookSignature hmac other payload timestampSeconds secrets =
     (if secrets = [] then None
      else (let signed = signaturePayload other (of_int timestampSeconds) payload;
                elements = map (\<lambda>secret. SCHEME @ ''='' @ hmac secret signed) secrets
            in Some (join_with '','' ((''t='' @ number_text other (of_int timestampSeconds)) # elements))))"

datatype SignatureFailure = malformed | timestamp_out_of_window | no_matching_signature

text \<open>One element of the header: what it adds to the timestamp and to the signatures.\<close>

definition header_part :: "rat option \<times> string list \<Rightarrow> string \<Rightarrow> rat option \<times> string list" where
  "header_part acc part =
     (case js_split (CHR ''='') (js_trim part) of
        key # value # _ \<Rightarrow>
          (if key = [] \<or> value = [] then acc
           else if key = ''t'' then (case js_Number value of Num r \<Rightarrow> (Some r, snd acc) | _ \<Rightarrow> acc)
           else if key = SCHEME then (fst acc, snd acc @ [value])
           else acc)
      | _ \<Rightarrow> acc)"

definition parseSignatureHeader :: "string \<Rightarrow> (rat \<times> string list) option" where
  "parseSignatureHeader header =
     (case foldl header_part (None, []) (js_split (CHR '','') header) of
        (Some timestamp, signatures) \<Rightarrow> if signatures = [] then None else Some (timestamp, signatures)
      | (None, _) \<Rightarrow> None)"

text \<open>Comparing in constant time decides equality.\<close>

definition constantTimeEquals :: "string \<Rightarrow> string \<Rightarrow> bool" where
  "constantTimeEquals a b \<longleftrightarrow> a = b"

definition verifyWebhookSignature ::
  "(string \<Rightarrow> string \<Rightarrow> string) \<Rightarrow> (rat \<Rightarrow> string) \<Rightarrow> string \<Rightarrow> string \<Rightarrow> string list \<Rightarrow> rat \<Rightarrow> rat \<Rightarrow> SignatureFailure + unit" where
  "verifyWebhookSignature hmac other header payload secrets nowSeconds toleranceSeconds =
     (case parseSignatureHeader header of
        None \<Rightarrow> Inl malformed
      | Some (timestamp, signatures) \<Rightarrow>
          if \<bar>nowSeconds - timestamp\<bar> > toleranceSeconds then Inl timestamp_out_of_window
          else
            (let signed = signaturePayload other timestamp payload;
                 expected = map (\<lambda>secret. hmac secret signed) secrets
             in if list_ex (\<lambda>received. list_ex (\<lambda>e. constantTimeEquals e received) expected) signatures then Inr ()
                else Inl no_matching_signature))"

section \<open>A header that was built is read back\<close>

lemma js_split_none: "c \<notin> set w \<Longrightarrow> js_split c w = [w]"
  by (induction w) auto

lemma js_split_cons: "c \<notin> set w \<Longrightarrow> js_split c (w @ c # rest) = w # js_split c rest"
  by (induction w) (auto split: list.splits)

lemma js_split_join:
  "xs \<noteq> [] \<Longrightarrow> \<forall>x\<in>set xs. c \<notin> set x \<Longrightarrow> js_split c (join_with [c] xs) = xs"
  by (induction "[c]" xs rule: join_with.induct) (auto simp: js_split_none js_split_cons)

lemma js_Number_show:
  assumes "0 \<le> t" "t < 10 ^ 21"
  shows "js_Number (show_int t) = Num (of_int t)"
proof -
  have s: "show_int t = show_nat (nat t)" using assms(1) by (simp add: show_int_def)
  let ?s = "show_nat (nat t)"
  have d: "\<forall>c\<in>set ?s. is_digit c" and ne: "?s \<noteq> []" using show_nat_digits by (blast, simp)
  have all: "takeWhile is_digit ?s = ?s" "dropWhile is_digit ?s = []" using d by simp_all
  have read: "read_decimal ?s = Some (of_int t)" using assms(1) by (simp add: read_decimal_def Let_def all)
  have small: "\<not> OVERFLOW \<le> (of_int t :: rat)"
  proof -
    have "(of_int t :: rat) < 10 ^ 21" using assms(2) by (metis of_int_less_iff of_int_numeral of_int_power)
    also have "(10 ^ 21 :: rat) < OVERFLOW" by (simp add: OVERFLOW_def)
    finally show ?thesis by simp
  qed
  have hd: "is_digit (hd ?s)" using d ne by simp
  have inf: "?s \<noteq> ''Infinity''"
  proof
    assume "?s = ''Infinity''"
    with d have "is_digit (CHR ''I'')" by (metis list.set_intros(1))
    then show False by (simp add: is_digit_def)
  qed
  have signs: "hd ?s \<noteq> CHR ''-''" "hd ?s \<noteq> CHR ''+''" using hd by (auto simp: is_digit_def)
  have prefix: "take 2 ?s \<noteq> ''0x''" "take 2 ?s \<noteq> ''0X''" "take 2 ?s \<noteq> ''0o''" "take 2 ?s \<noteq> ''0O''" "take 2 ?s \<noteq> ''0b''"
    "take 2 ?s \<noteq> ''0B''"
    using take2_digits [OF d] radix_prefix_not_digit by blast+
  show ?thesis
    using read small inf signs ne js_trim_digits [OF ne d] prefix by (simp add: s js_Number_def Let_def as_double_def)
qed

lemma header_elements:
  assumes "\<forall>s m. hmac s m \<noteq> [] \<and> list_all (\<lambda>c. hex_val c \<noteq> None) (hmac s m)"
  shows "foldl header_part (x, sigs) (map (\<lambda>secret. SCHEME @ ''='' @ hmac secret signed) secrets) =
    (x, sigs @ map (\<lambda>secret. hmac secret signed) secrets)"
proof (induction secrets arbitrary: sigs)
  case Nil
  then show ?case by simp
next
  case (Cons secret secrets)
  let ?h = "hmac secret signed"
  have h: "?h \<noteq> []" "\<forall>c\<in>set ?h. hex_val c \<noteq> None" using assms by (auto simp: list_all_iff)
  have no: "hex_val (CHR ''='') = None" by code_simp
  have sp: "\<not> is_space c" if "hex_val c \<noteq> None" for c using that by (auto simp: hex_val_def is_space_def Let_def split: if_splits)
  have trim: "js_trim (SCHEME @ ''='' @ ?h) = SCHEME @ ''='' @ ?h"
    by (rule js_trim_id) (use h sp in \<open>auto simp: SCHEME_def is_space_def\<close>)
  have split: "js_split (CHR ''='') (SCHEME @ ''='' @ ?h) = [SCHEME, ?h]"
  proof -
    have "CHR ''='' \<notin> set ?h" using h(2) no by blast
    from js_split_none [OF this] show ?thesis using js_split_cons [of "CHR ''=''" SCHEME ?h] by (simp add: SCHEME_def)
  qed
  have "header_part (x, sigs) (SCHEME @ ''='' @ ?h) = (x, sigs @ [?h])"
    unfolding header_part_def trim split using h(1) by (simp add: SCHEME_def)
  with Cons.IH [of "sigs @ [?h]"] show ?case by simp
qed

lemma signature_parse_built:
  assumes hex: "\<forall>s m. hmac s m \<noteq> [] \<and> list_all (\<lambda>c. hex_val c \<noteq> None) (hmac s m)"
    and t: "0 \<le> t" "t < 10 ^ 21" and "secrets \<noteq> []" "signed = signaturePayload other (of_int t) payload"
    and built: "buildWebhookSignature hmac other payload t secrets = Some h"
  shows "parseSignatureHeader h = Some (of_int t, map (\<lambda>secret. hmac secret signed) secrets)"
proof -
  let ?es = "map (\<lambda>secret. SCHEME @ ''='' @ hmac secret signed) secrets" and ?n = "show_nat (nat t)"
  have n: "number_text other (of_int t) = ?n"
    using t by (simp add: number_text_def show_int_def)
  have d: "\<forall>c\<in>set ?n. is_digit c" "?n \<noteq> []" using show_nat_digits by (blast, simp)
  have no: "hex_val (CHR '','') = None" by code_simp
  have h: "h = join_with '','' ((''t='' @ ?n) # ?es)" using built assms(4,5) n by (simp add: buildWebhookSignature_def Let_def)
  have "\<forall>x\<in>set ((''t='' @ ?n) # ?es). CHR '','' \<notin> set x"
  proof -
    have "CHR '','' \<notin> set (hmac secret signed)" for secret using hex no unfolding list_all_iff by blast
    moreover have "CHR '','' \<notin> set ?n" using d(1) radix_prefix_not_digit(10) by blast
    ultimately show ?thesis by (auto simp: SCHEME_def)
  qed
  then have split: "js_split (CHR '','') h = (''t='' @ ?n) # ?es" unfolding h by (intro js_split_join) auto
  have trim: "js_trim (''t='' @ ?n) = ''t='' @ ?n"
    by (rule js_trim_id) (use d digit_not_space in \<open>auto simp: is_space_def\<close>)
  have eq: "CHR ''='' \<notin> set ?n" using d(1) by (auto simp: is_digit_def)
  have parts: "js_split (CHR ''='') (''t='' @ ?n) = [''t'', ?n]"
    using js_split_cons [of "CHR ''=''" "''t''" ?n] js_split_none [OF eq] by simp
  have "header_part (None, []) (''t='' @ ?n) = (Some (of_int t), [])"
    unfolding header_part_def trim parts using d(2) js_Number_show [OF t] t(1) by (simp add: show_int_def)
  then show ?thesis using \<open>secrets \<noteq> []\<close> by (simp add: parseSignatureHeader_def split header_elements [OF hex, simplified])
qed

text \<open>C26: a header that was built is accepted exactly when its timestamp is within the tolerance and one of the verifier's
  secrets gives the received body the code that one of the sender's secrets gave the sent body: whatever the time, the
  bodies and the secrets of either side, with both secrets of a rotation.\<close>

theorem webhook_signature_exact:
  assumes "\<forall>s m. hmac s m \<noteq> [] \<and> list_all (\<lambda>c. hex_val c \<noteq> None) (hmac s m)"
    and "0 \<le> t" "t < 10 ^ 21" "secrets \<noteq> []"
  shows "\<exists>h. buildWebhookSignature hmac other payload t secrets = Some h \<and>
     verifyWebhookSignature hmac other h payload' secrets' now tolerance =
       (if \<bar>now - of_int t\<bar> > tolerance then Inl timestamp_out_of_window
        else if \<exists>s\<in>set secrets. \<exists>s'\<in>set secrets'. hmac s' (signaturePayload other (of_int t) payload') = hmac s (signaturePayload other (of_int t) payload)
        then Inr () else Inl no_matching_signature)"
proof -
  obtain h where h: "buildWebhookSignature hmac other payload t secrets = Some h"
    using assms(4) by (simp add: buildWebhookSignature_def Let_def)
  let ?m = "signaturePayload other (of_int t) payload" and ?m' = "signaturePayload other (of_int t) payload'"
  have accepted: "list_ex (\<lambda>received. list_ex (\<lambda>e. constantTimeEquals e received) (map (\<lambda>s. hmac s ?m') secrets')) (map (\<lambda>s. hmac s ?m) secrets)
      \<longleftrightarrow> (\<exists>s\<in>set secrets. \<exists>s'\<in>set secrets'. hmac s' ?m' = hmac s ?m)"
    unfolding list_ex_iff constantTimeEquals_def set_map by blast
  show ?thesis
    using h by (simp add: verifyWebhookSignature_def signature_parse_built [OF assms refl h] Let_def accepted)
qed

theorem webhook_signature_exact_witness:
  "\<exists>h. buildWebhookSignature (\<lambda>s m. show_nat (length m)) (\<lambda>_. []) ''ab'' 1700000000 [''old'', ''new''] = Some h \<and>
     verifyWebhookSignature (\<lambda>s m. show_nat (length m)) (\<lambda>_. []) h ''ab'' [''new''] 1700000100 300 = Inr ()"
proof -
  have "\<forall>(s::string) (m::string). show_nat (length m) \<noteq> [] \<and> list_all (\<lambda>c. hex_val c \<noteq> None) (show_nat (length m))"
    using show_nat_digits by (auto simp: list_all_iff hex_val_def is_digit_def Let_def)
  from webhook_signature_exact [OF this, of 1700000000 "[''old'', ''new'']" "\<lambda>_. []" "''ab''" "''ab''" "[''new'']" 1700000100 300]
  show ?thesis by auto
qed

end
