(* ===== verification/Outbox_Delivery.thy ===== *)
theory Outbox_Delivery
  imports Webhook_Signature Domain_Repositories
begin

text \<open>
  Outgoing webhooks, their data and repositories: \<open>src/apps/api/src/events/outbox-delivery.types.ts\<close>, \<open>delivery-outcome.ts\<close> and
  \<open>event-type-filter.ts\<close>, and \<open>src/apps/api/src/persistence/memory/outbox-delivery.repositories.ts\<close>.

  \<open>localeCompare\<close> is a parameter, and so is the reading of \<open>Math.random\<close>; the delay it gives is computed exactly, where the code
  computes it in doubles.
\<close>

section \<open>Names of events\<close>

fun event_type_name :: "EventType \<Rightarrow> string" where
  "event_type_name HOLDER_CREATED = ''holder.created''"
| "event_type_name HOLDER_UPDATED = ''holder.updated''"
| "event_type_name ACCOUNT_CREATED = ''account.created''"
| "event_type_name ACCOUNT_ACTIVATED = ''account.activated''"
| "event_type_name ACCOUNT_STATUS_CHANGED = ''account.status_changed''"
| "event_type_name ACCOUNT_BLOCKED = ''account.blocked''"
| "event_type_name ACCOUNT_CLOSED = ''account.closed''"
| "event_type_name ONBOARDING_SUBMITTED = ''onboarding.submitted''"
| "event_type_name ONBOARDING_REQUIREMENTS_UPDATED = ''onboarding.requirements_updated''"
| "event_type_name ONBOARDING_UNDER_REVIEW = ''onboarding.under_review''"
| "event_type_name ONBOARDING_APPROVED = ''onboarding.approved''"
| "event_type_name ONBOARDING_REJECTED = ''onboarding.rejected''"
| "event_type_name ONBOARDING_EXPIRED = ''onboarding.expired''"
| "event_type_name COMPLIANCE_SCREENING_COMPLETED = ''compliance.screening_completed''"
| "event_type_name COMPLIANCE_ALERT_RAISED = ''compliance.alert_raised''"
| "event_type_name BALANCE_UPDATED = ''balance.updated''"
| "event_type_name PIX_KEY_REGISTERED = ''pix_key.registered''"
| "event_type_name PIX_KEY_REMOVED = ''pix_key.removed''"
| "event_type_name PIX_KEY_CLAIM_RECEIVED = ''pix_key.claim_received''"
| "event_type_name PIX_CHARGE_CREATED = ''pix_charge.created''"
| "event_type_name PIX_CHARGE_PAID = ''pix_charge.paid''"
| "event_type_name PIX_CHARGE_EXPIRED = ''pix_charge.expired''"
| "event_type_name TRANSACTION_CREATED = ''transaction.created''"
| "event_type_name TRANSACTION_UPDATED = ''transaction.updated''"
| "event_type_name PIX_IN_RECEIVED = ''pix_in.received''"
| "event_type_name PIX_OUT_PENDING = ''pix_out.pending''"
| "event_type_name PIX_OUT_SETTLED = ''pix_out.settled''"
| "event_type_name PIX_OUT_FAILED = ''pix_out.failed''"
| "event_type_name PIX_REFUND_CREATED = ''pix_refund.created''"
| "event_type_name PIX_REFUND_RECEIVED = ''pix_refund.received''"
| "event_type_name PIX_REFUND_SETTLED = ''pix_refund.settled''"
| "event_type_name RECONCILIATION_RUN_COMPLETED = ''reconciliation.run_completed''"
| "event_type_name RECONCILIATION_BREAK_OPENED = ''reconciliation.break_opened''"
| "event_type_name PROVIDER_DEGRADED = ''provider.degraded''"

definition ends_with :: "string \<Rightarrow> string \<Rightarrow> bool" where
  "ends_with s suffix \<longleftrightarrow> length suffix \<le> length s \<and> drop (length s - length suffix) s = suffix"

definition starts_with :: "string \<Rightarrow> string \<Rightarrow> bool" where
  "starts_with s prefix \<longleftrightarrow> take (length prefix) s = prefix"

definition filter_matches :: "string \<Rightarrow> string \<Rightarrow> bool" where
  "filter_matches type f \<longleftrightarrow>
     (if f = ''*'' then True else if ends_with f ''.*'' then starts_with type (butlast f) else f = type)"

definition matchesEventType :: "string list \<Rightarrow> string \<Rightarrow> bool" where
  "matchesEventType filters type \<longleftrightarrow> filters = [] \<or> list_ex (filter_matches type) filters"

section \<open>What to do after an attempt\<close>

datatype DeliveryDecision =
    D_succeeded
  | D_retry string "int option"
  | D_exhausted string
  | D_disable_endpoint string

definition decideDelivery :: "int \<Rightarrow> int option \<Rightarrow> DeliveryDecision" where
  "decideDelivery status retryAfter =
     (if 200 \<le> status \<and> status < 300 then D_succeeded
      else if status = 410 then D_disable_endpoint ''HTTP 410 Gone''
      else if 300 \<le> status \<and> status < 400 then D_retry (''HTTP '' @ show_int status @ '': redirect nao e seguido'') None
      else if status = 429 \<or> status = 503 then D_retry (''HTTP '' @ show_int status) retryAfter
      else D_retry (''HTTP '' @ show_int status) None)"

definition WEBHOOK_RETRY_SCHEDULE_SECONDS :: "nat list" where
  "WEBHOOK_RETRY_SCHEDULE_SECONDS = [10, 30, 120, 600, 1800, 3600, 10800, 21600, 43200, 86400]"

definition js_round :: "rat \<Rightarrow> int" where
  "js_round r = \<lfloor>r + 1 / 2\<rfloor>"

text \<open>Attempts count from 1.\<close>

definition nextAttemptAt :: "nat \<Rightarrow> nat list \<Rightarrow> int option \<Rightarrow> instant \<Rightarrow> rat \<Rightarrow> instant option" where
  "nextAttemptAt att schedule retryAfter now random =
     (if att = 0 \<or> length schedule < att then None
      else (let base = schedule ! (att - 1);
                jittered = js_round (of_nat base * (8 / 10 + random * (4 / 10)));
                seconds = max jittered (or_else retryAfter 0)
            in Some (now + seconds * 1000)))"

section \<open>Records\<close>

record SecretEnvelope =
  se_ciphertext :: string
  se_iv :: string
  se_authTag :: string
  se_wrappedKey :: string
  se_keyId :: string
  se_version :: int

datatype EndpointStatus = EP_ACTIVE | EP_PAUSED | EP_DISABLED_BY_FAILURES

record WebhookEndpointRecord =
  we_id :: ident
  we_environment :: Environment
  we_url :: string
  we_eventTypes :: "string list"
  we_secret :: SecretEnvelope
  we_previousSecret :: "SecretEnvelope option"
  we_previousSecretExpiresAt :: "instant option"
  we_status :: EndpointStatus
  we_consecutiveFailures :: nat
  we_disabledAt :: "instant option"
  we_updatedAt :: instant

record WebhookEndpointSummary =
  ws_id :: ident
  ws_environment :: Environment
  ws_url :: string
  ws_description :: "string option"
  ws_eventTypes :: "string list"
  ws_status :: EndpointStatus
  ws_secretSet :: bool
  ws_secretRotating :: bool
  ws_previousSecretExpiresAt :: "instant option"
  ws_consecutiveFailures :: nat
  ws_disabledAt :: "instant option"
  ws_createdAt :: instant

record ClaimedOutboxEvent =
  ev_id :: ident
  ev_environment :: Environment
  ev_type :: EventType
  ev_dataVersion :: int
  ev_provider :: "string option"
  ev_connectionId :: "ident option"
  ev_subjectKind :: string
  ev_subjectId :: ident
  ev_sequence :: int
  ev_payload :: Payload
  ev_previous :: "Payload option"
  ev_occurredAt :: instant
  ev_createdAt :: instant

record StoredEvent = ClaimedOutboxEvent +
  ev_dispatchedAt :: "instant option"

datatype DeliveryStatusValue = DL_PENDING | DL_SUCCEEDED | DL_FAILED | DL_EXHAUSTED

record WebhookDeliveryRecord =
  wd_id :: ident
  wd_eventId :: ident
  wd_endpointId :: ident
  wd_attempt :: nat
  wd_status :: DeliveryStatusValue
  wd_scheduledFor :: instant
  wd_attemptedAt :: "instant option"
  wd_responseStatus :: "int option"
  wd_error :: "string option"

record DueDelivery = WebhookDeliveryRecord +
  dd_environment :: Environment

record DeliveryListItem = WebhookDeliveryRecord +
  di_eventType :: "string option"
  di_subjectId :: "ident option"

record DeliveryFilter =
  df_environment :: Environment
  df_endpointId :: "ident option"
  df_eventId :: "ident option"
  df_status :: "DeliveryStatusValue option"
  df_limit :: nat
  df_cursor :: "ident option"

record CompleteInput =
  ci_id :: ident
  ci_status :: DeliveryStatusValue
  ci_responseStatus :: "int option"
  ci_responseBodySnippet :: "string option"
  ci_durationMs :: int
  ci_error :: "string option"
  ci_attemptedAt :: instant
  ci_requestBodySha256 :: string

section \<open>MemoryOutboxDispatchRepository\<close>

type_synonym DispatchRepo = "(ident, StoredEvent) jsmap"

definition claimed :: "StoredEvent \<Rightarrow> ClaimedOutboxEvent" where
  "claimed row = ClaimedOutboxEvent.truncate row"

definition claimBatch :: "(string \<Rightarrow> string \<Rightarrow> int) \<Rightarrow> nat \<Rightarrow> instant \<Rightarrow> DispatchRepo \<Rightarrow> ClaimedOutboxEvent list \<times> DispatchRepo" where
  "claimBatch localeCompare limit tm rows =
     (let pending = take limit (js_sort (\<lambda>a b. localeCompare (ev_id a) (ev_id b))
            (filter (\<lambda>row. ev_dispatchedAt row = None) (map_values rows)))
      in (map claimed pending,
          map (\<lambda>(k, row). (k, if row \<in> set pending then row\<lparr>ev_dispatchedAt := Some tm\<rparr> else row)) rows))"

definition findEventById :: "DispatchRepo \<Rightarrow> ident \<Rightarrow> ClaimedOutboxEvent option" where
  "findEventById rows i = map_option claimed (map_get rows i)"

definition oldest :: "instant option \<Rightarrow> StoredEvent \<Rightarrow> instant option" where
  "oldest old row =
     (case old of None \<Rightarrow> Some (ev_createdAt row) | Some t \<Rightarrow> if ev_createdAt row < t then Some (ev_createdAt row) else old)"

definition pendingStats :: "instant \<Rightarrow> DispatchRepo \<Rightarrow> nat \<times> rat" where
  "pendingStats referenceNow rows =
     (let pending = filter (\<lambda>row. ev_dispatchedAt row = None) (map_values rows) in
      (length pending,
       (case foldl oldest None pending of None \<Rightarrow> 0 | Some t \<Rightarrow> of_int (referenceNow - t) / 1000)))"

section \<open>MemoryWebhookEndpointRepository\<close>

type_synonym EndpointRepo = "(ident, WebhookEndpointRecord) jsmap"

definition listActive :: "(string \<Rightarrow> string \<Rightarrow> int) \<Rightarrow> EndpointRepo \<Rightarrow> Environment \<Rightarrow> WebhookEndpointRecord list" where
  "listActive localeCompare rows env =
     js_sort (\<lambda>a b. localeCompare (we_id a) (we_id b))
       (filter (\<lambda>row. we_environment row = env \<and> we_status row = EP_ACTIVE) (map_values rows))"

definition endpoint_findById :: "EndpointRepo \<Rightarrow> ident \<Rightarrow> WebhookEndpointRecord option" where
  "endpoint_findById rows i = map_get rows i"

definition endpoint_summary :: "WebhookEndpointRecord \<Rightarrow> WebhookEndpointSummary" where
  "endpoint_summary row =
     \<lparr>ws_id = we_id row, ws_environment = we_environment row, ws_url = we_url row, ws_description = None,
      ws_eventTypes = we_eventTypes row, ws_status = we_status row, ws_secretSet = True,
      ws_secretRotating = (we_previousSecret row \<noteq> None), ws_previousSecretExpiresAt = we_previousSecretExpiresAt row,
      ws_consecutiveFailures = we_consecutiveFailures row, ws_disabledAt = we_disabledAt row, ws_createdAt = we_updatedAt row\<rparr>"

definition endpoint_list :: "(string \<Rightarrow> string \<Rightarrow> int) \<Rightarrow> EndpointRepo \<Rightarrow> Environment \<Rightarrow> WebhookEndpointSummary list" where
  "endpoint_list localeCompare rows env =
     map endpoint_summary (js_sort (\<lambda>a b. localeCompare (we_id b) (we_id a)) (filter (\<lambda>row. we_environment row = env) (map_values rows)))"

definition disabled_at :: "instant \<Rightarrow> WebhookEndpointRecord \<Rightarrow> WebhookEndpointRecord" where
  "disabled_at tm row = row\<lparr>we_status := EP_DISABLED_BY_FAILURES, we_disabledAt := Some tm\<rparr>"

definition registerFailure :: "ident \<Rightarrow> nat \<Rightarrow> instant \<Rightarrow> EndpointRepo \<Rightarrow> bool \<times> EndpointRepo" where
  "registerFailure i threshold tm rows =
     (case map_get rows i of
        None \<Rightarrow> (False, rows)
      | Some row \<Rightarrow>
          (let row1 = row\<lparr>we_consecutiveFailures := we_consecutiveFailures row + 1\<rparr>;
               row2 = (if threshold \<le> we_consecutiveFailures row1 then disabled_at tm row1 else row1)
           in (we_status row2 = EP_DISABLED_BY_FAILURES, map_set i row2 rows)))"

definition resetFailures :: "ident \<Rightarrow> EndpointRepo \<Rightarrow> EndpointRepo" where
  "resetFailures i rows =
     (case map_get rows i of None \<Rightarrow> rows | Some row \<Rightarrow> map_set i (row\<lparr>we_consecutiveFailures := 0\<rparr>) rows)"

definition endpoint_disable :: "ident \<Rightarrow> instant \<Rightarrow> EndpointRepo \<Rightarrow> EndpointRepo" where
  "endpoint_disable i tm rows = (case map_get rows i of None \<Rightarrow> rows | Some row \<Rightarrow> map_set i (disabled_at tm row) rows)"

section \<open>MemoryWebhookDeliveryRepository\<close>

text \<open>The side maps stand for the join with the table of events.\<close>

record DeliveryRepo =
  dl_rows :: "(ident, WebhookDeliveryRecord) jsmap"
  dl_sequenceOf :: "(ident, int) jsmap"
  dl_subjectOf :: "(ident, string \<times> ident) jsmap"
  dl_typeOf :: "(ident, string) jsmap"
  dl_environmentOf :: "(ident, Environment) jsmap"

definition delivery_key :: "ident \<Rightarrow> ident \<Rightarrow> nat \<Rightarrow> string" where
  "delivery_key eventId endpointId att = eventId @ ''|'' @ endpointId @ ''|'' @ show_nat att"

definition record_key :: "WebhookDeliveryRecord \<Rightarrow> string" where
  "record_key row = delivery_key (wd_eventId row) (wd_endpointId row) (wd_attempt row)"

definition pending_row :: "ident \<Rightarrow> ident \<Rightarrow> ident \<Rightarrow> nat \<Rightarrow> instant \<Rightarrow> WebhookDeliveryRecord" where
  "pending_row i eventId endpointId att scheduledFor =
     \<lparr>wd_id = i, wd_eventId = eventId, wd_endpointId = endpointId, wd_attempt = att, wd_status = DL_PENDING,
      wd_scheduledFor = scheduledFor, wd_attemptedAt = None, wd_responseStatus = None, wd_error = None\<rparr>"

definition put_row :: "WebhookDeliveryRecord \<Rightarrow> DeliveryRepo \<Rightarrow> DeliveryRepo" where
  "put_row row repo = repo\<lparr>dl_rows := map_set (wd_id row) row (dl_rows repo)\<rparr>"

definition scheduleFirst :: "DeliveryRepo \<Rightarrow> WebhookDeliveryRecord \<Rightarrow> DeliveryRepo" where
  "scheduleFirst repo row =
     (if list_ex (\<lambda>r. record_key r = record_key row) (map_values (dl_rows repo)) then repo else put_row row repo)"

text \<open>The rows are those of first attempts.\<close>

definition scheduleFirstAttempts :: "WebhookDeliveryRecord list \<Rightarrow> DeliveryRepo \<Rightarrow> DeliveryRepo" where
  "scheduleFirstAttempts rows repo = foldl scheduleFirst repo rows"

definition scheduleRetry :: "ident \<Rightarrow> ident \<Rightarrow> ident \<Rightarrow> nat \<Rightarrow> instant \<Rightarrow> DeliveryRepo \<Rightarrow> DeliveryRepo" where
  "scheduleRetry i eventId endpointId att scheduledFor repo = put_row (pending_row i eventId endpointId att scheduledFor) repo"

definition delivery_findById :: "DeliveryRepo \<Rightarrow> ident \<Rightarrow> WebhookDeliveryRecord option" where
  "delivery_findById repo i = map_get (dl_rows repo) i"

definition env_of :: "DeliveryRepo \<Rightarrow> WebhookDeliveryRecord \<Rightarrow> Environment" where
  "env_of repo row = or_else (map_get (dl_environmentOf repo) (wd_eventId row)) HOMOLOGACAO"

definition list_item :: "DeliveryRepo \<Rightarrow> WebhookDeliveryRecord \<Rightarrow> DeliveryListItem" where
  "list_item repo row =
     WebhookDeliveryRecord.extend row
       \<lparr>di_eventType = map_get (dl_typeOf repo) (wd_eventId row), di_subjectId = map_option snd (map_get (dl_subjectOf repo) (wd_eventId row))\<rparr>"

definition delivery_selected :: "DeliveryRepo \<Rightarrow> DeliveryFilter \<Rightarrow> WebhookDeliveryRecord \<Rightarrow> bool" where
  "delivery_selected repo f row \<longleftrightarrow>
     env_of repo row = df_environment f \<and>
     (case truthy (df_endpointId f) of None \<Rightarrow> True | Some e \<Rightarrow> wd_endpointId row = e) \<and>
     (case truthy (df_eventId f) of None \<Rightarrow> True | Some e \<Rightarrow> wd_eventId row = e) \<and>
     (case df_status f of None \<Rightarrow> True | Some s \<Rightarrow> wd_status row = s) \<and>
     (case truthy (df_cursor f) of None \<Rightarrow> True | Some c \<Rightarrow> wd_id row < c)"

definition delivery_list :: "DeliveryRepo \<Rightarrow> DeliveryFilter \<Rightarrow> DeliveryListItem list \<times> ident option" where
  "delivery_list repo f =
     (let rows = js_sort (\<lambda>a b. if wd_id a < wd_id b then 1 else - 1) (filter (delivery_selected repo f) (map_values (dl_rows repo)));
          data = map (list_item repo) (take (df_limit f) rows)
      in (data, if df_limit f < length rows \<and> data \<noteq> [] then Some (wd_id (last data)) else None))"

definition due_delivery :: "instant \<Rightarrow> WebhookDeliveryRecord \<Rightarrow> bool" where
  "due_delivery now row \<longleftrightarrow> wd_status row = DL_PENDING \<and> wd_scheduledFor row \<le> now"

definition claimDue :: "nat \<Rightarrow> instant \<Rightarrow> DeliveryRepo \<Rightarrow> DueDelivery list" where
  "claimDue limit now repo =
     map (\<lambda>row. WebhookDeliveryRecord.extend row \<lparr>dd_environment = env_of repo row\<rparr>)
       (take limit (js_sort (\<lambda>a b. wd_scheduledFor a - wd_scheduledFor b) (filter (due_delivery now) (map_values (dl_rows repo)))))"

definition delivery_complete :: "CompleteInput \<Rightarrow> DeliveryRepo \<Rightarrow> DeliveryRepo" where
  "delivery_complete inp repo =
     (case map_get (dl_rows repo) (ci_id inp) of
        None \<Rightarrow> repo
      | Some row \<Rightarrow> repo\<lparr>dl_rows := map_set (ci_id inp)
          (row\<lparr>wd_status := ci_status inp, wd_responseStatus := ci_responseStatus inp, wd_error := ci_error inp,
               wd_attemptedAt := Some (ci_attemptedAt inp)\<rparr>) (dl_rows repo)\<rparr>)"

definition exhaustable :: "ident \<Rightarrow> WebhookDeliveryRecord \<Rightarrow> bool" where
  "exhaustable endpointId row \<longleftrightarrow> wd_endpointId row = endpointId \<and> wd_status row = DL_PENDING"

definition exhaustPendingForEndpoint :: "ident \<Rightarrow> string \<Rightarrow> DeliveryRepo \<Rightarrow> nat \<times> DeliveryRepo" where
  "exhaustPendingForEndpoint endpointId reason repo =
     (length (filter (exhaustable endpointId) (map_values (dl_rows repo))),
      repo\<lparr>dl_rows := map (\<lambda>(k, row). (k, if exhaustable endpointId row
          then row\<lparr>wd_status := DL_EXHAUSTED, wd_error := Some reason\<rparr> else row)) (dl_rows repo)\<rparr>)"

definition earlier_pending :: "DeliveryRepo \<Rightarrow> ident \<Rightarrow> string \<times> ident \<Rightarrow> int \<Rightarrow> WebhookDeliveryRecord \<Rightarrow> bool" where
  "earlier_pending repo endpointId subject sequence row \<longleftrightarrow>
     wd_endpointId row = endpointId \<and> wd_status row = DL_PENDING \<and>
     (case (map_get (dl_subjectOf repo) (wd_eventId row), map_get (dl_sequenceOf repo) (wd_eventId row)) of
        (Some s, Some n) \<Rightarrow> s = subject \<and> n < sequence
      | _ \<Rightarrow> False)"

definition hasEarlierPendingForSubject :: "DeliveryRepo \<Rightarrow> ident \<Rightarrow> string \<times> ident \<Rightarrow> int \<Rightarrow> bool" where
  "hasEarlierPendingForSubject repo endpointId subject sequence =
     list_ex (earlier_pending repo endpointId subject sequence) (map_values (dl_rows repo))"

end
