(* ===== verification/Outbox_Dispatcher.thy ===== *)
theory Outbox_Dispatcher
  imports Outbox_Delivery Pix_Transfers
begin

text \<open>
  Delivery of webhooks: \<open>src/apps/worker/src/outbox/outbox-dispatcher.service.ts\<close>, the handler of its jobs, the envelope, the
  secrets of an endpoint and the transport, all under \<open>src/apps/worker/src/outbox\<close>; the sweepers of
  \<open>src/apps/worker/src/maintenance/sweepers.service.ts\<close>; and the identity of jobs, \<open>src/apps/worker/src/queues/queue.names.ts\<close>.

  \<open>undici\<close>'s request, \<open>JSON.stringify\<close>, SHA-256, HMAC, the decryption of secrets and \<open>Date.parse\<close> are parameters.  A body is
  its bytes.
\<close>

section \<open>Envelope\<close>

record EventEnvelope =
  ee_id :: ident
  ee_object :: string
  ee_type :: EventType
  ee_spec_version :: string
  ee_data_version :: int
  ee_environment :: Environment
  ee_provider :: "string option"
  ee_connection_id :: "ident option"
  ee_resource :: "string \<times> ident"
  ee_sequence :: string
  ee_occurred_at :: string
  ee_published_at :: string
  ee_data :: Payload
  ee_previous :: "Payload option"
  ee_livemode :: bool

definition toEventEnvelope :: "ClaimedOutboxEvent \<Rightarrow> instant \<Rightarrow> EventEnvelope" where
  "toEventEnvelope event publishedAt =
     \<lparr>ee_id = ev_id event, ee_object = ''event'', ee_type = ev_type event, ee_spec_version = ''1.0'',
      ee_data_version = ev_dataVersion event, ee_environment = ev_environment event, ee_provider = ev_provider event,
      ee_connection_id = ev_connectionId event, ee_resource = (ev_subjectKind event, ev_subjectId event),
      ee_sequence = show_int (ev_sequence event), ee_occurred_at = toISOString (ev_occurredAt event),
      ee_published_at = toISOString publishedAt, ee_data = ev_payload event, ee_previous = ev_previous event,
      ee_livemode = (ev_environment event = PRODUCAO)\<rparr>"

section \<open>Transport\<close>

record HttpReply =
  hr_status :: int
  hr_retryAfter :: "string list"
  hr_chunks :: "string list"
  hr_durationMs :: int

datatype TransportResult =
    TR_response int "int option" string int
  | TR_network string int

definition SNIPPET_BYTES :: nat where "SNIPPET_BYTES = 2048"

fun read_chunks :: "string list \<Rightarrow> string \<Rightarrow> string" where
  "read_chunks [] acc = acc"
| "read_chunks (chunk # chunks) acc =
     (let acc' = acc @ chunk in if SNIPPET_BYTES \<le> length acc' then acc' else read_chunks chunks acc')"

definition readSnippet :: "string list \<Rightarrow> string" where
  "readSnippet chunks = take SNIPPET_BYTES (read_chunks chunks [])"

definition parseRetryAfter :: "(string \<Rightarrow> instant option) \<Rightarrow> string list \<Rightarrow> instant \<Rightarrow> int option" where
  "parseRetryAfter date_parse header now =
     (case truthy (case header of [] \<Rightarrow> None | v # _ \<Rightarrow> Some v) of
        None \<Rightarrow> None
      | Some raw \<Rightarrow>
          (let by_date = map_option (\<lambda>t. max 0 (js_round (of_int (t - now) / 1000))) (date_parse raw) in
           case js_Number raw of
             Num seconds \<Rightarrow> if 0 \<le> seconds then Some (js_round seconds) else by_date
           | _ \<Rightarrow> by_date))"

text \<open>\<open>Inl\<close> is an exception of the request with its message and the time it took.\<close>

type_synonym HttpRequest = "string \<Rightarrow> string \<Rightarrow> (string \<times> string) list \<Rightarrow> (string \<times> int) + HttpReply"

definition post :: "HttpRequest \<Rightarrow> (string \<Rightarrow> instant option) \<Rightarrow> string \<Rightarrow> string \<Rightarrow> (string \<times> string) list \<Rightarrow> instant \<Rightarrow> TransportResult" where
  "post request date_parse url body headers now =
     (case request url body headers of
        Inl (err, ms) \<Rightarrow> TR_network err ms
      | Inr reply \<Rightarrow>
          TR_response (hr_status reply) (parseRetryAfter date_parse (hr_retryAfter reply) now) (readSnippet (hr_chunks reply))
            (hr_durationMs reply))"

section \<open>Secrets of an endpoint\<close>

record CachedSecrets =
  cs_secrets :: "string list"
  cs_version :: instant
  cs_expiresAtMs :: instant

type_synonym SecretCache = "(ident, CachedSecrets) jsmap"

definition TTL_MS :: int where "TTL_MS = 60000"

definition secrets_for ::
  "(SecretEnvelope \<Rightarrow> string + string) \<Rightarrow> instant \<Rightarrow> WebhookEndpointRecord \<Rightarrow> SecretCache \<Rightarrow> (string + string list) \<times> SecretCache" where
  "secrets_for decrypt now endpoint cache =
     (let version = we_updatedAt endpoint;
          store = (\<lambda>secrets. (Inr secrets, map_set (we_id endpoint)
            \<lparr>cs_secrets = secrets, cs_version = version, cs_expiresAtMs = now + TTL_MS\<rparr> cache));
          fetch = (case decrypt (we_secret endpoint) of
              Inl e \<Rightarrow> (Inl e, cache)
            | Inr latest \<Rightarrow>
                (case (we_previousSecret endpoint, we_previousSecretExpiresAt endpoint) of
                   (Some prev, Some expires) \<Rightarrow>
                     if now < expires
                     then (case decrypt prev of Inl e \<Rightarrow> (Inl e, cache) | Inr earlier \<Rightarrow> store [latest, earlier])
                     else store [latest]
                 | _ \<Rightarrow> store [latest]))
      in case map_get cache (we_id endpoint) of
           Some c \<Rightarrow> if cs_version c = version \<and> now < cs_expiresAtMs c then (Inr (cs_secrets c), cache) else fetch
         | None \<Rightarrow> fetch)"

section \<open>The dispatcher\<close>

definition FAILURE_THRESHOLD :: nat where "FAILURE_THRESHOLD = 5"
definition ORDER_WAIT_MS :: int where "ORDER_WAIT_MS = 200"

record Post =
  po_url :: string
  po_body :: string
  po_headers :: "(string \<times> string) list"

record DispatchPorts =
  dp_localeCompare :: "string \<Rightarrow> string \<Rightarrow> int"
  dp_request :: HttpRequest
  dp_dateParse :: "string \<Rightarrow> instant option"
  dp_encode :: "EventEnvelope \<Rightarrow> string"
  dp_hmac :: "string \<Rightarrow> string \<Rightarrow> string"
  dp_numberText :: "rat \<Rightarrow> string"
  dp_sha256hex :: "string \<Rightarrow> string"
  dp_decrypt :: "SecretEnvelope \<Rightarrow> string + string"

text \<open>\<open>dw_posts\<close> records what the transport was given.\<close>

record DispatchWorld =
  dw_outbox :: DispatchRepo
  dw_endpoints :: EndpointRepo
  dw_deliveries :: DeliveryRepo
  dw_secrets :: SecretCache
  dw_queue :: "(QueuedJob \<times> int option) list"
  dw_posts :: "Post list"

record DeliveryDraws =
  dr_inactiveAt :: instant
  dr_sendAt :: instant
  dr_secretsAt :: instant
  dr_random :: rat
  dr_retryId :: ident

definition dispatch_job :: "Environment \<Rightarrow> ident \<Rightarrow> int option \<Rightarrow> DispatchWorld \<Rightarrow> DispatchWorld" where
  "dispatch_job env i delay dw = dw\<lparr>dw_queue := dw_queue dw @ [(OutboxDispatchJob env i, delay)]\<rparr>"

definition fan_rows :: "(nat \<Rightarrow> ident) \<Rightarrow> nat \<Rightarrow> ident \<Rightarrow> instant \<Rightarrow> WebhookEndpointRecord list \<Rightarrow> WebhookDeliveryRecord list" where
  "fan_rows newId n eventId now endpoints =
     map (\<lambda>(k, endpoint). pending_row (newId k) eventId (we_id endpoint) 1 now) (zip [n..<n + length endpoints] endpoints)"

definition fanOut ::
  "DispatchPorts \<Rightarrow> (nat \<Rightarrow> ident) \<Rightarrow> nat \<Rightarrow> ClaimedOutboxEvent \<Rightarrow> instant \<Rightarrow> DispatchWorld \<Rightarrow> nat \<times> DispatchWorld" where
  "fanOut ports newId n event now dw =
     (let targets = filter (\<lambda>e. matchesEventType (we_eventTypes e) (event_type_name (ev_type event)))
            (listActive (dp_localeCompare ports) (dw_endpoints dw) (ev_environment event));
          rows = fan_rows newId n (ev_id event) now targets
      in if targets = [] then (n, dw)
         else (n + length targets,
               foldl (\<lambda>d row. dispatch_job (ev_environment event) (wd_id row) None d)
                 (dw\<lparr>dw_deliveries := scheduleFirstAttempts rows (dw_deliveries dw)\<rparr>) rows))"

fun fanOut_all ::
  "DispatchPorts \<Rightarrow> (nat \<Rightarrow> ident) \<Rightarrow> nat \<Rightarrow> ClaimedOutboxEvent list \<Rightarrow> instant \<Rightarrow> DispatchWorld \<Rightarrow> DispatchWorld" where
  "fanOut_all ports newId n [] now dw = dw"
| "fanOut_all ports newId n (e # es) now dw =
     (case fanOut ports newId n e now dw of (n', dw1) \<Rightarrow> fanOut_all ports newId n' es now dw1)"

definition claimAndFanOut :: "DispatchPorts \<Rightarrow> (nat \<Rightarrow> ident) \<Rightarrow> nat \<Rightarrow> instant \<Rightarrow> DispatchWorld \<Rightarrow> nat \<times> DispatchWorld" where
  "claimAndFanOut ports newId limit now dw =
     (case claimBatch (dp_localeCompare ports) limit now (dw_outbox dw) of
        (events, rows) \<Rightarrow> (length events, fanOut_all ports newId 0 events now (dw\<lparr>dw_outbox := rows\<rparr>)))"

definition delivery_headers :: "ClaimedOutboxEvent \<Rightarrow> ident \<Rightarrow> nat \<Rightarrow> string \<Rightarrow> (string \<times> string) list" where
  "delivery_headers event deliveryId att signature =
     [(''content-type'', ''application/json''), (''x-baas-signature'', signature), (''x-baas-event-id'', ev_id event),
      (''x-baas-event-type'', event_type_name (ev_type event)), (''x-baas-delivery-id'', deliveryId),
      (''x-baas-attempt'', show_nat att),
      (''x-baas-environment'', case ev_environment event of HOMOLOGACAO \<Rightarrow> ''HOMOLOGACAO'' | PRODUCAO \<Rightarrow> ''PRODUCAO''),
      (''idempotency-key'', ev_id event)]"

definition decision :: "TransportResult \<Rightarrow> DeliveryDecision" where
  "decision result =
     (case result of TR_response status retryAfter _ _ \<Rightarrow> decideDelivery status retryAfter | TR_network err _ \<Rightarrow> D_retry err None)"

definition completed :: "TransportResult \<Rightarrow> ident \<Rightarrow> instant \<Rightarrow> string \<Rightarrow> DeliveryStatusValue \<Rightarrow> string option \<Rightarrow> CompleteInput" where
  "completed result deliveryId now digest status err =
     \<lparr>ci_id = deliveryId, ci_status = status,
      ci_responseStatus = (case result of TR_response s _ _ _ \<Rightarrow> Some s | _ \<Rightarrow> None),
      ci_responseBodySnippet = (case result of TR_response _ _ snippet _ \<Rightarrow> Some snippet | _ \<Rightarrow> None),
      ci_durationMs = (case result of TR_response _ _ _ ms \<Rightarrow> ms | TR_network _ ms \<Rightarrow> ms),
      ci_error = err, ci_attemptedAt = now, ci_requestBodySha256 = digest\<rparr>"

definition on_deliveries :: "(DeliveryRepo \<Rightarrow> DeliveryRepo) \<Rightarrow> DispatchWorld \<Rightarrow> DispatchWorld" where
  "on_deliveries f dw = dw\<lparr>dw_deliveries := f (dw_deliveries dw)\<rparr>"

definition on_endpoints :: "(EndpointRepo \<Rightarrow> EndpointRepo) \<Rightarrow> DispatchWorld \<Rightarrow> DispatchWorld" where
  "on_endpoints f dw = dw\<lparr>dw_endpoints := f (dw_endpoints dw)\<rparr>"

definition retry_or_exhaust ::
  "DeliveryDraws \<Rightarrow> ident \<Rightarrow> nat \<Rightarrow> ident \<Rightarrow> ClaimedOutboxEvent \<Rightarrow> TransportResult \<Rightarrow> string \<Rightarrow> instant \<Rightarrow> string \<Rightarrow> int option \<Rightarrow>
   DispatchWorld \<Rightarrow> DispatchWorld" where
  "retry_or_exhaust dr deliveryId att endpointId event result digest now reason retryAfter dw =
     (case nextAttemptAt att WEBHOOK_RETRY_SCHEDULE_SECONDS retryAfter now (dr_random dr) of
        None \<Rightarrow>
          on_endpoints (\<lambda>rows. snd (registerFailure endpointId FAILURE_THRESHOLD now rows))
            (on_deliveries (delivery_complete (completed result deliveryId now digest DL_EXHAUSTED (Some reason))) dw)
      | Some next \<Rightarrow>
          dispatch_job (ev_environment event) (dr_retryId dr) (Some (next - now))
            (on_deliveries (scheduleRetry (dr_retryId dr) (ev_id event) endpointId (att + 1) next)
              (on_deliveries (delivery_complete (completed result deliveryId now digest DL_FAILED (Some reason))) dw)))"

definition deliver_outcome ::
  "DeliveryDraws \<Rightarrow> ident \<Rightarrow> nat \<Rightarrow> ident \<Rightarrow> ClaimedOutboxEvent \<Rightarrow> TransportResult \<Rightarrow> string \<Rightarrow> instant \<Rightarrow> DispatchWorld \<Rightarrow> DispatchWorld" where
  "deliver_outcome dr deliveryId att endpointId event result digest now dw =
     (case decision result of
        D_succeeded \<Rightarrow>
          on_endpoints (resetFailures endpointId)
            (on_deliveries (delivery_complete (completed result deliveryId now digest DL_SUCCEEDED None)) dw)
      | D_disable_endpoint reason \<Rightarrow>
          on_deliveries (\<lambda>repo. snd (exhaustPendingForEndpoint endpointId reason repo))
            (on_endpoints (endpoint_disable endpointId now)
              (on_deliveries (delivery_complete (completed result deliveryId now digest DL_EXHAUSTED (Some reason))) dw))
      | D_retry reason retryAfter \<Rightarrow> retry_or_exhaust dr deliveryId att endpointId event result digest now reason retryAfter dw
      | D_exhausted reason \<Rightarrow> retry_or_exhaust dr deliveryId att endpointId event result digest now reason None dw)"

text \<open>An exception on the way, in the decryption of a secret or in the signature, fails the job.\<close>

definition send_delivery ::
  "DispatchPorts \<Rightarrow> DeliveryDraws \<Rightarrow> ident \<Rightarrow> nat \<Rightarrow> WebhookEndpointRecord \<Rightarrow> ClaimedOutboxEvent \<Rightarrow> DispatchWorld \<Rightarrow>
   (string + unit) \<times> DispatchWorld" where
  "send_delivery ports dr deliveryId att endpoint event dw =
     (let now = dr_sendAt dr; body = dp_encode ports (toEventEnvelope event now); timestamp = now div 1000 in
      case secrets_for (dp_decrypt ports) (dr_secretsAt dr) endpoint (dw_secrets dw) of
        (Inl e, cache) \<Rightarrow> (Inl e, dw\<lparr>dw_secrets := cache\<rparr>)
      | (Inr secrets, cache) \<Rightarrow>
          (case buildWebhookSignature (dp_hmac ports) (dp_numberText ports) body timestamp secrets of
             None \<Rightarrow> (Inl ''Assinatura de webhook exige ao menos um segredo.'', dw\<lparr>dw_secrets := cache\<rparr>)
           | Some signature \<Rightarrow>
               (let headers = delivery_headers event deliveryId att signature;
                    result = post (dp_request ports) (dp_dateParse ports) (we_url endpoint) body headers now;
                    dw1 = dw\<lparr>dw_secrets := cache, dw_posts := dw_posts dw @ [\<lparr>po_url = we_url endpoint, po_body = body, po_headers = headers\<rparr>]\<rparr>
                in (Inr (), deliver_outcome dr deliveryId att (we_id endpoint) event result (dp_sha256hex ports body) now dw1))))"

definition deliver ::
  "DispatchPorts \<Rightarrow> DeliveryDraws \<Rightarrow> ident \<Rightarrow> ClaimedOutboxEvent \<Rightarrow> DispatchWorld \<Rightarrow> (string + unit) \<times> DispatchWorld" where
  "deliver ports dr deliveryId event dw =
     (case delivery_findById (dw_deliveries dw) deliveryId of
        None \<Rightarrow> (Inr (), dw)
      | Some delivery \<Rightarrow>
          if wd_status delivery \<noteq> DL_PENDING then (Inr (), dw)
          else
            (case endpoint_findById (dw_endpoints dw) (wd_endpointId delivery) of
               Some endpoint \<Rightarrow>
                 if we_status endpoint \<noteq> EP_ACTIVE
                 then (Inr (), on_deliveries (delivery_complete \<lparr>ci_id = deliveryId, ci_status = DL_EXHAUSTED, ci_responseStatus = None,
                        ci_responseBodySnippet = None, ci_durationMs = 0, ci_error = Some ''endpoint inativo'',
                        ci_attemptedAt = dr_inactiveAt dr, ci_requestBodySha256 = []\<rparr>) dw)
                 else if hasEarlierPendingForSubject (dw_deliveries dw) (we_id endpoint) (ev_subjectKind event, ev_subjectId event) (ev_sequence event)
                 then (Inr (), dispatch_job (ev_environment event) deliveryId (Some ORDER_WAIT_MS) dw)
                 else send_delivery ports dr (wd_id delivery) (wd_attempt delivery) endpoint event dw
             | None \<Rightarrow>
                 (Inr (), on_deliveries (delivery_complete \<lparr>ci_id = deliveryId, ci_status = DL_EXHAUSTED, ci_responseStatus = None,
                        ci_responseBodySnippet = None, ci_durationMs = 0, ci_error = Some ''endpoint inativo'',
                        ci_attemptedAt = dr_inactiveAt dr, ci_requestBodySha256 = []\<rparr>) dw)))"

section \<open>Handler and sweepers\<close>

definition handle_dispatch :: "DispatchPorts \<Rightarrow> DeliveryDraws \<Rightarrow> ident \<Rightarrow> DispatchWorld \<Rightarrow> (string + unit) \<times> DispatchWorld" where
  "handle_dispatch ports dr deliveryId dw =
     (case delivery_findById (dw_deliveries dw) deliveryId of
        None \<Rightarrow> (Inr (), dw)
      | Some delivery \<Rightarrow>
          if wd_status delivery \<noteq> DL_PENDING then (Inr (), dw)
          else (case findEventById (dw_outbox dw) (wd_eventId delivery) of
                  None \<Rightarrow> (Inr (), dw)
                | Some event \<Rightarrow> deliver ports dr deliveryId event dw))"

definition OUTBOX_BATCH :: nat where "OUTBOX_BATCH = 500"
definition DELIVERY_BATCH :: nat where "DELIVERY_BATCH = 200"

definition sweepOutbox :: "DispatchPorts \<Rightarrow> (nat \<Rightarrow> ident) \<Rightarrow> instant \<Rightarrow> DispatchWorld \<Rightarrow> nat \<times> DispatchWorld" where
  "sweepOutbox ports newId now dw = claimAndFanOut ports newId OUTBOX_BATCH now dw"

definition sweepDeliveries :: "instant \<Rightarrow> DispatchWorld \<Rightarrow> nat \<times> DispatchWorld" where
  "sweepDeliveries now dw =
     (let due = claimDue DELIVERY_BATCH now (dw_deliveries dw) in
      (length due, foldl (\<lambda>d row. dispatch_job (dd_environment row) (wd_id row) None d) dw due))"

section \<open>queue.names.ts\<close>

datatype QueueName = Q_inboundWebhook | Q_outboxDispatch | Q_operationResolve | Q_reconciliation | Q_poll | Q_maintenance

fun QUEUE_FOR_KIND :: "QueuedJob \<Rightarrow> QueueName" where
  "QUEUE_FOR_KIND (InboundWebhookJob _) = Q_inboundWebhook"
| "QUEUE_FOR_KIND (OutboxDispatchJob _ _) = Q_outboxDispatch"
| "QUEUE_FOR_KIND (OperationResolveJob _ _ _) = Q_operationResolve"
| "QUEUE_FOR_KIND (ReconciliationSweepJob _) = Q_maintenance"
| "QUEUE_FOR_KIND (ReconciliationJob _ _) = Q_reconciliation"
| "QUEUE_FOR_KIND (PollJob _ _ _) = Q_poll"

fun scope_name :: "ReconciliationScope \<Rightarrow> string" where
  "scope_name DAILY = ''DAILY''"
| "scope_name INTRADAY = ''INTRADAY''"
| "scope_name BACKFILL = ''BACKFILL''"
| "scope_name ReconciliationScope.MANUAL = ''MANUAL''"

fun jobIdOf :: "QueuedJob \<Rightarrow> string" where
  "jobIdOf (InboundWebhookJob e) = ''ibe-'' @ e"
| "jobIdOf (OutboxDispatchJob _ d) = ''dlv-'' @ d"
| "jobIdOf (OperationResolveJob _ i step) = ''opr-'' @ i @ ''-'' @ show_nat step"
| "jobIdOf (ReconciliationSweepJob scope) = ''sweep-'' @ scope_name scope"
| "jobIdOf (ReconciliationJob _ run) = ''rec-'' @ run"
| "jobIdOf (PollJob connection stream scope) = ''poll-'' @ connection @ ''-'' @ stream @ ''-'' @ or_else scope ''all''"

record QueuePolicy =
  qp_concurrency :: nat
  qp_attempts :: nat
  qp_backoffMs :: "nat option"

fun QUEUE_POLICY :: "QueueName \<Rightarrow> QueuePolicy" where
  "QUEUE_POLICY Q_inboundWebhook = \<lparr>qp_concurrency = 16, qp_attempts = 3, qp_backoffMs = Some 1000\<rparr>"
| "QUEUE_POLICY Q_outboxDispatch = \<lparr>qp_concurrency = 32, qp_attempts = 1, qp_backoffMs = None\<rparr>"
| "QUEUE_POLICY Q_operationResolve = \<lparr>qp_concurrency = 8, qp_attempts = 1, qp_backoffMs = None\<rparr>"
| "QUEUE_POLICY Q_reconciliation = \<lparr>qp_concurrency = 2, qp_attempts = 3, qp_backoffMs = Some 30000\<rparr>"
| "QUEUE_POLICY Q_poll = \<lparr>qp_concurrency = 4, qp_attempts = 3, qp_backoffMs = Some 5000\<rparr>"
| "QUEUE_POLICY Q_maintenance = \<lparr>qp_concurrency = 1, qp_attempts = 1, qp_backoffMs = None\<rparr>"

text \<open>What \<open>enqueue\<close> of \<open>bullmq-event-queue.ts\<close> gives the queue library: queue, identity, delay, attempts and backoff.\<close>

definition bull_job :: "QueuedJob \<Rightarrow> int option \<Rightarrow> QueueName \<times> string \<times> int option \<times> nat \<times> nat option" where
  "bull_job job delay =
     (let name = QUEUE_FOR_KIND job; policy = QUEUE_POLICY name in
      (name, jobIdOf job, delay, qp_attempts policy, qp_backoffMs policy))"

end
