(* ===== verification/Delivery_Properties.thy ===== *)
theory Delivery_Properties
  imports Outbox_Dispatcher
begin

text \<open>
  Properties of the delivery of webhooks: the attempts of an event at an endpoint form one chain in every state the dispatcher
  reaches, what that promises about each request it makes, and the delays of the ladder.
\<close>

section \<open>Chains of attempts\<close>

definition attempts_of :: "DeliveryRepo \<Rightarrow> ident \<Rightarrow> ident \<Rightarrow> WebhookDeliveryRecord list" where
  "attempts_of repo e p = filter (\<lambda>row. wd_eventId row = e \<and> wd_endpointId row = p) (map_values (dl_rows repo))"

definition chain_ok :: "WebhookDeliveryRecord list \<Rightarrow> bool" where
  "chain_ok rows \<longleftrightarrow>
     map wd_attempt rows = [1..<Suc (length rows)] \<and> (\<forall>row\<in>set (butlast rows). wd_status row = DL_FAILED) \<and>
     (rows \<noteq> [] \<longrightarrow> wd_status (last rows) \<noteq> DL_FAILED) \<and> length rows \<le> 11"

definition rows_ok :: "DeliveryRepo \<Rightarrow> bool" where
  "rows_ok repo \<longleftrightarrow> wf_map (dl_rows repo) \<and> (\<forall>(k, row)\<in>set (dl_rows repo). wd_id row = k)"

definition deliveries_ok :: "DeliveryRepo \<Rightarrow> bool" where
  "deliveries_ok repo \<longleftrightarrow> rows_ok repo \<and> (\<forall>e p. chain_ok (attempts_of repo e p))"

lemma chain_unfinished_last:
  assumes "chain_ok (us @ r # vs)" "wd_status r \<noteq> DL_FAILED"
  shows "vs = []"
proof (rule ccontr)
  assume "vs \<noteq> []"
  then have "r \<in> set (butlast (us @ r # vs))" by (simp add: butlast_append)
  with assms show False unfolding chain_ok_def by blast
qed

text \<open>Overwriting one row of the table with another of the same event and endpoint.\<close>

lemma row_replaced:
  assumes "rows_ok repo" "map_get (dl_rows repo) i = Some r" "wd_eventId r' = wd_eventId r" "wd_endpointId r' = wd_endpointId r" "wd_id r' = wd_id r"
  obtains us vs where "attempts_of repo (wd_eventId r) (wd_endpointId r) = us @ r # vs"
    "attempts_of (repo\<lparr>dl_rows := map_set i r' (dl_rows repo)\<rparr>) (wd_eventId r) (wd_endpointId r) = us @ r' # vs"
    "\<And>e p. (e, p) \<noteq> (wd_eventId r, wd_endpointId r) \<Longrightarrow>
       attempts_of (repo\<lparr>dl_rows := map_set i r' (dl_rows repo)\<rparr>) e p = attempts_of repo e p"
    "rows_ok (repo\<lparr>dl_rows := map_set i r' (dl_rows repo)\<rparr>)"
proof -
  from assms(2) obtain xs ys where rows: "dl_rows repo = xs @ (i, r) # ys" by (metis map_of_SomeD split_list)
  have wf: "i \<notin> fst ` set xs" "i \<notin> fst ` set ys" using assms(1) rows by (auto simp: rows_ok_def wf_map_def)
  have upd: "map_set i r' (xs @ (i, r) # ys) = xs @ (i, r') # ys" using wf(1) by (induction xs) auto
  have id: "wd_id r = i" using assms(1) rows by (auto simp: rows_ok_def)
  show thesis
  proof (rule that)
    show "attempts_of repo (wd_eventId r) (wd_endpointId r) =
        filter (\<lambda>row. wd_eventId row = wd_eventId r \<and> wd_endpointId row = wd_endpointId r) (map snd xs) @ r #
        filter (\<lambda>row. wd_eventId row = wd_eventId r \<and> wd_endpointId row = wd_endpointId r) (map snd ys)"
      by (simp add: attempts_of_def map_values_def rows)
    show "attempts_of (repo\<lparr>dl_rows := map_set i r' (dl_rows repo)\<rparr>) (wd_eventId r) (wd_endpointId r) =
        filter (\<lambda>row. wd_eventId row = wd_eventId r \<and> wd_endpointId row = wd_endpointId r) (map snd xs) @ r' #
        filter (\<lambda>row. wd_eventId row = wd_eventId r \<and> wd_endpointId row = wd_endpointId r) (map snd ys)"
      using assms(3,4) by (simp add: attempts_of_def map_values_def rows upd)
    show "attempts_of (repo\<lparr>dl_rows := map_set i r' (dl_rows repo)\<rparr>) e p = attempts_of repo e p"
      if "(e, p) \<noteq> (wd_eventId r, wd_endpointId r)" for e p
      using that assms(3,4) by (auto simp: attempts_of_def map_values_def rows upd)
    show "rows_ok (repo\<lparr>dl_rows := map_set i r' (dl_rows repo)\<rparr>)"
      using assms(1,5) id unfolding rows_ok_def rows by (auto simp: upd wf_map_def)
  qed
qed

lemma chain_closed:
  assumes "chain_ok (us @ [r])" "wd_attempt r' = wd_attempt r" "wd_status r' \<noteq> DL_FAILED"
  shows "chain_ok (us @ [r'])"
  using assms by (simp add: chain_ok_def)

lemma chain_extended:
  assumes "chain_ok (us @ [r])" "wd_attempt r' = wd_attempt r" "wd_status r' = DL_FAILED" "wd_attempt r \<le> 10"
    and "wd_attempt n = wd_attempt r + 1" "wd_status n = DL_PENDING"
  shows "chain_ok (us @ [r', n])"
proof -
  have len: "wd_attempt r = Suc (length us)" "map wd_attempt us = [1..<Suc (length us)]"
    using assms(1) by (auto simp: chain_ok_def upt_Suc_append simp del: upt_Suc)
  then show ?thesis using assms by (auto simp: chain_ok_def upt_Suc_append butlast_append simp del: upt_Suc)
qed

text \<open>Closing a pending attempt.\<close>

lemma complete_closes:
  assumes ok: "deliveries_ok repo" and r: "map_get (dl_rows repo) (ci_id inp) = Some r" "wd_status r = DL_PENDING" and "ci_status inp \<noteq> DL_FAILED"
  shows "deliveries_ok (delivery_complete inp repo)"
proof -
  let ?r' = "r\<lparr>wd_status := ci_status inp, wd_responseStatus := ci_responseStatus inp, wd_error := ci_error inp,
               wd_attemptedAt := Some (ci_attemptedAt inp)\<rparr>"
  have rows: "rows_ok repo" using ok by (simp add: deliveries_ok_def)
  obtain us vs where c: "attempts_of repo (wd_eventId r) (wd_endpointId r) = us @ r # vs"
    "attempts_of (repo\<lparr>dl_rows := map_set (ci_id inp) ?r' (dl_rows repo)\<rparr>) (wd_eventId r) (wd_endpointId r) = us @ ?r' # vs"
    "\<And>e p. (e, p) \<noteq> (wd_eventId r, wd_endpointId r) \<Longrightarrow>
       attempts_of (repo\<lparr>dl_rows := map_set (ci_id inp) ?r' (dl_rows repo)\<rparr>) e p = attempts_of repo e p"
    "rows_ok (repo\<lparr>dl_rows := map_set (ci_id inp) ?r' (dl_rows repo)\<rparr>)"
    by (rule row_replaced [OF rows r(1), of ?r']) simp_all
  have ch: "chain_ok (us @ r # vs)" using ok c(1) by (metis deliveries_ok_def)
  have vs: "vs = []" by (rule chain_unfinished_last [OF ch]) (simp add: r(2))
  have "chain_ok (us @ [?r'])" by (rule chain_closed [of us r]) (use ch vs assms(4) in simp_all)
  then have "chain_ok (attempts_of (repo\<lparr>dl_rows := map_set (ci_id inp) ?r' (dl_rows repo)\<rparr>) e p)" for e p
    using c vs ok by (cases "(e, p) = (wd_eventId r, wd_endpointId r)") (auto simp: deliveries_ok_def)
  then show ?thesis using c(4) r(1) by (simp add: delivery_complete_def deliveries_ok_def)
qed

lemma put_fresh:
  assumes "rows_ok repo" "map_get (dl_rows repo) (wd_id row) = None"
  shows "rows_ok (put_row row repo)"
    "attempts_of (put_row row repo) e p = attempts_of repo e p @ (if wd_eventId row = e \<and> wd_endpointId row = p then [row] else [])"
proof -
  have set: "map_set (wd_id row) row (dl_rows repo) = dl_rows repo @ [(wd_id row, row)]" by (rule map_set_fresh [OF assms(2)])
  show "rows_ok (put_row row repo)"
    using assms by (auto simp: rows_ok_def put_row_def set wf_map_def map_of_eq_None_fst)
  show "attempts_of (put_row row repo) e p = attempts_of repo e p @ (if wd_eventId row = e \<and> wd_endpointId row = p then [row] else [])"
    by (simp add: attempts_of_def put_row_def set map_values_def)
qed

text \<open>A failed attempt and the next one.\<close>

lemma fail_then_retry:
  assumes ok: "deliveries_ok repo" and r: "map_get (dl_rows repo) (ci_id inp) = Some r" "wd_status r = DL_PENDING" and failed: "ci_status inp = DL_FAILED"
    and fresh: "map_get (dl_rows repo) next = None" and few: "wd_attempt r \<le> 10"
  shows "deliveries_ok (scheduleRetry next (wd_eventId r) (wd_endpointId r) (wd_attempt r + 1) t (delivery_complete inp repo))"
proof -
  let ?r' = "r\<lparr>wd_status := ci_status inp, wd_responseStatus := ci_responseStatus inp, wd_error := ci_error inp,
               wd_attemptedAt := Some (ci_attemptedAt inp)\<rparr>"
  let ?repo = "repo\<lparr>dl_rows := map_set (ci_id inp) ?r' (dl_rows repo)\<rparr>" and ?n = "pending_row next (wd_eventId r) (wd_endpointId r) (wd_attempt r + 1) t"
  have rows: "rows_ok repo" using ok by (simp add: deliveries_ok_def)
  obtain us vs where c: "attempts_of repo (wd_eventId r) (wd_endpointId r) = us @ r # vs"
    "attempts_of ?repo (wd_eventId r) (wd_endpointId r) = us @ ?r' # vs"
    "\<And>e p. (e, p) \<noteq> (wd_eventId r, wd_endpointId r) \<Longrightarrow> attempts_of ?repo e p = attempts_of repo e p" "rows_ok ?repo"
    by (rule row_replaced [OF rows r(1), of ?r']) simp_all
  have ch: "chain_ok (us @ r # vs)" using ok c(1) by (metis deliveries_ok_def)
  have vs: "vs = []" by (rule chain_unfinished_last [OF ch]) (simp add: r(2))
  have new: "chain_ok (us @ [?r', ?n])"
    by (rule chain_extended [of us r]) (use ch vs failed few in \<open>simp_all add: pending_row_def\<close>)
  have "next \<noteq> ci_id inp" using fresh r(1) by auto
  then have "map_get (dl_rows ?repo) (wd_id ?n) = None" using fresh by (simp add: pending_row_def update_conv')
  note put = put_fresh [OF c(4) this]
  have "chain_ok (attempts_of (put_row ?n ?repo) e p)" for e p
    using c vs ok new unfolding put(2)
    by (cases "(e, p) = (wd_eventId r, wd_endpointId r)") (auto simp: deliveries_ok_def pending_row_def)
  then show ?thesis using put(1) r(1) by (simp add: delivery_complete_def deliveries_ok_def scheduleRetry_def)
qed

text \<open>The row of a first attempt is added to an empty chain.\<close>

lemma first_scheduled:
  assumes "deliveries_ok repo" "wd_attempt row = 1" "wd_status row = DL_PENDING" "map_get (dl_rows repo) (wd_id row) = None"
  shows "deliveries_ok (scheduleFirst repo row)"
proof (cases "list_ex (\<lambda>r. record_key r = record_key row) (map_values (dl_rows repo))")
  case True
  with assms(1) show ?thesis by (simp add: scheduleFirst_def)
next
  case False
  have none: "attempts_of repo (wd_eventId row) (wd_endpointId row) = []"
  proof (rule ccontr)
    assume ne: "attempts_of repo (wd_eventId row) (wd_endpointId row) \<noteq> []"
    then obtain r rs where rs: "attempts_of repo (wd_eventId row) (wd_endpointId row) = r # rs" by (cases "attempts_of repo (wd_eventId row) (wd_endpointId row)") auto
    moreover have "chain_ok (r # rs)" using assms(1) rs by (metis deliveries_ok_def)
    ultimately have "wd_attempt r = 1" "r \<in> set (map_values (dl_rows repo))" "wd_eventId r = wd_eventId row" "wd_endpointId r = wd_endpointId row"
      by (auto simp: chain_ok_def attempts_of_def upt_conv_Cons filter_eq_Cons_iff simp del: upt_Suc)
    with False assms(2) show False by (auto simp: list_ex_iff record_key_def)
  qed
  have rows: "rows_ok repo" using assms(1) by (simp add: deliveries_ok_def)
  note put = put_fresh [OF rows assms(4)]
  have "chain_ok (attempts_of (put_row row repo) e p)" for e p
    unfolding put(2) using none assms(1-3) by (auto simp: deliveries_ok_def chain_ok_def)
  with put(1) False show ?thesis by (simp add: scheduleFirst_def deliveries_ok_def)
qed

lemma filter_map_values:
  assumes "\<And>r. P (g r) = P r"
  shows "filter P (map snd (map (\<lambda>(k, r). (k, g r)) xs)) = map g (filter P (map snd xs))"
proof (induction xs)
  case (Cons x xs)
  then show ?case using assms [of "snd x"] by (cases x) simp
qed simp

lemma chain_map:
  assumes "\<And>r. wd_attempt (g r) = wd_attempt r" "\<And>r. wd_status (g r) = DL_FAILED \<longleftrightarrow> wd_status r = DL_FAILED" "chain_ok xs"
  shows "chain_ok (map g xs)"
proof -
  have "map wd_attempt (map g xs) = map wd_attempt xs" using assms(1) by simp
  moreover have "\<forall>r\<in>set (butlast (map g xs)). wd_status r = DL_FAILED"
    using assms(2,3) unfolding chain_ok_def map_butlast [symmetric] by simp
  moreover have "map g xs \<noteq> [] \<longrightarrow> wd_status (last (map g xs)) \<noteq> DL_FAILED" using assms(2,3) by (simp add: chain_ok_def last_map)
  ultimately show ?thesis using assms(3) unfolding chain_ok_def by (simp only: length_map)
qed

lemma exhausted_all:
  assumes "deliveries_ok repo"
  shows "deliveries_ok (snd (exhaustPendingForEndpoint endpoint reason repo))"
proof -
  let ?f = "\<lambda>row. if exhaustable endpoint row then row\<lparr>wd_status := DL_EXHAUSTED, wd_error := Some reason\<rparr> else row"
  let ?repo = "snd (exhaustPendingForEndpoint endpoint reason repo)"
  have f: "wd_eventId (?f r) = wd_eventId r" "wd_endpointId (?f r) = wd_endpointId r" "wd_attempt (?f r) = wd_attempt r" "wd_id (?f r) = wd_id r"
    "wd_status (?f r) = DL_FAILED \<longleftrightarrow> wd_status r = DL_FAILED" for r
    by (auto simp: exhaustable_def)
  have rows: "dl_rows ?repo = map (\<lambda>(k, row). (k, ?f row)) (dl_rows repo)" by (simp add: exhaustPendingForEndpoint_def)
  have at: "attempts_of ?repo e p = map ?f (attempts_of repo e p)" for e p
    unfolding attempts_of_def rows map_values_def by (rule filter_map_values) (simp add: f(1,2) del: if_split)
  have "chain_ok (map ?f xs)" if "chain_ok xs" for xs by (rule chain_map [OF _ _ that]) (rule f(3), rule f(5))
  then have "\<forall>e p. chain_ok (attempts_of ?repo e p)" using assms by (simp add: deliveries_ok_def at)
  moreover have "rows_ok ?repo"
  proof -
    have "map fst (dl_rows ?repo) = map fst (dl_rows repo)" by (simp add: rows comp_def split_beta)
    moreover have "wd_id row = k" if "(k, row) \<in> set (dl_rows ?repo)" for k row
    proof -
      from that obtain r where "(k, r) \<in> set (dl_rows repo)" "row = ?f r" unfolding rows by auto
      with assms f(4) show ?thesis unfolding deliveries_ok_def rows_ok_def by fastforce
    qed
    ultimately show ?thesis using assms by (auto simp: deliveries_ok_def rows_ok_def wf_map_def)
  qed
  ultimately show ?thesis by (simp add: deliveries_ok_def)
qed

section \<open>What the dispatcher reaches\<close>

text \<open>The join with the table of events: every event of the outbox has its subject and its sequence number.\<close>

definition joined :: "DispatchWorld \<Rightarrow> bool" where
  "joined dw \<longleftrightarrow> (\<forall>k event. map_get (dw_outbox dw) k = Some event \<longrightarrow>
     map_get (dl_subjectOf (dw_deliveries dw)) k = Some (ev_subjectKind event, ev_subjectId event) \<and>
     map_get (dl_sequenceOf (dw_deliveries dw)) k = Some (ev_sequence event))"

text \<open>
  Steps: an event is written to the outbox, the outbox is swept, a job of the queue is handled, due deliveries are swept, and
  what others do to the queue and to the endpoints.  New identifiers are fresh.
\<close>

definition write_event :: "StoredEvent \<Rightarrow> DispatchWorld \<Rightarrow> DispatchWorld" where
  "write_event event dw =
     dw\<lparr>dw_outbox := map_set (ev_id event) event (dw_outbox dw),
        dw_deliveries := (dw_deliveries dw)\<lparr>
          dl_subjectOf := map_set (ev_id event) (ev_subjectKind event, ev_subjectId event) (dl_subjectOf (dw_deliveries dw)),
          dl_sequenceOf := map_set (ev_id event) (ev_sequence event) (dl_sequenceOf (dw_deliveries dw))\<rparr>\<rparr>"

definition keyed :: "('a \<Rightarrow> ident) \<Rightarrow> (ident, 'a) jsmap \<Rightarrow> bool" where
  "keyed key m \<longleftrightarrow> (\<forall>k x. map_get m k = Some x \<longrightarrow> key x = k)"

lemma keyed_set: "keyed key m \<Longrightarrow> key x = k \<Longrightarrow> keyed key (map_set k x m)"
  by (auto simp: keyed_def update_conv')

inductive dispatch_step :: "DispatchPorts \<Rightarrow> DispatchWorld \<Rightarrow> DispatchWorld \<Rightarrow> bool" for ports where
  written: "map_get (dw_outbox dw) (ev_id event) = None \<Longrightarrow> dispatch_step ports dw (write_event event dw)"
| swept: "inj newId \<Longrightarrow> (\<And>k. map_get (dl_rows (dw_deliveries dw)) (newId k) = None) \<Longrightarrow>
    dispatch_step ports dw (snd (sweepOutbox ports newId now dw))"
| handled: "map_get (dl_rows (dw_deliveries dw)) (dr_retryId dr) = None \<Longrightarrow>
    dispatch_step ports dw (snd (handle_dispatch ports dr i dw))"
| due: "dispatch_step ports dw (snd (sweepDeliveries now dw))"
| others: "keyed we_id endpoints \<Longrightarrow> dispatch_step ports dw (dw\<lparr>dw_queue := queue, dw_endpoints := endpoints\<rparr>)"

inductive dispatch_reachable :: "DispatchPorts \<Rightarrow> DispatchWorld \<Rightarrow> bool" for ports where
  start: "dl_rows (dw_deliveries dw) = [] \<Longrightarrow> dw_outbox dw = [] \<Longrightarrow> keyed we_id (dw_endpoints dw) \<Longrightarrow> dispatch_reachable ports dw"
| step: "dispatch_reachable ports dw \<Longrightarrow> dispatch_step ports dw dw' \<Longrightarrow> dispatch_reachable ports dw'"

definition dispatch_ok :: "DispatchWorld \<Rightarrow> bool" where
  "dispatch_ok dw \<longleftrightarrow> deliveries_ok (dw_deliveries dw) \<and> joined dw \<and> keyed ev_id (dw_outbox dw) \<and> keyed we_id (dw_endpoints dw)"

lemma dispatch_job_fields [simp]:
  "dw_deliveries (dispatch_job env i d dw) = dw_deliveries dw" "dw_outbox (dispatch_job env i d dw) = dw_outbox dw"
  "dw_posts (dispatch_job env i d dw) = dw_posts dw" "dw_endpoints (dispatch_job env i d dw) = dw_endpoints dw"
  by (simp_all add: dispatch_job_def)

lemma dispatch_jobs_fields [simp]:
  "dw_deliveries (foldl (\<lambda>d row. dispatch_job (f row) (g row) None d) dw rows) = dw_deliveries dw"
  "dw_outbox (foldl (\<lambda>d row. dispatch_job (f row) (g row) None d) dw rows) = dw_outbox dw"
  by (induction rows arbitrary: dw) simp_all

lemma on_fields [simp]:
  "dw_deliveries (on_deliveries f dw) = f (dw_deliveries dw)" "dw_outbox (on_deliveries f dw) = dw_outbox dw"
  "dw_posts (on_deliveries f dw) = dw_posts dw" "dw_endpoints (on_deliveries f dw) = dw_endpoints dw"
  "dw_deliveries (on_endpoints g dw) = dw_deliveries dw" "dw_outbox (on_endpoints g dw) = dw_outbox dw"
  "dw_posts (on_endpoints g dw) = dw_posts dw" "dw_endpoints (on_endpoints g dw) = g (dw_endpoints dw)"
  by (simp_all add: on_deliveries_def on_endpoints_def)

lemma side_maps [simp]:
  "dl_subjectOf (delivery_complete inp repo) = dl_subjectOf repo" "dl_sequenceOf (delivery_complete inp repo) = dl_sequenceOf repo"
  "dl_subjectOf (put_row row repo) = dl_subjectOf repo" "dl_sequenceOf (put_row row repo) = dl_sequenceOf repo"
  "dl_subjectOf (snd (exhaustPendingForEndpoint e reason repo)) = dl_subjectOf repo"
  "dl_sequenceOf (snd (exhaustPendingForEndpoint e reason repo)) = dl_sequenceOf repo"
  by (simp_all add: delivery_complete_def put_row_def exhaustPendingForEndpoint_def split: option.split)

lemma side_maps_first [simp]:
  "dl_subjectOf (scheduleFirstAttempts rows repo) = dl_subjectOf repo" "dl_sequenceOf (scheduleFirstAttempts rows repo) = dl_sequenceOf repo"
proof -
  have "dl_subjectOf (scheduleFirst repo row) = dl_subjectOf repo \<and> dl_sequenceOf (scheduleFirst repo row) = dl_sequenceOf repo" for repo row
    by (simp add: scheduleFirst_def)
  then have "dl_subjectOf (foldl scheduleFirst repo rows) = dl_subjectOf repo \<and> dl_sequenceOf (foldl scheduleFirst repo rows) = dl_sequenceOf repo"
    by (induction rows arbitrary: repo) simp_all
  then show "dl_subjectOf (scheduleFirstAttempts rows repo) = dl_subjectOf repo" "dl_sequenceOf (scheduleFirstAttempts rows repo) = dl_sequenceOf repo"
    by (simp_all add: scheduleFirstAttempts_def)
qed

text \<open>Fan-out.\<close>

lemma firsts_scheduled:
  assumes "deliveries_ok repo" "distinct (map wd_id rows)" "\<forall>row\<in>set rows. wd_attempt row = 1 \<and> wd_status row = DL_PENDING \<and> map_get (dl_rows repo) (wd_id row) = None"
  shows "deliveries_ok (scheduleFirstAttempts rows repo) \<and>
    (\<forall>i. i \<notin> wd_id ` set rows \<longrightarrow> map_get (dl_rows (scheduleFirstAttempts rows repo)) i = map_get (dl_rows repo) i)"
  using assms
proof (induction rows arbitrary: repo)
  case Nil
  then show ?case by (simp add: scheduleFirstAttempts_def)
next
  case (Cons row rows)
  have get: "map_get (dl_rows (scheduleFirst repo row)) i = map_get (dl_rows repo) i" if "i \<noteq> wd_id row" for i
    using that by (simp add: scheduleFirst_def put_row_def update_conv')
  have run: "scheduleFirstAttempts (row # rows) repo = scheduleFirstAttempts rows (scheduleFirst repo row)" by (simp add: scheduleFirstAttempts_def)
  have first: "deliveries_ok (scheduleFirst repo row)" by (rule first_scheduled) (use Cons.prems in auto)
  have "wd_id r \<noteq> wd_id row" if "r \<in> set rows" for r using Cons.prems(2) that by (metis distinct.simps(2) imageI list.simps(9) list.set_map)
  then have rest: "\<forall>r\<in>set rows. wd_attempt r = 1 \<and> wd_status r = DL_PENDING \<and> map_get (dl_rows (scheduleFirst repo row)) (wd_id r) = None"
    using Cons.prems(3) by (simp add: get)
  show ?case unfolding run using Cons.IH [OF first _ rest] Cons.prems(2) get by auto
qed

lemma dispatch_jobs_endpoints [simp]: "dw_endpoints (foldl (\<lambda>d row. dispatch_job (f row) (g row) None d) dw rows) = dw_endpoints dw"
  by (induction rows arbitrary: dw) simp_all

lemma fanOut_ok:
  assumes "fanOut ports newId n event now dw = (n', dw')" "deliveries_ok (dw_deliveries dw)"
    and "inj newId" "\<forall>k\<ge>n. map_get (dl_rows (dw_deliveries dw)) (newId k) = None"
  shows "deliveries_ok (dw_deliveries dw') \<and> dw_outbox dw' = dw_outbox dw \<and> dw_endpoints dw' = dw_endpoints dw \<and> (\<forall>k\<ge>n'. map_get (dl_rows (dw_deliveries dw')) (newId k) = None) \<and>
    dl_subjectOf (dw_deliveries dw') = dl_subjectOf (dw_deliveries dw) \<and> dl_sequenceOf (dw_deliveries dw') = dl_sequenceOf (dw_deliveries dw)"
proof -
  define targets where "targets = filter (\<lambda>e. matchesEventType (we_eventTypes e) (event_type_name (ev_type event)))
      (listActive (dp_localeCompare ports) (dw_endpoints dw) (ev_environment event))"
  define rows where "rows = fan_rows newId n (ev_id event) now targets"
  have ids: "map wd_id rows = map newId [n..<n + length targets]"
    by (rule nth_equalityI) (simp_all add: rows_def fan_rows_def pending_row_def)
  have dist: "distinct (map wd_id rows)" unfolding ids using assms(3) by (simp add: distinct_map inj_on_def)
  have first: "\<forall>row\<in>set rows. wd_attempt row = 1 \<and> wd_status row = DL_PENDING \<and> map_get (dl_rows (dw_deliveries dw)) (wd_id row) = None"
    using assms(4) by (auto simp: rows_def fan_rows_def pending_row_def set_zip)
  have sched: "deliveries_ok (scheduleFirstAttempts rows (dw_deliveries dw))"
    "\<And>i. i \<notin> wd_id ` set rows \<Longrightarrow> map_get (dl_rows (scheduleFirstAttempts rows (dw_deliveries dw))) i = map_get (dl_rows (dw_deliveries dw)) i"
    using firsts_scheduled [OF assms(2) dist first] by blast+
  have "newId k \<notin> wd_id ` set rows" if "n + length targets \<le> k" for k
  proof -
    have "wd_id ` set rows = newId ` {n..<n + length targets}" using ids by (metis set_map set_upt)
    with that assms(3) show ?thesis by (auto dest: injD)
  qed
  then have keep: "\<forall>k\<ge>n + length targets. map_get (dl_rows (scheduleFirstAttempts rows (dw_deliveries dw))) (newId k) = None"
    using sched(2) assms(4) by auto
  show ?thesis
  proof (cases "targets = []")
    case True
    with assms show ?thesis by (simp add: fanOut_def Let_def targets_def [symmetric])
  next
    case False
    then have "n' = n + length targets" "dw' = foldl (\<lambda>d row. dispatch_job (ev_environment event) (wd_id row) None d)
        (dw\<lparr>dw_deliveries := scheduleFirstAttempts rows (dw_deliveries dw)\<rparr>) rows"
      using assms(1) by (simp_all add: fanOut_def Let_def targets_def [symmetric] rows_def)
    with sched(1) keep show ?thesis by simp
  qed
qed

lemma fanOut_all_ok:
  assumes "deliveries_ok (dw_deliveries dw)" "inj newId" "\<forall>k\<ge>n. map_get (dl_rows (dw_deliveries dw)) (newId k) = None"
  shows "deliveries_ok (dw_deliveries (fanOut_all ports newId n events now dw)) \<and> dw_outbox (fanOut_all ports newId n events now dw) = dw_outbox dw \<and>
    dw_endpoints (fanOut_all ports newId n events now dw) = dw_endpoints dw \<and>
    dl_subjectOf (dw_deliveries (fanOut_all ports newId n events now dw)) = dl_subjectOf (dw_deliveries dw) \<and>
    dl_sequenceOf (dw_deliveries (fanOut_all ports newId n events now dw)) = dl_sequenceOf (dw_deliveries dw)"
  using assms
proof (induction events arbitrary: n dw)
  case Nil
  then show ?case by simp
next
  case (Cons event events)
  obtain n' dw' where f: "fanOut ports newId n event now dw = (n', dw')" by fastforce
  from fanOut_ok [OF f Cons.prems(1,2,3)] Cons.IH [of dw' n'] Cons.prems(2) show ?case by (simp add: f)
qed

text \<open>One delivery.\<close>

lemma few_attempts: "nextAttemptAt att WEBHOOK_RETRY_SCHEDULE_SECONDS retryAfter now random = Some t \<Longrightarrow> att \<le> 10"
  by (auto simp: nextAttemptAt_def WEBHOOK_RETRY_SCHEDULE_SECONDS_def split: if_splits)

lemma completed_fields [simp]: "ci_id (completed result i now digest status err) = i" "ci_status (completed result i now digest status err) = status"
  by (simp_all add: completed_def)

lemma outcome_ok:
  assumes "deliveries_ok (dw_deliveries dw)" "map_get (dl_rows (dw_deliveries dw)) i = Some row" "wd_status row = DL_PENDING"
    and "map_get (dl_rows (dw_deliveries dw)) (dr_retryId dr) = None" "ev_id event = wd_eventId row" "p = wd_endpointId row"
  shows "deliveries_ok (dw_deliveries (deliver_outcome dr i (wd_attempt row) p event result digest now dw))"
proof -
  have close: "deliveries_ok (delivery_complete (completed result i now digest status err) (dw_deliveries dw))" if "status \<noteq> DL_FAILED" for status err
    by (rule complete_closes [OF assms(1)]) (use assms(2,3) that in simp_all)
  have retry: "deliveries_ok (dw_deliveries (retry_or_exhaust dr i (wd_attempt row) p event result digest now reason after dw))" for reason after
  proof (cases "nextAttemptAt (wd_attempt row) WEBHOOK_RETRY_SCHEDULE_SECONDS after now (dr_random dr)")
    case None
    then show ?thesis using close by (simp add: retry_or_exhaust_def)
  next
    case (Some t)
    have "deliveries_ok (scheduleRetry (dr_retryId dr) (wd_eventId row) (wd_endpointId row) (wd_attempt row + 1) t
        (delivery_complete (completed result i now digest DL_FAILED (Some reason)) (dw_deliveries dw)))"
      by (rule fail_then_retry [OF assms(1)]) (use assms(2-4) few_attempts [OF Some] in simp_all)
    with Some assms(5,6) show ?thesis by (simp add: retry_or_exhaust_def)
  qed
  show ?thesis
    using close retry exhausted_all by (auto simp: deliver_outcome_def split: DeliveryDecision.split)
qed

lemma outcome_maps:
  "dl_subjectOf (dw_deliveries (deliver_outcome dr i att p event result digest now dw)) = dl_subjectOf (dw_deliveries dw)"
  "dl_sequenceOf (dw_deliveries (deliver_outcome dr i att p event result digest now dw)) = dl_sequenceOf (dw_deliveries dw)"
  "dw_outbox (deliver_outcome dr i att p event result digest now dw) = dw_outbox dw"
  "dw_posts (deliver_outcome dr i att p event result digest now dw) = dw_posts dw"
  "keyed we_id (dw_endpoints dw) \<Longrightarrow> keyed we_id (dw_endpoints (deliver_outcome dr i att p event result digest now dw))"
proof -
  have reset: "keyed we_id rows \<Longrightarrow> keyed we_id (resetFailures q rows)" for q rows
    by (auto simp: resetFailures_def keyed_def update_conv' split: option.splits)
  have disable: "keyed we_id rows \<Longrightarrow> keyed we_id (endpoint_disable q t rows)" for q t rows
    by (auto simp: endpoint_disable_def disabled_at_def keyed_def update_conv' split: option.splits)
  have failure: "keyed we_id rows \<Longrightarrow> keyed we_id (snd (registerFailure q n t rows))" for q n t rows
    by (auto simp: registerFailure_def disabled_at_def Let_def keyed_def update_conv' split: option.splits)
  show "dl_subjectOf (dw_deliveries (deliver_outcome dr i att p event result digest now dw)) = dl_subjectOf (dw_deliveries dw)"
    "dl_sequenceOf (dw_deliveries (deliver_outcome dr i att p event result digest now dw)) = dl_sequenceOf (dw_deliveries dw)"
    "dw_outbox (deliver_outcome dr i att p event result digest now dw) = dw_outbox dw"
    "dw_posts (deliver_outcome dr i att p event result digest now dw) = dw_posts dw"
    by (auto simp: deliver_outcome_def retry_or_exhaust_def scheduleRetry_def split: DeliveryDecision.split option.split)
  show "keyed we_id (dw_endpoints dw) \<Longrightarrow> keyed we_id (dw_endpoints (deliver_outcome dr i att p event result digest now dw))"
    using reset disable failure by (auto simp: deliver_outcome_def retry_or_exhaust_def split: DeliveryDecision.split option.split)
qed

text \<open>What a job can do: nothing to the deliveries, give up on an endpoint that is gone, or make one request.\<close>

definition sends :: "DispatchPorts \<Rightarrow> DeliveryDraws \<Rightarrow> ident \<Rightarrow> DispatchWorld \<Rightarrow> WebhookDeliveryRecord \<Rightarrow> WebhookEndpointRecord \<Rightarrow> ClaimedOutboxEvent \<Rightarrow> bool" where
  "sends ports dr i dw row endpoint event \<longleftrightarrow>
     map_get (dl_rows (dw_deliveries dw)) i = Some row \<and> wd_status row = DL_PENDING \<and>
     map_get (dw_endpoints dw) (wd_endpointId row) = Some endpoint \<and> we_status endpoint = EP_ACTIVE \<and>
     findEventById (dw_outbox dw) (wd_eventId row) = Some event \<and>
     \<not> hasEarlierPendingForSubject (dw_deliveries dw) (we_id endpoint) (ev_subjectKind event, ev_subjectId event) (ev_sequence event)"

lemma handle_cases:
  assumes "handle_dispatch ports dr i dw = (r, dw')"
  obtains (quiet) "dw_deliveries dw' = dw_deliveries dw" "dw_outbox dw' = dw_outbox dw" "dw_endpoints dw' = dw_endpoints dw" "dw_posts dw' = dw_posts dw"
  | (given_up) row inp where "map_get (dl_rows (dw_deliveries dw)) i = Some row" "wd_status row = DL_PENDING" "ci_id inp = i" "ci_status inp = DL_EXHAUSTED"
      "dw' = on_deliveries (delivery_complete inp) dw"
  | (sent) row endpoint event secrets cache signature result where "sends ports dr i dw row endpoint event"
      "dw' = deliver_outcome dr (wd_id row) (wd_attempt row) (we_id endpoint) event result
         (dp_sha256hex ports (dp_encode ports (toEventEnvelope event (dr_sendAt dr)))) (dr_sendAt dr)
         (dw\<lparr>dw_secrets := cache, dw_posts := dw_posts dw @ [\<lparr>po_url = we_url endpoint, po_body = dp_encode ports (toEventEnvelope event (dr_sendAt dr)),
            po_headers = delivery_headers event (wd_id row) (wd_attempt row) signature\<rparr>]\<rparr>)"
      "secrets_for (dp_decrypt ports) (dr_secretsAt dr) endpoint (dw_secrets dw) = (Inr secrets, cache)"
      "buildWebhookSignature (dp_hmac ports) (dp_numberText ports) (dp_encode ports (toEventEnvelope event (dr_sendAt dr))) (dr_sendAt dr div 1000) secrets = Some signature"
      "result = post (dp_request ports) (dp_dateParse ports) (we_url endpoint) (dp_encode ports (toEventEnvelope event (dr_sendAt dr)))
         (delivery_headers event (wd_id row) (wd_attempt row) signature) (dr_sendAt dr)"
proof (cases "map_get (dl_rows (dw_deliveries dw)) i")
  case None
  with assms show thesis by (intro quiet) (auto simp: handle_dispatch_def delivery_findById_def)
next
  case row: (Some row)
  show thesis
  proof (cases "wd_status row = DL_PENDING")
    case False
    with row assms show thesis by (intro quiet) (auto simp: handle_dispatch_def delivery_findById_def)
  next
    case pending: True
    show thesis
    proof (cases "findEventById (dw_outbox dw) (wd_eventId row)")
      case None
      with row pending assms show thesis by (intro quiet) (auto simp: handle_dispatch_def delivery_findById_def)
    next
      case event: (Some event)
      have d: "deliver ports dr i event dw = (r, dw')" using assms row pending event by (simp add: handle_dispatch_def delivery_findById_def)
      show thesis
      proof (cases "map_get (dw_endpoints dw) (wd_endpointId row)")
        case None
        with d row pending show thesis by (intro given_up [OF row pending]) (auto simp: deliver_def delivery_findById_def endpoint_findById_def)
      next
        case endpoint: (Some endpoint)
        show thesis
        proof (cases "we_status endpoint = EP_ACTIVE")
          case False
          with d row pending endpoint show thesis by (intro given_up [OF row pending]) (auto simp: deliver_def delivery_findById_def endpoint_findById_def)
        next
          case active: True
          show thesis
          proof (cases "hasEarlierPendingForSubject (dw_deliveries dw) (we_id endpoint) (ev_subjectKind event, ev_subjectId event) (ev_sequence event)")
            case True
            with d row pending endpoint active show thesis by (intro quiet) (auto simp: deliver_def delivery_findById_def endpoint_findById_def)
          next
            case False
            have s: "send_delivery ports dr (wd_id row) (wd_attempt row) endpoint event dw = (r, dw')"
              using d row pending endpoint active False by (simp add: deliver_def delivery_findById_def endpoint_findById_def)
            have sends: "sends ports dr i dw row endpoint event" using row pending event endpoint active False by (simp add: sends_def)
            obtain res cache where sec: "secrets_for (dp_decrypt ports) (dr_secretsAt dr) endpoint (dw_secrets dw) = (res, cache)" by fastforce
            show thesis
            proof (cases res)
              case (Inl e)
              with s sec show thesis by (intro quiet) (auto simp: send_delivery_def Let_def)
            next
              case (Inr secrets)
              show thesis
              proof (cases "buildWebhookSignature (dp_hmac ports) (dp_numberText ports) (dp_encode ports (toEventEnvelope event (dr_sendAt dr)))
                  (dr_sendAt dr div 1000) secrets")
                case None
                with s sec Inr show thesis by (intro quiet) (auto simp: send_delivery_def Let_def)
              next
                case (Some signature)
                with s sec Inr show thesis by (intro sent [OF sends]) (auto simp: send_delivery_def Let_def)
              qed
            qed
          qed
        qed
      qed
    qed
  qed
qed

lemma handle_ok:
  assumes ok: "dispatch_ok dw" and fresh: "map_get (dl_rows (dw_deliveries dw)) (dr_retryId dr) = None"
  shows "dispatch_ok (snd (handle_dispatch ports dr i dw))"
proof -
  obtain r dw' where h: "handle_dispatch ports dr i dw = (r, dw')" by fastforce
  have "dispatch_ok dw'"
    using h
  proof (cases rule: handle_cases)
    case quiet
    with ok show ?thesis by (simp add: dispatch_ok_def joined_def)
  next
    case (given_up row inp)
    then have "deliveries_ok (delivery_complete inp (dw_deliveries dw))"
      using ok by (intro complete_closes) (auto simp: dispatch_ok_def)
    with ok given_up show ?thesis by (simp add: dispatch_ok_def joined_def)
  next
    case (sent row endpoint event secrets cache signature result)
    let ?dw = "dw\<lparr>dw_secrets := cache, dw_posts := dw_posts dw @ [\<lparr>po_url = we_url endpoint, po_body = dp_encode ports (toEventEnvelope event (dr_sendAt dr)),
            po_headers = delivery_headers event (wd_id row) (wd_attempt row) signature\<rparr>]\<rparr>"
    from sent(1) have row: "map_get (dl_rows (dw_deliveries dw)) i = Some row" "wd_status row = DL_PENDING"
      and ep: "map_get (dw_endpoints dw) (wd_endpointId row) = Some endpoint" and ev: "findEventById (dw_outbox dw) (wd_eventId row) = Some event"
      by (simp_all add: sends_def)
    have ids: "we_id endpoint = wd_endpointId row" using ok ep by (simp add: dispatch_ok_def keyed_def)
    obtain stored where "map_get (dw_outbox dw) (wd_eventId row) = Some stored" "event = claimed stored" using ev by (auto simp: findEventById_def)
    then have "ev_id event = wd_eventId row" using ok by (simp add: dispatch_ok_def keyed_def claimed_def ClaimedOutboxEvent.truncate_def)
    moreover have "wd_id row = i" using ok row(1) by (auto simp: dispatch_ok_def deliveries_ok_def rows_ok_def dest: map_of_SomeD)
    ultimately have "deliveries_ok (dw_deliveries dw')"
      unfolding sent(2) using ok row fresh ids by (intro outcome_ok) (auto simp: dispatch_ok_def)
    then show ?thesis using ok unfolding sent(2) by (simp add: dispatch_ok_def joined_def outcome_maps)
  qed
  with h show ?thesis by simp
qed

lemma claimBatch_get:
  "map_get (snd (claimBatch lc limit t rows)) k = map_option (\<lambda>row. if row \<in> set (take limit (js_sort (\<lambda>a b. lc (ev_id a) (ev_id b))
     (filter (\<lambda>row. ev_dispatchedAt row = None) (map_values rows)))) then row\<lparr>ev_dispatchedAt := Some t\<rparr> else row) (map_get rows k)"
  by (simp add: claimBatch_def Let_def map_of_map comp_def)

lemma step_ok:
  assumes "dispatch_step ports dw dw'" "dispatch_ok dw"
  shows "dispatch_ok dw'"
  using assms
proof (induction rule: dispatch_step.induct)
  case (written dw event)
  then have "attempts_of (dw_deliveries (write_event event dw)) e p = attempts_of (dw_deliveries dw) e p" for e p
    by (simp add: write_event_def attempts_of_def)
  with written show ?case
    by (auto simp: dispatch_ok_def write_event_def deliveries_ok_def rows_ok_def joined_def keyed_def update_conv')
next
  case (swept newId dw now)
  obtain events rows where c: "claimBatch (dp_localeCompare ports) OUTBOX_BATCH now (dw_outbox dw) = (events, rows)" by fastforce
  have same: "\<exists>old. map_get (dw_outbox dw) k = Some old \<and> ev_id old = ev_id event \<and> ev_subjectKind old = ev_subjectKind event \<and>
      ev_subjectId old = ev_subjectId event \<and> ev_sequence old = ev_sequence event" if "map_get rows k = Some event" for k event
    using claimBatch_get [of "dp_localeCompare ports" OUTBOX_BATCH now "dw_outbox dw" k] c that
    by (cases "map_get (dw_outbox dw) k") (auto split: if_splits)
  let ?dw = "dw\<lparr>dw_outbox := rows\<rparr>"
  have "deliveries_ok (dw_deliveries ?dw)" "\<forall>k\<ge>0. map_get (dl_rows (dw_deliveries ?dw)) (newId k) = None"
    using swept by (simp_all add: dispatch_ok_def)
  from fanOut_all_ok [OF this(1) swept(1) this(2), of ports events now]
  have f: "deliveries_ok (dw_deliveries (fanOut_all ports newId 0 events now ?dw))" "dw_outbox (fanOut_all ports newId 0 events now ?dw) = rows"
    "dw_endpoints (fanOut_all ports newId 0 events now ?dw) = dw_endpoints dw"
    "dl_subjectOf (dw_deliveries (fanOut_all ports newId 0 events now ?dw)) = dl_subjectOf (dw_deliveries dw)"
    "dl_sequenceOf (dw_deliveries (fanOut_all ports newId 0 events now ?dw)) = dl_sequenceOf (dw_deliveries dw)"
    by simp_all
  have "joined (fanOut_all ports newId 0 events now ?dw)" unfolding joined_def f
    using swept(3) same by (auto simp: dispatch_ok_def joined_def) (metis)+
  moreover have "keyed ev_id rows" unfolding keyed_def using swept(3) same by (fastforce simp: dispatch_ok_def keyed_def)
  ultimately show ?case using swept(3) f by (simp add: sweepOutbox_def claimAndFanOut_def c dispatch_ok_def)
next
  case (handled dw dr i)
  then show ?case by (intro handle_ok)
next
  case (due dw now)
  then show ?case by (simp add: sweepDeliveries_def Let_def dispatch_ok_def joined_def)
next
  case (others endpoints dw queue)
  then show ?case by (simp add: dispatch_ok_def joined_def)
qed

lemma reachable_ok: "dispatch_reachable ports dw \<Longrightarrow> dispatch_ok dw"
proof (induction rule: dispatch_reachable.induct)
  case (start dw)
  then show ?case
    by (simp add: dispatch_ok_def deliveries_ok_def rows_ok_def attempts_of_def chain_ok_def joined_def keyed_def)
next
  case (step dw dw')
  then show ?case by (blast intro: step_ok)
qed

section \<open>Properties\<close>

definition demo_dispatch_ports :: DispatchPorts where
  "demo_dispatch_ports = \<lparr>dp_localeCompare = (\<lambda>_ _. 0), dp_request = (\<lambda>_ _ _. Inl (''ECONNREFUSED'', 5)), dp_dateParse = (\<lambda>_. None),
     dp_encode = ee_id, dp_hmac = (\<lambda>_ _. ''ab''), dp_numberText = (\<lambda>_. []), dp_sha256hex = id, dp_decrypt = (\<lambda>s. Inr (se_keyId s))\<rparr>"

definition demo_endpoint :: WebhookEndpointRecord where
  "demo_endpoint = \<lparr>we_id = ''E'', we_environment = HOMOLOGACAO, we_url = ''https://x'', we_eventTypes = [''pix_out.*''],
     we_secret = \<lparr>se_ciphertext = [], se_iv = [], se_authTag = [], se_wrappedKey = [], se_keyId = ''k'', se_version = 1\<rparr>,
     we_previousSecret = None, we_previousSecretExpiresAt = None, we_status = EP_ACTIVE, we_consecutiveFailures = 0,
     we_disabledAt = None, we_updatedAt = 0\<rparr>"

definition demo_stored :: StoredEvent where
  "demo_stored = \<lparr>ev_id = ''V'', ev_environment = HOMOLOGACAO, ev_type = PIX_OUT_SETTLED, ev_dataVersion = 1, ev_provider = None,
     ev_connectionId = None, ev_subjectKind = ''transaction'', ev_subjectId = ''X'', ev_sequence = 7, ev_payload = [], ev_previous = None,
     ev_occurredAt = 0, ev_createdAt = 0, ev_dispatchedAt = None\<rparr>"

definition demo_dispatch_start :: DispatchWorld where
  "demo_dispatch_start = \<lparr>dw_outbox = [], dw_endpoints = [(''E'', demo_endpoint)],
     dw_deliveries = \<lparr>dl_rows = [], dl_sequenceOf = [], dl_subjectOf = [], dl_typeOf = [], dl_environmentOf = []\<rparr>,
     dw_secrets = [], dw_queue = [], dw_posts = []\<rparr>"

definition demo_ds :: "nat \<Rightarrow> ident" where "demo_ds n = replicate (Suc n) (CHR ''d'')"

definition demo_planned :: DispatchWorld where
  "demo_planned = snd (sweepOutbox demo_dispatch_ports demo_ds 1000 (write_event demo_stored demo_dispatch_start))"

definition demo_delivery_draws :: DeliveryDraws where
  "demo_delivery_draws = \<lparr>dr_inactiveAt = 2000, dr_sendAt = 2000, dr_secretsAt = 2000, dr_random = 0, dr_retryId = ''r''\<rparr>"

lemma demo_planned_reachable: "dispatch_reachable demo_dispatch_ports demo_planned"
proof -
  have "dispatch_reachable demo_dispatch_ports demo_dispatch_start"
    by (rule dispatch_reachable.start) (simp_all add: demo_dispatch_start_def keyed_def demo_endpoint_def)
  moreover have "dispatch_step demo_dispatch_ports demo_dispatch_start (write_event demo_stored demo_dispatch_start)"
    by (rule dispatch_step.written) (simp add: demo_dispatch_start_def)
  moreover have "dispatch_step demo_dispatch_ports (write_event demo_stored demo_dispatch_start) demo_planned"
    unfolding demo_planned_def
    by (rule dispatch_step.swept) (auto simp: inj_def demo_ds_def write_event_def demo_dispatch_start_def)
  ultimately show ?thesis by (blast intro: dispatch_reachable.step)
qed

text \<open>C27: in every state the dispatcher reaches, the attempts of an event at an endpoint form one chain: they are numbered from
  1 without a gap, all but the last have failed, the last has not, and there are at most eleven.  So an event has at most one
  attempt waiting at an endpoint, and nothing is attempted after a success.\<close>

theorem delivery_chain:
  assumes "dispatch_reachable ports dw"
  shows "map wd_attempt (attempts_of (dw_deliveries dw) e p) = [1..<Suc (length (attempts_of (dw_deliveries dw) e p))] \<and>
     (\<forall>row\<in>set (butlast (attempts_of (dw_deliveries dw) e p)). wd_status row = DL_FAILED) \<and>
     (attempts_of (dw_deliveries dw) e p \<noteq> [] \<longrightarrow> wd_status (last (attempts_of (dw_deliveries dw) e p)) \<noteq> DL_FAILED) \<and>
     length (attempts_of (dw_deliveries dw) e p) \<le> 11"
  using reachable_ok [OF assms] unfolding dispatch_ok_def deliveries_ok_def chain_ok_def by blast

theorem delivery_chain_witness:
  "map wd_attempt (attempts_of (dw_deliveries demo_planned) ''V'' ''E'') = [1] \<and>
   wd_status (last (attempts_of (dw_deliveries demo_planned) ''V'' ''E'')) \<noteq> DL_FAILED"
proof -
  have "length (attempts_of (dw_deliveries demo_planned) ''V'' ''E'') = 1" by code_simp
  with delivery_chain [OF demo_planned_reachable, of "''V''" "''E''"] show ?thesis by (cases "attempts_of (dw_deliveries demo_planned) ''V'' ''E''") auto
qed

text \<open>C28: a job makes at most one request.  When it does, the endpoint is active and its event has not been acknowledged there, and
  every event with a smaller sequence number about the same subject that was planned for that endpoint is finished: it was
  acknowledged, or every attempt it was due has been made.\<close>

theorem each_request_in_order:
  assumes "dispatch_reachable ports dw" "handle_dispatch ports dr i dw = (r, dw')" "dw_posts dw' \<noteq> dw_posts dw"
  shows "\<exists>row endpoint event body signature. sends ports dr i dw row endpoint event \<and>
     dw_posts dw' = dw_posts dw @ [\<lparr>po_url = we_url endpoint, po_body = body, po_headers = delivery_headers event i (wd_attempt row) signature\<rparr>] \<and>
     (\<forall>other\<in>set (attempts_of (dw_deliveries dw) (wd_eventId row) (wd_endpointId row)). wd_status other \<noteq> DL_SUCCEEDED) \<and>
     (\<forall>k earlier. map_get (dw_outbox dw) k = Some earlier \<and> ev_subjectKind earlier = ev_subjectKind event \<and>
        ev_subjectId earlier = ev_subjectId event \<and> ev_sequence earlier < ev_sequence event \<and>
        attempts_of (dw_deliveries dw) k (wd_endpointId row) \<noteq> [] \<longrightarrow>
        wd_status (last (attempts_of (dw_deliveries dw) k (wd_endpointId row))) \<in> {DL_SUCCEEDED, DL_EXHAUSTED})"
  using assms(2)
proof (cases rule: handle_cases)
  case quiet
  with assms(3) show ?thesis by simp
next
  case (given_up row inp)
  with assms(3) show ?thesis by simp
next
  case (sent row endpoint event secrets cache signature result)
  have ok: "deliveries_ok (dw_deliveries dw)" "joined dw" "keyed we_id (dw_endpoints dw)"
    using reachable_ok [OF assms(1)] by (simp_all add: dispatch_ok_def)
  from sent(1) have row: "map_get (dl_rows (dw_deliveries dw)) i = Some row" "wd_status row = DL_PENDING"
    and ep: "map_get (dw_endpoints dw) (wd_endpointId row) = Some endpoint"
    and free: "\<not> hasEarlierPendingForSubject (dw_deliveries dw) (we_id endpoint) (ev_subjectKind event, ev_subjectId event) (ev_sequence event)"
    by (simp_all add: sends_def)
  have ids: "we_id endpoint = wd_endpointId row" "wd_id row = i"
    using ok ep row(1) by (auto simp: keyed_def deliveries_ok_def rows_ok_def dest: map_of_SomeD)
  have "row \<in> set (attempts_of (dw_deliveries dw) (wd_eventId row) (wd_endpointId row))"
    using row(1) by (force simp: attempts_of_def map_values_def dest: map_of_SomeD)
  then obtain us vs where at: "attempts_of (dw_deliveries dw) (wd_eventId row) (wd_endpointId row) = us @ row # vs" by (meson split_list)
  have ch: "chain_ok (us @ row # vs)" using ok(1) at by (metis deliveries_ok_def)
  have vs: "vs = []" by (rule chain_unfinished_last [OF ch]) (simp add: row(2))
  with ch at row(2) have unacknowledged: "\<forall>other\<in>set (attempts_of (dw_deliveries dw) (wd_eventId row) (wd_endpointId row)). wd_status other \<noteq> DL_SUCCEEDED"
    by (auto simp: chain_ok_def)
  have finished: "wd_status (last (attempts_of (dw_deliveries dw) k (wd_endpointId row))) \<in> {DL_SUCCEEDED, DL_EXHAUSTED}"
    if k: "map_get (dw_outbox dw) k = Some earlier" "ev_subjectKind earlier = ev_subjectKind event" "ev_subjectId earlier = ev_subjectId event"
      "ev_sequence earlier < ev_sequence event" "attempts_of (dw_deliveries dw) k (wd_endpointId row) \<noteq> []" for k earlier
  proof -
    let ?l = "last (attempts_of (dw_deliveries dw) k (wd_endpointId row))"
    have "wd_status ?l \<noteq> DL_FAILED" using ok(1) k(5) unfolding deliveries_ok_def chain_ok_def by blast
    moreover have "?l \<in> set (attempts_of (dw_deliveries dw) k (wd_endpointId row))" using k(5) by simp
    then have "?l \<in> set (map_values (dl_rows (dw_deliveries dw)))" "wd_eventId ?l = k" "wd_endpointId ?l = wd_endpointId row"
      by (auto simp: attempts_of_def)
    then have "wd_status ?l \<noteq> DL_PENDING"
      using free ok(2) k(1-4) ids(1) by (auto simp: hasEarlierPendingForSubject_def list_ex_iff earlier_pending_def joined_def)
    ultimately show ?thesis by (cases "wd_status ?l") auto
  qed
  show ?thesis using sent(1) unacknowledged finished ids(2) unfolding sent(2) by (auto simp: outcome_maps intro!: exI)
qed

theorem each_request_in_order_witness:
  "\<exists>row endpoint event body signature. sends demo_dispatch_ports demo_delivery_draws ''d'' demo_planned row endpoint event \<and>
     dw_posts (snd (handle_dispatch demo_dispatch_ports demo_delivery_draws ''d'' demo_planned)) = dw_posts demo_planned @
       [\<lparr>po_url = we_url endpoint, po_body = body, po_headers = delivery_headers event ''d'' (wd_attempt row) signature\<rparr>]"
proof -
  have row: "map_get (dl_rows (dw_deliveries demo_planned)) ''d'' = Some (pending_row ''d'' ''V'' ''E'' 1 1000)"
    "dl_rows (dw_deliveries demo_planned) = [(''d'', pending_row ''d'' ''V'' ''E'' 1 1000)]"
    "dl_sequenceOf (dw_deliveries demo_planned) = [(''V'', 7)]" "dw_secrets demo_planned = []" "dw_posts demo_planned = []"
    "dw_endpoints demo_planned = [(''E'', demo_endpoint)]" "findEventById (dw_outbox demo_planned) ''V'' = Some (claimed demo_stored)"
    by (code_simp, code_simp, code_simp, code_simp, code_simp, code_simp, code_simp)
  have ev: "ev_sequence (claimed demo_stored) = 7" by (simp add: claimed_def demo_stored_def ClaimedOutboxEvent.truncate_def)
  have "\<not> hasEarlierPendingForSubject (dw_deliveries demo_planned) (we_id demo_endpoint) subject 7" for subject
    by (auto simp: hasEarlierPendingForSubject_def earlier_pending_def row map_values_def pending_row_def split: option.splits)
  then have "length (dw_posts (snd (handle_dispatch demo_dispatch_ports demo_delivery_draws ''d'' demo_planned))) = 1"
    by (simp add: handle_dispatch_def delivery_findById_def row pending_row_def deliver_def endpoint_findById_def ev send_delivery_def Let_def
        demo_endpoint_def secrets_for_def demo_dispatch_ports_def buildWebhookSignature_def outcome_maps)
  then have "dw_posts (snd (handle_dispatch demo_dispatch_ports demo_delivery_draws ''d'' demo_planned)) \<noteq> dw_posts demo_planned" using row(5) by auto
  then have "dw_posts (snd (handle_dispatch demo_dispatch_ports demo_delivery_draws ''d'' demo_planned)) \<noteq> dw_posts demo_planned" by auto
  from each_request_in_order [OF demo_planned_reachable prod.collapse [symmetric] this] show ?thesis by blast
qed

text \<open>The ladder of retries.  Attempts 1 to 10 have a successor, the eleventh has none.  The delay lies within a fifth of its
  rung, rounded to the second, or is what the endpoint asked for with Retry-After when that is longer; it is never shorter
  than what the endpoint asked for.\<close>

theorem retry_delays:
  assumes "0 \<le> random" "random < 1"
  shows "case nextAttemptAt att WEBHOOK_RETRY_SCHEDULE_SECONDS retryAfter now random of
      None \<Rightarrow> att = 0 \<or> 10 < att
    | Some t \<Rightarrow> 1 \<le> att \<and> att \<le> 10 \<and>
        now + 1000 * js_round (of_nat (WEBHOOK_RETRY_SCHEDULE_SECONDS ! (att - 1)) * 4 / 5) \<le> t \<and>
        t \<le> now + 1000 * max (js_round (of_nat (WEBHOOK_RETRY_SCHEDULE_SECONDS ! (att - 1)) * 6 / 5)) (or_else retryAfter 0) \<and>
        now + 1000 * or_else retryAfter 0 \<le> t"
proof (cases "att = 0 \<or> 10 < att")
  case True
  then show ?thesis by (auto simp: nextAttemptAt_def WEBHOOK_RETRY_SCHEDULE_SECONDS_def)
next
  case False
  let ?b = "of_nat (WEBHOOK_RETRY_SCHEDULE_SECONDS ! (att - 1)) :: rat"
  have b: "0 \<le> ?b" by simp
  have len: "length WEBHOOK_RETRY_SCHEDULE_SECONDS = 10" by (simp add: WEBHOOK_RETRY_SCHEDULE_SECONDS_def)
  have mono: "js_round x \<le> js_round y" if "x \<le> y" for x y using that by (simp add: js_round_def floor_mono)
  have lo: "?b * 4 / 5 \<le> ?b * (8 / 10 + random * (4 / 10))" using assms(1) b mult_left_mono [of "4 / 5" "8 / 10 + random * (4 / 10)" ?b] by simp
  have hi: "?b * (8 / 10 + random * (4 / 10)) \<le> ?b * 6 / 5" using assms(2) b mult_left_mono [of "8 / 10 + random * (4 / 10)" "6 / 5" ?b] by simp
  from mono [OF lo] mono [OF hi] False len show ?thesis by (simp add: nextAttemptAt_def Let_def max_def)
qed

theorem retry_delays_witness:
  "\<exists>t. nextAttemptAt 3 WEBHOOK_RETRY_SCHEDULE_SECONDS (Some 200) 0 (1 / 2) = Some t \<and> 200000 \<le> t"
  using retry_delays [where random = "1 / 2" and att = 3 and retryAfter = "Some 200" and now = 0]
  by (cases "nextAttemptAt 3 WEBHOOK_RETRY_SCHEDULE_SECONDS (Some 200) 0 (1 / 2)") (simp_all split: option.splits)

end
