(* ===== verification/Json.thy ===== *)
theory Json
  imports Js_Strings
begin

text \<open>
  JSON values as the code handles them after \<open>JSON.parse\<close>, and \<open>JSON.stringify\<close> on them.

  An object is the list of its own enumerable properties in their order.  A number is its text: \<open>Number::toString\<close> and the
  double it prints determine one another, and nothing here computes with a number of a payload.
\<close>

datatype Json = JNull | JBool bool | JNum string | JStr string | JArr "Json list" | JObj "(string \<times> Json) list"

definition num_chars :: string where "num_chars = ''0123456789.+-e''"

text \<open>What \<open>JSON.parse\<close> promises: the text of a number is one, the keys of an object are distinct.\<close>

fun json_wf :: "Json \<Rightarrow> bool" where
  "json_wf (JNum t) \<longleftrightarrow> t \<noteq> [] \<and> list_all (\<lambda>c. c \<in> set num_chars) t"
| "json_wf (JArr xs) \<longleftrightarrow> list_all json_wf xs"
| "json_wf (JObj kvs) \<longleftrightarrow> distinct (map fst kvs) \<and> list_all (\<lambda>kv. json_wf (snd kv)) kvs"
| "json_wf _ \<longleftrightarrow> True"

section \<open>\<open>JSON.stringify\<close>\<close>

definition hex_char :: "nat \<Rightarrow> char" where
  "hex_char d = (if d < 10 then char_of (48 + d) else char_of (87 + d))"

definition json_char :: "char \<Rightarrow> string" where
  "json_char c =
     (let n = of_char c :: nat; bs = CHR 0x5C in
      if c = CHR 0x22 \<or> c = bs then [bs, c]
      else if c = CHR 0x08 then [bs, CHR ''b''] else if c = CHR 0x0C then [bs, CHR ''f'']
      else if c = CHR 0x0A then [bs, CHR ''n''] else if c = CHR 0x0D then [bs, CHR ''r'']
      else if c = CHR 0x09 then [bs, CHR ''t'']
      else if n < 32 then [bs, CHR ''u'', CHR ''0'', CHR ''0'', hex_char (n div 16), hex_char (n mod 16)]
      else [c])"

definition json_string :: "string \<Rightarrow> string" where
  "json_string s = CHR 0x22 # concat (map json_char s) @ [CHR 0x22]"

fun commas :: "string list \<Rightarrow> string" where
  "commas [] = []"
| "commas [x] = x"
| "commas (x # y # ys) = x @ CHR '','' # commas (y # ys)"

fun json_text :: "Json \<Rightarrow> string" where
  "json_text JNull = ''null''"
| "json_text (JBool b) = (if b then ''true'' else ''false'')"
| "json_text (JNum t) = t"
| "json_text (JStr s) = json_string s"
| "json_text (JArr xs) = CHR ''['' # commas (map json_text xs) @ '']''"
| "json_text (JObj kvs) = CHR ''{'' # commas (map (\<lambda>kv. json_string (fst kv) @ CHR '':'' # json_text (snd kv)) kvs) @ ''}''"

section \<open>Reading the text back\<close>

text \<open>The text of a string is a prefix code, and so is the text of a value before a delimiter.\<close>

lemma hex_char_inj: "d < 16 \<Longrightarrow> d' < 16 \<Longrightarrow> hex_char d = hex_char d' \<Longrightarrow> d = d'"
proof -
  assume d: "d < 16" "d' < 16" and eq: "hex_char d = hex_char d'"
  have "of_char (hex_char d) = (of_char (hex_char d') :: nat)" using eq by simp
  then show "d = d'" using d by (auto simp: hex_char_def take_bit_eq_mod split: if_splits)
qed

lemma json_char_cases:
  "(json_char c = [c] \<and> c \<noteq> CHR 0x22 \<and> c \<noteq> CHR 0x5C) \<or> (\<exists>r. json_char c = CHR 0x5C # r)"
  by (auto simp: json_char_def Let_def)

lemma escape_code:
  assumes "json_char c = CHR 0x5C # r" "json_char c' = CHR 0x5C # r'" "r @ s = r' @ s'"
  shows "c = c' \<and> s = s'"
proof -
  have "(of_char c :: nat) = of_char c'" if "(of_char c :: nat) div 16 = of_char c' div 16" "(of_char c :: nat) mod 16 = of_char c' mod 16"
    using that by (metis div_mult_mod_eq)
  moreover have "(of_char c :: nat) < 32 \<Longrightarrow> (of_char c :: nat) div 16 < 16" by auto
  moreover have "(of_char c' :: nat) < 32 \<Longrightarrow> (of_char c' :: nat) div 16 < 16" by auto
  ultimately show ?thesis using assms hex_char_inj
    by (auto simp: json_char_def Let_def split: if_splits)
qed

lemma json_char_prefix:
  assumes "json_char c @ s = json_char c' @ s'"
  shows "c = c' \<and> s = s'"
  using json_char_cases [of c] json_char_cases [of c'] assms escape_code [of c _ c' _ s s'] by auto

lemma json_char_not_quote: "json_char c \<noteq> [] \<and> hd (json_char c) \<noteq> CHR 0x22"
  using json_char_cases [of c] by auto

lemma json_chars_prefix:
  "concat (map json_char s) @ CHR 0x22 # r = concat (map json_char s') @ CHR 0x22 # r' \<Longrightarrow> s = s' \<and> r = r'"
proof (induction s arbitrary: s')
  case Nil
  then show ?case using json_char_not_quote [of "hd s'"] by (cases s'; cases "json_char (hd s')") auto
next
  case (Cons c s)
  show ?case
  proof (cases s')
    case Nil
    then show ?thesis using Cons.prems json_char_not_quote [of c] by (cases "json_char c") auto
  next
    case (Cons c' t')
    then show ?thesis
      using Cons.prems Cons.IH [of t'] json_char_prefix [of c "concat (map json_char s) @ CHR 0x22 # r" c'] by auto
  qed
qed

lemma json_string_prefix: "json_string s @ r = json_string s' @ r' \<Longrightarrow> s = s' \<and> r = r'"
  using json_chars_prefix [of s r s' r'] by (simp add: json_string_def)

end
