(* ===== verification/Canonical_Errors.thy ===== *)
theory Canonical_Errors
  imports Json
begin

text \<open>
  The canonical errors of the connector, \<open>src/packages/taxonomy/src/errors\<close>: the catalogue of codes with what each
  promises about retrying (\<open>codes.ts\<close>), the Portuguese messages (\<open>messages.ts\<close>) and the error object with its envelope
  (\<open>baas-error.ts\<close>).  The stack trace and the \<open>cause\<close> of an error are not modelled.
\<close>

section \<open>codes.ts\<close>

datatype BaasErrorCategory =
    VALIDATION | AUTHENTICATION | AUTHORIZATION | NOT_FOUND | CONFLICT | BUSINESS_RULE | COMPLIANCE | PROVIDER
    | RATE_LIMIT | INTERNAL

datatype (plugins only: code size) BaasErrorCode =
    VALIDATION_ERROR | MISSING_REQUIRED_FIELD | INVALID_TAX_ID | INVALID_PIX_KEY | INVALID_AMOUNT
    | INVALID_EMV_PAYLOAD | INVALID_END_TO_END_ID | INVALID_CURSOR | CURRENCY_MISMATCH
    | MISSING_IDEMPOTENCY_KEY | AUTHENTICATION_FAILED | INVALID_API_KEY | API_KEY_REVOKED | SIGNATURE_INVALID
    | SIGNATURE_EXPIRED | NONCE_REPLAYED | SESSION_EXPIRED | MFA_REQUIRED | AUTHORIZATION_DENIED
    | INSUFFICIENT_SCOPE | ENVIRONMENT_MISMATCH | RESOURCE_NOT_FOUND | ACCOUNT_NOT_FOUND
    | TRANSACTION_NOT_FOUND | PIX_KEY_NOT_FOUND | CHARGE_NOT_FOUND | CONNECTION_NOT_FOUND | PROVIDER_NOT_FOUND
    | RESOURCE_ALREADY_EXISTS | PIX_KEY_ALREADY_EXISTS | IDEMPOTENCY_KEY_REUSED
    | IDEMPOTENT_REQUEST_IN_PROGRESS | INVALID_STATE_TRANSITION | CONCURRENT_MODIFICATION | INSUFFICIENT_FUNDS
    | ACCOUNT_NOT_ACTIVE | ACCOUNT_BLOCKED | LIMIT_EXCEEDED | OUTSIDE_OPERATING_HOURS | CHARGE_EXPIRED
    | CHARGE_ALREADY_PAID | REFUND_WINDOW_EXPIRED | REFUND_AMOUNT_EXCEEDS_ORIGINAL
    | TRANSACTION_NOT_REVERSIBLE | SELF_TRANSFER_NOT_ALLOWED | LEDGER_UNBALANCED | ONBOARDING_REQUIRED
    | ONBOARDING_PENDING | COMPLIANCE_REJECTED | SANCTIONS_BLOCK | DOCUMENT_REQUIRED | PROVIDER_UNAVAILABLE
    | PROVIDER_TIMEOUT | PROVIDER_RATE_LIMITED | PROVIDER_REJECTED | PROVIDER_INTERNAL_ERROR
    | PROVIDER_CONTRACT_VIOLATION | PROVIDER_CREDENTIALS_INVALID | PROVIDER_CIRCUIT_OPEN
    | PROVIDER_OUTCOME_UNKNOWN | CAPABILITY_NOT_SUPPORTED | CAPABILITY_CONSTRAINT_VIOLATED | RATE_LIMITED
    | INTERNAL_ERROR | NOT_IMPLEMENTED

text \<open>The members of the enumerations are strings.\<close>

primrec category_name :: "BaasErrorCategory \<Rightarrow> string" where
  "category_name BaasErrorCategory.VALIDATION = ''VALIDATION''"
| "category_name BaasErrorCategory.AUTHENTICATION = ''AUTHENTICATION''"
| "category_name BaasErrorCategory.AUTHORIZATION = ''AUTHORIZATION''"
| "category_name BaasErrorCategory.NOT_FOUND = ''NOT_FOUND''"
| "category_name BaasErrorCategory.CONFLICT = ''CONFLICT''"
| "category_name BaasErrorCategory.BUSINESS_RULE = ''BUSINESS_RULE''"
| "category_name BaasErrorCategory.COMPLIANCE = ''COMPLIANCE''"
| "category_name BaasErrorCategory.PROVIDER = ''PROVIDER''"
| "category_name BaasErrorCategory.RATE_LIMIT = ''RATE_LIMIT''"
| "category_name BaasErrorCategory.INTERNAL = ''INTERNAL''"

primrec code_name :: "BaasErrorCode \<Rightarrow> string" where
  "code_name VALIDATION_ERROR = ''VALIDATION_ERROR''"
| "code_name MISSING_REQUIRED_FIELD = ''MISSING_REQUIRED_FIELD''"
| "code_name INVALID_TAX_ID = ''INVALID_TAX_ID''"
| "code_name INVALID_PIX_KEY = ''INVALID_PIX_KEY''"
| "code_name INVALID_AMOUNT = ''INVALID_AMOUNT''"
| "code_name INVALID_EMV_PAYLOAD = ''INVALID_EMV_PAYLOAD''"
| "code_name INVALID_END_TO_END_ID = ''INVALID_END_TO_END_ID''"
| "code_name INVALID_CURSOR = ''INVALID_CURSOR''"
| "code_name CURRENCY_MISMATCH = ''CURRENCY_MISMATCH''"
| "code_name MISSING_IDEMPOTENCY_KEY = ''MISSING_IDEMPOTENCY_KEY''"
| "code_name AUTHENTICATION_FAILED = ''AUTHENTICATION_FAILED''"
| "code_name INVALID_API_KEY = ''INVALID_API_KEY''"
| "code_name API_KEY_REVOKED = ''API_KEY_REVOKED''"
| "code_name SIGNATURE_INVALID = ''SIGNATURE_INVALID''"
| "code_name SIGNATURE_EXPIRED = ''SIGNATURE_EXPIRED''"
| "code_name NONCE_REPLAYED = ''NONCE_REPLAYED''"
| "code_name SESSION_EXPIRED = ''SESSION_EXPIRED''"
| "code_name MFA_REQUIRED = ''MFA_REQUIRED''"
| "code_name AUTHORIZATION_DENIED = ''AUTHORIZATION_DENIED''"
| "code_name INSUFFICIENT_SCOPE = ''INSUFFICIENT_SCOPE''"
| "code_name ENVIRONMENT_MISMATCH = ''ENVIRONMENT_MISMATCH''"
| "code_name RESOURCE_NOT_FOUND = ''RESOURCE_NOT_FOUND''"
| "code_name ACCOUNT_NOT_FOUND = ''ACCOUNT_NOT_FOUND''"
| "code_name TRANSACTION_NOT_FOUND = ''TRANSACTION_NOT_FOUND''"
| "code_name PIX_KEY_NOT_FOUND = ''PIX_KEY_NOT_FOUND''"
| "code_name CHARGE_NOT_FOUND = ''CHARGE_NOT_FOUND''"
| "code_name CONNECTION_NOT_FOUND = ''CONNECTION_NOT_FOUND''"
| "code_name PROVIDER_NOT_FOUND = ''PROVIDER_NOT_FOUND''"
| "code_name RESOURCE_ALREADY_EXISTS = ''RESOURCE_ALREADY_EXISTS''"
| "code_name PIX_KEY_ALREADY_EXISTS = ''PIX_KEY_ALREADY_EXISTS''"
| "code_name IDEMPOTENCY_KEY_REUSED = ''IDEMPOTENCY_KEY_REUSED''"
| "code_name IDEMPOTENT_REQUEST_IN_PROGRESS = ''IDEMPOTENT_REQUEST_IN_PROGRESS''"
| "code_name INVALID_STATE_TRANSITION = ''INVALID_STATE_TRANSITION''"
| "code_name CONCURRENT_MODIFICATION = ''CONCURRENT_MODIFICATION''"
| "code_name INSUFFICIENT_FUNDS = ''INSUFFICIENT_FUNDS''"
| "code_name ACCOUNT_NOT_ACTIVE = ''ACCOUNT_NOT_ACTIVE''"
| "code_name ACCOUNT_BLOCKED = ''ACCOUNT_BLOCKED''"
| "code_name LIMIT_EXCEEDED = ''LIMIT_EXCEEDED''"
| "code_name OUTSIDE_OPERATING_HOURS = ''OUTSIDE_OPERATING_HOURS''"
| "code_name CHARGE_EXPIRED = ''CHARGE_EXPIRED''"
| "code_name CHARGE_ALREADY_PAID = ''CHARGE_ALREADY_PAID''"
| "code_name REFUND_WINDOW_EXPIRED = ''REFUND_WINDOW_EXPIRED''"
| "code_name REFUND_AMOUNT_EXCEEDS_ORIGINAL = ''REFUND_AMOUNT_EXCEEDS_ORIGINAL''"
| "code_name TRANSACTION_NOT_REVERSIBLE = ''TRANSACTION_NOT_REVERSIBLE''"
| "code_name SELF_TRANSFER_NOT_ALLOWED = ''SELF_TRANSFER_NOT_ALLOWED''"
| "code_name LEDGER_UNBALANCED = ''LEDGER_UNBALANCED''"
| "code_name ONBOARDING_REQUIRED = ''ONBOARDING_REQUIRED''"
| "code_name ONBOARDING_PENDING = ''ONBOARDING_PENDING''"
| "code_name COMPLIANCE_REJECTED = ''COMPLIANCE_REJECTED''"
| "code_name SANCTIONS_BLOCK = ''SANCTIONS_BLOCK''"
| "code_name DOCUMENT_REQUIRED = ''DOCUMENT_REQUIRED''"
| "code_name PROVIDER_UNAVAILABLE = ''PROVIDER_UNAVAILABLE''"
| "code_name PROVIDER_TIMEOUT = ''PROVIDER_TIMEOUT''"
| "code_name PROVIDER_RATE_LIMITED = ''PROVIDER_RATE_LIMITED''"
| "code_name PROVIDER_REJECTED = ''PROVIDER_REJECTED''"
| "code_name PROVIDER_INTERNAL_ERROR = ''PROVIDER_INTERNAL_ERROR''"
| "code_name PROVIDER_CONTRACT_VIOLATION = ''PROVIDER_CONTRACT_VIOLATION''"
| "code_name PROVIDER_CREDENTIALS_INVALID = ''PROVIDER_CREDENTIALS_INVALID''"
| "code_name PROVIDER_CIRCUIT_OPEN = ''PROVIDER_CIRCUIT_OPEN''"
| "code_name PROVIDER_OUTCOME_UNKNOWN = ''PROVIDER_OUTCOME_UNKNOWN''"
| "code_name CAPABILITY_NOT_SUPPORTED = ''CAPABILITY_NOT_SUPPORTED''"
| "code_name CAPABILITY_CONSTRAINT_VIOLATED = ''CAPABILITY_CONSTRAINT_VIOLATED''"
| "code_name RATE_LIMITED = ''RATE_LIMITED''"
| "code_name INTERNAL_ERROR = ''INTERNAL_ERROR''"
| "code_name NOT_IMPLEMENTED = ''NOT_IMPLEMENTED''"

record CodeMeta =
  cm_category :: BaasErrorCategory
  cm_httpStatus :: int
  cm_retryable :: bool
  cm_safeToRetry :: bool

definition meta :: "BaasErrorCategory \<Rightarrow> int \<Rightarrow> bool \<Rightarrow> bool \<Rightarrow> CodeMeta" where
  "meta category status retryable safe =
     \<lparr>cm_category = category, cm_httpStatus = status, cm_retryable = retryable, cm_safeToRetry = safe\<rparr>"

primrec ERROR_CODE_META :: "BaasErrorCode \<Rightarrow> CodeMeta" where
  "ERROR_CODE_META VALIDATION_ERROR = meta BaasErrorCategory.VALIDATION 422 False False"
| "ERROR_CODE_META MISSING_REQUIRED_FIELD = meta BaasErrorCategory.VALIDATION 422 False False"
| "ERROR_CODE_META INVALID_TAX_ID = meta BaasErrorCategory.VALIDATION 422 False False"
| "ERROR_CODE_META INVALID_PIX_KEY = meta BaasErrorCategory.VALIDATION 422 False False"
| "ERROR_CODE_META INVALID_AMOUNT = meta BaasErrorCategory.VALIDATION 422 False False"
| "ERROR_CODE_META INVALID_EMV_PAYLOAD = meta BaasErrorCategory.VALIDATION 422 False False"
| "ERROR_CODE_META INVALID_END_TO_END_ID = meta BaasErrorCategory.VALIDATION 422 False False"
| "ERROR_CODE_META INVALID_CURSOR = meta BaasErrorCategory.VALIDATION 400 False False"
| "ERROR_CODE_META CURRENCY_MISMATCH = meta BaasErrorCategory.VALIDATION 422 False False"
| "ERROR_CODE_META MISSING_IDEMPOTENCY_KEY = meta BaasErrorCategory.VALIDATION 400 False False"
| "ERROR_CODE_META AUTHENTICATION_FAILED = meta BaasErrorCategory.AUTHENTICATION 401 False False"
| "ERROR_CODE_META INVALID_API_KEY = meta BaasErrorCategory.AUTHENTICATION 401 False False"
| "ERROR_CODE_META API_KEY_REVOKED = meta BaasErrorCategory.AUTHENTICATION 401 False False"
| "ERROR_CODE_META SIGNATURE_INVALID = meta BaasErrorCategory.AUTHENTICATION 401 False False"
| "ERROR_CODE_META SIGNATURE_EXPIRED = meta BaasErrorCategory.AUTHENTICATION 401 False False"
| "ERROR_CODE_META NONCE_REPLAYED = meta BaasErrorCategory.AUTHENTICATION 401 False False"
| "ERROR_CODE_META SESSION_EXPIRED = meta BaasErrorCategory.AUTHENTICATION 401 False False"
| "ERROR_CODE_META MFA_REQUIRED = meta BaasErrorCategory.AUTHENTICATION 401 False False"
| "ERROR_CODE_META AUTHORIZATION_DENIED = meta BaasErrorCategory.AUTHORIZATION 403 False False"
| "ERROR_CODE_META INSUFFICIENT_SCOPE = meta BaasErrorCategory.AUTHORIZATION 403 False False"
| "ERROR_CODE_META ENVIRONMENT_MISMATCH = meta BaasErrorCategory.AUTHORIZATION 403 False False"
| "ERROR_CODE_META RESOURCE_NOT_FOUND = meta BaasErrorCategory.NOT_FOUND 404 False False"
| "ERROR_CODE_META ACCOUNT_NOT_FOUND = meta BaasErrorCategory.NOT_FOUND 404 False False"
| "ERROR_CODE_META TRANSACTION_NOT_FOUND = meta BaasErrorCategory.NOT_FOUND 404 False False"
| "ERROR_CODE_META PIX_KEY_NOT_FOUND = meta BaasErrorCategory.NOT_FOUND 404 False False"
| "ERROR_CODE_META CHARGE_NOT_FOUND = meta BaasErrorCategory.NOT_FOUND 404 False False"
| "ERROR_CODE_META CONNECTION_NOT_FOUND = meta BaasErrorCategory.NOT_FOUND 404 False False"
| "ERROR_CODE_META PROVIDER_NOT_FOUND = meta BaasErrorCategory.NOT_FOUND 404 False False"
| "ERROR_CODE_META RESOURCE_ALREADY_EXISTS = meta BaasErrorCategory.CONFLICT 409 False False"
| "ERROR_CODE_META PIX_KEY_ALREADY_EXISTS = meta BaasErrorCategory.CONFLICT 409 False False"
| "ERROR_CODE_META IDEMPOTENCY_KEY_REUSED = meta BaasErrorCategory.CONFLICT 422 False False"
| "ERROR_CODE_META IDEMPOTENT_REQUEST_IN_PROGRESS = meta BaasErrorCategory.CONFLICT 409 True True"
| "ERROR_CODE_META INVALID_STATE_TRANSITION = meta BaasErrorCategory.CONFLICT 409 False False"
| "ERROR_CODE_META CONCURRENT_MODIFICATION = meta BaasErrorCategory.CONFLICT 409 True True"
| "ERROR_CODE_META INSUFFICIENT_FUNDS = meta BaasErrorCategory.BUSINESS_RULE 422 False False"
| "ERROR_CODE_META ACCOUNT_NOT_ACTIVE = meta BaasErrorCategory.BUSINESS_RULE 422 False False"
| "ERROR_CODE_META ACCOUNT_BLOCKED = meta BaasErrorCategory.BUSINESS_RULE 422 False False"
| "ERROR_CODE_META LIMIT_EXCEEDED = meta BaasErrorCategory.BUSINESS_RULE 422 False False"
| "ERROR_CODE_META OUTSIDE_OPERATING_HOURS = meta BaasErrorCategory.BUSINESS_RULE 422 False False"
| "ERROR_CODE_META CHARGE_EXPIRED = meta BaasErrorCategory.BUSINESS_RULE 422 False False"
| "ERROR_CODE_META CHARGE_ALREADY_PAID = meta BaasErrorCategory.BUSINESS_RULE 422 False False"
| "ERROR_CODE_META REFUND_WINDOW_EXPIRED = meta BaasErrorCategory.BUSINESS_RULE 422 False False"
| "ERROR_CODE_META REFUND_AMOUNT_EXCEEDS_ORIGINAL = meta BaasErrorCategory.BUSINESS_RULE 422 False False"
| "ERROR_CODE_META TRANSACTION_NOT_REVERSIBLE = meta BaasErrorCategory.BUSINESS_RULE 422 False False"
| "ERROR_CODE_META SELF_TRANSFER_NOT_ALLOWED = meta BaasErrorCategory.BUSINESS_RULE 422 False False"
| "ERROR_CODE_META LEDGER_UNBALANCED = meta BaasErrorCategory.INTERNAL 500 False False"
| "ERROR_CODE_META ONBOARDING_REQUIRED = meta BaasErrorCategory.COMPLIANCE 422 False False"
| "ERROR_CODE_META ONBOARDING_PENDING = meta BaasErrorCategory.COMPLIANCE 422 False False"
| "ERROR_CODE_META COMPLIANCE_REJECTED = meta BaasErrorCategory.COMPLIANCE 422 False False"
| "ERROR_CODE_META SANCTIONS_BLOCK = meta BaasErrorCategory.COMPLIANCE 403 False False"
| "ERROR_CODE_META DOCUMENT_REQUIRED = meta BaasErrorCategory.COMPLIANCE 422 False False"
| "ERROR_CODE_META PROVIDER_UNAVAILABLE = meta BaasErrorCategory.PROVIDER 503 True True"
| "ERROR_CODE_META PROVIDER_INTERNAL_ERROR = meta BaasErrorCategory.PROVIDER 502 False False"
| "ERROR_CODE_META PROVIDER_TIMEOUT = meta BaasErrorCategory.PROVIDER 504 True False"
| "ERROR_CODE_META PROVIDER_RATE_LIMITED = meta BaasErrorCategory.PROVIDER 503 True True"
| "ERROR_CODE_META PROVIDER_REJECTED = meta BaasErrorCategory.PROVIDER 502 False False"
| "ERROR_CODE_META PROVIDER_CONTRACT_VIOLATION = meta BaasErrorCategory.PROVIDER 502 False False"
| "ERROR_CODE_META PROVIDER_CREDENTIALS_INVALID = meta BaasErrorCategory.PROVIDER 502 False False"
| "ERROR_CODE_META PROVIDER_CIRCUIT_OPEN = meta BaasErrorCategory.PROVIDER 503 True True"
| "ERROR_CODE_META PROVIDER_OUTCOME_UNKNOWN = meta BaasErrorCategory.PROVIDER 202 False False"
| "ERROR_CODE_META CAPABILITY_NOT_SUPPORTED = meta BaasErrorCategory.PROVIDER 501 False False"
| "ERROR_CODE_META CAPABILITY_CONSTRAINT_VIOLATED = meta BaasErrorCategory.VALIDATION 422 False False"
| "ERROR_CODE_META RATE_LIMITED = meta BaasErrorCategory.RATE_LIMIT 429 True True"
| "ERROR_CODE_META INTERNAL_ERROR = meta BaasErrorCategory.INTERNAL 500 True False"
| "ERROR_CODE_META NOT_IMPLEMENTED = meta BaasErrorCategory.INTERNAL 501 False False"

section \<open>messages.ts\<close>

primrec ERROR_MESSAGES_PT_BR :: "BaasErrorCode \<Rightarrow> string option" where
  "ERROR_MESSAGES_PT_BR VALIDATION_ERROR = Some ''Os dados enviados nao passaram na validacao.''"
| "ERROR_MESSAGES_PT_BR MISSING_REQUIRED_FIELD = Some ''Um campo obrigatorio nao foi informado.''"
| "ERROR_MESSAGES_PT_BR INVALID_TAX_ID = Some ''O CPF ou CNPJ informado nao e valido.''"
| "ERROR_MESSAGES_PT_BR INVALID_PIX_KEY = Some ''A chave Pix informada nao e valida.''"
| "ERROR_MESSAGES_PT_BR INVALID_AMOUNT = Some ''O valor informado nao e valido.''"
| "ERROR_MESSAGES_PT_BR INVALID_EMV_PAYLOAD = Some ''O codigo Pix copia e cola nao e valido.''"
| "ERROR_MESSAGES_PT_BR INVALID_END_TO_END_ID = Some ''O EndToEndId nao esta no formato do Banco Central.''"
| "ERROR_MESSAGES_PT_BR INVALID_CURSOR = Some ''O cursor de paginacao e invalido ou os filtros mudaram.''"
| "ERROR_MESSAGES_PT_BR CURRENCY_MISMATCH = Some ''As moedas envolvidas na operacao sao incompativeis.''"
| "ERROR_MESSAGES_PT_BR CONCURRENT_MODIFICATION = Some ''O recurso foi alterado por outra requisicao. Tente novamente.''"
| "ERROR_MESSAGES_PT_BR CHARGE_NOT_FOUND = Some ''Cobranca nao encontrada.''"
| "ERROR_MESSAGES_PT_BR CONNECTION_NOT_FOUND = Some ''Conexao de provedor nao encontrada.''"
| "ERROR_MESSAGES_PT_BR PROVIDER_NOT_FOUND = Some ''Provedor nao encontrado.''"
| "ERROR_MESSAGES_PT_BR PROVIDER_INTERNAL_ERROR = Some ''O provedor respondeu com erro interno. A operacao pode nao ter sido concluida.''"
| "ERROR_MESSAGES_PT_BR PROVIDER_CONTRACT_VIOLATION = Some ''A resposta do provedor nao esta no formato esperado.''"
| "ERROR_MESSAGES_PT_BR PROVIDER_CREDENTIALS_INVALID = Some ''As credenciais configuradas para este provedor sao invalidas.''"
| "ERROR_MESSAGES_PT_BR MISSING_IDEMPOTENCY_KEY = Some ''Esta operacao movimenta dinheiro e exige o cabecalho Idempotency-Key.''"
| "ERROR_MESSAGES_PT_BR AUTHENTICATION_FAILED = Some ''Falha na autenticacao.''"
| "ERROR_MESSAGES_PT_BR INVALID_API_KEY = Some ''A chave de API e invalida.''"
| "ERROR_MESSAGES_PT_BR API_KEY_REVOKED = Some ''A chave de API foi revogada.''"
| "ERROR_MESSAGES_PT_BR SIGNATURE_INVALID = Some ''A assinatura da requisicao nao confere.''"
| "ERROR_MESSAGES_PT_BR SIGNATURE_EXPIRED = Some ''A assinatura da requisicao expirou.''"
| "ERROR_MESSAGES_PT_BR NONCE_REPLAYED = Some ''Este nonce ja foi utilizado.''"
| "ERROR_MESSAGES_PT_BR SESSION_EXPIRED = Some ''Sua sessao expirou. Entre novamente.''"
| "ERROR_MESSAGES_PT_BR MFA_REQUIRED = Some ''Informe o codigo de verificacao em duas etapas.''"
| "ERROR_MESSAGES_PT_BR AUTHORIZATION_DENIED = Some ''Acesso negado para este recurso.''"
| "ERROR_MESSAGES_PT_BR INSUFFICIENT_SCOPE = Some ''A chave de API nao possui o escopo necessario.''"
| "ERROR_MESSAGES_PT_BR ENVIRONMENT_MISMATCH = Some ''A chave de API pertence a outro ambiente que o recurso solicitado.''"
| "ERROR_MESSAGES_PT_BR RESOURCE_NOT_FOUND = Some ''Recurso nao encontrado.''"
| "ERROR_MESSAGES_PT_BR ACCOUNT_NOT_FOUND = Some ''Conta nao encontrada.''"
| "ERROR_MESSAGES_PT_BR TRANSACTION_NOT_FOUND = Some ''Transacao nao encontrada.''"
| "ERROR_MESSAGES_PT_BR PIX_KEY_NOT_FOUND = Some ''Chave Pix nao encontrada no DICT.''"
| "ERROR_MESSAGES_PT_BR RESOURCE_ALREADY_EXISTS = Some ''Ja existe um recurso com este identificador.''"
| "ERROR_MESSAGES_PT_BR PIX_KEY_ALREADY_EXISTS = Some ''Esta chave Pix ja esta cadastrada.''"
| "ERROR_MESSAGES_PT_BR IDEMPOTENCY_KEY_REUSED = Some ''Esta Idempotency-Key ja foi usada com um corpo de requisicao diferente.''"
| "ERROR_MESSAGES_PT_BR IDEMPOTENT_REQUEST_IN_PROGRESS = Some ''Uma requisicao com esta Idempotency-Key ainda esta em processamento.''"
| "ERROR_MESSAGES_PT_BR INVALID_STATE_TRANSITION = Some ''A transicao de estado solicitada nao e permitida.''"
| "ERROR_MESSAGES_PT_BR INSUFFICIENT_FUNDS = Some ''Saldo insuficiente para a operacao.''"
| "ERROR_MESSAGES_PT_BR ACCOUNT_NOT_ACTIVE = Some ''A conta nao esta ativa.''"
| "ERROR_MESSAGES_PT_BR ACCOUNT_BLOCKED = Some ''A conta esta bloqueada.''"
| "ERROR_MESSAGES_PT_BR LIMIT_EXCEEDED = Some ''Limite de transacao excedido.''"
| "ERROR_MESSAGES_PT_BR OUTSIDE_OPERATING_HOURS = Some ''Operacao fora do horario permitido.''"
| "ERROR_MESSAGES_PT_BR CHARGE_EXPIRED = Some ''A cobranca expirou.''"
| "ERROR_MESSAGES_PT_BR CHARGE_ALREADY_PAID = Some ''A cobranca ja foi paga.''"
| "ERROR_MESSAGES_PT_BR REFUND_WINDOW_EXPIRED = Some ''A janela de 90 dias para devolucao Pix ja se encerrou.''"
| "ERROR_MESSAGES_PT_BR REFUND_AMOUNT_EXCEEDS_ORIGINAL = Some ''O valor da devolucao excede o valor da transacao original.''"
| "ERROR_MESSAGES_PT_BR TRANSACTION_NOT_REVERSIBLE = Some ''Esta transacao nao pode ser revertida.''"
| "ERROR_MESSAGES_PT_BR SELF_TRANSFER_NOT_ALLOWED = Some ''Nao e possivel transferir para a propria conta.''"
| "ERROR_MESSAGES_PT_BR ONBOARDING_REQUIRED = Some ''E necessario concluir o onboarding da conta.''"
| "ERROR_MESSAGES_PT_BR ONBOARDING_PENDING = Some ''O onboarding ainda esta em analise.''"
| "ERROR_MESSAGES_PT_BR COMPLIANCE_REJECTED = Some ''A analise de compliance recusou a solicitacao.''"
| "ERROR_MESSAGES_PT_BR SANCTIONS_BLOCK = Some ''Operacao bloqueada por restricao de listas de sancoes.''"
| "ERROR_MESSAGES_PT_BR DOCUMENT_REQUIRED = Some ''E necessario enviar documentos adicionais.''"
| "ERROR_MESSAGES_PT_BR PROVIDER_UNAVAILABLE = Some ''O provedor esta indisponivel no momento.''"
| "ERROR_MESSAGES_PT_BR PROVIDER_TIMEOUT = Some ''O provedor nao respondeu no tempo esperado.''"
| "ERROR_MESSAGES_PT_BR PROVIDER_RATE_LIMITED = Some ''Limite de requisicoes do provedor atingido.''"
| "ERROR_MESSAGES_PT_BR PROVIDER_REJECTED = Some ''O provedor recusou a operacao.''"
| "ERROR_MESSAGES_PT_BR PROVIDER_CIRCUIT_OPEN = Some ''As chamadas a este provedor estao temporariamente suspensas por excesso de falhas.''"
| "ERROR_MESSAGES_PT_BR PROVIDER_OUTCOME_UNKNOWN = Some ''A operacao foi enviada mas o desfecho ainda e desconhecido; sera resolvida por conciliacao.''"
| "ERROR_MESSAGES_PT_BR CAPABILITY_NOT_SUPPORTED = Some ''O provedor configurado nao oferece esta funcionalidade.''"
| "ERROR_MESSAGES_PT_BR CAPABILITY_CONSTRAINT_VIOLATED = Some ''A operacao viola uma restricao declarada pelo provedor.''"
| "ERROR_MESSAGES_PT_BR RATE_LIMITED = Some ''Limite de requisicoes atingido. Tente novamente em instantes.''"
| "ERROR_MESSAGES_PT_BR INTERNAL_ERROR = Some ''Erro interno. A equipe foi notificada.''"
| "ERROR_MESSAGES_PT_BR NOT_IMPLEMENTED = Some ''Funcionalidade ainda nao implementada.''"
| "ERROR_MESSAGES_PT_BR LEDGER_UNBALANCED = None"

section \<open>baas-error.ts\<close>

definition ERROR_DOCS_BASE_URL :: string where "ERROR_DOCS_BASE_URL = ''https://docs.baas-connector.dev/errors''"

record ErrorDetail =
  ed_field :: "string option"
  ed_code :: "string option"
  ed_message :: string

record ProviderErrorContext =
  pe_slug :: string
  pe_code :: "string option"
  pe_message :: "string option"
  pe_httpStatus :: "int option"
  pe_requestId :: "string option"

record BaasErrorInit =
  in_message :: "string option"
  in_details :: "ErrorDetail list option"
  in_provider :: "ProviderErrorContext option"
  in_requestId :: "string option"
  in_retryable :: "bool option"
  in_safeToRetry :: "bool option"
  in_retryAfterSeconds :: "int option"
  in_meta :: "(string \<times> Json) list option"

definition no_init :: BaasErrorInit where
  "no_init = \<lparr>in_message = None, in_details = None, in_provider = None, in_requestId = None, in_retryable = None,
     in_safeToRetry = None, in_retryAfterSeconds = None, in_meta = None\<rparr>"

text \<open>The class of the object, which \<open>instanceof\<close> reads.\<close>

datatype ErrorClass = PlainError | CapabilityNotSupportedError | ProviderOutcomeUnknownError | TransitionError

record BaasError =
  be_class :: ErrorClass
  be_code :: BaasErrorCode
  be_category :: BaasErrorCategory
  be_httpStatus :: int
  be_message :: string
  be_retryable :: bool
  be_safeToRetry :: bool
  be_retryAfterSeconds :: "int option"
  be_details :: "ErrorDetail list option"
  be_provider :: "ProviderErrorContext option"
  be_requestId :: "string option"
  be_meta :: "(string \<times> Json) list option"

definition or_default :: "'a option \<Rightarrow> 'a \<Rightarrow> 'a" where
  "or_default v d = (case v of Some x \<Rightarrow> x | None \<Rightarrow> d)"

text \<open>An empty \<open>requestId\<close> is falsy.\<close>

definition nonempty :: "string option \<Rightarrow> string option" where
  "nonempty v = (case v of Some (c # s) \<Rightarrow> Some (c # s) | _ \<Rightarrow> None)"

definition new_BaasError :: "BaasErrorCode \<Rightarrow> BaasErrorInit \<Rightarrow> BaasError" where
  "new_BaasError c i =
     (let info = ERROR_CODE_META c in
      \<lparr>be_class = PlainError, be_code = c, be_category = cm_category info, be_httpStatus = cm_httpStatus info,
       be_message = or_default (in_message i) (or_default (ERROR_MESSAGES_PT_BR c) (code_name c)),
       be_retryable = or_default (in_retryable i) (cm_retryable info),
       be_safeToRetry = or_default (in_safeToRetry i) (cm_safeToRetry info),
       be_retryAfterSeconds = in_retryAfterSeconds i, be_details = in_details i, be_provider = in_provider i,
       be_requestId = nonempty (in_requestId i), be_meta = in_meta i\<rparr>)"

definition docsUrl :: "BaasError \<Rightarrow> string" where
  "docsUrl e = ERROR_DOCS_BASE_URL @ ''/'' @ code_name (be_code e)"

definition messagePtBr :: "BaasError \<Rightarrow> string" where
  "messagePtBr e = or_default (ERROR_MESSAGES_PT_BR (be_code e)) (be_message e)"

definition detail_json :: "ErrorDetail \<Rightarrow> Json" where
  "detail_json d = JObj ((case ed_field d of Some f \<Rightarrow> [(''field'', JStr f)] | None \<Rightarrow> []) @
     (case ed_code d of Some c \<Rightarrow> [(''code'', JStr c)] | None \<Rightarrow> []) @ [(''message'', JStr (ed_message d))])"

definition optional_field :: "string \<Rightarrow> string option \<Rightarrow> (string \<times> Json) list" where
  "optional_field k v = (case nonempty v of Some s \<Rightarrow> [(k, JStr s)] | None \<Rightarrow> [])"

text \<open>The envelope; the message of the provider only goes out when asked for.\<close>

definition error_toJSON :: "bool \<Rightarrow> BaasError \<Rightarrow> Json" where
  "error_toJSON includeProviderMessage e =
     JObj [(''error'', JObj (
       [(''code'', JStr (code_name (be_code e))), (''category'', JStr (category_name (be_category e))),
        (''message'', JStr (be_message e)), (''message_ptbr'', JStr (messagePtBr e)),
        (''retryable'', JBool (be_retryable e)), (''docs_url'', JStr (docsUrl e))] @
       (case be_details e of Some (d # ds) \<Rightarrow> [(''details'', JArr (map detail_json (d # ds)))] | _ \<Rightarrow> []) @
       optional_field ''request_id'' (be_requestId e) @
       (case be_provider e of None \<Rightarrow> []
        | Some p \<Rightarrow> [(''provider'', JObj ([(''slug'', JStr (pe_slug p))] @ optional_field ''code'' (pe_code p) @
            (if includeProviderMessage then optional_field ''message'' (pe_message p) else []) @
            optional_field ''request_id'' (pe_requestId p)))])))]"

definition capability_error :: "string \<Rightarrow> string \<Rightarrow> string option \<Rightarrow> BaasError" where
  "capability_error slug capability note =
     (new_BaasError CAPABILITY_NOT_SUPPORTED (no_init\<lparr>
        in_message := Some (''O provedor '' @ CHR 0x27 # slug @ CHR 0x27 # '' nao suporta a capacidade '' @ CHR 0x27 # capability @
           CHR 0x27 # ''.'' @ (case nonempty note of Some n \<Rightarrow> '' '' @ n | None \<Rightarrow> [])),
        in_meta := Some ([(''provider'', JStr slug), (''capability'', JStr capability)] @ optional_field ''note'' note)\<rparr>))
       \<lparr>be_class := CapabilityNotSupportedError\<rparr>"

text \<open>An object with later properties on top of earlier ones.\<close>

definition spread :: "(string \<times> Json) list option \<Rightarrow> (string \<times> Json) list \<Rightarrow> (string \<times> Json) list" where
  "spread b extra = foldl (\<lambda>m (k, v). map_set k v m) (or_default b []) extra"

definition outcome_unknown_error :: "string \<Rightarrow> string \<Rightarrow> BaasErrorInit \<Rightarrow> BaasError" where
  "outcome_unknown_error slug operation i =
     (new_BaasError PROVIDER_OUTCOME_UNKNOWN (i\<lparr>in_safeToRetry := Some False, in_retryable := Some False,
        in_meta := Some (spread (in_meta i) [(''provider'', JStr slug), (''operationId'', JStr operation)])\<rparr>))
       \<lparr>be_class := ProviderOutcomeUnknownError\<rparr>"

definition transition_error :: "string \<Rightarrow> string \<Rightarrow> string \<Rightarrow> BaasError" where
  "transition_error entity from to =
     (new_BaasError INVALID_STATE_TRANSITION (no_init\<lparr>
        in_message := Some (''Transicao invalida em '' @ entity @ '': '' @ from @ '' -> '' @ to),
        in_meta := Some [(''entity'', JStr entity), (''from'', JStr from), (''to'', JStr to)]\<rparr>))\<lparr>be_class := TransitionError\<rparr>"

lemma new_BaasError_fields [simp]:
  "be_class (new_BaasError c i) = PlainError" "be_code (new_BaasError c i) = c"
  "be_retryable (new_BaasError c i) = or_default (in_retryable i) (cm_retryable (ERROR_CODE_META c))"
  "be_safeToRetry (new_BaasError c i) = or_default (in_safeToRetry i) (cm_safeToRetry (ERROR_CODE_META c))"
  by (simp_all add: new_BaasError_def Let_def)

lemma outcome_unknown_fields [simp]:
  "be_class (outcome_unknown_error s p i) = ProviderOutcomeUnknownError"
  "be_code (outcome_unknown_error s p i) = PROVIDER_OUTCOME_UNKNOWN"
  "\<not> be_retryable (outcome_unknown_error s p i)" "\<not> be_safeToRetry (outcome_unknown_error s p i)"
  by (simp_all add: outcome_unknown_error_def or_default_def)

end
