(* ===== verification/Idempotency.thy ===== *)
theory Idempotency
  imports Canonical_Errors
begin

text \<open>
  Idempotency of the API: the records of \<open>src/apps/api/src/idempotency/idempotency.types.ts\<close>, their in-memory repository
  \<open>src/apps/api/src/persistence/memory/idempotency.repository.ts\<close> and the interceptor \<open>idempotency.interceptor.ts\<close>, with
  the fingerprint of a request.

  The decorator's options and the names of the controller and of its method come with the request; whether a request is
  exempt is the absence of options.  \<open>localeCompare\<close> and SHA-256 are parameters.  \<open>begin_request\<close> runs the interceptor up to
  the handler, \<open>finish_request\<close> from the handler's outcome on: between the two other requests run.  From the check of a
  record to the theft of its lease there is no point at which another request could, so each half is one step.
\<close>

section \<open>idempotency.types.ts\<close>

datatype IdempotencyState = IN_FLIGHT | COMPLETED | FAILED

record IdempotencyRecord =
  ir_id :: ident
  ir_environment :: Environment
  ir_apiKeyId :: ident
  ir_endpointKey :: string
  ir_key :: string
  ir_requestFingerprint :: string
  ir_state :: IdempotencyState
  ir_operationId :: ident
  ir_responseStatus :: "int option"
  ir_responseBody :: "Json option"
  ir_errorCode :: "BaasErrorCode option"
  ir_lockedBy :: "string option"
  ir_leaseExpiresAt :: "instant option"
  ir_createdAt :: instant
  ir_completedAt :: "instant option"
  ir_expiresAt :: instant

record ClaimResult =
  cl_claimed :: bool
  cl_record :: IdempotencyRecord
  cl_stolen :: bool

datatype OperationClass =
    pix_out | pix_refund | accounts_create | onboarding_submit | pix_keys_create | pix_charge_create | default_class

fun IDEMPOTENCY_TTL_SECONDS :: "OperationClass \<Rightarrow> int" where
  "IDEMPOTENCY_TTL_SECONDS pix_out = 7 * 86400"
| "IDEMPOTENCY_TTL_SECONDS pix_refund = 7 * 86400"
| "IDEMPOTENCY_TTL_SECONDS accounts_create = 7 * 86400"
| "IDEMPOTENCY_TTL_SECONDS onboarding_submit = 72 * 3600"
| "IDEMPOTENCY_TTL_SECONDS pix_keys_create = 24 * 3600"
| "IDEMPOTENCY_TTL_SECONDS pix_charge_create = 24 * 3600"
| "IDEMPOTENCY_TTL_SECONDS default_class = 24 * 3600"

definition DEFAULT_LEASE_SECONDS :: int where "DEFAULT_LEASE_SECONDS = 90"

definition IDEMPOTENCY_REQUIRED_CLASSES :: "OperationClass list" where
  "IDEMPOTENCY_REQUIRED_CLASSES = [pix_out, pix_refund, accounts_create, onboarding_submit]"

section \<open>The in-memory repository\<close>

type_synonym idem_index = "Environment \<times> string \<times> string"

record IdemRepo =
  im_records :: "(idem_index, IdempotencyRecord) jsmap"
  im_released :: "ident list"

definition lease_until :: "instant \<Rightarrow> int \<Rightarrow> instant" where
  "lease_until now seconds = now + seconds * 1000"

definition new_record ::
  "string \<Rightarrow> instant \<Rightarrow> ident \<Rightarrow> ident \<Rightarrow> Environment \<Rightarrow> ident \<Rightarrow> string \<Rightarrow> string \<Rightarrow> string \<Rightarrow> int \<Rightarrow> int \<Rightarrow> IdempotencyRecord" where
  "new_record pod now newId newOperation env apiKey endpoint key fingerprint leaseSeconds ttlSeconds =
     \<lparr>ir_id = newId, ir_environment = env, ir_apiKeyId = apiKey, ir_endpointKey = endpoint, ir_key = key,
      ir_requestFingerprint = fingerprint, ir_state = IN_FLIGHT, ir_operationId = newOperation,
      ir_responseStatus = None, ir_responseBody = None, ir_errorCode = None, ir_lockedBy = Some pod,
      ir_leaseExpiresAt = Some (lease_until now leaseSeconds), ir_createdAt = now, ir_completedAt = None,
      ir_expiresAt = lease_until now ttlSeconds\<rparr>"

definition idem_claim ::
  "string \<Rightarrow> instant \<Rightarrow> ident \<Rightarrow> ident \<Rightarrow> Environment \<Rightarrow> ident \<Rightarrow> string \<Rightarrow> string \<Rightarrow> string \<Rightarrow> int \<Rightarrow> int \<Rightarrow> IdemRepo \<Rightarrow>
   ClaimResult \<times> IdemRepo" where
  "idem_claim pod now newId newOperation env apiKey endpoint key fingerprint leaseSeconds ttlSeconds r =
     (case map_get (im_records r) (env, endpoint, key) of
        Some existing \<Rightarrow> (\<lparr>cl_claimed = False, cl_record = existing, cl_stolen = False\<rparr>, r)
      | None \<Rightarrow>
          (let rec = new_record pod now newId newOperation env apiKey endpoint key fingerprint leaseSeconds ttlSeconds
           in (\<lparr>cl_claimed = True, cl_record = rec, cl_stolen = False\<rparr>,
               r\<lparr>im_records := map_set (env, endpoint, key) rec (im_records r)\<rparr>)))"

definition idem_find :: "Environment \<Rightarrow> string \<Rightarrow> string \<Rightarrow> IdemRepo \<Rightarrow> IdempotencyRecord option" where
  "idem_find env endpoint key r = map_get (im_records r) (env, endpoint, key)"

definition lease_alive :: "instant \<Rightarrow> IdempotencyRecord \<Rightarrow> bool" where
  "lease_alive now rec = (case ir_leaseExpiresAt rec of Some t \<Rightarrow> t > now | None \<Rightarrow> False)"

text \<open>The first record with the id decides.\<close>

fun steal_in ::
  "string \<Rightarrow> instant \<Rightarrow> ident \<Rightarrow> int \<Rightarrow> (idem_index \<times> IdempotencyRecord) list \<Rightarrow>
   IdempotencyRecord option \<times> (idem_index \<times> IdempotencyRecord) list" where
  "steal_in pod now i leaseSeconds [] = (None, [])"
| "steal_in pod now i leaseSeconds ((x, rec) # rest) =
     (if ir_id rec \<noteq> i then (case steal_in pod now i leaseSeconds rest of (res, rest') \<Rightarrow> (res, (x, rec) # rest'))
      else if lease_alive now rec then (None, (x, rec) # rest)
      else (let rec' = rec\<lparr>ir_leaseExpiresAt := Some (lease_until now leaseSeconds), ir_lockedBy := Some pod\<rparr>
            in (Some rec', (x, rec') # rest)))"

definition stealLease :: "string \<Rightarrow> instant \<Rightarrow> ident \<Rightarrow> int \<Rightarrow> IdemRepo \<Rightarrow> IdempotencyRecord option \<times> IdemRepo" where
  "stealLease pod now i leaseSeconds r =
     (case steal_in pod now i leaseSeconds (im_records r) of (res, rs) \<Rightarrow> (res, r\<lparr>im_records := rs\<rparr>))"

definition update_records :: "ident \<Rightarrow> (IdempotencyRecord \<Rightarrow> IdempotencyRecord) \<Rightarrow> IdemRepo \<Rightarrow> IdemRepo" where
  "update_records i f r = r\<lparr>im_records := map (\<lambda>(x, rec). (x, if ir_id rec = i then f rec else rec)) (im_records r)\<rparr>"

definition renewLease :: "instant \<Rightarrow> ident \<Rightarrow> int \<Rightarrow> IdemRepo \<Rightarrow> IdemRepo" where
  "renewLease now i leaseSeconds =
     update_records i (\<lambda>rec. rec\<lparr>ir_leaseExpiresAt := Some (lease_until now leaseSeconds)\<rparr>)"

definition idem_complete ::
  "instant \<Rightarrow> ident \<Rightarrow> int \<Rightarrow> Json option \<Rightarrow> IdempotencyState \<Rightarrow> BaasErrorCode option \<Rightarrow> IdemRepo \<Rightarrow> IdemRepo" where
  "idem_complete now i st body state errorCode =
     update_records i (\<lambda>rec. rec\<lparr>ir_state := state, ir_responseStatus := Some st, ir_responseBody := body,
       ir_errorCode := errorCode, ir_completedAt := Some now, ir_leaseExpiresAt := None\<rparr>)"

definition idem_release :: "ident \<Rightarrow> IdemRepo \<Rightarrow> IdemRepo" where
  "idem_release i r = \<lparr>im_records = filter (\<lambda>(x, rec). ir_id rec \<noteq> i) (im_records r), im_released = im_released r @ [i]\<rparr>"

section \<open>The fingerprint of a request\<close>

function canonicalJson :: "(string \<Rightarrow> string \<Rightarrow> int) \<Rightarrow> Json \<Rightarrow> string" where
  "canonicalJson lc (JArr xs) = CHR ''['' # commas (map (canonicalJson lc) xs) @ '']''"
| "canonicalJson lc (JObj kvs) =
     CHR ''{'' # commas (map (\<lambda>kv. json_string (fst kv) @ CHR '':'' # canonicalJson lc (snd kv))
       (js_sort (\<lambda>a b. lc (fst a) (fst b)) kvs)) @ ''}''"
| "canonicalJson lc JNull = json_text JNull"
| "canonicalJson lc (JBool b) = json_text (JBool b)"
| "canonicalJson lc (JNum t) = json_text (JNum t)"
| "canonicalJson lc (JStr s) = json_text (JStr s)"
  by pat_completeness auto
termination
  by (relation "measure (\<lambda>(lc, j). size j)") (auto simp: less_Suc_eq_le intro!: size_list_estimation' trans_le_add1)

record IdemRequest =
  rq_headerKey :: "string option"
  rq_class :: OperationClass
  rq_endpoint :: string
  rq_apiKey :: "(ident \<times> Environment) option"
  rq_body :: "Json option"
  rq_params :: "(string \<times> Json) list option"
  rq_connectionId :: "Json option"

definition request_body :: "IdemRequest \<Rightarrow> Json" where
  "request_body q = (case rq_body q of Some b \<Rightarrow> b | None \<Rightarrow> JNull)"

definition request_params :: "IdemRequest \<Rightarrow> Json" where
  "request_params q = JObj (case rq_params q of Some ps \<Rightarrow> ps | None \<Rightarrow> [])"

definition request_connection :: "IdemRequest \<Rightarrow> Json" where
  "request_connection q = (case rq_connectionId q of Some c \<Rightarrow> c | None \<Rightarrow> JNull)"

definition fingerprint_payload :: "IdemRequest \<Rightarrow> Json" where
  "fingerprint_payload q =
     JObj [(''body'', request_body q), (''params'', request_params q), (''connectionId'', request_connection q)]"

definition fingerprintRequest :: "(string \<Rightarrow> string \<Rightarrow> int) \<Rightarrow> (string \<Rightarrow> string) \<Rightarrow> IdemRequest \<Rightarrow> string" where
  "fingerprintRequest lc sha256 q = sha256 (canonicalJson lc (fingerprint_payload q))"

section \<open>The interceptor\<close>

definition key_char :: "char \<Rightarrow> bool" where
  "key_char c \<longleftrightarrow> (let n = of_char c :: nat in (65 \<le> n \<and> n \<le> 90) \<or> (97 \<le> n \<and> n \<le> 122) \<or> is_digit c \<or> c \<in> set ''_-:.'')"

definition key_format :: "string \<Rightarrow> bool" where
  "key_format key \<longleftrightarrow> 8 \<le> length key \<and> length key \<le> 255 \<and> list_all key_char key"

definition message_error :: "BaasErrorCode \<Rightarrow> string \<Rightarrow> BaasError" where
  "message_error c message = new_BaasError c (no_init\<lparr>in_message := Some message\<rparr>)"

definition missing_key_error :: BaasError where
  "missing_key_error = message_error MISSING_IDEMPOTENCY_KEY
     (''Esta operacao movimenta dinheiro e exige o cabecalho Idempotency-Key. '' @
      ''Use o mesmo valor ao repetir a requisicao.'')"

definition key_format_error :: BaasError where
  "key_format_error = new_BaasError VALIDATION_ERROR (no_init\<lparr>in_details := Some [
     \<lparr>ed_field = Some ''Idempotency-Key'', ed_code = None,
      ed_message = ''Use de 8 a 255 caracteres, apenas letras, digitos e _-:.''\<rparr>]\<rparr>)"

definition key_reused_error :: "string \<Rightarrow> BaasError" where
  "key_reused_error endpoint = new_BaasError IDEMPOTENCY_KEY_REUSED (no_init\<lparr>in_message := Some
     (''Esta Idempotency-Key ja foi usada com um corpo de requisicao diferente. '' @
      ''Use uma chave nova para uma operacao diferente.''), in_meta := Some [(''endpoint'', JStr endpoint)]\<rparr>)"

definition in_progress_error :: BaasError where
  "in_progress_error = new_BaasError IDEMPOTENT_REQUEST_IN_PROGRESS (no_init\<lparr>in_retryAfterSeconds := Some 2,
     in_message := Some ''Uma requisicao com esta Idempotency-Key ainda esta em processamento.''\<rparr>)"

definition lost_race_error :: BaasError where
  "lost_race_error = new_BaasError IDEMPOTENT_REQUEST_IN_PROGRESS (no_init\<lparr>in_retryAfterSeconds := Some 2\<rparr>)"

text \<open>What the interceptor leaves for the handler: the record and the operation, and whether to enquire first.\<close>

record Execution =
  ex_index :: idem_index
  ex_record :: ident
  ex_operation :: ident
  ex_reconcile :: bool

type_synonym headers = "(string \<times> string) list"

datatype Interception =
    Unguarded
  | Rejected BaasError
  | Replayed headers int "Json option"
  | Execute headers Execution

definition resolveConflict ::
  "string \<Rightarrow> instant \<Rightarrow> idem_index \<Rightarrow> IdempotencyRecord \<Rightarrow> string \<Rightarrow> string \<Rightarrow> IdemRepo \<Rightarrow> Interception \<times> IdemRepo" where
  "resolveConflict pod now x rec fingerprint endpoint r =
     (if ir_requestFingerprint rec \<noteq> fingerprint then (Rejected (key_reused_error endpoint), r)
      else if ir_state rec = COMPLETED \<or> ir_state rec = FAILED then
        (Replayed [(''Idempotency-Replayed'', ''true'')] (case ir_responseStatus rec of Some s \<Rightarrow> s | None \<Rightarrow> 200)
           (ir_responseBody rec), r)
      else if lease_alive now rec then (Rejected in_progress_error, r)
      else (case stealLease pod now (ir_id rec) DEFAULT_LEASE_SECONDS r of
              (None, r') \<Rightarrow> (Rejected lost_race_error, r')
            | (Some stolen, r') \<Rightarrow>
                (Execute [(''X-Baas-Operation-Id'', ir_operationId stolen)]
                   \<lparr>ex_index = x, ex_record = ir_id stolen, ex_operation = ir_operationId stolen, ex_reconcile = True\<rparr>, r')))"

definition begin_request ::
  "(string \<Rightarrow> string \<Rightarrow> int) \<Rightarrow> (string \<Rightarrow> string) \<Rightarrow> string \<Rightarrow> instant \<Rightarrow> ident \<Rightarrow> ident \<Rightarrow> IdemRequest \<Rightarrow> IdemRepo \<Rightarrow>
   Interception \<times> IdemRepo" where
  "begin_request lc sha256 pod now newId newOperation q r =
     (let key = js_trim (case rq_headerKey q of Some h \<Rightarrow> h | None \<Rightarrow> []);
          required = rq_class q \<in> set IDEMPOTENCY_REQUIRED_CLASSES in
      if key = [] then (if \<not> required then (Unguarded, r) else (Rejected missing_key_error, r))
      else if \<not> key_format key then (Rejected key_format_error, r)
      else (case rq_apiKey q of
              None \<Rightarrow> (Rejected (new_BaasError AUTHENTICATION_FAILED no_init), r)
            | Some (apiKey, env) \<Rightarrow>
                (let fingerprint = fingerprintRequest lc sha256 q;
                     x = (env, rq_endpoint q, key) in
                 (case idem_claim pod now newId newOperation env apiKey (rq_endpoint q) key fingerprint
                         DEFAULT_LEASE_SECONDS (IDEMPOTENCY_TTL_SECONDS (rq_class q)) r of
                    (claim, r') \<Rightarrow>
                      if \<not> cl_claimed claim then
                        resolveConflict pod now x (cl_record claim) fingerprint (rq_endpoint q) r'
                      else
                        (Execute [(''Idempotency-Key'', key), (''X-Baas-Operation-Id'', ir_operationId (cl_record claim))]
                           \<lparr>ex_index = x, ex_record = ir_id (cl_record claim),
                            ex_operation = ir_operationId (cl_record claim), ex_reconcile = False\<rparr>, r')))))"

definition isDeterministic :: "BaasError \<Rightarrow> bool" where
  "isDeterministic e \<longleftrightarrow> be_code e \<in> set [VALIDATION_ERROR, INVALID_TAX_ID, INVALID_PIX_KEY, INVALID_AMOUNT,
     INSUFFICIENT_FUNDS, ACCOUNT_NOT_ACTIVE, ACCOUNT_BLOCKED, CAPABILITY_NOT_SUPPORTED, CAPABILITY_CONSTRAINT_VIOLATED,
     REFUND_WINDOW_EXPIRED, REFUND_AMOUNT_EXCEEDS_ORIGINAL, CHARGE_EXPIRED, INSUFFICIENT_SCOPE]"

text \<open>How a handler ends: with the status its response has by then and a body, or with an exception.\<close>

datatype HandlerOutcome = Returned "int option" "Json option" | Threw BaasError | ThrewOther

definition onFailure :: "instant \<Rightarrow> ident \<Rightarrow> BaasError option \<Rightarrow> IdemRepo \<Rightarrow> IdemRepo" where
  "onFailure now i failure r =
     (case failure of
        None \<Rightarrow> idem_release i r
      | Some e \<Rightarrow>
          if be_class e = ProviderOutcomeUnknownError then renewLease now i DEFAULT_LEASE_SECONDS r
          else if isDeterministic e then
            idem_complete now i (be_httpStatus e) (Some (error_toJSON False e)) FAILED (Some (be_code e)) r
          else idem_release i r)"

definition finish_request :: "instant \<Rightarrow> Execution \<Rightarrow> HandlerOutcome \<Rightarrow> IdemRepo \<Rightarrow> IdemRepo" where
  "finish_request now ex res r =
     (case res of
        Returned st body \<Rightarrow>
          idem_complete now (ex_record ex) (case st of Some s \<Rightarrow> s | None \<Rightarrow> 200) body COMPLETED None r
      | Threw e \<Rightarrow> onFailure now (ex_record ex) (Some e) r
      | ThrewOther \<Rightarrow> onFailure now (ex_record ex) None r)"

end
