(* ===== verification/Json_Canonical.thy ===== *)
theory Json_Canonical
  imports Idempotency
begin

text \<open>
  What the canonical text of a JSON value says of it: two values have the same canonical text exactly when they differ in
  nothing but the order of keys.  The text of a value followed by a delimiter determines the value, so nothing of a request
  can hide in another part of its fingerprint.
\<close>

section \<open>The text of a value determines it\<close>

definition stops :: "string \<Rightarrow> bool" where
  "stops r \<longleftrightarrow> r = [] \<or> hd r \<in> {CHR '','', CHR '']'', CHR ''}''}"

lemma stops_simps [simp]:
  "stops []" "stops (CHR '','' # r)" "stops (CHR '']'' # r)" "stops (CHR ''}'' # r)"
  by (simp_all add: stops_def)

text \<open>A printer whose output, up to a delimiter, can be read back.\<close>

definition readable :: "('a \<Rightarrow> string) \<Rightarrow> 'a \<Rightarrow> 'a \<Rightarrow> bool" where
  "readable f x y \<longleftrightarrow> (\<forall>r r'. stops r \<longrightarrow> stops r' \<longrightarrow> f x @ r = f y @ r' \<longrightarrow> x = y \<and> r = r')"

lemma readableD: "readable f x y \<Longrightarrow> stops r \<Longrightarrow> stops r' \<Longrightarrow> f x @ r = f y @ r' \<Longrightarrow> x = y \<and> r = r'"
  by (auto simp: readable_def)

lemma commas_map_cons: "commas (f x # map f xs) = f x @ (case xs of [] \<Rightarrow> [] | _ \<Rightarrow> CHR '','' # commas (map f xs))"
  by (cases xs) auto

definition opens :: "string \<Rightarrow> bool" where
  "opens s \<longleftrightarrow> s \<noteq> [] \<and> hd s \<notin> {CHR '','', CHR '']'', CHR ''}''}"

lemma commas_read:
  assumes "\<And>x y. x \<in> set xs \<Longrightarrow> y \<in> set ys \<Longrightarrow> readable f x y"
    and "\<And>x. x \<in> set xs \<union> set ys \<Longrightarrow> opens (f x)"
    and "c = CHR '']'' \<or> c = CHR ''}''"
    and "commas (map f xs) @ c # r = commas (map f ys) @ c # r'"
  shows "xs = ys \<and> r = r'"
  using assms(1,2,4)
proof (induction xs arbitrary: ys)
  case Nil
  show ?case
  proof (cases ys)
    case (Cons y ys')
    then have "opens (f y)" "c # r = f y @ (case ys' of [] \<Rightarrow> [] | _ \<Rightarrow> CHR '','' # commas (map f ys')) @ c # r'"
      using Nil commas_map_cons [of f y ys'] by auto
    then show ?thesis using assms(3) by (cases "f y") (auto simp: opens_def)
  qed (use Nil in simp)
next
  case (Cons x xs)
  show ?case
  proof (cases ys)
    case Nil
    then have "opens (f x)" "f x @ (case xs of [] \<Rightarrow> [] | _ \<Rightarrow> CHR '','' # commas (map f xs)) @ c # r = c # r'"
      using Cons.prems commas_map_cons [of f x xs] by auto
    then show ?thesis using assms(3) by (cases "f x") (auto simp: opens_def)
  next
    case ys: (Cons y ys')
    let ?t = "\<lambda>zs s. (case zs of [] \<Rightarrow> [] | _ \<Rightarrow> CHR '','' # commas (map f zs)) @ c # s"
    have "f x @ ?t xs r = f y @ ?t ys' r'"
      using Cons.prems(3) commas_map_cons [of f x xs] commas_map_cons [of f y ys'] by (simp add: ys)
    moreover have "stops (?t xs r)" "stops (?t ys' r')" using assms(3) by (auto split: list.split)
    ultimately have eq: "x = y" "?t xs r = ?t ys' r'"
      using readableD [of f x y] Cons.prems(1) by (auto simp: ys)
    have "xs = ys' \<and> r = r'"
    proof (cases "xs = [] \<or> ys' = []")
      case True
      then show ?thesis using eq(2) assms(3) by (auto split: list.splits)
    next
      case False
      then have "commas (map f xs) @ c # r = commas (map f ys') @ c # r'" using eq(2) by (auto split: list.splits)
      with Cons.IH [of ys'] Cons.prems(1,2) show ?thesis by (auto simp: ys)
    qed
    with eq(1) ys show ?thesis by simp
  qed
qed

lemma number_read:
  assumes "list_all (\<lambda>c. c \<in> set num_chars) t" "list_all (\<lambda>c. c \<in> set num_chars) t'" "stops r" "stops r'" "t @ r = t' @ r'"
  shows "t = t' \<and> r = r'"
  using assms
proof (induction t arbitrary: t')
  case Nil
  then show ?case by (cases t') (auto simp: stops_def num_chars_def)
next
  case (Cons c t)
  then show ?case by (cases t') (auto simp: stops_def num_chars_def)
qed

text \<open>The first character tells the kind of a value.\<close>

definition kind_char :: "Json \<Rightarrow> char \<Rightarrow> bool" where
  "kind_char j c \<longleftrightarrow> (case j of JNull \<Rightarrow> c = CHR ''n'' | JBool b \<Rightarrow> c = (if b then CHR ''t'' else CHR ''f'')
     | JNum t \<Rightarrow> c \<in> set num_chars | JStr s \<Rightarrow> c = CHR 0x22 | JArr xs \<Rightarrow> c = CHR ''['' | JObj kvs \<Rightarrow> c = CHR ''{'')"

lemma json_text_kind: "json_wf j \<Longrightarrow> json_text j \<noteq> [] \<and> kind_char j (hd (json_text j))"
  by (cases j) (auto simp: kind_char_def json_string_def hd_append list_all_iff)

lemma opens_json_text: "json_wf j \<Longrightarrow> opens (json_text j)"
  using json_text_kind [of j] by (cases j) (auto simp: kind_char_def opens_def num_chars_def split: if_splits)

lemma kind_char_same: "kind_char a c \<Longrightarrow> kind_char b c \<Longrightarrow>
  (a = JNull \<and> b = JNull) \<or> (\<exists>v. a = JBool v \<and> b = JBool v) \<or> (\<exists>t u. a = JNum t \<and> b = JNum u) \<or>
  (\<exists>s u. a = JStr s \<and> b = JStr u) \<or> (\<exists>xs ys. a = JArr xs \<and> b = JArr ys) \<or> (\<exists>xs ys. a = JObj xs \<and> b = JObj ys)"
  by (cases a; cases b) (auto simp: kind_char_def num_chars_def split: if_splits)

definition entry_text :: "string \<times> Json \<Rightarrow> string" where
  "entry_text kv = json_string (fst kv) @ CHR '':'' # json_text (snd kv)"

lemma opens_entry: "opens (entry_text kv)"
  by (simp add: opens_def entry_text_def json_string_def)

lemma entry_readable: "readable json_text v v' \<Longrightarrow> readable entry_text (k, v) (k', v')"
  unfolding readable_def entry_text_def by (auto dest!: json_string_prefix)

lemma same_head:
  assumes "json_wf a" "json_wf b" "json_text a @ r = json_text b @ r'"
  shows "\<exists>c. kind_char a c \<and> kind_char b c"
proof -
  have "hd (json_text a) = hd (json_text b)"
    using assms json_text_kind [OF assms(1)] json_text_kind [OF assms(2)] by (metis hd_append)
  then show ?thesis using json_text_kind [OF assms(1)] json_text_kind [OF assms(2)] by metis
qed

lemma atom_readable:
  assumes "json_wf a" "json_wf b" "\<nexists>xs. a = JArr xs" "\<nexists>kvs. a = JObj kvs"
  shows "readable json_text a b"
  unfolding readable_def
proof (intro allI impI)
  fix r r' assume r: "stops r" "stops r'" and eq: "json_text a @ r = json_text b @ r'"
  obtain c where "kind_char a c" "kind_char b c" using same_head [OF assms(1,2) eq] by blast
  from kind_char_same [OF this] assms(3,4)
  consider "a = b" "a = JNull \<or> (\<exists>v. a = JBool v)" | t u where "a = JNum t" "b = JNum u" | s u where "a = JStr s" "b = JStr u"
    by auto
  then show "a = b \<and> r = r'"
  proof cases
    case (2 t u)
    then show ?thesis using number_read [of t u r r'] assms(1,2) r eq by simp
  next
    case (3 s u)
    then show ?thesis using json_string_prefix [of s r u r'] eq by simp
  qed (use eq in auto)
qed

lemma json_text_readable: "json_wf a \<Longrightarrow> json_wf b \<Longrightarrow> readable json_text a b"
proof (induction a arbitrary: b)
  case (JArr xs)
  show ?case unfolding readable_def
  proof (intro allI impI)
    fix r r' assume r: "stops r" "stops r'" and eq: "json_text (JArr xs) @ r = json_text b @ r'"
    obtain ys where b: "b = JArr ys"
      using kind_char_same [of "JArr xs" _ b] same_head [OF JArr.prems eq] by auto
    have e: "commas (map json_text xs) @ CHR '']'' # r = commas (map json_text ys) @ CHR '']'' # r'"
      using eq by (simp add: b)
    have wf: "\<forall>x\<in>set xs. json_wf x" "\<forall>x\<in>set ys. json_wf x" using JArr.prems by (auto simp: b list_all_iff)
    have "xs = ys \<and> r = r'"
      by (rule commas_read [OF _ _ _ e]) (use wf JArr.IH opens_json_text in auto)
    then show "JArr xs = b \<and> r = r'" by (simp add: b)
  qed
next
  case (JObj kvs)
  show ?case unfolding readable_def
  proof (intro allI impI)
    fix r r' assume r: "stops r" "stops r'" and eq: "json_text (JObj kvs) @ r = json_text b @ r'"
    obtain kvs' where b: "b = JObj kvs'"
      using kind_char_same [of "JObj kvs" _ b] same_head [OF JObj.prems eq] by auto
    have e: "commas (map entry_text kvs) @ CHR ''}'' # r = commas (map entry_text kvs') @ CHR ''}'' # r'"
      using eq by (simp add: b entry_text_def [abs_def])
    have rd: "readable entry_text x y" if "x \<in> set kvs" "y \<in> set kvs'" for x y
      using JObj.IH [of x "snd x" "snd y"] JObj.prems that entry_readable [of "snd x" "snd y" "fst x" "fst y"]
      by (auto simp: b list_all_iff snds.simps)
    show "JObj kvs = b \<and> r = r'"
      using commas_read [of kvs kvs' entry_text "CHR ''}''", OF rd opens_entry _ e] by (auto simp: b)
  qed
qed (auto intro: atom_readable)

section \<open>Sorting the keys\<close>

text \<open>The comparison orders the keys in \<open>K\<close> without ties.\<close>

definition key_order :: "(string \<Rightarrow> string \<Rightarrow> int) \<Rightarrow> string set \<Rightarrow> bool" where
  "key_order lc K \<longleftrightarrow> (\<forall>a\<in>K. \<forall>b\<in>K. (lc a b \<le> 0 \<or> lc b a \<le> 0) \<and> (lc a b \<le> 0 \<longrightarrow> lc b a \<le> 0 \<longrightarrow> a = b) \<and>
     (\<forall>c\<in>K. lc a b \<le> 0 \<longrightarrow> lc b c \<le> 0 \<longrightarrow> lc a c \<le> 0))"

abbreviation by_key :: "(string \<Rightarrow> string \<Rightarrow> int) \<Rightarrow> string \<times> 'a \<Rightarrow> string \<times> 'a \<Rightarrow> int" where
  "by_key lc \<equiv> \<lambda>a b. lc (fst a) (fst b)"

lemma key_orderD:
  assumes "key_order lc K" "a \<in> K" "b \<in> K"
  shows "lc a b \<le> 0 \<or> lc b a \<le> 0" "lc a b \<le> 0 \<Longrightarrow> lc b a \<le> 0 \<Longrightarrow> a = b"
    "c \<in> K \<Longrightarrow> lc a b \<le> 0 \<Longrightarrow> lc b c \<le> 0 \<Longrightarrow> lc a c \<le> 0"
  using assms unfolding key_order_def by blast+

lemma sorted_insert_key:
  assumes "key_order lc K" "fst x \<in> K" "fst ` set ys \<subseteq> K" "sorted_wrt (\<lambda>a b. by_key lc a b \<le> 0) ys"
  shows "sorted_wrt (\<lambda>a b. by_key lc a b \<le> 0) (js_insert (by_key lc) x ys)"
  using assms(3,4)
proof (induction ys)
  case (Cons y ys)
  have set: "set (js_insert (by_key lc) x ys) = insert x (set ys)"
    by (metis mset_js_insert set_mset_add_mset_insert set_mset_mset)
  have K: "fst y \<in> K" "\<forall>z\<in>set ys. fst z \<in> K" using Cons.prems(1) by auto
  show ?case
  proof (cases "by_key lc x y \<le> 0")
    case True
    have "by_key lc x z \<le> 0" if "z \<in> set ys" for z
      using key_orderD(3) [OF assms(1,2) K(1)] K(2) True Cons.prems(2) that by auto
    with True Cons.prems show ?thesis by simp
  next
    case False
    then have "by_key lc y x \<le> 0" using key_orderD(1) [OF assms(1,2) K(1)] by blast
    with False Cons set show ?thesis by simp
  qed
qed simp

lemma sorted_sort_key:
  assumes "key_order lc K"
  shows "fst ` set kvs \<subseteq> K \<Longrightarrow> sorted_wrt (\<lambda>a b. by_key lc a b \<le> 0) (js_sort (by_key lc) kvs)"
proof (induction kvs)
  case (Cons x kvs)
  have "fst ` set (js_sort (by_key lc) kvs) \<subseteq> K" "fst x \<in> K" using Cons.prems by simp_all
  then have "sorted_wrt (\<lambda>a b. by_key lc a b \<le> 0) (js_insert (by_key lc) x (js_sort (by_key lc) kvs))"
    using Cons by (intro sorted_insert_key [OF assms]) auto
  then show ?case by (simp add: js_sort_def)
qed (simp add: js_sort_def)

lemma sorted_keys_unique:
  assumes "key_order lc K"
  shows "sorted_wrt (\<lambda>a b. lc a b \<le> 0) ks \<Longrightarrow> sorted_wrt (\<lambda>a b. lc a b \<le> 0) ks' \<Longrightarrow> distinct ks \<Longrightarrow> distinct ks' \<Longrightarrow>
    set ks = set ks' \<Longrightarrow> set ks \<subseteq> K \<Longrightarrow> ks = ks'"
proof (induction ks arbitrary: ks')
  case (Cons k ks)
  then obtain k' ls where ks': "ks' = k' # ls" by (cases ks') auto
  have "k = k'"
  proof (rule ccontr)
    assume ne: "k \<noteq> k'"
    then have "k' \<in> set ks" "k \<in> set ls" using Cons.prems(5) by (auto simp: ks')
    then have "lc k k' \<le> 0" "lc k' k \<le> 0" using Cons.prems(1,2) by (auto simp: ks')
    moreover have "k \<in> K" "k' \<in> K" using Cons.prems(5,6) by (auto simp: ks')
    ultimately show False using ne key_orderD(2) [OF assms] by blast
  qed
  moreover have "set ks = set ls" using Cons.prems(3,4,5) \<open>k = k'\<close> by (auto simp: ks')
  ultimately show ?case using Cons.IH [of ls] Cons.prems by (simp add: ks')
qed simp

lemma sort_keys_eq:
  assumes "key_order lc K" "fst ` set xs \<subseteq> K" "fst ` set xs = fst ` set ys" "distinct (map fst xs)" "distinct (map fst ys)"
  shows "map fst (js_sort (by_key lc) xs) = map fst (js_sort (by_key lc) ys)"
proof (rule sorted_keys_unique [OF assms(1)])
  show "sorted_wrt (\<lambda>a b. lc a b \<le> 0) (map fst (js_sort (by_key lc) xs))"
    using sorted_sort_key [OF assms(1,2)] by (simp add: sorted_wrt_map)
  show "sorted_wrt (\<lambda>a b. lc a b \<le> 0) (map fst (js_sort (by_key lc) ys))"
    using sorted_sort_key [OF assms(1), of ys] assms(2,3) by (simp add: sorted_wrt_map)
qed (use assms in \<open>simp_all add: distinct_js_sort\<close>)

section \<open>Values up to the order of keys\<close>

fun same_json :: "Json \<Rightarrow> Json \<Rightarrow> bool" where
  "same_json (JArr xs) b \<longleftrightarrow> (case b of JArr ys \<Rightarrow> list_all2 same_json xs ys | _ \<Rightarrow> False)"
| "same_json (JObj xs) b \<longleftrightarrow> (case b of JObj ys \<Rightarrow> fst ` set xs = fst ` set ys \<and>
     list_all (\<lambda>x. list_all (\<lambda>y. fst x = fst y \<longrightarrow> same_json (snd x) (snd y)) ys) xs | _ \<Rightarrow> False)"
| "same_json a b \<longleftrightarrow> a = b"

fun json_keys :: "Json \<Rightarrow> string set" where
  "json_keys (JArr xs) = (\<Union>x\<in>set xs. json_keys x)"
| "json_keys (JObj kvs) = fst ` set kvs \<union> (\<Union>kv\<in>set kvs. json_keys (snd kv))"
| "json_keys _ = {}"

text \<open>The value whose text the canonical text is.\<close>

function json_norm :: "(string \<Rightarrow> string \<Rightarrow> int) \<Rightarrow> Json \<Rightarrow> Json" where
  "json_norm lc (JArr xs) = JArr (map (json_norm lc) xs)"
| "json_norm lc (JObj kvs) = JObj (map (\<lambda>kv. (fst kv, json_norm lc (snd kv))) (js_sort (by_key lc) kvs))"
| "json_norm lc JNull = JNull"
| "json_norm lc (JBool b) = JBool b"
| "json_norm lc (JNum t) = JNum t"
| "json_norm lc (JStr s) = JStr s"
  by pat_completeness auto
termination
  by (relation "measure (\<lambda>(lc, j). size j)") (auto simp: less_Suc_eq_le intro!: size_list_estimation' trans_le_add1)

lemma canonicalJson_norm: "canonicalJson lc j = json_text (json_norm lc j)"
proof (induction lc j rule: canonicalJson.induct)
  case (1 lc xs)
  then show ?case by (simp cong: map_cong)
next
  case (2 lc kvs)
  then have "map (\<lambda>kv. json_string (fst kv) @ CHR '':'' # canonicalJson lc (snd kv)) (js_sort (by_key lc) kvs) =
    map (\<lambda>kv. json_string (fst kv) @ CHR '':'' # json_text (json_norm lc (snd kv))) (js_sort (by_key lc) kvs)"
    by (intro map_cong) simp_all
  then show ?case by (simp only: canonicalJson.simps json_norm.simps json_text.simps map_map o_def fst_conv snd_conv)
qed simp_all

lemma json_norm_wf: "json_wf j \<Longrightarrow> json_wf (json_norm lc j)"
  by (induction lc j rule: json_norm.induct) (auto simp: list_all_iff o_def distinct_js_sort)

lemma norm_atoms:
  "JNull = json_norm lc b \<longleftrightarrow> b = JNull" "JBool v = json_norm lc b \<longleftrightarrow> b = JBool v"
  "JNum t = json_norm lc b \<longleftrightarrow> b = JNum t" "JStr t = json_norm lc b \<longleftrightarrow> b = JStr t"
  by (cases b; auto)+

lemma norm_eq_same: "json_wf a \<Longrightarrow> json_wf b \<Longrightarrow> json_norm lc a = json_norm lc b \<Longrightarrow> same_json a b"
proof (induction a arbitrary: b)
  case (JArr xs)
  then obtain ys where b: "b = JArr ys" by (cases b) auto
  have eq: "map (json_norm lc) xs = map (json_norm lc) ys" using JArr.prems(3) by (simp add: b)
  then have len: "length xs = length ys" by (rule map_eq_imp_length_eq)
  have "same_json (xs ! i) (ys ! i)" if "i < length xs" for i
  proof (rule JArr.IH)
    show "xs ! i \<in> set xs" "json_wf (xs ! i)" "json_wf (ys ! i)" using JArr.prems(1,2) that len by (simp_all add: b list_all_length)
    show "json_norm lc (xs ! i) = json_norm lc (ys ! i)" using eq that len by (metis nth_map)
  qed
  then show ?case using len by (simp add: b list_all2_conv_all_nth)
next
  case (JObj xs)
  then obtain ys where b: "b = JObj ys" by (cases b) auto
  let ?N = "\<lambda>kv. (fst kv, json_norm lc (snd kv))"
  have "map ?N (js_sort (by_key lc) xs) = map ?N (js_sort (by_key lc) ys)" using JObj.prems(3) by (simp add: b)
  from arg_cong [where f = set, OF this] have eq: "?N ` set xs = ?N ` set ys" by simp
  then have "fst ` ?N ` set xs = fst ` ?N ` set ys" by simp
  then have keys: "fst ` set xs = fst ` set ys" by (simp add: image_image)
  have "same_json (snd x) (snd y)" if x: "x \<in> set xs" and y: "y \<in> set ys" and "fst x = fst y" for x y
  proof -
    from eq x obtain y' where "y' \<in> set ys" "?N x = ?N y'" by blast
    moreover have "inj_on fst (set ys)" using JObj.prems(2) by (simp add: b distinct_map)
    ultimately have "json_norm lc (snd x) = json_norm lc (snd y)" using y \<open>fst x = fst y\<close> by (auto dest: inj_onD)
    moreover have "json_wf (snd x)" "json_wf (snd y)" using JObj.prems(1,2) x y by (simp_all add: b list_all_iff)
    ultimately show ?thesis using JObj.IH [OF x snds.intros] by blast
  qed
  with keys show ?case by (auto simp: b list_all_iff)
qed (auto simp: norm_atoms)

lemma same_norm_eq:
  assumes "key_order lc K"
  shows "json_wf a \<Longrightarrow> json_wf b \<Longrightarrow> json_keys a \<subseteq> K \<Longrightarrow> json_keys b \<subseteq> K \<Longrightarrow> same_json a b \<Longrightarrow> json_norm lc a = json_norm lc b"
proof (induction a arbitrary: b)
  case (JArr xs)
  then obtain ys where b: "b = JArr ys" by (cases b) auto
  have l2: "list_all2 same_json xs ys" using JArr.prems(5) by (simp add: b)
  then have len: "length xs = length ys" by (rule list_all2_lengthD)
  have "json_norm lc (xs ! i) = json_norm lc (ys ! i)" if i: "i < length xs" for i
  proof (rule JArr.IH)
    show m: "xs ! i \<in> set xs" using i by simp
    have m': "ys ! i \<in> set ys" using i len by simp
    show "json_wf (xs ! i)" "json_wf (ys ! i)" using JArr.prems(1,2) m m' by (auto simp: b list_all_iff)
    show "json_keys (xs ! i) \<subseteq> K" "json_keys (ys ! i) \<subseteq> K" using JArr.prems(3,4) m m' by (auto simp: b)
    show "same_json (xs ! i) (ys ! i)" by (rule list_all2_nthD [OF l2 i])
  qed
  with len show ?case by (simp add: b list_eq_iff_nth_eq)
next
  case (JObj xs)
  then obtain ys where b: "b = JObj ys" by (cases b) auto
  let ?s = "js_sort (by_key lc)" and ?N = "\<lambda>kv. (fst kv, json_norm lc (snd kv))"
  have fsts: "map fst (?s xs) = map fst (?s ys)"
    by (rule sort_keys_eq [OF assms]) (use JObj.prems in \<open>auto simp: b\<close>)
  then have len: "length (?s xs) = length (?s ys)" by (rule map_eq_imp_length_eq)
  have "?N (?s xs ! i) = ?N (?s ys ! i)" if i: "i < length (?s xs)" for i
  proof -
    have f: "fst (?s xs ! i) = fst (?s ys ! i)" using arg_cong [where f = "\<lambda>l. l ! i", OF fsts] i len by simp
    have m: "?s xs ! i \<in> set xs" "?s ys ! i \<in> set ys"
      using nth_mem [OF i] nth_mem [OF i [unfolded len]] by simp_all
    then have "same_json (snd (?s xs ! i)) (snd (?s ys ! i))" using JObj.prems(5) f by (auto simp: b list_all_iff)
    moreover have "json_wf (snd (?s xs ! i))" "json_wf (snd (?s ys ! i))"
      using JObj.prems(1,2) m by (simp_all add: b list_all_iff)
    moreover have "json_keys (snd (?s xs ! i)) \<subseteq> K" "json_keys (snd (?s ys ! i)) \<subseteq> K"
      using JObj.prems(3,4) m unfolding b json_keys.simps by blast+
    ultimately have "json_norm lc (snd (?s xs ! i)) = json_norm lc (snd (?s ys ! i))"
      using JObj.IH [OF m(1) snds.intros] by blast
    with f show ?thesis by simp
  qed
  with len show ?case by (simp add: b list_eq_iff_nth_eq)
qed auto

theorem canonicalJson_exact:
  assumes "json_wf a" "json_wf b" "key_order lc (json_keys a \<union> json_keys b)"
  shows "canonicalJson lc a = canonicalJson lc b \<longleftrightarrow> same_json a b"
proof -
  have "canonicalJson lc a = canonicalJson lc b \<longleftrightarrow> json_norm lc a = json_norm lc b"
    using json_text_readable [OF json_norm_wf [OF assms(1)] json_norm_wf [OF assms(2)], of lc lc]
      readableD [of json_text "json_norm lc a" "json_norm lc b" "[]" "[]"]
    by (auto simp: canonicalJson_norm)
  then show ?thesis using norm_eq_same [OF assms(1,2), of lc] same_norm_eq [OF assms(3,1,2)] by blast
qed

end
