(* ===== verification/Idempotency_Properties.thy ===== *)
theory Idempotency_Properties
  imports Json_Canonical
begin

text \<open>
  What idempotency promises: a fingerprint identifies a request up to the order of its keys, and, as long as a handler ends
  within its lease, a key is settled once.  A closed run shows what a handler that outlives its lease can do.
\<close>

section \<open>Requests as steps\<close>

text \<open>
  Between the steps of one request those of others run.  \<open>sy_settled\<close> records the executions that closed a record, with the
  operation under which the provider was called; \<open>sy_ids\<close> are the identifiers drawn so far.
\<close>

record IdemSystem =
  sy_now :: instant
  sy_repo :: IdemRepo
  sy_running :: "Execution list"
  sy_settled :: "(idem_index \<times> ident) list"
  sy_ids :: "ident list"

definition idem_start :: "instant \<Rightarrow> IdemSystem" where
  "idem_start t = \<lparr>sy_now = t, sy_repo = \<lparr>im_records = [], im_released = []\<rparr>, sy_running = [], sy_settled = [], sy_ids = []\<rparr>"

definition settles :: "HandlerOutcome \<Rightarrow> bool" where
  "settles res = (case res of Returned _ _ \<Rightarrow> True
     | Threw e \<Rightarrow> be_class e \<noteq> ProviderOutcomeUnknownError \<and> isDeterministic e | ThrewOther \<Rightarrow> False)"

definition started :: "Interception \<Rightarrow> Execution list" where
  "started res = (case res of Execute h ex \<Rightarrow> [ex] | _ \<Rightarrow> [])"

text \<open>The lease of every running execution holds at \<open>t\<close>.\<close>

definition leases_hold :: "instant \<Rightarrow> IdemSystem \<Rightarrow> bool" where
  "leases_hold t s \<longleftrightarrow> list_all (\<lambda>ex. case map_get (im_records (sy_repo s)) (ex_index ex) of
     Some rec \<Rightarrow> lease_alive t rec | None \<Rightarrow> False) (sy_running s)"

inductive idem_step ::
  "(string \<Rightarrow> string \<Rightarrow> int) \<Rightarrow> (string \<Rightarrow> string) \<Rightarrow> string \<Rightarrow> bool \<Rightarrow> IdemSystem \<Rightarrow> IdemSystem \<Rightarrow> bool"
  for lc sha256 pod timely where
  tick: "sy_now s \<le> t \<Longrightarrow> timely \<longrightarrow> leases_hold t s \<Longrightarrow> idem_step lc sha256 pod timely s (s\<lparr>sy_now := t\<rparr>)"
| arrive: "begin_request lc sha256 pod (sy_now s) i op q (sy_repo s) = (res, r') \<Longrightarrow>
    i \<notin> set (sy_ids s) \<Longrightarrow> op \<notin> set (sy_ids s) \<Longrightarrow>
    idem_step lc sha256 pod timely s
      (s\<lparr>sy_repo := r', sy_running := sy_running s @ started res, sy_ids := i # op # sy_ids s\<rparr>)"
| leave: "ex \<in> set (sy_running s) \<Longrightarrow>
    idem_step lc sha256 pod timely s
      (s\<lparr>sy_repo := finish_request (sy_now s) ex res (sy_repo s), sy_running := remove1 ex (sy_running s),
         sy_settled := sy_settled s @ (if settles res then [(ex_index ex, ex_operation ex)] else [])\<rparr>)"

inductive_cases idem_stepE: "idem_step lc sha256 pod timely s s'"

inductive idem_reachable ::
  "(string \<Rightarrow> string \<Rightarrow> int) \<Rightarrow> (string \<Rightarrow> string) \<Rightarrow> string \<Rightarrow> bool \<Rightarrow> IdemSystem \<Rightarrow> bool"
  for lc sha256 pod timely where
  start: "idem_reachable lc sha256 pod timely (idem_start t)"
| step: "idem_reachable lc sha256 pod timely s \<Longrightarrow> idem_step lc sha256 pod timely s s' \<Longrightarrow>
    idem_reachable lc sha256 pod timely s'"

section \<open>The records\<close>

definition record_ids :: "IdemRepo \<Rightarrow> ident list" where
  "record_ids r = map (\<lambda>p. ir_id (snd p)) (im_records r)"

definition repo_ok :: "IdemRepo \<Rightarrow> bool" where
  "repo_ok r \<longleftrightarrow> wf_map (im_records r) \<and> distinct (record_ids r)"

lemma same_id_same_index:
  assumes "repo_ok r" "map_get (im_records r) x = Some rec" "map_get (im_records r) y = Some rec'" "ir_id rec = ir_id rec'"
  shows "x = y"
  using assms inj_onD [of "\<lambda>p. ir_id (snd p)" "set (im_records r)" "(x, rec)" "(y, rec')"]
  by (auto simp: repo_ok_def record_ids_def distinct_map dest: map_of_SomeD)

lemma map_of_map_value: "map_of (map (\<lambda>(x, v). (x, f v)) m) k = map_option f (map_of m k)"
  by (induction m) auto

lemma update_get:
  "map_get (im_records (update_records i f r)) x =
     map_option (\<lambda>rec. if ir_id rec = i then f rec else rec) (map_get (im_records r) x)"
  by (simp add: update_records_def map_of_map_value)

lemma update_ok:
  assumes "repo_ok r" "\<And>rec. ir_id (f rec) = ir_id rec"
  shows "repo_ok (update_records i f r)" "set (record_ids (update_records i f r)) = set (record_ids r)"
proof -
  have "record_ids (update_records i f r) = record_ids r" "map fst (im_records (update_records i f r)) = map fst (im_records r)"
    using assms(2) by (simp_all add: record_ids_def update_records_def o_def case_prod_unfold if_distrib cong: if_cong)
  then show "repo_ok (update_records i f r)" "set (record_ids (update_records i f r)) = set (record_ids r)"
    using assms(1) by (simp_all add: repo_ok_def wf_map_def)
qed

lemma map_of_filter_value:
  "distinct (map fst m) \<Longrightarrow> map_of (filter (\<lambda>(x, v). P v) m) k =
     (case map_of m k of Some v \<Rightarrow> if P v then Some v else None | None \<Rightarrow> None)"
  by (induction m) (auto simp: map_of_eq_None_iff split: option.split)

lemma release_get:
  assumes "repo_ok r"
  shows "map_get (im_records (idem_release i r)) x =
    (case map_get (im_records r) x of Some rec \<Rightarrow> if ir_id rec = i then None else Some rec | None \<Rightarrow> None)"
  using assms map_of_filter_value [of "im_records r" "\<lambda>v. ir_id v \<noteq> i" x]
  by (auto simp: repo_ok_def wf_map_def idem_release_def split: option.split)

lemma release_ok: "repo_ok r \<Longrightarrow> repo_ok (idem_release i r)"
  "set (record_ids (idem_release i r)) \<subseteq> set (record_ids r)"
  by (auto simp: repo_ok_def record_ids_def idem_release_def wf_map_def distinct_map_filter)

lemma steal_in_cases:
  assumes "distinct (map (\<lambda>p. ir_id (snd p)) m)" "(x, rec) \<in> set m" "ir_id rec = i" "\<not> lease_alive now rec"
  shows "steal_in pod now i n m =
    (Some (rec\<lparr>ir_leaseExpiresAt := Some (lease_until now n), ir_lockedBy := Some pod\<rparr>),
     map (\<lambda>(y, v). (y, if ir_id v = i then v\<lparr>ir_leaseExpiresAt := Some (lease_until now n), ir_lockedBy := Some pod\<rparr> else v)) m)"
  using assms
proof (induction m)
  case (Cons p m)
  show ?case
  proof (cases "p = (x, rec)")
    case True
    then have "map (\<lambda>(y, v). (y, if ir_id v = i then v\<lparr>ir_leaseExpiresAt := Some (lease_until now n), ir_lockedBy := Some pod\<rparr> else v)) m = m"
      using Cons.prems by (intro map_idI) (auto simp: image_iff)
    with True Cons.prems show ?thesis by (simp add: Let_def)
  next
    case False
    then have "(x, rec) \<in> set m" "ir_id (snd p) \<noteq> i" using Cons.prems by (auto simp: image_iff)
    with Cons show ?thesis by (cases p) auto
  qed
qed simp

lemma stealLease_dead:
  assumes "repo_ok r" "map_get (im_records r) x = Some rec" "\<not> lease_alive now rec"
  shows "stealLease pod now (ir_id rec) n r =
    (Some (rec\<lparr>ir_leaseExpiresAt := Some (lease_until now n), ir_lockedBy := Some pod\<rparr>),
     update_records (ir_id rec) (\<lambda>v. v\<lparr>ir_leaseExpiresAt := Some (lease_until now n), ir_lockedBy := Some pod\<rparr>) r)"
  using steal_in_cases [of "im_records r" x rec "ir_id rec" now pod n] assms
  by (auto simp: repo_ok_def record_ids_def stealLease_def update_records_def dest: map_of_SomeD)

section \<open>A key is settled once\<close>

definition running_ok :: "instant \<Rightarrow> IdemRepo \<Rightarrow> Execution \<Rightarrow> bool" where
  "running_ok now r ex \<longleftrightarrow> (\<exists>rec. map_get (im_records r) (ex_index ex) = Some rec \<and> ir_id rec = ex_record ex \<and>
     ir_operationId rec = ex_operation ex \<and> ir_state rec = IN_FLIGHT \<and> lease_alive now rec)"

definition settled_ok :: "IdemRepo \<Rightarrow> idem_index \<times> ident \<Rightarrow> bool" where
  "settled_ok r p \<longleftrightarrow> (\<exists>rec. map_get (im_records r) (fst p) = Some rec \<and> ir_operationId rec = snd p \<and> ir_state rec \<noteq> IN_FLIGHT)"

definition idem_ok :: "IdemSystem \<Rightarrow> bool" where
  "idem_ok s \<longleftrightarrow> repo_ok (sy_repo s) \<and> set (record_ids (sy_repo s)) \<subseteq> set (sy_ids s) \<and>
     (\<forall>ex\<in>set (sy_running s). running_ok (sy_now s) (sy_repo s) ex) \<and> distinct (map ex_index (sy_running s)) \<and>
     (\<forall>p\<in>set (sy_settled s). settled_ok (sy_repo s) p) \<and> distinct (map fst (sy_settled s))"

lemma idem_okD:
  assumes "idem_ok s"
  shows "repo_ok (sy_repo s)" "set (record_ids (sy_repo s)) \<subseteq> set (sy_ids s)"
    "ex \<in> set (sy_running s) \<Longrightarrow> running_ok (sy_now s) (sy_repo s) ex" "distinct (map ex_index (sy_running s))"
    "p \<in> set (sy_settled s) \<Longrightarrow> settled_ok (sy_repo s) p" "distinct (map fst (sy_settled s))"
  using assms by (simp_all add: idem_ok_def)

text \<open>How the interceptor ends before the handler.\<close>

inductive interception :: "string \<Rightarrow> instant \<Rightarrow> ident \<Rightarrow> ident \<Rightarrow> IdemRepo \<Rightarrow> Interception \<Rightarrow> IdemRepo \<Rightarrow> bool"
  for pod now i op r where
  quiet: "started res = [] \<Longrightarrow> interception pod now i op r res r"
| fresh: "map_get (im_records r) x = None \<Longrightarrow> ir_id rec = i \<Longrightarrow> ir_operationId rec = op \<Longrightarrow> ir_state rec = IN_FLIGHT \<Longrightarrow>
    lease_alive now rec \<Longrightarrow>
    interception pod now i op r
      (Execute h \<lparr>ex_index = x, ex_record = i, ex_operation = op, ex_reconcile = False\<rparr>)
      (r\<lparr>im_records := map_set x rec (im_records r)\<rparr>)"
| stolen: "map_get (im_records r) x = Some rec \<Longrightarrow> ir_state rec = IN_FLIGHT \<Longrightarrow> \<not> lease_alive now rec \<Longrightarrow>
    interception pod now i op r
      (Execute h \<lparr>ex_index = x, ex_record = ir_id rec, ex_operation = ir_operationId rec, ex_reconcile = True\<rparr>)
      (update_records (ir_id rec)
         (\<lambda>v. v\<lparr>ir_leaseExpiresAt := Some (lease_until now DEFAULT_LEASE_SECONDS), ir_lockedBy := Some pod\<rparr>) r)"

lemma resolveConflict_cases:
  assumes "repo_ok r" "map_get (im_records r) x = Some rec" "resolveConflict pod now x rec fp ep r = (res, r')"
  shows "interception pod now i op r res r'"
proof (cases "ir_requestFingerprint rec \<noteq> fp \<or> ir_state rec \<noteq> IN_FLIGHT \<or> lease_alive now rec")
  case True
  then show ?thesis using assms(3)
    by (cases "ir_state rec") (auto simp: resolveConflict_def started_def intro!: interception.quiet split: if_splits)
next
  case False
  then show ?thesis using assms(3) interception.stolen [OF assms(2), of now]
    by (auto simp: resolveConflict_def stealLease_dead [OF assms(1,2)])
qed

lemma begin_request_cases:
  assumes "repo_ok r" "begin_request lc sha256 pod now i op q r = (res, r')"
  shows "interception pod now i op r res r'"
proof -
  let ?key = "js_trim (case rq_headerKey q of Some h \<Rightarrow> h | None \<Rightarrow> [])"
  show ?thesis
  proof (cases "?key = [] \<or> \<not> key_format ?key \<or> rq_apiKey q = None")
    case True
    then show ?thesis using assms(2)
      by (auto simp: begin_request_def Let_def started_def intro!: interception.quiet split: if_splits)
  next
    case False
    then obtain apiKey env where a: "rq_apiKey q = Some (apiKey, env)" by auto
    let ?x = "(env, rq_endpoint q, ?key)"
    show ?thesis
    proof (cases "map_get (im_records r) ?x")
      case None
      then show ?thesis using assms(2) False a
        by (auto simp: begin_request_def Let_def idem_claim_def new_record_def lease_alive_def lease_until_def
            DEFAULT_LEASE_SECONDS_def intro!: interception.fresh)
    next
      case (Some rec)
      then show ?thesis using assms False a
        by (auto simp: begin_request_def Let_def idem_claim_def intro!: resolveConflict_cases)
    qed
  qed
qed

lemma tick_ok:
  assumes "idem_ok s" "leases_hold t s"
  shows "idem_ok (s\<lparr>sy_now := t\<rparr>)"
proof -
  have "running_ok t (sy_repo s) ex" if "ex \<in> set (sy_running s)" for ex
    using idem_okD(3) [OF assms(1) that] assms(2) that by (auto simp: running_ok_def leases_hold_def list_all_iff)
  then show ?thesis using assms(1) by (simp add: idem_ok_def)
qed

text \<open>The executions of other keys, and the keys already settled, do not notice a change of one record.\<close>

lemma running_ok_other:
  "running_ok now r ex \<Longrightarrow> map_get (im_records r') (ex_index ex) = map_get (im_records r) (ex_index ex) \<Longrightarrow> running_ok now r' ex"
  by (simp add: running_ok_def)

lemma settled_ok_other:
  "settled_ok r p \<Longrightarrow> map_get (im_records r') (fst p) = map_get (im_records r) (fst p) \<Longrightarrow> settled_ok r' p"
  by (simp add: settled_ok_def)

lemma update_other:
  assumes "repo_ok r" "map_get (im_records r) x = Some rec" "y \<noteq> x"
  shows "map_get (im_records (update_records (ir_id rec) f r)) y = map_get (im_records r) y"
  using same_id_same_index [OF assms(1) _ assms(2), of y] assms(3)
  by (cases "map_get (im_records r) y") (auto simp: update_get)

lemma release_other:
  assumes "repo_ok r" "map_get (im_records r) x = Some rec" "y \<noteq> x"
  shows "map_get (im_records (idem_release (ir_id rec) r)) y = map_get (im_records r) y"
  using same_id_same_index [OF assms(1) _ assms(2), of y] assms(3)
  by (cases "map_get (im_records r) y") (auto simp: release_get [OF assms(1)])

lemma map_set_get: "map_get (map_set k v m) k' = (if k' = k then Some v else map_get m k')"
  by (simp add: update_conv')

lemma fresh_record_ok:
  assumes "repo_ok r" "map_get (im_records r) x = None" "ir_id rec \<notin> set (record_ids r)"
  shows "repo_ok (r\<lparr>im_records := map_set x rec (im_records r)\<rparr>)"
    "record_ids (r\<lparr>im_records := map_set x rec (im_records r)\<rparr>) = record_ids r @ [ir_id rec]"
proof -
  have "map_set x rec (im_records r) = im_records r @ [(x, rec)]" using assms(2) by (rule map_set_fresh)
  then show "record_ids (r\<lparr>im_records := map_set x rec (im_records r)\<rparr>) = record_ids r @ [ir_id rec]"
    "repo_ok (r\<lparr>im_records := map_set x rec (im_records r)\<rparr>)"
    using assms by (auto simp: record_ids_def repo_ok_def wf_map_def map_of_eq_None_iff)
qed

lemma arrive_ok:
  assumes "idem_ok s" "interception pod (sy_now s) i op (sy_repo s) res r'" "i \<notin> set (sy_ids s)"
  shows "idem_ok (s\<lparr>sy_repo := r', sy_running := sy_running s @ started res, sy_ids := i # op # sy_ids s\<rparr>)"
  using assms(2)
proof cases
  case quiet
  then show ?thesis using assms(1) by (auto simp: idem_ok_def)
next
  case (fresh x rec h)
  have ids: "ir_id rec \<notin> set (record_ids (sy_repo s))" using fresh assms(3) idem_okD(2) [OF assms(1)] by auto
  note new = fresh_record_ok [OF idem_okD(1) [OF assms(1)] fresh(3) ids]
  have nx: "ex_index ex \<noteq> x" if "ex \<in> set (sy_running s)" for ex
    using idem_okD(3) [OF assms(1) that] fresh(3) by (auto simp: running_ok_def)
  have ns: "fst p \<noteq> x" if "p \<in> set (sy_settled s)" for p
    using idem_okD(5) [OF assms(1) that] fresh(3) by (auto simp: settled_ok_def)
  have old: "running_ok (sy_now s) r' ex" if "ex \<in> set (sy_running s)" for ex
    by (rule running_ok_other [OF idem_okD(3) [OF assms(1) that]]) (use nx [OF that] fresh(2) in \<open>simp add: map_set_get\<close>)
  have kept: "settled_ok r' p" if "p \<in> set (sy_settled s)" for p
    by (rule settled_ok_other [OF idem_okD(5) [OF assms(1) that]]) (use ns [OF that] fresh(2) in \<open>simp add: map_set_get\<close>)
  have this_one: "running_ok (sy_now s) r' \<lparr>ex_index = x, ex_record = i, ex_operation = op, ex_reconcile = False\<rparr>"
    using fresh by (simp add: running_ok_def map_set_get)
  have "x \<notin> ex_index ` set (sy_running s)" using nx by blast
  then show ?thesis
    using old kept this_one new idem_okD(2,4,6) [OF assms(1)] fresh(1,2,4)
    by (auto simp: idem_ok_def started_def)
next
  case (stolen x rec h)
  let ?f = "\<lambda>v. v\<lparr>ir_leaseExpiresAt := Some (lease_until (sy_now s) DEFAULT_LEASE_SECONDS), ir_lockedBy := Some pod\<rparr>"
  note ok = idem_okD(1) [OF assms(1)]
  have upd: "repo_ok r'" "set (record_ids r') = set (record_ids (sy_repo s))" unfolding stolen(2)
    using update_ok [OF ok, of ?f] by auto
  have nx: "ex_index ex \<noteq> x" if "ex \<in> set (sy_running s)" for ex
    using idem_okD(3) [OF assms(1) that] stolen(3,5) by (auto simp: running_ok_def)
  have ns: "fst p \<noteq> x" if "p \<in> set (sy_settled s)" for p
    using idem_okD(5) [OF assms(1) that] stolen(3,4) by (auto simp: settled_ok_def)
  have old: "running_ok (sy_now s) r' ex" if "ex \<in> set (sy_running s)" for ex
    by (rule running_ok_other [OF idem_okD(3) [OF assms(1) that]]) (simp add: stolen(2) update_other [OF ok stolen(3) nx [OF that]])
  have kept: "settled_ok r' p" if "p \<in> set (sy_settled s)" for p
    by (rule settled_ok_other [OF idem_okD(5) [OF assms(1) that]]) (simp add: stolen(2) update_other [OF ok stolen(3) ns [OF that]])
  have this_one: "running_ok (sy_now s) r' \<lparr>ex_index = x, ex_record = ir_id rec, ex_operation = ir_operationId rec, ex_reconcile = True\<rparr>"
    unfolding stolen(2)
    using stolen(3,4) by (simp add: running_ok_def update_get lease_alive_def lease_until_def DEFAULT_LEASE_SECONDS_def)
  have "x \<notin> ex_index ` set (sy_running s)" using nx by blast
  then show ?thesis
    using old kept this_one upd idem_okD(2,4,6) [OF assms(1)] stolen(1)
    by (auto simp: idem_ok_def started_def)
qed

text \<open>The end of an execution changes its own record, or removes it.\<close>

lemma finish_cases:
  assumes "repo_ok r" "running_ok now r ex"
  obtains (closed) f where "settles res" "finish_request now ex res r = update_records (ex_record ex) f r"
      "\<And>rec. ir_id (f rec) = ir_id rec" "\<And>rec. ir_operationId (f rec) = ir_operationId rec" "\<And>rec. ir_state (f rec) \<noteq> IN_FLIGHT"
  | (renewed) "\<not> settles res" "finish_request now ex res r = renewLease now (ex_record ex) DEFAULT_LEASE_SECONDS r"
  | (released) "\<not> settles res" "finish_request now ex res r = idem_release (ex_record ex) r"
proof (cases res)
  case (Returned st body)
  then show ?thesis using closed by (force simp: settles_def finish_request_def idem_complete_def)
next
  case (Threw e)
  then show ?thesis using closed renewed released
    by (cases "be_class e = ProviderOutcomeUnknownError"; cases "isDeterministic e")
      (force simp: settles_def finish_request_def onFailure_def idem_complete_def)+
next
  case ThrewOther
  then show ?thesis using released by (simp add: settles_def finish_request_def onFailure_def)
qed

lemma leave_ok:
  assumes "idem_ok s" "ex \<in> set (sy_running s)"
  shows "idem_ok (s\<lparr>sy_repo := finish_request (sy_now s) ex res (sy_repo s), sy_running := remove1 ex (sy_running s),
    sy_settled := sy_settled s @ (if settles res then [(ex_index ex, ex_operation ex)] else [])\<rparr>)"
proof -
  let ?r = "sy_repo s" and ?r' = "finish_request (sy_now s) ex res (sy_repo s)"
  note ok = idem_okD(1) [OF assms(1)] and run = idem_okD(3) [OF assms]
  obtain rec where rec: "map_get (im_records ?r) (ex_index ex) = Some rec" "ir_id rec = ex_record ex"
    "ir_operationId rec = ex_operation ex" "ir_state rec = IN_FLIGHT" using run by (auto simp: running_ok_def)
  have dist: "distinct (sy_running s)" using idem_okD(4) [OF assms(1)] by (simp add: distinct_map)
  have nx: "ex_index y \<noteq> ex_index ex" if "y \<in> set (remove1 ex (sy_running s))" for y
    using that dist assms(2) idem_okD(4) [OF assms(1)] by (auto simp: distinct_map dest: inj_onD)
  have ns: "fst p \<noteq> ex_index ex" if "p \<in> set (sy_settled s)" for p
    using idem_okD(5) [OF assms(1) that] rec(1,4) by (auto simp: settled_ok_def)
  have other: "map_get (im_records ?r') y = map_get (im_records ?r) y" if "y \<noteq> ex_index ex" for y
    using ok run
    by (cases rule: finish_cases [where res = res])
      (simp_all add: renewLease_def update_other [OF ok rec(1) that, unfolded rec(2)] release_other [OF ok rec(1) that, unfolded rec(2)])
  have repo: "repo_ok ?r'" "set (record_ids ?r') \<subseteq> set (record_ids ?r)"
    using ok run
    by (cases rule: finish_cases [where res = res]; simp add: renewLease_def update_ok [OF ok] release_ok(1) [OF ok] release_ok(2))+
  have running: "running_ok (sy_now s) ?r' y" if "y \<in> set (remove1 ex (sy_running s))" for y
    by (rule running_ok_other [OF idem_okD(3) [OF assms(1)] other [OF nx [OF that]]]) (use that notin_set_remove1 in metis)
  have settled: "settled_ok ?r' p" if "p \<in> set (sy_settled s)" for p
    by (rule settled_ok_other [OF idem_okD(5) [OF assms(1) that] other [OF ns [OF that]]])
  have this_one: "settled_ok ?r' (ex_index ex, ex_operation ex)" if "settles res"
    using ok run that rec by (cases rule: finish_cases [where res = res]) (simp_all add: settled_ok_def update_get)
  have "distinct (map ex_index (remove1 ex (sy_running s)))"
    using idem_okD(4) [OF assms(1)] by (simp add: distinct_map distinct_remove1 set_remove1_eq inj_on_diff)
  moreover have "ex_index ex \<notin> fst ` set (sy_settled s)" by (rule notI, erule imageE) (use ns in metis)
  then have "distinct (map fst (sy_settled s @ (if settles res then [(ex_index ex, ex_operation ex)] else [])))"
    using idem_okD(6) [OF assms(1)] by simp
  moreover have "\<forall>p\<in>set (sy_settled s @ (if settles res then [(ex_index ex, ex_operation ex)] else [])). settled_ok ?r' p"
    by (rule ballI) (use settled this_one in \<open>auto split: if_splits\<close>)
  moreover have "set (record_ids ?r') \<subseteq> set (sy_ids s)" using repo(2) idem_okD(2) [OF assms(1)] by (rule subset_trans)
  ultimately show ?thesis using repo(1) running by (simp add: idem_ok_def)
qed

lemma idem_step_ok: "idem_step lc sha256 pod True s s' \<Longrightarrow> idem_ok s \<Longrightarrow> idem_ok s'"
proof (induction rule: idem_step.induct)
  case (tick s t)
  then show ?case by (simp add: tick_ok)
next
  case (arrive s i op q res r')
  then show ?case using begin_request_cases [OF idem_okD(1)] by (intro arrive_ok) auto
next
  case (leave ex s res)
  then show ?case by (intro leave_ok)
qed

lemma idem_reachable_ok: "idem_reachable lc sha256 pod True s \<Longrightarrow> idem_ok s"
proof (induction rule: idem_reachable.induct)
  case (start t)
  show ?case by (simp add: idem_ok_def idem_start_def repo_ok_def record_ids_def wf_map_def)
qed (rule idem_step_ok)

section \<open>Properties\<close>

text \<open>Code-unit order, and three requests that differ in the order of a key and in a value.\<close>

definition code_order :: "string \<Rightarrow> string \<Rightarrow> int" where
  "code_order a b = (if a = b then 0 else if a < b then - 1 else 1)"

lemma code_order_keys: "key_order code_order K"
  by (auto simp: key_order_def code_order_def)

definition demo_request :: "Json \<Rightarrow> IdemRequest" where
  "demo_request b = \<lparr>rq_headerKey = Some ''chave-0001'', rq_class = pix_out, rq_endpoint = ''POST PixController.sendTransfer'',
     rq_apiKey = Some (''key1'', PRODUCAO), rq_body = Some b, rq_params = Some [(''accountId'', JStr ''acc1'')],
     rq_connectionId = None\<rparr>"

definition demo_body :: Json where
  "demo_body = JObj [(''amount'', JNum ''100''), (''tags'', JArr [JBool True, JNull])]"

definition demo_body_reordered :: Json where
  "demo_body_reordered = JObj [(''tags'', JArr [JBool True, JNull]), (''amount'', JNum ''100'')]"

text \<open>C29: two requests have the same fingerprint exactly when their bodies, their route parameters and their connection
  are the same JSON values up to the order of keys, given a hash that does not collide on the two.\<close>

theorem fingerprint_exact:
  assumes wf: "json_wf (fingerprint_payload q)" "json_wf (fingerprint_payload q')"
    and order: "key_order lc (json_keys (fingerprint_payload q) \<union> json_keys (fingerprint_payload q'))"
    and collision_free: "sha256 (canonicalJson lc (fingerprint_payload q)) = sha256 (canonicalJson lc (fingerprint_payload q')) \<Longrightarrow>
      canonicalJson lc (fingerprint_payload q) = canonicalJson lc (fingerprint_payload q')"
  shows "fingerprintRequest lc sha256 q = fingerprintRequest lc sha256 q' \<longleftrightarrow>
    same_json (request_body q) (request_body q') \<and> same_json (request_params q) (request_params q') \<and>
    same_json (request_connection q) (request_connection q')"
proof -
  have "fingerprintRequest lc sha256 q = fingerprintRequest lc sha256 q' \<longleftrightarrow>
    same_json (fingerprint_payload q) (fingerprint_payload q')"
    using canonicalJson_exact [OF wf order] collision_free by (auto simp: fingerprintRequest_def)
  then show ?thesis by (simp add: fingerprint_payload_def)
qed

theorem fingerprint_exact_witness:
  "fingerprintRequest code_order id (demo_request demo_body) = fingerprintRequest code_order id (demo_request demo_body_reordered) \<and>
   fingerprintRequest code_order id (demo_request demo_body) \<noteq> fingerprintRequest code_order id (demo_request JNull)"
  using fingerprint_exact [of "demo_request demo_body" "demo_request demo_body_reordered" code_order id]
    fingerprint_exact [of "demo_request demo_body" "demo_request JNull" code_order id]
  by (simp add: code_order_keys fingerprint_payload_def request_body_def request_params_def request_connection_def
      demo_request_def demo_body_def demo_body_reordered_def num_chars_def insert_commute)

text \<open>A payment that is sent, and the same request once more.\<close>

abbreviation demo_begin :: "instant \<Rightarrow> ident \<Rightarrow> ident \<Rightarrow> IdemRepo \<Rightarrow> Interception \<times> IdemRepo" where
  "demo_begin now i op r \<equiv> begin_request code_order id ''pod'' now i op (demo_request JNull) r"

definition demo_index :: idem_index where
  "demo_index = (PRODUCAO, ''POST PixController.sendTransfer'', ''chave-0001'')"

definition demo_record :: "instant \<Rightarrow> ident \<Rightarrow> ident \<Rightarrow> IdempotencyRecord" where
  "demo_record now i op = new_record ''pod'' now i op PRODUCAO ''key1'' ''POST PixController.sendTransfer'' ''chave-0001''
     (fingerprintRequest code_order id (demo_request JNull)) 90 604800"

definition demo_execution :: "ident \<Rightarrow> ident \<Rightarrow> bool \<Rightarrow> Execution" where
  "demo_execution i op again = \<lparr>ex_index = demo_index, ex_record = i, ex_operation = op, ex_reconcile = again\<rparr>"

lemma demo_key: "js_trim ''chave-0001'' = ''chave-0001''" "key_format ''chave-0001''"
  by code_simp+

lemma demo_request_fields:
  "rq_headerKey (demo_request b) = Some ''chave-0001''" "rq_class (demo_request b) = pix_out"
  "rq_endpoint (demo_request b) = ''POST PixController.sendTransfer''" "rq_apiKey (demo_request b) = Some (''key1'', PRODUCAO)"
  by (simp_all add: demo_request_def)

lemma demo_claims:
  "im_records r = [] \<Longrightarrow> demo_begin now i op r =
     (Execute [(''Idempotency-Key'', ''chave-0001''), (''X-Baas-Operation-Id'', op)] (demo_execution i op False),
      r\<lparr>im_records := [(demo_index, demo_record now i op)]\<rparr>)"
  by (simp add: begin_request_def demo_request_fields demo_key idem_claim_def demo_index_def demo_record_def demo_execution_def
      DEFAULT_LEASE_SECONDS_def new_record_def Let_def)

text \<open>The steps of a closed run.\<close>

definition demo_state :: "instant \<Rightarrow> (idem_index \<times> IdempotencyRecord) list \<Rightarrow> ident list \<Rightarrow> Execution list \<Rightarrow>
    (idem_index \<times> ident) list \<Rightarrow> ident list \<Rightarrow> IdemSystem" where
  "demo_state now recs released running settled ids = \<lparr>sy_now = now, sy_repo = \<lparr>im_records = recs, im_released = released\<rparr>,
     sy_running = running, sy_settled = settled, sy_ids = ids\<rparr>"

abbreviation demo_reachable :: "bool \<Rightarrow> IdemSystem \<Rightarrow> bool" where
  "demo_reachable \<equiv> idem_reachable code_order id ''pod''"

lemma demo_arrive:
  assumes "demo_reachable timely (demo_state now recs released running settled ids)"
    and "demo_begin now i op \<lparr>im_records = recs, im_released = released\<rparr> =
      (Execute h ex, \<lparr>im_records = recs', im_released = released'\<rparr>)"
    and "i \<notin> set ids" "op \<notin> set ids"
  shows "demo_reachable timely (demo_state now recs' released' (running @ [ex]) settled (i # op # ids))"
proof -
  let ?s = "demo_state now recs released running settled ids"
  have "begin_request code_order id ''pod'' (sy_now ?s) i op (demo_request JNull) (sy_repo ?s) =
    (Execute h ex, \<lparr>im_records = recs', im_released = released'\<rparr>)" using assms(2) by (simp add: demo_state_def)
  from idem_reachable.step [OF assms(1) idem_step.arrive [OF this]] assms(3,4) show ?thesis
    by (simp add: demo_state_def started_def)
qed

lemma demo_leave:
  assumes "demo_reachable timely (demo_state now recs released running settled ids)" "ex \<in> set running"
    and "finish_request now ex res \<lparr>im_records = recs, im_released = released\<rparr> = \<lparr>im_records = recs', im_released = released'\<rparr>"
  shows "demo_reachable timely (demo_state now recs' released' (remove1 ex running)
    (settled @ (if settles res then [(ex_index ex, ex_operation ex)] else [])) ids)"
  using idem_reachable.step [OF assms(1) idem_step.leave [where ex = ex and res = res]] assms(2,3)
  by (simp add: demo_state_def)

lemma demo_start: "demo_reachable timely (demo_state 0 [] [] [] [] [])"
  using idem_reachable.start [of code_order id "''pod''" timely 0] by (simp add: idem_start_def demo_state_def)

lemma started_index:
  assumes "repo_ok r" "settled_ok r p" "ex \<in> set (started (fst (begin_request lc sha256 pod now i op q r)))"
  shows "fst p \<noteq> ex_index ex"
proof -
  obtain res r' where b: "begin_request lc sha256 pod now i op q r = (res, r')" by (cases "begin_request lc sha256 pod now i op q r")
  from begin_request_cases [OF assms(1) b] show ?thesis
    by cases (use assms(2,3) b in \<open>auto simp: settled_ok_def started_def\<close>)
qed

text \<open>C30: as long as handlers end within their leases, at any moment a key has at most one execution, a key is settled at
  most once, a settled key has no execution, and no request with its key starts one.\<close>

theorem key_settled_once:
  assumes "idem_reachable lc sha256 pod True s"
  shows "distinct (map ex_index (sy_running s)) \<and> distinct (map fst (sy_settled s)) \<and>
    fst ` set (sy_settled s) \<inter> ex_index ` set (sy_running s) = {} \<and>
    (\<forall>now i op q. fst ` set (sy_settled s) \<inter>
       ex_index ` set (started (fst (begin_request lc sha256 pod now i op q (sy_repo s)))) = {})"
proof -
  note ok = idem_reachable_ok [OF assms]
  have "fst p \<noteq> ex_index ex" if "p \<in> set (sy_settled s)" "ex \<in> set (sy_running s)" for p ex
    using idem_okD(3) [OF ok that(2)] idem_okD(5) [OF ok that(1)] by (auto simp: running_ok_def settled_ok_def)
  moreover have "fst p \<noteq> ex_index ex"
    if "p \<in> set (sy_settled s)" "ex \<in> set (started (fst (begin_request lc sha256 pod now i op q (sy_repo s))))" for p ex now i op q
    using started_index [OF idem_okD(1) [OF ok] idem_okD(5) [OF ok that(1)] that(2)] .
  ultimately show ?thesis using idem_okD(4,6) [OF ok] by blast
qed

definition demo_paid :: IdempotencyRecord where
  "demo_paid = (demo_record 0 ''r1'' ''op1'')\<lparr>ir_state := COMPLETED, ir_responseStatus := Some 201, ir_responseBody := None,
     ir_errorCode := None, ir_completedAt := Some 0, ir_leaseExpiresAt := None\<rparr>"

definition demo_end :: IdemSystem where
  "demo_end = demo_state 0 [(demo_index, demo_paid)] [] [] [(demo_index, ''op1'')] [''r1'', ''op1'']"

lemma demo_end_reachable: "demo_reachable timely demo_end"
proof -
  let ?ex = "demo_execution ''r1'' ''op1'' False"
  from demo_arrive [OF demo_start, of "''r1''" "''op1''"]
  have "demo_reachable timely (demo_state 0 [(demo_index, demo_record 0 ''r1'' ''op1'')] [] [?ex] [] [''r1'', ''op1''])"
    by (simp add: demo_claims)
  from demo_leave [OF this, of ?ex "Returned (Some 201) None" "[(demo_index, demo_paid)]" "[]"] show ?thesis
    by (simp add: finish_request_def idem_complete_def update_records_def demo_paid_def demo_record_def demo_end_def
        new_record_def demo_execution_def settles_def)
qed

theorem key_settled_once_witness:
  "sy_settled demo_end = [(demo_index, ''op1'')] \<and>
   started (fst (demo_begin 5 ''r2'' ''op2'' (sy_repo demo_end))) = [] \<and> idem_reachable code_order id ''pod'' True demo_end"
proof -
  have "begin_request code_order id ''pod'' 5 ''r2'' ''op2'' (demo_request JNull) (sy_repo demo_end) =
    (Replayed [(''Idempotency-Replayed'', ''true'')] 201 None, sy_repo demo_end)"
    by (simp add: begin_request_def demo_request_fields demo_key idem_claim_def demo_end_def demo_state_def demo_paid_def
        demo_record_def new_record_def demo_index_def resolveConflict_def Let_def)
  then show ?thesis
    using key_settled_once [OF demo_end_reachable] demo_end_reachable by (simp add: started_def demo_end_def demo_state_def)
qed

definition demo_stolen :: IdempotencyRecord where
  "demo_stolen = (demo_record 0 ''r1'' ''op1'')\<lparr>ir_leaseExpiresAt := Some 180000, ir_lockedBy := Some ''pod''\<rparr>"

definition demo_closed :: IdempotencyRecord where
  "demo_closed = demo_stolen\<lparr>ir_state := COMPLETED, ir_responseStatus := Some 201, ir_responseBody := None, ir_errorCode := None,
     ir_completedAt := Some 90000, ir_leaseExpiresAt := None\<rparr>"

lemma demo_steals:
  "demo_begin 90000 i op \<lparr>im_records = [(demo_index, demo_record 0 ''r1'' ''op1'')], im_released = rel\<rparr> =
    (Execute [(''X-Baas-Operation-Id'', ''op1'')] (demo_execution ''r1'' ''op1'' True),
     \<lparr>im_records = [(demo_index, demo_stolen)], im_released = rel\<rparr>)"
  by (simp add: begin_request_def demo_request_fields demo_key idem_claim_def demo_record_def new_record_def demo_index_def
      resolveConflict_def Let_def lease_alive_def lease_until_def stealLease_def demo_stolen_def demo_execution_def
      DEFAULT_LEASE_SECONDS_def)

text \<open>C31: a handler that fails after its lease has been stolen releases the record that the thief has settled: the same
  request is then executed a second time, under another operation and without enquiring first.\<close>

theorem late_failure_reopens_key:
  "\<exists>s. idem_reachable code_order id ''pod'' False s \<and> (demo_index, ''op1'') \<in> set (sy_settled s) \<and>
     demo_execution ''r3'' ''op3'' False \<in> set (sy_running s)"
proof -
  let ?e1 = "demo_execution ''r1'' ''op1'' False" and ?e2 = "demo_execution ''r1'' ''op1'' True"
    and ?ids1 = "[''r1'', ''op1'']" and ?ids2 = "[''r2'', ''op2'', ''r1'', ''op1'']"
  from demo_arrive [OF demo_start, of "''r1''" "''op1''"]
  have "demo_reachable False (demo_state 0 [(demo_index, demo_record 0 ''r1'' ''op1'')] [] [?e1] [] ?ids1)"
    by (simp add: demo_claims)
  from idem_reachable.step [OF this idem_step.tick [where t = 90000]]
  have "demo_reachable False (demo_state 90000 [(demo_index, demo_record 0 ''r1'' ''op1'')] [] [?e1] [] ?ids1)"
    by (simp add: demo_state_def)
  from demo_arrive [OF this demo_steals, of "''r2''" "''op2''"]
  have "demo_reachable False (demo_state 90000 [(demo_index, demo_stolen)] [] [?e1, ?e2] [] ?ids2)" by simp
  from demo_leave [OF this, of ?e2 "Returned (Some 201) None" "[(demo_index, demo_closed)]" "[]"]
  have "demo_reachable False (demo_state 90000 [(demo_index, demo_closed)] [] [?e1] [(demo_index, ''op1'')] ?ids2)"
    by (simp add: finish_request_def idem_complete_def update_records_def demo_closed_def demo_stolen_def demo_record_def
        new_record_def demo_execution_def settles_def)
  from demo_leave [OF this, of ?e1 ThrewOther "[]" "[''r1'']"]
  have "demo_reachable False (demo_state 90000 [] [''r1''] [] [(demo_index, ''op1'')] ?ids2)"
    by (simp add: finish_request_def onFailure_def idem_release_def demo_closed_def demo_stolen_def demo_record_def
        new_record_def demo_execution_def settles_def)
  from demo_arrive [OF this, of "''r3''" "''op3''"]
  have "demo_reachable False (demo_state 90000 [(demo_index, demo_record 90000 ''r3'' ''op3'')] [''r1''] [demo_execution ''r3'' ''op3'' False]
    [(demo_index, ''op1'')] ([''r3'', ''op3''] @ ?ids2))"
    by (simp add: demo_claims)
  then show ?thesis by (intro exI conjI) (auto simp: demo_state_def)
qed

end
