(* ===== verification/Redaction.thy ===== *)
theory Redaction
  imports Json Br_Properties
begin

text \<open>
  Redaction of what leaves the adapter kit, \<open>src/packages/adapter-kit/src/redaction.ts\<close>: the rules, the masks, the walk over
  a payload and the headers of a call.  SHA-256 in hexadecimal is a parameter.
\<close>

section \<open>Rules\<close>

record RedactionRules =
  maskPaths :: "string list"
  hashPaths :: "string list"
  dropPaths :: "string list"
  maskHeaders :: "string list"
  dropHeaders :: "string list"
  maxBodyBytes :: nat

definition REDACTED :: string where "REDACTED = ''[REDACTED]''"

definition BASE_REDACTION :: RedactionRules where
  "BASE_REDACTION =
     \<lparr>maskPaths = [''*.cpf'', ''*.cnpj'', ''*.taxId'', ''*.tax_id'', ''*.documentNumber'', ''*.document'', ''*.password'', ''*.secret'',
        ''*.clientSecret'', ''*.client_secret'', ''*.accessToken'', ''*.access_token'', ''*.refreshToken'', ''*.refresh_token'',
        ''*.apiKey'', ''*.api_key'', ''*.privateKey'', ''*.private_key'', ''*.cardNumber'', ''*.cvv'', ''*.motherName'',
        ''*.mother_name'', ''*.birthDate'', ''*.birth_date'', ''*.email'', ''*.phone'', ''*.phoneNumber'', ''*.phone_number'',
        ''*.address'', ''*.street'', ''*.postalCode'', ''*.postal_code''],
      hashPaths = [''*.pixKey'', ''*.pix_key'', ''*.chave'', ''*.accountNumber'', ''*.account_number''],
      dropPaths = [''*.fileContent'', ''*.base64'', ''*.imageBase64'', ''*.qrCodeBase64'', ''*.content''],
      maskHeaders = [''authorization'', ''x-api-key'', ''x-signature'', ''access_token'', ''apikey'', ''cookie'', ''set-cookie'',
        ''asaas-access-token'', ''x-baas-signature''],
      dropHeaders = [], maxBodyBytes = 8192\<rparr>"

text \<open>\<open>Partial<RedactionRules>\<close>: absent members are \<open>None\<close>.\<close>

record ExtraRules =
  xr_maskPaths :: "string list option"
  xr_hashPaths :: "string list option"
  xr_dropPaths :: "string list option"
  xr_headers :: "(string list \<times> string list) option"
  xr_maxBodyBytes :: "nat option"

definition list_or_empty :: "'a list option \<Rightarrow> 'a list" where
  "list_or_empty v = (case v of Some xs \<Rightarrow> xs | None \<Rightarrow> [])"

definition extendRedaction :: "RedactionRules \<Rightarrow> ExtraRules \<Rightarrow> RedactionRules" where
  "extendRedaction base extra =
     \<lparr>maskPaths = maskPaths base @ list_or_empty (xr_maskPaths extra),
      hashPaths = hashPaths base @ list_or_empty (xr_hashPaths extra),
      dropPaths = dropPaths base @ list_or_empty (xr_dropPaths extra),
      maskHeaders = maskHeaders base @ list_or_empty (map_option fst (xr_headers extra)),
      dropHeaders = dropHeaders base @ list_or_empty (map_option snd (xr_headers extra)),
      maxBodyBytes = (case xr_maxBodyBytes extra of Some n \<Rightarrow> n | None \<Rightarrow> maxBodyBytes base)\<rparr>"

section \<open>Masks\<close>

definition sha256Short :: "(string \<Rightarrow> string) \<Rightarrow> string \<Rightarrow> string" where
  "sha256Short sha256 v = ''sha256:'' @ take 16 (sha256 v)"

definition maskEmail :: "string \<Rightarrow> string" where
  "maskEmail v =
     (let parts = js_split (CHR ''@'') v; local_part = parts ! 0; domain = parts ! 1
      in take 1 local_part @ stars (max (length local_part - 1) 1) @ ''@'' @ domain)"

definition maskText :: "string \<Rightarrow> string" where
  "maskText v =
     (if CHR ''@'' \<in> set v then maskEmail v
      else (let digits = filter is_digit v in
        if length digits = 11 \<or> length digits = 14 then
          map (\<lambda>c. if is_digit c then CHR ''*'' else c) (take (length v - 6) v) @ slice_last 6 v
        else if length v \<le> 4 then REDACTED
        else stars (length v - 4) @ slice_last 4 v))"

definition maskValue :: "Json \<Rightarrow> string" where
  "maskValue v = (case v of JStr s \<Rightarrow> maskText s | _ \<Rightarrow> REDACTED)"

section \<open>Paths\<close>

text \<open>\<open>path[i] === s\<close>, with \<open>undefined\<close> beyond the end.\<close>

definition at_path :: "string list \<Rightarrow> nat \<Rightarrow> string \<Rightarrow> bool" where
  "at_path path i s \<longleftrightarrow> i < length path \<and> path ! i = s"

definition all_at :: "string list \<Rightarrow> nat \<Rightarrow> string list \<Rightarrow> bool" where
  "all_at path i ss \<longleftrightarrow> list_all (\<lambda>j. at_path path (i + j) (ss ! j)) [0..<length ss]"

definition path_matches :: "string \<Rightarrow> string list \<Rightarrow> bool" where
  "path_matches pattern path =
     (let segments = js_split (CHR ''.'') pattern in
      if hd segments = ''*'' then
        (let rest = tl segments in
         if rest = [] then True
         else if last rest = ''*'' then list_ex (\<lambda>i. all_at path i (butlast rest)) [0..<length path]
         else length path \<ge> length rest \<and> all_at path (length path - length rest) rest)
      else length segments = length path \<and>
        list_all (\<lambda>i. segments ! i = ''*'' \<or> path ! i = segments ! i) [0..<length segments])"

definition some_matches :: "string list \<Rightarrow> string list \<Rightarrow> bool" where
  "some_matches patterns path \<longleftrightarrow> list_ex (\<lambda>p. path_matches p path) patterns"

section \<open>The walk\<close>

text \<open>One property of an object, whose value \<open>walked\<close> is what the walk below it gives.\<close>

definition redact_entry ::
  "(string \<Rightarrow> string) \<Rightarrow> RedactionRules \<Rightarrow> string list \<Rightarrow> string \<Rightarrow> Json \<Rightarrow> Json \<Rightarrow> (string \<times> Json) list" where
  "redact_entry sha256 rules childPath key child walked =
     (if some_matches (dropPaths rules) childPath then []
      else if some_matches (hashPaths rules) childPath then
        [(key, JStr (case child of JStr s \<Rightarrow> sha256Short sha256 s | _ \<Rightarrow> REDACTED))]
      else if some_matches (maskPaths rules) childPath then
        [(key, JStr (case child of JObj _ \<Rightarrow> REDACTED | JArr _ \<Rightarrow> REDACTED | _ \<Rightarrow> maskValue child))]
      else [(key, walked)])"

lemma json_size_mem [simp]:
  "x \<in> set xs \<Longrightarrow> size x < Suc (size_list size xs)"
  "(k, x) \<in> set kvs \<Longrightarrow> size x < Suc (size_list (size_prod (\<lambda>_. 0) size) kvs)"
  by (auto simp: less_Suc_eq_le intro!: size_list_estimation')

function (sequential) redact_walk :: "(string \<Rightarrow> string) \<Rightarrow> RedactionRules \<Rightarrow> string list \<Rightarrow> Json \<Rightarrow> Json" where
  "redact_walk sha256 rules path (JArr xs) =
     JArr (map (\<lambda>(i, x). redact_walk sha256 rules (path @ [show_nat i]) x) (zip [0..<length xs] xs))"
| "redact_walk sha256 rules path (JObj kvs) =
     JObj (concat (map (\<lambda>(key, child). redact_entry sha256 rules (path @ [key]) key child
       (redact_walk sha256 rules (path @ [key]) child)) kvs))"
| "redact_walk sha256 rules path v = v"
  by pat_completeness auto
termination
  by (relation "measure (\<lambda>(sha256, rules, path, v). size v)") (auto dest!: set_zip_rightD)

definition redact :: "(string \<Rightarrow> string) \<Rightarrow> RedactionRules \<Rightarrow> Json \<Rightarrow> Json" where
  "redact sha256 rules v =
     (let redacted = redact_walk sha256 rules [] v; serialized = json_text redacted in
      if length serialized > maxBodyBytes rules then
        JObj [(''_truncated'', JBool True), (''_originalBytes'', JNum (show_nat (length serialized))),
          (''_digest'', JStr (sha256Short sha256 serialized)), (''preview'', JStr (take (maxBodyBytes rules) serialized))]
      else redacted)"

text \<open>A header's value: absent, one or several.\<close>

datatype HeaderValue = Absent | One string | Many "string list"

fun join_comma :: "string list \<Rightarrow> string" where
  "join_comma [] = []"
| "join_comma [x] = x"
| "join_comma (x # y # ys) = x @ '', '' @ join_comma (y # ys)"

definition redact_header :: "RedactionRules \<Rightarrow> (string, string) jsmap \<Rightarrow> string \<times> HeaderValue \<Rightarrow> (string, string) jsmap" where
  "redact_header rules out h =
     (case h of (rawKey, v) \<Rightarrow>
        (let key = map js_lower rawKey in
         if key \<in> set (dropHeaders rules) then out
         else (case v of
                 Absent \<Rightarrow> out
               | One s \<Rightarrow> map_set key (if key \<in> set (maskHeaders rules) then REDACTED else s) out
               | Many ss \<Rightarrow> map_set key (if key \<in> set (maskHeaders rules) then REDACTED else join_comma ss) out)))"

definition redactHeaders :: "RedactionRules \<Rightarrow> (string \<times> HeaderValue) list \<Rightarrow> (string, string) jsmap" where
  "redactHeaders rules headers = foldl (redact_header rules) [] headers"

section \<open>What a mask leaves\<close>

text \<open>The text of a masked field: nothing, at most the last four characters, at most the last six of a document whose other digits
  are stars, or the first letter and the domain of an e-mail address.\<close>

definition masked_text :: "string \<Rightarrow> bool" where
  "masked_text s \<longleftrightarrow> s = REDACTED \<or>
     (\<exists>n t. s = stars n @ t \<and> 1 \<le> n \<and> length t \<le> 4) \<or>
     (\<exists>h t. s = h @ t \<and> length t \<le> 6 \<and> filter is_digit h = [] \<and> 5 \<le> length (filter (\<lambda>c. c = CHR ''*'') h)) \<or>
     (\<exists>c n d. s = c @ stars n @ ''@'' @ d \<and> length c \<le> 1 \<and> 1 \<le> n \<and> CHR ''@'' \<notin> set d)"

lemma masked_textI:
  "masked_text REDACTED"
  "1 \<le> n \<Longrightarrow> length t \<le> 4 \<Longrightarrow> masked_text (stars n @ t)"
  "length t \<le> 6 \<Longrightarrow> filter is_digit h = [] \<Longrightarrow> 5 \<le> length (filter (\<lambda>c. c = CHR ''*'') h) \<Longrightarrow> masked_text (h @ t)"
  "length c \<le> 1 \<Longrightarrow> 1 \<le> n \<Longrightarrow> CHR ''@'' \<notin> set d \<Longrightarrow> masked_text (c @ stars n @ ''@'' @ d)"
  unfolding masked_text_def by blast+

lemma slice_last_split: "take (length v - n) v @ slice_last n v = v" "length (slice_last n v) \<le> n"
  by (simp_all add: slice_last_def)

lemma digits_to_stars:
  "filter is_digit (map (\<lambda>c. if is_digit c then CHR ''*'' else c) xs) = []"
  "length (filter is_digit xs) \<le> length (filter (\<lambda>c. c = CHR ''*'') (map (\<lambda>c. if is_digit c then CHR ''*'' else c) xs))"
  by (induction xs) (auto simp: is_digit_def)

lemma document_masked:
  assumes "11 \<le> length (filter is_digit v)"
  shows "masked_text (map (\<lambda>c. if is_digit c then CHR ''*'' else c) (take (length v - 6) v) @ slice_last 6 v)"
proof -
  let ?h = "take (length v - 6) v"
  have "length (filter is_digit v) = length (filter is_digit ?h) + length (filter is_digit (slice_last 6 v))"
    by (metis slice_last_split(1) filter_append length_append)
  moreover have "length (filter is_digit (slice_last 6 v)) \<le> 6"
    using length_filter_le slice_last_split(2) by (rule order_trans)
  ultimately have "5 \<le> length (filter is_digit ?h)" using assms by linarith
  then show ?thesis
    by (intro masked_textI(3) slice_last_split(2) digits_to_stars(1) order_trans [OF _ digits_to_stars(2)])
qed

lemma js_split_parts: "w \<in> set (js_split sep s) \<Longrightarrow> sep \<notin> set w"
  by (induction s arbitrary: w) (auto split: if_splits list.splits)

lemma js_split_two: "sep \<in> set s \<Longrightarrow> 2 \<le> length (js_split sep s)"
proof (induction s)
  case (Cons c s)
  have "js_split sep s \<noteq> []" by (induction s) (auto split: list.split)
  with Cons show ?case by (auto split: list.split simp: neq_Nil_conv)
qed simp

lemma maskEmail_masked:
  assumes "CHR ''@'' \<in> set v"
  shows "masked_text (maskEmail v)"
proof -
  let ?p = "js_split (CHR ''@'') v"
  have "CHR ''@'' \<notin> set (?p ! 1)" using js_split_two [OF assms] by (intro js_split_parts) (auto intro: nth_mem)
  then show ?thesis unfolding maskEmail_def Let_def by (intro masked_textI(4)) simp_all
qed

lemma maskText_masked: "masked_text (maskText v)"
proof (cases "CHR ''@'' \<in> set v")
  case True
  then show ?thesis by (simp add: maskText_def maskEmail_masked)
next
  case False
  have "masked_text (stars (length v - 4) @ slice_last 4 v)" if "\<not> length v \<le> 4"
    using that by (intro masked_textI(2) slice_last_split(2)) linarith
  moreover have "masked_text (map (\<lambda>c. if is_digit c then CHR ''*'' else c) (take (length v - 6) v) @ slice_last 6 v)"
    if "length (filter is_digit v) = 11 \<or> length (filter is_digit v) = 14"
    using that by (intro document_masked) linarith
  ultimately show ?thesis using False masked_textI(1) unfolding maskText_def Let_def by (simp split: if_split)
qed

lemma maskValue_masked: "masked_text (maskValue v)"
  using maskText_masked masked_textI(1) by (cases v) (simp_all add: maskValue_def)

text \<open>Everything below \<open>path\<close> respects the rules.\<close>

definition entry_ok :: "(string \<Rightarrow> string) \<Rightarrow> RedactionRules \<Rightarrow> string list \<Rightarrow> Json \<Rightarrow> bool \<Rightarrow> bool" where
  "entry_ok sha256 rules childPath child below \<longleftrightarrow> \<not> some_matches (dropPaths rules) childPath \<and>
     (if some_matches (hashPaths rules) childPath then
        (case child of JStr s \<Rightarrow> s = REDACTED \<or> (\<exists>x. s = ''sha256:'' @ take 16 (sha256 x)) | _ \<Rightarrow> False)
      else if some_matches (maskPaths rules) childPath then (case child of JStr s \<Rightarrow> masked_text s | _ \<Rightarrow> False)
      else below)"

lemma redact_entry_ok:
  "(k, v) \<in> set (redact_entry sha256 rules p key child walked) \<Longrightarrow> (v = walked \<Longrightarrow> below) \<Longrightarrow> k = key \<and> entry_ok sha256 rules p v below"
  by (cases child)
    (auto simp: redact_entry_def entry_ok_def sha256Short_def maskValue_masked masked_textI(1) split: if_splits)

function (sequential) redacted_ok :: "(string \<Rightarrow> string) \<Rightarrow> RedactionRules \<Rightarrow> string list \<Rightarrow> Json \<Rightarrow> bool" where
  "redacted_ok sha256 rules path (JArr xs) \<longleftrightarrow>
     list_all (\<lambda>(i, x). redacted_ok sha256 rules (path @ [show_nat i]) x) (zip [0..<length xs] xs)"
| "redacted_ok sha256 rules path (JObj kvs) \<longleftrightarrow>
     list_all (\<lambda>(key, child). entry_ok sha256 rules (path @ [key]) child (redacted_ok sha256 rules (path @ [key]) child)) kvs"
| "redacted_ok sha256 rules path v \<longleftrightarrow> True"
  by pat_completeness auto
termination
  by (relation "measure (\<lambda>(sha256, rules, path, v). size v)") (auto dest!: set_zip_rightD)

lemma redact_walk_ok: "redacted_ok sha256 rules path (redact_walk sha256 rules path v)"
proof (induction sha256 rules path v rule: redact_walk.induct)
  case (1 sha256 rules path xs)
  have "redacted_ok sha256 rules (path @ [show_nat n]) (redact_walk sha256 rules (path @ [show_nat n]) (xs ! n))" if "n < length xs" for n
    by (rule 1 [OF _ refl]) (use that in \<open>auto simp: in_set_zip intro!: exI [of _ n]\<close>)
  then show ?case by (simp add: list_all_length)
next
  case (2 sha256 rules path kvs)
  have "entry_ok sha256 rules (path @ [k]) v (redacted_ok sha256 rules (path @ [k]) v)"
    if c: "(key, child) \<in> set kvs"
      and v: "(k, v) \<in> set (redact_entry sha256 rules (path @ [key]) key child (redact_walk sha256 rules (path @ [key]) child))"
    for key child k v
    using redact_entry_ok [OF v, of "redacted_ok sha256 rules (path @ [key]) v"] 2 [OF c refl] by auto
  then show ?case by (auto simp: list_all_iff)
qed auto

text \<open>Under whatever spelling a header is recorded, its name is not one that is dropped, and its value is replaced when its name is
  protected.\<close>

definition headers_ok :: "RedactionRules \<Rightarrow> (string, string) jsmap \<Rightarrow> bool" where
  "headers_ok rules out \<longleftrightarrow>
     list_all (\<lambda>(k, s). map js_lower k \<notin> set (dropHeaders rules) \<and> (map js_lower k \<in> set (maskHeaders rules) \<longrightarrow> s = REDACTED)) out"

lemma headers_ok_set:
  "headers_ok rules out \<Longrightarrow> map js_lower k \<notin> set (dropHeaders rules) \<Longrightarrow> (map js_lower k \<in> set (maskHeaders rules) \<longrightarrow> s = REDACTED) \<Longrightarrow>
   headers_ok rules (map_set k s out)"
  by (induction out) (auto simp: headers_ok_def)

lemma lower_twice [simp]: "map js_lower (map js_lower s) = map js_lower s"
  by (simp add: comp_def)

lemma redact_header_ok: "headers_ok rules out \<Longrightarrow> headers_ok rules (redact_header rules out h)"
  by (auto simp: redact_header_def Let_def comp_def intro!: headers_ok_set split: prod.split HeaderValue.split)

lemma redactHeaders_ok: "headers_ok rules (redactHeaders rules hs)"
proof -
  have "headers_ok rules out \<Longrightarrow> headers_ok rules (foldl (redact_header rules) out hs)" for out
    by (induction hs arbitrary: out) (auto intro: redact_header_ok)
  from this [of "[]"] show ?thesis by (simp add: redactHeaders_def headers_ok_def)
qed

end
