(* ===== verification/Http_Client.thy ===== *)
theory Http_Client
  imports Redaction Canonical_Errors Webhook_Signature
begin

text \<open>
  Calls to a provider, \<open>src/packages/adapter-kit/src\<close>: the circuit breaker (\<open>circuit-breaker.ts\<close>), what is retried and
  after how long (\<open>retry.ts\<close>), the mapping of a provider's errors (\<open>errors/mapper.ts\<close>) and the client that puts them
  together (\<open>http/client.ts\<close>).

  The network, the clock and the strategy of authentication act on a state \<open>'n\<close> and are parameters, as are \<open>JSON.parse\<close>,
  \<open>Date.parse\<close>, the resolution of a URL, the encoding of a form and SHA-256.  Sending and reading the body are one exchange:
  what either throws takes the same path.  The callback that receives the record of a call is taken not to throw.  The
  exchanges are kept for the properties.
\<close>

section \<open>circuit-breaker.ts\<close>

record BreakerPolicy =
  minimumRequests :: int
  failureRatio :: rat
  windowMs :: int
  openMs :: int
  halfOpenProbes :: int

definition DEFAULT_BREAKER_POLICY :: BreakerPolicy where
  "DEFAULT_BREAKER_POLICY =
     \<lparr>minimumRequests = 20, failureRatio = 1 / 2, windowMs = 60000, openMs = 30000, halfOpenProbes = 3\<rparr>"

record BreakerBucket =
  bb_successes :: int
  bb_failures :: int
  bb_windowStart :: instant
  bb_openedAt :: "instant option"
  bb_probesInFlight :: int

type_synonym breaker = "(string, BreakerBucket) jsmap"

datatype CircuitState = CLOSED | OPEN | HALF_OPEN

definition breaker_bucket :: "BreakerPolicy \<Rightarrow> instant \<Rightarrow> string \<Rightarrow> breaker \<Rightarrow> BreakerBucket \<times> breaker" where
  "breaker_bucket p now key b =
     (let existing = map_get b key;
          fresh = \<lparr>bb_successes = 0, bb_failures = 0, bb_windowStart = now,
            bb_openedAt = (case existing of Some e \<Rightarrow> bb_openedAt e | None \<Rightarrow> None), bb_probesInFlight = 0\<rparr>
      in (case existing of
            Some e \<Rightarrow> if now - bb_windowStart e > windowMs p then (fresh, map_set key fresh b) else (e, b)
          | None \<Rightarrow> (fresh, map_set key fresh b)))"

definition breaker_state :: "BreakerPolicy \<Rightarrow> instant \<Rightarrow> string \<Rightarrow> breaker \<Rightarrow> CircuitState \<times> breaker" where
  "breaker_state p now key b =
     (case breaker_bucket p now key b of
        (bucket, b') \<Rightarrow>
          (case bb_openedAt bucket of
             None \<Rightarrow> (CLOSED, b')
           | Some t \<Rightarrow> (if now - t \<ge> openMs p then HALF_OPEN else OPEN, b')))"

definition ceil_div :: "int \<Rightarrow> int \<Rightarrow> int" where
  "ceil_div a n = - ((- a) div n)"

definition circuit_open_error :: "BreakerPolicy \<Rightarrow> instant \<Rightarrow> string \<Rightarrow> BreakerBucket \<Rightarrow> BaasError" where
  "circuit_open_error p now key bucket =
     (let retryAfter = ceil_div (openMs p - (now - (case bb_openedAt bucket of Some t \<Rightarrow> t | None \<Rightarrow> 0))) 1000
      in new_BaasError PROVIDER_CIRCUIT_OPEN (no_init\<lparr>
           in_message := Some (''Circuito aberto para '' @ key @ ''; chamadas suspensas temporariamente''),
           in_retryAfterSeconds := Some (max retryAfter 1), in_meta := Some [(''breakerKey'', JStr key)]\<rparr>))"

definition assertClosed :: "BreakerPolicy \<Rightarrow> instant \<Rightarrow> string \<Rightarrow> breaker \<Rightarrow> (BaasError + unit) \<times> breaker" where
  "assertClosed p now key b =
     (case breaker_state p now key b of
        (st, b1) \<Rightarrow>
          if st = CLOSED then (Inr (), b1)
          else (case breaker_bucket p now key b1 of
                  (bucket, b2) \<Rightarrow>
                    if st = HALF_OPEN \<and> bb_probesInFlight bucket < halfOpenProbes p then
                      (Inr (), map_set key (bucket\<lparr>bb_probesInFlight := bb_probesInFlight bucket + 1\<rparr>) b2)
                    else (Inl (circuit_open_error p now key bucket), b2)))"

definition recordSuccess :: "BreakerPolicy \<Rightarrow> instant \<Rightarrow> string \<Rightarrow> breaker \<Rightarrow> breaker" where
  "recordSuccess p now key b =
     (case breaker_bucket p now key b of
        (bucket, b') \<Rightarrow>
          (let counted = bucket\<lparr>bb_successes := bb_successes bucket + 1, bb_probesInFlight := max 0 (bb_probesInFlight bucket - 1)\<rparr>
           in map_set key
                (case bb_openedAt counted of
                   Some t \<Rightarrow>
                     if now - t \<ge> openMs p then
                       counted\<lparr>bb_openedAt := None, bb_failures := 0, bb_successes := 0, bb_windowStart := now\<rparr>
                     else counted
                 | None \<Rightarrow> counted) b'))"

definition recordFailure :: "BreakerPolicy \<Rightarrow> instant \<Rightarrow> string \<Rightarrow> breaker \<Rightarrow> breaker" where
  "recordFailure p now key b =
     (case breaker_bucket p now key b of
        (bucket, b') \<Rightarrow>
          (let counted = bucket\<lparr>bb_failures := bb_failures bucket + 1, bb_probesInFlight := max 0 (bb_probesInFlight bucket - 1)\<rparr>;
               total = bb_successes counted + bb_failures counted
           in map_set key
                (if total < minimumRequests p then counted
                 else if of_int (bb_failures counted) / of_int total \<ge> failureRatio p then counted\<lparr>bb_openedAt := Some now\<rparr>
                 else counted) b'))"

definition breakerKey :: "string \<Rightarrow> string \<Rightarrow> string \<Rightarrow> string" where
  "breakerKey provider environment endpointClass = provider @ '':'' @ environment @ '':'' @ endpointClass"

section \<open>retry.ts\<close>

datatype TimeoutPhase = Connect_phase | Headers_phase | Body_phase

datatype AttemptOutcome =
    HttpOutcome int "rat option"
  | NetworkOutcome "string option"
  | TimeoutOutcome TimeoutPhase

record RetryPolicy =
  maxAttempts :: nat
  baseDelayMs :: rat
  maxDelayMs :: rat
  respectRetryAfter :: bool
  maxRetryAfterSeconds :: rat
  shouldRetry :: "AttemptOutcome \<Rightarrow> bool"

fun DEFAULT_SHOULD_RETRY :: "AttemptOutcome \<Rightarrow> bool" where
  "DEFAULT_SHOULD_RETRY (NetworkOutcome c) = True"
| "DEFAULT_SHOULD_RETRY (TimeoutOutcome ph) = (ph = Connect_phase)"
| "DEFAULT_SHOULD_RETRY (HttpOutcome status ra) = (status = 408 \<or> status = 429 \<or> status \<ge> 500)"

definition DEFAULT_RETRY_POLICY :: RetryPolicy where
  "DEFAULT_RETRY_POLICY = \<lparr>maxAttempts = 3, baseDelayMs = 200, maxDelayMs = 4000, respectRetryAfter = True,
     maxRetryAfterSeconds = 30, shouldRetry = DEFAULT_SHOULD_RETRY\<rparr>"

fun isProvablyPreCommit :: "AttemptOutcome \<Rightarrow> bool" where
  "isProvablyPreCommit (TimeoutOutcome ph) = (ph = Connect_phase)"
| "isProvablyPreCommit (NetworkOutcome code) =
     (code = Some ''ECONNREFUSED'' \<or> code = Some ''ENOTFOUND'' \<or> code = Some ''EAI_AGAIN'')"
| "isProvablyPreCommit (HttpOutcome status ra) = (status = 429 \<or> status = 503)"

definition backoff :: "nat \<Rightarrow> RetryPolicy \<Rightarrow> rat \<Rightarrow> rat" where
  "backoff attempt policy random = of_int \<lfloor>random * min (maxDelayMs policy) (baseDelayMs policy * 2 ^ attempt)\<rfloor>"

definition computeDelayMs :: "nat \<Rightarrow> RetryPolicy \<Rightarrow> AttemptOutcome \<Rightarrow> rat \<Rightarrow> rat" where
  "computeDelayMs attempt policy res random =
     (case res of
        HttpOutcome status (Some ra) \<Rightarrow>
          if respectRetryAfter policy then min ra (maxRetryAfterSeconds policy) * 1000 else backoff attempt policy random
      | _ \<Rightarrow> backoff attempt policy random)"

definition parseRetryAfter :: "(string \<Rightarrow> int option) \<Rightarrow> instant \<Rightarrow> string option \<Rightarrow> rat option" where
  "parseRetryAfter parse_date now header =
     (case header of
        None \<Rightarrow> None
      | Some [] \<Rightarrow> None
      | Some h \<Rightarrow>
          (let by_date = (case parse_date h of None \<Rightarrow> None | Some d \<Rightarrow> Some (of_int (max 0 (ceil_div (d - now) 1000))))
           in case js_Number h of Num s \<Rightarrow> if s \<ge> 0 then Some s else by_date | _ \<Rightarrow> by_date))"

fun outcomeToErrorCode :: "AttemptOutcome \<Rightarrow> BaasErrorCode" where
  "outcomeToErrorCode (TimeoutOutcome ph) = PROVIDER_TIMEOUT"
| "outcomeToErrorCode (NetworkOutcome code) = PROVIDER_UNAVAILABLE"
| "outcomeToErrorCode (HttpOutcome status ra) =
     (if status = 429 then PROVIDER_RATE_LIMITED
      else if status = 401 \<or> status = 403 then PROVIDER_CREDENTIALS_INVALID
      else if status \<ge> 500 then PROVIDER_UNAVAILABLE
      else PROVIDER_REJECTED)"

section \<open>errors/mapper.ts\<close>

datatype StatusMatch = AnyStatus | ExactStatus int | StatusIn "int list" | StatusTest "int \<Rightarrow> bool"
datatype CodeMatch = AnyCode | ExactCode string | CodeIn "string list" | CodeTest "string \<Rightarrow> bool"

record ErrorMatch =
  em_status :: StatusMatch
  em_code :: CodeMatch
  em_codePath :: "string option"
  em_messageMatch :: "(string \<Rightarrow> bool) option"

record ErrorMapping =
  mp_when :: ErrorMatch
  mp_to :: BaasErrorCode
  mp_retryable :: "bool option"
  mp_safeToRetry :: "bool option"
  mp_details :: "(Json option \<Rightarrow> ErrorDetail list option) option"

definition COMMON_CODE_PATHS :: "string list" where
  "COMMON_CODE_PATHS = [''error.code'', ''error.errorCode'', ''errorCode'', ''code'', ''error'', ''errors.0.code'', ''data.error.code'']"

definition COMMON_MESSAGE_PATHS :: "string list" where
  "COMMON_MESSAGE_PATHS = [''error.message'', ''message'', ''error_description'', ''errors.0.description'', ''errors.0.message'', ''detail'']"

text \<open>Own properties of an object and elements of an array.\<close>

definition json_prop :: "Json option \<Rightarrow> string \<Rightarrow> Json option" where
  "json_prop node segment =
     (case node of
        Some (JObj kvs) \<Rightarrow> map_of kvs segment
      | Some (JArr xs) \<Rightarrow> map_of (map (\<lambda>i. (show_nat i, xs ! i)) [0..<length xs]) segment
      | _ \<Rightarrow> None)"

definition readPath :: "Json option \<Rightarrow> string \<Rightarrow> Json option" where
  "readPath source path = foldl json_prop source (js_split (CHR ''.'') path)"

fun firstString :: "Json option \<Rightarrow> string list \<Rightarrow> string option" where
  "firstString source [] = None"
| "firstString source (path # paths) =
     (case readPath source path of
        Some (JStr (c # s)) \<Rightarrow> Some (c # s)
      | Some (JNum t) \<Rightarrow> Some t
      | _ \<Rightarrow> firstString source paths)"

text \<open>An empty \<open>codePath\<close> is falsy.\<close>

definition extractProviderCode :: "Json option \<Rightarrow> string option \<Rightarrow> string option" where
  "extractProviderCode body codePath =
     (case nonempty codePath of Some p \<Rightarrow> firstString body [p] | None \<Rightarrow> firstString body COMMON_CODE_PATHS)"

definition extractProviderMessage :: "Json option \<Rightarrow> string option" where
  "extractProviderMessage body = firstString body COMMON_MESSAGE_PATHS"

fun statusMatches :: "StatusMatch \<Rightarrow> int \<Rightarrow> bool" where
  "statusMatches AnyStatus status = True"
| "statusMatches (ExactStatus n) status = (n = status)"
| "statusMatches (StatusTest f) status = f status"
| "statusMatches (StatusIn ns) status = (status \<in> set ns)"

fun codeMatches :: "CodeMatch \<Rightarrow> string option \<Rightarrow> bool" where
  "codeMatches AnyCode code = True"
| "codeMatches m None = False"
| "codeMatches (ExactCode c) (Some code) = (c = code)"
| "codeMatches (CodeTest f) (Some code) = f code"
| "codeMatches (CodeIn cs) (Some code) = (code \<in> set cs)"

record MapErrorInput =
  mi_status :: int
  mi_body :: "Json option"
  mi_providerSlug :: string
  mi_requestId :: "string option"

definition mapping_applies :: "ErrorMapping \<Rightarrow> MapErrorInput \<Rightarrow> string option \<Rightarrow> string option \<Rightarrow> bool" where
  "mapping_applies m i code message =
     (let when = mp_when m;
          providerCode = (case nonempty (em_codePath when) of Some p \<Rightarrow> extractProviderCode (mi_body i) (Some p) | None \<Rightarrow> code)
      in statusMatches (em_status when) (mi_status i) \<and> codeMatches (em_code when) providerCode \<and>
         (case em_messageMatch when of None \<Rightarrow> True | Some f \<Rightarrow> (case nonempty message of Some t \<Rightarrow> f t | None \<Rightarrow> False)))"

definition buildErrorMapper :: "ErrorMapping list \<Rightarrow> BaasErrorCode \<Rightarrow> MapErrorInput \<Rightarrow> BaasError" where
  "buildErrorMapper mappings fallback i =
     (let code = extractProviderCode (mi_body i) None; message = extractProviderMessage (mi_body i);
          provider = \<lparr>pe_slug = mi_providerSlug i, pe_code = code, pe_message = message, pe_httpStatus = Some (mi_status i),
            pe_requestId = mi_requestId i\<rparr>
      in (case find (\<lambda>m. mapping_applies m i code message) mappings of
            Some m \<Rightarrow> new_BaasError (mp_to m) (no_init\<lparr>in_provider := Some provider, in_requestId := mi_requestId i,
              in_retryable := mp_retryable m, in_safeToRetry := mp_safeToRetry m,
              in_details := (case mp_details m of Some f \<Rightarrow> f (mi_body i) | None \<Rightarrow> None)\<rparr>)
          | None \<Rightarrow> new_BaasError fallback (no_init\<lparr>in_provider := Some provider, in_requestId := mi_requestId i\<rparr>)))"

definition when_status :: "StatusMatch \<Rightarrow> BaasErrorCode \<Rightarrow> bool option \<Rightarrow> bool option \<Rightarrow> ErrorMapping" where
  "when_status m c r s = \<lparr>mp_when = \<lparr>em_status = m, em_code = AnyCode, em_codePath = None, em_messageMatch = None\<rparr>,
     mp_to = c, mp_retryable = r, mp_safeToRetry = s, mp_details = None\<rparr>"

definition COMMON_ERROR_MAPPINGS :: "ErrorMapping list" where
  "COMMON_ERROR_MAPPINGS =
     [when_status (ExactStatus 401) PROVIDER_CREDENTIALS_INVALID None None,
      when_status (ExactStatus 403) AUTHORIZATION_DENIED None None,
      when_status (ExactStatus 404) RESOURCE_NOT_FOUND None None,
      when_status (ExactStatus 409) RESOURCE_ALREADY_EXISTS None None,
      when_status (ExactStatus 429) PROVIDER_RATE_LIMITED (Some True) (Some True),
      when_status (StatusIn [502, 503, 504]) PROVIDER_UNAVAILABLE (Some True) (Some True),
      when_status (StatusTest (\<lambda>s. s \<ge> 500)) PROVIDER_UNAVAILABLE (Some True) (Some False)]"

section \<open>http/client.ts\<close>

datatype HttpMethod = GET | POST | PUT | PATCH | DELETE
datatype EndpointClass = Read_endpoint | Write_endpoint | Auth_endpoint | Upload_endpoint

fun endpoint_name :: "EndpointClass \<Rightarrow> string" where
  "endpoint_name Read_endpoint = ''read''"
| "endpoint_name Write_endpoint = ''write''"
| "endpoint_name Auth_endpoint = ''auth''"
| "endpoint_name Upload_endpoint = ''upload''"

record Timeouts =
  connectMs :: int
  headersMs :: int
  bodyMs :: int
  totalMs :: int

definition timeouts :: "int \<Rightarrow> int \<Rightarrow> int \<Rightarrow> int \<Rightarrow> Timeouts" where
  "timeouts c h b t = \<lparr>connectMs = c, headersMs = h, bodyMs = b, totalMs = t\<rparr>"

fun DEFAULT_TIMEOUTS :: "EndpointClass \<Rightarrow> Timeouts" where
  "DEFAULT_TIMEOUTS Read_endpoint = timeouts 3000 10000 10000 20000"
| "DEFAULT_TIMEOUTS Write_endpoint = timeouts 3000 10000 10000 20000"
| "DEFAULT_TIMEOUTS Auth_endpoint = timeouts 3000 5000 5000 8000"
| "DEFAULT_TIMEOUTS Upload_endpoint = timeouts 5000 60000 120000 120000"

record HttpRequestInit =
  hi_method :: HttpMethod
  hi_path :: string
  hi_query :: "(string \<times> string option) list"
  hi_body :: "Json option"
  hi_headers :: "(string \<times> string) list"
  hi_endpointClass :: EndpointClass
  hi_idempotent :: "bool option"
  hi_form :: "(string \<times> string) list option"

record PreparedRequest =
  pr_method :: HttpMethod
  pr_path :: string
  pr_headers :: "(string, string) jsmap"
  pr_body :: "string option"
  pr_timestamp :: int

record HttpResponse =
  hr_status :: int
  hr_headers :: "(string, string) jsmap"
  hr_body :: "Json option"
  hr_durationMs :: int
  hr_attempts :: nat
  hr_providerRequestId :: "string option"

datatype CallOutcome = ok | provider_error | network_error | timed_out | unknown

record ProviderCallRecord =
  pc_correlationId :: string
  pc_operationId :: "string option"
  pc_connectionId :: string
  pc_provider :: string
  pc_environment :: string
  pc_method :: HttpMethod
  pc_path :: string
  pc_endpointClass :: EndpointClass
  pc_requestHeaders :: "(string, string) jsmap"
  pc_requestBody :: "Json option"
  pc_status :: "int option"
  pc_responseBody :: "Json option"
  pc_durationMs :: int
  pc_attempts :: nat
  pc_outcome :: CallOutcome

text \<open>What is thrown: an error of the connector, or something with a code and a name.\<close>

datatype Thrown = ThrownBaas BaasError | ThrownOther "string option" "string option"

datatype Exchange = Answered int "(string \<times> HeaderValue) list" string | SendFailed Thrown

record 'n HttpEnv =
  he_now :: "'n \<Rightarrow> instant"
  he_send :: "string \<Rightarrow> HttpRequestInit \<Rightarrow> PreparedRequest \<Rightarrow> Timeouts \<Rightarrow> 'n \<Rightarrow> Exchange \<times> 'n"
  he_apply :: "PreparedRequest \<Rightarrow> 'n \<Rightarrow> (Thrown + PreparedRequest) \<times> 'n"
  he_onUnauthorized :: "('n \<Rightarrow> (Thrown + bool) \<times> 'n) option"
  he_sleep :: "rat \<Rightarrow> 'n \<Rightarrow> 'n"
  he_random :: "'n \<Rightarrow> rat"
  he_parseDate :: "string \<Rightarrow> int option"
  he_parseJson :: "string \<Rightarrow> Json option"
  he_resolveUrl :: "string \<Rightarrow> string \<Rightarrow> (string \<times> string) list \<Rightarrow> string"
  he_encodeForm :: "(string \<times> string) list \<Rightarrow> string"
  he_sha256 :: "string \<Rightarrow> string"

record HttpClientOptions =
  ho_baseUrl :: string
  ho_providerSlug :: string
  ho_environment :: string
  ho_connectionId :: string
  ho_errorMapper :: "MapErrorInput \<Rightarrow> BaasError"
  ho_breaker :: "BreakerPolicy option"
  ho_retry :: RetryPolicy
  ho_redaction :: RedactionRules
  ho_timeouts :: "EndpointClass \<Rightarrow> Timeouts option"
  ho_defaultHeaders :: "(string \<times> string) list"
  ho_userAgent :: "string option"
  ho_correlationId :: "string option"
  ho_operationId :: "string option"

record 'n HttpWorld =
  hw_breaker :: breaker
  hw_net :: 'n
  hw_calls :: "ProviderCallRecord list"
  hw_exchanges :: "Exchange list"

definition IDEMPOTENT_METHODS :: "HttpMethod list" where "IDEMPOTENT_METHODS = [GET, PUT, DELETE]"

definition is_idempotent :: "HttpRequestInit \<Rightarrow> bool" where
  "is_idempotent i = (case hi_idempotent i of Some b \<Rightarrow> b | None \<Rightarrow> hi_method i \<in> set IDEMPOTENT_METHODS)"

definition buildUrl :: "(string \<Rightarrow> string \<Rightarrow> (string \<times> string) list \<Rightarrow> string) \<Rightarrow> string \<Rightarrow> string \<Rightarrow> (string \<times> string option) list \<Rightarrow> string" where
  "buildUrl resolve baseUrl path query =
     resolve (if path \<noteq> [] \<and> hd path = CHR ''/'' then tl path else path)
       (if baseUrl \<noteq> [] \<and> last baseUrl = CHR ''/'' then baseUrl else baseUrl @ ''/'')
       (List.map_filter (\<lambda>(k, v). map_option (\<lambda>s. (k, s)) v) query)"

definition toOutcome :: "string option \<Rightarrow> string option \<Rightarrow> AttemptOutcome" where
  "toOutcome code name =
     (if code = Some ''UND_ERR_CONNECT_TIMEOUT'' then TimeoutOutcome Connect_phase
      else if code = Some ''UND_ERR_HEADERS_TIMEOUT'' then TimeoutOutcome Headers_phase
      else if code = Some ''UND_ERR_BODY_TIMEOUT'' then TimeoutOutcome Body_phase
      else if name = Some ''AbortError'' \<or> code = Some ''ABORT_ERR'' then TimeoutOutcome Headers_phase
      else NetworkOutcome code)"

definition flatHeaders :: "(string \<times> HeaderValue) list \<Rightarrow> (string, string) jsmap" where
  "flatHeaders hs = foldl (\<lambda>out (key, v). case v of Absent \<Rightarrow> out | One s \<Rightarrow> map_set (map js_lower key) s out
     | Many ss \<Rightarrow> map_set (map js_lower key) (join_comma ss) out) [] hs"

definition readBody :: "(string \<Rightarrow> Json option) \<Rightarrow> string \<Rightarrow> Json option" where
  "readBody parse text =
     (if text = [] then None
      else (case parse text of Some j \<Rightarrow> Some j | None \<Rightarrow> Some (JObj [(''_raw'', JStr text)])))"

definition set_all :: "(string \<times> string) list \<Rightarrow> (string, string) jsmap \<Rightarrow> (string, string) jsmap" where
  "set_all kvs m = foldl (\<lambda>m (k, v). map_set k v m) m kvs"

text \<open>The request before authentication.\<close>

definition draft_request :: "'n HttpEnv \<Rightarrow> HttpClientOptions \<Rightarrow> HttpRequestInit \<Rightarrow> 'n \<Rightarrow> PreparedRequest" where
  "draft_request env opt i net =
     \<lparr>pr_method = hi_method i, pr_path = hi_path i,
      pr_headers = set_all (
        [(''accept'', ''application/json''),
         (''user-agent'', case ho_userAgent opt of Some u \<Rightarrow> u
            | None \<Rightarrow> ''BaaS-Connector/0.1.0 (+https://github.com/TokenOneBR/BaaS-Connector)'')] @
        (case nonempty (ho_correlationId opt) of Some c \<Rightarrow> [(''x-correlation-id'', c)] | None \<Rightarrow> []) @
        (case hi_form i of Some _ \<Rightarrow> [(''content-type'', ''application/x-www-form-urlencoded'')] | None \<Rightarrow> []) @
        (case hi_body i of Some _ \<Rightarrow> [(''content-type'', ''application/json'')] | None \<Rightarrow> []) @
        ho_defaultHeaders opt @ hi_headers i) [],
      pr_body = (case hi_form i of Some f \<Rightarrow> Some (he_encodeForm env f)
        | None \<Rightarrow> map_option json_text (hi_body i)),
      pr_timestamp = he_now env net div 1000\<rparr>"

definition prepare :: "'n HttpEnv \<Rightarrow> HttpClientOptions \<Rightarrow> HttpRequestInit \<Rightarrow> 'n \<Rightarrow> (Thrown + PreparedRequest) \<times> 'n" where
  "prepare env opt i net = he_apply env (draft_request env opt i net) net"

definition record_call ::
  "'n HttpEnv \<Rightarrow> HttpClientOptions \<Rightarrow> HttpRequestInit \<Rightarrow> PreparedRequest \<Rightarrow> int option \<Rightarrow> Json option \<Rightarrow> int \<Rightarrow> nat \<Rightarrow>
   CallOutcome \<Rightarrow> 'n HttpWorld \<Rightarrow> 'n HttpWorld" where
  "record_call env opt i prepared status body durationMs attempts res w =
     w\<lparr>hw_calls := hw_calls w @ [
       \<lparr>pc_correlationId = (case ho_correlationId opt of Some c \<Rightarrow> c | None \<Rightarrow> []), pc_operationId = ho_operationId opt,
        pc_connectionId = ho_connectionId opt, pc_provider = ho_providerSlug opt, pc_environment = ho_environment opt,
        pc_method = hi_method i, pc_path = hi_path i, pc_endpointClass = hi_endpointClass i,
        pc_requestHeaders = redactHeaders (ho_redaction opt) (map (\<lambda>(k, v). (k, One v)) (pr_headers prepared)),
        pc_requestBody = map_option (redact (he_sha256 env) (ho_redaction opt)) (hi_body i),
        pc_status = status, pc_responseBody = map_option (redact (he_sha256 env) (ho_redaction opt)) body,
        pc_durationMs = durationMs, pc_attempts = attempts, pc_outcome = res\<rparr>]\<rparr>"

definition unknown_message :: "HttpRequestInit \<Rightarrow> (HttpMethod \<Rightarrow> string) \<Rightarrow> string" where
  "unknown_message i name =
     ''A chamada '' @ name (hi_method i) @ '' '' @ hi_path i @ '' falhou sem resposta conclusiva. '' @
     ''Nao sabemos se o provedor processou; sera resolvido por conciliacao.''"

fun method_name :: "HttpMethod \<Rightarrow> string" where
  "method_name GET = ''GET''" | "method_name POST = ''POST''" | "method_name PUT = ''PUT''"
| "method_name PATCH = ''PATCH''" | "method_name DELETE = ''DELETE''"

definition terminalError ::
  "'n HttpEnv \<Rightarrow> HttpClientOptions \<Rightarrow> HttpRequestInit \<Rightarrow> PreparedRequest \<Rightarrow> AttemptOutcome \<Rightarrow> instant \<Rightarrow> nat \<Rightarrow> 'n HttpWorld \<Rightarrow>
   BaasError \<times> 'n HttpWorld" where
  "terminalError env opt i prepared res started attempts w =
     (let durationMs = he_now env (hw_net w) - started;
          indeterminate = (\<not> is_idempotent i \<and> \<not> isProvablyPreCommit res);
          w1 = record_call env opt i prepared None None durationMs attempts
            (if indeterminate then unknown else (case res of TimeoutOutcome _ \<Rightarrow> timed_out | _ \<Rightarrow> network_error)) w
      in (if indeterminate then
            outcome_unknown_error (ho_providerSlug opt)
              (case ho_operationId opt of Some p \<Rightarrow> p | None \<Rightarrow> ''sem-operacao'')
              (no_init\<lparr>in_message := Some (unknown_message i method_name)\<rparr>)
          else new_BaasError (outcomeToErrorCode res) (no_init\<lparr>
            in_provider := Some \<lparr>pe_slug = ho_providerSlug opt, pe_code = None, pe_message = None, pe_httpStatus = None, pe_requestId = None\<rparr>,
            in_meta := Some [(''attempts'', JNum (show_nat attempts)), (''durationMs'', JNum (show_int durationMs))]\<rparr>), w1))"

text \<open>One turn of the loop ends the request, goes on to the next attempt, or repeats this one with a new token.\<close>

datatype 'n Turn =
    Finished "Thrown + HttpResponse" "'n HttpWorld"
  | NextAttempt AttemptOutcome "'n HttpWorld"
  | Reauthenticated "'n HttpWorld"

definition canRetry :: "RetryPolicy \<Rightarrow> HttpRequestInit \<Rightarrow> nat \<Rightarrow> AttemptOutcome \<Rightarrow> bool" where
  "canRetry policy i attempt res \<longleftrightarrow> attempt + 1 < maxAttempts policy \<and> shouldRetry policy res \<and>
     (is_idempotent i \<or> isProvablyPreCommit res)"

definition wait_retry :: "'n HttpEnv \<Rightarrow> RetryPolicy \<Rightarrow> nat \<Rightarrow> AttemptOutcome \<Rightarrow> 'n HttpWorld \<Rightarrow> 'n HttpWorld" where
  "wait_retry env policy attempt res w =
     w\<lparr>hw_net := he_sleep env (computeDelayMs attempt policy res (he_random env (hw_net w))) (hw_net w)\<rparr>"

definition on_breaker :: "'n HttpEnv \<Rightarrow> HttpClientOptions \<Rightarrow> (BreakerPolicy \<Rightarrow> instant \<Rightarrow> string \<Rightarrow> breaker \<Rightarrow> breaker) \<Rightarrow> string \<Rightarrow>
   'n HttpWorld \<Rightarrow> 'n HttpWorld" where
  "on_breaker env opt f key w =
     (case ho_breaker opt of None \<Rightarrow> w | Some p \<Rightarrow> w\<lparr>hw_breaker := f p (he_now env (hw_net w)) key (hw_breaker w)\<rparr>)"

text \<open>The \<open>catch\<close> of a turn.\<close>

definition on_throw ::
  "'n HttpEnv \<Rightarrow> HttpClientOptions \<Rightarrow> HttpRequestInit \<Rightarrow> PreparedRequest \<Rightarrow> string \<Rightarrow> instant \<Rightarrow> nat \<Rightarrow> nat \<Rightarrow> Thrown \<Rightarrow> 'n HttpWorld \<Rightarrow> 'n Turn" where
  "on_throw env opt i prepared key started attempts attempt thrown w =
     (case thrown of
        ThrownBaas e \<Rightarrow> Finished (Inl (ThrownBaas e)) w
      | ThrownOther code name \<Rightarrow>
          (let res = toOutcome code name; w1 = on_breaker env opt recordFailure key w in
           if canRetry (ho_retry opt) i attempt res then NextAttempt res (wait_retry env (ho_retry opt) attempt res w1)
           else (case terminalError env opt i prepared res started attempts w1 of
                   (e, w2) \<Rightarrow> Finished (Inl (ThrownBaas e)) w2)))"

definition on_refusal ::
  "'n HttpEnv \<Rightarrow> HttpClientOptions \<Rightarrow> HttpRequestInit \<Rightarrow> PreparedRequest \<Rightarrow> string \<Rightarrow> nat \<Rightarrow> nat \<Rightarrow> int \<Rightarrow> int \<Rightarrow>
   (string \<times> HeaderValue) list \<Rightarrow> Json option \<Rightarrow> 'n HttpWorld \<Rightarrow> 'n Turn" where
  "on_refusal env opt i prepared key attempts attempt durationMs status headers rawBody w =
     (let res = HttpOutcome status (parseRetryAfter (he_parseDate env) (he_now env (hw_net w)) (map_get (flatHeaders headers) ''retry-after''));
          w1 = (if status \<ge> 500 then on_breaker env opt recordFailure key w else w) in
      if canRetry (ho_retry opt) i attempt res then NextAttempt res (wait_retry env (ho_retry opt) attempt res w1)
      else Finished (Inl (ThrownBaas (ho_errorMapper opt \<lparr>mi_status = status, mi_body = rawBody,
               mi_providerSlug = ho_providerSlug opt, mi_requestId = ho_correlationId opt\<rparr>)))
             (record_call env opt i prepared (Some status) rawBody durationMs attempts provider_error w1))"

definition answer_turn ::
  "'n HttpEnv \<Rightarrow> HttpClientOptions \<Rightarrow> HttpRequestInit \<Rightarrow> PreparedRequest \<Rightarrow> string \<Rightarrow> instant \<Rightarrow> nat \<Rightarrow> nat \<Rightarrow> bool \<Rightarrow> int \<Rightarrow>
   (string \<times> HeaderValue) list \<Rightarrow> string \<Rightarrow> 'n HttpWorld \<Rightarrow> 'n Turn" where
  "answer_turn env opt i prepared key started attempts attempt authRetried status headers text w =
     (let rawBody = readBody (he_parseJson env) text; durationMs = he_now env (hw_net w) - started in
      if 200 \<le> status \<and> status < 300 then
        Finished (Inr \<lparr>hr_status = status, hr_headers = flatHeaders headers, hr_body = rawBody, hr_durationMs = durationMs,
            hr_attempts = attempts, hr_providerRequestId = map_get (flatHeaders headers) ''x-request-id''\<rparr>)
          (record_call env opt i prepared (Some status) rawBody durationMs attempts ok (on_breaker env opt recordSuccess key w))
      else (case (if (status = 401 \<or> status = 403) \<and> \<not> authRetried then he_onUnauthorized env else None) of
              None \<Rightarrow> on_refusal env opt i prepared key attempts attempt durationMs status headers rawBody w
            | Some f \<Rightarrow>
                (case f (hw_net w) of
                   (Inl thrown, net) \<Rightarrow> on_throw env opt i prepared key started attempts attempt thrown (w\<lparr>hw_net := net\<rparr>)
                 | (Inr True, net) \<Rightarrow> Reauthenticated (w\<lparr>hw_net := net\<rparr>)
                 | (Inr False, net) \<Rightarrow>
                     on_refusal env opt i prepared key attempts attempt durationMs status headers rawBody (w\<lparr>hw_net := net\<rparr>))))"

definition turn ::
  "'n HttpEnv \<Rightarrow> HttpClientOptions \<Rightarrow> HttpRequestInit \<Rightarrow> string \<Rightarrow> instant \<Rightarrow> nat \<Rightarrow> nat \<Rightarrow> bool \<Rightarrow> 'n HttpWorld \<Rightarrow> 'n Turn" where
  "turn env opt i key started attempts attempt authRetried w =
     (case (case ho_breaker opt of None \<Rightarrow> (Inr (), hw_breaker w)
            | Some p \<Rightarrow> assertClosed p (he_now env (hw_net w)) key (hw_breaker w)) of
        (Inl e, b) \<Rightarrow> Finished (Inl (ThrownBaas e)) (w\<lparr>hw_breaker := b\<rparr>)
      | (Inr _, b) \<Rightarrow>
          (case prepare env opt i (hw_net w) of
             (Inl thrown, net) \<Rightarrow> Finished (Inl thrown) (w\<lparr>hw_breaker := b, hw_net := net\<rparr>)
           | (Inr prepared, net) \<Rightarrow>
               (case he_send env (buildUrl (he_resolveUrl env) (ho_baseUrl opt) (hi_path i) (hi_query i)) i prepared
                       (case ho_timeouts opt (hi_endpointClass i) of Some t \<Rightarrow> t | None \<Rightarrow> DEFAULT_TIMEOUTS (hi_endpointClass i)) net of
                  (exchange, net') \<Rightarrow>
                    (let w1 = w\<lparr>hw_breaker := b, hw_net := net', hw_exchanges := hw_exchanges w @ [exchange]\<rparr> in
                     case exchange of
                       Answered status headers text \<Rightarrow>
                         answer_turn env opt i prepared key started attempts attempt authRetried status headers text w1
                     | SendFailed thrown \<Rightarrow> on_throw env opt i prepared key started attempts attempt thrown w1))))"

text \<open>
  \<open>attempt\<close> counts towards the limit, \<open>attempts\<close> is every turn so far.  A turn after the one new token does not ask for
  another: the inner branch is never taken, and is there for termination to be seen.
\<close>

function request_loop ::
  "'n HttpEnv \<Rightarrow> HttpClientOptions \<Rightarrow> HttpRequestInit \<Rightarrow> string \<Rightarrow> instant \<Rightarrow> nat \<Rightarrow> nat \<Rightarrow> bool \<Rightarrow> AttemptOutcome option \<Rightarrow>
   'n HttpWorld \<Rightarrow> (Thrown + HttpResponse) \<times> 'n HttpWorld" where
  "request_loop env opt i key started attempts attempt authRetried lastOutcome w =
     (if attempt < maxAttempts (ho_retry opt) then
        (case turn env opt i key started (attempts + 1) attempt authRetried w of
           Finished r w' \<Rightarrow> (r, w')
         | NextAttempt res w' \<Rightarrow>
             request_loop env opt i key started (attempts + 1) (attempt + 1) authRetried (Some res) w'
         | Reauthenticated w' \<Rightarrow>
             if authRetried then (Inl (ThrownOther None None), w')
             else request_loop env opt i key started (attempts + 1) attempt True lastOutcome w')
      else
        (case prepare env opt i (hw_net w) of
           (Inl thrown, net) \<Rightarrow> (Inl thrown, w\<lparr>hw_net := net\<rparr>)
         | (Inr prepared, net) \<Rightarrow>
             (case terminalError env opt i prepared (case lastOutcome of Some res \<Rightarrow> res | None \<Rightarrow> NetworkOutcome None)
                     started attempts (w\<lparr>hw_net := net\<rparr>) of
                (e, w') \<Rightarrow> (Inl (ThrownBaas e), w'))))"
  by pat_completeness auto
termination
  by (relation "measure (\<lambda>(env, opt, i, key, started, attempts, attempt, authRetried, lastOutcome, w).
       (if authRetried then 0 else 1) + (maxAttempts (ho_retry opt) - attempt))") auto

declare request_loop.simps [simp del]

definition http_request ::
  "'n HttpEnv \<Rightarrow> HttpClientOptions \<Rightarrow> HttpRequestInit \<Rightarrow> 'n HttpWorld \<Rightarrow> (Thrown + HttpResponse) \<times> 'n HttpWorld" where
  "http_request env opt i w =
     request_loop env opt i (breakerKey (ho_providerSlug opt) (ho_environment opt) (endpoint_name (hi_endpointClass i)))
       (he_now env (hw_net w)) 0 0 False None w"

end
