(* ===== verification/Http_Properties.thy ===== *)
theory Http_Properties
  imports Http_Client Idempotency
begin

text \<open>
  What the client promises of a write that is not idempotent: it is repeated only after an answer that proves it was not
  carried out, and when it ends without an answer nothing but an unknown outcome is reported.  A closed example shows the
  answer it takes for a refusal without such a proof.
\<close>

section \<open>One turn\<close>

text \<open>The exchange proves that the provider did nothing: it refused explicitly with 429 or was not routed with 503, its name was not
  resolved, or no connection was made.\<close>

definition refused_or_unreached :: "Exchange \<Rightarrow> bool" where
  "refused_or_unreached x = (case x of Answered status hs text \<Rightarrow> status \<in> {429, 503}
     | SendFailed (ThrownOther code name) \<Rightarrow> code \<in> Some ` {''UND_ERR_CONNECT_TIMEOUT'', ''ECONNREFUSED'', ''ENOTFOUND'', ''EAI_AGAIN''}
     | SendFailed (ThrownBaas e) \<Rightarrow> False)"

text \<open>It did not know us.\<close>

definition unauthorized :: "Exchange \<Rightarrow> bool" where
  "unauthorized x = (case x of Answered status hs text \<Rightarrow> status = 401 \<or> status = 403 | SendFailed t \<Rightarrow> False)"

text \<open>No answer, and no such proof.\<close>

definition indeterminate :: "Exchange \<Rightarrow> bool" where
  "indeterminate x = (case x of SendFailed (ThrownOther code name) \<Rightarrow> \<not> refused_or_unreached x | _ \<Rightarrow> False)"

text \<open>What the client takes for a proof is one.\<close>

lemma pre_commit_sound:
  "isProvablyPreCommit (HttpOutcome status ra) \<Longrightarrow> refused_or_unreached (Answered status hs text)"
  "isProvablyPreCommit (toOutcome code name) \<Longrightarrow> refused_or_unreached (SendFailed (ThrownOther code name))"
  by (auto simp: refused_or_unreached_def toOutcome_def split: if_splits)

lemma record_call_exchanges [simp]: "hw_exchanges (record_call env opt i p st b d n res w) = hw_exchanges w"
  by (simp add: record_call_def)

lemma on_breaker_exchanges [simp]: "hw_exchanges (on_breaker env opt f key w) = hw_exchanges w"
  by (simp add: on_breaker_def split: option.split)

lemma wait_retry_exchanges [simp]: "hw_exchanges (wait_retry env pol n res w) = hw_exchanges w"
  by (simp add: wait_retry_def)

lemma terminalError_exchanges [simp]: "hw_exchanges (snd (terminalError env opt i p res st n w)) = hw_exchanges w"
  by (simp add: terminalError_def Let_def)

lemma terminalError_class:
  "be_class (fst (terminalError env opt i p res st n w)) = ProviderOutcomeUnknownError \<longleftrightarrow> \<not> is_idempotent i \<and> \<not> isProvablyPreCommit res"
  by (simp add: terminalError_def Let_def)

text \<open>What a turn of a write adds to the exchanges, and how it ends.\<close>

definition throws_unknown :: "Thrown + HttpResponse \<Rightarrow> bool" where
  "throws_unknown r \<longleftrightarrow> (\<exists>e. r = Inl (ThrownBaas e) \<and> be_class e = ProviderOutcomeUnknownError)"

inductive turn_shape :: "bool \<Rightarrow> Exchange list \<Rightarrow> 'n Turn \<Rightarrow> bool" for authRetried sent where
  none: "hw_exchanges w = sent \<Longrightarrow> turn_shape authRetried sent (Finished r w)"
| ends: "hw_exchanges w = sent @ [x] \<Longrightarrow> (indeterminate x \<Longrightarrow> throws_unknown r) \<Longrightarrow> turn_shape authRetried sent (Finished r w)"
| again: "hw_exchanges w = sent @ [x] \<Longrightarrow> refused_or_unreached x \<or> unauthorized x \<Longrightarrow> turn_shape authRetried sent (NextAttempt res w)"
| token: "\<not> authRetried \<Longrightarrow> hw_exchanges w = sent @ [x] \<Longrightarrow> unauthorized x \<Longrightarrow> turn_shape authRetried sent (Reauthenticated w)"

lemma on_refusal_shape:
  assumes "\<not> is_idempotent i" "hw_exchanges w = sent @ [Answered status hs text]"
  shows "turn_shape authRetried sent (on_refusal env opt i p key attempts attempt d status hs body w)"
  using assms
  by (auto simp: on_refusal_def Let_def canRetry_def refused_or_unreached_def indeterminate_def
      intro!: turn_shape.ends [where x = "Answered status hs text"] turn_shape.again [where x = "Answered status hs text"])

lemma on_throw_shape:
  assumes "\<not> is_idempotent i" "hw_exchanges w = sent @ [x]"
    and "unauthorized x \<and> \<not> indeterminate x \<or> x = SendFailed thrown"
  shows "turn_shape authRetried sent (on_throw env opt i p key st attempts attempt thrown w)"
proof (cases thrown)
  case (ThrownBaas e)
  then show ?thesis using assms by (auto simp: on_throw_def indeterminate_def intro!: turn_shape.ends [where x = x])
next
  case (ThrownOther code name)
  let ?res = "toOutcome code name"
  show ?thesis
  proof (cases "canRetry (ho_retry opt) i attempt ?res")
    case True
    then have "refused_or_unreached x \<or> unauthorized x" using assms(1,3) pre_commit_sound(2) by (auto simp: canRetry_def ThrownOther)
    then show ?thesis using True assms(2)
      by (auto simp: on_throw_def ThrownOther Let_def intro!: turn_shape.again [where x = x])
  next
    case False
    obtain e w' where te: "terminalError env opt i p ?res st attempts (on_breaker env opt recordFailure key w) = (e, w')"
      by (cases "terminalError env opt i p ?res st attempts (on_breaker env opt recordFailure key w)")
    have "indeterminate x \<Longrightarrow> throws_unknown (Inl (ThrownBaas e))"
      using terminalError_class [of env opt i p ?res st attempts "on_breaker env opt recordFailure key w"] assms(1,3)
        pre_commit_sound(2) [of code name]
      by (auto simp: te throws_unknown_def indeterminate_def ThrownOther unauthorized_def)
    moreover have "hw_exchanges w' = sent @ [x]"
      using terminalError_exchanges [of env opt i p ?res st attempts "on_breaker env opt recordFailure key w"] assms(2)
      by (simp add: te)
    ultimately show ?thesis using False by (auto simp: on_throw_def ThrownOther Let_def te intro!: turn_shape.ends [where x = x])
  qed
qed

lemma answer_turn_shape:
  assumes "\<not> is_idempotent i" "hw_exchanges w = sent @ [Answered status hs text]"
  shows "turn_shape authRetried sent (answer_turn env opt i p key st attempts attempt authRetried status hs text w)"
proof -
  let ?x = "Answered status hs text"
  note refusal = on_refusal_shape [OF assms(1)]
  show ?thesis
  proof (cases "200 \<le> status \<and> status < 300")
    case True
    then show ?thesis using assms(2)
      by (auto simp: answer_turn_def Let_def indeterminate_def intro!: turn_shape.ends [where x = ?x])
  next
    case False
    show ?thesis
    proof (cases "(status = 401 \<or> status = 403) \<and> \<not> authRetried \<and> he_onUnauthorized env \<noteq> None")
      case True
      then obtain f where f: "he_onUnauthorized env = Some f" by auto
      have x: "unauthorized ?x \<and> \<not> indeterminate ?x" using True by (simp add: unauthorized_def indeterminate_def)
      obtain r net where r: "f (hw_net w) = (r, net)" by (cases "f (hw_net w)")
      have eq: "answer_turn env opt i p key st attempts attempt authRetried status hs text w =
        (case r of Inl thrown \<Rightarrow> on_throw env opt i p key st attempts attempt thrown (w\<lparr>hw_net := net\<rparr>)
         | Inr b \<Rightarrow> if b then Reauthenticated (w\<lparr>hw_net := net\<rparr>)
             else on_refusal env opt i p key attempts attempt (he_now env (hw_net w) - st) status hs
                    (readBody (he_parseJson env) text) (w\<lparr>hw_net := net\<rparr>))"
        using True False f r by (auto simp: answer_turn_def Let_def split: sum.split bool.split)
      show ?thesis
        using x True assms(2) on_throw_shape [OF assms(1), of "w\<lparr>hw_net := net\<rparr>" sent ?x]
          refusal [where w = "w\<lparr>hw_net := net\<rparr>" and sent = sent]
          turn_shape.token [of authRetried "w\<lparr>hw_net := net\<rparr>" sent ?x]
        unfolding eq by (auto split: sum.split)
    next
      case False
      then have "answer_turn env opt i p key st attempts attempt authRetried status hs text w =
        on_refusal env opt i p key attempts attempt (he_now env (hw_net w) - st) status hs (readBody (he_parseJson env) text) w"
        using \<open>\<not> (200 \<le> status \<and> status < 300)\<close> by (auto simp: answer_turn_def Let_def)
      then show ?thesis using refusal [OF assms(2)] by simp
    qed
  qed
qed

lemma turn_shaped:
  assumes "\<not> is_idempotent i"
  shows "turn_shape authRetried (hw_exchanges w) (turn env opt i key st attempts attempt authRetried w)"
proof -
  obtain r b where b: "(case ho_breaker opt of None \<Rightarrow> (Inr (), hw_breaker w)
    | Some p \<Rightarrow> assertClosed p (he_now env (hw_net w)) key (hw_breaker w)) = (r, b)" by fastforce
  obtain q net where q: "prepare env opt i (hw_net w) = (q, net)" by (cases "prepare env opt i (hw_net w)")
  show ?thesis
  proof (cases "isl r \<or> isl q")
    case True
    then show ?thesis unfolding turn_def b q by (cases r; cases q) (auto intro: turn_shape.none)
  next
    case False
    then obtain prepared u where p: "q = Inr prepared" "r = Inr u" by (cases r; cases q) auto
    obtain x net' where x: "he_send env (buildUrl (he_resolveUrl env) (ho_baseUrl opt) (hi_path i) (hi_query i)) i prepared
      (case ho_timeouts opt (hi_endpointClass i) of Some t \<Rightarrow> t | None \<Rightarrow> DEFAULT_TIMEOUTS (hi_endpointClass i)) net = (x, net')"
      by fastforce
    let ?w = "w\<lparr>hw_breaker := b, hw_net := net', hw_exchanges := hw_exchanges w @ [x]\<rparr>"
    have w: "hw_exchanges ?w = hw_exchanges w @ [x]" by simp
    show ?thesis unfolding turn_def b q p sum.case prod.case x Let_def
      using answer_turn_shape [OF assms, of ?w "hw_exchanges w"] on_throw_shape [OF assms w]
      by (cases x) auto
  qed
qed

section \<open>A whole request\<close>

lemma proof_not_indeterminate: "refused_or_unreached x \<or> unauthorized x \<Longrightarrow> \<not> indeterminate x"
  by (auto simp: indeterminate_def unauthorized_def split: Exchange.splits Thrown.splits)

lemma request_loop_exchanges:
  assumes "\<not> is_idempotent i"
  shows "request_loop env opt i key st attempts attempt authRetried lastOutcome w = (r, w') \<Longrightarrow>
    \<exists>sent. hw_exchanges w' = hw_exchanges w @ sent \<and> (\<forall>x\<in>set (butlast sent). refused_or_unreached x \<or> unauthorized x) \<and>
      (sent \<noteq> [] \<longrightarrow> indeterminate (last sent) \<longrightarrow> throws_unknown r) \<and>
      length sent \<le> (if authRetried then 0 else 1) + (maxAttempts (ho_retry opt) - attempt)"
  using assms
proof (induction env opt i key st attempts attempt authRetried lastOutcome w rule: request_loop.induct)
  case (1 env opt i key st attempts attempt authRetried lastOutcome w)
  show ?case
  proof (cases "attempt < maxAttempts (ho_retry opt)")
    case False
    then show ?thesis using "1.prems"(1)
      by (auto simp: request_loop.simps [of env opt i key st attempts attempt] split: prod.splits sum.splits
          dest!: arg_cong [where f = "\<lambda>p. hw_exchanges (snd p)" and x = "terminalError _ _ _ _ _ _ _ _"])
  next
    case True
    let ?t = "turn env opt i key st (attempts + 1) attempt authRetried w"
    note loop = request_loop.simps [of env opt i key st attempts attempt authRetried lastOutcome w]
    note shape = turn_shaped [OF "1.prems"(2), of authRetried w env opt key st "attempts + 1" attempt]
    show ?thesis
    proof (cases ?t)
      case (Finished r1 w1)
      then have "r = r1" "w' = w1" using "1.prems"(1) True loop by simp_all
      moreover from shape [unfolded Finished]
      have "hw_exchanges w1 = hw_exchanges w \<or>
        (\<exists>x. hw_exchanges w1 = hw_exchanges w @ [x] \<and> (indeterminate x \<longrightarrow> throws_unknown r1))" by cases auto
      ultimately show ?thesis using True by auto
    next
      case (NextAttempt res w1)
      from shape [unfolded NextAttempt] obtain x where x: "hw_exchanges w1 = hw_exchanges w @ [x]" "refused_or_unreached x \<or> unauthorized x"
        by cases auto
      have "request_loop env opt i key st (attempts + 1) (attempt + 1) authRetried (Some res) w1 = (r, w')"
        using "1.prems"(1) True loop NextAttempt by simp
      from "1.IH"(1) [OF True NextAttempt this "1.prems"(2)] obtain sent where s:
        "hw_exchanges w' = hw_exchanges w1 @ sent" "\<forall>x\<in>set (butlast sent). refused_or_unreached x \<or> unauthorized x"
        "sent \<noteq> [] \<longrightarrow> indeterminate (last sent) \<longrightarrow> throws_unknown r"
        "length sent \<le> (if authRetried then 0 else 1) + (maxAttempts (ho_retry opt) - (attempt + 1))" by blast
      then show ?thesis using x True by (intro exI [of _ "x # sent"]) (use proof_not_indeterminate [OF x(2)] in auto)
    next
      case (Reauthenticated w1)
      from shape [unfolded Reauthenticated] obtain x where x: "hw_exchanges w1 = hw_exchanges w @ [x]" "unauthorized x" "\<not> authRetried"
        by cases auto
      have "request_loop env opt i key st (attempts + 1) attempt True lastOutcome w1 = (r, w')"
        using "1.prems"(1) True loop Reauthenticated x(3) by simp
      from "1.IH"(2) [OF True Reauthenticated x(3) this "1.prems"(2)] obtain sent where s:
        "hw_exchanges w' = hw_exchanges w1 @ sent" "\<forall>x\<in>set (butlast sent). refused_or_unreached x \<or> unauthorized x"
        "sent \<noteq> [] \<longrightarrow> indeterminate (last sent) \<longrightarrow> throws_unknown r"
        "length sent \<le> (if True then 0 else 1) + (maxAttempts (ho_retry opt) - attempt)" by blast
      then show ?thesis using x True by (intro exI [of _ "x # sent"]) (use proof_not_indeterminate [OF disjI2 [OF x(2)]] in auto)
    qed
  qed
qed

section \<open>What is recorded of a call\<close>

text \<open>A payload respects the rules, or it is the summary of one that does and is too long: its length, its digest and its beginning.\<close>

definition summary_of :: "(string \<Rightarrow> string) \<Rightarrow> RedactionRules \<Rightarrow> Json \<Rightarrow> Json" where
  "summary_of sha256 rules safe = JObj [(''_truncated'', JBool True), (''_originalBytes'', JNum (show_nat (length (json_text safe)))),
     (''_digest'', JStr (''sha256:'' @ take 16 (sha256 (json_text safe)))), (''preview'', JStr (take (maxBodyBytes rules) (json_text safe)))]"

definition payload_ok :: "(string \<Rightarrow> string) \<Rightarrow> RedactionRules \<Rightarrow> Json option \<Rightarrow> bool" where
  "payload_ok sha256 rules v \<longleftrightarrow> (\<forall>j. v = Some j \<longrightarrow> (\<exists>safe. redacted_ok sha256 rules [] safe \<and>
     j = (if length (json_text safe) \<le> maxBodyBytes rules then safe else summary_of sha256 rules safe)))"

definition call_ok :: "(string \<Rightarrow> string) \<Rightarrow> RedactionRules \<Rightarrow> ProviderCallRecord \<Rightarrow> bool" where
  "call_ok sha256 rules c \<longleftrightarrow> headers_ok rules (pc_requestHeaders c) \<and> payload_ok sha256 rules (pc_requestBody c) \<and>
     payload_ok sha256 rules (pc_responseBody c)"

definition calls_ok :: "(string \<Rightarrow> string) \<Rightarrow> RedactionRules \<Rightarrow> 'n HttpWorld \<Rightarrow> bool" where
  "calls_ok sha256 rules w \<longleftrightarrow> list_all (call_ok sha256 rules) (hw_calls w)"

lemma redact_payload: "payload_ok sha256 rules (map_option (redact sha256 rules) v)"
proof -
  have "\<exists>safe. redacted_ok sha256 rules [] safe \<and>
      redact sha256 rules x = (if length (json_text safe) \<le> maxBodyBytes rules then safe else summary_of sha256 rules safe)" for x
    using redact_walk_ok [of sha256 rules "[]" x]
    by (intro exI [of _ "redact_walk sha256 rules [] x"]) (simp add: redact_def Let_def summary_of_def sha256Short_def)
  then show ?thesis by (auto simp: payload_ok_def split del: if_split)
qed

lemma record_call_ok: "calls_ok (he_sha256 env) (ho_redaction opt) w \<Longrightarrow> calls_ok (he_sha256 env) (ho_redaction opt) (record_call env opt i p st b d n res w)"
  by (simp add: calls_ok_def record_call_def call_ok_def redactHeaders_ok redact_payload)

lemma calls_ok_same [simp]:
  "calls_ok sha256 rules (on_breaker env opt f key w) = calls_ok sha256 rules w" "calls_ok sha256 rules (wait_retry env pol n res w) = calls_ok sha256 rules w"
  "calls_ok sha256 rules (w\<lparr>hw_net := net\<rparr>) = calls_ok sha256 rules w" "calls_ok sha256 rules (w\<lparr>hw_breaker := b\<rparr>) = calls_ok sha256 rules w"
  "calls_ok sha256 rules (w\<lparr>hw_exchanges := xs\<rparr>) = calls_ok sha256 rules w"
  by (simp_all add: calls_ok_def on_breaker_def wait_retry_def split: option.split)

lemma terminalError_ok: "calls_ok (he_sha256 env) (ho_redaction opt) w \<Longrightarrow> calls_ok (he_sha256 env) (ho_redaction opt) (snd (terminalError env opt i p res st n w))"
  by (simp add: terminalError_def Let_def record_call_ok)

definition turn_ok :: "(string \<Rightarrow> string) \<Rightarrow> RedactionRules \<Rightarrow> 'n Turn \<Rightarrow> bool" where
  "turn_ok sha256 rules t \<longleftrightarrow> (case t of Finished r w \<Rightarrow> calls_ok sha256 rules w | NextAttempt res w \<Rightarrow> calls_ok sha256 rules w | Reauthenticated w \<Rightarrow> calls_ok sha256 rules w)"

lemma on_throw_ok: "calls_ok (he_sha256 env) (ho_redaction opt) w \<Longrightarrow> turn_ok (he_sha256 env) (ho_redaction opt) (on_throw env opt i p key st n a thrown w)"
  using terminalError_ok [of env opt "on_breaker env opt recordFailure key w"]
  by (auto simp: on_throw_def turn_ok_def Let_def case_prod_unfold split: Thrown.split)

lemma on_refusal_ok: "calls_ok (he_sha256 env) (ho_redaction opt) w \<Longrightarrow> turn_ok (he_sha256 env) (ho_redaction opt) (on_refusal env opt i p key n a d status hs b w)"
  by (simp add: on_refusal_def turn_ok_def Let_def record_call_ok)

lemma answer_turn_ok:
  "calls_ok (he_sha256 env) (ho_redaction opt) w \<Longrightarrow> turn_ok (he_sha256 env) (ho_redaction opt) (answer_turn env opt i p key st n a authRetried status hs b w)"
  by (auto simp: answer_turn_def Let_def on_throw_ok on_refusal_ok record_call_ok turn_ok_def [of _ _ "Finished _ _"]
      turn_ok_def [of _ _ "Reauthenticated _"] split: option.split prod.split sum.split bool.split)

lemma turn_calls_ok: "calls_ok (he_sha256 env) (ho_redaction opt) w \<Longrightarrow> turn_ok (he_sha256 env) (ho_redaction opt) (turn env opt i key st n a authRetried w)"
  by (auto simp: turn_def Let_def on_throw_ok answer_turn_ok turn_ok_def [of _ _ "Finished _ _"]
      split: prod.split sum.split Exchange.split)

lemma request_loop_calls_ok:
  "calls_ok (he_sha256 env) (ho_redaction opt) w \<Longrightarrow> calls_ok (he_sha256 env) (ho_redaction opt) (snd (request_loop env opt i key st attempts attempt authRetried lastOutcome w))"
proof (induction env opt i key st attempts attempt authRetried lastOutcome w rule: request_loop.induct)
  case (1 env opt i key st attempts attempt authRetried lastOutcome w)
  note loop = request_loop.simps [of env opt i key st attempts attempt authRetried lastOutcome w]
  show ?case
  proof (cases "attempt < maxAttempts (ho_retry opt)")
    case True
    have "turn_ok (he_sha256 env) (ho_redaction opt) (turn env opt i key st (attempts + 1) attempt authRetried w)"
      by (rule turn_calls_ok [OF "1.prems"])
    then show ?thesis using "1.IH" True
      by (cases "turn env opt i key st (attempts + 1) attempt authRetried w") (auto simp: loop turn_ok_def)
  next
    case False
    then show ?thesis using "1.prems" by (auto simp: loop case_prod_unfold terminalError_ok split: sum.split)
  qed
qed

section \<open>Properties\<close>

text \<open>A network that gives the exchanges of a list, and a write over it.\<close>

definition list_env :: "Exchange list HttpEnv" where
  "list_env = \<lparr>he_now = (\<lambda>n. 1000 * int (length n)),
     he_send = (\<lambda>url i p t n. case n of [] \<Rightarrow> (SendFailed (ThrownOther (Some ''ECONNREFUSED'') None), []) | x # xs \<Rightarrow> (x, xs)),
     he_apply = (\<lambda>p n. (Inr p, n)), he_onUnauthorized = None, he_sleep = (\<lambda>ms n. n), he_random = (\<lambda>n. 1 / 2),
     he_parseDate = (\<lambda>s. None), he_parseJson = (\<lambda>s. None), he_resolveUrl = (\<lambda>p b q. b @ p), he_encodeForm = (\<lambda>f. []),
     he_sha256 = id\<rparr>"

definition list_options :: HttpClientOptions where
  "list_options = \<lparr>ho_baseUrl = ''https://banco.example'', ho_providerSlug = ''mock-bank'', ho_environment = ''PRODUCAO'',
     ho_connectionId = ''conn1'', ho_errorMapper = buildErrorMapper COMMON_ERROR_MAPPINGS PROVIDER_REJECTED,
     ho_breaker = None, ho_retry = DEFAULT_RETRY_POLICY, ho_redaction = BASE_REDACTION,
     ho_timeouts = (\<lambda>c. None), ho_defaultHeaders = [(''X-Api-Key'', ''segredo'')], ho_userAgent = None, ho_correlationId = None,
     ho_operationId = Some ''op1''\<rparr>"

definition list_write :: HttpRequestInit where
  "list_write = \<lparr>hi_method = POST, hi_path = ''/pix'', hi_query = [], hi_body = Some (JObj [(''cpf'', JStr ''52998224725'')]),
     hi_headers = [], hi_endpointClass = Write_endpoint, hi_idempotent = None, hi_form = None\<rparr>"

definition list_world :: "Exchange list \<Rightarrow> Exchange list HttpWorld" where
  "list_world xs = \<lparr>hw_breaker = [], hw_net = xs, hw_calls = [], hw_exchanges = []\<rparr>"

lemma list_send: "he_send list_env u i p t (x # xs) = (x, xs)" "prepare list_env opt i net = (Inr (draft_request list_env opt i net), net)"
  by (simp_all add: list_env_def prepare_def)

lemma list_fields:
  "ho_breaker list_options = None" "ho_retry list_options = DEFAULT_RETRY_POLICY" "he_onUnauthorized list_env = None"
  "\<not> is_idempotent list_write" "hw_net (list_world xs) = xs" "hw_exchanges (list_world xs) = []" "he_sleep list_env d n = n"
  by (simp_all add: list_options_def list_env_def is_idempotent_def list_write_def IDEMPOTENT_METHODS_def list_world_def)

lemmas list_eval = http_request_def turn_def list_send list_fields answer_turn_def on_refusal_def on_throw_def canRetry_def
  DEFAULT_RETRY_POLICY_def wait_retry_def on_breaker_def Let_def toOutcome_def

text \<open>C33: a request that is not idempotent is sent at most once more than its attempts, and again only after exchanges that prove
  that the provider did not carry it out (an answer 429 or 503, a name that was not resolved, a connection that was not made) or
  that refused its credentials; if the last exchange ends without an answer and is no such proof, the error says that the outcome
  is unknown.\<close>

theorem no_blind_retry:
  assumes "\<not> is_idempotent i" "http_request env opt i w = (r, w')"
  shows "\<exists>sent. hw_exchanges w' = hw_exchanges w @ sent \<and> (\<forall>x\<in>set (butlast sent). refused_or_unreached x \<or> unauthorized x) \<and>
    (sent \<noteq> [] \<longrightarrow> indeterminate (last sent) \<longrightarrow> throws_unknown r) \<and> length sent \<le> maxAttempts (ho_retry opt) + 1"
  using request_loop_exchanges [OF assms(1) assms(2) [unfolded http_request_def]] by auto

theorem no_blind_retry_witness:
  "hw_exchanges (snd (http_request list_env list_options list_write
      (list_world [Answered 503 [] [], SendFailed (ThrownOther (Some ''ECONNRESET'') None), Answered 200 [] []]))) =
     [Answered 503 [] [], SendFailed (ThrownOther (Some ''ECONNRESET'') None)] \<and>
   throws_unknown (fst (http_request list_env list_options list_write
      (list_world [Answered 503 [] [], SendFailed (ThrownOther (Some ''ECONNRESET'') None), Answered 200 [] []])))"
proof -
  let ?w = "list_world [Answered 503 [] [], SendFailed (ThrownOther (Some ''ECONNRESET'') None), Answered 200 [] []]"
  have x: "hw_exchanges (snd (http_request list_env list_options list_write ?w)) =
    [Answered 503 [] [], SendFailed (ThrownOther (Some ''ECONNRESET'') None)]"
    by (simp add: list_eval request_loop.simps case_prod_unfold)
  show ?thesis
    using no_blind_retry [of list_write list_env list_options ?w] x
    by (cases "http_request list_env list_options list_write ?w")
      (auto simp: is_idempotent_def list_write_def IDEMPOTENT_METHODS_def indeterminate_def refused_or_unreached_def list_world_def)
qed



text \<open>C34: the answer 504 does not prove that a write was not carried out, and yet the common mappings report it as an error
  that is safe to retry and not as an unknown outcome; idempotency then releases the key of the request.\<close>

theorem gateway_timeout_taken_for_refusal:
  "\<not> isProvablyPreCommit (HttpOutcome 504 None) \<and>
   (\<exists>e. fst (http_request list_env list_options list_write (list_world [Answered 504 [] []])) = Inl (ThrownBaas e) \<and>
     be_class e = PlainError \<and> be_code e = PROVIDER_UNAVAILABLE \<and> be_safeToRetry e \<and>
     finish_request now ex (Threw e) r = idem_release (ex_record ex) r)"
proof -
  let ?i = "\<lparr>mi_status = 504, mi_body = None, mi_providerSlug = ho_providerSlug list_options, mi_requestId = ho_correlationId list_options\<rparr>"
  have "fst (http_request list_env list_options list_write (list_world [Answered 504 [] []])) =
    Inl (ThrownBaas (ho_errorMapper list_options ?i))"
    by (simp add: list_eval request_loop.simps case_prod_unfold readBody_def)
  moreover have "find (\<lambda>m. mapping_applies m ?i c t) COMMON_ERROR_MAPPINGS =
    Some (when_status (StatusIn [502, 503, 504]) PROVIDER_UNAVAILABLE (Some True) (Some True))" for c t
    by (simp add: COMMON_ERROR_MAPPINGS_def mapping_applies_def when_status_def)
  ultimately show ?thesis
    by (simp add: list_options_def buildErrorMapper_def Let_def when_status_def or_default_def finish_request_def onFailure_def
        isDeterministic_def)
qed

end
