(* ===== verification/Balance_Service.thy ===== *)
theory Balance_Service
  imports Shadow_Ledger Recon_Repositories Canonical_Errors Money
begin

text \<open>
  Reading a balance: the rules that keep the cache from answering (\<open>src/apps/api/src/balance/bypass-rules.ts\<close>), the signals
  they look at (\<open>balance-signals.ts\<close>), the in-memory cache with its tags and single flight
  (\<open>src/apps/api/src/cache\<close>) and the service (\<open>balance.service.ts\<close>).

  A read crosses three points at which others run: after the cache was asked, while the signals are fetched, and
  while the provider is asked.  \<open>get_read\<close>, \<open>get_decide\<close> and \<open>get_finish\<close> are the pieces between them, and \<open>fetch_done\<close> is the end
  of a flight that several reads may share.  The two readings of the ledger are taken together.  The clock is a reading per
  piece; a date is \<open>None\<close> when it is JavaScript's \<open>Invalid Date\<close>; \<open>new Date(text)\<close> and the reply of the provider are parameters.
\<close>

section \<open>Errors and dates\<close>

datatype BalanceFailure = Canonical BaasError | LedgerFailure ShadowError | Raw string

type_synonym js_date = "instant option"

definition before :: "js_date \<Rightarrow> js_date \<Rightarrow> bool" where
  "before a b \<longleftrightarrow> (case (a, b) of (Some x, Some y) \<Rightarrow> x < y | _ \<Rightarrow> False)"

section \<open>bypass-rules.ts\<close>

datatype Consistency = Cached_read | Strong_read

record BypassInput =
  bi_consistency :: Consistency
  bi_authorizationPath :: bool
  bi_lastLocalMovementAt :: "instant option"
  bi_hasInboundWebhooks :: bool
  bi_hasHighSeverityBreak :: bool
  bi_cachedAsOf :: "js_date option"
  bi_lastKnownMovementAt :: "instant option"
  bi_now :: instant
  bi_postMutationWindowSeconds :: int

datatype BypassReason =
    consistency_strong | authorization_path | recent_local_mutation | no_inbound_webhooks
  | open_reconciliation_break | cache_older_than_movement

fun rule_applies :: "BypassReason \<Rightarrow> BypassInput \<Rightarrow> bool" where
  "rule_applies consistency_strong i \<longleftrightarrow> bi_consistency i = Strong_read"
| "rule_applies authorization_path i \<longleftrightarrow> bi_authorizationPath i"
| "rule_applies recent_local_mutation i \<longleftrightarrow>
     (case bi_lastLocalMovementAt i of None \<Rightarrow> False | Some t \<Rightarrow> bi_now i - t < bi_postMutationWindowSeconds i * 1000)"
| "rule_applies no_inbound_webhooks i \<longleftrightarrow> \<not> bi_hasInboundWebhooks i"
| "rule_applies open_reconciliation_break i \<longleftrightarrow> bi_hasHighSeverityBreak i"
| "rule_applies cache_older_than_movement i \<longleftrightarrow>
     (case (bi_cachedAsOf i, bi_lastKnownMovementAt i) of (Some asOf, Some t) \<Rightarrow> before asOf (Some t) | _ \<Rightarrow> False)"

definition RULES :: "BypassReason list" where
  "RULES = [consistency_strong, authorization_path, recent_local_mutation, no_inbound_webhooks, open_reconciliation_break,
     cache_older_than_movement]"

definition bypassReason :: "BypassInput \<Rightarrow> BypassReason option" where
  "bypassReason i = find (\<lambda>r. rule_applies r i) RULES"

definition allBypassReasons :: "BypassInput \<Rightarrow> BypassReason list" where
  "allBypassReasons i = filter (\<lambda>r. rule_applies r i) RULES"

datatype FreshnessSource = From_cache | From_provider | From_ledger | From_stale_cache

record Freshness =
  fr_source :: FreshnessSource
  fr_as_of :: string
  fr_age_ms :: int
  fr_stale_after :: string
  fr_degraded :: bool

definition freshnessOf :: "FreshnessSource \<Rightarrow> js_date \<Rightarrow> instant \<Rightarrow> int \<Rightarrow> bool \<Rightarrow> BalanceFailure + Freshness" where
  "freshnessOf source asOf now ttlSeconds degraded =
     (case asOf of
        None \<Rightarrow> Inl (Raw ''RangeError: Invalid time value'')
      | Some t \<Rightarrow> Inr \<lparr>fr_source = source, fr_as_of = toISOString t, fr_age_ms = max 0 (now - t),
          fr_stale_after = toISOString (t + ttlSeconds * 1000), fr_degraded = degraded\<rparr>)"

section \<open>The cache\<close>

record 'v CacheEntry =
  ce_value :: 'v
  ce_asOf :: js_date

record 'v Slot =
  sl_value :: 'v
  sl_asOf :: js_date
  sl_expiresAtMs :: instant
  sl_tags :: "string list"

type_synonym 'v slots = "(string, 'v Slot) jsmap"

definition cache_get :: "instant \<Rightarrow> string \<Rightarrow> 'v slots \<Rightarrow> 'v CacheEntry option \<times> 'v slots" where
  "cache_get now key slots =
     (case map_get slots key of
        None \<Rightarrow> (None, slots)
      | Some slot \<Rightarrow>
          if sl_expiresAtMs slot \<le> now then (None, map_delete key slots)
          else (Some \<lparr>ce_value = sl_value slot, ce_asOf = sl_asOf slot\<rparr>, slots))"

definition cache_set :: "instant \<Rightarrow> string \<Rightarrow> 'v \<Rightarrow> int \<Rightarrow> js_date \<Rightarrow> string list \<Rightarrow> 'v slots \<Rightarrow> 'v slots" where
  "cache_set now key v ttlSeconds asOf tags slots =
     map_set key \<lparr>sl_value = v, sl_asOf = asOf, sl_expiresAtMs = now + ttlSeconds * 1000, sl_tags = tags\<rparr> slots"

definition cache_delete :: "string \<Rightarrow> 'v slots \<Rightarrow> 'v slots" where
  "cache_delete key slots = map_delete key slots"

definition invalidateTag :: "string \<Rightarrow> 'v slots \<Rightarrow> 'v slots" where
  "invalidateTag tag slots = filter (\<lambda>(key, slot). tag \<notin> set (sl_tags slot)) slots"

text \<open>The flight under way for the key, or the new one.\<close>

definition singleFlight :: "string \<Rightarrow> nat \<Rightarrow> (string, nat) jsmap \<Rightarrow> nat \<times> bool \<times> (string, nat) jsmap" where
  "singleFlight key fresh inFlight =
     (case map_get inFlight key of
        Some running \<Rightarrow> (running, False, inFlight)
      | None \<Rightarrow> (fresh, True, map_set key fresh inFlight))"

fun environment_name :: "Environment \<Rightarrow> string" where
  "environment_name HOMOLOGACAO = ''HOMOLOGACAO''"
| "environment_name PRODUCAO = ''PRODUCAO''"

definition cacheKey :: "int \<Rightarrow> Environment \<Rightarrow> string \<Rightarrow> string \<Rightarrow> string option \<Rightarrow> string" where
  "cacheKey ver env entity i qualifier =
     (let base = ''baas:'' @ show_int ver @ '':'' @ environment_name env @ '':'' @ entity @ '':'' @ i
      in case truthy qualifier of Some q \<Rightarrow> base @ '':'' @ q | None \<Rightarrow> base)"

definition accountTag :: "Environment \<Rightarrow> ident \<Rightarrow> string" where
  "accountTag env i = ''baas:tag:'' @ environment_name env @ '':account:'' @ i"

section \<open>balance.service.ts\<close>

datatype BalanceSource = Provider_source | Ledger_source
datatype OnProviderError = Fail_on_error | Serve_stale

record BalanceQuery =
  bq_consistency :: Consistency
  bq_source :: BalanceSource
  bq_onProviderError :: OnProviderError

record BalanceDto =
  bd_account_id :: ident
  bd_available :: MoneyJSON
  bd_blocked :: MoneyJSON
  bd_pending :: MoneyJSON
  bd_total :: MoneyJSON
  bd_scheduled_outflow :: "MoneyJSON option"

record BalanceResult =
  br_dto :: BalanceDto
  br_freshness :: Freshness
  br_bypass :: "BypassReason option"

record ProviderBalance =
  pb_available :: MoneyJSON
  pb_blocked :: "MoneyJSON option"
  pb_pending :: "MoneyJSON option"
  pb_asOf :: "string option"

record Snapshot =
  sn_available :: string
  sn_blocked :: "string option"
  sn_pending :: "string option"
  sn_asOf :: "string option"

definition snapshotOf :: "ProviderBalance \<Rightarrow> Snapshot" where
  "snapshotOf b = \<lparr>sn_available = mj_amount (pb_available b), sn_blocked = map_option mj_amount (pb_blocked b),
     sn_pending = map_option mj_amount (pb_pending b), sn_asOf = pb_asOf b\<rparr>"

definition money_json :: "int \<Rightarrow> BalanceFailure + MoneyJSON" where
  "money_json v = (case Money_of v BRL of Inl e \<Rightarrow> Inl (Raw ''InvalidMoneyError'') | Inr m \<Rightarrow> Inr (Money_toJSON m))"

definition big :: "string \<Rightarrow> BalanceFailure + int" where
  "big t = (case js_BigInt t of None \<Rightarrow> Inl (Raw ''SyntaxError'') | Some v \<Rightarrow> Inr v)"

definition dto_of :: "ident \<Rightarrow> int \<Rightarrow> int \<Rightarrow> int \<Rightarrow> int option \<Rightarrow> BalanceFailure + BalanceDto" where
  "dto_of acct available blocked pending outflow =
     (case money_json available of Inl e \<Rightarrow> Inl e | Inr a \<Rightarrow>
     (case money_json blocked of Inl e \<Rightarrow> Inl e | Inr b \<Rightarrow>
     (case money_json pending of Inl e \<Rightarrow> Inl e | Inr p \<Rightarrow>
     (case money_json (available + blocked + pending) of Inl e \<Rightarrow> Inl e | Inr t \<Rightarrow>
     (case outflow of
        None \<Rightarrow> Inr \<lparr>bd_account_id = acct, bd_available = a, bd_blocked = b, bd_pending = p, bd_total = t, bd_scheduled_outflow = None\<rparr>
      | Some v \<Rightarrow> (case money_json v of Inl e \<Rightarrow> Inl e
          | Inr x \<Rightarrow> Inr \<lparr>bd_account_id = acct, bd_available = a, bd_blocked = b, bd_pending = p, bd_total = t,
              bd_scheduled_outflow = Some x\<rparr>))))))"

definition toDto :: "ident \<Rightarrow> Snapshot \<Rightarrow> BalanceFailure + BalanceDto" where
  "toDto acct s =
     (case big (sn_available s) of Inl e \<Rightarrow> Inl e | Inr available \<Rightarrow>
     (case big (or_default (sn_blocked s) ''0'') of Inl e \<Rightarrow> Inl e | Inr blocked \<Rightarrow>
     (case big (or_default (sn_pending s) ''0'') of Inl e \<Rightarrow> Inl e | Inr pending \<Rightarrow>
       dto_of acct available blocked pending None)))"

record BalanceConfig =
  cf_cacheVersion :: int
  cf_balanceCacheTtlSeconds :: int
  cf_postMutationBypassSeconds :: int

record Flight =
  fl_key :: string
  fl_account :: AccountRecord
  fl_result :: "(BalanceFailure + Snapshot) option"

record BalanceWorld =
  bw_accounts :: AccountRepo
  bw_breaks :: BreakRepo
  bw_ledgers :: LedgerStores
  bw_slots :: "Snapshot slots"
  bw_inFlight :: "(string, nat) jsmap"
  bw_flights :: "Flight list"

record BalanceRequest =
  rq_environment :: Environment
  rq_accountId :: ident
  rq_query :: BalanceQuery
  rq_authorizationPath :: bool

datatype Phase =
    Arrived
  | Reading AccountRecord "Snapshot CacheEntry option"
  | Waiting "Snapshot CacheEntry option" "BypassReason option" nat
  | Done "BalanceFailure + BalanceResult"

definition balance_key :: "BalanceConfig \<Rightarrow> Environment \<Rightarrow> ident \<Rightarrow> string" where
  "balance_key cf env acct = cacheKey (cf_cacheVersion cf) env ''balance'' acct None"

definition account_not_found :: "ident \<Rightarrow> BaasError" where
  "account_not_found i = new_BaasError BaasErrorCode.ACCOUNT_NOT_FOUND
     (no_init\<lparr>in_message := Some (''Conta '' @ i @ '' nao encontrada.'')\<rparr>)"

definition require_account :: "BalanceWorld \<Rightarrow> Environment \<Rightarrow> ident \<Rightarrow> BalanceFailure + AccountRecord" where
  "require_account w env i =
     (case ac_findById (bw_accounts w) env i of None \<Rightarrow> Inl (Canonical (account_not_found i)) | Some a \<Rightarrow> Inr a)"

text \<open>A result, unless one of its halves throws.\<close>

definition result_of ::
  "BalanceFailure + BalanceDto \<Rightarrow> BalanceFailure + Freshness \<Rightarrow> BypassReason option \<Rightarrow> BalanceFailure + BalanceResult" where
  "result_of dto freshness bypass =
     (case dto of Inl e \<Rightarrow> Inl e | Inr d \<Rightarrow>
     (case freshness of Inl e \<Rightarrow> Inl e | Inr f \<Rightarrow> Inr \<lparr>br_dto = d, br_freshness = f, br_bypass = bypass\<rparr>))"

definition fromLedger ::
  "BalanceConfig \<Rightarrow> (nat \<Rightarrow> ident) \<Rightarrow> instant \<Rightarrow> Environment \<Rightarrow> AccountRecord \<Rightarrow> BalanceWorld \<Rightarrow>
   (BalanceFailure + BalanceResult) \<times> BalanceWorld" where
  "fromLedger cf ids now env account w =
     (case (truthy (ac_ledgerAvailableAccountId account), truthy (ac_ledgerBlockedAccountId account)) of
        (Some availableId, Some blockedId) \<Rightarrow>
          (case factory_for ids env (bw_ledgers w) of (store, stores) \<Rightarrow>
             ((case shadow_balances availableId store of Inl e \<Rightarrow> Inl (LedgerFailure e) | Inr available \<Rightarrow>
              (case shadow_balances blockedId store of Inl e \<Rightarrow> Inl (LedgerFailure e) | Inr blocked \<Rightarrow>
                 result_of
                   (dto_of (ac_id account) (bal_available available) (bal_posted blocked) (bal_pending available)
                      (Some (bal_posted available - bal_available available)))
                   (freshnessOf From_ledger (Some now) now (cf_balanceCacheTtlSeconds cf) False) None)),
              w\<lparr>bw_ledgers := stores\<rparr>))
      | _ \<Rightarrow> (Inl (Canonical (new_BaasError BaasErrorCode.RESOURCE_NOT_FOUND
                 (no_init\<lparr>in_message := Some ''A conta nao possui contas de razao abertas.''\<rparr>))), w))"

definition get_read ::
  "BalanceConfig \<Rightarrow> (nat \<Rightarrow> ident) \<Rightarrow> instant \<Rightarrow> BalanceRequest \<Rightarrow> BalanceWorld \<Rightarrow> Phase \<times> BalanceWorld" where
  "get_read cf ids now rq w =
     (case require_account w (rq_environment rq) (rq_accountId rq) of
        Inl e \<Rightarrow> (Done (Inl e), w)
      | Inr account \<Rightarrow>
          if bq_source (rq_query rq) = Ledger_source
          then (case fromLedger cf ids now (rq_environment rq) account w of (r, w') \<Rightarrow> (Done r, w'))
          else (case cache_get now (balance_key cf (rq_environment rq) (rq_accountId rq)) (bw_slots w) of
                  (cached, slots) \<Rightarrow> (Reading account cached, w\<lparr>bw_slots := slots\<rparr>)))"

definition signal_break :: "BalanceWorld \<Rightarrow> Environment \<Rightarrow> ident \<Rightarrow> bool" where
  "signal_break w env i \<longleftrightarrow> countOpenHighSeverity (bw_breaks w) env i > 0"

definition signal_lastMovement :: "BalanceWorld \<Rightarrow> Environment \<Rightarrow> ident \<Rightarrow> instant option" where
  "signal_lastMovement w env i = (case ac_findById (bw_accounts w) env i of None \<Rightarrow> None | Some a \<Rightarrow> ac_lastEventAt a)"

definition bypass_input ::
  "BalanceConfig \<Rightarrow> (string \<Rightarrow> bool) \<Rightarrow> instant \<Rightarrow> BalanceRequest \<Rightarrow> AccountRecord \<Rightarrow> Snapshot CacheEntry option \<Rightarrow> BalanceWorld \<Rightarrow> BypassInput" where
  "bypass_input cf inboundWebhooks now rq account cached w =
     \<lparr>bi_consistency = bq_consistency (rq_query rq), bi_authorizationPath = rq_authorizationPath rq,
      bi_lastLocalMovementAt = ac_lastEventAt account, bi_hasInboundWebhooks = inboundWebhooks (ac_provider account),
      bi_hasHighSeverityBreak = signal_break w (rq_environment rq) (rq_accountId rq),
      bi_cachedAsOf = map_option ce_asOf cached,
      bi_lastKnownMovementAt = signal_lastMovement w (rq_environment rq) (rq_accountId rq),
      bi_now = now, bi_postMutationWindowSeconds = cf_postMutationBypassSeconds cf\<rparr>"

definition get_decide ::
  "BalanceConfig \<Rightarrow> (string \<Rightarrow> bool) \<Rightarrow> instant \<Rightarrow> BalanceRequest \<Rightarrow> AccountRecord \<Rightarrow> Snapshot CacheEntry option \<Rightarrow> BalanceWorld \<Rightarrow>
   Phase \<times> BalanceWorld" where
  "get_decide cf inboundWebhooks now rq account cached w =
     (let bypass = bypassReason (bypass_input cf inboundWebhooks now rq account cached w) in
      case (cached, bypass) of
        (Some c, None) \<Rightarrow>
          (Done (result_of (toDto (rq_accountId rq) (ce_value c))
             (freshnessOf From_cache (ce_asOf c) now (cf_balanceCacheTtlSeconds cf) False) None), w)
      | _ \<Rightarrow>
          (let key = balance_key cf (rq_environment rq) (rq_accountId rq) in
           case singleFlight key (length (bw_flights w)) (bw_inFlight w) of
             (flight, new, inFlight) \<Rightarrow>
               (Waiting cached bypass flight,
                w\<lparr>bw_inFlight := inFlight,
                  bw_flights := bw_flights w @ (if new then [\<lparr>fl_key = key, fl_account = account, fl_result = None\<rparr>] else [])\<rparr>)))"

definition fetchFromProvider :: "AccountRecord \<Rightarrow> BalanceFailure + ProviderBalance \<Rightarrow> BalanceFailure + Snapshot" where
  "fetchFromProvider account reply =
     (case truthy (ac_providerAccountId account) of
        None \<Rightarrow> Inl (Canonical (new_BaasError ACCOUNT_NOT_ACTIVE
                  (no_init\<lparr>in_message := Some ''A conta ainda nao foi criada no provedor.''\<rparr>)))
      | Some i \<Rightarrow> (case reply of Inl e \<Rightarrow> Inl e | Inr b \<Rightarrow> Inr (snapshotOf b)))"

definition fetch_done :: "nat \<Rightarrow> BalanceFailure + ProviderBalance \<Rightarrow> BalanceWorld \<Rightarrow> BalanceWorld" where
  "fetch_done n reply w =
     (let f = bw_flights w ! n in
      w\<lparr>bw_flights := (bw_flights w)[n := f\<lparr>fl_result := Some (fetchFromProvider (fl_account f) reply)\<rparr>],
        bw_inFlight := map_delete (fl_key f) (bw_inFlight w)\<rparr>)"

definition provider_unavailable :: BaasError where
  "provider_unavailable = new_BaasError PROVIDER_UNAVAILABLE
     (no_init\<lparr>in_message := Some ''Nao foi possivel consultar o saldo no provedor.''\<rparr>)"

text \<open>An error of the ledger cannot reach this handler: the ledger is read before the provider is tried.\<close>

definition onProviderFailure ::
  "BalanceConfig \<Rightarrow> instant \<Rightarrow> ident \<Rightarrow> BalanceQuery \<Rightarrow> Snapshot CacheEntry option \<Rightarrow> BalanceFailure \<Rightarrow> BalanceFailure + BalanceResult" where
  "onProviderFailure cf now acct query cached err =
     (case (bq_onProviderError query, cached) of
        (Serve_stale, Some c) \<Rightarrow>
          result_of (toDto acct (ce_value c))
            (freshnessOf From_stale_cache (ce_asOf c) now (cf_balanceCacheTtlSeconds cf) True) None
      | _ \<Rightarrow> (case err of Raw m \<Rightarrow> Inl (Canonical provider_unavailable) | e \<Rightarrow> Inl e))"

definition get_finish ::
  "BalanceConfig \<Rightarrow> (string \<Rightarrow> js_date) \<Rightarrow> instant \<Rightarrow> BalanceRequest \<Rightarrow> Snapshot CacheEntry option \<Rightarrow> BypassReason option \<Rightarrow>
   BalanceFailure + Snapshot \<Rightarrow> BalanceWorld \<Rightarrow> (BalanceFailure + BalanceResult) \<times> BalanceWorld" where
  "get_finish cf parseDate now rq cached bypass fetched w =
     (case fetched of
        Inl e \<Rightarrow> (onProviderFailure cf now (rq_accountId rq) (rq_query rq) cached e, w)
      | Inr fresh \<Rightarrow>
          (let asOf = (case truthy (sn_asOf fresh) of Some t \<Rightarrow> parseDate t | None \<Rightarrow> Some now);
               w' = w\<lparr>bw_slots := cache_set now (balance_key cf (rq_environment rq) (rq_accountId rq)) fresh (cf_balanceCacheTtlSeconds cf)
                        asOf [accountTag (rq_environment rq) (rq_accountId rq)] (bw_slots w)\<rparr> in
           case result_of (toDto (rq_accountId rq) fresh) (freshnessOf From_provider asOf now (cf_balanceCacheTtlSeconds cf) False) bypass of
             Inl e \<Rightarrow> (onProviderFailure cf now (rq_accountId rq) (rq_query rq) cached e, w')
           | Inr r \<Rightarrow> (Inr r, w')))"

definition invalidate :: "Environment \<Rightarrow> ident \<Rightarrow> BalanceWorld \<Rightarrow> BalanceWorld" where
  "invalidate env acct w = w\<lparr>bw_slots := invalidateTag (accountTag env acct) (bw_slots w)\<rparr>"

end
