(* ===== verification/Balance_Properties.thy ===== *)
theory Balance_Properties
  imports Balance_Service
begin

text \<open>
  What a read of a balance answers, however reads, flights, invalidations and other writers interleave: the numbers are those
  the provider reported of that very account, the total is their sum, and neither a strong read nor an authorisation is
  answered from the cache.  A closed run shows what sharing a flight and storing its result after an invalidation do.
\<close>

section \<open>Pieces\<close>

lemma balance_key_inj: "balance_key cf e i = balance_key cf e' i' \<longleftrightarrow> e = e' \<and> i = i'"
  by (cases e; cases e') (auto simp: balance_key_def cacheKey_def)

definition cents_json :: "int \<Rightarrow> MoneyJSON" where
  "cents_json v = \<lparr>mj_amount = show_int v, mj_currency = BRL, mj_scale = 2\<rparr>"

lemma money_json_Inr: "money_json v = Inr m \<Longrightarrow> m = cents_json v"
  by (auto simp: money_json_def cents_json_def Money_of_def Money_toJSON_def CURRENCY_SCALE_def split: if_splits)

definition dto_shows :: "Snapshot \<Rightarrow> BalanceDto \<Rightarrow> bool" where
  "dto_shows s d \<longleftrightarrow> (\<exists>a b p. js_BigInt (sn_available s) = Some a \<and> js_BigInt (or_default (sn_blocked s) ''0'') = Some b \<and>
     js_BigInt (or_default (sn_pending s) ''0'') = Some p \<and> bd_available d = cents_json a \<and> bd_blocked d = cents_json b \<and>
     bd_pending d = cents_json p \<and> bd_total d = cents_json (a + b + p))"

lemma toDto_shows: "toDto i s = Inr d \<Longrightarrow> dto_shows s d \<and> bd_account_id d = i"
  by (auto simp: toDto_def big_def dto_of_def dto_shows_def dest!: money_json_Inr split: option.splits sum.splits)

lemma result_of_Inr:
  "result_of dto freshness bypass = Inr r \<longleftrightarrow> (\<exists>d f. dto = Inr d \<and> freshness = Inr f \<and> r = \<lparr>br_dto = d, br_freshness = f, br_bypass = bypass\<rparr>)"
  by (auto simp: result_of_def split: sum.splits)

lemma freshnessOf_Inr: "freshnessOf src asOf now ttl deg = Inr f \<Longrightarrow> fr_source f = src \<and> fr_degraded f = deg"
  by (auto simp: freshnessOf_def split: option.splits)

lemma bypass_None: "bypassReason i = None \<longleftrightarrow> (\<forall>r. \<not> rule_applies r i)"
proof -
  have "set RULES = UNIV" using BypassReason.exhaust by (auto simp: RULES_def)
  then show ?thesis by (simp add: bypassReason_def find_None_iff)
qed

section \<open>The system\<close>

text \<open>\<open>sy_reports\<close> records every balance the provider gave, with the account it was asked about.\<close>

record BalanceSystem =
  sy_world :: BalanceWorld
  sy_requests :: "(BalanceRequest \<times> Phase) list"
  sy_reports :: "(AccountRecord \<times> Snapshot) list"

definition accounts_ok :: "AccountRepo \<Rightarrow> bool" where
  "accounts_ok repo \<longleftrightarrow> (\<forall>i row. map_get (a_rows repo) i = Some row \<longrightarrow> ac_id row = i)"

definition new_reports :: "AccountRecord \<Rightarrow> BalanceFailure + Snapshot \<Rightarrow> (AccountRecord \<times> Snapshot) list" where
  "new_reports account r = (case r of Inl e \<Rightarrow> [] | Inr snap \<Rightarrow> [(account, snap)])"

inductive balance_step ::
  "BalanceConfig \<Rightarrow> (string \<Rightarrow> bool) \<Rightarrow> (string \<Rightarrow> js_date) \<Rightarrow> (nat \<Rightarrow> ident) \<Rightarrow> BalanceSystem \<Rightarrow> BalanceSystem \<Rightarrow> bool"
  for cf inbound parseDate ids where
  arrive: "balance_step cf inbound parseDate ids s (s\<lparr>sy_requests := sy_requests s @ [(rq, Arrived)]\<rparr>)"
| read: "n < length (sy_requests s) \<Longrightarrow> sy_requests s ! n = (rq, Arrived) \<Longrightarrow> get_read cf ids now rq (sy_world s) = (ph, w) \<Longrightarrow>
    balance_step cf inbound parseDate ids s (s\<lparr>sy_requests := (sy_requests s)[n := (rq, ph)], sy_world := w\<rparr>)"
| decide: "n < length (sy_requests s) \<Longrightarrow> sy_requests s ! n = (rq, Reading account cached) \<Longrightarrow>
    get_decide cf inbound now rq account cached (sy_world s) = (ph, w) \<Longrightarrow>
    balance_step cf inbound parseDate ids s (s\<lparr>sy_requests := (sy_requests s)[n := (rq, ph)], sy_world := w\<rparr>)"
| reply: "n < length (bw_flights (sy_world s)) \<Longrightarrow> bw_flights (sy_world s) ! n = f \<Longrightarrow> fl_result f = None \<Longrightarrow>
    balance_step cf inbound parseDate ids s
      (s\<lparr>sy_world := fetch_done n answer (sy_world s),
         sy_reports := sy_reports s @ new_reports (fl_account f) (fetchFromProvider (fl_account f) answer)\<rparr>)"
| finish: "n < length (sy_requests s) \<Longrightarrow> sy_requests s ! n = (rq, Waiting cached bypass k) \<Longrightarrow>
    fl_result (bw_flights (sy_world s) ! k) = Some fetched \<Longrightarrow>
    get_finish cf parseDate now rq cached bypass fetched (sy_world s) = (r, w) \<Longrightarrow>
    balance_step cf inbound parseDate ids s (s\<lparr>sy_requests := (sy_requests s)[n := (rq, Done r)], sy_world := w\<rparr>)"
| others: "accounts_ok a \<Longrightarrow>
    balance_step cf inbound parseDate ids s (s\<lparr>sy_world := (sy_world s)\<lparr>bw_accounts := a, bw_breaks := b, bw_ledgers := l\<rparr>\<rparr>)"
| invalidated: "balance_step cf inbound parseDate ids s (s\<lparr>sy_world := invalidate env i (sy_world s)\<rparr>)"

definition balance_start :: "AccountRepo \<Rightarrow> BreakRepo \<Rightarrow> LedgerStores \<Rightarrow> BalanceSystem" where
  "balance_start a b l = \<lparr>sy_world = \<lparr>bw_accounts = a, bw_breaks = b, bw_ledgers = l, bw_slots = [], bw_inFlight = [], bw_flights = []\<rparr>,
     sy_requests = [], sy_reports = []\<rparr>"

inductive balance_reachable ::
  "BalanceConfig \<Rightarrow> (string \<Rightarrow> bool) \<Rightarrow> (string \<Rightarrow> js_date) \<Rightarrow> (nat \<Rightarrow> ident) \<Rightarrow> BalanceSystem \<Rightarrow> bool"
  for cf inbound parseDate ids where
  start: "accounts_ok a \<Longrightarrow> balance_reachable cf inbound parseDate ids (balance_start a b l)"
| step: "balance_reachable cf inbound parseDate ids s \<Longrightarrow> balance_step cf inbound parseDate ids s s' \<Longrightarrow>
    balance_reachable cf inbound parseDate ids s'"

section \<open>The invariant\<close>

definition request_key :: "BalanceConfig \<Rightarrow> BalanceRequest \<Rightarrow> string" where
  "request_key cf rq = balance_key cf (rq_environment rq) (rq_accountId rq)"

definition account_key :: "BalanceConfig \<Rightarrow> AccountRecord \<Rightarrow> string" where
  "account_key cf account = balance_key cf (ac_environment account) (ac_id account)"

definition reported :: "BalanceConfig \<Rightarrow> (AccountRecord \<times> Snapshot) list \<Rightarrow> string \<Rightarrow> Snapshot \<Rightarrow> bool" where
  "reported cf reports k snap \<longleftrightarrow> (\<exists>account. (account, snap) \<in> set reports \<and> account_key cf account = k)"

definition entry_reported :: "BalanceConfig \<Rightarrow> (AccountRecord \<times> Snapshot) list \<Rightarrow> BalanceRequest \<Rightarrow> Snapshot CacheEntry option \<Rightarrow> bool" where
  "entry_reported cf reports rq cached \<longleftrightarrow> (\<forall>c. cached = Some c \<longrightarrow> reported cf reports (request_key cf rq) (ce_value c))"

definition answer_ok :: "BalanceConfig \<Rightarrow> (AccountRecord \<times> Snapshot) list \<Rightarrow> BalanceRequest \<Rightarrow> BalanceResult \<Rightarrow> bool" where
  "answer_ok cf reports rq r \<longleftrightarrow> bq_source (rq_query rq) = Provider_source \<longrightarrow>
     (\<exists>snap. reported cf reports (request_key cf rq) snap \<and> dto_shows snap (br_dto r)) \<and>
     (fr_source (br_freshness r) = From_cache \<longrightarrow> bq_consistency (rq_query rq) = Cached_read \<and> \<not> rq_authorizationPath rq) \<and>
     (fr_source (br_freshness r) = From_stale_cache \<longrightarrow> bq_onProviderError (rq_query rq) = Serve_stale \<and> fr_degraded (br_freshness r))"

fun phase_ok :: "BalanceConfig \<Rightarrow> string list \<Rightarrow> (AccountRecord \<times> Snapshot) list \<Rightarrow> BalanceRequest \<times> Phase \<Rightarrow> bool" where
  "phase_ok cf flightKeys reports (rq, Arrived) \<longleftrightarrow> True"
| "phase_ok cf flightKeys reports (rq, Reading account cached) \<longleftrightarrow> account_key cf account = request_key cf rq \<and> entry_reported cf reports rq cached"
| "phase_ok cf flightKeys reports (rq, Waiting cached bypass n) \<longleftrightarrow>
     entry_reported cf reports rq cached \<and> n < length flightKeys \<and> flightKeys ! n = request_key cf rq"
| "phase_ok cf flightKeys reports (rq, Done r) \<longleftrightarrow> (\<forall>x. r = Inr x \<longrightarrow> answer_ok cf reports rq x)"

definition slots_ok :: "BalanceConfig \<Rightarrow> (AccountRecord \<times> Snapshot) list \<Rightarrow> Snapshot slots \<Rightarrow> bool" where
  "slots_ok cf reports slots \<longleftrightarrow> (\<forall>(k, slot)\<in>set slots. reported cf reports k (sl_value slot))"

definition flight_ok :: "BalanceConfig \<Rightarrow> (AccountRecord \<times> Snapshot) list \<Rightarrow> Flight \<Rightarrow> bool" where
  "flight_ok cf reports f \<longleftrightarrow> fl_key f = account_key cf (fl_account f) \<and>
     (\<forall>snap. fl_result f = Some (Inr snap) \<longrightarrow> reported cf reports (fl_key f) snap)"

text \<open>The map of running flights names exactly those without a result.\<close>

definition running_ok :: "Flight list \<Rightarrow> (string, nat) jsmap \<Rightarrow> bool" where
  "running_ok flights inFlight \<longleftrightarrow>
     (\<forall>k n. map_get inFlight k = Some n \<longleftrightarrow> n < length flights \<and> fl_key (flights ! n) = k \<and> fl_result (flights ! n) = None)"

definition balance_ok :: "BalanceConfig \<Rightarrow> BalanceSystem \<Rightarrow> bool" where
  "balance_ok cf s \<longleftrightarrow>
     accounts_ok (bw_accounts (sy_world s)) \<and> slots_ok cf (sy_reports s) (bw_slots (sy_world s)) \<and>
     list_all (flight_ok cf (sy_reports s)) (bw_flights (sy_world s)) \<and>
     running_ok (bw_flights (sy_world s)) (bw_inFlight (sy_world s)) \<and>
     list_all (phase_ok cf (map fl_key (bw_flights (sy_world s))) (sy_reports s)) (sy_requests s)"

lemma reported_mono: "reported cf reports k snap \<Longrightarrow> reported cf (reports @ more_reports) k snap"
  by (auto simp: reported_def)

lemma phase_ok_mono:
  assumes "phase_ok cf keys reports x"
  shows "phase_ok cf (keys @ keys') (reports @ reports') x"
proof (cases x)
  case (Pair rq ph)
  show ?thesis
    using assms reported_mono
    by (cases ph) (auto simp: Pair entry_reported_def answer_ok_def nth_append split: if_splits; meson reported_mono)+
qed

lemma cache_get_ok:
  assumes "slots_ok cf reports slots" "cache_get now k slots = (cached, slots')"
  shows "slots_ok cf reports slots'" and "cached = Some c \<Longrightarrow> reported cf reports k (ce_value c)"
  using assms by (fastforce simp: cache_get_def slots_ok_def AList.delete_eq dest: map_of_SomeD split: option.splits if_splits)+

lemma cache_set_ok:
  assumes "slots_ok cf reports slots" "reported cf reports k v"
  shows "slots_ok cf reports (cache_set now k v ttl asOf tags slots)"
proof -
  have "set (map_set k x m) \<subseteq> insert (k, x) (set m)" for x :: "Snapshot Slot" and m
    by (induction m) auto
  then show ?thesis using assms by (fastforce simp: slots_ok_def cache_set_def)
qed

lemma invalidateTag_ok: "slots_ok cf reports slots \<Longrightarrow> slots_ok cf reports (invalidateTag tag slots)"
  by (auto simp: slots_ok_def invalidateTag_def)

lemma request_keyI: "ac_environment account = rq_environment rq \<Longrightarrow> ac_id account = rq_accountId rq \<Longrightarrow> account_key cf account = request_key cf rq"
  by (simp add: account_key_def request_key_def)

lemma find_account:
  "accounts_ok repo \<Longrightarrow> ac_findById repo env i = Some account \<Longrightarrow> ac_environment account = env \<and> ac_id account = i"
  by (auto simp: accounts_ok_def ac_findById_def split: option.splits if_splits)

section \<open>The pieces keep the invariant\<close>

lemma from_cache_ok:
  assumes "result_of (toDto (rq_accountId rq) (ce_value c)) (freshnessOf src asOf now ttl deg) bypass = Inr x"
    and "reported cf reports (request_key cf rq) (ce_value c)"
    and "src = From_cache \<Longrightarrow> bq_consistency (rq_query rq) = Cached_read \<and> \<not> rq_authorizationPath rq"
    and "src = From_stale_cache \<Longrightarrow> bq_onProviderError (rq_query rq) = Serve_stale \<and> deg"
  shows "answer_ok cf reports rq x"
  using assms by (auto simp: answer_ok_def result_of_Inr dest!: toDto_shows freshnessOf_Inr)

lemma failure_ok:
  assumes "onProviderFailure cf now (rq_accountId rq) (rq_query rq) cached e = Inr x" "entry_reported cf reports rq cached"
  shows "answer_ok cf reports rq x"
proof -
  from assms(1) obtain c where c: "cached = Some c" "bq_onProviderError (rq_query rq) = Serve_stale"
      "result_of (toDto (rq_accountId rq) (ce_value c))
         (freshnessOf From_stale_cache (ce_asOf c) now (cf_balanceCacheTtlSeconds cf) True) None = Inr x"
    by (auto simp: onProviderFailure_def split: OnProviderError.splits option.splits BalanceFailure.splits)
  show ?thesis
    by (rule from_cache_ok [OF c(3)]) (use c(1,2) assms(2) in \<open>simp_all add: entry_reported_def\<close>)
qed

lemma fromLedger_world: "bw_slots (snd (fromLedger cf ids now env a w)) = bw_slots w \<and> bw_flights (snd (fromLedger cf ids now env a w)) = bw_flights w \<and>
   bw_inFlight (snd (fromLedger cf ids now env a w)) = bw_inFlight w \<and> bw_accounts (snd (fromLedger cf ids now env a w)) = bw_accounts w"
  by (auto simp: fromLedger_def split: option.splits prod.splits)

lemma get_read_ok:
  assumes "get_read cf ids now rq w = (ph, w')" "accounts_ok (bw_accounts w)" "slots_ok cf reports (bw_slots w)"
  shows "slots_ok cf reports (bw_slots w') \<and> bw_flights w' = bw_flights w \<and> bw_inFlight w' = bw_inFlight w \<and>
    bw_accounts w' = bw_accounts w \<and> phase_ok cf keys reports (rq, ph)"
proof (cases "ac_findById (bw_accounts w) (rq_environment rq) (rq_accountId rq)")
  case None
  then show ?thesis using assms by (auto simp: get_read_def require_account_def)
next
  case (Some account)
  note acc = request_keyI [of account rq cf] find_account [OF assms(2) Some]
  show ?thesis
  proof (cases "bq_source (rq_query rq) = Ledger_source")
    case True
    then show ?thesis
      using assms Some fromLedger_world [of cf ids now "rq_environment rq" account w]
      by (auto simp: get_read_def require_account_def answer_ok_def split: prod.splits)
  next
    case False
    then obtain cached slots where c: "cache_get now (request_key cf rq) (bw_slots w) = (cached, slots)"
      and r: "ph = Reading account cached" "w' = w\<lparr>bw_slots := slots\<rparr>"
      using assms(1) Some by (auto simp: get_read_def require_account_def request_key_def split: prod.splits)
    show ?thesis using cache_get_ok [OF assms(3) c] acc r by (auto simp: entry_reported_def)
  qed
qed

lemma get_decide_answer:
  assumes "get_decide cf inbound now rq account cached w = (Done (Inr x), w')" "entry_reported cf reports rq cached"
  shows "answer_ok cf reports rq x \<and> w' = w"
proof -
  from assms(1) obtain c where c: "cached = Some c" "bypassReason (bypass_input cf inbound now rq account cached w) = None" "w' = w"
      "result_of (toDto (rq_accountId rq) (ce_value c))
         (freshnessOf From_cache (ce_asOf c) now (cf_balanceCacheTtlSeconds cf) False) None = Inr x"
    by (cases cached; cases "bypassReason (bypass_input cf inbound now rq account cached w)")
      (auto simp: get_decide_def Let_def split: prod.splits)
  from c(2) have r: "\<not> rule_applies r (bypass_input cf inbound now rq account cached w)" for r by (simp add: bypass_None)
  have "bq_consistency (rq_query rq) = Cached_read \<and> \<not> rq_authorizationPath rq"
    using r [of consistency_strong] r [of authorization_path] by (auto simp: bypass_input_def intro: Consistency.exhaust)
  with c assms(2) show ?thesis by (auto intro!: from_cache_ok [OF c(4)] simp: entry_reported_def)
qed

lemma running_get:
  "running_ok fs m \<Longrightarrow> map_get m k = Some n \<Longrightarrow> n < length fs \<and> fl_key (fs ! n) = k \<and> fl_result (fs ! n) = None"
  by (simp add: running_ok_def)

lemma running_new:
  assumes "running_ok fs m" "map_get m k = None"
  shows "running_ok (fs @ [\<lparr>fl_key = k, fl_account = a, fl_result = None\<rparr>]) (map_set k (length fs) m)"
  unfolding running_ok_def
proof (intro allI)
  fix k' n
  show "map_get (map_set k (length fs) m) k' = Some n \<longleftrightarrow>
      n < length (fs @ [\<lparr>fl_key = k, fl_account = a, fl_result = None\<rparr>]) \<and>
      fl_key ((fs @ [\<lparr>fl_key = k, fl_account = a, fl_result = None\<rparr>]) ! n) = k' \<and>
      fl_result ((fs @ [\<lparr>fl_key = k, fl_account = a, fl_result = None\<rparr>]) ! n) = None"
    using assms(2) assms(1) [unfolded running_ok_def, rule_format, of k' n] assms(1) [unfolded running_ok_def, rule_format, of k n]
    by (cases "n = length fs"; cases "k' = k") (auto simp: update_conv nth_append less_Suc_eq)
qed

lemma running_done:
  assumes "running_ok fs m" "n < length fs" "fl_result (fs ! n) = None"
  shows "running_ok (fs[n := (fs ! n)\<lparr>fl_result := Some r\<rparr>]) (map_delete (fl_key (fs ! n)) m)"
  unfolding running_ok_def
proof (intro allI)
  fix k i
  have n: "map_get m (fl_key (fs ! n)) = Some n" using assms by (simp add: running_ok_def)
  show "map_get (map_delete (fl_key (fs ! n)) m) k = Some i \<longleftrightarrow>
      i < length (fs[n := (fs ! n)\<lparr>fl_result := Some r\<rparr>]) \<and> fl_key (fs[n := (fs ! n)\<lparr>fl_result := Some r\<rparr>] ! i) = k \<and>
      fl_result (fs[n := (fs ! n)\<lparr>fl_result := Some r\<rparr>] ! i) = None"
    using assms(2) n assms(1) [unfolded running_ok_def, rule_format, of k i]
    by (cases "i = n"; cases "k = fl_key (fs ! n)") (auto simp: delete_conv nth_list_update)
qed

lemma get_decide_waiting:
  assumes "get_decide cf inbound now rq account cached w = (ph, w')" "\<And>r. ph \<noteq> Done r"
  obtains flight new inFlight bypass where "singleFlight (request_key cf rq) (length (bw_flights w)) (bw_inFlight w) = (flight, new, inFlight)"
      "ph = Waiting cached bypass flight"
      "w' = w\<lparr>bw_inFlight := inFlight,
          bw_flights := bw_flights w @ (if new then [\<lparr>fl_key = request_key cf rq, fl_account = account, fl_result = None\<rparr>] else [])\<rparr>"
proof -
  obtain flight new inFlight where f: "singleFlight (request_key cf rq) (length (bw_flights w)) (bw_inFlight w) = (flight, new, inFlight)"
    using prod_cases3 by blast
  show thesis
    using assms that [OF f]
    by (cases cached; cases "bypassReason (bypass_input cf inbound now rq account cached w)")
      (auto simp: get_decide_def Let_def f [unfolded request_key_def] request_key_def)
qed

lemma get_decide_waits:
  assumes "get_decide cf inbound now rq account cached w = (ph, w')" "\<And>r. ph \<noteq> Done r"
    and "running_ok (bw_flights w) (bw_inFlight w)" "list_all (flight_ok cf reports) (bw_flights w)"
    and "account_key cf account = request_key cf rq" "entry_reported cf reports rq cached"
  shows "running_ok (bw_flights w') (bw_inFlight w') \<and> list_all (flight_ok cf reports) (bw_flights w') \<and>
    (\<exists>fs. bw_flights w' = bw_flights w @ fs) \<and> bw_slots w' = bw_slots w \<and> bw_accounts w' = bw_accounts w \<and>
    phase_ok cf (map fl_key (bw_flights w')) reports (rq, ph)"
proof -
  define key where "key = request_key cf rq"
  obtain flight new inFlight bypass where f: "singleFlight key (length (bw_flights w)) (bw_inFlight w) = (flight, new, inFlight)"
      "ph = Waiting cached bypass flight"
      "w' = w\<lparr>bw_inFlight := inFlight,
          bw_flights := bw_flights w @ (if new then [\<lparr>fl_key = key, fl_account = account, fl_result = None\<rparr>] else [])\<rparr>"
    by (rule get_decide_waiting [OF assms(1,2)]) (simp add: key_def)
  show ?thesis
  proof (cases "map_get (bw_inFlight w) key")
    case None
    then have "flight = length (bw_flights w)" "new" "inFlight = map_set key (length (bw_flights w)) (bw_inFlight w)"
      using f(1) by (auto simp: singleFlight_def)
    moreover have "flight_ok cf reports \<lparr>fl_key = key, fl_account = account, fl_result = None\<rparr>"
      using assms(5) by (simp add: flight_ok_def key_def)
    ultimately show ?thesis
      using assms(3,4,6) f running_new [OF assms(3) None, of account] by (auto simp: key_def nth_append)
  next
    case (Some n)
    then have "flight = n" "\<not> new" "inFlight = bw_inFlight w" using f(1) by (auto simp: singleFlight_def)
    then show ?thesis using assms(3,4,6) f running_get [OF assms(3) Some] by (auto simp: key_def)
  qed
qed

lemma get_finish_ok:
  assumes "get_finish cf parseDate now rq cached bypass fetched w = (r, w')"
    and "slots_ok cf reports (bw_slots w)" "entry_reported cf reports rq cached"
    and "\<And>snap. fetched = Inr snap \<Longrightarrow> reported cf reports (request_key cf rq) snap"
  shows "slots_ok cf reports (bw_slots w') \<and> bw_flights w' = bw_flights w \<and> bw_inFlight w' = bw_inFlight w \<and>
    bw_accounts w' = bw_accounts w \<and> phase_ok cf keys reports (rq, Done r)"
proof (cases fetched)
  case (Inl e)
  then show ?thesis using assms(1,2) failure_ok [OF _ assms(3)] by (auto simp: get_finish_def)
next
  case (Inr fresh)
  define asOf where "asOf = (case truthy (sn_asOf fresh) of Some t \<Rightarrow> parseDate t | None \<Rightarrow> Some now)"
  define answer where "answer = result_of (toDto (rq_accountId rq) fresh) (freshnessOf From_provider asOf now (cf_balanceCacheTtlSeconds cf) False) bypass"
  have w': "w' = w\<lparr>bw_slots := cache_set now (request_key cf rq) fresh (cf_balanceCacheTtlSeconds cf) asOf
        [accountTag (rq_environment rq) (rq_accountId rq)] (bw_slots w)\<rparr>"
    and r: "r = (case answer of Inl e \<Rightarrow> onProviderFailure cf now (rq_accountId rq) (rq_query rq) cached e | Inr x \<Rightarrow> Inr x)"
    using assms(1) Inr by (auto simp: get_finish_def Let_def asOf_def answer_def request_key_def split: sum.splits)
  have "answer_ok cf reports rq x" if "answer = Inr x" for x
    using that assms(4) [OF Inr] unfolding answer_def
    by (auto simp: answer_ok_def result_of_Inr dest!: toDto_shows freshnessOf_Inr)
  then show ?thesis
    using w' r assms(2) cache_set_ok [OF assms(2) assms(4) [OF Inr]] failure_ok [OF _ assms(3)] by (auto split: sum.splits)
qed


section \<open>Every reachable state\<close>

lemma flight_ok_mono: "flight_ok cf reports f \<Longrightarrow> flight_ok cf (reports @ reports') f"
  using reported_mono by (auto simp: flight_ok_def)

lemma slots_ok_mono: "slots_ok cf reports slots \<Longrightarrow> slots_ok cf (reports @ reports') slots"
  using reported_mono by (fastforce simp: slots_ok_def)

lemma requests_ok_mono:
  "list_all (phase_ok cf keys reports) xs \<Longrightarrow> list_all (phase_ok cf (keys @ keys') (reports @ reports')) xs"
  using phase_ok_mono by (auto simp: list_all_iff)

lemma list_all_updated: "list_all P xs \<Longrightarrow> P y \<Longrightarrow> list_all P (xs[n := y])"
  by (auto simp: list_all_iff dest!: set_update_subset_insert [THEN subsetD])

lemma balance_request:
  "balance_ok cf s \<Longrightarrow> n < length (sy_requests s) \<Longrightarrow>
   phase_ok cf (map fl_key (bw_flights (sy_world s))) (sy_reports s) (sy_requests s ! n)"
  by (simp add: balance_ok_def list_all_length)

text \<open>A step of one request, seen from the invariant.\<close>

lemma balance_ok_request:
  assumes "balance_ok cf s" "n < length (sy_requests s)"
    and "accounts_ok (bw_accounts w)" "slots_ok cf (sy_reports s) (bw_slots w)" "list_all (flight_ok cf (sy_reports s)) (bw_flights w)"
    and "running_ok (bw_flights w) (bw_inFlight w)" "bw_flights w = bw_flights (sy_world s) @ fs"
    and "phase_ok cf (map fl_key (bw_flights w)) (sy_reports s) x"
  shows "balance_ok cf (s\<lparr>sy_requests := (sy_requests s)[n := x], sy_world := w\<rparr>)"
  using assms list_all_updated [OF requests_ok_mono [where keys' = "map fl_key fs" and reports' = "[]"], of cf "map fl_key (bw_flights (sy_world s))" "sy_reports s" "sy_requests s" x n]
  by (simp add: balance_ok_def)

lemma step_balance_ok:
  assumes "balance_step cf inbound parseDate ids s s'" "balance_ok cf s"
  shows "balance_ok cf s'"
  using assms(1)
proof cases
  case (arrive rq)
  then show ?thesis using assms(2) by (simp add: balance_ok_def)
next
  case (read n rq now ph w)
  note inv = assms(2) [unfolded balance_ok_def]
  show ?thesis
    unfolding read(1)
    by (rule balance_ok_request [OF assms(2) read(2), where fs = "[]"])
      (use get_read_ok [OF read(4), where reports = "sy_reports s" and keys = "map fl_key (bw_flights (sy_world s))"] inv in auto)
next
  case (decide n rq account cached now ph w)
  note inv = assms(2) [unfolded balance_ok_def]
  have rq: "account_key cf account = request_key cf rq" "entry_reported cf (sy_reports s) rq cached"
    using balance_request [OF assms(2) decide(2)] by (simp_all add: decide(3))
  show ?thesis
  proof (cases "\<exists>r. ph = Done r")
    case False
    with get_decide_waits [OF decide(4) _ _ _ rq] inv obtain fs where
      w: "running_ok (bw_flights w) (bw_inFlight w)" "list_all (flight_ok cf (sy_reports s)) (bw_flights w)"
        "bw_flights w = bw_flights (sy_world s) @ fs" "bw_slots w = bw_slots (sy_world s)" "bw_accounts w = bw_accounts (sy_world s)"
        "phase_ok cf (map fl_key (bw_flights w)) (sy_reports s) (rq, ph)" by auto
    show ?thesis
      unfolding decide(1) by (rule balance_ok_request [OF assms(2) decide(2) _ _ w(2,1,3,6)]) (use w inv in auto)
  next
    case True
    then obtain r where r: "ph = Done r" by blast
    have w: "w = sy_world s"
      using decide(4) r by (cases cached; cases "bypassReason (bypass_input cf inbound now rq account cached (sy_world s))")
          (auto simp: get_decide_def Let_def split: prod.splits)
    show ?thesis
      unfolding decide(1)
      by (rule balance_ok_request [OF assms(2) decide(2), where fs = "[]"])
        (use inv w r decide(4) rq(2) in \<open>auto dest: get_decide_answer\<close>)
  qed
next
  case (reply n f answer)
  note inv = assms(2) [unfolded balance_ok_def]
  let ?r = "fetchFromProvider (fl_account f) answer"
  let ?reports = "sy_reports s @ new_reports (fl_account f) ?r"
  have f: "flight_ok cf (sy_reports s) f" using inv reply(2,3) by (auto simp: list_all_length)
  have "flight_ok cf ?reports (f\<lparr>fl_result := Some ?r\<rparr>)"
    using f by (auto simp: flight_ok_def new_reports_def reported_def)
  then have fl: "list_all (flight_ok cf ?reports) ((bw_flights (sy_world s))[n := f\<lparr>fl_result := Some ?r\<rparr>])"
    using inv flight_ok_mono by (intro list_all_updated) (auto simp: list_all_iff)
  have keys: "map fl_key ((bw_flights (sy_world s))[n := f\<lparr>fl_result := Some ?r\<rparr>]) = map fl_key (bw_flights (sy_world s))"
    using reply(2,3) by (simp add: map_update list_update_same_conv)
  show ?thesis
    unfolding reply(1) balance_ok_def
    using inv fl keys reply(2-4) running_done [of "bw_flights (sy_world s)" "bw_inFlight (sy_world s)" n ?r]
      requests_ok_mono [where keys' = "[]"] slots_ok_mono
    by (simp add: fetch_done_def Let_def)
next
  case (finish n rq cached bypass k fetched now r w)
  note inv = assms(2) [unfolded balance_ok_def]
  have rq: "entry_reported cf (sy_reports s) rq cached" "k < length (bw_flights (sy_world s))"
      "fl_key (bw_flights (sy_world s) ! k) = request_key cf rq"
    using balance_request [OF assms(2) finish(2)] by (auto simp: finish(3))
  have "reported cf (sy_reports s) (request_key cf rq) snap" if "fetched = Inr snap" for snap
    using inv rq(2,3) finish(4) that by (auto simp: list_all_length flight_ok_def)
  then show ?thesis
    unfolding finish(1)
    by (intro balance_ok_request [OF assms(2) finish(2), where fs = "[]"])
      (use get_finish_ok [OF finish(5) _ rq(1), where keys = "map fl_key (bw_flights (sy_world s))"] inv in auto)
next
  case (others a b l)
  then show ?thesis using assms(2) by (simp add: balance_ok_def)
next
  case (invalidated env i)
  then show ?thesis using assms(2) invalidateTag_ok by (simp add: balance_ok_def invalidate_def)
qed

lemma reachable_balance_ok: "balance_reachable cf inbound parseDate ids s \<Longrightarrow> balance_ok cf s"
proof (induction rule: balance_reachable.induct)
  case (start a b l)
  then show ?case by (simp add: balance_ok_def balance_start_def slots_ok_def running_ok_def)
next
  case (step s s')
  then show ?case by (simp add: step_balance_ok)
qed


text \<open>C35: whatever reads, flights, invalidations and other writers interleave, a balance answered from the provider or the
  cache shows the numbers the provider reported of this very account, with their sum as the total; a fresh entry of the cache never
  answers a strong read or an authorisation, and an old one answers any of them only when the query asked for
  stale answers, marked as degraded; and no two flights for the same account are under way.\<close>

theorem balance_answers_sound:
  assumes "balance_reachable cf inbound parseDate ids s"
  shows "list_all (\<lambda>(rq, ph). case ph of Done (Inr r) \<Rightarrow> bq_source (rq_query rq) = Provider_source \<longrightarrow>
        (\<exists>account snap. (account, snap) \<in> set (sy_reports s) \<and> ac_environment account = rq_environment rq \<and>
           ac_id account = rq_accountId rq \<and> dto_shows snap (br_dto r)) \<and>
        (fr_source (br_freshness r) = From_cache \<longrightarrow> bq_consistency (rq_query rq) = Cached_read \<and> \<not> rq_authorizationPath rq) \<and>
        (fr_source (br_freshness r) = From_stale_cache \<longrightarrow> bq_onProviderError (rq_query rq) = Serve_stale \<and> fr_degraded (br_freshness r))
      | _ \<Rightarrow> True) (sy_requests s) \<and>
    (\<forall>m<length (bw_flights (sy_world s)). \<forall>n<length (bw_flights (sy_world s)).
       fl_key (bw_flights (sy_world s) ! m) = fl_key (bw_flights (sy_world s) ! n) \<longrightarrow>
       fl_result (bw_flights (sy_world s) ! m) = None \<longrightarrow> fl_result (bw_flights (sy_world s) ! n) = None \<longrightarrow> m = n)"
proof -
  note inv = reachable_balance_ok [OF assms, unfolded balance_ok_def]
  have "case ph of Done (Inr r) \<Rightarrow> bq_source (rq_query rq) = Provider_source \<longrightarrow>
        (\<exists>account snap. (account, snap) \<in> set (sy_reports s) \<and> ac_environment account = rq_environment rq \<and>
           ac_id account = rq_accountId rq \<and> dto_shows snap (br_dto r)) \<and>
        (fr_source (br_freshness r) = From_cache \<longrightarrow> bq_consistency (rq_query rq) = Cached_read \<and> \<not> rq_authorizationPath rq) \<and>
        (fr_source (br_freshness r) = From_stale_cache \<longrightarrow> bq_onProviderError (rq_query rq) = Serve_stale \<and> fr_degraded (br_freshness r))
      | _ \<Rightarrow> True" if "(rq, ph) \<in> set (sy_requests s)" for rq ph
  proof -
    have ok: "phase_ok cf (map fl_key (bw_flights (sy_world s))) (sy_reports s) (rq, ph)" using inv that by (auto simp: list_all_iff)
    have "answer_ok cf (sy_reports s) rq r" if "ph = Done (Inr r)" for r using ok that by simp
    then show ?thesis
      by (auto simp: answer_ok_def reported_def account_key_def request_key_def balance_key_inj split: Phase.split sum.split; blast)
  qed
  moreover have "m = n"
    if "m < length (bw_flights (sy_world s))" "n < length (bw_flights (sy_world s))"
      "fl_key (bw_flights (sy_world s) ! m) = fl_key (bw_flights (sy_world s) ! n)"
      "fl_result (bw_flights (sy_world s) ! m) = None" "fl_result (bw_flights (sy_world s) ! n) = None" for m n
  proof -
    from inv have r: "running_ok (bw_flights (sy_world s)) (bw_inFlight (sy_world s))" by blast
    have "map_get (bw_inFlight (sy_world s)) (fl_key (bw_flights (sy_world s) ! m)) = Some m" using r that by (simp add: running_ok_def)
    moreover have "map_get (bw_inFlight (sy_world s)) (fl_key (bw_flights (sy_world s) ! m)) = Some n" using r that by (simp add: running_ok_def)
    ultimately show "m = n" by simp
  qed
  ultimately show ?thesis by (auto simp: list_all_iff)
qed

section \<open>A worked run\<close>

definition demo_cf :: BalanceConfig where
  "demo_cf = \<lparr>cf_cacheVersion = 1, cf_balanceCacheTtlSeconds = 30, cf_postMutationBypassSeconds = 10\<rparr>"

definition demo_balance_account :: AccountRecord where
  "demo_balance_account =
     \<lparr>ac_id = ''A'', ac_environment = PRODUCAO, ac_holderId = ''H'', ac_provider = ''MOCK'', ac_providerConnectionId = ''C'',
      ac_providerAccountId = Some ''P'', ac_externalId = None, ac_status = AccountStatus.ACTIVE, ac_statusReasonCode = None,
      ac_statusReasonMessage = None, ac_statusChangedAt = None, ac_lastEventAt = None, ac_kind = AccountKind.PAYMENT, ac_currency = ''BRL'',
      ac_ledgerAvailableAccountId = None, ac_ledgerBlockedAccountId = None, ac_ispb = None, ac_branch = None, ac_number = None,
      ac_checkDigit = None, ac_openedAt = None, ac_closedAt = None, ac_metadata = [], ac_createdAt = 0, ac_updatedAt = 0\<rparr>"

definition demo_balance_accounts :: AccountRepo where
  "demo_balance_accounts = \<lparr>a_rows = [(''A'', demo_balance_account)], a_statusHistory = []\<rparr>"

definition demo_read :: "Consistency \<Rightarrow> BalanceRequest" where
  "demo_read c = \<lparr>rq_environment = PRODUCAO, rq_accountId = ''A'',
     rq_query = \<lparr>bq_consistency = c, bq_source = Provider_source, bq_onProviderError = Fail_on_error\<rparr>, rq_authorizationPath = False\<rparr>"

definition demo_report :: "string \<Rightarrow> ProviderBalance" where
  "demo_report a = \<lparr>pb_available = \<lparr>mj_amount = a, mj_currency = BRL, mj_scale = 2\<rparr>, pb_blocked = None, pb_pending = None, pb_asOf = None\<rparr>"

text \<open>At 0 a read starts a flight; at 1000 the balance of the account is invalidated; at 2000 a strong read comes; at 3000 the flight
  lands and the strong read ends; at 4000 another read comes.\<close>

definition demo_w1 :: BalanceWorld where
  "demo_w1 = snd (get_decide demo_cf (\<lambda>_. True) 0 (demo_read Cached_read) demo_balance_account None
     (snd (get_read demo_cf (\<lambda>_. []) 0 (demo_read Cached_read) (sy_world (balance_start demo_balance_accounts [] [])))))"

definition demo_w2 :: BalanceWorld where "demo_w2 = invalidate PRODUCAO ''A'' demo_w1"

definition demo_strong :: "Phase \<times> BalanceWorld" where
  "demo_strong = get_decide demo_cf (\<lambda>_. True) 2000 (demo_read Strong_read) demo_balance_account None
     (snd (get_read demo_cf (\<lambda>_. []) 2000 (demo_read Strong_read) demo_w2))"

definition demo_landed :: BalanceWorld where
  "demo_landed = fetch_done 0 (Inr (demo_report ''10000'')) (snd demo_strong)"

definition demo_answer :: "(BalanceFailure + BalanceResult) \<times> BalanceWorld" where
  "demo_answer = get_finish demo_cf (\<lambda>_. None) 3000 (demo_read Strong_read) None (Some consistency_strong)
     (fetchFromProvider demo_balance_account (Inr (demo_report ''10000''))) demo_landed"

definition demo_later :: "Phase \<times> BalanceWorld" where
  "demo_later = get_read demo_cf (\<lambda>_. []) 4000 (demo_read Cached_read) (snd demo_answer)"

lemmas demo_balance_defs = demo_cf_def demo_balance_account_def demo_balance_accounts_def demo_read_def demo_report_def demo_w1_def demo_w2_def
  demo_strong_def demo_landed_def demo_answer_def demo_later_def


section \<open>A run of one read\<close>

definition demo_s1 :: BalanceSystem where
  "demo_s1 = (balance_start demo_balance_accounts [] [])\<lparr>sy_requests := [(demo_read Cached_read, Arrived)]\<rparr>"

definition demo_s2 :: BalanceSystem where
  "demo_s2 = demo_s1\<lparr>sy_requests := [(demo_read Cached_read, Reading demo_balance_account None)],
     sy_world := snd (get_read demo_cf (\<lambda>_. []) 0 (demo_read Cached_read) (sy_world (balance_start demo_balance_accounts [] [])))\<rparr>"

definition demo_s3 :: BalanceSystem where
  "demo_s3 = demo_s2\<lparr>sy_requests := [(demo_read Cached_read, Waiting None None 0)], sy_world := demo_w1\<rparr>"

definition demo_s4 :: BalanceSystem where
  "demo_s4 = demo_s3\<lparr>sy_world := fetch_done 0 (Inr (demo_report ''10000'')) demo_w1,
     sy_reports := [(demo_balance_account, snapshotOf (demo_report ''10000''))]\<rparr>"

definition demo_end :: "(BalanceFailure + BalanceResult) \<times> BalanceWorld" where
  "demo_end = get_finish demo_cf (\<lambda>_. None) 500 (demo_read Cached_read) None None
     (fetchFromProvider demo_balance_account (Inr (demo_report ''10000''))) (sy_world demo_s4)"

definition demo_s5 :: BalanceSystem where
  "demo_s5 = demo_s4\<lparr>sy_requests := [(demo_read Cached_read, Done (fst demo_end))], sy_world := snd demo_end\<rparr>"

lemmas demo_system_defs = demo_s1_def demo_s2_def demo_s3_def demo_s4_def demo_s5_def demo_end_def balance_start_def

lemma demo_read_phase:
  "fst (get_read demo_cf (\<lambda>_. []) 0 (demo_read Cached_read) (sy_world (balance_start demo_balance_accounts [] []))) = Reading demo_balance_account None"
  by (simp add: demo_balance_defs balance_start_def get_read_def require_account_def ac_findById_def cache_get_def)

lemma demo_w1_flights: "bw_flights demo_w1 = [\<lparr>fl_key = balance_key demo_cf PRODUCAO ''A'', fl_account = demo_balance_account, fl_result = None\<rparr>]"
  by (simp add: demo_balance_defs balance_start_def get_read_def require_account_def ac_findById_def cache_get_def get_decide_def Let_def
      singleFlight_def split: option.split)

lemma demo_wait_phase:
  "fst (get_decide demo_cf (\<lambda>_. True) 0 (demo_read Cached_read) demo_balance_account None (sy_world demo_s2)) = Waiting None None 0"
  by (simp add: demo_s2_def demo_s1_def demo_balance_defs balance_start_def get_read_def require_account_def ac_findById_def cache_get_def get_decide_def
      Let_def singleFlight_def bypassReason_def RULES_def bypass_input_def signal_break_def countOpenHighSeverity_def map_values_def
      signal_lastMovement_def)

lemma demo_run_reachable: "balance_reachable demo_cf (\<lambda>_. True) (\<lambda>_. None) (\<lambda>_. []) demo_s5"
proof -
  let ?step = "balance_step demo_cf (\<lambda>_. True) (\<lambda>_. None) (\<lambda>_. [])"
  let ?reach = "balance_reachable demo_cf (\<lambda>_. True) (\<lambda>_. None) (\<lambda>_. [])"
  have "accounts_ok demo_balance_accounts" by (simp add: accounts_ok_def demo_balance_accounts_def demo_balance_account_def)
  then have "?reach (balance_start demo_balance_accounts [] [])" by (rule balance_reachable.start)
  moreover have "?step (balance_start demo_balance_accounts [] []) demo_s1"
    using balance_step.arrive [of demo_cf "\<lambda>_. True" "\<lambda>_. None" "\<lambda>_. []" "balance_start demo_balance_accounts [] []" "demo_read Cached_read"]
    by (simp add: demo_s1_def balance_start_def)
  ultimately have 1: "?reach demo_s1" by (rule balance_reachable.step)
  have "?step demo_s1 demo_s2"
    using balance_step.read [of 0 demo_s1 "demo_read Cached_read" demo_cf "\<lambda>_. []" 0 _ _ "\<lambda>_. True" "\<lambda>_. None", OF _ _ prod.collapse [symmetric]]
    by (simp add: demo_s2_def demo_s1_def demo_read_phase)
  with 1 have 2: "?reach demo_s2" by (rule balance_reachable.step)
  have "?step demo_s2 demo_s3"
    using balance_step.decide [of 0 demo_s2 "demo_read Cached_read" demo_balance_account None demo_cf "\<lambda>_. True" 0 _ _ "\<lambda>_. None" "\<lambda>_. []", OF _ _ prod.collapse [symmetric]]
    by (simp add: demo_wait_phase) (simp add: demo_s3_def demo_s2_def demo_s1_def demo_w1_def)
  with 2 have 3: "?reach demo_s3" by (rule balance_reachable.step)
  have "?step demo_s3 demo_s4"
    using balance_step.reply [of 0 demo_s3 _ demo_cf "\<lambda>_. True" "\<lambda>_. None" "\<lambda>_. []" "Inr (demo_report ''10000'')", OF _ refl]
    by (simp add: demo_s4_def demo_s3_def demo_s2_def demo_s1_def demo_w1_flights new_reports_def fetchFromProvider_def demo_balance_account_def balance_start_def)
  with 3 have 4: "?reach demo_s4" by (rule balance_reachable.step)
  have "?step demo_s4 demo_s5"
    using balance_step.finish [of 0 demo_s4 "demo_read Cached_read" None None 0 "fetchFromProvider demo_balance_account (Inr (demo_report ''10000''))"
        demo_cf "\<lambda>_. None" 500 _ _ "\<lambda>_. True" "\<lambda>_. []", OF _ _ _ prod.collapse [symmetric]]
    by (simp add: demo_s5_def demo_end_def) (simp add: demo_s4_def demo_s3_def fetch_done_def Let_def demo_w1_flights)
  with 4 show ?thesis by (rule balance_reachable.step)
qed


lemma demo_read_fields [simp]:
  "rq_environment (demo_read c) = PRODUCAO" "rq_accountId (demo_read c) = ''A''" "bq_consistency (rq_query (demo_read c)) = c"
  "bq_source (rq_query (demo_read c)) = Provider_source" "rq_authorizationPath (demo_read c) = False"
  by (simp_all add: demo_read_def)

lemma demo_texts: "js_BigInt ''10000'' = Some 10000" "js_BigInt ''0'' = Some 0"
  by code_simp+

lemmas answer_eval = get_finish_def fetchFromProvider_def snapshotOf_def result_of_def toDto_def big_def dto_of_def money_json_def
  Money_of_def Money_toJSON_def freshnessOf_def CURRENCY_SCALE_def MAX_SAFE_CENTS_def cents_json_def or_default_def demo_texts

lemma demo_snapshot: "toDto ''A'' (snapshotOf (demo_report ''10000'')) =
   Inr \<lparr>bd_account_id = ''A'', bd_available = cents_json 10000, bd_blocked = cents_json 0, bd_pending = cents_json 0, bd_total = cents_json 10000,
     bd_scheduled_outflow = None\<rparr>"
  by (simp add: answer_eval demo_report_def)

lemma demo_fetched: "fetchFromProvider demo_balance_account (Inr (demo_report ''10000'')) = Inr (snapshotOf (demo_report ''10000''))"
  by (simp add: fetchFromProvider_def demo_balance_account_def)

text \<open>The end of a read at \<open>now\<close>, for the balance of the run.\<close>

lemma demo_finish:
  "get_finish demo_cf (\<lambda>_. None) now (demo_read c) cached bypass (Inr (snapshotOf (demo_report ''10000''))) w =
     (Inr \<lparr>br_dto = \<lparr>bd_account_id = ''A'', bd_available = cents_json 10000, bd_blocked = cents_json 0, bd_pending = cents_json 0,
          bd_total = cents_json 10000, bd_scheduled_outflow = None\<rparr>,
        br_freshness = \<lparr>fr_source = From_provider, fr_as_of = toISOString now, fr_age_ms = 0, fr_stale_after = toISOString (now + 30000),
          fr_degraded = False\<rparr>, br_bypass = bypass\<rparr>,
      w\<lparr>bw_slots := map_set (balance_key demo_cf PRODUCAO ''A'')
         \<lparr>sl_value = snapshotOf (demo_report ''10000''), sl_asOf = Some now, sl_expiresAtMs = now + 30000, sl_tags = [accountTag PRODUCAO ''A'']\<rparr>
         (bw_slots w)\<rparr>)"
proof -
  have "sn_asOf (snapshotOf (demo_report ''10000'')) = None" by (simp add: snapshotOf_def demo_report_def)
  then show ?thesis
    by (simp add: get_finish_def Let_def result_of_def freshnessOf_def demo_read_def demo_snapshot demo_cf_def cache_set_def)
qed

lemma demo_end_answer: "\<exists>r. fst demo_end = Inr r \<and> bd_total (br_dto r) = cents_json 10000 \<and> fr_source (br_freshness r) = From_provider"
  by (simp add: demo_end_def demo_fetched demo_finish)

theorem balance_answers_sound_witness:
  "case sy_requests demo_s5 of [(rq, Done (Inr r))] \<Rightarrow> bd_total (br_dto r) = cents_json 10000 \<and>
      (\<exists>snap. (demo_balance_account, snap) \<in> set (sy_reports demo_s5) \<and> dto_shows snap (br_dto r))
   | _ \<Rightarrow> False"
proof -
  from demo_end_answer obtain r where r: "fst demo_end = Inr r" "bd_total (br_dto r) = cents_json 10000" by blast
  have "sy_reports demo_s5 = [(demo_balance_account, snapshotOf (demo_report ''10000''))]" by (simp add: demo_s5_def demo_s4_def)
  moreover have "bq_source (rq_query (demo_read Cached_read)) = Provider_source" by (simp add: demo_read_def)
  ultimately show ?thesis using balance_answers_sound [OF demo_run_reachable] r by (simp add: demo_s5_def)
qed

text \<open>C36: a strong read may be answered with a balance that was asked for before the read came and before the balance was
  invalidated: it joins the flight under way.  The answer is dated at the time it lands, and it is stored, so that the reads that
  follow take the old balance from the cache although it was invalidated.\<close>

theorem strong_read_joins_older_flight:
  "length (bw_flights demo_w1) = 1 \<and> bw_slots demo_w2 = [] \<and> fst demo_strong = Waiting None (Some consistency_strong) 0 \<and>
   length (bw_flights (snd demo_strong)) = 1 \<and>
   (case fst demo_answer of Inr r \<Rightarrow> bd_available (br_dto r) = cents_json 10000 \<and> fr_source (br_freshness r) = From_provider \<and>
      fr_age_ms (br_freshness r) = 0 \<and> fr_as_of (br_freshness r) = toISOString 3000 | Inl e \<Rightarrow> False) \<and>
   (case fst demo_later of Reading account (Some c) \<Rightarrow>
      (case fst (get_decide demo_cf (\<lambda>_. True) 4000 (demo_read Cached_read) account (Some c) (snd demo_later)) of
         Done (Inr r) \<Rightarrow> bd_available (br_dto r) = cents_json 10000 \<and> fr_source (br_freshness r) = From_cache | _ \<Rightarrow> False)
    | _ \<Rightarrow> False)"
proof -
  have strong: "fst demo_strong = Waiting None (Some consistency_strong) 0" by code_simp
  have one: "length (bw_flights (snd demo_strong)) = 1" by code_simp
  have w2: "bw_slots demo_w2 = []" by code_simp
  have slots: "bw_slots demo_landed = []" by code_simp
  have rows: "ac_findById (bw_accounts demo_landed) PRODUCAO ''A'' = Some demo_balance_account" by code_simp
  have breaks: "bw_breaks demo_landed = []" by code_simp
  note answer = demo_answer_def demo_fetched demo_finish
  let ?slot = "\<lparr>ce_value = snapshotOf (demo_report ''10000''), ce_asOf = Some 3000\<rparr>"
  have later: "fst demo_later = Reading demo_balance_account (Some ?slot)"
    by (simp add: demo_later_def answer get_read_def require_account_def rows slots cache_get_def)
  have "ac_findById (bw_accounts (snd demo_later)) PRODUCAO ''A'' = Some demo_balance_account \<and> bw_breaks (snd demo_later) = []"
    by (simp add: demo_later_def answer get_read_def require_account_def rows breaks slots cache_get_def)
  then have "bypassReason (bypass_input demo_cf (\<lambda>_. True) 4000 (demo_read Cached_read) demo_balance_account (Some ?slot) (snd demo_later)) = None"
    by (simp add: bypassReason_def RULES_def bypass_input_def signal_break_def countOpenHighSeverity_def map_values_def
        signal_lastMovement_def demo_balance_account_def)
  then have "fst (get_decide demo_cf (\<lambda>_. True) 4000 (demo_read Cached_read) demo_balance_account (Some ?slot) (snd demo_later)) =
      Done (result_of (toDto ''A'' (snapshotOf (demo_report ''10000''))) (freshnessOf From_cache (Some 3000) 4000 30 False) None)"
    by (simp add: get_decide_def Let_def) (simp add: demo_cf_def)
  then show ?thesis
    using strong one w2 later by (simp add: demo_w1_flights answer demo_snapshot result_of_def freshnessOf_def)
qed

end
