(* ===== verification/Accounts_Service.thy ===== *)
theory Accounts_Service
  imports Pix_Transfers
begin

text \<open>
  Opening and changing accounts, \<open>src/apps/api/src/accounts/accounts.service.ts\<close>, and the onboarding cases that go with
  them, \<open>src/apps/api/src/onboarding/onboarding.service.ts\<close>, over the world of the services and the holders.

  The adapter of the connection is a parameter, and so are the blind index of a document, the encryption of a text and its
  decryption; \<open>aw_asked\<close> records the requests for new accounts that reached a provider, by their external identifier.
  A capability the connection lacks is the error \<open>ProviderResolver.require\<close> throws.  What a mock of the database drops (the
  blind index of the e-mail and the telephone of a holder) is left out, and so is the log.
\<close>

section \<open>What is asked for\<close>

record PhoneDto =
  ph_countryCode :: string
  ph_areaCode :: string
  ph_number :: string

record AddressDto =
  ad_postalCode :: string
  ad_street :: string
  ad_number :: string
  ad_complement :: "string option"
  ad_district :: string
  ad_city :: string
  ad_state :: string
  ad_ibgeCityCode :: "string option"

record RepresentativeDto =
  re_role :: string
  re_taxId :: string
  re_fullName :: string
  re_birthDate :: string
  re_motherName :: "string option"
  re_email :: "string option"
  re_ownershipPercentage :: "string option"
  re_isUltimateBeneficialOwner :: bool
  re_isSigner :: bool
  re_isPoliticallyExposed :: bool

record IndividualFields =
  if_birthDate :: string
  if_motherName :: "string option"

record BusinessFields =
  bf_tradeName :: "string option"
  bf_incorporationDate :: string
  bf_mainCnae :: "string option"
  bf_legalNatureCode :: "string option"
  bf_representatives :: "RepresentativeDto list"

datatype HolderFields = IndividualHolder IndividualFields | BusinessHolder BusinessFields

record CreateHolderDto =
  hd_taxId :: string
  hd_legalName :: string
  hd_email :: string
  hd_phone :: PhoneDto
  hd_addresses :: "AddressDto list"
  hd_isPoliticallyExposed :: bool
  hd_externalId :: "string option"
  hd_fields :: HolderFields

record CreateAccountDto =
  ca_holder :: CreateHolderDto
  ca_kind :: "AccountKind option"
  ca_externalId :: "string option"
  ca_metadata :: "(string \<times> string) list option"

section \<open>What the provider gets\<close>

text \<open>\<open>country\<close> is always \<open>BR\<close>.\<close>

record AddressInput = AddressDto +
  ai_country :: string

record CreateAccountPFInput =
  pf_externalId :: ident
  pf_taxId :: TaxId
  pf_fullName :: string
  pf_birthDate :: "string option"
  pf_motherName :: "string option"
  pf_email :: string
  pf_phone :: PhoneDto
  pf_addresses :: "AddressInput list"
  pf_isPoliticallyExposed :: bool
  pf_metadata :: "(string \<times> string) list option"

record RepresentativeInput =
  ri_role :: string
  ri_taxId :: TaxId
  ri_fullName :: string
  ri_birthDate :: string
  ri_motherName :: "string option"
  ri_email :: "string option"
  ri_ownershipPercentage :: "string option"
  ri_isUltimateBeneficialOwner :: bool
  ri_isSigner :: bool
  ri_isPoliticallyExposed :: bool

record CreateAccountPJInput =
  pj_externalId :: ident
  pj_taxId :: TaxId
  pj_legalName :: string
  pj_tradeName :: "string option"
  pj_incorporationDate :: string
  pj_mainCnae :: "string option"
  pj_legalNatureCode :: "string option"
  pj_email :: string
  pj_phone :: PhoneDto
  pj_addresses :: "AddressInput list"
  pj_representatives :: "RepresentativeInput list"
  pj_metadata :: "(string \<times> string) list option"

definition toAddress :: "AddressDto \<Rightarrow> AddressInput" where
  "toAddress a = \<lparr>ad_postalCode = ad_postalCode a, ad_street = ad_street a, ad_number = ad_number a, ad_complement = ad_complement a,
     ad_district = ad_district a, ad_city = ad_city a, ad_state = ad_state a, ad_ibgeCityCode = ad_ibgeCityCode a,
     ai_country = ''BR''\<rparr>"

text \<open>The fields of an individual are \<open>undefined\<close> on the other member of the union.\<close>

definition toCreatePF :: "CreateAccountDto \<Rightarrow> ident \<Rightarrow> CreateAccountPFInput" where
  "toCreatePF dto extId =
     (let h = ca_holder dto;
          birth = (case hd_fields h of IndividualHolder i \<Rightarrow> Some (if_birthDate i) | BusinessHolder b \<Rightarrow> None);
          mother = (case hd_fields h of IndividualHolder i \<Rightarrow> if_motherName i | BusinessHolder b \<Rightarrow> None) in
      \<lparr>pf_externalId = extId, pf_taxId = \<lparr>ti_type = TaxIdType.CPF, ti_value = onlyDigits (hd_taxId h)\<rparr>, pf_fullName = hd_legalName h,
       pf_birthDate = birth, pf_motherName = mother, pf_email = hd_email h, pf_phone = hd_phone h,
       pf_addresses = map toAddress (hd_addresses h), pf_isPoliticallyExposed = hd_isPoliticallyExposed h,
       pf_metadata = ca_metadata dto\<rparr>)"

definition toRepresentative :: "RepresentativeDto \<Rightarrow> RepresentativeInput" where
  "toRepresentative r =
     \<lparr>ri_role = re_role r, ri_taxId = \<lparr>ti_type = TaxIdType.CPF, ti_value = onlyDigits (re_taxId r)\<rparr>, ri_fullName = re_fullName r,
      ri_birthDate = re_birthDate r, ri_motherName = re_motherName r, ri_email = re_email r,
      ri_ownershipPercentage = re_ownershipPercentage r, ri_isUltimateBeneficialOwner = re_isUltimateBeneficialOwner r,
      ri_isSigner = re_isSigner r, ri_isPoliticallyExposed = re_isPoliticallyExposed r\<rparr>"

definition toCreatePJ :: "CreateAccountDto \<Rightarrow> BusinessFields \<Rightarrow> ident \<Rightarrow> CreateAccountPJInput" where
  "toCreatePJ dto b extId =
     (let h = ca_holder dto in
      \<lparr>pj_externalId = extId, pj_taxId = \<lparr>ti_type = TaxIdType.CNPJ, ti_value = onlyDigits (hd_taxId h)\<rparr>, pj_legalName = hd_legalName h,
       pj_tradeName = bf_tradeName b, pj_incorporationDate = bf_incorporationDate b, pj_mainCnae = bf_mainCnae b,
       pj_legalNatureCode = bf_legalNatureCode b, pj_email = hd_email h, pj_phone = hd_phone h,
       pj_addresses = map toAddress (hd_addresses h), pj_representatives = map toRepresentative (bf_representatives b),
       pj_metadata = ca_metadata dto\<rparr>)"

datatype CreateAccountInput = CreatePF CreateAccountPFInput | CreatePJ CreateAccountPJInput

record ProviderAccount =
  pa_providerAccountId :: string
  pa_status :: AccountStatus
  pa_bank :: "BankCoordinates option"
  pa_openedAt :: "instant option"

record OnboardingCase =
  oc_providerCaseId :: string
  oc_status :: OnboardingStatus
  oc_reasonCode :: "string option"
  oc_reason :: "string option"
  oc_providerReasonCode :: "string option"
  oc_pendingRequirements :: "(RequirementCode \<times> string) list"

record DocumentUpload =
  du_kind :: RequirementCode
  du_sizeBytes :: int
  du_sha256 :: string

record OnboardingFacet =
  of_submitKyb :: "string \<Rightarrow> OnboardingCase ProviderReply"
  of_submitKyc :: "string \<Rightarrow> OnboardingCase ProviderReply"
  of_uploadDocument :: "string \<Rightarrow> DocumentUpload \<Rightarrow> string ProviderReply"
  of_getStatus :: "string \<Rightarrow> OnboardingCase ProviderReply"
  of_fulfillRequirement :: "string \<Rightarrow> string \<Rightarrow> OnboardingCase ProviderReply"

record AccountsProvider =
  ap_slug :: string
  ap_create :: "CreateAccountInput \<Rightarrow> ProviderAccount ProviderReply"
  ap_updateStatus :: "string \<Rightarrow> bool \<Rightarrow> string option \<Rightarrow> AccountStatus ProviderReply"
  ap_close :: "string \<Rightarrow> string \<Rightarrow> AccountStatus ProviderReply"
  ap_onboarding :: "OnboardingFacet option"

text \<open>The error of an adapter call is the one the caller sees.\<close>

fun replied :: "'r ProviderReply \<Rightarrow> ServiceError + 'r" where
  "replied (Replied r) = Inr r"
| "replied (Unknown m) = Inl (ProviderOutcomeUnknown m)"
| "replied (Refused m) = Inl (ProviderRefused m)"

section \<open>The world\<close>

record 'e AccountsWorld =
  aw_world :: World
  aw_holders :: "'e HolderRepo"
  aw_asked :: "ident list"

record AccountActor = ActorContext +
  actor_apiKeyId :: ident
  actor_ip :: "string option"
  actor_requestId :: "string option"

record 'e AccountPorts =
  xp_taxIndex :: "string \<Rightarrow> string"
  xp_encrypt :: "string \<Rightarrow> 'e"
  xp_decrypt :: "'e \<times> nat \<Rightarrow> string \<Rightarrow> string"
  xp_require :: "ident \<Rightarrow> string \<Rightarrow> ServiceError + AccountsProvider"

record AccountDraws =
  ad_now :: instant
  ad_holderNow :: instant
  ad_attachNow :: instant
  ad_ledgerNow :: instant
  ad_holderId :: ident
  ad_accountId :: ident
  ad_caseId :: ident
  ad_requirementId :: "nat \<Rightarrow> ident"
  ad_storeIds :: "nat \<Rightarrow> ident"
  ad_ledgerIds :: "nat \<Rightarrow> ident"

definition on_world :: "(World \<Rightarrow> World) \<Rightarrow> 'e AccountsWorld \<Rightarrow> 'e AccountsWorld" where
  "on_world f w = w\<lparr>aw_world := f (aw_world w)\<rparr>"

definition append_audit :: "AuditDraft \<Rightarrow> World \<Rightarrow> World" where
  "append_audit line w = w\<lparr>w_audit := audit_record line (w_audit w)\<rparr>"

definition actor_line :: "AccountActor \<Rightarrow> string \<Rightarrow> string \<Rightarrow> ident \<Rightarrow> ident \<Rightarrow> string \<Rightarrow> instant \<Rightarrow> AuditDraft" where
  "actor_line actor action kind i connectionId slug now =
     \<lparr>au_environment = actor_environment actor, au_actorType = ActorType.API_KEY, au_actorId = Some (actor_apiKeyId actor),
      au_actorLabel = None, au_actorIp = actor_ip actor, au_action = action, au_outcome = SUCCESS, au_errorCode = None,
      au_resourceType = kind, au_resourceId = Some i, au_connectionId = Some connectionId, au_provider = Some slug,
      au_before = None, au_after = None, au_changedFields = None, au_requestId = actor_requestId actor,
      au_operationId = actor_operationId actor, au_occurredAt = now\<rparr>"

section \<open>Opening an account\<close>

definition holder_type :: "HolderFields \<Rightarrow> HolderType" where
  "holder_type f = (case f of BusinessHolder b \<Rightarrow> BUSINESS | IndividualHolder i \<Rightarrow> INDIVIDUAL)"

definition resolveHolder ::
  "'e AccountPorts \<Rightarrow> AccountDraws \<Rightarrow> CreateAccountDto \<Rightarrow> string \<Rightarrow> string \<Rightarrow> AccountActor \<Rightarrow> 'e AccountsWorld \<Rightarrow> HolderRecord \<times> 'e AccountsWorld" where
  "resolveHolder ports dr dto taxIdDigits blind actor w =
     (case ho_findByTaxIdBlindIndex (aw_holders w) (actor_environment actor) blind of
        Some existing \<Rightarrow> (existing, w)
      | None \<Rightarrow>
          (let h = ca_holder dto; ty = holder_type (hd_fields h);
               record = \<lparr>ho_id = ad_holderId dr, ho_environment = actor_environment actor, ho_type = ty,
                 ho_taxIdType = (if ty = BUSINESS then TaxIdType.CNPJ else TaxIdType.CPF), ho_taxIdBlindIndex = blind,
                 ho_taxIdLast4 = slice_last 4 taxIdDigits, ho_legalName = hd_legalName h, ho_email = hd_email h,
                 ho_externalId = hd_externalId h, ho_createdAt = ad_holderNow dr\<rparr>
           in case ho_create (ad_holderNow dr) record (xp_encrypt ports taxIdDigits) (aw_holders w) of
                (r, holders) \<Rightarrow> (r, w\<lparr>aw_holders := holders\<rparr>)))"

definition draft_account :: "AccountDraws \<Rightarrow> CreateAccountDto \<Rightarrow> AccountActor \<Rightarrow> HolderRecord \<Rightarrow> string \<Rightarrow> AccountRecord" where
  "draft_account dr dto actor holder slug =
     \<lparr>ac_id = ad_accountId dr, ac_environment = actor_environment actor, ac_holderId = ho_id holder, ac_provider = slug,
      ac_providerConnectionId = actor_connectionId actor, ac_providerAccountId = None, ac_externalId = ca_externalId dto,
      ac_status = AccountStatus.DRAFT, ac_statusReasonCode = None, ac_statusReasonMessage = None, ac_statusChangedAt = None,
      ac_lastEventAt = None, ac_kind = or_else (ca_kind dto) AccountKind.PAYMENT, ac_currency = ''BRL'',
      ac_ledgerAvailableAccountId = None, ac_ledgerBlockedAccountId = None, ac_ispb = None, ac_branch = None, ac_number = None,
      ac_checkDigit = None, ac_openedAt = None, ac_closedAt = None, ac_metadata = or_else (ca_metadata dto) [],
      ac_createdAt = ad_now dr, ac_updatedAt = ad_now dr\<rparr>"

text \<open>A holder found by the document decides the kind.  For a company whose input is that of an individual, reading the
  representatives is a \<open>TypeError\<close>: \<open>None\<close>.\<close>

definition creation_input :: "CreateAccountDto \<Rightarrow> HolderRecord \<Rightarrow> ident \<Rightarrow> CreateAccountInput option" where
  "creation_input dto holder i =
     (if ho_type holder = BUSINESS
      then (case hd_fields (ca_holder dto) of BusinessHolder b \<Rightarrow> Some (CreatePJ (toCreatePJ dto b i)) | IndividualHolder x \<Rightarrow> None)
      else Some (CreatePF (toCreatePF dto i)))"

definition case_record ::
  "AccountDraws \<Rightarrow> AccountActor \<Rightarrow> AccountRecord \<Rightarrow> HolderRecord \<Rightarrow> string \<Rightarrow> OnboardingType \<Rightarrow> OnboardingCase \<Rightarrow> OnboardingRecord" where
  "case_record dr actor account holder slug ty remote =
     \<lparr>ob_id = ad_caseId dr, ob_environment = actor_environment actor, ob_holderId = ho_id holder, ob_accountId = Some (ac_id account),
      ob_provider = slug, ob_providerCaseId = Some (oc_providerCaseId remote), ob_type = ty, ob_status = oc_status remote,
      ob_lastEventAt = None, ob_rejectionCode = oc_reasonCode remote, ob_rejectionMessage = oc_reason remote,
      ob_providerRejectionCode = oc_providerReasonCode remote, ob_submittedAt = Some (ad_now dr), ob_decidedAt = None,
      ob_requirements = map (\<lambda>(n, code, label). \<lparr>rq_id = ad_requirementId dr n, rq_caseId = ad_caseId dr, rq_code = code,
          rq_status = RequirementStatus.PENDING, rq_label = label, rq_documentId = None, rq_attempts = 0\<rparr>)
        (zip [0..<length (oc_pendingRequirements remote)] (oc_pendingRequirements remote)),
      ob_createdAt = ad_now dr, ob_updatedAt = ad_now dr\<rparr>"

text \<open>A failure here is caught and logged: the account stays.\<close>

definition seedOnboarding ::
  "AccountDraws \<Rightarrow> AccountActor \<Rightarrow> AccountRecord \<Rightarrow> HolderRecord \<Rightarrow> AccountsProvider \<Rightarrow> World \<Rightarrow> World" where
  "seedOnboarding dr actor account holder bound w =
     (case (ap_onboarding bound, truthy (ac_providerAccountId account)) of
        (Some facet, Some pid) \<Rightarrow>
          (let ty = (if ho_type holder = BUSINESS then KYB else KYC) in
           case (if ty = KYB then of_submitKyb facet pid else of_submitKyc facet pid) of
             Replied remote \<Rightarrow>
               (let row = case_record dr actor account holder (ap_slug bound) ty remote;
                    event = \<lparr>ou_env = actor_environment actor, ou_type = ONBOARDING_SUBMITTED, ou_provider = Some (ap_slug bound),
                      ou_connectionId = Some (actor_connectionId actor), ou_subjectKind = ''onboarding'', ou_subjectId = ad_caseId dr,
                      ou_payload = [(''status'', OnboardingStatusValue (oc_status remote)), (''account_id'', Text (ac_id account))],
                      ou_previous = None, ou_occurredAt = ad_now dr\<rparr>
                in append_outbox event (w\<lparr>w_cases := snd (ob_create row (w_cases w))\<rparr>))
           | _ \<Rightarrow> w)
      | _ \<Rightarrow> w)"

text \<open>\<open>openAccounts\<close> on the ledger of the environment.\<close>

definition open_ledger :: "AccountDraws \<Rightarrow> Environment \<Rightarrow> ident \<Rightarrow> World \<Rightarrow> (ServiceError + CustomerAccounts) \<times> World" where
  "open_ledger dr env i w =
     (case factory_for (ad_storeIds dr) env (w_ledger w) of
        (s, stores) \<Rightarrow>
          (case openAccounts (ad_ledgerIds dr) i s of
             Inl e \<Rightarrow> (Inl (LedgerFailure e), w\<lparr>w_ledger := stores\<rparr>)
           | Inr (r, s') \<Rightarrow> (Inr r, w\<lparr>w_ledger := map_set env s' stores\<rparr>)))"

definition created_event :: "AccountDraws \<Rightarrow> AccountActor \<Rightarrow> string \<Rightarrow> AccountRecord \<Rightarrow> HolderRecord \<Rightarrow> OutboxDraft" where
  "created_event dr actor slug attached holder =
     \<lparr>ou_env = actor_environment actor, ou_type = ACCOUNT_CREATED, ou_provider = Some slug,
      ou_connectionId = Some (actor_connectionId actor), ou_subjectKind = ''account'', ou_subjectId = ac_id attached,
      ou_payload = [(''status'', AccountStatusValue (ac_status attached)), (''holder_id'', Text (ho_id holder))],
      ou_previous = None, ou_occurredAt = ad_now dr\<rparr>"

text \<open>From the answer of the provider on.\<close>

definition account_opened ::
  "AccountDraws \<Rightarrow> AccountActor \<Rightarrow> AccountsProvider \<Rightarrow> HolderRecord \<Rightarrow> string \<Rightarrow> ident \<Rightarrow> ProviderAccount \<Rightarrow> World \<Rightarrow> AccountRecord outcome" where
  "account_opened dr actor bound holder taxIdDigits i created w =
     (case ac_attachProviderAccount (ad_attachNow dr) i (pa_providerAccountId created) (pa_status created) (pa_bank created) (pa_openedAt created) (w_accounts w) of
        None \<Rightarrow> (Inl (ServiceError.RESOURCE_NOT_FOUND i), w)
      | Some (attached, accounts) \<Rightarrow>
          (case open_ledger dr (actor_environment actor) (ac_id attached) (w\<lparr>w_accounts := accounts\<rparr>) of
             (Inl e, w1) \<Rightarrow> (Inl e, w1)
           | (Inr ledger, w1) \<Rightarrow>
               (case ac_attachLedgerAccounts (ad_ledgerNow dr) (ac_id attached) (ca_availableId ledger) (ca_blockedId ledger) (w_accounts w1) of
                  None \<Rightarrow> (Inl (ServiceError.RESOURCE_NOT_FOUND i), w1)
                | Some (withLedger, accounts') \<Rightarrow>
                    (let w2 = seedOnboarding dr actor withLedger holder bound (w1\<lparr>w_accounts := accounts'\<rparr>);
                         line = (actor_line actor ''account.create'' ''account'' (ac_id attached) (actor_connectionId actor) (ap_slug bound) (ad_now dr))
                           \<lparr>au_after := Some [(''status'', AccountStatusValue (ac_status attached)),
                              (''holder_tax_id'', Text (maskTaxId \<lparr>ti_type = ho_taxIdType holder, ti_value = taxIdDigits\<rparr>))]\<rparr>
                     in (Inr withLedger, append_audit line (append_outbox (created_event dr actor (ap_slug bound) attached holder) w2))))))"

text \<open>\<open>createPF\<close> and \<open>createPJ\<close> are one request of the model; the capability is that of the holder's type.\<close>

definition create_account ::
  "'e AccountPorts \<Rightarrow> AccountDraws \<Rightarrow> CreateAccountDto \<Rightarrow> AccountActor \<Rightarrow> 'e AccountsWorld \<Rightarrow> (ServiceError + AccountRecord) \<times> 'e AccountsWorld" where
  "create_account ports dr dto actor w =
     (let env = actor_environment actor; taxIdDigits = onlyDigits (hd_taxId (ca_holder dto)); blind = xp_taxIndex ports taxIdDigits in
      case (case truthy (ca_externalId dto) of None \<Rightarrow> None | Some x \<Rightarrow> ac_findByExternalId (w_accounts (aw_world w)) env x) of
        Some existing \<Rightarrow> (Inr existing, w)
      | None \<Rightarrow>
          (case resolveHolder ports dr dto taxIdDigits blind actor w of (holder, w1) \<Rightarrow>
          (case xp_require ports (actor_connectionId actor) (if ho_type holder = BUSINESS then ''accounts.create.pj'' else ''accounts.create.pf'') of
             Inl e \<Rightarrow> (Inl e, w1)
           | Inr bound \<Rightarrow>
               (let account = draft_account dr dto actor holder (ap_slug bound);
                    w2 = on_world (\<lambda>x. x\<lparr>w_accounts := snd (ac_create account (w_accounts x))\<rparr>) w1
                in case creation_input dto holder (ac_id account) of
                     None \<Rightarrow> (Inl (LedgerFailure TypeError), w2)
                   | Some inp \<Rightarrow>
                       (let w3 = w2\<lparr>aw_asked := aw_asked w2 @ [ac_id account]\<rparr> in
                        case replied (ap_create bound inp) of
                          Inl e \<Rightarrow> (Inl e, w3)
                        | Inr created \<Rightarrow>
                            (case account_opened dr actor bound holder taxIdDigits (ac_id account) created (aw_world w3) of
                               (r, x) \<Rightarrow> (r, w3\<lparr>aw_world := x\<rparr>)))))))"

section \<open>Reading and changing\<close>

definition get_account :: "World \<Rightarrow> Environment \<Rightarrow> ident \<Rightarrow> ServiceError + AccountRecord" where
  "get_account w env i = (case ac_findById (w_accounts w) env i of None \<Rightarrow> Inl (ACCOUNT_NOT_FOUND i) | Some a \<Rightarrow> Inr a)"

definition revealTaxId :: "'e AccountPorts \<Rightarrow> 'e AccountsWorld \<Rightarrow> Environment \<Rightarrow> ident \<Rightarrow> ServiceError + string" where
  "revealTaxId ports w env i =
     (case ho_taxIdEnvelope (aw_holders w) env i of
        None \<Rightarrow> Inl (ServiceError.RESOURCE_NOT_FOUND i)
      | Some envelope \<Rightarrow> Inr (xp_decrypt ports envelope (''holder:'' @ i)))"

definition holderOf :: "'e AccountsWorld \<Rightarrow> Environment \<Rightarrow> ident \<Rightarrow> ServiceError + HolderRecord" where
  "holderOf w env i =
     (case ho_findById (aw_holders w) env i of None \<Rightarrow> Inl (ServiceError.RESOURCE_NOT_FOUND i) | Some h \<Rightarrow> Inr h)"

fun eventForStatus :: "AccountStatus \<Rightarrow> EventType" where
  "eventForStatus AccountStatus.ACTIVE = ACCOUNT_ACTIVATED"
| "eventForStatus AccountStatus.BLOCKED = ACCOUNT_BLOCKED"
| "eventForStatus AccountStatus.CLOSED = ACCOUNT_CLOSED"
| "eventForStatus _ = ACCOUNT_STATUS_CHANGED"

datatype AccountAction = Block_account | Unblock_account | Close_account

fun account_action_name :: "AccountAction \<Rightarrow> string" where
  "account_action_name Block_account = ''block''"
| "account_action_name Unblock_account = ''unblock''"
| "account_action_name Close_account = ''close''"

definition ask_status :: "AccountsProvider \<Rightarrow> string \<Rightarrow> AccountAction \<Rightarrow> string option \<Rightarrow> AccountStatus ProviderReply" where
  "ask_status bound pid action reason =
     (if action = Close_account then ap_close bound pid (or_else reason ''Encerramento solicitado'')
      else ap_updateStatus bound pid (action = Block_account) reason)"

definition status_change :: "Environment \<Rightarrow> ident \<Rightarrow> AccountStatus \<Rightarrow> string option \<Rightarrow> instant \<Rightarrow> AccountStatusChange" where
  "status_change env i updated reason now = \<lparr>ax_environment = env, ax_accountId = i, ax_toStatus = updated, ax_reasonCode = None,
     ax_reasonMessage = reason, ax_occurredAt = now\<rparr>"

definition status_written ::
  "AccountActor \<Rightarrow> Environment \<Rightarrow> AccountRecord \<Rightarrow> AccountsProvider \<Rightarrow> AccountAction \<Rightarrow> AccountStatus \<Rightarrow> string option \<Rightarrow> instant \<Rightarrow> ident \<Rightarrow>
   OutboxRepo \<times> AuditRepo \<Rightarrow> OutboxRepo \<times> AuditRepo" where
  "status_written actor env account bound action updated reason now i = (\<lambda>(out, aud).
     (outbox_append \<lparr>ou_env = env, ou_type = eventForStatus updated, ou_provider = Some (ap_slug bound),
        ou_connectionId = Some (ac_providerConnectionId account), ou_subjectKind = ''account'', ou_subjectId = i,
        ou_payload = (''status'', AccountStatusValue updated) # (case reason of None \<Rightarrow> [] | Some r \<Rightarrow> [(''reason'', Text r)]),
        ou_previous = Some [(''status'', AccountStatusValue (ac_status account))], ou_occurredAt = now\<rparr> out,
      audit_record ((actor_line actor (''account.'' @ account_action_name action) ''account'' i (ac_providerConnectionId account) (ap_slug bound) now)
        \<lparr>au_environment := env, au_before := Some [(''status'', AccountStatusValue (ac_status account))],
         au_after := Some [(''status'', AccountStatusValue updated)], au_changedFields := Some [''status'']\<rparr>) aud))"

definition changeStatus ::
  "(ident \<Rightarrow> string \<Rightarrow> ServiceError + AccountsProvider) \<Rightarrow> instant \<Rightarrow> Environment \<Rightarrow> ident \<Rightarrow> AccountAction \<Rightarrow> string option \<Rightarrow> AccountActor \<Rightarrow>
   World \<Rightarrow> AccountRecord outcome" where
  "changeStatus require_provider now env i action reason actor w =
     (case get_account w env i of
        Inl e \<Rightarrow> (Inl e, w)
      | Inr account \<Rightarrow>
          (case truthy (ac_providerAccountId account) of
             None \<Rightarrow> (Inl ServiceError.ACCOUNT_NOT_ACTIVE, w)
           | Some pid \<Rightarrow>
               (case require_provider (ac_providerConnectionId account)
                       (if action = Close_account then ''accounts.close'' else ''accounts.updateStatus'') of
                  Inl e \<Rightarrow> (Inl e, w)
                | Inr bound \<Rightarrow>
                    (case replied (ask_status bound pid action reason) of
                       Inl e \<Rightarrow> (Inl e, w)
                     | Inr updated \<Rightarrow>
                         (case ac_applyStatusChange (status_change env (ac_id account) updated reason now)
                                 (Some (status_written actor env account bound action updated reason now))
                                 (w_accounts w, (w_outbox w, w_audit w)) of
                            (result, accounts, (out, aud)) \<Rightarrow>
                              (Inr (case result of Applied row \<Rightarrow> row | NotApplied reason' cur \<Rightarrow> account),
                               w\<lparr>w_accounts := accounts, w_outbox := out, w_audit := aud\<rparr>))))))"

section \<open>Onboarding\<close>

definition case_status :: "World \<Rightarrow> Environment \<Rightarrow> ident \<Rightarrow> ServiceError + OnboardingRecord" where
  "case_status w env acct =
     (case ob_findByAccountId (w_cases w) env acct of None \<Rightarrow> Inl (ServiceError.RESOURCE_NOT_FOUND acct) | Some r \<Rightarrow> Inr r)"

definition case_byId :: "World \<Rightarrow> Environment \<Rightarrow> ident \<Rightarrow> ServiceError + OnboardingRecord" where
  "case_byId w env i =
     (case ob_findById (w_cases w) env i of None \<Rightarrow> Inl (ServiceError.RESOURCE_NOT_FOUND i) | Some r \<Rightarrow> Inr r)"

definition case_change :: "AccountActor \<Rightarrow> ident \<Rightarrow> OnboardingCase \<Rightarrow> instant \<Rightarrow> CaseStatusChange" where
  "case_change actor i refreshed now =
     \<lparr>ox_environment = actor_environment actor, ox_caseId = i, ox_toStatus = oc_status refreshed,
      ox_rejectionCode = oc_reasonCode refreshed, ox_rejectionMessage = oc_reason refreshed,
      ox_providerRejectionCode = oc_providerReasonCode refreshed,
      ox_requirements = Some (oc_pendingRequirements refreshed), ox_occurredAt = now\<rparr>"

definition document_event :: "AccountActor \<Rightarrow> AccountsProvider \<Rightarrow> OnboardingCase \<Rightarrow> string \<Rightarrow> instant \<Rightarrow> ident \<Rightarrow> OutboxDraft" where
  "document_event actor bound refreshed documentId now i =
     \<lparr>ou_env = actor_environment actor, ou_type = ONBOARDING_REQUIREMENTS_UPDATED, ou_provider = Some (ap_slug bound),
      ou_connectionId = Some (actor_connectionId actor), ou_subjectKind = ''onboarding'', ou_subjectId = i,
      ou_payload = [(''status'', OnboardingStatusValue (oc_status refreshed)), (''document_id'', Text documentId),
        (''pending'', Codes (map fst (oc_pendingRequirements refreshed)))], ou_previous = None, ou_occurredAt = now\<rparr>"

text \<open>The record of the case after an update: the new one, or the one that was read when the guard refused it.\<close>

definition shown :: "OnboardingRecord \<Rightarrow> (OnboardingRecord, OnboardingStatus) StatusChangeResult \<Rightarrow> OnboardingRecord" where
  "shown record result = (case result of Applied row \<Rightarrow> row | NotApplied reason cur \<Rightarrow> record)"

definition uploadDocument ::
  "(ident \<Rightarrow> string \<Rightarrow> ServiceError + AccountsProvider) \<Rightarrow> (nat \<Rightarrow> ident) \<Rightarrow> instant \<Rightarrow> AccountActor \<Rightarrow> ident \<Rightarrow> DocumentUpload \<Rightarrow> World \<Rightarrow>
   (string \<times> OnboardingRecord) outcome" where
  "uploadDocument require_provider newReq now actor caseId document w =
     (case case_byId w (actor_environment actor) caseId of
        Inl e \<Rightarrow> (Inl e, w)
      | Inr record \<Rightarrow>
          (case truthy (ob_providerCaseId record) of
             None \<Rightarrow> (Inl (ServiceError.RESOURCE_NOT_FOUND caseId), w)
           | Some pc \<Rightarrow>
               (case require_provider (actor_connectionId actor) ''onboarding.document.upload'' of
                  Inl e \<Rightarrow> (Inl e, w)
                | Inr bound \<Rightarrow>
                    (case ap_onboarding bound of
                       None \<Rightarrow> (Inl (ServiceError.CAPABILITY_NOT_SUPPORTED (ap_slug bound)), w)
                     | Some facet \<Rightarrow>
                         (case replied (of_uploadDocument facet pc document) of
                            Inl e \<Rightarrow> (Inl e, w)
                          | Inr receipt \<Rightarrow>
                              (case replied (of_getStatus facet pc) of
                                 Inl e \<Rightarrow> (Inl e, w)
                               | Inr refreshed \<Rightarrow>
                                   (case ob_applyStatusChange newReq (case_change actor (ob_id record) refreshed now)
                                           (Some (\<lambda>i out. outbox_append (document_event actor bound refreshed receipt now i) out))
                                           (w_cases w, w_outbox w) of
                                      (result, cases, out) \<Rightarrow>
                                        (Inr (receipt, shown record result),
                                         append_audit
                                           ((actor_line actor ''onboarding.document.upload'' ''onboarding'' (ob_id record) (actor_connectionId actor) (ap_slug bound) now)
                                              \<lparr>au_operationId := None,
                                               au_after := Some [(''code'', RequirementValue (du_kind document)), (''sha256'', Text (du_sha256 document)),
                                                 (''size_bytes'', Number (du_sizeBytes document)), (''provider_document_id'', Text receipt)]\<rparr>)
                                           (w\<lparr>w_cases := cases, w_outbox := out\<rparr>))))))))) "

definition fulfill ::
  "(ident \<Rightarrow> string \<Rightarrow> ServiceError + AccountsProvider) \<Rightarrow> (nat \<Rightarrow> ident) \<Rightarrow> instant \<Rightarrow> AccountActor \<Rightarrow> ident \<Rightarrow> string \<Rightarrow> World \<Rightarrow> OnboardingRecord outcome" where
  "fulfill require_provider newReq now actor caseId code w =
     (case case_byId w (actor_environment actor) caseId of
        Inl e \<Rightarrow> (Inl e, w)
      | Inr record \<Rightarrow>
          (case truthy (ob_providerCaseId record) of
             None \<Rightarrow> (Inl (ServiceError.RESOURCE_NOT_FOUND caseId), w)
           | Some pc \<Rightarrow>
               (case require_provider (actor_connectionId actor) ''onboarding.requirements.fulfill'' of
                  Inl e \<Rightarrow> (Inl e, w)
                | Inr bound \<Rightarrow>
                    (case ap_onboarding bound of
                       None \<Rightarrow> (Inl (ServiceError.CAPABILITY_NOT_SUPPORTED (ap_slug bound)), w)
                     | Some facet \<Rightarrow>
                         (case replied (of_fulfillRequirement facet pc code) of
                            Inl e \<Rightarrow> (Inl e, w)
                          | Inr refreshed \<Rightarrow>
                              (case ob_applyStatusChange newReq
                                      ((case_change actor (ob_id record) refreshed now)
                                         \<lparr>ox_rejectionCode := None, ox_rejectionMessage := None, ox_providerRejectionCode := None\<rparr>)
                                      None (w_cases w, ()) of
                                 (result, cases, u) \<Rightarrow> (Inr (shown record result), w\<lparr>w_cases := cases\<rparr>)))))))"

end
