(* ===== verification/Accounts_Properties.thy ===== *)
theory Accounts_Properties
  imports Accounts_Service
begin

text \<open>
  What opening an account leaves behind: when it succeeds, one row that names the account of the provider and its ledger
  accounts, an event and an audit line; when the provider does not answer, a draft that nothing completes.
\<close>

section \<open>Holders and rows\<close>

lemma find_updated:
  "find P (map snd m) = None \<Longrightarrow> P v \<Longrightarrow> find P (map snd (AList.update k v m)) = Some v"
  by (induction m) (auto split: if_splits)

lemma resolveHolder_world [simp]:
  "aw_world (snd (resolveHolder ports dr dto t b actor w)) = aw_world w"
  "aw_asked (snd (resolveHolder ports dr dto t b actor w)) = aw_asked w"
  by (simp_all add: resolveHolder_def ho_create_def Let_def split: option.split)

lemma resolveHolder_found:
  "ho_findByTaxIdBlindIndex (aw_holders (snd (resolveHolder ports dr dto t b actor w))) (actor_environment actor) b =
   Some (fst (resolveHolder ports dr dto t b actor w))"
  by (auto simp: resolveHolder_def ho_create_def Let_def ho_findByTaxIdBlindIndex_def map_values_def find_updated split: option.split)

lemma resolveHolder_again:
  "ho_findByTaxIdBlindIndex (aw_holders w) (actor_environment actor) b = Some h \<Longrightarrow> resolveHolder ports dr dto t b actor w = (h, w)"
  by (simp add: resolveHolder_def)

section \<open>Where an opening ends\<close>

text \<open>A request that reached the provider: the draft is stored, the provider is asked for it, and its answer decides.\<close>

lemma create_account_asked:
  assumes "create_account ports dr dto actor w = (r, w1)" "aw_asked w1 \<noteq> aw_asked w"
  obtains holder w' bound inp account where
    "resolveHolder ports dr dto (onlyDigits (hd_taxId (ca_holder dto))) (xp_taxIndex ports (onlyDigits (hd_taxId (ca_holder dto)))) actor w = (holder, w')"
    "xp_require ports (actor_connectionId actor) (if ho_type holder = BUSINESS then ''accounts.create.pj'' else ''accounts.create.pf'') = Inr bound"
    "account = draft_account dr dto actor holder (ap_slug bound)"
    "creation_input dto holder (ad_accountId dr) = Some inp"
    "aw_asked w1 = aw_asked w @ [ad_accountId dr]" "aw_holders w1 = aw_holders w'"
    "(case replied (ap_create bound inp) of
        Inl e \<Rightarrow> r = Inl e \<and> aw_world w1 = (aw_world w)\<lparr>w_accounts := snd (ac_create account (w_accounts (aw_world w)))\<rparr>
      | Inr created \<Rightarrow> account_opened dr actor bound holder (onlyDigits (hd_taxId (ca_holder dto))) (ad_accountId dr) created
          ((aw_world w)\<lparr>w_accounts := snd (ac_create account (w_accounts (aw_world w)))\<rparr>) = (r, aw_world w1))"
proof -
  let ?t = "onlyDigits (hd_taxId (ca_holder dto))"
  obtain holder w' where h: "resolveHolder ports dr dto ?t (xp_taxIndex ports ?t) actor w = (holder, w')" by fastforce
  then have w': "aw_world w' = aw_world w" "aw_asked w' = aw_asked w" by (metis resolveHolder_world snd_conv)+
  have none: "(case truthy (ca_externalId dto) of None \<Rightarrow> None | Some x \<Rightarrow> ac_findByExternalId (w_accounts (aw_world w)) (actor_environment actor) x) = None"
  proof (rule ccontr)
    assume "\<not> ?thesis"
    then obtain a where "(case truthy (ca_externalId dto) of None \<Rightarrow> None
        | Some x \<Rightarrow> ac_findByExternalId (w_accounts (aw_world w)) (actor_environment actor) x) = Some a" by blast
    then show False using assms by (simp add: create_account_def Let_def)
  qed
  let ?cap = "if ho_type holder = BUSINESS then ''accounts.create.pj'' else ''accounts.create.pf''"
  obtain bound where b: "xp_require ports (actor_connectionId actor) ?cap = Inr bound"
    using assms none h w' by (cases "xp_require ports (actor_connectionId actor) ?cap") (simp_all add: create_account_def Let_def)
  obtain inp where i: "creation_input dto holder (ad_accountId dr) = Some inp"
    using assms none h w' b
    by (cases "creation_input dto holder (ad_accountId dr)") (auto simp: create_account_def Let_def draft_account_def on_world_def)
  show thesis
    by (rule that [OF h b refl i])
      (use assms none h w' b i in \<open>auto simp: create_account_def Let_def draft_account_def on_world_def split: sum.splits prod.splits\<close>)
qed


lemma draft_account_fields [simp]:
  "ac_id (draft_account dr dto actor holder slug) = ad_accountId dr"
  "ac_environment (draft_account dr dto actor holder slug) = actor_environment actor"
  "ac_externalId (draft_account dr dto actor holder slug) = ca_externalId dto"
  "ac_status (draft_account dr dto actor holder slug) = AccountStatus.DRAFT"
  "ac_providerAccountId (draft_account dr dto actor holder slug) = None"
  by (simp_all add: draft_account_def)

lemma findByExternalId_created:
  assumes "ac_findByExternalId repo env x = None" "ac_environment a = env" "ac_externalId a = Some x"
  shows "ac_findByExternalId (snd (ac_create a repo)) env x = Some a"
  using assms find_updated [of "\<lambda>row. ac_environment row = env \<and> ac_externalId row = Some x" "a_rows repo" a "ac_id a"]
  by (simp add: ac_findByExternalId_def ac_create_def map_values_def)

lemma creation_input_kind:
  "creation_input dto holder i = Some inp \<Longrightarrow> \<exists>inp'. creation_input (dto\<lparr>ca_externalId := x\<rparr>) holder j = Some inp'"
  by (auto simp: creation_input_def split: if_splits HolderFields.splits)

lemma account_opened_known:
  "account_opened dr actor bound holder t i created w \<noteq> (Inl (ProviderOutcomeUnknown m), w')"
  by (auto simp: account_opened_def open_ledger_def Let_def split: option.splits prod.splits sum.splits)

text \<open>C38: when the provider does not answer an opening, a draft without an account at the provider is what remains.  Asking again
  with the same external identifier returns that draft and asks nobody, whatever else the request says, so the account is never opened;
  asking again without one asks the provider for a second account of the same holder, under another identifier.\<close>

theorem lost_opening_never_completed:
  assumes "ca_externalId dto = Some x" "x \<noteq> []" "ac_findByExternalId (w_accounts (aw_world w)) (actor_environment actor) x = None"
    and "create_account ports dr dto actor w = (Inl (ProviderOutcomeUnknown m), w1)" "aw_asked w1 \<noteq> aw_asked w"
    and "ca_externalId dto' = Some x" "actor_environment actor' = actor_environment actor"
  shows "\<exists>row. ac_status row = AccountStatus.DRAFT \<and> ac_providerAccountId row = None \<and> aw_asked w1 = aw_asked w @ [ac_id row] \<and>
    aw_world w1 = (aw_world w)\<lparr>w_accounts := snd (ac_create row (w_accounts (aw_world w)))\<rparr> \<and>
    create_account ports' dr' dto' actor' w1 = (Inr row, w1) \<and>
    aw_asked (snd (create_account ports dr2 (dto\<lparr>ca_externalId := None\<rparr>) actor w1)) = aw_asked w1 @ [ad_accountId dr2]"
proof -
  let ?t = "onlyDigits (hd_taxId (ca_holder dto))"
  obtain holder w' bound inp account where c:
    "resolveHolder ports dr dto ?t (xp_taxIndex ports ?t) actor w = (holder, w')"
    "xp_require ports (actor_connectionId actor) (if ho_type holder = BUSINESS then ''accounts.create.pj'' else ''accounts.create.pf'') = Inr bound"
    "account = draft_account dr dto actor holder (ap_slug bound)" "creation_input dto holder (ad_accountId dr) = Some inp"
    "aw_asked w1 = aw_asked w @ [ad_accountId dr]" "aw_holders w1 = aw_holders w'"
    "aw_world w1 = (aw_world w)\<lparr>w_accounts := snd (ac_create account (w_accounts (aw_world w)))\<rparr>"
    by (rule create_account_asked [OF assms(4,5)]) (auto simp: account_opened_known split: sum.splits)
  have again: "create_account ports' dr' dto' actor' w1 = (Inr account, w1)"
    using findByExternalId_created [OF assms(3), of account] assms(1,2,6,7) c(3,7) by (simp add: create_account_def Let_def)
  have "ho_findByTaxIdBlindIndex (aw_holders w1) (actor_environment actor) (xp_taxIndex ports ?t) = Some holder"
    using resolveHolder_found [of ports dr dto ?t "xp_taxIndex ports ?t" actor w] c(1,6) by simp
  then have h: "resolveHolder ports dr2 (dto\<lparr>ca_externalId := None\<rparr>) ?t (xp_taxIndex ports ?t) actor w1 = (holder, w1)"
    by (rule resolveHolder_again)
  obtain inp2 where i: "creation_input (dto\<lparr>ca_externalId := None\<rparr>) holder (ad_accountId dr2) = Some inp2"
    using creation_input_kind [OF c(4)] by blast
  have "aw_asked (snd (create_account ports dr2 (dto\<lparr>ca_externalId := None\<rparr>) actor w1)) = aw_asked w1 @ [ad_accountId dr2]"
    using c(2) h i by (simp add: create_account_def Let_def on_world_def split: sum.split prod.split)
  then show ?thesis using c(3,5,7) again by auto
qed

section \<open>A successful opening\<close>

lemma open_ledgerD:
  assumes "open_ledger dr env i w = (Inr ledger, w1)"
  obtains s s1 where "openAccounts (ad_ledgerIds dr) i s = Inr (ledger, s1)" "map_get (w_ledger w1) env = Some s1"
    "w1 = w\<lparr>w_ledger := w_ledger w1\<rparr>"
  using assms by (auto simp: open_ledger_def update_conv split: prod.splits sum.splits)

lemma seedOnboarding_world:
  "w_accounts (seedOnboarding dr actor a h bound w) = w_accounts w" "w_ledger (seedOnboarding dr actor a h bound w) = w_ledger w"
  "w_audit (seedOnboarding dr actor a h bound w) = w_audit w"
  "\<exists>es. w_outbox (seedOnboarding dr actor a h bound w) = w_outbox w @ es"
  by (auto simp: seedOnboarding_def append_outbox_def outbox_append_def Let_def split: option.split ProviderReply.split)

text \<open>From the answer of the provider on, over a world in which the draft is stored.\<close>

lemma account_opened_stored:
  assumes opened: "account_opened dr actor bound holder t i created w0 = (Inr row, x)"
    and w0: "map_get (a_rows (w_accounts w0)) i = Some account" and account: "ac_id account = i" "ac_environment account = actor_environment actor"
  obtains ledger s s1 w3 attached line where "ac_id row = i" "ac_environment row = actor_environment actor"
    "ac_providerAccountId row = Some (pa_providerAccountId created)" "ac_status row = pa_status created"
    "ac_holderId row = ac_holderId account" "ac_provider row = ac_provider account"
    "ac_ledgerAvailableAccountId row = Some (ca_availableId ledger)" "ac_ledgerBlockedAccountId row = Some (ca_blockedId ledger)"
    "openAccounts (ad_ledgerIds dr) i s = Inr (ledger, s1)" "ac_id attached = i"
    "x = append_audit line (append_outbox (created_event dr actor (ap_slug bound) attached holder) w3)"
    "map_get (a_rows (w_accounts w3)) i = Some row" "map_get (w_ledger w3) (actor_environment actor) = Some s1"
    "w_audit w3 = w_audit w0" "au_action line = ''account.create''" "au_resourceId line = Some i"
    "au_after line = Some [(''status'', AccountStatusValue (pa_status created)),
       (''holder_tax_id'', Text (maskTaxId \<lparr>ti_type = ho_taxIdType holder, ti_value = t\<rparr>))]"
proof -
  obtain attached accounts where att: "ac_attachProviderAccount (ad_attachNow dr) i (pa_providerAccountId created) (pa_status created)
      (pa_bank created) (pa_openedAt created) (w_accounts w0) = Some (attached, accounts)"
    and a: "ac_id attached = i" "ac_environment attached = actor_environment actor"
      "ac_providerAccountId attached = Some (pa_providerAccountId created)" "ac_status attached = pa_status created"
      "ac_holderId attached = ac_holderId account" "ac_provider attached = ac_provider account"
      "map_get (a_rows accounts) i = Some attached"
    by (simp add: ac_attachProviderAccount_def w0 account update_conv Let_def)
  obtain ledger w2 where led: "open_ledger dr (actor_environment actor) i (w0\<lparr>w_accounts := accounts\<rparr>) = (Inr ledger, w2)"
    using opened by (auto simp: account_opened_def att a split: prod.splits sum.splits)
  obtain s s1 where s: "openAccounts (ad_ledgerIds dr) i s = Inr (ledger, s1)"
      "map_get (w_ledger w2) (actor_environment actor) = Some s1" "w2 = w0\<lparr>w_accounts := accounts, w_ledger := w_ledger w2\<rparr>"
    using open_ledgerD [OF led] by auto
  then have w2: "w_accounts w2 = accounts" "w_audit w2 = w_audit w0" by (metis World.select_convs World.surjective World.update_convs)+
  define row' where "row' = attached\<lparr>ac_ledgerAvailableAccountId := Some (ca_availableId ledger),
      ac_ledgerBlockedAccountId := Some (ca_blockedId ledger), ac_updatedAt := ad_ledgerNow dr\<rparr>"
  have led2: "ac_attachLedgerAccounts (ad_ledgerNow dr) i (ca_availableId ledger) (ca_blockedId ledger) (w_accounts w2) =
      Some (row', accounts\<lparr>a_rows := map_set i row' (a_rows accounts)\<rparr>)"
    by (simp add: ac_attachLedgerAccounts_def w2 a row'_def Let_def)
  define w3 where "w3 = seedOnboarding dr actor row' holder bound (w2\<lparr>w_accounts := accounts\<lparr>a_rows := map_set i row' (a_rows accounts)\<rparr>\<rparr>)"
  define line where "line = (actor_line actor ''account.create'' ''account'' i (actor_connectionId actor) (ap_slug bound) (ad_now dr))
      \<lparr>au_after := Some [(''status'', AccountStatusValue (pa_status created)),
         (''holder_tax_id'', Text (maskTaxId \<lparr>ti_type = ho_taxIdType holder, ti_value = t\<rparr>))]\<rparr>"
  have fin: "row = row'" "x = append_audit line (append_outbox (created_event dr actor (ap_slug bound) attached holder) w3)"
    using opened by (auto simp: account_opened_def att a led led2 w3_def line_def Let_def)
  have "map_get (a_rows (w_accounts w3)) i = Some row" "map_get (w_ledger w3) (actor_environment actor) = Some s1" "w_audit w3 = w_audit w0"
    by (simp_all add: w3_def seedOnboarding_world w2 fin(1) s(2) update_conv)
  then show thesis using that [of ledger s s1 attached line w3] fin s(1) a by (simp add: row'_def line_def actor_line_def)
qed

text \<open>A successful opening found the holder of the request, asked the provider of the connection for it, and was answered.\<close>

lemma opening_answered:
  assumes "create_account ports dr dto actor w = (Inr row, w1)" "aw_asked w1 \<noteq> aw_asked w"
  obtains holder bound inp created account where
    "xp_require ports (actor_connectionId actor) (if ho_type holder = BUSINESS then ''accounts.create.pj'' else ''accounts.create.pf'') = Inr bound"
    "creation_input dto holder (ad_accountId dr) = Some inp" "ap_create bound inp = Replied created"
    "account = draft_account dr dto actor holder (ap_slug bound)" "aw_asked w1 = aw_asked w @ [ad_accountId dr]"
    "ho_findByTaxIdBlindIndex (aw_holders w1) (actor_environment actor) (xp_taxIndex ports (onlyDigits (hd_taxId (ca_holder dto)))) = Some holder"
    "account_opened dr actor bound holder (onlyDigits (hd_taxId (ca_holder dto))) (ad_accountId dr) created
      ((aw_world w)\<lparr>w_accounts := snd (ac_create account (w_accounts (aw_world w)))\<rparr>) = (Inr row, aw_world w1)"
proof -
  let ?t = "onlyDigits (hd_taxId (ca_holder dto))"
  have r: "(case x of Inl e \<Rightarrow> Inr row = Inl e \<and> P e | Inr y \<Rightarrow> Q y) \<Longrightarrow> \<exists>y. x = Inr y \<and> Q y" for x P Q by (cases x) auto
  obtain holder w' bound inp account where c:
    "resolveHolder ports dr dto ?t (xp_taxIndex ports ?t) actor w = (holder, w')"
    "xp_require ports (actor_connectionId actor) (if ho_type holder = BUSINESS then ''accounts.create.pj'' else ''accounts.create.pf'') = Inr bound"
    "account = draft_account dr dto actor holder (ap_slug bound)" "creation_input dto holder (ad_accountId dr) = Some inp"
    "aw_asked w1 = aw_asked w @ [ad_accountId dr]" "aw_holders w1 = aw_holders w'"
    and open_case: "case replied (ap_create bound inp) of
        Inl e \<Rightarrow> Inr row = Inl e \<and> aw_world w1 = (aw_world w)\<lparr>w_accounts := snd (ac_create account (w_accounts (aw_world w)))\<rparr>
      | Inr created \<Rightarrow> account_opened dr actor bound holder ?t (ad_accountId dr) created
          ((aw_world w)\<lparr>w_accounts := snd (ac_create account (w_accounts (aw_world w)))\<rparr>) = (Inr row, aw_world w1)"
    by (rule create_account_asked [OF assms])
  obtain created where created: "ap_create bound inp = Replied created" "account_opened dr actor bound holder ?t (ad_accountId dr) created
      ((aw_world w)\<lparr>w_accounts := snd (ac_create account (w_accounts (aw_world w)))\<rparr>) = (Inr row, aw_world w1)"
    using r [OF open_case] by (cases "ap_create bound inp") auto
  have found: "ho_findByTaxIdBlindIndex (aw_holders w1) (actor_environment actor) (xp_taxIndex ports ?t) = Some holder"
    using resolveHolder_found [of ports dr dto ?t "xp_taxIndex ports ?t" actor w] by (simp add: c(1,6))
  show thesis by (rule that [OF c(2,4) created(1) c(3,5) found created(2)])
qed

text \<open>C37: an opening that succeeds asked the provider of the connection once, for the holder of the request and under the identifier of
  the account; the row it returns is the one stored, it carries the account and the status of the provider's answer and the two ledger
  accounts opened for it, and the outbox and the audit trail end with its event and its line, where the document is masked.\<close>

theorem opening_complete:
  assumes "create_account ports dr dto actor w = (Inr row, w1)" "aw_asked w1 \<noteq> aw_asked w"
  shows "aw_asked w1 = aw_asked w @ [ac_id row] \<and> ac_findById (w_accounts (aw_world w1)) (actor_environment actor) (ac_id row) = Some row \<and>
    (\<exists>holder bound inp created. xp_require ports (actor_connectionId actor)
         (if ho_type holder = BUSINESS then ''accounts.create.pj'' else ''accounts.create.pf'') = Inr bound \<and>
       creation_input dto holder (ac_id row) = Some inp \<and> ap_create bound inp = Replied created \<and>
       ho_findByTaxIdBlindIndex (aw_holders w1) (actor_environment actor) (xp_taxIndex ports (onlyDigits (hd_taxId (ca_holder dto)))) = Some holder \<and>
       ac_holderId row = ho_id holder \<and> ac_provider row = ap_slug bound \<and>
       ac_providerAccountId row = Some (pa_providerAccountId created) \<and> ac_status row = pa_status created) \<and>
    (\<exists>ledger s s1. openAccounts (ad_ledgerIds dr) (ac_id row) s = Inr (ledger, s1) \<and>
       ac_ledgerAvailableAccountId row = Some (ca_availableId ledger) \<and> ac_ledgerBlockedAccountId row = Some (ca_blockedId ledger) \<and>
       map_get (w_ledger (aw_world w1)) (actor_environment actor) = Some s1) \<and>
    (\<exists>event n. last (w_outbox (aw_world w1)) = (event, n) \<and> ou_type event = ACCOUNT_CREATED \<and> ou_subjectId event = ac_id row) \<and>
    (\<exists>line ty. w_audit (aw_world w1) = w_audit (aw_world w) @ [line] \<and> au_action line = ''account.create'' \<and> au_resourceId line = Some (ac_id row) \<and>
       au_after line = Some [(''status'', AccountStatusValue (ac_status row)),
         (''holder_tax_id'', Text (maskTaxId \<lparr>ti_type = ty, ti_value = onlyDigits (hd_taxId (ca_holder dto))\<rparr>))])"
proof (rule opening_answered [OF assms])
  let ?t = "onlyDigits (hd_taxId (ca_holder dto))"
  fix holder bound inp created account
  assume c: "xp_require ports (actor_connectionId actor) (if ho_type holder = BUSINESS then ''accounts.create.pj'' else ''accounts.create.pf'') = Inr bound"
    "creation_input dto holder (ad_accountId dr) = Some inp" "ap_create bound inp = Replied created"
    "account = draft_account dr dto actor holder (ap_slug bound)" "aw_asked w1 = aw_asked w @ [ad_accountId dr]"
    "ho_findByTaxIdBlindIndex (aw_holders w1) (actor_environment actor) (xp_taxIndex ports ?t) = Some holder"
    "account_opened dr actor bound holder ?t (ad_accountId dr) created
      ((aw_world w)\<lparr>w_accounts := snd (ac_create account (w_accounts (aw_world w)))\<rparr>) = (Inr row, aw_world w1)"
  show ?thesis
  proof (rule account_opened_stored [OF c(7), of account])
    fix ledger s s1 w3 attached line
    assume o: "ac_id row = ad_accountId dr" "ac_environment row = actor_environment actor"
      "ac_providerAccountId row = Some (pa_providerAccountId created)" "ac_status row = pa_status created"
      "ac_holderId row = ac_holderId account" "ac_provider row = ac_provider account"
      "ac_ledgerAvailableAccountId row = Some (ca_availableId ledger)" "ac_ledgerBlockedAccountId row = Some (ca_blockedId ledger)"
      and opened: "openAccounts (ad_ledgerIds dr) (ad_accountId dr) s = Inr (ledger, s1)"
      and fin: "ac_id attached = ad_accountId dr"
      "aw_world w1 = append_audit line (append_outbox (created_event dr actor (ap_slug bound) attached holder) w3)"
      "map_get (a_rows (w_accounts w3)) (ad_accountId dr) = Some row" "map_get (w_ledger w3) (actor_environment actor) = Some s1"
      "w_audit w3 = w_audit ((aw_world w)\<lparr>w_accounts := snd (ac_create account (w_accounts (aw_world w)))\<rparr>)"
      "au_action line = ''account.create''" "au_resourceId line = Some (ad_accountId dr)"
      "au_after line = Some [(''status'', AccountStatusValue (pa_status created)),
         (''holder_tax_id'', Text (maskTaxId \<lparr>ti_type = ho_taxIdType holder, ti_value = ?t\<rparr>))]"
    have "ac_holderId row = ho_id holder \<and> ac_provider row = ap_slug bound" using o(5,6) by (simp add: c(4) draft_account_def)
    then have answer: "\<exists>holder bound inp created. xp_require ports (actor_connectionId actor)
         (if ho_type holder = BUSINESS then ''accounts.create.pj'' else ''accounts.create.pf'') = Inr bound \<and>
       creation_input dto holder (ac_id row) = Some inp \<and> ap_create bound inp = Replied created \<and>
       ho_findByTaxIdBlindIndex (aw_holders w1) (actor_environment actor) (xp_taxIndex ports ?t) = Some holder \<and>
       ac_holderId row = ho_id holder \<and> ac_provider row = ap_slug bound \<and>
       ac_providerAccountId row = Some (pa_providerAccountId created) \<and> ac_status row = pa_status created"
      using c(1-3,6) o(1,3,4) by metis
    have ledger: "\<exists>ledger s s1. openAccounts (ad_ledgerIds dr) (ac_id row) s = Inr (ledger, s1) \<and>
       ac_ledgerAvailableAccountId row = Some (ca_availableId ledger) \<and> ac_ledgerBlockedAccountId row = Some (ca_blockedId ledger) \<and>
       map_get (w_ledger (aw_world w1)) (actor_environment actor) = Some s1"
      using opened o(1,7,8) fin(2,4) by (auto simp: append_audit_def append_outbox_def)
    show ?thesis
      by (intro conjI answer ledger)
        (auto simp: c(5) o(1,2,4) fin append_audit_def append_outbox_def audit_record_def outbox_append_def ac_findById_def created_event_def)
  qed (simp_all add: ac_create_def c(4) update_conv)
qed

section \<open>Worked openings\<close>

definition no_world :: World where
  "no_world = \<lparr>w_events = [], w_accounts = \<lparr>a_rows = [], a_statusHistory = []\<rparr>, w_cases = [],
     w_transactions = \<lparr>t_rows = [], t_statusHistory = []\<rparr>, w_charges = [], w_operations = [], w_ledger = [], w_outbox = [], w_audit = [],
     w_queue = [], w_invalidated = [], w_requests = []\<rparr>"

definition first_world :: "string AccountsWorld" where
  "first_world = \<lparr>aw_world = no_world, aw_holders = \<lparr>h_rows = [], h_envelopes = []\<rparr>, aw_asked = []\<rparr>"

definition maria :: CreateAccountDto where
  "maria = \<lparr>ca_holder = \<lparr>hd_taxId = ''52998224725'', hd_legalName = ''Maria'', hd_email = ''m@x.br'',
        hd_phone = \<lparr>ph_countryCode = ''55'', ph_areaCode = ''11'', ph_number = ''912345678''\<rparr>, hd_addresses = [],
        hd_isPoliticallyExposed = False, hd_externalId = None,
        hd_fields = IndividualHolder \<lparr>if_birthDate = ''1990-01-01'', if_motherName = None\<rparr>\<rparr>,
     ca_kind = None, ca_externalId = Some ''ext-1'', ca_metadata = None\<rparr>"

definition some_actor :: AccountActor where
  "some_actor = \<lparr>actor_environment = PRODUCAO, actor_connectionId = ''C1'', actor_operationId = None, actor_apiKeyId = ''K1'',
     actor_ip = None, actor_requestId = None\<rparr>"

definition some_draws :: "char \<Rightarrow> AccountDraws" where
  "some_draws c = \<lparr>ad_now = 1000, ad_holderNow = 1001, ad_attachNow = 1002, ad_ledgerNow = 1003, ad_holderId = [c, CHR ''h''],
     ad_accountId = [c, CHR ''a''], ad_caseId = [c, CHR ''c''], ad_requirementId = (\<lambda>n. [c, CHR ''r'']),
     ad_storeIds = (\<lambda>n. CHR ''s'' # replicate n c), ad_ledgerIds = (\<lambda>n. CHR ''l'' # replicate n c)\<rparr>"

definition some_ports :: "ProviderAccount ProviderReply \<Rightarrow> string AccountPorts" where
  "some_ports r = \<lparr>xp_taxIndex = (\<lambda>t. CHR ''#'' # t), xp_encrypt = rev, xp_decrypt = (\<lambda>e k. rev (fst e)),
     xp_require = (\<lambda>i cap. Inr \<lparr>ap_slug = ''MOCK'', ap_create = (\<lambda>inp. r), ap_updateStatus = (\<lambda>p b x. Unknown []),
        ap_close = (\<lambda>p x. Unknown []), ap_onboarding = None\<rparr>)\<rparr>"

definition lost :: "(ServiceError + AccountRecord) \<times> string AccountsWorld" where
  "lost = create_account (some_ports (Unknown ''timeout'')) (some_draws CHR ''1'') maria some_actor first_world"

definition opened_bank :: ProviderAccount where
  "opened_bank = \<lparr>pa_providerAccountId = ''P1'', pa_status = AccountStatus.ACTIVE, pa_bank = None, pa_openedAt = None\<rparr>"

definition opened :: "(ServiceError + AccountRecord) \<times> string AccountsWorld" where
  "opened = create_account (some_ports (Replied opened_bank)) (some_draws CHR ''1'') maria some_actor first_world"

lemmas opening_defs = no_world_def first_world_def maria_def some_actor_def some_draws_def some_ports_def opened_bank_def

lemma lost_facts: "fst lost = Inl (ProviderOutcomeUnknown ''timeout'')" "aw_asked (snd lost) = [''1a'']"
  by (simp_all add: lost_def opening_defs create_account_def Let_def ac_findByExternalId_def map_values_def resolveHolder_def
      ho_findByTaxIdBlindIndex_def ho_create_def holder_type_def creation_input_def on_world_def draft_account_def)

theorem lost_opening_never_completed_witness:
  "aw_asked (snd lost) = [''1a''] \<and>
   (case create_account (some_ports (Replied opened_bank)) (some_draws CHR ''2'') maria some_actor (snd lost) of
      (Inr row, w2) \<Rightarrow> ac_status row = AccountStatus.DRAFT \<and> ac_providerAccountId row = None \<and> aw_asked w2 = [''1a''] | _ \<Rightarrow> False) \<and>
   aw_asked (snd (create_account (some_ports (Unknown ''timeout'')) (some_draws CHR ''2'') (maria\<lparr>ca_externalId := None\<rparr>) some_actor (snd lost))) =
     [''1a'', ''2a'']"
proof -
  have x: "ca_externalId maria = Some ''ext-1''" "ac_findByExternalId (w_accounts (aw_world first_world)) (actor_environment some_actor) ''ext-1'' = None"
    by (simp_all add: opening_defs ac_findByExternalId_def map_values_def)
  have l: "create_account (some_ports (Unknown ''timeout'')) (some_draws CHR ''1'') maria some_actor first_world =
      (Inl (ProviderOutcomeUnknown ''timeout''), snd lost)" "aw_asked (snd lost) \<noteq> aw_asked first_world"
    using lost_facts prod.collapse [of lost] by (simp_all add: lost_def [symmetric]) (simp add: first_world_def)
  show ?thesis
    using lost_opening_never_completed [OF x(1) _ x(2) l x(1) refl, where ?ports' = "some_ports (Replied opened_bank)" and ?dr' = "some_draws CHR ''2''"
        and ?dr2.0 = "some_draws CHR ''2''"] lost_facts(2)
    by (auto simp: some_draws_def)
qed

lemma opened_facts: "\<exists>row. fst opened = Inr row \<and> ac_id row = ''1a''" "aw_asked (snd opened) = [''1a'']"
proof -
  have "(case fst opened of Inr row \<Rightarrow> ac_id row = ''1a'' | Inl e \<Rightarrow> False)" by code_simp
  then show "\<exists>row. fst opened = Inr row \<and> ac_id row = ''1a''" by (cases "fst opened") auto
  show "aw_asked (snd opened) = [''1a'']" by code_simp
qed

theorem opening_complete_witness:
  "case opened of (Inr row, w1) \<Rightarrow> ac_findById (w_accounts (aw_world w1)) PRODUCAO ''1a'' = Some row \<and>
     (\<exists>event n. last (w_outbox (aw_world w1)) = (event, n) \<and> ou_type event = ACCOUNT_CREATED \<and> ou_subjectId event = ''1a'') | _ \<Rightarrow> False"
proof -
  obtain row w1 where o: "opened = (Inr row, w1)" and n: "ac_id row = ''1a''" using opened_facts(1) prod.collapse by metis
  have "aw_asked w1 \<noteq> aw_asked first_world" using opened_facts(2) by (simp add: o first_world_def)
  then have "ac_findById (w_accounts (aw_world w1)) (actor_environment some_actor) (ac_id row) = Some row \<and>
      (\<exists>event n. last (w_outbox (aw_world w1)) = (event, n) \<and> ou_type event = ACCOUNT_CREATED \<and> ou_subjectId event = ac_id row)"
    using opening_complete [of "some_ports (Replied opened_bank)" "some_draws CHR ''1''" maria some_actor first_world row w1] o
    by (simp add: opened_def [symmetric])
  then show ?thesis by (simp add: o n some_actor_def)
qed

end
