(* ===== verification/Pix_Services.thy ===== *)
theory Pix_Services
  imports Accounts_Service Br_Identifiers Emv Json
begin

text \<open>
  Charges and keys of Pix in the API, \<open>src/apps/api/src/pix/pix-charges.service.ts\<close> and \<open>pix-keys.service.ts\<close>.

  Keys live beside the world of the services.  The adapter of the connection is a parameter with the facets it has, and so is
  the blind index of a key.  A capability the connection lacks is the error \<open>ProviderResolver.require\<close> throws.
\<close>

section \<open>Errors\<close>

datatype PixFailure =
    PF_service ServiceError
  | PF_key_not_found ident
  | PF_key_exists
  | PF_charge_not_found string
  | PF_provider_rejected string "EmvError option"

section \<open>pix-charges.service.ts\<close>

record ChargePayer =
  py_taxId :: TaxId
  py_name :: string

record CreateChargeDto =
  cg_pixKeyId :: ident
  cg_kind :: PixChargeKind
  cg_amount :: "MoneyJSON option"
  cg_payerRequest :: "string option"
  cg_txid :: "string option"
  cg_amountIsChangeable :: bool
  cg_payer :: "ChargePayer option"
  cg_additionalInfo :: "(string \<times> string) list option"
  cg_expiresInSeconds :: "int option"
  cg_dueDate :: "string option"
  cg_validAfterDueDays :: "int option"
  cg_fine :: "Json option"
  cg_interest :: "Json option"
  cg_discounts :: "Json list option"
  cg_externalId :: "string option"
  cg_metadata :: "(string \<times> string) list option"

record ChargeBase =
  cb_pixKey :: string
  cb_amount :: "MoneyJSON option"
  cb_payerRequest :: "string option"
  cb_merchantName :: string
  cb_merchantCity :: string

record DynamicFields =
  dy_expiresInSeconds :: "int option"
  dy_dueDate :: "string option"
  dy_validAfterDueDays :: "int option"
  dy_fine :: "Json option"
  dy_interest :: "Json option"
  dy_discounts :: "Json list option"
  dy_amountIsChangeable :: bool
  dy_payer :: "ChargePayer option"
  dy_additionalInfo :: "(string \<times> string) list option"

datatype CreateChargeInput = StaticCharge ChargeBase "string option" | DynamicCharge ChargeBase DynamicFields

text \<open>The fields of a kind are absent in the others; fine, interest and discounts are handed on unread.\<close>

definition dynamicFields :: "CreateChargeDto \<Rightarrow> DynamicFields" where
  "dynamicFields dto =
     \<lparr>dy_expiresInSeconds = (if cg_kind dto = DYNAMIC_IMMEDIATE then cg_expiresInSeconds dto else None),
      dy_dueDate = (if cg_kind dto = DYNAMIC_DUE then cg_dueDate dto else None),
      dy_validAfterDueDays = (if cg_kind dto = DYNAMIC_DUE then cg_validAfterDueDays dto else None),
      dy_fine = (if cg_kind dto = DYNAMIC_DUE then cg_fine dto else None),
      dy_interest = (if cg_kind dto = DYNAMIC_DUE then cg_interest dto else None),
      dy_discounts = (if cg_kind dto = DYNAMIC_DUE then cg_discounts dto else None),
      dy_amountIsChangeable = cg_amountIsChangeable dto, dy_payer = cg_payer dto, dy_additionalInfo = cg_additionalInfo dto\<rparr>"

record ProviderCharge =
  ch_txid :: string
  ch_status :: PixChargeStatus
  ch_revision :: "nat option"
  ch_amount :: "MoneyJSON option"
  ch_expiresAt :: "instant option"
  ch_emvPayload :: string

record ProviderKey =
  ky_type :: PixKeyType
  ky_value :: string
  ky_status :: string
  ky_providerKeyId :: "string option"
  ky_requestedAt :: "instant option"
  ky_activatedAt :: "instant option"

record KeyResolution =
  kr_key :: string
  kr_keyType :: PixKeyType
  kr_holderName :: string
  kr_holderTaxId :: TaxId
  kr_ispb :: string
  kr_bankName :: "string option"
  kr_branch :: "string option"
  kr_accountNumber :: "string option"
  kr_accountType :: "string option"

record PixFacets =
  pv_slug :: string
  pv_createCharge :: "string \<Rightarrow> CreateChargeInput \<Rightarrow> ProviderCharge ProviderReply"
  pv_cancelCharge :: "(string \<Rightarrow> string \<Rightarrow> unit ProviderReply) option"
  pv_createKey :: "string \<Rightarrow> PixKeyType \<Rightarrow> string option \<Rightarrow> ProviderKey ProviderReply"
  pv_deleteKey :: "string \<Rightarrow> string \<Rightarrow> unit ProviderReply"
  pv_resolveKey :: "(string \<Rightarrow> string \<Rightarrow> KeyResolution ProviderReply) option"

record PixPorts =
  xq_require :: "ident \<Rightarrow> string \<Rightarrow> ServiceError + PixFacets"
  xq_keyIndex :: "string \<Rightarrow> string"
  xq_merchantName :: string
  xq_merchantCity :: string

record PixWorld =
  pw_world :: World
  pw_keys :: PixKeyRepo

text \<open>The error of an account that is missing or not open at the provider.\<close>

definition open_account :: "PixWorld \<Rightarrow> Environment \<Rightarrow> ident \<Rightarrow> PixFailure + (AccountRecord \<times> string)" where
  "open_account pw env acct = (case requireAccount (pw_world pw) env acct of Inl e \<Rightarrow> Inl (PF_service e) | Inr x \<Rightarrow> Inr x)"

definition own_key :: "PixWorld \<Rightarrow> Environment \<Rightarrow> ident \<Rightarrow> ident \<Rightarrow> PixFailure + PixKeyRecord" where
  "own_key pw env acct i =
     (case pk_findById (pw_keys pw) env i of
        None \<Rightarrow> Inl (PF_key_not_found i)
      | Some key \<Rightarrow> if pk_accountId key \<noteq> acct then Inl (PF_key_not_found i) else Inr key)"

definition assertEmvIsUsable :: "ProviderCharge \<Rightarrow> string \<Rightarrow> PixFailure + unit" where
  "assertEmvIsUsable charge expectedKey =
     (if ch_emvPayload charge = [] then Inl (PF_provider_rejected (ch_txid charge) None)
      else (case parseBrCode (ch_emvPayload charge) of
              Inl e \<Rightarrow> Inl (PF_provider_rejected (ch_txid charge) (Some e))
            | Inr parsed \<Rightarrow>
                (case truthy (pb_pixKey parsed) of
                   Some k \<Rightarrow> if \<not> pb_isDynamic parsed \<and> k \<noteq> expectedKey then Inl (PF_provider_rejected (ch_txid charge) None) else Inr ()
                 | None \<Rightarrow> Inr ())))"

definition charge_input :: "PixPorts \<Rightarrow> CreateChargeDto \<Rightarrow> PixKeyRecord \<Rightarrow> CreateChargeInput" where
  "charge_input ports dto key =
     (let base = \<lparr>cb_pixKey = pk_value key, cb_amount = cg_amount dto, cb_payerRequest = cg_payerRequest dto,
            cb_merchantName = xq_merchantName ports, cb_merchantCity = xq_merchantCity ports\<rparr>
      in if cg_kind dto = STATIC then StaticCharge base (cg_txid dto) else DynamicCharge base (dynamicFields dto))"

definition charge_amount :: "ProviderCharge \<Rightarrow> PixFailure + cents option" where
  "charge_amount created =
     (case ch_amount created of
        None \<Rightarrow> Inr None
      | Some j \<Rightarrow> (case Money_fromJSON j of Inl e \<Rightarrow> Inl (PF_service (MoneyFailure e)) | Inr v \<Rightarrow> Inr (Some (mny_cents v))))"

definition charge_record ::
  "instant \<Rightarrow> ident \<Rightarrow> AccountActor \<Rightarrow> ident \<Rightarrow> PixKeyRecord \<Rightarrow> CreateChargeDto \<Rightarrow> ProviderCharge \<Rightarrow> cents option \<Rightarrow> string \<Rightarrow> PixChargeRecord" where
  "charge_record now newId actor acct key dto created amount slug =
     \<lparr>pc_id = newId, pc_environment = actor_environment actor, pc_accountId = acct, pc_pixKeyId = pk_id key, pc_kind = cg_kind dto,
      pc_txid = ch_txid created, pc_status = ch_status created, pc_revision = or_else (ch_revision created) 0, pc_amountCents = amount,
      pc_paidAmountCents = 0, pc_amountIsChangeable = (if cg_kind dto = STATIC then False else cg_amountIsChangeable dto),
      pc_currency = ''BRL'', pc_expiresAt = ch_expiresAt created, pc_emvPayload = ch_emvPayload created, pc_provider = slug,
      pc_providerChargeId = Some (ch_txid created), pc_externalId = cg_externalId dto, pc_paidAt = None, pc_lastEventAt = None,
      pc_metadata = or_else (cg_metadata dto) [], pc_createdAt = now, pc_updatedAt = now\<rparr>"

definition charge_event :: "instant \<Rightarrow> AccountActor \<Rightarrow> string \<Rightarrow> ident \<Rightarrow> PixChargeRecord \<Rightarrow> OutboxDraft" where
  "charge_event now actor slug acct stored =
     \<lparr>ou_env = actor_environment actor, ou_type = PIX_CHARGE_CREATED, ou_provider = Some slug,
      ou_connectionId = Some (actor_connectionId actor), ou_subjectKind = ''pix_charge'', ou_subjectId = pc_id stored,
      ou_payload = [(''account_id'', Text acct), (''txid'', Text (pc_txid stored)), (''kind'', ChargeKindValue (pc_kind stored))],
      ou_previous = None, ou_occurredAt = now\<rparr>"

definition create_charge ::
  "PixPorts \<Rightarrow> instant \<Rightarrow> ident \<Rightarrow> AccountActor \<Rightarrow> ident \<Rightarrow> CreateChargeDto \<Rightarrow> PixWorld \<Rightarrow> (PixFailure + PixChargeRecord) \<times> PixWorld" where
  "create_charge ports now newId actor acct dto pw =
     (case open_account pw (actor_environment actor) acct of
        Inl e \<Rightarrow> (Inl e, pw)
      | Inr (account, pid) \<Rightarrow>
     (case own_key pw (actor_environment actor) acct (cg_pixKeyId dto) of
        Inl e \<Rightarrow> (Inl e, pw)
      | Inr key \<Rightarrow>
     (case xq_require ports (actor_connectionId actor) (if cg_kind dto = STATIC then ''pix.charge.static.create'' else ''pix.charge.dynamic.create'') of
        Inl e \<Rightarrow> (Inl (PF_service e), pw)
      | Inr bound \<Rightarrow>
     (case replied (pv_createCharge bound pid (charge_input ports dto key)) of
        Inl e \<Rightarrow> (Inl (PF_service e), pw)
      | Inr created \<Rightarrow>
     (case assertEmvIsUsable created (pk_value key) of
        Inl e \<Rightarrow> (Inl e, pw)
      | Inr u \<Rightarrow>
     (case charge_amount created of
        Inl e \<Rightarrow> (Inl e, pw)
      | Inr amount \<Rightarrow>
          (let record = charge_record now newId actor acct key dto created amount (pv_slug bound); w = pw_world pw in
           (Inr record,
            pw\<lparr>pw_world := append_outbox (charge_event now actor (pv_slug bound) acct record)
                 (w\<lparr>w_charges := snd (pc_create record (w_charges w))\<rparr>)\<rparr>))))))))"

definition get_charge :: "World \<Rightarrow> Environment \<Rightarrow> ident \<Rightarrow> string \<Rightarrow> PixFailure + PixChargeRecord" where
  "get_charge w env acct txid =
     (case pc_findByTxid (w_charges w) env txid of
        None \<Rightarrow> Inl (PF_charge_not_found txid)
      | Some (i, charge) \<Rightarrow> if pc_accountId charge \<noteq> acct then Inl (PF_charge_not_found txid) else Inr charge)"

definition list_charges ::
  "(string \<Rightarrow> string \<Rightarrow> int) \<Rightarrow> PixWorld \<Rightarrow> Environment \<Rightarrow> ident \<Rightarrow> nat \<Rightarrow> PixFailure + PixChargeRecord list" where
  "list_charges lc pw env acct limit =
     (case open_account pw env acct of Inl e \<Rightarrow> Inl e | Inr x \<Rightarrow> Inr (pc_listByAccount lc (w_charges (pw_world pw)) env acct limit))"

definition cancel_charge ::
  "PixPorts \<Rightarrow> instant \<Rightarrow> AccountActor \<Rightarrow> ident \<Rightarrow> string \<Rightarrow> PixWorld \<Rightarrow> (PixFailure + PixChargeRecord) \<times> PixWorld" where
  "cancel_charge ports now actor acct txid pw =
     (let env = actor_environment actor; w = pw_world pw in
      case open_account pw env acct of
        Inl e \<Rightarrow> (Inl e, pw)
      | Inr (account, pid) \<Rightarrow>
     (case get_charge w env acct txid of
        Inl e \<Rightarrow> (Inl e, pw)
      | Inr charge \<Rightarrow>
     (case xq_require ports (actor_connectionId actor) ''pix.charge.cancel'' of
        Inl e \<Rightarrow> (Inl (PF_service e), pw)
      | Inr bound \<Rightarrow>
     (case pv_cancelCharge bound of
        None \<Rightarrow> (Inl (PF_service (CAPABILITY_NOT_SUPPORTED (pv_slug bound))), pw)
      | Some cancel \<Rightarrow>
     (case replied (cancel pid (pc_txid charge)) of
        Inl e \<Rightarrow> (Inl (PF_service e), pw)
      | Inr u \<Rightarrow>
     (case pc_applyStatusChange \<lparr>cc_environment = env, cc_txid = pc_txid charge, cc_toStatus = REMOVED_BY_USER, cc_paidAmountCents = None,
             cc_paidAt = None, cc_occurredAt = now\<rparr> None (w_charges w, ()) of
        (result, charges, v) \<Rightarrow>
          (let pw' = pw\<lparr>pw_world := w\<lparr>w_charges := charges\<rparr>\<rparr> in
           case result of
             Applied row \<Rightarrow> (Inr row, pw')
           | NotApplied reason cur \<Rightarrow> (get_charge (pw_world pw') env acct txid, pw'))))))))"

section \<open>pix-keys.service.ts\<close>

text \<open>\<open>toUpperCase\<close> on the letters of ASCII: no other code unit becomes one of the letters the names are made of.\<close>

definition key_upper :: "char \<Rightarrow> char" where
  "key_upper c = (if 97 \<le> (of_char c :: nat) \<and> (of_char c :: nat) \<le> 122 then char_of ((of_char c :: nat) - 32) else c)"

definition key_status_names :: "(string \<times> PixKeyStatus) list" where
  "key_status_names =
     [(''PENDING_REGISTRATION'', PENDING_REGISTRATION), (''PENDING_OWNERSHIP_CONFIRMATION'', PENDING_OWNERSHIP_CONFIRMATION),
      (''ACTIVE'', PixKeyStatus.ACTIVE), (''PENDING_PORTABILITY_IN'', PENDING_PORTABILITY_IN),
      (''PENDING_PORTABILITY_OUT'', PENDING_PORTABILITY_OUT), (''PENDING_CLAIM_IN'', PENDING_CLAIM_IN),
      (''PENDING_CLAIM_OUT'', PENDING_CLAIM_OUT), (''REMOVED'', PixKeyStatus.REMOVED), (''REJECTED'', PixKeyStatus.REJECTED)]"

definition toKeyStatus :: "string \<Rightarrow> PixKeyStatus" where
  "toKeyStatus raw = or_else (map_of key_status_names (map key_upper raw)) PENDING_REGISTRATION"

text \<open>The value in its normal form, \<open>None\<close> for a random key or when there is none.\<close>

definition normalized_input :: "PixKeyType \<Rightarrow> string option \<Rightarrow> ServiceError + string option" where
  "normalized_input ty v =
     (case truthy v of
        None \<Rightarrow> Inr None
      | Some x \<Rightarrow>
          if ty = PixKeyType.EVP then Inr None
          else (case normalizePixKey ty x of Inl e \<Rightarrow> Inl (KEY_NORMALIZATION e) | Inr n \<Rightarrow> Inr (Some n)))"

definition key_record ::
  "PixPorts \<Rightarrow> instant \<Rightarrow> ident \<Rightarrow> AccountActor \<Rightarrow> ident \<Rightarrow> ProviderKey \<Rightarrow> string \<Rightarrow> PixKeyRecord" where
  "key_record ports now newId actor acct created v =
     \<lparr>pk_id = newId, pk_environment = actor_environment actor, pk_accountId = acct, pk_type = ky_type created, pk_value = v,
      pk_valueBlindIndex = xq_keyIndex ports v, pk_status = toKeyStatus (ky_status created),
      pk_providerKeyId = ky_providerKeyId created, pk_requestedAt = or_else (ky_requestedAt created) now,
      pk_activatedAt = ky_activatedAt created, pk_removedAt = None\<rparr>"

definition key_event :: "instant \<Rightarrow> AccountActor \<Rightarrow> string \<Rightarrow> ident \<Rightarrow> PixKeyRecord \<Rightarrow> OutboxDraft" where
  "key_event now actor slug acct stored =
     \<lparr>ou_env = actor_environment actor, ou_type = PIX_KEY_REGISTERED, ou_provider = Some slug,
      ou_connectionId = Some (actor_connectionId actor), ou_subjectKind = ''pix_key'', ou_subjectId = pk_id stored,
      ou_payload = [(''account_id'', Text acct), (''type'', KeyTypeValue (pk_type stored)), (''status'', KeyStatusValue (pk_status stored))],
      ou_previous = None, ou_occurredAt = now\<rparr>"

text \<open>From the request to the provider on.\<close>

definition register_key ::
  "PixPorts \<Rightarrow> instant \<Rightarrow> ident \<Rightarrow> AccountActor \<Rightarrow> ident \<Rightarrow> string \<Rightarrow> PixKeyType \<Rightarrow> string option \<Rightarrow> PixWorld \<Rightarrow>
   (PixFailure + PixKeyRecord) \<times> PixWorld" where
  "register_key ports now newId actor acct pid ty normalized pw =
     (case xq_require ports (actor_connectionId actor) ''pix.keys.create'' of
        Inl e \<Rightarrow> (Inl (PF_service e), pw)
      | Inr bound \<Rightarrow>
     (case replied (pv_createKey bound pid ty normalized) of
        Inl e \<Rightarrow> (Inl (PF_service e), pw)
      | Inr created \<Rightarrow>
     (case normalizePixKey (ky_type created) (ky_value created) of
        Inl e \<Rightarrow> (Inl (PF_service (KEY_NORMALIZATION e)), pw)
      | Inr v \<Rightarrow>
          (let record = key_record ports now newId actor acct created v in
           (Inr record,
            pw\<lparr>pw_keys := snd (pk_create record (pw_keys pw)),
               pw_world := append_outbox (key_event now actor (pv_slug bound) acct record) (pw_world pw)\<rparr>)))))"

definition create_key ::
  "PixPorts \<Rightarrow> instant \<Rightarrow> ident \<Rightarrow> AccountActor \<Rightarrow> ident \<Rightarrow> PixKeyType \<Rightarrow> string option \<Rightarrow> PixWorld \<Rightarrow> (PixFailure + PixKeyRecord) \<times> PixWorld" where
  "create_key ports now newId actor acct ty v pw =
     (case open_account pw (actor_environment actor) acct of
        Inl e \<Rightarrow> (Inl e, pw)
      | Inr (account, pid) \<Rightarrow>
     (case normalized_input ty v of
        Inl e \<Rightarrow> (Inl (PF_service e), pw)
      | Inr normalized \<Rightarrow>
     (case truthy normalized of
        None \<Rightarrow> register_key ports now newId actor acct pid ty normalized pw
      | Some n \<Rightarrow>
          if \<not> isValidPixKey ty n then (Inl (PF_service INVALID_PIX_KEY), pw)
          else (case pk_findActiveByBlindIndex (pw_keys pw) (actor_environment actor) (xq_keyIndex ports n) of
                  Some existing \<Rightarrow>
                    if pk_accountId existing \<noteq> acct then (Inl PF_key_exists, pw) else (Inr existing, pw)
                | None \<Rightarrow> register_key ports now newId actor acct pid ty normalized pw))))"

definition list_keys :: "PixWorld \<Rightarrow> Environment \<Rightarrow> ident \<Rightarrow> PixFailure + PixKeyRecord list" where
  "list_keys pw env acct =
     (case open_account pw env acct of Inl e \<Rightarrow> Inl e | Inr x \<Rightarrow> Inr (pk_listByAccount (pw_keys pw) env acct))"

definition remove_key :: "PixPorts \<Rightarrow> instant \<Rightarrow> AccountActor \<Rightarrow> ident \<Rightarrow> ident \<Rightarrow> PixWorld \<Rightarrow> (PixFailure + unit) \<times> PixWorld" where
  "remove_key ports now actor acct keyId pw =
     (case open_account pw (actor_environment actor) acct of
        Inl e \<Rightarrow> (Inl e, pw)
      | Inr (account, pid) \<Rightarrow>
     (case own_key pw (actor_environment actor) acct keyId of
        Inl e \<Rightarrow> (Inl e, pw)
      | Inr key \<Rightarrow>
     if pk_status key = PixKeyStatus.REMOVED then (Inr (), pw)
     else
     (case xq_require ports (actor_connectionId actor) ''pix.keys.delete'' of
        Inl e \<Rightarrow> (Inl (PF_service e), pw)
      | Inr bound \<Rightarrow>
     (case replied (pv_deleteKey bound pid (pk_value key)) of
        Inl e \<Rightarrow> (Inl (PF_service e), pw)
      | Inr u \<Rightarrow>
          (Inr (),
           pw\<lparr>pw_keys := pk_markRemoved (actor_environment actor) keyId now (pw_keys pw),
              pw_world := append_audit
                ((actor_line actor ''pix_key.remove'' ''pix_key'' keyId (actor_connectionId actor) (pv_slug bound) now)
                   \<lparr>au_operationId := None, au_after := Some [(''account_id'', Text acct), (''type'', KeyTypeValue (pk_type key))]\<rparr>)
                (pw_world pw)\<rparr>)))))"

definition resolve_key ::
  "PixPorts \<Rightarrow> instant \<Rightarrow> AccountActor \<Rightarrow> ident \<Rightarrow> string \<Rightarrow> PixWorld \<Rightarrow> (PixFailure + KeyResolution) \<times> PixWorld" where
  "resolve_key ports now actor acct key pw =
     (case open_account pw (actor_environment actor) acct of
        Inl e \<Rightarrow> (Inl e, pw)
      | Inr (account, pid) \<Rightarrow>
     (case xq_require ports (actor_connectionId actor) ''pix.keys.resolve'' of
        Inl e \<Rightarrow> (Inl (PF_service e), pw)
      | Inr bound \<Rightarrow>
     (case pv_resolveKey bound of
        None \<Rightarrow> (Inl (PF_service (CAPABILITY_NOT_SUPPORTED (pv_slug bound))), pw)
      | Some resolve \<Rightarrow>
     (case replied (resolve pid (js_trim key)) of
        Inl e \<Rightarrow> (Inl (PF_service e), pw)
      | Inr resolution \<Rightarrow>
          (Inr resolution,
           pw\<lparr>pw_world := append_audit
                ((actor_line actor ''pix_key.resolve'' ''account'' acct (actor_connectionId actor) (pv_slug bound) now)
                   \<lparr>au_operationId := None, au_after := Some [(''key_type'', KeyTypeValue (kr_keyType resolution))]\<rparr>)
                (pw_world pw)\<rparr>)))))"

end
