(* ===== verification/Pix_Properties.thy ===== *)
theory Pix_Properties
  imports Pix_Services Accounts_Properties
begin

text \<open>
  When a key that is registered again is recognised, and what a stored charge lets a payer pay.
\<close>

section \<open>Keys\<close>

lemma find_updated_none: "find P (map snd m) = None \<Longrightarrow> \<not> P v \<Longrightarrow> find P (map snd (AList.update k v m)) = None"
  by (induction m) (auto split: if_splits)

lemma register_keyD:
  assumes "register_key ports now newId actor acct pid ty normalized pw = (Inr key, pw1)"
  shows "pk_id key = newId" "pk_environment key = actor_environment actor" "pk_accountId key = acct"
    "pw_keys pw1 = map_set newId key (pw_keys pw)" "w_accounts (pw_world pw1) = w_accounts (pw_world pw)"
  using assms by (auto simp: register_key_def key_record_def pk_create_def append_outbox_def Let_def split: sum.splits)

text \<open>A creation that succeeds with a value either finds the active key of the account or registers a new one.\<close>

lemma create_keyD:
  assumes "create_key ports now newId actor acct ty v pw = (Inr key, pw1)" "normalized_input ty v = Inr (Some n)" "n \<noteq> []"
  obtains (found) "isValidPixKey ty n" "pw1 = pw" "pk_accountId key = acct"
      "pk_findActiveByBlindIndex (pw_keys pw) (actor_environment actor) (xq_keyIndex ports n) = Some key"
  | (new_key) pid where "isValidPixKey ty n" "register_key ports now newId actor acct pid ty (Some n) pw = (Inr key, pw1)"
      "pk_findActiveByBlindIndex (pw_keys pw) (actor_environment actor) (xq_keyIndex ports n) = None"
  using assms by (auto simp: create_key_def split: sum.splits if_splits option.splits)

lemma found_active:
  assumes "pk_findActiveByBlindIndex rows env i = Some key"
  shows "pk_status key = PixKeyStatus.ACTIVE" "pk_environment key = env" "pk_valueBlindIndex key = i"
  using assms by (auto simp: pk_findActiveByBlindIndex_def find_Some_iff)

lemma find_after_create:
  assumes "create_key ports now newId actor acct ty v pw = (Inr key, pw1)" "normalized_input ty v = Inr (Some n)" "n \<noteq> []"
    and "pk_valueBlindIndex key = xq_keyIndex ports n"
  shows "isValidPixKey ty n" "pk_accountId key = acct"
    "pk_findActiveByBlindIndex (pw_keys pw1) (actor_environment actor) (xq_keyIndex ports n) =
       (if pk_status key = PixKeyStatus.ACTIVE then Some key else None)"
proof -
  show "isValidPixKey ty n" by (rule create_keyD [OF assms(1-3)])
  show "pk_accountId key = acct" by (rule create_keyD [OF assms(1-3)]) (auto dest: register_keyD)
  show "pk_findActiveByBlindIndex (pw_keys pw1) (actor_environment actor) (xq_keyIndex ports n) =
       (if pk_status key = PixKeyStatus.ACTIVE then Some key else None)"
  proof (rule create_keyD [OF assms(1-3)])
    fix pid assume r: "register_key ports now newId actor acct pid ty (Some n) pw = (Inr key, pw1)"
      and no_active: "pk_findActiveByBlindIndex (pw_keys pw) (actor_environment actor) (xq_keyIndex ports n) = None"
    show ?thesis
      using no_active register_keyD(2) [OF r] assms(4)
      by (simp add: pk_findActiveByBlindIndex_def map_values_def register_keyD(4) [OF r] find_updated find_updated_none)
  qed (auto dest: found_active)
qed

text \<open>C39: a key that was registered is recognised by its status.  While it is active, registering it again for its account returns it
  and changes nothing, and no other account gets it.  When the provider left it in another status, as it does while its owner has to
  confirm, a repetition that succeeds, for the same or any other account, is a second registration
  beside the first.\<close>

theorem key_recognised_only_when_active:
  assumes "create_key ports now newId actor acct ty v pw = (Inr key, pw1)" "normalized_input ty v = Inr (Some n)" "n \<noteq> []"
    and "pk_valueBlindIndex key = xq_keyIndex ports n"
    and "xq_keyIndex ports' = xq_keyIndex ports" "actor_environment actor' = actor_environment actor"
  shows "if pk_status key = PixKeyStatus.ACTIVE
    then \<forall>x. open_account pw1 (actor_environment actor') acct' = Inr x \<longrightarrow>
      create_key ports' now' newId' actor' acct' ty v pw1 = (if acct' = acct then Inr key else Inl PF_key_exists, pw1)
    else \<forall>key2 pw2. create_key ports' now' newId' actor' acct' ty v pw1 = (Inr key2, pw2) \<and> newId' \<noteq> newId \<longrightarrow>
      pk_id key2 = newId' \<and> pk_accountId key2 = acct' \<and>
      map_get (pw_keys pw2) newId = Some key \<and> map_get (pw_keys pw2) newId' = Some key2"
proof (cases "pk_status key = PixKeyStatus.ACTIVE")
  case True
  note f = find_after_create [OF assms(1-4)]
  show ?thesis using True f assms(2,3,5,6) by (auto simp: create_key_def)
next
  case False
  note f = find_after_create [OF assms(1-4)]
  have stored: "map_get (pw_keys pw1) newId = Some key"
  proof (rule create_keyD [OF assms(1-3)])
    fix pid assume r: "register_key ports now newId actor acct pid ty (Some n) pw = (Inr key, pw1)"
    show ?thesis by (simp add: register_keyD(4) [OF r] update_conv)
  qed (use False found_active(1) in blast)
  have "pk_id key2 = newId' \<and> pk_accountId key2 = acct' \<and> map_get (pw_keys pw2) newId = Some key \<and> map_get (pw_keys pw2) newId' = Some key2"
    if c: "create_key ports' now' newId' actor' acct' ty v pw1 = (Inr key2, pw2)" and ne: "newId' \<noteq> newId" for key2 pw2
  proof (rule create_keyD [OF c assms(2,3)])
    fix pid assume r: "register_key ports' now' newId' actor' acct' pid ty (Some n) pw1 = (Inr key2, pw2)"
    show ?thesis using register_keyD [OF r] stored ne by (simp add: update_conv)
  qed (use False f assms(5,6) in simp)
  with False show ?thesis by auto
qed

section \<open>Charges\<close>

text \<open>A stored charge carries a payload that can be read, whose key, when it is static and names one, is the key asked for, which
  belongs to the account.\<close>

theorem stored_charge_pays_the_key:
  assumes "create_charge ports now newId actor acct dto pw = (Inr charge, pw1)"
  obtains key parsed where "pk_findById (pw_keys pw) (actor_environment actor) (cg_pixKeyId dto) = Some key" "pk_accountId key = acct"
    "pc_pixKeyId charge = pk_id key" "parseBrCode (pc_emvPayload charge) = Inr parsed"
    "pb_isDynamic parsed \<or> truthy (pb_pixKey parsed) \<in> {None, Some (pk_value key)}"
    "map_get (w_charges (pw_world pw1)) newId = Some charge"
  using assms
  by (auto simp: create_charge_def own_key_def assertEmvIsUsable_def charge_record_def pc_create_def append_outbox_def Let_def update_conv
      split: sum.splits prod.splits option.splits if_splits)

section \<open>A key that waits for its owner\<close>

definition two_accounts :: World where
  "two_accounts = no_world\<lparr>w_accounts := \<lparr>a_rows = map (\<lambda>i. (i, \<lparr>ac_id = i, ac_environment = PRODUCAO, ac_holderId = ''hol'',
     ac_provider = ''MOCK_BANK'', ac_providerConnectionId = ''C1'', ac_providerAccountId = Some i, ac_externalId = None,
     ac_status = AccountStatus.ACTIVE, ac_statusReasonCode = None, ac_statusReasonMessage = None, ac_statusChangedAt = None,
     ac_lastEventAt = None, ac_kind = AccountKind.PAYMENT, ac_currency = ''BRL'', ac_ledgerAvailableAccountId = None,
     ac_ledgerBlockedAccountId = None, ac_ispb = None, ac_branch = None, ac_number = None, ac_checkDigit = None, ac_openedAt = None,
     ac_closedAt = None, ac_metadata = [], ac_createdAt = 0, ac_updatedAt = 0\<rparr>)) [''A'', ''B''], a_statusHistory = []\<rparr>\<rparr>"

definition key_ports :: "string \<Rightarrow> PixPorts" where
  "key_ports st = \<lparr>xq_require = (\<lambda>i cap. Inr \<lparr>pv_slug = ''MOCK'', pv_createCharge = (\<lambda>p inp. Unknown []), pv_cancelCharge = None,
       pv_createKey = (\<lambda>p ty v. Replied \<lparr>ky_type = ty, ky_value = or_else v [], ky_status = st, ky_providerKeyId = None,
          ky_requestedAt = None, ky_activatedAt = None\<rparr>),
       pv_deleteKey = (\<lambda>p v. Unknown []), pv_resolveKey = None\<rparr>),
     xq_keyIndex = (\<lambda>x. CHR ''#'' # x), xq_merchantName = ''M'', xq_merchantCity = ''C''\<rparr>"

definition key_run :: "string \<Rightarrow> (PixFailure + PixKeyRecord) \<times> PixWorld" where
  "key_run st = create_key (key_ports st) 10 ''k1'' some_actor ''A'' PixKeyType.EMAIL (Some ''Maria@X.br'') \<lparr>pw_world = two_accounts, pw_keys = []\<rparr>"

definition key_again :: "string \<Rightarrow> (PixFailure + PixKeyRecord) \<times> PixWorld" where
  "key_again st = create_key (key_ports st) 20 ''k2'' some_actor ''B'' PixKeyType.EMAIL (Some ''Maria@X.br'') (snd (key_run st))"

lemma key_run_facts:
  "normalized_input PixKeyType.EMAIL (Some ''Maria@X.br'') = Inr (Some ''maria@x.br'')"
  "case fst (key_run ''active'') of Inr k \<Rightarrow> pk_status k = PixKeyStatus.ACTIVE \<and> pk_valueBlindIndex k = ''#maria@x.br'' | _ \<Rightarrow> False"
  "case fst (key_run ''waiting'') of Inr k \<Rightarrow> pk_status k = PENDING_REGISTRATION \<and> pk_valueBlindIndex k = ''#maria@x.br'' | _ \<Rightarrow> False"
  "case open_account (snd (key_run ''active'')) PRODUCAO ''B'' of Inr x \<Rightarrow> True | _ \<Rightarrow> False"
  "case fst (key_again ''waiting'') of Inr k \<Rightarrow> True | _ \<Rightarrow> False"
  by code_simp+

theorem key_recognised_only_when_active_witness:
  "key_again ''active'' = (Inl PF_key_exists, snd (key_run ''active'')) \<and>
   (\<exists>k1 k2. map_get (pw_keys (snd (key_again ''waiting''))) ''k1'' = Some k1 \<and> map_get (pw_keys (snd (key_again ''waiting''))) ''k2'' = Some k2 \<and>
      pk_accountId k2 = ''B'')"
proof (intro conjI)
  note f = key_run_facts
  obtain k pw where k: "key_run ''active'' = (Inr k, pw)" "pk_status k = PixKeyStatus.ACTIVE" "pk_valueBlindIndex k = ''#maria@x.br''"
    using f(2) by (cases "key_run ''active''") (auto split: sum.splits)
  obtain x where x: "open_account pw PRODUCAO ''B'' = Inr x" using f(4) k(1) by (auto split: sum.splits)
  show "key_again ''active'' = (Inl PF_key_exists, snd (key_run ''active''))"
    using key_recognised_only_when_active [OF k(1) [unfolded key_run_def] f(1), of "key_ports ''active''" some_actor "''B''" 20 "''k2''"] k x
    by (simp add: key_again_def key_ports_def some_actor_def)
  obtain k1 pw1 where k1: "key_run ''waiting'' = (Inr k1, pw1)" "pk_status k1 = PENDING_REGISTRATION" "pk_valueBlindIndex k1 = ''#maria@x.br''"
    using f(3) by (cases "key_run ''waiting''") (auto split: sum.splits)
  obtain k2 pw2 where k2: "key_again ''waiting'' = (Inr k2, pw2)"
    using f(5) by (cases "key_again ''waiting''") (auto split: sum.splits)
  then have "create_key (key_ports ''waiting'') 20 ''k2'' some_actor ''B'' PixKeyType.EMAIL (Some ''Maria@X.br'') pw1 = (Inr k2, pw2)"
    by (simp add: key_again_def k1)
  then show "\<exists>k1 k2. map_get (pw_keys (snd (key_again ''waiting''))) ''k1'' = Some k1 \<and> map_get (pw_keys (snd (key_again ''waiting''))) ''k2'' = Some k2 \<and>
      pk_accountId k2 = ''B''"
    using key_recognised_only_when_active [OF k1(1) [unfolded key_run_def] f(1), of "key_ports ''waiting''" some_actor "''B''" 20 "''k2''"] k1
    by (simp add: k2 key_ports_def)
qed

end
