(* ===== verification/Statement_Service.thy ===== *)
theory Statement_Service
  imports Money Domain_Repositories Br_Identifiers Json Recon_Repositories
begin

text \<open>
  The statement of an account as the API pages it, \<open>src/apps/api/src/pix/statement.service.ts\<close>, and the signed cursor its pages
  carry, \<open>src/apps/api/src/pix/cursor.ts\<close>, over the transaction repository of \<open>Repositories\<close>.

  SHA-256 in hexadecimal, HMAC in \<open>base64url\<close>, the \<open>base64url\<close> of a buffer with its decoder and \<open>JSON.parse\<close> (\<open>None\<close> when it
  throws) are parameters; \<open>platform_ok\<close> says what the code relies on.
\<close>

section \<open>cursor.ts\<close>

record KeysetCursor =
  kc_date :: string
  kc_id :: string
  kc_filters :: string

datatype CursorFailure = malformed | bad_signature | filters_changed

record StatementPorts =
  sv_hmac :: "string \<Rightarrow> string \<Rightarrow> string"
  sv_sha256 :: "string \<Rightarrow> string"
  sv_b64 :: "string \<Rightarrow> string"
  sv_unb64 :: "string \<Rightarrow> string"
  sv_parse :: "string \<Rightarrow> Json option"
  sv_localeCompare :: "string \<Rightarrow> string \<Rightarrow> int"
  sv_cursorSecret :: string

definition cursor_json :: "KeysetCursor \<Rightarrow> Json" where
  "cursor_json c = JObj [(''date'', JStr (kc_date c)), (''id'', JStr (kc_id c)), (''filters'', JStr (kc_filters c))]"

definition encodeCursor :: "StatementPorts \<Rightarrow> KeysetCursor \<Rightarrow> string \<Rightarrow> string" where
  "encodeCursor ports cursor secret =
     (let payload = sv_b64 ports (json_text (cursor_json cursor)) in payload @ ''.'' @ sv_hmac ports secret payload)"

text \<open>\<open>isCursor\<close>, with the value read when it is one.\<close>

fun as_cursor :: "Json \<Rightarrow> KeysetCursor option" where
  "as_cursor (JObj kvs) =
     (case (map_of kvs ''date'', map_of kvs ''id'', map_of kvs ''filters'') of
        (Some (JStr d), Some (JStr i), Some (JStr f)) \<Rightarrow> Some \<lparr>kc_date = d, kc_id = i, kc_filters = f\<rparr>
      | _ \<Rightarrow> None)"
| "as_cursor _ = None"

definition decodeCursor :: "StatementPorts \<Rightarrow> string \<Rightarrow> string \<Rightarrow> string \<Rightarrow> CursorFailure + KeysetCursor" where
  "decodeCursor ports v secret filters =
     (case js_split CHR ''.'' v of
        payload # signature # rest \<Rightarrow>
          if payload = [] \<or> signature = [] then Inl malformed
          else if sv_hmac ports secret payload \<noteq> signature then Inl bad_signature
          else (case sv_parse ports (sv_unb64 ports payload) of
                  None \<Rightarrow> Inl malformed
                | Some parsed \<Rightarrow>
                    (case as_cursor parsed of
                       None \<Rightarrow> Inl malformed
                     | Some cursor \<Rightarrow> if kc_filters cursor \<noteq> filters then Inl filters_changed else Inr cursor))
      | _ \<Rightarrow> Inl malformed)"

section \<open>statement.service.ts\<close>

datatype StatementEntryType = PIX_IN | PIX_OUT | REFUND | FEE | ADJUSTMENT | OTHER

record StatementEntryDto =
  se_id :: ident
  se_posted_at :: string
  se_effective_date :: string
  se_direction :: TransactionDirection
  se_amount :: MoneyJSON
  se_balance_after :: "MoneyJSON option"
  se_type :: StatementEntryType
  se_end_to_end_id :: "string option"
  se_transaction_id :: ident
  se_counterparty_name :: "string option"
  se_description :: "string option"

record StatementRequest =
  sr_environment :: Environment
  sr_accountId :: ident
  sr_from :: string
  sr_to :: string
  sr_limit :: nat
  sr_cursor :: "string option"

datatype StatementError = ACCOUNT_NOT_FOUND ident | INVALID_CURSOR CursorFailure | MoneyThrown MoneyError

definition STATEMENT_STATUSES :: "TransactionStatus list" where
  "STATEMENT_STATUSES = [TransactionStatus.SETTLED, TransactionStatus.REVERSED, TransactionStatus.PARTIALLY_REVERSED]"

fun statementTypeOf :: "TransactionType \<Rightarrow> StatementEntryType" where
  "statementTypeOf TransactionType.PIX_IN = PIX_IN"
| "statementTypeOf TransactionType.PIX_OUT = PIX_OUT"
| "statementTypeOf TransactionType.PIX_REFUND_IN = REFUND"
| "statementTypeOf TransactionType.PIX_REFUND_OUT = REFUND"
| "statementTypeOf TransactionType.FEE = FEE"
| "statementTypeOf TransactionType.FEE_REVERSAL = FEE"
| "statementTypeOf TransactionType.ADJUSTMENT_CREDIT = ADJUSTMENT"
| "statementTypeOf TransactionType.ADJUSTMENT_DEBIT = ADJUSTMENT"
| "statementTypeOf _ = OTHER"

definition toStatementEntry :: "TransactionRecord \<Rightarrow> MoneyError + StatementEntryDto" where
  "toStatementEntry record =
     (case Money_of (tr_amountCents record) BRL of
        Inl e \<Rightarrow> Inl e
      | Inr amount \<Rightarrow> Inr
          \<lparr>se_id = tr_id record, se_posted_at = toISOString (or_else (tr_settledAt record) (tr_createdAt record)),
           se_effective_date = tr_effectiveDate record, se_direction = tr_direction record, se_amount = Money_toJSON amount,
           se_balance_after = None, se_type = statementTypeOf (tr_type record), se_end_to_end_id = tx_e2e record,
           se_transaction_id = tr_id record,
           se_counterparty_name = (case tr_pix record of None \<Rightarrow> None | Some p \<Rightarrow>
             (case px_counterparty p of None \<Rightarrow> None | Some c \<Rightarrow> cp_name c)),
           se_description = tr_description record\<rparr>)"

definition filterDigest :: "StatementPorts \<Rightarrow> StatementRequest \<Rightarrow> string" where
  "filterDigest ports r = take 32 (sv_sha256 ports (sr_accountId r @ ''|'' @ sr_from r @ ''|'' @ sr_to r))"

definition statement_filter :: "StatementRequest \<Rightarrow> KeysetCursor option \<Rightarrow> StatementFilter" where
  "statement_filter r position =
     \<lparr>sf_environment = sr_environment r, sf_accountId = sr_accountId r, sf_from = sr_from r, sf_to = sr_to r,
      sf_statuses = STATEMENT_STATUSES, sf_limit = sr_limit r,
      sf_cursor = map_option (\<lambda>c. (kc_date c, kc_id c)) position\<rparr>"

definition statement_position :: "StatementPorts \<Rightarrow> StatementRequest \<Rightarrow> StatementError + KeysetCursor option" where
  "statement_position ports r =
     (case truthy (sr_cursor r) of
        None \<Rightarrow> Inr None
      | Some v \<Rightarrow>
          (case decodeCursor ports v (sv_cursorSecret ports) (filterDigest ports r) of
             Inl reason \<Rightarrow> Inl (INVALID_CURSOR reason)
           | Inr c \<Rightarrow> Inr (Some c)))"

definition list_statement ::
  "StatementPorts \<Rightarrow> AccountRepo \<Rightarrow> TransactionRepo \<Rightarrow> StatementRequest \<Rightarrow> StatementError + StatementEntryDto list \<times> string option" where
  "list_statement ports accounts transactions r =
     (case ac_findById accounts (sr_environment r) (sr_accountId r) of
        None \<Rightarrow> Inl (ACCOUNT_NOT_FOUND (sr_accountId r))
      | Some account \<Rightarrow>
          (case statement_position ports r of
             Inl e \<Rightarrow> Inl e
           | Inr position \<Rightarrow>
               (case statement (sv_localeCompare ports) transactions (statement_filter r position) of
                  (page, next_position) \<Rightarrow>
                    (case map_result toStatementEntry page of
                       Inl e \<Rightarrow> Inl (MoneyThrown e)
                     | Inr entries \<Rightarrow>
                         Inr (entries, map_option (\<lambda>(d, i).
                           encodeCursor ports \<lparr>kc_date = d, kc_id = i, kc_filters = filterDigest ports r\<rparr> (sv_cursorSecret ports))
                           next_position)))))"

text \<open>A client that follows the cursors, with a page size of its choice for each request, within a number of requests.\<close>

fun follow ::
  "StatementPorts \<Rightarrow> AccountRepo \<Rightarrow> TransactionRepo \<Rightarrow> nat \<Rightarrow> (nat \<Rightarrow> nat) \<Rightarrow> StatementRequest \<Rightarrow> StatementEntryDto list option" where
  "follow ports accounts transactions 0 limits r = None"
| "follow ports accounts transactions (Suc n) limits r =
     (case list_statement ports accounts transactions (r\<lparr>sr_limit := limits n\<rparr>) of
        Inl e \<Rightarrow> None
      | Inr (entries, None) \<Rightarrow> Some entries
      | Inr (entries, Some c) \<Rightarrow> map_option ((@) entries) (follow ports accounts transactions n limits (r\<lparr>sr_cursor := Some c\<rparr>)))"

section \<open>Cursors\<close>

definition platform_ok :: "StatementPorts \<Rightarrow> bool" where
  "platform_ok ports \<longleftrightarrow>
     (\<forall>x. sv_unb64 ports (sv_b64 ports x) = x \<and> CHR ''.'' \<notin> set (sv_b64 ports x) \<and> (x \<noteq> [] \<longrightarrow> sv_b64 ports x \<noteq> [])) \<and>
     (\<forall>k m. sv_hmac ports k m \<noteq> [] \<and> CHR ''.'' \<notin> set (sv_hmac ports k m))"

definition reads_back :: "StatementPorts \<Rightarrow> TransactionRecord list \<Rightarrow> string \<Rightarrow> bool" where
  "reads_back ports rows filters \<longleftrightarrow>
     (\<forall>row\<in>set rows. let j = cursor_json \<lparr>kc_date = tr_effectiveDate row, kc_id = tr_id row, kc_filters = filters\<rparr>
        in sv_parse ports (json_text j) = Some j)"

lemma js_split_plain: "sep \<notin> set x \<Longrightarrow> js_split sep x = [x]"
  by (induction x) auto

lemma js_split_append: "sep \<notin> set x \<Longrightarrow> js_split sep (x @ sep # y) = x # js_split sep y"
  by (induction x) auto

lemma as_cursor_json [simp]: "as_cursor (cursor_json c) = Some c"
  by (simp add: cursor_json_def)

lemma cursor_decodes:
  assumes "platform_ok ports" "sv_parse ports (json_text (cursor_json c)) = Some (cursor_json c)"
  shows "decodeCursor ports (encodeCursor ports c secret) secret filters = (if kc_filters c = filters then Inr c else Inl filters_changed)"
proof -
  let ?p = "sv_b64 ports (json_text (cursor_json c))"
  have "json_text (cursor_json c) \<noteq> []" by (simp add: cursor_json_def)
  then have "?p \<noteq> []" "CHR ''.'' \<notin> set ?p" "sv_unb64 ports ?p = json_text (cursor_json c)"
    "sv_hmac ports secret ?p \<noteq> []" "CHR ''.'' \<notin> set (sv_hmac ports secret ?p)"
    using assms(1) by (simp_all add: platform_ok_def)
  then show ?thesis
    using assms(2) by (simp add: decodeCursor_def encodeCursor_def Let_def js_split_append js_split_plain)
qed

lemma encoded_nonempty [simp]: "encodeCursor ports c secret \<noteq> []"
  by (simp add: encodeCursor_def Let_def)

text \<open>A cursor that is accepted was signed, and for these filters.\<close>

lemma accepted_signed:
  assumes "decodeCursor ports v secret filters = Inr c"
  obtains payload rest where "js_split CHR ''.'' v = payload # sv_hmac ports secret payload # rest" "kc_filters c = filters"
  using assms by (auto simp: decodeCursor_def split: list.splits if_splits option.splits)

section \<open>Pages\<close>

lemma filter_limit [simp]: "statement_rows lc repo (f\<lparr>sf_limit := n\<rparr>) = statement_rows lc repo f"
  by (simp add: statement_rows_def)

lemma statement_filter_parts [simp]:
  "statement_filter (r\<lparr>sr_limit := n\<rparr>) p = (statement_filter r p)\<lparr>sf_limit := n\<rparr>"
  "statement_filter (r\<lparr>sr_cursor := c\<rparr>) p = statement_filter r p"
  "(statement_filter r p)\<lparr>sf_cursor := Some q\<rparr> = statement_filter r (Some \<lparr>kc_date = fst q, kc_id = snd q, kc_filters = x\<rparr>)"
  by (simp_all add: statement_filter_def)

lemma filterDigest_parts [simp]:
  "filterDigest ports (r\<lparr>sr_limit := n\<rparr>) = filterDigest ports r" "filterDigest ports (r\<lparr>sr_cursor := c\<rparr>) = filterDigest ports r"
  by (simp_all add: filterDigest_def)

lemma map_result_append:
  "map_result f (xs @ ys) = Inr zs \<Longrightarrow> \<exists>as bs. map_result f xs = Inr as \<and> map_result f ys = Inr bs \<and> zs = as @ bs"
  by (induction xs arbitrary: zs) (fastforce split: sum.splits)+

lemma statement_last:
  assumes "statement lc repo f = (page, Some q)"
  shows "page \<noteq> []" "q = (tr_effectiveDate (last page), tr_id (last page))" "page = take (sf_limit f) (statement_rows lc repo f)"
  using assms by (auto simp: statement_def Let_def split: if_splits)

text \<open>One page: what is listed, and where its cursor leads.\<close>

lemma list_page:
  assumes "platform_ok ports" "lc_agrees (sv_localeCompare ports) repo" "rows_ok repo"
    and "ac_findById accounts (sr_environment r) (sr_accountId r) \<noteq> None" "0 < sr_limit r" "statement_position ports r = Inr p"
    and rows: "rows = statement_rows (sv_localeCompare ports) repo (statement_filter r p)"
    and "map_result toStatementEntry rows = Inr entries" "reads_back ports rows (filterDigest ports r)"
  obtains (last) "list_statement ports accounts repo r = Inr (entries, None)"
  | (more) page c q as bs where "list_statement ports accounts repo r = Inr (as, Some c)" "entries = as @ bs"
      "statement_position ports (r\<lparr>sr_cursor := Some c\<rparr>) = Inr (Some q)" "page \<noteq> []"
      "rows = page @ statement_rows (sv_localeCompare ports) repo (statement_filter r (Some q))"
      "map_result toStatementEntry (statement_rows (sv_localeCompare ports) repo (statement_filter r (Some q))) = Inr bs"
proof -
  let ?lc = "sv_localeCompare ports" and ?f = "statement_filter r p" and ?fd = "filterDigest ports r"
  obtain account where a: "ac_findById accounts (sr_environment r) (sr_accountId r) = Some account" using assms(4) by blast
  have pos: "0 < sf_limit ?f" using assms(5) by (simp add: statement_filter_def)
  obtain page n where st: "statement ?lc repo ?f = (page, n)" by fastforce
  note exact = statement_pages_exact [OF assms(2,3) pos, unfolded st, simplified, folded rows]
  show ?thesis
  proof (cases n)
    case None
    then show ?thesis using exact assms(6,8) st by (intro last) (simp add: list_statement_def a)
  next
    case (Some nx)
    let ?q = "\<lparr>kc_date = fst nx, kc_id = snd nx, kc_filters = ?fd\<rparr>"
    note l = statement_last [OF st [unfolded Some], folded rows]
    have row: "last page \<in> set rows" using l(1,3) by (metis in_set_takeD last_in_set)
    have rb: "sv_parse ports (json_text (cursor_json ?q)) = Some (cursor_json ?q)"
      using assms(9) row l(2) by (auto simp: reads_back_def Let_def)
    have split: "rows = page @ statement_rows ?lc repo (statement_filter r (Some ?q))"
      using exact Some by (simp add: statement_filter_parts(3) [where x = ?fd])
    obtain as bs where e: "map_result toStatementEntry page = Inr as" "entries = as @ bs"
      "map_result toStatementEntry (statement_rows ?lc repo (statement_filter r (Some ?q))) = Inr bs"
      using map_result_append assms(8) split by metis
    have "statement_position ports (r\<lparr>sr_cursor := Some (encodeCursor ports ?q (sv_cursorSecret ports))\<rparr>) = Inr (Some ?q)"
      by (simp add: statement_position_def cursor_decodes [OF assms(1) rb])
    moreover have "list_statement ports accounts repo r = Inr (as, Some (encodeCursor ports ?q (sv_cursorSecret ports)))"
      using Some st assms(6) e(1) by (cases nx) (simp add: list_statement_def a)
    ultimately show ?thesis using more e l(1) split by blast
  qed
qed

lemma position_limit [simp]: "statement_position ports (r\<lparr>sr_limit := n\<rparr>) = statement_position ports r"
  unfolding statement_position_def filterDigest_parts by simp

lemma follow_from:
  assumes "platform_ok ports" "lc_agrees (sv_localeCompare ports) repo" "rows_ok repo" "\<forall>n. 0 < limits n"
    and "ac_findById accounts (sr_environment r) (sr_accountId r) \<noteq> None" "statement_position ports r = Inr p"
    and "map_result toStatementEntry (statement_rows (sv_localeCompare ports) repo (statement_filter r p)) = Inr entries"
    and "reads_back ports (statement_rows (sv_localeCompare ports) repo (statement_filter r p)) (filterDigest ports r)"
    and "length (statement_rows (sv_localeCompare ports) repo (statement_filter r p)) < n"
  shows "follow ports accounts repo n limits r = Some entries"
  using assms(5-)
proof (induction n arbitrary: r p entries)
  case 0
  then show ?case by simp
next
  case (Suc n)
  let ?r = "r\<lparr>sr_limit := limits n\<rparr>" and ?rows = "statement_rows (sv_localeCompare ports) repo (statement_filter r p)"
  show ?case
  proof (rule list_page [OF assms(1-3), of accounts ?r p ?rows entries])
    assume "list_statement ports accounts repo ?r = Inr (entries, None)"
    then show ?thesis by simp
  next
    fix page c q as bs
    let ?rest = "statement_rows (sv_localeCompare ports) repo (statement_filter r (Some q))"
    assume l: "list_statement ports accounts repo ?r = Inr (as, Some c)" "entries = as @ bs"
      "statement_position ports (?r\<lparr>sr_cursor := Some c\<rparr>) = Inr (Some q)" "page \<noteq> []"
      "?rows = page @ statement_rows (sv_localeCompare ports) repo (statement_filter ?r (Some q))"
      "map_result toStatementEntry (statement_rows (sv_localeCompare ports) repo (statement_filter ?r (Some q))) = Inr bs"
    have q: "statement_position ports (r\<lparr>sr_cursor := Some c\<rparr>) = Inr (Some q)"
      using l(3) unfolding statement_position_def filterDigest_parts by simp
    have rows: "?rows = page @ ?rest" using l(5) by simp
    have "length ?rest < n" using Suc.prems(5) l(4) by (simp add: rows neq_Nil_conv) (auto simp: neq_Nil_conv)
    moreover have "reads_back ports ?rest (filterDigest ports r)" using Suc.prems(4) by (simp add: rows reads_back_def)
    ultimately have "follow ports accounts repo n limits (r\<lparr>sr_cursor := Some c\<rparr>) = Some bs"
      using Suc.prems(1) q l(6) by (intro Suc.IH [of _ "Some q"]) simp_all
    then show ?thesis using l(1,2) by simp
  qed (use Suc.prems assms(4) in simp_all)
qed

end
