(* ===== verification/Statement_Properties.thy ===== *)
theory Statement_Properties
  imports Statement_Service
begin

text \<open>
  What a client that follows the cursors of the statement reads, and what becomes of a cursor under another window.
\<close>

definition in_statement :: "StatementRequest \<Rightarrow> TransactionRecord \<Rightarrow> bool" where
  "in_statement r row \<longleftrightarrow> tr_environment row = sr_environment r \<and> tr_accountId row = sr_accountId r \<and>
     tr_status row \<in> set STATEMENT_STATUSES \<and> sr_from r \<le> tr_effectiveDate row \<and> tr_effectiveDate row \<le> sr_to r"

lemma statement_rows_all:
  "set (statement_rows lc repo (statement_filter r None)) = {row \<in> set (map_values (t_rows repo)). in_statement r row}"
  by (auto simp: statement_rows_def statement_filter_def in_statement_def below_cursor_def)

lemma statement_rows_distinct:
  "rows_ok repo \<Longrightarrow> distinct (map tr_id (statement_rows lc repo f))"
  by (simp add: statement_rows_def rows_ok_def distinct_map_filter distinct_js_sort)

lemma statement_rows_length: "length (statement_rows lc repo f) \<le> length (map_values (t_rows repo))"
  by (auto simp: statement_rows_def intro: order_trans [OF length_filter_le])

lemma entries_shown:
  assumes "\<forall>row\<in>set rows. \<bar>tr_amountCents row\<bar> \<le> MAX_SAFE_CENTS"
  shows "\<exists>entries. map_result toStatementEntry rows = Inr entries \<and> map se_id entries = map tr_id rows"
  using assms by (induction rows) (auto simp: toStatementEntry_def Money_of_def)

text \<open>C40: a client that follows the cursors from the first page on, choosing the page size of each request as it likes, reads
  every settled or reversed transaction of the account within the window exactly once, the newest date first, and needs at most one
  request more than there are transactions.  The collation orders identifiers and dates as code units do, amounts are those the
  money type accepts, and the platform reads back what it wrote.\<close>

theorem statement_read_exactly_once:
  assumes "platform_ok ports" "lc_agrees (sv_localeCompare ports) repo" "rows_ok repo" "\<forall>k. 0 < limits k"
    and "ac_findById accounts (sr_environment r) (sr_accountId r) \<noteq> None" "sr_cursor r = None"
    and "\<forall>row\<in>set (map_values (t_rows repo)). \<bar>tr_amountCents row\<bar> \<le> MAX_SAFE_CENTS"
    and "reads_back ports (map_values (t_rows repo)) (filterDigest ports r)"
    and "length (map_values (t_rows repo)) < n"
  shows "\<exists>rows entries. follow ports accounts repo n limits r = Some entries \<and> map_result toStatementEntry rows = Inr entries \<and>
    map se_id entries = map tr_id rows \<and> set rows = {row \<in> set (map_values (t_rows repo)). in_statement r row} \<and>
    distinct (map tr_id rows) \<and> sorted_wrt stmt_below rows"
proof -
  let ?rows = "statement_rows (sv_localeCompare ports) repo (statement_filter r None)"
  have sub: "set ?rows \<subseteq> set (map_values (t_rows repo))" by (auto simp: statement_rows_all)
  obtain entries where e: "map_result toStatementEntry ?rows = Inr entries" "map se_id entries = map tr_id ?rows"
    using entries_shown [of ?rows] assms(7) sub by blast
  have "follow ports accounts repo n limits r = Some entries"
  proof (rule follow_from [OF assms(1-5) _ e(1)])
    show "statement_position ports r = Inr None" by (simp add: statement_position_def assms(6))
    show "reads_back ports ?rows (filterDigest ports r)" using assms(8) sub by (auto simp: reads_back_def)
    show "length ?rows < n" using statement_rows_length assms(9) by (rule le_less_trans)
  qed
  then show ?thesis
    using e statement_rows_all statement_rows_distinct [OF assms(3)] statement_sorted [OF assms(2,3)] by blast
qed

text \<open>A cursor handed out for one account and window is refused where account and window have another digest.\<close>

theorem cursor_bound_to_window:
  assumes "platform_ok ports" "list_statement ports accounts repo r = Inr (entries, Some c)"
    and "reads_back ports (map_values (t_rows repo)) (filterDigest ports r)"
    and "filterDigest ports r' \<noteq> filterDigest ports r" "sr_cursor r' = Some c"
    and "ac_findById accounts' (sr_environment r') (sr_accountId r') \<noteq> None"
  shows "list_statement ports accounts' repo' r' = Inl (INVALID_CURSOR filters_changed)"
proof -
  obtain p page d i where s: "statement (sv_localeCompare ports) repo (statement_filter r p) = (page, Some (d, i))"
    and c: "c = encodeCursor ports \<lparr>kc_date = d, kc_id = i, kc_filters = filterDigest ports r\<rparr> (sv_cursorSecret ports)"
    using assms(2) by (auto simp: list_statement_def split: option.splits sum.splits prod.splits)
  note l = statement_last [OF s]
  have "last page \<in> set (statement_rows (sv_localeCompare ports) repo (statement_filter r p))"
    using l(1,3) by (metis in_set_takeD last_in_set)
  then have "last page \<in> set (map_values (t_rows repo))" by (auto simp: statement_rows_def)
  then have "sv_parse ports (json_text (cursor_json \<lparr>kc_date = d, kc_id = i, kc_filters = filterDigest ports r\<rparr>)) =
      Some (cursor_json \<lparr>kc_date = d, kc_id = i, kc_filters = filterDigest ports r\<rparr>)"
    using assms(3) l(2) by (simp add: reads_back_def Let_def)
  from cursor_decodes [OF assms(1) this, of "sv_cursorSecret ports" "filterDigest ports r'"] have
    "decodeCursor ports c (sv_cursorSecret ports) (filterDigest ports r') = Inl filters_changed"
    using assms(4) by (simp add: c)
  then have "statement_position ports r' = Inl (INVALID_CURSOR filters_changed)"
    by (simp add: statement_position_def assms(5) c)
  then show ?thesis using assms(6) by (auto simp: list_statement_def)
qed

section \<open>A statement of two pages\<close>

text \<open>\<open>.\<close> and \<open>~\<close> are written as two characters each.\<close>

definition escape_dots :: "string \<Rightarrow> string" where
  "escape_dots s = concat (map (\<lambda>c. if c = CHR ''.'' then ''~0'' else if c = CHR ''~'' then ''~1'' else [c]) s)"

fun unescape_dots :: "string \<Rightarrow> string" where
  "unescape_dots (c # d # s) =
     (if c = CHR ''~'' then (if d = CHR ''0'' then CHR ''.'' else CHR ''~'') # unescape_dots s else c # unescape_dots (d # s))"
| "unescape_dots s = s"

lemma unescape_plain: "c \<noteq> CHR ''~'' \<Longrightarrow> unescape_dots (c # s) = c # unescape_dots s"
  by (cases s) simp_all

lemma escape_dots_ok:
  "unescape_dots (escape_dots s) = s" "CHR ''.'' \<notin> set (escape_dots s)" "s \<noteq> [] \<Longrightarrow> escape_dots s \<noteq> []"
  by (induction s) (auto simp: escape_dots_def unescape_plain)

definition demo_cursors :: "KeysetCursor list" where
  "demo_cursors = map (\<lambda>row. \<lparr>kc_date = tr_effectiveDate row, kc_id = tr_id row, kc_filters = ''acc|2026-01-01|2026-01-31''\<rparr>)
     (map_values (t_rows demo_repo))"

definition page_ports :: StatementPorts where
  "page_ports = \<lparr>sv_hmac = (\<lambda>k m. ''h'' @ escape_dots (k @ m)), sv_sha256 = (\<lambda>x. x), sv_b64 = escape_dots, sv_unb64 = unescape_dots,
     sv_parse = map_of (map (\<lambda>c. (json_text (cursor_json c), cursor_json c)) demo_cursors),
     sv_localeCompare = codeUnitCompare, sv_cursorSecret = ''s''\<rparr>"

definition demo_accounts :: AccountRepo where
  "demo_accounts = \<lparr>a_rows = [(''acc'', \<lparr>ac_id = ''acc'', ac_environment = PRODUCAO, ac_holderId = ''hol'', ac_provider = ''MOCK_BANK'',
     ac_providerConnectionId = ''con'', ac_providerAccountId = Some ''p'', ac_externalId = None, ac_status = AccountStatus.ACTIVE,
     ac_statusReasonCode = None, ac_statusReasonMessage = None, ac_statusChangedAt = None, ac_lastEventAt = None,
     ac_kind = AccountKind.PAYMENT, ac_currency = ''BRL'', ac_ledgerAvailableAccountId = None, ac_ledgerBlockedAccountId = None,
     ac_ispb = None, ac_branch = None, ac_number = None, ac_checkDigit = None, ac_openedAt = None, ac_closedAt = None,
     ac_metadata = [], ac_createdAt = 0, ac_updatedAt = 0\<rparr>)], a_statusHistory = []\<rparr>"

definition page_request :: StatementRequest where
  "page_request = \<lparr>sr_environment = PRODUCAO, sr_accountId = ''acc'', sr_from = ''2026-01-01'', sr_to = ''2026-01-31'', sr_limit = 1,
     sr_cursor = None\<rparr>"

lemma demo_platform: "platform_ok page_ports"
  by (auto simp: platform_ok_def page_ports_def escape_dots_ok)

theorem statement_read_exactly_once_witness:
  "map_option (map se_id) (follow page_ports demo_accounts demo_repo 4 (\<lambda>k. 1) page_request) = Some [''a'', ''b''] \<and>
   (\<exists>rows entries. follow page_ports demo_accounts demo_repo 4 (\<lambda>k. 1) page_request = Some entries \<and>
     set rows = {row \<in> set (map_values (t_rows demo_repo)). in_statement page_request row} \<and> sorted_wrt stmt_below rows)"
proof -
  have "lc_agrees codeUnitCompare demo_repo" by (auto simp: lc_agrees_def codeUnitCompare_def)
  then have "lc_agrees (sv_localeCompare page_ports) demo_repo" by (simp add: page_ports_def)
  moreover have "rows_ok demo_repo" "\<forall>row\<in>set (map_values (t_rows demo_repo)). \<bar>tr_amountCents row\<bar> \<le> MAX_SAFE_CENTS"
    "length (map_values (t_rows demo_repo)) < 4" "reads_back page_ports (map_values (t_rows demo_repo)) (filterDigest page_ports page_request)"
    "ac_findById demo_accounts (sr_environment page_request) (sr_accountId page_request) \<noteq> None" "sr_cursor page_request = None"
    by code_simp+
  ultimately have "\<exists>rows entries. follow page_ports demo_accounts demo_repo 4 (\<lambda>k. 1) page_request = Some entries \<and>
     map_result toStatementEntry rows = Inr entries \<and> map se_id entries = map tr_id rows \<and>
     set rows = {row \<in> set (map_values (t_rows demo_repo)). in_statement page_request row} \<and>
     distinct (map tr_id rows) \<and> sorted_wrt stmt_below rows"
    using statement_read_exactly_once [OF demo_platform, of demo_repo "\<lambda>k. 1" demo_accounts page_request 4] by simp
  moreover have "map_option (map se_id) (follow page_ports demo_accounts demo_repo 4 (\<lambda>k. 1) page_request) = Some [''a'', ''b'']"
    by code_simp
  ultimately show ?thesis by blast
qed

end
