(* ===== verification/Spec2Isabelle.thy ===== *)
theory Spec2Isabelle
  imports Shadow_Properties Emv_Codec Br_Properties Money Repositories Recon_Properties Domain_Repositories
    Transfer_Properties Webhook_Properties Business_Calendar Operation_Properties Break_Properties Worker_Properties Delivery_Properties
    Idempotency_Properties Http_Properties Balance_Properties Accounts_Properties Pix_Properties Statement_Properties
begin

text \<open>
  BaaS-Connector puts one API in front of several banking-as-a-service providers: accounts and onboarding, Pix payments,
  charges and refunds, webhooks, a shadow ledger, and the reconciliation of what the providers report with what the
  connector believes.  This development models the core of that program as functions and step relations of HOL and proves
  what makes it correct.  Paths below are under \<open>src/\<close>.

  \<^bold>\<open>How the parts work together.\<close>  A request reaches the API, where the idempotency interceptor claims its key and runs
  its handler or replays its answer.  The transfer service places a hold in the shadow ledger, asks a provider through an
  adapter, whose calls go through the HTTP client, and records the outcome: settled, refused, or unknown.  Provider
  events arrive as webhooks and are applied to transactions, accounts and onboarding cases under the monotonic guard of the
  status machines; a statement poller and a sweeper bring what webhooks missed.  Operations with an unknown outcome climb
  a ladder of enquiries.  A reconciliation run compares the provider's statement, the local transactions and the ledger,
  opens breaks, and resolves some by itself; an operator resolves the others.  What happens is written to an outbox, and a
  dispatcher delivers it to the customers as signed webhooks.

  \<^bold>\<open>Conventions.\<close>  State is passed explicitly: an operation returns its result and the new state.  What throws returns a
  sum, with the error on the left; the state it leaves is returned in either case when the code may have changed it before.
  A JavaScript \<open>Map\<close> is an association list in insertion order (\<open>BaaS_Prelude\<close>), \<open>bigint\<close> is \<open>int\<close>, \<open>number\<close> is \<open>int\<close>, \<open>rat\<close> or
  the type \<open>JsNumber\<close> where rounding or \<open>NaN\<close> matter, instants are milliseconds, strings are lists of code units below 256.
  An \<open>await\<close> at which others can interfere is a border between two definitions or between two steps of a relation.  Clock
  readings, drawn identifiers, random numbers, \<open>localeCompare\<close>, SHA-256, HMAC, time zones, the network and the answers of
  provider adapters are parameters.  A dedicated record collects the draws of one call where there are many.

  \<^bold>\<open>Theories and sources.\<close>

  \<^item> \<open>BaaS_Prelude\<close>, \<open>Js_Strings\<close>, \<open>Js_Date\<close>, \<open>Json\<close>: maps (locale \<open>keyed_map\<close>), grouping, decimal text, \<open>BigInt\<close> of a string, stable
    sorting, the UTC calendar of \<open>Date\<close>, \<open>JSON.stringify\<close>.
  \<^item> \<open>Money\<close>: \<open>packages/taxonomy/src/money\<close>, amounts, rates and rounding; division is correctly rounded and an allocation
    hands out every cent.
  \<^item> \<open>Fsm\<close>: \<open>packages/taxonomy/src/fsm\<close> and the status enumerations; six transition tables and the monotonic guard.  The
    locale \<open>monotonic_fsm\<close> says what a table and its ranks promise and is interpreted for transactions, accounts and cases.
  \<^item> \<open>Br_Identifiers\<close>, \<open>Br_Properties\<close>, \<open>Emv\<close>, \<open>Emv_Crc\<close>, \<open>Emv_Codec\<close>: \<open>packages/taxonomy/src/br\<close>, \<open>pix/identifiers.ts\<close> and \<open>pix/emv.ts\<close>:
    documents, keys, end-to-end identifiers and BR Codes; the CRC equals the bitwise shift register, reading and writing are
    inverse.
  \<^item> \<open>Ledger_Types\<close>, \<open>Ledger_Engine\<close>, \<open>Ledger_Memory\<close>, \<open>Ledger_Invariants\<close>: \<open>packages/ledger/src\<close>.  The engine is written against the locale
    \<open>ledger_store\<close>, interpreted by the memory store.  \<open>Ledger_Reachability\<close> and \<open>Ledger_Properties\<close> hold the invariant of every
    reachable ledger and what follows: balanced books, no guarded account overdrawn, holds that can be resolved once.
  \<^item> \<open>Shadow_Ledger\<close>, \<open>Shadow_Properties\<close>: \<open>apps/api/src/ledger\<close> and \<open>apps/mock-bank/src/ledger\<close>, the two services on that engine.
  \<^item> \<open>Repositories\<close>, \<open>Domain_Repositories\<close>, \<open>Recon_Repositories\<close>: \<open>apps/api/src/persistence/memory\<close> over the record types of \<open>pix.types.ts\<close>,
    \<open>accounts.types.ts\<close>, \<open>outbox.types.ts\<close>, \<open>webhooks.types.ts\<close> and \<open>reconciliation.types.ts\<close>.  A status change refines the guard of
    \<open>Fsm\<close>, and the pages of a statement are exact.
  \<^item> \<open>Canonical_Errors\<close>: \<open>packages/taxonomy/src/errors\<close>, the catalogue of codes and the error envelope.
  \<^item> \<open>Idempotency\<close>, \<open>Json_Canonical\<close>, \<open>Idempotency_Properties\<close>: \<open>apps/api/src/idempotency\<close> and its memory repository.  A fingerprint names a
    request up to the order of members, a settled key never runs its handler again as long as leases hold, and a closed run
    shows what happens when one does not.
  \<^item> \<open>Redaction\<close>, \<open>Http_Client\<close>, \<open>Http_Properties\<close>: \<open>packages/adapter-kit/src\<close>: redaction, circuit breaker, retries, error mapping and the
    request loop.  A write is repeated only after a proof that it was not carried out, and nothing protected is recorded.
  \<^item> \<open>Pix_Transfers\<close>, \<open>Transfer_Properties\<close>: \<open>apps/api/src/pix/pix-transfers.service.ts\<close>; every outcome of a payment and of a refund.
  \<^item> \<open>Webhook_Apply\<close>, \<open>Webhook_Properties\<close>: \<open>apps/api/src/webhooks\<close>; an incoming payment is credited once.
  \<^item> \<open>Operation_Resolver\<close>, \<open>Operation_Properties\<close>: \<open>operation-reconciler.ts\<close> and \<open>apps/worker/src/operations\<close>; enquiries never pay, and an
    answer closes what a transfer left open.
  \<^item> \<open>Business_Calendar\<close>: \<open>packages/reconciliation/src/calendar.ts\<close>; walks over business days end (locale \<open>day_calendar\<close>).
  \<^item> \<open>Recon_Types\<close>, \<open>Recon_Passes\<close>, \<open>Recon_Accounting\<close>, \<open>Recon_Properties\<close>: \<open>packages/reconciliation/src\<close>; each item is accounted for once,
    matches are justified, a clean run explains the balance.
  \<^item> \<open>Worker_Reconciliation\<close>, \<open>Poller\<close>, \<open>Worker_Properties\<close>: \<open>apps/worker/src/reconciliation\<close> and \<open>poller\<close>; a lost credit is recovered once.
  \<^item> \<open>Break_Resolution\<close>, \<open>Break_Properties\<close>: \<open>apps/api/src/reconciliation/break-resolution.service.ts\<close>; adjustments are exact.
  \<^item> \<open>Webhook_Signature\<close>, \<open>Outbox_Delivery\<close>, \<open>Outbox_Dispatcher\<close>, \<open>Delivery_Properties\<close>: \<open>packages/crypto/src/webhook-signature.ts\<close>,
    \<open>apps/api/src/events\<close> and \<open>apps/worker/src/outbox\<close>; the attempts of an event at an endpoint form one chain.
  \<^item> \<open>Balance_Service\<close>, \<open>Balance_Properties\<close>: \<open>apps/api/src/balance\<close> and \<open>apps/api/src/cache\<close>; what a read may answer under every interleaving,
    and a closed run in which a strong read is answered with an older balance.
  \<^item> \<open>Accounts_Service\<close>, \<open>Accounts_Properties\<close>: \<open>accounts.service.ts\<close> and \<open>onboarding.service.ts\<close> under \<open>apps/api/src\<close>; what an
    opening leaves behind when it succeeds and when the provider does not answer.
  \<^item> \<open>Pix_Services\<close>, \<open>Pix_Properties\<close>: \<open>pix-charges.service.ts\<close> and \<open>pix-keys.service.ts\<close> under \<open>apps/api/src/pix\<close>; a key is
    recognised while it is active, a stored charge pays the key it was asked for.
  \<^item> \<open>Statement_Service\<close>, \<open>Statement_Properties\<close>: \<open>statement.service.ts\<close> and \<open>cursor.ts\<close> there; following the cursors reads each
    transaction once.

  \<^bold>\<open>Bounds.\<close>  Loops over data are structural or have a measure.  The bounds of the code are kept: 50 pages of a statement in a
  run and 20 in a poll, 7 rungs of the ladder of enquiries, 11 attempts of a delivery, the attempts of the retry policy (the
  request loop decreases by attempts left and by the one renewal of the token).  The walks of the calendar and the sweep over
  pages of accounts may not end in general: they are partial functions with values in \<open>option\<close>, and that the walks end is proved.

  \<^bold>\<open>What does not hold.\<close>  Some properties are closed runs that show a weakness of the code: a lease that expires under a slow
  handler, an answer 504 taken for a refusal, a refund whose hold nothing resolves, a poll that loses an entry whose application failed.

  \<^bold>\<open>Not modelled.\<close>
  The Prisma repositories and the SQL behind them (the same contracts are modelled on the memory stores); controllers, guards, modules,
  request schemas and the renaming of fields for the wire; sessions, API keys and connections of the console; the adapters of the
  providers, whose wire formats are those of third parties; the simulated bank outside its ledger; queues, schedulers and timers around
  the handlers; encryption envelopes, TOTP and blind indices, which are thin layers over the cryptography of the platform; logs,
  metrics, the SDK, the web console, the conformance suite, scripts and documentation.
\<close>

end
